(* ===== verification/Errors.thy ===== *)
theory Errors
  imports Main
begin

text \<open>
  The error enumerations of src/error.rs and the text their \<open>Display\<close>
  implementations print. \<open>std::io::Error\<close> is represented by its message.
\<close>

datatype server_error =
    MaxClients nat
  | InvalidHwAddr nat
  | InvalidPassword nat
  | InvalidConfiguration string

datatype crypto_error =
    RsaKey string
  | RsaDecrypt
  | PairingHandshake string
  | PairingVerify
  | FairPlay string
  | Aes string
  | Transport string

datatype network_error =
    Io string
  | Mdns string
  | Bind nat

datatype protocol_error =
    InvalidRtsp string
  | Sdp string
  | Plist string
  | Incomplete

datatype codec_error =
    UnsupportedFormat string

datatype shairplay_error =
    Server server_error
  | Crypto crypto_error
  | Network network_error
  | Protocol protocol_error
  | Codec codec_error

fun protocol_error_display :: "protocol_error \<Rightarrow> string" where
  "protocol_error_display (InvalidRtsp m) = ''invalid RTSP request: '' @ m"
| "protocol_error_display (Sdp m) = ''SDP parse error: '' @ m"
| "protocol_error_display (Plist m) = ''plist parse error: '' @ m"
| "protocol_error_display Incomplete = ''incomplete request''"

end
