(* ===== verification/Segments.thy ===== *)
theory Segments
  imports Prelude
begin

text \<open>
  The interface shared by everything that consumes a byte stream piecewise: the
  HTTP request parser, the stream ciphers and the framed transport. An operation
  that acts on its state the same way for every way of cutting its input is a
  \<open>segment_action\<close>; what follows from that is proved here once.
\<close>

locale segment_action =
  fixes act :: "'s \<Rightarrow> 'a list \<Rightarrow> 's"
    and invar :: "'s \<Rightarrow> bool"
  assumes act_Nil: "invar s \<Longrightarrow> act s [] = s"
    and act_append: "invar s \<Longrightarrow> act s (xs @ ys) = act (act s xs) ys"
    and act_invar: "invar s \<Longrightarrow> invar (act s xs)"
begin

lemma foldl_invar: "invar s \<Longrightarrow> invar (foldl act s segs)"
  by (induction segs arbitrary: s) (auto simp: act_invar)

lemma foldl_concat: "invar s \<Longrightarrow> foldl act s segs = act s (concat segs)"
  by (induction segs arbitrary: s) (auto simp: act_Nil act_append act_invar)

lemma resegment:
  "invar s \<Longrightarrow> concat segs = concat segs' \<Longrightarrow> foldl act s segs = foldl act s segs'"
  by (simp add: foldl_concat)

lemma elementwise: "invar s \<Longrightarrow> act s xs = foldl (\<lambda>t x. act t [x]) s xs"
proof -
  assume "invar s"
  then have "foldl act s (map (\<lambda>x. [x]) xs) = act s (concat (map (\<lambda>x. [x]) xs))"
    by (rule foldl_concat)
  then show ?thesis by (simp add: foldl_map concat_map_singleton)
qed

end

text \<open>
  A stream cipher turns bytes into bytes of the same number by adding a keystream
  that depends only on how many bytes went before. \<open>ks s i\<close> is the keystream byte the
  state \<open>s\<close> will use for its \<open>i\<close>-th byte from now.
\<close>

definition xor_with :: "(nat \<Rightarrow> byte) \<Rightarrow> bytes \<Rightarrow> bytes" where
  "xor_with k xs = map2 (\<lambda>i x. x XOR k i) [0..<length xs] xs"

lemma length_xor_with [simp]: "length (xor_with k xs) = length xs"
  by (simp add: xor_with_def)

lemma xor_with_nth [simp]: "i < length xs \<Longrightarrow> xor_with k xs ! i = xs ! i XOR k i"
  by (simp add: xor_with_def)

lemma xor_with_append:
  "xor_with k (xs @ ys) = xor_with k xs @ xor_with (\<lambda>i. k (length xs + i)) ys"
  by (rule nth_equalityI) (auto simp: nth_append)

lemma xor_with_split:
  "n \<le> length xs \<Longrightarrow> xor_with k xs = xor_with k (take n xs) @ xor_with (\<lambda>i. k (n + i)) (drop n xs)"
  using xor_with_append [of k "take n xs" "drop n xs"] by (simp add: min_absorb2)

lemma xor_with_involution [simp]: "xor_with k (xor_with k xs) = xs"
  by (rule nth_equalityI) (auto simp: xor.assoc)

lemma xor_with_Nil [simp]: "xor_with k [] = []"
  by (simp add: xor_with_def)

primrec crypt_all :: "('s \<Rightarrow> bytes \<Rightarrow> bytes \<times> 's) \<Rightarrow> 's \<Rightarrow> bytes list \<Rightarrow> bytes list" where
  "crypt_all crypt s [] = []"
| "crypt_all crypt s (x # xs) = fst (crypt s x) # crypt_all crypt (snd (crypt s x)) xs"

locale stream_cipher =
  fixes crypt :: "'s \<Rightarrow> bytes \<Rightarrow> bytes \<times> 's"
    and ks :: "'s \<Rightarrow> nat \<Rightarrow> byte"
    and invar :: "'s \<Rightarrow> bool"
  assumes crypt_out: "invar s \<Longrightarrow> fst (crypt s xs) = xor_with (ks s) xs"
    and crypt_ks: "invar s \<Longrightarrow> ks (snd (crypt s xs)) = (\<lambda>i. ks s (length xs + i))"
    and crypt_invar: "invar s \<Longrightarrow> invar (snd (crypt s xs))"
begin

text \<open>Decrypting with a context in step with the encrypting one restores the input.\<close>

lemma crypt_involution:
  "invar s \<Longrightarrow> invar t \<Longrightarrow> ks t = ks s \<Longrightarrow> fst (crypt t (fst (crypt s xs))) = xs"
  by (simp add: crypt_out)

lemma crypt_append:
  "invar s \<Longrightarrow> fst (crypt s (xs @ ys)) = fst (crypt s xs) @ fst (crypt (snd (crypt s xs)) ys)"
  by (simp add: crypt_out crypt_invar crypt_ks xor_with_append)

lemma crypt_length: "invar s \<Longrightarrow> length (fst (crypt s xs)) = length xs"
  by (simp add: crypt_out)

text \<open>Any number of calls, on pieces of any size, gives the one-shot output.\<close>

lemma crypt_all_concat:
  "invar s \<Longrightarrow> concat (crypt_all crypt s segs) = fst (crypt s (concat segs))"
proof (induction segs arbitrary: s)
  case Nil
  then show ?case by (simp add: crypt_out)
next
  case (Cons x xs)
  then show ?case by (simp add: crypt_append crypt_invar)
qed

end

end
