(* ===== verification/Tlv.thy ===== *)
theory Tlv
  imports Prelude
begin

text \<open>
  The type-length-value codec of HomeKit pairing messages (src/crypto/tlv.rs):
  the tag enumeration, the ordered entry collection with its getters, and the
  chunking encoder and coalescing decoder. The lemmas show that chunking into
  255-byte pieces is invisible to the decoder, which collections survive a
  round trip, and that every decoded collection does.
\<close>

section \<open>Model\<close>

datatype tlv_type =
    Method | Identifier | Salt | PublicKey | Proof | EncryptedData | State | Error
  | RetryDelay | Certificate | Signature | Permissions | FragmentData | FragmentLast
  | Flags | Separator

fun tlv_code :: "tlv_type \<Rightarrow> byte" where
  "tlv_code Method = 0"
| "tlv_code Identifier = 1"
| "tlv_code Salt = 2"
| "tlv_code PublicKey = 3"
| "tlv_code Proof = 4"
| "tlv_code EncryptedData = 5"
| "tlv_code State = 6"
| "tlv_code Error = 7"
| "tlv_code RetryDelay = 8"
| "tlv_code Certificate = 9"
| "tlv_code Signature = 10"
| "tlv_code Permissions = 11"
| "tlv_code FragmentData = 13"
| "tlv_code FragmentLast = 14"
| "tlv_code Flags = 19"
| "tlv_code Separator = 0xff"

record tlv_values =
  entries :: "(byte \<times> bytes) list"

datatype tlv_error = Truncated

definition tlv_new :: tlv_values where
  "tlv_new = \<lparr>entries = []\<rparr>"

definition tlv_add :: "tlv_values \<Rightarrow> byte \<Rightarrow> bytes \<Rightarrow> tlv_values" where
  "tlv_add v tag val = v\<lparr>entries := entries v @ [(tag, val)]\<rparr>"

definition tlv_get :: "tlv_values \<Rightarrow> byte \<Rightarrow> bytes option" where
  "tlv_get v tag = map_option snd (find (\<lambda>e. fst e = tag) (entries v))"

definition tlv_get_last :: "tlv_values \<Rightarrow> byte \<Rightarrow> bytes option" where
  "tlv_get_last v tag = map_option snd (find (\<lambda>e. fst e = tag) (rev (entries v)))"

definition tlv_get_all :: "tlv_values \<Rightarrow> byte \<Rightarrow> bytes list" where
  "tlv_get_all v tag = map snd (filter (\<lambda>e. fst e = tag) (entries v))"

definition tlv_get_type :: "tlv_values \<Rightarrow> tlv_type \<Rightarrow> bytes option" where
  "tlv_get_type v tag = tlv_get v (tlv_code tag)"

text \<open>One wire item, and the items of one entry: an empty value is one empty item.\<close>

definition tlv_item :: "byte \<Rightarrow> bytes \<Rightarrow> bytes" where
  "tlv_item tag c = tag # of_nat (length c) # c"

fun encode_entry :: "byte \<times> bytes \<Rightarrow> bytes" where
  "encode_entry (tag, value) =
     (if value = [] then [tag, 0] else concat (map (tlv_item tag) (chunks 255 value)))"

definition tlv_encode :: "tlv_values \<Rightarrow> bytes" where
  "tlv_encode v = concat (map encode_entry (entries v))"

text \<open>The body of the decoder's loop after the bounds checks: continue the last
  entry or start a new one.\<close>

definition push_chunk :: "tlv_values \<Rightarrow> byte \<Rightarrow> bytes \<Rightarrow> tlv_values" where
  "push_chunk v tag c =
     (let es = entries v in
      if es \<noteq> [] \<and> fst (last es) = tag \<and> length (snd (last es)) mod 255 = 0
         \<and> snd (last es) \<noteq> []
      then v\<lparr>entries := butlast es @ [(tag, snd (last es) @ c)]\<rparr>
      else v\<lparr>entries := es @ [(tag, c)]\<rparr>)"

text \<open>The loop of \<open>decode\<close>, over the bytes from index \<open>i\<close> on.\<close>

function decode_loop :: "tlv_values \<Rightarrow> bytes \<Rightarrow> tlv_error + tlv_values" where
  "decode_loop v [] = Inr v"
| "decode_loop v [tag] = Inl Truncated"
| "decode_loop v (tag # l # rest) =
     (let len = unat l in
      if length rest < len then Inl Truncated
      else decode_loop (push_chunk v tag (take len rest)) (drop len rest))"
  by pat_completeness auto
termination
  by (relation "measure (\<lambda>(v, d). length d)") auto

definition tlv_decode :: "bytes \<Rightarrow> tlv_error + tlv_values" where
  "tlv_decode data = decode_loop tlv_new data"

section \<open>Getters\<close>

lemma find_eq_hd_filter:
  "find P xs = (case filter P xs of [] \<Rightarrow> None | x # _ \<Rightarrow> Some x)"
  by (induction xs) auto

lemma find_rev_eq_last_filter:
  "find P (rev xs) = (if filter P xs = [] then None else Some (last (filter P xs)))"
proof (induction xs rule: rev_induct)
  case (snoc x xs)
  then show ?case by simp
qed simp

lemma tlv_get_conv_all:
  "tlv_get v t = (case tlv_get_all v t of [] \<Rightarrow> None | x # _ \<Rightarrow> Some x)"
  by (auto simp: tlv_get_def tlv_get_all_def find_eq_hd_filter split: list.splits)

lemma tlv_get_last_conv_all:
  "tlv_get_last v t = (if tlv_get_all v t = [] then None else Some (last (tlv_get_all v t)))"
  by (auto simp: tlv_get_last_def tlv_get_all_def find_rev_eq_last_filter last_map)

lemma tlv_get_all_add [simp]:
  "tlv_get_all (tlv_add v t x) s = tlv_get_all v s @ (if s = t then [x] else [])"
  by (simp add: tlv_get_all_def tlv_add_def)

section \<open>Chunks and coalescing\<close>

text \<open>The abstract reading of a decoder run: entries absorbed one after another.\<close>

definition coalesce :: "(byte \<times> bytes) list \<Rightarrow> tlv_values" where
  "coalesce es = foldl (\<lambda>v (t, c). push_chunk v t c) tlv_new es"

lemma push_chunk_assoc:
  "a \<noteq> [] \<Longrightarrow> length a mod 255 = 0 \<Longrightarrow> push_chunk (push_chunk v t a) t b = push_chunk v t (a @ b)"
  by (auto simp: push_chunk_def Let_def mod_add_eq [symmetric])

lemma foldl_push_chunks:
  "v \<noteq> [] \<Longrightarrow> foldl (\<lambda>a c. push_chunk a t c) w (chunks 255 v) = push_chunk w t v"
proof (induction "255::nat" v arbitrary: w rule: chunks.induct)
  case (1 xs)
  show ?case
  proof (cases "length xs \<le> 255")
    case True
    with "1.prems" show ?thesis by (simp add: chunks_short)
  next
    case False
    then have "drop 255 xs \<noteq> []" by simp
    then have "foldl (\<lambda>a c. push_chunk a t c) w (chunks 255 xs)
        = push_chunk (push_chunk w t (take 255 xs)) t (drop 255 xs)"
      using 1 False by (simp add: chunks_step)
    also have "\<dots> = push_chunk w t (take 255 xs @ drop 255 xs)"
      using False by (intro push_chunk_assoc) auto
    finally show ?thesis by simp
  qed
qed

lemma decode_loop_item:
  "length c \<le> 255 \<Longrightarrow> decode_loop v (tlv_item t c @ rest) = decode_loop (push_chunk v t c) rest"
  by (simp add: tlv_item_def unat_of_nat)

lemma decode_loop_items:
  "\<forall>c \<in> set cs. length c \<le> 255 \<Longrightarrow>
   decode_loop v (concat (map (tlv_item t) cs) @ rest)
     = decode_loop (foldl (\<lambda>a c. push_chunk a t c) v cs) rest"
  by (induction cs arbitrary: v) (auto simp: decode_loop_item)

lemma decode_loop_entry:
  "decode_loop v (encode_entry (t, c) @ rest) = decode_loop (push_chunk v t c) rest"
proof (cases "c = []")
  case True
  then show ?thesis using decode_loop_item [of "[]" v t rest] by (simp add: tlv_item_def)
next
  case False
  then have "decode_loop v (encode_entry (t, c) @ rest)
      = decode_loop (foldl (\<lambda>a d. push_chunk a t d) v (chunks 255 c)) rest"
    by (simp add: decode_loop_items chunks_bound)
  with foldl_push_chunks [OF False, of t v] show ?thesis by simp
qed

lemma decode_loop_entries:
  "decode_loop v (concat (map encode_entry es))
     = Inr (foldl (\<lambda>a (t, c). push_chunk a t c) v es)"
proof (induction es arbitrary: v)
  case (Cons e es)
  obtain t c where "e = (t, c)" by (cases e)
  with Cons show ?case by (simp only: concat.simps list.map decode_loop_entry) simp
qed simp

lemma decode_encode_coalesce: "tlv_decode (tlv_encode v) = Inr (coalesce (entries v))"
  by (simp add: tlv_decode_def tlv_encode_def coalesce_def decode_loop_entries)

section \<open>Which collections survive\<close>

text \<open>\<open>absorbs e t\<close>: an item tagged \<open>t\<close> right after entry \<open>e\<close> would be joined to it.\<close>

definition absorbs :: "byte \<times> bytes \<Rightarrow> byte \<Rightarrow> bool" where
  "absorbs e t \<longleftrightarrow> fst e = t \<and> snd e \<noteq> [] \<and> length (snd e) mod 255 = 0"

fun separated :: "(byte \<times> bytes) list \<Rightarrow> bool" where
  "separated (e # f # es) \<longleftrightarrow> \<not> absorbs e (fst f) \<and> separated (f # es)"
| "separated _ \<longleftrightarrow> True"

lemma separated_snoc:
  "separated (xs @ [e]) \<longleftrightarrow> separated xs \<and> (xs = [] \<or> \<not> absorbs (last xs) (fst e))"
  by (induction xs rule: separated.induct) auto

lemma push_chunk_cases:
  "entries (push_chunk v t c) =
     (if entries v \<noteq> [] \<and> absorbs (last (entries v)) t
      then butlast (entries v) @ [(t, snd (last (entries v)) @ c)]
      else entries v @ [(t, c)])"
  by (auto simp: push_chunk_def absorbs_def Let_def)

lemma push_chunk_separated: "separated (entries v) \<Longrightarrow> separated (entries (push_chunk v t c))"
proof -
  assume s: "separated (entries v)"
  show ?thesis
  proof (cases "entries v \<noteq> [] \<and> absorbs (last (entries v)) t")
    case True
    then obtain xs e where "entries v = xs @ [e]" by (cases "entries v" rule: rev_cases) auto
    with s True show ?thesis by (auto simp: push_chunk_cases separated_snoc absorbs_def)
  next
    case False
    with s show ?thesis by (auto simp: push_chunk_cases separated_snoc)
  qed
qed

lemma decode_loop_separated:
  "separated (entries v) \<Longrightarrow> decode_loop v d = Inr w \<Longrightarrow> separated (entries w)"
  by (induction v d rule: decode_loop.induct)
     (auto simp: Let_def push_chunk_separated split: if_splits)

lemma length_foldl_push:
  "length (entries (foldl (\<lambda>a (t, c). push_chunk a t c) v es)) \<le> length (entries v) + length es"
proof (induction es arbitrary: v)
  case (Cons e es)
  obtain t c where e: "e = (t, c)" by (cases e)
  have "length (entries (push_chunk v t c)) \<le> Suc (length (entries v))"
    by (cases "entries v") (auto simp: push_chunk_cases)
  with Cons [of "push_chunk v t c"] e show ?case by simp
qed simp

lemma foldl_push_iff:
  "entries (foldl (\<lambda>a (t, c). push_chunk a t c) v es) = entries v @ es
     \<longleftrightarrow> (case es of [] \<Rightarrow> True | e # _ \<Rightarrow>
           (entries v = [] \<or> \<not> absorbs (last (entries v)) (fst e)) \<and> separated es)"
proof (induction es arbitrary: v)
  case (Cons e es)
  obtain t c where e: "e = (t, c)" by (cases e)
  let ?w = "push_chunk v t c"
  show ?case
  proof (cases "entries v \<noteq> [] \<and> absorbs (last (entries v)) t")
    case True
    then have "length (entries ?w) = length (entries v)"
      by (cases "entries v" rule: rev_cases) (auto simp: push_chunk_cases)
    with length_foldl_push [of ?w es]
    have "entries (foldl (\<lambda>a (t, c). push_chunk a t c) ?w es) \<noteq> entries v @ e # es"
      by (metis add_le_cancel_left length_append length_Cons not_less_eq_eq order_refl)
    with True e show ?thesis by auto
  next
    case False
    then have w: "entries ?w = entries v @ [e]" by (auto simp: push_chunk_cases e)
    with Cons [of ?w] e False show ?thesis by (auto split: list.splits)
  qed
qed simp

lemma coalesce_id_iff: "coalesce (entries v) = v \<longleftrightarrow> separated (entries v)"
proof -
  have "coalesce (entries v) = v \<longleftrightarrow> entries (coalesce (entries v)) = entries v"
    by (cases "coalesce (entries v)"; cases v) auto
  also have "\<dots> \<longleftrightarrow> separated (entries v)"
    using foldl_push_iff [of tlv_new "entries v"]
    by (auto simp: coalesce_def tlv_new_def split: list.splits)
  finally show ?thesis .
qed

text \<open>
  C38: encoding a collection and decoding the bytes gives the same collection back
  exactly when no entry whose value has a non-zero multiple of 255 bytes is
  followed by an entry with the same tag.
\<close>

theorem tlv_roundtrip_iff:
  "tlv_decode (tlv_encode v) = Inr v \<longleftrightarrow> separated (entries v)"
  by (simp add: decode_encode_coalesce coalesce_id_iff)

text \<open>
  Whatever the decoder accepts, re-encoding it and decoding again yields the
  same entries: decoded collections are canonical.
\<close>

theorem tlv_decode_canonical:
  assumes "tlv_decode d = Inr v"
  shows "tlv_decode (tlv_encode v) = Inr v"
proof -
  from assms have "separated (entries v)"
    using decode_loop_separated [of tlv_new d v] by (simp add: tlv_decode_def tlv_new_def)
  then show ?thesis by (simp add: decode_encode_coalesce coalesce_id_iff)
qed

theorem tlv_decode_canonical_witness:
  "tlv_decode [6, 1, 1, 0, 1, 0] = Inr \<lparr>entries = [(6, [1]), (0, [0])]\<rparr>
   \<and> tlv_decode (tlv_encode \<lparr>entries = [(6, [1]), (0, [0])]\<rparr>)
       = Inr \<lparr>entries = [(6, [1]), (0, [0])]\<rparr>"
proof -
  have h: "tlv_decode [6, 1, 1, 0, 1, 0] = Inr \<lparr>entries = [(6, [1]), (0, [0])]\<rparr>"
    by (simp add: tlv_decode_def tlv_new_def push_chunk_def)
  show ?thesis using h tlv_decode_canonical [OF h] by simp
qed

section \<open>Truncation\<close>

text \<open>The wire format: complete items, one after another.\<close>

inductive well_framed :: "bytes \<Rightarrow> bool" where
  wf_nil: "well_framed []"
| wf_item: "length c = unat l \<Longrightarrow> well_framed rest \<Longrightarrow> well_framed (tag # l # c @ rest)"

inductive_simps well_framed_single: "well_framed [tag]"
inductive_cases well_framed_itemE: "well_framed (tag # l # rest)"

lemma decode_loop_framed: "(\<exists>w. decode_loop v d = Inr w) \<longleftrightarrow> well_framed d"
proof (induction v d rule: decode_loop.induct)
  case (3 v tag l rest)
  show ?case
  proof (cases "length rest < unat l")
    case True
    then have "\<not> well_framed (tag # l # rest)"
      by (auto elim!: well_framed_itemE)
    with True show ?thesis by simp
  next
    case False
    have "well_framed (tag # l # rest) \<longleftrightarrow> well_framed (drop (unat l) rest)"
    proof
      assume "well_framed (drop (unat l) rest)"
      then have "well_framed (tag # l # take (unat l) rest @ drop (unat l) rest)"
        using False by (intro wf_item) auto
      then show "well_framed (tag # l # rest)" by simp
    qed (auto elim!: well_framed_itemE)
    with 3 False show ?thesis by (simp add: Let_def)
  qed
qed (auto simp: wf_nil well_framed_single)

text \<open>
  The decoder succeeds on exactly the byte strings that are a sequence of
  complete items; every other input is reported as truncated.
\<close>

theorem tlv_decode_total:
  "(if well_framed d then \<exists>v. tlv_decode d = Inr v else tlv_decode d = Inl Truncated)"
proof -
  have "tlv_decode d = Inl Truncated" if "\<nexists>v. tlv_decode d = Inr v"
    using that by (cases "tlv_decode d") (auto intro: tlv_error.exhaust)
  then show ?thesis
    using decode_loop_framed [of tlv_new d] by (auto simp: tlv_decode_def)
qed

text \<open>
  An empty continuation item keeps an entry open. After 255 bytes and an empty
  item of the same tag, a third item is still joined to the entry, although the item
  before it was not 255 bytes long.
\<close>

theorem tlv_empty_chunk_keeps_open:
  "length c = 255 \<Longrightarrow>
   tlv_decode (tlv_item t c @ tlv_item t [] @ tlv_item t [x]) = Inr \<lparr>entries = [(t, c @ [x])]\<rparr>"
proof -
  assume c: "length c = 255"
  then have "c \<noteq> []" by auto
  have "decode_loop tlv_new (tlv_item t c @ tlv_item t [] @ tlv_item t [x] @ [])
      = Inr (push_chunk (push_chunk (push_chunk tlv_new t c) t []) t [x])"
    using c decode_loop_item [of "[x]" _ t "[]"] by (simp add: decode_loop_item)
  then show ?thesis
    using c \<open>c \<noteq> []\<close> by (simp add: tlv_decode_def push_chunk_def tlv_new_def)
qed

theorem tlv_empty_chunk_keeps_open_witness:
  "length (replicate 255 (0::byte)) = 255
   \<and> tlv_decode (tlv_item 3 (replicate 255 0) @ tlv_item 3 [] @ tlv_item 3 [7])
       = Inr \<lparr>entries = [(3, replicate 255 0 @ [7])]\<rparr>"
  using tlv_empty_chunk_keeps_open [of "replicate 255 0" 3 7] by simp

end
