(* ===== verification/Ctr_Cipher.thy ===== *)
theory Ctr_Cipher
  imports Segments
begin

text \<open>
  The two streaming counter-mode ciphers: \<open>AesCtr\<close> (src/crypto/aes.rs), which
  implements counter mode over a block cipher, and \<open>VideoCipher\<close>
  (src/crypto/video_cipher.rs), which keeps left-over keystream between packets on
  top of a counter-mode cipher. Both are interpretations of \<open>stream_cipher\<close>: however
  a stream is cut into calls, the bytes produced are those of one call. The AES block
  function (crate \<open>aes\<close>) and \<open>apply_keystream\<close> (crate \<open>ctr\<close>) are parameters.
\<close>

section \<open>AesCtr\<close>

record aes_ctr =
  cipher :: "bytes \<Rightarrow> bytes"
  counter :: bytes
  state :: bytes
  available :: nat

definition BLOCK_SIZE :: nat where
  "BLOCK_SIZE = 16"

definition aes_new :: "(bytes \<Rightarrow> bytes \<Rightarrow> bytes) \<Rightarrow> bytes \<Rightarrow> bytes \<Rightarrow> aes_ctr" where
  "aes_new aes128 key nonce =
     \<lparr>cipher = aes128 key, counter = nonce, state = replicate BLOCK_SIZE 0, available = 0\<rparr>"

text \<open>One iteration of the carry loop of \<open>inc_counter\<close>, then the loop over the indices
  from the last to the first.\<close>

definition inc_at :: "u16 \<times> bytes \<Rightarrow> nat \<Rightarrow> u16 \<times> bytes" where
  "inc_at = (\<lambda>(carry, c) i.
     let carry' = carry + ucast (c ! i) in (drop_bit 8 carry', c[i := ucast carry']))"

definition inc_counter :: "bytes \<Rightarrow> bytes" where
  "inc_counter c = snd (foldl inc_at (1, c) (rev [0..<BLOCK_SIZE]))"

text \<open>The refill at the head of the loop in \<open>encrypt\<close>.\<close>

definition ctr_refill :: "aes_ctr \<Rightarrow> aes_ctr" where
  "ctr_refill c =
     (if available c = 0
      then c\<lparr>state := cipher c (counter c), available := BLOCK_SIZE,
             counter := inc_counter (counter c)\<rparr>
      else c)"

lemma available_refill: "0 < available (ctr_refill c)"
  by (simp add: ctr_refill_def BLOCK_SIZE_def)

function ctr_encrypt :: "aes_ctr \<Rightarrow> bytes \<Rightarrow> bytes \<times> aes_ctr" where
  "ctr_encrypt c data =
     (if data = [] then ([], c)
      else
        let c1 = ctr_refill c;
            offset = BLOCK_SIZE - available c1;
            n = min (available c1) (length data);
            out = map2 (XOR) (take n data) (take n (drop offset (state c1)));
            (rest, c2) = ctr_encrypt (c1\<lparr>available := available c1 - n\<rparr>) (drop n data)
        in (out @ rest, c2))"
  by pat_completeness auto
termination
proof (relation "measure (\<lambda>(c, data). length data)", goal_cases)
  case (2 c data)
  then show ?case using available_refill [of c] by (cases data) auto
qed auto

declare ctr_encrypt.simps [simp del]

subsection \<open>The counter is a 128-bit big-endian integer\<close>

primrec inc_le :: "u16 \<Rightarrow> bytes \<Rightarrow> bytes" where
  "inc_le carry [] = []"
| "inc_le carry (b # bs) =
     (let s = carry + ucast b in ucast s # inc_le (drop_bit 8 s) bs)"

lemma length_inc_le [simp]: "length (inc_le k bs) = length bs"
  by (induction bs arbitrary: k) (auto simp: Let_def)

lemma foldl_inc_at:
  "n \<le> length c \<Longrightarrow>
   snd (foldl inc_at (k, c) (rev [0..<n])) = rev (inc_le k (rev (take n c))) @ drop n c"
proof (induction n arbitrary: k c)
  case (Suc n)
  let ?s = "k + ucast (c ! n)"
  have t: "take (Suc n) c = take n c @ [c ! n]" using Suc.prems by (simp add: take_Suc_conv_app_nth)
  have "snd (foldl inc_at (k, c) (rev [0..<Suc n]))
      = snd (foldl inc_at (drop_bit 8 ?s, c[n := ucast ?s]) (rev [0..<n]))"
    by (simp add: inc_at_def Let_def)
  also have "\<dots> = rev (inc_le (drop_bit 8 ?s) (rev (take n c))) @ drop n (c[n := ucast ?s])"
    using Suc by simp
  also have "drop n (c[n := ucast ?s]) = ucast ?s # drop (Suc n) c"
    using Suc.prems by (simp add: Cons_nth_drop_Suc [symmetric] drop_update_swap)
  finally show ?case by (simp add: t Let_def)
qed simp

lemma nat_of_inc_le:
  "unat k \<le> 1 \<Longrightarrow> nat_of_le (inc_le k bs) = (nat_of_le bs + unat k) mod 256 ^ length bs"
proof (induction bs arbitrary: k)
  case (Cons b bs)
  let ?s = "k + ucast b"
  have b: "unat b < 256" by (rule unat_byte)
  have s: "unat ?s = unat k + unat b"
    using Cons.prems b by (simp add: unat_word_ariths unat_ucast_up)
  have d: "unat (drop_bit 8 ?s) = (unat k + unat b) div 256"
    by (simp only: unat_drop_bit_eq s) (simp add: drop_bit_eq_div)
  have m: "unat (ucast ?s :: byte) = (unat k + unat b) mod 256"
    by (simp add: unsigned_ucast_eq s take_bit_eq_mod)
  have "unat (drop_bit 8 ?s) \<le> 1" using d Cons.prems b by linarith
  then have "nat_of_le (inc_le k (b # bs))
      = (unat k + unat b) mod 256
        + 256 * ((nat_of_le bs + (unat k + unat b) div 256) mod 256 ^ length bs)"
    using Cons.IH by (simp add: Let_def m d)
  also have "\<dots> = (nat_of_le (b # bs) + unat k) mod 256 ^ length (b # bs)"
  proof -
    have "nat_of_le (b # bs) + unat k = (unat k + unat b) + 256 * nat_of_le bs" by simp
    moreover have "((unat k + unat b) + 256 * nat_of_le bs) div 256
        = nat_of_le bs + (unat k + unat b) div 256" by simp
    moreover have "((unat k + unat b) + 256 * nat_of_le bs) mod 256 = (unat k + unat b) mod 256"
      by simp
    ultimately show ?thesis by (simp only: length_Cons power_Suc mod_mult2_eq)
  qed
  finally show ?case .
qed simp

lemma length_inc_counter [simp]: "length c = 16 \<Longrightarrow> length (inc_counter c) = 16"
  using foldl_inc_at [of 16 c 1] by (simp add: inc_counter_def BLOCK_SIZE_def)

text \<open>
  \<open>inc_counter\<close> adds one to the 16-byte big-endian counter, modulo \<open>2^128\<close>.
\<close>

theorem inc_counter_value:
  assumes "length c = 16"
  shows "(from_be_bytes (inc_counter c) :: 128 word) = from_be_bytes c + 1"
proof -
  have "inc_counter c = rev (inc_le 1 (rev c))"
    using foldl_inc_at [of 16 c 1] assms by (simp add: inc_counter_def BLOCK_SIZE_def)
  then have "nat_of_le (rev (inc_counter c)) = (nat_of_le (rev c) + 1) mod 256 ^ 16"
    using nat_of_inc_le [of 1 "rev c"] assms by simp
  moreover have "(256::nat) ^ 16 = 2 ^ LENGTH(128)" by simp
  ultimately have "nat_of_le (rev (inc_counter c)) = (nat_of_le (rev c) + 1) mod 2 ^ LENGTH(128)"
    by metis
  then show ?thesis
    by (simp only: from_be_bytes_def word_of_nat_mod of_nat_add of_nat_1)
qed

theorem inc_counter_value_witness:
  "length (replicate 15 0 @ [255 :: byte]) = 16
   \<and> (from_be_bytes (inc_counter (replicate 15 0 @ [255])) :: 128 word)
       = from_be_bytes (replicate 15 0 @ [255 :: byte]) + 1"
proof -
  have h: "length (replicate 15 0 @ [255 :: byte]) = 16" by simp
  show ?thesis using h inc_counter_value [OF h] by blast
qed

subsection \<open>Keystream and refinement\<close>

definition ctr_ks :: "aes_ctr \<Rightarrow> nat \<Rightarrow> byte" where
  "ctr_ks c i =
     (if i < available c then state c ! (BLOCK_SIZE - available c + i)
      else let j = i - available c
           in cipher c ((inc_counter ^^ (j div 16)) (counter c)) ! (j mod 16))"

definition ctr_inv :: "aes_ctr \<Rightarrow> bool" where
  "ctr_inv c \<longleftrightarrow> available c \<le> 16 \<and> length (state c) = 16 \<and> length (counter c) = 16
     \<and> (\<forall>b. length b = 16 \<longrightarrow> length (cipher c b) = 16)"

lemma ctr_inv_refill: "ctr_inv c \<Longrightarrow> ctr_inv (ctr_refill c)"
  by (auto simp: ctr_inv_def ctr_refill_def BLOCK_SIZE_def)

lemma ctr_ks_refill: "ctr_ks (ctr_refill c) = ctr_ks c"
proof (cases "available c = 0")
  case True
  show ?thesis
  proof
    fix i
    show "ctr_ks (ctr_refill c) i = ctr_ks c i"
    proof (cases "i < 16")
      case False
      then have "i div 16 = Suc ((i - 16) div 16)" and "(i - 16) mod 16 = i mod 16"
        by (simp_all add: le_div_geq le_mod_geq [symmetric])
      with False True show ?thesis
        by (simp add: ctr_ks_def ctr_refill_def BLOCK_SIZE_def funpow_swap1)
    qed (use True in \<open>simp add: ctr_ks_def ctr_refill_def BLOCK_SIZE_def\<close>)
  qed
qed (simp add: ctr_refill_def)

lemma ctr_ks_advance:
  "n \<le> available c \<Longrightarrow> available c \<le> 16 \<Longrightarrow>
   ctr_ks (c\<lparr>available := available c - n\<rparr>) = (\<lambda>i. ctr_ks c (n + i))"
  by (rule ext) (auto simp: ctr_ks_def BLOCK_SIZE_def Let_def add.commute intro!: arg_cong2 [of _ _ _ _ "(!)"])

lemma ctr_inv_advance: "ctr_inv c \<Longrightarrow> ctr_inv (c\<lparr>available := available c - n\<rparr>)"
  by (auto simp: ctr_inv_def)

lemma ctr_block_out:
  "ctr_inv c \<Longrightarrow> n \<le> available c \<Longrightarrow> n \<le> length xs \<Longrightarrow>
   map2 (XOR) (take n xs) (take n (drop (BLOCK_SIZE - available c) (state c)))
     = xor_with (ctr_ks c) (take n xs)"
  by (rule nth_equalityI) (auto simp: ctr_ks_def BLOCK_SIZE_def ctr_inv_def)

lemma ctr_encrypt_correct:
  "ctr_inv c \<Longrightarrow>
   fst (ctr_encrypt c xs) = xor_with (ctr_ks c) xs
   \<and> ctr_ks (snd (ctr_encrypt c xs)) = (\<lambda>i. ctr_ks c (length xs + i))
   \<and> ctr_inv (snd (ctr_encrypt c xs))"
proof (induction c xs rule: ctr_encrypt.induct)
  case (1 c xs)
  show ?case
  proof (cases "xs = []")
    case True
    with "1.prems" show ?thesis by (simp add: ctr_encrypt.simps)
  next
    case False
    let ?c1 = "ctr_refill c"
    let ?n = "min (available ?c1) (length xs)"
    let ?c2 = "?c1\<lparr>available := available ?c1 - ?n\<rparr>"
    have inv1: "ctr_inv ?c1" using "1.prems" by (rule ctr_inv_refill)
    then have inv2: "ctr_inv ?c2" by (rule ctr_inv_advance)
    have ks2: "ctr_ks ?c2 = (\<lambda>i. ctr_ks c (?n + i))"
      using inv1 ctr_ks_advance [of ?n ?c1] by (simp add: ctr_ks_refill ctr_inv_def)
    note IH = "1.IH" [OF False refl refl refl refl inv2]
    have eq: "ctr_encrypt c xs
        = (xor_with (ctr_ks c) (take ?n xs) @ fst (ctr_encrypt ?c2 (drop ?n xs)),
           snd (ctr_encrypt ?c2 (drop ?n xs)))"
      using False ctr_block_out [OF inv1, of ?n xs]
      by (subst ctr_encrypt.simps) (simp add: Let_def case_prod_beta ctr_ks_refill)
    have "xor_with (ctr_ks c) xs
        = xor_with (ctr_ks c) (take ?n xs) @ xor_with (\<lambda>i. ctr_ks c (?n + i)) (drop ?n xs)"
      by (rule xor_with_split) simp
    moreover have "?n + (length xs - ?n + i) = length xs + i" for i by simp
    ultimately show ?thesis using IH by (simp add: eq ks2)
  qed
qed

interpretation aesctr: stream_cipher ctr_encrypt ctr_ks ctr_inv
  by unfold_locales (simp_all add: ctr_encrypt_correct)

text \<open>
  Encrypting a stream with one \<open>AesCtr\<close> context in any number of calls, on pieces of
  any length, produces the bytes of a single call on the whole stream.
\<close>

theorem aes_ctr_streaming:
  assumes "ctr_inv c"
  shows "concat (crypt_all ctr_encrypt c segs) = fst (ctr_encrypt c (concat segs))"
  using assms by (rule aesctr.crypt_all_concat)

theorem aes_ctr_streaming_witness:
  "ctr_inv (aes_new (\<lambda>k b. map2 (XOR) k b) (replicate 16 7) (replicate 16 1))
   \<and> concat (crypt_all ctr_encrypt
         (aes_new (\<lambda>k b. map2 (XOR) k b) (replicate 16 7) (replicate 16 1)) [[1, 2], [3]])
     = fst (ctr_encrypt
         (aes_new (\<lambda>k b. map2 (XOR) k b) (replicate 16 7) (replicate 16 1)) (concat [[1, 2], [3]]))"
proof -
  have h: "ctr_inv (aes_new (\<lambda>k b. map2 (XOR) k b) (replicate 16 7) (replicate 16 1))"
    by (simp add: ctr_inv_def aes_new_def BLOCK_SIZE_def)
  show ?thesis using h aes_ctr_streaming [OF h] by blast
qed

section \<open>VideoCipher\<close>

text \<open>\<open>'c\<close> is the state of the counter-mode cipher of crate \<open>ctr\<close>; its
  \<open>apply_keystream\<close> is the parameter \<open>ap\<close> of the operations.\<close>

record 'c video_cipher =
  vcipher :: 'c
  leftover :: bytes
  leftover_count :: nat

definition video_new :: "(bytes \<Rightarrow> bytes \<Rightarrow> 'c) \<Rightarrow> bytes \<Rightarrow> bytes \<Rightarrow> 'c video_cipher" where
  "video_new ctr128be key iv =
     \<lparr>vcipher = ctr128be key iv, leftover = replicate 16 0, leftover_count = 0\<rparr>"

text \<open>The second half of \<open>decrypt\<close>: full blocks, then the trailing partial block, whose
  unused keystream is kept.\<close>

definition video_blocks ::
  "('c \<Rightarrow> bytes \<Rightarrow> bytes \<times> 'c) \<Rightarrow> 'c video_cipher \<Rightarrow> bytes \<Rightarrow> bytes \<times> 'c video_cipher" where
  "video_blocks ap v data =
     (let remaining = length data;
          full_len = (remaining div 16) * 16;
          (blocks, c1) = ap (vcipher v) (take full_len data);
          rest_len = remaining mod 16
      in if rest_len > 0 then
           let lo = copy_at 0 (drop full_len data) (replicate 16 0);
               (lo', c2) = ap c1 lo
           in (blocks @ take rest_len lo',
               v\<lparr>vcipher := c2, leftover := lo', leftover_count := 16 - rest_len\<rparr>)
         else (blocks, v\<lparr>vcipher := c1, leftover_count := 0\<rparr>))"

definition video_decrypt ::
  "('c \<Rightarrow> bytes \<Rightarrow> bytes \<times> 'c) \<Rightarrow> 'c video_cipher \<Rightarrow> bytes \<Rightarrow> bytes \<times> 'c video_cipher" where
  "video_decrypt ap v payload =
     (let n = leftover_count v in
      if n > 0 then
        let apply = min n (length payload);
            start = 16 - n;
            head = map2 (XOR) (take apply payload) (slice start (start + apply) (leftover v))
        in if apply < n then (head @ drop apply payload, v\<lparr>leftover_count := n - apply\<rparr>)
           else let (tail, v') = video_blocks ap (v\<lparr>leftover_count := 0\<rparr>) (drop apply payload)
                in (head @ tail, v')
      else video_blocks ap v payload)"

definition video_ks :: "('c \<Rightarrow> nat \<Rightarrow> byte) \<Rightarrow> 'c video_cipher \<Rightarrow> nat \<Rightarrow> byte" where
  "video_ks k v i =
     (if i < leftover_count v then leftover v ! (16 - leftover_count v + i)
      else k (vcipher v) (i - leftover_count v))"

definition video_inv :: "('c \<Rightarrow> bool) \<Rightarrow> 'c video_cipher \<Rightarrow> bool" where
  "video_inv ok v \<longleftrightarrow> ok (vcipher v) \<and> leftover_count v \<le> 15 \<and> length (leftover v) = 16"

text \<open>The crate's contract is the interface itself, so the left-over handling is
  proved once over any counter-mode cipher that keeps it.\<close>

context stream_cipher
begin

lemma crypt_ks_at: "invar s \<Longrightarrow> ks (snd (crypt s xs)) i = ks s (length xs + i)"
  by (simp add: crypt_ks)

lemma video_blocks_out:
  assumes "invar (vcipher v)"
  shows "fst (video_blocks crypt v xs) = xor_with (ks (vcipher v)) xs"
proof -
  let ?f = "length xs div 16 * 16"
  let ?r = "length xs mod 16"
  let ?s1 = "snd (crypt (vcipher v) (take ?f xs))"
  let ?lo = "copy_at 0 (drop ?f xs) (replicate 16 0)"
  have f: "?f \<le> length xs" by simp
  have len: "length (drop ?f xs) = ?r" by (simp add: minus_div_mult_eq_mod)
  have inv1: "invar ?s1" using assms by (rule crypt_invar)
  have k1: "ks ?s1 = (\<lambda>i. ks (vcipher v) (?f + i))"
    using assms f by (simp add: crypt_ks min_absorb2)
  have split: "xor_with (ks (vcipher v)) xs
      = xor_with (ks (vcipher v)) (take ?f xs) @ xor_with (ks ?s1) (drop ?f xs)"
    using f k1 by (simp add: xor_with_split [of ?f xs])
  have lo: "?lo = drop ?f xs @ replicate (16 - ?r) 0"
    using len by (simp add: copy_at_def)
  have "take ?r (xor_with (ks ?s1) ?lo) = xor_with (ks ?s1) (drop ?f xs)"
    unfolding lo xor_with_append using len by simp
  moreover have "drop ?f xs = []" if "?r = 0" using len that by simp
  ultimately show ?thesis
    using assms inv1 unfolding split video_blocks_def Let_def case_prod_beta
    by (simp add: crypt_out)
qed

lemma video_blocks_state:
  assumes "invar (vcipher v)" and "leftover_count v = 0" and "length (leftover v) = 16"
  shows "video_ks ks (snd (video_blocks crypt v xs)) = (\<lambda>i. ks (vcipher v) (length xs + i))
    \<and> video_inv invar (snd (video_blocks crypt v xs))"
proof -
  let ?f = "length xs div 16 * 16"
  let ?r = "length xs mod 16"
  let ?s1 = "snd (crypt (vcipher v) (take ?f xs))"
  let ?lo = "copy_at 0 (drop ?f xs) (replicate 16 0)"
  have f: "?f \<le> length xs" and len: "length xs = ?f + ?r" by simp_all
  have r: "?r < 16" by simp
  have dlen: "length (drop ?f xs) = ?r" by (simp add: minus_div_mult_eq_mod)
  have inv1: "invar ?s1" using assms by (simp add: crypt_invar)
  have k1: "ks ?s1 = (\<lambda>i. ks (vcipher v) (?f + i))"
    using assms f by (simp add: crypt_ks min_absorb2)
  have lolen: "length ?lo = 16" using r by (simp add: dlen copy_at_def)
  show ?thesis
  proof (cases "?r = 0")
    case True
    with assms inv1 k1 len show ?thesis
      by (auto simp: video_blocks_def Let_def case_prod_beta video_ks_def video_inv_def)
  next
    case False
    let ?v = "v\<lparr>vcipher := snd (crypt ?s1 ?lo), leftover := xor_with (ks ?s1) ?lo,
                 leftover_count := 16 - ?r\<rparr>"
    have eq: "snd (video_blocks crypt v xs) = ?v"
      using False inv1 by (simp add: video_blocks_def Let_def case_prod_beta crypt_out)
    have lo: "?lo = drop ?f xs @ replicate (16 - ?r) 0" using dlen by (simp add: copy_at_def)
    have zero: "?lo ! (?r + i) = 0" if "i < 16 - ?r" for i
      using that nth_append_length_plus [of "drop ?f xs" "replicate (16 - ?r) 0" i]
      unfolding lo dlen by simp
    have "video_ks ks ?v i = ks (vcipher v) (length xs + i)" for i
    proof (cases "i < 16 - ?r")
      case True
      then have "video_ks ks ?v i = (xor_with (ks ?s1) ?lo) ! (?r + i)"
        using r by (simp add: video_ks_def)
      also have "\<dots> = ks ?s1 (?r + i)" using True lolen zero [OF True] by simp
      also have "\<dots> = ks (vcipher v) (length xs + i)" by (subst len) (simp add: k1 add.assoc)
      finally show ?thesis .
    next
      case f: False
      then have "video_ks ks ?v i = ks ?s1 (16 + (i - (16 - ?r)))"
        using inv1 lolen by (simp add: video_ks_def crypt_ks)
      also have "16 + (i - (16 - ?r)) = ?r + i" using f r by simp
      also have "ks ?s1 (?r + i) = ks (vcipher v) (length xs + i)"
        by (subst len) (simp add: k1 add.assoc)
      finally show ?thesis .
    qed
    moreover have "video_inv invar ?v"
      using inv1 lolen False by (simp add: video_inv_def crypt_invar)
    ultimately show ?thesis by (simp add: eq fun_eq_iff)
  qed
qed

lemma video_head:
  "video_inv invar v \<Longrightarrow> m \<le> leftover_count v \<Longrightarrow> m \<le> length xs \<Longrightarrow>
   map2 (XOR) (take m xs) (slice (16 - leftover_count v) (16 - leftover_count v + m) (leftover v))
     = xor_with (video_ks ks v) (take m xs)"
  by (rule nth_equalityI) (auto simp: video_inv_def video_ks_def slice_nth)

lemma video_correct:
  assumes "video_inv invar v"
  shows "fst (video_decrypt crypt v xs) = xor_with (video_ks ks v) xs
    \<and> video_ks ks (snd (video_decrypt crypt v xs)) = (\<lambda>i. video_ks ks v (length xs + i))
    \<and> video_inv invar (snd (video_decrypt crypt v xs))"
proof (cases "leftover_count v = 0")
  case True
  then have "video_ks ks v = ks (vcipher v)" by (auto simp: video_ks_def)
  with True assms video_blocks_out [of v xs] video_blocks_state [of v xs] show ?thesis
    by (simp add: video_decrypt_def video_inv_def)
next
  case False
  let ?n = "leftover_count v"
  let ?m = "min ?n (length xs)"
  note head = video_head [OF assms, of ?m xs, simplified]
  show ?thesis
  proof (cases "?m < ?n")
    case True
    then have "take ?m xs = xs" and "drop ?m xs = []" and "?m = length xs" by auto
    moreover from assms True
    have "video_ks ks (v\<lparr>leftover_count := ?n - ?m\<rparr>) = (\<lambda>i. video_ks ks v (?m + i))"
      by (auto simp: video_ks_def video_inv_def fun_eq_iff intro!: arg_cong2 [of _ _ _ _ "(!)"] arg_cong2 [of _ _ _ _ ks])
    ultimately show ?thesis
      using False True assms head by (auto simp: video_decrypt_def Let_def video_inv_def)
  next
    case m: False
    let ?w = "v\<lparr>leftover_count := 0\<rparr>"
    have mn: "?m = ?n" using m by simp
    have w: "invar (vcipher ?w)" "leftover_count ?w = 0" "length (leftover ?w) = 16"
      using assms by (simp_all add: video_inv_def)
    have eq: "video_decrypt crypt v xs = (xor_with (video_ks ks v) (take ?m xs)
        @ fst (video_blocks crypt ?w (drop ?m xs)), snd (video_blocks crypt ?w (drop ?m xs)))"
      using False m head by (simp add: video_decrypt_def Let_def case_prod_beta)
    have ksw: "(\<lambda>i. video_ks ks v (?m + i)) = ks (vcipher ?w)" using mn by (auto simp: video_ks_def)
    have "xor_with (video_ks ks v) xs
        = xor_with (video_ks ks v) (take ?m xs) @ xor_with (ks (vcipher ?w)) (drop ?m xs)"
      using xor_with_split [of ?m xs "video_ks ks v"] by (simp only: ksw)
    moreover have "video_ks ks v (length xs + i) = ks (vcipher ?w) (length xs - ?m + i)" for i
    proof -
      have "length xs + i = ?m + (length xs - ?m + i)" by simp
      then show ?thesis using fun_cong [OF ksw] by metis
    qed
    ultimately show ?thesis
      using video_blocks_out [OF w(1)] video_blocks_state [OF w] by (simp add: eq fun_eq_iff)
  qed
qed

lemma video_stream_cipher: "stream_cipher (video_decrypt crypt) (video_ks ks) (video_inv invar)"
  by (rule stream_cipher.intro) (simp_all add: video_correct)

end

interpretation videoctr: stream_cipher "video_decrypt ctr_encrypt" "video_ks ctr_ks" "video_inv ctr_inv"
  by (rule aesctr.video_stream_cipher)

text \<open>
  With any counter-mode cipher that keeps the stream-cipher contract, the video
  cipher's left-over bookkeeping is invisible: decrypting a stream packet by packet, cut
  anywhere, gives the bytes of the underlying keystream applied to the whole stream, and
  the left-over count stays below a block.
\<close>

theorem video_cipher_streaming:
  assumes "stream_cipher ap k ok" and "ok (ctr128be key iv)"
  shows "concat (crypt_all (video_decrypt ap) (video_new ctr128be key iv) segs)
           = xor_with (k (ctr128be key iv)) (concat segs)
         \<and> leftover_count (snd (video_decrypt ap (video_new ctr128be key iv) (concat segs))) \<le> 15"
proof -
  let ?v = "video_new ctr128be key iv"
  have sc: "stream_cipher (video_decrypt ap) (video_ks k) (video_inv ok)"
    using assms(1) by (rule stream_cipher.video_stream_cipher)
  have inv: "video_inv ok ?v" using assms(2) by (simp add: video_inv_def video_new_def)
  have "video_ks k ?v = k (ctr128be key iv)" by (auto simp: video_ks_def video_new_def)
  moreover have "video_inv ok (snd (video_decrypt ap ?v (concat segs)))"
    using sc inv by (rule stream_cipher.crypt_invar)
  ultimately show ?thesis
    using stream_cipher.crypt_all_concat [OF sc inv] stream_cipher.crypt_out [OF sc inv]
    by (simp add: video_inv_def)
qed

theorem video_cipher_streaming_witness:
  "stream_cipher ctr_encrypt ctr_ks ctr_inv
   \<and> ctr_inv (aes_new (\<lambda>k b. map2 (XOR) k b) (replicate 16 7) (replicate 16 1))
   \<and> concat (crypt_all (video_decrypt ctr_encrypt)
         (video_new (aes_new (\<lambda>k b. map2 (XOR) k b)) (replicate 16 7) (replicate 16 1)) [[1], [2, 3]])
     = xor_with (ctr_ks (aes_new (\<lambda>k b. map2 (XOR) k b) (replicate 16 7) (replicate 16 1)))
         (concat [[1], [2, 3]])"
proof -
  have h: "ctr_inv (aes_new (\<lambda>k b. map2 (XOR) k b) (replicate 16 7) (replicate 16 1))"
    by (simp add: ctr_inv_def aes_new_def BLOCK_SIZE_def)
  show ?thesis
    using h aesctr.stream_cipher_axioms
      video_cipher_streaming [OF aesctr.stream_cipher_axioms, of "aes_new (\<lambda>k b. map2 (XOR) k b)", OF h]
    by blast
qed

end
