(* ===== verification/Chacha_Transport.thy ===== *)
theory Chacha_Transport
  imports Segments Errors
begin

text \<open>
  The encrypted RTSP transport (src/crypto/chacha_transport.rs): framing of a
  plaintext into blocks of at most 1024 bytes, each sealed under a nonce made from a
  per-direction counter, and the incremental decoder of the framed stream. The AEAD
  (crate \<open>chacha20poly1305\<close>) and HKDF (crate \<open>hkdf\<close>) are parameters: \<open>seal key nonce
  aad msg\<close>, \<open>aopen key nonce aad ct\<close> and \<open>hkdf salt ikm info len\<close>.
\<close>

section \<open>Model\<close>

type_synonym aead_seal = "bytes \<Rightarrow> bytes \<Rightarrow> bytes \<Rightarrow> bytes \<Rightarrow> bytes option"
type_synonym aead_open = "bytes \<Rightarrow> bytes \<Rightarrow> bytes \<Rightarrow> bytes \<Rightarrow> bytes option"

definition MAX_BLOCK_LEN :: nat where "MAX_BLOCK_LEN = 0x400"
definition TAG_LEN :: nat where "TAG_LEN = 16"

record cipher_context =
  key :: bytes
  counter :: u64

definition cipher_new :: "bytes \<Rightarrow> cipher_context" where
  "cipher_new k = \<lparr>key = k, counter = 0\<rparr>"

definition nonce_of :: "u64 \<Rightarrow> bytes" where
  "nonce_of n = copy_at 4 (to_le_bytes 8 n) (replicate 12 0)"

definition nonce :: "cipher_context \<Rightarrow> bytes" where
  "nonce ctx = nonce_of (counter ctx)"

text \<open>The loop of \<open>encrypt\<close> over the chunks; the context keeps the counter reached
  when an error is returned.\<close>

fun encrypt_blocks ::
  "aead_seal \<Rightarrow> cipher_context \<Rightarrow> bytes \<Rightarrow> bytes list \<Rightarrow> (crypto_error + bytes) \<times> cipher_context" where
  "encrypt_blocks seal ctx out [] = (Inr out, ctx)"
| "encrypt_blocks seal ctx out (chunk # cs) =
     (if counter ctx = - 1
      then (Inl (Transport ''nonce counter exhausted before encryption''), ctx)
      else
        let block_len = to_le_bytes 2 (of_nat (length chunk) :: u16)
        in case seal (key ctx) (nonce ctx) block_len chunk of
             None \<Rightarrow> (Inl (Transport ''ChaCha20 encrypt failed''), ctx)
           | Some ct \<Rightarrow>
               encrypt_blocks seal (ctx\<lparr>counter := counter ctx + 1\<rparr>) (out @ block_len @ ct) cs)"

definition encrypt ::
  "aead_seal \<Rightarrow> cipher_context \<Rightarrow> bytes \<Rightarrow> (crypto_error + bytes) \<times> cipher_context" where
  "encrypt seal ctx plaintext =
     (if plaintext = [] then (Inr [], ctx)
      else encrypt_blocks seal ctx [] (chunks MAX_BLOCK_LEN plaintext))"

text \<open>The loop of \<open>decrypt\<close>, over the ciphertext from \<open>pos\<close> on.\<close>

function decrypt_loop ::
  "aead_open \<Rightarrow> cipher_context \<Rightarrow> bytes \<Rightarrow> nat \<Rightarrow> bytes
     \<Rightarrow> (crypto_error + bytes \<times> nat) \<times> cipher_context" where
  "decrypt_loop aopen ctx plain pos rest =
     (if length rest < 2 then (Inr (plain, pos), ctx)
      else
        let block_len = unat (from_le_bytes (take 2 rest) :: u16);
            frame_len = 2 + block_len + TAG_LEN
        in if frame_len > length rest then (Inr (plain, pos), ctx)
           else if counter ctx = - 1
             then (Inl (Transport ''nonce counter exhausted before decryption''), ctx)
           else if block_len = 0
             then (Inl (Transport ''invalid framed block length: 0''), ctx)
           else case aopen (key ctx) (nonce ctx) (take 2 rest) (slice 2 frame_len rest) of
               None \<Rightarrow> (Inl (Transport ''ChaCha20 decrypt failed''), ctx)
             | Some pt \<Rightarrow>
                 decrypt_loop aopen (ctx\<lparr>counter := counter ctx + 1\<rparr>) (plain @ pt)
                   (pos + frame_len) (drop frame_len rest))"
  by pat_completeness auto
termination
  by (relation "measure (\<lambda>(_, _, _, _, rest). length rest)") auto

declare decrypt_loop.simps [simp del]

definition decrypt ::
  "aead_open \<Rightarrow> cipher_context \<Rightarrow> bytes \<Rightarrow> (crypto_error + bytes \<times> nat) \<times> cipher_context" where
  "decrypt aopen ctx ciphertext = decrypt_loop aopen ctx [] 0 ciphertext"

record stream_shared_key =
  shk_key :: bytes

definition shk_from_slice :: "bytes \<Rightarrow> stream_shared_key option" where
  "shk_from_slice data = (if length data \<noteq> 32 then None else Some \<lparr>shk_key = data\<rparr>)"

definition shk_as_array :: "stream_shared_key \<Rightarrow> bytes" where
  "shk_as_array k = shk_key k"

record encrypted_channel =
  encrypt_ctx :: cipher_context
  decrypt_ctx :: cipher_context

type_synonym hkdf_expand = "string \<Rightarrow> bytes \<Rightarrow> string \<Rightarrow> nat \<Rightarrow> bytes option"

definition channel_new ::
  "hkdf_expand \<Rightarrow> bytes \<Rightarrow> string \<Rightarrow> string \<Rightarrow> string \<Rightarrow> string \<Rightarrow> crypto_error + encrypted_channel" where
  "channel_new hkdf shared_secret write_salt write_info read_salt read_info =
     (case hkdf write_salt shared_secret write_info 32 of
        None \<Rightarrow> Inl (Transport ''HKDF write key failed'')
      | Some write_key \<Rightarrow>
          (case hkdf read_salt shared_secret read_info 32 of
             None \<Rightarrow> Inl (Transport ''HKDF read key failed'')
           | Some read_key \<Rightarrow>
               Inr \<lparr>encrypt_ctx = cipher_new write_key, decrypt_ctx = cipher_new read_key\<rparr>))"

definition CONTROL_SALT :: string where "CONTROL_SALT = ''Control-Salt''"
definition CONTROL_READ_KEY_INFO :: string where
  "CONTROL_READ_KEY_INFO = ''Control-Read-Encryption-Key''"
definition CONTROL_WRITE_KEY_INFO :: string where
  "CONTROL_WRITE_KEY_INFO = ''Control-Write-Encryption-Key''"
definition EVENTS_SALT :: string where "EVENTS_SALT = ''Events-Salt''"
definition EVENTS_READ_KEY_INFO :: string where
  "EVENTS_READ_KEY_INFO = ''Events-Read-Encryption-Key''"
definition EVENTS_WRITE_KEY_INFO :: string where
  "EVENTS_WRITE_KEY_INFO = ''Events-Write-Encryption-Key''"

definition channel_control :: "hkdf_expand \<Rightarrow> bytes \<Rightarrow> crypto_error + encrypted_channel" where
  "channel_control hkdf shared_secret =
     channel_new hkdf shared_secret CONTROL_SALT CONTROL_READ_KEY_INFO
       CONTROL_SALT CONTROL_WRITE_KEY_INFO"

definition channel_events :: "hkdf_expand \<Rightarrow> bytes \<Rightarrow> crypto_error + encrypted_channel" where
  "channel_events hkdf shared_secret =
     channel_new hkdf shared_secret EVENTS_SALT EVENTS_WRITE_KEY_INFO
       EVENTS_SALT EVENTS_READ_KEY_INFO"

section \<open>Nonces\<close>

lemma nonce_of_inj: "nonce_of a = nonce_of b \<longleftrightarrow> a = b"
proof
  assume "nonce_of a = nonce_of b"
  then have "to_le_bytes 8 a = to_le_bytes 8 b"
    by (simp add: nonce_of_def copy_at_def)
  then have "(from_le_bytes (to_le_bytes 8 a) :: u64) = from_le_bytes (to_le_bytes 8 b)" by simp
  then show "a = b" by (simp add: byte_simps)
qed simp

lemma unat_inc_counter: "(c :: u64) \<noteq> - 1 \<Longrightarrow> unat (c + 1) = Suc (unat c)"
proof -
  assume "c \<noteq> - 1"
  then have "1 + c \<noteq> 0" by (simp add: add_eq_0_iff)
  then show ?thesis by (simp add: unatSuc add.commute)
qed

section \<open>What one call of encrypt emits\<close>

text \<open>The frame of one chunk sealed under counter value \<open>n\<close>.\<close>

definition frame :: "aead_seal \<Rightarrow> bytes \<Rightarrow> nat \<Rightarrow> bytes \<Rightarrow> bytes" where
  "frame seal k n chunk =
     (let block_len = to_le_bytes 2 (of_nat (length chunk) :: u16)
      in block_len @ the (seal k (nonce_of (of_nat n)) block_len chunk))"

lemma encrypt_blocks_emits:
  "encrypt_blocks seal ctx out cs = (Inr w, ctx') \<Longrightarrow>
   unat (counter ctx') = unat (counter ctx) + length cs
   \<and> key ctx' = key ctx
   \<and> w = out @ concat (map2 (frame seal (key ctx)) [unat (counter ctx)..<unat (counter ctx')] cs)"
proof (induction seal ctx out cs arbitrary: w rule: encrypt_blocks.induct)
  case (2 seal ctx out chunk cs)
  let ?n = "unat (counter ctx)"
  let ?bl = "to_le_bytes 2 (of_nat (length chunk) :: u16)"
  from "2.prems" obtain ct where c: "counter ctx \<noteq> - 1"
    and s: "seal (key ctx) (nonce ctx) ?bl chunk = Some ct"
    and r: "encrypt_blocks seal (ctx\<lparr>counter := counter ctx + 1\<rparr>) (out @ ?bl @ ct) cs = (Inr w, ctx')"
    by (auto simp: Let_def split: if_splits option.splits)
  from "2.IH" [OF c refl s r] unat_inc_counter [OF c]
  have IH: "unat (counter ctx') = Suc ?n + length cs" "key ctx' = key ctx"
    "w = (out @ ?bl @ ct) @ concat (map2 (frame seal (key ctx)) [Suc ?n..<unat (counter ctx')] cs)"
    by simp_all
  moreover have "[?n..<unat (counter ctx')] = ?n # [Suc ?n..<unat (counter ctx')]"
    by (rule upt_conv_Cons) (simp add: IH(1))
  moreover have "frame seal (key ctx) ?n chunk = ?bl @ ct"
    using s by (simp add: frame_def nonce_def)
  ultimately show ?case by simp
qed simp

text \<open>
  C39: a successful \<open>encrypt\<close> seals block \<open>i\<close> under the nonce of counter value
  \<open>counter + i\<close>; the counter never wraps, so no nonce is used twice under one key, and
  the wire bytes are the concatenation of the frames.
\<close>

theorem encrypt_nonces_fresh:
  assumes "encrypt seal ctx plaintext = (Inr w, ctx')"
  shows "unat (counter ctx') = unat (counter ctx) + length (chunks MAX_BLOCK_LEN plaintext)
    \<and> w = concat (map2 (frame seal (key ctx)) [unat (counter ctx)..<unat (counter ctx')]
                    (chunks MAX_BLOCK_LEN plaintext))
    \<and> distinct (map (\<lambda>n. nonce_of (of_nat n)) [unat (counter ctx)..<unat (counter ctx')])"
proof -
  have bound: "unat (counter ctx') < 2 ^ 64"
    using unsigned_less [of "counter ctx'"] by simp
  have "inj_on (\<lambda>n. nonce_of (of_nat n)) {unat (counter ctx)..<unat (counter ctx')}"
  proof (rule inj_onI)
    fix x y
    assume xy: "x \<in> {unat (counter ctx)..<unat (counter ctx')}"
      "y \<in> {unat (counter ctx)..<unat (counter ctx')}"
      and "nonce_of (of_nat x) = nonce_of (of_nat y)"
    then have "(of_nat x :: u64) = of_nat y" by (simp add: nonce_of_inj)
    moreover from xy bound have "x < 2 ^ 64" "y < 2 ^ 64" by auto
    ultimately show "x = y" by (simp add: word_of_nat_eq_iff take_bit_nat_eq_self_iff [THEN iffD2])
  qed
  then have d: "distinct (map (\<lambda>n. nonce_of (of_nat n)) [unat (counter ctx)..<unat (counter ctx')])"
    by (simp add: distinct_map)
  show ?thesis
  proof (cases "plaintext = []")
    case True
    with assms d show ?thesis by (simp add: encrypt_def)
  next
    case False
    with assms have "encrypt_blocks seal ctx [] (chunks MAX_BLOCK_LEN plaintext) = (Inr w, ctx')"
      by (simp add: encrypt_def)
    from encrypt_blocks_emits [OF this] d show ?thesis by simp
  qed
qed

theorem encrypt_nonces_fresh_witness:
  "encrypt (\<lambda>k n a m. Some (m @ replicate 16 0)) (cipher_new []) [1, 2]
     = (Inr ([2, 0, 1, 2] @ replicate 16 0), \<lparr>key = [], counter = 1\<rparr>)
   \<and> distinct (map (\<lambda>n. nonce_of (of_nat n))
       [unat (counter (cipher_new []))..<unat (counter \<lparr>key = [], counter = 1\<rparr>)])"
proof -
  have h: "encrypt (\<lambda>k n a m. Some (m @ replicate 16 0)) (cipher_new []) [1, 2]
     = (Inr ([2, 0, 1, 2] @ replicate 16 0), \<lparr>key = [], counter = 1\<rparr>)"
    by (simp add: encrypt_def cipher_new_def MAX_BLOCK_LEN_def chunks_short to_le_bytes_2)
  show ?thesis using h encrypt_nonces_fresh [OF h] by blast
qed

section \<open>Decrypting what encrypt emitted\<close>

text \<open>The documented contract of the AEAD: sealing a message (of less than 4 GiB) under
  a 32-byte key and a 12-byte nonce succeeds, adds a 16-byte tag, and opens again.\<close>

definition aead_ok :: "aead_seal \<Rightarrow> aead_open \<Rightarrow> bool" where
  "aead_ok seal aopen \<longleftrightarrow>
     (\<forall>k n a m. length k = 32 \<and> length n = 12 \<and> length m < 2 ^ 32 \<longrightarrow>
        (\<exists>c. seal k n a m = Some c \<and> length c = length m + TAG_LEN \<and> aopen k n a c = Some m))"

lemma aead_okD:
  assumes "aead_ok seal aopen" "length k = 32" "length n = 12" "length m < 2 ^ 32"
  obtains c where "seal k n a m = Some c" "length c = length m + TAG_LEN" "aopen k n a c = Some m"
  using assms unfolding aead_ok_def by blast

lemma length_nonce_of [simp]: "length (nonce_of n) = 12"
  by (simp add: nonce_of_def)

lemma decrypt_loop_acc:
  "decrypt_loop aopen ctx plain pos rest =
     (case decrypt_loop aopen ctx [] 0 rest of
        (Inl e, c) \<Rightarrow> (Inl e, c)
      | (Inr (p, n), c) \<Rightarrow> (Inr (plain @ p, pos + n), c))"
proof (induction "length rest" arbitrary: ctx plain pos rest rule: less_induct)
  case less
  let ?bl = "unat (from_le_bytes (take 2 rest) :: u16)"
  let ?fl = "2 + ?bl + TAG_LEN"
  show ?case
  proof (cases "length rest < 2 \<or> ?fl > length rest \<or> counter ctx = - 1 \<or> ?bl = 0
      \<or> aopen (key ctx) (nonce ctx) (take 2 rest) (slice 2 ?fl rest) = None")
    case True
    then show ?thesis
      by (subst (1 2) decrypt_loop.simps) (auto simp: Let_def split: option.splits)
  next
    case False
    then obtain pt where pt: "aopen (key ctx) (nonce ctx) (take 2 rest) (slice 2 ?fl rest) = Some pt"
      by auto
    let ?ctx = "ctx\<lparr>counter := counter ctx + 1\<rparr>"
    have eq: "decrypt_loop aopen ctx pl q rest
        = decrypt_loop aopen ?ctx (pl @ pt) (q + ?fl) (drop ?fl rest)" for pl q
      using False pt by (subst decrypt_loop.simps) (simp add: Let_def)
    have "length (drop ?fl rest) < length rest"
      using False by (simp only: length_drop) linarith
    note IH = less [OF this]
    show ?thesis
      unfolding eq [of plain pos] eq [of "[]" 0]
      by (subst IH, subst (2) IH) (auto split: prod.splits sum.splits)
  qed
qed

lemma decrypt_loop_append:
  "decrypt_loop aopen ctx plain pos a = (Inr (p, n), ctx1) \<Longrightarrow>
   pos \<le> n \<and> n - pos \<le> length a
   \<and> decrypt_loop aopen ctx plain pos (a @ b) = decrypt_loop aopen ctx1 p n (drop (n - pos) a @ b)
   \<and> decrypt_loop aopen ctx1 p n (drop (n - pos) a) = (Inr (p, n), ctx1)"
proof (induction "length a" arbitrary: ctx plain pos a rule: less_induct)
  case less
  let ?bl = "unat (from_le_bytes (take 2 a) :: u16)"
  let ?fl = "2 + ?bl + TAG_LEN"
  show ?case
  proof (cases "length a < 2 \<or> ?fl > length a")
    case True
    then have eq: "decrypt_loop aopen ctx plain pos a = (Inr (plain, pos), ctx)"
      by (subst decrypt_loop.simps) (auto simp: Let_def)
    with less.prems show ?thesis by simp
  next
    case False
    let ?ctx = "ctx\<lparr>counter := counter ctx + 1\<rparr>"
    from False less.prems obtain pt where c: "counter ctx \<noteq> - 1" "?bl \<noteq> 0"
      and pt: "aopen (key ctx) (nonce ctx) (take 2 a) (slice 2 ?fl a) = Some pt"
      and r: "decrypt_loop aopen ?ctx (plain @ pt) (pos + ?fl) (drop ?fl a) = (Inr (p, n), ctx1)"
      by (subst (asm) decrypt_loop.simps) (auto simp: Let_def split: if_splits option.splits)
    have len: "length (drop ?fl a) < length a"
      using False by (simp only: length_drop) linarith
    note IH = less.hyps [OF len r]
    have "take 2 (a @ b) = take 2 a" and "slice 2 ?fl (a @ b) = slice 2 ?fl a"
      and d: "drop ?fl (a @ b) = drop ?fl a @ b"
      using False by (auto simp: slice_append_left)
    then have "decrypt_loop aopen ctx plain pos (a @ b)
        = decrypt_loop aopen ?ctx (plain @ pt) (pos + ?fl) (drop ?fl a @ b)"
      using False c pt by (subst decrypt_loop.simps) (simp add: Let_def)
    moreover have n: "pos + ?fl \<le> n" "n - (pos + ?fl) \<le> length (drop ?fl a)"
      using IH by blast+
    moreover have "drop (n - (pos + ?fl)) (drop ?fl a) = drop (n - pos) a"
    proof -
      from n(1) have "n - (pos + ?fl) + ?fl = n - pos" by linarith
      then show ?thesis by (simp only: drop_drop)
    qed
    moreover have "pos \<le> n" "n - pos \<le> length a"
      using n False by (simp only: length_drop; linarith)+
    ultimately show ?thesis using IH by metis
  qed
qed

lemma decrypt_append:
  assumes "decrypt aopen ctx a = (Inr (p, n), ctx1)"
  shows "n \<le> length a"
    and "decrypt aopen ctx1 (drop n a) = (Inr ([], 0), ctx1)"
    and "decrypt aopen ctx (a @ b) =
      (case decrypt aopen ctx1 (drop n a @ b) of
         (Inl e, c) \<Rightarrow> (Inl e, c) | (Inr (q, m), c) \<Rightarrow> (Inr (p @ q, n + m), c))"
proof -
  note * = decrypt_loop_append [OF assms [unfolded decrypt_def], of b]
  show "n \<le> length a" using * by simp
  show "decrypt aopen ctx (a @ b) =
      (case decrypt aopen ctx1 (drop n a @ b) of
         (Inl e, c) \<Rightarrow> (Inl e, c) | (Inr (q, m), c) \<Rightarrow> (Inr (p @ q, n + m), c))"
    using * decrypt_loop_acc [of aopen ctx1 p n "drop n a @ b"] by (simp add: decrypt_def)
  show "decrypt aopen ctx1 (drop n a) = (Inr ([], 0), ctx1)"
    using * decrypt_loop_acc [of aopen ctx1 p n "drop n a"]
    by (auto simp: decrypt_def split: prod.splits sum.splits)
qed

lemma decrypt_frame:
  assumes "aead_ok seal aopen" and "length (key ctx) = 32" and "counter ctx \<noteq> - 1"
    and "chunk \<noteq> []" and "length chunk \<le> MAX_BLOCK_LEN"
  shows "decrypt_loop aopen ctx plain pos (frame seal (key ctx) (unat (counter ctx)) chunk @ rest)
    = decrypt_loop aopen (ctx\<lparr>counter := counter ctx + 1\<rparr>) (plain @ chunk)
        (pos + length (frame seal (key ctx) (unat (counter ctx)) chunk)) rest"
proof -
  let ?bl = "to_le_bytes 2 (of_nat (length chunk) :: u16)"
  from assms obtain c where c: "seal (key ctx) (nonce ctx) ?bl chunk = Some c"
      "length c = length chunk + TAG_LEN" "aopen (key ctx) (nonce ctx) ?bl c = Some chunk"
    by (auto simp: nonce_def MAX_BLOCK_LEN_def elim: aead_okD [of _ _ "key ctx" "nonce ctx" chunk ?bl])
  have fr: "frame seal (key ctx) (unat (counter ctx)) chunk = ?bl @ c"
    using c by (simp add: frame_def nonce_def)
  have "(from_le_bytes ?bl :: u16) = of_nat (length chunk)" by (simp add: byte_simps)
  moreover have "unat (of_nat (length chunk) :: u16) = length chunk"
    using assms(5) by (simp add: unat_of_nat MAX_BLOCK_LEN_def)
  ultimately have bl: "unat (from_le_bytes (take 2 (?bl @ c @ rest)) :: u16) = length chunk" by simp
  have "slice 2 (2 + length chunk + TAG_LEN) (?bl @ c @ rest) = c"
    using c(2) by (simp add: slice_def)
  then show ?thesis
    unfolding fr using assms(3,4) bl c
    by (subst decrypt_loop.simps) (simp add: Let_def)
qed

lemma encrypt_blocks_ok:
  assumes "aead_ok seal aopen" and "length (key ctx) = 32"
    and "unat (counter ctx) + length cs < 2 ^ 64" and "\<forall>c \<in> set cs. c \<noteq> [] \<and> length c \<le> MAX_BLOCK_LEN"
  shows "\<exists>w ctx'. encrypt_blocks seal ctx out cs = (Inr (out @ w), ctx')
    \<and> (\<forall>plain pos rest. decrypt_loop aopen ctx plain pos (w @ rest)
          = decrypt_loop aopen ctx' (plain @ concat cs) (pos + length w) rest)"
  using assms(2-)
proof (induction cs arbitrary: ctx out)
  case (Cons chunk cs)
  let ?ctx = "ctx\<lparr>counter := counter ctx + 1\<rparr>"
  let ?bl = "to_le_bytes 2 (of_nat (length chunk) :: u16)"
  let ?fr = "frame seal (key ctx) (unat (counter ctx)) chunk"
  have c: "counter ctx \<noteq> - 1"
  proof
    assume "counter ctx = - 1"
    then have "unat (counter ctx) = 2 ^ 64 - 1" by (simp add: unsigned_minus_1_eq_mask mask_eq_exp_minus_1)
    with Cons.prems(2) show False by simp
  qed
  from assms(1) Cons.prems obtain d where d: "seal (key ctx) (nonce ctx) ?bl chunk = Some d"
    by (auto simp: nonce_def MAX_BLOCK_LEN_def elim: aead_okD [of _ _ "key ctx" "nonce ctx" chunk ?bl])
  have fr: "?fr = ?bl @ d" using d by (simp add: frame_def nonce_def)
  from Cons.IH [of ?ctx "out @ ?fr"] Cons.prems unat_inc_counter [OF c]
  obtain w ctx' where w: "encrypt_blocks seal ?ctx (out @ ?fr) cs = (Inr ((out @ ?fr) @ w), ctx')"
    and dec: "\<And>plain pos rest. decrypt_loop aopen ?ctx plain pos (w @ rest)
          = decrypt_loop aopen ctx' (plain @ concat cs) (pos + length w) rest"
    by auto
  have "encrypt_blocks seal ctx out (chunk # cs) = (Inr (out @ (?fr @ w)), ctx')"
    using c d w fr by (simp add: Let_def)
  moreover have "decrypt_loop aopen ctx plain pos ((?fr @ w) @ rest)
      = decrypt_loop aopen ctx' (plain @ concat (chunk # cs)) (pos + length (?fr @ w)) rest"
    for plain pos rest
    using decrypt_frame [OF assms(1) Cons.prems(1) c, of chunk plain pos "w @ rest"] Cons.prems(3) dec
    by (simp add: add.assoc)
  ultimately show ?case by blast
qed simp

lemma encrypt_ok:
  assumes "aead_ok seal aopen" and "length (key ctx) = 32"
    and "unat (counter ctx) + length (chunks MAX_BLOCK_LEN m) < 2 ^ 64"
  shows "\<exists>w ctx'. encrypt seal ctx m = (Inr w, ctx') \<and> key ctx' = key ctx
    \<and> unat (counter ctx') = unat (counter ctx) + length (chunks MAX_BLOCK_LEN m)
    \<and> (\<forall>plain pos rest. decrypt_loop aopen ctx plain pos (w @ rest)
          = decrypt_loop aopen ctx' (plain @ m) (pos + length w) rest)"
proof (cases "m = []")
  case True
  then show ?thesis by (simp add: encrypt_def)
next
  case False
  have "0 < MAX_BLOCK_LEN" by (simp add: MAX_BLOCK_LEN_def)
  with assms encrypt_blocks_ok [of seal aopen ctx "chunks MAX_BLOCK_LEN m" "[]"] chunks_bound
  obtain w ctx' where w: "encrypt_blocks seal ctx [] (chunks MAX_BLOCK_LEN m) = (Inr w, ctx')"
    and "\<forall>plain pos rest. decrypt_loop aopen ctx plain pos (w @ rest)
          = decrypt_loop aopen ctx' (plain @ m) (pos + length w) rest"
    by fastforce
  with encrypt_blocks_emits [OF w] False show ?thesis by (auto simp: encrypt_def)
qed

section \<open>The receiving side of a stream\<close>

lemma decrypt_loop_error_append:
  "decrypt_loop aopen ctx plain pos a = (Inl e, ctx1) \<Longrightarrow>
   decrypt_loop aopen ctx plain pos (a @ b) = (Inl e, ctx1)"
proof (induction "length a" arbitrary: ctx plain pos a rule: less_induct)
  case less
  let ?bl = "unat (from_le_bytes (take 2 a) :: u16)"
  let ?fl = "2 + ?bl + TAG_LEN"
  have ok: "\<not> length a < 2" "\<not> ?fl > length a"
    using less.prems by (auto simp: decrypt_loop.simps [of _ _ _ _ a] Let_def split: if_splits)
  have "take 2 (a @ b) = take 2 a" and "slice 2 ?fl (a @ b) = slice 2 ?fl a"
    and d: "drop ?fl (a @ b) = drop ?fl a @ b"
    using ok by (auto simp: slice_append_left)
  moreover have len: "length (drop ?fl a) < length a"
    using ok unfolding length_drop by linarith
  note IH = less.hyps [OF len]
  ultimately show ?case
    using ok less.prems
    by (auto simp: decrypt_loop.simps [of _ _ _ _ a] decrypt_loop.simps [of _ _ _ _ "a @ b"]
        Let_def IH simp del: drop_append split: if_splits option.splits)
qed

text \<open>What a reader of the framed stream keeps: the context, the bytes received and
  not yet consumed, and the plaintext delivered so far; after a failed \<open>decrypt\<close> the
  connection is dropped.\<close>

datatype rx_state = Live cipher_context bytes bytes | Dropped

fun rx_feed :: "aead_open \<Rightarrow> rx_state \<Rightarrow> bytes \<Rightarrow> rx_state" where
  "rx_feed aopen Dropped data = Dropped"
| "rx_feed aopen (Live ctx raw plain) data =
     (case decrypt aopen ctx (raw @ data) of
        (Inl e, _) \<Rightarrow> Dropped
      | (Inr (p, consumed), ctx') \<Rightarrow> Live ctx' (drop consumed (raw @ data)) (plain @ p))"

fun rx_inv :: "aead_open \<Rightarrow> rx_state \<Rightarrow> bool" where
  "rx_inv aopen Dropped = True"
| "rx_inv aopen (Live ctx raw plain) = (decrypt aopen ctx raw = (Inr ([], 0), ctx))"

lemma decrypt_Nil: "decrypt aopen ctx [] = (Inr ([], 0), ctx)"
  by (simp add: decrypt_def decrypt_loop.simps)

interpretation rx: segment_action "rx_feed aopen" "rx_inv aopen" for aopen
proof
  fix s :: rx_state and xs ys :: bytes
  assume inv: "rx_inv aopen s"
  then show "rx_feed aopen s [] = s" by (cases s) auto
  show "rx_feed aopen s (xs @ ys) = rx_feed aopen (rx_feed aopen s xs) ys"
  proof (cases s)
    case (Live ctx raw plain)
    obtain r c where d: "decrypt aopen ctx (raw @ xs) = (r, c)" by (cases "decrypt aopen ctx (raw @ xs)")
    show ?thesis
    proof (cases r)
      case (Inl e)
      with d have "decrypt aopen ctx ((raw @ xs) @ ys) = (Inl e, c)"
        unfolding decrypt_def by (blast intro: decrypt_loop_error_append)
      with Live d Inl show ?thesis by simp
    next
      case (Inr q)
      obtain p n where q: "q = (p, n)" by (cases q)
      note * = decrypt_append [OF d [unfolded Inr q]]
      from *(1) have "drop n (raw @ xs) @ ys = drop n ((raw @ xs) @ ys)" by simp
      then have "drop m (drop n (raw @ xs) @ ys) = drop (n + m) (raw @ xs @ ys)" for m
        by (simp only: drop_drop append_assoc) (simp add: add.commute)
      with Live d Inr q *(3) [of ys] show ?thesis
        by (auto simp del: drop_append split: prod.splits sum.splits)
    qed
  qed simp
  show "rx_inv aopen (rx_feed aopen s xs)"
    by (cases s) (auto dest: decrypt_append(2) split: prod.splits sum.splits)
qed

section \<open>Whole conversations\<close>

text \<open>Encrypting the messages of one direction one after another.\<close>

fun encrypt_all :: "aead_seal \<Rightarrow> cipher_context \<Rightarrow> bytes list \<Rightarrow> crypto_error + bytes" where
  "encrypt_all seal ctx [] = Inr []"
| "encrypt_all seal ctx (m # ms) =
     (case encrypt seal ctx m of
        (Inl e, _) \<Rightarrow> Inl e
      | (Inr w, ctx') \<Rightarrow>
          (case encrypt_all seal ctx' ms of Inl e \<Rightarrow> Inl e | Inr ws \<Rightarrow> Inr (w @ ws)))"

abbreviation block_count :: "bytes list \<Rightarrow> nat" where
  "block_count ms \<equiv> sum_list (map (\<lambda>m. length (chunks MAX_BLOCK_LEN m)) ms)"

lemma encrypt_all_ok:
  assumes "aead_ok seal aopen"
  shows "length (key ctx) = 32 \<Longrightarrow> unat (counter ctx) + block_count ms < 2 ^ 64 \<Longrightarrow>
    \<exists>w ctx'. encrypt_all seal ctx ms = Inr w \<and> key ctx' = key ctx
      \<and> unat (counter ctx') = unat (counter ctx) + block_count ms
      \<and> (\<forall>plain pos rest. decrypt_loop aopen ctx plain pos (w @ rest)
            = decrypt_loop aopen ctx' (plain @ concat ms) (pos + length w) rest)"
proof (induction ms arbitrary: ctx)
  case (Cons m ms)
  from Cons.prems(2) have "unat (counter ctx) + length (chunks MAX_BLOCK_LEN m) < 2 ^ 64" by simp
  from encrypt_ok [OF assms Cons.prems(1) this] obtain w1 c1 where
    1: "encrypt seal ctx m = (Inr w1, c1)" "key c1 = key ctx"
      "unat (counter c1) = unat (counter ctx) + length (chunks MAX_BLOCK_LEN m)"
      "\<And>plain pos rest. decrypt_loop aopen ctx plain pos (w1 @ rest)
          = decrypt_loop aopen c1 (plain @ m) (pos + length w1) rest" by blast
  from Cons.IH [of c1] Cons.prems 1(2,3) obtain w2 c2 where
    2: "encrypt_all seal c1 ms = Inr w2" "key c2 = key c1"
      "unat (counter c2) = unat (counter c1) + block_count ms"
      "\<And>plain pos rest. decrypt_loop aopen c1 plain pos (w2 @ rest)
          = decrypt_loop aopen c2 (plain @ concat ms) (pos + length w2) rest" by auto
  show ?case using 1 2 by (intro exI [of _ "w1 @ w2"] exI [of _ c2]) (simp add: add.assoc)
qed auto

text \<open>
  C9: end-to-end transport. With an AEAD that opens what it sealed, messages encrypted
  one after another under a context and delivered to a receiver in step with it, cut
  into any segments, are received as exactly the concatenation of the messages, with no
  byte left over and both counters advanced by the number of blocks.
\<close>

theorem transport_end_to_end:
  assumes "aead_ok seal aopen" and "length (key ctx) = 32"
    and "unat (counter ctx) + block_count ms < 2 ^ 64"
  shows "\<exists>wire ctx'. encrypt_all seal ctx ms = Inr wire
    \<and> unat (counter ctx') = unat (counter ctx) + block_count ms
    \<and> (\<forall>segs. concat segs = wire
         \<longrightarrow> foldl (rx_feed aopen) (Live ctx [] []) segs = Live ctx' [] (concat ms))"
proof -
  from encrypt_all_ok [OF assms] obtain w ctx' where
    w: "encrypt_all seal ctx ms = Inr w" "unat (counter ctx') = unat (counter ctx) + block_count ms"
    and d: "\<And>plain pos rest. decrypt_loop aopen ctx plain pos (w @ rest)
            = decrypt_loop aopen ctx' (plain @ concat ms) (pos + length w) rest" by blast
  have "decrypt aopen ctx w = (Inr (concat ms, length w), ctx')"
    using d [of "[]" 0 "[]"] by (simp add: decrypt_def decrypt_loop.simps)
  then have "rx_feed aopen (Live ctx [] []) w = Live ctx' [] (concat ms)" by simp
  then show ?thesis using w by (auto simp: rx.foldl_concat decrypt_Nil)
qed

theorem transport_end_to_end_witness:
  "let seal = (\<lambda>k n a m. Some (m @ replicate 16 0));
       aopen = (\<lambda>k n a c. Some (take (length c - 16) c));
       ctx = cipher_new (replicate 32 7)
   in aead_ok seal aopen \<and> length (key ctx) = 32
      \<and> unat (counter ctx) + block_count [[1, 2], [3]] < 2 ^ 64
      \<and> (\<exists>wire ctx'. encrypt_all seal ctx [[1, 2], [3]] = Inr wire
          \<and> unat (counter ctx') = unat (counter ctx) + block_count [[1, 2], [3]]
          \<and> (\<forall>segs. concat segs = wire
               \<longrightarrow> foldl (rx_feed aopen) (Live ctx [] []) segs = Live ctx' [] [1, 2, 3]))"
proof -
  have ok: "aead_ok (\<lambda>k n a m. Some (m @ replicate 16 0)) (\<lambda>k n a c. Some (take (length c - 16) c))"
    by (simp add: aead_ok_def TAG_LEN_def)
  have k: "length (key (cipher_new (replicate 32 7))) = 32" by (simp add: cipher_new_def)
  have b: "unat (counter (cipher_new (replicate 32 7))) + block_count [[1, 2], [3]] < 2 ^ 64"
    by (simp add: cipher_new_def MAX_BLOCK_LEN_def chunks_short)
  show ?thesis
    using ok k b transport_end_to_end [OF ok k b] by (simp only: Let_def concat.simps append.simps simp_thms)
qed

end
