(* ===== verification/Rust_Ops.thy ===== *)
theory Rust_Ops
  imports Prelude "HOL-Library.Monad_Syntax"
begin

text \<open>
  The operations of Rust the audio code leans on: shifts whose amount is taken modulo
  the width (release build), arithmetic right shift, truncating division, casts between
  the integer types, and indexing that panics out of range. A panic is \<open>None\<close>.
\<close>

section \<open>Integers\<close>

definition shl :: "'a::len word \<Rightarrow> nat \<Rightarrow> 'a word" where
  "shl w n = push_bit (n mod LENGTH('a)) w"

definition shr :: "'a::len word \<Rightarrow> nat \<Rightarrow> 'a word" where
  "shr w n = drop_bit (n mod LENGTH('a)) w"

definition sar :: "'a::len word \<Rightarrow> nat \<Rightarrow> 'a word" where
  "sar w n = signed_drop_bit (n mod LENGTH('a)) w"

text \<open>Signed division, rounding towards zero.\<close>

definition tdiv :: "int \<Rightarrow> int \<Rightarrow> int" where
  "tdiv a b = (let q = \<bar>a\<bar> div \<bar>b\<bar> in if (a < 0) = (b < 0) then q else - q)"

definition leading_zeros :: "'a::len word \<Rightarrow> nat" where
  "leading_zeros w = length (takeWhile (\<lambda>i. \<not> bit w i) (rev [0..<LENGTH('a)]))"

lemma shl_of_nat: "n < LENGTH('a) \<Longrightarrow> shl (of_nat k :: 'a::len word) n = of_nat (k * 2 ^ n)"
  by (simp add: shl_def push_bit_of_nat push_bit_eq_mult)

lemma unat_shr: "n < LENGTH('a) \<Longrightarrow> unat (shr (w :: 'a::len word) n) = unat w div 2 ^ n"
  unfolding shr_def by (simp only: mod_less unat_drop_bit_eq) (simp add: drop_bit_eq_div)

lemma unat_push_bit: "unat (push_bit n (w :: 'a::len word)) = unat w * 2 ^ n mod 2 ^ LENGTH('a)"
  unfolding unsigned_push_bit_eq by (simp only: take_bit_eq_mod push_bit_eq_mult)

lemma unat_take_bit: "unat (take_bit n (w :: 'a::len word)) = unat w mod 2 ^ n"
  unfolding unsigned_take_bit_eq by (simp only: take_bit_eq_mod)

lemma unat_shl: "n < LENGTH('a) \<Longrightarrow> unat (shl (w :: 'a::len word) n) = unat w * 2 ^ n mod 2 ^ LENGTH('a)"
  by (simp only: shl_def mod_less unat_push_bit)

lemma unat_ucast_mod: "unat (ucast (w :: 'a::len word) :: 'b::len word) = unat w mod 2 ^ LENGTH('b)"
  unfolding unsigned_ucast_eq by (simp only: take_bit_eq_mod)

lemma unat_add_mod: "unat (a + b :: 'a::len word) = (unat a + unat b) mod 2 ^ LENGTH('a)"
  by (rule unat_word_ariths)

text \<open>Truncation to a narrower type commutes with addition.\<close>

lemma ucast_add_down:
  assumes "LENGTH('b) \<le> LENGTH('a)"
  shows "(ucast (x + y :: 'a::len word) :: 'b::len word) = ucast x + ucast y"
proof -
  have "(2::nat) ^ LENGTH('b) dvd 2 ^ LENGTH('a)" using assms by (rule le_imp_power_dvd)
  then have "unat (ucast (x + y) :: 'b word) = unat (ucast x + ucast y :: 'b word)"
    unfolding unat_ucast_mod unat_add_mod by (simp add: mod_mod_cancel mod_add_eq)
  then show ?thesis by (simp only: word_unat_eq_iff)
qed

lemma ucast_scast_down:
  "LENGTH('a) \<le> LENGTH('b) \<Longrightarrow> (ucast (scast (w :: 'a::len word) :: 'b::len word) :: 'a word) = w"
  by (rule bit_word_eqI) (auto simp: bit_unsigned_iff bit_signed_iff)

section \<open>Checked indexing\<close>

definition get_at :: "'a list \<Rightarrow> nat \<Rightarrow> 'a option" where
  "get_at xs i = (if i < length xs then Some (xs ! i) else None)"

definition set_at :: "'a list \<Rightarrow> nat \<Rightarrow> 'a \<Rightarrow> 'a list option" where
  "set_at xs i v = (if i < length xs then Some (xs[i := v]) else None)"

definition slice_at :: "nat \<Rightarrow> nat \<Rightarrow> 'a list \<Rightarrow> 'a list option" where
  "slice_at i j xs = (if i \<le> j \<and> j \<le> length xs then Some (slice i j xs) else None)"

text \<open>\<open>dst[i..i + src.len()].copy_from_slice(src)\<close>.\<close>

definition write_at :: "nat \<Rightarrow> 'a list \<Rightarrow> 'a list \<Rightarrow> 'a list option" where
  "write_at i src dst = (if i + length src \<le> length dst then Some (copy_at i src dst) else None)"

text \<open>A \<open>for\<close> loop whose body may panic.\<close>

primrec for_each :: "('s \<Rightarrow> 'a \<Rightarrow> 's option) \<Rightarrow> 's \<Rightarrow> 'a list \<Rightarrow> 's option" where
  "for_each f s [] = Some s"
| "for_each f s (x # xs) = f s x \<bind> (\<lambda>s'. for_each f s' xs)"

lemma for_each_append:
  "for_each f s (xs @ ys) = for_each f s xs \<bind> (\<lambda>s'. for_each f s' ys)"
  by (induction xs arbitrary: s) (auto split: Option.bind_splits)

lemma get_at_in [simp]: "i < length xs \<Longrightarrow> get_at xs i = Some (xs ! i)"
  by (simp add: get_at_def)

lemma set_at_in [simp]: "i < length xs \<Longrightarrow> set_at xs i v = Some (xs[i := v])"
  by (simp add: set_at_def)

lemma set_at_SomeD: "set_at xs i v = Some ys \<Longrightarrow> i < length xs \<and> ys = xs[i := v]"
  by (auto simp: set_at_def split: if_splits)

lemma write_at_SomeD:
  "write_at i src dst = Some ys \<Longrightarrow> i + length src \<le> length dst \<and> ys = copy_at i src dst"
  by (auto simp: write_at_def split: if_splits)

text \<open>An invariant of a loop body that does not panic is an invariant of the loop.\<close>

lemma for_each_total:
  assumes "\<And>s x. P s \<Longrightarrow> x \<in> set xs \<Longrightarrow> \<exists>s'. f s x = Some s' \<and> P s'" and "P s"
  shows "\<exists>s'. for_each f s xs = Some s' \<and> P s'"
  using assms
proof (induction xs arbitrary: s)
  case (Cons x xs)
  from Cons.prems(1) [of s x] Cons.prems(2) obtain s' where "f s x = Some s'" "P s'" by auto
  moreover obtain s'' where "for_each f s' xs = Some s''" "P s''"
    using Cons.IH [OF _ \<open>P s'\<close>] Cons.prems(1) by (meson list.set_intros(2))
  ultimately show ?case by simp
qed simp

lemma for_each_invar:
  assumes "\<And>s x s'. P s \<Longrightarrow> x \<in> set xs \<Longrightarrow> f s x = Some s' \<Longrightarrow> P s'"
    and "P s" and "for_each f s xs = Some s'"
  shows "P s'"
  using assms
proof (induction xs arbitrary: s)
  case (Cons x xs)
  from Cons.prems(3) obtain t where t: "f s x = Some t" "for_each f t xs = Some s'"
    by (auto split: Option.bind_splits)
  moreover have "P t" using Cons.prems(1) [of s x t] Cons.prems(2) t by simp
  ultimately show ?case
    using Cons.IH [of t] Cons.prems(1) by (meson list.set_intros(2))
qed simp

end
