(* ===== verification/Alac_Bits.thy ===== *)
theory Alac_Bits
  imports Rust_Ops
begin

text \<open>
  The bit reader of the ALAC decoder (src/codec/alac.rs) and the entropy coder on top
  of it. The reader refines a plain bit string: \<open>bits_from\<close> is the (zero-extended)
  string from a reader's position on, and reading \<open>n \<le> 32\<close> bits takes the number
  its first \<open>n\<close> bits spell.
\<close>

section \<open>Model\<close>

record bit_reader =
  rbuf :: bytes
  rpos :: nat
  rbit :: u32

definition reader_new :: "bytes \<Rightarrow> bit_reader" where
  "reader_new buf = \<lparr>rbuf = buf, rpos = 0, rbit = 0\<rparr>"

definition byte_or_0 :: "bytes \<Rightarrow> nat \<Rightarrow> u32" where
  "byte_or_0 b p = (if p < length b then ucast (b ! p) else 0)"

definition readbits_16 :: "bit_reader \<Rightarrow> u32 \<Rightarrow> u32 \<times> bit_reader" where
  "readbits_16 r bits =
     (let b = rbuf r;
          p = rpos r;
          b0 = byte_or_0 b p;
          b1 = byte_or_0 b (p + 1);
          b2 = byte_or_0 b (p + 2);
          result = (shl b0 16) OR (shl b1 8) OR b2;
          result = (shl result (unat (rbit r))) AND 0x00ffffff;
          result = shr result (unat (24 - bits));
          new_acc = rbit r + bits
      in (result, r\<lparr>rpos := rpos r + unat (shr new_acc 3), rbit := new_acc AND 7\<rparr>))"

definition readbits :: "bit_reader \<Rightarrow> u32 \<Rightarrow> u32 \<times> bit_reader" where
  "readbits r bits =
     (if bits > 16 then
        let (hi, r1) = readbits_16 r 16;
            (lo, r2) = readbits_16 r1 (bits - 16)
        in (shl hi (unat (bits - 16)) OR lo, r2)
      else readbits_16 r bits)"

definition readbit :: "bit_reader \<Rightarrow> u32 \<times> bit_reader" where
  "readbit r =
     (let result = byte_or_0 (rbuf r) (rpos r);
          result = shr (shl result (unat (rbit r))) 7 AND 1;
          new_acc = rbit r + 1
      in (result, r\<lparr>rpos := rpos r + unat (new_acc div 8), rbit := new_acc mod 8\<rparr>))"

text \<open>Positions are \<open>usize\<close>; the total is computed in \<open>i64\<close>.\<close>

definition unreadbits :: "bit_reader \<Rightarrow> u32 \<Rightarrow> bit_reader" where
  "unreadbits r bits =
     (let total = int (rpos r) * 8 + int (unat (rbit r)) - int (unat bits)
      in r\<lparr>rpos := nat (tdiv total 8 mod 2 ^ 64), rbit := of_int (total mod 8)\<rparr>)"

definition count_leading_zeros :: "u32 \<Rightarrow> u32" where
  "count_leading_zeros input =
     (if input = 0 then 32 else of_nat (leading_zeros input))"

definition sign_extend_32 :: "i32 \<Rightarrow> u32 \<Rightarrow> i32" where
  "sign_extend_32 val bits = sar (shl val (unat (32 - bits))) (unat (32 - bits))"

definition sign_extend_24 :: "i32 \<Rightarrow> i32" where
  "sign_extend_24 val = sar (shl val 8) 8"

definition sign_only :: "i32 \<Rightarrow> i32" where
  "sign_only v = (if sint v < 0 then - 1 else if sint v > 0 then 1 else 0)"

definition RICE_THRESHOLD :: nat where "RICE_THRESHOLD = 8"

text \<open>The loop that counts the leading ones of a code word.\<close>

function rice_prefix :: "bit_reader \<Rightarrow> nat \<Rightarrow> nat \<times> bit_reader" where
  "rice_prefix r x =
     (if x \<le> RICE_THRESHOLD then
        let (b, r1) = readbit r in if b \<noteq> 0 then rice_prefix r1 (x + 1) else (x, r1)
      else (x, r))"
  by pat_completeness auto
termination
  by (relation "measure (\<lambda>(r, x). Suc RICE_THRESHOLD - x)") auto

declare rice_prefix.simps [simp del]

definition entropy_decode_value :: "bit_reader \<Rightarrow> u32 \<Rightarrow> u32 \<Rightarrow> u32 \<Rightarrow> i32 \<times> bit_reader" where
  "entropy_decode_value reader read_sample_size k rice_kmodifier_mask =
     (let (x, r) = rice_prefix reader 0 in
      if x > RICE_THRESHOLD then
        let (value, r1) = readbits r read_sample_size
        in (value AND shr 0xffffffff (unat (32 - read_sample_size)), r1)
      else if k \<noteq> 1 then
        let (extra_bits, r1) = readbits r k;
            x1 = of_nat x * ((shl 1 (unat k) - 1) AND rice_kmodifier_mask)
        in if extra_bits > 1 then (x1 + (extra_bits - 1), r1) else (x1, unreadbits r1 1)
      else (of_nat x, r))"

record rice_params =
  initial_history :: u32
  k_modifier :: u32
  history_mult :: u32
  k_modifier_mask :: u32

text \<open>The parameter of the next code word.\<close>

definition rice_k :: "rice_params \<Rightarrow> i32 \<Rightarrow> u32" where
  "rice_k rice history =
     (let v = 31 - k_modifier rice - count_leading_zeros (sar history 9 + 3)
      in if sint v < 0 then v + k_modifier rice else k_modifier rice)"

definition rice_final :: "i32 \<Rightarrow> i32" where
  "rice_final decoded_value =
     (let v = of_int (tdiv (sint (decoded_value + 1)) 2)
      in if decoded_value AND 1 \<noteq> 0 then - v else v)"

definition rice_history :: "rice_params \<Rightarrow> i32 \<Rightarrow> i32 \<Rightarrow> i32" where
  "rice_history rice history decoded_value =
     (let h = history + (decoded_value * history_mult rice - sar (history * history_mult rice) 9)
      in if sint decoded_value > 0xFFFF then 0xFFFF else h)"

function rice_loop ::
  "nat \<Rightarrow> u32 \<Rightarrow> rice_params \<Rightarrow> bit_reader \<Rightarrow> i32 list \<Rightarrow> i32 \<Rightarrow> i32 \<Rightarrow> nat
     \<Rightarrow> (bit_reader \<times> i32 list) option" where
  "rice_loop output_size read_sample_size rice reader output history sign_modifier i =
     (if i < output_size then
        let k = rice_k rice history;
            (raw, r1) = entropy_decode_value reader read_sample_size k 0xFFFFFFFF;
            decoded_value = raw + sign_modifier
        in set_at output i (rice_final decoded_value) \<bind> (\<lambda>output1.
           let history1 = rice_history rice history decoded_value in
           if sint history1 < 128 \<and> i + 1 < output_size then
             let k = count_leading_zeros history1 + (history1 + 16) div 64 - 24;
                 (block_size, r2) = entropy_decode_value r1 16 k (k_modifier_mask rice);
                 sign_modifier1 = (if sint block_size > 0xFFFF then 0 else 1)
             in if sint block_size > 0 then
                  let stop = min (i + 1 + unat block_size) output_size in
                  slice_at (i + 1) stop output1 \<bind> (\<lambda>_.
                  rice_loop output_size read_sample_size rice r2
                    (copy_at (i + 1) (replicate (stop - (i + 1)) 0) output1) 0 sign_modifier1
                    (stop - 1 + 1))
                else rice_loop output_size read_sample_size rice r2 output1 0 sign_modifier1 (i + 1)
           else rice_loop output_size read_sample_size rice r1 output1 history1 0 (i + 1))
      else Some (reader, output))"
  by pat_completeness auto
termination
  by (relation "measure (\<lambda>(output_size, _, _, _, _, _, _, i). output_size - i)") auto

declare rice_loop.simps [simp del]

definition entropy_rice_decode ::
  "bit_reader \<Rightarrow> i32 list \<Rightarrow> nat \<Rightarrow> u32 \<Rightarrow> rice_params \<Rightarrow> (bit_reader \<times> i32 list) option" where
  "entropy_rice_decode reader output output_size read_sample_size rice =
     rice_loop output_size read_sample_size rice reader output (initial_history rice) 0 0"

section \<open>Numbers spelled by bits\<close>

definition val_of_bits :: "bool list \<Rightarrow> nat" where
  "val_of_bits bs = foldl (\<lambda>a b. 2 * a + of_bool b) 0 bs"

lemma foldl_bits: "foldl (\<lambda>a b. 2 * a + of_bool b) k bs = k * 2 ^ length bs + val_of_bits bs"
proof (induction bs arbitrary: k)
  case (Cons b bs)
  have "val_of_bits (b # bs) = of_bool b * 2 ^ length bs + val_of_bits bs"
    using Cons [of "of_bool b"] by (simp add: val_of_bits_def)
  with Cons [of "2 * k + of_bool b"] show ?case by (simp add: algebra_simps)
qed (simp add: val_of_bits_def)

lemma val_of_bits_append: "val_of_bits (as @ bs) = val_of_bits as * 2 ^ length bs + val_of_bits bs"
  using foldl_bits [of "val_of_bits as" bs] by (simp add: val_of_bits_def)

lemma val_of_bits_Nil [simp]: "val_of_bits [] = 0"
  and val_of_bits_single [simp]: "val_of_bits [b] = of_bool b"
  by (simp_all add: val_of_bits_def)

lemma val_of_bits_bound: "val_of_bits bs < 2 ^ length bs"
proof (induction bs rule: rev_induct)
  case (snoc b bs)
  then show ?case by (cases b) (auto simp: val_of_bits_append)
qed simp

lemma val_of_bits_middle:
  "(val_of_bits (a @ m @ c) * 2 ^ length a mod 2 ^ length (a @ m @ c)) div 2 ^ (length a + length c)
    = val_of_bits m"
proof -
  let ?r = "val_of_bits (m @ c)" and ?L = "length (a @ m @ c)"
  have "val_of_bits (a @ m @ c) * 2 ^ length a = val_of_bits a * 2 ^ ?L + ?r * 2 ^ length a"
    by (simp add: val_of_bits_append power_add algebra_simps)
  moreover have "?r * 2 ^ length a < 2 ^ ?L"
    using val_of_bits_bound [of "m @ c"] by (simp add: power_add)
  ultimately have "val_of_bits (a @ m @ c) * 2 ^ length a mod 2 ^ ?L = ?r * 2 ^ length a" by simp
  then have "(val_of_bits (a @ m @ c) * 2 ^ length a mod 2 ^ ?L) div 2 ^ (length a + length c)
      = ?r div 2 ^ length c"
    by (simp add: power_add)
  also have "\<dots> = val_of_bits m"
    using val_of_bits_bound [of c] by (simp add: val_of_bits_append)
  finally show ?thesis .
qed

lemma val_of_bits_window:
  assumes "s + n \<le> length xs"
  shows "(val_of_bits xs * 2 ^ s mod 2 ^ length xs) div 2 ^ (length xs - n)
    = val_of_bits (take n (drop s xs))"
proof -
  obtain a m c where xs: "xs = a @ m @ c" and l: "length a = s" "length m = n"
  proof (rule that)
    show "xs = take s xs @ take n (drop s xs) @ drop n (drop s xs)"
      by (simp only: append_take_drop_id)
  qed (use assms in auto)
  moreover have "length xs - n = length a + length c" using xs l by simp
  ultimately show ?thesis using val_of_bits_middle [of a m c] by simp
qed

section \<open>The reader refines a bit string\<close>

definition bit_at :: "bytes \<Rightarrow> nat \<Rightarrow> bool" where
  "bit_at buf i \<longleftrightarrow> i div 8 < length buf \<and> bit (buf ! (i div 8)) (7 - i mod 8)"

definition peek :: "bytes \<Rightarrow> nat \<Rightarrow> nat \<Rightarrow> bool list" where
  "peek buf p n = map (bit_at buf) [p..<p + n]"

definition position :: "bit_reader \<Rightarrow> nat" where
  "position r = rpos r * 8 + unat (rbit r)"

definition reader_ok :: "bit_reader \<Rightarrow> bool" where
  "reader_ok r \<longleftrightarrow> unat (rbit r) < 8"

lemma length_peek [simp]: "length (peek buf p n) = n"
  by (simp add: peek_def)

lemma peek_add: "peek buf p (m + n) = peek buf p m @ peek buf (p + m) n"
proof -
  have "[p..<p + (m + n)] = [p..<p + m] @ [p + m..<p + m + n]"
    by (metis add.assoc le_add1 upt_add_eq_append)
  then show ?thesis by (simp add: peek_def add.assoc)
qed

definition bits_of_nat :: "nat \<Rightarrow> nat \<Rightarrow> bool list" where
  "bits_of_nat n k = map (bit k) (rev [0..<n])"

lemma length_bits_of_nat [simp]: "length (bits_of_nat n k) = n"
  by (simp add: bits_of_nat_def)

lemma val_of_bits_zeros [simp]: "val_of_bits (replicate n False) = 0"
  by (induction n) (simp_all add: val_of_bits_def)

lemma val_of_bits_horner: "val_of_bits bs = horner_sum of_bool 2 (rev bs)"
  by (induction bs rule: rev_induct) (simp_all add: val_of_bits_append)

lemma val_of_bits_of_nat [simp]: "val_of_bits (bits_of_nat n k) = k mod 2 ^ n"
proof -
  have "rev (bits_of_nat n k) = map (bit k) [0..<n]" by (simp add: bits_of_nat_def rev_map)
  then show ?thesis by (simp add: val_of_bits_horner horner_sum_bit_eq_take_bit take_bit_eq_mod)
qed

lemma peek_byte: "val_of_bits (peek buf (8 * p) 8) = unat (byte_or_0 buf p)"
proof -
  have "peek buf (8 * p) 8 = bits_of_nat 8 (unat (byte_or_0 buf p))"
  proof (rule nth_equalityI)
    fix i
    assume "i < length (peek buf (8 * p) 8)"
    then have i: "i < 8" by simp
    then have "[8 * p..<8 * p + 8] ! i = 8 * p + i" by simp
    moreover have "(8 * p + i) div 8 = p" "(8 * p + i) mod 8 = i" using i by auto
    moreover have "rev [0..<8] ! i = 7 - i" using i by (simp add: rev_nth)
    moreover have "7 - i < 32" by simp
    ultimately show "peek buf (8 * p) 8 ! i = bits_of_nat 8 (unat (byte_or_0 buf p)) ! i"
      using i by (simp add: peek_def bits_of_nat_def bit_at_def byte_or_0_def unat_ucast_up
          bit_unsigned_iff del: upt_Suc)
  qed simp
  moreover have "unat (byte_or_0 buf p) < 2 ^ 8"
    using unat_byte [of "buf ! p"] by (simp add: byte_or_0_def unat_ucast_up)
  ultimately show ?thesis by simp
qed

lemma or_byte_disjoint:
  "n \<le> 24 \<Longrightarrow> unat b < 2 ^ n \<Longrightarrow> unat (push_bit n (a::u32) OR b) = unat (push_bit n a) + unat b"
proof -
  assume n: "n \<le> 24" "unat b < 2 ^ n"
  have "\<not> bit (push_bit n a) i \<or> \<not> bit b i" for i
  proof (cases "i < n")
    case False
    with n have "\<not> bit (unat b) i"
      by (metis bit_take_bit_iff take_bit_nat_eq_self_iff)
    then show ?thesis by (simp add: bit_unsigned_iff)
  qed (simp add: bit_push_bit_iff)
  then have "push_bit n a OR b = push_bit n a + b"
    by (intro disjunctive_add [symmetric]) auto
  moreover have "unat (push_bit n a) + unat b < 2 ^ 32"
  proof -
    have "(2::nat) ^ 32 = 2 ^ n * 2 ^ (32 - n)" using n(1) by (simp flip: power_add)
    moreover have "unat (push_bit n a) = 2 ^ n * unat a mod 2 ^ 32"
      by (simp only: unat_push_bit mult.commute) simp
    ultimately have eq: "unat (push_bit n a) = 2 ^ n * (unat a mod 2 ^ (32 - n))"
      by (simp only: mult_mod_right)
    have "unat a mod 2 ^ (32 - n) + 1 \<le> 2 ^ (32 - n)" by (simp add: Suc_leI)
    then have "2 ^ n * (unat a mod 2 ^ (32 - n) + 1) \<le> 2 ^ n * 2 ^ (32 - n)" by (rule mult_le_mono2)
    also have "(2::nat) ^ n * 2 ^ (32 - n) = 2 ^ 32" using n by (simp flip: power_add)
    finally show ?thesis using n eq by simp
  qed
  ultimately show ?thesis by (simp add: unat_word_ariths)
qed

lemma window_value:
  "unat (shl (byte_or_0 b p) 16 OR shl (byte_or_0 b (p + 1)) 8 OR byte_or_0 b (p + 2))
    = val_of_bits (peek b (8 * p) 24)"
proof -
  let ?b = "\<lambda>i. byte_or_0 b (p + i)"
  have lt: "unat (?b i) < 2 ^ 8" for i
    using unat_byte [of "b ! (p + i)"] by (simp add: byte_or_0_def unat_ucast_up)
  have s: "unat (push_bit n (?b i)) = unat (?b i) * 2 ^ n" if "n \<le> 16" for n i
  proof -
    have "unat (?b i) * 2 ^ n < 2 ^ 8 * 2 ^ 16"
      using lt [of i] that by (intro mult_less_le_imp_less power_increasing) auto
    then show ?thesis by (simp only: unat_push_bit) simp
  qed
  have "peek b (8 * p) 24 = peek b (8 * p) 8 @ peek b (8 * (p + 1)) 8 @ peek b (8 * (p + 2)) 8"
    using peek_add [of b "8 * p" 8 16] peek_add [of b "8 * p + 8" 8 8]
    by (simp add: add.commute)
  then have "val_of_bits (peek b (8 * p) 24)
      = unat (?b 0) * 2 ^ 16 + (unat (?b 1) * 2 ^ 8 + unat (?b 2))"
    by (simp only: val_of_bits_append peek_byte length_append length_peek) simp
  moreover have "unat (push_bit 8 (?b 1) OR ?b 2) = unat (?b 1) * 2 ^ 8 + unat (?b 2)"
    using or_byte_disjoint [of 8 "?b 2" "?b 1"] lt [of 2] s [of 8 1] by simp
  moreover from this have "unat (push_bit 8 (?b 1) OR ?b 2) < 2 ^ 16"
    using lt [of 1] lt [of 2] by simp
  ultimately show ?thesis
    using or_byte_disjoint [of 16 "push_bit 8 (?b 1) OR ?b 2" "?b 0"] s [of 16 0]
    by (simp add: shl_def)
qed

lemma readbits_16_spec:
  assumes "reader_ok r" and "unat bits \<le> 16"
  shows "unat (fst (readbits_16 r bits)) = val_of_bits (peek (rbuf r) (position r) (unat bits))"
    and "rbuf (snd (readbits_16 r bits)) = rbuf r"
    and "position (snd (readbits_16 r bits)) = position r + unat bits"
    and "reader_ok (snd (readbits_16 r bits))"
proof -
  let ?s = "unat (rbit r)"
  let ?w = "shl (byte_or_0 (rbuf r) (rpos r)) 16 OR shl (byte_or_0 (rbuf r) (rpos r + 1)) 8
      OR byte_or_0 (rbuf r) (rpos r + 2)"
  let ?xs = "peek (rbuf r) (8 * rpos r) 24"
  have s: "?s < 8" using assms by (simp add: reader_ok_def)
  have acc: "unat (rbit r + bits) = ?s + unat bits"
    using s assms(2) by (simp add: unat_word_ariths)
  have m: "unat (w AND 0x00ffffff :: u32) = unat w mod 2 ^ 24" for w
  proof -
    have "(w AND 0x00ffffff) = take_bit 24 w" by (simp add: take_bit_eq_mask mask_eq_exp_minus_1)
    then show ?thesis by (simp only: unat_take_bit)
  qed
  have "unat (shl ?w ?s AND 0x00ffffff) = val_of_bits ?xs * 2 ^ ?s mod 2 ^ 24"
  proof -
    have "unat (shl ?w ?s) = val_of_bits ?xs * 2 ^ ?s mod 2 ^ 32"
      using s unat_shl [of ?s ?w] by (simp only: window_value) simp
    then show ?thesis by (simp only: m) (simp add: mod_mod_cancel)
  qed
  moreover have "unat (24 - bits) = 24 - unat bits"
    using assms(2) by (simp add: unat_sub word_le_nat_alt)
  ultimately have "unat (fst (readbits_16 r bits))
      = (val_of_bits ?xs * 2 ^ ?s mod 2 ^ length ?xs) div 2 ^ (length ?xs - unat bits)"
    by (simp add: readbits_16_def Let_def unat_shr)
  also have "\<dots> = val_of_bits (take (unat bits) (drop ?s ?xs))"
    by (rule val_of_bits_window) (use s assms(2) in simp)
  also have "take (unat bits) (drop ?s ?xs) = peek (rbuf r) (position r) (unat bits)"
  proof -
    have "?xs = peek (rbuf r) (8 * rpos r) ?s @ peek (rbuf r) (8 * rpos r + ?s) (unat bits)
        @ peek (rbuf r) (8 * rpos r + ?s + unat bits) (24 - ?s - unat bits)"
      using peek_add [of "rbuf r" "8 * rpos r" ?s "24 - ?s"]
        peek_add [of "rbuf r" "8 * rpos r + ?s" "unat bits" "24 - ?s - unat bits"] s assms(2) by simp
    then show ?thesis by (simp add: position_def mult.commute)
  qed
  finally show "unat (fst (readbits_16 r bits)) = val_of_bits (peek (rbuf r) (position r) (unat bits))" .
  have a7: "unat ((rbit r + bits) AND 7) = (?s + unat bits) mod 8"
  proof -
    have "(rbit r + bits) AND 7 = take_bit 3 (rbit r + bits)"
      by (simp add: take_bit_eq_mask mask_eq_exp_minus_1)
    then show ?thesis by (simp only: unat_take_bit acc) simp
  qed
  show "rbuf (snd (readbits_16 r bits)) = rbuf r" by (simp add: readbits_16_def Let_def)
  show "position (snd (readbits_16 r bits)) = position r + unat bits"
    by (simp add: readbits_16_def Let_def position_def a7 unat_shr acc)
  show "reader_ok (snd (readbits_16 r bits))"
    by (simp add: readbits_16_def Let_def reader_ok_def a7)
qed

lemma readbits_spec:
  assumes ok: "reader_ok r" and b: "unat bits \<le> 32"
  shows "unat (fst (readbits r bits)) = val_of_bits (peek (rbuf r) (position r) (unat bits))"
    and "rbuf (snd (readbits r bits)) = rbuf r"
    and "position (snd (readbits r bits)) = position r + unat bits"
    and "reader_ok (snd (readbits r bits))"
proof -
  let ?v = "unat (fst (readbits r bits)) = val_of_bits (peek (rbuf r) (position r) (unat bits))"
  let ?p = "rbuf (snd (readbits r bits)) = rbuf r
    \<and> position (snd (readbits r bits)) = position r + unat bits \<and> reader_ok (snd (readbits r bits))"
  have "?v \<and> ?p"
  proof (cases "bits > 16")
    case False
    then have "unat bits \<le> 16" by (simp add: word_le_nat_alt not_less)
    with False readbits_16_spec [OF ok] show ?thesis by (simp add: readbits_def)
  next
    case True
    let ?hi = "fst (readbits_16 r 16)" and ?r1 = "snd (readbits_16 r 16)"
    let ?lo = "fst (readbits_16 ?r1 (bits - 16))"
    have n: "unat (bits - 16) = unat bits - 16"
      using True by (simp add: unat_sub word_le_nat_alt less_imp_le word_less_nat_alt)
    have n16: "unat (bits - 16) \<le> 16" using n b by simp
    have gt: "16 < unat bits" using True by (simp add: word_less_nat_alt)
    note h = readbits_16_spec [OF ok, of 16, simplified]
    note l = readbits_16_spec [OF h(4) n16, unfolded h(2,3)]
    have lo: "unat ?lo < 2 ^ (unat bits - 16)"
      using val_of_bits_bound [of "peek (rbuf r) (position r + 16) (unat bits - 16)"] l(1) n by simp
    have hi: "unat ?hi < 2 ^ 16" using val_of_bits_bound [of "peek (rbuf r) (position r) 16"] h(1) by simp
    have "unat ?hi * 2 ^ (unat bits - 16) < 2 ^ 16 * 2 ^ 16"
      using hi n16 n by (intro mult_less_le_imp_less power_increasing) auto
    then have "unat (push_bit (unat bits - 16) ?hi) = unat ?hi * 2 ^ (unat bits - 16)"
      by (simp only: unat_push_bit) simp
    then have "unat (shl ?hi (unat (bits - 16)) OR ?lo) = unat ?hi * 2 ^ (unat bits - 16) + unat ?lo"
      using or_byte_disjoint [of "unat bits - 16" ?lo ?hi] lo n16 n by (simp add: shl_def)
    also have "\<dots> = val_of_bits (peek (rbuf r) (position r) (unat bits))"
      using peek_add [of "rbuf r" "position r" 16 "unat bits - 16"] gt h(1) l(1) n
      by (simp add: val_of_bits_append)
    finally have ?v using True by (simp add: readbits_def split_beta)
    moreover have ?p using True h l n gt by (simp add: readbits_def split_beta)
    ultimately show ?thesis by simp
  qed
  then show ?v and "rbuf (snd (readbits r bits)) = rbuf r"
    and "position (snd (readbits r bits)) = position r + unat bits"
    and "reader_ok (snd (readbits r bits))" by auto
qed

text \<open>A well-formed reader is determined by its buffer and bit position.\<close>

definition reader_at :: "bytes \<Rightarrow> nat \<Rightarrow> bit_reader" where
  "reader_at buf p = \<lparr>rbuf = buf, rpos = p div 8, rbit = of_nat (p mod 8)\<rparr>"

lemma reader_at_eqI: "reader_ok r \<Longrightarrow> rbuf r = buf \<Longrightarrow> position r = p \<Longrightarrow> r = reader_at buf p"
  by (rule bit_reader.equality) (auto simp: reader_at_def reader_ok_def position_def)

lemma reader_at_props [simp]:
  "reader_ok (reader_at buf p)" "rbuf (reader_at buf p) = buf" "position (reader_at buf p) = p"
proof -
  have "unat (of_nat (p mod 8) :: u32) = p mod 8"
    by (simp add: unat_of_nat order_less_trans [of "p mod 8" 8])
  then show "reader_ok (reader_at buf p)" "rbuf (reader_at buf p) = buf"
    "position (reader_at buf p) = p"
    by (simp_all add: reader_ok_def reader_at_def position_def)
qed

lemma reader_new_at: "reader_new buf = reader_at buf 0"
  by (simp add: reader_new_def reader_at_def)

lemma readbits_at:
  assumes "unat n \<le> 32"
  shows "readbits (reader_at buf p) n
    = (of_nat (val_of_bits (peek buf p (unat n))), reader_at buf (p + unat n))"
proof -
  note * = readbits_spec [of "reader_at buf p", OF _ assms, simplified]
  have "fst (readbits (reader_at buf p) n) = of_nat (val_of_bits (peek buf p (unat n)))"
    using *(1) by (metis of_nat_unat ucast_id)
  moreover have "snd (readbits (reader_at buf p) n) = reader_at buf (p + unat n)"
    using * by (intro reader_at_eqI) auto
  ultimately show ?thesis by (metis prod.collapse)
qed

lemma readbit_at:
  "readbit (reader_at buf p) = (of_bool (bit_at buf p), reader_at buf (p + 1))"
proof -
  let ?r = "reader_at buf p"
  have m: "p mod 8 < 8" by simp
  then have s: "unat (rbit ?r) = p mod 8"
    by (simp add: reader_at_def unat_of_nat order_less_trans [OF m])
  have "shr (shl w (p mod 8)) 7 AND 1 = (of_bool (bit w (7 - p mod 8)) :: u32)" for w :: u32
    using m by (simp add: shr_def shl_def and_one_eq odd_iff_mod_2_eq_one [symmetric]
        bit_iff_odd_drop_bit [symmetric] bit_push_bit_iff mod_2_eq_odd less_Suc_eq_le [symmetric])
  moreover have "bit (byte_or_0 buf (p div 8)) (7 - p mod 8) = bit_at buf p"
    using m by (auto simp: byte_or_0_def bit_at_def bit_unsigned_iff)
  ultimately have v: "fst (readbit ?r) = of_bool (bit_at buf p)"
    by (simp add: readbit_def Let_def s) (simp add: reader_at_def)
  have "unat (rbit ?r + 1) = p mod 8 + 1" using m s by (simp add: unat_word_ariths)
  then have "unat ((rbit ?r + 1) div 8) = (p mod 8 + 1) div 8"
    "unat ((rbit ?r + 1) mod 8) = (p mod 8 + 1) mod 8"
    by (simp_all add: unat_div unat_mod)
  then have "snd (readbit ?r) = reader_at buf (p + 1)"
    by (intro reader_at_eqI) (simp_all add: readbit_def Let_def reader_ok_def position_def, simp add: reader_at_def)
  with v show ?thesis by (metis prod.collapse)
qed

lemma unreadbits_at:
  assumes "0 < p" and "p < 2 ^ 64"
  shows "unreadbits (reader_at buf p) 1 = reader_at buf (p - 1)"
proof -
  let ?r = "reader_at buf p"
  have "int (rpos ?r) * 8 + int (unat (rbit ?r)) = int (position ?r)" by (simp add: position_def)
  then have t: "int (rpos ?r) * 8 + int (unat (rbit ?r)) - int (unat (1::u32)) = int (p - 1)"
    using assms(1) by simp
  have "(p - 1) div 8 < 2 ^ 64" using assms(2) div_le_dividend [of "p - 1" 8] by linarith
  then have "int ((p - 1) div 8) < 2 ^ 64" by (metis of_nat_less_iff of_nat_numeral of_nat_power)
  then have "int (p - 1) div 8 < 2 ^ 64" by (simp add: zdiv_int)
  then have d: "nat (tdiv (int (p - 1)) 8 mod 2 ^ 64) = (p - 1) div 8"
    by (simp add: tdiv_def Let_def nat_div_distrib mod_pos_pos_trivial)
  have m: "(of_int (int (p - 1) mod 8) :: u32) = of_nat ((p - 1) mod 8)"
    by (metis of_int_of_nat_eq of_nat_numeral zmod_int)
  show ?thesis
    unfolding unreadbits_def Let_def t d m by (simp add: reader_at_def)
qed

section \<open>Code words\<close>

text \<open>The code word of \<open>v\<close>: the quotient by \<open>2^k - 1\<close> in unary and the remainder in
  \<open>k - 1\<close> or \<open>k\<close> bits; a quotient above the threshold is escaped, and the value follows
  in full width.\<close>

definition rice_code :: "nat \<Rightarrow> nat \<Rightarrow> nat \<Rightarrow> bool list" where
  "rice_code width k v =
     (let q = v div (2 ^ k - 1); m = v mod (2 ^ k - 1) in
      if q > RICE_THRESHOLD then replicate (Suc RICE_THRESHOLD) True @ bits_of_nat width v
      else replicate q True @ False #
        (if k = 1 then [] else if m = 0 then replicate (k - 1) False else bits_of_nat k (m + 1)))"

lemma peek_Cons: "peek buf p (Suc n) = bit_at buf p # peek buf (Suc p) n"
  using peek_add [of buf p 1 n] by (simp add: peek_def)

lemma rice_prefix_ones:
  "peek buf p n = replicate n True \<Longrightarrow> x + n \<le> Suc RICE_THRESHOLD \<Longrightarrow>
   rice_prefix (reader_at buf p) x = rice_prefix (reader_at buf (p + n)) (x + n)"
proof (induction n arbitrary: p x)
  case (Suc n)
  then have "bit_at buf p" and rest: "peek buf (Suc p) n = replicate n True"
    by (auto simp: peek_Cons)
  with Suc.prems(2) have "rice_prefix (reader_at buf p) x = rice_prefix (reader_at buf (Suc p)) (Suc x)"
    by (subst rice_prefix.simps) (simp add: readbit_at)
  with Suc.IH [OF rest, of "Suc x"] Suc.prems(2) show ?case by simp
qed simp

lemma peek_append_split:
  "peek buf p (length (as @ bs)) = as @ bs \<longleftrightarrow>
   peek buf p (length as) = as \<and> peek buf (p + length as) (length bs) = bs"
  by (auto simp: peek_add append_eq_append_conv)

lemma unat_pow_minus_one: "k \<le> 31 \<Longrightarrow> unat (shl 1 k - 1 :: u32) = 2 ^ k - 1"
proof -
  assume k: "k \<le> 31"
  then have "(2::nat) ^ k < 2 ^ 32" by (intro power_strict_increasing) auto
  then have s: "unat (shl 1 k :: u32) = 2 ^ k" using k by (simp add: unat_shl)
  then have "(1::u32) \<le> shl 1 k" by (simp add: word_le_nat_alt)
  then show ?thesis using s by (simp add: unat_sub)
qed

lemma drop_bit_ones: "m \<le> 32 \<Longrightarrow> drop_bit m (0xffffffff :: u32) = mask (32 - m)"
proof -
  assume m: "m \<le> 32"
  have "(0xffffffff :: u32) = - 1" by simp
  then have "bit (drop_bit m (0xffffffff :: u32)) i = bit (mask (32 - m) :: u32) i" for i
    using m by (simp only: bit_drop_bit_eq bit_minus_1_iff bit_mask_iff o_def possible_bit_word) auto
  then show ?thesis by (rule bit_eqI)
qed

lemma entropy_decode_escape:
  assumes "peek buf p (Suc RICE_THRESHOLD + n) = replicate (Suc RICE_THRESHOLD) True @ bits_of_nat n v"
    and "v < 2 ^ n" and "1 \<le> n" and "n \<le> 32"
  shows "entropy_decode_value (reader_at buf p) (of_nat n) k m
    = (of_nat v, reader_at buf (p + Suc RICE_THRESHOLD + n))"
proof -
  let ?p = "p + Suc RICE_THRESHOLD"
  have pk: "peek buf p (Suc RICE_THRESHOLD) = replicate (Suc RICE_THRESHOLD) True"
    "peek buf ?p n = bits_of_nat n v"
    using assms(1) peek_append_split [of buf p "replicate (Suc RICE_THRESHOLD) True" "bits_of_nat n v"]
    by simp_all
  have pre: "rice_prefix (reader_at buf p) 0 = (Suc RICE_THRESHOLD, reader_at buf ?p)"
    using rice_prefix_ones [OF pk(1), of 0] by (simp add: rice_prefix.simps)
  have n: "unat (of_nat n :: u32) = n" using assms(4) by (simp add: unat_of_nat)
  have rd: "readbits (reader_at buf ?p) (of_nat n) = (of_nat v, reader_at buf (?p + n))"
    using readbits_at [of "of_nat n" buf ?p] assms(2,4) n pk(2) by simp
  have "unat (32 - of_nat n :: u32) = 32 - n"
    using assms(4) n by (simp add: unat_sub word_le_nat_alt)
  moreover have "drop_bit (32 - n) (0xffffffff :: u32) = mask n"
    using drop_bit_ones [of "32 - n"] assms(4) by simp
  ultimately have "shr 0xffffffff (unat (32 - of_nat n :: u32)) = (mask n :: u32)"
    using assms(3) by (simp add: shr_def)
  moreover have "(of_nat v :: u32) AND mask n = of_nat v"
    using assms(2) by (simp add: take_bit_eq_mask [symmetric] take_bit_of_nat take_bit_nat_eq_self)
  ultimately show ?thesis
    using pre rd by (simp add: entropy_decode_value_def)
qed

lemma entropy_decode_short:
  assumes pk: "peek buf p (Suc q) = replicate q True @ [False]" and q: "q \<le> RICE_THRESHOLD"
    and k: "2 \<le> k" "k \<le> 31"
  shows "entropy_decode_value (reader_at buf p) n (of_nat k) 0xFFFFFFFF
    = (let e = val_of_bits (peek buf (p + Suc q) k) in
       if e > 1 then (of_nat (q * (2 ^ k - 1) + (e - 1)), reader_at buf (p + Suc q + k))
       else (of_nat (q * (2 ^ k - 1)), unreadbits (reader_at buf (p + Suc q + k)) 1))"
proof -
  define s where "s = p + Suc q"
  have pk': "peek buf p q = replicate q True" "\<not> bit_at buf (p + q)"
    using pk peek_append_split [of buf p "replicate q True" "[False]"] by (auto simp: peek_def)
  have pre: "rice_prefix (reader_at buf p) 0 = (q, reader_at buf (s))"
    using rice_prefix_ones [OF pk'(1), of 0] pk'(2) q
    by (simp add: rice_prefix.simps [of _ q] readbit_at s_def)
  have uk: "unat (of_nat k :: u32) = k" using k by (simp add: unat_of_nat)
  have k1: "(of_nat k :: u32) \<noteq> 1"
  proof
    assume "(of_nat k :: u32) = 1"
    then have "unat (of_nat k :: u32) = 1" by simp
    then show False using uk k by simp
  qed
  let ?e = "val_of_bits (peek buf (s) k)"
  have e: "unat (of_nat ?e :: u32) = ?e"
  proof -
    have "?e < 2 ^ k" using val_of_bits_bound [of "peek buf (s) k"] by simp
    also have "(2::nat) ^ k < 2 ^ 32" using k by (intro power_strict_increasing) auto
    finally show ?thesis by (simp add: unat_of_nat)
  qed
  have rd: "readbits (reader_at buf (s)) (of_nat k) = (of_nat ?e, reader_at buf (s + k))"
    using readbits_at [of "of_nat k" buf "s"] uk k by simp
  have m: "(shl 1 k - 1 :: u32) AND 0xFFFFFFFF = of_nat (2 ^ k - 1)"
  proof -
    have "(shl 1 k - 1 :: u32) AND 0xFFFFFFFF = shl 1 k - 1"
    proof -
      have "(0xFFFFFFFF :: u32) = - 1" by simp
      then show ?thesis by (simp only: and.right_neutral)
    qed
    also have "\<dots> = of_nat (unat (shl 1 k - 1 :: u32))" by simp
    finally show ?thesis by (simp only: unat_pow_minus_one [OF k(2)])
  qed
  have gt: "(1::u32) < of_nat ?e \<longleftrightarrow> 1 < ?e" by (simp only: word_less_nat_alt e) simp
  have "(of_nat ?e - 1 :: u32) = of_nat (?e - 1)" if "1 < ?e" using that by (simp add: of_nat_diff)
  then show ?thesis
    using k1 q unfolding entropy_decode_value_def pre uk m s_def [symmetric]
    by (simp add: rd gt Let_def)
qed

lemma entropy_decode_code:
  assumes pk: "peek buf p (length (rice_code n k v)) = rice_code n k v"
    and v: "v < 2 ^ n" and n: "1 \<le> n" "n \<le> 32" and k: "1 \<le> k" "k \<le> 31"
    and fits: "p + length (rice_code n k v) < 2 ^ 63"
  shows "entropy_decode_value (reader_at buf p) (of_nat n) (of_nat k) 0xFFFFFFFF
    = (of_nat v, reader_at buf (p + length (rice_code n k v)))"
proof -
  let ?b = "2 ^ k - 1 :: nat"
  let ?q = "v div ?b" and ?m = "v mod ?b"
  have vq: "v = ?q * ?b + ?m" by (rule div_mult_mod_eq [symmetric])
  consider (escape) "?q > RICE_THRESHOLD" | (one) "?q \<le> RICE_THRESHOLD" "k = 1"
    | (zero) "?q \<le> RICE_THRESHOLD" "2 \<le> k" "?m = 0" | (rest) "?q \<le> RICE_THRESHOLD" "2 \<le> k" "?m \<noteq> 0"
    using k by fastforce
  then show ?thesis
  proof cases
    case escape
    then have c: "rice_code n k v = replicate (Suc RICE_THRESHOLD) True @ bits_of_nat n v"
      by (simp add: rice_code_def)
    show ?thesis using entropy_decode_escape [of buf p n v] pk v n unfolding c by (simp add: add.assoc)
  next
    case one
    then have c: "rice_code n k v = replicate v True @ [False]" by (simp add: rice_code_def)
    have pk': "peek buf p v = replicate v True" "\<not> bit_at buf (p + v)"
      using pk peek_append_split [of buf p "replicate v True" "[False]"] unfolding c
      by (auto simp: peek_def)
    have "rice_prefix (reader_at buf p) 0 = (v, reader_at buf (p + Suc v))"
      using rice_prefix_ones [OF pk'(1), of 0] pk'(2) one
      by (simp add: rice_prefix.simps [of _ v] readbit_at)
    with one c show ?thesis by (simp add: entropy_decode_value_def)
  next
    case zero
    then have c: "rice_code n k v = (replicate ?q True @ [False]) @ replicate (k - 1) False"
      by (simp add: rice_code_def)
    have pk': "peek buf p (Suc ?q) = replicate ?q True @ [False]"
      "peek buf (p + Suc ?q) (k - 1) = replicate (k - 1) False"
      using pk peek_append_split [of buf p "replicate ?q True @ [False]" "replicate (k - 1) False"]
      unfolding c by simp_all
    have "peek buf (p + Suc ?q) k = replicate (k - 1) False @ peek buf (p + Suc ?q + (k - 1)) 1"
      using peek_add [of buf "p + Suc ?q" "k - 1" 1] pk'(2) k by simp
    then have "val_of_bits (peek buf (p + Suc ?q) k) \<le> 1"
      using val_of_bits_bound [of "peek buf (p + Suc ?q + (k - 1)) 1"]
      by (simp add: val_of_bits_append)
    moreover have "unreadbits (reader_at buf (p + Suc ?q + k)) 1 = reader_at buf (p + Suc ?q + k - 1)"
      using fits zero(2) by (intro unreadbits_at) (auto simp: c)
    moreover have eq: "?q * ?b = v" using vq zero(3) by linarith
    ultimately show ?thesis
      using entropy_decode_short [OF pk'(1) zero(1,2) k(2), of "of_nat n", unfolded eq] zero(2) c
      by (simp add: Let_def add.assoc)
  next
    case rest
    then have c: "rice_code n k v = (replicate ?q True @ [False]) @ bits_of_nat k (?m + 1)"
      by (simp add: rice_code_def)
    have pk': "peek buf p (Suc ?q) = replicate ?q True @ [False]"
      "peek buf (p + Suc ?q) k = bits_of_nat k (?m + 1)"
      using pk peek_append_split [of buf p "replicate ?q True @ [False]" "bits_of_nat k (?m + 1)"]
      unfolding c by simp_all
    have "(2::nat) ^ 2 \<le> 2 ^ k" using rest(2) by (intro power_increasing) auto
    then have "?m < ?b" by simp
    then have "?m + 1 < 2 ^ k" by linarith
    then have "val_of_bits (peek buf (p + Suc ?q) k) = ?m + 1"
      by (simp only: pk'(2) val_of_bits_of_nat mod_less)
    then show ?thesis
      using entropy_decode_short [OF pk'(1) rest(1,2) k(2), of "of_nat n"] rest(3) vq c
      by (simp add: Let_def add.assoc)
  qed
qed

text \<open>Reading one code word after another, each with its own parameter \<open>k\<close>.\<close>

primrec decode_codes :: "nat \<Rightarrow> bit_reader \<Rightarrow> nat list \<Rightarrow> i32 list \<times> bit_reader" where
  "decode_codes n r [] = ([], r)"
| "decode_codes n r (k # ks) =
     (let (v, r1) = entropy_decode_value r (of_nat n) (of_nat k) 0xFFFFFFFF;
          (vs, r2) = decode_codes n r1 ks
      in (v # vs, r2))"

definition rice_codes :: "nat \<Rightarrow> (nat \<times> nat) list \<Rightarrow> bool list" where
  "rice_codes n kvs = concat (map (\<lambda>(k, v). rice_code n k v) kvs)"

lemma decode_codes_correct:
  assumes "1 \<le> n" "n \<le> 32"
  shows "peek buf p (length (rice_codes n kvs)) = rice_codes n kvs \<Longrightarrow>
    list_all (\<lambda>(k, v). 1 \<le> k \<and> k \<le> 31 \<and> v < 2 ^ n) kvs \<Longrightarrow>
    p + length (rice_codes n kvs) < 2 ^ 63 \<Longrightarrow>
    decode_codes n (reader_at buf p) (map fst kvs)
      = (map (\<lambda>(k, v). of_nat v) kvs, reader_at buf (p + length (rice_codes n kvs)))"
proof (induction kvs arbitrary: p)
  case (Cons kv kvs)
  obtain k v where kv: "kv = (k, v)" by (cases kv)
  let ?c = "rice_code n k v"
  have c: "rice_codes n (kv # kvs) = ?c @ rice_codes n kvs" by (simp add: rice_codes_def kv)
  have pk: "peek buf p (length ?c) = ?c"
    "peek buf (p + length ?c) (length (rice_codes n kvs)) = rice_codes n kvs"
    using Cons.prems(1) unfolding c peek_append_split by auto
  have "entropy_decode_value (reader_at buf p) (of_nat n) (of_nat k) 0xFFFFFFFF
      = (of_nat v, reader_at buf (p + length ?c))"
    using Cons.prems(2,3) unfolding c by (intro entropy_decode_code pk(1) assms) (auto simp: kv)
  moreover have "decode_codes n (reader_at buf (p + length ?c)) (map fst kvs)
      = (map (\<lambda>(k, v). of_nat v) kvs, reader_at buf (p + length ?c + length (rice_codes n kvs)))"
    using Cons.IH [OF pk(2)] Cons.prems(2,3) by (simp add: c add.assoc)
  ultimately show ?case unfolding c by (simp add: kv add.assoc)
qed (simp add: rice_codes_def)

text \<open>
  Entropy code words decode to the values they stand for. Whenever the bits of a
  buffer from some position on are the code words of a sequence of values, unary
  quotient, remainder and the escape for large quotients included, reading that many
  code words returns exactly those values and leaves the reader right behind them.
\<close>

theorem rice_codes_roundtrip:
  assumes "1 \<le> n" and "n \<le> 32"
    and "list_all (\<lambda>(k, v). 1 \<le> k \<and> k \<le> 31 \<and> v < 2 ^ n) kvs"
    and "peek buf p (length (rice_codes n kvs)) = rice_codes n kvs"
    and "p + length (rice_codes n kvs) < 2 ^ 63"
  shows "decode_codes n (reader_at buf p) (map fst kvs)
    = (map (\<lambda>(k, v). of_nat v) kvs, reader_at buf (p + length (rice_codes n kvs)))"
  using decode_codes_correct [OF assms(1,2,4,3,5)] .

theorem rice_codes_roundtrip_witness:
  "peek [0x9E, 0xFF, 0xC8] 0 (length (rice_codes 4 [(3, 9), (1, 2), (1, 9)]))
     = rice_codes 4 [(3, 9), (1, 2), (1, 9)]
   \<and> decode_codes 4 (reader_at [0x9E, 0xFF, 0xC8] 0) [3, 1, 1] = ([9, 2, 9], reader_at [0x9E, 0xFF, 0xC8] 21)"
proof -
  let ?kvs = "[(3, 9), (1, 2), (1, 9)] :: (nat \<times> nat) list" and ?buf = "[0x9E, 0xFF, 0xC8]"
  have h: "peek ?buf 0 (length (rice_codes 4 ?kvs)) = rice_codes 4 ?kvs" by code_simp
  have l: "length (rice_codes 4 ?kvs) = 21" by code_simp
  have "decode_codes 4 (reader_at ?buf 0) (map fst ?kvs)
      = (map (\<lambda>(k, v). of_nat v) ?kvs, reader_at ?buf (0 + length (rice_codes 4 ?kvs)))"
    by (rule rice_codes_roundtrip) (use h l in simp_all)
  then show ?thesis using h unfolding l by simp
qed

section \<open>Decoding a block never panics\<close>

lemma rice_loop_total:
  "output_size \<le> length out0 \<Longrightarrow>
   \<exists>r' out'. rice_loop output_size rss rice r out0 h sm i = Some (r', out') \<and> length out' = length out0"
proof (induction "output_size - i" arbitrary: r out0 h sm i rule: less_induct)
  case less
  have IH: "\<exists>r' out'. rice_loop output_size rss rice r1 out1 h1 sm1 i1 = Some (r', out')
      \<and> length out' = length out0"
    if "i < output_size" "i < i1" "length out1 = length out0" for r1 out1 h1 sm1 i1
    using less.hyps [of i1 out1 r1 h1 sm1] less.prems that by auto
  show ?case
    by (subst rice_loop.simps)
       (use less.prems in \<open>auto simp: Let_def split_beta slice_at_def intro!: IH\<close>)
qed

lemma entropy_rice_decode_total:
  "output_size \<le> length out0 \<Longrightarrow>
   \<exists>r' out'. entropy_rice_decode r out0 output_size rss rice = Some (r', out')
     \<and> length out' = length out0"
  unfolding entropy_rice_decode_def by (rule rice_loop_total)

end
