(* ===== verification/Alac_Predictor.thy ===== *)
theory Alac_Predictor
  imports Alac_Bits
begin

text \<open>
  The adaptive linear predictor of the ALAC decoder
  (\<open>predictor_decompress_fir_adapt\<close>, src/codec/alac.rs). The reference encoder
  \<open>fir_encode\<close> computes the residuals of a block of samples with the same
  coefficient adaptation; the decoder restores the samples from them exactly.
\<close>

section \<open>Model\<close>

text \<open>One step of first-order prediction, used for the warm-up samples and for the
  coefficient count \<open>0x1f\<close>.\<close>

definition delta_step :: "i32 list \<Rightarrow> u32 \<Rightarrow> i32 list \<Rightarrow> nat \<Rightarrow> i32 list option" where
  "delta_step error_buffer readsamplesize buffer_out i = do {
     a \<leftarrow> get_at buffer_out i;
     e \<leftarrow> get_at error_buffer (i + 1);
     set_at buffer_out (i + 1) (sign_extend_32 (a + e) readsamplesize)
   }"

definition fir_sum :: "i32 list \<Rightarrow> i16 list \<Rightarrow> nat \<Rightarrow> nat \<Rightarrow> i64 option" where
  "fir_sum buffer_out coef num off =
     for_each (\<lambda>sum j. do {
       a \<leftarrow> get_at buffer_out (off + num - j);
       b \<leftarrow> get_at buffer_out off;
       c \<leftarrow> get_at coef j;
       Some (sum + scast (a - b) * scast c)
     }) 0 [0..<num]"

text \<open>The two adaptation loops; \<open>neg\<close> selects the one for a negative error. \<open>n\<close> is
  \<open>pn + 1\<close>.\<close>

fun fir_adapt ::
  "bool \<Rightarrow> i32 list \<Rightarrow> nat \<Rightarrow> nat \<Rightarrow> i32 \<Rightarrow> nat \<Rightarrow> i32 \<Rightarrow> i16 list \<Rightarrow> i16 list option" where
  "fir_adapt neg buffer_out num off quant 0 ev coef = Some coef"
| "fir_adapt neg buffer_out num off quant (Suc pn) ev coef =
     (if (if neg then sint ev < 0 else sint ev > 0) then do {
        a \<leftarrow> get_at buffer_out off;
        b \<leftarrow> get_at buffer_out (off + num - pn);
        c \<leftarrow> get_at coef pn;
        let val = a - b;
            sign = (if neg then - sign_only val else sign_only val)
        in fir_adapt neg buffer_out num off quant pn
             (ev - sar (val * sign) (unat quant) * of_nat (num - pn))
             (coef[pn := c - scast sign])
      } else Some coef)"

definition fir_adapt_both ::
  "i32 list \<Rightarrow> nat \<Rightarrow> nat \<Rightarrow> i32 \<Rightarrow> i32 \<Rightarrow> i16 list \<Rightarrow> i16 list option" where
  "fir_adapt_both buffer_out num off quant error_val coef =
     (if sint error_val > 0 then fir_adapt False buffer_out num off quant num error_val coef
      else if sint error_val < 0 then fir_adapt True buffer_out num off quant num error_val coef
      else Some coef)"

text \<open>Rounding and scaling of the weighted sum.\<close>

definition fir_scale :: "i32 \<Rightarrow> i64 \<Rightarrow> i64" where
  "fir_scale quant acc =
     (let pq = (if sint quant < 0 then 0 else quant) :: u32;
          rounding = (if pq = 0 then 0 else shl 1 (unat (pq - 1)))
      in sar (rounding + acc) (unat pq))"

fun fir_step ::
  "u32 \<Rightarrow> nat \<Rightarrow> i32 \<Rightarrow> i32 list \<times> i16 list \<Rightarrow> nat \<times> i32 \<Rightarrow> (i32 list \<times> i16 list) option" where
  "fir_step readsamplesize num quant (buffer_out, coef) (off, error_val) = do {
     sum \<leftarrow> fir_sum buffer_out coef num off;
     base \<leftarrow> get_at buffer_out off;
     let outval = fir_scale quant sum + (scast base + scast error_val :: i64);
     buffer_out1 \<leftarrow> set_at buffer_out (off + num + 1)
                        (sign_extend_32 (ucast outval) readsamplesize);
     coef1 \<leftarrow> fir_adapt_both buffer_out1 num off quant error_val coef;
     Some (buffer_out1, coef1)
   }"

definition predictor_decompress_fir_adapt ::
  "i32 list \<Rightarrow> i32 list \<Rightarrow> nat \<Rightarrow> u32 \<Rightarrow> i16 list \<Rightarrow> nat \<Rightarrow> i32 \<Rightarrow> (i32 list \<times> i16 list) option" where
  "predictor_decompress_fir_adapt error_buffer buffer_out output_size readsamplesize coef num quant =
     (if output_size = 0 \<or> error_buffer = [] \<or> buffer_out = [] then Some (buffer_out, coef)
      else do {
        e0 \<leftarrow> get_at error_buffer 0;
        out1 \<leftarrow> set_at buffer_out 0 e0;
        if num = 0 then
          if output_size \<le> 1 then Some (out1, coef)
          else do {
            src \<leftarrow> slice_at 1 output_size error_buffer;
            out2 \<leftarrow> write_at 1 src out1;
            Some (out2, coef)
          }
        else if num = 0x1f then
          if output_size \<le> 1 then Some (out1, coef)
          else do {
            out2 \<leftarrow> for_each (delta_step error_buffer readsamplesize) out1 [0..<output_size - 1];
            Some (out2, coef)
          }
        else do {
          out2 \<leftarrow> for_each (delta_step error_buffer readsamplesize) out1 [0..<num];
          errors \<leftarrow> slice_at (num + 1) output_size error_buffer;
          for_each (fir_step readsamplesize num quant) (out2, coef) (enumerate 0 errors)
        }
      })"

section \<open>The reference encoder\<close>

fun fir_encode_step ::
  "i32 list \<Rightarrow> u32 \<Rightarrow> nat \<Rightarrow> i32 \<Rightarrow> i32 list \<times> i16 list \<Rightarrow> nat \<Rightarrow> (i32 list \<times> i16 list) option" where
  "fir_encode_step samples width num quant (errors, coef) off = do {
     sum \<leftarrow> fir_sum samples coef num off;
     base \<leftarrow> get_at samples off;
     x \<leftarrow> get_at samples (off + num + 1);
     let e = sign_extend_32 (x - ucast (fir_scale quant sum + scast base)) width;
     coef1 \<leftarrow> fir_adapt_both samples num off quant e coef;
     Some (errors @ [e], coef1)
   }"

definition deltas :: "u32 \<Rightarrow> nat \<Rightarrow> i32 list \<Rightarrow> i32 list" where
  "deltas width n xs = map (\<lambda>i. sign_extend_32 (xs ! Suc i - xs ! i) width) [0..<n]"

definition fir_encode :: "u32 \<Rightarrow> nat \<Rightarrow> i32 \<Rightarrow> i16 list \<Rightarrow> i32 list \<Rightarrow> i32 list option" where
  "fir_encode width num quant coef samples =
     (if samples = [] \<or> num = 0 then Some samples
      else if num = 0x1f then Some (hd samples # deltas width (length samples - 1) samples)
      else do {
        (errors, _) \<leftarrow> for_each (fir_encode_step samples width num quant) ([], coef)
                         [0..<length samples - (num + 1)];
        Some (hd samples # deltas width num samples @ errors)
      })"

section \<open>Sign extension keeps the low bits\<close>

lemma shl_sar_shl: "shl (sar (shl (b :: 'a::len word) k) k) k = shl b k"
proof (rule bit_word_eqI)
  fix i
  assume "i < LENGTH('a)"
  then show "bit (shl (sar (shl b k) k) k) i = bit (shl b k) i"
    by (auto simp: shl_def sar_def bit_push_bit_iff bit_signed_drop_bit_iff)
qed

lemma shl_add: "shl (a + b) k = shl a k + shl (b :: 'a::len word) k"
  and shl_diff: "shl (a - b) k = shl a k - shl (b :: 'a::len word) k"
  by (simp_all add: shl_def push_bit_eq_mult algebra_simps)

text \<open>Adding the sign-extended difference back to the prediction gives the sample,
  up to the sample width.\<close>

lemma sign_extend_32_cong:
  "sign_extend_32 (p + sign_extend_32 (x - p) n) n = sign_extend_32 x n"
proof -
  have "shl (p + sign_extend_32 (x - p) n) (unat (32 - n)) = shl x (unat (32 - n))"
    by (simp only: shl_add sign_extend_32_def shl_sar_shl) (simp add: shl_diff)
  then show ?thesis by (simp only: sign_extend_32_def)
qed

section \<open>The predictor reads only decoded samples\<close>

text \<open>Two buffers that agree up to \<open>off + num\<close> predict and adapt alike.\<close>

definition agree :: "nat \<Rightarrow> 'a list \<Rightarrow> 'a list \<Rightarrow> bool" where
  "agree n xs ys \<longleftrightarrow> n \<le> length xs \<and> n \<le> length ys \<and> take n xs = take n ys"

lemma agree_get_at: "agree n xs ys \<Longrightarrow> i < n \<Longrightarrow> get_at xs i = get_at ys i"
  unfolding agree_def get_at_def by (metis less_le_trans nth_take)

lemma for_each_cong:
  "(\<And>s x. x \<in> set xs \<Longrightarrow> f s x = g s x) \<Longrightarrow> for_each f s xs = for_each g s xs"
  by (induction xs arbitrary: s) (auto intro!: Option.bind_cong)

lemma fir_sum_agree:
  "agree (off + num + 1) xs ys \<Longrightarrow> fir_sum xs coef num off = fir_sum ys coef num off"
  unfolding fir_sum_def by (rule for_each_cong) (simp add: agree_get_at)

lemma fir_adapt_agree:
  "agree (off + num + 1) xs ys \<Longrightarrow> n \<le> num \<Longrightarrow>
   fir_adapt neg xs num off quant n ev coef = fir_adapt neg ys num off quant n ev coef"
  by (induction n arbitrary: ev coef) (auto simp: agree_get_at Let_def intro!: Option.bind_cong)

lemma fir_adapt_both_agree:
  "agree (off + num + 1) xs ys \<Longrightarrow>
   fir_adapt_both xs num off quant e coef = fir_adapt_both ys num off quant e coef"
  unfolding fir_adapt_both_def by (simp add: fir_adapt_agree)

section \<open>Losslessness\<close>

abbreviation partly :: "nat \<Rightarrow> 'a list \<Rightarrow> 'a list \<Rightarrow> 'a list" where
  "partly n xs out \<equiv> take n xs @ drop n out"

lemma partly_agree: "n \<le> length xs \<Longrightarrow> n \<le> length out \<Longrightarrow> agree n (partly n xs out) xs"
  by (simp add: agree_def)

lemma partly_set:
  "n < length xs \<Longrightarrow> length xs \<le> length out \<Longrightarrow>
   (partly n xs out)[n := xs ! n] = partly (Suc n) xs out"
  by (simp add: list_update_append take_Suc_conv_app_nth Cons_nth_drop_Suc [symmetric])

lemma delta_loop:
  assumes "length xs \<le> length out" and "n < length xs"
    and "\<forall>i < n. i + 1 < length err \<and> err ! Suc i = sign_extend_32 (xs ! Suc i - xs ! i) width"
    and "\<forall>x \<in> set xs. sign_extend_32 x width = x"
  shows "for_each (delta_step err width) (partly 1 xs out) [0..<n] = Some (partly (Suc n) xs out)"
  using assms(2,3)
proof (induction n)
  case (Suc n)
  then have IH: "for_each (delta_step err width) (partly 1 xs out) [0..<n] = Some (partly (Suc n) xs out)"
    by simp
  have "partly (Suc n) xs out ! n = xs ! n" using Suc.prems(1) by (simp add: nth_append)
  moreover have "sign_extend_32 (xs ! Suc n) width = xs ! Suc n" using assms(4) Suc.prems(1) by simp
  moreover have "length (partly (Suc n) xs out) = length out" using assms(1) Suc.prems(1) by simp
  moreover have "(partly (Suc n) xs out)[Suc n := xs ! Suc n] = partly (Suc (Suc n)) xs out"
    by (rule partly_set) (use assms(1) Suc.prems(1) in auto)
  ultimately have "delta_step err width (partly (Suc n) xs out) n = Some (partly (Suc (Suc n)) xs out)"
    using Suc.prems assms(1)
    by (simp add: delta_step_def get_at_def set_at_def sign_extend_32_cong del: drop_Suc take_Suc)
  with IH show ?case by (simp add: for_each_append)
qed simp

lemma scast_ucast_i64: "(ucast (a + scast (e :: i32) :: i64) :: i32) = ucast a + e"
  by (simp add: ucast_add_down ucast_scast_down)

lemma fir_encode_step_decode:
  assumes "fir_encode_step xs width num quant (es, coef) off = Some (es', coef')"
    and "off + num + 1 < length xs" and "length xs \<le> length out"
    and "\<forall>x \<in> set xs. sign_extend_32 x width = x"
  shows "\<exists>e. es' = es @ [e] \<and>
    fir_step width num quant (partly (off + num + 1) xs out, coef) (off, e)
      = Some (partly (off + num + 2) xs out, coef')"
proof -
  let ?n = "off + num + 1"
  from assms(1,2) obtain s where s: "fir_sum xs coef num off = Some s"
    and a: "fir_adapt_both xs num off quant
        (sign_extend_32 (xs ! ?n - ucast (fir_scale quant s + scast (xs ! off))) width) coef = Some coef'"
    and e: "es' = es @ [sign_extend_32 (xs ! ?n - ucast (fir_scale quant s + scast (xs ! off))) width]"
    by (auto simp: Let_def get_at_def split: Option.bind_splits)
  let ?e = "sign_extend_32 (xs ! ?n - ucast (fir_scale quant s + scast (xs ! off))) width"
  have ag: "agree ?n (partly ?n xs out) xs" "agree ?n (partly (Suc ?n) xs out) xs"
    using assms(2,3) by (auto simp: agree_def)
  have base: "get_at (partly ?n xs out) off = Some (xs ! off)"
    using agree_get_at [OF ag(1), of off] assms(2) by simp
  have "ucast (fir_scale quant s + (scast (xs ! off) + scast ?e) :: i64)
      = ucast (fir_scale quant s + scast (xs ! off)) + ?e"
    using scast_ucast_i64 [of "fir_scale quant s + scast (xs ! off)" ?e] by (simp add: add.assoc)
  then have val: "sign_extend_32 (ucast (fir_scale quant s + (scast (xs ! off) + scast ?e) :: i64)) width
      = xs ! ?n"
    using assms(2,4) by (simp add: sign_extend_32_cong)
  have "set_at (partly ?n xs out) ?n (xs ! ?n) = Some (partly (Suc ?n) xs out)"
    using assms(2,3) partly_set [of ?n xs out] by (simp add: set_at_def)
  then have "fir_step width num quant (partly ?n xs out, coef) (off, ?e)
      = Some (partly (Suc ?n) xs out, coef')"
    using s a base fir_sum_agree [OF ag(1)] fir_adapt_both_agree [OF ag(2)] by (simp add: val [simplified])
  with e show ?thesis by simp
qed

lemma enumerate_snoc: "enumerate k (xs @ [x]) = enumerate k xs @ [(k + length xs, x)]"
  by (induction xs arbitrary: k) auto

lemma fir_encode_loop_decode:
  assumes "length xs \<le> length out" and "\<forall>x \<in> set xs. sign_extend_32 x width = x"
  shows "for_each (fir_encode_step xs width num quant) ([], coef) [0..<k] = Some (es, coef') \<Longrightarrow>
    k + num + 1 \<le> length xs \<Longrightarrow>
    length es = k
    \<and> for_each (fir_step width num quant) (partly (num + 1) xs out, coef) (enumerate 0 es)
        = Some (partly (k + num + 1) xs out, coef')"
proof (induction k arbitrary: es coef')
  case (Suc k)
  then obtain es1 c1 where 1: "for_each (fir_encode_step xs width num quant) ([], coef) [0..<k] = Some (es1, c1)"
    and 2: "fir_encode_step xs width num quant (es1, c1) k = Some (es, coef')"
    by (auto simp: for_each_append split: Option.bind_splits)
  from Suc.IH [OF 1] Suc.prems(2) have IH: "length es1 = k"
    "for_each (fir_step width num quant) (partly (num + 1) xs out, coef) (enumerate 0 es1)
      = Some (partly (k + num + 1) xs out, c1)" by auto
  from fir_encode_step_decode [OF 2 _ assms] Suc.prems(2) obtain e where e: "es = es1 @ [e]"
    "fir_step width num quant (partly (k + num + 1) xs out, c1) (k, e)
      = Some (partly (k + num + 2) xs out, coef')" by auto
  show ?case using IH e by (simp add: enumerate_snoc for_each_append)
qed simp

lemma length_deltas [simp]: "length (deltas width n xs) = n"
  by (simp add: deltas_def)

lemma fir_encode_length:
  "fir_encode width num quant coef xs = Some es \<Longrightarrow> num = 0x1f \<or> num < length xs \<or> num = 0 \<or> xs = [] \<Longrightarrow>
   length es = length xs"
proof -
  have *: "length es = length es0 + length offs"
    if "for_each (fir_encode_step xs width num quant) (es0, c) offs = Some (es, c')" for es0 c offs es c'
    using that
  proof (induction offs arbitrary: es0 c)
    case (Cons off offs)
    then show ?case by (fastforce simp: Let_def split: Option.bind_splits)
  qed simp
  assume "fir_encode width num quant coef xs = Some es" "num = 0x1f \<or> num < length xs \<or> num = 0 \<or> xs = []"
  then show ?thesis
    by (auto simp: fir_encode_def split: if_splits Option.bind_splits dest!: *)
qed

lemma predictor_lossless:
  assumes enc: "fir_encode width num quant coef xs = Some es"
    and num: "num = 0x1f \<or> num < length xs" and "xs \<noteq> []"
    and out: "length xs \<le> length out" and range: "\<forall>x \<in> set xs. sign_extend_32 x width = x"
  shows "\<exists>coef'. predictor_decompress_fir_adapt (es @ junk) out (length xs) width coef num quant
    = Some (xs @ drop (length xs) out, coef')"
proof -
  obtain x0 rest where xs: "xs = x0 # rest" using \<open>xs \<noteq> []\<close> by (cases xs) auto
  have start: "set_at out 0 x0 = Some (partly 1 xs out)"
    using out xs by (cases out) (auto simp: set_at_def)
  have ne: "out \<noteq> []" "es \<noteq> []" "length es = length xs"
    using out xs fir_encode_length [OF enc] num by auto
  have hd: "get_at (es @ junk) 0 = Some x0"
    using enc xs by (auto simp: fir_encode_def get_at_def nth_append split: if_splits Option.bind_splits)
  note pre = predictor_decompress_fir_adapt_def start hd ne
  have deltas: "\<forall>i < n. i + 1 < length (x0 # deltas width n xs @ es1)
      \<and> (x0 # deltas width n xs @ es1) ! Suc i = sign_extend_32 (xs ! Suc i - xs ! i) width" for n es1
    by (auto simp: deltas_def nth_append)
  consider (none) "num = 0" | (delta) "num = 0x1f" | (fir) "num \<noteq> 0" "num \<noteq> 0x1f" "num < length xs"
    using num by auto
  then show ?thesis
  proof cases
    case none
    with enc have es: "es = xs" by (simp add: fir_encode_def)
    have "write_at 1 (slice 1 (length xs) (xs @ junk)) (partly 1 xs out) = Some (partly (length xs) xs out)"
      using out xs by (simp add: write_at_def copy_at_def slice_def)
    then show ?thesis
      using none xs es by (auto simp: pre slice_at_def simp del: set_at_in)
  next
    case delta
    with enc xs have es: "es = x0 # deltas width (length xs - 1) xs" by (simp add: fir_encode_def)
    have "for_each (delta_step (es @ junk) width) (partly 1 xs out) [0..<length xs - 1]
        = Some (partly (Suc (length xs - 1)) xs out)"
      unfolding es append_Cons by (rule delta_loop [OF out _ deltas range]) (use xs in simp)
    then show ?thesis
      using delta xs by (auto simp: pre simp del: set_at_in)
  next
    case fir
    with enc xs obtain es1 c1 where
      loop: "for_each (fir_encode_step xs width num quant) ([], coef) [0..<length xs - (num + 1)]
          = Some (es1, c1)"
      and es: "es = x0 # deltas width num xs @ es1"
      by (auto simp: fir_encode_def split: Option.bind_splits)
    have w: "for_each (delta_step (es @ junk) width) (partly 1 xs out) [0..<num]
        = Some (partly (Suc num) xs out)"
      unfolding es append_Cons append_assoc by (rule delta_loop [OF out fir(3) deltas range])
    have n: "length xs - (num + 1) + num + 1 = length xs" using fir(3) by simp
    from fir_encode_loop_decode [OF out range loop, unfolded n]
    have d: "length es1 = length xs - (num + 1)"
      "for_each (fir_step width num quant) (partly (Suc num) xs out, coef) (enumerate 0 es1)
        = Some (partly (length xs) xs out, c1)" by auto
    have "slice_at (num + 1) (length xs) (es @ junk) = Some es1"
      using fir(3) d(1) by (simp add: slice_at_def slice_def es)
    with w d(2) fir show ?thesis by (auto simp: pre xs [symmetric] simp del: set_at_in)
  qed
qed

section \<open>When the predictor panics\<close>

lemma delta_loop_total:
  assumes "n < length err" and "n < length out"
  shows "\<exists>out'. for_each (delta_step err width) out [0..<n] = Some out' \<and> length out' = length out"
  by (rule for_each_total) (use assms in \<open>auto simp: delta_step_def get_at_def set_at_def\<close>)

lemma fir_adapt_total:
  assumes "off + num < length out" and "num \<le> l"
  shows "n \<le> num \<Longrightarrow> length coef = l \<Longrightarrow>
    \<exists>coef'. fir_adapt neg out num off quant n ev coef = Some coef' \<and> length coef' = l"
proof (induction n arbitrary: ev coef)
  case (Suc n)
  have IH: "\<exists>coef'. fir_adapt neg out num off quant n ev' c = Some coef' \<and> length coef' = l"
    if "length c = l" for ev' c using Suc that by simp
  have "off + num - n < length out" using assms(1) by simp
  then show ?case
    using Suc.prems assms IH by (cases neg) (simp_all add: get_at_def Let_def)
qed simp

lemma fir_step_total:
  assumes "off + num + 1 < length out" and "num \<le> length coef"
  shows "\<exists>out' coef'. fir_step width num quant (out, coef) (off, e) = Some (out', coef')
    \<and> length out' = length out \<and> length coef' = length coef"
proof -
  have "\<exists>s. fir_sum out coef num off = Some s \<and> True"
    unfolding fir_sum_def by (rule for_each_total) (use assms in \<open>auto simp: get_at_def\<close>)
  moreover have "\<exists>c. fir_adapt_both out' num off quant e coef = Some c \<and> length c = length coef"
    if "length out' = length out" for out'
    using fir_adapt_total [of off num out' "length coef" num coef] assms that by (auto simp: fir_adapt_both_def)
  ultimately obtain s c where "fir_sum out coef num off = Some s"
    "fir_adapt_both (out[off + num + 1 :=
        sign_extend_32 (ucast (fir_scale quant s + (scast (out ! off) + scast e))) width]) num off quant e coef
      = Some c" "length c = length coef"
    by (metis length_list_update)
  then show ?thesis using assms by (simp add: get_at_def set_at_def Let_def)
qed

lemma predictor_SomeD:
  assumes "predictor_decompress_fir_adapt err out n width coef num quant = Some r"
    and "0 < n" and "err \<noteq> []" and "out \<noteq> []"
  shows "num = 0 \<or> num = 0x1f \<or> num < n"
  using assms by (auto simp: predictor_decompress_fir_adapt_def slice_at_def
      split: if_splits Option.bind_splits)

lemma predictor_total:
  assumes "0 < n" and "n \<le> length err" and "n \<le> length out" and "num \<le> length coef"
    and R: "num = 0 \<or> num = 0x1f \<or> num < n"
  shows "\<exists>out' coef'. predictor_decompress_fir_adapt err out n width coef num quant = Some (out', coef')
      \<and> length out' = length out" (is ?L)
proof -
  have ne: "err \<noteq> []" "out \<noteq> []" using assms by auto
  let ?out = "out[0 := err ! 0]"
  note pre = predictor_decompress_fir_adapt_def ne get_at_def set_at_def
  consider (none) "num = 0" | (delta) "num = 0x1f" | (fir) "num \<noteq> 0" "num \<noteq> 0x1f" "num < n"
    using R by auto
  then show ?L
  proof cases
    case none
    then show ?thesis using assms by (auto simp: pre slice_at_def write_at_def min_def)
  next
    case delta
    have "n - 1 < length err" "n - 1 < length ?out" using assms(1-3) by auto
    from delta_loop_total [OF this, of width] obtain out2 where
      "for_each (delta_step err width) ?out [0..<n - 1] = Some out2" "length out2 = length out" by auto
    then show ?thesis using delta assms by (auto simp: pre)
  next
    case fir
    from delta_loop_total [of num err ?out width] assms fir obtain out2 where
      w: "for_each (delta_step err width) ?out [0..<num] = Some out2" "length out2 = length out" by auto
    have "\<exists>s'. for_each (fir_step width num quant) (out2, coef) (enumerate 0 (slice (num + 1) n err)) = Some s'
        \<and> length (fst s') = length out \<and> length (snd s') = length coef"
    proof (rule for_each_total)
      fix s :: "i32 list \<times> i16 list" and x :: "nat \<times> i32"
      assume s: "length (fst s) = length out \<and> length (snd s) = length coef"
        and "x \<in> set (enumerate 0 (slice (num + 1) n err))"
      then obtain off e where x: "x = (off, e)" "off < n - (num + 1)"
        using assms(2) by (cases x) (auto simp: in_set_enumerate_eq)
      obtain o' c' where sp: "s = (o', c')" by (cases s)
      have "off + num + 1 < length o'" "num \<le> length c'" using s x assms sp by auto
      from fir_step_total [OF this, of width quant e] show "\<exists>s'. fir_step width num quant s x = Some s'
          \<and> length (fst s') = length out \<and> length (snd s') = length coef"
        using s sp x by auto
    qed (simp add: w)
    then show ?thesis using w fir assms by (auto simp: pre slice_at_def)
  qed
qed



end
