(* ===== verification/Alac.thy ===== *)
theory Alac
  imports Complex_Main Alac_Predictor
begin

text \<open>
  The ALAC frame decoder (src/codec/alac.rs): configuration, subframe headers, the
  mono and stereo paths, deinterlacing, and the conversion of decoded PCM to
  floating-point samples. A panic of the decoder is \<open>None\<close>; the callers that guard the
  decoder with \<open>catch_unwind\<close> turn it into "no output". A 32-bit float that the code
  computes as an integer of at most 24 bits divided by a power of two is exact, and is
  represented by that rational number.
\<close>

section \<open>Configuration\<close>

record alac_config =
  frame_length :: u32
  compatible_version :: byte
  cfg_bit_depth :: byte
  cfg_pb :: byte
  cfg_mb :: byte
  cfg_kb :: byte
  cfg_num_channels :: byte
  cfg_max_run :: u16
  cfg_max_frame_bytes :: u32
  cfg_avg_bit_rate :: u32
  cfg_sample_rate :: u32

record alac_format =
  fmt_sample_rate :: u32
  fmt_bit_depth :: byte
  fmt_channels :: byte

definition from_audio_format :: "u32 \<Rightarrow> alac_format option" where
  "from_audio_format v =
     (if v = 0x00040000 then Some \<lparr>fmt_sample_rate = 44100, fmt_bit_depth = 16, fmt_channels = 2\<rparr>
      else if v = 0x00080000 then Some \<lparr>fmt_sample_rate = 44100, fmt_bit_depth = 24, fmt_channels = 2\<rparr>
      else if v = 0x00100000 then Some \<lparr>fmt_sample_rate = 48000, fmt_bit_depth = 16, fmt_channels = 2\<rparr>
      else if v = 0x00200000 then Some \<lparr>fmt_sample_rate = 48000, fmt_bit_depth = 24, fmt_channels = 2\<rparr>
      else None)"

record alac_decoder =
  num_channels :: i32
  bytes_per_sample :: i32
  max_samples_per_frame :: u32
  sample_size_config :: byte
  rice_history_mult :: byte
  rice_initial_history :: byte
  rice_k_modifier :: byte
  max_run :: u16
  max_frame_bytes :: u32
  avg_bit_rate :: u32
  sample_rate :: u32
  predicterror_buffer_a :: "i32 list"
  predicterror_buffer_b :: "i32 list"
  outputsamples_buffer_a :: "i32 list"
  outputsamples_buffer_b :: "i32 list"
  uncompressed_bytes_buffer_a :: "i32 list"
  uncompressed_bytes_buffer_b :: "i32 list"

definition alac_new :: "i32 \<Rightarrow> i32 \<Rightarrow> alac_decoder" where
  "alac_new sample_size channels =
     \<lparr>num_channels = channels,
      bytes_per_sample = of_int (tdiv (sint sample_size) 8) * channels,
      max_samples_per_frame = 0, sample_size_config = 0, rice_history_mult = 0,
      rice_initial_history = 0, rice_k_modifier = 0, max_run = 0, max_frame_bytes = 0,
      avg_bit_rate = 0, sample_rate = 0,
      predicterror_buffer_a = [], predicterror_buffer_b = [],
      outputsamples_buffer_a = [], outputsamples_buffer_b = [],
      uncompressed_bytes_buffer_a = [], uncompressed_bytes_buffer_b = []\<rparr>"

definition allocate_buffers :: "alac_decoder \<Rightarrow> alac_decoder" where
  "allocate_buffers d =
     (let n = unat (max_samples_per_frame d) in
      d\<lparr>predicterror_buffer_a := replicate n 0, predicterror_buffer_b := replicate n 0,
        outputsamples_buffer_a := replicate n 0, outputsamples_buffer_b := replicate n 0,
        uncompressed_bytes_buffer_a := replicate n 0,
        uncompressed_bytes_buffer_b := replicate n 0\<rparr>)"

definition set_info :: "alac_decoder \<Rightarrow> bytes \<Rightarrow> alac_decoder" where
  "set_info d config =
     (if length config < 48 then d
      else
        let d1 = d\<lparr>max_samples_per_frame := from_be_bytes (slice 24 28 config),
                   sample_size_config := config ! 29,
                   rice_history_mult := config ! 30,
                   rice_initial_history := config ! 31,
                   rice_k_modifier := config ! 32,
                   max_run := from_be_bytes (slice 34 36 config),
                   max_frame_bytes := from_be_bytes (slice 36 40 config),
                   avg_bit_rate := from_be_bytes (slice 40 44 config),
                   sample_rate := from_be_bytes (slice 44 48 config)\<rparr>;
            channels = config ! 33
        in if \<not> (sample_size_config d1 = 16 \<or> sample_size_config d1 = 24)
              \<or> \<not> (1 \<le> channels \<and> channels \<le> 2)
           then d1\<lparr>max_samples_per_frame := 0, bytes_per_sample := 0\<rparr>
           else
             let d2 = d1\<lparr>num_channels := ucast channels,
                         bytes_per_sample := (ucast (sample_size_config d1) div 8) * ucast channels\<rparr>
             in if max_samples_per_frame d2 = 0 \<or> sint (bytes_per_sample d2) \<le> 0 then d2
                else allocate_buffers d2)"

section \<open>Headers\<close>

record predictor_header =
  pred_quant :: u32
  ricemod :: u32
  pred_num :: nat
  pred_table :: "i16 list"

text \<open>Result: uncompressed bytes, not-compressed flag, samples, size, reader.\<close>

definition parse_subframe_header ::
  "bit_reader \<Rightarrow> nat \<Rightarrow> nat \<Rightarrow> nat \<Rightarrow> u32 \<times> u32 \<times> nat \<times> nat \<times> bit_reader" where
  "parse_subframe_header r0 output_samples output_size bytes_per =
     (let (_, r1) = readbits r0 4;
          (_, r2) = readbits r1 12;
          (has_size, r3) = readbits r2 1;
          (uncompressed_bytes, r4) = readbits r3 2;
          (is_not_compressed, r5) = readbits r4 1
      in if has_size \<noteq> 0 then
           let (n, r6) = readbits r5 32
           in (uncompressed_bytes, is_not_compressed, unat n, unat n * bytes_per, r6)
         else (uncompressed_bytes, is_not_compressed, output_samples, output_size, r5))"

text \<open>\<open>n\<close> consecutive reads of \<open>bits\<close> bits each.\<close>

primrec read_many :: "nat \<Rightarrow> u32 \<Rightarrow> bit_reader \<Rightarrow> u32 list \<times> bit_reader" where
  "read_many 0 bits r = ([], r)"
| "read_many (Suc n) bits r =
     (let (v, r1) = readbits r bits; (vs, r2) = read_many n bits r1 in (v # vs, r2))"

definition read_predictor_header :: "bit_reader \<Rightarrow> predictor_header \<times> bit_reader" where
  "read_predictor_header r0 =
     (let (_, r1) = readbits r0 4;
          (quant, r2) = readbits r1 4;
          (rm, r3) = readbits r2 3;
          (num, r4) = readbits r3 5;
          (coefs, r5) = read_many (unat num) 16 r4
      in (\<lparr>pred_quant = quant, ricemod = rm, pred_num = unat num,
           pred_table = copy_at 0 (map ucast coefs) (replicate 32 0)\<rparr>, r5))"

section \<open>Deinterlacing\<close>

definition unmix :: "byte \<Rightarrow> byte \<Rightarrow> i32 \<Rightarrow> i32 \<Rightarrow> i32 \<times> i32" where
  "unmix shift leftweight a b =
     (if leftweight \<noteq> 0 then
        let r = a - sar (b * ucast leftweight) (unat shift) in (r + b, r)
      else (a, b))"

definition deinterlace_16 ::
  "i32 list \<Rightarrow> i32 list \<Rightarrow> bytes \<Rightarrow> nat \<Rightarrow> nat \<Rightarrow> byte \<Rightarrow> byte \<Rightarrow> bytes option" where
  "deinterlace_16 buf_a buf_b out channels num_samples shift leftweight =
     for_each (\<lambda>out i. do {
       a \<leftarrow> get_at buf_a i;
       b \<leftarrow> get_at buf_b i;
       let (left, right) = unmix shift leftweight a b;
       let li = (i * channels) * 2;
       let ri = (i * channels + 1) * 2;
       out1 \<leftarrow> write_at li (to_le_bytes 2 (ucast left :: i16)) out;
       write_at ri (to_le_bytes 2 (ucast right :: i16)) out1
     }) out [0..<num_samples]"

record deinterlace24_params =
  dp_buf_a :: "i32 list"
  dp_buf_b :: "i32 list"
  dp_uncompressed_bytes :: u32
  dp_uncomp_a :: "i32 list"
  dp_uncomp_b :: "i32 list"
  dp_num_channels :: nat
  dp_num_samples :: nat
  dp_shift :: byte
  dp_leftweight :: byte

text \<open>Low bytes carried outside the compressed stream.\<close>

definition with_low_bytes :: "u32 \<Rightarrow> i32 \<Rightarrow> i32 \<Rightarrow> i32" where
  "with_low_bytes n v low =
     (let m = NOT (shl 0xFFFFFFFF (unat (n * 8))) in shl v (unat (n * 8)) OR (low AND m))"

definition bytes_24 :: "i32 \<Rightarrow> bytes" where
  "bytes_24 v = [ucast v, ucast (sar v 8), ucast (sar v 16)]"

definition deinterlace_24 :: "deinterlace24_params \<Rightarrow> bytes \<Rightarrow> bytes option" where
  "deinterlace_24 p out =
     for_each (\<lambda>out i. do {
       a \<leftarrow> get_at (dp_buf_a p) i;
       b \<leftarrow> get_at (dp_buf_b p) i;
       let (left, right) = unmix (dp_shift p) (dp_leftweight p) a b;
       (left, right) \<leftarrow>
         (if dp_uncompressed_bytes p > 0 then do {
            ua \<leftarrow> get_at (dp_uncomp_a p) i;
            ub \<leftarrow> get_at (dp_uncomp_b p) i;
            Some (with_low_bytes (dp_uncompressed_bytes p) left ua,
                  with_low_bytes (dp_uncompressed_bytes p) right ub)
          } else Some (left, right));
       let base = i * dp_num_channels p * 3;
       write_at base (bytes_24 left @ bytes_24 right) out
     }) out [0..<dp_num_samples p]"

section \<open>Frames\<close>

definition decode_channel ::
  "alac_decoder \<Rightarrow> bit_reader \<Rightarrow> bool \<Rightarrow> nat \<Rightarrow> u32 \<Rightarrow> predictor_header
     \<Rightarrow> (alac_decoder \<times> bit_reader) option" where
  "decode_channel d reader channel_b output_samples readsamplesize hdr =
     (let rice = \<lparr>initial_history = ucast (rice_initial_history d),
                  k_modifier = ucast (rice_k_modifier d),
                  history_mult = (ricemod hdr * ucast (rice_history_mult d)) div 4,
                  k_modifier_mask = shl 1 (unat (rice_k_modifier d)) - 1\<rparr>;
          (prederr, out) =
            (if channel_b then (predicterror_buffer_b d, outputsamples_buffer_b d)
             else (predicterror_buffer_a d, outputsamples_buffer_a d))
      in do {
        (r1, prederr1) \<leftarrow> entropy_rice_decode reader prederr output_samples readsamplesize rice;
        (out1, _) \<leftarrow> predictor_decompress_fir_adapt prederr1 out output_samples readsamplesize
                       (pred_table hdr) (pred_num hdr) (pred_quant hdr);
        Some (if channel_b
              then d\<lparr>predicterror_buffer_b := prederr1, outputsamples_buffer_b := out1\<rparr>
              else d\<lparr>predicterror_buffer_a := prederr1, outputsamples_buffer_a := out1\<rparr>, r1)
      })"

text \<open>One uncompressed sample of at most 16 bits, and one of more.\<close>

definition read_raw_sample :: "byte \<Rightarrow> bit_reader \<Rightarrow> i32 \<times> bit_reader" where
  "read_raw_sample ss r =
     (if ss \<le> 16 then
        let (v, r1) = readbits r (ucast ss) in (sign_extend_32 v (ucast ss), r1)
      else
        let (v, r1) = readbits r 16;
            v1 = shl v (unat (ucast ss - 16 :: u32));
            (w, r2) = readbits r1 (ucast ss - 16)
        in (sign_extend_24 (v1 OR w), r2))"

definition mono_output :: "alac_decoder \<Rightarrow> u32 \<Rightarrow> u32 \<Rightarrow> nat \<Rightarrow> bytes \<Rightarrow> bytes option" where
  "mono_output d uncompressed_bytes is_not_compressed output_samples out =
     (let channels = unat (num_channels d) in
      if sample_size_config d = 16 then
        for_each (\<lambda>out i. do {
          s \<leftarrow> get_at (outputsamples_buffer_a d) i;
          write_at (i * channels * 2) (to_le_bytes 2 (ucast s :: i16)) out
        }) out [0..<output_samples]
      else
        for_each (\<lambda>out i. do {
          s \<leftarrow> get_at (outputsamples_buffer_a d) i;
          s1 \<leftarrow> (if uncompressed_bytes > 0 \<and> is_not_compressed = 0 then do {
                    u \<leftarrow> get_at (uncompressed_bytes_buffer_a d) i;
                    Some (with_low_bytes uncompressed_bytes s u)
                  } else Some s);
          write_at (i * channels * 3) (bytes_24 s1) out
        }) out [0..<output_samples])"

text \<open>The two branches that fill the sample buffer of a mono frame.\<close>

definition mono_compressed ::
  "alac_decoder \<Rightarrow> bit_reader \<Rightarrow> u32 \<Rightarrow> nat \<Rightarrow> u32 \<Rightarrow> alac_decoder option" where
  "mono_compressed d r uncompressed_bytes output_samples readsamplesize =
     (let (_, r1) = readbits r 8;
          (_, r2) = readbits r1 8;
          (hdr, r3) = read_predictor_header r2
      in do {
        (d', r4) \<leftarrow>
          (if uncompressed_bytes > 0 then
             let (vs, r4) = read_many output_samples (uncompressed_bytes * 8) r3
             in do {
               u \<leftarrow> write_at 0 vs (uncompressed_bytes_buffer_a d);
               Some (d\<lparr>uncompressed_bytes_buffer_a := u\<rparr>, r4)
             }
           else Some (d, r3));
        (d'', _) \<leftarrow> decode_channel d' r4 False output_samples readsamplesize hdr;
        Some d''
      })"

definition mono_raw :: "alac_decoder \<Rightarrow> bit_reader \<Rightarrow> nat \<Rightarrow> alac_decoder option" where
  "mono_raw d r output_samples = do {
     (buf, _) \<leftarrow> for_each (\<lambda>(buf, r) i.
         let (v, r') = read_raw_sample (sample_size_config d) r
         in do { buf' \<leftarrow> set_at buf i v; Some (buf', r') })
       (outputsamples_buffer_a d, r) [0..<output_samples];
     Some (d\<lparr>outputsamples_buffer_a := buf\<rparr>)
   }"

text \<open>Result of a frame: success flag, decoder, output, size.\<close>

definition decode_mono ::
  "alac_decoder \<Rightarrow> bit_reader \<Rightarrow> bytes \<Rightarrow> nat \<Rightarrow> nat
     \<Rightarrow> (bool \<times> alac_decoder \<times> bytes \<times> nat) option" where
  "decode_mono d reader out output_samples0 output_size0 =
     (let (uncompressed_bytes, is_not_compressed, output_samples, output_size, r) =
            parse_subframe_header reader output_samples0 output_size0 (unat (bytes_per_sample d))
      in if output_samples > unat (max_samples_per_frame d) \<or> output_size > length out
         then Some (False, d, out, 0)
         else if output_samples = 0 then Some (True, d, out, 0)
         else let bit_width = uncompressed_bytes * 8 in
         if bit_width > ucast (sample_size_config d) then Some (False, d, out, 0)
         else
           let readsamplesize = ucast (sample_size_config d) - bit_width in
           do {
             d1 \<leftarrow>
               (if is_not_compressed = 0
                then mono_compressed d r uncompressed_bytes output_samples readsamplesize
                else mono_raw d r output_samples);
             if sample_size_config d1 = 16 \<or> sample_size_config d1 = 24 then do {
               out1 \<leftarrow> mono_output d1 uncompressed_bytes is_not_compressed output_samples out;
               Some (True, d1, out1, output_size)
             } else Some (False, d1, out, output_size)
           })"

text \<open>The compressed branch of the stereo path: both predictor headers, the low bytes of
  the two channels in alternation, then the two channels.\<close>

definition stereo_compressed ::
  "alac_decoder \<Rightarrow> bit_reader \<Rightarrow> u32 \<Rightarrow> nat \<Rightarrow> u32 \<Rightarrow> (alac_decoder \<times> byte \<times> byte) option" where
  "stereo_compressed d r uncompressed_bytes output_samples readsamplesize =
     (let (shift, r1) = readbits r 8;
          (leftweight, r2) = readbits r1 8;
          (hdr_a, r3) = read_predictor_header r2;
          (hdr_b, r4) = read_predictor_header r3
      in do {
        (d', r5) \<leftarrow>
          (if uncompressed_bytes > 0 then do {
             (ua, ub, r5) \<leftarrow> for_each (\<lambda>(ua, ub, r) i.
                 let (a, r') = readbits r (uncompressed_bytes * 8);
                     (b, r'') = readbits r' (uncompressed_bytes * 8)
                 in do { ua' \<leftarrow> set_at ua i a; ub' \<leftarrow> set_at ub i b; Some (ua', ub', r'') })
               (uncompressed_bytes_buffer_a d, uncompressed_bytes_buffer_b d, r4)
               [0..<output_samples];
             Some (d\<lparr>uncompressed_bytes_buffer_a := ua, uncompressed_bytes_buffer_b := ub\<rparr>, r5)
           } else Some (d, r4));
        (d1, r6) \<leftarrow> decode_channel d' r5 False output_samples readsamplesize hdr_a;
        (d2, _) \<leftarrow> decode_channel d1 r6 True output_samples readsamplesize hdr_b;
        Some (d2, ucast shift, ucast leftweight)
      })"

definition stereo_raw :: "alac_decoder \<Rightarrow> bit_reader \<Rightarrow> nat \<Rightarrow> alac_decoder option" where
  "stereo_raw d r output_samples = do {
     (a, b, _) \<leftarrow> for_each (\<lambda>(a, b, r) i.
         let (v, r') = read_raw_sample (sample_size_config d) r;
             (w, r'') = read_raw_sample (sample_size_config d) r'
         in do { a' \<leftarrow> set_at a i v; b' \<leftarrow> set_at b i w; Some (a', b', r'') })
       (outputsamples_buffer_a d, outputsamples_buffer_b d, r) [0..<output_samples];
     Some (d\<lparr>outputsamples_buffer_a := a, outputsamples_buffer_b := b\<rparr>)
   }"

definition stereo_output ::
  "alac_decoder \<Rightarrow> u32 \<Rightarrow> nat \<Rightarrow> byte \<Rightarrow> byte \<Rightarrow> bytes \<Rightarrow> bytes option" where
  "stereo_output d uncompressed_bytes output_samples shift leftweight out =
     (if sample_size_config d = 16 then
        deinterlace_16 (outputsamples_buffer_a d) (outputsamples_buffer_b d) out
          (unat (num_channels d)) output_samples shift leftweight
      else
        deinterlace_24
          \<lparr>dp_buf_a = outputsamples_buffer_a d, dp_buf_b = outputsamples_buffer_b d,
           dp_uncompressed_bytes = uncompressed_bytes,
           dp_uncomp_a = uncompressed_bytes_buffer_a d, dp_uncomp_b = uncompressed_bytes_buffer_b d,
           dp_num_channels = unat (num_channels d), dp_num_samples = output_samples,
           dp_shift = shift, dp_leftweight = leftweight\<rparr> out)"

definition decode_stereo ::
  "alac_decoder \<Rightarrow> bit_reader \<Rightarrow> bytes \<Rightarrow> nat \<Rightarrow> nat
     \<Rightarrow> (bool \<times> alac_decoder \<times> bytes \<times> nat) option" where
  "decode_stereo d reader out output_samples0 output_size0 =
     (let (uncompressed_bytes, is_not_compressed, output_samples, output_size, r) =
            parse_subframe_header reader output_samples0 output_size0 (unat (bytes_per_sample d))
      in if output_samples > unat (max_samples_per_frame d) \<or> output_size > length out
         then Some (False, d, out, 0)
         else if output_samples = 0 then Some (True, d, out, 0)
         else let bit_width = uncompressed_bytes * 8 in
         if bit_width > ucast (sample_size_config d) then Some (False, d, out, 0)
         else
           let readsamplesize = ucast (sample_size_config d) - bit_width + 1 in
           do {
             (d1, shift, leftweight) \<leftarrow>
               (if is_not_compressed = 0
                then stereo_compressed d r uncompressed_bytes output_samples readsamplesize
                else do { d1 \<leftarrow> stereo_raw d r output_samples; Some (d1, 0, 0) });
             if sample_size_config d1 = 16 \<or> sample_size_config d1 = 24 then do {
               out1 \<leftarrow> stereo_output d1 uncompressed_bytes output_samples shift leftweight out;
               Some (True, d1, out1, output_size)
             } else Some (False, d1, out, output_size)
           })"

text \<open>Result: number of bytes, decoder, output buffer.\<close>

definition decode_frame ::
  "alac_decoder \<Rightarrow> bytes \<Rightarrow> bytes \<Rightarrow> (nat \<times> alac_decoder \<times> bytes) option" where
  "decode_frame d input out =
     (if max_samples_per_frame d = 0 \<or> sint (bytes_per_sample d) \<le> 0 then Some (0, d, out)
      else
        let output_samples = unat (max_samples_per_frame d);
            (channels, reader) = readbits (reader_new input) 3;
            output_size = output_samples * unat (bytes_per_sample d)
        in if length out < output_size then Some (0, d, out)
           else if channels = 0 then
             if num_channels d \<noteq> 1 then Some (0, d, out)
             else do {
               (ok, d1, out1, size1) \<leftarrow> decode_mono d reader out output_samples output_size;
               Some (if ok then size1 else 0, d1, out1)
             }
           else if channels = 1 then
             if num_channels d \<noteq> 2 then Some (0, d, out)
             else do {
               (ok, d1, out1, size1) \<leftarrow> decode_stereo d reader out output_samples output_size;
               Some (if ok then size1 else 0, d1, out1)
             }
           else Some (0, d, out))"

text \<open>\<open>as_chunks::<n>().0\<close>: the complete pieces only.\<close>

definition as_chunks :: "nat \<Rightarrow> 'a list \<Rightarrow> 'a list list" where
  "as_chunks n xs = filter (\<lambda>c. length c = n) (chunks n xs)"

definition sample_of_16 :: "bytes \<Rightarrow> rat" where
  "sample_of_16 c = of_int (sint (from_le_bytes c :: i16)) / 32768"

definition sample_of_24 :: "bytes \<Rightarrow> rat" where
  "sample_of_24 c =
     (let raw = ucast (c ! 0) OR shl (ucast (c ! 1)) 8 OR shl (ucast (c ! 2)) 16 :: i32
      in of_int (sint (sar (shl raw 8) 8)) / 8388608)"

text \<open>\<open>unwound\<close> is the decoder as a call that panicked leaves it behind.\<close>

definition decode_frame_f32 ::
  "alac_decoder \<Rightarrow> alac_decoder \<Rightarrow> bytes \<Rightarrow> rat list option \<times> alac_decoder" where
  "decode_frame_f32 unwound d input =
     (if max_samples_per_frame d = 0 \<or> sint (bytes_per_sample d) \<le> 0 then (None, d)
      else
        let max_output_size = unat (max_samples_per_frame d) * unat (bytes_per_sample d);
            (len, d1, pcm_buf) =
              (case decode_frame d input (replicate max_output_size 0) of
                 None \<Rightarrow> (0, unwound, replicate max_output_size 0)
               | Some r \<Rightarrow> r)
        in if len = 0 then (None, d1)
           else if sample_size_config d1 = 16
             then (Some (map sample_of_16 (as_chunks 2 (take len pcm_buf))), d1)
           else if sample_size_config d1 = 24
             then (Some (map sample_of_24 (as_chunks 3 (take len pcm_buf))), d1)
           else (None, d1))"

section \<open>Invariant\<close>

text \<open>What a decoder that is not disabled looks like. \<open>shape\<close> collects what decoding a
  frame leaves unchanged.\<close>

definition buffer_lengths :: "alac_decoder \<Rightarrow> nat list" where
  "buffer_lengths d = map length [predicterror_buffer_a d, predicterror_buffer_b d,
     outputsamples_buffer_a d, outputsamples_buffer_b d,
     uncompressed_bytes_buffer_a d, uncompressed_bytes_buffer_b d]"

definition shape :: "alac_decoder \<Rightarrow> i32 \<times> i32 \<times> u32 \<times> byte \<times> nat list" where
  "shape d = (num_channels d, bytes_per_sample d, max_samples_per_frame d, sample_size_config d,
     buffer_lengths d)"

definition disabled :: "alac_decoder \<Rightarrow> bool" where
  "disabled d \<longleftrightarrow> max_samples_per_frame d = 0 \<or> sint (bytes_per_sample d) \<le> 0"

definition alac_ready :: "alac_decoder \<Rightarrow> bool" where
  "alac_ready d \<longleftrightarrow>
     (\<forall>l \<in> set (buffer_lengths d). l = unat (max_samples_per_frame d)) \<and> max_samples_per_frame d \<noteq> 0
     \<and> sample_size_config d \<in> {16, 24} \<and> num_channels d \<in> {1, 2}
     \<and> bytes_per_sample d = (if sample_size_config d = 16 then 2 else 3) * num_channels d"

definition alac_inv :: "alac_decoder \<Rightarrow> bool" where
  "alac_inv d \<longleftrightarrow> disabled d \<or> alac_ready d"

lemma alac_ready_shape: "shape d' = shape d \<Longrightarrow> alac_ready d' = alac_ready d"
  by (simp add: alac_ready_def shape_def)

lemma alac_inv_new: "alac_inv (alac_new ss ch)"
  by (simp add: alac_inv_def disabled_def alac_new_def)

lemma byte_1_2: "1 \<le> (c :: byte) \<Longrightarrow> c \<le> 2 \<Longrightarrow> c = 1 \<or> c = 2"
proof -
  assume "1 \<le> c" "c \<le> 2"
  then have "unat c = 1 \<or> unat c = 2" by (auto simp: word_le_nat_alt)
  then have "c = of_nat 1 \<or> c = of_nat 2" by (metis of_nat_unat ucast_id)
  then show ?thesis by simp
qed

lemma alac_inv_set_info: "alac_inv d \<Longrightarrow> alac_inv (set_info d config)"
  using byte_1_2 [of "config ! 33"]
  by (auto simp: set_info_def alac_inv_def disabled_def alac_ready_def allocate_buffers_def
      buffer_lengths_def Let_def)

lemma alac_ready_bytes:
  assumes "alac_ready d"
  shows "unat (bytes_per_sample d) = (if sample_size_config d = 16 then 2 else 3) * unat (num_channels d)"
    and "unat (num_channels d) = (if num_channels d = 1 then 1 else 2)"
    and "\<not> disabled d"
  using assms by (auto simp: alac_ready_def disabled_def)

section \<open>Safety\<close>

lemma ready_lengths:
  assumes "alac_ready d"
  shows "length (predicterror_buffer_a d) = unat (max_samples_per_frame d)"
    "length (predicterror_buffer_b d) = unat (max_samples_per_frame d)"
    "length (outputsamples_buffer_a d) = unat (max_samples_per_frame d)"
    "length (outputsamples_buffer_b d) = unat (max_samples_per_frame d)"
    "length (uncompressed_bytes_buffer_a d) = unat (max_samples_per_frame d)"
    "length (uncompressed_bytes_buffer_b d) = unat (max_samples_per_frame d)"
  using assms by (auto simp: alac_ready_def buffer_lengths_def)

lemma length_read_many [simp]: "length (fst (read_many n b r)) = n"
  by (induction n arbitrary: r) (auto simp: Let_def split_beta)

lemma decode_channel_safe:
  assumes "alac_ready d" and "0 < n" and "n \<le> unat (max_samples_per_frame d)"
    and "pred_num hdr \<le> 31" and "length (pred_table hdr) = 32"
  shows "case decode_channel d r b n width hdr of
      None \<Rightarrow> n < 31 | Some (d', r') \<Rightarrow> shape d' = shape d"
proof -
  let ?pe = "if b then predicterror_buffer_b d else predicterror_buffer_a d"
  let ?out = "if b then outputsamples_buffer_b d else outputsamples_buffer_a d"
  have len: "length ?pe = unat (max_samples_per_frame d)" "length ?out = unat (max_samples_per_frame d)"
    using ready_lengths [OF assms(1)] by auto
  let ?rice = "\<lparr>initial_history = ucast (rice_initial_history d), k_modifier = ucast (rice_k_modifier d),
      history_mult = (ricemod hdr * ucast (rice_history_mult d)) div 4,
      k_modifier_mask = shl 1 (unat (rice_k_modifier d)) - 1\<rparr>"
  have n: "n \<le> length ?pe" using len assms(3) by simp
  from entropy_rice_decode_total [OF n, of r width ?rice] obtain r1 pe1 where
    e: "entropy_rice_decode r ?pe n width ?rice = Some (r1, pe1)" "length pe1 = length ?pe" by blast
  have ne: "pe1 \<noteq> []" "?out \<noteq> []" using e len assms(2,3) by (auto simp flip: length_0_conv)
  let ?p = "predictor_decompress_fir_adapt pe1 ?out n width (pred_table hdr) (pred_num hdr) (pred_quant hdr)"
  have "(\<exists>out1 c. ?p = Some (out1, c) \<and> length out1 = length ?out) \<or> ?p = None \<and> n < 31"
  proof (cases "pred_num hdr = 0 \<or> pred_num hdr = 0x1f \<or> pred_num hdr < n")
    case True
    have "\<exists>out1 c. ?p = Some (out1, c) \<and> length out1 = length ?out"
      by (rule predictor_total [OF assms(2) _ _ _ True]) (use e len assms in auto)
    then show ?thesis ..
  next
    case False
    with predictor_SomeD [OF _ assms(2) ne] have "?p = None" by (cases ?p) auto
    with False assms(4) show ?thesis by auto
  qed
  then show ?thesis
    using e by (cases b) (auto simp: decode_channel_def Let_def shape_def buffer_lengths_def)
qed

lemma read_predictor_header_safe:
  "pred_num (fst (read_predictor_header r)) \<le> 31"
  "length (pred_table (fst (read_predictor_header r))) = 32"
proof -
  have lt: "unat (fst (readbits r' 5)) < 32" for r'
  proof -
    have "unat (x AND 0x00ffffff :: u32) < 2 ^ 24" for x
    proof -
      have "x AND 0x00ffffff = take_bit 24 x" by (simp add: take_bit_eq_mask mask_eq_exp_minus_1)
      then show ?thesis by (simp only: unat_take_bit) simp
    qed
    then show ?thesis
      by (simp add: readbits_def readbits_16_def Let_def unat_shr less_mult_imp_div_less)
  qed
  have "unat (fst (readbits r' 5)) \<le> 31" "unat (fst (readbits r' 5)) \<le> 32" for r'
    using lt [of r'] by linarith+
  then show "pred_num (fst (read_predictor_header r)) \<le> 31"
    "length (pred_table (fst (read_predictor_header r))) = 32"
    by (simp_all add: read_predictor_header_def Let_def split_beta le_trans)
qed

lemma parse_subframe_header_size:
  "parse_subframe_header r s0 (s0 * bps) bps = (u, c, n, sz, r') \<Longrightarrow> sz = n * bps"
  by (auto simp: parse_subframe_header_def Let_def split_beta split: if_splits)

lemma write_loop_total:
  fixes out :: "'a list"
  assumes "\<And>i out'. i < n \<Longrightarrow> length out' = length out \<Longrightarrow>
      \<exists>off src. f out' i = write_at off src out' \<and> off + length src \<le> length out"
  shows "\<exists>out'. for_each f out [0..<n] = Some out' \<and> length out' = length out"
proof (rule for_each_total [where P = "\<lambda>o'. length o' = length out"])
  fix o' :: "'a list" and i
  assume l: "length o' = length out" and "i \<in> set [0..<n]"
  then obtain off src where "f o' i = write_at off src o'" "off + length src \<le> length out"
    using assms [of i o'] by auto
  then show "\<exists>s'. f o' i = Some s' \<and> length s' = length out"
    using l by (simp add: write_at_def)
qed simp

lemma sample_index_bound: "i < n \<Longrightarrow> n * w \<le> l \<Longrightarrow> i * w + w \<le> (l :: nat)"
  by (metis Suc_leI add.commute le_trans mult_Suc mult_le_mono1)

lemma mono_output_safe:
  assumes "alac_ready d" and "num_channels d = 1" and "n \<le> unat (max_samples_per_frame d)"
    and "n * unat (bytes_per_sample d) \<le> length out"
  shows "\<exists>out1. mono_output d u c n out = Some out1 \<and> length out1 = length out"
proof -
  have len: "length (outputsamples_buffer_a d) = unat (max_samples_per_frame d)"
    "length (uncompressed_bytes_buffer_a d) = unat (max_samples_per_frame d)"
    using ready_lengths [OF assms(1)] by auto
  have w: "n * (if sample_size_config d = 16 then 2 else 3) \<le> length out"
    using assms(2,4) alac_ready_bytes(1) [OF assms(1)] by simp
  show ?thesis
  proof (cases "sample_size_config d = 16")
    case True
    have "\<exists>out'. for_each (\<lambda>out i. do {
          s \<leftarrow> get_at (outputsamples_buffer_a d) i;
          write_at (i * 1 * 2) (to_le_bytes 2 (ucast s :: i16)) out }) out [0..<n] = Some out'
        \<and> length out' = length out"
    proof (rule write_loop_total)
      fix i and out' :: bytes
      assume "i < n" "length out' = length out"
      then show "\<exists>off src. (do { s \<leftarrow> get_at (outputsamples_buffer_a d) i;
          write_at (i * 1 * 2) (to_le_bytes 2 (ucast s :: i16)) out' }) = write_at off src out'
          \<and> off + length src \<le> length out"
        using sample_index_bound [of i n 2] w True assms(3) len
        by (intro exI [of _ "i * 2"] exI [of _ "to_le_bytes 2 (ucast (outputsamples_buffer_a d ! i) :: i16)"]) simp
    qed
    then show ?thesis using True assms(2) by (simp add: mono_output_def)
  next
    case False
    let ?s = "\<lambda>i. if u > 0 \<and> c = 0
        then with_low_bytes u (outputsamples_buffer_a d ! i) (uncompressed_bytes_buffer_a d ! i)
        else outputsamples_buffer_a d ! i"
    have "\<exists>out'. for_each (\<lambda>out i. do {
          s \<leftarrow> get_at (outputsamples_buffer_a d) i;
          s1 \<leftarrow> (if u > 0 \<and> c = 0 then do {
                    v \<leftarrow> get_at (uncompressed_bytes_buffer_a d) i;
                    Some (with_low_bytes u s v)
                  } else Some s);
          write_at (i * 1 * 3) (bytes_24 s1) out }) out [0..<n] = Some out'
        \<and> length out' = length out"
    proof (rule write_loop_total)
      fix i and out' :: bytes
      assume "i < n" "length out' = length out"
      then show "\<exists>off src. (do { s \<leftarrow> get_at (outputsamples_buffer_a d) i;
          s1 \<leftarrow> (if u > 0 \<and> c = 0 then do {
                    v \<leftarrow> get_at (uncompressed_bytes_buffer_a d) i;
                    Some (with_low_bytes u s v)
                  } else Some s);
          write_at (i * 1 * 3) (bytes_24 s1) out' }) = write_at off src out'
          \<and> off + length src \<le> length out"
        using sample_index_bound [of i n 3] w False assms(3) len
        by (intro exI [of _ "i * 3"] exI [of _ "bytes_24 (?s i)"]) (simp add: bytes_24_def)
    qed
    then show ?thesis using False assms(2) by (simp add: mono_output_def)
  qed
qed

lemma deinterlace_16_safe:
  assumes "n \<le> length a" and "n \<le> length b" and "n * 4 \<le> length out"
  shows "\<exists>out1. deinterlace_16 a b out 2 n s w = Some out1 \<and> length out1 = length out"
  unfolding deinterlace_16_def
  by (rule for_each_total)
     (use assms in \<open>auto simp: split_beta Let_def write_at_def dest: sample_index_bound [of _ n 4]\<close>)

lemma deinterlace_24_safe:
  assumes "n \<le> length (dp_buf_a p)" and "n \<le> length (dp_buf_b p)"
    and "n \<le> length (dp_uncomp_a p)" and "n \<le> length (dp_uncomp_b p)"
    and "dp_num_channels p = 2" and "dp_num_samples p = n" and "n * 6 \<le> length out"
  shows "\<exists>out1. deinterlace_24 p out = Some out1 \<and> length out1 = length out"
  unfolding deinterlace_24_def
  by (rule for_each_total)
     (use assms in \<open>auto simp: split_beta Let_def write_at_def bytes_24_def dest: sample_index_bound [of _ n 6]\<close>)

lemma stereo_output_safe:
  assumes "alac_ready d" and "num_channels d = 2" and "n \<le> unat (max_samples_per_frame d)"
    and "n * unat (bytes_per_sample d) \<le> length out"
  shows "\<exists>out1. stereo_output d u n s w out = Some out1 \<and> length out1 = length out"
proof (cases "sample_size_config d = 16")
  case True
  then show ?thesis
    using deinterlace_16_safe [of n "outputsamples_buffer_a d" "outputsamples_buffer_b d" out s w]
      assms alac_ready_bytes(1) [OF assms(1)] ready_lengths [OF assms(1)]
    by (simp add: stereo_output_def)
next
  case False
  then show ?thesis
    unfolding stereo_output_def using assms alac_ready_bytes(1) [OF assms(1)] ready_lengths [OF assms(1)]
    by (simp, intro deinterlace_24_safe [of n]) simp_all
qed

text \<open>What one frame may do to the decoder and the output buffer.\<close>

fun frame_outcome ::
  "alac_decoder \<Rightarrow> bytes \<Rightarrow> nat \<Rightarrow> (bool \<times> alac_decoder \<times> bytes \<times> nat) option \<Rightarrow> bool" where
  "frame_outcome d out n None \<longleftrightarrow> 0 < n \<and> n < 31"
| "frame_outcome d out n (Some (ok, d1, out1, size1)) \<longleftrightarrow>
     shape d1 = shape d \<and> length out1 = length out
     \<and> (ok \<longrightarrow> size1 = n * unat (bytes_per_sample d) \<and> size1 \<le> length out
              \<and> n \<le> unat (max_samples_per_frame d))"

lemma shape_update [simp]:
  "length x = length (uncompressed_bytes_buffer_a d) \<Longrightarrow> shape (d\<lparr>uncompressed_bytes_buffer_a := x\<rparr>) = shape d"
  "length x = length (outputsamples_buffer_a d) \<Longrightarrow> shape (d\<lparr>outputsamples_buffer_a := x\<rparr>) = shape d"
  "length x = length (outputsamples_buffer_a d) \<Longrightarrow> length y = length (outputsamples_buffer_b d) \<Longrightarrow>
   shape (d\<lparr>outputsamples_buffer_a := x, outputsamples_buffer_b := y\<rparr>) = shape d"
  "length x = length (uncompressed_bytes_buffer_a d) \<Longrightarrow> length y = length (uncompressed_bytes_buffer_b d) \<Longrightarrow>
   shape (d\<lparr>uncompressed_bytes_buffer_a := x, uncompressed_bytes_buffer_b := y\<rparr>) = shape d"
  by (simp_all add: shape_def buffer_lengths_def)

text \<open>Filling the buffers keeps the shape, and can only panic in frames of fewer than 31
  samples.\<close>

definition fill_ok :: "alac_decoder \<Rightarrow> nat \<Rightarrow> alac_decoder option \<Rightarrow> bool" where
  "fill_ok d n res \<longleftrightarrow> (case res of None \<Rightarrow> n < 31 | Some d' \<Rightarrow> shape d' = shape d)"

lemma decode_channel_header_safe:
  assumes "alac_ready d" and "0 < n" and "n \<le> unat (max_samples_per_frame d)" and "shape d' = shape d"
  shows "decode_channel d' r b n width (fst (read_predictor_header r0)) = Some (d1, r1) \<Longrightarrow> shape d1 = shape d"
    and "decode_channel d' r b n width (fst (read_predictor_header r0)) = None \<Longrightarrow> n < 31"
proof -
  have "alac_ready d'" "n \<le> unat (max_samples_per_frame d')"
    using assms alac_ready_shape [OF assms(4)] by (auto simp: shape_def)
  note * = decode_channel_safe [OF this(1) assms(2) this(2) read_predictor_header_safe, of r b width r0]
  show "decode_channel d' r b n width (fst (read_predictor_header r0)) = Some (d1, r1) \<Longrightarrow> shape d1 = shape d"
    using * assms(4) by simp
  show "decode_channel d' r b n width (fst (read_predictor_header r0)) = None \<Longrightarrow> n < 31"
    using * by simp
qed

lemma mono_compressed_safe:
  assumes "alac_ready d" and "0 < n" and "n \<le> unat (max_samples_per_frame d)"
  shows "fill_ok d n (mono_compressed d r u n width)"
proof -
  define hr where "hr = read_predictor_header (snd (readbits (snd (readbits r 8)) 8))"
  have *: "fill_ok d n (decode_channel d' r4 False n width (fst hr) \<bind> (\<lambda>(d'', _). Some d''))"
    if "shape d' = shape d" for d' r4
    using decode_channel_header_safe [OF assms that, of r4 False width]
    by (auto simp: fill_ok_def hr_def split: option.splits Option.bind_splits)
  let ?v = "read_many n (u * 8) (snd hr)"
  have "write_at 0 (fst ?v) (uncompressed_bytes_buffer_a d)
      = Some (copy_at 0 (fst ?v) (uncompressed_bytes_buffer_a d))"
    using assms ready_lengths [OF assms(1)] by (simp add: write_at_def)
  moreover have "shape (d\<lparr>uncompressed_bytes_buffer_a := copy_at 0 (fst ?v) (uncompressed_bytes_buffer_a d)\<rparr>)
      = shape d"
    using assms ready_lengths [OF assms(1)] by simp
  ultimately show ?thesis
    using * by (simp add: mono_compressed_def Let_def split_beta hr_def [symmetric])
qed

lemma mono_raw_safe:
  assumes "alac_ready d" and "n \<le> unat (max_samples_per_frame d)"
  shows "\<exists>d'. mono_raw d r n = Some d' \<and> shape d' = shape d"
proof -
  let ?a = "outputsamples_buffer_a d"
  have "\<exists>s'. for_each (\<lambda>(buf, r) i. let (v, r') = read_raw_sample (sample_size_config d) r
         in do { buf' \<leftarrow> set_at buf i v; Some (buf', r') }) (?a, r) [0..<n] = Some s'
      \<and> length (fst s') = length ?a"
    by (rule for_each_total)
       (use assms ready_lengths [OF assms(1)] in \<open>auto simp: Let_def split_beta\<close>)
  then show ?thesis by (auto simp: mono_raw_def)
qed

lemma decode_mono_safe:
  assumes "alac_ready d" and "num_channels d = 1"
    and "parse_subframe_header r s0 (s0 * unat (bytes_per_sample d)) (unat (bytes_per_sample d))
      = (u, c, n, sz, r')"
  shows "frame_outcome d out n (decode_mono d r out s0 (s0 * unat (bytes_per_sample d)))"
proof -
  note sz = parse_subframe_header_size [OF assms(3)]
  let ?max = "unat (max_samples_per_frame d)" and ?rss = "ucast (sample_size_config d) - u * 8"
  consider (big) "n > ?max \<or> sz > length out" | (zero) "n = 0"
    | (wide) "u * 8 > ucast (sample_size_config d)"
    | (fill) "n \<le> ?max" "sz \<le> length out" "0 < n" "\<not> u * 8 > ucast (sample_size_config d)"
    by force
  then show ?thesis
  proof cases
    case fill
    let ?f = "if c = 0 then mono_compressed d r' u n ?rss else mono_raw d r' n"
    have f: "fill_ok d n ?f"
      using mono_compressed_safe [OF assms(1) fill(3,1)] mono_raw_safe [OF assms(1) fill(1), of r']
      by (auto simp: fill_ok_def)
    have eq: "decode_mono d r out s0 (s0 * unat (bytes_per_sample d)) = ?f \<bind> (\<lambda>d1.
        if sample_size_config d1 = 16 \<or> sample_size_config d1 = 24 then do {
               out1 \<leftarrow> mono_output d1 u c n out;
               Some (True, d1, out1, sz)
             } else Some (False, d1, out, sz))"
      using fill by (simp add: decode_mono_def assms(3))
    show ?thesis
    proof (cases ?f)
      case None
      then show ?thesis using f fill(3) unfolding eq by (simp add: fill_ok_def)
    next
      case (Some d1)
      with f have sh: "shape d1 = shape d" by (simp add: fill_ok_def)
      then have cfg: "num_channels d1 = 1" "bytes_per_sample d1 = bytes_per_sample d"
        "max_samples_per_frame d1 = max_samples_per_frame d" "sample_size_config d1 \<in> {16, 24}" "alac_ready d1"
        using assms(1,2) alac_ready_shape [OF sh] by (auto simp: shape_def alac_ready_def)
      from mono_output_safe [OF cfg(5,1), of n out u c] fill sz cfg obtain out1 where
        "mono_output d1 u c n out = Some out1" "length out1 = length out" by auto
      then show ?thesis using Some sh cfg(4) fill sz unfolding eq by auto
    qed
  qed (auto simp: decode_mono_def assms(3) sz)
qed

lemma stereo_compressed_safe:
  assumes "alac_ready d" and "0 < n" and "n \<le> unat (max_samples_per_frame d)"
  shows "fill_ok d n (map_option fst (stereo_compressed d r u n width))"
proof -
  define r2 where "r2 = snd (readbits (snd (readbits r 8)) 8)"
  define ha where "ha = read_predictor_header r2"
  define hb where "hb = read_predictor_header (snd ha)"
  have b: "fill_ok d n (map_option fst (decode_channel d1 r6 True n width (fst hb) \<bind> (\<lambda>(d2, _). Some (d2, x))))"
    if "shape d1 = shape d" for d1 r6 and x :: "byte \<times> byte"
    using decode_channel_header_safe [OF assms that, of r6 True width]
    by (auto simp: fill_ok_def hb_def split: option.splits Option.bind_splits)
  have a: "fill_ok d n (map_option fst (decode_channel d' r5 False n width (fst ha) \<bind> (\<lambda>(d1, r6).
      decode_channel d1 r6 True n width (fst hb) \<bind> (\<lambda>(d2, _). Some (d2, x)))))"
    if "shape d' = shape d" for d' r5 and x :: "byte \<times> byte"
  proof (cases "decode_channel d' r5 False n width (fst ha)")
    case None
    then show ?thesis
      using decode_channel_header_safe(2) [OF assms that] by (simp add: fill_ok_def ha_def)
  next
    case (Some p)
    obtain d1 r6 where p: "p = (d1, r6)" by (cases p)
    from decode_channel_header_safe(1) [OF assms that] Some p have "shape d1 = shape d"
      by (simp add: ha_def)
    from b [OF this] show ?thesis using Some p by simp
  qed
  let ?ua = "uncompressed_bytes_buffer_a d" and ?ub = "uncompressed_bytes_buffer_b d"
  let ?loop = "for_each (\<lambda>(ua, ub, r) i.
                 let (a, r') = readbits r (u * 8); (b, r'') = readbits r' (u * 8)
                 in do { ua' \<leftarrow> set_at ua i a; ub' \<leftarrow> set_at ub i b; Some (ua', ub', r'') })
               (?ua, ?ub, snd hb) [0..<n]"
  have "\<exists>s'. ?loop = Some s' \<and> length (fst s') = length ?ua \<and> length (fst (snd s')) = length ?ub"
    by (rule for_each_total)
       (use assms ready_lengths [OF assms(1)] in \<open>auto simp: Let_def split_beta\<close>)
  then obtain ua ub r5 where "?loop = Some (ua, ub, r5)" "length ua = length ?ua" "length ub = length ?ub"
    by auto
  then show ?thesis
    using a by (simp add: stereo_compressed_def Let_def split_beta r2_def [symmetric] ha_def [symmetric]
        hb_def [symmetric])
qed

lemma stereo_raw_safe:
  assumes "alac_ready d" and "n \<le> unat (max_samples_per_frame d)"
  shows "\<exists>d'. stereo_raw d r n = Some d' \<and> shape d' = shape d"
proof -
  let ?a = "outputsamples_buffer_a d" and ?b = "outputsamples_buffer_b d"
  have "\<exists>s'. for_each (\<lambda>(a, b, r) i.
         let (v, r') = read_raw_sample (sample_size_config d) r;
             (w, r'') = read_raw_sample (sample_size_config d) r'
         in do { a' \<leftarrow> set_at a i v; b' \<leftarrow> set_at b i w; Some (a', b', r'') })
       (?a, ?b, r) [0..<n] = Some s'
      \<and> length (fst s') = length ?a \<and> length (fst (snd s')) = length ?b"
    by (rule for_each_total)
       (use assms ready_lengths [OF assms(1)] in \<open>auto simp: Let_def split_beta\<close>)
  then show ?thesis by (auto simp: stereo_raw_def)
qed

lemma decode_stereo_safe:
  assumes "alac_ready d" and "num_channels d = 2"
    and "parse_subframe_header r s0 (s0 * unat (bytes_per_sample d)) (unat (bytes_per_sample d))
      = (u, c, n, sz, r')"
  shows "frame_outcome d out n (decode_stereo d r out s0 (s0 * unat (bytes_per_sample d)))"
proof -
  note sz = parse_subframe_header_size [OF assms(3)]
  let ?max = "unat (max_samples_per_frame d)" and ?rss = "ucast (sample_size_config d) - u * 8 + 1"
  consider (big) "n > ?max \<or> sz > length out" | (zero) "n = 0"
    | (wide) "u * 8 > ucast (sample_size_config d)"
    | (fill) "n \<le> ?max" "sz \<le> length out" "0 < n" "\<not> u * 8 > ucast (sample_size_config d)"
    by force
  then show ?thesis
  proof cases
    case fill
    let ?f = "if c = 0 then stereo_compressed d r' u n ?rss
      else do { d1 \<leftarrow> stereo_raw d r' n; Some (d1, 0, 0) }"
    have f: "fill_ok d n (map_option fst ?f)"
      using stereo_compressed_safe [OF assms(1) fill(3,1)] stereo_raw_safe [OF assms(1) fill(1), of r']
      by (auto simp: fill_ok_def)
    have eq: "decode_stereo d r out s0 (s0 * unat (bytes_per_sample d)) = ?f \<bind> (\<lambda>(d1, s, w).
        if sample_size_config d1 = 16 \<or> sample_size_config d1 = 24 then do {
               out1 \<leftarrow> stereo_output d1 u n s w out;
               Some (True, d1, out1, sz)
             } else Some (False, d1, out, sz))"
      using fill by (simp add: decode_stereo_def assms(3))
    show ?thesis
    proof (cases ?f)
      case None
      then show ?thesis using f fill(3) unfolding eq None by (simp add: fill_ok_def)
    next
      case (Some p)
      obtain d1 s w where p: "p = (d1, s, w)" by (cases p)
      with f Some have sh: "shape d1 = shape d" by (simp add: fill_ok_def)
      then have cfg: "num_channels d1 = 2" "bytes_per_sample d1 = bytes_per_sample d"
        "max_samples_per_frame d1 = max_samples_per_frame d" "sample_size_config d1 \<in> {16, 24}" "alac_ready d1"
        using assms(1,2) alac_ready_shape [OF sh] by (auto simp: shape_def alac_ready_def)
      from stereo_output_safe [OF cfg(5,1), of n out u s w] fill sz cfg obtain out1 where
        "stereo_output d1 u n s w out = Some out1" "length out1 = length out" by auto
      then show ?thesis using sh cfg(4) fill sz unfolding eq Some p by auto
    qed
  qed (auto simp: decode_stereo_def assms(3) sz)
qed

text \<open>The number of samples a frame announces.\<close>

definition frame_samples :: "alac_decoder \<Rightarrow> bytes \<Rightarrow> nat" where
  "frame_samples d input =
     (let (_, r) = readbits (reader_new input) 3;
          (_, _, n, _, _) = parse_subframe_header r (unat (max_samples_per_frame d))
            (unat (max_samples_per_frame d) * unat (bytes_per_sample d)) (unat (bytes_per_sample d))
      in n)"

lemma decode_frame_ready:
  assumes "alac_ready d"
  shows "case decode_frame d input out of
      None \<Rightarrow> 0 < frame_samples d input \<and> frame_samples d input < 31
    | Some (n, d1, out1) \<Rightarrow> shape d1 = shape d \<and> length out1 = length out \<and> n \<le> length out
        \<and> (n = 0 \<or> n = frame_samples d input * unat (bytes_per_sample d)
             \<and> frame_samples d input \<le> unat (max_samples_per_frame d))"
proof -
  let ?max = "unat (max_samples_per_frame d)" and ?bps = "unat (bytes_per_sample d)"
  let ?r = "snd (readbits (reader_new input) 3)"
  obtain u c n sz r' where h: "parse_subframe_header ?r ?max (?max * ?bps) ?bps = (u, c, n, sz, r')"
    by (metis prod_cases5)
  have fs: "frame_samples d input = n" by (simp add: frame_samples_def split_beta h)
  have m: "num_channels d = 1 \<Longrightarrow> frame_outcome d out n (decode_mono d ?r out ?max (?max * ?bps))"
    using decode_mono_safe [OF assms _ h] .
  have s: "num_channels d = 2 \<Longrightarrow> frame_outcome d out n (decode_stereo d ?r out ?max (?max * ?bps))"
    using decode_stereo_safe [OF assms _ h] .
  have *: "case (x \<bind> (\<lambda>(ok, d1, out1, size1). Some (if ok then size1 else 0, d1, out1))) of
      None \<Rightarrow> 0 < n \<and> n < 31
    | Some (k, d1, out1) \<Rightarrow> shape d1 = shape d \<and> length out1 = length out \<and> k \<le> length out
        \<and> (k = 0 \<or> k = n * ?bps \<and> n \<le> ?max)" if "frame_outcome d out n x" for x
    using that by (cases x rule: option.exhaust) auto
  show ?thesis
    unfolding decode_frame_def fs Let_def split_beta
    using * [OF m, unfolded split_beta] * [OF s, unfolded split_beta] assms
    by (auto simp: alac_ready_def)
qed

text \<open>
  C29: decoding is memory-safe and bounded for every input. Whatever bytes a frame has,
  the decoder keeps its configuration, its invariant and the sizes of its buffers and of
  the output, reports no more bytes than the output holds, and these are the announced
  samples times the sample size, or none; the only frames that make it panic announce
  between 1 and 30 samples.
\<close>

theorem alac_decode_safe:
  assumes "alac_inv d"
  shows "case decode_frame d input out of
      None \<Rightarrow> 0 < frame_samples d input \<and> frame_samples d input < 31
    | Some (n, d1, out1) \<Rightarrow> alac_inv d1 \<and> shape d1 = shape d \<and> length out1 = length out
        \<and> n \<le> length out
        \<and> (n = 0 \<or> n = frame_samples d input * unat (bytes_per_sample d)
             \<and> frame_samples d input \<le> unat (max_samples_per_frame d))"
proof (cases "disabled d")
  case True
  then show ?thesis using assms by (simp add: decode_frame_def disabled_def)
next
  case False
  with assms have "alac_ready d" by (simp add: alac_inv_def)
  from decode_frame_ready [OF this, of input out] this show ?thesis
    by (auto simp: alac_inv_def dest: alac_ready_shape split: option.splits)
qed

definition sample_info :: bytes where
  "sample_info = replicate 24 0 @ [0, 0, 0, 4, 0, 16, 40, 10, 14, 2] @ replicate 14 0"

theorem alac_decode_safe_witness:
  "let d = set_info (alac_new 16 2) sample_info;
       r = decode_frame d [0x20, 0, 0x12] (replicate 16 0)
   in alac_inv d \<and> \<not> disabled d
      \<and> (case r of None \<Rightarrow> 0 < frame_samples d [0x20, 0, 0x12] | Some (n, d1, out1) \<Rightarrow>
           alac_inv d1 \<and> length out1 = 16 \<and> n \<le> 16)"
proof -
  have i: "alac_inv (set_info (alac_new 16 2) sample_info)"
    by (intro alac_inv_set_info alac_inv_new)
  have "\<not> disabled (set_info (alac_new 16 2) sample_info)" by code_simp
  with alac_decode_safe [OF i, of "[0x20, 0, 0x12]" "replicate 16 0"] i show ?thesis
    by (auto simp: Let_def split: option.splits)
qed

end
