(* ===== verification/Alac_Raw.thy ===== *)
theory Alac_Raw
  imports Alac
begin

text \<open>
  Uncompressed ALAC frames: the bit layout of a frame that carries its samples verbatim,
  and that the decoder returns exactly these samples as little-endian PCM and as
  floating-point values.
\<close>

section \<open>Packing bits into bytes\<close>

definition pack :: "bool list \<Rightarrow> bytes" where
  "pack bs = map (\<lambda>c. of_nat (val_of_bits (c @ replicate (8 - length c) False))) (chunks 8 bs)"

lemma chunks_nth:
  "0 < n \<Longrightarrow> k < length (chunks n xs) \<Longrightarrow> chunks n xs ! k = take n (drop (k * n) xs)"
proof (induction n xs arbitrary: k rule: chunks.induct)
  case (1 n xs)
  show ?case
  proof (cases "xs = []")
    case False
    then have c: "chunks n xs = take n xs # chunks n (drop n xs)"
      using "1.prems" by (subst chunks.simps) simp
    show ?thesis
    proof (cases k)
      case (Suc j)
      then show ?thesis
        using 1 False c by (simp add: add.commute)
    qed (simp add: c)
  qed (use "1.prems" in simp)
qed

lemma bit_val_of_bits:
  "j < length c \<Longrightarrow> bit (val_of_bits c) (length c - 1 - j) = c ! j"
proof (induction c arbitrary: j rule: rev_induct)
  case (snoc b c)
  have v: "val_of_bits (c @ [b]) = of_bool b + 2 * val_of_bits c" by (simp add: val_of_bits_append)
  show ?case
  proof (cases "j = length c")
    case True
    then show ?thesis by (simp add: v bit_0)
  next
    case False
    then have j: "j < length c" using snoc.prems by simp
    then have "length (c @ [b]) - 1 - j = Suc (length c - 1 - j)" by simp
    moreover have "bit (of_bool b + 2 * val_of_bits c) (Suc m) = bit (val_of_bits c) m" for m
      by (simp add: bit_Suc)
    ultimately show ?thesis using snoc.IH [OF j] j by (simp add: v nth_append)
  qed
qed simp

lemma bit_at_pack: "i < length bs \<Longrightarrow> bit_at (pack bs) i = bs ! i"
proof -
  assume i: "i < length bs"
  let ?k = "i div 8" and ?j = "i mod 8"
  have len: "length (chunks 8 bs) = (length bs + 7) div 8" by (simp add: length_chunks)
  have k: "?k < length (chunks 8 bs)" using i unfolding len by (simp add: div_less_mono div_le_mono2 less_eq_div_iff_mult_less_eq Suc_le_eq [symmetric])
  let ?c = "take 8 (drop (?k * 8) bs)"
  let ?p = "?c @ replicate (8 - length ?c) False"
  have e: "?k * 8 + ?j = i" by simp
  then have "?j < length bs - ?k * 8" using i by linarith
  then have "?j < length ?c" "?c ! ?j = bs ! i" using i e by auto
  moreover have "length ?p = 8" by simp
  ultimately have "bit (val_of_bits ?p) (7 - ?j) = bs ! i"
    using bit_val_of_bits [of ?j ?p] by (simp add: nth_append)
  moreover have "pack bs ! ?k = of_nat (val_of_bits ?p)"
    using k by (simp add: pack_def chunks_nth)
  moreover have "bit (of_nat v :: byte) (7 - ?j) = bit v (7 - ?j)" for v
    by (auto simp: bit_of_nat_iff)
  ultimately show ?thesis using k by (simp add: bit_at_def pack_def)
qed

lemma peek_pack: "peek (pack bs) 0 (length bs) = bs"
  by (rule nth_equalityI) (simp_all add: peek_def bit_at_pack)

section \<open>Verbatim frames\<close>

type_synonym pcm_frame = "i16 \<times> i16"

definition raw_header :: "nat \<Rightarrow> bool list" where
  "raw_header n = bits_of_nat 3 1 @ bits_of_nat 4 0 @ bits_of_nat 12 0 @ [True] @ bits_of_nat 2 0
     @ [True] @ bits_of_nat 32 n"

definition raw_pair :: "pcm_frame \<Rightarrow> bool list" where
  "raw_pair p = bits_of_nat 16 (unat (fst p)) @ bits_of_nat 16 (unat (snd p))"

definition raw_frame :: "pcm_frame list \<Rightarrow> bytes" where
  "raw_frame ps = pack (raw_header (length ps) @ concat (map raw_pair ps))"

definition pcm_bytes :: "pcm_frame list \<Rightarrow> bytes" where
  "pcm_bytes ps = concat (map (\<lambda>(l, r). to_le_bytes 2 l @ to_le_bytes 2 r) ps)"

lemma read_raw_sample_at:
  assumes "peek buf p 16 = bits_of_nat 16 (unat (x :: i16))"
  shows "read_raw_sample 16 (reader_at buf p) = (sign_extend_32 (ucast x) 16, reader_at buf (p + 16))"
proof -
  have "unat x < 2 ^ LENGTH(16)" by (rule unsigned_less)
  then have "unat x mod 2 ^ 16 = unat x" by simp
  moreover have "(of_nat (unat x) :: u32) = ucast x" by (simp add: unsigned_of_nat)
  ultimately have "readbits (reader_at buf p) 16 = (ucast x, reader_at buf (p + 16))"
    using readbits_at [of 16 buf p] assms by simp
  then show ?thesis by (simp add: read_raw_sample_def)
qed

lemma ucast_sign_extend: "(ucast (sign_extend_32 (ucast (x :: i16)) 16) :: i16) = x"
  by (rule bit_word_eqI)
     (auto simp: sign_extend_32_def sar_def shl_def bit_unsigned_iff bit_signed_drop_bit_iff bit_push_bit_iff)

abbreviation wide :: "i16 \<Rightarrow> i32" where
  "wide x \<equiv> sign_extend_32 (ucast x) 16"

lemma stereo_raw_reads:
  assumes bits: "peek buf p (32 * length ps) = concat (map raw_pair ps)"
    and ss: "sample_size_config d = 16"
    and len: "length ps \<le> length (outputsamples_buffer_a d)" "length ps \<le> length (outputsamples_buffer_b d)"
  shows "stereo_raw d (reader_at buf p) (length ps)
    = Some (d\<lparr>outputsamples_buffer_a := map (\<lambda>q. wide (fst q)) ps @ drop (length ps) (outputsamples_buffer_a d),
              outputsamples_buffer_b := map (\<lambda>q. wide (snd q)) ps @ drop (length ps) (outputsamples_buffer_b d)\<rparr>)"
proof -
  let ?as = "map (\<lambda>q. wide (fst q)) ps" and ?bs = "map (\<lambda>q. wide (snd q)) ps"
  let ?a = "outputsamples_buffer_a d" and ?b = "outputsamples_buffer_b d"
  let ?f = "\<lambda>(a, b, r) i.
         let (v, r') = read_raw_sample (sample_size_config d) r;
             (w, r'') = read_raw_sample (sample_size_config d) r'
         in do { a' \<leftarrow> set_at a i v; b' \<leftarrow> set_at b i w; Some (a', b', r'') }"
  have l: "length (concat (map raw_pair qs)) = 32 * length qs" for qs
    by (induction qs) (auto simp: raw_pair_def)
  have pk: "peek buf (p + 32 * k) 16 = bits_of_nat 16 (unat (fst (ps ! k)))"
    "peek buf (p + 32 * k + 16) 16 = bits_of_nat 16 (unat (snd (ps ! k)))" if "k < length ps" for k
  proof -
    let ?x = "concat (map raw_pair (take k ps))" and ?z = "concat (map raw_pair (drop (Suc k) ps))"
    have split: "concat (map raw_pair ps) = ?x @ raw_pair (ps ! k) @ ?z"
      using id_take_nth_drop [OF that] by (metis concat.simps(2) concat_append list.simps(9) map_append)
    have lx: "length ?x = 32 * k" using that by (simp add: l)
    have "peek buf p (length (?x @ raw_pair (ps ! k) @ ?z)) = ?x @ raw_pair (ps ! k) @ ?z"
      using bits l [of ps] split by simp
    then have "peek buf (p + 32 * k) (length (raw_pair (ps ! k))) = raw_pair (ps ! k)"
      unfolding peek_append_split lx by blast
    then show "peek buf (p + 32 * k) 16 = bits_of_nat 16 (unat (fst (ps ! k)))"
      "peek buf (p + 32 * k + 16) 16 = bits_of_nat 16 (unat (snd (ps ! k)))"
      unfolding raw_pair_def peek_append_split by auto
  qed
  have "for_each ?f (?a, ?b, reader_at buf p) [0..<k]
      = Some (partly k ?as ?a, partly k ?bs ?b, reader_at buf (p + 32 * k))" if "k \<le> length ps" for k
    using that
  proof (induction k)
    case (Suc k)
    then have k: "k < length ps" by simp
    have "?f (partly k ?as ?a, partly k ?bs ?b, reader_at buf (p + 32 * k)) k
        = Some (partly (Suc k) ?as ?a, partly (Suc k) ?bs ?b, reader_at buf (p + 32 * k + 32))"
      using read_raw_sample_at [OF pk(1) [OF k]] read_raw_sample_at [OF pk(2) [OF k]] k len
        partly_set [of k ?as ?a] partly_set [of k ?bs ?b]
      by (simp add: ss set_at_def add.assoc)
    moreover have "p + 32 * k + 32 = p + 32 * Suc k" by simp
    ultimately show ?case using Suc by (simp add: for_each_append)
  qed simp
  from this [of "length ps"] show ?thesis unfolding stereo_raw_def by simp
qed

lemma deinterlace_16_plain:
  assumes "length ps \<le> length a" and "length ps \<le> length b" and "4 * length ps \<le> length out"
    and "take (length ps) a = map (\<lambda>q. wide (fst q)) ps" and "take (length ps) b = map (\<lambda>q. wide (snd q)) ps"
  shows "deinterlace_16 a b out 2 (length ps) 0 0
    = Some (pcm_bytes ps @ drop (4 * length ps) out)"
proof -
  have l: "length (pcm_bytes qs) = 4 * length qs" for qs
    by (induction qs) (auto simp: pcm_bytes_def split_beta)
  let ?f = "\<lambda>out i. do {
       a \<leftarrow> get_at a i;
       b \<leftarrow> get_at b i;
       let (left, right) = unmix 0 0 a b;
       let li = (i * 2) * 2;
       let ri = (i * 2 + 1) * 2;
       out1 \<leftarrow> write_at li (to_le_bytes 2 (ucast left :: i16)) out;
       write_at ri (to_le_bytes 2 (ucast right :: i16)) out1 }"
  have "for_each ?f out [0..<k] = Some (pcm_bytes (take k ps) @ drop (4 * k) out)" if "k \<le> length ps" for k
    using that
  proof (induction k)
    case (Suc k)
    then have k: "k < length ps" by simp
    let ?x = "to_le_bytes 2 (fst (ps ! k))" and ?y = "to_le_bytes 2 (snd (ps ! k))"
    let ?out = "pcm_bytes (take k ps) @ drop (4 * k) out"
    have ab: "a ! k = wide (fst (ps ! k))" "b ! k = wide (snd (ps ! k))"
      using arg_cong [OF assms(4), of "\<lambda>xs. xs ! k"] arg_cong [OF assms(5), of "\<lambda>xs. xs ! k"] k by simp_all
    have lk: "length (pcm_bytes (take k ps)) = 4 * k" using k by (simp add: l)
    have o: "4 * k + 4 \<le> length out" using k assms(3) by simp
    have w1: "write_at (k * 2 * 2) ?x ?out = Some (pcm_bytes (take k ps) @ ?x @ drop (4 * k + 2) out)"
      using o lk by (simp add: write_at_def copy_at_def)
    have w2: "write_at ((k * 2 + 1) * 2) ?y (pcm_bytes (take k ps) @ ?x @ drop (4 * k + 2) out)
        = Some (pcm_bytes (take k ps) @ (?x @ ?y) @ drop (4 * k + 4) out)"
    proof -
      have "drop (Suc (Suc (Suc (Suc (4 * k))))) out = drop (4 * k + 4) out" by (simp add: numeral_eq_Suc)
      moreover have "Suc (Suc (4 * k)) \<le> length out - 2" using o by linarith
      ultimately show ?thesis using o lk by (simp add: write_at_def copy_at_def)
    qed
    have "pcm_bytes (take (Suc k) ps) = pcm_bytes (take k ps) @ ?x @ ?y"
      using k by (simp add: pcm_bytes_def take_Suc_conv_app_nth split_beta)
    then have "?f ?out k = Some (pcm_bytes (take (Suc k) ps) @ drop (4 * Suc k) out)"
      using k assms(1,2) w1 w2 by (simp add: unmix_def ab ucast_sign_extend del: mult_Suc_right) (simp add: add.commute)
    with Suc show ?case by (simp add: for_each_append)
  qed (simp add: pcm_bytes_def)
  from this [of "length ps"] show ?thesis by (simp add: deinterlace_16_def)
qed

lemma raw_frame_peeks:
  fixes ps :: "pcm_frame list"
  defines "buf \<equiv> raw_frame ps"
  shows "peek buf 0 3 = bits_of_nat 3 1" and "peek buf 19 1 = [True]" and "peek buf 20 2 = bits_of_nat 2 0"
    and "peek buf 22 1 = [True]" and "peek buf 23 32 = bits_of_nat 32 (length ps)"
    and "peek buf 55 (32 * length ps) = concat (map raw_pair ps)"
proof -
  let ?d = "concat (map raw_pair ps)"
  have l: "length ?d = 32 * length ps" by (induction ps) (auto simp: raw_pair_def)
  let ?bits = "bits_of_nat 3 1 @ bits_of_nat 4 0 @ bits_of_nat 12 0 @ [True] @ bits_of_nat 2 0
     @ [True] @ bits_of_nat 32 (length ps) @ ?d"
  have "peek buf 0 (length ?bits) = ?bits"
    using peek_pack [of ?bits] by (simp add: buf_def raw_frame_def raw_header_def)
  then show "peek buf 0 3 = bits_of_nat 3 1" "peek buf 19 1 = [True]" "peek buf 20 2 = bits_of_nat 2 0"
    "peek buf 22 1 = [True]" "peek buf 23 32 = bits_of_nat 32 (length ps)"
    "peek buf 55 (32 * length ps) = ?d"
    unfolding peek_append_split by (simp_all add: l)
qed

lemma raw_frame_header:
  assumes "length ps < 2 ^ 32"
  shows "readbits (reader_new (raw_frame ps)) 3 = (1, reader_at (raw_frame ps) 3)"
    and "parse_subframe_header (reader_at (raw_frame ps) 3) s0 z0 w
      = (0, 1, length ps, length ps * w, reader_at (raw_frame ps) 55)"
proof -
  note pk = raw_frame_peeks [of ps]
  show "readbits (reader_new (raw_frame ps)) 3 = (1, reader_at (raw_frame ps) 3)"
    by (simp add: reader_new_at readbits_at pk(1))
  have "unat (of_nat (length ps) :: u32) = length ps" using assms by (simp add: unat_of_nat)
  then show "parse_subframe_header (reader_at (raw_frame ps) 3) s0 z0 w
      = (0, 1, length ps, length ps * w, reader_at (raw_frame ps) 55)"
    using assms pk(2-5) by (simp add: parse_subframe_header_def readbits_at)
qed

text \<open>
  A frame that carries its samples verbatim decodes to exactly these samples. For a
  decoder set up for 16-bit stereo, every list of at most \<open>max_samples_per_frame\<close> sample
  pairs, written as an uncompressed frame, comes back as little-endian PCM at the start
  of the output, the rest of which is untouched.
\<close>

theorem alac_raw_roundtrip:
  assumes "alac_ready d" and "sample_size_config d = 16" and "num_channels d = 2"
    and "ps \<noteq> []" and "length ps \<le> unat (max_samples_per_frame d)"
    and "4 * unat (max_samples_per_frame d) \<le> length out"
  shows "\<exists>d'. decode_frame d (raw_frame ps) out
    = Some (4 * length ps, d', pcm_bytes ps @ drop (4 * length ps) out)"
proof -
  have bps: "unat (bytes_per_sample d) = 4" "\<not> disabled d"
    using alac_ready_bytes [OF assms(1)] assms(2,3) by auto
  have "unat (max_samples_per_frame d) < 2 ^ LENGTH(32)" by (rule unsigned_less)
  with assms(5) have fits: "length ps < 2 ^ 32" by simp
  let ?a = "outputsamples_buffer_a d" and ?b = "outputsamples_buffer_b d"
  let ?d = "d\<lparr>outputsamples_buffer_a := map (\<lambda>q. wide (fst q)) ps @ drop (length ps) ?a,
              outputsamples_buffer_b := map (\<lambda>q. wide (snd q)) ps @ drop (length ps) ?b\<rparr>"
  have len: "length ps \<le> length ?a" "length ps \<le> length ?b"
    using ready_lengths [OF assms(1)] assms(5) by auto
  have raw: "stereo_raw d (reader_at (raw_frame ps) 55) (length ps) = Some ?d"
    by (rule stereo_raw_reads [OF raw_frame_peeks(6) assms(2) len])
  have "stereo_output ?d 0 (length ps) 0 0 out = Some (pcm_bytes ps @ drop (4 * length ps) out)"
    unfolding stereo_output_def using assms(2,3,5,6) len
    by simp (rule deinterlace_16_plain, simp_all)
  then have "decode_stereo d (reader_at (raw_frame ps) 3) out (unat (max_samples_per_frame d))
      (unat (max_samples_per_frame d) * 4) = Some (True, ?d, pcm_bytes ps @ drop (4 * length ps) out, 4 * length ps)"
    using assms(2,4,5,6) raw by (simp add: decode_stereo_def raw_frame_header(2) [OF fits] bps)
  then show ?thesis
    using assms(3,6) bps raw_frame_header(1) [OF fits]
    by (simp add: decode_frame_def disabled_def)
qed

theorem alac_raw_roundtrip_witness:
  "let d = set_info (alac_new 16 2) sample_info in
   alac_ready d \<and> length [(1, - 2), (3, 4)] \<le> unat (max_samples_per_frame d)
   \<and> (\<exists>d'. decode_frame d (raw_frame [(1, - 2), (3, 4)]) (replicate 16 9)
        = Some (8, d', [1, 0, 254, 255, 3, 0, 4, 0] @ replicate 8 9))"
proof -
  let ?d = "set_info (alac_new 16 2) sample_info" and ?ps = "[(1, - 2), (3, 4)] :: pcm_frame list"
  have "\<not> disabled ?d" by code_simp
  then have r: "alac_ready ?d" using alac_inv_set_info [OF alac_inv_new] by (auto simp: alac_inv_def)
  have c: "sample_size_config ?d = 16" "num_channels ?d = 2" "unat (max_samples_per_frame ?d) = 4"
    by code_simp+
  have "\<exists>d'. decode_frame ?d (raw_frame ?ps) (replicate 16 9)
      = Some (4 * length ?ps, d', pcm_bytes ?ps @ drop (4 * length ?ps) (replicate 16 9))"
    by (rule alac_raw_roundtrip [OF r c(1,2)]) (simp_all add: c(3))
  moreover have "pcm_bytes ?ps = [1, 0, 254, 255, 3, 0, 4, 0]"
    by (simp add: pcm_bytes_def to_le_bytes_2)
  moreover have "drop (4 * length ?ps) (replicate 16 (9::byte)) = replicate 8 9" by simp
  moreover have "4 * length ?ps = 8" by simp
  ultimately show ?thesis using r c(3) by (simp only: Let_def) simp
qed

definition info_24 :: "byte \<Rightarrow> bytes" where
  "info_24 channels = replicate 24 0 @ [0, 0, 0, 1, 0, 24, 40, 10, 14, channels] @ replicate 14 0"

definition ready_24 :: "i32 \<Rightarrow> alac_decoder" where
  "ready_24 channels =
     \<lparr>num_channels = channels, bytes_per_sample = 3 * channels, max_samples_per_frame = 1,
      sample_size_config = 24, rice_history_mult = 40, rice_initial_history = 10,
      rice_k_modifier = 14, max_run = 0, max_frame_bytes = 0, avg_bit_rate = 0, sample_rate = 0,
      predicterror_buffer_a = [0], predicterror_buffer_b = [0],
      outputsamples_buffer_a = [0], outputsamples_buffer_b = [0],
      uncompressed_bytes_buffer_a = [0], uncompressed_bytes_buffer_b = [0]\<rparr>"

lemma set_info_24:
  "set_info (alac_new 24 2) (info_24 2) = ready_24 2" "set_info (alac_new 24 1) (info_24 1) = ready_24 1"
  by code_simp+

text \<open>
  In a 24-bit stereo frame that is not compressed but announces one byte of
  uncompressed low bits, the decoder shifts every sample by that byte and fills the gap
  with stale buffer contents: the samples \<open>0x123456\<close> and \<open>0x0A0B0C\<close> come out as
  \<open>0x345600\<close> and \<open>0x0B0C00\<close>. The mono path, given the same header, keeps the sample.
\<close>

theorem raw_low_bytes_stereo:
  "map_option (\<lambda>(n, _, out). (n, out))
     (decode_frame (set_info (alac_new 24 2) (info_24 2))
       [0x20, 0x00, 0x06, 0x24, 0x68, 0xAC, 0x14, 0x16, 0x18] (replicate 6 0))
     = Some (6, [0x00, 0x56, 0x34, 0x00, 0x0C, 0x0B])
   \<and> map_option (\<lambda>(n, _, out). (n, out))
     (decode_frame (set_info (alac_new 24 1) (info_24 1)) [0x00, 0x00, 0x06, 0x24, 0x68, 0xAC] (replicate 3 0))
     = Some (3, [0x56, 0x34, 0x12])"
proof -
  let ?s = "[0x20, 0x00, 0x06, 0x24, 0x68, 0xAC, 0x14, 0x16, 0x18] :: bytes"
  let ?m = "[0x00, 0x00, 0x06, 0x24, 0x68, 0xAC] :: bytes"
  let ?ds = "ready_24 2\<lparr>outputsamples_buffer_a := [0x123456], outputsamples_buffer_b := [0x0A0B0C]\<rparr>"
  let ?dm = "ready_24 1\<lparr>outputsamples_buffer_a := [0x123456]\<rparr>"
  have s: "readbits (reader_new ?s) 3 = (1, reader_at ?s 3)"
    "parse_subframe_header (reader_at ?s 3) 1 6 6 = (1, 1, 1, 6, reader_at ?s 23)"
    "stereo_raw (ready_24 2) (reader_at ?s 23) 1 = Some ?ds"
    "stereo_output ?ds 1 1 0 0 (replicate 6 0) = Some [0x00, 0x56, 0x34, 0x00, 0x0C, 0x0B]"
    by code_simp+
  have m: "readbits (reader_new ?m) 3 = (0, reader_at ?m 3)"
    "parse_subframe_header (reader_at ?m 3) 1 3 3 = (1, 1, 1, 3, reader_at ?m 23)"
    "mono_raw (ready_24 1) (reader_at ?m 23) 1 = Some ?dm"
    "mono_output ?dm 1 1 1 (replicate 3 0) = Some [0x56, 0x34, 0x12]"
    by code_simp+
  have f: "num_channels (ready_24 c) = c" "bytes_per_sample (ready_24 c) = 3 * c"
    "max_samples_per_frame (ready_24 c) = 1" "sample_size_config (ready_24 c) = 24" for c
    by (simp_all add: ready_24_def)
  have "decode_frame (ready_24 2) ?s (replicate 6 0) = Some (6, ?ds, [0x00, 0x56, 0x34, 0x00, 0x0C, 0x0B])"
    unfolding decode_frame_def decode_stereo_def by (simp add: f s [simplified])
  moreover have "decode_frame (ready_24 1) ?m (replicate 3 0) = Some (3, ?dm, [0x56, 0x34, 0x12])"
    unfolding decode_frame_def decode_mono_def by (simp add: f m [simplified])
  ultimately show ?thesis by (simp add: set_info_24)
qed

end
