(* ===== verification/Rust_Str.thy ===== *)
theory Rust_Str
  imports Prelude
begin

text \<open>
  The part of Rust's \<open>str\<close> the protocol code uses. A string is the list of its UTF-8
  bytes. White space is Unicode \<open>White_Space\<close>, recognised on the encoded bytes; in valid
  UTF-8 no continuation byte starts such a sequence, so scanning byte by byte is scanning
  character by character.
\<close>

section \<open>Bytes and characters\<close>

definition as_bytes :: "string \<Rightarrow> bytes" where
  "as_bytes s = map (\<lambda>c. of_nat (of_char c)) s"

definition str_of_bytes :: "bytes \<Rightarrow> string" where
  "str_of_bytes bs = map (\<lambda>b. char_of (unat b)) bs"

lemma as_bytes_of_bytes [simp]: "as_bytes (str_of_bytes bs) = bs"
proof -
  have "(of_nat (of_char (char_of (unat b))) :: byte) = b" for b :: byte
    using unat_byte [of b] by (simp add: of_char_of)
  then show ?thesis by (simp add: as_bytes_def str_of_bytes_def map_idI)
qed

lemma str_of_bytes_of_str [simp]: "str_of_bytes (as_bytes s) = s"
proof -
  have "char_of (unat (of_nat (of_char c) :: byte)) = c" for c :: char
  proof -
    have "(of_char c :: nat) < 256" 
      by (metis of_char_mod_256 mod_less_divisor zero_less_numeral)
    then show ?thesis by (simp add: unat_of_nat)
  qed
  then show ?thesis by (simp add: as_bytes_def str_of_bytes_def map_idI)
qed

lemma length_as_bytes [simp]: "length (as_bytes s) = length s"
  and length_str_of_bytes [simp]: "length (str_of_bytes bs) = length bs"
  by (simp_all add: as_bytes_def str_of_bytes_def)

definition to_ascii_lower :: "char \<Rightarrow> char" where
  "to_ascii_lower c =
     (let n = of_char c :: nat in if 65 \<le> n \<and> n \<le> 90 then char_of (n + 32) else c)"

definition eq_ignore_ascii_case :: "string \<Rightarrow> string \<Rightarrow> bool" where
  "eq_ignore_ascii_case a b \<longleftrightarrow> map to_ascii_lower a = map to_ascii_lower b"

section \<open>White space\<close>

text \<open>Number of bytes of the white-space character a string starts with, 0 if none.\<close>

definition ws_len :: "string \<Rightarrow> nat" where
  "ws_len s =
     (let b = map (of_char :: char \<Rightarrow> nat) (take 3 s) in
      if b = [] then 0
      else if (9 \<le> hd b \<and> hd b \<le> 13) \<or> hd b = 32 then 1
      else if take 2 b = [0xC2, 0x85] \<or> take 2 b = [0xC2, 0xA0] then 2
      else if b = [0xE1, 0x9A, 0x80] \<or> b = [0xE2, 0x81, 0x9F] \<or> b = [0xE3, 0x80, 0x80]
           \<or> (length b = 3 \<and> take 2 b = [0xE2, 0x80]
              \<and> ((0x80 \<le> b ! 2 \<and> b ! 2 \<le> 0x8A) \<or> b ! 2 = 0xA8 \<or> b ! 2 = 0xA9 \<or> b ! 2 = 0xAF))
        then 3
      else 0)"

lemma ws_len_Nil [simp]: "ws_len [] = 0"
  by (simp add: ws_len_def)

lemma ws_len_le: "ws_len s \<le> length s"
proof -
  have "length (take 2 (map (of_char :: char \<Rightarrow> nat) (take 3 s))) \<le> length s"
    "length (map (of_char :: char \<Rightarrow> nat) (take 3 s)) \<le> length s" by auto
  then show ?thesis
    by (cases s) (auto simp: ws_len_def Let_def dest!: arg_cong [of _ _ length])
qed

function trim_start :: "string \<Rightarrow> string" where
  "trim_start s = (if ws_len s = 0 then s else trim_start (drop (ws_len s) s))"
  by pat_completeness auto
termination
proof (relation "measure length", goal_cases)
  case (2 s)
  then show ?case using ws_len_le [of s] by (cases s) auto
qed simp

declare trim_start.simps [simp del]

text \<open>Number of bytes of the white-space character a string ends with.\<close>

definition ws_len_end :: "string \<Rightarrow> nat" where
  "ws_len_end s =
     (if s \<noteq> [] \<and> ws_len (drop (length s - 1) s) = 1 then 1
      else if length s \<ge> 2 \<and> ws_len (drop (length s - 2) s) = 2 then 2
      else if length s \<ge> 3 \<and> ws_len (drop (length s - 3) s) = 3 then 3
      else 0)"

function trim_end :: "string \<Rightarrow> string" where
  "trim_end s = (if ws_len_end s = 0 then s else trim_end (take (length s - ws_len_end s) s))"
  by pat_completeness auto
termination
  by (relation "measure length") (auto simp: ws_len_end_def split: if_splits)

declare trim_end.simps [simp del]

definition trim :: "string \<Rightarrow> string" where
  "trim s = trim_end (trim_start s)"

section \<open>Splitting\<close>

text \<open>\<open>s.split(c)\<close>: always at least one piece.\<close>

fun split_on :: "char \<Rightarrow> string \<Rightarrow> string list" where
  "split_on c [] = [[]]"
| "split_on c (x # xs) =
     (if x = c then [] # split_on c xs
      else case split_on c xs of [] \<Rightarrow> [[x]] | p # ps \<Rightarrow> (x # p) # ps)"

lemma split_on_not_Nil [simp]: "split_on c s \<noteq> []"
  by (induction s) (auto split: list.splits)

lemma split_on_no_sep: "c \<notin> set s \<Longrightarrow> split_on c s = [s]"
  by (induction s) auto

lemma split_on_append: "c \<notin> set a \<Longrightarrow> split_on c (a @ c # b) = a # split_on c b"
  by (induction a) auto

text \<open>\<open>s.split_once(c)\<close>.\<close>

fun split_once :: "char \<Rightarrow> string \<Rightarrow> (string \<times> string) option" where
  "split_once c [] = None"
| "split_once c (x # xs) =
     (if x = c then Some ([], xs) else map_option (\<lambda>(a, b). (x # a, b)) (split_once c xs))"

lemma split_once_append: "c \<notin> set a \<Longrightarrow> split_once c (a @ c # b) = Some (a, b)"
  by (induction a) auto

lemma split_once_None_iff: "split_once c s = None \<longleftrightarrow> c \<notin> set s"
  by (induction s) auto

lemma split_once_SomeD: "split_once c s = Some (a, b) \<Longrightarrow> s = a @ c # b \<and> c \<notin> set a"
  by (induction s arbitrary: a) (auto split: if_splits)

text \<open>\<open>s.split_whitespace()\<close>: \<open>cur\<close> is the piece being read.\<close>

function split_ws :: "string \<Rightarrow> string \<Rightarrow> string list" where
  "split_ws cur s =
     (if s = [] then (if cur = [] then [] else [cur])
      else if ws_len s = 0 then split_ws (cur @ [hd s]) (tl s)
      else (if cur = [] then [] else [cur]) @ split_ws [] (drop (ws_len s) s))"
  by pat_completeness auto
termination
  by (relation "measure (length \<circ> snd)") (auto simp: neq_Nil_conv)

declare split_ws.simps [simp del]

definition split_whitespace :: "string \<Rightarrow> string list" where
  "split_whitespace s = split_ws [] s"

definition strip_prefix :: "string \<Rightarrow> string \<Rightarrow> string option" where
  "strip_prefix p s = (if take (length p) s = p then Some (drop (length p) s) else None)"

lemma strip_prefix_append [simp]: "strip_prefix p (p @ s) = Some s"
  by (simp add: strip_prefix_def)

text \<open>\<open>s.lines()\<close>: a final line break does not start another line; one carriage return
  before a line feed belongs to the line break, one at the very end of the text does not.\<close>

definition strip_cr :: "string \<Rightarrow> string" where
  "strip_cr l = (if l \<noteq> [] \<and> last l = CHR 0x0D then butlast l else l)"

definition lines :: "string \<Rightarrow> string list" where
  "lines s =
     (let ls = split_on (CHR 0x0A) s in
      map strip_cr (butlast ls) @ (if last ls = [] then [] else [last ls]))"

lemma lines_Nil [simp]: "lines [] = []"
  by (simp add: lines_def)

lemma lines_append: "CHR 0x0A \<notin> set l \<Longrightarrow> lines (l @ CHR 0x0A # s) = strip_cr l # lines s"
  by (simp add: lines_def split_on_append Let_def)

text \<open>\<open>s.trim_end_matches(c)\<close> for a character \<open>c\<close>.\<close>

definition trim_end_matches :: "char \<Rightarrow> string \<Rightarrow> string" where
  "trim_end_matches c s = rev (dropWhile (\<lambda>x. x = c) (rev s))"

text \<open>\<open>s.trim_matches(c)\<close> for a character \<open>c\<close>.\<close>

definition trim_matches :: "char \<Rightarrow> string \<Rightarrow> string" where
  "trim_matches c s = trim_end_matches c (dropWhile (\<lambda>x. x = c) s)"

section \<open>Trimming text that is clean already\<close>

definition ascii :: "string \<Rightarrow> bool" where
  "ascii s \<longleftrightarrow> list_all (\<lambda>c. (of_char c :: nat) < 128) s"

definition trimmed :: "string \<Rightarrow> bool" where
  "trimmed s \<longleftrightarrow> ws_len s = 0 \<and> ws_len_end s = 0"

lemma trim_trimmed: "trimmed s \<Longrightarrow> trim s = s"
  by (simp add: trimmed_def trim_def trim_start.simps [of s] trim_end.simps [of s])

lemma ws_len_Cons_ascii:
  "(of_char c :: nat) < 128 \<Longrightarrow>
   ws_len (c # s) = (if (9 \<le> (of_char c :: nat) \<and> (of_char c :: nat) \<le> 13) \<or> (of_char c :: nat) = 32 then 1 else 0)"
  by (simp add: ws_len_def Let_def)

text \<open>White space at the end of a text does not depend on an ASCII prefix.\<close>

lemma ws_len_end_ascii_append:
  assumes "ascii p" "v \<noteq> []"
  shows "ws_len_end (p @ v) = ws_len_end v"
proof -
  have two: "ws_len (c # x) \<noteq> 2 \<and> ws_len (c # x) \<noteq> 3" if "(of_char c :: nat) < 128" for c x
    using that by (simp add: ws_len_Cons_ascii)
  have cut: "drop (length (p @ v) - k) (p @ v) = drop (length v - k) v" if "k \<le> length v" for k
    using that by simp
  have pre: "ws_len (drop (length (p @ v) - k) (p @ v)) \<noteq> 2 \<and> ws_len (drop (length (p @ v) - k) (p @ v)) \<noteq> 3"
    if "\<not> k \<le> length v" "k \<le> length (p @ v)" for k
  proof -
    let ?i = "length (p @ v) - k"
    have i: "?i < length p" using that by simp
    then have "drop ?i (p @ v) = (p ! ?i) # (drop (Suc ?i) p @ v)" by (simp add: Cons_nth_drop_Suc)
    moreover have "(of_char (p ! ?i) :: nat) < 128" using assms(1) i by (auto simp: ascii_def list_all_length)
    ultimately show ?thesis using two by simp
  qed
  from assms(2) have 1: "1 \<le> length v" by (simp add: Suc_le_eq)
  show ?thesis
    unfolding ws_len_end_def using cut [OF 1] cut [of 2] cut [of 3] pre [of 2] pre [of 3] assms(2)
    by (cases "2 \<le> length v"; cases "3 \<le> length v") auto
qed

text \<open>Text of visible ASCII characters only.\<close>

definition visible :: "string \<Rightarrow> bool" where
  "visible s \<longleftrightarrow> list_all (\<lambda>c. 33 \<le> (of_char c :: nat) \<and> (of_char c :: nat) < 128) s"

lemma visible_ascii: "visible s \<Longrightarrow> ascii s"
  by (auto simp: visible_def ascii_def list_all_iff)

lemma visible_append [simp]: "visible (p @ q) \<longleftrightarrow> visible p \<and> visible q"
  by (simp add: visible_def)

lemma ws_len_visible: "visible p \<Longrightarrow> p \<noteq> [] \<Longrightarrow> ws_len (p @ s) = 0"
  by (cases p) (auto simp: visible_def ws_len_Cons_ascii)

lemma trimmed_visible_append:
  "visible p \<Longrightarrow> p \<noteq> [] \<Longrightarrow> v \<noteq> [] \<Longrightarrow> ws_len_end v = 0 \<Longrightarrow> trimmed (p @ v)"
  by (simp add: trimmed_def ws_len_visible ws_len_end_ascii_append visible_ascii)

lemma ws_len_end_visible: "visible p \<Longrightarrow> ws_len_end p = 0"
proof (cases p rule: rev_cases)
  case (snoc q d)
  moreover assume "visible p"
  ultimately have "ascii q" "ws_len_end [d] = 0"
    by (auto simp: visible_ascii visible_def ws_len_end_def ws_len_Cons_ascii)
  with snoc show ?thesis by (simp add: ws_len_end_ascii_append)
qed (simp add: ws_len_end_def)

lemma trimmed_visible: "visible p \<Longrightarrow> trimmed p"
  using ws_len_visible [of p "[]"] by (cases "p = []") (simp_all add: trimmed_def ws_len_end_visible)

lemma ws_len_end_last: "v \<noteq> [] \<Longrightarrow> ws_len [last v] = 1 \<Longrightarrow> ws_len_end v = 1"
  by (cases v rule: rev_cases) (simp_all add: ws_len_end_def)

lemma ws_len_end_snoc:
  assumes "33 \<le> (of_char c :: nat)" "(of_char c :: nat) < 128"
  shows "ws_len_end (v @ [c]) = 0"
proof -
  have 1: "ws_len [c] = 0" using assms by (simp add: ws_len_Cons_ascii)
  have 2: "ws_len [x, c] \<noteq> 2" for x using assms by (auto simp: ws_len_def Let_def)
  have 3: "ws_len [x, y, c] \<noteq> 3" for x y using assms by (auto simp: ws_len_def Let_def)
  consider "v = []" | y where "v = [y]" | w x y where "v = w @ [x, y]"
    by (metis append.assoc append_Cons append_Nil rev_exhaust)
  then show ?thesis
  proof cases
    case 1
    then show ?thesis by (simp add: ws_len_end_def \<open>ws_len [c] = 0\<close>)
  next
    case (2 y)
    then show ?thesis using \<open>\<And>x. ws_len [x, c] \<noteq> 2\<close> by (simp add: ws_len_end_def 1)
  next
    case (3 w x y)
    have "drop (length (v @ [c]) - 1) (v @ [c]) = [c]" "drop (length (v @ [c]) - 2) (v @ [c]) = [y, c]"
      "drop (length (v @ [c]) - 3) (v @ [c]) = [x, y, c]" using 3 by simp_all
    then show ?thesis
      unfolding ws_len_end_def using 1 \<open>\<And>x. ws_len [x, c] \<noteq> 2\<close> \<open>\<And>x y. ws_len [x, y, c] \<noteq> 3\<close>
      by simp
  qed
qed

section \<open>Numbers\<close>

definition is_digit :: "char \<Rightarrow> bool" where
  "is_digit c \<longleftrightarrow> (48 \<le> (of_char c :: nat) \<and> (of_char c :: nat) \<le> 57)"

definition digits_value :: "string \<Rightarrow> nat" where
  "digits_value s = foldl (\<lambda>a c. 10 * a + (of_char c - 48)) 0 s"

text \<open>\<open>s.parse::<uN>()\<close>: an optional plus sign, at least one digit, no overflow.\<close>

definition parse_digits :: "string \<Rightarrow> nat option" where
  "parse_digits s = (if s \<noteq> [] \<and> list_all is_digit s then Some (digits_value s) else None)"

definition strip_plus :: "string \<Rightarrow> string" where
  "strip_plus s = (case s of c # cs \<Rightarrow> if c = CHR ''+'' then cs else s | [] \<Rightarrow> s)"

definition parse_nat :: "nat \<Rightarrow> string \<Rightarrow> nat option" where
  "parse_nat bits s =
     (case parse_digits (strip_plus s) of
        Some n \<Rightarrow> if n < 2 ^ bits then Some n else None
      | None \<Rightarrow> None)"

definition parse_uint :: "string \<Rightarrow> 'a::len word option" where
  "parse_uint s = map_option of_nat (parse_nat LENGTH('a) s)"

text \<open>\<open>s.parse::<i32>()\<close>.\<close>

definition parse_i32 :: "string \<Rightarrow> int option" where
  "parse_i32 s =
     (case s of
        c # cs \<Rightarrow>
          if c = CHR ''-'' then
            (case parse_digits cs of
               Some n \<Rightarrow> if n \<le> 2 ^ 31 then Some (- int n) else None
             | None \<Rightarrow> None)
          else
            (case parse_digits (strip_plus s) of
               Some n \<Rightarrow> if n < 2 ^ 31 then Some (int n) else None
             | None \<Rightarrow> None)
      | [] \<Rightarrow> None)"

text \<open>\<open>format!("{}", n)\<close>.\<close>

fun show_nat :: "nat \<Rightarrow> string" where
  "show_nat n = (if n < 10 then [char_of (n + 48)] else show_nat (n div 10) @ [char_of (n mod 10 + 48)])"

declare show_nat.simps [simp del]

lemma digits_value_snoc: "digits_value (s @ [c]) = 10 * digits_value s + (of_char c - 48)"
  by (simp add: digits_value_def)

lemma show_nat_digits: "list_all is_digit (show_nat n) \<and> show_nat n \<noteq> [] \<and> digits_value (show_nat n) = n"
proof (induction n rule: show_nat.induct)
  case (1 n)
  have d: "is_digit (char_of (k + 48))" "of_char (char_of (k + 48) :: char) - 48 = k" if "k < 10" for k :: nat
    using that by (simp_all add: is_digit_def of_char_of)
  show ?case
  proof (cases "n < 10")
    case True
    with d [OF True] show ?thesis by (simp add: show_nat.simps [of n] digits_value_def)
  next
    case False
    with 1 d [of "n mod 10"] show ?thesis
      by (simp add: show_nat.simps [of n] digits_value_snoc)
  qed
qed

lemma show_nat_inject [simp]: "show_nat m = show_nat n \<longleftrightarrow> m = n"
  by (metis show_nat_digits)

lemma parse_nat_show: "n < 2 ^ bits \<Longrightarrow> parse_nat bits (show_nat n) = Some n"
proof -
  assume n: "n < 2 ^ bits"
  obtain c cs where s: "show_nat n = c # cs" using show_nat_digits [of n] by (cases "show_nat n") auto
  with show_nat_digits [of n] have "is_digit c" by simp
  then have "c \<noteq> CHR ''+''" by (auto simp: is_digit_def)
  then have "strip_plus (show_nat n) = show_nat n" by (simp add: strip_plus_def s)
  with show_nat_digits [of n] n show ?thesis by (simp add: parse_nat_def parse_digits_def)
qed

lemma parse_nat_bound: "parse_nat bits s = Some n \<Longrightarrow> n < 2 ^ bits"
  by (auto simp: parse_nat_def split: option.splits if_splits)

end
