(* ===== verification/Sdp.thy ===== *)
theory Sdp
  imports Rust_Str
begin

text \<open>
  The SDP parser of src/proto/sdp.rs. The abstract specification reads a session
  description as the sequence of its well-formed attributes; each getter of the parsed
  record is the first attribute of its name, and a description printed from a record is
  parsed back.
\<close>

section \<open>Parser\<close>

record sdp =
  version :: "string option"
  connection :: "string option"
  rtpmap :: "string option"
  fmtp :: "string option"
  rsaaeskey :: "string option"
  fpaeskey :: "string option"
  aesiv :: "string option"
  min_latency :: "string option"

definition sdp_empty :: sdp where
  "sdp_empty = \<lparr>version = None, connection = None, rtpmap = None, fmtp = None,
     rsaaeskey = None, fpaeskey = None, aesiv = None, min_latency = None\<rparr>"

definition attr_line :: "sdp \<Rightarrow> string \<Rightarrow> sdp" where
  "attr_line s val0 =
     (case split_once (CHR '':'') val0 of
        None \<Rightarrow> s
      | Some (k, v) \<Rightarrow>
          let key = trim k; val = trim v in
          if val = [] then s
          else if key = ''rtpmap'' \<and> rtpmap s = None then s\<lparr>rtpmap := Some val\<rparr>
          else if key = ''fmtp'' \<and> fmtp s = None then s\<lparr>fmtp := Some val\<rparr>
          else if key = ''rsaaeskey'' \<and> rsaaeskey s = None then s\<lparr>rsaaeskey := Some val\<rparr>
          else if key = ''fpaeskey'' \<and> fpaeskey s = None then s\<lparr>fpaeskey := Some val\<rparr>
          else if key = ''aesiv'' \<and> aesiv s = None then s\<lparr>aesiv := Some val\<rparr>
          else if key = ''min-latency'' \<and> min_latency s = None then s\<lparr>min_latency := Some val\<rparr>
          else s)"

definition sdp_line :: "sdp \<Rightarrow> string \<Rightarrow> sdp" where
  "sdp_line s raw =
     (let line = trim (trim_end_matches (CHR 0x0D) raw) in
      if length line < 2 \<or> line ! 1 \<noteq> CHR ''='' then s
      else
        let val0 = trim (drop 2 line) in
        if line ! 0 = CHR ''v'' \<and> version s = None \<and> val0 \<noteq> [] then s\<lparr>version := Some val0\<rparr>
        else if line ! 0 = CHR ''c'' \<and> connection s = None \<and> val0 \<noteq> [] then s\<lparr>connection := Some val0\<rparr>
        else if line ! 0 = CHR ''a'' then attr_line s val0
        else s)"

definition sdp_parse :: "string \<Rightarrow> sdp" where
  "sdp_parse data = foldl sdp_line sdp_empty (lines data)"

section \<open>Specification\<close>

datatype sdp_field = Version | Connection | Rtpmap | Fmtp | RsaAesKey | FpAesKey | AesIv | MinLatency

fun get_field :: "sdp_field \<Rightarrow> sdp \<Rightarrow> string option" where
  "get_field Version s = version s"
| "get_field Connection s = connection s"
| "get_field Rtpmap s = rtpmap s"
| "get_field Fmtp s = fmtp s"
| "get_field RsaAesKey s = rsaaeskey s"
| "get_field FpAesKey s = fpaeskey s"
| "get_field AesIv s = aesiv s"
| "get_field MinLatency s = min_latency s"

fun field_tag :: "sdp_field \<Rightarrow> string" where
  "field_tag Version = ''v=''"
| "field_tag Connection = ''c=''"
| "field_tag Rtpmap = ''a=rtpmap:''"
| "field_tag Fmtp = ''a=fmtp:''"
| "field_tag RsaAesKey = ''a=rsaaeskey:''"
| "field_tag FpAesKey = ''a=fpaeskey:''"
| "field_tag AesIv = ''a=aesiv:''"
| "field_tag MinLatency = ''a=min-latency:''"

text \<open>The attribute a line carries, if any.\<close>

definition attr_field :: "string \<Rightarrow> sdp_field option" where
  "attr_field key =
     (if key = ''rtpmap'' then Some Rtpmap else if key = ''fmtp'' then Some Fmtp
      else if key = ''rsaaeskey'' then Some RsaAesKey else if key = ''fpaeskey'' then Some FpAesKey
      else if key = ''aesiv'' then Some AesIv else if key = ''min-latency'' then Some MinLatency
      else None)"

definition line_value :: "sdp_field \<Rightarrow> string \<Rightarrow> string option" where
  "line_value f raw =
     (let line = trim (trim_end_matches (CHR 0x0D) raw); val0 = trim (drop 2 line) in
      if length line < 2 \<or> line ! 1 \<noteq> CHR ''='' then None
      else if line ! 0 = CHR ''v'' then (if f = Version \<and> val0 \<noteq> [] then Some val0 else None)
      else if line ! 0 = CHR ''c'' then (if f = Connection \<and> val0 \<noteq> [] then Some val0 else None)
      else if line ! 0 = CHR ''a'' then
        (case split_once (CHR '':'') val0 of
           None \<Rightarrow> None
         | Some (k, v) \<Rightarrow> if attr_field (trim k) = Some f \<and> trim v \<noteq> [] then Some (trim v) else None)
      else None)"

definition first_value :: "sdp_field \<Rightarrow> string list \<Rightarrow> string option" where
  "first_value f ls = (case List.map_filter (line_value f) ls of [] \<Rightarrow> None | v # _ \<Rightarrow> Some v)"

definition or_else :: "'a option \<Rightarrow> 'a option \<Rightarrow> 'a option" where
  "or_else a b = (case a of None \<Rightarrow> b | Some x \<Rightarrow> Some x)"

lemma or_else_simps [simp]:
  "or_else None b = b" "or_else (Some x) b = Some x" "or_else a None = a"
  by (auto simp: or_else_def split: option.splits)

lemma first_value_Nil [simp]: "first_value f [] = None"
  by (simp add: first_value_def map_filter_simps)

lemma first_value_Cons: "first_value f (l # ls) = or_else (line_value f l) (first_value f ls)"
  by (simp add: first_value_def map_filter_simps split: option.splits)

lemma get_field_attr_line:
  "get_field f (attr_line s val0) =
   or_else (get_field f s)
     (case split_once (CHR '':'') val0 of None \<Rightarrow> None
      | Some (k, v) \<Rightarrow> if attr_field (trim k) = Some f \<and> trim v \<noteq> [] then Some (trim v) else None)"
proof (cases "split_once (CHR '':'') val0")
  case None
  then show ?thesis by (simp add: attr_line_def)
next
  case (Some kv)
  then show ?thesis
    by (cases kv; cases f)
       (simp_all add: attr_line_def attr_field_def Let_def or_else_def split: option.split)
qed

lemma get_field_sdp_line: "get_field f (sdp_line s l) = or_else (get_field f s) (line_value f l)"
proof -
  define line where "line = trim (trim_end_matches (CHR 0x0D) l)"
  show ?thesis
  proof (cases "length line < 2 \<or> line ! 1 \<noteq> CHR ''=''")
    case True
    then show ?thesis by (simp add: sdp_line_def line_value_def Let_def flip: line_def)
  next
    case False
    consider "line ! 0 = CHR ''v''" | "line ! 0 = CHR ''c''" | "line ! 0 = CHR ''a''"
      | "line ! 0 \<noteq> CHR ''v''" "line ! 0 \<noteq> CHR ''c''" "line ! 0 \<noteq> CHR ''a''" by blast
    then show ?thesis
    proof cases
      case 1
      with False show ?thesis
        by (cases f) (simp_all add: sdp_line_def line_value_def Let_def or_else_def
              split: option.split flip: line_def)
    next
      case 2
      with False show ?thesis
        by (cases f) (simp_all add: sdp_line_def line_value_def Let_def or_else_def
              split: option.split flip: line_def)
    next
      case 3
      with False show ?thesis
        by (simp add: sdp_line_def line_value_def Let_def get_field_attr_line flip: line_def)
    next
      case 4
      with False show ?thesis
        by (simp add: sdp_line_def line_value_def Let_def flip: line_def)
    qed
  qed
qed

lemma get_field_foldl:
  "get_field f (foldl sdp_line s ls) = or_else (get_field f s) (first_value f ls)"
proof (induction ls arbitrary: s)
  case (Cons l ls)
  then show ?case
    by (simp add: get_field_sdp_line first_value_Cons) (simp add: or_else_def split: option.split)
qed simp

lemma get_field_eqI: "(\<And>f. get_field f s = get_field f t) \<Longrightarrow> s = (t :: sdp)"
proof -
  assume a: "\<And>f. get_field f s = get_field f t"
  show ?thesis
    by (rule sdp.equality)
       (use a [of Version] a [of Connection] a [of Rtpmap] a [of Fmtp] a [of RsaAesKey]
          a [of FpAesKey] a [of AesIv] a [of MinLatency] in simp_all)
qed


section \<open>Properties\<close>

text \<open>
  Every getter of the parsed description returns the first non-empty value its lines
  give for that field; later duplicates, malformed lines and other attributes never change it.
\<close>

theorem sdp_parse_first_value:
  "get_field f (sdp_parse data) = first_value f (lines data)"
  by (simp add: sdp_parse_def get_field_foldl) (cases f; simp add: sdp_empty_def)

text \<open>Printing a description, one line per present field.\<close>

definition print_field :: "sdp \<Rightarrow> sdp_field \<Rightarrow> string" where
  "print_field s f =
     (case get_field f s of None \<Rightarrow> [] | Some v \<Rightarrow> field_tag f @ v @ [CHR 0x0D, CHR 0x0A])"

definition sdp_print :: "sdp_field list \<Rightarrow> sdp \<Rightarrow> string" where
  "sdp_print fs s = concat (map (print_field s) fs)"

definition clean_value :: "string \<Rightarrow> bool" where
  "clean_value v \<longleftrightarrow> v \<noteq> [] \<and> trimmed v \<and> CHR 0x0A \<notin> set v"

lemma clean_value_last_cr: "clean_value v \<Longrightarrow> last v \<noteq> CHR 0x0D"
  using ws_len_end_last [of v] by (auto simp: clean_value_def trimmed_def ws_len_def)

lemma trim_end_matches_last: "s \<noteq> [] \<Longrightarrow> last s \<noteq> c \<Longrightarrow> trim_end_matches c s = s"
  by (cases s rule: rev_cases) (simp_all add: trim_end_matches_def)

lemma trim_line:
  assumes "clean_value v" "visible p" "p \<noteq> []"
  shows "trim (trim_end_matches (CHR 0x0D) (p @ v)) = p @ v" "trim (p @ v) = p @ v"
  using assms clean_value_last_cr [OF assms(1)] trimmed_visible_append [of p v]
  by (simp_all add: trim_end_matches_last trim_trimmed clean_value_def trimmed_def)

lemma line_value_attr:
  assumes "clean_value v" "visible k" "k \<noteq> []" "CHR '':'' \<notin> set k"
  shows "line_value g (''a='' @ k @ '':'' @ v) = (if attr_field k = Some g then Some v else None)"
proof -
  have vis: "visible (''a='' @ k @ '':'')" "visible (k @ '':'')" using assms(2) by (simp_all add: visible_def)
  have "trim (trim_end_matches (CHR 0x0D) (''a='' @ k @ '':'' @ v)) = ''a='' @ k @ '':'' @ v"
    "trim (k @ '':'' @ v) = k @ '':'' @ v"
    using trim_line [OF assms(1) vis(1)] trim_line [OF assms(1) vis(2)] assms(3) by simp_all
  then show ?thesis
    using assms split_once_append [OF assms(4), of v]
    by (simp add: line_value_def Let_def trim_trimmed trimmed_visible clean_value_def)
qed

lemma line_value_tag:
  assumes "clean_value v"
  shows "line_value g (field_tag f @ v) = (if g = f then Some v else None)"
proof -
  have v: "v \<noteq> []" "trim v = v" using assms by (simp_all add: clean_value_def trim_trimmed)
  have vc: "line_value g (''v='' @ v) = (if g = Version then Some v else None)"
    "line_value g (''c='' @ v) = (if g = Connection then Some v else None)"
    using trim_line [OF assms, of "''v=''"] trim_line [OF assms, of "''c=''"] v
    by (simp_all add: line_value_def Let_def visible_def)
  have attr: "line_value g (''a='' @ k @ '':'' @ v) = (if attr_field k = Some g then Some v else None)"
    if "k \<in> {''rtpmap'', ''fmtp'', ''rsaaeskey'', ''fpaeskey'', ''aesiv'', ''min-latency''}" for k
    using that by (intro line_value_attr [OF assms]) (auto simp: visible_def)
  show ?thesis
    using vc attr [of "''rtpmap''"] attr [of "''fmtp''"] attr [of "''rsaaeskey''"]
      attr [of "''fpaeskey''"] attr [of "''aesiv''"] attr [of "''min-latency''"]
    by (cases f) (simp_all add: attr_field_def eq_commute [of _ g])
qed

lemma strip_cr_snoc [simp]: "strip_cr (l @ [CHR 0x0D]) = l"
  by (simp add: strip_cr_def)

lemma lines_print_field:
  assumes "\<And>v. get_field f s = Some v \<Longrightarrow> clean_value v"
  shows "lines (print_field s f @ rest) =
    (case get_field f s of None \<Rightarrow> [] | Some v \<Rightarrow> [field_tag f @ v]) @ lines rest"
proof (cases "get_field f s")
  case None
  then show ?thesis by (simp add: print_field_def)
next
  case (Some v)
  have "CHR 0x0A \<notin> set (field_tag f @ v @ [CHR 0x0D])"
    using assms [OF Some] by (cases f) (simp_all add: clean_value_def)
  from lines_append [OF this, of rest] Some show ?thesis
    using strip_cr_snoc [of "field_tag f @ v"] by (simp add: print_field_def)
qed

lemma first_value_print:
  assumes "\<And>f v. get_field f s = Some v \<Longrightarrow> clean_value v"
  shows "first_value g (lines (sdp_print fs s)) = (if g \<in> set fs then get_field g s else None)"
proof (induction fs)
  case Nil
  then show ?case by (simp add: sdp_print_def)
next
  case (Cons f fs)
  have "lines (sdp_print (f # fs) s) =
      (case get_field f s of None \<Rightarrow> [] | Some v \<Rightarrow> [field_tag f @ v]) @ lines (sdp_print fs s)"
    using lines_print_field [of f s, OF assms] by (simp add: sdp_print_def)
  with Cons show ?case
    by (cases "get_field f s") (auto simp: first_value_Cons line_value_tag assms)
qed

text \<open>
  A description printed one field per line, in any order of the fields, is parsed back to
  the same record, provided the values are non-empty, free of line feeds and without
  surrounding white space.
\<close>

theorem sdp_roundtrip:
  assumes clean: "\<And>f v. get_field f s = Some v \<Longrightarrow> clean_value v"
    and all: "\<And>f. get_field f s \<noteq> None \<Longrightarrow> f \<in> set fs"
  shows "sdp_parse (sdp_print fs s) = s"
proof (rule get_field_eqI)
  fix f
  have "get_field f (sdp_parse (sdp_print fs s)) = first_value f (lines (sdp_print fs s))"
    by (simp add: sdp_parse_def get_field_foldl) (cases f; simp add: sdp_empty_def)
  also have "\<dots> = (if f \<in> set fs then get_field f s else None)"
    by (rule first_value_print [OF clean])
  finally show "get_field f (sdp_parse (sdp_print fs s)) = get_field f s"
    using all [of f] by (cases "get_field f s") auto
qed

definition sdp_sample :: sdp where
  "sdp_sample = sdp_empty\<lparr>version := Some ''0'', rtpmap := Some ''96 L16'', aesiv := Some ''q=''\<rparr>"

lemma sdp_roundtrip_witness:
  "sdp_parse (sdp_print [AesIv, Rtpmap, Version] sdp_sample) = sdp_sample"
proof (rule sdp_roundtrip)
  fix f v
  assume "get_field f sdp_sample = Some v"
  then have "v \<in> {''0'', ''96 L16'', ''q=''}" by (cases f) (auto simp: sdp_sample_def sdp_empty_def)
  then show "clean_value v"
    by (elim insertE) (simp_all add: clean_value_def trimmed_def ws_len_end_def ws_len_def Let_def)
next
  fix f
  assume "get_field f sdp_sample \<noteq> None"
  then show "f \<in> set [AesIv, Rtpmap, Version]" by (cases f) (auto simp: sdp_sample_def sdp_empty_def)
qed

end
