(* ===== verification/Utf8.thy ===== *)
theory Utf8
  imports Rust_Str
begin

text \<open>
  UTF-8 as Rust's standard library checks it: \<open>std::str::from_utf8\<close> and
  \<open>String::from_utf8_lossy\<close>.
\<close>

section \<open>One scalar value\<close>

text \<open>The well-formed sequences are those of the Unicode standard: no overlong forms, no
  surrogates, nothing above U+10FFFF.\<close>

definition cont :: "byte \<Rightarrow> bool" where
  "cont b \<longleftrightarrow> 0x80 \<le> b \<and> b \<le> 0xBF"

text \<open>
  The first scalar value of a non-empty byte sequence: whether it is well-formed, and how many
  bytes belong to it or, if it is not, to the longest prefix of a well-formed sequence.
\<close>

definition byte_at :: "bytes \<Rightarrow> nat \<Rightarrow> byte" where
  "byte_at bs i = (if i < length bs then bs ! i else 0)"

definition second_ok :: "byte \<Rightarrow> byte \<Rightarrow> bool" where
  "second_ok a b \<longleftrightarrow>
     (if a = 0xE0 then 0xA0 \<le> b \<and> b \<le> 0xBF
      else if a = 0xED then 0x80 \<le> b \<and> b \<le> 0x9F
      else if a = 0xF0 then 0x90 \<le> b \<and> b \<le> 0xBF
      else if a = 0xF4 then 0x80 \<le> b \<and> b \<le> 0x8F
      else cont b)"

definition utf8_step :: "bytes \<Rightarrow> bool \<times> nat" where
  "utf8_step bs =
     (let a = byte_at bs 0; b = byte_at bs 1; c = byte_at bs 2; d = byte_at bs 3 in
      if a < 0x80 then (True, 1)
      else if 0xC2 \<le> a \<and> a \<le> 0xDF then (if cont b then (True, 2) else (False, 1))
      else if 0xE0 \<le> a \<and> a \<le> 0xEF then
        (if \<not> second_ok a b then (False, 1) else if \<not> cont c then (False, 2) else (True, 3))
      else if 0xF0 \<le> a \<and> a \<le> 0xF4 then
        (if \<not> second_ok a b then (False, 1) else if \<not> cont c then (False, 2)
         else if \<not> cont d then (False, 3) else (True, 4))
      else (False, 1))"

lemma utf8_step_pos: "0 < snd (utf8_step bs)"
  by (simp add: utf8_step_def Let_def)

section \<open>Validation and lossy decoding\<close>

function utf8_valid :: "bytes \<Rightarrow> bool" where
  "utf8_valid bs \<longleftrightarrow>
     (if bs = [] then True
      else if \<not> fst (utf8_step bs) then False
      else utf8_valid (drop (snd (utf8_step bs)) bs))"
  by pat_completeness auto
termination
proof (relation "measure length", goal_cases)
  case (2 bs)
  then show ?case using utf8_step_pos [of bs] by (cases bs) auto
qed simp

declare utf8_valid.simps [simp del]

definition from_utf8 :: "bytes \<Rightarrow> string option" where
  "from_utf8 bs = (if utf8_valid bs then Some (str_of_bytes bs) else None)"

text \<open>Every ill-formed piece becomes U+FFFD.\<close>

function from_utf8_lossy :: "bytes \<Rightarrow> string" where
  "from_utf8_lossy bs =
     (if bs = [] then []
      else str_of_bytes (if fst (utf8_step bs) then take (snd (utf8_step bs)) bs else [0xEF, 0xBF, 0xBD])
           @ from_utf8_lossy (drop (snd (utf8_step bs)) bs))"
  by pat_completeness auto
termination
proof (relation "measure length", goal_cases)
  case (2 bs)
  then show ?case using utf8_step_pos [of bs] by (cases bs) auto
qed simp

declare from_utf8_lossy.simps [simp del]

lemma utf8_valid_Nil [simp]: "utf8_valid []"
  by (simp add: utf8_valid.simps)

lemma utf8_valid_ascii: "a < 0x80 \<Longrightarrow> utf8_valid (a # bs) = utf8_valid bs"
  by (subst utf8_valid.simps) (simp add: utf8_step_def byte_at_def Let_def)

text \<open>Well-formed text is decoded without loss.\<close>

lemma from_utf8_lossy_valid: "utf8_valid bs \<Longrightarrow> from_utf8_lossy bs = str_of_bytes bs"
proof (induction bs rule: from_utf8_lossy.induct)
  case (1 bs)
  show ?case
  proof (cases "bs = []")
    case True
    then show ?thesis by (simp add: from_utf8_lossy.simps str_of_bytes_def)
  next
    case False
    let ?n = "snd (utf8_step bs)"
    have ok: "fst (utf8_step bs)" "utf8_valid (drop ?n bs)"
      using "1.prems" False by (simp_all add: utf8_valid.simps [of bs] split: if_splits)
    then have "from_utf8_lossy (drop ?n bs) = str_of_bytes (drop ?n bs)" using 1 False by simp
    moreover have "str_of_bytes (take ?n bs) @ str_of_bytes (drop ?n bs) = str_of_bytes bs"
      by (metis append_take_drop_id map_append str_of_bytes_def)
    ultimately show ?thesis using False ok by (subst from_utf8_lossy.simps) simp
  qed
qed

end
