(* ===== verification/Dmap.thy ===== *)
theory Dmap
  imports Utf8
begin

text \<open>
  The DMAP track-metadata parser of src/proto/dmap.rs: a \<open>mlit\<close> container of items, each a
  four-byte tag, a big-endian length and a value. Positions are natural numbers: a position in
  memory plus a 32-bit length does not overflow a 64-bit \<open>usize\<close>, so the \<open>checked_add\<close> guards
  of the source always succeed.
\<close>

section \<open>Parser\<close>

record track_metadata =
  title :: "string option"
  artist :: "string option"
  album :: "string option"
  genre :: "string option"
  duration_ms :: "u32 option"
  track_number :: "u16 option"
  disc_number :: "u16 option"

definition meta_default :: track_metadata where
  "meta_default = \<lparr>title = None, artist = None, album = None, genre = None,
     duration_ms = None, track_number = None, disc_number = None\<rparr>"

definition as_u32 :: "bytes \<Rightarrow> u32 option" where
  "as_u32 chunk = (if length chunk = 4 then Some (from_be_bytes chunk) else None)"

definition as_u16 :: "bytes \<Rightarrow> u16 option" where
  "as_u16 chunk = (if length chunk = 2 then Some (from_be_bytes chunk) else None)"

definition set_some :: "('v \<Rightarrow> 'm \<Rightarrow> 'm) \<Rightarrow> 'v option \<Rightarrow> 'm \<Rightarrow> 'm" where
  "set_some upd v m = (case v of Some x \<Rightarrow> upd x m | None \<Rightarrow> m)"

definition dmap_item :: "track_metadata \<Rightarrow> bytes \<times> bytes \<Rightarrow> track_metadata" where
  "dmap_item meta item =
     (case item of (tag, chunk) \<Rightarrow>
        if tag = as_bytes ''minm'' then set_some (\<lambda>v. title_update (\<lambda>_. Some v)) (from_utf8 chunk) meta
        else if tag = as_bytes ''asar'' then set_some (\<lambda>v. artist_update (\<lambda>_. Some v)) (from_utf8 chunk) meta
        else if tag = as_bytes ''asal'' then set_some (\<lambda>v. album_update (\<lambda>_. Some v)) (from_utf8 chunk) meta
        else if tag = as_bytes ''asgn'' then set_some (\<lambda>v. genre_update (\<lambda>_. Some v)) (from_utf8 chunk) meta
        else if tag = as_bytes ''astm'' then set_some (\<lambda>v. duration_ms_update (\<lambda>_. Some v)) (as_u32 chunk) meta
        else if tag = as_bytes ''astn'' then set_some (\<lambda>v. track_number_update (\<lambda>_. Some v)) (as_u16 chunk) meta
        else if tag = as_bytes ''asdk'' then set_some (\<lambda>v. disc_number_update (\<lambda>_. Some v)) (as_u16 chunk) meta
        else meta)"

text \<open>\<open>u32::from_be_bytes(..) as usize\<close>.\<close>

definition be_len :: "bytes \<Rightarrow> nat" where
  "be_len bs = unat (from_be_bytes bs :: u32)"

function dmap_loop :: "bytes \<Rightarrow> nat \<Rightarrow> nat \<Rightarrow> track_metadata \<Rightarrow> track_metadata" where
  "dmap_loop data stop pos meta =
     (if pos + 8 > stop then meta
      else
        let tag = slice pos (pos + 4) data;
            len = be_len (slice (pos + 4) (pos + 8) data);
            value_end = pos + 8 + len
        in if value_end > stop then meta
           else dmap_loop data stop value_end (dmap_item meta (tag, slice (pos + 8) value_end data)))"
  by pat_completeness auto
termination
  by (relation "measure (\<lambda>(data, stop, pos, meta). stop - pos)") auto

declare dmap_loop.simps [simp del]

definition from_dmap :: "bytes \<Rightarrow> track_metadata" where
  "from_dmap data =
     (if length data < 8 \<or> take 4 data \<noteq> as_bytes ''mlit'' then meta_default
      else
        let declared_len = be_len (slice 4 8 data);
            stop = min (8 + declared_len) (length data)
        in dmap_loop data stop 8 meta_default)"

section \<open>Containers\<close>

text \<open>The sender's side: an item and a container of items.\<close>

definition dmap_encode :: "bytes \<times> bytes \<Rightarrow> bytes" where
  "dmap_encode item = fst item @ to_be_bytes 4 (of_nat (length (snd item)) :: u32) @ snd item"

definition mlit :: "(bytes \<times> bytes) list \<Rightarrow> bytes" where
  "mlit items =
     (let body = concat (map dmap_encode items) in
      as_bytes ''mlit'' @ to_be_bytes 4 (of_nat (length body) :: u32) @ body)"

definition item_ok :: "bytes \<times> bytes \<Rightarrow> bool" where
  "item_ok item \<longleftrightarrow> length (fst item) = 4 \<and> length (snd item) < 2 ^ 32"

text \<open>The items that lie completely within the first \<open>n\<close> bytes of the body.\<close>

fun complete_items :: "nat \<Rightarrow> (bytes \<times> bytes) list \<Rightarrow> (bytes \<times> bytes) list" where
  "complete_items n [] = []"
| "complete_items n (x # xs) =
     (if length (dmap_encode x) \<le> n then x # complete_items (n - length (dmap_encode x)) xs else [])"

lemma be_len_encode: "k < 2 ^ 32 \<Longrightarrow> be_len (to_be_bytes 4 (of_nat k :: u32)) = k"
  by (simp add: be_len_def from_to_be_bytes unat_of_nat)

lemma length_dmap_encode: "item_ok x \<Longrightarrow> length (dmap_encode x) = 8 + length (snd x)"
  by (simp add: dmap_encode_def item_ok_def)

lemma complete_items_all: "length (concat (map dmap_encode xs)) \<le> n \<Longrightarrow> complete_items n xs = xs"
  by (induction xs arbitrary: n) auto

lemma slice_append3: "i = length p \<Longrightarrow> j = i + length q \<Longrightarrow> slice i j (p @ q @ r) = q"
  by (simp add: slice_def)

text \<open>One item read at a position where it is complete.\<close>

lemma dmap_loop_item:
  assumes "item_ok x" "length (p @ dmap_encode x) \<le> stop"
  shows "dmap_loop (p @ dmap_encode x @ rest) stop (length p) meta =
         dmap_loop (p @ dmap_encode x @ rest) stop (length p + length (dmap_encode x)) (dmap_item meta x)"
proof -
  obtain t c where x: "x = (t, c)" by (cases x)
  let ?l = "to_be_bytes 4 (of_nat (length c) :: u32)"
  let ?d = "p @ dmap_encode x @ rest"
  from assms x have t: "length t = 4" and c: "length c < 2 ^ 32" by (auto simp: item_ok_def)
  have d: "?d = p @ t @ ?l @ c @ rest" by (simp add: x dmap_encode_def)
  have 1: "slice (length p) (length p + 4) ?d = t"
    using slice_append3 [of "length p" p "length p + 4" t "?l @ c @ rest"] by (simp add: d t)
  have 2: "slice (length p + 4) (length p + 8) ?d = ?l"
    using slice_append3 [of "length p + 4" "p @ t" "length p + 8" ?l "c @ rest"] by (simp add: d t)
  have 3: "slice (length p + 8) (length p + 8 + length c) ?d = c"
    using slice_append3 [of "length p + 8" "p @ t @ ?l" "length p + 8 + length c" c rest] by (simp add: d t)
  have "be_len ?l = length c" using c by (rule be_len_encode)
  with 1 2 3 assms show ?thesis
    by (subst dmap_loop.simps) (simp add: Let_def length_dmap_encode x add.assoc)
qed

lemma dmap_loop_stuck:
  assumes "item_ok x" "n < length (dmap_encode x)" "take n d = take n (dmap_encode x @ rest)"
  shows "dmap_loop (p @ d) (length p + n) (length p) meta = meta"
proof (cases "n < 8")
  case True
  then show ?thesis by (subst dmap_loop.simps) simp
next
  case False
  obtain t c where x: "x = (t, c)" by (cases x)
  let ?l = "to_be_bytes 4 (of_nat (length c) :: u32)"
  from assms x have t: "length t = 4" and c: "length c < 2 ^ 32" by (auto simp: item_ok_def)
  have "take 8 d = take 8 (take n d)" using False by (simp add: min_def)
  also have "\<dots> = take 8 (dmap_encode x @ rest)" using False by (simp add: assms(3) min_def)
  also have "\<dots> = t @ ?l" by (simp add: x dmap_encode_def t)
  finally have d: "d = t @ ?l @ drop 8 d" by (metis append.assoc append_take_drop_id)
  have "slice (length p + 4) (length p + 8) ((p @ t) @ ?l @ drop 8 d) = ?l"
    using t by (intro slice_append3) simp_all
  then have "slice (length p + 4) (length p + 8) (p @ d) = ?l" by (subst d) simp
  moreover have "be_len ?l = length c" using c by (rule be_len_encode)
  ultimately show ?thesis
    using False assms(1,2) by (subst dmap_loop.simps) (simp add: Let_def length_dmap_encode x)
qed

lemma dmap_loop_items:
  assumes "list_all item_ok xs" "n \<le> length (concat (map dmap_encode xs))" "n \<le> length d"
    and "take n d = take n (concat (map dmap_encode xs))"
  shows "dmap_loop (p @ d) (length p + n) (length p) meta = foldl dmap_item meta (complete_items n xs)"
  using assms
proof (induction xs arbitrary: p d n meta)
  case Nil
  then show ?case by (subst dmap_loop.simps) simp
next
  case (Cons x xs)
  let ?e = "dmap_encode x"
  show ?case
  proof (cases "length ?e \<le> n")
    case True
    have "take (length ?e) d = take (length ?e) (take n d)" using True by (simp add: min_def)
    then have te: "take (length ?e) d = ?e" using True Cons.prems(4) by (simp add: min_def)
    then have d: "d = ?e @ drop (length ?e) d" by (metis append_take_drop_id)
    let ?d = "drop (length ?e) d"
    have "take (n - length ?e) ?d = drop (length ?e) (take n d)" by (simp add: drop_take)
    also have "\<dots> = take (n - length ?e) (concat (map dmap_encode xs))"
      using Cons.prems(4) True by (simp add: min_absorb1)
    finally have IH: "dmap_loop ((p @ ?e) @ ?d) (length (p @ ?e) + (n - length ?e)) (length (p @ ?e)) m =
        foldl dmap_item m (complete_items (n - length ?e) xs)" for m
      using Cons.prems by (intro Cons.IH) auto
    have "dmap_loop (p @ ?e @ ?d) (length p + n) (length p) meta =
          dmap_loop (p @ ?e @ ?d) (length p + n) (length p + length ?e) (dmap_item meta x)"
      using Cons.prems(1) True by (intro dmap_loop_item) simp_all
    with IH [of "dmap_item meta x"] True d show ?thesis by simp
  next
    case False
    then show ?thesis
      using dmap_loop_stuck [of x n d "concat (map dmap_encode xs)" p meta] Cons.prems by simp
  qed
qed

section \<open>Properties\<close>

text \<open>
  A container cut off after any number of bytes from the header on, or followed by other
  data, yields exactly the items that arrived completely, applied in their order; with the
  whole container present these are all items.
\<close>

theorem from_dmap_truncated:
  assumes ok: "list_all item_ok items" and len: "length (concat (map dmap_encode items)) < 2 ^ 32"
    and k: "8 \<le> k"
  shows "from_dmap (take k (mlit items @ junk)) = foldl dmap_item meta_default (complete_items (k - 8) items)"
proof -
  let ?b = "concat (map dmap_encode items)"
  let ?h = "as_bytes ''mlit'' @ to_be_bytes 4 (of_nat (length ?b) :: u32)"
  let ?d = "take (k - 8) (?b @ junk)"
  let ?n = "min (length ?b) (k - 8)"
  have h: "length ?h = 8" by simp
  have data: "take k (mlit items @ junk) = ?h @ ?d"
    using k h by (simp add: mlit_def Let_def)
  have "slice 4 8 (as_bytes ''mlit'' @ to_be_bytes 4 (of_nat (length ?b) :: u32) @ ?d) =
      to_be_bytes 4 (of_nat (length ?b) :: u32)"
    by (rule slice_append3) simp_all
  then have "from_dmap (?h @ ?d) = dmap_loop (?h @ ?d) (length ?h + ?n) (length ?h) meta_default"
    by (simp add: from_dmap_def Let_def be_len_encode [OF len] min_def)
  also have "\<dots> = foldl dmap_item meta_default (complete_items ?n items)"
    using ok by (intro dmap_loop_items) (simp_all add: min_def)
  also have "complete_items ?n items = complete_items (k - 8) items"
    using complete_items_all [of items] by (simp add: min_def)
  finally show ?thesis using data by simp
qed

lemma from_dmap_truncated_witness:
  "from_dmap (take 22 (mlit [(as_bytes ''minm'', as_bytes ''Hey''), (as_bytes ''astn'', [0, 7])] @ [1]))
   = meta_default\<lparr>title := Some ''Hey''\<rparr>"
proof -
  have "from_utf8 (as_bytes ''Hey'') = Some ''Hey''"
    by (simp add: from_utf8_def) (simp add: as_bytes_def utf8_valid_ascii)
  then show ?thesis
    using from_dmap_truncated [of "[(as_bytes ''minm'', as_bytes ''Hey''), (as_bytes ''astn'', [0, 7])]" 22 "[1]"]
    by (simp add: item_ok_def length_dmap_encode dmap_item_def set_some_def)
qed

end
