(* ===== verification/Digest.thy ===== *)
theory Digest
  imports Rust_Str
begin

text \<open>
  HTTP Digest authentication, src/proto/digest.rs. MD5 (crate \<open>md5\<close>) is the parameter
  \<open>md5\<close>; the random bytes of a nonce are an argument.
\<close>

section \<open>Response computation\<close>

definition hex_digit :: "nat \<Rightarrow> char" where
  "hex_digit n = (if n < 10 then char_of (n + 48) else char_of (n + 87))"

definition md5_to_hex :: "bytes \<Rightarrow> string" where
  "md5_to_hex hash = concat (map (\<lambda>b. [hex_digit (unat b div 16), hex_digit (unat b mod 16)]) hash)"

definition get_response ::
  "(bytes \<Rightarrow> bytes) \<Rightarrow> string \<Rightarrow> string \<Rightarrow> string \<Rightarrow> string \<Rightarrow> string \<Rightarrow> string \<Rightarrow> string" where
  "get_response md5 username realm password nonce verb uri =
     (let ha1_hex = md5_to_hex (md5 (as_bytes username @ as_bytes '':'' @ as_bytes realm
                                     @ as_bytes '':'' @ as_bytes password));
          ha2_hex = md5_to_hex (md5 (as_bytes verb @ as_bytes '':'' @ as_bytes uri))
      in md5_to_hex (md5 (as_bytes ha1_hex @ as_bytes '':'' @ as_bytes nonce
                          @ as_bytes '':'' @ as_bytes ha2_hex)))"

text \<open>\<open>rnd\<close> are the 16 bytes drawn from the thread's generator.\<close>

definition generate_nonce :: "(bytes \<Rightarrow> bytes) \<Rightarrow> bytes \<Rightarrow> nat \<Rightarrow> string" where
  "generate_nonce md5 rnd len = take (min len 32) (md5_to_hex (md5 rnd))"

section \<open>Header parsing\<close>

definition extract_quoted :: "string \<Rightarrow> string \<Rightarrow> string option" where
  "extract_quoted part key =
     (case split_once (CHR ''='') part of
        None \<Rightarrow> None
      | Some (lhs, rhs) \<Rightarrow>
          if \<not> eq_ignore_ascii_case (trim lhs) key then None
          else
            let r = trim rhs in
            if length r < 2 \<or> hd r \<noteq> CHR 0x22 \<or> last r \<noteq> CHR 0x22 then None
            else Some (slice 1 (length r - 1) r))"

text \<open>The loop of \<open>split_quoted_csv\<close>: \<open>cur\<close> is \<open>input[start..idx]\<close>.\<close>

fun csv_loop :: "bool \<Rightarrow> string \<Rightarrow> string \<Rightarrow> string list" where
  "csv_loop in_quotes cur [] = [cur]"
| "csv_loop in_quotes cur (ch # rest) =
     (if ch = CHR 0x22 then csv_loop (\<not> in_quotes) (cur @ [ch]) rest
      else if ch = CHR '','' \<and> \<not> in_quotes then cur # csv_loop in_quotes [] rest
      else csv_loop in_quotes (cur @ [ch]) rest)"

definition split_quoted_csv :: "string \<Rightarrow> string list" where
  "split_quoted_csv input = csv_loop False [] input"

text \<open>\<open>s.split_once(char::is_whitespace)\<close>.\<close>

function split_once_ws :: "string \<Rightarrow> (string \<times> string) option" where
  "split_once_ws s =
     (if s = [] then None
      else if ws_len s = 0 then map_option (\<lambda>(a, b). (hd s # a, b)) (split_once_ws (tl s))
      else Some ([], drop (ws_len s) s))"
  by pat_completeness auto
termination
  by (relation "measure length") auto

declare split_once_ws.simps [simp del]

record digest_fields =
  username :: "string option"
  auth_realm :: "string option"
  auth_nonce :: "string option"
  auth_uri :: "string option"
  response :: "string option"

definition no_fields :: digest_fields where
  "no_fields = \<lparr>username = None, auth_realm = None, auth_nonce = None, auth_uri = None, response = None\<rparr>"

definition digest_part :: "digest_fields \<Rightarrow> string \<Rightarrow> digest_fields" where
  "digest_part f part0 =
     (let part = trim part0 in
      case extract_quoted part ''username'' of Some v \<Rightarrow> f\<lparr>username := Some v\<rparr> | None \<Rightarrow>
      (case extract_quoted part ''realm'' of Some v \<Rightarrow> f\<lparr>auth_realm := Some v\<rparr> | None \<Rightarrow>
      (case extract_quoted part ''nonce'' of Some v \<Rightarrow> f\<lparr>auth_nonce := Some v\<rparr> | None \<Rightarrow>
      (case extract_quoted part ''uri'' of Some v \<Rightarrow> f\<lparr>auth_uri := Some v\<rparr> | None \<Rightarrow>
      (case extract_quoted part ''response'' of Some v \<Rightarrow> f\<lparr>response := Some v\<rparr> | None \<Rightarrow> f)))))"

definition check_fields ::
  "(bytes \<Rightarrow> bytes) \<Rightarrow> string \<Rightarrow> string \<Rightarrow> string \<Rightarrow> string \<Rightarrow> string \<Rightarrow> digest_fields \<Rightarrow> bool" where
  "check_fields md5 realm password nonce verb uri f =
     (case (username f, auth_realm f, auth_nonce f, auth_uri f, response f) of
        (Some u, Some r, Some n, Some i, Some p) \<Rightarrow>
          if r \<noteq> realm \<or> n \<noteq> nonce \<or> i \<noteq> uri then False
          else as_bytes p = as_bytes (get_response md5 u realm password nonce verb uri)
      | _ \<Rightarrow> False)"

definition is_valid ::
  "(bytes \<Rightarrow> bytes) \<Rightarrow> string \<Rightarrow> string \<Rightarrow> string \<Rightarrow> string \<Rightarrow> string \<Rightarrow> string option \<Rightarrow> bool" where
  "is_valid md5 realm password nonce verb uri authorization =
     (case authorization of
        None \<Rightarrow> False
      | Some a \<Rightarrow>
          (case split_once_ws (trim a) of
             None \<Rightarrow> False
           | Some (scheme, ps) \<Rightarrow>
               if \<not> eq_ignore_ascii_case scheme ''Digest'' then False
               else
                 let params = trim_start ps in
                 if params = [] then False
                 else check_fields md5 realm password nonce verb uri
                        (foldl digest_part no_fields (split_quoted_csv params))))"

section \<open>What clients send\<close>

text \<open>A \<open>Digest\<close> header with the given parameters, in the usual notation.\<close>

definition param :: "string \<times> string \<Rightarrow> string" where
  "param kv = fst kv @ ''='' @ [CHR 0x22] @ snd kv @ [CHR 0x22]"

fun join_params :: "(string \<times> string) list \<Rightarrow> string" where
  "join_params [] = []"
| "join_params [kv] = param kv"
| "join_params (kv # kvs) = param kv @ '', '' @ join_params kvs"

definition digest_header :: "(string \<times> string) list \<Rightarrow> string" where
  "digest_header kvs = ''Digest '' @ join_params kvs"

definition param_ok :: "string \<times> string \<Rightarrow> bool" where
  "param_ok kv \<longleftrightarrow> fst kv \<noteq> [] \<and> visible (fst kv) \<and> CHR ''='' \<notin> set (fst kv) \<and> CHR '','' \<notin> set (fst kv)
     \<and> CHR 0x22 \<notin> set (fst kv) \<and> CHR 0x22 \<notin> set (snd kv)"

text \<open>The value of a parameter, by its name in any letter case: the last one given.\<close>

definition last_param :: "string \<Rightarrow> (string \<times> string) list \<Rightarrow> string option" where
  "last_param k kvs = map_of (rev (map (\<lambda>(n, v). (map to_ascii_lower n, v)) kvs)) k"

lemma last_param_snoc:
  "last_param k (kvs @ [kv]) = (if map to_ascii_lower (fst kv) = k then Some (snd kv) else last_param k kvs)"
  by (cases kv) (simp add: last_param_def)

lemma csv_loop_outside:
  "CHR 0x22 \<notin> set s \<Longrightarrow> CHR '','' \<notin> set s \<Longrightarrow> csv_loop False cur (s @ rest) = csv_loop False (cur @ s) rest"
  by (induction s arbitrary: cur) auto

lemma csv_loop_inside:
  "CHR 0x22 \<notin> set s \<Longrightarrow> csv_loop True cur (s @ rest) = csv_loop True (cur @ s) rest"
  by (induction s arbitrary: cur) auto

lemma csv_loop_param: "param_ok kv \<Longrightarrow> csv_loop False cur (param kv @ rest) = csv_loop False (cur @ param kv) rest"
  using csv_loop_outside [of "fst kv" cur "''='' @ [CHR 0x22] @ snd kv @ [CHR 0x22] @ rest"]
    csv_loop_inside [of "snd kv" "cur @ fst kv @ ''='' @ [CHR 0x22]" "[CHR 0x22] @ rest"]
  by (simp add: param_def param_ok_def)

lemma split_join_params:
  "kvs \<noteq> [] \<Longrightarrow> list_all param_ok kvs \<Longrightarrow>
   csv_loop False cur (join_params kvs) = (cur @ param (hd kvs)) # map (\<lambda>kv. '' '' @ param kv) (tl kvs)"
proof (induction kvs arbitrary: cur rule: join_params.induct)
  case (2 kv)
  then show ?case using csv_loop_param [of kv cur "[]"] by simp
next
  case (3 kv kv' kvs)
  then show ?case using csv_loop_param [of kv cur "'', '' @ join_params (kv' # kvs)"] by simp
qed simp

lemma trimmed_param: "param_ok kv \<Longrightarrow> trimmed (param kv)"
proof -
  assume ok: "param_ok kv"
  have "ws_len_end (param kv) = 0"
    using ws_len_end_snoc [of "CHR 0x22" "fst kv @ ''='' @ [CHR 0x22] @ snd kv"] by (simp add: param_def)
  moreover have "ws_len (param kv) = 0" using ok by (simp add: param_def param_ok_def ws_len_visible)
  ultimately show ?thesis by (simp add: trimmed_def)
qed

lemma trim_space: "trim (CHR '' '' # s) = trim s"
  by (simp add: trim_def trim_start.simps [of "_ # _"] ws_len_Cons_ascii)

lemma trim_quoted: "trim ([CHR 0x22] @ v @ [CHR 0x22]) = [CHR 0x22] @ v @ [CHR 0x22]"
proof (rule trim_trimmed)
  show "trimmed ([CHR 0x22] @ v @ [CHR 0x22])"
    using ws_len_end_snoc [of "CHR 0x22" "[CHR 0x22] @ v"] by (simp add: trimmed_def ws_len_Cons_ascii)
qed

lemma extract_quoted_param:
  assumes "param_ok kv"
  shows "extract_quoted (param kv) key = (if eq_ignore_ascii_case (fst kv) key then Some (snd kv) else None)"
proof -
  let ?q = "[CHR 0x22] @ snd kv @ [CHR 0x22]"
  have "split_once (CHR ''='') (fst kv @ CHR ''='' # ?q) = Some (fst kv, ?q)"
    using assms by (intro split_once_append) (simp add: param_ok_def)
  moreover have "trim (fst kv) = fst kv" using assms by (simp add: param_ok_def trim_trimmed trimmed_visible)
  ultimately show ?thesis
    using trim_quoted [of "snd kv"] by (simp add: extract_quoted_def param_def Let_def slice_def)
qed

lemma digest_part_param:
  assumes "param_ok kv" "trim p = param kv"
  shows "digest_part f p =
    (let n = map to_ascii_lower (fst kv); v = snd kv in
     if n = ''username'' then f\<lparr>username := Some v\<rparr> else if n = ''realm'' then f\<lparr>auth_realm := Some v\<rparr>
     else if n = ''nonce'' then f\<lparr>auth_nonce := Some v\<rparr> else if n = ''uri'' then f\<lparr>auth_uri := Some v\<rparr>
     else if n = ''response'' then f\<lparr>response := Some v\<rparr> else f)"
proof -
  have "eq_ignore_ascii_case n ''username'' \<longleftrightarrow> map to_ascii_lower n = ''username''"
    "eq_ignore_ascii_case n ''realm'' \<longleftrightarrow> map to_ascii_lower n = ''realm''"
    "eq_ignore_ascii_case n ''nonce'' \<longleftrightarrow> map to_ascii_lower n = ''nonce''"
    "eq_ignore_ascii_case n ''uri'' \<longleftrightarrow> map to_ascii_lower n = ''uri''"
    "eq_ignore_ascii_case n ''response'' \<longleftrightarrow> map to_ascii_lower n = ''response''" for n
    by (simp_all add: eq_ignore_ascii_case_def to_ascii_lower_def)
  then show ?thesis
    by (simp add: digest_part_def assms extract_quoted_param Let_def)
qed

definition fields_of :: "(string \<times> string) list \<Rightarrow> digest_fields" where
  "fields_of kvs = \<lparr>username = last_param ''username'' kvs, auth_realm = last_param ''realm'' kvs,
     auth_nonce = last_param ''nonce'' kvs, auth_uri = last_param ''uri'' kvs,
     response = last_param ''response'' kvs\<rparr>"

lemma foldl_digest_part:
  assumes "list_all2 (\<lambda>p kv. param_ok kv \<and> trim p = param kv) ps kvs"
  shows "foldl digest_part no_fields ps = fields_of kvs"
  using assms
proof (induction ps arbitrary: kvs rule: rev_induct)
  case Nil
  then show ?case by (simp add: no_fields_def fields_of_def last_param_def)
next
  case (snoc p ps)
  then obtain kvs' kv where k: "kvs = kvs' @ [kv]" "list_all2 (\<lambda>p kv. param_ok kv \<and> trim p = param kv) ps kvs'"
    "param_ok kv" "trim p = param kv"
    by (auto simp: list_all2_append1 list_all2_Cons1)
  from snoc.IH [OF k(2)] show ?case
    by (simp add: k(1) digest_part_param [OF k(3,4)] fields_of_def last_param_snoc Let_def)
qed

lemma split_once_ws_visible: "visible p \<Longrightarrow> split_once_ws (p @ CHR '' '' # s) = Some (p, s)"
proof (induction p)
  case Nil
  then show ?case by (simp add: split_once_ws.simps [of "_ # _"] ws_len_Cons_ascii)
next
  case (Cons c p)
  then have "ws_len (c # p @ CHR '' '' # s) = 0" "visible p" by (auto simp: visible_def ws_len_Cons_ascii)
  with Cons show ?case by (simp add: split_once_ws.simps [of "c # _"])
qed

lemma join_params_ends:
  "kvs \<noteq> [] \<Longrightarrow> list_all param_ok kvs \<Longrightarrow>
   ws_len (join_params kvs) = 0 \<and> join_params kvs \<noteq> [] \<and> (\<exists>s. join_params kvs = s @ [CHR 0x22])"
proof (induction kvs rule: join_params.induct)
  case (2 kv)
  then show ?case using trimmed_param [of kv] by (simp add: trimmed_def) (simp add: param_def)
next
  case (3 kv kv' kvs)
  then obtain s where "join_params (kv' # kvs) = s @ [CHR 0x22]" by auto
  moreover have "ws_len (param kv @ t) = 0" for t
    using 3 by (simp add: param_def param_ok_def ws_len_visible)
  ultimately show ?case using 3 by (simp add: param_def)
qed simp

section \<open>Properties\<close>



end
