(* ===== verification/Frame_Source.thy ===== *)
theory Frame_Source
  imports Main
begin

text \<open>
  The interface between a queue of decoded frames and the task that drains it: taking a
  frame returns the next one and leaves the rest, and an exhausted queue says so without
  changing. What a drain loop delivers follows from this alone.
\<close>

text \<open>The loop \<open>while let Some(x) = deq()\<close>, run for at most \<open>n\<close> rounds.\<close>

primrec drain :: "('s \<Rightarrow> 'f option \<times> 's) \<Rightarrow> nat \<Rightarrow> 's \<Rightarrow> 'f list \<times> 's" where
  "drain deq 0 s = ([], s)"
| "drain deq (Suc n) s =
     (case deq s of
        (None, s1) \<Rightarrow> ([], s1)
      | (Some x, s1) \<Rightarrow> (let (xs, s2) = drain deq n s1 in (x # xs, s2)))"

locale frame_source =
  fixes deq :: "'s \<Rightarrow> 'f option \<times> 's"
    and todo :: "'s \<Rightarrow> 'f list"
    and invar :: "'s \<Rightarrow> bool"
  assumes deq_Nil: "invar s \<Longrightarrow> todo s = [] \<Longrightarrow> deq s = (None, s)"
    and deq_Cons: "invar s \<Longrightarrow> todo s = x # xs \<Longrightarrow>
      \<exists>s'. deq s = (Some x, s') \<and> todo s' = xs \<and> invar s'"
begin

lemma drain_all:
  "invar s \<Longrightarrow> length (todo s) < n \<Longrightarrow>
   \<exists>s'. drain deq n s = (todo s, s') \<and> todo s' = [] \<and> invar s' \<and> deq s' = (None, s')"
proof (induction n arbitrary: s)
  case (Suc n)
  show ?case
  proof (cases "todo s")
    case Nil
    then show ?thesis using Suc.prems deq_Nil by simp
  next
    case (Cons x xs)
    with Suc.prems(1) obtain s1 where s1: "deq s = (Some x, s1)" "todo s1 = xs" "invar s1"
      using deq_Cons by blast
    with Suc.IH [of s1] Suc.prems(2) Cons obtain s2 where
      "drain deq n s1 = (xs, s2)" "todo s2 = []" "invar s2" "deq s2 = (None, s2)" by auto
    with s1 Cons show ?thesis by simp
  qed
qed simp

text \<open>A bounded drain delivers a prefix, in order, and keeps the rest.\<close>

lemma drain_prefix:
  "invar s \<Longrightarrow>
   fst (drain deq n s) = take n (todo s) \<and> todo (snd (drain deq n s)) = drop n (todo s)
   \<and> invar (snd (drain deq n s))"
proof (induction n arbitrary: s)
  case (Suc n)
  show ?case
  proof (cases "todo s")
    case Nil
    then show ?thesis using Suc.prems deq_Nil by simp
  next
    case (Cons x xs)
    with Suc.prems obtain s1 where "deq s = (Some x, s1)" "todo s1 = xs" "invar s1"
      using deq_Cons by blast
    with Suc.IH [of s1] Cons show ?thesis by (simp add: split_beta)
  qed
qed simp

end

end
