(* ===== verification/Rtp_Buffer.thy ===== *)
theory Rtp_Buffer
  imports Alac Rust_Str Frame_Source
begin

text \<open>
  The AirPlay 1 packet buffer (src/raop/buffer.rs): codec negotiation from the SDP
  attributes, the 32-slot circular buffer indexed by sequence number, decryption and
  decoding on arrival, in-order delivery with silence for lost frames, and flushing.
  AES-128-CBC (crate \<open>cbc\<close>) is the parameter \<open>cbc key iv data\<close>; \<open>unwound\<close> is the ALAC
  decoder as a panicking call leaves it. Samples are exact rationals.
\<close>

section \<open>Model\<close>

definition RAOP_AESKEY_LEN :: nat where "RAOP_AESKEY_LEN = 16"
definition RAOP_AESIV_LEN :: nat where "RAOP_AESIV_LEN = 16"
definition RAOP_PACKET_LEN :: nat where "RAOP_PACKET_LEN = 32768"
definition RAOP_BUFFER_LENGTH :: nat where "RAOP_BUFFER_LENGTH = 32"
definition PCM_DEFAULT_FRAME_SAMPLES :: nat where "PCM_DEFAULT_FRAME_SAMPLES = 352"

record aes_session =
  aes_key :: bytes
  aes_iv :: bytes

record pcm_config =
  pcm_num_channels :: byte
  pcm_sample_rate :: u32

record stream_format =
  sf_num_channels :: byte
  sf_sample_rate :: u32

datatype codec = CAlac alac_config alac_decoder | CPcm pcm_config

datatype codec_config = CfgAlac | CfgPcm pcm_config

record buffer_entry =
  e_available :: bool
  e_flags :: byte
  e_type :: byte
  e_seqnum :: u16
  e_timestamp :: u32
  e_ssrc :: u32
  e_audio :: "rat list"
  e_len :: nat

definition seqnum_cmp :: "u16 \<Rightarrow> u16 \<Rightarrow> int" where
  "seqnum_cmp s1 s2 = sint (s1 - s2)"

definition parse_fmtp :: "string \<Rightarrow> alac_config option" where
  "parse_fmtp fmtp =
     (let vals = split_on (CHR '' '') fmtp in
      if length vals < 12 then None
      else
        let p = (\<lambda>i. parse_uint (vals ! i) :: u32 option) in do {
          v1 \<leftarrow> p 1; v2 \<leftarrow> p 2; v3 \<leftarrow> p 3; v4 \<leftarrow> p 4; v5 \<leftarrow> p 5; v6 \<leftarrow> p 6;
          v7 \<leftarrow> p 7; v8 \<leftarrow> p 8; v9 \<leftarrow> p 9; v10 \<leftarrow> p 10; v11 \<leftarrow> p 11;
          let config = \<lparr>frame_length = v1, compatible_version = ucast v2, cfg_bit_depth = ucast v3,
                        cfg_pb = ucast v4, cfg_mb = ucast v5, cfg_kb = ucast v6,
                        cfg_num_channels = ucast v7, cfg_max_run = ucast v8,
                        cfg_max_frame_bytes = v9, cfg_avg_bit_rate = v10, cfg_sample_rate = v11\<rparr>;
          if frame_length config = 0 \<or> cfg_num_channels config = 0 \<or> cfg_bit_depth config = 0
             \<or> cfg_sample_rate config = 0
          then None else Some config
        })"

definition parse_l16 :: "string \<Rightarrow> pcm_config option" where
  "parse_l16 encoding =
     (case split_on (CHR ''/'') encoding of
        [] \<Rightarrow> None
      | name # parts \<Rightarrow>
          if \<not> eq_ignore_ascii_case name ''L16'' then None
          else case parts of
            [] \<Rightarrow> None
          | rate # parts1 \<Rightarrow> do {
              sample_rate \<leftarrow> parse_uint rate;
              channels \<leftarrow> (case parts1 of ch # _ \<Rightarrow> parse_uint ch | [] \<Rightarrow> Some 1);
              if length parts1 > 1 \<or> sample_rate = 0 \<or> channels = 0 then None
              else Some \<lparr>pcm_num_channels = channels, pcm_sample_rate = sample_rate\<rparr>
            })"

definition parse_codec :: "string \<Rightarrow> codec_config option" where
  "parse_codec rtpmap =
     (case split_whitespace rtpmap of
        [pt, encoding] \<Rightarrow>
          (case (parse_uint pt :: byte option) of
             None \<Rightarrow> None
           | Some _ \<Rightarrow>
               if eq_ignore_ascii_case (hd (split_on (CHR ''/'') encoding)) ''AppleLossless''
               then Some CfgAlac
               else map_option CfgPcm (parse_l16 encoding))
      | _ \<Rightarrow> None)"

definition build_decoder_info :: "alac_config \<Rightarrow> bytes" where
  "build_decoder_info config =
     (let info = replicate 48 0;
          info = copy_at 24 (to_be_bytes 4 (frame_length config)) info;
          info = info[28 := compatible_version config, 29 := cfg_bit_depth config,
                      30 := cfg_pb config, 31 := cfg_mb config, 32 := cfg_kb config,
                      33 := cfg_num_channels config];
          info = copy_at 34 (to_be_bytes 2 (cfg_max_run config)) info;
          info = copy_at 36 (to_be_bytes 4 (cfg_max_frame_bytes config)) info;
          info = copy_at 40 (to_be_bytes 4 (cfg_avg_bit_rate config)) info
      in copy_at 44 (to_be_bytes 4 (cfg_sample_rate config)) info)"

record raop_buffer =
  b_aes :: "aes_session option"
  b_codec :: codec
  b_empty :: bool
  first_seqnum :: u16
  last_seqnum :: u16
  b_entries :: "buffer_entry list"
  frame_capacity :: nat
  silence_samples :: nat

definition empty_entry :: "nat \<Rightarrow> buffer_entry" where
  "empty_entry capacity =
     \<lparr>e_available = False, e_flags = 0, e_type = 0, e_seqnum = 0, e_timestamp = 0, e_ssrc = 0,
      e_audio = replicate capacity 0, e_len = 0\<rparr>"

definition raop_build :: "string \<Rightarrow> string \<Rightarrow> aes_session option \<Rightarrow> raop_buffer option" where
  "raop_build rtpmap fmtp aes = do {
     cfg \<leftarrow> parse_codec rtpmap;
     (cdc, capacity, silence) \<leftarrow>
       (case cfg of
          CfgPcm config \<Rightarrow>
            Some (CPcm config, (RAOP_PACKET_LEN - 12) div 2,
                  PCM_DEFAULT_FRAME_SAMPLES * unat (pcm_num_channels config))
        | CfgAlac \<Rightarrow> do {
            config \<leftarrow> parse_fmtp fmtp;
            let frame_samples = unat (frame_length config) * unat (cfg_num_channels config);
            let decoder = set_info (alac_new (ucast (cfg_bit_depth config)) (ucast (cfg_num_channels config)))
                            (build_decoder_info config);
            Some (CAlac config decoder, frame_samples, frame_samples)
          });
     Some \<lparr>b_aes = aes, b_codec = cdc, b_empty = True, first_seqnum = 0, last_seqnum = 0,
           b_entries = replicate RAOP_BUFFER_LENGTH (empty_entry capacity),
           frame_capacity = capacity, silence_samples = silence\<rparr>
   }"

definition raop_new :: "string \<Rightarrow> string \<Rightarrow> bytes \<Rightarrow> bytes \<Rightarrow> raop_buffer option" where
  "raop_new rtpmap fmtp k iv = raop_build rtpmap fmtp (Some \<lparr>aes_key = k, aes_iv = iv\<rparr>)"

definition raop_new_unencrypted :: "string \<Rightarrow> string \<Rightarrow> raop_buffer option" where
  "raop_new_unencrypted rtpmap fmtp = raop_build rtpmap fmtp None"

definition raop_format :: "raop_buffer \<Rightarrow> stream_format" where
  "raop_format b =
     (case b_codec b of
        CAlac config _ \<Rightarrow>
          \<lparr>sf_num_channels = cfg_num_channels config, sf_sample_rate = cfg_sample_rate config\<rparr>
      | CPcm config \<Rightarrow>
          \<lparr>sf_num_channels = pcm_num_channels config, sf_sample_rate = pcm_sample_rate config\<rparr>)"

definition raop_flush :: "raop_buffer \<Rightarrow> int \<Rightarrow> raop_buffer" where
  "raop_flush b next_seq =
     (let b1 = b\<lparr>b_entries := map (\<lambda>e. e\<lparr>e_available := False, e_len := 0\<rparr>) (b_entries b)\<rparr>
      in if \<not> (0 \<le> next_seq \<and> next_seq \<le> 0xffff) then b1\<lparr>b_empty := True\<rparr>
         else b1\<lparr>first_seqnum := of_int next_seq, last_seqnum := of_int next_seq - 1\<rparr>)"

definition slot :: "u16 \<Rightarrow> nat" where
  "slot s = unat s mod RAOP_BUFFER_LENGTH"

text \<open>The sequence number a packet is filed under.\<close>

definition packet_seqnum :: "raop_buffer \<Rightarrow> bytes \<Rightarrow> bool \<Rightarrow> u16" where
  "packet_seqnum b data use_seqnum =
     (if use_seqnum then push_bit 8 (ucast (data ! 2)) OR ucast (data ! 3)
      else if b_empty b then first_seqnum b
      else last_seqnum b + 1)"

definition decrypt_payload ::
  "(bytes \<Rightarrow> bytes \<Rightarrow> bytes \<Rightarrow> bytes) \<Rightarrow> aes_session option \<Rightarrow> bytes \<Rightarrow> bytes" where
  "decrypt_payload cbc aes payload =
     (let encrypted_len = (length payload div 16) * 16 in
      case aes of
        Some a \<Rightarrow>
          if encrypted_len > 0
          then cbc (aes_key a) (aes_iv a) (take encrypted_len payload) @ drop encrypted_len payload
          else payload
      | None \<Rightarrow> payload)"

text \<open>Decoding: the return code of a failed decode or the samples, with the codec and the
  silence length after it. \<open>capacity\<close> is the slot's size.\<close>

definition decode_payload ::
  "alac_decoder \<Rightarrow> codec \<Rightarrow> nat \<Rightarrow> nat \<Rightarrow> bytes \<Rightarrow> (int + rat list) \<times> codec \<times> nat" where
  "decode_payload unwound cdc capacity silence packet_buf =
     (case cdc of
        CAlac config decoder \<Rightarrow>
          let (output_size, decoder1, s16_buf) =
                (case decode_frame decoder packet_buf (replicate (capacity * 2) 0) of
                   None \<Rightarrow> (0, unwound, replicate (capacity * 2) 0)
                 | Some r \<Rightarrow> r)
          in if output_size = 0 then (Inl 0, CAlac config decoder1, silence)
             else
               let limit = min output_size (length s16_buf)
               in (Inr (take capacity (map sample_of_16 (as_chunks 2 (take limit s16_buf)))),
                   CAlac config decoder1, silence)
      | CPcm config \<Rightarrow>
          let frame_width = unat (pcm_num_channels config) * 2 in
          if packet_buf = [] \<or> \<not> frame_width dvd length packet_buf then (Inl (- 1), cdc, silence)
          else
            let samples = take capacity (map (\<lambda>c. sample_of_16 (rev c)) (as_chunks 2 packet_buf))
            in if samples = [] then (Inl 0, cdc, silence)
               else (Inr samples, cdc, length samples))"

definition update_entry :: "nat \<Rightarrow> (buffer_entry \<Rightarrow> buffer_entry) \<Rightarrow> raop_buffer \<Rightarrow> raop_buffer" where
  "update_entry i f b = b\<lparr>b_entries := (b_entries b)[i := f (b_entries b ! i)]\<rparr>"

definition clear_entry :: "buffer_entry \<Rightarrow> buffer_entry" where
  "clear_entry e = e\<lparr>e_available := False, e_len := 0\<rparr>"

definition store_entry :: "bytes \<Rightarrow> u16 \<Rightarrow> rat list \<Rightarrow> buffer_entry \<Rightarrow> buffer_entry" where
  "store_entry data seqnum samples e =
     e\<lparr>e_audio := samples @ drop (length samples) (e_audio e),
       e_flags := data ! 0, e_type := data ! 1, e_seqnum := seqnum,
       e_timestamp := from_be_bytes (slice 4 8 data), e_ssrc := from_be_bytes (slice 8 12 data),
       e_len := length samples, e_available := True\<rparr>"

text \<open>The last step of \<open>queue\<close>: the window grows to hold the sequence number.\<close>

definition update_window :: "u16 \<Rightarrow> raop_buffer \<Rightarrow> raop_buffer" where
  "update_window seqnum b =
     (let b1 = (if b_empty b
                then b\<lparr>first_seqnum := seqnum, last_seqnum := seqnum, b_empty := False\<rparr> else b)
      in if seqnum_cmp seqnum (last_seqnum b1) > 0 then b1\<lparr>last_seqnum := seqnum\<rparr> else b1)"

definition queue ::
  "(bytes \<Rightarrow> bytes \<Rightarrow> bytes \<Rightarrow> bytes) \<Rightarrow> alac_decoder \<Rightarrow> raop_buffer \<Rightarrow> bytes \<Rightarrow> bool \<Rightarrow> int \<times> raop_buffer" where
  "queue cbc unwound b data use_seqnum =
     (if \<not> (12 \<le> length data \<and> length data \<le> RAOP_PACKET_LEN) then (- 1, b)
      else
        let seqnum = packet_seqnum b data use_seqnum in
        if \<not> b_empty b \<and> seqnum_cmp seqnum (first_seqnum b) < 0 then (0, b)
        else
          let b1 = (if seqnum_cmp seqnum (first_seqnum b + of_nat RAOP_BUFFER_LENGTH) \<ge> 0
                    then raop_flush b (uint seqnum) else b);
              idx = slot seqnum;
              e = b_entries b1 ! idx
          in if e_available e \<and> seqnum_cmp (e_seqnum e) seqnum = 0 then (0, b1)
             else
               let b2 = update_entry idx clear_entry b1;
                   packet_buf = decrypt_payload cbc (b_aes b2) (drop 12 data);
                   (res, cdc, silence) =
                     decode_payload unwound (b_codec b2) (frame_capacity b2) (silence_samples b2) packet_buf;
                   b3 = b2\<lparr>b_codec := cdc, silence_samples := silence\<rparr>
               in case res of
                    Inl code \<Rightarrow> (code, b3)
                  | Inr samples \<Rightarrow>
                      (1, update_window seqnum (update_entry idx (store_entry data seqnum samples) b3)))"

definition buffered :: "raop_buffer \<Rightarrow> int" where
  "buffered b = seqnum_cmp (last_seqnum b) (first_seqnum b) + 1"

definition dequeue :: "raop_buffer \<Rightarrow> bool \<Rightarrow> rat list option \<times> raop_buffer" where
  "dequeue b no_resend =
     (let buflen = buffered b in
      if b_empty b \<or> buflen \<le> 0 then (None, b)
      else
        let idx = slot (first_seqnum b);
            e = b_entries b ! idx
        in if \<not> no_resend \<and> \<not> e_available e \<and> nat buflen < RAOP_BUFFER_LENGTH then (None, b)
           else
             let b1 = b\<lparr>first_seqnum := first_seqnum b + 1\<rparr>;
                 b2 = (if \<not> e_available e then
                         let size = min (silence_samples b) (frame_capacity b)
                         in update_entry idx (\<lambda>e. e\<lparr>e_audio := replicate size 0 @ drop size (e_audio e),
                                                    e_len := size\<rparr>) b1
                       else b1);
                 len = e_len (b_entries b2 ! idx);
                 b3 = update_entry idx clear_entry b2
             in (Some (take len (e_audio (b_entries b3 ! idx))), b3))"

section \<open>Sequence arithmetic\<close>

lemma sint_of_int_small: "- 32768 \<le> i \<Longrightarrow> i < 32768 \<Longrightarrow> sint (of_int i :: u16) = i"
  by (simp add: signed_of_int signed_take_bit_int_eq_self)

lemma slot_less [simp]: "slot s < 32"
  by (simp add: slot_def RAOP_BUFFER_LENGTH_def)

lemma slot_add: "slot (s + of_nat k) = (unat s + k) mod 32"
proof -
  have "(unat s + k mod 65536) mod 65536 mod 32 = (unat s + k) mod 32"
    by (simp add: mod_mod_cancel mod_add_right_eq) 
  then show ?thesis by (simp add: slot_def RAOP_BUFFER_LENGTH_def unat_word_ariths unat_of_nat)
qed

lemma slot_inj: "j < 32 \<Longrightarrow> k < 32 \<Longrightarrow> slot (s + of_nat j) = slot (s + of_nat k) \<Longrightarrow> j = k"
proof -
  assume jk: "j < 32" "k < 32" and "slot (s + of_nat j) = slot (s + of_nat k)"
  then have "(unat s + j) mod 32 = (unat s + k) mod 32" by (simp add: slot_add)
  then have "(unat s + j + (32 - unat s mod 32)) mod 32 = (unat s + k + (32 - unat s mod 32)) mod 32"
    by (metis mod_add_left_eq)
  moreover have m: "unat s mod 32 < 32" by simp
  have "unat s + (32 - unat s mod 32) = 32 * (unat s div 32) + 32"
    using m mult_div_mod_eq [of 32 "unat s"] by linarith
  then have "unat s + j + (32 - unat s mod 32) = j + 32 * (unat s div 32 + 1)" for j by simp
  ultimately have "(j + 32 * (unat s div 32 + 1)) mod 32 = (k + 32 * (unat s div 32 + 1)) mod 32"
    by simp
  then show ?thesis using jk by (simp only: mod_mult_self2 mod_less)
qed

text \<open>The number of frames between the two ends of the window.\<close>

definition window_len :: "raop_buffer \<Rightarrow> nat" where
  "window_len b = unat (last_seqnum b + 1 - first_seqnum b)"

lemma last_window: "last_seqnum b = first_seqnum b + of_nat (window_len b) - 1"
  by (simp add: window_len_def)

lemma buffered_window: "window_len b \<le> 32 \<Longrightarrow> buffered b = int (window_len b)"
proof -
  assume s: "window_len b \<le> 32"
  have "last_seqnum b - first_seqnum b = of_int (int (window_len b) - 1)"
    by (simp add: last_window)
  moreover have "sint (of_int (int (window_len b) - 1) :: u16) = int (window_len b) - 1"
    using s by (intro sint_of_int_small) auto
  ultimately show ?thesis by (simp add: buffered_def seqnum_cmp_def)
qed

lemma offset_of: "s = f + of_nat (unat (s - f :: u16))"
  by simp

section \<open>The abstract queue\<close>

text \<open>The frame filed under offset \<open>k\<close> of the window, and the queue the buffer stands
  for: one entry per sequence number, \<open>None\<close> for a frame that has not arrived.\<close>

definition entry_frame :: "buffer_entry \<Rightarrow> rat list option" where
  "entry_frame e = (if e_available e then Some (take (e_len e) (e_audio e)) else None)"

definition frame_at :: "raop_buffer \<Rightarrow> nat \<Rightarrow> rat list option" where
  "frame_at b k = entry_frame (b_entries b ! slot (first_seqnum b + of_nat k))"

definition pending :: "raop_buffer \<Rightarrow> rat list option list" where
  "pending b = (if b_empty b then [] else map (frame_at b) [0..<window_len b])"

definition entries_ok :: "nat \<Rightarrow> buffer_entry list \<Rightarrow> bool" where
  "entries_ok capacity es \<longleftrightarrow>
     length es = 32 \<and> (\<forall>e \<in> set es. length (e_audio e) = capacity \<and> e_len e \<le> capacity)"

definition buf_inv :: "raop_buffer \<Rightarrow> bool" where
  "buf_inv b \<longleftrightarrow>
     entries_ok (frame_capacity b) (b_entries b)
     \<and> (b_empty b \<longrightarrow> (\<forall>e \<in> set (b_entries b). \<not> e_available e))
     \<and> (\<not> b_empty b \<longrightarrow> window_len b \<le> 32
         \<and> (\<forall>i < 32. e_available (b_entries b ! i) \<longrightarrow>
              (\<exists>k < window_len b. e_seqnum (b_entries b ! i) = first_seqnum b + of_nat k
                 \<and> i = slot (first_seqnum b + of_nat k))))"

definition silence :: "raop_buffer \<Rightarrow> rat list" where
  "silence b = replicate (min (silence_samples b) (frame_capacity b)) 0"

lemma entries_ok_update:
  "entries_ok c es \<Longrightarrow> i < 32 \<Longrightarrow> length (e_audio e) = c \<Longrightarrow> e_len e \<le> c \<Longrightarrow> entries_ok c (es[i := e])"
  by (auto simp: entries_ok_def dest!: set_update_subset_insert [THEN subsetD])

lemma entries_okD:
  "entries_ok c es \<Longrightarrow> i < 32 \<Longrightarrow> length (e_audio (es ! i)) = c \<and> e_len (es ! i) \<le> c"
  by (simp add: entries_ok_def)

lemma buf_inv_not_available:
  assumes "buf_inv b" and "k < 32" and "b_empty b \<or> window_len b \<le> k"
  shows "\<not> e_available (b_entries b ! slot (first_seqnum b + of_nat k))"
proof (cases "b_empty b")
  case True
  with assms(1) show ?thesis by (simp add: buf_inv_def entries_ok_def)
next
  case False
  with assms have s: "window_len b \<le> 32" "window_len b \<le> k" by (auto simp: buf_inv_def)
  show ?thesis
  proof
    assume "e_available (b_entries b ! slot (first_seqnum b + of_nat k))"
    with assms(1) False obtain j where "j < window_len b"
      "slot (first_seqnum b + of_nat k) = slot (first_seqnum b + of_nat j)"
      unfolding buf_inv_def by (meson slot_less)
    with slot_inj [of k j "first_seqnum b"] assms(2) s show False by simp
  qed
qed

lemma buf_inv_seqnum:
  assumes "buf_inv b" and "k < 32" and "e_available (b_entries b ! slot (first_seqnum b + of_nat k))"
  shows "\<not> b_empty b \<and> k < window_len b
    \<and> e_seqnum (b_entries b ! slot (first_seqnum b + of_nat k)) = first_seqnum b + of_nat k"
proof -
  have ne: "\<not> b_empty b" using buf_inv_not_available [OF assms(1,2)] assms(3) by blast
  with assms obtain j where j: "j < window_len b"
    "e_seqnum (b_entries b ! slot (first_seqnum b + of_nat k)) = first_seqnum b + of_nat j"
    "slot (first_seqnum b + of_nat k) = slot (first_seqnum b + of_nat j)"
    unfolding buf_inv_def by (meson slot_less)
  moreover from ne assms(1) have "window_len b \<le> 32" by (simp add: buf_inv_def)
  ultimately have "k = j" using slot_inj [of k j "first_seqnum b"] assms(2) by simp
  with j ne show ?thesis by simp
qed

lemma nth_update_slot:
  assumes "length es = 32" and "j < 32" and "k < 32"
  shows "es[slot (f + of_nat j) := e] ! slot (f + of_nat k)
    = (if j = k then e else es ! slot (f + of_nat k))"
proof (cases "j = k")
  case False
  then have "slot (f + of_nat j) \<noteq> slot (f + of_nat k)" using slot_inj [of j k f] assms by blast
  with False show ?thesis by simp
qed (use assms in simp)

lemma dequeue_takes:
  assumes inv: "buf_inv b" and ne: "\<not> b_empty b" and sp: "0 < window_len b"
    and go: "no_resend \<or> frame_at b 0 \<noteq> None \<or> window_len b = 32"
  shows "\<exists>b'. dequeue b no_resend
      = (Some (case frame_at b 0 of Some x \<Rightarrow> x | None \<Rightarrow> silence b), b')
    \<and> buf_inv b' \<and> pending b' = tl (pending b) \<and> first_seqnum b' = first_seqnum b + 1
    \<and> silence b' = silence b"
proof -
  let ?f = "first_seqnum b" and ?es = "b_entries b" and ?c = "frame_capacity b"
  let ?i = "slot ?f"
  let ?size = "min (silence_samples b) ?c"
  define e where "e = ?es ! ?i"
  define e' where "e' = (if e_available e then e
    else e\<lparr>e_audio := replicate ?size 0 @ drop ?size (e_audio e), e_len := ?size\<rparr>)"
  define b' where "b' = b\<lparr>first_seqnum := ?f + 1, b_entries := ?es[?i := clear_entry e']\<rparr>"
  have s32: "window_len b \<le> 32" and ok: "entries_ok ?c ?es" using inv ne by (auto simp: buf_inv_def)
  have len: "length ?es = 32" using ok by (simp add: entries_ok_def)
  have eo: "length (e_audio e) = ?c \<and> e_len e \<le> ?c" using entries_okD [OF ok, of ?i] by (simp add: e_def)
  have fr: "frame_at b 0 = entry_frame e" by (simp add: frame_at_def e_def)
  have out: "take (e_len e') (e_audio e') = (case frame_at b 0 of Some x \<Rightarrow> x | None \<Rightarrow> silence b)"
    by (simp add: fr entry_frame_def e'_def silence_def)
  have deq: "dequeue b no_resend = (Some (take (e_len e') (e_audio e')), b')"
  proof -
    have "nat (buffered b) = window_len b" "\<not> buffered b \<le> 0" using buffered_window [OF s32] sp by auto
    moreover have "\<not> (\<not> no_resend \<and> \<not> e_available e \<and> window_len b < RAOP_BUFFER_LENGTH)"
      using go by (auto simp: fr entry_frame_def RAOP_BUFFER_LENGTH_def)
    ultimately show ?thesis
      using ne len
      by (auto simp: dequeue_def Let_def update_entry_def e_def [symmetric] e'_def b'_def clear_entry_def)
  qed
  have window': "window_len b' = window_len b - 1"
  proof -
    have "last_seqnum b + 1 - (?f + 1) = of_nat (window_len b - 1)"
      using sp by (simp add: last_window [of b] of_nat_diff)
    then show ?thesis using s32 by (simp add: window_len_def b'_def unat_of_nat)
  qed
  have frames: "frame_at b' k = frame_at b (Suc k)" if "Suc k < 32" for k
    using nth_update_slot [OF len _ that, of 0 ?f "clear_entry e'"]
    by (simp add: frame_at_def b'_def add.assoc)
  have ne': "\<not> b_empty b'" by (simp add: b'_def ne)
  have "pending b' = tl (pending b)"
  proof (rule nth_equalityI)
    show "pending b' ! k = tl (pending b) ! k" if "k < length (pending b')" for k
      using that ne ne' s32 window' frames [of k] by (simp add: pending_def nth_tl)
  qed (simp add: pending_def window' ne ne')
  moreover have "buf_inv b'"
  proof -
    have "entries_ok ?c (?es[?i := clear_entry e'])"
      using eo by (intro entries_ok_update [OF ok]) (auto simp: clear_entry_def e'_def min_def)
    moreover have "\<exists>k < window_len b'. e_seqnum (b_entries b' ! i) = ?f + 1 + of_nat k \<and> i = slot (?f + 1 + of_nat k)"
      if i: "i < 32" and av: "e_available (b_entries b' ! i)" for i
    proof -
      have "i \<noteq> ?i" using av len i by (auto simp: b'_def clear_entry_def)
      with av have "e_available (?es ! i)" and eq: "b_entries b' ! i = ?es ! i" by (auto simp: b'_def)
      with inv ne i obtain k where k: "k < window_len b" "e_seqnum (?es ! i) = ?f + of_nat k" "i = slot (?f + of_nat k)"
        unfolding buf_inv_def by blast
      with \<open>i \<noteq> ?i\<close> have "0 < k" by (cases k) auto
      then have "?f + of_nat k = ?f + 1 + of_nat (k - 1)" by (simp add: of_nat_diff)
      moreover have "k - 1 < window_len b'" using k(1) \<open>0 < k\<close> window' by simp
      ultimately show ?thesis using k(2,3) eq by metis
    qed
    ultimately show ?thesis using s32 window' ne by (simp add: buf_inv_def b'_def)
  qed
  ultimately show ?thesis using deq out by (auto simp: b'_def silence_def)
qed

lemma dequeue_waits:
  assumes "buf_inv b"
    and "b_empty b \<or> window_len b = 0 \<or> \<not> no_resend \<and> frame_at b 0 = None \<and> window_len b < 32"
  shows "dequeue b no_resend = (None, b)"
proof (cases "b_empty b")
  case True
  then show ?thesis by (simp add: dequeue_def)
next
  case False
  with assms(1) have "buffered b = int (window_len b)" by (intro buffered_window) (simp add: buf_inv_def)
  with False assms(2) show ?thesis
    by (auto simp: dequeue_def Let_def frame_at_def entry_frame_def RAOP_BUFFER_LENGTH_def split: if_splits)
qed

section \<open>Flushing and queueing\<close>

lemma flush_entries:
  "b_entries (raop_flush b s) = map clear_entry (b_entries b)"
  "frame_capacity (raop_flush b s) = frame_capacity b"
  "silence_samples (raop_flush b s) = silence_samples b"
  "b_codec (raop_flush b s) = b_codec b" "b_aes (raop_flush b s) = b_aes b"
  by (auto simp: raop_flush_def Let_def clear_entry_def)

lemma buf_inv_flush: "buf_inv b \<Longrightarrow> buf_inv (raop_flush b s)"
proof -
  assume inv: "buf_inv b"
  then have "entries_ok (frame_capacity b) (map clear_entry (b_entries b))"
    by (auto simp: buf_inv_def entries_ok_def clear_entry_def)
  moreover have "\<not> e_available (map clear_entry (b_entries b) ! i)" if "i < 32" for i
    using inv that by (simp add: buf_inv_def entries_ok_def clear_entry_def)
  moreover have "\<forall>e \<in> set (map clear_entry (b_entries b)). \<not> e_available e"
    by (auto simp: clear_entry_def)
  moreover have "\<not> b_empty (raop_flush b s) \<Longrightarrow> window_len (raop_flush b s) \<le> 32"
    using inv by (auto simp: raop_flush_def Let_def window_len_def buf_inv_def split: if_splits)
  ultimately show ?thesis by (simp add: buf_inv_def flush_entries)
qed

lemma flush_to:
  "first_seqnum (raop_flush b (uint (s::u16))) = s"
  "window_len (raop_flush b (uint s)) = 0" "b_empty (raop_flush b (uint s)) = b_empty b"
proof -
  have "uint s < 2 ^ LENGTH(16)" by (rule unsigned_less)
  then show "first_seqnum (raop_flush b (uint s)) = s"
    "window_len (raop_flush b (uint s)) = 0" "b_empty (raop_flush b (uint s)) = b_empty b"
    by (simp_all add: raop_flush_def Let_def window_len_def)
qed

lemma pending_flush: "pending (raop_flush b s) = []"
  by (auto simp: pending_def raop_flush_def Let_def window_len_def)

text \<open>A sequence number that is not stale and not too far ahead lies in the window.\<close>

lemma offset_bound:
  assumes "seqnum_cmp s f \<ge> 0" and "seqnum_cmp s (f + 32) < 0"
  shows "unat (s - f) < 32"
proof -
  define k where "k = unat (s - f)"
  have sf: "s - f = of_int (int k)" by (simp add: k_def)
  have "unat (s - f) < 2 ^ LENGTH(16)" by (rule unsigned_less)
  then have lt: "k < 65536" by (simp add: k_def)
  have pos: "sint (of_int (int k) :: u16) \<ge> 0" using assms(1) sf by (simp only: seqnum_cmp_def)
  have k: "k < 32768"
  proof (rule ccontr)
    assume "\<not> k < 32768"
    then have "sint (of_int (int k - 65536) :: u16) = int k - 65536"
      using lt by (intro sint_of_int_small) auto
    moreover have "(of_int (int k - 65536) :: u16) = of_int (int k)" by simp
    ultimately have "sint (of_int (int k) :: u16) = int k - 65536" by (simp only:)
    with pos lt show False by linarith
  qed
  have "s - (f + 32) = of_int (int k - 32)" using sf by (simp add: algebra_simps)
  moreover have "sint (of_int (int k - 32) :: u16) = int k - 32"
    using k by (intro sint_of_int_small) auto
  ultimately have "sint (s - (f + 32)) = int k - 32" by (simp only:)
  with assms(2) have "k < 32" unfolding seqnum_cmp_def by linarith
  then show ?thesis by (simp add: k_def)
qed

text \<open>Where a packet goes: the buffer it is stored into and its offset there.\<close>

definition resync :: "raop_buffer \<Rightarrow> u16 \<Rightarrow> raop_buffer" where
  "resync b s = (if seqnum_cmp s (first_seqnum b + of_nat RAOP_BUFFER_LENGTH) \<ge> 0
                 then raop_flush b (uint s) else b)"

lemma buf_inv_resync: "buf_inv b \<Longrightarrow> buf_inv (resync b s)"
  by (simp add: resync_def buf_inv_flush)

lemma resync_offset:
  assumes "b_empty b \<or> seqnum_cmp s (first_seqnum b) \<ge> 0"
  shows "b_empty (resync b s) \<or> unat (s - first_seqnum (resync b s)) < 32"
  using assms offset_bound [of s "first_seqnum b"]
  by (auto simp: resync_def flush_to RAOP_BUFFER_LENGTH_def)

text \<open>Storing a frame: the effect of the last part of \<open>queue\<close> on the abstract queue.\<close>

definition put :: "'a option list \<Rightarrow> nat \<Rightarrow> 'a \<Rightarrow> 'a option list" where
  "put xs k x = (xs @ replicate (Suc k - length xs) None)[k := Some x]"

lemma length_put: "length (put xs k x) = max (length xs) (Suc k)"
  by (simp add: put_def)

lemma put_nth:
  "j < length (put xs k x) \<Longrightarrow>
   put xs k x ! j = (if j = k then Some x else if j < length xs then xs ! j else None)"
  by (auto simp: put_def nth_append nth_list_update)

definition stored :: "bytes \<Rightarrow> u16 \<Rightarrow> rat list \<Rightarrow> raop_buffer \<Rightarrow> raop_buffer" where
  "stored data s samples b =
     update_window s (update_entry (slot s) (store_entry data s samples) b)"

lemma stored_window:
  assumes "\<not> b_empty b" and "window_len b \<le> 32" and "k < 32" and "s = first_seqnum b + of_nat k"
  shows "first_seqnum (stored data s x b) = first_seqnum b"
    and "window_len (stored data s x b) = max (window_len b) (Suc k)"
    and "\<not> b_empty (stored data s x b)"
    and "b_entries (stored data s x b) = (b_entries b)[slot s := store_entry data s x (b_entries b ! slot s)]"
    and "frame_capacity (stored data s x b) = frame_capacity b"
proof -
  let ?n = "window_len b"
  have "s - last_seqnum b = of_int (int k - int ?n + 1)"
    by (simp add: last_window [of b] assms(4))
  then have cmp: "seqnum_cmp s (last_seqnum b) = int k - int ?n + 1"
    unfolding seqnum_cmp_def using assms(2,3) by (simp only: sint_of_int_small)
  have k1: "unat (of_nat (Suc k) :: u16) = Suc k" using assms(3) by (simp only: unat_of_nat) simp
  show "first_seqnum (stored data s x b) = first_seqnum b" "\<not> b_empty (stored data s x b)"
    "b_entries (stored data s x b) = (b_entries b)[slot s := store_entry data s x (b_entries b ! slot s)]"
    "frame_capacity (stored data s x b) = frame_capacity b"
    using assms(1) by (auto simp: stored_def update_window_def update_entry_def Let_def)
  have "s + 1 - first_seqnum b = of_nat (Suc k)" by (simp add: assms(4))
  then have s1: "unat (s + 1 - first_seqnum b) = Suc k" by (simp only: k1)
  have last: "last_seqnum (stored data s x b) = (if ?n \<le> k then s else last_seqnum b)"
    "first_seqnum (stored data s x b) = first_seqnum b"
    using assms(1) cmp by (auto simp: stored_def update_window_def update_entry_def Let_def)
  show "window_len (stored data s x b) = max ?n (Suc k)"
  proof (cases "?n \<le> k")
    case True
    then show ?thesis using s1 by (simp only: window_len_def last) (simp add: max_def)
  next
    case False
    then have "window_len (stored data s x b) = ?n" by (simp only: window_len_def last) simp
    with False show ?thesis by simp
  qed
qed

lemma store_entry_frame:
  "entry_frame (store_entry data s x e) = Some x" "e_available (store_entry data s x e)"
  "e_seqnum (store_entry data s x e) = s"
  by (simp_all add: store_entry_def entry_frame_def)

lemma stored_refines:
  assumes inv: "buf_inv b" and ne: "\<not> b_empty b" and k: "k < 32" "s = first_seqnum b + of_nat k"
    and len: "length x \<le> frame_capacity b"
  shows "buf_inv (stored data s x b)" and "pending (stored data s x b) = put (pending b) k x"
proof -
  let ?b = "stored data s x b" and ?es = "b_entries b" and ?f = "first_seqnum b"
  have n: "window_len b \<le> 32" and ok: "entries_ok (frame_capacity b) ?es"
    using inv ne by (auto simp: buf_inv_def)
  then have l32: "length ?es = 32" by (simp add: entries_ok_def)
  note w = stored_window [OF ne n k, of data x]
  have fr: "frame_at ?b j = (if j = k then Some x else frame_at b j)" if "j < 32" for j
    using nth_update_slot [OF l32 k(1) that, of ?f, folded k(2)]
    unfolding frame_at_def w(1,4) by (simp add: store_entry_frame)
  have none: "frame_at b j = None" if "window_len b \<le> j" "j < 32" for j
    using buf_inv_not_available [OF inv that(2)] that(1) by (simp add: frame_at_def entry_frame_def)
  show "pending ?b = put (pending b) k x"
  proof (rule nth_equalityI)
    show "length (pending ?b) = length (put (pending b) k x)"
      by (simp add: pending_def ne w length_put)
    fix j
    assume j: "j < length (pending ?b)"
    then have "j < 32" "j < max (window_len b) (Suc k)" using n k(1) by (auto simp: pending_def w)
    then show "pending ?b ! j = put (pending b) k x ! j"
      using fr [of j] none [of j] put_nth [of j "pending b" k x]
      by (simp add: pending_def ne w length_put)
  qed
  have "entries_ok (frame_capacity b) (?es[slot s := store_entry data s x (?es ! slot s)])"
    using entries_okD [OF ok, of "slot s"] len
    by (intro entries_ok_update [OF ok]) (auto simp: store_entry_def)
  moreover have "\<exists>j < window_len ?b. e_seqnum (b_entries ?b ! i) = ?f + of_nat j \<and> i = slot (?f + of_nat j)"
    if i: "i < 32" "e_available (b_entries ?b ! i)" for i
  proof (cases "i = slot s")
    case True
    then have "e_seqnum (b_entries ?b ! i) = s" using l32 i(1) by (simp add: w(4) store_entry_frame)
    moreover have "k < window_len ?b" by (simp add: w(2))
    ultimately show ?thesis using k(2) True by blast
  next
    case False
    then have e: "b_entries ?b ! i = ?es ! i" by (simp add: w(4))
    with i inv ne obtain j where "j < window_len b" "e_seqnum (?es ! i) = ?f + of_nat j" "i = slot (?f + of_nat j)"
      unfolding buf_inv_def by auto
    moreover from this have "j < window_len ?b" by (simp add: w(2))
    ultimately show ?thesis using e by metis
  qed
  ultimately show "buf_inv ?b" using n k(1) by (simp add: buf_inv_def w)
qed

lemma stored_first:
  assumes inv: "buf_inv b" and emp: "b_empty b" and len: "length x \<le> frame_capacity b"
  shows "buf_inv (stored data s x b)" and "pending (stored data s x b) = [Some x]"
    and "first_seqnum (stored data s x b) = s"
proof -
  let ?b = "b\<lparr>first_seqnum := s, last_seqnum := s - 1, b_empty := False\<rparr>"
  have eq: "stored data s x b = stored data s x ?b"
    using emp by (simp add: stored_def update_window_def update_entry_def Let_def seqnum_cmp_def)
  have "buf_inv ?b" using inv emp by (auto simp: buf_inv_def window_len_def entries_ok_def)
  note * = stored_refines [OF this, of 0 s x data] stored_window [of ?b 0 s data x]
  have "window_len ?b = 0" by (simp add: window_len_def)
  then show "buf_inv (stored data s x b)" "pending (stored data s x b) = [Some x]"
    "first_seqnum (stored data s x b) = s"
    unfolding eq using * len by (simp_all add: pending_def put_def)
qed

lemma decode_payload_length:
  "decode_payload unwound cdc cap sil p = (Inr x, cdc', sil') \<Longrightarrow> length x \<le> cap"
  by (auto simp: decode_payload_def Let_def split: codec.splits if_splits prod.splits)

lemma clear_slot_inv:
  assumes "buf_inv b" and "i < 32" and "\<not> e_available (b_entries b ! i)"
  shows "buf_inv (update_entry i clear_entry b\<lparr>b_codec := c, silence_samples := n\<rparr>)"
    and "pending (update_entry i clear_entry b\<lparr>b_codec := c, silence_samples := n\<rparr>) = pending b"
proof -
  let ?b = "update_entry i clear_entry b\<lparr>b_codec := c, silence_samples := n\<rparr>"
  let ?es = "b_entries b"
  have ok: "entries_ok (frame_capacity b) ?es" and l: "length ?es = 32"
    using assms(1) by (auto simp: buf_inv_def entries_ok_def)
  have av: "e_available (?es[i := clear_entry (?es ! i)] ! j) = e_available (?es ! j)"
    "e_available (?es ! j) \<Longrightarrow> ?es[i := clear_entry (?es ! i)] ! j = ?es ! j" if "j < 32" for j
    using assms(2,3) l that by (auto simp: nth_list_update clear_entry_def)
  have ok': "entries_ok (frame_capacity b) (?es[i := clear_entry (?es ! i)])"
    using entries_okD [OF ok assms(2)] by (intro entries_ok_update [OF ok assms(2)]) (auto simp: clear_entry_def)
  have "\<forall>e \<in> set (?es[i := clear_entry (?es ! i)]). \<not> e_available e" if "\<forall>e \<in> set ?es. \<not> e_available e"
    using that by (auto simp: clear_entry_def dest!: set_update_subset_insert [THEN subsetD])
  then show "buf_inv ?b"
    using assms(1) ok' av by (auto simp: buf_inv_def update_entry_def window_len_def)
  have "entry_frame (?es[i := clear_entry (?es ! i)] ! j) = entry_frame (?es ! j)" if "j < 32" for j
    using av [OF that] by (auto simp: entry_frame_def)
  then have "frame_at ?b j = frame_at b j" for j by (simp add: frame_at_def update_entry_def)
  then show "pending ?b = pending b" by (simp add: pending_def update_entry_def window_len_def)
qed

text \<open>What \<open>queue\<close> does to the abstract queue. \<open>place\<close> is the offset a packet is filed
  under once the buffer has been resynchronised.\<close>

definition place :: "raop_buffer \<Rightarrow> u16 \<Rightarrow> nat" where
  "place b s = (if b_empty (resync b s) then 0 else unat (s - first_seqnum (resync b s)))"

lemma queue_cases:
  assumes inv: "buf_inv b" and q: "queue cbc unwound b data use_seqnum = (code, b')"
    and len: "12 \<le> length data" "length data \<le> RAOP_PACKET_LEN"
    and fresh: "b_empty b \<or> seqnum_cmp (packet_seqnum b data use_seqnum) (first_seqnum b) \<ge> 0"
  shows "buf_inv b' \<and>
    (code = 1 \<and> (\<exists>x. length x \<le> frame_capacity b
        \<and> pending b' = put (pending (resync b (packet_seqnum b data use_seqnum)))
                           (place b (packet_seqnum b data use_seqnum)) x)
     \<or> code \<noteq> 1 \<and> pending b' = pending (resync b (packet_seqnum b data use_seqnum)))"
proof -
  define s where "s = packet_seqnum b data use_seqnum"
  define b1 where "b1 = resync b s"
  have i1: "buf_inv b1" using inv by (simp add: b1_def buf_inv_resync)
  have cap: "frame_capacity b1 = frame_capacity b" by (simp add: b1_def resync_def flush_entries)
  have off: "b_empty b1 \<or> unat (s - first_seqnum b1) < 32"
    using resync_offset [of b s] fresh by (simp add: b1_def s_def)
  have sl: "s = first_seqnum b1 + of_nat (unat (s - first_seqnum b1))" by simp
  let ?e = "b_entries b1 ! slot s"
  define r where "r = decode_payload unwound (b_codec b1) (frame_capacity b1) (silence_samples b1)
      (decrypt_payload cbc (b_aes b1) (drop 12 data))"
  define b3 where "b3 = update_entry (slot s) clear_entry b1\<lparr>b_codec := fst (snd r), silence_samples := snd (snd r)\<rparr>"
  have qeq: "(code, b') = (if e_available ?e \<and> seqnum_cmp (e_seqnum ?e) s = 0 then (0, b1)
      else case fst r of Inl c \<Rightarrow> (c, b3) | Inr x \<Rightarrow> (1, stored data s x b3))"
    using q len fresh unfolding queue_def
    by (auto simp: s_def [symmetric] b1_def [unfolded resync_def, symmetric] Let_def split_beta
        r_def b3_def stored_def update_entry_def split: if_splits sum.splits)
  have nocode: "fst r = Inl c \<Longrightarrow> c \<noteq> 1" for c
    by (auto simp: r_def decode_payload_def Let_def split: codec.splits if_splits prod.splits option.splits)
  show ?thesis
  proof (cases "e_available ?e")
    case True
    then have "\<not> b_empty b1" using i1 by (auto simp: buf_inv_def entries_ok_def)
    with off have "unat (s - first_seqnum b1) < 32" by simp
    from buf_inv_seqnum [OF i1 this] True sl have "e_seqnum ?e = s" by (simp only:)
    with qeq True i1 show ?thesis by (simp add: seqnum_cmp_def s_def b1_def)
  next
    case False
    note c = clear_slot_inv [OF i1 slot_less False, where c = "fst (snd r)" and n = "snd (snd r)", folded b3_def]
    have f3: "first_seqnum b3 = first_seqnum b1" "b_empty b3 = b_empty b1" "frame_capacity b3 = frame_capacity b"
      by (simp_all add: b3_def update_entry_def cap)
    show ?thesis
    proof (cases "fst r")
      case (Inl k)
      with qeq False c nocode [OF Inl] show ?thesis by (simp add: s_def [symmetric] b1_def [symmetric])
    next
      case (Inr x)
      then have lx: "length x \<le> frame_capacity b3"
        using decode_payload_length [of unwound "b_codec b1" "frame_capacity b1" "silence_samples b1"] f3 cap
        by (metis prod.collapse r_def)
      have b': "b' = stored data s x b3" "code = 1" using qeq False Inr by auto
      have "buf_inv b' \<and> pending b' = put (pending b1) (place b s) x"
      proof (cases "b_empty b1")
        case True
        with stored_first [OF c(1) _ lx, of data s] f3 b' c(2) show ?thesis
          by (simp add: place_def b1_def [symmetric] pending_def put_def)
      next
        case False
        with off have k: "unat (s - first_seqnum b1) < 32" by simp
        have "s = first_seqnum b3 + of_nat (unat (s - first_seqnum b1))" using f3 by simp
        from stored_refines [OF c(1) _ k this lx, of data] False f3 b' c(2) show ?thesis
          by (simp add: place_def b1_def [symmetric])
      qed
      with b' lx f3 show ?thesis by (auto simp: s_def [symmetric] b1_def [symmetric])
    qed
  qed
qed

section \<open>The drain loop\<close>

definition fill :: "raop_buffer \<Rightarrow> rat list option \<Rightarrow> rat list" where
  "fill b f = (case f of Some x \<Rightarrow> x | None \<Rightarrow> silence b)"

interpretation rtp: frame_source "\<lambda>b. dequeue b True" "\<lambda>b. map (fill b) (pending b)" buf_inv
proof
  fix b :: raop_buffer
  assume inv: "buf_inv b"
  show "dequeue b True = (None, b)" if "map (fill b) (pending b) = []"
    using dequeue_waits [OF inv, of True] that by (auto simp: pending_def split: if_splits)
  show "\<exists>s'. dequeue b True = (Some x, s') \<and> map (fill s') (pending s') = xs \<and> buf_inv s'"
    if "map (fill b) (pending b) = x # xs" for x xs
  proof -
    have ne: "\<not> b_empty b" "0 < window_len b"
      using that by (cases "window_len b"; auto simp: pending_def split: if_splits)+
    from dequeue_takes [OF inv ne, of True] obtain b' where
      d: "dequeue b True = (Some (fill b (frame_at b 0)), b')" "buf_inv b'"
        "pending b' = tl (pending b)" "silence b' = silence b" by (auto simp: fill_def)
    moreover have "frame_at b 0 = hd (pending b)" using ne by (simp add: pending_def hd_map)
    moreover have "fill b' = fill b" using d(4) by (simp add: fill_def fun_eq_iff split: option.splits)
    ultimately show ?thesis using that by (cases "pending b") auto
  qed
qed

lemma pending_le_32: "buf_inv b \<Longrightarrow> length (pending b) \<le> 32"
  by (auto simp: pending_def buf_inv_def)

section \<open>Operation sequences\<close>

datatype rb_op = Queue bytes bool | Dequeue bool | Flush int

fun rb_step :: "(bytes \<Rightarrow> bytes \<Rightarrow> bytes \<Rightarrow> bytes) \<Rightarrow> alac_decoder \<Rightarrow> raop_buffer \<Rightarrow> rb_op \<Rightarrow> raop_buffer" where
  "rb_step cbc unwound b (Queue data use_seqnum) = snd (queue cbc unwound b data use_seqnum)"
| "rb_step cbc unwound b (Dequeue no_resend) = snd (dequeue b no_resend)"
| "rb_step cbc unwound b (Flush next_seq) = raop_flush b next_seq"

lemma buf_inv_queue: "buf_inv b \<Longrightarrow> buf_inv (snd (queue cbc unwound b data u))"
proof -
  assume inv: "buf_inv b"
  obtain code b' where q: "queue cbc unwound b data u = (code, b')"
    by (cases "queue cbc unwound b data u")
  show ?thesis
  proof (cases "12 \<le> length data \<and> length data \<le> RAOP_PACKET_LEN
      \<and> (b_empty b \<or> seqnum_cmp (packet_seqnum b data u) (first_seqnum b) \<ge> 0)")
    case True
    then show ?thesis using queue_cases [OF inv q] q by simp
  next
    case False
    then have "b' = b" using q by (auto simp: queue_def Let_def not_le split: if_splits)
    with inv q show ?thesis by simp
  qed
qed

lemma buf_inv_dequeue: "buf_inv b \<Longrightarrow> buf_inv (snd (dequeue b nr))"
proof -
  assume inv: "buf_inv b"
  show ?thesis
  proof (cases "b_empty b \<or> window_len b = 0 \<or> \<not> nr \<and> frame_at b 0 = None \<and> window_len b < 32")
    case True
    with dequeue_waits [OF inv] inv show ?thesis by simp
  next
    case False
    moreover from this inv have "window_len b \<le> 32" by (simp add: buf_inv_def)
    ultimately obtain b' x where "dequeue b nr = (x, b')" "buf_inv b'"
      using dequeue_takes [OF inv, of nr] by force
    then show ?thesis by simp
  qed
qed

lemma buf_inv_fresh:
  "b_empty b \<Longrightarrow> b_entries b = replicate RAOP_BUFFER_LENGTH (empty_entry (frame_capacity b)) \<Longrightarrow> buf_inv b"
  by (simp add: buf_inv_def entries_ok_def empty_entry_def RAOP_BUFFER_LENGTH_def)

lemma buf_inv_build: "raop_build rtpmap fmtp aes = Some b \<Longrightarrow> buf_inv b \<and> b_empty b"
  by (auto simp: raop_build_def bind_eq_Some_conv intro!: buf_inv_fresh)

lemma buf_inv_steps: "buf_inv b \<Longrightarrow> buf_inv (foldl (rb_step cbc unwound) b ops)"
proof (induction ops arbitrary: b)
  case (Cons op ops)
  then have "buf_inv (rb_step cbc unwound b op)"
    by (cases op) (simp_all add: buf_inv_queue buf_inv_dequeue buf_inv_flush)
  with Cons show ?case by simp
qed simp

end
