(* ===== verification/Rtp_Delivery.thy ===== *)
theory Rtp_Delivery
  imports Rtp_Buffer
begin

text \<open>
  What the consumer of the packet buffer sees: every sequence of operations keeps the
  buffer's invariant, the drain loop delivers the window in order with silence for lost
  frames, packets that arrive out of order within the window are delivered in order, and
  a flush target is not binding while the buffer is empty.
\<close>

section \<open>Codec set-up\<close>

lemma replicate_48: "replicate 48 (0::byte) = replicate 24 0 @ [0,0,0,0] @ [0,0,0,0,0,0] @ [0,0] @ [0,0,0,0] @ [0,0,0,0] @ [0,0,0,0]"
  by (simp add: numeral_eq_Suc)
lemma copy_at_append: "length a = i \<Longrightarrow> length b = length src \<Longrightarrow> copy_at i src (a @ b @ c) = a @ src @ c"
  by (simp add: copy_at_def)

lemma build_decoder_info_layout:
  "build_decoder_info c = replicate 24 0 @ to_be_bytes 4 (frame_length c)
     @ [compatible_version c, cfg_bit_depth c, cfg_pb c, cfg_mb c, cfg_kb c, cfg_num_channels c]
     @ to_be_bytes 2 (cfg_max_run c) @ to_be_bytes 4 (cfg_max_frame_bytes c)
     @ to_be_bytes 4 (cfg_avg_bit_rate c) @ to_be_bytes 4 (cfg_sample_rate c)"
proof -
  let ?z = "replicate 24 (0::byte)" and ?a = "to_be_bytes 4 (frame_length c)"
  let ?m = "[compatible_version c, cfg_bit_depth c, cfg_pb c, cfg_mb c, cfg_kb c, cfg_num_channels c]"
  let ?r = "to_be_bytes 2 (cfg_max_run c)" and ?f = "to_be_bytes 4 (cfg_max_frame_bytes c)"
  let ?v = "to_be_bytes 4 (cfg_avg_bit_rate c)" and ?s = "to_be_bytes 4 (cfg_sample_rate c)"
  let ?o = "[0, 0, 0, 0] :: bytes"
  have 1: "copy_at 24 ?a (?z @ ?o @ x) = ?z @ ?a @ x" for x by (rule copy_at_append) simp_all
  have 2: "(?z @ ?a @ [0,0,0,0,0,0] @ x)[28 := compatible_version c, 29 := cfg_bit_depth c,
      30 := cfg_pb c, 31 := cfg_mb c, 32 := cfg_kb c, 33 := cfg_num_channels c] = ?z @ ?a @ ?m @ x" for x
    by (simp add: list_update_append)
  have 3: "copy_at 34 ?r ((?z @ ?a @ ?m) @ [0, 0] @ x) = (?z @ ?a @ ?m) @ ?r @ x" for x
    by (rule copy_at_append) simp_all
  have 4: "copy_at 36 ?f ((?z @ ?a @ ?m @ ?r) @ ?o @ x) = (?z @ ?a @ ?m @ ?r) @ ?f @ x" for x
    by (rule copy_at_append) simp_all
  have 5: "copy_at 40 ?v ((?z @ ?a @ ?m @ ?r @ ?f) @ ?o @ x) = (?z @ ?a @ ?m @ ?r @ ?f) @ ?v @ x" for x
    by (rule copy_at_append) simp_all
  have 6: "copy_at 44 ?s ((?z @ ?a @ ?m @ ?r @ ?f @ ?v) @ ?o @ []) = (?z @ ?a @ ?m @ ?r @ ?f @ ?v) @ ?s @ []"
    by (rule copy_at_append) simp_all
  show ?thesis
    unfolding build_decoder_info_def Let_def replicate_48
    using 1 [of "[0,0,0,0,0,0] @ [0,0] @ ?o @ ?o @ ?o"] 2 [of "[0,0] @ ?o @ ?o @ ?o"] 3 [of "?o @ ?o @ ?o"] 4 [of "?o @ ?o"] 5 [of ?o] 6
    by (simp only: append_assoc append_Nil2)
qed

lemma info_fields:
  "length (build_decoder_info c) = 48"
  "slice 24 28 (build_decoder_info c) = to_be_bytes 4 (frame_length c)"
  "build_decoder_info c ! 29 = cfg_bit_depth c"
  "build_decoder_info c ! 30 = cfg_pb c"
  "build_decoder_info c ! 31 = cfg_mb c"
  "build_decoder_info c ! 32 = cfg_kb c"
  "build_decoder_info c ! 33 = cfg_num_channels c"
  "slice 34 36 (build_decoder_info c) = to_be_bytes 2 (cfg_max_run c)"
  "slice 36 40 (build_decoder_info c) = to_be_bytes 4 (cfg_max_frame_bytes c)"
  "slice 40 44 (build_decoder_info c) = to_be_bytes 4 (cfg_avg_bit_rate c)"
  "slice 44 48 (build_decoder_info c) = to_be_bytes 4 (cfg_sample_rate c)"
  by (simp_all add: build_decoder_info_layout slice_def nth_append)
lemma set_info_config:
  assumes "cfg_bit_depth c = 16 \<or> cfg_bit_depth c = 24" and "1 \<le> cfg_num_channels c" and "cfg_num_channels c \<le> 2"
  shows "let d = set_info d0 (build_decoder_info c) in
     max_samples_per_frame d = frame_length c \<and> sample_size_config d = cfg_bit_depth c
   \<and> rice_history_mult d = cfg_pb c \<and> rice_initial_history d = cfg_mb c \<and> rice_k_modifier d = cfg_kb c
   \<and> num_channels d = ucast (cfg_num_channels c) \<and> max_run d = cfg_max_run c
   \<and> max_frame_bytes d = cfg_max_frame_bytes c \<and> avg_bit_rate d = cfg_avg_bit_rate c
   \<and> sample_rate d = cfg_sample_rate c
   \<and> bytes_per_sample d = (ucast (cfg_bit_depth c) div 8) * ucast (cfg_num_channels c)"
  using assms(1)
  by (rule disjE) (use assms(2,3) in \<open>simp_all add: set_info_def Let_def info_fields byte_simps allocate_buffers_def\<close>)

text \<open>
  The decoder is configured with exactly what the SDP announced. For a 16- or 24-bit
  mono or stereo configuration, the 48-byte block built from it and read back by the
  decoder gives every field its announced value.
\<close>

theorem decoder_info_roundtrip:
  assumes "cfg_bit_depth c = 16 \<or> cfg_bit_depth c = 24" and "1 \<le> cfg_num_channels c" and "cfg_num_channels c \<le> 2"
  shows "let d = set_info d0 (build_decoder_info c) in
     max_samples_per_frame d = frame_length c \<and> sample_size_config d = cfg_bit_depth c
   \<and> rice_history_mult d = cfg_pb c \<and> rice_initial_history d = cfg_mb c \<and> rice_k_modifier d = cfg_kb c
   \<and> num_channels d = ucast (cfg_num_channels c) \<and> max_run d = cfg_max_run c
   \<and> max_frame_bytes d = cfg_max_frame_bytes c \<and> avg_bit_rate d = cfg_avg_bit_rate c
   \<and> sample_rate d = cfg_sample_rate c
   \<and> bytes_per_sample d = (ucast (cfg_bit_depth c) div 8) * ucast (cfg_num_channels c)"
  using set_info_config [OF assms] .

definition config_352 :: "byte \<Rightarrow> alac_config" where
  "config_352 depth =
     \<lparr>frame_length = 352, compatible_version = 0, cfg_bit_depth = depth, cfg_pb = 40, cfg_mb = 10,
      cfg_kb = 14, cfg_num_channels = 2, cfg_max_run = 255, cfg_max_frame_bytes = 0,
      cfg_avg_bit_rate = 0, cfg_sample_rate = 44100\<rparr>"

theorem decoder_info_roundtrip_witness:
  "max_samples_per_frame (set_info (alac_new 16 2) (build_decoder_info (config_352 16))) = 352
   \<and> num_channels (set_info (alac_new 16 2) (build_decoder_info (config_352 16))) = 2"
  using decoder_info_roundtrip [of "config_352 16" "alac_new 16 2"] by (simp add: config_352_def Let_def)

lemma small_output_no_decode:
  assumes "length out < unat (max_samples_per_frame d) * unat (bytes_per_sample d)"
  shows "\<exists>d'. decode_frame d input out = Some (0, d', out)"
  using assms by (simp add: decode_frame_def Let_def split_beta)

text \<open>
  24-bit ALAC is accepted by the AirPlay 1 session set-up but never played. The
  buffer offers the decoder two bytes per sample, the decoder needs three, so decoding
  every packet of such a stream yields nothing.
\<close>

theorem ap1_alac_24_bit_silent:
  assumes "cfg_bit_depth c = 24" and "1 \<le> cfg_num_channels c" and "cfg_num_channels c \<le> 2"
    and "frame_length c \<noteq> 0"
  shows "\<exists>cdc. decode_payload unwound (CAlac c (set_info d0 (build_decoder_info c)))
      (unat (frame_length c) * unat (cfg_num_channels c)) sil packet = (Inl 0, cdc, sil)"
proof -
  let ?d = "set_info d0 (build_decoder_info c)"
  have n: "cfg_num_channels c = 1 \<or> cfg_num_channels c = 2" by (rule byte_1_2 [OF assms(2,3)])
  have d: "max_samples_per_frame ?d = frame_length c"
    "unat (bytes_per_sample ?d) = 3 * unat (cfg_num_channels c)"
    using set_info_config [of c d0] assms n by (auto simp: Let_def)
  have "0 < unat (frame_length c) * unat (cfg_num_channels c)"
    using assms(4) n by (auto simp: unat_gt_0)
  then have "length (replicate (unat (frame_length c) * unat (cfg_num_channels c) * 2) (0::byte))
      < unat (max_samples_per_frame ?d) * unat (bytes_per_sample ?d)"
    by (simp add: d)
  from small_output_no_decode [OF this, of packet] show ?thesis
    by (auto simp: decode_payload_def)
qed

theorem ap1_alac_24_bit_silent_witness:
  "\<exists>cdc. decode_payload (alac_new 24 2) (CAlac (config_352 24) (set_info (alac_new 24 2) (build_decoder_info (config_352 24))))
      704 704 [1, 2, 3] = (Inl 0, cdc, 704)"
  using ap1_alac_24_bit_silent [of "config_352 24" "alac_new 24 2" "alac_new 24 2" 704 "[1, 2, 3]"]
  by (simp add: config_352_def)

section \<open>PCM packets\<close>

definition pcm_samples ::
  "(bytes \<Rightarrow> bytes \<Rightarrow> bytes \<Rightarrow> bytes) \<Rightarrow> aes_session option \<Rightarrow> nat \<Rightarrow> bytes \<Rightarrow> rat list" where
  "pcm_samples cbc aes capacity data =
     take capacity (map (\<lambda>c. sample_of_16 (rev c))
       (as_chunks 2 (decrypt_payload cbc aes (drop 12 data))))"

text \<open>A packet the PCM decoder accepts, with sequence number \<open>s\<close>.\<close>

definition pcm_packet ::
  "(bytes \<Rightarrow> bytes \<Rightarrow> bytes \<Rightarrow> bytes) \<Rightarrow> raop_buffer \<Rightarrow> pcm_config \<Rightarrow> u16 \<Rightarrow> bytes \<Rightarrow> bool" where
  "pcm_packet cbc b cfg s data \<longleftrightarrow>
     12 \<le> length data \<and> length data \<le> RAOP_PACKET_LEN \<and> packet_seqnum b data True = s
     \<and> decrypt_payload cbc (b_aes b) (drop 12 data) \<noteq> []
     \<and> unat (pcm_num_channels cfg) * 2 dvd length (decrypt_payload cbc (b_aes b) (drop 12 data))
     \<and> pcm_samples cbc (b_aes b) (frame_capacity b) data \<noteq> []"

lemma pcm_packet_decode:
  assumes "pcm_packet cbc b cfg s data"
  shows "decode_payload unwound (CPcm cfg) (frame_capacity b) sil (decrypt_payload cbc (b_aes b) (drop 12 data))
    = (Inr (pcm_samples cbc (b_aes b) (frame_capacity b) data), CPcm cfg,
       length (pcm_samples cbc (b_aes b) (frame_capacity b) data))"
  using assms by (simp add: pcm_packet_def decode_payload_def Let_def pcm_samples_def)

text \<open>What stays the same while packets are queued.\<close>

definition same_stream :: "raop_buffer \<Rightarrow> raop_buffer \<Rightarrow> bool" where
  "same_stream b b' \<longleftrightarrow> b_aes b' = b_aes b \<and> b_codec b' = b_codec b \<and> frame_capacity b' = frame_capacity b"

lemma stored_same_stream: "same_stream b (stored data s x b)"
  by (auto simp: same_stream_def stored_def update_window_def update_entry_def Let_def)

lemma queue_pcm_accepts:
  assumes inv: "buf_inv b" and codec: "b_codec b = CPcm cfg" and pk: "pcm_packet cbc b cfg s data"
    and sync: "resync b s = b" and fresh: "b_empty b \<or> seqnum_cmp s (first_seqnum b) \<ge> 0"
    and slot: "\<not> e_available (b_entries b ! slot s)"
  shows "\<exists>b3. queue cbc unwound b data True
      = (1, stored data s (pcm_samples cbc (b_aes b) (frame_capacity b) data) b3)
    \<and> buf_inv b3 \<and> pending b3 = pending b \<and> same_stream b b3 \<and> b_empty b3 = b_empty b
    \<and> first_seqnum b3 = first_seqnum b \<and> window_len b3 = window_len b"
proof -
  let ?x = "pcm_samples cbc (b_aes b) (frame_capacity b) data"
  define b3 where "b3 = update_entry (slot s) clear_entry b\<lparr>b_codec := CPcm cfg, silence_samples := length ?x\<rparr>"
  have s: "packet_seqnum b data True = s" "12 \<le> length data" "length data \<le> RAOP_PACKET_LEN"
    using pk by (auto simp: pcm_packet_def)
  have cmp: "\<not> seqnum_cmp s (first_seqnum b + of_nat RAOP_BUFFER_LENGTH) \<ge> 0
      \<or> raop_flush b (uint s) = b"
    using sync by (auto simp: resync_def split: if_splits)
  have "queue cbc unwound b data True = (1, stored data s ?x b3)"
    using s fresh slot cmp pcm_packet_decode [OF pk, of unwound "silence_samples b"]
    by (auto simp: queue_def Let_def codec b3_def stored_def update_entry_def)
  moreover note clear_slot_inv [OF inv slot_less slot, where c = "CPcm cfg" and n = "length ?x", folded b3_def]
  moreover have "same_stream b b3" "b_empty b3 = b_empty b" "first_seqnum b3 = first_seqnum b"
    "window_len b3 = window_len b"
    by (simp_all add: b3_def same_stream_def codec update_entry_def window_len_def)
  ultimately show ?thesis by blast
qed

lemma resync_in_window:
  assumes "k < 32"
  shows "resync b (first_seqnum b + of_nat k) = b"
    and "seqnum_cmp (first_seqnum b + of_nat k) (first_seqnum b) \<ge> 0"
proof -
  let ?s = "first_seqnum b + of_nat k"
  have "?s - (first_seqnum b + 32) = of_int (int k - 32)" by simp
  moreover have "sint (of_int (int k - 32) :: u16) = int k - 32"
    using assms by (intro sint_of_int_small) auto
  ultimately have "seqnum_cmp ?s (first_seqnum b + 32) = int k - 32" by (simp only: seqnum_cmp_def)
  then show "resync b ?s = b" using assms by (simp add: resync_def RAOP_BUFFER_LENGTH_def)
  have "?s - first_seqnum b = of_int (int k)" by simp
  moreover have "sint (of_int (int k) :: u16) = int k" using assms by (intro sint_of_int_small) auto
  ultimately have "seqnum_cmp ?s (first_seqnum b) = int k" by (simp only: seqnum_cmp_def)
  then show "seqnum_cmp ?s (first_seqnum b) \<ge> 0" by simp
qed

lemma queue_pcm_put:
  assumes inv: "buf_inv b" and ne: "\<not> b_empty b" and codec: "b_codec b = CPcm cfg" and k: "k < 32"
    and pk: "pcm_packet cbc b cfg (first_seqnum b + of_nat k) data" and hole: "frame_at b k = None"
  shows "\<exists>b'. queue cbc unwound b data True = (1, b') \<and> buf_inv b' \<and> \<not> b_empty b' \<and> same_stream b b'
    \<and> first_seqnum b' = first_seqnum b
    \<and> pending b' = put (pending b) k (pcm_samples cbc (b_aes b) (frame_capacity b) data)"
proof -
  let ?s = "first_seqnum b + of_nat k" and ?x = "pcm_samples cbc (b_aes b) (frame_capacity b) data"
  have slot: "\<not> e_available (b_entries b ! slot ?s)"
    using hole by (auto simp: frame_at_def entry_frame_def)
  from queue_pcm_accepts [OF inv codec pk resync_in_window(1) [OF k] _ slot] resync_in_window(2) [OF k]
  obtain b3 where q: "queue cbc unwound b data True = (1, stored data ?s ?x b3)"
    and b3: "buf_inv b3" "pending b3 = pending b" "same_stream b b3" "b_empty b3 = b_empty b"
      "first_seqnum b3 = first_seqnum b" by blast
  have len: "length ?x \<le> frame_capacity b3" using b3(3) by (simp add: same_stream_def pcm_samples_def)
  have n3: "window_len b3 \<le> 32" "\<not> b_empty b3" using b3 ne by (auto simp: buf_inv_def)
  have s3: "?s = first_seqnum b3 + of_nat k" by (simp add: b3(5))
  have ss: "same_stream b (stored data ?s ?x b3)"
    using b3(3) stored_same_stream [of b3 data ?s ?x] by (simp add: same_stream_def)
  show ?thesis
    using q stored_refines [OF b3(1) n3(2) k s3 len] stored_window [OF n3(2,1) k s3] ss b3(2,5) by auto
qed

section \<open>Out-of-order arrival\<close>

abbreviation receive ::
  "(bytes \<Rightarrow> bytes \<Rightarrow> bytes \<Rightarrow> bytes) \<Rightarrow> alac_decoder \<Rightarrow> (nat \<Rightarrow> bytes) \<Rightarrow> raop_buffer \<Rightarrow> nat list \<Rightarrow> raop_buffer" where
  "receive cbc unwound pkt b ks \<equiv> foldl (\<lambda>b k. snd (queue cbc unwound b (pkt k) True)) b ks"

lemma pcm_packet_same_stream:
  "same_stream b b' \<Longrightarrow> pcm_packet cbc b' cfg s data = pcm_packet cbc b cfg s data"
  by (simp add: same_stream_def pcm_packet_def packet_seqnum_def)

lemma frame_at_pending:
  assumes "buf_inv b" and "\<not> b_empty b" and "k < 32"
  shows "frame_at b k = (if k < length (pending b) then pending b ! k else None)"
  using assms buf_inv_not_available [OF assms(1,3)]
  by (auto simp: pending_def frame_at_def entry_frame_def)

lemma receive_pending:
  fixes b0 :: raop_buffer
  assumes inv: "buf_inv b0" and ne: "\<not> b_empty b0" and start: "pending b0 = []"
    and codec: "b_codec b0 = CPcm cfg"
  shows "distinct ks \<Longrightarrow>
    \<forall>k \<in> set ks. k < 32 \<and> pcm_packet cbc b0 cfg (first_seqnum b0 + of_nat k) (pkt k) \<Longrightarrow>
    (let b = receive cbc unwound pkt b0 ks in
     buf_inv b \<and> \<not> b_empty b \<and> same_stream b0 b \<and> first_seqnum b = first_seqnum b0
     \<and> length (pending b) = (if ks = [] then 0 else Suc (Max (set ks)))
     \<and> (\<forall>j < length (pending b). pending b ! j =
          (if j \<in> set ks then Some (pcm_samples cbc (b_aes b0) (frame_capacity b0) (pkt j)) else None)))"
proof (induction ks rule: rev_induct)
  case Nil
  then show ?case using inv ne start by (simp add: same_stream_def Let_def)
next
  case (snoc k ks)
  define b where "b = receive cbc unwound pkt b0 ks"
  from snoc have IH: "buf_inv b" "\<not> b_empty b" "same_stream b0 b" "first_seqnum b = first_seqnum b0"
    "length (pending b) = (if ks = [] then 0 else Suc (Max (set ks)))"
    "\<And>j. j < length (pending b) \<Longrightarrow> pending b ! j =
       (if j \<in> set ks then Some (pcm_samples cbc (b_aes b0) (frame_capacity b0) (pkt j)) else None)"
    by (auto simp: Let_def b_def)
  have k: "k < 32" "pcm_packet cbc b cfg (first_seqnum b + of_nat k) (pkt k)" "k \<notin> set ks"
    using snoc.prems pcm_packet_same_stream [OF IH(3)] IH(4) by auto
  have hole: "frame_at b k = None" using frame_at_pending [OF IH(1,2) k(1)] IH(6) [of k] k(3) by auto
  have c: "b_codec b = CPcm cfg" using IH(3) codec by (simp add: same_stream_def)
  let ?x = "pcm_samples cbc (b_aes b0) (frame_capacity b0) (pkt k)"
  from queue_pcm_put [OF IH(1,2) c k(1,2) hole, of unwound] IH(3) obtain b' where
    b': "queue cbc unwound b (pkt k) True = (1, b')" "buf_inv b'" "\<not> b_empty b'" "same_stream b b'"
      "first_seqnum b' = first_seqnum b" "pending b' = put (pending b) k ?x"
    by (auto simp: same_stream_def)
  have len: "length (pending b') = Suc (Max (set (ks @ [k])))"
    using IH(5) by (cases "ks = []") (simp_all add: b'(6) length_put max.commute)
  have "pending b' ! j = (if j \<in> set (ks @ [k])
      then Some (pcm_samples cbc (b_aes b0) (frame_capacity b0) (pkt j)) else None)"
    if "j < length (pending b')" for j
    using put_nth [of j "pending b" k ?x] that IH(5) IH(6) [of j] k(3) Max_ge [of "set ks" j]
    unfolding b'(6) by (cases "j \<in> set ks") (auto simp: le_imp_less_Suc)
  moreover have "same_stream b0 b'" using IH(3) b'(4) by (simp add: same_stream_def)
  ultimately show ?case
    using b' IH(4) len by (simp add: Let_def b_def [symmetric])
qed


definition small_buffer :: raop_buffer where
  "small_buffer =
     \<lparr>b_aes = None, b_codec = CPcm \<lparr>pcm_num_channels = 1, pcm_sample_rate = 44100\<rparr>, b_empty = False,
      first_seqnum = 0xFFFF, last_seqnum = 0xFFFE, b_entries = replicate 32 (empty_entry 1),
      frame_capacity = 1, silence_samples = 1\<rparr>"

lemma small_buffer_inv: "buf_inv small_buffer" "\<not> b_empty small_buffer" "pending small_buffer = []"
  by (simp_all add: buf_inv_def small_buffer_def entries_ok_def empty_entry_def pending_def window_len_def)

definition mono_packet :: "nat \<Rightarrow> bytes" where
  "mono_packet k = [0x80, 0x60] @ (if k = 0 then [0xFF, 0xFF] else [0, 0]) @ replicate 8 0 @ [0x40, 0]"


section \<open>Any sequence of operations\<close>

text \<open>
  C28: whatever packets arrive and whatever is flushed or taken out, in any order, the
  buffer stays consistent and draining it terminates: at most 32 frames come out, in
  sequence order, a missing frame replaced by silence, and then the buffer reports that
  nothing is left.
\<close>

theorem raop_drain_reachable:
  assumes "raop_build rtpmap fmtp aes = Some b0"
  shows "let b = foldl (rb_step cbc unwound) b0 ops in
    buf_inv b \<and> length (pending b) \<le> 32
    \<and> (\<exists>b'. drain (\<lambda>b. dequeue b True) 33 b = (map (fill b) (pending b), b') \<and> dequeue b' True = (None, b'))"
proof -
  let ?b = "foldl (rb_step cbc unwound) b0 ops"
  have i: "buf_inv ?b" using buf_inv_build [OF assms] by (simp add: buf_inv_steps)
  from rtp.drain_all [OF i, of 33] pending_le_32 [OF i] i show ?thesis by (auto simp: Let_def)
qed

theorem raop_drain_reachable_witness:
  "\<exists>b0. raop_build ''96 L16/44100/2'' '''' None = Some b0
     \<and> buf_inv (foldl (rb_step (\<lambda>_ _ d. d) (alac_new 16 2)) b0 [Flush 7, Queue [1, 2, 3] True, Dequeue True])"
proof -
  have c: "parse_codec ''96 L16/44100/2'' = Some (CfgPcm \<lparr>pcm_num_channels = 2, pcm_sample_rate = 44100\<rparr>)"
    by (simp add: parse_codec_def split_whitespace_def split_ws.simps ws_len_def parse_l16_def parse_uint_def
        parse_nat_def parse_digits_def strip_plus_def digits_value_def is_digit_def eq_ignore_ascii_case_def
        to_ascii_lower_def)
  obtain b0 where b0: "raop_build ''96 L16/44100/2'' '''' None = Some b0" by (simp add: raop_build_def c)
  from raop_drain_reachable [OF this, of "\<lambda>_ _ d. d" "alac_new 16 2" "[Flush 7, Queue [1, 2, 3] True, Dequeue True]"]
  have "buf_inv (foldl (rb_step (\<lambda>_ _ d. d) (alac_new 16 2)) b0 [Flush 7, Queue [1, 2, 3] True, Dequeue True])"
    unfolding Let_def by blast
  with b0 show ?thesis by blast
qed

text \<open>
  Dequeuing takes frames in sequence order. With a frame pending the buffer either
  hands out exactly the frame of the first sequence number of the window, or silence of
  the negotiated length when it is missing, and moves the window on by one; or, when
  retransmission is still possible and the window is not full, it waits and changes
  nothing.
\<close>

theorem dequeue_in_order:
  assumes "buf_inv b" and "pending b = f # fs"
  shows "if \<not> no_resend \<and> f = None \<and> length (pending b) < 32 then dequeue b no_resend = (None, b)
    else \<exists>b'. dequeue b no_resend = (Some (fill b f), b') \<and> buf_inv b' \<and> pending b' = fs
      \<and> first_seqnum b' = first_seqnum b + 1"
proof -
  have ne: "\<not> b_empty b" using assms(2) by (auto simp: pending_def)
  then have w: "window_len b = length (pending b)" by (simp add: pending_def)
  then have w: "window_len b = length (pending b)" "0 < window_len b" using assms(2) by simp_all
  have f: "frame_at b 0 = f" using frame_at_pending [OF assms(1) ne, of 0] assms(2) by simp
  have "window_len b \<le> 32" using assms(1) ne by (simp add: buf_inv_def)
  with dequeue_takes [OF assms(1) ne w(2), of no_resend] dequeue_waits [OF assms(1), of no_resend] f w assms(2)
  show ?thesis by (auto simp: fill_def)
qed

definition gap_buffer :: raop_buffer where
  "gap_buffer = small_buffer\<lparr>last_seqnum := 0\<rparr>"

theorem dequeue_in_order_witness:
  "buf_inv gap_buffer \<and> pending gap_buffer = [None, None]
   \<and> dequeue gap_buffer False = (None, gap_buffer)
   \<and> (\<exists>b'. dequeue gap_buffer True = (Some [0], b') \<and> pending b' = [None] \<and> first_seqnum b' = 0)"
proof -
  have i: "buf_inv gap_buffer"
    by (simp add: gap_buffer_def buf_inv_def small_buffer_def entries_ok_def empty_entry_def window_len_def)
  have "window_len gap_buffer = 2" by (simp add: window_len_def gap_buffer_def small_buffer_def)
  moreover have "frame_at gap_buffer k = None" for k
    by (simp add: frame_at_def entry_frame_def gap_buffer_def small_buffer_def empty_entry_def)
  moreover have "\<not> b_empty gap_buffer" by (simp add: gap_buffer_def small_buffer_def)
  ultimately have p: "pending gap_buffer = [None, None]" by (simp add: pending_def upt_rec)
  have "fill gap_buffer None = [0]" by (simp add: fill_def silence_def gap_buffer_def small_buffer_def)
  moreover have "first_seqnum gap_buffer + 1 = 0" by (simp add: gap_buffer_def small_buffer_def)
  ultimately show ?thesis
    using i p dequeue_in_order [OF i p, of False] dequeue_in_order [OF i p, of True] by auto
qed

text \<open>
  A flush target does not bind an empty buffer. After a flush to sequence number
  \<open>t\<close>, a buffer that has not yet received a packet still accepts a packet from before \<open>t\<close>
  (the staleness test is skipped while it is empty) and starts its window there.
\<close>

theorem flush_target_not_binding:
  assumes "buf_inv b" and "b_empty b" and "b_codec b = CPcm cfg"
    and "seqnum_cmp s t < 0" and "seqnum_cmp s (t + 32) < 0" and "pcm_packet cbc b cfg s data"
  shows "\<exists>b'. queue cbc unwound (raop_flush b (uint t)) data True = (1, b')
    \<and> first_seqnum b' = s \<and> pending b' = [Some (pcm_samples cbc (b_aes b) (frame_capacity b) data)]"
proof -
  let ?b = "raop_flush b (uint t)" and ?x = "pcm_samples cbc (b_aes b) (frame_capacity b) data"
  have inv: "buf_inv ?b" using assms(1) by (rule buf_inv_flush)
  have e: "b_empty ?b" "first_seqnum ?b = t" using assms(2) by (auto simp: flush_to)
  have ss: "same_stream b ?b" by (simp add: same_stream_def flush_entries)
  have "\<not> e_available (b_entries ?b ! slot s)" using inv e by (simp add: buf_inv_def entries_ok_def)
  moreover have "resync ?b s = ?b" using assms(5) by (simp add: resync_def e RAOP_BUFFER_LENGTH_def)
  moreover have "b_codec ?b = CPcm cfg" "pcm_packet cbc ?b cfg s data"
    using assms(3,6) pcm_packet_same_stream [OF ss] by (simp_all add: flush_entries)
  ultimately obtain b3 where q: "queue cbc unwound ?b data True
      = (1, stored data s (pcm_samples cbc (b_aes ?b) (frame_capacity ?b) data) b3)"
    and b3: "buf_inv b3" "b_empty b3" "same_stream ?b b3"
    using queue_pcm_accepts [OF inv, of cfg cbc s data unwound] e by blast
  have eq: "pcm_samples cbc (b_aes ?b) (frame_capacity ?b) data = ?x" by (simp add: flush_entries)
  have "length ?x \<le> frame_capacity b3"
    using b3(3) by (simp add: same_stream_def flush_entries pcm_samples_def)
  from q [unfolded eq] stored_first [OF b3(1,2) this] show ?thesis by blast
qed

theorem flush_target_not_binding_witness:
  "let b = small_buffer\<lparr>b_empty := True\<rparr> in
   \<exists>b'. queue (\<lambda>_ _ d. d) (alac_new 16 1) (raop_flush b (uint (100 :: u16))) (mono_packet 1) True = (1, b')
     \<and> first_seqnum b' = 0"
proof -
  let ?b = "small_buffer\<lparr>b_empty := True\<rparr>" and ?cbc = "\<lambda>_ _ d :: bytes. d"
  let ?cfg = "\<lparr>pcm_num_channels = 1, pcm_sample_rate = 44100\<rparr>"
  have i: "buf_inv ?b" by (simp add: buf_inv_def small_buffer_def entries_ok_def empty_entry_def)
  have x: "pcm_samples ?cbc None 1 (mono_packet k) = [1 / 2]" for k
    by (simp add: pcm_samples_def mono_packet_def decrypt_payload_def as_chunks_def chunks_short
        sample_of_16_def from_le_bytes_def)
  have p: "pcm_packet ?cbc ?b ?cfg 0 (mono_packet 1)"
    using x [of 1, unfolded mono_packet_def] by (auto simp: pcm_packet_def small_buffer_def packet_seqnum_def mono_packet_def RAOP_PACKET_LEN_def
        decrypt_payload_def)
  have c: "b_codec ?b = CPcm ?cfg" by (simp add: small_buffer_def)
  have s: "seqnum_cmp 0 100 < 0" "seqnum_cmp 0 (100 + 32) < 0" by (simp_all add: seqnum_cmp_def)
  from flush_target_not_binding [OF i _ c s p, of "alac_new 16 1"] show ?thesis by (auto simp: Let_def)
qed

end
