(* ===== verification/Rtp_Session.thy ===== *)
theory Rtp_Session
  imports Rtp_Delivery Segments Errors
begin

text \<open>
  The AirPlay 1 RTP session of src/raop/rtp.rs: creation from the announced parameters, start
  and stop, and the two receive tasks (UDP with a control channel for retransmissions, TCP with
  interleaved framing). The tasks run in the default build, which delivers samples without
  resampling. What the application's audio session receives is a log of events. The results of
  binding sockets are arguments; \<open>local_addr\<close> of a bound socket is taken to succeed.
\<close>

section \<open>Session\<close>

datatype ip_addr = V4 bytes | V6 bytes

type_synonym socket_addr = "ip_addr \<times> u16"

definition NO_FLUSH :: int where "NO_FLUSH = - 42"
definition CTRL_PAYLOAD_TYPE :: byte where "CTRL_PAYLOAD_TYPE = 0x56"
definition RETRANSMIT_HEADER_LEN :: nat where "RETRANSMIT_HEADER_LEN = 4"

definition rtp_bind_addr :: "ip_addr \<Rightarrow> ip_addr" where
  "rtp_bind_addr local =
     (case local of
        V6 o6 \<Rightarrow>
          if (from_be_bytes (take 2 o6) :: u16) AND 0xffc0 = 0xfe80 then V6 (replicate 16 0) else local
      | V4 o4 \<Rightarrow> local)"

definition peer_ip_matches :: "socket_addr \<Rightarrow> socket_addr \<Rightarrow> bool" where
  "peer_ip_matches expected sender \<longleftrightarrow> fst sender = fst expected"

record rtp_config =
  cfg_remote :: string
  cfg_local_addr :: ip_addr
  cfg_rtpmap :: string
  cfg_fmtp :: "string option"
  cfg_encryption :: "(bytes \<times> bytes) option"
  cfg_output_rate :: "u32 option"
  cfg_remote_socket :: socket_addr

record raop_rtp =
  r_remote :: string
  r_local_addr :: ip_addr
  r_output_rate :: "u32 option"
  r_format :: stream_format
  r_buffer :: raop_buffer
  r_flush :: int
  r_started :: bool
  control_rport :: u16
  control_lport :: u16
  timing_lport :: u16
  data_lport :: u16
  r_remote_socket :: socket_addr

definition rtp_new :: "rtp_config \<Rightarrow> raop_rtp option" where
  "rtp_new cfg =
     (let fmtp = (case cfg_fmtp cfg of Some f \<Rightarrow> f | None \<Rightarrow> []) in
      case (case cfg_encryption cfg of
              Some (k, iv) \<Rightarrow> raop_new (cfg_rtpmap cfg) fmtp k iv
            | None \<Rightarrow> raop_new_unencrypted (cfg_rtpmap cfg) fmtp) of
        None \<Rightarrow> None
      | Some b \<Rightarrow>
          Some \<lparr>r_remote = cfg_remote cfg, r_local_addr = cfg_local_addr cfg,
                r_output_rate = cfg_output_rate cfg, r_format = raop_format b, r_buffer = b,
                r_flush = NO_FLUSH, r_started = False, control_rport = 0, control_lport = 0,
                timing_lport = 0, data_lport = 0, r_remote_socket = cfg_remote_socket cfg\<rparr>)"

text \<open>What \<open>audio_init\<close> is told.\<close>

record audio_format =
  af_bits :: byte
  af_channels :: byte
  af_sample_rate :: u32

definition rtp_audio_format :: "raop_rtp \<Rightarrow> audio_format" where
  "rtp_audio_format r = \<lparr>af_bits = 32, af_channels = sf_num_channels (r_format r),
     af_sample_rate = (case r_output_rate r of Some x \<Rightarrow> x | None \<Rightarrow> sf_sample_rate (r_format r))\<rparr>"

text \<open>\<open>os\<close> gives the port or the error of the successive binds. On success the audio format of
  the new session is returned too.\<close>

definition rtp_start ::
  "(nat \<Rightarrow> string + u16) \<Rightarrow> bool \<Rightarrow> u16 \<Rightarrow> u16 \<Rightarrow> raop_rtp
   \<Rightarrow> (shairplay_error + (u16 \<times> u16 \<times> u16) \<times> audio_format) \<times> raop_rtp" where
  "rtp_start os use_udp crport trport r0 =
     (let r = r0\<lparr>control_rport := crport, r_started := True\<rparr> in
      if use_udp then
        (case (os 0, os 1, os 2) of
           (Inr c, Inr t, Inr d) \<Rightarrow>
             let r1 = r\<lparr>control_lport := c, timing_lport := t, data_lport := d\<rparr>
             in (Inr ((c, t, d), rtp_audio_format r1), r1)
         | (Inl e, _, _) \<Rightarrow> (Inl (Network (Io e)), r)
         | (_, Inl e, _) \<Rightarrow> (Inl (Network (Io e)), r)
         | (_, _, Inl e) \<Rightarrow> (Inl (Network (Io e)), r))
      else
        (case os 0 of
           Inl e \<Rightarrow> (Inl (Network (Io e)), r)
         | Inr d \<Rightarrow>
             let r1 = r\<lparr>data_lport := d\<rparr>
             in (Inr ((control_lport r1, timing_lport r1, d), rtp_audio_format r1), r1)))"

definition rtp_flush :: "int \<Rightarrow> raop_rtp \<Rightarrow> raop_rtp" where
  "rtp_flush next_seq r = r\<lparr>r_flush := next_seq\<rparr>"

definition rtp_stop :: "raop_rtp \<Rightarrow> raop_rtp" where
  "rtp_stop r = rtp_flush (- 1) (r\<lparr>r_started := False\<rparr>)"

section \<open>Receive tasks\<close>

datatype audio_event = Process "rat list" | AudioFlush

record rx_task =
  t_buffer :: raop_buffer
  t_flush :: int
  t_audio :: "audio_event list"
  t_packet_buf :: bytes

text \<open>The head of each loop round.\<close>

definition check_flush :: "rx_task \<Rightarrow> rx_task" where
  "check_flush t =
     (if t_flush t \<noteq> NO_FLUSH
      then t\<lparr>t_buffer := raop_flush (t_buffer t) (t_flush t), t_audio := t_audio t @ [AudioFlush],
             t_flush := NO_FLUSH\<rparr>
      else t)"

text \<open>The loop \<open>while let Some(samples) = buf.dequeue(..)\<close>; 33 rounds are enough, as a window
  holds at most 32 frames.\<close>

definition drain_frames :: "bool \<Rightarrow> rx_task \<Rightarrow> rx_task" where
  "drain_frames no_resend t =
     (case drain (\<lambda>b. dequeue b no_resend) 33 (t_buffer t) of
        (xs, b) \<Rightarrow> t\<lparr>t_buffer := b, t_audio := t_audio t @ map Process xs\<rparr>)"

type_synonym cbc = "bytes \<Rightarrow> bytes \<Rightarrow> bytes \<Rightarrow> bytes"

datatype udp_event = DataIn socket_addr bytes | CtrlIn socket_addr bytes | FlushRequest int

text \<open>A datagram longer than the receive buffer is cut off.\<close>

definition udp_handle ::
  "cbc \<Rightarrow> alac_decoder \<Rightarrow> socket_addr \<Rightarrow> bool \<Rightarrow> rx_task \<Rightarrow> udp_event \<Rightarrow> rx_task" where
  "udp_handle cbc unwound remote no_resend t ev =
     (case ev of
        FlushRequest n \<Rightarrow> t\<lparr>t_flush := n\<rparr>
      | DataIn addr datagram \<Rightarrow>
          let p = take RAOP_PACKET_LEN datagram in
          check_flush
            (if peer_ip_matches remote addr \<and> length p \<ge> 12
             then drain_frames no_resend (t\<lparr>t_buffer := snd (queue cbc unwound (t_buffer t) p True)\<rparr>)
             else t)
      | CtrlIn addr datagram \<Rightarrow>
          let p = take RAOP_PACKET_LEN datagram in
          check_flush
            (if peer_ip_matches remote addr \<and> length p \<ge> 12 \<and> p ! 1 AND NOT 0x80 = CTRL_PAYLOAD_TYPE
                \<and> length p > RETRANSMIT_HEADER_LEN
             then t\<lparr>t_buffer := snd (queue cbc unwound (t_buffer t) (drop RETRANSMIT_HEADER_LEN p) True)\<rparr>
             else t))"

text \<open>A flush request only sets the pending target; it takes effect at the head of the next
  round, that is after the event the task was waiting for.\<close>

definition udp_task ::
  "cbc \<Rightarrow> alac_decoder \<Rightarrow> socket_addr \<Rightarrow> bool \<Rightarrow> rx_task \<Rightarrow> udp_event list \<Rightarrow> rx_task" where
  "udp_task cbc unwound remote no_resend t evs =
     foldl (udp_handle cbc unwound remote no_resend) (check_flush t) evs"

text \<open>One complete interleaved packet.\<close>

definition deliver :: "cbc \<Rightarrow> alac_decoder \<Rightarrow> rx_task \<Rightarrow> bytes \<Rightarrow> rx_task" where
  "deliver cbc unwound t p =
     drain_frames True (t\<lparr>t_buffer := snd (queue cbc unwound (t_buffer t) p False)\<rparr>)"

lemma packet_buf_deliver [simp]: "t_packet_buf (deliver cbc unwound t p) = t_packet_buf t"
  by (simp add: deliver_def drain_frames_def split: prod.split)

definition frame_len :: "bytes \<Rightarrow> nat" where
  "frame_len pb = unat (pb ! 2) * 256 + unat (pb ! 3)"

function tcp_frames :: "cbc \<Rightarrow> alac_decoder \<Rightarrow> rx_task \<Rightarrow> bool \<times> rx_task" where
  "tcp_frames cbc unwound t =
     (let pb = t_packet_buf t in
      if length pb < 4 then (True, t)
      else if pb ! 0 \<noteq> 0x24 \<or> pb ! 1 \<noteq> 0 then tcp_frames cbc unwound (t\<lparr>t_packet_buf := drop 1 pb\<rparr>)
      else if frame_len pb > RAOP_PACKET_LEN then (False, t\<lparr>t_packet_buf := []\<rparr>)
      else if length pb < 4 + frame_len pb then (True, t)
      else tcp_frames cbc unwound
             ((deliver cbc unwound t (slice 4 (4 + frame_len pb) pb))\<lparr>t_packet_buf := drop (4 + frame_len pb) pb\<rparr>))"
  by pat_completeness auto
termination
  by (relation "measure (\<lambda>(cbc, unwound, t). length (t_packet_buf t))") auto

declare tcp_frames.simps [simp del]

text \<open>One read of the TCP task; the first component tells whether the loop goes on.\<close>

definition tcp_read :: "cbc \<Rightarrow> alac_decoder \<Rightarrow> rx_task \<Rightarrow> bytes \<Rightarrow> bool \<times> rx_task" where
  "tcp_read cbc unwound t d =
     (if d = [] then (False, t)
      else
        let t1 = t\<lparr>t_packet_buf := t_packet_buf t @ d\<rparr> in
        if length (t_packet_buf t1) > RAOP_PACKET_LEN * 4 then (False, t1)
        else tcp_frames cbc unwound t1)"

definition tcp_round :: "cbc \<Rightarrow> alac_decoder \<Rightarrow> bool \<times> rx_task \<Rightarrow> bytes \<Rightarrow> bool \<times> rx_task" where
  "tcp_round cbc unwound st d =
     (case st of (go, t) \<Rightarrow> if go then tcp_read cbc unwound (check_flush t) d else st)"

section \<open>The drain loop ends\<close>

lemma dequeue_waiting: "dequeue b nr = (None, b) \<or> dequeue b nr = dequeue b True"
  by (cases nr) (auto simp: dequeue_def Let_def)

lemma drain_ends:
  assumes "buf_inv b" "length (pending b) < n"
  shows "\<exists>b'. snd (drain (\<lambda>b. dequeue b nr) n b) = b' \<and> dequeue b' nr = (None, b') \<and> buf_inv b'"
  using assms
proof (induction n arbitrary: b)
  case (Suc n)
  consider "dequeue b nr = (None, b)" | "dequeue b nr = dequeue b True" using dequeue_waiting by blast
  then show ?case
  proof cases
    case 1
    with Suc.prems show ?thesis by simp
  next
    case 2
    show ?thesis
    proof (cases "map (fill b) (pending b)")
      case Nil
      with rtp.deq_Nil [OF Suc.prems(1)] 2 Suc.prems show ?thesis by simp
    next
      case (Cons x xs)
      from rtp.deq_Cons [OF Suc.prems(1) Cons] obtain b' where
        b': "dequeue b True = (Some x, b')" "map (fill b') (pending b') = xs" "buf_inv b'" by blast
      have "length (pending b') < n"
        using b'(2) Cons Suc.prems(2) by (metis length_Cons length_map Suc_less_eq)
      from Suc.IH [OF b'(3) this] b' 2 show ?thesis by (simp add: split_beta)
    qed
  qed
qed simp

lemma drain_frames_ends:
  "buf_inv (t_buffer t) \<Longrightarrow>
   dequeue (t_buffer (drain_frames nr t)) nr = (None, t_buffer (drain_frames nr t))
   \<and> buf_inv (t_buffer (drain_frames nr t))"
  using drain_ends [of "t_buffer t" 33 nr] pending_le_32 [of "t_buffer t"]
  by (auto simp: drain_frames_def split_beta)

end
