(* ===== verification/Dacp.thy ===== *)
theory Dacp
  imports Rtp_Session Utf8
begin

text \<open>
  The DACP remote control: src/dacp/mod.rs (the HTTP client that sends playback commands back
  to the sender) and its use in src/raop/mod.rs. The mDNS browse is a parameter, as is the
  printing of an IP address; a TCP exchange is given by what connecting, writing and reading
  return. A command yields its result and the bytes written.
\<close>

section \<open>Client\<close>

definition DACP_DEFAULT_PORT :: u16 where "DACP_DEFAULT_PORT = 3689"
definition PLAY_PAUSE_PATH :: string where "PLAY_PAUSE_PATH = ''/ctrl-int/1/playpause''"
definition NEXT_PATH :: string where "NEXT_PATH = ''/ctrl-int/1/nextitem''"
definition PREVIOUS_PATH :: string where "PREVIOUS_PATH = ''/ctrl-int/1/previtem''"
definition STOP_PATH :: string where "STOP_PATH = ''/ctrl-int/1/stop''"

definition volume_path :: "byte \<Rightarrow> string" where
  "volume_path v = ''/ctrl-int/1/setproperty?dmcp.volume='' @ show_nat (unat (min v 100))"

definition shuffle_path :: "bool \<Rightarrow> string" where
  "shuffle_path on = ''/ctrl-int/1/setproperty?dacp.shufflestate='' @ show_nat (if on then 1 else 0)"

definition repeat_path :: "byte \<Rightarrow> string" where
  "repeat_path st = ''/ctrl-int/1/setproperty?dacp.repeatstate='' @ show_nat (unat (min st 2))"

record dacp_client =
  dacp_id :: string
  active_remote :: string
  dacp_addr :: "socket_addr option"

definition dacp_new :: "string \<Rightarrow> string \<Rightarrow> dacp_client" where
  "dacp_new did remote = \<lparr>dacp_id = did, active_remote = remote, dacp_addr = None\<rparr>"

text \<open>\<open>browse\<close> is the result of looking the DACP-ID up by mDNS.\<close>

definition discover_from_remote :: "(string \<Rightarrow> u16 option) \<Rightarrow> ip_addr \<Rightarrow> dacp_client \<Rightarrow> dacp_client" where
  "discover_from_remote browse ip d =
     d\<lparr>dacp_addr := Some (ip, case browse (dacp_id d) of Some port \<Rightarrow> port | None \<Rightarrow> DACP_DEFAULT_PORT)\<rparr>"

definition show_socket :: "(ip_addr \<Rightarrow> string) \<Rightarrow> socket_addr \<Rightarrow> string" where
  "show_socket ip_show a =
     (case a of
        (V4 o4, port) \<Rightarrow> ip_show (V4 o4) @ '':'' @ show_nat (unat port)
      | (V6 o6, port) \<Rightarrow> ''['' @ ip_show (V6 o6) @ '']:'' @ show_nat (unat port))"

definition command_request :: "(ip_addr \<Rightarrow> string) \<Rightarrow> dacp_client \<Rightarrow> string \<Rightarrow> socket_addr \<Rightarrow> string" where
  "command_request ip_show d path addr =
     (let crlf = [CHR 0x0D, CHR 0x0A] in
      ''GET '' @ path @ '' HTTP/1.1'' @ crlf @ ''Active-Remote: '' @ active_remote d @ crlf
      @ ''Host: '' @ show_socket ip_show addr @ crlf @ ''Connection: close'' @ crlf @ crlf)"

record tcp_io =
  io_connect :: "socket_addr \<Rightarrow> string option"
  io_timeouts :: "string option"
  io_write :: "bytes \<Rightarrow> string option"
  io_read :: "string + bytes"

definition starts_with :: "string \<Rightarrow> string \<Rightarrow> bool" where
  "starts_with s p \<longleftrightarrow> take (length p) s = p"

text \<open>The response text is empty when the first read is not valid UTF-8.\<close>

definition check_status :: "bytes \<Rightarrow> network_error + unit" where
  "check_status d =
     (if d = [] then Inl (Mdns ''DACP command returned empty response'')
      else
        let status = (case from_utf8 d of Some s \<Rightarrow> s | None \<Rightarrow> []) in
        if starts_with status ''HTTP/1.1 2'' \<or> starts_with status ''HTTP/1.0 2'' then Inr ()
        else Inl (Mdns ''DACP command failed''))"

definition NOT_DISCOVERED :: string where
  "NOT_DISCOVERED =
     ''DACP not discovered yet '' @ str_of_bytes [0xe2, 0x80, 0x94] @ '' call discover_from_remote() first''"

definition command_blocking ::
  "(ip_addr \<Rightarrow> string) \<Rightarrow> tcp_io \<Rightarrow> dacp_client \<Rightarrow> string \<Rightarrow> (network_error + unit) \<times> bytes" where
  "command_blocking ip_show io d path =
     (case dacp_addr d of
        None \<Rightarrow> (Inl (Mdns NOT_DISCOVERED), [])
      | Some addr \<Rightarrow>
          (case io_connect io addr of
             Some e \<Rightarrow> (Inl (Io e), [])
           | None \<Rightarrow>
               (case io_timeouts io of
                  Some e \<Rightarrow> (Inl (Io e), [])
                | None \<Rightarrow>
                    let req = as_bytes (command_request ip_show d path addr) in
                    (case io_write io req of
                       Some e \<Rightarrow> (Inl (Io e), req)
                     | None \<Rightarrow>
                         (case io_read io of
                            Inl e \<Rightarrow> (Inl (Io e), req)
                          | Inr buf \<Rightarrow> (check_status (take 1024 buf), req))))))"

section \<open>Remote control\<close>

datatype remote_command =
    Play | Pause | NextTrack | PreviousTrack | SetVolume byte | ToggleShuffle | ToggleRepeat | Stop

definition ip_addr_from_remote :: "bytes \<Rightarrow> ip_addr option" where
  "ip_addr_from_remote a =
     (if length a = 4 then Some (V4 a) else if length a = 16 then Some (V6 a) else None)"

definition remote_control_new ::
  "(string \<Rightarrow> u16 option) \<Rightarrow> string \<Rightarrow> string \<Rightarrow> bytes \<Rightarrow> dacp_client" where
  "remote_control_new browse did remote addr =
     (let client = dacp_new did remote in
      case ip_addr_from_remote addr of
        Some ip \<Rightarrow> discover_from_remote browse ip client
      | None \<Rightarrow> client)"

fun command_path :: "remote_command \<Rightarrow> string" where
  "command_path Play = PLAY_PAUSE_PATH"
| "command_path Pause = PLAY_PAUSE_PATH"
| "command_path NextTrack = NEXT_PATH"
| "command_path PreviousTrack = PREVIOUS_PATH"
| "command_path (SetVolume v) = volume_path v"
| "command_path ToggleShuffle = shuffle_path True"
| "command_path ToggleRepeat = repeat_path 1"
| "command_path Stop = STOP_PATH"

definition send_command ::
  "(ip_addr \<Rightarrow> string) \<Rightarrow> tcp_io \<Rightarrow> dacp_client \<Rightarrow> remote_command \<Rightarrow> (shairplay_error + unit) \<times> bytes" where
  "send_command ip_show io d cmd =
     (case command_blocking ip_show io d (command_path cmd) of
        (Inl e, sent) \<Rightarrow> (Inl (Network e), sent)
      | (Inr _, sent) \<Rightarrow> (Inr (), sent))"

definition available_commands :: "remote_command list" where
  "available_commands =
     [Play, Pause, NextTrack, PreviousTrack, SetVolume 0, ToggleShuffle, ToggleRepeat, Stop]"

section \<open>Properties\<close>

text \<open>
  The toggle commands do not toggle. Whatever was sent before, two shuffle commands in a row
  are the same request for the state "on", and likewise for repeat; no remote command of a
  client ever asks for shuffle or repeat to be switched off.
\<close>

theorem toggles_only_switch_on:
  "snd (send_command ip_show io d ToggleShuffle) = snd (command_blocking ip_show io d (shuffle_path True))
   \<and> snd (send_command ip_show io d ToggleRepeat) = snd (command_blocking ip_show io d (repeat_path 1))
   \<and> (\<nexists>cmd. command_path cmd = shuffle_path False \<or> command_path cmd = repeat_path 0)"
proof -
  have "command_path cmd \<noteq> shuffle_path False \<and> command_path cmd \<noteq> repeat_path 0" for cmd
    by (cases cmd) (simp_all add: PLAY_PAUSE_PATH_def NEXT_PATH_def PREVIOUS_PATH_def STOP_PATH_def
      volume_path_def shuffle_path_def repeat_path_def)
  then show ?thesis
    by (auto simp: send_command_def split: prod.split sum.split)
qed

end
