(* ===== verification/Pairing_Ap1.thy ===== *)
theory Pairing_Ap1
  imports Ctr_Cipher Errors Rust_Str
begin

text \<open>
  AirPlay 1 pairing, src/crypto/pairing.rs: an Ed25519 identity and the pair-verify handshake.
  Ed25519 (\<open>ed25519-dalek\<close>), X25519 (\<open>x25519-dalek\<close>), SHA-512 and the AES block function are
  the parameters of \<open>pair_crypto\<close>; random bytes are arguments.
\<close>

section \<open>Model\<close>

record pair_crypto =
  ed_public :: "bytes \<Rightarrow> bytes"
  ed_sign :: "bytes \<Rightarrow> bytes \<Rightarrow> bytes"
  ed_key_ok :: "bytes \<Rightarrow> bool"
  ed_verify :: "bytes \<Rightarrow> bytes \<Rightarrow> bytes \<Rightarrow> bool"
  x_public :: "bytes \<Rightarrow> bytes"
  x_shared :: "bytes \<Rightarrow> bytes \<Rightarrow> bytes"
  sha512 :: "bytes \<Rightarrow> bytes"
  aes128 :: "bytes \<Rightarrow> bytes \<Rightarrow> bytes"

record pairing =
  signing_key :: bytes

definition pairing_from_seed :: "bytes \<Rightarrow> pairing" where
  "pairing_from_seed seed = \<lparr>signing_key = seed\<rparr>"

definition pairing_generate :: "bytes \<Rightarrow> crypto_error + pairing" where
  "pairing_generate rnd = Inr \<lparr>signing_key = rnd\<rparr>"

definition public_key :: "pair_crypto \<Rightarrow> pairing \<Rightarrow> bytes" where
  "public_key pc p = ed_public pc (signing_key p)"

datatype status = Initial | Handshake | Finished

record pairing_session =
  status :: status
  ed_signing_key :: bytes
  ed_theirs :: bytes
  ecdh_ours :: bytes
  ecdh_theirs :: bytes
  ecdh_secret :: bytes

definition create_session :: "pairing \<Rightarrow> pairing_session" where
  "create_session p = \<lparr>status = Initial, ed_signing_key = signing_key p, ed_theirs = replicate 32 0,
     ecdh_ours = replicate 32 0, ecdh_theirs = replicate 32 0, ecdh_secret = replicate 32 0\<rparr>"

definition SALT_KEY :: bytes where "SALT_KEY = as_bytes ''Pair-Verify-AES-Key''"
definition SALT_IV :: bytes where "SALT_IV = as_bytes ''Pair-Verify-AES-IV''"

definition derive_key_internal :: "pair_crypto \<Rightarrow> pairing_session \<Rightarrow> bytes \<Rightarrow> nat \<Rightarrow> crypto_error + bytes" where
  "derive_key_internal pc s salt key_len =
     (if key_len > 64 then Inl (PairingHandshake ''key_len > 64'')
      else Inr (take key_len (sha512 pc (salt @ ecdh_secret s))))"

definition derive_aes :: "pair_crypto \<Rightarrow> pairing_session \<Rightarrow> crypto_error + aes_ctr" where
  "derive_aes pc s =
     (case derive_key_internal pc s SALT_KEY 16 of
        Inl e \<Rightarrow> Inl e
      | Inr k \<Rightarrow>
          (case derive_key_internal pc s SALT_IV 16 of
             Inl e \<Rightarrow> Inl e
           | Inr i \<Rightarrow> Inr (aes_new (aes128 pc) k i)))"

text \<open>\<open>rnd\<close> is the random X25519 secret drawn by the handshake.\<close>

definition handshake ::
  "pair_crypto \<Rightarrow> bytes \<Rightarrow> pairing_session \<Rightarrow> bytes \<Rightarrow> bytes \<Rightarrow> (crypto_error + unit) \<times> pairing_session" where
  "handshake pc rnd s ecdh_key ed_key =
     (if status s \<noteq> Initial then (Inl (PairingHandshake ''handshake already started''), s)
      else (Inr (), s\<lparr>ecdh_theirs := ecdh_key, ed_theirs := ed_key, ecdh_ours := x_public pc rnd,
                      ecdh_secret := x_shared pc rnd ecdh_key, status := Handshake\<rparr>))"

definition get_public_key :: "pairing_session \<Rightarrow> crypto_error + bytes" where
  "get_public_key s =
     (if status s \<noteq> Handshake then Inl (PairingHandshake ''not in handshake state'') else Inr (ecdh_ours s))"

definition get_signature :: "pair_crypto \<Rightarrow> pairing_session \<Rightarrow> crypto_error + bytes" where
  "get_signature pc s =
     (if status s \<noteq> Handshake then Inl (PairingHandshake ''not in handshake state'')
      else
        let sig = ed_sign pc (ed_signing_key s) (ecdh_ours s @ ecdh_theirs s) in
        case derive_aes pc s of
          Inl e \<Rightarrow> Inl e
        | Inr aes \<Rightarrow> Inr (fst (ctr_encrypt aes sig)))"

definition finish_pairing ::
  "pair_crypto \<Rightarrow> pairing_session \<Rightarrow> bytes \<Rightarrow> (crypto_error + unit) \<times> pairing_session" where
  "finish_pairing pc s signature =
     (if status s \<noteq> Handshake then (Inl (PairingHandshake ''not in handshake state''), s)
      else
        case derive_aes pc s of
          Inl e \<Rightarrow> (Inl e, s)
        | Inr aes \<Rightarrow>
            let aes1 = snd (ctr_encrypt aes (replicate 64 0));
                sig = fst (ctr_encrypt aes1 signature)
            in if \<not> ed_key_ok pc (ed_theirs s) then (Inl PairingVerify, s)
               else if \<not> ed_verify pc (ed_theirs s) (ecdh_theirs s @ ecdh_ours s) sig then (Inl PairingVerify, s)
               else (Inr (), s\<lparr>status := Finished\<rparr>))"

definition derive_key :: "pair_crypto \<Rightarrow> pairing_session \<Rightarrow> bytes \<Rightarrow> nat \<Rightarrow> crypto_error + bytes" where
  "derive_key pc s salt key_len =
     (if status s = Initial then Inl (PairingHandshake ''not in handshake state'')
      else derive_key_internal pc s salt key_len)"

section \<open>Sessions as a state machine\<close>

inductive pair_step :: "pair_crypto \<Rightarrow> pairing_session \<Rightarrow> pairing_session \<Rightarrow> bool" for pc where
  step_handshake: "handshake pc rnd s ecdh ed = (r, s') \<Longrightarrow> pair_step pc s s'"
| step_finish: "finish_pairing pc s sig = (r, s') \<Longrightarrow> pair_step pc s s'"

inductive_cases pair_stepE: "pair_step pc s s'"

text \<open>What a finished session has verified: a signature by the peer's key over both halves of
  the key exchange.\<close>

definition pair_inv :: "pair_crypto \<Rightarrow> pairing \<Rightarrow> pairing_session \<Rightarrow> bool" where
  [inv_defs]: "pair_inv pc p s \<longleftrightarrow>
     ed_signing_key s = signing_key p
     \<and> (status s \<noteq> Initial \<longrightarrow> (\<exists>rnd. ecdh_ours s = x_public pc rnd \<and> ecdh_secret s = x_shared pc rnd (ecdh_theirs s)))
     \<and> (status s = Finished \<longrightarrow>
          ed_key_ok pc (ed_theirs s)
          \<and> (\<exists>sig. ed_verify pc (ed_theirs s) (ecdh_theirs s @ ecdh_ours s) sig))"

lemma pair_inv_create: "pair_inv pc p (create_session p)"
  by (simp add: pair_inv_def create_session_def)

lemma pair_inv_step: "pair_step pc s s' \<Longrightarrow> pair_inv pc p s \<Longrightarrow> pair_inv pc p s'"
  by (erule pair_stepE)
     (auto simp: pair_inv_def handshake_def finish_pairing_def Let_def split: if_splits sum.splits)

text \<open>Progress is one-way: a started exchange keeps its keys, a finished one does not change.\<close>

lemma pair_step_monotone:
  "pair_step pc s s' \<Longrightarrow> status s \<noteq> Initial \<Longrightarrow>
   s' = s \<or> (status s = Handshake \<and> s' = s\<lparr>status := Finished\<rparr>)"
  by (erule pair_stepE)
     (auto simp: handshake_def finish_pairing_def Let_def split: if_splits sum.splits)

text \<open>
  C15: In every state a session can reach by any sequence of handshake and finish messages, it
  is finished only if the peer's key signed this very key exchange, the shared secret comes
  from our own secret and the peer's public value, and the identity is the server's.
\<close>

theorem pairing_finished_verified:
  assumes "(pair_step pc)\<^sup>*\<^sup>* (create_session p) s"
  shows "ed_signing_key s = signing_key p
    \<and> (status s = Finished \<longrightarrow>
         ed_key_ok pc (ed_theirs s)
         \<and> (\<exists>sig. ed_verify pc (ed_theirs s) (ecdh_theirs s @ ecdh_ours s) sig)
         \<and> (\<exists>rnd. ecdh_ours s = x_public pc rnd \<and> ecdh_secret s = x_shared pc rnd (ecdh_theirs s)))"
proof -
  have "pair_inv pc p s"
    using assms by (induction rule: rtranclp_induct) (auto intro: pair_inv_create pair_inv_step)
  then show ?thesis by (auto simp: pair_inv_def)
qed

text \<open>The documented behaviour of the primitives: Diffie-Hellman agrees on both sides, a
  signature verifies under the key of its signer, outputs have their fixed sizes.\<close>

definition pair_crypto_ok :: "pair_crypto \<Rightarrow> bool" where
  "pair_crypto_ok pc \<longleftrightarrow>
     (\<forall>a b. x_shared pc a (x_public pc b) = x_shared pc b (x_public pc a))
     \<and> (\<forall>k m. ed_verify pc (ed_public pc k) m (ed_sign pc k m)) \<and> (\<forall>k. ed_key_ok pc (ed_public pc k))
     \<and> (\<forall>k m. length (ed_sign pc k m) = 64) \<and> (\<forall>b. length (sha512 pc b) = 64)
     \<and> (\<forall>k b. length b = 16 \<longrightarrow> length (aes128 pc k b) = 16)"

text \<open>The counter-mode context a peer derives from the shared secret.\<close>

definition peer_aes :: "pair_crypto \<Rightarrow> bytes \<Rightarrow> aes_ctr" where
  "peer_aes pc shared =
     aes_new (aes128 pc) (take 16 (sha512 pc (SALT_KEY @ shared))) (take 16 (sha512 pc (SALT_IV @ shared)))"

lemma derive_aes_peer: "derive_aes pc s = Inr (peer_aes pc (ecdh_secret s))"
  by (simp add: derive_aes_def derive_key_internal_def peer_aes_def)

lemma peer_aes_inv: "pair_crypto_ok pc \<Longrightarrow> ctr_inv (peer_aes pc shared)"
  by (simp add: ctr_inv_def peer_aes_def aes_new_def pair_crypto_ok_def BLOCK_SIZE_def)

text \<open>
  A peer that follows the protocol authenticates the server and is accepted: from the two
  values of the first answer it recovers a valid signature of the server's identity over both
  public keys, and its own signature, encrypted with the key stream continued from there, makes the
  session finish.
\<close>

theorem pair_verify_completes:
  assumes ok: "pair_crypto_ok pc"
    and hs: "handshake pc a (create_session p) (x_public pc b) (ed_public pc k) = (r, s)"
  shows "\<exists>w. get_public_key s = Inr (x_public pc a) \<and> get_signature pc s = Inr w
    \<and> (let aes = peer_aes pc (x_shared pc b (x_public pc a)) in
         ed_verify pc (public_key pc p) (x_public pc a @ x_public pc b) (fst (ctr_encrypt aes w))
         \<and> finish_pairing pc s
              (fst (ctr_encrypt (snd (ctr_encrypt aes w)) (ed_sign pc k (x_public pc b @ x_public pc a))))
            = (Inr (), s\<lparr>status := Finished\<rparr>))"
proof -
  let ?aes = "peer_aes pc (x_shared pc b (x_public pc a))"
  let ?ours = "ed_sign pc (signing_key p) (x_public pc a @ x_public pc b)"
  let ?theirs = "ed_sign pc k (x_public pc b @ x_public pc a)"
  have s: "status s = Handshake" "ecdh_ours s = x_public pc a" "ecdh_theirs s = x_public pc b"
    "ed_theirs s = ed_public pc k" "ed_signing_key s = signing_key p"
    "ecdh_secret s = x_shared pc b (x_public pc a)"
    using hs ok by (auto simp: handshake_def create_session_def pair_crypto_ok_def)
  note aes = derive_aes_peer [of pc s, unfolded s(6)] and inv = peer_aes_inv [OF ok]
  let ?w = "fst (ctr_encrypt ?aes ?ours)"
  have len: "length ?w = 64" using ok aesctr.crypt_length [OF inv] by (simp add: pair_crypto_ok_def)
  have "ctr_ks (snd (ctr_encrypt ?aes (replicate 64 0))) = ctr_ks (snd (ctr_encrypt ?aes ?w))"
    using len by (simp add: aesctr.crypt_ks [OF inv])
  then have "fst (ctr_encrypt (snd (ctr_encrypt ?aes (replicate 64 0)))
      (fst (ctr_encrypt (snd (ctr_encrypt ?aes ?w)) ?theirs))) = ?theirs"
    by (intro aesctr.crypt_involution aesctr.crypt_invar [OF inv])
  moreover have "fst (ctr_encrypt ?aes ?w) = ?ours" by (rule aesctr.crypt_involution [OF inv inv refl])
  ultimately show ?thesis
    using ok s aes
    by (intro exI [of _ ?w])
       (simp add: get_public_key_def get_signature_def finish_pairing_def public_key_def pair_crypto_ok_def Let_def)
qed

definition sample_crypto :: pair_crypto where
  "sample_crypto = \<lparr>ed_public = \<lambda>k. k, ed_sign = \<lambda>k m. take 64 (k @ m @ replicate 64 0), ed_key_ok = \<lambda>k. True,
     ed_verify = \<lambda>k m s. s = take 64 (k @ m @ replicate 64 0), x_public = \<lambda>a. a, x_shared = \<lambda>a b. map2 (XOR) a b,
     sha512 = \<lambda>b. take 64 (b @ replicate 64 0), aes128 = \<lambda>k b. b\<rparr>"

lemma sample_crypto_ok: "pair_crypto_ok sample_crypto"
proof -
  have "map2 (XOR) a b = map2 (XOR) b (a :: bytes)" for a b
    by (rule nth_equalityI) (simp_all add: xor.commute min.commute)
  then show ?thesis by (auto simp: pair_crypto_ok_def sample_crypto_def min_def)
qed

lemma pair_verify_completes_witness:
  "\<exists>w. get_signature sample_crypto (snd (handshake sample_crypto [1] (create_session \<lparr>signing_key = [9]\<rparr>) [2] [3])) = Inr w"
proof -
  have "handshake sample_crypto [1] (create_session \<lparr>signing_key = [9]\<rparr>) (x_public sample_crypto [2])
      (ed_public sample_crypto [3])
    = (Inr (), snd (handshake sample_crypto [1] (create_session \<lparr>signing_key = [9]\<rparr>) [2] [3]))"
    by (simp add: handshake_def create_session_def sample_crypto_def)
  from pair_verify_completes [OF sample_crypto_ok this] show ?thesis by blast
qed

lemma pairing_finished_verified_witness:
  "ed_signing_key (snd (handshake sample_crypto [1] (create_session \<lparr>signing_key = [9]\<rparr>) [2] [3])) = [9]"
proof -
  obtain r s where h: "handshake sample_crypto [1] (create_session \<lparr>signing_key = [9]\<rparr>) [2] [3] = (r, s)" by fastforce
  then have "(pair_step sample_crypto)\<^sup>*\<^sup>* (create_session \<lparr>signing_key = [9]\<rparr>) s"
    by (intro r_into_rtranclp step_handshake)
  from pairing_finished_verified [OF this] h show ?thesis by simp
qed

end
