(* ===== verification/Fairplay_Tables.thy ===== *)
theory Fairplay_Tables
  imports Rust_Ops
begin

text \<open>
  src/crypto/fairplay_tables.rs, first part: the masks of the key decryption, its substitution
  tables S1 (key schedule), S3 and S4 (block), the mixing tables S5 to S8 and the round
  constants. A table the code declares as one array is transcribed in rows of 256 entries,
  the unit it is indexed by, and is their concatenation. \<open>SAP_IV\<close> and
  \<open>SAP_KEY_MATERIAL\<close> are not used by any code.
\<close>

definition Z_KEY :: "bytes" where
  "Z_KEY = [
    0x1a, 0x64, 0xf9, 0x60, 0x6c, 0xe3, 0x01, 0xa9, 0x54, 0x48, 0x1b, 0xd4, 0xab, 0x81, 0xfc, 0xc6]"

definition X_KEY :: "bytes" where
  "X_KEY = [
    0x8e, 0xba, 0x07, 0xcc, 0xb6, 0x5a, 0xf6, 0x20, 0x33, 0xcf, 0xf8, 0x42, 0xe5, 0xd5, 0x5a, 0x7d]"

definition T_KEY :: "bytes" where
  "T_KEY = [
    0xd0, 0x04, 0xa9, 0x61, 0x6b, 0xa4, 0x00, 0x87, 0x68, 0x8b, 0x5f, 0x15, 0x15, 0x35, 0xd9, 0xa9]"

definition TABLE_S1_0 :: "bytes" where
  "TABLE_S1_0 = concat [
    [0x66, 0xac, 0x60, 0xcb, 0x1d, 0x74, 0x99, 0xfc, 0x54, 0x21, 0x15, 0xef, 0x46, 0xcc, 0x63, 0x55],
    [0x05, 0x03, 0x17, 0x80, 0x25, 0x84, 0xf1, 0x76, 0x6f, 0xb3, 0xfe, 0x14, 0x1c, 0x9e, 0x4f, 0xa2],
    [0x1f, 0x73, 0xd0, 0xe7, 0x0a, 0xb6, 0x4d, 0x30, 0x0c, 0x02, 0x7c, 0xca, 0x9f, 0xa0, 0xe5, 0xb4],
    [0x5f, 0xb0, 0xbc, 0x9d, 0xf3, 0xf9, 0x95, 0x6e, 0xdd, 0xd2, 0x77, 0xba, 0x1e, 0xec, 0x0f, 0xc0],
    [0xb1, 0x98, 0xe4, 0x39, 0x7f, 0x4e, 0x28, 0x64, 0xbd, 0x24, 0x20, 0x8a, 0x2c, 0x33, 0x38, 0x34],
    [0xd3, 0xeb, 0x3d, 0x8f, 0xe2, 0x9b, 0xed, 0xe0, 0xb5, 0x16, 0x08, 0xbf, 0x85, 0xcd, 0x86, 0x32],
    [0x3e, 0x97, 0x7e, 0x5a, 0x7b, 0xea, 0xaa, 0xbe, 0x79, 0x70, 0xb8, 0x83, 0xf8, 0xb2, 0xdc, 0x69],
    [0xa4, 0x68, 0xfd, 0x3a, 0x48, 0x5d, 0xcf, 0xad, 0x57, 0xd9, 0x4a, 0xd5, 0x4b, 0x88, 0x6c, 0x8c],
    [0x04, 0xf2, 0xc4, 0xc5, 0xa7, 0x92, 0x3b, 0x50, 0x53, 0xe9, 0xfb, 0x89, 0xf5, 0x37, 0x6a, 0x61],
    [0xc9, 0x8e, 0x52, 0xd1, 0x2e, 0x7a, 0x18, 0xf6, 0x07, 0x4c, 0xb9, 0x41, 0x3f, 0x71, 0xfa, 0x29],
    [0x81, 0x1a, 0x67, 0x90, 0xd4, 0x51, 0xc8, 0xa6, 0x26, 0x96, 0xc1, 0xdb, 0xae, 0xb7, 0xd7, 0x5e],
    [0xff, 0x1b, 0xf4, 0x59, 0x0e, 0xd6, 0x62, 0x40, 0xf0, 0xa9, 0x0d, 0x27, 0xc3, 0xee, 0xc6, 0x42],
    [0x2b, 0x12, 0x56, 0x3c, 0x8b, 0xe8, 0x31, 0x72, 0x10, 0xd8, 0x0b, 0x58, 0x82, 0x43, 0x5c, 0xa3],
    [0x91, 0x11, 0x44, 0x94, 0x09, 0xa1, 0xf7, 0x5b, 0x6d, 0x65, 0xdf, 0xc7, 0x2f, 0xce, 0x00, 0x93],
    [0xde, 0xda, 0xab, 0x36, 0x8d, 0x9c, 0xe3, 0x2d, 0x06, 0x49, 0x6b, 0x13, 0xaf, 0x7d, 0x75, 0x45],
    [0x2a, 0x35, 0xe1, 0x47, 0x23, 0x19, 0xbb, 0xa5, 0xc2, 0x9a, 0x01, 0xe6, 0xa8, 0x87, 0x78, 0x22]]"

definition TABLE_S1_1 :: "bytes" where
  "TABLE_S1_1 = concat [
    [0xc7, 0xa9, 0x30, 0xb5, 0xf1, 0x06, 0x7b, 0xe0, 0x3f, 0xb6, 0xd6, 0xcf, 0xba, 0xa0, 0xf7, 0x47],
    [0x21, 0x03, 0xb7, 0x6f, 0x38, 0x95, 0x7a, 0x9e, 0x23, 0xa7, 0x8f, 0xa2, 0x46, 0x6c, 0xc8, 0x91],
    [0x31, 0x5a, 0xf3, 0xc6, 0xa4, 0xa5, 0x93, 0x65, 0x00, 0x0b, 0x56, 0x94, 0xe8, 0x9a, 0x88, 0x32],
    [0x97, 0x79, 0x1b, 0x4f, 0xb0, 0x33, 0xef, 0xa8, 0x48, 0x9b, 0x10, 0x5e, 0x20, 0xd8, 0x2d, 0x66],
    [0x4c, 0x82, 0xfd, 0xec, 0x57, 0xca, 0xbb, 0xbf, 0x24, 0x14, 0x1c, 0xce, 0x72, 0x0a, 0x28, 0x67],
    [0xc4, 0xda, 0x78, 0x42, 0x26, 0x80, 0x54, 0x4b, 0x43, 0x19, 0xe6, 0xc9, 0x87, 0x60, 0xfb, 0xa3],
    [0x13, 0x50, 0x89, 0xea, 0x5d, 0x37, 0x73, 0x4a, 0xc2, 0x3d, 0x22, 0xe3, 0x39, 0x6a, 0xb9, 0x71],
    [0x3a, 0x96, 0xc0, 0x68, 0xf5, 0x25, 0x70, 0xf0, 0xf2, 0x61, 0xaf, 0x4e, 0xa6, 0xbe, 0x04, 0x0c],
    [0x51, 0x2c, 0xd7, 0x6b, 0x86, 0xb1, 0x12, 0x7e, 0xd5, 0x84, 0xc1, 0xfe, 0xab, 0x1d, 0x63, 0x6d],
    [0x0f, 0xf4, 0x98, 0x92, 0xfc, 0xdd, 0xd1, 0x3e, 0xa1, 0x6e, 0x8d, 0x7f, 0xdb, 0x16, 0xb3, 0xbc],
    [0x9d, 0xf8, 0x15, 0x7c, 0xaa, 0x01, 0xcd, 0x07, 0x34, 0x02, 0xad, 0x27, 0x8e, 0x74, 0x40, 0x35],
    [0x17, 0x90, 0xe5, 0x44, 0xe1, 0x76, 0x62, 0x64, 0xc3, 0x2e, 0xff, 0x7d, 0x75, 0x9f, 0xd2, 0x0e],
    [0xdf, 0xcb, 0x8b, 0x1a, 0x3b, 0x1f, 0xf6, 0x5f, 0x08, 0xbd, 0xd3, 0x99, 0xe2, 0xd9, 0x11, 0x18],
    [0xcc, 0xae, 0x3c, 0x29, 0x5b, 0x9c, 0x09, 0xc5, 0xed, 0x0d, 0xe9, 0x2a, 0xb4, 0x2b, 0xb8, 0x36],
    [0x05, 0x49, 0x2f, 0x1e, 0x58, 0x85, 0xf9, 0xd0, 0x55, 0x59, 0x52, 0x4d, 0xeb, 0x41, 0x45, 0xdc],
    [0x81, 0x8c, 0xfa, 0x83, 0xee, 0x5c, 0x8a, 0xb2, 0x53, 0xe7, 0xac, 0xe4, 0xde, 0x69, 0x77, 0xd4]]"

definition TABLE_S1_2 :: "bytes" where
  "TABLE_S1_2 = concat [
    [0x17, 0xa7, 0xf0, 0xea, 0x9f, 0x86, 0xe6, 0x6f, 0xb0, 0x2b, 0x56, 0xa1, 0xe5, 0x60, 0xf9, 0x97],
    [0xc1, 0x98, 0x3c, 0x16, 0xf2, 0xdf, 0xf7, 0x73, 0xce, 0x2a, 0xc5, 0x68, 0x3f, 0xe7, 0x53, 0x71],
    [0x62, 0xd8, 0xca, 0xb8, 0xc4, 0x06, 0x5b, 0x50, 0x35, 0xc3, 0xf5, 0xf4, 0x96, 0xa3, 0x0a, 0x61],
    [0x36, 0x7d, 0x88, 0x70, 0x0e, 0x40, 0xcb, 0x18, 0xf8, 0xbf, 0x63, 0xe0, 0x1f, 0x4b, 0x29, 0xc7],
    [0x37, 0x78, 0x5a, 0x22, 0x9e, 0x4c, 0x44, 0x74, 0xef, 0xeb, 0x9a, 0x07, 0xbc, 0xad, 0xd2, 0x1c],
    [0xf3, 0xab, 0x30, 0xd7, 0x99, 0xb6, 0x49, 0x13, 0x1b, 0x04, 0xd0, 0x76, 0x12, 0x28, 0x8a, 0x94],
    [0x21, 0xe9, 0x3a, 0x69, 0xb3, 0x72, 0x6d, 0x92, 0x1a, 0x23, 0x67, 0x0d, 0xba, 0xd9, 0x00, 0x43],
    [0x5c, 0x54, 0xee, 0xf6, 0x1e, 0xff, 0x31, 0xa2, 0xa0, 0x20, 0x75, 0xa5, 0x38, 0x90, 0xc6, 0x6a],
    [0x3d, 0x33, 0x4d, 0xfb, 0xae, 0x91, 0xd4, 0x85, 0x2e, 0x42, 0xe1, 0xd6, 0x3b, 0x87, 0x7c, 0x01],
    [0xec, 0xe3, 0x46, 0x8b, 0x2f, 0xdd, 0x3e, 0xf1, 0x6e, 0x81, 0x8d, 0xac, 0xc2, 0xc8, 0xa4, 0x5f],
    [0x65, 0x10, 0x24, 0xde, 0x77, 0xfd, 0x52, 0x64, 0x57, 0x9d, 0x51, 0xfa, 0x2c, 0x45, 0xa8, 0xcd],
    [0x5e, 0x82, 0xcf, 0x25, 0x2d, 0xaf, 0x7e, 0x93, 0x34, 0x32, 0x26, 0xb1, 0x14, 0xb5, 0xc0, 0x47],
    [0x48, 0x41, 0x89, 0xb2, 0xc9, 0x83, 0xed, 0x58, 0x0f, 0xa6, 0x4f, 0x6b, 0x4a, 0xdb, 0x9b, 0x8f],
    [0x66, 0xe8, 0x7b, 0xe4, 0x7a, 0xb9, 0x5d, 0xbd, 0x95, 0x59, 0xcc, 0x0b, 0x79, 0x6c, 0xfe, 0x9c],
    [0x8c, 0x15, 0x11, 0xbb, 0x1d, 0x02, 0x09, 0x05, 0x80, 0xa9, 0xd5, 0x08, 0x4e, 0x7f, 0x19, 0x55],
    [0x84, 0x27, 0x39, 0x8e, 0xb4, 0xfc, 0xb7, 0x03, 0xe2, 0xda, 0x0c, 0xbe, 0xd3, 0xaa, 0xdc, 0xd1]]"

definition TABLE_S1_3 :: "bytes" where
  "TABLE_S1_3 = concat [
    [0x1c, 0xf8, 0x5e, 0xf3, 0xd1, 0x09, 0x47, 0x65, 0xae, 0xf7, 0x20, 0x0a, 0xe9, 0xc4, 0x45, 0xc1],
    [0x1d, 0x86, 0x97, 0x60, 0x56, 0xd3, 0xa1, 0xcf, 0x91, 0x21, 0xdc, 0xc6, 0xb0, 0xa9, 0x59, 0xd0],
    [0x89, 0xce, 0xd6, 0x55, 0x7d, 0x29, 0xf1, 0x1f, 0x4b, 0x00, 0x46, 0xbe, 0x76, 0x38, 0x2e, 0xfd],
    [0xf5, 0x03, 0xc2, 0xc3, 0x95, 0xa0, 0x57, 0x3c, 0xee, 0x54, 0x8e, 0xfc, 0x30, 0xf2, 0x66, 0x6d],
    [0x32, 0x2d, 0x40, 0xe6, 0x1e, 0x24, 0xa2, 0xbc, 0x9d, 0xc5, 0xe1, 0x06, 0x80, 0xaf, 0x25, 0x7f],
    [0xdd, 0xd9, 0x31, 0xac, 0x9b, 0x8a, 0x2a, 0xe4, 0x4e, 0x01, 0x14, 0x6c, 0x7a, 0xa8, 0x42, 0x72],
    [0x16, 0x96, 0x93, 0x43, 0xa6, 0x0e, 0x5c, 0xf0, 0x62, 0x6a, 0xc0, 0xd8, 0xc9, 0x28, 0x94, 0x07],
    [0x15, 0x2c, 0x3b, 0x51, 0xef, 0x8c, 0x75, 0x36, 0xdf, 0x17, 0x5f, 0x0c, 0x44, 0x85, 0xa4, 0x5b],
    [0xb7, 0x58, 0x9a, 0xbb, 0xfe, 0xf4, 0x69, 0x92, 0xd5, 0xda, 0xbd, 0x70, 0xeb, 0x19, 0xc7, 0x08],
    [0x74, 0x18, 0xe0, 0xd7, 0xb1, 0x0d, 0x37, 0x4a, 0x05, 0x0b, 0xcd, 0x7b, 0xa7, 0x98, 0xb3, 0xe2],
    [0x04, 0x02, 0x87, 0x10, 0x83, 0x22, 0x71, 0xf6, 0xb4, 0x68, 0x13, 0xf9, 0x99, 0x1b, 0xa5, 0x48],
    [0xab, 0x61, 0xcc, 0x67, 0x73, 0x1a, 0xfb, 0x9e, 0x26, 0x53, 0xe8, 0x12, 0xcb, 0x41, 0x52, 0x64],
    [0x6f, 0xa3, 0x3d, 0xfa, 0x5a, 0x4f, 0xaa, 0xc8, 0xde, 0x50, 0xd2, 0x4d, 0x8f, 0x4c, 0x8b, 0x6b],
    [0x90, 0x39, 0x5d, 0x79, 0xed, 0x7c, 0xb9, 0xad, 0x77, 0x7e, 0x84, 0xbf, 0xb5, 0xff, 0x6e, 0xdb],
    [0xec, 0xd4, 0x88, 0x3a, 0x9c, 0xe5, 0xe7, 0xea, 0x11, 0xb2, 0xb8, 0x0f, 0xca, 0x82, 0x35, 0x81],
    [0x9f, 0xb6, 0x3e, 0xe3, 0x49, 0x78, 0x63, 0x2f, 0x23, 0xba, 0x8d, 0x27, 0x34, 0x2b, 0x33, 0x3f]]"

definition TABLE_S1_4 :: "bytes" where
  "TABLE_S1_4 = concat [
    [0x3c, 0x23, 0xf7, 0x51, 0x35, 0x0f, 0xad, 0xb3, 0xd4, 0x8c, 0x17, 0xf0, 0xbe, 0x91, 0x6e, 0x34],
    [0xc8, 0xcc, 0xbd, 0x20, 0x9b, 0x8a, 0xf5, 0x3b, 0x10, 0x5f, 0x7d, 0x05, 0xb9, 0x6b, 0x63, 0x53],
    [0x87, 0x07, 0x52, 0x82, 0x1f, 0xb7, 0xe1, 0x4d, 0x7b, 0x73, 0xc9, 0xd1, 0x39, 0xd8, 0x16, 0x85],
    [0x3d, 0x04, 0x40, 0x2a, 0x9d, 0xfe, 0x27, 0x64, 0x06, 0xce, 0x1d, 0x4e, 0x94, 0x55, 0x4a, 0xb5],
    [0xe9, 0x0d, 0xe2, 0x4f, 0x18, 0xc0, 0x74, 0x56, 0xe6, 0xbf, 0x1b, 0x31, 0xd5, 0xf8, 0xd0, 0x54],
    [0x97, 0x0c, 0x71, 0x86, 0xc2, 0x47, 0xde, 0xb0, 0x30, 0x80, 0xd7, 0xcd, 0xb8, 0xa1, 0xc1, 0x48],
    [0xdf, 0x98, 0x44, 0xc7, 0x38, 0x6c, 0x0e, 0xe0, 0x11, 0x5a, 0xaf, 0x57, 0x29, 0x67, 0xec, 0x3f],
    [0x12, 0xe4, 0xd2, 0xd3, 0xb1, 0x84, 0x2d, 0x46, 0x45, 0xff, 0xed, 0x9f, 0xe3, 0x21, 0x7c, 0x77],
    [0xb2, 0x7e, 0xeb, 0x2c, 0x5e, 0x4b, 0xd9, 0xbb, 0x41, 0xcf, 0x5c, 0xc3, 0x5d, 0x9e, 0x7a, 0x9a],
    [0x28, 0x81, 0x68, 0x4c, 0x6d, 0xfc, 0xbc, 0xa8, 0x6f, 0x66, 0xae, 0x95, 0xee, 0xa4, 0xca, 0x7f],
    [0xc5, 0xfd, 0x2b, 0x99, 0xf4, 0x8d, 0xfb, 0xf6, 0xa3, 0x00, 0x1e, 0xa9, 0x93, 0xdb, 0x90, 0x24],
    [0xa7, 0x8e, 0xf2, 0x2f, 0x69, 0x58, 0x3e, 0x72, 0xab, 0x32, 0x36, 0x9c, 0x3a, 0x25, 0x2e, 0x22],
    [0x49, 0xa6, 0xaa, 0x8b, 0xe5, 0xef, 0x83, 0x78, 0xcb, 0xc4, 0x61, 0xac, 0x08, 0xfa, 0x19, 0xd6],
    [0x09, 0x65, 0xc6, 0xf1, 0x1c, 0xa0, 0x5b, 0x26, 0x1a, 0x14, 0x6a, 0xdc, 0x89, 0xb6, 0xf3, 0xa2],
    [0x13, 0x15, 0x01, 0x96, 0x33, 0x92, 0xe7, 0x60, 0x79, 0xa5, 0xe8, 0x02, 0x0a, 0x88, 0x59, 0xb4],
    [0x70, 0xba, 0x76, 0xdd, 0x0b, 0x62, 0x8f, 0xea, 0x42, 0x37, 0x03, 0xf9, 0x50, 0xda, 0x75, 0x43]]"

definition TABLE_S1_5 :: "bytes" where
  "TABLE_S1_5 = concat [
    [0x37, 0xac, 0xbd, 0x4a, 0x7c, 0xf9, 0x8b, 0xe5, 0xbb, 0x0b, 0xf6, 0xec, 0x9a, 0x83, 0x73, 0xfa],
    [0x36, 0xd2, 0x74, 0xd9, 0xfb, 0x23, 0x6d, 0x4f, 0x84, 0xdd, 0x0a, 0x20, 0xc3, 0xee, 0x6f, 0xeb],
    [0xdf, 0x29, 0xe8, 0xe9, 0xbf, 0x8a, 0x7d, 0x16, 0xc4, 0x7e, 0xa4, 0xd6, 0x1a, 0xd8, 0x4c, 0x47],
    [0xa3, 0xe4, 0xfc, 0x7f, 0x57, 0x03, 0xdb, 0x35, 0x61, 0x2a, 0x6c, 0x94, 0x5c, 0x12, 0x04, 0xd7],
    [0xf7, 0xf3, 0x1b, 0x86, 0xb1, 0xa0, 0x00, 0xce, 0x64, 0x2b, 0x3e, 0x46, 0x50, 0x82, 0x68, 0x58],
    [0x18, 0x07, 0x6a, 0xcc, 0x34, 0x0e, 0x88, 0x96, 0xb7, 0xef, 0xcb, 0x2c, 0xaa, 0x85, 0x0f, 0x55],
    [0x3f, 0x06, 0x11, 0x7b, 0xc5, 0xa6, 0x5f, 0x1c, 0xf5, 0x3d, 0x75, 0x26, 0x6e, 0xaf, 0x8e, 0x71],
    [0x3c, 0xbc, 0xb9, 0x69, 0x8c, 0x24, 0x76, 0xda, 0x48, 0x40, 0xea, 0xf2, 0xe3, 0x02, 0xbe, 0x2d],
    [0x5e, 0x32, 0xca, 0xfd, 0x9b, 0x27, 0x1d, 0x60, 0x2f, 0x21, 0xe7, 0x51, 0x8d, 0xb2, 0x99, 0xc8],
    [0x9d, 0x72, 0xb0, 0x91, 0xd4, 0xde, 0x43, 0xb8, 0xff, 0xf0, 0x97, 0x5a, 0xc1, 0x33, 0xed, 0x22],
    [0x81, 0x4b, 0xe6, 0x4d, 0x59, 0x30, 0xd1, 0xb4, 0x0c, 0x79, 0xc2, 0x38, 0xe1, 0x6b, 0x78, 0x4e],
    [0x2e, 0x28, 0xad, 0x3a, 0xa9, 0x08, 0x5b, 0xdc, 0x9e, 0x42, 0x39, 0xd3, 0xb3, 0x31, 0x8f, 0x62],
    [0xba, 0x13, 0x77, 0x53, 0xc7, 0x56, 0x93, 0x87, 0x5d, 0x54, 0xae, 0x95, 0x9f, 0xd5, 0x44, 0xf1],
    [0x45, 0x89, 0x17, 0xd0, 0x70, 0x65, 0x80, 0xe2, 0xf4, 0x7a, 0xf8, 0x67, 0xa5, 0x66, 0xa1, 0x41],
    [0xb5, 0x9c, 0x14, 0xc9, 0x63, 0x52, 0x49, 0x05, 0x09, 0x90, 0xa7, 0x0d, 0x1e, 0x01, 0x19, 0x15],
    [0xc6, 0xfe, 0xa2, 0x10, 0xb6, 0xcf, 0xcd, 0xc0, 0x3b, 0x98, 0x92, 0x25, 0xe0, 0xa8, 0x1f, 0xab]]"

definition TABLE_S1_6 :: "bytes" where
  "TABLE_S1_6 = concat [
    [0xb3, 0x52, 0xee, 0x7d, 0x18, 0x10, 0xba, 0xa2, 0xdc, 0x74, 0x26, 0x8a, 0x6c, 0xec, 0xe9, 0x39],
    [0x3e, 0xff, 0xde, 0x21, 0xa5, 0x6d, 0x25, 0x76, 0x95, 0xf6, 0x0f, 0x4c, 0x6f, 0x56, 0x41, 0x2b],
    [0xfa, 0xd5, 0x5f, 0x05, 0xe7, 0xbf, 0x9b, 0x7c, 0x64, 0x5e, 0xd8, 0xc6, 0x48, 0x57, 0x3a, 0x9c],
    [0x00, 0xd2, 0x38, 0x08, 0x34, 0x7b, 0x6e, 0x16, 0xe1, 0xf0, 0x50, 0x9e, 0xa7, 0xa3, 0x4b, 0xd6],
    [0x0c, 0x42, 0x54, 0x87, 0x31, 0x7a, 0x3c, 0xc4, 0x07, 0x53, 0x8b, 0x65, 0xf3, 0xb4, 0xac, 0x2f],
    [0x4a, 0x88, 0x1c, 0x17, 0x94, 0x2e, 0xf4, 0x86, 0xef, 0xda, 0x2d, 0x46, 0x8f, 0x79, 0xb8, 0xb9],
    [0x93, 0xbe, 0x3f, 0xbb, 0xd4, 0x8d, 0x5a, 0x70, 0xab, 0x73, 0x3d, 0x1f, 0x66, 0x82, 0x24, 0x89],
    [0xca, 0xd3, 0x23, 0xaa, 0xeb, 0x5b, 0xa6, 0xbc, 0x2c, 0xa9, 0xdb, 0xb5, 0x67, 0xfc, 0xed, 0x1a],
    [0xb0, 0xf8, 0x4f, 0xfb, 0x6b, 0xc8, 0xc2, 0x75, 0xe6, 0x9f, 0x9d, 0x90, 0x96, 0xae, 0xf2, 0x40],
    [0x4e, 0x51, 0x49, 0x45, 0x59, 0xc0, 0xf7, 0x5d, 0x33, 0x02, 0x19, 0x55, 0xe5, 0xcc, 0x44, 0x99],
    [0xf5, 0x36, 0xf1, 0x11, 0xa4, 0x2a, 0xa8, 0x37, 0x20, 0x35, 0xd0, 0xb2, 0x15, 0xd9, 0x47, 0x80],
    [0xcf, 0x85, 0x14, 0xa1, 0x0d, 0x04, 0xfe, 0xc5, 0x97, 0x06, 0xc3, 0xd7, 0xea, 0x43, 0x27, 0x03],
    [0xe3, 0x61, 0xdf, 0x32, 0xce, 0x12, 0x69, 0x83, 0xf9, 0x58, 0x0b, 0x8c, 0x7e, 0x78, 0xfd, 0x6a],
    [0xb1, 0x3b, 0x28, 0x1e, 0x5c, 0x29, 0x92, 0x68, 0x09, 0x60, 0x81, 0xe4, 0xd1, 0x1b, 0xb6, 0x1d],
    [0x91, 0x63, 0xbd, 0x72, 0xaf, 0xa0, 0xc7, 0x0a, 0x84, 0x8e, 0x13, 0xe8, 0xcd, 0x22, 0xe0, 0xc1],
    [0xdd, 0xe2, 0xc9, 0x98, 0x7f, 0x71, 0xb7, 0x01, 0xcb, 0x77, 0x4d, 0x30, 0x0e, 0x62, 0x9a, 0xad]]"

definition TABLE_S1_7 :: "bytes" where
  "TABLE_S1_7 = concat [
    [0x9a, 0x2a, 0xd7, 0xcd, 0xbb, 0xa2, 0x52, 0xdb, 0x16, 0x8d, 0x9c, 0x6b, 0x5d, 0xd8, 0xaa, 0xc4],
    [0xa5, 0xfc, 0x2b, 0x01, 0xe2, 0xcf, 0x4e, 0xca, 0x17, 0xf3, 0x55, 0xf8, 0xda, 0x02, 0x4c, 0x6e],
    [0xe5, 0x5f, 0x85, 0xf7, 0x3b, 0xf9, 0x6d, 0x66, 0xfe, 0x08, 0xc9, 0xc8, 0x9e, 0xab, 0x5c, 0x37],
    [0x40, 0x0b, 0x4d, 0xb5, 0x7d, 0x33, 0x25, 0xf6, 0x82, 0xc5, 0xdd, 0x5e, 0x76, 0x22, 0xfa, 0x14],
    [0x45, 0x0a, 0x1f, 0x67, 0x71, 0xa3, 0x49, 0x79, 0xd6, 0xd2, 0x3a, 0xa7, 0x90, 0x81, 0x21, 0xef],
    [0x96, 0xce, 0xea, 0x0d, 0x8b, 0xa4, 0x2e, 0x74, 0x39, 0x26, 0x4b, 0xed, 0x15, 0x2f, 0xa9, 0xb7],
    [0xd4, 0x1c, 0x54, 0x07, 0x4f, 0x8e, 0xaf, 0x50, 0x1e, 0x27, 0x30, 0x5a, 0xe4, 0x87, 0x7e, 0x3d],
    [0x69, 0x61, 0xcb, 0xd3, 0xc2, 0x23, 0x9f, 0x0c, 0x1d, 0x9d, 0x98, 0x48, 0xad, 0x05, 0x57, 0xfb],
    [0x0e, 0x00, 0xc6, 0x70, 0xac, 0x93, 0xb8, 0xe9, 0x7f, 0x13, 0xeb, 0xdc, 0xba, 0x06, 0x3c, 0x41],
    [0xde, 0xd1, 0xb6, 0x7b, 0xe0, 0x12, 0xcc, 0x03, 0xbc, 0x53, 0x91, 0xb0, 0xf5, 0xff, 0x62, 0x99],
    [0x2d, 0x58, 0xe3, 0x19, 0xc0, 0x4a, 0x59, 0x6f, 0xa0, 0x6a, 0xc7, 0x6c, 0x78, 0x11, 0xf0, 0x95],
    [0xbf, 0x63, 0x18, 0xf2, 0x92, 0x10, 0xae, 0x43, 0x0f, 0x09, 0x8c, 0x1b, 0x88, 0x29, 0x7a, 0xfd],
    [0x7c, 0x75, 0x8f, 0xb4, 0xbe, 0xf4, 0x65, 0xd0, 0x9b, 0x32, 0x56, 0x72, 0xe6, 0x77, 0xb2, 0xa6],
    [0xd5, 0x5b, 0xd9, 0x46, 0x84, 0x47, 0x80, 0x60, 0x64, 0xa8, 0x36, 0xf1, 0x51, 0x44, 0xa1, 0xc3],
    [0x28, 0xb1, 0x86, 0x2c, 0x3f, 0x20, 0x38, 0x34, 0x94, 0xbd, 0x35, 0xe8, 0x42, 0x73, 0x68, 0x24],
    [0x1a, 0xb9, 0xb3, 0x04, 0xc1, 0x89, 0x3e, 0x8a, 0xe7, 0xdf, 0x83, 0x31, 0x97, 0xee, 0xec, 0xe1]]"

definition TABLE_S1_8 :: "bytes" where
  "TABLE_S1_8 = concat [
    [0x44, 0x2e, 0x39, 0x00, 0x23, 0x60, 0x99, 0xfa, 0x19, 0x4a, 0x02, 0xca, 0x4e, 0xb1, 0x90, 0x51],
    [0x56, 0x86, 0x83, 0x03, 0xe5, 0x49, 0x1b, 0xb3, 0xcd, 0xd5, 0x7f, 0x77, 0x12, 0x81, 0x3d, 0xdc],
    [0xb9, 0x24, 0xcc, 0xc8, 0xf1, 0x3f, 0x9f, 0x8e, 0x79, 0x01, 0x14, 0x5b, 0x67, 0x57, 0xbd, 0x6f],
    [0xf3, 0x55, 0x38, 0x27, 0xa9, 0xb7, 0x31, 0x0b, 0x13, 0xf4, 0xd0, 0x88, 0x6a, 0x30, 0xba, 0x95],
    [0xd6, 0xd7, 0x16, 0xe0, 0x29, 0x42, 0xb5, 0x80, 0xe9, 0x9b, 0x41, 0xfb, 0x78, 0x73, 0xe7, 0x25],
    [0x40, 0xc3, 0xdb, 0x9c, 0x0a, 0xe4, 0x3c, 0x68, 0xab, 0x53, 0x15, 0x5e, 0xe8, 0x3b, 0x2d, 0x63],
    [0x75, 0x82, 0x93, 0x08, 0xda, 0xb4, 0xc6, 0x43, 0xd3, 0xc9, 0x34, 0x84, 0xc5, 0x4c, 0xbc, 0xa5],
    [0xe6, 0x4b, 0xed, 0x09, 0x70, 0x52, 0x1c, 0xc4, 0x1f, 0x35, 0xe2, 0xbb, 0xd4, 0x50, 0xd1, 0xfc],
    [0xf6, 0x2b, 0xa3, 0x8a, 0x3a, 0x76, 0x6d, 0x5c, 0x32, 0x98, 0xaf, 0x36, 0x2a, 0x26, 0x3e, 0x21],
    [0x2f, 0x9d, 0xc1, 0xf9, 0xff, 0xf2, 0xf0, 0x89, 0x1a, 0xad, 0xa7, 0x04, 0x94, 0x20, 0x97, 0xdf],
    [0x6c, 0x48, 0x2c, 0x85, 0xb8, 0xac, 0x69, 0xf8, 0xaa, 0x91, 0x6b, 0x62, 0xce, 0x7b, 0xea, 0xa0],
    [0xef, 0x28, 0xb6, 0x7a, 0xdd, 0xbf, 0x5a, 0x4f, 0x58, 0xc7, 0x45, 0xcb, 0x7e, 0x9e, 0x59, 0x9a],
    [0x72, 0xd9, 0x74, 0xbe, 0x8b, 0xee, 0x0f, 0x66, 0x07, 0xfd, 0x46, 0x33, 0x71, 0x47, 0x54, 0xde],
    [0x05, 0x92, 0x17, 0x11, 0xe3, 0x64, 0x37, 0x96, 0xec, 0x06, 0x7d, 0xa1, 0x5d, 0xb0, 0x0e, 0x8c],
    [0xc2, 0xf5, 0x0d, 0x61, 0x5f, 0x22, 0x18, 0xa4, 0x6e, 0xd8, 0x1e, 0x10, 0xf7, 0xa6, 0x8d, 0xb2],
    [0xae, 0x8f, 0x4d, 0xa2, 0x87, 0x7c, 0xe1, 0xeb, 0x65, 0xa8, 0xcf, 0xc0, 0x1d, 0xd2, 0x0c, 0xfe]]"

definition TABLE_S1_9 :: "bytes" where
  "TABLE_S1_9 = concat [
    [0x96, 0x4a, 0x31, 0xdb, 0xbb, 0x39, 0x87, 0x6a, 0x26, 0x20, 0xa5, 0x32, 0xa1, 0x00, 0x53, 0xd4],
    [0x04, 0x71, 0xca, 0x30, 0xe9, 0x63, 0x70, 0x46, 0x89, 0x43, 0xee, 0x45, 0x51, 0x38, 0xd9, 0xbc],
    [0xf7, 0xf8, 0x9f, 0x52, 0xc9, 0x3b, 0xe5, 0x2a, 0x95, 0x7a, 0xb8, 0x99, 0xdc, 0xd6, 0x4b, 0xb0],
    [0x27, 0x29, 0xef, 0x59, 0x85, 0xba, 0x91, 0xc0, 0x56, 0x3a, 0xc2, 0xf5, 0x93, 0x2f, 0x15, 0x68],
    [0x33, 0x90, 0x9a, 0x2d, 0xe8, 0xa0, 0x17, 0xa3, 0xce, 0xf6, 0xaa, 0x18, 0xbe, 0xc7, 0xc5, 0xc8],
    [0x01, 0x98, 0xaf, 0x05, 0x16, 0x09, 0x11, 0x1d, 0xbd, 0x94, 0x1c, 0xc1, 0x6b, 0x5a, 0x41, 0x0d],
    [0xfc, 0x72, 0xf0, 0x6f, 0xad, 0x6e, 0xa9, 0x49, 0x4d, 0x81, 0x1f, 0xd8, 0x78, 0x6d, 0x88, 0xea],
    [0x55, 0x5c, 0xa6, 0x9d, 0x97, 0xdd, 0x4c, 0xf9, 0xb2, 0x1b, 0x7f, 0x5b, 0xcf, 0x5e, 0x9b, 0x8f],
    [0x69, 0x22, 0x64, 0x9c, 0x54, 0x1a, 0x0c, 0xdf, 0xab, 0xec, 0xf4, 0x77, 0x5f, 0x0b, 0xd3, 0x3d],
    [0xcc, 0x76, 0xac, 0xde, 0x12, 0xd0, 0x44, 0x4f, 0xd7, 0x21, 0xe0, 0xe1, 0xb7, 0x82, 0x75, 0x1e],
    [0x8c, 0xd5, 0x02, 0x28, 0xcb, 0xe6, 0x67, 0xe3, 0x3e, 0xda, 0x7c, 0xd1, 0xf3, 0x2b, 0x65, 0x47],
    [0xb3, 0x03, 0xfe, 0xe4, 0x92, 0x8b, 0x7b, 0xf2, 0x3f, 0xa4, 0xb5, 0x42, 0x74, 0xf1, 0x83, 0xed],
    [0x40, 0x48, 0xe2, 0xfa, 0xeb, 0x0a, 0xb6, 0x25, 0x34, 0xb4, 0xb1, 0x61, 0x84, 0x2c, 0x7e, 0xd2],
    [0xfd, 0x35, 0x7d, 0x2e, 0x66, 0xa7, 0x86, 0x79, 0x37, 0x0e, 0x19, 0x73, 0xcd, 0xae, 0x57, 0x14],
    [0xbf, 0xe7, 0xc3, 0x24, 0xa2, 0x8d, 0x07, 0x5d, 0x10, 0x0f, 0x62, 0xc4, 0x3c, 0x06, 0x80, 0x9e],
    [0x6c, 0x23, 0x36, 0x4e, 0x58, 0x8a, 0x60, 0x50, 0xff, 0xfb, 0x13, 0x8e, 0xb9, 0xa8, 0x08, 0xc6]]"

definition TABLE_S1_10 :: "bytes" where
  "TABLE_S1_10 = concat [
    [0xa9, 0x80, 0xfc, 0x21, 0x67, 0x56, 0x30, 0x7c, 0xa5, 0x3c, 0x38, 0x92, 0x34, 0x2b, 0x20, 0x2c],
    [0xcb, 0xf3, 0x25, 0x97, 0xfa, 0x83, 0xf5, 0xf8, 0xad, 0x0e, 0x10, 0xa7, 0x9d, 0xd5, 0x9e, 0x2a],
    [0x26, 0x8f, 0x66, 0x42, 0x63, 0xf2, 0xb2, 0xa6, 0x61, 0x68, 0xa0, 0x9b, 0xe0, 0xaa, 0xc4, 0x71],
    [0xbc, 0x70, 0xe5, 0x22, 0x50, 0x45, 0xd7, 0xb5, 0x4f, 0xc1, 0x52, 0xcd, 0x53, 0x90, 0x74, 0x94],
    [0x7e, 0xb4, 0x78, 0xd3, 0x05, 0x6c, 0x81, 0xe4, 0x4c, 0x39, 0x0d, 0xf7, 0x5e, 0xd4, 0x7b, 0x4d],
    [0x1d, 0x1b, 0x0f, 0x98, 0x3d, 0x9c, 0xe9, 0x6e, 0x77, 0xab, 0xe6, 0x0c, 0x04, 0x86, 0x57, 0xba],
    [0x07, 0x6b, 0xc8, 0xff, 0x12, 0xae, 0x55, 0x28, 0x14, 0x1a, 0x64, 0xd2, 0x87, 0xb8, 0xfd, 0xac],
    [0x47, 0xa8, 0xa4, 0x85, 0xeb, 0xe1, 0x8d, 0x76, 0xc5, 0xca, 0x6f, 0xa2, 0x06, 0xf4, 0x17, 0xd8],
    [0x33, 0x0a, 0x4e, 0x24, 0x93, 0xf0, 0x29, 0x6a, 0x08, 0xc0, 0x13, 0x40, 0x9a, 0x5b, 0x44, 0xbb],
    [0x89, 0x09, 0x5c, 0x8c, 0x11, 0xb9, 0xef, 0x43, 0x75, 0x7d, 0xc7, 0xdf, 0x37, 0xd6, 0x18, 0x8b],
    [0xc6, 0xc2, 0xb3, 0x2e, 0x95, 0x84, 0xfb, 0x35, 0x1e, 0x51, 0x73, 0x0b, 0xb7, 0x65, 0x6d, 0x5d],
    [0x32, 0x2d, 0xf9, 0x5f, 0x3b, 0x01, 0xa3, 0xbd, 0xda, 0x82, 0x19, 0xfe, 0xb0, 0x9f, 0x60, 0x3a],
    [0x1c, 0xea, 0xdc, 0xdd, 0xbf, 0x8a, 0x23, 0x48, 0x4b, 0xf1, 0xe3, 0x91, 0xed, 0x2f, 0x72, 0x79],
    [0xd1, 0x96, 0x4a, 0xc9, 0x36, 0x62, 0x00, 0xee, 0x1f, 0x54, 0xa1, 0x59, 0x27, 0x69, 0xe2, 0x31],
    [0x99, 0x02, 0x7f, 0x88, 0xcc, 0x49, 0xd0, 0xbe, 0x3e, 0x8e, 0xd9, 0xc3, 0xb6, 0xaf, 0xcf, 0x46],
    [0xe7, 0x03, 0xec, 0x41, 0x16, 0xce, 0x7a, 0x58, 0xe8, 0xb1, 0x15, 0x3f, 0xdb, 0xf6, 0xde, 0x5a]]"

definition TABLE_S1_11 :: "bytes" where
  "TABLE_S1_11 = concat [
    [0x7d, 0x31, 0x2a, 0x1b, 0xb1, 0x6c, 0xe4, 0xcd, 0x6d, 0x61, 0x79, 0x66, 0x75, 0xdf, 0xe8, 0x71],
    [0xb8, 0xb5, 0xb7, 0xce, 0x68, 0xda, 0x86, 0xbe, 0xd3, 0x67, 0xd0, 0x98, 0x5d, 0xea, 0xe0, 0x43],
    [0xff, 0xeb, 0x2e, 0xbf, 0x2b, 0x0f, 0x6b, 0xc2, 0x89, 0x3c, 0xad, 0xe7, 0xed, 0xd6, 0x2c, 0x25],
    [0x9a, 0xf8, 0x1d, 0x08, 0xa8, 0x6f, 0xf1, 0x3d, 0x39, 0xd9, 0x1e, 0xdd, 0x1f, 0x80, 0x02, 0x8c],
    [0xcc, 0xa9, 0x48, 0x21, 0x35, 0x9e, 0x33, 0xf9, 0x36, 0x00, 0x13, 0x99, 0x40, 0xba, 0x01, 0x74],
    [0xa4, 0x23, 0x70, 0xd1, 0x42, 0xd5, 0x50, 0x56, 0x1a, 0xf7, 0x49, 0xcb, 0xab, 0x41, 0x3a, 0xe6],
    [0x18, 0x65, 0x5f, 0xe3, 0x85, 0xb2, 0x4a, 0x26, 0xb0, 0xe1, 0xca, 0xf5, 0x29, 0x9f, 0x59, 0x57],
    [0xc0, 0x3b, 0xa6, 0xac, 0xe9, 0xc8, 0x0a, 0xe5, 0x5a, 0x95, 0x4b, 0xb9, 0x22, 0xef, 0x88, 0x87],
    [0x64, 0x27, 0xde, 0xbd, 0x03, 0x69, 0x7e, 0x47, 0x09, 0xf6, 0xd7, 0x16, 0x5e, 0x0d, 0x45, 0x8d],
    [0xa2, 0x0e, 0x5c, 0xf4, 0x11, 0xc1, 0xc4, 0x44, 0x55, 0xc6, 0x7a, 0x9b, 0x8a, 0x92, 0x38, 0x30],
    [0xb6, 0x78, 0xd8, 0xc9, 0xfe, 0x63, 0x8b, 0x8f, 0x20, 0x10, 0xfa, 0x28, 0x3e, 0x46, 0x53, 0x1c],
    [0xee, 0xf0, 0x76, 0x4c, 0xb4, 0x12, 0x7f, 0x60, 0x2d, 0x77, 0xfd, 0xd2, 0x54, 0xb3, 0x97, 0xcf],
    [0x6e, 0x05, 0xf2, 0xc7, 0x91, 0x90, 0x51, 0xa7, 0x3f, 0x34, 0xa0, 0x62, 0xae, 0xdc, 0x06, 0xbc],
    [0x4d, 0xa3, 0x7b, 0x2f, 0x07, 0x84, 0x9c, 0xdb, 0xaf, 0x7c, 0x6a, 0x24, 0xec, 0x14, 0x52, 0x19],
    [0x9d, 0xf3, 0x81, 0x04, 0x32, 0xc5, 0xd4, 0x4f, 0x82, 0x0b, 0xfb, 0xe2, 0x94, 0x8e, 0x73, 0xc3],
    [0x37, 0x15, 0x5b, 0x83, 0xa1, 0x0c, 0xaa, 0x4e, 0x93, 0x17, 0x96, 0xbb, 0x58, 0x72, 0xa5, 0xfc]]"

definition TABLE_S1_12 :: "bytes" where
  "TABLE_S1_12 = concat [
    [0x5b, 0x97, 0x09, 0xce, 0x6e, 0x7b, 0x9e, 0xfc, 0xea, 0x64, 0xe6, 0x79, 0xbb, 0x78, 0xbf, 0x5f],
    [0xa4, 0x0d, 0x69, 0x4d, 0xd9, 0x48, 0x8d, 0x99, 0x43, 0x4a, 0xb0, 0x8b, 0x81, 0xcb, 0x5a, 0xef],
    [0xd8, 0xe0, 0xbc, 0x0e, 0xa8, 0xd1, 0xd3, 0xde, 0x25, 0x86, 0x8c, 0x3b, 0xfe, 0xb6, 0x01, 0xb5],
    [0xab, 0x82, 0x0a, 0xd7, 0x7d, 0x4c, 0x57, 0x1b, 0x17, 0x8e, 0xb9, 0x13, 0x00, 0x1f, 0x07, 0x0b],
    [0x83, 0x6c, 0xae, 0x8f, 0xca, 0xc0, 0x5d, 0xa6, 0xe1, 0xee, 0x89, 0x44, 0xdf, 0x2d, 0xf3, 0x3c],
    [0x40, 0x2c, 0xd4, 0xe3, 0x85, 0x39, 0x03, 0x7e, 0x31, 0x3f, 0xf9, 0x4f, 0x93, 0xac, 0x87, 0xd6],
    [0x30, 0x36, 0xb3, 0x24, 0xb7, 0x16, 0x45, 0xc2, 0x80, 0x5c, 0x27, 0xcd, 0xad, 0x2f, 0x91, 0x7c],
    [0x9f, 0x55, 0xf8, 0x53, 0x47, 0x2e, 0xcf, 0xaa, 0x12, 0x67, 0xdc, 0x26, 0xff, 0x75, 0x66, 0x50],
    [0x06, 0x19, 0x74, 0xd2, 0x2a, 0x10, 0x96, 0x88, 0xa9, 0xf1, 0xd5, 0x32, 0xb4, 0x9b, 0x11, 0x4b],
    [0xe9, 0xed, 0x05, 0x98, 0xaf, 0xbe, 0x1e, 0xd0, 0x7a, 0x35, 0x20, 0x58, 0x4e, 0x9c, 0x76, 0x46],
    [0x22, 0xa2, 0xa7, 0x77, 0x92, 0x3a, 0x68, 0xc4, 0x56, 0x5e, 0xf4, 0xec, 0xfd, 0x1c, 0xa0, 0x33],
    [0x21, 0x18, 0x0f, 0x65, 0xdb, 0xb8, 0x41, 0x02, 0xeb, 0x23, 0x6b, 0x38, 0x70, 0xb1, 0x90, 0x6f],
    [0x28, 0xcc, 0x6a, 0xc7, 0xe5, 0x3d, 0x73, 0x51, 0x9a, 0xc3, 0x14, 0x3e, 0xdd, 0xf0, 0x71, 0xf5],
    [0x29, 0xb2, 0xa3, 0x54, 0x62, 0xe7, 0x95, 0xfb, 0xa5, 0x15, 0xe8, 0xf2, 0x84, 0x9d, 0x6d, 0xe4],
    [0xbd, 0xfa, 0xe2, 0x61, 0x49, 0x1d, 0xc5, 0x2b, 0x7f, 0x34, 0x72, 0x8a, 0x42, 0x0c, 0x1a, 0xc9],
    [0xc1, 0x37, 0xf6, 0xf7, 0xa1, 0x94, 0x63, 0x08, 0xda, 0x60, 0xba, 0xc8, 0x04, 0xc6, 0x52, 0x59]]"

definition TABLE_S1_13 :: "bytes" where
  "TABLE_S1_13 = concat [
    [0x42, 0x2e, 0x8d, 0xba, 0x57, 0xeb, 0x10, 0x6d, 0x51, 0x5f, 0x21, 0x97, 0xc2, 0xfd, 0xb8, 0xe9],
    [0x02, 0xed, 0xe1, 0xc0, 0xae, 0xa4, 0xc8, 0x33, 0x80, 0x8f, 0x2a, 0xe7, 0x43, 0xb1, 0x52, 0x9d],
    [0x3b, 0xf1, 0x3d, 0x96, 0x40, 0x29, 0xc4, 0xa1, 0x09, 0x7c, 0x48, 0xb2, 0x1b, 0x91, 0x3e, 0x08],
    [0x58, 0x5e, 0x4a, 0xdd, 0x78, 0xd9, 0xac, 0x2b, 0x32, 0xee, 0xa3, 0x49, 0x41, 0xc3, 0x12, 0xff],
    [0x63, 0xca, 0x23, 0x07, 0x26, 0xb7, 0xf7, 0xe3, 0x24, 0x2d, 0xe5, 0xde, 0xa5, 0xef, 0x81, 0x34],
    [0xf9, 0x35, 0xa0, 0x67, 0x15, 0x00, 0x92, 0xf0, 0x0a, 0x84, 0x17, 0x88, 0x16, 0xd5, 0x31, 0xd1],
    [0xec, 0xc5, 0xb9, 0x64, 0x22, 0x13, 0x75, 0x39, 0xe0, 0x79, 0x7d, 0xd7, 0x71, 0x6e, 0x65, 0x69],
    [0x8e, 0xb6, 0x60, 0xd2, 0xbf, 0xc6, 0xb0, 0xbd, 0xe8, 0x4b, 0x55, 0xe2, 0xd8, 0x90, 0xdb, 0x6f],
    [0xdc, 0x47, 0x3a, 0xcd, 0x89, 0x0c, 0x95, 0xfb, 0x7b, 0xcb, 0x9c, 0x86, 0xf3, 0xea, 0x8a, 0x03],
    [0xa2, 0x46, 0xa9, 0x04, 0x53, 0x8b, 0x3f, 0x1d, 0xad, 0xf4, 0x50, 0x7a, 0x9e, 0xb3, 0x9b, 0x1f],
    [0x59, 0xaf, 0x99, 0x98, 0xfa, 0xcf, 0x66, 0x0d, 0x0e, 0xb4, 0xa6, 0xd4, 0xa8, 0x6a, 0x37, 0x3c],
    [0x94, 0xd3, 0x0f, 0x8c, 0x73, 0x27, 0x45, 0xab, 0x5a, 0x11, 0xe4, 0x1c, 0x62, 0x2c, 0xa7, 0x74],
    [0x83, 0x87, 0xf6, 0x6b, 0xd0, 0xc1, 0xbe, 0x70, 0x5b, 0x14, 0x36, 0x4e, 0xf2, 0x20, 0x28, 0x18],
    [0x77, 0x68, 0xbc, 0x1a, 0x7e, 0x44, 0xe6, 0xf8, 0x9f, 0xc7, 0x5c, 0xbb, 0xf5, 0xda, 0x25, 0x7f],
    [0x76, 0x4f, 0x0b, 0x61, 0xd6, 0xb5, 0x6c, 0x2f, 0x4d, 0x85, 0x56, 0x05, 0xdf, 0x1e, 0x01, 0xfe],
    [0xcc, 0x4c, 0x19, 0xc9, 0x54, 0xfc, 0xaa, 0x06, 0x30, 0x38, 0x82, 0x9a, 0x72, 0x93, 0x5d, 0xce]]"

definition TABLE_S1_14 :: "bytes" where
  "TABLE_S1_14 = concat [
    [0x43, 0x72, 0x14, 0x58, 0x8d, 0xa4, 0xd8, 0x05, 0x10, 0x0f, 0x04, 0x08, 0x81, 0x18, 0x1c, 0xb6],
    [0xde, 0xa7, 0xd1, 0xdc, 0xef, 0xd7, 0x01, 0xb3, 0xb9, 0xf1, 0xba, 0x0e, 0x89, 0x2a, 0x34, 0x83],
    [0x47, 0xd6, 0x96, 0x82, 0x02, 0xab, 0x42, 0x66, 0xc4, 0x8e, 0xe0, 0x55, 0x45, 0x4c, 0x84, 0xbf],
    [0x74, 0x61, 0xf3, 0x91, 0x98, 0x54, 0xc1, 0x06, 0x77, 0xb4, 0x50, 0xb0, 0x6b, 0xe5, 0x76, 0xe9],
    [0x21, 0x48, 0xa5, 0xc0, 0x5a, 0x90, 0x5c, 0xf7, 0x7a, 0xf0, 0x5f, 0x69, 0x68, 0x1d, 0x29, 0xd3],
    [0x19, 0xb8, 0xcd, 0x4a, 0x39, 0x3f, 0x2b, 0xbc, 0x20, 0xa2, 0x73, 0x9e, 0x53, 0x8f, 0xc2, 0x28],
    [0x36, 0x8a, 0x71, 0x0c, 0x23, 0x4f, 0xec, 0xdb, 0xa3, 0x9c, 0xd9, 0x88, 0x30, 0x3e, 0x40, 0xf6],
    [0xcf, 0xc5, 0xa9, 0x52, 0x63, 0x8c, 0x80, 0xa1, 0x22, 0xd0, 0x33, 0xfc, 0xe1, 0xee, 0x4b, 0x86],
    [0xb7, 0xd4, 0x0d, 0x4e, 0x17, 0x2e, 0x6a, 0x00, 0xbe, 0x7f, 0x60, 0x9f, 0x2c, 0xe4, 0x37, 0x64],
    [0x35, 0x9d, 0xcb, 0x67, 0xad, 0x2d, 0x78, 0xa8, 0x13, 0xf2, 0x3c, 0xaf, 0x51, 0x59, 0xe3, 0xfb],
    [0xb1, 0xa0, 0xdf, 0x11, 0xe2, 0xe6, 0x97, 0x0a, 0x93, 0x41, 0x49, 0x79, 0x3a, 0x75, 0x57, 0x2f],
    [0x1f, 0x25, 0x87, 0x99, 0x16, 0x09, 0xdd, 0x7b, 0x94, 0xbb, 0x44, 0x1e, 0xfe, 0xa6, 0x3d, 0xda],
    [0x9b, 0xae, 0x07, 0x6c, 0x38, 0xce, 0xf8, 0xf9, 0xc9, 0x0b, 0x56, 0x5d, 0x6f, 0xd5, 0xc7, 0xb5],
    [0x12, 0x46, 0x24, 0xca, 0xf5, 0xb2, 0x6e, 0xed, 0x03, 0x4d, 0xc6, 0x15, 0x3b, 0x70, 0x85, 0x7d],
    [0xe8, 0x6d, 0xf4, 0x9a, 0xbd, 0x26, 0x5b, 0xac, 0x92, 0x8b, 0xeb, 0x62, 0x1a, 0xaa, 0xfd, 0xe7],
    [0x32, 0xea, 0x5e, 0x7c, 0xc3, 0x27, 0xc8, 0x65, 0xff, 0xd2, 0xfa, 0x7e, 0xcc, 0x95, 0x31, 0x1b]]"

definition TABLE_S1_15 :: "bytes" where
  "TABLE_S1_15 = concat [
    [0x88, 0x17, 0x84, 0x0a, 0xd1, 0x31, 0xd5, 0x16, 0x67, 0xa0, 0x35, 0xf9, 0xf0, 0x92, 0x00, 0x15],
    [0xde, 0xe5, 0x2d, 0x24, 0x34, 0x81, 0xef, 0xa5, 0x07, 0x23, 0xca, 0x63, 0xe3, 0xf7, 0xb7, 0x26],
    [0xe2, 0x55, 0x4b, 0xe8, 0x6f, 0xdb, 0x90, 0xd8, 0xd2, 0x60, 0xb6, 0x8e, 0xbd, 0xb0, 0xc6, 0xbf],
    [0xd7, 0x7d, 0x79, 0xe0, 0x69, 0x65, 0x6e, 0x71, 0x64, 0xb9, 0xc5, 0xec, 0x39, 0x75, 0x13, 0x22],
    [0xe7, 0x2a, 0x8f, 0x80, 0x9d, 0x52, 0xb1, 0x43, 0xc0, 0xe1, 0xed, 0x02, 0x33, 0xc8, 0xa4, 0xae],
    [0x97, 0x21, 0x5f, 0x51, 0xe9, 0xb8, 0xfd, 0xc2, 0xba, 0x8d, 0x2e, 0x42, 0x6d, 0x10, 0xeb, 0x57],
    [0x49, 0xa3, 0xee, 0x32, 0xff, 0x12, 0xc3, 0x41, 0xdd, 0x4a, 0x5e, 0x58, 0x2b, 0xac, 0xd9, 0x78],
    [0xb2, 0x48, 0x7c, 0x09, 0x08, 0x3e, 0x91, 0x1b, 0x96, 0x3d, 0xf1, 0x3b, 0xa1, 0xc4, 0x29, 0x40],
    [0xbb, 0x5c, 0xc7, 0x9f, 0x7f, 0x25, 0xda, 0xf5, 0x1a, 0xbc, 0x68, 0x77, 0xf8, 0xe6, 0x44, 0x7e],
    [0x4e, 0x36, 0x14, 0x5b, 0x18, 0x28, 0x20, 0xf2, 0x6b, 0xf6, 0x87, 0x83, 0x70, 0xbe, 0xc1, 0xd0],
    [0x9a, 0x82, 0x38, 0x30, 0xce, 0x5d, 0x93, 0x72, 0xc9, 0x19, 0x4c, 0xcc, 0x06, 0xaa, 0xfc, 0x54],
    [0x05, 0x56, 0x85, 0x4d, 0xfe, 0x01, 0x1e, 0xdf, 0x61, 0x0b, 0x4f, 0x76, 0x2f, 0x6c, 0xb5, 0xd6],
    [0x7a, 0x50, 0xf4, 0xad, 0x1f, 0x9b, 0xb3, 0x9e, 0x04, 0xa9, 0x46, 0xa2, 0x1d, 0x3f, 0x8b, 0x53],
    [0x86, 0x9c, 0xcb, 0x7b, 0x03, 0x8a, 0xea, 0xf3, 0xcd, 0x3a, 0x47, 0xdc, 0xfb, 0x95, 0x0c, 0x89],
    [0x1c, 0xe4, 0x11, 0x5a, 0x74, 0xa7, 0x2c, 0x62, 0x8c, 0x0f, 0xd3, 0x94, 0xab, 0x45, 0x27, 0x73],
    [0xd4, 0xa6, 0xb4, 0x0e, 0x3c, 0x37, 0x6a, 0xa8, 0x98, 0x99, 0xaf, 0x59, 0x0d, 0x66, 0xcf, 0xfa]]"

definition TABLE_S1_16 :: "bytes" where
  "TABLE_S1_16 = concat [
    [0xce, 0x57, 0x53, 0xf9, 0x5f, 0x40, 0x4b, 0x47, 0xc2, 0xeb, 0x97, 0x4a, 0x0c, 0x3d, 0x5b, 0x17],
    [0xc6, 0x65, 0x7b, 0xcc, 0xf6, 0xbe, 0xf5, 0x41, 0xa0, 0x98, 0x4e, 0xfc, 0x91, 0xe8, 0x9e, 0x93],
    [0x0a, 0x03, 0xcb, 0xf0, 0x8b, 0xc1, 0xaf, 0x1a, 0x4d, 0xe4, 0x0d, 0x29, 0x08, 0x99, 0xd9, 0xcd],
    [0x24, 0xaa, 0x39, 0xa6, 0x38, 0xfb, 0x1f, 0xff, 0xd7, 0x1b, 0x8e, 0x49, 0x3b, 0x2e, 0xbc, 0xde],
    [0x27, 0x52, 0x66, 0x9c, 0x35, 0xbf, 0x10, 0x26, 0x15, 0xdf, 0x13, 0xb8, 0x6e, 0x07, 0xea, 0x8f],
    [0x1c, 0xc0, 0x8d, 0x67, 0x6f, 0xed, 0x3c, 0xd1, 0x76, 0x70, 0x64, 0xf3, 0x56, 0xf7, 0x82, 0x05],
    [0x7f, 0x71, 0x0f, 0xb9, 0xec, 0xd3, 0x96, 0xc7, 0x6c, 0x00, 0xa3, 0x94, 0x79, 0xc5, 0x3e, 0x43],
    [0xae, 0xa1, 0x04, 0xc9, 0x6d, 0x9f, 0x7c, 0xb3, 0x2c, 0xc3, 0xcf, 0xee, 0x80, 0x8a, 0xe6, 0x1d],
    [0x63, 0xab, 0x78, 0x2b, 0xf1, 0x30, 0x2f, 0xd0, 0x58, 0x61, 0x25, 0x4f, 0xf8, 0x9b, 0x42, 0x01],
    [0x1e, 0x16, 0xac, 0xb4, 0x5c, 0xbd, 0x73, 0xe0, 0xe2, 0x62, 0x37, 0xe7, 0x7a, 0xd2, 0x84, 0x28],
    [0x75, 0x3a, 0x18, 0x60, 0xdc, 0x0e, 0x06, 0x36, 0xad, 0xa9, 0xd8, 0x45, 0xfe, 0xef, 0x90, 0x5e],
    [0xb1, 0xe9, 0x72, 0x95, 0xdb, 0xf4, 0x0b, 0x51, 0x59, 0x46, 0x92, 0x34, 0x50, 0x6a, 0xc8, 0xd6],
    [0x20, 0x9a, 0x88, 0xfa, 0x86, 0x44, 0x19, 0x12, 0x77, 0x81, 0xb7, 0xb6, 0xd4, 0xe1, 0x48, 0x23],
    [0x74, 0x3f, 0xca, 0x32, 0x4c, 0x02, 0x89, 0x5a, 0xba, 0xfd, 0x21, 0xa2, 0x5d, 0x09, 0x6b, 0x85],
    [0x55, 0xe5, 0xb2, 0xa8, 0xdd, 0xc4, 0xa4, 0x2d, 0xf2, 0x69, 0x14, 0xe3, 0xa7, 0x22, 0xbb, 0xd5],
    [0x83, 0xda, 0x7e, 0x54, 0xb0, 0x9d, 0xb5, 0x31, 0x8c, 0x68, 0x87, 0x2a, 0x7d, 0xa5, 0x11, 0x33]]"

definition TABLE_S1_17 :: "bytes" where
  "TABLE_S1_17 = concat [
    [0x0c, 0x6f, 0x96, 0xd5, 0xf6, 0xcf, 0xd8, 0xb2, 0xa7, 0x66, 0x47, 0xb8, 0x3c, 0xf4, 0xbc, 0xef],
    [0x45, 0xed, 0xbf, 0x13, 0xf5, 0x75, 0x70, 0xa0, 0x2a, 0xcb, 0x77, 0xe4, 0x81, 0x89, 0x23, 0x3b],
    [0x78, 0x69, 0xc9, 0x07, 0x3e, 0x3a, 0xd2, 0x4f, 0x99, 0x4b, 0xa1, 0x91, 0xad, 0xe2, 0xf7, 0x8f],
    [0xfd, 0xc7, 0x41, 0x5f, 0xd1, 0xce, 0xa3, 0x05, 0x63, 0x4c, 0xc6, 0x9c, 0x7e, 0x26, 0x02, 0xe5],
    [0x76, 0x43, 0xb4, 0xdf, 0x16, 0xe0, 0x21, 0x20, 0xd3, 0x11, 0x85, 0x8e, 0x0d, 0xb7, 0x6d, 0x1f],
    [0x9e, 0xca, 0x12, 0xfc, 0x6a, 0x2d, 0x35, 0xb6, 0x95, 0xdb, 0xcd, 0x1e, 0xa8, 0xe3, 0xa5, 0x5d],
    [0xb5, 0x30, 0x42, 0x2c, 0xfe, 0x65, 0x74, 0x83, 0x53, 0x4a, 0xba, 0x33, 0x72, 0xc2, 0x3f, 0x25],
    [0x32, 0xea, 0xa4, 0x86, 0xff, 0x1b, 0xbd, 0x10, 0x0a, 0x27, 0xa6, 0x22, 0x4d, 0x14, 0xc3, 0xe9],
    [0xaa, 0x9b, 0x80, 0xcc, 0x7c, 0x55, 0xdd, 0x00, 0xd7, 0xc8, 0xd0, 0xdc, 0xc0, 0x59, 0x6e, 0xc4],
    [0x7f, 0x06, 0x04, 0x09, 0x0f, 0x37, 0x6b, 0xd9, 0x29, 0x61, 0xd6, 0x62, 0xf2, 0x51, 0x5b, 0xec],
    [0x0e, 0x9f, 0x5a, 0x4e, 0x73, 0xda, 0xbe, 0x9a, 0x56, 0x1c, 0x8d, 0x38, 0x94, 0x9d, 0x67, 0x5c],
    [0xb9, 0xac, 0x49, 0x2b, 0x8c, 0x40, 0xde, 0x19, 0x6c, 0xaf, 0x68, 0x88, 0x3d, 0xb3, 0x31, 0xae],
    [0x90, 0xf9, 0x18, 0x7d, 0x48, 0x82, 0x2f, 0x84, 0x28, 0xa2, 0xb1, 0x87, 0xc5, 0xb0, 0x0b, 0xf1],
    [0x60, 0xc1, 0x92, 0x15, 0xe7, 0xe1, 0x64, 0xf3, 0x7a, 0xf8, 0x46, 0xab, 0x57, 0x8b, 0xf0, 0x1a],
    [0x52, 0xee, 0xd4, 0xa9, 0x97, 0xfb, 0x03, 0x34, 0x44, 0x7b, 0x50, 0x01, 0xe6, 0xe8, 0x2e, 0x98],
    [0x1d, 0x17, 0x8a, 0x71, 0x54, 0xbb, 0x79, 0x58, 0x08, 0xfa, 0x24, 0xeb, 0x36, 0x39, 0x5e, 0x93]]"

definition TABLE_S1_18 :: "bytes" where
  "TABLE_S1_18 = concat [
    [0x01, 0x52, 0x1a, 0xd2, 0x56, 0xa9, 0x88, 0x49, 0x5c, 0x36, 0x21, 0x18, 0x3b, 0x78, 0x81, 0xe2],
    [0xd5, 0xcd, 0x67, 0x6f, 0x0a, 0x99, 0x25, 0xc4, 0x4e, 0x9e, 0x9b, 0x1b, 0xfd, 0x51, 0x03, 0xab],
    [0x61, 0x19, 0x0c, 0x43, 0x7f, 0x4f, 0xa5, 0x77, 0xa1, 0x3c, 0xd4, 0xd0, 0xe9, 0x27, 0x87, 0x96],
    [0x0b, 0xec, 0xc8, 0x90, 0x72, 0x28, 0xa2, 0x8d, 0xeb, 0x4d, 0x20, 0x3f, 0xb1, 0xaf, 0x29, 0x13],
    [0xf1, 0x83, 0x59, 0xe3, 0x60, 0x6b, 0xff, 0x3d, 0xce, 0xcf, 0x0e, 0xf8, 0x31, 0x5a, 0xad, 0x98],
    [0xb3, 0x4b, 0x0d, 0x46, 0xf0, 0x23, 0x35, 0x7b, 0x58, 0xdb, 0xc3, 0x84, 0x12, 0xfc, 0x24, 0x70],
    [0xcb, 0xd1, 0x2c, 0x9c, 0xdd, 0x54, 0xa4, 0xbd, 0x6d, 0x9a, 0x8b, 0x10, 0xc2, 0xac, 0xde, 0x5b],
    [0x07, 0x2d, 0xfa, 0xa3, 0xcc, 0x48, 0xc9, 0xe4, 0xfe, 0x53, 0xf5, 0x11, 0x68, 0x4a, 0x04, 0xdc],
    [0x2a, 0x80, 0xb7, 0x2e, 0x32, 0x3e, 0x26, 0x39, 0xee, 0x33, 0xbb, 0x92, 0x22, 0x6e, 0x75, 0x44],
    [0x02, 0xb5, 0xbf, 0x1c, 0x8c, 0x38, 0x8f, 0xc7, 0x37, 0x85, 0xd9, 0xe1, 0xe7, 0xea, 0xe8, 0x91],
    [0xb2, 0x89, 0x73, 0x7a, 0xd6, 0x63, 0xf2, 0xb8, 0x74, 0x50, 0x34, 0x9d, 0xa0, 0xb4, 0x71, 0xe0],
    [0x40, 0xdf, 0x5d, 0xd3, 0x66, 0x86, 0x41, 0x82, 0xf7, 0x30, 0xae, 0x62, 0xc5, 0xa7, 0x42, 0x57],
    [0x1f, 0xe5, 0x5e, 0x2b, 0x69, 0x5f, 0x4c, 0xc6, 0x6a, 0xc1, 0x6c, 0xa6, 0x93, 0xf6, 0x17, 0x7e],
    [0xf4, 0x1e, 0x65, 0xb9, 0x45, 0xa8, 0x16, 0x94, 0x1d, 0x8a, 0x0f, 0x09, 0xfb, 0x7c, 0x2f, 0x8e],
    [0x76, 0xc0, 0x06, 0x08, 0xef, 0xbe, 0x95, 0xaa, 0xda, 0xed, 0x15, 0x79, 0x47, 0x3a, 0x00, 0xbc],
    [0x7d, 0xb0, 0xd7, 0xd8, 0x05, 0xca, 0x14, 0xe6, 0xb6, 0x97, 0x55, 0xba, 0x9f, 0x64, 0xf9, 0xf3]]"

definition TABLE_S1_19 :: "bytes" where
  "TABLE_S1_19 = concat [
    [0x52, 0x53, 0x65, 0x93, 0xc7, 0xac, 0x05, 0x30, 0x1e, 0x6c, 0x7e, 0xc4, 0xf6, 0xfd, 0xa0, 0x62],
    [0x46, 0xc5, 0x19, 0x5e, 0x61, 0x8f, 0xed, 0xb9, 0xd6, 0x2e, 0xdb, 0x90, 0xbe, 0x6d, 0xe6, 0xa8],
    [0x07, 0xf0, 0x8d, 0x16, 0x31, 0x5f, 0xc6, 0x43, 0x4c, 0x56, 0x01, 0xb1, 0xc9, 0x40, 0x20, 0x39],
    [0xce, 0x63, 0x8c, 0x68, 0xd7, 0xf5, 0x41, 0x99, 0xb0, 0x9a, 0x3e, 0x67, 0xd5, 0x51, 0x79, 0x54],
    [0xab, 0xc1, 0x85, 0xbc, 0xe5, 0xa6, 0x7f, 0x1c, 0xcf, 0x9c, 0x4f, 0x87, 0x34, 0xcb, 0xd4, 0x15],
    [0x03, 0xd3, 0x86, 0x06, 0xcc, 0x60, 0x36, 0x9e, 0x50, 0x48, 0xf2, 0xfa, 0x04, 0x97, 0x59, 0xb8],
    [0xa1, 0x3c, 0x4d, 0x49, 0xba, 0x74, 0x0b, 0x1a, 0x84, 0xfc, 0xde, 0x91, 0xd2, 0xe2, 0xea, 0x38],
    [0xd0, 0x76, 0xa2, 0xbd, 0x32, 0x2c, 0x8e, 0xb4, 0x71, 0x96, 0x0d, 0x55, 0xb5, 0xef, 0x10, 0x3f],
    [0x5c, 0xf7, 0x3b, 0xf1, 0x6b, 0x0e, 0xe3, 0x8a, 0x78, 0x82, 0xb6, 0xc3, 0xc2, 0xf4, 0x5b, 0xd1],
    [0x17, 0x80, 0x94, 0x92, 0xe1, 0x66, 0x13, 0xb2, 0x83, 0x69, 0x24, 0xf8, 0x35, 0xd8, 0x09, 0x8b],
    [0x70, 0x47, 0xe4, 0x88, 0xa7, 0xda, 0x21, 0x9d, 0x5d, 0xeb, 0x95, 0x9b, 0x23, 0x72, 0x37, 0x08],
    [0x0a, 0x2b, 0x27, 0xc8, 0xf9, 0x02, 0x6e, 0x64, 0x2d, 0xe0, 0x45, 0x4a, 0x57, 0x98, 0x7b, 0x89],
    [0xae, 0x73, 0x0f, 0x26, 0xf3, 0xbf, 0xd9, 0xe8, 0x1d, 0xb7, 0xb3, 0x2a, 0xa3, 0xaf, 0xa4, 0xbb],
    [0x18, 0xaa, 0x7c, 0x44, 0x77, 0x7a, 0x0c, 0x75, 0x28, 0x9f, 0x81, 0x22, 0xa5, 0x11, 0x5a, 0x12],
    [0xcd, 0xe9, 0x00, 0xa9, 0x29, 0x3d, 0x7d, 0xec, 0x14, 0x2f, 0xe7, 0xee, 0xfe, 0x4b, 0x25, 0x6f],
    [0xad, 0x6a, 0xff, 0x33, 0x3a, 0x58, 0xca, 0xdf, 0x42, 0xdd, 0x4e, 0xc0, 0x1b, 0xfb, 0x1f, 0xdc]]"

definition TABLE_S1_20 :: "bytes" where
  "TABLE_S1_20 = concat [
    [0xab, 0x06, 0xe9, 0x0d, 0xb2, 0x90, 0x24, 0xfc, 0xd5, 0xff, 0x5b, 0x02, 0xb0, 0x34, 0x1c, 0x31],
    [0x62, 0x95, 0xe8, 0x73, 0x54, 0x3a, 0xa3, 0x26, 0x29, 0x33, 0x64, 0xd4, 0xac, 0x25, 0x45, 0x5c],
    [0x23, 0xa0, 0x7c, 0x3b, 0x04, 0xea, 0x88, 0xdc, 0xb3, 0x4b, 0xbe, 0xf5, 0xdb, 0x08, 0x83, 0xcd],
    [0x37, 0x36, 0x00, 0xf6, 0xa2, 0xc9, 0x60, 0x55, 0x7b, 0x09, 0x1b, 0xa1, 0x93, 0x98, 0xc5, 0x07],
    [0xb5, 0x13, 0xc7, 0xd8, 0x57, 0x49, 0xeb, 0xd1, 0x14, 0xf3, 0x68, 0x30, 0xd0, 0x8a, 0x75, 0x5a],
    [0xc4, 0x59, 0x28, 0x2c, 0xdf, 0x11, 0x6e, 0x7f, 0xe1, 0x99, 0xbb, 0xf4, 0xb7, 0x87, 0x8f, 0x5d],
    [0x66, 0xb6, 0xe3, 0x63, 0xa9, 0x05, 0x53, 0xfb, 0x35, 0x2d, 0x97, 0x9f, 0x61, 0xf2, 0x3c, 0xdd],
    [0xce, 0xa4, 0xe0, 0xd9, 0x80, 0xc3, 0x1a, 0x79, 0xaa, 0xf9, 0x2a, 0xe2, 0x51, 0xae, 0xb1, 0x70],
    [0x6f, 0x4e, 0x42, 0xad, 0x9c, 0x67, 0x0b, 0x01, 0x48, 0x85, 0x20, 0x2f, 0x32, 0xfd, 0x1e, 0xec],
    [0x15, 0x22, 0x81, 0xed, 0xc2, 0xbf, 0x44, 0xf8, 0x38, 0x8e, 0xf0, 0xfe, 0x46, 0x17, 0x52, 0x6d],
    [0x72, 0xe5, 0xf1, 0xf7, 0x84, 0x03, 0x76, 0xd7, 0xe6, 0x0c, 0x41, 0x9d, 0x50, 0xbd, 0x6c, 0xee],
    [0x39, 0x92, 0x5e, 0x94, 0x0e, 0x6b, 0x86, 0xef, 0x1d, 0xe7, 0xd3, 0xa6, 0xa7, 0x91, 0x3e, 0xb4],
    [0xc8, 0x0f, 0x9a, 0x56, 0x5f, 0x3d, 0xaf, 0xba, 0x27, 0xb8, 0x2b, 0xa5, 0x7e, 0x9e, 0x7a, 0xb9],
    [0xa8, 0x8c, 0x65, 0xcc, 0x4c, 0x58, 0x18, 0x89, 0x71, 0x4a, 0x82, 0x8b, 0x9b, 0x2e, 0x40, 0x0a],
    [0x7d, 0xcf, 0x19, 0x21, 0x12, 0x1f, 0x69, 0x10, 0x4d, 0xfa, 0xe4, 0x47, 0xc0, 0x74, 0x3f, 0x77],
    [0xcb, 0x16, 0x6a, 0x43, 0x96, 0xda, 0xbc, 0x8d, 0x78, 0xd2, 0xd6, 0x4f, 0xc6, 0xca, 0xc1, 0xde]]"

definition TABLE_S1_21 :: "bytes" where
  "TABLE_S1_21 = concat [
    [0xe8, 0xd3, 0x1b, 0x12, 0x02, 0xb7, 0xd9, 0x93, 0x31, 0x15, 0xfc, 0x55, 0xd5, 0xc1, 0x81, 0x10],
    [0xbe, 0x21, 0xb2, 0x3c, 0xe7, 0x07, 0xe3, 0x20, 0x51, 0x96, 0x03, 0xcf, 0xc6, 0xa4, 0x36, 0x23],
    [0xe1, 0x4b, 0x4f, 0xd6, 0x5f, 0x53, 0x58, 0x47, 0x52, 0x8f, 0xf3, 0xda, 0x0f, 0x43, 0x25, 0x14],
    [0xd4, 0x63, 0x7d, 0xde, 0x59, 0xed, 0xa6, 0xee, 0xe4, 0x56, 0x80, 0xb8, 0x8b, 0x86, 0xf0, 0x89],
    [0xa1, 0x17, 0x69, 0x67, 0xdf, 0x8e, 0xcb, 0xf4, 0x8c, 0xbb, 0x18, 0x74, 0x5b, 0x26, 0xdd, 0x61],
    [0xd1, 0x1c, 0xb9, 0xb6, 0xab, 0x64, 0x87, 0x75, 0xf6, 0xd7, 0xdb, 0x34, 0x05, 0xfe, 0x92, 0x98],
    [0x84, 0x7e, 0x4a, 0x3f, 0x3e, 0x08, 0xa7, 0x2d, 0xa0, 0x0b, 0xc7, 0x0d, 0x97, 0xf2, 0x1f, 0x76],
    [0x7f, 0x95, 0xd8, 0x04, 0xc9, 0x24, 0xf5, 0x77, 0xeb, 0x7c, 0x68, 0x6e, 0x1d, 0x9a, 0xef, 0x4e],
    [0x78, 0x00, 0x22, 0x6d, 0x2e, 0x1e, 0x16, 0xc4, 0x5d, 0xc0, 0xb1, 0xb5, 0x46, 0x88, 0xf7, 0xe6],
    [0x8d, 0x6a, 0xf1, 0xa9, 0x49, 0x13, 0xec, 0xc3, 0x2c, 0x8a, 0x5e, 0x41, 0xce, 0xd0, 0x72, 0x48],
    [0x33, 0x60, 0xb3, 0x7b, 0xc8, 0x37, 0x28, 0xe9, 0x57, 0x3d, 0x79, 0x40, 0x19, 0x5a, 0x83, 0xe0],
    [0xac, 0xb4, 0x0e, 0x06, 0xf8, 0x6b, 0xa5, 0x44, 0xff, 0x2f, 0x7a, 0xfa, 0x30, 0x9c, 0xca, 0x62],
    [0xb0, 0xaa, 0xfd, 0x4d, 0x35, 0xbc, 0xdc, 0xc5, 0xfb, 0x0c, 0x71, 0xea, 0xcd, 0xa3, 0x3a, 0xbf],
    [0x4c, 0x66, 0xc2, 0x9b, 0x29, 0xad, 0x85, 0xa8, 0x32, 0x9f, 0x70, 0x94, 0x2b, 0x09, 0xbd, 0x65],
    [0xe2, 0x90, 0x82, 0x38, 0x0a, 0x01, 0x5c, 0x9e, 0xae, 0xaf, 0x99, 0x6f, 0x3b, 0x50, 0xf9, 0xcc],
    [0x2a, 0xd2, 0x27, 0x6c, 0x42, 0x91, 0x1a, 0x54, 0xba, 0x39, 0xe5, 0xa2, 0x9d, 0x73, 0x11, 0x45]]"

definition TABLE_S1_22 :: "bytes" where
  "TABLE_S1_22 = concat [
    [0xd8, 0x96, 0x1d, 0xce, 0xe0, 0xab, 0x5e, 0xa6, 0xc9, 0x9d, 0xff, 0x11, 0x2e, 0x69, 0xb5, 0x36],
    [0x12, 0xd0, 0x8d, 0x86, 0xb4, 0x0e, 0x1c, 0x6e, 0x40, 0x75, 0xdc, 0xb7, 0xe3, 0x15, 0x23, 0x22],
    [0x24, 0x09, 0x21, 0xa5, 0x17, 0x4e, 0xea, 0xc0, 0xe9, 0x31, 0x85, 0xa7, 0x18, 0xfc, 0x13, 0xbe],
    [0x49, 0x50, 0x30, 0xb9, 0xc1, 0x71, 0x26, 0x3c, 0x33, 0xb6, 0x2f, 0x41, 0x66, 0xfd, 0x80, 0x77],
    [0xc8, 0x29, 0xe7, 0x74, 0x8a, 0x82, 0x38, 0x20, 0xee, 0x46, 0x10, 0xbc, 0x76, 0xf6, 0xa3, 0x73],
    [0x65, 0xa4, 0xbb, 0x44, 0xf7, 0x3f, 0xec, 0xbf, 0x6c, 0x0f, 0xd6, 0x95, 0xcc, 0xf5, 0xb1, 0xdb],
    [0x4f, 0x60, 0x9f, 0xc5, 0x25, 0x7d, 0xe6, 0x01, 0xc4, 0xfe, 0x5c, 0x42, 0xcd, 0xd2, 0x06, 0xa0],
    [0x48, 0x9a, 0x92, 0xa2, 0xe1, 0xae, 0x8c, 0xf4, 0x6a, 0x7b, 0x04, 0xca, 0x39, 0x3d, 0x4c, 0xd1],
    [0xfb, 0x79, 0xa8, 0x45, 0x88, 0x54, 0x19, 0xf3, 0xc2, 0x63, 0x16, 0x91, 0xe2, 0xe4, 0xf0, 0x67],
    [0xa1, 0x2b, 0x84, 0xb2, 0xb3, 0xc6, 0xf2, 0x08, 0xfa, 0x93, 0x7e, 0x1b, 0x81, 0x4b, 0x87, 0x2c],
    [0xf9, 0x0b, 0xe8, 0x27, 0x3a, 0x35, 0x90, 0x5d, 0x14, 0x1e, 0x72, 0x89, 0xb8, 0x57, 0x5b, 0x7a],
    [0x78, 0x47, 0x02, 0x53, 0xeb, 0xe5, 0x9b, 0x2d, 0xed, 0x51, 0xaa, 0xd7, 0xf8, 0x94, 0x37, 0x00],
    [0x62, 0x2a, 0x61, 0xd5, 0x52, 0xf1, 0xef, 0x58, 0x05, 0x7c, 0x0a, 0x07, 0x34, 0x0c, 0xda, 0x68],
    [0xcb, 0xd4, 0xdf, 0xd3, 0x5a, 0xc3, 0xc7, 0x6d, 0x98, 0xa9, 0xcf, 0x83, 0x56, 0x7f, 0x03, 0xde],
    [0xac, 0x6f, 0x8b, 0x6b, 0xb0, 0x3e, 0xad, 0x32, 0xaf, 0xba, 0x28, 0x4a, 0x43, 0x8f, 0x1a, 0xdd],
    [0x1f, 0x55, 0x3b, 0x8e, 0x9e, 0x97, 0x5f, 0x64, 0x9c, 0x0d, 0x4d, 0x59, 0xd9, 0x70, 0x99, 0xbd]]"

definition TABLE_S1_23 :: "bytes" where
  "TABLE_S1_23 = concat [
    [0x26, 0x7c, 0xf6, 0xd9, 0x5f, 0xb8, 0x9c, 0xc4, 0xe5, 0xfb, 0x7d, 0x47, 0xbf, 0x19, 0x74, 0x6b],
    [0x2b, 0x1b, 0xf1, 0x23, 0x35, 0x4d, 0x58, 0x17, 0xbd, 0x73, 0xd3, 0xc2, 0xf5, 0x68, 0x80, 0x84],
    [0x5e, 0xcd, 0x71, 0x90, 0x81, 0x99, 0x33, 0x3b, 0xa9, 0x05, 0x57, 0xff, 0x1a, 0xca, 0xcf, 0x4f],
    [0x02, 0xfd, 0xdc, 0x1d, 0x55, 0x06, 0x4e, 0x86, 0x6f, 0x2c, 0xd5, 0xb6, 0x08, 0x62, 0x75, 0x4c],
    [0x98, 0x1c, 0x9d, 0xb0, 0x53, 0x79, 0xae, 0xf7, 0x3c, 0x1e, 0x50, 0x88, 0xaa, 0x07, 0xa1, 0x45],
    [0x89, 0x00, 0xf0, 0xe9, 0x9f, 0x85, 0x78, 0xc8, 0x96, 0xf8, 0x8a, 0x0f, 0x39, 0xce, 0xdf, 0x44],
    [0xa4, 0x77, 0x61, 0x2f, 0xe7, 0x1f, 0x59, 0x12, 0x46, 0xa8, 0x70, 0x24, 0x0c, 0x8f, 0x97, 0xd0],
    [0x34, 0x3f, 0xab, 0x69, 0xa5, 0xd7, 0x0d, 0xb7, 0x65, 0x0e, 0xf9, 0xcc, 0x9a, 0x9b, 0x5a, 0xac],
    [0x32, 0xd2, 0x15, 0xd6, 0x14, 0x8b, 0x09, 0x87, 0x91, 0xf3, 0x16, 0x03, 0xa3, 0x64, 0xfa, 0x36],
    [0x82, 0x37, 0xa6, 0xec, 0xe6, 0xdd, 0x27, 0x2e, 0xf4, 0xe0, 0x25, 0xb4, 0x20, 0x04, 0x60, 0xc9],
    [0xd8, 0x6c, 0xdb, 0x93, 0x56, 0xe1, 0xeb, 0x48, 0xb3, 0xbe, 0xbc, 0xc5, 0x63, 0xd1, 0x8d, 0xb5],
    [0x66, 0x6a, 0x72, 0x6d, 0x7e, 0xd4, 0xe3, 0x7a, 0x76, 0x3a, 0x21, 0x10, 0xba, 0x67, 0xef, 0xc6],
    [0x51, 0x9e, 0x40, 0xb2, 0x29, 0xe4, 0x83, 0x8c, 0xcb, 0x30, 0xad, 0xa7, 0xe2, 0xc3, 0x01, 0xee],
    [0xbb, 0xea, 0xc1, 0xfe, 0x22, 0x94, 0x52, 0x5c, 0x13, 0x6e, 0x54, 0xe8, 0x8e, 0xb9, 0x41, 0x2d],
    [0x11, 0xfc, 0x42, 0xc0, 0xa0, 0x4a, 0x31, 0xed, 0xaf, 0x28, 0x7b, 0xda, 0x49, 0xde, 0x5b, 0x5d],
    [0x3d, 0x0b, 0x18, 0x92, 0x4b, 0xb1, 0x0a, 0x7f, 0xc7, 0xa2, 0x43, 0x2a, 0x3e, 0x95, 0x38, 0xf2]]"

definition TABLE_S1_24 :: "bytes" where
  "TABLE_S1_24 = concat [
    [0xe9, 0xe1, 0x5b, 0x43, 0xab, 0x4a, 0x84, 0x17, 0x15, 0x95, 0xc0, 0x10, 0x8d, 0x25, 0x73, 0xdf],
    [0x94, 0x5c, 0x8f, 0xdc, 0x06, 0xc7, 0xd8, 0x27, 0xaf, 0x96, 0xd2, 0xb8, 0x0f, 0x6c, 0xb5, 0xf6],
    [0x46, 0x1e, 0x85, 0x62, 0x2c, 0x03, 0xfc, 0xa6, 0xae, 0xb1, 0x65, 0xc3, 0xa7, 0x9d, 0x3f, 0x21],
    [0x82, 0xcd, 0xef, 0x97, 0x2b, 0xf9, 0xf1, 0xc1, 0x5a, 0x5e, 0x2f, 0xb2, 0x09, 0x18, 0x67, 0xa9],
    [0x83, 0xc8, 0x3d, 0xc5, 0xbb, 0xf5, 0x7e, 0xad, 0x4d, 0x0a, 0xd6, 0x55, 0xaa, 0xfe, 0x9c, 0x72],
    [0xd7, 0x6d, 0x7f, 0x0d, 0x71, 0xb3, 0xee, 0xe5, 0x80, 0x76, 0x40, 0x41, 0x23, 0x16, 0xbf, 0xd4],
    [0x74, 0x2d, 0x89, 0xa3, 0x47, 0x6a, 0x42, 0xc6, 0x7b, 0x9f, 0x70, 0xdd, 0x8a, 0x52, 0xe6, 0xc4],
    [0xa2, 0x12, 0x45, 0x5f, 0x2a, 0x33, 0x53, 0xda, 0x05, 0x9e, 0xe3, 0x14, 0x50, 0xd5, 0x4c, 0x22],
    [0x31, 0x92, 0x8c, 0x3b, 0x01, 0x49, 0x02, 0xb6, 0x57, 0x6f, 0xb9, 0x0b, 0x66, 0x1f, 0x69, 0x64],
    [0x39, 0xa0, 0xa4, 0x0e, 0xa8, 0xb7, 0xbc, 0xb0, 0x35, 0x1c, 0x60, 0xbd, 0xfb, 0xca, 0xac, 0xe0],
    [0xd3, 0x5d, 0xce, 0x51, 0xcf, 0x0c, 0xe8, 0x08, 0x20, 0xec, 0x79, 0xbe, 0xcc, 0xd9, 0x4b, 0x29],
    [0xfd, 0xf4, 0x3c, 0x07, 0x7c, 0x36, 0x58, 0xed, 0xba, 0x13, 0xfa, 0xde, 0xff, 0x6e, 0x2e, 0x3a],
    [0xeb, 0x37, 0x7a, 0x90, 0x98, 0x1a, 0xcb, 0x26, 0x81, 0x87, 0x93, 0x04, 0xa1, 0x00, 0x75, 0xf2],
    [0xd0, 0xa5, 0x91, 0x6b, 0xc2, 0x48, 0xe7, 0xd1, 0xe2, 0x28, 0xe4, 0x4f, 0x99, 0xf0, 0x1d, 0x78],
    [0x59, 0x56, 0xf3, 0x3e, 0x9a, 0x68, 0x8b, 0x44, 0xdb, 0x34, 0x38, 0x19, 0x77, 0x7d, 0x11, 0xea],
    [0x88, 0x86, 0xf8, 0x4e, 0x1b, 0x24, 0x61, 0x30, 0x9b, 0xf7, 0x54, 0x63, 0x8e, 0x32, 0xc9, 0xb4]]"

definition TABLE_S1_25 :: "bytes" where
  "TABLE_S1_25 = concat [
    [0x41, 0x0b, 0x65, 0xd0, 0xc0, 0xc9, 0x01, 0x3a, 0xc2, 0x53, 0x13, 0x07, 0x87, 0x2e, 0xc7, 0xe3],
    [0xf2, 0x31, 0xd5, 0x35, 0xee, 0x60, 0xf3, 0x6c, 0xf1, 0xe4, 0x76, 0x14, 0x1d, 0xd1, 0x44, 0x83],
    [0x95, 0x8a, 0x81, 0x8d, 0x04, 0x9d, 0x99, 0x33, 0xc6, 0xf7, 0x91, 0xdd, 0x08, 0x21, 0x5d, 0x80],
    [0x3c, 0x74, 0x3f, 0x8b, 0x0c, 0xaf, 0xb1, 0x06, 0x5b, 0x22, 0x54, 0x59, 0x6a, 0x52, 0x84, 0x36],
    [0x26, 0x19, 0x5c, 0x0d, 0xb5, 0xbb, 0xc5, 0x73, 0xb3, 0x0f, 0xf4, 0x89, 0xa6, 0xca, 0x69, 0x5e],
    [0xa7, 0x55, 0xb6, 0x79, 0x64, 0x6b, 0xce, 0x03, 0x4a, 0x40, 0x2c, 0xd7, 0xe6, 0x09, 0x05, 0x24],
    [0xff, 0x75, 0xda, 0xec, 0xed, 0x98, 0xac, 0x56, 0xa4, 0xcd, 0x20, 0x45, 0xdf, 0x15, 0xd9, 0x72],
    [0xa5, 0x27, 0xf6, 0x1b, 0xd6, 0x0a, 0x47, 0xad, 0x9c, 0x3d, 0x48, 0xcf, 0xbc, 0xba, 0xae, 0x39],
    [0x16, 0xc4, 0xcc, 0xfc, 0xbf, 0xf0, 0xd2, 0xaa, 0x34, 0x25, 0x5a, 0x94, 0x67, 0x63, 0x12, 0x8f],
    [0x11, 0x3e, 0xc1, 0x9b, 0x7b, 0x23, 0xb8, 0x5f, 0x9a, 0xa0, 0x02, 0x1c, 0x93, 0x8c, 0x58, 0xfe],
    [0x3b, 0xfa, 0xe5, 0x1a, 0xa9, 0x61, 0xb2, 0xe1, 0x32, 0x51, 0x88, 0xcb, 0x92, 0xab, 0xef, 0x85],
    [0x96, 0x77, 0xb9, 0x2a, 0xd4, 0xdc, 0x66, 0x7e, 0xb0, 0x18, 0x4e, 0xe2, 0x28, 0xa8, 0xfd, 0x2d],
    [0x17, 0x0e, 0x6e, 0xe7, 0x9f, 0x2f, 0x78, 0x62, 0x6d, 0xe8, 0x71, 0x1f, 0x38, 0xa3, 0xde, 0x29],
    [0x7a, 0x57, 0x7f, 0xfb, 0x49, 0x10, 0xb4, 0x9e, 0xb7, 0x6f, 0xdb, 0xf9, 0x46, 0xa2, 0x4d, 0xe0],
    [0x4c, 0x8e, 0xd3, 0xd8, 0xea, 0x50, 0x42, 0x30, 0x1e, 0x2b, 0x82, 0xe9, 0xbd, 0x4b, 0x7d, 0x7c],
    [0x86, 0xc8, 0x43, 0x90, 0xbe, 0xf5, 0x00, 0xf8, 0x97, 0xc3, 0xa1, 0x4f, 0x70, 0x37, 0xeb, 0x68]]"

definition TABLE_S1_26 :: "bytes" where
  "TABLE_S1_26 = concat [
    [0xc2, 0xab, 0x46, 0x23, 0xb9, 0x73, 0xbf, 0x14, 0x99, 0x13, 0xbc, 0x8a, 0x8b, 0xfe, 0xca, 0x30],
    [0xfa, 0x5b, 0x2e, 0xa9, 0xda, 0xdc, 0xc8, 0x5f, 0xc3, 0x41, 0x90, 0x7d, 0xb0, 0x6c, 0x21, 0xcb],
    [0xd5, 0x69, 0x92, 0xef, 0xc0, 0xac, 0x0f, 0x38, 0x40, 0x7f, 0x3a, 0x6b, 0xd3, 0xdd, 0xa3, 0x15],
    [0x2c, 0x26, 0x4a, 0xb1, 0x80, 0x6f, 0x63, 0x42, 0xc1, 0x33, 0xd0, 0x1f, 0x02, 0x0d, 0xa8, 0x65],
    [0xa0, 0x91, 0xf7, 0xbb, 0x6e, 0x47, 0x3b, 0xe6, 0xf3, 0xec, 0xe7, 0xeb, 0x62, 0xfb, 0xff, 0x55],
    [0x3d, 0x44, 0x32, 0x3f, 0x0c, 0x34, 0xe2, 0x50, 0x5a, 0x12, 0x59, 0xed, 0x6a, 0xc9, 0xd7, 0x60],
    [0xa4, 0x35, 0x75, 0x61, 0xe1, 0x48, 0xa1, 0x85, 0x27, 0x6d, 0x03, 0xb6, 0xa6, 0xaf, 0x67, 0x5c],
    [0x97, 0x82, 0x10, 0x72, 0x7b, 0xb7, 0x22, 0xe5, 0x94, 0x57, 0xb3, 0x53, 0x88, 0x06, 0x95, 0x0a],
    [0x78, 0x4d, 0xe4, 0x8f, 0xdb, 0x2d, 0x1b, 0x1a, 0x2a, 0xe8, 0xb5, 0xbe, 0x8c, 0x36, 0x24, 0x56],
    [0xf1, 0xa5, 0xc7, 0x29, 0x16, 0x51, 0x8d, 0x0e, 0xe0, 0xae, 0x25, 0xf6, 0xd8, 0x93, 0x66, 0x9e],
    [0x0b, 0x8e, 0x17, 0x79, 0x5e, 0xc5, 0xb8, 0x4f, 0x71, 0x68, 0x08, 0x81, 0xf9, 0x49, 0x1e, 0x04],
    [0xd1, 0x09, 0xbd, 0x9f, 0x20, 0xc4, 0x2b, 0x86, 0x1c, 0x31, 0x19, 0x9d, 0x2f, 0x76, 0xd2, 0xf8],
    [0x54, 0x37, 0xee, 0xad, 0xf4, 0xcd, 0x89, 0xe3, 0x5d, 0x9c, 0x83, 0x7c, 0xcf, 0x07, 0xd4, 0x87],
    [0xd6, 0x7e, 0x28, 0x84, 0x4e, 0xce, 0x9b, 0x4b, 0xf0, 0x11, 0xdf, 0x4c, 0xb2, 0xba, 0x00, 0x18],
    [0x52, 0x43, 0x3c, 0xf2, 0x01, 0x05, 0x74, 0xe9, 0x70, 0xa2, 0xaa, 0x9a, 0xd9, 0x96, 0xb4, 0xcc],
    [0xfc, 0xc6, 0x64, 0x7a, 0xf5, 0xea, 0x3e, 0x98, 0x77, 0x58, 0xa7, 0xfd, 0x1d, 0x45, 0xde, 0x39]]"

definition TABLE_S1_27 :: "bytes" where
  "TABLE_S1_27 = concat [
    [0xa3, 0xa9, 0x34, 0xcf, 0xea, 0x05, 0xc7, 0xe6, 0xb6, 0x44, 0x9a, 0x55, 0x88, 0x87, 0xe0, 0x2d],
    [0xec, 0x50, 0x6a, 0x17, 0x29, 0x45, 0xbd, 0x8a, 0xfa, 0xc5, 0xee, 0xbf, 0x58, 0x56, 0x90, 0x26],
    [0xde, 0x7f, 0x2c, 0xab, 0x59, 0x5f, 0xda, 0x4d, 0xc4, 0x46, 0xf8, 0x15, 0xe9, 0x35, 0x4e, 0xa4],
    [0x2e, 0x47, 0xa6, 0xc3, 0xf6, 0x3c, 0x91, 0x3a, 0x96, 0x1c, 0x0f, 0x39, 0x7b, 0x0e, 0xb5, 0x4f],
    [0x07, 0x12, 0xf7, 0x95, 0x32, 0xfe, 0x60, 0xa7, 0xd2, 0x11, 0xd6, 0x36, 0x83, 0x0d, 0x8f, 0x10],
    [0xb0, 0x21, 0xe4, 0xf0, 0xcd, 0x64, 0x00, 0x24, 0xe8, 0xa2, 0x33, 0x86, 0x2a, 0x23, 0xd9, 0xe2],
    [0xc1, 0xb8, 0xba, 0xb7, 0xb1, 0x89, 0xd5, 0x67, 0x97, 0xdf, 0x68, 0xdc, 0x4c, 0xef, 0xe5, 0x52],
    [0x14, 0x25, 0x3e, 0x72, 0xc2, 0xeb, 0x63, 0xbe, 0x69, 0x76, 0x6e, 0x62, 0x7e, 0xe7, 0xd0, 0x7a],
    [0x8c, 0x54, 0x1a, 0x38, 0x41, 0xa5, 0x03, 0xae, 0xb4, 0x99, 0x18, 0x9c, 0xf3, 0xaa, 0x7d, 0x57],
    [0x0b, 0x8e, 0xfc, 0x92, 0x40, 0xdb, 0xca, 0x3d, 0xed, 0xf4, 0x04, 0x8d, 0xcc, 0x7c, 0x81, 0x9b],
    [0x20, 0x74, 0xac, 0x42, 0xd4, 0x93, 0x8b, 0x08, 0x2b, 0x65, 0x73, 0xa0, 0x16, 0x5d, 0x1b, 0xe3],
    [0xc8, 0xfd, 0x0a, 0x61, 0xa8, 0x5e, 0x9f, 0x9e, 0x6d, 0xaf, 0x3b, 0x30, 0xb3, 0x09, 0xd3, 0xa1],
    [0x43, 0x79, 0xff, 0xe1, 0x6f, 0x70, 0x1d, 0xbb, 0xdd, 0xf2, 0x78, 0x22, 0xc0, 0x98, 0xbc, 0x5b],
    [0xc6, 0xd7, 0x77, 0xb9, 0x80, 0x84, 0x6c, 0xf1, 0x27, 0xf5, 0x1f, 0x2f, 0x13, 0x5c, 0x49, 0x31],
    [0xfb, 0x53, 0x01, 0xad, 0x4b, 0xcb, 0xce, 0x1e, 0x94, 0x75, 0xc9, 0x5a, 0x3f, 0x37, 0x9d, 0x85],
    [0xb2, 0xd1, 0x28, 0x6b, 0x48, 0x71, 0x66, 0x0c, 0x19, 0xd8, 0xf9, 0x06, 0x82, 0x4a, 0x02, 0x51]]"

definition TABLE_S1_28 :: "bytes" where
  "TABLE_S1_28 = concat [
    [0xe8, 0xcc, 0x25, 0x8c, 0x0c, 0x18, 0x58, 0xc9, 0x31, 0x0a, 0xc2, 0xcb, 0xdb, 0x6e, 0x00, 0x4a],
    [0x88, 0x4f, 0xda, 0x16, 0x1f, 0x7d, 0xef, 0xfa, 0x67, 0xf8, 0x6b, 0xe5, 0x3e, 0xde, 0x3a, 0xf9],
    [0x8b, 0x56, 0x2a, 0x03, 0xd6, 0x9a, 0xfc, 0xcd, 0x38, 0x92, 0x96, 0x0f, 0x86, 0x8a, 0x81, 0x9e],
    [0x3d, 0x8f, 0x59, 0x61, 0x52, 0x5f, 0x29, 0x50, 0x0d, 0xba, 0xa4, 0x07, 0x80, 0x34, 0x7f, 0x37],
    [0x55, 0x62, 0xc1, 0xad, 0x82, 0xff, 0x04, 0xb8, 0x78, 0xce, 0xb0, 0xbe, 0x06, 0x57, 0x12, 0x2d],
    [0x2f, 0x0e, 0x02, 0xed, 0xdc, 0x27, 0x4b, 0x41, 0x08, 0xc5, 0x60, 0x6f, 0x72, 0xbd, 0x5e, 0xac],
    [0x79, 0xd2, 0x1e, 0xd4, 0x4e, 0x2b, 0xc6, 0xaf, 0x5d, 0xa7, 0x93, 0xe6, 0xe7, 0xd1, 0x7e, 0xf4],
    [0x32, 0xa5, 0xb1, 0xb7, 0xc4, 0x43, 0x36, 0x97, 0xa6, 0x4c, 0x01, 0xdd, 0x10, 0xfd, 0x2c, 0xae],
    [0x84, 0x19, 0x68, 0x6c, 0x9f, 0x51, 0x2e, 0x3f, 0xa1, 0xd9, 0xfb, 0xb4, 0xf7, 0xc7, 0xcf, 0x1d],
    [0xf5, 0x53, 0x87, 0x98, 0x17, 0x09, 0xab, 0x91, 0x54, 0xb3, 0x28, 0x70, 0x90, 0xca, 0x35, 0x1a],
    [0x8e, 0xe4, 0xa0, 0x99, 0xc0, 0x83, 0x5a, 0x39, 0xea, 0xb9, 0x6a, 0xa2, 0x11, 0xee, 0xf1, 0x30],
    [0x26, 0xf6, 0xa3, 0x23, 0xe9, 0x45, 0x13, 0xbb, 0x75, 0x6d, 0xd7, 0xdf, 0x21, 0xb2, 0x7c, 0x9d],
    [0x22, 0xd5, 0xa8, 0x33, 0x14, 0x7a, 0xe3, 0x66, 0x69, 0x73, 0x24, 0x94, 0xec, 0x65, 0x05, 0x1c],
    [0xeb, 0x46, 0xa9, 0x4d, 0xf2, 0xd0, 0x64, 0xbc, 0x95, 0xbf, 0x1b, 0x42, 0xf0, 0x74, 0x5c, 0x71],
    [0x77, 0x76, 0x40, 0xb6, 0xe2, 0x89, 0x20, 0x15, 0x3b, 0x49, 0x5b, 0xe1, 0xd3, 0xd8, 0x85, 0x47],
    [0x63, 0xe0, 0x3c, 0x7b, 0x44, 0xaa, 0xc8, 0x9c, 0xf3, 0x0b, 0xfe, 0xb5, 0x9b, 0x48, 0xc3, 0x8d]]"

definition TABLE_S1_29 :: "bytes" where
  "TABLE_S1_29 = concat [
    [0x66, 0x2e, 0x65, 0xd1, 0x56, 0xf5, 0xeb, 0x5c, 0x01, 0x78, 0x0e, 0x03, 0x30, 0x08, 0xde, 0x6c],
    [0xcf, 0xd0, 0xdb, 0xd7, 0x5e, 0xc7, 0xc3, 0x69, 0x9c, 0xad, 0xcb, 0x87, 0x52, 0x7b, 0x07, 0xda],
    [0xa8, 0x6b, 0x8f, 0x6f, 0xb4, 0x3a, 0xa9, 0x36, 0xab, 0xbe, 0x2c, 0x4e, 0x47, 0x8b, 0x1e, 0xd9],
    [0x1b, 0x51, 0x3f, 0x8a, 0x9a, 0x93, 0x5b, 0x60, 0x98, 0x09, 0x49, 0x5d, 0xdd, 0x74, 0x9d, 0xb9],
    [0xff, 0x7d, 0xac, 0x41, 0x8c, 0x50, 0x1d, 0xf7, 0xc6, 0x67, 0x12, 0x95, 0xe6, 0xe0, 0xf4, 0x63],
    [0xa5, 0x2f, 0x80, 0xb6, 0xb7, 0xc2, 0xf6, 0x0c, 0xfe, 0x97, 0x7a, 0x1f, 0x85, 0x4f, 0x83, 0x28],
    [0xfd, 0x0f, 0xec, 0x23, 0x3e, 0x31, 0x94, 0x59, 0x10, 0x1a, 0x76, 0x8d, 0xbc, 0x53, 0x5f, 0x7e],
    [0x7c, 0x43, 0x06, 0x57, 0xef, 0xe1, 0x9f, 0x29, 0xe9, 0x55, 0xae, 0xd3, 0xfc, 0x90, 0x33, 0x04],
    [0xcc, 0x2d, 0xe3, 0x70, 0x8e, 0x86, 0x3c, 0x24, 0xea, 0x42, 0x14, 0xb8, 0x72, 0xf2, 0xa7, 0x77],
    [0x61, 0xa0, 0xbf, 0x40, 0xf3, 0x3b, 0xe8, 0xbb, 0x68, 0x0b, 0xd2, 0x91, 0xc8, 0xf1, 0xb5, 0xdf],
    [0x4b, 0x64, 0x9b, 0xc1, 0x21, 0x79, 0xe2, 0x05, 0xc0, 0xfa, 0x58, 0x46, 0xc9, 0xd6, 0x02, 0xa4],
    [0x4c, 0x9e, 0x96, 0xa6, 0xe5, 0xaa, 0x88, 0xf0, 0x6e, 0x7f, 0x00, 0xce, 0x3d, 0x39, 0x48, 0xd5],
    [0xdc, 0x92, 0x19, 0xca, 0xe4, 0xaf, 0x5a, 0xa2, 0xcd, 0x99, 0xfb, 0x15, 0x2a, 0x6d, 0xb1, 0x32],
    [0x16, 0xd4, 0x89, 0x82, 0xb0, 0x0a, 0x18, 0x6a, 0x44, 0x71, 0xd8, 0xb3, 0xe7, 0x11, 0x27, 0x26],
    [0x20, 0x0d, 0x25, 0xa1, 0x13, 0x4a, 0xee, 0xc4, 0xed, 0x35, 0x81, 0xa3, 0x1c, 0xf8, 0x17, 0xba],
    [0x4d, 0x54, 0x34, 0xbd, 0xc5, 0x75, 0x22, 0x38, 0x37, 0xb2, 0x2b, 0x45, 0x62, 0xf9, 0x84, 0x73]]"

definition TABLE_S1_30 :: "bytes" where
  "TABLE_S1_30 = concat [
    [0xec, 0x24, 0x6c, 0x3f, 0x77, 0xb6, 0x97, 0x68, 0x26, 0x1f, 0x08, 0x62, 0xdc, 0xbf, 0x46, 0x05],
    [0x51, 0x59, 0xf3, 0xeb, 0xfa, 0x1b, 0xa7, 0x34, 0x25, 0xa5, 0xa0, 0x70, 0x95, 0x3d, 0x6f, 0xc3],
    [0x7d, 0x32, 0x27, 0x5f, 0x49, 0x9b, 0x71, 0x41, 0xee, 0xea, 0x02, 0x9f, 0xa8, 0xb9, 0x19, 0xd7],
    [0xae, 0xf6, 0xd2, 0x35, 0xb3, 0x9c, 0x16, 0x4c, 0x01, 0x1e, 0x73, 0xd5, 0x2d, 0x17, 0x91, 0x8f],
    [0xdd, 0x67, 0xbd, 0xcf, 0x03, 0xc1, 0x55, 0x5e, 0xc6, 0x30, 0xf1, 0xf0, 0xa6, 0x93, 0x64, 0x0f],
    [0x78, 0x33, 0x75, 0x8d, 0x45, 0x0b, 0x1d, 0xce, 0xba, 0xfd, 0xe5, 0x66, 0x4e, 0x1a, 0xc2, 0x2c],
    [0xa2, 0x12, 0xef, 0xf5, 0x83, 0x9a, 0x6a, 0xe3, 0x2e, 0xb5, 0xa4, 0x53, 0x65, 0xe0, 0x92, 0xfc],
    [0x9d, 0xc4, 0x13, 0x39, 0xda, 0xf7, 0x76, 0xf2, 0x2f, 0xcb, 0x6d, 0xc0, 0xe2, 0x3a, 0x74, 0x56],
    [0x10, 0x89, 0xbe, 0x14, 0x07, 0x18, 0x00, 0x0c, 0xac, 0x85, 0x0d, 0xd0, 0x7a, 0x4b, 0x50, 0x1c],
    [0x22, 0x81, 0x8b, 0x3c, 0xf9, 0xb1, 0x06, 0xb2, 0xdf, 0xe7, 0xbb, 0x09, 0xaf, 0xd6, 0xd4, 0xd9],
    [0x44, 0x4d, 0xb7, 0x8c, 0x86, 0xcc, 0x5d, 0xe8, 0xa3, 0x0a, 0x6e, 0x4a, 0xde, 0x4f, 0x8a, 0x9e],
    [0xed, 0x63, 0xe1, 0x7e, 0xbc, 0x7f, 0xb8, 0x58, 0x5c, 0x90, 0x0e, 0xc9, 0x69, 0x7c, 0x99, 0xfb],
    [0x15, 0x60, 0xdb, 0x21, 0xf8, 0x72, 0x61, 0x57, 0x98, 0x52, 0xff, 0x54, 0x40, 0x29, 0xc8, 0xad],
    [0x87, 0x5b, 0x20, 0xca, 0xaa, 0x28, 0x96, 0x7b, 0x37, 0x31, 0xb4, 0x23, 0xb0, 0x11, 0x42, 0xc5],
    [0x36, 0x38, 0xfe, 0x48, 0x94, 0xab, 0x80, 0xd1, 0x47, 0x2b, 0xd3, 0xe4, 0x82, 0x3e, 0x04, 0x79],
    [0xe6, 0xe9, 0x8e, 0x43, 0xd8, 0x2a, 0xf4, 0x3b, 0x84, 0x6b, 0xa9, 0x88, 0xcd, 0xc7, 0x5a, 0xa1]]"

definition TABLE_S1_31 :: "bytes" where
  "TABLE_S1_31 = concat [
    [0x42, 0x90, 0x98, 0xa8, 0xeb, 0xa4, 0x86, 0xfe, 0x60, 0x71, 0x0e, 0xc0, 0x33, 0x37, 0x46, 0xdb],
    [0x45, 0x6a, 0x95, 0xcf, 0x2f, 0x77, 0xec, 0x0b, 0xce, 0xf4, 0x56, 0x48, 0xc7, 0xd8, 0x0c, 0xaa],
    [0x6f, 0xae, 0xb1, 0x4e, 0xfd, 0x35, 0xe6, 0xb5, 0x66, 0x05, 0xdc, 0x9f, 0xc6, 0xff, 0xbb, 0xd1],
    [0xc2, 0x23, 0xed, 0x7e, 0x80, 0x88, 0x32, 0x2a, 0xe4, 0x4c, 0x1a, 0xb6, 0x7c, 0xfc, 0xa9, 0x79],
    [0x43, 0x5a, 0x3a, 0xb3, 0xcb, 0x7b, 0x2c, 0x36, 0x39, 0xbc, 0x25, 0x4b, 0x6c, 0xf7, 0x8a, 0x7d],
    [0x2e, 0x03, 0x2b, 0xaf, 0x1d, 0x44, 0xe0, 0xca, 0xe3, 0x3b, 0x8f, 0xad, 0x12, 0xf6, 0x19, 0xb4],
    [0x18, 0xda, 0x87, 0x8c, 0xbe, 0x04, 0x16, 0x64, 0x4a, 0x7f, 0xd6, 0xbd, 0xe9, 0x1f, 0x29, 0x28],
    [0xd2, 0x9c, 0x17, 0xc4, 0xea, 0xa1, 0x54, 0xac, 0xc3, 0x97, 0xf5, 0x1b, 0x24, 0x63, 0xbf, 0x3c],
    [0x15, 0x5f, 0x31, 0x84, 0x94, 0x9d, 0x55, 0x6e, 0x96, 0x07, 0x47, 0x53, 0xd3, 0x7a, 0x93, 0xb7],
    [0xa6, 0x65, 0x81, 0x61, 0xba, 0x34, 0xa7, 0x38, 0xa5, 0xb0, 0x22, 0x40, 0x49, 0x85, 0x10, 0xd7],
    [0xc1, 0xde, 0xd5, 0xd9, 0x50, 0xc9, 0xcd, 0x67, 0x92, 0xa3, 0xc5, 0x89, 0x5c, 0x75, 0x09, 0xd4],
    [0x68, 0x20, 0x6b, 0xdf, 0x58, 0xfb, 0xe5, 0x52, 0x0f, 0x76, 0x00, 0x0d, 0x3e, 0x06, 0xd0, 0x62],
    [0x72, 0x4d, 0x08, 0x59, 0xe1, 0xef, 0x91, 0x27, 0xe7, 0x5b, 0xa0, 0xdd, 0xf2, 0x9e, 0x3d, 0x0a],
    [0xf3, 0x01, 0xe2, 0x2d, 0x30, 0x3f, 0x9a, 0x57, 0x1e, 0x14, 0x78, 0x83, 0xb2, 0x5d, 0x51, 0x70],
    [0xab, 0x21, 0x8e, 0xb8, 0xb9, 0xcc, 0xf8, 0x02, 0xf0, 0x99, 0x74, 0x11, 0x8b, 0x41, 0x8d, 0x26],
    [0xf1, 0x73, 0xa2, 0x4f, 0x82, 0x5e, 0x13, 0xf9, 0xc8, 0x69, 0x1c, 0x9b, 0xe8, 0xee, 0xfa, 0x6d]]"

definition TABLE_S1_32 :: "bytes" where
  "TABLE_S1_32 = concat [
    [0x66, 0x21, 0xfd, 0x7e, 0x81, 0xd5, 0xb7, 0x59, 0xa8, 0xe3, 0x16, 0xee, 0x90, 0xde, 0x55, 0x86],
    [0xab, 0x5d, 0x6b, 0x6a, 0x08, 0x3d, 0x94, 0xff, 0xfc, 0x46, 0x54, 0x26, 0x5a, 0x98, 0xc5, 0xce],
    [0x50, 0xb4, 0x5b, 0xf6, 0xa1, 0x79, 0xcd, 0xef, 0x5f, 0x06, 0xa2, 0x88, 0x6c, 0x41, 0x69, 0xed],
    [0x2e, 0xb5, 0xc8, 0x3f, 0x7b, 0xfe, 0x67, 0x09, 0x89, 0x39, 0x6e, 0x74, 0x01, 0x18, 0x78, 0xf1],
    [0x3e, 0xbe, 0xeb, 0x3b, 0xa6, 0x0e, 0x58, 0xf4, 0xc2, 0xca, 0x70, 0x68, 0x80, 0x61, 0xaf, 0x3c],
    [0x84, 0xbd, 0xf9, 0x93, 0x24, 0x47, 0x9e, 0xdd, 0xbf, 0x77, 0xa4, 0xf7, 0x2d, 0xec, 0xf3, 0x0c],
    [0x85, 0x9a, 0x4e, 0xe8, 0x8c, 0xb6, 0x14, 0x0a, 0x6d, 0x35, 0xae, 0x49, 0x07, 0x28, 0xd7, 0x8d],
    [0x71, 0x75, 0x04, 0x99, 0x22, 0x33, 0x4c, 0x82, 0xa9, 0xe6, 0xc4, 0xbc, 0x00, 0xd2, 0xda, 0xea],
    [0xaa, 0xac, 0xb8, 0x2f, 0x8a, 0x2b, 0x5e, 0xd9, 0xc0, 0x1c, 0x51, 0xbb, 0xb3, 0x31, 0xe0, 0x0d],
    [0xc9, 0x03, 0xcf, 0x64, 0xb2, 0xdb, 0x36, 0x53, 0xfb, 0x8e, 0xba, 0x40, 0xe9, 0x63, 0xcc, 0xfa],
    [0xf0, 0x1f, 0x13, 0x32, 0x5c, 0x56, 0x3a, 0xc1, 0x72, 0x7d, 0xd8, 0x15, 0xb1, 0x43, 0xa0, 0x6f],
    [0xb0, 0xdc, 0x7f, 0x48, 0xa5, 0x19, 0xe2, 0x9f, 0xa3, 0xad, 0xd3, 0x65, 0x30, 0x0f, 0x4a, 0x1b],
    [0x7c, 0x44, 0x92, 0x20, 0x4d, 0x34, 0x42, 0x4f, 0x1a, 0xb9, 0xa7, 0x10, 0x2a, 0x62, 0x29, 0x9d],
    [0x1e, 0x37, 0x4b, 0x96, 0xd0, 0xe1, 0x87, 0xcb, 0x12, 0x8b, 0x8f, 0x25, 0x83, 0x9c, 0x97, 0x9b],
    [0x0b, 0xc7, 0x52, 0x95, 0xe7, 0xf2, 0x60, 0x02, 0xf8, 0x76, 0xe5, 0x7a, 0xe4, 0x27, 0xc3, 0x23],
    [0x91, 0x38, 0xd1, 0xf5, 0xd4, 0x45, 0x05, 0x11, 0xd6, 0xdf, 0x17, 0x2c, 0x57, 0x1d, 0x73, 0xc6]]"

definition TABLE_S1_33 :: "bytes" where
  "TABLE_S1_33 = concat [
    [0xc1, 0x99, 0xbd, 0x5a, 0xdc, 0xf3, 0x79, 0x23, 0x6e, 0x71, 0x1c, 0xba, 0x42, 0x78, 0xfe, 0xe0],
    [0x12, 0x5d, 0x48, 0x30, 0x26, 0xf4, 0x1e, 0x2e, 0x81, 0x85, 0x6d, 0xf0, 0xc7, 0xd6, 0x76, 0xb8],
    [0x3e, 0x36, 0x9c, 0x84, 0x95, 0x74, 0xc8, 0x5b, 0x4a, 0xca, 0xcf, 0x1f, 0xfa, 0x52, 0x00, 0xac],
    [0x83, 0x4b, 0x03, 0x50, 0x18, 0xd9, 0xf8, 0x07, 0x49, 0x70, 0x67, 0x0d, 0xb3, 0xd0, 0x29, 0x6a],
    [0xf2, 0xab, 0x7c, 0x56, 0xb5, 0x98, 0x19, 0x9d, 0x40, 0xa4, 0x02, 0xaf, 0x8d, 0x55, 0x1b, 0x39],
    [0xcd, 0x7d, 0x80, 0x9a, 0xec, 0xf5, 0x05, 0x8c, 0x41, 0xda, 0xcb, 0x3c, 0x0a, 0x8f, 0xfd, 0x93],
    [0x17, 0x5c, 0x1a, 0xe2, 0x2a, 0x64, 0x72, 0xa1, 0xd5, 0x92, 0x8a, 0x09, 0x21, 0x75, 0xad, 0x43],
    [0xb2, 0x08, 0xd2, 0xa0, 0x6c, 0xae, 0x3a, 0x31, 0xa9, 0x5f, 0x9e, 0x9f, 0xc9, 0xfc, 0x0b, 0x60],
    [0x82, 0x0c, 0x8e, 0x11, 0xd3, 0x10, 0xd7, 0x37, 0x33, 0xff, 0x61, 0xa6, 0x06, 0x13, 0xf6, 0x94],
    [0x2b, 0x22, 0xd8, 0xe3, 0xe9, 0xa3, 0x32, 0x87, 0xcc, 0x65, 0x01, 0x25, 0xb1, 0x20, 0xe5, 0xf1],
    [0x4d, 0xee, 0xe4, 0x53, 0x96, 0xde, 0x69, 0xdd, 0xb0, 0x88, 0xd4, 0x66, 0xc0, 0xb9, 0xbb, 0xb6],
    [0x7f, 0xe6, 0xd1, 0x7b, 0x68, 0x77, 0x6f, 0x63, 0xc3, 0xea, 0x62, 0xbf, 0x15, 0x24, 0x3f, 0x73],
    [0x89, 0x86, 0xe1, 0x2c, 0xb7, 0x45, 0x9b, 0x54, 0xeb, 0x04, 0xc6, 0xe7, 0xa2, 0xa8, 0x35, 0xce],
    [0x59, 0x57, 0x91, 0x27, 0xfb, 0xc4, 0xef, 0xbe, 0x28, 0x44, 0xbc, 0x8b, 0xed, 0x51, 0x6b, 0x16],
    [0xe8, 0x34, 0x4f, 0xa5, 0xc5, 0x47, 0xf9, 0x14, 0x58, 0x5e, 0xdb, 0x4c, 0xdf, 0x7e, 0x2d, 0xaa],
    [0x7a, 0x0f, 0xb4, 0x4e, 0x97, 0x1d, 0x0e, 0x38, 0xf7, 0x3d, 0x90, 0x3b, 0x2f, 0x46, 0xa7, 0xc2]]"

definition TABLE_S1_34 :: "bytes" where
  "TABLE_S1_34 = concat [
    [0x03, 0xab, 0xfd, 0x51, 0x9b, 0x1b, 0x4e, 0x9e, 0x25, 0xc4, 0x0a, 0x99, 0x67, 0x6f, 0xd5, 0xcd],
    [0x81, 0xe2, 0x3b, 0x78, 0x21, 0x18, 0x5c, 0x36, 0x88, 0x49, 0x56, 0xa9, 0x1a, 0xd2, 0x01, 0x52],
    [0x29, 0x13, 0xb1, 0xaf, 0x20, 0x3f, 0xeb, 0x4d, 0xa2, 0x8d, 0x72, 0x28, 0xc8, 0x90, 0x0b, 0xec],
    [0x87, 0x96, 0xe9, 0x27, 0xd4, 0xd0, 0xa1, 0x3c, 0xa5, 0x77, 0x7f, 0x4f, 0x0c, 0x43, 0x61, 0x19],
    [0x24, 0x70, 0x12, 0xfc, 0xc3, 0x84, 0x58, 0xdb, 0x35, 0x7b, 0xf0, 0x23, 0x0d, 0x46, 0xb3, 0x4b],
    [0xad, 0x98, 0x31, 0x5a, 0x0e, 0xf8, 0xce, 0xcf, 0xff, 0x3d, 0x60, 0x6b, 0x59, 0xe3, 0xf1, 0x83],
    [0x04, 0xdc, 0x68, 0x4a, 0xf5, 0x11, 0xfe, 0x53, 0xc9, 0xe4, 0xcc, 0x48, 0xfa, 0xa3, 0x07, 0x2d],
    [0xde, 0x5b, 0xc2, 0xac, 0x8b, 0x10, 0x6d, 0x9a, 0xa4, 0xbd, 0xdd, 0x54, 0x2c, 0x9c, 0xcb, 0xd1],
    [0xe8, 0x91, 0xe7, 0xea, 0xd9, 0xe1, 0x37, 0x85, 0x8f, 0xc7, 0x8c, 0x38, 0xbf, 0x1c, 0x02, 0xb5],
    [0x75, 0x44, 0x22, 0x6e, 0xbb, 0x92, 0xee, 0x33, 0x26, 0x39, 0x32, 0x3e, 0xb7, 0x2e, 0x2a, 0x80],
    [0x42, 0x57, 0xc5, 0xa7, 0xae, 0x62, 0xf7, 0x30, 0x41, 0x82, 0x66, 0x86, 0x5d, 0xd3, 0x40, 0xdf],
    [0x71, 0xe0, 0xa0, 0xb4, 0x34, 0x9d, 0x74, 0x50, 0xf2, 0xb8, 0xd6, 0x63, 0x73, 0x7a, 0xb2, 0x89],
    [0x2f, 0x8e, 0xfb, 0x7c, 0x0f, 0x09, 0x1d, 0x8a, 0x16, 0x94, 0x45, 0xa8, 0x65, 0xb9, 0xf4, 0x1e],
    [0x17, 0x7e, 0x93, 0xf6, 0x6c, 0xa6, 0x6a, 0xc1, 0x4c, 0xc6, 0x69, 0x5f, 0x5e, 0x2b, 0x1f, 0xe5],
    [0xf9, 0xf3, 0x9f, 0x64, 0x55, 0xba, 0xb6, 0x97, 0x14, 0xe6, 0x05, 0xca, 0xd7, 0xd8, 0x7d, 0xb0],
    [0x00, 0xbc, 0x47, 0x3a, 0x15, 0x79, 0xda, 0xed, 0x95, 0xaa, 0xef, 0xbe, 0x06, 0x08, 0x76, 0xc0]]"

definition TABLE_S1_35 :: "bytes" where
  "TABLE_S1_35 = concat [
    [0x08, 0x5b, 0x88, 0x40, 0xf3, 0x0c, 0x13, 0xd2, 0x6c, 0x06, 0x42, 0x7b, 0x22, 0x61, 0xb8, 0xdb],
    [0x97, 0x8f, 0x35, 0x3d, 0xc3, 0x50, 0x9e, 0x7f, 0xc4, 0x14, 0x41, 0xc1, 0x0b, 0xa7, 0xf1, 0x59],
    [0x43, 0x3b, 0x19, 0x56, 0x15, 0x25, 0x2d, 0xff, 0x66, 0xfb, 0x8a, 0x8e, 0x7d, 0xb3, 0xcc, 0xdd],
    [0xb6, 0x51, 0xca, 0x92, 0x72, 0x28, 0xd7, 0xf8, 0x17, 0xb1, 0x65, 0x7a, 0xf5, 0xeb, 0x49, 0x73],
    [0xd9, 0xab, 0xb9, 0x03, 0x31, 0x3a, 0x67, 0xa5, 0x95, 0x94, 0xa2, 0x54, 0x00, 0x6b, 0xc2, 0xf7],
    [0x11, 0xe9, 0x1c, 0x57, 0x79, 0xaa, 0x21, 0x6f, 0x81, 0x02, 0xde, 0x99, 0xa6, 0x48, 0x2a, 0x7e],
    [0x8b, 0x91, 0xc6, 0x76, 0x0e, 0x87, 0xe7, 0xfe, 0xc0, 0x37, 0x4a, 0xd1, 0xf6, 0x98, 0x01, 0x84],
    [0x77, 0x5d, 0xf9, 0xa0, 0x12, 0x96, 0xbe, 0x93, 0x09, 0xa4, 0x4b, 0xaf, 0x10, 0x32, 0x86, 0x5e],
    [0xda, 0x70, 0x74, 0xed, 0x64, 0x68, 0x63, 0x7c, 0x69, 0xb4, 0xc8, 0xe1, 0x34, 0x78, 0x1e, 0x2f],
    [0xef, 0x58, 0x46, 0xe5, 0x62, 0xd6, 0x9d, 0xd5, 0xdf, 0x6d, 0xbb, 0x83, 0xb0, 0xbd, 0xcb, 0xb2],
    [0xd3, 0xe8, 0x20, 0x29, 0x39, 0x8c, 0xe2, 0xa8, 0x0a, 0x2e, 0xc7, 0x6e, 0xee, 0xfa, 0xba, 0x2b],
    [0x85, 0x1a, 0x89, 0x07, 0xdc, 0x3c, 0xd8, 0x1b, 0x6a, 0xad, 0x38, 0xf4, 0xfd, 0x9f, 0x0d, 0x18],
    [0xbf, 0x45, 0x71, 0x04, 0x05, 0x33, 0x9c, 0x16, 0x9b, 0x30, 0xfc, 0x36, 0xac, 0xc9, 0x24, 0x4d],
    [0x44, 0xae, 0xe3, 0x3f, 0xf2, 0x1f, 0xce, 0x4c, 0xd0, 0x47, 0x53, 0x55, 0x26, 0xa1, 0xd4, 0x75],
    [0x9a, 0x2c, 0x52, 0x5c, 0xe4, 0xb5, 0xf0, 0xcf, 0xb7, 0x80, 0x23, 0x4f, 0x60, 0x1d, 0xe6, 0x5a],
    [0xea, 0x27, 0x82, 0x8d, 0x90, 0x5f, 0xbc, 0x4e, 0xcd, 0xec, 0xe0, 0x0f, 0x3e, 0xc5, 0xa9, 0xa3]]"

definition TABLE_S1_36 :: "bytes" where
  "TABLE_S1_36 = concat [
    [0x01, 0xf6, 0xe7, 0x7c, 0xae, 0xc0, 0xb2, 0x37, 0xa7, 0xbd, 0x40, 0xf0, 0xb1, 0x38, 0xc8, 0xd1],
    [0x92, 0x3f, 0x99, 0x7d, 0x04, 0x26, 0x68, 0xb0, 0x6b, 0x41, 0x96, 0xcf, 0xa0, 0x24, 0xa5, 0x88],
    [0xa2, 0xa3, 0x62, 0x94, 0x5d, 0x36, 0xc1, 0xf4, 0x9d, 0xef, 0x35, 0x8f, 0x0c, 0x07, 0x93, 0x51],
    [0x34, 0xb7, 0xaf, 0xe8, 0x7e, 0x90, 0x48, 0x1c, 0xdf, 0x27, 0x61, 0x2a, 0x9c, 0x4f, 0x59, 0x17],
    [0xcd, 0x50, 0xb8, 0xbc, 0x85, 0x4b, 0xeb, 0xfa, 0x0d, 0x75, 0x60, 0x2f, 0x13, 0x23, 0xc9, 0x1b],
    [0x87, 0x21, 0x4c, 0x53, 0xdd, 0xc3, 0x45, 0x7f, 0x67, 0x80, 0xa4, 0xfc, 0x1e, 0x44, 0xce, 0xe1],
    [0x30, 0x5a, 0x4d, 0x74, 0x57, 0x14, 0xed, 0x8e, 0x6d, 0x3e, 0x76, 0xbe, 0x3a, 0xc5, 0xe4, 0x25],
    [0x22, 0xf2, 0xf7, 0x77, 0x91, 0x3d, 0x6f, 0xc7, 0xb9, 0xa1, 0x0b, 0x03, 0x66, 0xf5, 0x49, 0xa8],
    [0xb6, 0x81, 0x79, 0x15, 0x2b, 0x56, 0x6c, 0xd0, 0x1a, 0xac, 0x6a, 0x64, 0x83, 0xd2, 0xf9, 0xc6],
    [0xda, 0xfb, 0x39, 0xd6, 0xf3, 0x08, 0x95, 0x9f, 0x11, 0xdc, 0xbb, 0xb4, 0x69, 0xa6, 0x78, 0x8a],
    [0x06, 0xad, 0x00, 0xca, 0xff, 0x9a, 0x7b, 0x12, 0x73, 0x89, 0x32, 0x47, 0x05, 0x33, 0x20, 0xaa],
    [0x71, 0xe6, 0x63, 0x65, 0x97, 0x10, 0x43, 0xe2, 0x98, 0x72, 0x09, 0xd5, 0x29, 0xc4, 0x7a, 0xf8],
    [0x18, 0x3c, 0x58, 0xf1, 0xcc, 0xd8, 0x1d, 0x8c, 0xde, 0xe5, 0x1f, 0x16, 0xba, 0x0f, 0x9e, 0xd4],
    [0x9b, 0x5c, 0xc2, 0x0e, 0xa9, 0xcb, 0x2e, 0x3b, 0x2c, 0xb3, 0x31, 0xbf, 0x0a, 0xea, 0x2d, 0xee],
    [0x82, 0x5f, 0xd7, 0xfe, 0x4e, 0x02, 0x19, 0x28, 0x46, 0xec, 0xdb, 0x42, 0x5e, 0x52, 0x4a, 0x55],
    [0x5b, 0xe9, 0xb5, 0x8d, 0x8b, 0x86, 0x84, 0xfd, 0x6e, 0xd9, 0xd3, 0x70, 0xe0, 0x54, 0xe3, 0xab]]"

definition TABLE_S1_37 :: "bytes" where
  "TABLE_S1_37 = concat [
    [0x2c, 0x80, 0xd2, 0x7a, 0x9f, 0x4f, 0x4a, 0xca, 0xdb, 0x48, 0xf4, 0x15, 0x04, 0x1c, 0xb6, 0xbe],
    [0xea, 0xa9, 0x50, 0x33, 0x8d, 0xe7, 0xf0, 0xc9, 0x87, 0x78, 0x59, 0x98, 0xd0, 0x83, 0xcb, 0x03],
    [0x60, 0x7e, 0xf8, 0xc2, 0x3a, 0x9c, 0xf1, 0xee, 0xa3, 0xf9, 0x73, 0x5c, 0xda, 0x3d, 0x19, 0x41],
    [0x38, 0xf6, 0x56, 0x47, 0x70, 0xed, 0x05, 0x01, 0xae, 0x9e, 0x74, 0xa6, 0xb0, 0xc8, 0xdd, 0x92],
    [0xc3, 0x2d, 0xf5, 0xa1, 0x89, 0x0a, 0x12, 0x55, 0x21, 0xf2, 0xe4, 0xaa, 0x62, 0x9a, 0xdc, 0x97],
    [0xe0, 0x8b, 0x7c, 0x49, 0x1f, 0x1e, 0xdf, 0x29, 0xb1, 0xba, 0x2e, 0xec, 0x20, 0x52, 0x88, 0x32],
    [0xb9, 0x9b, 0xd5, 0x0d, 0x2f, 0x82, 0x24, 0xc0, 0x1d, 0x99, 0x18, 0x35, 0xd6, 0xfc, 0x2b, 0x72],
    [0x13, 0x7d, 0x0f, 0x8a, 0xbc, 0x4b, 0x5a, 0xc1, 0x0c, 0x85, 0x75, 0x6c, 0x1a, 0x00, 0xfd, 0x4d],
    [0x36, 0x3b, 0x39, 0x40, 0xe6, 0x54, 0x08, 0x30, 0x5d, 0xe9, 0x5e, 0x16, 0xd3, 0x64, 0x6e, 0xcd],
    [0xf3, 0xbf, 0xa4, 0x95, 0x3f, 0xe2, 0x6a, 0x43, 0xe3, 0xef, 0xf7, 0xe8, 0xfb, 0x51, 0x66, 0xff],
    [0x14, 0x76, 0x93, 0x86, 0x26, 0xe1, 0x7f, 0xb3, 0xb7, 0x57, 0x90, 0x53, 0x91, 0x0e, 0x8c, 0x02],
    [0x71, 0x65, 0xa0, 0x31, 0xa5, 0x81, 0xe5, 0x4c, 0x07, 0xb2, 0x23, 0x69, 0x63, 0x58, 0xa2, 0xab],
    [0x2a, 0xad, 0xfe, 0x5f, 0xcc, 0x5b, 0xde, 0xd8, 0x94, 0x79, 0xc7, 0x45, 0x25, 0xcf, 0xb4, 0x68],
    [0x42, 0x27, 0xc6, 0xaf, 0xbb, 0x10, 0xbd, 0x77, 0xb8, 0x8e, 0x9d, 0x17, 0xce, 0x34, 0x8f, 0xfa],
    [0x4e, 0xb5, 0x28, 0x22, 0x67, 0x46, 0x84, 0x6b, 0xd4, 0x1b, 0xc5, 0x37, 0xac, 0x61, 0x06, 0x09],
    [0x96, 0xeb, 0xd1, 0x6d, 0x0b, 0x3c, 0xc4, 0xa8, 0x3e, 0x6f, 0x44, 0x7b, 0xa7, 0x11, 0xd7, 0xd9]]"

definition TABLE_S1_38 :: "bytes" where
  "TABLE_S1_38 = concat [
    [0x7a, 0x41, 0xbb, 0xb2, 0x1e, 0xab, 0x3a, 0x70, 0xbc, 0x98, 0xfc, 0x55, 0x68, 0x7c, 0xb9, 0x28],
    [0x88, 0x17, 0x95, 0x1b, 0xae, 0x4e, 0x89, 0x4a, 0x3f, 0xf8, 0x66, 0xaa, 0x0d, 0x6f, 0x8a, 0x9f],
    [0xe2, 0x48, 0x7f, 0xe6, 0xfa, 0xf6, 0xee, 0xf1, 0x26, 0xfb, 0x73, 0x5a, 0xea, 0xa6, 0xbd, 0x8c],
    [0xca, 0x7d, 0x77, 0xd4, 0x44, 0xf0, 0x47, 0x0f, 0xff, 0x4d, 0x11, 0x29, 0x2f, 0x22, 0x20, 0x59],
    [0xbe, 0x08, 0xce, 0xc0, 0x27, 0x76, 0x5d, 0x62, 0x12, 0x25, 0xdd, 0xb1, 0x8f, 0xf2, 0xc8, 0x74],
    [0xb5, 0x78, 0x1f, 0x10, 0xcd, 0x02, 0xdc, 0x2e, 0x7e, 0x5f, 0x9d, 0x72, 0x57, 0xac, 0x31, 0x3b],
    [0xd7, 0x2d, 0x96, 0xe3, 0xa1, 0x97, 0x84, 0x0e, 0xa2, 0x09, 0xa4, 0x6e, 0x5b, 0x3e, 0xdf, 0xb6],
    [0x3c, 0xd6, 0xad, 0x71, 0x8d, 0x60, 0xde, 0x5c, 0xd5, 0x42, 0xc7, 0xc1, 0x33, 0xb4, 0xe7, 0x46],
    [0xa9, 0xd1, 0xc4, 0x8b, 0xb7, 0x87, 0x6d, 0xbf, 0x69, 0xf4, 0x1c, 0x18, 0x21, 0xef, 0x4f, 0x5e],
    [0xc3, 0x24, 0x00, 0x58, 0xba, 0xe0, 0x6a, 0x45, 0x23, 0x85, 0xe8, 0xf7, 0x79, 0x67, 0xe1, 0xdb],
    [0xc9, 0x9a, 0xd2, 0x1a, 0x9e, 0x61, 0x40, 0x81, 0x94, 0xfe, 0xe9, 0xd0, 0xf3, 0xb0, 0x49, 0x2a],
    [0x1d, 0x05, 0xaf, 0xa7, 0xc2, 0x51, 0xed, 0x0c, 0x86, 0x56, 0x53, 0xd3, 0x35, 0x99, 0xcb, 0x63],
    [0x03, 0x19, 0xe4, 0x54, 0x15, 0x9c, 0x6c, 0x75, 0xa5, 0x52, 0x43, 0xd8, 0x0a, 0x64, 0x16, 0x93],
    [0xcf, 0xe5, 0x32, 0x6b, 0x04, 0x80, 0x01, 0x2c, 0x36, 0x9b, 0x3d, 0xd9, 0xa0, 0x82, 0xcc, 0x14],
    [0x39, 0x4b, 0x91, 0x2b, 0xa8, 0xa3, 0x37, 0xf5, 0x06, 0x07, 0xc6, 0x30, 0xf9, 0x92, 0x65, 0x50],
    [0x7b, 0x83, 0xc5, 0x8e, 0x38, 0xeb, 0xfd, 0xb3, 0x90, 0x13, 0x0b, 0x4c, 0xda, 0x34, 0xec, 0xb8]]"

definition TABLE_S1_39 :: "bytes" where
  "TABLE_S1_39 = concat [
    [0xb8, 0xd1, 0x30, 0x55, 0x60, 0xaa, 0x07, 0xac, 0x00, 0x8a, 0x99, 0xaf, 0xed, 0x98, 0x23, 0xd9],
    [0x48, 0xe9, 0xba, 0x3d, 0xcf, 0xc9, 0x4c, 0xdb, 0x52, 0xd0, 0x6e, 0x83, 0x7f, 0xa3, 0xd8, 0x32],
    [0x7a, 0xc6, 0xfc, 0x81, 0xbf, 0xd3, 0x2b, 0x1c, 0x6c, 0x53, 0x78, 0x29, 0xce, 0xc0, 0x06, 0xb0],
    [0x35, 0x3f, 0xa2, 0x59, 0x7c, 0x93, 0x51, 0x70, 0x20, 0xd2, 0x0c, 0xc3, 0x1e, 0x11, 0x76, 0xbb],
    [0x82, 0xb3, 0xa8, 0xe4, 0x54, 0x7d, 0xf5, 0x28, 0xff, 0xe0, 0xf8, 0xf4, 0xe8, 0x71, 0x46, 0xec],
    [0x57, 0x2e, 0x2c, 0x21, 0x27, 0x1f, 0x43, 0xf1, 0x01, 0x49, 0xfe, 0x4a, 0xda, 0x79, 0x73, 0xc4],
    [0x26, 0xb7, 0x72, 0x66, 0x5b, 0xf2, 0x96, 0xb2, 0x7e, 0x34, 0xa5, 0x10, 0xbc, 0xb5, 0x4f, 0x74],
    [0x91, 0x84, 0x61, 0x03, 0xa4, 0x68, 0xf6, 0x31, 0x44, 0x87, 0x40, 0xa0, 0x15, 0x9b, 0x19, 0x86],
    [0x5e, 0x6b, 0x9c, 0xf7, 0x3e, 0xc8, 0x09, 0x08, 0xfb, 0x39, 0xad, 0xa6, 0x25, 0x9f, 0x45, 0x37],
    [0xb6, 0xe2, 0x3a, 0xd4, 0x42, 0x05, 0x1d, 0x9e, 0xbd, 0xf3, 0xe5, 0x36, 0x80, 0xcb, 0x8d, 0x75],
    [0x9d, 0x18, 0x6a, 0x04, 0xd6, 0x4d, 0x5c, 0xab, 0x7b, 0x62, 0x92, 0x1b, 0x5a, 0xea, 0x17, 0x0d],
    [0x1a, 0xc2, 0x8c, 0xae, 0xd7, 0x33, 0x95, 0x38, 0x22, 0x0f, 0x8e, 0x0a, 0x65, 0x3c, 0xeb, 0xc1],
    [0x24, 0x47, 0xbe, 0xfd, 0xde, 0xe7, 0xf0, 0x9a, 0x8f, 0x4e, 0x6f, 0x90, 0x14, 0xdc, 0x94, 0xc7],
    [0x6d, 0xc5, 0x97, 0x3b, 0xdd, 0x5d, 0x58, 0x88, 0x02, 0xe3, 0x5f, 0xcc, 0xa9, 0xa1, 0x0b, 0x13],
    [0x50, 0x41, 0xe1, 0x2f, 0x16, 0x12, 0xfa, 0x67, 0xb1, 0x63, 0x89, 0xb9, 0x85, 0xca, 0xdf, 0xa7],
    [0xd5, 0xef, 0x69, 0x77, 0xf9, 0xe6, 0x8b, 0x2d, 0x4b, 0x64, 0xee, 0xb4, 0x56, 0x0e, 0x2a, 0xcd]]"

definition TABLE_S1_rows :: "bytes list" where
  "TABLE_S1_rows = [
    TABLE_S1_0, TABLE_S1_1, TABLE_S1_2, TABLE_S1_3, TABLE_S1_4, TABLE_S1_5, TABLE_S1_6, TABLE_S1_7,
    TABLE_S1_8, TABLE_S1_9, TABLE_S1_10, TABLE_S1_11, TABLE_S1_12, TABLE_S1_13, TABLE_S1_14,
    TABLE_S1_15, TABLE_S1_16, TABLE_S1_17, TABLE_S1_18, TABLE_S1_19, TABLE_S1_20, TABLE_S1_21,
    TABLE_S1_22, TABLE_S1_23, TABLE_S1_24, TABLE_S1_25, TABLE_S1_26, TABLE_S1_27, TABLE_S1_28,
    TABLE_S1_29, TABLE_S1_30, TABLE_S1_31, TABLE_S1_32, TABLE_S1_33, TABLE_S1_34, TABLE_S1_35,
    TABLE_S1_36, TABLE_S1_37, TABLE_S1_38, TABLE_S1_39]"

definition TABLE_S1 :: "bytes" where
  "TABLE_S1 = concat TABLE_S1_rows"

definition TABLE_S3_0 :: "bytes" where
  "TABLE_S3_0 = concat [
    [0xdd, 0xaa, 0x28, 0xa0, 0xc5, 0xb4, 0x9c, 0xe8, 0xcd, 0xb7, 0xde, 0xe2, 0x1f, 0xef, 0x73, 0xbe],
    [0x72, 0xf5, 0x01, 0x22, 0x50, 0xa8, 0x4a, 0x9a, 0xf2, 0x84, 0x69, 0x29, 0x3c, 0x79, 0x67, 0xe3],
    [0xb3, 0x56, 0xe4, 0x2c, 0x55, 0x26, 0x5a, 0x00, 0xb6, 0x60, 0xa9, 0x98, 0x83, 0xc4, 0xd0, 0x7c],
    [0xd9, 0x90, 0x78, 0xdb, 0x25, 0x96, 0xee, 0x49, 0x61, 0xfa, 0xd6, 0x14, 0x0e, 0xf8, 0x41, 0xce],
    [0x09, 0x37, 0x53, 0x12, 0x93, 0x3d, 0xb1, 0x04, 0xf7, 0x82, 0x35, 0x9f, 0xb0, 0xe9, 0x0f, 0x1b],
    [0xab, 0xc7, 0xa6, 0x7e, 0x77, 0xd2, 0x63, 0xd1, 0xd3, 0xb8, 0x8e, 0x38, 0x0c, 0x40, 0xd4, 0xe0],
    [0xfe, 0x21, 0x2b, 0x30, 0x16, 0xa7, 0xd5, 0xbc, 0xbd, 0xeb, 0x5f, 0x65, 0xfc, 0x4c, 0x2e, 0x64],
    [0x06, 0x07, 0x5e, 0x3b, 0x2f, 0xba, 0x39, 0x7d, 0xd8, 0x88, 0xf3, 0x58, 0x15, 0x23, 0x86, 0xae],
    [0x74, 0xca, 0x08, 0x66, 0x43, 0xa2, 0xc8, 0xda, 0xd7, 0x46, 0x19, 0xe5, 0xc6, 0xcb, 0x03, 0xf6],
    [0x91, 0xcc, 0x3e, 0x2d, 0x8c, 0xcf, 0x71, 0x7a, 0x62, 0xc9, 0x59, 0x11, 0x1a, 0xc3, 0x45, 0x75],
    [0x8f, 0x9e, 0x97, 0xdc, 0x54, 0x4d, 0x6e, 0x44, 0x81, 0x99, 0xa5, 0xb9, 0x70, 0x13, 0x34, 0x24],
    [0x95, 0x05, 0x1d, 0x6d, 0x7f, 0x5b, 0x94, 0xac, 0x3f, 0xad, 0xbb, 0x31, 0x51, 0xdf, 0x4f, 0xa1],
    [0x6b, 0x80, 0xbf, 0x92, 0x18, 0xec, 0xa4, 0x42, 0x68, 0xaf, 0xc1, 0xe7, 0xed, 0x7b, 0xe1, 0x10],
    [0x5c, 0xc2, 0x27, 0x85, 0x0a, 0x87, 0x8b, 0x33, 0x5d, 0xfb, 0x9d, 0xb2, 0xea, 0xf4, 0x6f, 0x0b],
    [0x8a, 0x8d, 0xfd, 0x47, 0x20, 0x02, 0x0d, 0x17, 0xf0, 0x4b, 0xb5, 0x2a, 0x36, 0x4e, 0x52, 0xe6],
    [0x6a, 0x57, 0x76, 0x89, 0x1e, 0x32, 0x48, 0x3a, 0xa3, 0x1c, 0x9b, 0xc0, 0x6c, 0xf1, 0xf9, 0xff]]"

definition TABLE_S3_1 :: "bytes" where
  "TABLE_S3_1 = concat [
    [0xd3, 0xcd, 0x2c, 0x48, 0xdc, 0x7a, 0x95, 0xba, 0xa0, 0x2d, 0x14, 0xac, 0xe5, 0x7b, 0xa2, 0x00],
    [0x5c, 0xca, 0x37, 0xc6, 0x88, 0x4f, 0xc0, 0xe6, 0xcb, 0x3f, 0x65, 0x83, 0xa7, 0x4c, 0xb5, 0x98],
    [0xd6, 0x4b, 0xd8, 0xde, 0x3b, 0x84, 0xe7, 0xbc, 0x15, 0x39, 0x1d, 0x6f, 0x70, 0x4d, 0xae, 0x51],
    [0x69, 0x11, 0xc1, 0x75, 0x6c, 0xd7, 0x0d, 0x92, 0x25, 0x07, 0x30, 0x2a, 0xaa, 0xad, 0x60, 0xda],
    [0xe4, 0x3d, 0x52, 0x62, 0xee, 0x45, 0x36, 0x7e, 0xe8, 0xab, 0x5d, 0x56, 0xeb, 0xb6, 0x0a, 0x19],
    [0xec, 0xe1, 0xd1, 0x24, 0x61, 0xf0, 0xc2, 0x3e, 0x85, 0x64, 0xfd, 0xef, 0xed, 0x53, 0x41, 0x2f],
    [0xf8, 0x76, 0x86, 0x68, 0x8a, 0x18, 0x16, 0x9c, 0x7c, 0x58, 0x8b, 0xb3, 0x22, 0xb2, 0x4a, 0x3a],
    [0x34, 0x57, 0x03, 0x13, 0xbe, 0xa6, 0x9e, 0x82, 0x6a, 0x73, 0x63, 0x49, 0xb9, 0xa8, 0xfb, 0xb0],
    [0x67, 0x2b, 0xc7, 0xf3, 0x9f, 0xf4, 0x1f, 0xa9, 0xf5, 0x50, 0xf6, 0x44, 0xe0, 0x8c, 0x59, 0x81],
    [0xce, 0x97, 0x3c, 0x28, 0xa5, 0xd0, 0xb8, 0x12, 0x1a, 0xb4, 0x23, 0x96, 0x10, 0x2e, 0x35, 0x74],
    [0x04, 0x32, 0x89, 0xa1, 0xaf, 0xff, 0x7f, 0xd4, 0x9d, 0x08, 0x5a, 0x1e, 0x20, 0x21, 0x1c, 0x79],
    [0x6b, 0xdb, 0x43, 0x09, 0xcc, 0x9a, 0x42, 0x78, 0x80, 0x31, 0x9b, 0xf2, 0x06, 0xd9, 0x17, 0x0c],
    [0x5e, 0x1b, 0xc4, 0x40, 0xa3, 0xd5, 0x0e, 0x4e, 0x8f, 0x77, 0xbd, 0x6d, 0xd2, 0x55, 0x05, 0x26],
    [0xc8, 0x38, 0x99, 0x54, 0x90, 0xea, 0xc5, 0xf9, 0x93, 0xe2, 0xcf, 0xbb, 0x8d, 0xfa, 0x87, 0x0f],
    [0xdf, 0x29, 0xe9, 0x66, 0xdd, 0x46, 0x33, 0xf1, 0xb1, 0x02, 0x6e, 0xc9, 0xb7, 0xfe, 0xfc, 0x5f],
    [0xe3, 0xa4, 0x5b, 0xf7, 0x47, 0x91, 0xbf, 0x8e, 0x01, 0x72, 0x27, 0x7d, 0x71, 0x94, 0x0b, 0xc3]]"

definition TABLE_S3_2 :: "bytes" where
  "TABLE_S3_2 = concat [
    [0xb8, 0x2d, 0x7f, 0x3b, 0x05, 0x04, 0x39, 0x5c, 0x21, 0x17, 0xac, 0x84, 0x8a, 0xda, 0x5a, 0xf1],
    [0xa5, 0x14, 0xbe, 0xd7, 0x23, 0xfc, 0x32, 0x29, 0x4e, 0xfe, 0x66, 0x2c, 0xe9, 0xbf, 0x67, 0x5d],
    [0xd0, 0x75, 0xd3, 0x61, 0xc5, 0xa9, 0x7c, 0xa4, 0x42, 0x0e, 0xe2, 0xd6, 0xba, 0xd1, 0x3a, 0x8c],
    [0x3f, 0x91, 0x06, 0xb3, 0x35, 0x0b, 0x10, 0x51, 0xeb, 0xb2, 0x19, 0x0d, 0x80, 0xf5, 0x9d, 0x37],
    [0x94, 0x27, 0x4b, 0xec, 0x92, 0xdb, 0xd9, 0x7a, 0xfa, 0x0c, 0xcc, 0x43, 0xf8, 0x63, 0x16, 0xd4],
    [0x24, 0x57, 0x02, 0x58, 0x54, 0xb1, 0x2e, 0xe6, 0xc6, 0x81, 0x7e, 0xd2, 0x62, 0xb4, 0x9a, 0xab],
    [0xaa, 0x52, 0x98, 0x48, 0xf7, 0x70, 0x20, 0x03, 0x7b, 0x3e, 0xe1, 0x65, 0x86, 0xf0, 0x2b, 0x6b],
    [0xb6, 0xc7, 0xea, 0x9e, 0xa8, 0xdf, 0xa2, 0x2a, 0xed, 0x1d, 0xbc, 0x71, 0xb5, 0xcf, 0xe0, 0xdc],
    [0x30, 0x1c, 0x38, 0x4a, 0x55, 0x68, 0x8b, 0x74, 0xf3, 0x6e, 0xfd, 0xfb, 0x1e, 0xa1, 0xc2, 0x99],
    [0x00, 0x22, 0x15, 0x0f, 0x8f, 0x88, 0x45, 0xff, 0x4c, 0x34, 0xe4, 0x50, 0x49, 0xf2, 0x28, 0xb7],
    [0x85, 0x08, 0x31, 0x89, 0xc0, 0x5e, 0x87, 0x25, 0xf6, 0xe8, 0x09, 0x6d, 0xf9, 0x5f, 0xb0, 0x9f],
    [0xee, 0x1a, 0x40, 0xa6, 0x82, 0x69, 0x90, 0xbd, 0x79, 0xef, 0x12, 0xe3, 0xad, 0x6a, 0xe5, 0xc3],
    [0x59, 0x7d, 0xae, 0x96, 0x07, 0x97, 0x6f, 0x1f, 0xdd, 0x53, 0xa3, 0x4d, 0xaf, 0x3d, 0x33, 0xb9],
    [0x4f, 0x56, 0x46, 0x6c, 0x9c, 0x8d, 0xde, 0x95, 0x11, 0x72, 0x26, 0x36, 0x9b, 0x83, 0xbb, 0xa7],
    [0xcd, 0x8e, 0x78, 0x73, 0xce, 0x93, 0x2f, 0x3c, 0xc1, 0x18, 0x77, 0x47, 0xcb, 0x60, 0x13, 0x5b],
    [0xa0, 0x41, 0xd8, 0xca, 0xc8, 0x76, 0x64, 0x0a, 0xc9, 0xc4, 0xf4, 0x01, 0x44, 0xd5, 0xe7, 0x1b]]"

definition TABLE_S3_3 :: "bytes" where
  "TABLE_S3_3 = concat [
    [0x3d, 0xe5, 0x84, 0xe8, 0x92, 0x20, 0x91, 0x34, 0x7b, 0xcd, 0xfb, 0x90, 0xa3, 0x97, 0x03, 0x4f],
    [0x51, 0x10, 0x74, 0x4a, 0x47, 0xf2, 0x7e, 0xd0, 0xdc, 0x76, 0xc1, 0xb4, 0x58, 0x4c, 0xaa, 0xf3],
    [0x78, 0x1d, 0x44, 0x45, 0x3e, 0x7a, 0xf9, 0x6c, 0x1b, 0xb0, 0xcb, 0x9b, 0xed, 0xc5, 0x60, 0x56],
    [0x73, 0x68, 0x62, 0xbd, 0xff, 0x96, 0xe4, 0x55, 0x26, 0x1c, 0xa8, 0xfe, 0x27, 0x6d, 0x0f, 0xbf],
    [0x61, 0x42, 0xb6, 0x31, 0xd9, 0x09, 0xeb, 0x13, 0x6a, 0x2a, 0xc7, 0xb1, 0xa0, 0x24, 0x3a, 0x7f],
    [0xe3, 0x6b, 0xe9, 0x9e, 0xab, 0xdf, 0xf7, 0x86, 0xa1, 0x9d, 0xf4, 0x8e, 0xfd, 0x30, 0xac, 0x5c],
    [0x98, 0x3b, 0xd3, 0x9a, 0x0a, 0xad, 0xd5, 0x66, 0x57, 0x95, 0xb9, 0x22, 0x8d, 0x02, 0xbb, 0x4d],
    [0x6f, 0xa7, 0x15, 0xf0, 0x43, 0x19, 0x65, 0x16, 0xdb, 0xea, 0x23, 0xf5, 0x3f, 0x93, 0x87, 0xc0],
    [0xc6, 0x64, 0x81, 0x1f, 0x70, 0xc8, 0xc4, 0x49, 0xf1, 0xde, 0xb8, 0x1e, 0x48, 0x2c, 0xb7, 0xa9],
    [0xd1, 0xfc, 0xc3, 0x28, 0x01, 0xe7, 0xaf, 0x5b, 0xa4, 0x82, 0xec, 0x2b, 0x53, 0xa2, 0x38, 0xae],
    [0xca, 0x35, 0x14, 0x29, 0x79, 0x0b, 0x71, 0x5d, 0x83, 0xd8, 0x5f, 0xe0, 0xbc, 0xba, 0xb2, 0x2f],
    [0x04, 0xbe, 0xce, 0xc9, 0x54, 0x4e, 0x41, 0x63, 0x69, 0xf6, 0x08, 0xb3, 0xa5, 0x11, 0x0d, 0x75],
    [0x6e, 0x7d, 0x8f, 0xd2, 0x39, 0x32, 0x8c, 0xcf, 0x52, 0x1a, 0x8a, 0x21, 0x36, 0x06, 0x80, 0x59],
    [0x25, 0x4b, 0x89, 0x37, 0x99, 0x8b, 0xe1, 0x00, 0xa6, 0x5a, 0x05, 0x94, 0xb5, 0x40, 0x88, 0x85],
    [0x2e, 0x5e, 0x46, 0xd6, 0xef, 0xd7, 0x18, 0x3c, 0x72, 0xf8, 0xee, 0x7c, 0xe2, 0x0c, 0x9c, 0x12],
    [0x9f, 0xd4, 0xdd, 0xcc, 0x07, 0x2d, 0x0e, 0x17, 0xfa, 0xe6, 0xda, 0xc2, 0x67, 0x77, 0x50, 0x33]]"

definition TABLE_S3_4 :: "bytes" where
  "TABLE_S3_4 = concat [
    [0x1f, 0xd8, 0xb6, 0x90, 0x9a, 0x0c, 0x96, 0x67, 0x1c, 0xf7, 0xc8, 0xe5, 0x6f, 0x9b, 0xd3, 0x35],
    [0x2a, 0x8c, 0xea, 0xc5, 0x9d, 0x83, 0x18, 0x7c, 0x2b, 0xb5, 0x50, 0xf2, 0x7d, 0xf0, 0xfc, 0x44],
    [0x87, 0x3c, 0xc2, 0x5d, 0x41, 0x39, 0x25, 0x91, 0xfd, 0xfa, 0x8a, 0x30, 0x57, 0x75, 0x7a, 0x60],
    [0xd4, 0x6b, 0xec, 0xb7, 0x1b, 0x86, 0x8e, 0x88, 0x1d, 0x20, 0x01, 0xfe, 0x69, 0x45, 0x3f, 0x4d],
    [0xa0, 0x31, 0x6e, 0x92, 0xb1, 0xbc, 0x74, 0x81, 0x03, 0xbd, 0x7f, 0x11, 0x34, 0xd5, 0xbf, 0xad],
    [0x15, 0xbe, 0x2e, 0x66, 0x6d, 0xb4, 0x32, 0x02, 0xe6, 0xbb, 0x49, 0x5a, 0xfb, 0xb8, 0x06, 0x0d],
    [0xf6, 0xee, 0xd2, 0xce, 0x07, 0x64, 0x43, 0x53, 0xf8, 0xe9, 0xe0, 0xab, 0x23, 0x3a, 0x19, 0x33],
    [0x48, 0xda, 0xcc, 0x46, 0x26, 0xa8, 0x38, 0xd6, 0xe2, 0x72, 0x6a, 0x1a, 0x08, 0x2c, 0xe3, 0xdb],
    [0x80, 0xf5, 0x42, 0xe8, 0xc7, 0x9e, 0x78, 0x6c, 0x7e, 0x40, 0x24, 0x65, 0xe4, 0x4a, 0xc6, 0x73],
    [0xa4, 0xcf, 0xf9, 0x4f, 0x7b, 0x37, 0xa3, 0x97, 0xdc, 0xb0, 0xd1, 0x09, 0x00, 0xa5, 0x14, 0xa6],
    [0xca, 0x9c, 0x28, 0x12, 0x8b, 0x3b, 0x59, 0x13, 0x89, 0x56, 0x5c, 0x47, 0x61, 0xd0, 0xa2, 0xcb],
    [0xaf, 0xff, 0x84, 0x2f, 0x62, 0x54, 0xf1, 0xd9, 0x71, 0x70, 0x29, 0x4c, 0x58, 0xcd, 0x4e, 0x0a],
    [0xba, 0xc0, 0xa9, 0x95, 0x68, 0x98, 0x04, 0xc9, 0xaa, 0xdd, 0x5f, 0xd7, 0xb2, 0xc3, 0xeb, 0x9f],
    [0x85, 0xf3, 0x1e, 0x5e, 0x4b, 0x0e, 0x10, 0x94, 0x05, 0x82, 0x76, 0x55, 0x27, 0xdf, 0x3d, 0xed],
    [0xc1, 0x17, 0xde, 0xef, 0xf4, 0xb3, 0xa7, 0x0b, 0xc4, 0x21, 0x93, 0x5b, 0x22, 0x51, 0x2d, 0x77],
    [0x16, 0x8d, 0xa1, 0x63, 0x79, 0x8f, 0x36, 0xb9, 0xae, 0xe7, 0x0f, 0xac, 0x52, 0xe1, 0x99, 0x3e]]"

definition TABLE_S3_5 :: "bytes" where
  "TABLE_S3_5 = concat [
    [0xdb, 0x80, 0xe3, 0x5c, 0xb9, 0xbf, 0x2c, 0xb1, 0x36, 0xc9, 0x2a, 0x17, 0x08, 0x7a, 0x5e, 0x72],
    [0xf5, 0x6a, 0xb0, 0x0b, 0x12, 0xa6, 0x76, 0x0e, 0xbd, 0x07, 0xca, 0xcd, 0x4d, 0x57, 0x60, 0x42],
    [0xdd, 0xf2, 0x1d, 0xbb, 0x2f, 0x4b, 0xaa, 0xb4, 0x67, 0xc5, 0x1c, 0x82, 0xcb, 0x73, 0x4a, 0xc7],
    [0x81, 0xa7, 0x28, 0xef, 0xa1, 0x50, 0xad, 0x3b, 0xff, 0xd2, 0x2b, 0xc0, 0xe4, 0x02, 0x58, 0xac],
    [0xfb, 0x71, 0x7f, 0xed, 0x0f, 0xe1, 0x11, 0x9f, 0x5d, 0x2d, 0xd5, 0x45, 0xd4, 0xec, 0x3f, 0x1b],
    [0xe5, 0xf9, 0xc1, 0xd9, 0x74, 0x64, 0x30, 0x53, 0xd7, 0x9c, 0xcf, 0xde, 0x2e, 0x04, 0x14, 0x0d],
    [0x19, 0x51, 0x22, 0x89, 0x05, 0x35, 0x5a, 0x83, 0x7e, 0x6d, 0xd1, 0x8c, 0x31, 0x3a, 0xcc, 0x8f],
    [0x59, 0xa5, 0x97, 0x06, 0x43, 0xb6, 0x86, 0x8b, 0x48, 0x26, 0x34, 0x8a, 0x88, 0x9a, 0x03, 0xe2],
    [0xb3, 0x18, 0x98, 0xc8, 0xc6, 0xee, 0x55, 0x63, 0x1e, 0x7b, 0x46, 0x47, 0x79, 0x3d, 0x6f, 0xfa],
    [0x1f, 0x25, 0xfd, 0xab, 0x6e, 0x24, 0xbc, 0x0c, 0x6b, 0x70, 0xbe, 0x61, 0x95, 0xfc, 0x56, 0xe7],
    [0xce, 0x78, 0x93, 0xf8, 0x94, 0xa0, 0x4c, 0x00, 0xe6, 0x3e, 0xeb, 0x87, 0x23, 0x91, 0x37, 0x92],
    [0x75, 0xdf, 0xb7, 0xc2, 0x4f, 0x5b, 0xf0, 0xa9, 0x13, 0x52, 0x49, 0x77, 0xf1, 0x44, 0xd3, 0x7d],
    [0x96, 0x54, 0x21, 0xba, 0x01, 0x8e, 0x4e, 0xb8, 0x38, 0x9b, 0x99, 0xd0, 0xae, 0x09, 0x65, 0xd6],
    [0xe9, 0xd8, 0xf6, 0x20, 0x90, 0x3c, 0xc3, 0x84, 0xa4, 0x6c, 0xf3, 0x16, 0x1a, 0x40, 0x15, 0x66],
    [0x29, 0x69, 0xb2, 0xc4, 0x27, 0xa3, 0x7c, 0x39, 0x41, 0x62, 0x32, 0xb5, 0x0a, 0xda, 0x10, 0xe8],
    [0x9e, 0xa2, 0x8d, 0xf7, 0x33, 0xfe, 0x5f, 0xaf, 0x68, 0xe0, 0x9d, 0xea, 0xdc, 0xa8, 0x85, 0xf4]]"

definition TABLE_S3_6 :: "bytes" where
  "TABLE_S3_6 = concat [
    [0xa4, 0x66, 0x4a, 0xd1, 0x7e, 0xf1, 0x48, 0xbe, 0x6b, 0xc8, 0x20, 0x69, 0xf9, 0x5e, 0x26, 0x95],
    [0x28, 0x19, 0xd0, 0x06, 0xcc, 0x60, 0x74, 0x33, 0x9c, 0x54, 0xe6, 0x03, 0xb0, 0xea, 0x96, 0xe5],
    [0x99, 0xd9, 0x34, 0x42, 0x53, 0xd7, 0xc9, 0x8c, 0x92, 0xb1, 0x45, 0xc2, 0x2a, 0xfa, 0x18, 0xe0],
    [0x52, 0x6e, 0x07, 0x7d, 0x0e, 0xc3, 0x5f, 0xaf, 0x10, 0x98, 0x1a, 0x6d, 0x58, 0x2c, 0x04, 0x75],
    [0xe8, 0x43, 0x38, 0x68, 0x1e, 0x36, 0x93, 0xa5, 0x8b, 0xee, 0xb7, 0xb6, 0xcd, 0x89, 0x0a, 0x9f],
    [0xd5, 0xef, 0x5b, 0x0d, 0xd4, 0x9e, 0xfc, 0x4c, 0x80, 0x9b, 0x91, 0x4e, 0x0c, 0x65, 0x17, 0xa6],
    [0x88, 0x3e, 0x08, 0x63, 0x50, 0x64, 0xf0, 0xbc, 0xce, 0x16, 0x77, 0x1b, 0x61, 0xd3, 0x62, 0xc7],
    [0x2f, 0x85, 0x32, 0x47, 0xab, 0xbf, 0x59, 0x00, 0xa2, 0xe3, 0x87, 0xb9, 0xb4, 0x01, 0x8d, 0x23],
    [0x81, 0x0b, 0x1d, 0x8f, 0x11, 0xff, 0x6f, 0xe1, 0xdd, 0xad, 0xb5, 0x25, 0x1c, 0x24, 0xeb, 0xcf],
    [0x09, 0x15, 0x29, 0x31, 0x94, 0x84, 0xa3, 0xc0, 0x6c, 0x27, 0x2e, 0x3f, 0xf4, 0xde, 0xfd, 0xe4],
    [0xa1, 0xe9, 0x79, 0xd2, 0xc5, 0xf5, 0x73, 0xaa, 0x9d, 0x8e, 0x7c, 0x21, 0xca, 0xc1, 0x7f, 0x3c],
    [0x55, 0xa9, 0xf6, 0x67, 0x46, 0xb3, 0x7b, 0x76, 0xd6, 0xb8, 0x7a, 0xc4, 0x6a, 0x78, 0x12, 0xf3],
    [0x70, 0x2b, 0xac, 0x13, 0x4f, 0x49, 0x41, 0xdc, 0x39, 0xc6, 0xe7, 0xda, 0x8a, 0xf8, 0x82, 0xae],
    [0x9a, 0x05, 0xfb, 0x40, 0x56, 0xe2, 0xfe, 0x86, 0xf7, 0x4d, 0x3d, 0x3a, 0xa7, 0xbd, 0xb2, 0x90],
    [0x02, 0x2d, 0x4b, 0xed, 0xbb, 0xdf, 0x44, 0x5a, 0x35, 0x97, 0x72, 0xec, 0x83, 0x3b, 0x37, 0xba],
    [0x57, 0x71, 0x1f, 0xd8, 0xa0, 0x51, 0xcb, 0x5d, 0x22, 0x0f, 0x30, 0xdb, 0xf2, 0x14, 0x5c, 0xa8]]"

definition TABLE_S3_7 :: "bytes" where
  "TABLE_S3_7 = concat [
    [0x05, 0xe3, 0xab, 0x5f, 0xd5, 0xf8, 0xc7, 0x2c, 0x57, 0xa6, 0x3c, 0xaa, 0xa0, 0x86, 0xe8, 0x2f],
    [0x74, 0xcc, 0xc0, 0x4d, 0xc2, 0x60, 0x85, 0x1b, 0x4c, 0x28, 0xb3, 0xad, 0xf5, 0xda, 0xbc, 0x1a],
    [0x50, 0x4a, 0x45, 0x67, 0x00, 0xba, 0xca, 0xcd, 0xa1, 0x15, 0x09, 0x71, 0x6d, 0xf2, 0x0c, 0xb7],
    [0x7d, 0x0f, 0x75, 0x59, 0xce, 0x31, 0x10, 0x2d, 0xb8, 0xbe, 0xb6, 0x2b, 0x87, 0xdc, 0x5b, 0xe4],
    [0x9d, 0x8f, 0xe5, 0x04, 0x21, 0x4f, 0x8d, 0x33, 0xb1, 0x44, 0x8c, 0x81, 0xa2, 0x5e, 0x01, 0x90],
    [0x3d, 0x36, 0x88, 0xcb, 0x6a, 0x79, 0x8b, 0xd6, 0x32, 0x02, 0x84, 0x5d, 0x56, 0x1e, 0x8e, 0x25],
    [0x03, 0x29, 0x0a, 0x13, 0x9b, 0xd0, 0xd9, 0xc8, 0x63, 0x73, 0x54, 0x37, 0xfe, 0xe2, 0xde, 0xc6],
    [0xeb, 0xd3, 0x1c, 0x38, 0x2a, 0x5a, 0x42, 0xd2, 0xe6, 0x08, 0x98, 0x16, 0x76, 0xfc, 0xea, 0x78],
    [0x43, 0xf6, 0x7a, 0xd4, 0x55, 0x14, 0x70, 0x4e, 0x5c, 0x48, 0xae, 0xf7, 0xd8, 0x72, 0xc5, 0xb0],
    [0x96, 0x24, 0x95, 0x30, 0x39, 0xe1, 0x80, 0xec, 0xa7, 0x93, 0x07, 0x4b, 0x7f, 0xc9, 0xff, 0x94],
    [0xfb, 0x92, 0xe0, 0x51, 0x77, 0x6c, 0x66, 0xb9, 0x23, 0x69, 0x0b, 0xbb, 0x22, 0x18, 0xac, 0xfa],
    [0x3a, 0x7e, 0xfd, 0x68, 0x7c, 0x19, 0x40, 0x41, 0xe9, 0xc1, 0x64, 0x52, 0x1f, 0xb4, 0xcf, 0x9f],
    [0xaf, 0xdb, 0xf3, 0x82, 0xe7, 0x6f, 0xed, 0x9a, 0xf9, 0x34, 0xa8, 0x58, 0xa5, 0x99, 0xf0, 0x8a],
    [0xdd, 0x0d, 0xef, 0x17, 0x65, 0x46, 0xb2, 0x35, 0xa4, 0x20, 0x3e, 0x7b, 0x6e, 0x2e, 0xc3, 0xb5],
    [0x47, 0x1d, 0x61, 0x12, 0x6b, 0xa3, 0x11, 0xf4, 0x3b, 0x97, 0x83, 0xc4, 0xdf, 0xee, 0x27, 0xf1],
    [0x0e, 0xa9, 0xd1, 0x62, 0x9c, 0x3f, 0xd7, 0x9e, 0x89, 0x06, 0xbf, 0x49, 0x53, 0x91, 0xbd, 0x26]]"

definition TABLE_S3_8 :: "bytes" where
  "TABLE_S3_8 = concat [
    [0x86, 0xf3, 0x44, 0xee, 0xc1, 0x98, 0x7e, 0x6a, 0x78, 0x46, 0x22, 0x63, 0xe2, 0x4c, 0xc0, 0x75],
    [0xa2, 0xc9, 0xff, 0x49, 0x7d, 0x31, 0xa5, 0x91, 0xda, 0xb6, 0xd7, 0x0f, 0x06, 0xa3, 0x12, 0xa0],
    [0xcc, 0x9a, 0x2e, 0x14, 0x8d, 0x3d, 0x5f, 0x15, 0x8f, 0x50, 0x5a, 0x41, 0x67, 0xd6, 0xa4, 0xcd],
    [0xa9, 0xf9, 0x82, 0x29, 0x64, 0x52, 0xf7, 0xdf, 0x77, 0x76, 0x2f, 0x4a, 0x5e, 0xcb, 0x48, 0x0c],
    [0xbc, 0xc6, 0xaf, 0x93, 0x6e, 0x9e, 0x02, 0xcf, 0xac, 0xdb, 0x59, 0xd1, 0xb4, 0xc5, 0xed, 0x99],
    [0x83, 0xf5, 0x18, 0x58, 0x4d, 0x08, 0x16, 0x92, 0x03, 0x84, 0x70, 0x53, 0x21, 0xd9, 0x3b, 0xeb],
    [0xc7, 0x11, 0xd8, 0xe9, 0xf2, 0xb5, 0xa1, 0x0d, 0xc2, 0x27, 0x95, 0x5d, 0x24, 0x57, 0x2b, 0x71],
    [0x10, 0x8b, 0xa7, 0x65, 0x7f, 0x89, 0x30, 0xbf, 0xa8, 0xe1, 0x09, 0xaa, 0x54, 0xe7, 0x9f, 0x38],
    [0x19, 0xde, 0xb0, 0x96, 0x9c, 0x0a, 0x90, 0x61, 0x1a, 0xf1, 0xce, 0xe3, 0x69, 0x9d, 0xd5, 0x33],
    [0x2c, 0x8a, 0xec, 0xc3, 0x9b, 0x85, 0x1e, 0x7a, 0x2d, 0xb3, 0x56, 0xf4, 0x7b, 0xf6, 0xfa, 0x42],
    [0x81, 0x3a, 0xc4, 0x5b, 0x47, 0x3f, 0x23, 0x97, 0xfb, 0xfc, 0x8c, 0x36, 0x51, 0x73, 0x7c, 0x66],
    [0xd2, 0x6d, 0xea, 0xb1, 0x1d, 0x80, 0x88, 0x8e, 0x1b, 0x26, 0x07, 0xf8, 0x6f, 0x43, 0x39, 0x4b],
    [0xa6, 0x37, 0x68, 0x94, 0xb7, 0xba, 0x72, 0x87, 0x05, 0xbb, 0x79, 0x17, 0x32, 0xd3, 0xb9, 0xab],
    [0x13, 0xb8, 0x28, 0x60, 0x6b, 0xb2, 0x34, 0x04, 0xe0, 0xbd, 0x4f, 0x5c, 0xfd, 0xbe, 0x00, 0x0b],
    [0xf0, 0xe8, 0xd4, 0xc8, 0x01, 0x62, 0x45, 0x55, 0xfe, 0xef, 0xe6, 0xad, 0x25, 0x3c, 0x1f, 0x35],
    [0x4e, 0xdc, 0xca, 0x40, 0x20, 0xae, 0x3e, 0xd0, 0xe4, 0x74, 0x6c, 0x1c, 0x0e, 0x2a, 0xe5, 0xdd]]"

definition TABLE_S3_9 :: "bytes" where
  "TABLE_S3_9 = concat [
    [0x20, 0xa8, 0xd5, 0xa2, 0x94, 0xe0, 0xcd, 0xbc, 0xd6, 0xea, 0xc5, 0xbf, 0x7b, 0xb6, 0x17, 0xe7],
    [0x09, 0x2a, 0x7a, 0xfd, 0x42, 0x92, 0x58, 0xa0, 0x61, 0x21, 0xfa, 0x8c, 0x6f, 0xeb, 0x34, 0x71],
    [0xec, 0x24, 0xbb, 0x5e, 0x52, 0x08, 0x5d, 0x2e, 0xa1, 0x90, 0xbe, 0x68, 0xd8, 0x74, 0x8b, 0xcc],
    [0x70, 0xd3, 0xd1, 0x98, 0xe6, 0x41, 0x2d, 0x9e, 0xde, 0x1c, 0x69, 0xf2, 0x49, 0xc6, 0x06, 0xf0],
    [0x5b, 0x1a, 0x01, 0x3f, 0xb9, 0x0c, 0x9b, 0x35, 0x3d, 0x97, 0xff, 0x8a, 0x07, 0x13, 0xb8, 0xe1],
    [0xae, 0x76, 0xa3, 0xcf, 0x6b, 0xd9, 0x7f, 0xda, 0x86, 0x30, 0xdb, 0xb0, 0xdc, 0xe8, 0x04, 0x48],
    [0x23, 0x38, 0xf6, 0x29, 0xdd, 0xb4, 0x1e, 0xaf, 0x57, 0x6d, 0xb5, 0xe3, 0x26, 0x6c, 0xf4, 0x44],
    [0x56, 0x33, 0x0e, 0x0f, 0x31, 0x75, 0x27, 0xb2, 0xfb, 0x50, 0xd0, 0x80, 0x8e, 0xa6, 0x1d, 0x2b],
    [0x00, 0x6e, 0x7c, 0xc2, 0xc0, 0xd2, 0x4b, 0xaa, 0x11, 0xed, 0xdf, 0x4e, 0x0b, 0xfe, 0xce, 0xc3],
    [0x36, 0x25, 0x99, 0xc4, 0x79, 0x72, 0x84, 0xc7, 0x51, 0x19, 0x6a, 0xc1, 0x4d, 0x7d, 0x12, 0xcb],
    [0x9f, 0xd4, 0x87, 0x96, 0x66, 0x4c, 0x5c, 0x45, 0xad, 0xb1, 0x89, 0x91, 0x3c, 0x2c, 0x78, 0x1b],
    [0x15, 0x65, 0x9d, 0x0d, 0x9c, 0xa4, 0x77, 0x53, 0xb3, 0x39, 0x37, 0xa5, 0x47, 0xa9, 0x59, 0xd7],
    [0xb7, 0x9a, 0x63, 0x88, 0xac, 0x4a, 0x10, 0xe4, 0xc9, 0xef, 0x60, 0xa7, 0xe9, 0x18, 0xe5, 0x73],
    [0x2f, 0x8d, 0x54, 0xca, 0x83, 0x3b, 0x02, 0x8f, 0x95, 0xba, 0x55, 0xf3, 0x67, 0x03, 0xe2, 0xfc],
    [0xf5, 0x4f, 0x82, 0x85, 0x05, 0x1f, 0x28, 0x0a, 0xbd, 0x22, 0xf8, 0x43, 0x5a, 0xee, 0x3e, 0x46],
    [0x7e, 0x81, 0x62, 0x5f, 0x40, 0x32, 0x16, 0x3a, 0x93, 0xc8, 0xab, 0x14, 0xf1, 0xf7, 0x64, 0xf9]]"

definition TABLE_S3_10 :: "bytes" where
  "TABLE_S3_10 = concat [
    [0x4f, 0xd0, 0x0a, 0xb1, 0xa8, 0x1c, 0xcc, 0xb4, 0x07, 0xbd, 0x70, 0x77, 0xf7, 0xed, 0xda, 0xf8],
    [0x61, 0x3a, 0x59, 0xe6, 0x03, 0x05, 0x96, 0x0b, 0x8c, 0x73, 0x90, 0xad, 0xb2, 0xc0, 0xe4, 0xc8],
    [0x3b, 0x1d, 0x92, 0x55, 0x1b, 0xea, 0x17, 0x81, 0x45, 0x68, 0x91, 0x7a, 0x5e, 0xb8, 0xe2, 0x16],
    [0x67, 0x48, 0xa7, 0x01, 0x95, 0xf1, 0x10, 0x0e, 0xdd, 0x7f, 0xa6, 0x38, 0x71, 0xc9, 0xf0, 0x7d],
    [0x5f, 0x43, 0x7b, 0x63, 0xce, 0xde, 0x8a, 0xe9, 0x6d, 0x26, 0x75, 0x64, 0x94, 0xbe, 0xae, 0xb7],
    [0x41, 0xcb, 0xc5, 0x57, 0xb5, 0x5b, 0xab, 0x25, 0xe7, 0x97, 0x6f, 0xff, 0x6e, 0x56, 0x85, 0xa1],
    [0xe3, 0x1f, 0x2d, 0xbc, 0xf9, 0x0c, 0x3c, 0x31, 0xf2, 0x9c, 0x8e, 0x30, 0x32, 0x20, 0xb9, 0x58],
    [0xa3, 0xeb, 0x98, 0x33, 0xbf, 0x8f, 0xe0, 0x39, 0xc4, 0xd7, 0x6b, 0x36, 0x8b, 0x80, 0x76, 0x35],
    [0xa5, 0x9f, 0x47, 0x11, 0xd4, 0x9e, 0x06, 0xb6, 0xd1, 0xca, 0x04, 0xdb, 0x2f, 0x46, 0xec, 0x5d],
    [0x09, 0xa2, 0x22, 0x72, 0x7c, 0x54, 0xef, 0xd9, 0xa4, 0xc1, 0xfc, 0xfd, 0xc3, 0x87, 0xd5, 0x40],
    [0xcf, 0x65, 0x0d, 0x78, 0xf5, 0xe1, 0x4a, 0x13, 0xa9, 0xe8, 0xf3, 0xcd, 0x4b, 0xfe, 0x69, 0xc7],
    [0x74, 0xc2, 0x29, 0x42, 0x2e, 0x1a, 0xf6, 0xba, 0x5c, 0x84, 0x51, 0x3d, 0x99, 0x2b, 0x8d, 0x28],
    [0x53, 0x62, 0x4c, 0x9a, 0x2a, 0x86, 0x79, 0x3e, 0x1e, 0xd6, 0x49, 0xac, 0xa0, 0xfa, 0xaf, 0xdc],
    [0x2c, 0xee, 0x9b, 0x00, 0xbb, 0x34, 0xf4, 0x02, 0x82, 0x21, 0x23, 0x6a, 0x14, 0xb3, 0xdf, 0x6c],
    [0x24, 0x18, 0x37, 0x4d, 0x89, 0x44, 0xe5, 0x15, 0xd2, 0x5a, 0x27, 0x50, 0x66, 0x12, 0x3f, 0x4e],
    [0x93, 0xd3, 0x08, 0x7e, 0x9d, 0x19, 0xc6, 0x83, 0xfb, 0xd8, 0x88, 0x0f, 0xb0, 0x60, 0xaa, 0x52]]"

definition TABLE_S3_11 :: "bytes" where
  "TABLE_S3_11 = concat [
    [0x08, 0xb2, 0xc2, 0xc5, 0x58, 0x42, 0x4d, 0x6f, 0x65, 0xfa, 0x04, 0xbf, 0xa9, 0x1d, 0x01, 0x79],
    [0xc6, 0x39, 0x18, 0x25, 0x75, 0x07, 0x7d, 0x51, 0x8f, 0xd4, 0x53, 0xec, 0xb0, 0xb6, 0xbe, 0x23],
    [0xdd, 0xf0, 0xcf, 0x24, 0x0d, 0xeb, 0xa3, 0x57, 0xa8, 0x8e, 0xe0, 0x27, 0x5f, 0xae, 0x34, 0xa2],
    [0xca, 0x68, 0x8d, 0x13, 0x7c, 0xc4, 0xc8, 0x45, 0xfd, 0xd2, 0xb4, 0x12, 0x44, 0x20, 0xbb, 0xa5],
    [0x93, 0xd8, 0xd1, 0xc0, 0x0b, 0x21, 0x02, 0x1b, 0xf6, 0xea, 0xd6, 0xce, 0x6b, 0x7b, 0x5c, 0x3f],
    [0x22, 0x52, 0x4a, 0xda, 0xe3, 0xdb, 0x14, 0x30, 0x7e, 0xf4, 0xe2, 0x70, 0xee, 0x00, 0x90, 0x1e],
    [0x29, 0x47, 0x85, 0x3b, 0x95, 0x87, 0xed, 0x0c, 0xaa, 0x56, 0x09, 0x98, 0xb9, 0x4c, 0x84, 0x89],
    [0x62, 0x71, 0x83, 0xde, 0x35, 0x3e, 0x80, 0xc3, 0x5e, 0x16, 0x86, 0x2d, 0x3a, 0x0a, 0x8c, 0x55],
    [0x7f, 0x64, 0x6e, 0xb1, 0xf3, 0x9a, 0xe8, 0x59, 0x2a, 0x10, 0xa4, 0xf2, 0x2b, 0x61, 0x03, 0xb3],
    [0x74, 0x11, 0x48, 0x49, 0x32, 0x76, 0xf5, 0x60, 0x17, 0xbc, 0xc7, 0x97, 0xe1, 0xc9, 0x6c, 0x5a],
    [0x5d, 0x1c, 0x78, 0x46, 0x4b, 0xfe, 0x72, 0xdc, 0xd0, 0x7a, 0xcd, 0xb8, 0x54, 0x40, 0xa6, 0xff],
    [0x31, 0xe9, 0x88, 0xe4, 0x9e, 0x2c, 0x9d, 0x38, 0x77, 0xc1, 0xf7, 0x9c, 0xaf, 0x9b, 0x0f, 0x43],
    [0x63, 0xab, 0x19, 0xfc, 0x4f, 0x15, 0x69, 0x1a, 0xd7, 0xe6, 0x2f, 0xf9, 0x33, 0x9f, 0x8b, 0xcc],
    [0x94, 0x37, 0xdf, 0x96, 0x06, 0xa1, 0xd9, 0x6a, 0x5b, 0x99, 0xb5, 0x2e, 0x81, 0x0e, 0xb7, 0x41],
    [0xef, 0x67, 0xe5, 0x92, 0xa7, 0xd3, 0xfb, 0x8a, 0xad, 0x91, 0xf8, 0x82, 0xf1, 0x3c, 0xa0, 0x50],
    [0x6d, 0x4e, 0xba, 0x3d, 0xd5, 0x05, 0xe7, 0x1f, 0x66, 0x26, 0xcb, 0xbd, 0xac, 0x28, 0x36, 0x73]]"

definition TABLE_S3_12 :: "bytes" where
  "TABLE_S3_12 = concat [
    [0x61, 0xdb, 0x16, 0x11, 0x91, 0x8b, 0xbc, 0x9e, 0x29, 0xb6, 0x6c, 0xd7, 0xce, 0x7a, 0xaa, 0xd2],
    [0xea, 0x15, 0xf6, 0xcb, 0xd4, 0xa6, 0x82, 0xae, 0x07, 0x5c, 0x3f, 0x80, 0x65, 0x63, 0xf0, 0x6d],
    [0x23, 0x0e, 0xf7, 0x1c, 0x38, 0xde, 0x84, 0x70, 0x5d, 0x7b, 0xf4, 0x33, 0x7d, 0x8c, 0x71, 0xe7],
    [0xbb, 0x19, 0xc0, 0x5e, 0x17, 0xaf, 0x96, 0x1b, 0x01, 0x2e, 0xc1, 0x67, 0xf3, 0x97, 0x76, 0x68],
    [0x0b, 0x40, 0x13, 0x02, 0xf2, 0xd8, 0xc8, 0xd1, 0x39, 0x25, 0x1d, 0x05, 0xa8, 0xb8, 0xec, 0x8f],
    [0x81, 0xf1, 0x09, 0x99, 0x08, 0x30, 0xe3, 0xc7, 0x27, 0xad, 0xa3, 0x31, 0xd3, 0x3d, 0xcd, 0x43],
    [0x94, 0xfa, 0xe8, 0x56, 0x54, 0x46, 0xdf, 0x3e, 0x85, 0x79, 0x4b, 0xda, 0x9f, 0x6a, 0x5a, 0x57],
    [0xa2, 0xb1, 0x0d, 0x50, 0xed, 0xe6, 0x10, 0x53, 0xc5, 0x8d, 0xfe, 0x55, 0xd9, 0xe9, 0x86, 0x5f],
    [0xb7, 0xac, 0x62, 0xbd, 0x49, 0x20, 0x8a, 0x3b, 0xc3, 0xf9, 0x21, 0x77, 0xb2, 0xf8, 0x60, 0xd0],
    [0xc2, 0xa7, 0x9a, 0x9b, 0xa5, 0xe1, 0xb3, 0x26, 0x6f, 0xc4, 0x44, 0x14, 0x1a, 0x32, 0x89, 0xbf],
    [0xcf, 0x8e, 0x95, 0xab, 0x2d, 0x98, 0x0f, 0xa1, 0xa9, 0x03, 0x6b, 0x1e, 0x93, 0x87, 0x2c, 0x75],
    [0x3a, 0xe2, 0x37, 0x5b, 0xff, 0x4d, 0xeb, 0x4e, 0x12, 0xa4, 0x4f, 0x24, 0x48, 0x7c, 0x90, 0xdc],
    [0x78, 0xb0, 0x2f, 0xca, 0xc6, 0x9c, 0xc9, 0xba, 0x35, 0x04, 0x2a, 0xfc, 0x4c, 0xe0, 0x1f, 0x58],
    [0xe4, 0x47, 0x45, 0x0c, 0x72, 0xd5, 0xb9, 0x0a, 0x4a, 0x88, 0xfd, 0x66, 0xdd, 0x52, 0x92, 0x64],
    [0xb4, 0x3c, 0x41, 0x36, 0x00, 0x74, 0x59, 0x28, 0x42, 0x7e, 0x51, 0x2b, 0xef, 0x22, 0x83, 0x73],
    [0x9d, 0xbe, 0xee, 0x69, 0xd6, 0x06, 0xcc, 0x34, 0xf5, 0xb5, 0x6e, 0x18, 0xfb, 0x7f, 0xa0, 0xe5]]"

definition TABLE_S3_13 :: "bytes" where
  "TABLE_S3_13 = concat [
    [0x68, 0xc6, 0x4a, 0xff, 0xf2, 0xcc, 0xa8, 0xe9, 0x4b, 0x12, 0xf4, 0xe0, 0x0c, 0x79, 0xce, 0x64],
    [0x8c, 0x29, 0x98, 0x2a, 0x50, 0x3c, 0x5d, 0x85, 0xf7, 0xbb, 0x2f, 0x1b, 0x28, 0x43, 0x75, 0xc3],
    [0xed, 0x5c, 0x2e, 0x47, 0x05, 0xda, 0xd0, 0xcb, 0x07, 0xb7, 0xd5, 0x9f, 0x46, 0x10, 0xa4, 0x9e],
    [0xd4, 0x41, 0xc2, 0x86, 0xfd, 0xfc, 0xa5, 0xc0, 0xee, 0xd8, 0x7d, 0x55, 0x23, 0x73, 0x08, 0xa3],
    [0x3e, 0x4f, 0x67, 0x13, 0x26, 0x51, 0xd3, 0x5b, 0xe4, 0x14, 0x88, 0x45, 0x36, 0x4c, 0x25, 0x19],
    [0xab, 0x53, 0xb1, 0x61, 0x89, 0x0e, 0xfa, 0xd9, 0xc7, 0x82, 0x9c, 0x18, 0x09, 0x7f, 0x92, 0xd2],
    [0xae, 0xdd, 0xa1, 0xfb, 0x48, 0xad, 0x1f, 0xd7, 0x78, 0x3f, 0x2b, 0x87, 0x4d, 0x9b, 0x52, 0x63],
    [0xde, 0x6d, 0x15, 0xb2, 0x22, 0x6b, 0x83, 0x20, 0xf5, 0x03, 0xba, 0x35, 0x9a, 0x01, 0x2d, 0xef],
    [0xe3, 0x17, 0x5f, 0xb9, 0x90, 0x7b, 0x44, 0x69, 0x16, 0x80, 0x1a, 0xeb, 0x93, 0x54, 0x3a, 0x1c],
    [0xf1, 0x7c, 0x70, 0xc8, 0xa7, 0x39, 0xdc, 0x7e, 0x11, 0x0f, 0x94, 0xf0, 0xa6, 0x00, 0x66, 0x49],
    [0xdb, 0xf9, 0xf6, 0xec, 0x71, 0x76, 0x06, 0xbc, 0xcd, 0xb5, 0xa9, 0x1d, 0x0b, 0xb0, 0x4e, 0xd1],
    [0xe5, 0xc9, 0xb3, 0xc1, 0x91, 0xac, 0x8d, 0x72, 0x97, 0x0a, 0x02, 0x04, 0x58, 0xe7, 0x60, 0x3b],
    [0xb8, 0x59, 0x33, 0x21, 0x8f, 0x31, 0xf3, 0x9d, 0x3d, 0x30, 0xf8, 0x0d, 0x2c, 0xbd, 0xe2, 0x1e],
    [0x77, 0x34, 0x8a, 0x81, 0x6a, 0x37, 0xc5, 0xd6, 0xe1, 0x38, 0xbe, 0x8e, 0x99, 0x32, 0xa2, 0xea],
    [0xaf, 0xb6, 0x95, 0xbf, 0x74, 0x65, 0x6c, 0x27, 0x8b, 0xe8, 0xcf, 0xdf, 0x7a, 0x62, 0x5e, 0x42],
    [0x84, 0xa0, 0x6f, 0x57, 0x6e, 0xfe, 0xe6, 0x96, 0xaa, 0x24, 0xb4, 0x5a, 0xc4, 0x56, 0x40, 0xca]]"

definition TABLE_S3_14 :: "bytes" where
  "TABLE_S3_14 = concat [
    [0x50, 0xc5, 0x46, 0x02, 0x79, 0x78, 0x21, 0x44, 0x6a, 0x5c, 0xf9, 0xd1, 0xa7, 0xf7, 0x8c, 0x27],
    [0x69, 0xd8, 0xaa, 0xc3, 0x81, 0x5e, 0x54, 0x4f, 0x83, 0x33, 0x51, 0x1b, 0xc2, 0x94, 0x20, 0x1a],
    [0x08, 0xad, 0x1c, 0xae, 0xd4, 0xb8, 0xd9, 0x01, 0x73, 0x3f, 0xab, 0x9f, 0xac, 0xc7, 0xf1, 0x47],
    [0xec, 0x42, 0xce, 0x7b, 0x76, 0x48, 0x2c, 0x6d, 0xcf, 0x96, 0x70, 0x64, 0x88, 0xfd, 0x4a, 0xe0],
    [0x5a, 0xe9, 0x91, 0x36, 0xa6, 0xef, 0x07, 0xa4, 0x71, 0x87, 0x3e, 0xb1, 0x1e, 0x85, 0xa9, 0x6b],
    [0x2a, 0x59, 0x25, 0x7f, 0xcc, 0x29, 0x9b, 0x53, 0xfc, 0xbb, 0xaf, 0x03, 0xc9, 0x1f, 0xd6, 0xe7],
    [0x2f, 0xd7, 0x35, 0xe5, 0x0d, 0x8a, 0x7e, 0x5d, 0x43, 0x06, 0x18, 0x9c, 0x8d, 0xfb, 0x16, 0x56],
    [0xba, 0xcb, 0xe3, 0x97, 0xa2, 0xd5, 0x57, 0xdf, 0x60, 0x90, 0x0c, 0xc1, 0xb2, 0xc8, 0xa1, 0x9d],
    [0x61, 0x4d, 0x37, 0x45, 0x15, 0x28, 0x09, 0xf6, 0x13, 0x8e, 0x86, 0x80, 0xdc, 0x63, 0xe4, 0xbf],
    [0x5f, 0x7d, 0x72, 0x68, 0xf5, 0xf2, 0x82, 0x38, 0x49, 0x31, 0x2d, 0x99, 0x8f, 0x34, 0xca, 0x55],
    [0x75, 0xf8, 0xf4, 0x4c, 0x23, 0xbd, 0x58, 0xfa, 0x95, 0x8b, 0x10, 0x74, 0x22, 0x84, 0xe2, 0xcd],
    [0x67, 0x93, 0xdb, 0x3d, 0x14, 0xff, 0xc0, 0xed, 0x92, 0x04, 0x9e, 0x6f, 0x17, 0xd0, 0xbe, 0x98],
    [0x00, 0x24, 0xeb, 0xd3, 0xea, 0x7a, 0x62, 0x12, 0x2e, 0xa0, 0x30, 0xde, 0x40, 0xd2, 0xc4, 0x4e],
    [0x2b, 0x32, 0x11, 0x3b, 0xf0, 0xe1, 0xe8, 0xa3, 0x0f, 0x6c, 0x4b, 0x5b, 0xfe, 0xe6, 0xda, 0xc6],
    [0xf3, 0xb0, 0x0e, 0x05, 0xee, 0xb3, 0x41, 0x52, 0x65, 0xbc, 0x3a, 0x0a, 0x1d, 0xb6, 0x26, 0x6e],
    [0x3c, 0xdd, 0xb7, 0xa5, 0x0b, 0xb5, 0x77, 0x19, 0xb9, 0xb4, 0x7c, 0x89, 0xa8, 0x39, 0x66, 0x9a]]"

definition TABLE_S3_15 :: "bytes" where
  "TABLE_S3_15 = concat [
    [0x55, 0x44, 0x4d, 0x06, 0x8e, 0x97, 0xb4, 0x9e, 0x5b, 0x43, 0x7f, 0x63, 0xaa, 0xc9, 0xee, 0xfe],
    [0x4f, 0xdf, 0xc7, 0xb7, 0xa5, 0x81, 0x4e, 0x76, 0xe5, 0x77, 0x61, 0xeb, 0x8b, 0x05, 0x95, 0x7b],
    [0xae, 0x10, 0xd2, 0xbc, 0x99, 0x78, 0x12, 0x00, 0x0d, 0x9c, 0xc3, 0x3f, 0x1c, 0x11, 0xd9, 0x2c],
    [0x4b, 0x16, 0xe4, 0xf7, 0x56, 0x15, 0xab, 0xa0, 0xb8, 0x13, 0x83, 0xcb, 0xc0, 0x19, 0x9f, 0xaf],
    [0x50, 0x57, 0x27, 0x9d, 0xfa, 0xd8, 0xd7, 0xcd, 0x2a, 0x91, 0x6f, 0xf0, 0xec, 0x94, 0x88, 0x3c],
    [0xb0, 0x8d, 0xac, 0x53, 0xc4, 0xe8, 0x92, 0xe0, 0x79, 0xc6, 0x41, 0x1a, 0xb6, 0x2b, 0x23, 0x25],
    [0xb1, 0x5a, 0x65, 0x48, 0xc2, 0x36, 0x7e, 0x98, 0xb2, 0x75, 0x1b, 0x3d, 0x37, 0xa1, 0x3b, 0xca],
    [0x86, 0x18, 0xfd, 0x5f, 0xd0, 0x5d, 0x51, 0xe9, 0x87, 0x21, 0x47, 0x68, 0x30, 0x2e, 0xb5, 0xd1],
    [0x69, 0x8c, 0x3e, 0xf6, 0x8f, 0xfc, 0x80, 0xda, 0x6c, 0xba, 0x73, 0x42, 0x59, 0x1e, 0x0a, 0xa6],
    [0x03, 0x4a, 0xa2, 0x01, 0xff, 0x4c, 0x34, 0x93, 0xbb, 0x20, 0x0c, 0xce, 0xd4, 0x22, 0x9b, 0x14],
    [0x07, 0x70, 0xf2, 0x7a, 0x1f, 0x6e, 0x46, 0x32, 0x17, 0x6d, 0x04, 0x38, 0xc5, 0x35, 0xa9, 0x64],
    [0xa8, 0x2f, 0xdb, 0xf8, 0x8a, 0x72, 0x90, 0x40, 0x28, 0x5e, 0xb3, 0xf3, 0xe6, 0xa3, 0xbd, 0x39],
    [0x24, 0xfb, 0xf1, 0xea, 0xcc, 0x7d, 0x0f, 0x66, 0x67, 0x31, 0x85, 0xbf, 0x26, 0x96, 0xf4, 0xbe],
    [0xdc, 0xdd, 0x84, 0xe1, 0xf5, 0x60, 0xe3, 0xa7, 0x02, 0x52, 0x29, 0x82, 0xcf, 0xf9, 0x5c, 0x74],
    [0xd3, 0xed, 0x89, 0xc8, 0x49, 0xe7, 0x6b, 0xde, 0x2d, 0x58, 0xef, 0x45, 0x6a, 0x33, 0xd5, 0xc1],
    [0x71, 0x1d, 0x7c, 0xa4, 0xad, 0x08, 0xb9, 0x0b, 0x09, 0x62, 0x54, 0xe2, 0xd6, 0x9a, 0x0e, 0x3a]]"

definition TABLE_S3_rows :: "bytes list" where
  "TABLE_S3_rows = [
    TABLE_S3_0, TABLE_S3_1, TABLE_S3_2, TABLE_S3_3, TABLE_S3_4, TABLE_S3_5, TABLE_S3_6, TABLE_S3_7,
    TABLE_S3_8, TABLE_S3_9, TABLE_S3_10, TABLE_S3_11, TABLE_S3_12, TABLE_S3_13, TABLE_S3_14,
    TABLE_S3_15]"

definition TABLE_S3 :: "bytes" where
  "TABLE_S3 = concat TABLE_S3_rows"

definition TABLE_S4_0 :: "bytes" where
  "TABLE_S4_0 = concat [
    [0x5b, 0x9c, 0x13, 0x35, 0x8f, 0x19, 0xe4, 0x15, 0x74, 0x9f, 0x66, 0x4b, 0x18, 0xec, 0xb6, 0x50],
    [0x0f, 0xa9, 0x46, 0x69, 0x00, 0x1e, 0xff, 0x9b, 0x36, 0xa8, 0x71, 0xd3, 0x73, 0xfe, 0xc7, 0x7f],
    [0xbf, 0x04, 0xde, 0x41, 0xba, 0xc2, 0x12, 0xa6, 0x79, 0x7e, 0xb3, 0x09, 0xf6, 0xd4, 0xe3, 0xf9],
    [0xe8, 0x57, 0x34, 0x6f, 0x05, 0x98, 0x0b, 0x0d, 0xa3, 0x9e, 0x7d, 0x82, 0xc6, 0xea, 0xce, 0xbc],
    [0xb2, 0x23, 0x11, 0xed, 0x3f, 0x32, 0x02, 0xf7, 0x3e, 0x80, 0x92, 0xfc, 0x56, 0xb7, 0x2e, 0x3c],
    [0x3d, 0x96, 0xe5, 0xad, 0x37, 0xee, 0x81, 0xb1, 0x38, 0x65, 0xd9, 0xca, 0x3b, 0x78, 0x8e, 0x85],
    [0x6d, 0x75, 0x4d, 0x51, 0xe7, 0x84, 0xd0, 0xc0, 0x6a, 0x7b, 0x28, 0x63, 0xb9, 0xa0, 0xb0, 0x9a],
    [0x59, 0xcb, 0xc5, 0x4f, 0x2b, 0xa5, 0x55, 0xbb, 0xf1, 0x61, 0x99, 0xe9, 0xaf, 0x8b, 0x58, 0x60],
    [0x76, 0x03, 0x6b, 0xc1, 0x1d, 0x44, 0xef, 0xfb, 0xc3, 0xfd, 0xe6, 0xa7, 0xc9, 0x67, 0xf0, 0x45],
    [0x4c, 0x27, 0xcc, 0x7a, 0xb4, 0xf8, 0x14, 0x20, 0x33, 0x5f, 0x8a, 0x52, 0x26, 0x83, 0x25, 0x97],
    [0x1f, 0x49, 0x91, 0xab, 0xb8, 0x08, 0x90, 0xda, 0xd5, 0x0a, 0xc4, 0xdf, 0x53, 0xe2, 0x48, 0x21],
    [0x7c, 0x2c, 0xac, 0x07, 0xd7, 0xe1, 0x5a, 0x72, 0xf3, 0xf2, 0xcf, 0xaa, 0x4e, 0xdb, 0x89, 0xcd],
    [0x43, 0x39, 0x16, 0x2a, 0x1b, 0xeb, 0x4a, 0x87, 0x5e, 0x29, 0x54, 0xdc, 0x40, 0x31, 0x1c, 0x68],
    [0x70, 0x06, 0xdd, 0x9d, 0x8d, 0xc8, 0x17, 0x93, 0x01, 0x86, 0xd6, 0xf5, 0x5c, 0xa4, 0x6e, 0xbe],
    [0x94, 0x42, 0x6c, 0x5d, 0x30, 0x77, 0x88, 0x24, 0xa2, 0x47, 0xd8, 0x10, 0xd2, 0xa1, 0xf4, 0xae],
    [0x0e, 0x95, 0xe0, 0x22, 0x0c, 0xfa, 0x3a, 0xb5, 0x64, 0x2d, 0x2f, 0x8c, 0x62, 0xd1, 0xbd, 0x1a]]"

definition TABLE_S4_1 :: "bytes" where
  "TABLE_S4_1 = concat [
    [0x91, 0x37, 0xd8, 0xf7, 0x9e, 0x80, 0x61, 0x05, 0xa8, 0x36, 0xef, 0x4d, 0xed, 0x60, 0x59, 0xe1],
    [0xc5, 0x02, 0x8d, 0xab, 0x11, 0x87, 0x7a, 0x8b, 0xea, 0x01, 0xf8, 0xd5, 0x86, 0x72, 0x28, 0xce],
    [0x76, 0xc9, 0xaa, 0xf1, 0x9b, 0x06, 0x95, 0x93, 0x3d, 0x00, 0xe3, 0x1c, 0x58, 0x74, 0x50, 0x22],
    [0x21, 0x9a, 0x40, 0xdf, 0x24, 0x5c, 0x8c, 0x38, 0xe7, 0xe0, 0x2d, 0x97, 0x68, 0x4a, 0x7d, 0x67],
    [0xa3, 0x08, 0x7b, 0x33, 0xa9, 0x70, 0x1f, 0x2f, 0xa6, 0xfb, 0x47, 0x54, 0xa5, 0xe6, 0x10, 0x1b],
    [0x2c, 0xbd, 0x8f, 0x73, 0xa1, 0xac, 0x9c, 0x69, 0xa0, 0x1e, 0x0c, 0x62, 0xc8, 0x29, 0xb0, 0xa2],
    [0xc7, 0x55, 0x5b, 0xd1, 0xb5, 0x3b, 0xcb, 0x25, 0x6f, 0xff, 0x07, 0x77, 0x31, 0x15, 0xc6, 0xfe],
    [0xf3, 0xeb, 0xd3, 0xcf, 0x79, 0x1a, 0x4e, 0x5e, 0xf4, 0xe5, 0xb6, 0xfd, 0x27, 0x3e, 0x2e, 0x04],
    [0xd2, 0xb9, 0x52, 0xe4, 0x2a, 0x66, 0x8a, 0xbe, 0xad, 0xc1, 0x14, 0xcc, 0xb8, 0x1d, 0xbb, 0x09],
    [0xe8, 0x9d, 0xf5, 0x5f, 0x83, 0xda, 0x71, 0x65, 0x5d, 0x63, 0x78, 0x39, 0x57, 0xf9, 0x6e, 0xdb],
    [0xe2, 0xb2, 0x32, 0x99, 0x49, 0x7f, 0xc4, 0xec, 0x6d, 0x6c, 0x51, 0x34, 0xd0, 0x45, 0x17, 0x53],
    [0x81, 0xd7, 0x0f, 0x35, 0x26, 0x96, 0x0e, 0x44, 0x4b, 0x94, 0x5a, 0x41, 0xcd, 0x7c, 0xd6, 0xbf],
    [0xee, 0x98, 0x43, 0x03, 0x13, 0x56, 0x89, 0x0d, 0x9f, 0x18, 0x48, 0x6b, 0xc2, 0x3a, 0xf0, 0x20],
    [0xdd, 0xa7, 0x88, 0xb4, 0x85, 0x75, 0xd4, 0x19, 0xc0, 0xb7, 0xca, 0x42, 0xde, 0xaf, 0x82, 0xf6],
    [0x90, 0x0b, 0x7e, 0xbc, 0x92, 0x64, 0xa4, 0x2b, 0xfa, 0xb3, 0xb1, 0x12, 0xfc, 0x4f, 0x23, 0x84],
    [0x0a, 0xdc, 0xf2, 0xc3, 0xae, 0xe9, 0x16, 0xba, 0x3c, 0xd9, 0x46, 0x8e, 0x4c, 0x3f, 0x6a, 0x30]]"

definition TABLE_S4_2 :: "bytes" where
  "TABLE_S4_2 = concat [
    [0xc4, 0xe9, 0x10, 0xfb, 0xdf, 0x39, 0x63, 0x97, 0xba, 0x9c, 0x13, 0xd4, 0x9a, 0x6b, 0x96, 0x00],
    [0x5c, 0xfe, 0x27, 0xb9, 0xf0, 0x48, 0x71, 0xfc, 0xe6, 0xc9, 0x26, 0x80, 0x14, 0x70, 0x91, 0x8f],
    [0x86, 0x3c, 0xf1, 0xf6, 0x76, 0x6c, 0x5b, 0x79, 0xce, 0x51, 0x8b, 0x30, 0x29, 0x9d, 0x4d, 0x35],
    [0x0d, 0xf2, 0x11, 0x2c, 0x33, 0x41, 0x65, 0x49, 0xe0, 0xbb, 0xd8, 0x67, 0x82, 0x84, 0x17, 0x8a],
    [0x73, 0x1d, 0x0f, 0xb1, 0xb3, 0xa1, 0x38, 0xd9, 0x62, 0x9e, 0xac, 0x3d, 0x78, 0x8d, 0xbd, 0xb0],
    [0x45, 0x56, 0xea, 0xb7, 0x0a, 0x01, 0xf7, 0xb4, 0x22, 0x6a, 0x19, 0xb2, 0x3e, 0x0e, 0x61, 0xb8],
    [0xec, 0xa7, 0xf4, 0xe5, 0x15, 0x3f, 0x2f, 0x36, 0xde, 0xc2, 0xfa, 0xe2, 0x4f, 0x5f, 0x0b, 0x68],
    [0x66, 0x16, 0xee, 0x7e, 0xef, 0xd7, 0x04, 0x20, 0xc0, 0x4a, 0x44, 0xd6, 0x34, 0xda, 0x2a, 0xa4],
    [0x28, 0x69, 0x72, 0x4c, 0xca, 0x7f, 0xe8, 0x46, 0x4e, 0xe4, 0x8c, 0xf9, 0x74, 0x60, 0xcb, 0x92],
    [0xdd, 0x05, 0xd0, 0xbc, 0x18, 0xaa, 0x0c, 0xa9, 0xf5, 0x43, 0xa8, 0xc3, 0xaf, 0x9b, 0x77, 0x3b],
    [0x50, 0x4b, 0x85, 0x5a, 0xae, 0xc7, 0x6d, 0xdc, 0x24, 0x1e, 0xc6, 0x90, 0x55, 0x1f, 0x87, 0x37],
    [0x25, 0x40, 0x7d, 0x7c, 0x42, 0x06, 0x54, 0xc1, 0x88, 0x23, 0xa3, 0xf3, 0xfd, 0xd5, 0x6e, 0x58],
    [0x53, 0xdb, 0xa6, 0xd1, 0xe7, 0x93, 0xbe, 0xcf, 0xa5, 0x99, 0xb6, 0xcc, 0x08, 0xc5, 0x64, 0x94],
    [0x7a, 0x59, 0x09, 0x8e, 0x31, 0xe1, 0x2b, 0xd3, 0x12, 0x52, 0x89, 0xff, 0x1c, 0x98, 0x47, 0x02],
    [0x9f, 0x57, 0xc8, 0x2d, 0x21, 0x7b, 0x2e, 0x5d, 0xd2, 0xe3, 0xcd, 0x1b, 0xab, 0x07, 0xf8, 0xbf],
    [0x03, 0xa0, 0xa2, 0xeb, 0x95, 0x32, 0x5e, 0xed, 0xad, 0x6f, 0x1a, 0x81, 0x3a, 0xb5, 0x75, 0x83]]"

definition TABLE_S4_3 :: "bytes" where
  "TABLE_S4_3 = concat [
    [0xbc, 0xba, 0xb2, 0x2f, 0x83, 0xd8, 0x5f, 0xe0, 0x79, 0x0b, 0x71, 0x5d, 0xca, 0x35, 0x14, 0x29],
    [0xa5, 0x11, 0x0d, 0x75, 0x69, 0xf6, 0x08, 0xb3, 0x54, 0x4e, 0x41, 0x63, 0x04, 0xbe, 0xce, 0xc9],
    [0x48, 0x2c, 0xb7, 0xa9, 0xf1, 0xde, 0xb8, 0x1e, 0x70, 0xc8, 0xc4, 0x49, 0xc6, 0x64, 0x81, 0x1f],
    [0x53, 0xa2, 0x38, 0xae, 0xa4, 0x82, 0xec, 0x2b, 0x01, 0xe7, 0xaf, 0x5b, 0xd1, 0xfc, 0xc3, 0x28],
    [0xe2, 0x0c, 0x9c, 0x12, 0x72, 0xf8, 0xee, 0x7c, 0xef, 0xd7, 0x18, 0x3c, 0x2e, 0x5e, 0x46, 0xd6],
    [0x67, 0x77, 0x50, 0x33, 0xfa, 0xe6, 0xda, 0xc2, 0x07, 0x2d, 0x0e, 0x17, 0x9f, 0xd4, 0xdd, 0xcc],
    [0x36, 0x06, 0x80, 0x59, 0x52, 0x1a, 0x8a, 0x21, 0x39, 0x32, 0x8c, 0xcf, 0x6e, 0x7d, 0x8f, 0xd2],
    [0xb5, 0x40, 0x88, 0x85, 0xa6, 0x5a, 0x05, 0x94, 0x99, 0x8b, 0xe1, 0x00, 0x25, 0x4b, 0x89, 0x37],
    [0xed, 0xc5, 0x60, 0x56, 0x1b, 0xb0, 0xcb, 0x9b, 0x3e, 0x7a, 0xf9, 0x6c, 0x78, 0x1d, 0x44, 0x45],
    [0x27, 0x6d, 0x0f, 0xbf, 0x26, 0x1c, 0xa8, 0xfe, 0xff, 0x96, 0xe4, 0x55, 0x73, 0x68, 0x62, 0xbd],
    [0xa3, 0x97, 0x03, 0x4f, 0x7b, 0xcd, 0xfb, 0x90, 0x92, 0x20, 0x91, 0x34, 0x3d, 0xe5, 0x84, 0xe8],
    [0x58, 0x4c, 0xaa, 0xf3, 0xdc, 0x76, 0xc1, 0xb4, 0x47, 0xf2, 0x7e, 0xd0, 0x51, 0x10, 0x74, 0x4a],
    [0x8d, 0x02, 0xbb, 0x4d, 0x57, 0x95, 0xb9, 0x22, 0x0a, 0xad, 0xd5, 0x66, 0x98, 0x3b, 0xd3, 0x9a],
    [0x3f, 0x93, 0x87, 0xc0, 0xdb, 0xea, 0x23, 0xf5, 0x43, 0x19, 0x65, 0x16, 0x6f, 0xa7, 0x15, 0xf0],
    [0xa0, 0x24, 0x3a, 0x7f, 0x6a, 0x2a, 0xc7, 0xb1, 0xd9, 0x09, 0xeb, 0x13, 0x61, 0x42, 0xb6, 0x31],
    [0xfd, 0x30, 0xac, 0x5c, 0xa1, 0x9d, 0xf4, 0x8e, 0xab, 0xdf, 0xf7, 0x86, 0xe3, 0x6b, 0xe9, 0x9e]]"

definition TABLE_S4_4 :: "bytes" where
  "TABLE_S4_4 = concat [
    [0x8b, 0x4c, 0xc3, 0xe5, 0x5f, 0xc9, 0x34, 0xc5, 0xa4, 0x4f, 0xb6, 0x9b, 0xc8, 0x3c, 0x66, 0x80],
    [0xdf, 0x79, 0x96, 0xb9, 0xd0, 0xce, 0x2f, 0x4b, 0xe6, 0x78, 0xa1, 0x03, 0xa3, 0x2e, 0x17, 0xaf],
    [0x6f, 0xd4, 0x0e, 0x91, 0x6a, 0x12, 0xc2, 0x76, 0xa9, 0xae, 0x63, 0xd9, 0x26, 0x04, 0x33, 0x29],
    [0x38, 0x87, 0xe4, 0xbf, 0xd5, 0x48, 0xdb, 0xdd, 0x73, 0x4e, 0xad, 0x52, 0x16, 0x3a, 0x1e, 0x6c],
    [0x62, 0xf3, 0xc1, 0x3d, 0xef, 0xe2, 0xd2, 0x27, 0xee, 0x50, 0x42, 0x2c, 0x86, 0x67, 0xfe, 0xec],
    [0xed, 0x46, 0x35, 0x7d, 0xe7, 0x3e, 0x51, 0x61, 0xe8, 0xb5, 0x09, 0x1a, 0xeb, 0xa8, 0x5e, 0x55],
    [0xbd, 0xa5, 0x9d, 0x81, 0x37, 0x54, 0x00, 0x10, 0xba, 0xab, 0xf8, 0xb3, 0x69, 0x70, 0x60, 0x4a],
    [0x89, 0x1b, 0x15, 0x9f, 0xfb, 0x75, 0x85, 0x6b, 0x21, 0xb1, 0x49, 0x39, 0x7f, 0x5b, 0x88, 0xb0],
    [0xa6, 0xd3, 0xbb, 0x11, 0xcd, 0x94, 0x3f, 0x2b, 0x13, 0x2d, 0x36, 0x77, 0x19, 0xb7, 0x20, 0x95],
    [0x9c, 0xf7, 0x1c, 0xaa, 0x64, 0x28, 0xc4, 0xf0, 0xe3, 0x8f, 0x5a, 0x82, 0xf6, 0x53, 0xf5, 0x47],
    [0xcf, 0x99, 0x41, 0x7b, 0x68, 0xd8, 0x40, 0x0a, 0x05, 0xda, 0x14, 0x0f, 0x83, 0x32, 0x98, 0xf1],
    [0xac, 0xfc, 0x7c, 0xd7, 0x07, 0x31, 0x8a, 0xa2, 0x23, 0x22, 0x1f, 0x7a, 0x9e, 0x0b, 0x59, 0x1d],
    [0x93, 0xe9, 0xc6, 0xfa, 0xcb, 0x3b, 0x9a, 0x57, 0x8e, 0xf9, 0x84, 0x0c, 0x90, 0xe1, 0xcc, 0xb8],
    [0xa0, 0xd6, 0x0d, 0x4d, 0x5d, 0x18, 0xc7, 0x43, 0xd1, 0x56, 0x06, 0x25, 0x8c, 0x74, 0xbe, 0x6e],
    [0x44, 0x92, 0xbc, 0x8d, 0xe0, 0xa7, 0x58, 0xf4, 0x72, 0x97, 0x08, 0xc0, 0x02, 0x71, 0x24, 0x7e],
    [0xde, 0x45, 0x30, 0xf2, 0xdc, 0x2a, 0xea, 0x65, 0xb4, 0xfd, 0xff, 0x5c, 0xb2, 0x01, 0x6d, 0xca]]"

definition TABLE_S4_5 :: "bytes" where
  "TABLE_S4_5 = concat [
    [0x41, 0xe7, 0x08, 0x27, 0x4e, 0x50, 0xb1, 0xd5, 0x78, 0xe6, 0x3f, 0x9d, 0x3d, 0xb0, 0x89, 0x31],
    [0x15, 0xd2, 0x5d, 0x7b, 0xc1, 0x57, 0xaa, 0x5b, 0x3a, 0xd1, 0x28, 0x05, 0x56, 0xa2, 0xf8, 0x1e],
    [0xa6, 0x19, 0x7a, 0x21, 0x4b, 0xd6, 0x45, 0x43, 0xed, 0xd0, 0x33, 0xcc, 0x88, 0xa4, 0x80, 0xf2],
    [0xf1, 0x4a, 0x90, 0x0f, 0xf4, 0x8c, 0x5c, 0xe8, 0x37, 0x30, 0xfd, 0x47, 0xb8, 0x9a, 0xad, 0xb7],
    [0x73, 0xd8, 0xab, 0xe3, 0x79, 0xa0, 0xcf, 0xff, 0x76, 0x2b, 0x97, 0x84, 0x75, 0x36, 0xc0, 0xcb],
    [0xfc, 0x6d, 0x5f, 0xa3, 0x71, 0x7c, 0x4c, 0xb9, 0x70, 0xce, 0xdc, 0xb2, 0x18, 0xf9, 0x60, 0x72],
    [0x17, 0x85, 0x8b, 0x01, 0x65, 0xeb, 0x1b, 0xf5, 0xbf, 0x2f, 0xd7, 0xa7, 0xe1, 0xc5, 0x16, 0x2e],
    [0x23, 0x3b, 0x03, 0x1f, 0xa9, 0xca, 0x9e, 0x8e, 0x24, 0x35, 0x66, 0x2d, 0xf7, 0xee, 0xfe, 0xd4],
    [0x02, 0x69, 0x82, 0x34, 0xfa, 0xb6, 0x5a, 0x6e, 0x7d, 0x11, 0xc4, 0x1c, 0x68, 0xcd, 0x6b, 0xd9],
    [0x38, 0x4d, 0x25, 0x8f, 0x53, 0x0a, 0xa1, 0xb5, 0x8d, 0xb3, 0xa8, 0xe9, 0x87, 0x29, 0xbe, 0x0b],
    [0x32, 0x62, 0xe2, 0x49, 0x99, 0xaf, 0x14, 0x3c, 0xbd, 0xbc, 0x81, 0xe4, 0x00, 0x95, 0xc7, 0x83],
    [0x51, 0x07, 0xdf, 0xe5, 0xf6, 0x46, 0xde, 0x94, 0x9b, 0x44, 0x8a, 0x91, 0x1d, 0xac, 0x06, 0x6f],
    [0x3e, 0x48, 0x93, 0xd3, 0xc3, 0x86, 0x59, 0xdd, 0x4f, 0xc8, 0x98, 0xbb, 0x12, 0xea, 0x20, 0xf0],
    [0x0d, 0x77, 0x58, 0x64, 0x55, 0xa5, 0x04, 0xc9, 0x10, 0x67, 0x1a, 0x92, 0x0e, 0x7f, 0x52, 0x26],
    [0x40, 0xdb, 0xae, 0x6c, 0x42, 0xb4, 0x74, 0xfb, 0x2a, 0x63, 0x61, 0xc2, 0x2c, 0x9f, 0xf3, 0x54],
    [0xda, 0x0c, 0x22, 0x13, 0x7e, 0x39, 0xc6, 0x6a, 0xec, 0x09, 0x96, 0x5e, 0x9c, 0xef, 0xba, 0xe0]]"

definition TABLE_S4_6 :: "bytes" where
  "TABLE_S4_6 = concat [
    [0x0b, 0x26, 0xdf, 0x34, 0x10, 0xf6, 0xac, 0x58, 0x75, 0x53, 0xdc, 0x1b, 0x55, 0xa4, 0x59, 0xcf],
    [0x93, 0x31, 0xe8, 0x76, 0x3f, 0x87, 0xbe, 0x33, 0x29, 0x06, 0xe9, 0x4f, 0xdb, 0xbf, 0x5e, 0x40],
    [0x49, 0xf3, 0x3e, 0x39, 0xb9, 0xa3, 0x94, 0xb6, 0x01, 0x9e, 0x44, 0xff, 0xe6, 0x52, 0x82, 0xfa],
    [0xc2, 0x3d, 0xde, 0xe3, 0xfc, 0x8e, 0xaa, 0x86, 0x2f, 0x74, 0x17, 0xa8, 0x4d, 0x4b, 0xd8, 0x45],
    [0xbc, 0xd2, 0xc0, 0x7e, 0x7c, 0x6e, 0xf7, 0x16, 0xad, 0x51, 0x63, 0xf2, 0xb7, 0x42, 0x72, 0x7f],
    [0x8a, 0x99, 0x25, 0x78, 0xc5, 0xce, 0x38, 0x7b, 0xed, 0xa5, 0xd6, 0x7d, 0xf1, 0xc1, 0xae, 0x77],
    [0x23, 0x68, 0x3b, 0x2a, 0xda, 0xf0, 0xe0, 0xf9, 0x11, 0x0d, 0x35, 0x2d, 0x80, 0x90, 0xc4, 0xa7],
    [0xa9, 0xd9, 0x21, 0xb1, 0x20, 0x18, 0xcb, 0xef, 0x0f, 0x85, 0x8b, 0x19, 0xfb, 0x15, 0xe5, 0x6b],
    [0xe7, 0xa6, 0xbd, 0x83, 0x05, 0xb0, 0x27, 0x89, 0x81, 0x2b, 0x43, 0x36, 0xbb, 0xaf, 0x04, 0x5d],
    [0x12, 0xca, 0x1f, 0x73, 0xd7, 0x65, 0xc3, 0x66, 0x3a, 0x8c, 0x67, 0x0c, 0x60, 0x54, 0xb8, 0xf4],
    [0x9f, 0x84, 0x4a, 0x95, 0x61, 0x08, 0xa2, 0x13, 0xeb, 0xd1, 0x09, 0x5f, 0x9a, 0xd0, 0x48, 0xf8],
    [0xea, 0x8f, 0xb2, 0xb3, 0x8d, 0xc9, 0x9b, 0x0e, 0x47, 0xec, 0x6c, 0x3c, 0x32, 0x1a, 0xa1, 0x97],
    [0x9c, 0x14, 0x69, 0x1e, 0x28, 0x5c, 0x71, 0x00, 0x6a, 0x56, 0x79, 0x03, 0xc7, 0x0a, 0xab, 0x5b],
    [0xb5, 0x96, 0xc6, 0x41, 0xfe, 0x2e, 0xe4, 0x1c, 0xdd, 0x9d, 0x46, 0x30, 0xd3, 0x57, 0x88, 0xcd],
    [0x50, 0x98, 0x07, 0xe2, 0xee, 0xb4, 0xe1, 0x92, 0x1d, 0x2c, 0x02, 0xd4, 0x64, 0xc8, 0x37, 0x70],
    [0xcc, 0x6f, 0x6d, 0x24, 0x5a, 0xfd, 0x91, 0x22, 0x62, 0xa0, 0xd5, 0x4e, 0xf5, 0x7a, 0xba, 0x4c]]"

definition TABLE_S4_7 :: "bytes" where
  "TABLE_S4_7 = concat [
    [0x3d, 0x3b, 0x33, 0xae, 0x02, 0x59, 0xde, 0x61, 0xf8, 0x8a, 0xf0, 0xdc, 0x4b, 0xb4, 0x95, 0xa8],
    [0x24, 0x90, 0x8c, 0xf4, 0xe8, 0x77, 0x89, 0x32, 0xd5, 0xcf, 0xc0, 0xe2, 0x85, 0x3f, 0x4f, 0x48],
    [0xc9, 0xad, 0x36, 0x28, 0x70, 0x5f, 0x39, 0x9f, 0xf1, 0x49, 0x45, 0xc8, 0x47, 0xe5, 0x00, 0x9e],
    [0xd2, 0x23, 0xb9, 0x2f, 0x25, 0x03, 0x6d, 0xaa, 0x80, 0x66, 0x2e, 0xda, 0x50, 0x7d, 0x42, 0xa9],
    [0x63, 0x8d, 0x1d, 0x93, 0xf3, 0x79, 0x6f, 0xfd, 0x6e, 0x56, 0x99, 0xbd, 0xaf, 0xdf, 0xc7, 0x57],
    [0xe6, 0xf6, 0xd1, 0xb2, 0x7b, 0x67, 0x5b, 0x43, 0x86, 0xac, 0x8f, 0x96, 0x1e, 0x55, 0x5c, 0x4d],
    [0xb7, 0x87, 0x01, 0xd8, 0xd3, 0x9b, 0x0b, 0xa0, 0xb8, 0xb3, 0x0d, 0x4e, 0xef, 0xfc, 0x0e, 0x53],
    [0x34, 0xc1, 0x09, 0x04, 0x27, 0xdb, 0x84, 0x15, 0x18, 0x0a, 0x60, 0x81, 0xa4, 0xca, 0x08, 0xb6],
    [0x6c, 0x44, 0xe1, 0xd7, 0x9a, 0x31, 0x4a, 0x1a, 0xbf, 0xfb, 0x78, 0xed, 0xf9, 0x9c, 0xc5, 0xc4],
    [0xa6, 0xec, 0x8e, 0x3e, 0xa7, 0x9d, 0x29, 0x7f, 0x7e, 0x17, 0x65, 0xd4, 0xf2, 0xe9, 0xe3, 0x3c],
    [0x22, 0x16, 0x82, 0xce, 0xfa, 0x4c, 0x7a, 0x11, 0x13, 0xa1, 0x10, 0xb5, 0xbc, 0x64, 0x05, 0x69],
    [0xd9, 0xcd, 0x2b, 0x72, 0x5d, 0xf7, 0x40, 0x35, 0xc6, 0x73, 0xff, 0x51, 0xd0, 0x91, 0xf5, 0xcb],
    [0x0c, 0x83, 0x3a, 0xcc, 0xd6, 0x14, 0x38, 0xa3, 0x8b, 0x2c, 0x54, 0xe7, 0x19, 0xba, 0x52, 0x1b],
    [0xbe, 0x12, 0x06, 0x41, 0x5a, 0x6b, 0xa2, 0x74, 0xc2, 0x98, 0xe4, 0x97, 0xee, 0x26, 0x94, 0x71],
    [0x21, 0xa5, 0xbb, 0xfe, 0xeb, 0xab, 0x46, 0x30, 0x58, 0x88, 0x6a, 0x92, 0xe0, 0xc3, 0x37, 0xb0],
    [0x7c, 0xb1, 0x2d, 0xdd, 0x20, 0x1c, 0x75, 0x0f, 0x2a, 0x5e, 0x76, 0x07, 0x62, 0xea, 0x68, 0x1f]]"

definition TABLE_S4_8 :: "bytes" where
  "TABLE_S4_8 = concat [
    [0x60, 0xa7, 0x28, 0x0e, 0xb4, 0x22, 0xdf, 0x2e, 0x4f, 0xa4, 0x5d, 0x70, 0x23, 0xd7, 0x8d, 0x6b],
    [0x34, 0x92, 0x7d, 0x52, 0x3b, 0x25, 0xc4, 0xa0, 0x0d, 0x93, 0x4a, 0xe8, 0x48, 0xc5, 0xfc, 0x44],
    [0x84, 0x3f, 0xe5, 0x7a, 0x81, 0xf9, 0x29, 0x9d, 0x42, 0x45, 0x88, 0x32, 0xcd, 0xef, 0xd8, 0xc2],
    [0xd3, 0x6c, 0x0f, 0x54, 0x3e, 0xa3, 0x30, 0x36, 0x98, 0xa5, 0x46, 0xb9, 0xfd, 0xd1, 0xf5, 0x87],
    [0x89, 0x18, 0x2a, 0xd6, 0x04, 0x09, 0x39, 0xcc, 0x05, 0xbb, 0xa9, 0xc7, 0x6d, 0x8c, 0x15, 0x07],
    [0x06, 0xad, 0xde, 0x96, 0x0c, 0xd5, 0xba, 0x8a, 0x03, 0x5e, 0xe2, 0xf1, 0x00, 0x43, 0xb5, 0xbe],
    [0x56, 0x4e, 0x76, 0x6a, 0xdc, 0xbf, 0xeb, 0xfb, 0x51, 0x40, 0x13, 0x58, 0x82, 0x9b, 0x8b, 0xa1],
    [0x62, 0xf0, 0xfe, 0x74, 0x10, 0x9e, 0x6e, 0x80, 0xca, 0x5a, 0xa2, 0xd2, 0x94, 0xb0, 0x63, 0x5b],
    [0x4d, 0x38, 0x50, 0xfa, 0x26, 0x7f, 0xd4, 0xc0, 0xf8, 0xc6, 0xdd, 0x9c, 0xf2, 0x5c, 0xcb, 0x7e],
    [0x77, 0x1c, 0xf7, 0x41, 0x8f, 0xc3, 0x2f, 0x1b, 0x08, 0x64, 0xb1, 0x69, 0x1d, 0xb8, 0x1e, 0xac],
    [0x24, 0x72, 0xaa, 0x90, 0x83, 0x33, 0xab, 0xe1, 0xee, 0x31, 0xff, 0xe4, 0x68, 0xd9, 0x73, 0x1a],
    [0x47, 0x17, 0x97, 0x3c, 0xec, 0xda, 0x61, 0x49, 0xc8, 0xc9, 0xf4, 0x91, 0x75, 0xe0, 0xb2, 0xf6],
    [0x78, 0x02, 0x2d, 0x11, 0x20, 0xd0, 0x71, 0xbc, 0x65, 0x12, 0x6f, 0xe7, 0x7b, 0x0a, 0x27, 0x53],
    [0x4b, 0x3d, 0xe6, 0xa6, 0xb6, 0xf3, 0x2c, 0xa8, 0x3a, 0xbd, 0xed, 0xce, 0x67, 0x9f, 0x55, 0x85],
    [0xaf, 0x79, 0x57, 0x66, 0x0b, 0x4c, 0xb3, 0x1f, 0x99, 0x7c, 0xe3, 0x2b, 0xe9, 0x9a, 0xcf, 0x95],
    [0x35, 0xae, 0xdb, 0x19, 0x37, 0xc1, 0x01, 0x8e, 0x5f, 0x16, 0x14, 0xb7, 0x59, 0xea, 0x86, 0x21]]"

definition TABLE_S4_9 :: "bytes" where
  "TABLE_S4_9 = concat [
    [0xaa, 0x0c, 0xe3, 0xcc, 0xa5, 0xbb, 0x5a, 0x3e, 0x93, 0x0d, 0xd4, 0x76, 0xd6, 0x5b, 0x62, 0xda],
    [0xfe, 0x39, 0xb6, 0x90, 0x2a, 0xbc, 0x41, 0xb0, 0xd1, 0x3a, 0xc3, 0xee, 0xbd, 0x49, 0x13, 0xf5],
    [0x4d, 0xf2, 0x91, 0xca, 0xa0, 0x3d, 0xae, 0xa8, 0x06, 0x3b, 0xd8, 0x27, 0x63, 0x4f, 0x6b, 0x19],
    [0x1a, 0xa1, 0x7b, 0xe4, 0x1f, 0x67, 0xb7, 0x03, 0xdc, 0xdb, 0x16, 0xac, 0x53, 0x71, 0x46, 0x5c],
    [0x98, 0x33, 0x40, 0x08, 0x92, 0x4b, 0x24, 0x14, 0x9d, 0xc0, 0x7c, 0x6f, 0x9e, 0xdd, 0x2b, 0x20],
    [0x17, 0x86, 0xb4, 0x48, 0x9a, 0x97, 0xa7, 0x52, 0x9b, 0x25, 0x37, 0x59, 0xf3, 0x12, 0x8b, 0x99],
    [0xfc, 0x6e, 0x60, 0xea, 0x8e, 0x00, 0xf0, 0x1e, 0x54, 0xc4, 0x3c, 0x4c, 0x0a, 0x2e, 0xfd, 0xc5],
    [0xc8, 0xd0, 0xe8, 0xf4, 0x42, 0x21, 0x75, 0x65, 0xcf, 0xde, 0x8d, 0xc6, 0x1c, 0x05, 0x15, 0x3f],
    [0xe9, 0x82, 0x69, 0xdf, 0x11, 0x5d, 0xb1, 0x85, 0x96, 0xfa, 0x2f, 0xf7, 0x83, 0x26, 0x80, 0x32],
    [0xd3, 0xa6, 0xce, 0x64, 0xb8, 0xe1, 0x4a, 0x5e, 0x66, 0x58, 0x43, 0x02, 0x6c, 0xc2, 0x55, 0xe0],
    [0xd9, 0x89, 0x09, 0xa2, 0x72, 0x44, 0xff, 0xd7, 0x56, 0x57, 0x6a, 0x0f, 0xeb, 0x7e, 0x2c, 0x68],
    [0xba, 0xec, 0x34, 0x0e, 0x1d, 0xad, 0x35, 0x7f, 0x70, 0xaf, 0x61, 0x7a, 0xf6, 0x47, 0xed, 0x84],
    [0xd5, 0xa3, 0x78, 0x38, 0x28, 0x6d, 0xb2, 0x36, 0xa4, 0x23, 0x73, 0x50, 0xf9, 0x01, 0xcb, 0x1b],
    [0xe6, 0x9c, 0xb3, 0x8f, 0xbe, 0x4e, 0xef, 0x22, 0xfb, 0x8c, 0xf1, 0x79, 0xe5, 0x94, 0xb9, 0xcd],
    [0xab, 0x30, 0x45, 0x87, 0xa9, 0x5f, 0x9f, 0x10, 0xc1, 0x88, 0x8a, 0x29, 0xc7, 0x74, 0x18, 0xbf],
    [0x31, 0xe7, 0xc9, 0xf8, 0x95, 0xd2, 0x2d, 0x81, 0x07, 0xe2, 0x7d, 0xb5, 0x77, 0x04, 0x51, 0x0b]]"

definition TABLE_S4_10 :: "bytes" where
  "TABLE_S4_10 = concat [
    [0xf3, 0xde, 0x27, 0xcc, 0xe8, 0x0e, 0x54, 0xa0, 0x8d, 0xab, 0x24, 0xe3, 0xad, 0x5c, 0xa1, 0x37],
    [0x6b, 0xc9, 0x10, 0x8e, 0xc7, 0x7f, 0x46, 0xcb, 0xd1, 0xfe, 0x11, 0xb7, 0x23, 0x47, 0xa6, 0xb8],
    [0xb1, 0x0b, 0xc6, 0xc1, 0x41, 0x5b, 0x6c, 0x4e, 0xf9, 0x66, 0xbc, 0x07, 0x1e, 0xaa, 0x7a, 0x02],
    [0x3a, 0xc5, 0x26, 0x1b, 0x04, 0x76, 0x52, 0x7e, 0xd7, 0x8c, 0xef, 0x50, 0xb5, 0xb3, 0x20, 0xbd],
    [0x44, 0x2a, 0x38, 0x86, 0x84, 0x96, 0x0f, 0xee, 0x55, 0xa9, 0x9b, 0x0a, 0x4f, 0xba, 0x8a, 0x87],
    [0x72, 0x61, 0xdd, 0x80, 0x3d, 0x36, 0xc0, 0x83, 0x15, 0x5d, 0x2e, 0x85, 0x09, 0x39, 0x56, 0x8f],
    [0xdb, 0x90, 0xc3, 0xd2, 0x22, 0x08, 0x18, 0x01, 0xe9, 0xf5, 0xcd, 0xd5, 0x78, 0x68, 0x3c, 0x5f],
    [0x51, 0x21, 0xd9, 0x49, 0xd8, 0xe0, 0x33, 0x17, 0xf7, 0x7d, 0x73, 0xe1, 0x03, 0xed, 0x1d, 0x93],
    [0x1f, 0x5e, 0x45, 0x7b, 0xfd, 0x48, 0xdf, 0x71, 0x79, 0xd3, 0xbb, 0xce, 0x43, 0x57, 0xfc, 0xa5],
    [0xea, 0x32, 0xe7, 0x8b, 0x2f, 0x9d, 0x3b, 0x9e, 0xc2, 0x74, 0x9f, 0xf4, 0x98, 0xac, 0x40, 0x0c],
    [0x67, 0x7c, 0xb2, 0x6d, 0x99, 0xf0, 0x5a, 0xeb, 0x13, 0x29, 0xf1, 0xa7, 0x62, 0x28, 0xb0, 0x00],
    [0x12, 0x77, 0x4a, 0x4b, 0x75, 0x31, 0x63, 0xf6, 0xbf, 0x14, 0x94, 0xc4, 0xca, 0xe2, 0x59, 0x6f],
    [0x64, 0xec, 0x91, 0xe6, 0xd0, 0xa4, 0x89, 0xf8, 0x92, 0xae, 0x81, 0xfb, 0x3f, 0xf2, 0x53, 0xa3],
    [0x4d, 0x6e, 0x3e, 0xb9, 0x06, 0xd6, 0x1c, 0xe4, 0x25, 0x65, 0xbe, 0xc8, 0x2b, 0xaf, 0x70, 0x35],
    [0xa8, 0x60, 0xff, 0x1a, 0x16, 0x4c, 0x19, 0x6a, 0xe5, 0xd4, 0xfa, 0x2c, 0x9c, 0x30, 0xcf, 0x88],
    [0x34, 0x97, 0x95, 0xdc, 0xa2, 0x05, 0x69, 0xda, 0x9a, 0x58, 0x2d, 0xb6, 0x0d, 0x82, 0x42, 0xb4]]"

definition TABLE_S4_11 :: "bytes" where
  "TABLE_S4_11 = concat [
    [0x0b, 0x0d, 0x05, 0x98, 0x34, 0x6f, 0xe8, 0x57, 0xce, 0xbc, 0xc6, 0xea, 0x7d, 0x82, 0xa3, 0x9e],
    [0x12, 0xa6, 0xba, 0xc2, 0xde, 0x41, 0xbf, 0x04, 0xe3, 0xf9, 0xf6, 0xd4, 0xb3, 0x09, 0x79, 0x7e],
    [0xff, 0x9b, 0x00, 0x1e, 0x46, 0x69, 0x0f, 0xa9, 0xc7, 0x7f, 0x73, 0xfe, 0x71, 0xd3, 0x36, 0xa8],
    [0xe4, 0x15, 0x8f, 0x19, 0x13, 0x35, 0x5b, 0x9c, 0xb6, 0x50, 0x18, 0xec, 0x66, 0x4b, 0x74, 0x9f],
    [0x55, 0xbb, 0x2b, 0xa5, 0xc5, 0x4f, 0x59, 0xcb, 0x58, 0x60, 0xaf, 0x8b, 0x99, 0xe9, 0xf1, 0x61],
    [0xd0, 0xc0, 0xe7, 0x84, 0x4d, 0x51, 0x6d, 0x75, 0xb0, 0x9a, 0xb9, 0xa0, 0x28, 0x63, 0x6a, 0x7b],
    [0x81, 0xb1, 0x37, 0xee, 0xe5, 0xad, 0x3d, 0x96, 0x8e, 0x85, 0x3b, 0x78, 0xd9, 0xca, 0x38, 0x65],
    [0x02, 0xf7, 0x3f, 0x32, 0x11, 0xed, 0xb2, 0x23, 0x2e, 0x3c, 0x56, 0xb7, 0x92, 0xfc, 0x3e, 0x80],
    [0x5a, 0x72, 0xd7, 0xe1, 0xac, 0x07, 0x7c, 0x2c, 0x89, 0xcd, 0x4e, 0xdb, 0xcf, 0xaa, 0xf3, 0xf2],
    [0x90, 0xda, 0xb8, 0x08, 0x91, 0xab, 0x1f, 0x49, 0x48, 0x21, 0x53, 0xe2, 0xc4, 0xdf, 0xd5, 0x0a],
    [0x14, 0x20, 0xb4, 0xf8, 0xcc, 0x7a, 0x4c, 0x27, 0x25, 0x97, 0x26, 0x83, 0x8a, 0x52, 0x33, 0x5f],
    [0xef, 0xfb, 0x1d, 0x44, 0x6b, 0xc1, 0x76, 0x03, 0xf0, 0x45, 0xc9, 0x67, 0xe6, 0xa7, 0xc3, 0xfd],
    [0x3a, 0xb5, 0x0c, 0xfa, 0xe0, 0x22, 0x0e, 0x95, 0xbd, 0x1a, 0x62, 0xd1, 0x2f, 0x8c, 0x64, 0x2d],
    [0x88, 0x24, 0x30, 0x77, 0x6c, 0x5d, 0x94, 0x42, 0xf4, 0xae, 0xd2, 0xa1, 0xd8, 0x10, 0xa2, 0x47],
    [0x17, 0x93, 0x8d, 0xc8, 0xdd, 0x9d, 0x70, 0x06, 0x6e, 0xbe, 0x5c, 0xa4, 0xd6, 0xf5, 0x01, 0x86],
    [0x4a, 0x87, 0x1b, 0xeb, 0x16, 0x2a, 0x43, 0x39, 0x1c, 0x68, 0x40, 0x31, 0x54, 0xdc, 0x5e, 0x29]]"

definition TABLE_S4_12 :: "bytes" where
  "TABLE_S4_12 = concat [
    [0x11, 0xd6, 0x59, 0x7f, 0xc5, 0x53, 0xae, 0x5f, 0x3e, 0xd5, 0x2c, 0x01, 0x52, 0xa6, 0xfc, 0x1a],
    [0x45, 0xe3, 0x0c, 0x23, 0x4a, 0x54, 0xb5, 0xd1, 0x7c, 0xe2, 0x3b, 0x99, 0x39, 0xb4, 0x8d, 0x35],
    [0xf5, 0x4e, 0x94, 0x0b, 0xf0, 0x88, 0x58, 0xec, 0x33, 0x34, 0xf9, 0x43, 0xbc, 0x9e, 0xa9, 0xb3],
    [0xa2, 0x1d, 0x7e, 0x25, 0x4f, 0xd2, 0x41, 0x47, 0xe9, 0xd4, 0x37, 0xc8, 0x8c, 0xa0, 0x84, 0xf6],
    [0xf8, 0x69, 0x5b, 0xa7, 0x75, 0x78, 0x48, 0xbd, 0x74, 0xca, 0xd8, 0xb6, 0x1c, 0xfd, 0x64, 0x76],
    [0x77, 0xdc, 0xaf, 0xe7, 0x7d, 0xa4, 0xcb, 0xfb, 0x72, 0x2f, 0x93, 0x80, 0x71, 0x32, 0xc4, 0xcf],
    [0x27, 0x3f, 0x07, 0x1b, 0xad, 0xce, 0x9a, 0x8a, 0x20, 0x31, 0x62, 0x29, 0xf3, 0xea, 0xfa, 0xd0],
    [0x13, 0x81, 0x8f, 0x05, 0x61, 0xef, 0x1f, 0xf1, 0xbb, 0x2b, 0xd3, 0xa3, 0xe5, 0xc1, 0x12, 0x2a],
    [0x3c, 0x49, 0x21, 0x8b, 0x57, 0x0e, 0xa5, 0xb1, 0x89, 0xb7, 0xac, 0xed, 0x83, 0x2d, 0xba, 0x0f],
    [0x06, 0x6d, 0x86, 0x30, 0xfe, 0xb2, 0x5e, 0x6a, 0x79, 0x15, 0xc0, 0x18, 0x6c, 0xc9, 0x6f, 0xdd],
    [0x55, 0x03, 0xdb, 0xe1, 0xf2, 0x42, 0xda, 0x90, 0x9f, 0x40, 0x8e, 0x95, 0x19, 0xa8, 0x02, 0x6b],
    [0x36, 0x66, 0xe6, 0x4d, 0x9d, 0xab, 0x10, 0x38, 0xb9, 0xb8, 0x85, 0xe0, 0x04, 0x91, 0xc3, 0x87],
    [0x09, 0x73, 0x5c, 0x60, 0x51, 0xa1, 0x00, 0xcd, 0x14, 0x63, 0x1e, 0x96, 0x0a, 0x7b, 0x56, 0x22],
    [0x3a, 0x4c, 0x97, 0xd7, 0xc7, 0x82, 0x5d, 0xd9, 0x4b, 0xcc, 0x9c, 0xbf, 0x16, 0xee, 0x24, 0xf4],
    [0xde, 0x08, 0x26, 0x17, 0x7a, 0x3d, 0xc2, 0x6e, 0xe8, 0x0d, 0x92, 0x5a, 0x98, 0xeb, 0xbe, 0xe4],
    [0x44, 0xdf, 0xaa, 0x68, 0x46, 0xb0, 0x70, 0xff, 0x2e, 0x67, 0x65, 0xc6, 0x28, 0x9b, 0xf7, 0x50]]"

definition TABLE_S4_13 :: "bytes" where
  "TABLE_S4_13 = concat [
    [0x2f, 0x89, 0x66, 0x49, 0x20, 0x3e, 0xdf, 0xbb, 0x16, 0x88, 0x51, 0xf3, 0x53, 0xde, 0xe7, 0x5f],
    [0x7b, 0xbc, 0x33, 0x15, 0xaf, 0x39, 0xc4, 0x35, 0x54, 0xbf, 0x46, 0x6b, 0x38, 0xcc, 0x96, 0x70],
    [0xc8, 0x77, 0x14, 0x4f, 0x25, 0xb8, 0x2b, 0x2d, 0x83, 0xbe, 0x5d, 0xa2, 0xe6, 0xca, 0xee, 0x9c],
    [0x9f, 0x24, 0xfe, 0x61, 0x9a, 0xe2, 0x32, 0x86, 0x59, 0x5e, 0x93, 0x29, 0xd6, 0xf4, 0xc3, 0xd9],
    [0x1d, 0xb6, 0xc5, 0x8d, 0x17, 0xce, 0xa1, 0x91, 0x18, 0x45, 0xf9, 0xea, 0x1b, 0x58, 0xae, 0xa5],
    [0x92, 0x03, 0x31, 0xcd, 0x1f, 0x12, 0x22, 0xd7, 0x1e, 0xa0, 0xb2, 0xdc, 0x76, 0x97, 0x0e, 0x1c],
    [0x79, 0xeb, 0xe5, 0x6f, 0x0b, 0x85, 0x75, 0x9b, 0xd1, 0x41, 0xb9, 0xc9, 0x8f, 0xab, 0x78, 0x40],
    [0x4d, 0x55, 0x6d, 0x71, 0xc7, 0xa4, 0xf0, 0xe0, 0x4a, 0x5b, 0x08, 0x43, 0x99, 0x80, 0x90, 0xba],
    [0x6c, 0x07, 0xec, 0x5a, 0x94, 0xd8, 0x34, 0x00, 0x13, 0x7f, 0xaa, 0x72, 0x06, 0xa3, 0x05, 0xb7],
    [0x56, 0x23, 0x4b, 0xe1, 0x3d, 0x64, 0xcf, 0xdb, 0xe3, 0xdd, 0xc6, 0x87, 0xe9, 0x47, 0xd0, 0x65],
    [0x5c, 0x0c, 0x8c, 0x27, 0xf7, 0xc1, 0x7a, 0x52, 0xd3, 0xd2, 0xef, 0x8a, 0x6e, 0xfb, 0xa9, 0xed],
    [0x3f, 0x69, 0xb1, 0x8b, 0x98, 0x28, 0xb0, 0xfa, 0xf5, 0x2a, 0xe4, 0xff, 0x73, 0xc2, 0x68, 0x01],
    [0x50, 0x26, 0xfd, 0xbd, 0xad, 0xe8, 0x37, 0xb3, 0x21, 0xa6, 0xf6, 0xd5, 0x7c, 0x84, 0x4e, 0x9e],
    [0x63, 0x19, 0x36, 0x0a, 0x3b, 0xcb, 0x6a, 0xa7, 0x7e, 0x09, 0x74, 0xfc, 0x60, 0x11, 0x3c, 0x48],
    [0x2e, 0xb5, 0xc0, 0x02, 0x2c, 0xda, 0x1a, 0x95, 0x44, 0x0d, 0x0f, 0xac, 0x42, 0xf1, 0x9d, 0x3a],
    [0xb4, 0x62, 0x4c, 0x7d, 0x10, 0x57, 0xa8, 0x04, 0x82, 0x67, 0xf8, 0x30, 0xf2, 0x81, 0xd4, 0x8e]]"

definition TABLE_S4_14 :: "bytes" where
  "TABLE_S4_14 = concat [
    [0x36, 0x1b, 0xe2, 0x09, 0x2d, 0xcb, 0x91, 0x65, 0x48, 0x6e, 0xe1, 0x26, 0x68, 0x99, 0x64, 0xf2],
    [0xae, 0x0c, 0xd5, 0x4b, 0x02, 0xba, 0x83, 0x0e, 0x14, 0x3b, 0xd4, 0x72, 0xe6, 0x82, 0x63, 0x7d],
    [0x74, 0xce, 0x03, 0x04, 0x84, 0x9e, 0xa9, 0x8b, 0x3c, 0xa3, 0x79, 0xc2, 0xdb, 0x6f, 0xbf, 0xc7],
    [0xff, 0x00, 0xe3, 0xde, 0xc1, 0xb3, 0x97, 0xbb, 0x12, 0x49, 0x2a, 0x95, 0x70, 0x76, 0xe5, 0x78],
    [0x81, 0xef, 0xfd, 0x43, 0x41, 0x53, 0xca, 0x2b, 0x90, 0x6c, 0x5e, 0xcf, 0x8a, 0x7f, 0x4f, 0x42],
    [0xb7, 0xa4, 0x18, 0x45, 0xf8, 0xf3, 0x05, 0x46, 0xd0, 0x98, 0xeb, 0x40, 0xcc, 0xfc, 0x93, 0x4a],
    [0x1e, 0x55, 0x06, 0x17, 0xe7, 0xcd, 0xdd, 0xc4, 0x2c, 0x30, 0x08, 0x10, 0xbd, 0xad, 0xf9, 0x9a],
    [0x94, 0xe4, 0x1c, 0x8c, 0x1d, 0x25, 0xf6, 0xd2, 0x32, 0xb8, 0xb6, 0x24, 0xc6, 0x28, 0xd8, 0x56],
    [0xda, 0x9b, 0x80, 0xbe, 0x38, 0x8d, 0x1a, 0xb4, 0xbc, 0x16, 0x7e, 0x0b, 0x86, 0x92, 0x39, 0x60],
    [0x2f, 0xf7, 0x22, 0x4e, 0xea, 0x58, 0xfe, 0x5b, 0x07, 0xb1, 0x5a, 0x31, 0x5d, 0x69, 0x85, 0xc9],
    [0xa2, 0xb9, 0x77, 0xa8, 0x5c, 0x35, 0x9f, 0x2e, 0xd6, 0xec, 0x34, 0x62, 0xa7, 0xed, 0x75, 0xc5],
    [0xd7, 0xb2, 0x8f, 0x8e, 0xb0, 0xf4, 0xa6, 0x33, 0x7a, 0xd1, 0x51, 0x01, 0x0f, 0x27, 0x9c, 0xaa],
    [0xa1, 0x29, 0x54, 0x23, 0x15, 0x61, 0x4c, 0x3d, 0x57, 0x6b, 0x44, 0x3e, 0xfa, 0x37, 0x96, 0x66],
    [0x88, 0xab, 0xfb, 0x7c, 0xc3, 0x13, 0xd9, 0x21, 0xe0, 0xa0, 0x7b, 0x0d, 0xee, 0x6a, 0xb5, 0xf0],
    [0x6d, 0xa5, 0x3a, 0xdf, 0xd3, 0x89, 0xdc, 0xaf, 0x20, 0x11, 0x3f, 0xe9, 0x59, 0xf5, 0x0a, 0x4d],
    [0xf1, 0x52, 0x50, 0x19, 0x67, 0xc0, 0xac, 0x1f, 0x5f, 0x9d, 0xe8, 0x73, 0xc8, 0x47, 0x87, 0x71]]"

definition TABLE_S4_15 :: "bytes" where
  "TABLE_S4_15 = concat [
    [0x85, 0x83, 0x8b, 0x16, 0xba, 0xe1, 0x66, 0xd9, 0x40, 0x32, 0x48, 0x64, 0xf3, 0x0c, 0x2d, 0x10],
    [0x9c, 0x28, 0x34, 0x4c, 0x50, 0xcf, 0x31, 0x8a, 0x6d, 0x77, 0x78, 0x5a, 0x3d, 0x87, 0xf7, 0xf0],
    [0x71, 0x15, 0x8e, 0x90, 0xc8, 0xe7, 0x81, 0x27, 0x49, 0xf1, 0xfd, 0x70, 0xff, 0x5d, 0xb8, 0x26],
    [0x6a, 0x9b, 0x01, 0x97, 0x9d, 0xbb, 0xd5, 0x12, 0x38, 0xde, 0x96, 0x62, 0xe8, 0xc5, 0xfa, 0x11],
    [0xdb, 0x35, 0xa5, 0x2b, 0x4b, 0xc1, 0xd7, 0x45, 0xd6, 0xee, 0x21, 0x05, 0x17, 0x67, 0x7f, 0xef],
    [0x5e, 0x4e, 0x69, 0x0a, 0xc3, 0xdf, 0xe3, 0xfb, 0x3e, 0x14, 0x37, 0x2e, 0xa6, 0xed, 0xe4, 0xf5],
    [0x0f, 0x3f, 0xb9, 0x60, 0x6b, 0x23, 0xb3, 0x18, 0x00, 0x0b, 0xb5, 0xf6, 0x57, 0x44, 0xb6, 0xeb],
    [0x8c, 0x79, 0xb1, 0xbc, 0x9f, 0x63, 0x3c, 0xad, 0xa0, 0xb2, 0xd8, 0x39, 0x1c, 0x72, 0xb0, 0x0e],
    [0xd4, 0xfc, 0x59, 0x6f, 0x22, 0x89, 0xf2, 0xa2, 0x07, 0x43, 0xc0, 0x55, 0x41, 0x24, 0x7d, 0x7c],
    [0x1e, 0x54, 0x36, 0x86, 0x1f, 0x25, 0x91, 0xc7, 0xc6, 0xaf, 0xdd, 0x6c, 0x4a, 0x51, 0x5b, 0x84],
    [0x9a, 0xae, 0x3a, 0x76, 0x42, 0xf4, 0xc2, 0xa9, 0xab, 0x19, 0xa8, 0x0d, 0x04, 0xdc, 0xbd, 0xd1],
    [0x61, 0x75, 0x93, 0xca, 0xe5, 0x4f, 0xf8, 0x8d, 0x7e, 0xcb, 0x47, 0xe9, 0x68, 0x29, 0x4d, 0x73],
    [0xb4, 0x3b, 0x82, 0x74, 0x6e, 0xac, 0x80, 0x1b, 0x33, 0x94, 0xec, 0x5f, 0xa1, 0x02, 0xea, 0xa3],
    [0x06, 0xaa, 0xbe, 0xf9, 0xe2, 0xd3, 0x1a, 0xcc, 0x7a, 0x20, 0x5c, 0x2f, 0x56, 0x9e, 0x2c, 0xc9],
    [0x99, 0x1d, 0x03, 0x46, 0x53, 0x13, 0xfe, 0x88, 0xe0, 0x30, 0xd2, 0x2a, 0x58, 0x7b, 0x8f, 0x08],
    [0xc4, 0x09, 0x95, 0x65, 0x98, 0xa4, 0xcd, 0xb7, 0x92, 0xe6, 0xce, 0xbf, 0xda, 0x52, 0xd0, 0xa7]]"

definition TABLE_S4_16 :: "bytes" where
  "TABLE_S4_16 = concat [
    [0x4f, 0x88, 0x07, 0x21, 0x9b, 0x0d, 0xf0, 0x01, 0x60, 0x8b, 0x72, 0x5f, 0x0c, 0xf8, 0xa2, 0x44],
    [0x1b, 0xbd, 0x52, 0x7d, 0x14, 0x0a, 0xeb, 0x8f, 0x22, 0xbc, 0x65, 0xc7, 0x67, 0xea, 0xd3, 0x6b],
    [0xab, 0x10, 0xca, 0x55, 0xae, 0xd6, 0x06, 0xb2, 0x6d, 0x6a, 0xa7, 0x1d, 0xe2, 0xc0, 0xf7, 0xed],
    [0xfc, 0x43, 0x20, 0x7b, 0x11, 0x8c, 0x1f, 0x19, 0xb7, 0x8a, 0x69, 0x96, 0xd2, 0xfe, 0xda, 0xa8],
    [0xa6, 0x37, 0x05, 0xf9, 0x2b, 0x26, 0x16, 0xe3, 0x2a, 0x94, 0x86, 0xe8, 0x42, 0xa3, 0x3a, 0x28],
    [0x29, 0x82, 0xf1, 0xb9, 0x23, 0xfa, 0x95, 0xa5, 0x2c, 0x71, 0xcd, 0xde, 0x2f, 0x6c, 0x9a, 0x91],
    [0x79, 0x61, 0x59, 0x45, 0xf3, 0x90, 0xc4, 0xd4, 0x7e, 0x6f, 0x3c, 0x77, 0xad, 0xb4, 0xa4, 0x8e],
    [0x4d, 0xdf, 0xd1, 0x5b, 0x3f, 0xb1, 0x41, 0xaf, 0xe5, 0x75, 0x8d, 0xfd, 0xbb, 0x9f, 0x4c, 0x74],
    [0x62, 0x17, 0x7f, 0xd5, 0x09, 0x50, 0xfb, 0xef, 0xd7, 0xe9, 0xf2, 0xb3, 0xdd, 0x73, 0xe4, 0x51],
    [0x58, 0x33, 0xd8, 0x6e, 0xa0, 0xec, 0x00, 0x34, 0x27, 0x4b, 0x9e, 0x46, 0x32, 0x97, 0x31, 0x83],
    [0x0b, 0x5d, 0x85, 0xbf, 0xac, 0x1c, 0x84, 0xce, 0xc1, 0x1e, 0xd0, 0xcb, 0x47, 0xf6, 0x5c, 0x35],
    [0x68, 0x38, 0xb8, 0x13, 0xc3, 0xf5, 0x4e, 0x66, 0xe7, 0xe6, 0xdb, 0xbe, 0x5a, 0xcf, 0x9d, 0xd9],
    [0x57, 0x2d, 0x02, 0x3e, 0x0f, 0xff, 0x5e, 0x93, 0x4a, 0x3d, 0x40, 0xc8, 0x54, 0x25, 0x08, 0x7c],
    [0x64, 0x12, 0xc9, 0x89, 0x99, 0xdc, 0x03, 0x87, 0x15, 0x92, 0xc2, 0xe1, 0x48, 0xb0, 0x7a, 0xaa],
    [0x80, 0x56, 0x78, 0x49, 0x24, 0x63, 0x9c, 0x30, 0xb6, 0x53, 0xcc, 0x04, 0xc6, 0xb5, 0xe0, 0xba],
    [0x1a, 0x81, 0xf4, 0x36, 0x18, 0xee, 0x2e, 0xa1, 0x70, 0x39, 0x3b, 0x98, 0x76, 0xc5, 0xa9, 0x0e]]"

definition TABLE_S4_17 :: "bytes" where
  "TABLE_S4_17 = concat [
    [0xe2, 0x44, 0xab, 0x84, 0xed, 0xf3, 0x12, 0x76, 0xdb, 0x45, 0x9c, 0x3e, 0x9e, 0x13, 0x2a, 0x92],
    [0xb6, 0x71, 0xfe, 0xd8, 0x62, 0xf4, 0x09, 0xf8, 0x99, 0x72, 0x8b, 0xa6, 0xf5, 0x01, 0x5b, 0xbd],
    [0x05, 0xba, 0xd9, 0x82, 0xe8, 0x75, 0xe6, 0xe0, 0x4e, 0x73, 0x90, 0x6f, 0x2b, 0x07, 0x23, 0x51],
    [0x52, 0xe9, 0x33, 0xac, 0x57, 0x2f, 0xff, 0x4b, 0x94, 0x93, 0x5e, 0xe4, 0x1b, 0x39, 0x0e, 0x14],
    [0xd0, 0x7b, 0x08, 0x40, 0xda, 0x03, 0x6c, 0x5c, 0xd5, 0x88, 0x34, 0x27, 0xd6, 0x95, 0x63, 0x68],
    [0x5f, 0xce, 0xfc, 0x00, 0xd2, 0xdf, 0xef, 0x1a, 0xd3, 0x6d, 0x7f, 0x11, 0xbb, 0x5a, 0xc3, 0xd1],
    [0xb4, 0x26, 0x28, 0xa2, 0xc6, 0x48, 0xb8, 0x56, 0x1c, 0x8c, 0x74, 0x04, 0x42, 0x66, 0xb5, 0x8d],
    [0x80, 0x98, 0xa0, 0xbc, 0x0a, 0x69, 0x3d, 0x2d, 0x87, 0x96, 0xc5, 0x8e, 0x54, 0x4d, 0x5d, 0x77],
    [0xa1, 0xca, 0x21, 0x97, 0x59, 0x15, 0xf9, 0xcd, 0xde, 0xb2, 0x67, 0xbf, 0xcb, 0x6e, 0xc8, 0x7a],
    [0x9b, 0xee, 0x86, 0x2c, 0xf0, 0xa9, 0x02, 0x16, 0x2e, 0x10, 0x0b, 0x4a, 0x24, 0x8a, 0x1d, 0xa8],
    [0x91, 0xc1, 0x41, 0xea, 0x3a, 0x0c, 0xb7, 0x9f, 0x1e, 0x1f, 0x22, 0x47, 0xa3, 0x36, 0x64, 0x20],
    [0xf2, 0xa4, 0x7c, 0x46, 0x55, 0xe5, 0x7d, 0x37, 0x38, 0xe7, 0x29, 0x32, 0xbe, 0x0f, 0xa5, 0xcc],
    [0x9d, 0xeb, 0x30, 0x70, 0x60, 0x25, 0xfa, 0x7e, 0xec, 0x6b, 0x3b, 0x18, 0xb1, 0x49, 0x83, 0x53],
    [0xae, 0xd4, 0xfb, 0xc7, 0xf6, 0x06, 0xa7, 0x6a, 0xb3, 0xc4, 0xb9, 0x31, 0xad, 0xdc, 0xf1, 0x85],
    [0xe3, 0x78, 0x0d, 0xcf, 0xe1, 0x17, 0xd7, 0x58, 0x89, 0xc0, 0xc2, 0x61, 0x8f, 0x3c, 0x50, 0xf7],
    [0x79, 0xaf, 0x81, 0xb0, 0xdd, 0x9a, 0x65, 0xc9, 0x4f, 0xaa, 0x35, 0xfd, 0x3f, 0x4c, 0x19, 0x43]]"

definition TABLE_S4_18 :: "bytes" where
  "TABLE_S4_18 = concat [
    [0xb9, 0x94, 0x6d, 0x86, 0xa2, 0x44, 0x1e, 0xea, 0xc7, 0xe1, 0x6e, 0xa9, 0xe7, 0x16, 0xeb, 0x7d],
    [0x21, 0x83, 0x5a, 0xc4, 0x8d, 0x35, 0x0c, 0x81, 0x9b, 0xb4, 0x5b, 0xfd, 0x69, 0x0d, 0xec, 0xf2],
    [0xfb, 0x41, 0x8c, 0x8b, 0x0b, 0x11, 0x26, 0x04, 0xb3, 0x2c, 0xf6, 0x4d, 0x54, 0xe0, 0x30, 0x48],
    [0x70, 0x8f, 0x6c, 0x51, 0x4e, 0x3c, 0x18, 0x34, 0x9d, 0xc6, 0xa5, 0x1a, 0xff, 0xf9, 0x6a, 0xf7],
    [0x0e, 0x60, 0x72, 0xcc, 0xce, 0xdc, 0x45, 0xa4, 0x1f, 0xe3, 0xd1, 0x40, 0x05, 0xf0, 0xc0, 0xcd],
    [0x38, 0x2b, 0x97, 0xca, 0x77, 0x7c, 0x8a, 0xc9, 0x5f, 0x17, 0x64, 0xcf, 0x43, 0x73, 0x1c, 0xc5],
    [0x91, 0xda, 0x89, 0x98, 0x68, 0x42, 0x52, 0x4b, 0xa3, 0xbf, 0x87, 0x9f, 0x32, 0x22, 0x76, 0x15],
    [0x1b, 0x6b, 0x93, 0x03, 0x92, 0xaa, 0x79, 0x5d, 0xbd, 0x37, 0x39, 0xab, 0x49, 0xa7, 0x57, 0xd9],
    [0x55, 0x14, 0x0f, 0x31, 0xb7, 0x02, 0x95, 0x3b, 0x33, 0x99, 0xf1, 0x84, 0x09, 0x1d, 0xb6, 0xef],
    [0xa0, 0x78, 0xad, 0xc1, 0x65, 0xd7, 0x71, 0xd4, 0x88, 0x3e, 0xd5, 0xbe, 0xd2, 0xe6, 0x0a, 0x46],
    [0x2d, 0x36, 0xf8, 0x27, 0xd3, 0xba, 0x10, 0xa1, 0x59, 0x63, 0xbb, 0xed, 0x28, 0x62, 0xfa, 0x4a],
    [0x58, 0x3d, 0x00, 0x01, 0x3f, 0x7b, 0x29, 0xbc, 0xf5, 0x5e, 0xde, 0x8e, 0x80, 0xa8, 0x13, 0x25],
    [0x2e, 0xa6, 0xdb, 0xac, 0x9a, 0xee, 0xc3, 0xb2, 0xd8, 0xe4, 0xcb, 0xb1, 0x75, 0xb8, 0x19, 0xe9],
    [0x07, 0x24, 0x74, 0xf3, 0x4c, 0x9c, 0x56, 0xae, 0x6f, 0x2f, 0xf4, 0x82, 0x61, 0xe5, 0x3a, 0x7f],
    [0xe2, 0x2a, 0xb5, 0x50, 0x5c, 0x06, 0x53, 0x20, 0xaf, 0x9e, 0xb0, 0x66, 0xd6, 0x7a, 0x85, 0xc2],
    [0x7e, 0xdd, 0xdf, 0x96, 0xe8, 0x4f, 0x23, 0x90, 0xd0, 0x12, 0x67, 0xfc, 0x47, 0xc8, 0x08, 0xfe]]"

definition TABLE_S4_19 :: "bytes" where
  "TABLE_S4_19 = concat [
    [0xb7, 0xb1, 0xb9, 0x24, 0x88, 0xd3, 0x54, 0xeb, 0x72, 0x00, 0x7a, 0x56, 0xc1, 0x3e, 0x1f, 0x22],
    [0xae, 0x1a, 0x06, 0x7e, 0x62, 0xfd, 0x03, 0xb8, 0x5f, 0x45, 0x4a, 0x68, 0x0f, 0xb5, 0xc5, 0xc2],
    [0x43, 0x27, 0xbc, 0xa2, 0xfa, 0xd5, 0xb3, 0x15, 0x7b, 0xc3, 0xcf, 0x42, 0xcd, 0x6f, 0x8a, 0x14],
    [0x58, 0xa9, 0x33, 0xa5, 0xaf, 0x89, 0xe7, 0x20, 0x0a, 0xec, 0xa4, 0x50, 0xda, 0xf7, 0xc8, 0x23],
    [0xe9, 0x07, 0x97, 0x19, 0x79, 0xf3, 0xe5, 0x77, 0xe4, 0xdc, 0x13, 0x37, 0x25, 0x55, 0x4d, 0xdd],
    [0x6c, 0x7c, 0x5b, 0x38, 0xf1, 0xed, 0xd1, 0xc9, 0x0c, 0x26, 0x05, 0x1c, 0x94, 0xdf, 0xd6, 0xc7],
    [0x3d, 0x0d, 0x8b, 0x52, 0x59, 0x11, 0x81, 0x2a, 0x32, 0x39, 0x87, 0xc4, 0x65, 0x76, 0x84, 0xd9],
    [0xbe, 0x4b, 0x83, 0x8e, 0xad, 0x51, 0x0e, 0x9f, 0x92, 0x80, 0xea, 0x0b, 0x2e, 0x40, 0x82, 0x3c],
    [0xe6, 0xce, 0x6b, 0x5d, 0x10, 0xbb, 0xc0, 0x90, 0x35, 0x71, 0xf2, 0x67, 0x73, 0x16, 0x4f, 0x4e],
    [0x2c, 0x66, 0x04, 0xb4, 0x2d, 0x17, 0xa3, 0xf5, 0xf4, 0x9d, 0xef, 0x5e, 0x78, 0x63, 0x69, 0xb6],
    [0xa8, 0x9c, 0x08, 0x44, 0x70, 0xc6, 0xf0, 0x9b, 0x99, 0x2b, 0x9a, 0x3f, 0x36, 0xee, 0x8f, 0xe3],
    [0x53, 0x47, 0xa1, 0xf8, 0xd7, 0x7d, 0xca, 0xbf, 0x4c, 0xf9, 0x75, 0xdb, 0x5a, 0x1b, 0x7f, 0x41],
    [0x86, 0x09, 0xb0, 0x46, 0x5c, 0x9e, 0xb2, 0x29, 0x01, 0xa6, 0xde, 0x6d, 0x93, 0x30, 0xd8, 0x91],
    [0x34, 0x98, 0x8c, 0xcb, 0xd0, 0xe1, 0x28, 0xfe, 0x48, 0x12, 0x6e, 0x1d, 0x64, 0xac, 0x1e, 0xfb],
    [0xab, 0x2f, 0x31, 0x74, 0x61, 0x21, 0xcc, 0xba, 0xd2, 0x02, 0xe0, 0x18, 0x6a, 0x49, 0xbd, 0x3a],
    [0xf6, 0x3b, 0xa7, 0x57, 0xaa, 0x96, 0xff, 0x85, 0xa0, 0xd4, 0xfc, 0x8d, 0xe8, 0x60, 0xe2, 0x95]]"

definition TABLE_S4_20 :: "bytes" where
  "TABLE_S4_20 = concat [
    [0x8d, 0x4a, 0xc5, 0xe3, 0x59, 0xcf, 0x32, 0xc3, 0xa2, 0x49, 0xb0, 0x9d, 0xce, 0x3a, 0x60, 0x86],
    [0xd9, 0x7f, 0x90, 0xbf, 0xd6, 0xc8, 0x29, 0x4d, 0xe0, 0x7e, 0xa7, 0x05, 0xa5, 0x28, 0x11, 0xa9],
    [0x69, 0xd2, 0x08, 0x97, 0x6c, 0x14, 0xc4, 0x70, 0xaf, 0xa8, 0x65, 0xdf, 0x20, 0x02, 0x35, 0x2f],
    [0x3e, 0x81, 0xe2, 0xb9, 0xd3, 0x4e, 0xdd, 0xdb, 0x75, 0x48, 0xab, 0x54, 0x10, 0x3c, 0x18, 0x6a],
    [0x64, 0xf5, 0xc7, 0x3b, 0xe9, 0xe4, 0xd4, 0x21, 0xe8, 0x56, 0x44, 0x2a, 0x80, 0x61, 0xf8, 0xea],
    [0xeb, 0x40, 0x33, 0x7b, 0xe1, 0x38, 0x57, 0x67, 0xee, 0xb3, 0x0f, 0x1c, 0xed, 0xae, 0x58, 0x53],
    [0xbb, 0xa3, 0x9b, 0x87, 0x31, 0x52, 0x06, 0x16, 0xbc, 0xad, 0xfe, 0xb5, 0x6f, 0x76, 0x66, 0x4c],
    [0x8f, 0x1d, 0x13, 0x99, 0xfd, 0x73, 0x83, 0x6d, 0x27, 0xb7, 0x4f, 0x3f, 0x79, 0x5d, 0x8e, 0xb6],
    [0xa0, 0xd5, 0xbd, 0x17, 0xcb, 0x92, 0x39, 0x2d, 0x15, 0x2b, 0x30, 0x71, 0x1f, 0xb1, 0x26, 0x93],
    [0x9a, 0xf1, 0x1a, 0xac, 0x62, 0x2e, 0xc2, 0xf6, 0xe5, 0x89, 0x5c, 0x84, 0xf0, 0x55, 0xf3, 0x41],
    [0xc9, 0x9f, 0x47, 0x7d, 0x6e, 0xde, 0x46, 0x0c, 0x03, 0xdc, 0x12, 0x09, 0x85, 0x34, 0x9e, 0xf7],
    [0xaa, 0xfa, 0x7a, 0xd1, 0x01, 0x37, 0x8c, 0xa4, 0x25, 0x24, 0x19, 0x7c, 0x98, 0x0d, 0x5f, 0x1b],
    [0x95, 0xef, 0xc0, 0xfc, 0xcd, 0x3d, 0x9c, 0x51, 0x88, 0xff, 0x82, 0x0a, 0x96, 0xe7, 0xca, 0xbe],
    [0xa6, 0xd0, 0x0b, 0x4b, 0x5b, 0x1e, 0xc1, 0x45, 0xd7, 0x50, 0x00, 0x23, 0x8a, 0x72, 0xb8, 0x68],
    [0x42, 0x94, 0xba, 0x8b, 0xe6, 0xa1, 0x5e, 0xf2, 0x74, 0x91, 0x0e, 0xc6, 0x04, 0x77, 0x22, 0x78],
    [0xd8, 0x43, 0x36, 0xf4, 0xda, 0x2c, 0xec, 0x63, 0xb2, 0xfb, 0xf9, 0x5a, 0xb4, 0x07, 0x6b, 0xcc]]"

definition TABLE_S4_21 :: "bytes" where
  "TABLE_S4_21 = concat [
    [0xb7, 0x11, 0xfe, 0xd1, 0xb8, 0xa6, 0x47, 0x23, 0x8e, 0x10, 0xc9, 0x6b, 0xcb, 0x46, 0x7f, 0xc7],
    [0xe3, 0x24, 0xab, 0x8d, 0x37, 0xa1, 0x5c, 0xad, 0xcc, 0x27, 0xde, 0xf3, 0xa0, 0x54, 0x0e, 0xe8],
    [0x50, 0xef, 0x8c, 0xd7, 0xbd, 0x20, 0xb3, 0xb5, 0x1b, 0x26, 0xc5, 0x3a, 0x7e, 0x52, 0x76, 0x04],
    [0x07, 0xbc, 0x66, 0xf9, 0x02, 0x7a, 0xaa, 0x1e, 0xc1, 0xc6, 0x0b, 0xb1, 0x4e, 0x6c, 0x5b, 0x41],
    [0x85, 0x2e, 0x5d, 0x15, 0x8f, 0x56, 0x39, 0x09, 0x80, 0xdd, 0x61, 0x72, 0x83, 0xc0, 0x36, 0x3d],
    [0x0a, 0x9b, 0xa9, 0x55, 0x87, 0x8a, 0xba, 0x4f, 0x86, 0x38, 0x2a, 0x44, 0xee, 0x0f, 0x96, 0x84],
    [0xe1, 0x73, 0x7d, 0xf7, 0x93, 0x1d, 0xed, 0x03, 0x49, 0xd9, 0x21, 0x51, 0x17, 0x33, 0xe0, 0xd8],
    [0xd5, 0xcd, 0xf5, 0xe9, 0x5f, 0x3c, 0x68, 0x78, 0xd2, 0xc3, 0x90, 0xdb, 0x01, 0x18, 0x08, 0x22],
    [0xf4, 0x9f, 0x74, 0xc2, 0x0c, 0x40, 0xac, 0x98, 0x8b, 0xe7, 0x32, 0xea, 0x9e, 0x3b, 0x9d, 0x2f],
    [0xce, 0xbb, 0xd3, 0x79, 0xa5, 0xfc, 0x57, 0x43, 0x7b, 0x45, 0x5e, 0x1f, 0x71, 0xdf, 0x48, 0xfd],
    [0xc4, 0x94, 0x14, 0xbf, 0x6f, 0x59, 0xe2, 0xca, 0x4b, 0x4a, 0x77, 0x12, 0xf6, 0x63, 0x31, 0x75],
    [0xa7, 0xf1, 0x29, 0x13, 0x00, 0xb0, 0x28, 0x62, 0x6d, 0xb2, 0x7c, 0x67, 0xeb, 0x5a, 0xf0, 0x99],
    [0xc8, 0xbe, 0x65, 0x25, 0x35, 0x70, 0xaf, 0x2b, 0xb9, 0x3e, 0x6e, 0x4d, 0xe4, 0x1c, 0xd6, 0x06],
    [0xfb, 0x81, 0xae, 0x92, 0xa3, 0x53, 0xf2, 0x3f, 0xe6, 0x91, 0xec, 0x64, 0xf8, 0x89, 0xa4, 0xd0],
    [0xb6, 0x2d, 0x58, 0x9a, 0xb4, 0x42, 0x82, 0x0d, 0xdc, 0x95, 0x97, 0x34, 0xda, 0x69, 0x05, 0xa2],
    [0x2c, 0xfa, 0xd4, 0xe5, 0x88, 0xcf, 0x30, 0x9c, 0x1a, 0xff, 0x60, 0xa8, 0x6a, 0x19, 0x4c, 0x16]]"

definition TABLE_S4_22 :: "bytes" where
  "TABLE_S4_22 = concat [
    [0x8e, 0xa3, 0x5a, 0xb1, 0x95, 0x73, 0x29, 0xdd, 0xf0, 0xd6, 0x59, 0x9e, 0xd0, 0x21, 0xdc, 0x4a],
    [0x16, 0xb4, 0x6d, 0xf3, 0xba, 0x02, 0x3b, 0xb6, 0xac, 0x83, 0x6c, 0xca, 0x5e, 0x3a, 0xdb, 0xc5],
    [0xcc, 0x76, 0xbb, 0xbc, 0x3c, 0x26, 0x11, 0x33, 0x84, 0x1b, 0xc1, 0x7a, 0x63, 0xd7, 0x07, 0x7f],
    [0x47, 0xb8, 0x5b, 0x66, 0x79, 0x0b, 0x2f, 0x03, 0xaa, 0xf1, 0x92, 0x2d, 0xc8, 0xce, 0x5d, 0xc0],
    [0x39, 0x57, 0x45, 0xfb, 0xf9, 0xeb, 0x72, 0x93, 0x28, 0xd4, 0xe6, 0x77, 0x32, 0xc7, 0xf7, 0xfa],
    [0x0f, 0x1c, 0xa0, 0xfd, 0x40, 0x4b, 0xbd, 0xfe, 0x68, 0x20, 0x53, 0xf8, 0x74, 0x44, 0x2b, 0xf2],
    [0xa6, 0xed, 0xbe, 0xaf, 0x5f, 0x75, 0x65, 0x7c, 0x94, 0x88, 0xb0, 0xa8, 0x05, 0x15, 0x41, 0x22],
    [0x2c, 0x5c, 0xa4, 0x34, 0xa5, 0x9d, 0x4e, 0x6a, 0x8a, 0x00, 0x0e, 0x9c, 0x7e, 0x90, 0x60, 0xee],
    [0x62, 0x23, 0x38, 0x06, 0x80, 0x35, 0xa2, 0x0c, 0x04, 0xae, 0xc6, 0xb3, 0x3e, 0x2a, 0x81, 0xd8],
    [0x97, 0x4f, 0x9a, 0xf6, 0x52, 0xe0, 0x46, 0xe3, 0xbf, 0x09, 0xe2, 0x89, 0xe5, 0xd1, 0x3d, 0x71],
    [0x1a, 0x01, 0xcf, 0x10, 0xe4, 0x8d, 0x27, 0x96, 0x6e, 0x54, 0x8c, 0xda, 0x1f, 0x55, 0xcd, 0x7d],
    [0x6f, 0x0a, 0x37, 0x36, 0x08, 0x4c, 0x1e, 0x8b, 0xc2, 0x69, 0xe9, 0xb9, 0xb7, 0x9f, 0x24, 0x12],
    [0x19, 0x91, 0xec, 0x9b, 0xad, 0xd9, 0xf4, 0x85, 0xef, 0xd3, 0xfc, 0x86, 0x42, 0x8f, 0x2e, 0xde],
    [0x30, 0x13, 0x43, 0xc4, 0x7b, 0xab, 0x61, 0x99, 0x58, 0x18, 0xc3, 0xb5, 0x56, 0xd2, 0x0d, 0x48],
    [0xd5, 0x1d, 0x82, 0x67, 0x6b, 0x31, 0x64, 0x17, 0x98, 0xa9, 0x87, 0x51, 0xe1, 0x4d, 0xb2, 0xf5],
    [0x49, 0xea, 0xe8, 0xa1, 0xdf, 0x78, 0x14, 0xa7, 0xe7, 0x25, 0x50, 0xcb, 0x70, 0xff, 0x3f, 0xc9]]"

definition TABLE_S4_23 :: "bytes" where
  "TABLE_S4_23 = concat [
    [0x75, 0x73, 0x7b, 0xe6, 0x4a, 0x11, 0x96, 0x29, 0xb0, 0xc2, 0xb8, 0x94, 0x03, 0xfc, 0xdd, 0xe0],
    [0x6c, 0xd8, 0xc4, 0xbc, 0xa0, 0x3f, 0xc1, 0x7a, 0x9d, 0x87, 0x88, 0xaa, 0xcd, 0x77, 0x07, 0x00],
    [0x81, 0xe5, 0x7e, 0x60, 0x38, 0x17, 0x71, 0xd7, 0xb9, 0x01, 0x0d, 0x80, 0x0f, 0xad, 0x48, 0xd6],
    [0x9a, 0x6b, 0xf1, 0x67, 0x6d, 0x4b, 0x25, 0xe2, 0xc8, 0x2e, 0x66, 0x92, 0x18, 0x35, 0x0a, 0xe1],
    [0x2b, 0xc5, 0x55, 0xdb, 0xbb, 0x31, 0x27, 0xb5, 0x26, 0x1e, 0xd1, 0xf5, 0xe7, 0x97, 0x8f, 0x1f],
    [0xae, 0xbe, 0x99, 0xfa, 0x33, 0x2f, 0x13, 0x0b, 0xce, 0xe4, 0xc7, 0xde, 0x56, 0x1d, 0x14, 0x05],
    [0xff, 0xcf, 0x49, 0x90, 0x9b, 0xd3, 0x43, 0xe8, 0xf0, 0xfb, 0x45, 0x06, 0xa7, 0xb4, 0x46, 0x1b],
    [0x7c, 0x89, 0x41, 0x4c, 0x6f, 0x93, 0xcc, 0x5d, 0x50, 0x42, 0x28, 0xc9, 0xec, 0x82, 0x40, 0xfe],
    [0x24, 0x0c, 0xa9, 0x9f, 0xd2, 0x79, 0x02, 0x52, 0xf7, 0xb3, 0x30, 0xa5, 0xb1, 0xd4, 0x8d, 0x8c],
    [0xee, 0xa4, 0xc6, 0x76, 0xef, 0xd5, 0x61, 0x37, 0x36, 0x5f, 0x2d, 0x9c, 0xba, 0xa1, 0xab, 0x74],
    [0x6a, 0x5e, 0xca, 0x86, 0xb2, 0x04, 0x32, 0x59, 0x5b, 0xe9, 0x58, 0xfd, 0xf4, 0x2c, 0x4d, 0x21],
    [0x91, 0x85, 0x63, 0x3a, 0x15, 0xbf, 0x08, 0x7d, 0x8e, 0x3b, 0xb7, 0x19, 0x98, 0xd9, 0xbd, 0x83],
    [0x44, 0xcb, 0x72, 0x84, 0x9e, 0x5c, 0x70, 0xeb, 0xc3, 0x64, 0x1c, 0xaf, 0x51, 0xf2, 0x1a, 0x53],
    [0xf6, 0x5a, 0x4e, 0x09, 0x12, 0x23, 0xea, 0x3c, 0x8a, 0xd0, 0xac, 0xdf, 0xa6, 0x6e, 0xdc, 0x39],
    [0x69, 0xed, 0xf3, 0xb6, 0xa3, 0xe3, 0x0e, 0x78, 0x10, 0xc0, 0x22, 0xda, 0xa8, 0x8b, 0x7f, 0xf8],
    [0x34, 0xf9, 0x65, 0x95, 0x68, 0x54, 0x3d, 0x47, 0x62, 0x16, 0x3e, 0x4f, 0x2a, 0xa2, 0x20, 0x57]]"

definition TABLE_S4_24 :: "bytes" where
  "TABLE_S4_24 = concat [
    [0x17, 0xd0, 0x5f, 0x79, 0xc3, 0x55, 0xa8, 0x59, 0x38, 0xd3, 0x2a, 0x07, 0x54, 0xa0, 0xfa, 0x1c],
    [0x43, 0xe5, 0x0a, 0x25, 0x4c, 0x52, 0xb3, 0xd7, 0x7a, 0xe4, 0x3d, 0x9f, 0x3f, 0xb2, 0x8b, 0x33],
    [0xf3, 0x48, 0x92, 0x0d, 0xf6, 0x8e, 0x5e, 0xea, 0x35, 0x32, 0xff, 0x45, 0xba, 0x98, 0xaf, 0xb5],
    [0xa4, 0x1b, 0x78, 0x23, 0x49, 0xd4, 0x47, 0x41, 0xef, 0xd2, 0x31, 0xce, 0x8a, 0xa6, 0x82, 0xf0],
    [0xfe, 0x6f, 0x5d, 0xa1, 0x73, 0x7e, 0x4e, 0xbb, 0x72, 0xcc, 0xde, 0xb0, 0x1a, 0xfb, 0x62, 0x70],
    [0x71, 0xda, 0xa9, 0xe1, 0x7b, 0xa2, 0xcd, 0xfd, 0x74, 0x29, 0x95, 0x86, 0x77, 0x34, 0xc2, 0xc9],
    [0x21, 0x39, 0x01, 0x1d, 0xab, 0xc8, 0x9c, 0x8c, 0x26, 0x37, 0x64, 0x2f, 0xf5, 0xec, 0xfc, 0xd6],
    [0x15, 0x87, 0x89, 0x03, 0x67, 0xe9, 0x19, 0xf7, 0xbd, 0x2d, 0xd5, 0xa5, 0xe3, 0xc7, 0x14, 0x2c],
    [0x3a, 0x4f, 0x27, 0x8d, 0x51, 0x08, 0xa3, 0xb7, 0x8f, 0xb1, 0xaa, 0xeb, 0x85, 0x2b, 0xbc, 0x09],
    [0x00, 0x6b, 0x80, 0x36, 0xf8, 0xb4, 0x58, 0x6c, 0x7f, 0x13, 0xc6, 0x1e, 0x6a, 0xcf, 0x69, 0xdb],
    [0x53, 0x05, 0xdd, 0xe7, 0xf4, 0x44, 0xdc, 0x96, 0x99, 0x46, 0x88, 0x93, 0x1f, 0xae, 0x04, 0x6d],
    [0x30, 0x60, 0xe0, 0x4b, 0x9b, 0xad, 0x16, 0x3e, 0xbf, 0xbe, 0x83, 0xe6, 0x02, 0x97, 0xc5, 0x81],
    [0x0f, 0x75, 0x5a, 0x66, 0x57, 0xa7, 0x06, 0xcb, 0x12, 0x65, 0x18, 0x90, 0x0c, 0x7d, 0x50, 0x24],
    [0x3c, 0x4a, 0x91, 0xd1, 0xc1, 0x84, 0x5b, 0xdf, 0x4d, 0xca, 0x9a, 0xb9, 0x10, 0xe8, 0x22, 0xf2],
    [0xd8, 0x0e, 0x20, 0x11, 0x7c, 0x3b, 0xc4, 0x68, 0xee, 0x0b, 0x94, 0x5c, 0x9e, 0xed, 0xb8, 0xe2],
    [0x42, 0xd9, 0xac, 0x6e, 0x40, 0xb6, 0x76, 0xf9, 0x28, 0x61, 0x63, 0xc0, 0x2e, 0x9d, 0xf1, 0x56]]"

definition TABLE_S4_25 :: "bytes" where
  "TABLE_S4_25 = concat [
    [0xb7, 0x11, 0xfe, 0xd1, 0xb8, 0xa6, 0x47, 0x23, 0x8e, 0x10, 0xc9, 0x6b, 0xcb, 0x46, 0x7f, 0xc7],
    [0xe3, 0x24, 0xab, 0x8d, 0x37, 0xa1, 0x5c, 0xad, 0xcc, 0x27, 0xde, 0xf3, 0xa0, 0x54, 0x0e, 0xe8],
    [0x50, 0xef, 0x8c, 0xd7, 0xbd, 0x20, 0xb3, 0xb5, 0x1b, 0x26, 0xc5, 0x3a, 0x7e, 0x52, 0x76, 0x04],
    [0x07, 0xbc, 0x66, 0xf9, 0x02, 0x7a, 0xaa, 0x1e, 0xc1, 0xc6, 0x0b, 0xb1, 0x4e, 0x6c, 0x5b, 0x41],
    [0x85, 0x2e, 0x5d, 0x15, 0x8f, 0x56, 0x39, 0x09, 0x80, 0xdd, 0x61, 0x72, 0x83, 0xc0, 0x36, 0x3d],
    [0x0a, 0x9b, 0xa9, 0x55, 0x87, 0x8a, 0xba, 0x4f, 0x86, 0x38, 0x2a, 0x44, 0xee, 0x0f, 0x96, 0x84],
    [0xe1, 0x73, 0x7d, 0xf7, 0x93, 0x1d, 0xed, 0x03, 0x49, 0xd9, 0x21, 0x51, 0x17, 0x33, 0xe0, 0xd8],
    [0xd5, 0xcd, 0xf5, 0xe9, 0x5f, 0x3c, 0x68, 0x78, 0xd2, 0xc3, 0x90, 0xdb, 0x01, 0x18, 0x08, 0x22],
    [0xf4, 0x9f, 0x74, 0xc2, 0x0c, 0x40, 0xac, 0x98, 0x8b, 0xe7, 0x32, 0xea, 0x9e, 0x3b, 0x9d, 0x2f],
    [0xce, 0xbb, 0xd3, 0x79, 0xa5, 0xfc, 0x57, 0x43, 0x7b, 0x45, 0x5e, 0x1f, 0x71, 0xdf, 0x48, 0xfd],
    [0xc4, 0x94, 0x14, 0xbf, 0x6f, 0x59, 0xe2, 0xca, 0x4b, 0x4a, 0x77, 0x12, 0xf6, 0x63, 0x31, 0x75],
    [0xa7, 0xf1, 0x29, 0x13, 0x00, 0xb0, 0x28, 0x62, 0x6d, 0xb2, 0x7c, 0x67, 0xeb, 0x5a, 0xf0, 0x99],
    [0xc8, 0xbe, 0x65, 0x25, 0x35, 0x70, 0xaf, 0x2b, 0xb9, 0x3e, 0x6e, 0x4d, 0xe4, 0x1c, 0xd6, 0x06],
    [0xfb, 0x81, 0xae, 0x92, 0xa3, 0x53, 0xf2, 0x3f, 0xe6, 0x91, 0xec, 0x64, 0xf8, 0x89, 0xa4, 0xd0],
    [0xb6, 0x2d, 0x58, 0x9a, 0xb4, 0x42, 0x82, 0x0d, 0xdc, 0x95, 0x97, 0x34, 0xda, 0x69, 0x05, 0xa2],
    [0x2c, 0xfa, 0xd4, 0xe5, 0x88, 0xcf, 0x30, 0x9c, 0x1a, 0xff, 0x60, 0xa8, 0x6a, 0x19, 0x4c, 0x16]]"

definition TABLE_S4_26 :: "bytes" where
  "TABLE_S4_26 = concat [
    [0xb3, 0x9e, 0x67, 0x8c, 0xa8, 0x4e, 0x14, 0xe0, 0xcd, 0xeb, 0x64, 0xa3, 0xed, 0x1c, 0xe1, 0x77],
    [0x2b, 0x89, 0x50, 0xce, 0x87, 0x3f, 0x06, 0x8b, 0x91, 0xbe, 0x51, 0xf7, 0x63, 0x07, 0xe6, 0xf8],
    [0xf1, 0x4b, 0x86, 0x81, 0x01, 0x1b, 0x2c, 0x0e, 0xb9, 0x26, 0xfc, 0x47, 0x5e, 0xea, 0x3a, 0x42],
    [0x7a, 0x85, 0x66, 0x5b, 0x44, 0x36, 0x12, 0x3e, 0x97, 0xcc, 0xaf, 0x10, 0xf5, 0xf3, 0x60, 0xfd],
    [0x04, 0x6a, 0x78, 0xc6, 0xc4, 0xd6, 0x4f, 0xae, 0x15, 0xe9, 0xdb, 0x4a, 0x0f, 0xfa, 0xca, 0xc7],
    [0x32, 0x21, 0x9d, 0xc0, 0x7d, 0x76, 0x80, 0xc3, 0x55, 0x1d, 0x6e, 0xc5, 0x49, 0x79, 0x16, 0xcf],
    [0x9b, 0xd0, 0x83, 0x92, 0x62, 0x48, 0x58, 0x41, 0xa9, 0xb5, 0x8d, 0x95, 0x38, 0x28, 0x7c, 0x1f],
    [0x11, 0x61, 0x99, 0x09, 0x98, 0xa0, 0x73, 0x57, 0xb7, 0x3d, 0x33, 0xa1, 0x43, 0xad, 0x5d, 0xd3],
    [0x5f, 0x1e, 0x05, 0x3b, 0xbd, 0x08, 0x9f, 0x31, 0x39, 0x93, 0xfb, 0x8e, 0x03, 0x17, 0xbc, 0xe5],
    [0xaa, 0x72, 0xa7, 0xcb, 0x6f, 0xdd, 0x7b, 0xde, 0x82, 0x34, 0xdf, 0xb4, 0xd8, 0xec, 0x00, 0x4c],
    [0x27, 0x3c, 0xf2, 0x2d, 0xd9, 0xb0, 0x1a, 0xab, 0x53, 0x69, 0xb1, 0xe7, 0x22, 0x68, 0xf0, 0x40],
    [0x52, 0x37, 0x0a, 0x0b, 0x35, 0x71, 0x23, 0xb6, 0xff, 0x54, 0xd4, 0x84, 0x8a, 0xa2, 0x19, 0x2f],
    [0x24, 0xac, 0xd1, 0xa6, 0x90, 0xe4, 0xc9, 0xb8, 0xd2, 0xee, 0xc1, 0xbb, 0x7f, 0xb2, 0x13, 0xe3],
    [0x0d, 0x2e, 0x7e, 0xf9, 0x46, 0x96, 0x5c, 0xa4, 0x65, 0x25, 0xfe, 0x88, 0x6b, 0xef, 0x30, 0x75],
    [0xe8, 0x20, 0xbf, 0x5a, 0x56, 0x0c, 0x59, 0x2a, 0xa5, 0x94, 0xba, 0x6c, 0xdc, 0x70, 0x8f, 0xc8],
    [0x74, 0xd7, 0xd5, 0x9c, 0xe2, 0x45, 0x29, 0x9a, 0xda, 0x18, 0x6d, 0xf6, 0x4d, 0xc2, 0x02, 0xf4]]"

definition TABLE_S4_27 :: "bytes" where
  "TABLE_S4_27 = concat [
    [0xb8, 0xbe, 0xb6, 0x2b, 0x87, 0xdc, 0x5b, 0xe4, 0x7d, 0x0f, 0x75, 0x59, 0xce, 0x31, 0x10, 0x2d],
    [0xa1, 0x15, 0x09, 0x71, 0x6d, 0xf2, 0x0c, 0xb7, 0x50, 0x4a, 0x45, 0x67, 0x00, 0xba, 0xca, 0xcd],
    [0x4c, 0x28, 0xb3, 0xad, 0xf5, 0xda, 0xbc, 0x1a, 0x74, 0xcc, 0xc0, 0x4d, 0xc2, 0x60, 0x85, 0x1b],
    [0x57, 0xa6, 0x3c, 0xaa, 0xa0, 0x86, 0xe8, 0x2f, 0x05, 0xe3, 0xab, 0x5f, 0xd5, 0xf8, 0xc7, 0x2c],
    [0xe6, 0x08, 0x98, 0x16, 0x76, 0xfc, 0xea, 0x78, 0xeb, 0xd3, 0x1c, 0x38, 0x2a, 0x5a, 0x42, 0xd2],
    [0x63, 0x73, 0x54, 0x37, 0xfe, 0xe2, 0xde, 0xc6, 0x03, 0x29, 0x0a, 0x13, 0x9b, 0xd0, 0xd9, 0xc8],
    [0x32, 0x02, 0x84, 0x5d, 0x56, 0x1e, 0x8e, 0x25, 0x3d, 0x36, 0x88, 0xcb, 0x6a, 0x79, 0x8b, 0xd6],
    [0xb1, 0x44, 0x8c, 0x81, 0xa2, 0x5e, 0x01, 0x90, 0x9d, 0x8f, 0xe5, 0x04, 0x21, 0x4f, 0x8d, 0x33],
    [0xe9, 0xc1, 0x64, 0x52, 0x1f, 0xb4, 0xcf, 0x9f, 0x3a, 0x7e, 0xfd, 0x68, 0x7c, 0x19, 0x40, 0x41],
    [0x23, 0x69, 0x0b, 0xbb, 0x22, 0x18, 0xac, 0xfa, 0xfb, 0x92, 0xe0, 0x51, 0x77, 0x6c, 0x66, 0xb9],
    [0xa7, 0x93, 0x07, 0x4b, 0x7f, 0xc9, 0xff, 0x94, 0x96, 0x24, 0x95, 0x30, 0x39, 0xe1, 0x80, 0xec],
    [0x5c, 0x48, 0xae, 0xf7, 0xd8, 0x72, 0xc5, 0xb0, 0x43, 0xf6, 0x7a, 0xd4, 0x55, 0x14, 0x70, 0x4e],
    [0x89, 0x06, 0xbf, 0x49, 0x53, 0x91, 0xbd, 0x26, 0x0e, 0xa9, 0xd1, 0x62, 0x9c, 0x3f, 0xd7, 0x9e],
    [0x3b, 0x97, 0x83, 0xc4, 0xdf, 0xee, 0x27, 0xf1, 0x47, 0x1d, 0x61, 0x12, 0x6b, 0xa3, 0x11, 0xf4],
    [0xa4, 0x20, 0x3e, 0x7b, 0x6e, 0x2e, 0xc3, 0xb5, 0xdd, 0x0d, 0xef, 0x17, 0x65, 0x46, 0xb2, 0x35],
    [0xf9, 0x34, 0xa8, 0x58, 0xa5, 0x99, 0xf0, 0x8a, 0xaf, 0xdb, 0xf3, 0x82, 0xe7, 0x6f, 0xed, 0x9a]]"

definition TABLE_S4_28 :: "bytes" where
  "TABLE_S4_28 = concat [
    [0x38, 0xff, 0x70, 0x56, 0xec, 0x7a, 0x87, 0x76, 0x17, 0xfc, 0x05, 0x28, 0x7b, 0x8f, 0xd5, 0x33],
    [0x6c, 0xca, 0x25, 0x0a, 0x63, 0x7d, 0x9c, 0xf8, 0x55, 0xcb, 0x12, 0xb0, 0x10, 0x9d, 0xa4, 0x1c],
    [0xdc, 0x67, 0xbd, 0x22, 0xd9, 0xa1, 0x71, 0xc5, 0x1a, 0x1d, 0xd0, 0x6a, 0x95, 0xb7, 0x80, 0x9a],
    [0x8b, 0x34, 0x57, 0x0c, 0x66, 0xfb, 0x68, 0x6e, 0xc0, 0xfd, 0x1e, 0xe1, 0xa5, 0x89, 0xad, 0xdf],
    [0xd1, 0x40, 0x72, 0x8e, 0x5c, 0x51, 0x61, 0x94, 0x5d, 0xe3, 0xf1, 0x9f, 0x35, 0xd4, 0x4d, 0x5f],
    [0x5e, 0xf5, 0x86, 0xce, 0x54, 0x8d, 0xe2, 0xd2, 0x5b, 0x06, 0xba, 0xa9, 0x58, 0x1b, 0xed, 0xe6],
    [0x0e, 0x16, 0x2e, 0x32, 0x84, 0xe7, 0xb3, 0xa3, 0x09, 0x18, 0x4b, 0x00, 0xda, 0xc3, 0xd3, 0xf9],
    [0x3a, 0xa8, 0xa6, 0x2c, 0x48, 0xc6, 0x36, 0xd8, 0x92, 0x02, 0xfa, 0x8a, 0xcc, 0xe8, 0x3b, 0x03],
    [0x15, 0x60, 0x08, 0xa2, 0x7e, 0x27, 0x8c, 0x98, 0xa0, 0x9e, 0x85, 0xc4, 0xaa, 0x04, 0x93, 0x26],
    [0x2f, 0x44, 0xaf, 0x19, 0xd7, 0x9b, 0x77, 0x43, 0x50, 0x3c, 0xe9, 0x31, 0x45, 0xe0, 0x46, 0xf4],
    [0x7c, 0x2a, 0xf2, 0xc8, 0xdb, 0x6b, 0xf3, 0xb9, 0xb6, 0x69, 0xa7, 0xbc, 0x30, 0x81, 0x2b, 0x42],
    [0x1f, 0x4f, 0xcf, 0x64, 0xb4, 0x82, 0x39, 0x11, 0x90, 0x91, 0xac, 0xc9, 0x2d, 0xb8, 0xea, 0xae],
    [0x20, 0x5a, 0x75, 0x49, 0x78, 0x88, 0x29, 0xe4, 0x3d, 0x4a, 0x37, 0xbf, 0x23, 0x52, 0x7f, 0x0b],
    [0x13, 0x65, 0xbe, 0xfe, 0xee, 0xab, 0x74, 0xf0, 0x62, 0xe5, 0xb5, 0x96, 0x3f, 0xc7, 0x0d, 0xdd],
    [0xf7, 0x21, 0x0f, 0x3e, 0x53, 0x14, 0xeb, 0x47, 0xc1, 0x24, 0xbb, 0x73, 0xb1, 0xc2, 0x97, 0xcd],
    [0x6d, 0xf6, 0x83, 0x41, 0x6f, 0x99, 0x59, 0xd6, 0x07, 0x4e, 0x4c, 0xef, 0x01, 0xb2, 0xde, 0x79]]"

definition TABLE_S4_29 :: "bytes" where
  "TABLE_S4_29 = concat [
    [0xff, 0x59, 0xb6, 0x99, 0xf0, 0xee, 0x0f, 0x6b, 0xc6, 0x58, 0x81, 0x23, 0x83, 0x0e, 0x37, 0x8f],
    [0xab, 0x6c, 0xe3, 0xc5, 0x7f, 0xe9, 0x14, 0xe5, 0x84, 0x6f, 0x96, 0xbb, 0xe8, 0x1c, 0x46, 0xa0],
    [0x18, 0xa7, 0xc4, 0x9f, 0xf5, 0x68, 0xfb, 0xfd, 0x53, 0x6e, 0x8d, 0x72, 0x36, 0x1a, 0x3e, 0x4c],
    [0x4f, 0xf4, 0x2e, 0xb1, 0x4a, 0x32, 0xe2, 0x56, 0x89, 0x8e, 0x43, 0xf9, 0x06, 0x24, 0x13, 0x09],
    [0xcd, 0x66, 0x15, 0x5d, 0xc7, 0x1e, 0x71, 0x41, 0xc8, 0x95, 0x29, 0x3a, 0xcb, 0x88, 0x7e, 0x75],
    [0x42, 0xd3, 0xe1, 0x1d, 0xcf, 0xc2, 0xf2, 0x07, 0xce, 0x70, 0x62, 0x0c, 0xa6, 0x47, 0xde, 0xcc],
    [0xa9, 0x3b, 0x35, 0xbf, 0xdb, 0x55, 0xa5, 0x4b, 0x01, 0x91, 0x69, 0x19, 0x5f, 0x7b, 0xa8, 0x90],
    [0x9d, 0x85, 0xbd, 0xa1, 0x17, 0x74, 0x20, 0x30, 0x9a, 0x8b, 0xd8, 0x93, 0x49, 0x50, 0x40, 0x6a],
    [0xbc, 0xd7, 0x3c, 0x8a, 0x44, 0x08, 0xe4, 0xd0, 0xc3, 0xaf, 0x7a, 0xa2, 0xd6, 0x73, 0xd5, 0x67],
    [0x86, 0xf3, 0x9b, 0x31, 0xed, 0xb4, 0x1f, 0x0b, 0x33, 0x0d, 0x16, 0x57, 0x39, 0x97, 0x00, 0xb5],
    [0x8c, 0xdc, 0x5c, 0xf7, 0x27, 0x11, 0xaa, 0x82, 0x03, 0x02, 0x3f, 0x5a, 0xbe, 0x2b, 0x79, 0x3d],
    [0xef, 0xb9, 0x61, 0x5b, 0x48, 0xf8, 0x60, 0x2a, 0x25, 0xfa, 0x34, 0x2f, 0xa3, 0x12, 0xb8, 0xd1],
    [0x80, 0xf6, 0x2d, 0x6d, 0x7d, 0x38, 0xe7, 0x63, 0xf1, 0x76, 0x26, 0x05, 0xac, 0x54, 0x9e, 0x4e],
    [0xb3, 0xc9, 0xe6, 0xda, 0xeb, 0x1b, 0xba, 0x77, 0xae, 0xd9, 0xa4, 0x2c, 0xb0, 0xc1, 0xec, 0x98],
    [0xfe, 0x65, 0x10, 0xd2, 0xfc, 0x0a, 0xca, 0x45, 0x94, 0xdd, 0xdf, 0x7c, 0x92, 0x21, 0x4d, 0xea],
    [0x64, 0xb2, 0x9c, 0xad, 0xc0, 0x87, 0x78, 0xd4, 0x52, 0xb7, 0x28, 0xe0, 0x22, 0x51, 0x04, 0x5e]]"

definition TABLE_S4_30 :: "bytes" where
  "TABLE_S4_30 = concat [
    [0x61, 0x4c, 0xb5, 0x5e, 0x7a, 0x9c, 0xc6, 0x32, 0x1f, 0x39, 0xb6, 0x71, 0x3f, 0xce, 0x33, 0xa5],
    [0xf9, 0x5b, 0x82, 0x1c, 0x55, 0xed, 0xd4, 0x59, 0x43, 0x6c, 0x83, 0x25, 0xb1, 0xd5, 0x34, 0x2a],
    [0x23, 0x99, 0x54, 0x53, 0xd3, 0xc9, 0xfe, 0xdc, 0x6b, 0xf4, 0x2e, 0x95, 0x8c, 0x38, 0xe8, 0x90],
    [0xa8, 0x57, 0xb4, 0x89, 0x96, 0xe4, 0xc0, 0xec, 0x45, 0x1e, 0x7d, 0xc2, 0x27, 0x21, 0xb2, 0x2f],
    [0xd6, 0xb8, 0xaa, 0x14, 0x16, 0x04, 0x9d, 0x7c, 0xc7, 0x3b, 0x09, 0x98, 0xdd, 0x28, 0x18, 0x15],
    [0xe0, 0xf3, 0x4f, 0x12, 0xaf, 0xa4, 0x52, 0x11, 0x87, 0xcf, 0xbc, 0x17, 0x9b, 0xab, 0xc4, 0x1d],
    [0x49, 0x02, 0x51, 0x40, 0xb0, 0x9a, 0x8a, 0x93, 0x7b, 0x67, 0x5f, 0x47, 0xea, 0xfa, 0xae, 0xcd],
    [0xc3, 0xb3, 0x4b, 0xdb, 0x4a, 0x72, 0xa1, 0x85, 0x65, 0xef, 0xe1, 0x73, 0x91, 0x7f, 0x8f, 0x01],
    [0x8d, 0xcc, 0xd7, 0xe9, 0x6f, 0xda, 0x4d, 0xe3, 0xeb, 0x41, 0x29, 0x5c, 0xd1, 0xc5, 0x6e, 0x37],
    [0x78, 0xa0, 0x75, 0x19, 0xbd, 0x0f, 0xa9, 0x0c, 0x50, 0xe6, 0x0d, 0x66, 0x0a, 0x3e, 0xd2, 0x9e],
    [0xf5, 0xee, 0x20, 0xff, 0x0b, 0x62, 0xc8, 0x79, 0x81, 0xbb, 0x63, 0x35, 0xf0, 0xba, 0x22, 0x92],
    [0x80, 0xe5, 0xd8, 0xd9, 0xe7, 0xa3, 0xf1, 0x64, 0x2d, 0x86, 0x06, 0x56, 0x58, 0x70, 0xcb, 0xfd],
    [0xf6, 0x7e, 0x03, 0x74, 0x42, 0x36, 0x1b, 0x6a, 0x00, 0x3c, 0x13, 0x69, 0xad, 0x60, 0xc1, 0x31],
    [0xdf, 0xfc, 0xac, 0x2b, 0x94, 0x44, 0x8e, 0x76, 0xb7, 0xf7, 0x2c, 0x5a, 0xb9, 0x3d, 0xe2, 0xa7],
    [0x3a, 0xf2, 0x6d, 0x88, 0x84, 0xde, 0x8b, 0xf8, 0x77, 0x46, 0x68, 0xbe, 0x0e, 0xa2, 0x5d, 0x1a],
    [0xa6, 0x05, 0x07, 0x4e, 0x30, 0x97, 0xfb, 0x48, 0x08, 0xca, 0xbf, 0x24, 0x9f, 0x10, 0xd0, 0x26]]"

definition TABLE_S4_31 :: "bytes" where
  "TABLE_S4_31 = concat [
    [0x04, 0x02, 0x0a, 0x97, 0x3b, 0x60, 0xe7, 0x58, 0xc1, 0xb3, 0xc9, 0xe5, 0x72, 0x8d, 0xac, 0x91],
    [0x1d, 0xa9, 0xb5, 0xcd, 0xd1, 0x4e, 0xb0, 0x0b, 0xec, 0xf6, 0xf9, 0xdb, 0xbc, 0x06, 0x76, 0x71],
    [0xf0, 0x94, 0x0f, 0x11, 0x49, 0x66, 0x00, 0xa6, 0xc8, 0x70, 0x7c, 0xf1, 0x7e, 0xdc, 0x39, 0xa7],
    [0xeb, 0x1a, 0x80, 0x16, 0x1c, 0x3a, 0x54, 0x93, 0xb9, 0x5f, 0x17, 0xe3, 0x69, 0x44, 0x7b, 0x90],
    [0x5a, 0xb4, 0x24, 0xaa, 0xca, 0x40, 0x56, 0xc4, 0x57, 0x6f, 0xa0, 0x84, 0x96, 0xe6, 0xfe, 0x6e],
    [0xdf, 0xcf, 0xe8, 0x8b, 0x42, 0x5e, 0x62, 0x7a, 0xbf, 0x95, 0xb6, 0xaf, 0x27, 0x6c, 0x65, 0x74],
    [0x8e, 0xbe, 0x38, 0xe1, 0xea, 0xa2, 0x32, 0x99, 0x81, 0x8a, 0x34, 0x77, 0xd6, 0xc5, 0x37, 0x6a],
    [0x0d, 0xf8, 0x30, 0x3d, 0x1e, 0xe2, 0xbd, 0x2c, 0x21, 0x33, 0x59, 0xb8, 0x9d, 0xf3, 0x31, 0x8f],
    [0x55, 0x7d, 0xd8, 0xee, 0xa3, 0x08, 0x73, 0x23, 0x86, 0xc2, 0x41, 0xd4, 0xc0, 0xa5, 0xfc, 0xfd],
    [0x9f, 0xd5, 0xb7, 0x07, 0x9e, 0xa4, 0x10, 0x46, 0x47, 0x2e, 0x5c, 0xed, 0xcb, 0xd0, 0xda, 0x05],
    [0x1b, 0x2f, 0xbb, 0xf7, 0xc3, 0x75, 0x43, 0x28, 0x2a, 0x98, 0x29, 0x8c, 0x85, 0x5d, 0x3c, 0x50],
    [0xe0, 0xf4, 0x12, 0x4b, 0x64, 0xce, 0x79, 0x0c, 0xff, 0x4a, 0xc6, 0x68, 0xe9, 0xa8, 0xcc, 0xf2],
    [0x35, 0xba, 0x03, 0xf5, 0xef, 0x2d, 0x01, 0x9a, 0xb2, 0x15, 0x6d, 0xde, 0x20, 0x83, 0x6b, 0x22],
    [0x87, 0x2b, 0x3f, 0x78, 0x63, 0x52, 0x9b, 0x4d, 0xfb, 0xa1, 0xdd, 0xae, 0xd7, 0x1f, 0xad, 0x48],
    [0x18, 0x9c, 0x82, 0xc7, 0xd2, 0x92, 0x7f, 0x09, 0x61, 0xb1, 0x53, 0xab, 0xd9, 0xfa, 0x0e, 0x89],
    [0x45, 0x88, 0x14, 0xe4, 0x19, 0x25, 0x4c, 0x36, 0x13, 0x67, 0x4f, 0x3e, 0x5b, 0xd3, 0x51, 0x26]]"

definition TABLE_S4_32 :: "bytes" where
  "TABLE_S4_32 = concat [
    [0xb2, 0x75, 0xfa, 0xdc, 0x66, 0xf0, 0x0d, 0xfc, 0x9d, 0x76, 0x8f, 0xa2, 0xf1, 0x05, 0x5f, 0xb9],
    [0xe6, 0x40, 0xaf, 0x80, 0xe9, 0xf7, 0x16, 0x72, 0xdf, 0x41, 0x98, 0x3a, 0x9a, 0x17, 0x2e, 0x96],
    [0x56, 0xed, 0x37, 0xa8, 0x53, 0x2b, 0xfb, 0x4f, 0x90, 0x97, 0x5a, 0xe0, 0x1f, 0x3d, 0x0a, 0x10],
    [0x01, 0xbe, 0xdd, 0x86, 0xec, 0x71, 0xe2, 0xe4, 0x4a, 0x77, 0x94, 0x6b, 0x2f, 0x03, 0x27, 0x55],
    [0x5b, 0xca, 0xf8, 0x04, 0xd6, 0xdb, 0xeb, 0x1e, 0xd7, 0x69, 0x7b, 0x15, 0xbf, 0x5e, 0xc7, 0xd5],
    [0xd4, 0x7f, 0x0c, 0x44, 0xde, 0x07, 0x68, 0x58, 0xd1, 0x8c, 0x30, 0x23, 0xd2, 0x91, 0x67, 0x6c],
    [0x84, 0x9c, 0xa4, 0xb8, 0x0e, 0x6d, 0x39, 0x29, 0x83, 0x92, 0xc1, 0x8a, 0x50, 0x49, 0x59, 0x73],
    [0xb0, 0x22, 0x2c, 0xa6, 0xc2, 0x4c, 0xbc, 0x52, 0x18, 0x88, 0x70, 0x00, 0x46, 0x62, 0xb1, 0x89],
    [0x9f, 0xea, 0x82, 0x28, 0xf4, 0xad, 0x06, 0x12, 0x2a, 0x14, 0x0f, 0x4e, 0x20, 0x8e, 0x19, 0xac],
    [0xa5, 0xce, 0x25, 0x93, 0x5d, 0x11, 0xfd, 0xc9, 0xda, 0xb6, 0x63, 0xbb, 0xcf, 0x6a, 0xcc, 0x7e],
    [0xf6, 0xa0, 0x78, 0x42, 0x51, 0xe1, 0x79, 0x33, 0x3c, 0xe3, 0x2d, 0x36, 0xba, 0x0b, 0xa1, 0xc8],
    [0x95, 0xc5, 0x45, 0xee, 0x3e, 0x08, 0xb3, 0x9b, 0x1a, 0x1b, 0x26, 0x43, 0xa7, 0x32, 0x60, 0x24],
    [0xaa, 0xd0, 0xff, 0xc3, 0xf2, 0x02, 0xa3, 0x6e, 0xb7, 0xc0, 0xbd, 0x35, 0xa9, 0xd8, 0xf5, 0x81],
    [0x99, 0xef, 0x34, 0x74, 0x64, 0x21, 0xfe, 0x7a, 0xe8, 0x6f, 0x3f, 0x1c, 0xb5, 0x4d, 0x87, 0x57],
    [0x7d, 0xab, 0x85, 0xb4, 0xd9, 0x9e, 0x61, 0xcd, 0x4b, 0xae, 0x31, 0xf9, 0x3b, 0x48, 0x1d, 0x47],
    [0xe7, 0x7c, 0x09, 0xcb, 0xe5, 0x13, 0xd3, 0x5c, 0x8d, 0xc4, 0xc6, 0x65, 0x8b, 0x38, 0x54, 0xf3]]"

definition TABLE_S4_33 :: "bytes" where
  "TABLE_S4_33 = concat [
    [0x67, 0xc1, 0x2e, 0x01, 0x68, 0x76, 0x97, 0xf3, 0x5e, 0xc0, 0x19, 0xbb, 0x1b, 0x96, 0xaf, 0x17],
    [0x33, 0xf4, 0x7b, 0x5d, 0xe7, 0x71, 0x8c, 0x7d, 0x1c, 0xf7, 0x0e, 0x23, 0x70, 0x84, 0xde, 0x38],
    [0x80, 0x3f, 0x5c, 0x07, 0x6d, 0xf0, 0x63, 0x65, 0xcb, 0xf6, 0x15, 0xea, 0xae, 0x82, 0xa6, 0xd4],
    [0xd7, 0x6c, 0xb6, 0x29, 0xd2, 0xaa, 0x7a, 0xce, 0x11, 0x16, 0xdb, 0x61, 0x9e, 0xbc, 0x8b, 0x91],
    [0x55, 0xfe, 0x8d, 0xc5, 0x5f, 0x86, 0xe9, 0xd9, 0x50, 0x0d, 0xb1, 0xa2, 0x53, 0x10, 0xe6, 0xed],
    [0xda, 0x4b, 0x79, 0x85, 0x57, 0x5a, 0x6a, 0x9f, 0x56, 0xe8, 0xfa, 0x94, 0x3e, 0xdf, 0x46, 0x54],
    [0x31, 0xa3, 0xad, 0x27, 0x43, 0xcd, 0x3d, 0xd3, 0x99, 0x09, 0xf1, 0x81, 0xc7, 0xe3, 0x30, 0x08],
    [0x05, 0x1d, 0x25, 0x39, 0x8f, 0xec, 0xb8, 0xa8, 0x02, 0x13, 0x40, 0x0b, 0xd1, 0xc8, 0xd8, 0xf2],
    [0x24, 0x4f, 0xa4, 0x12, 0xdc, 0x90, 0x7c, 0x48, 0x5b, 0x37, 0xe2, 0x3a, 0x4e, 0xeb, 0x4d, 0xff],
    [0x1e, 0x6b, 0x03, 0xa9, 0x75, 0x2c, 0x87, 0x93, 0xab, 0x95, 0x8e, 0xcf, 0xa1, 0x0f, 0x98, 0x2d],
    [0x14, 0x44, 0xc4, 0x6f, 0xbf, 0x89, 0x32, 0x1a, 0x9b, 0x9a, 0xa7, 0xc2, 0x26, 0xb3, 0xe1, 0xa5],
    [0x77, 0x21, 0xf9, 0xc3, 0xd0, 0x60, 0xf8, 0xb2, 0xbd, 0x62, 0xac, 0xb7, 0x3b, 0x8a, 0x20, 0x49],
    [0x18, 0x6e, 0xb5, 0xf5, 0xe5, 0xa0, 0x7f, 0xfb, 0x69, 0xee, 0xbe, 0x9d, 0x34, 0xcc, 0x06, 0xd6],
    [0x2b, 0x51, 0x7e, 0x42, 0x73, 0x83, 0x22, 0xef, 0x36, 0x41, 0x3c, 0xb4, 0x28, 0x59, 0x74, 0x00],
    [0x66, 0xfd, 0x88, 0x4a, 0x64, 0x92, 0x52, 0xdd, 0x0c, 0x45, 0x47, 0xe4, 0x0a, 0xb9, 0xd5, 0x72],
    [0xfc, 0x2a, 0x04, 0x35, 0x58, 0x1f, 0xe0, 0x4c, 0xca, 0x2f, 0xb0, 0x78, 0xba, 0xc9, 0x9c, 0xc6]]"

definition TABLE_S4_34 :: "bytes" where
  "TABLE_S4_34 = concat [
    [0x41, 0x6c, 0x95, 0x7e, 0x5a, 0xbc, 0xe6, 0x12, 0x3f, 0x19, 0x96, 0x51, 0x1f, 0xee, 0x13, 0x85],
    [0xd9, 0x7b, 0xa2, 0x3c, 0x75, 0xcd, 0xf4, 0x79, 0x63, 0x4c, 0xa3, 0x05, 0x91, 0xf5, 0x14, 0x0a],
    [0x03, 0xb9, 0x74, 0x73, 0xf3, 0xe9, 0xde, 0xfc, 0x4b, 0xd4, 0x0e, 0xb5, 0xac, 0x18, 0xc8, 0xb0],
    [0x88, 0x77, 0x94, 0xa9, 0xb6, 0xc4, 0xe0, 0xcc, 0x65, 0x3e, 0x5d, 0xe2, 0x07, 0x01, 0x92, 0x0f],
    [0xf6, 0x98, 0x8a, 0x34, 0x36, 0x24, 0xbd, 0x5c, 0xe7, 0x1b, 0x29, 0xb8, 0xfd, 0x08, 0x38, 0x35],
    [0xc0, 0xd3, 0x6f, 0x32, 0x8f, 0x84, 0x72, 0x31, 0xa7, 0xef, 0x9c, 0x37, 0xbb, 0x8b, 0xe4, 0x3d],
    [0x69, 0x22, 0x71, 0x60, 0x90, 0xba, 0xaa, 0xb3, 0x5b, 0x47, 0x7f, 0x67, 0xca, 0xda, 0x8e, 0xed],
    [0xe3, 0x93, 0x6b, 0xfb, 0x6a, 0x52, 0x81, 0xa5, 0x45, 0xcf, 0xc1, 0x53, 0xb1, 0x5f, 0xaf, 0x21],
    [0xad, 0xec, 0xf7, 0xc9, 0x4f, 0xfa, 0x6d, 0xc3, 0xcb, 0x61, 0x09, 0x7c, 0xf1, 0xe5, 0x4e, 0x17],
    [0x58, 0x80, 0x55, 0x39, 0x9d, 0x2f, 0x89, 0x2c, 0x70, 0xc6, 0x2d, 0x46, 0x2a, 0x1e, 0xf2, 0xbe],
    [0xd5, 0xce, 0x00, 0xdf, 0x2b, 0x42, 0xe8, 0x59, 0xa1, 0x9b, 0x43, 0x15, 0xd0, 0x9a, 0x02, 0xb2],
    [0xa0, 0xc5, 0xf8, 0xf9, 0xc7, 0x83, 0xd1, 0x44, 0x0d, 0xa6, 0x26, 0x76, 0x78, 0x50, 0xeb, 0xdd],
    [0xd6, 0x5e, 0x23, 0x54, 0x62, 0x16, 0x3b, 0x4a, 0x20, 0x1c, 0x33, 0x49, 0x8d, 0x40, 0xe1, 0x11],
    [0xff, 0xdc, 0x8c, 0x0b, 0xb4, 0x64, 0xae, 0x56, 0x97, 0xd7, 0x0c, 0x7a, 0x99, 0x1d, 0xc2, 0x87],
    [0x1a, 0xd2, 0x4d, 0xa8, 0xa4, 0xfe, 0xab, 0xd8, 0x57, 0x66, 0x48, 0x9e, 0x2e, 0x82, 0x7d, 0x3a],
    [0x86, 0x25, 0x27, 0x6e, 0x10, 0xb7, 0xdb, 0x68, 0x28, 0xea, 0x9f, 0x04, 0xbf, 0x30, 0xf0, 0x06]]"

definition TABLE_S4_35 :: "bytes" where
  "TABLE_S4_35 = concat [
    [0xf4, 0xf2, 0xfa, 0x67, 0xcb, 0x90, 0x17, 0xa8, 0x31, 0x43, 0x39, 0x15, 0x82, 0x7d, 0x5c, 0x61],
    [0xed, 0x59, 0x45, 0x3d, 0x21, 0xbe, 0x40, 0xfb, 0x1c, 0x06, 0x09, 0x2b, 0x4c, 0xf6, 0x86, 0x81],
    [0x00, 0x64, 0xff, 0xe1, 0xb9, 0x96, 0xf0, 0x56, 0x38, 0x80, 0x8c, 0x01, 0x8e, 0x2c, 0xc9, 0x57],
    [0x1b, 0xea, 0x70, 0xe6, 0xec, 0xca, 0xa4, 0x63, 0x49, 0xaf, 0xe7, 0x13, 0x99, 0xb4, 0x8b, 0x60],
    [0xaa, 0x44, 0xd4, 0x5a, 0x3a, 0xb0, 0xa6, 0x34, 0xa7, 0x9f, 0x50, 0x74, 0x66, 0x16, 0x0e, 0x9e],
    [0x2f, 0x3f, 0x18, 0x7b, 0xb2, 0xae, 0x92, 0x8a, 0x4f, 0x65, 0x46, 0x5f, 0xd7, 0x9c, 0x95, 0x84],
    [0x7e, 0x4e, 0xc8, 0x11, 0x1a, 0x52, 0xc2, 0x69, 0x71, 0x7a, 0xc4, 0x87, 0x26, 0x35, 0xc7, 0x9a],
    [0xfd, 0x08, 0xc0, 0xcd, 0xee, 0x12, 0x4d, 0xdc, 0xd1, 0xc3, 0xa9, 0x48, 0x6d, 0x03, 0xc1, 0x7f],
    [0xa5, 0x8d, 0x28, 0x1e, 0x53, 0xf8, 0x83, 0xd3, 0x76, 0x32, 0xb1, 0x24, 0x30, 0x55, 0x0c, 0x0d],
    [0x6f, 0x25, 0x47, 0xf7, 0x6e, 0x54, 0xe0, 0xb6, 0xb7, 0xde, 0xac, 0x1d, 0x3b, 0x20, 0x2a, 0xf5],
    [0xeb, 0xdf, 0x4b, 0x07, 0x33, 0x85, 0xb3, 0xd8, 0xda, 0x68, 0xd9, 0x7c, 0x75, 0xad, 0xcc, 0xa0],
    [0x10, 0x04, 0xe2, 0xbb, 0x94, 0x3e, 0x89, 0xfc, 0x0f, 0xba, 0x36, 0x98, 0x19, 0x58, 0x3c, 0x02],
    [0xc5, 0x4a, 0xf3, 0x05, 0x1f, 0xdd, 0xf1, 0x6a, 0x42, 0xe5, 0x9d, 0x2e, 0xd0, 0x73, 0x9b, 0xd2],
    [0x77, 0xdb, 0xcf, 0x88, 0x93, 0xa2, 0x6b, 0xbd, 0x0b, 0x51, 0x2d, 0x5e, 0x27, 0xef, 0x5d, 0xb8],
    [0xe8, 0x6c, 0x72, 0x37, 0x22, 0x62, 0x8f, 0xf9, 0x91, 0x41, 0xa3, 0x5b, 0x29, 0x0a, 0xfe, 0x79],
    [0xb5, 0x78, 0xe4, 0x14, 0xe9, 0xd5, 0xbc, 0xc6, 0xe3, 0x97, 0xbf, 0xce, 0xab, 0x23, 0xa1, 0xd6]]"

definition TABLE_S4_36 :: "bytes" where
  "TABLE_S4_36 = concat [
    [0xfc, 0x3b, 0xb4, 0x92, 0x28, 0xbe, 0x43, 0xb2, 0xd3, 0x38, 0xc1, 0xec, 0xbf, 0x4b, 0x11, 0xf7],
    [0xa8, 0x0e, 0xe1, 0xce, 0xa7, 0xb9, 0x58, 0x3c, 0x91, 0x0f, 0xd6, 0x74, 0xd4, 0x59, 0x60, 0xd8],
    [0x18, 0xa3, 0x79, 0xe6, 0x1d, 0x65, 0xb5, 0x01, 0xde, 0xd9, 0x14, 0xae, 0x51, 0x73, 0x44, 0x5e],
    [0x4f, 0xf0, 0x93, 0xc8, 0xa2, 0x3f, 0xac, 0xaa, 0x04, 0x39, 0xda, 0x25, 0x61, 0x4d, 0x69, 0x1b],
    [0x15, 0x84, 0xb6, 0x4a, 0x98, 0x95, 0xa5, 0x50, 0x99, 0x27, 0x35, 0x5b, 0xf1, 0x10, 0x89, 0x9b],
    [0x9a, 0x31, 0x42, 0x0a, 0x90, 0x49, 0x26, 0x16, 0x9f, 0xc2, 0x7e, 0x6d, 0x9c, 0xdf, 0x29, 0x22],
    [0xca, 0xd2, 0xea, 0xf6, 0x40, 0x23, 0x77, 0x67, 0xcd, 0xdc, 0x8f, 0xc4, 0x1e, 0x07, 0x17, 0x3d],
    [0xfe, 0x6c, 0x62, 0xe8, 0x8c, 0x02, 0xf2, 0x1c, 0x56, 0xc6, 0x3e, 0x4e, 0x08, 0x2c, 0xff, 0xc7],
    [0xd1, 0xa4, 0xcc, 0x66, 0xba, 0xe3, 0x48, 0x5c, 0x64, 0x5a, 0x41, 0x00, 0x6e, 0xc0, 0x57, 0xe2],
    [0xeb, 0x80, 0x6b, 0xdd, 0x13, 0x5f, 0xb3, 0x87, 0x94, 0xf8, 0x2d, 0xf5, 0x81, 0x24, 0x82, 0x30],
    [0xb8, 0xee, 0x36, 0x0c, 0x1f, 0xaf, 0x37, 0x7d, 0x72, 0xad, 0x63, 0x78, 0xf4, 0x45, 0xef, 0x86],
    [0xdb, 0x8b, 0x0b, 0xa0, 0x70, 0x46, 0xfd, 0xd5, 0x54, 0x55, 0x68, 0x0d, 0xe9, 0x7c, 0x2e, 0x6a],
    [0xe4, 0x9e, 0xb1, 0x8d, 0xbc, 0x4c, 0xed, 0x20, 0xf9, 0x8e, 0xf3, 0x7b, 0xe7, 0x96, 0xbb, 0xcf],
    [0xd7, 0xa1, 0x7a, 0x3a, 0x2a, 0x6f, 0xb0, 0x34, 0xa6, 0x21, 0x71, 0x52, 0xfb, 0x03, 0xc9, 0x19],
    [0x33, 0xe5, 0xcb, 0xfa, 0x97, 0xd0, 0x2f, 0x83, 0x05, 0xe0, 0x7f, 0xb7, 0x75, 0x06, 0x53, 0x09],
    [0xa9, 0x32, 0x47, 0x85, 0xab, 0x5d, 0x9d, 0x12, 0xc3, 0x8a, 0x88, 0x2b, 0xc5, 0x76, 0x1a, 0xbd]]"

definition TABLE_S4_37 :: "bytes" where
  "TABLE_S4_37 = concat [
    [0x93, 0x35, 0xda, 0xf5, 0x9c, 0x82, 0x63, 0x07, 0xaa, 0x34, 0xed, 0x4f, 0xef, 0x62, 0x5b, 0xe3],
    [0xc7, 0x00, 0x8f, 0xa9, 0x13, 0x85, 0x78, 0x89, 0xe8, 0x03, 0xfa, 0xd7, 0x84, 0x70, 0x2a, 0xcc],
    [0x74, 0xcb, 0xa8, 0xf3, 0x99, 0x04, 0x97, 0x91, 0x3f, 0x02, 0xe1, 0x1e, 0x5a, 0x76, 0x52, 0x20],
    [0x23, 0x98, 0x42, 0xdd, 0x26, 0x5e, 0x8e, 0x3a, 0xe5, 0xe2, 0x2f, 0x95, 0x6a, 0x48, 0x7f, 0x65],
    [0xa1, 0x0a, 0x79, 0x31, 0xab, 0x72, 0x1d, 0x2d, 0xa4, 0xf9, 0x45, 0x56, 0xa7, 0xe4, 0x12, 0x19],
    [0x2e, 0xbf, 0x8d, 0x71, 0xa3, 0xae, 0x9e, 0x6b, 0xa2, 0x1c, 0x0e, 0x60, 0xca, 0x2b, 0xb2, 0xa0],
    [0xc5, 0x57, 0x59, 0xd3, 0xb7, 0x39, 0xc9, 0x27, 0x6d, 0xfd, 0x05, 0x75, 0x33, 0x17, 0xc4, 0xfc],
    [0xf1, 0xe9, 0xd1, 0xcd, 0x7b, 0x18, 0x4c, 0x5c, 0xf6, 0xe7, 0xb4, 0xff, 0x25, 0x3c, 0x2c, 0x06],
    [0xd0, 0xbb, 0x50, 0xe6, 0x28, 0x64, 0x88, 0xbc, 0xaf, 0xc3, 0x16, 0xce, 0xba, 0x1f, 0xb9, 0x0b],
    [0xea, 0x9f, 0xf7, 0x5d, 0x81, 0xd8, 0x73, 0x67, 0x5f, 0x61, 0x7a, 0x3b, 0x55, 0xfb, 0x6c, 0xd9],
    [0xe0, 0xb0, 0x30, 0x9b, 0x4b, 0x7d, 0xc6, 0xee, 0x6f, 0x6e, 0x53, 0x36, 0xd2, 0x47, 0x15, 0x51],
    [0x83, 0xd5, 0x0d, 0x37, 0x24, 0x94, 0x0c, 0x46, 0x49, 0x96, 0x58, 0x43, 0xcf, 0x7e, 0xd4, 0xbd],
    [0xec, 0x9a, 0x41, 0x01, 0x11, 0x54, 0x8b, 0x0f, 0x9d, 0x1a, 0x4a, 0x69, 0xc0, 0x38, 0xf2, 0x22],
    [0xdf, 0xa5, 0x8a, 0xb6, 0x87, 0x77, 0xd6, 0x1b, 0xc2, 0xb5, 0xc8, 0x40, 0xdc, 0xad, 0x80, 0xf4],
    [0x92, 0x09, 0x7c, 0xbe, 0x90, 0x66, 0xa6, 0x29, 0xf8, 0xb1, 0xb3, 0x10, 0xfe, 0x4d, 0x21, 0x86],
    [0x08, 0xde, 0xf0, 0xc1, 0xac, 0xeb, 0x14, 0xb8, 0x3e, 0xdb, 0x44, 0x8c, 0x4e, 0x3d, 0x68, 0x32]]"

definition TABLE_S4_38 :: "bytes" where
  "TABLE_S4_38 = concat [
    [0x4b, 0x66, 0x9f, 0x74, 0x50, 0xb6, 0xec, 0x18, 0x35, 0x13, 0x9c, 0x5b, 0x15, 0xe4, 0x19, 0x8f],
    [0xd3, 0x71, 0xa8, 0x36, 0x7f, 0xc7, 0xfe, 0x73, 0x69, 0x46, 0xa9, 0x0f, 0x9b, 0xff, 0x1e, 0x00],
    [0x09, 0xb3, 0x7e, 0x79, 0xf9, 0xe3, 0xd4, 0xf6, 0x41, 0xde, 0x04, 0xbf, 0xa6, 0x12, 0xc2, 0xba],
    [0x82, 0x7d, 0x9e, 0xa3, 0xbc, 0xce, 0xea, 0xc6, 0x6f, 0x34, 0x57, 0xe8, 0x0d, 0x0b, 0x98, 0x05],
    [0xfc, 0x92, 0x80, 0x3e, 0x3c, 0x2e, 0xb7, 0x56, 0xed, 0x11, 0x23, 0xb2, 0xf7, 0x02, 0x32, 0x3f],
    [0xca, 0xd9, 0x65, 0x38, 0x85, 0x8e, 0x78, 0x3b, 0xad, 0xe5, 0x96, 0x3d, 0xb1, 0x81, 0xee, 0x37],
    [0x63, 0x28, 0x7b, 0x6a, 0x9a, 0xb0, 0xa0, 0xb9, 0x51, 0x4d, 0x75, 0x6d, 0xc0, 0xd0, 0x84, 0xe7],
    [0xe9, 0x99, 0x61, 0xf1, 0x60, 0x58, 0x8b, 0xaf, 0x4f, 0xc5, 0xcb, 0x59, 0xbb, 0x55, 0xa5, 0x2b],
    [0xa7, 0xe6, 0xfd, 0xc3, 0x45, 0xf0, 0x67, 0xc9, 0xc1, 0x6b, 0x03, 0x76, 0xfb, 0xef, 0x44, 0x1d],
    [0x52, 0x8a, 0x5f, 0x33, 0x97, 0x25, 0x83, 0x26, 0x7a, 0xcc, 0x27, 0x4c, 0x20, 0x14, 0xf8, 0xb4],
    [0xdf, 0xc4, 0x0a, 0xd5, 0x21, 0x48, 0xe2, 0x53, 0xab, 0x91, 0x49, 0x1f, 0xda, 0x90, 0x08, 0xb8],
    [0xaa, 0xcf, 0xf2, 0xf3, 0xcd, 0x89, 0xdb, 0x4e, 0x07, 0xac, 0x2c, 0x7c, 0x72, 0x5a, 0xe1, 0xd7],
    [0xdc, 0x54, 0x29, 0x5e, 0x68, 0x1c, 0x31, 0x40, 0x2a, 0x16, 0x39, 0x43, 0x87, 0x4a, 0xeb, 0x1b],
    [0xf5, 0xd6, 0x86, 0x01, 0xbe, 0x6e, 0xa4, 0x5c, 0x9d, 0xdd, 0x06, 0x70, 0x93, 0x17, 0xc8, 0x8d],
    [0x10, 0xd8, 0x47, 0xa2, 0xae, 0xf4, 0xa1, 0xd2, 0x5d, 0x6c, 0x42, 0x94, 0x24, 0x88, 0x77, 0x30],
    [0x8c, 0x2f, 0x2d, 0x64, 0x1a, 0xbd, 0xd1, 0x62, 0x22, 0xe0, 0x95, 0x0e, 0xb5, 0x3a, 0xfa, 0x0c]]"

definition TABLE_S4_39 :: "bytes" where
  "TABLE_S4_39 = concat [
    [0xf6, 0xf0, 0xf8, 0x65, 0xc9, 0x92, 0x15, 0xaa, 0x33, 0x41, 0x3b, 0x17, 0x80, 0x7f, 0x5e, 0x63],
    [0xef, 0x5b, 0x47, 0x3f, 0x23, 0xbc, 0x42, 0xf9, 0x1e, 0x04, 0x0b, 0x29, 0x4e, 0xf4, 0x84, 0x83],
    [0x02, 0x66, 0xfd, 0xe3, 0xbb, 0x94, 0xf2, 0x54, 0x3a, 0x82, 0x8e, 0x03, 0x8c, 0x2e, 0xcb, 0x55],
    [0x19, 0xe8, 0x72, 0xe4, 0xee, 0xc8, 0xa6, 0x61, 0x4b, 0xad, 0xe5, 0x11, 0x9b, 0xb6, 0x89, 0x62],
    [0xa8, 0x46, 0xd6, 0x58, 0x38, 0xb2, 0xa4, 0x36, 0xa5, 0x9d, 0x52, 0x76, 0x64, 0x14, 0x0c, 0x9c],
    [0x2d, 0x3d, 0x1a, 0x79, 0xb0, 0xac, 0x90, 0x88, 0x4d, 0x67, 0x44, 0x5d, 0xd5, 0x9e, 0x97, 0x86],
    [0x7c, 0x4c, 0xca, 0x13, 0x18, 0x50, 0xc0, 0x6b, 0x73, 0x78, 0xc6, 0x85, 0x24, 0x37, 0xc5, 0x98],
    [0xff, 0x0a, 0xc2, 0xcf, 0xec, 0x10, 0x4f, 0xde, 0xd3, 0xc1, 0xab, 0x4a, 0x6f, 0x01, 0xc3, 0x7d],
    [0xa7, 0x8f, 0x2a, 0x1c, 0x51, 0xfa, 0x81, 0xd1, 0x74, 0x30, 0xb3, 0x26, 0x32, 0x57, 0x0e, 0x0f],
    [0x6d, 0x27, 0x45, 0xf5, 0x6c, 0x56, 0xe2, 0xb4, 0xb5, 0xdc, 0xae, 0x1f, 0x39, 0x22, 0x28, 0xf7],
    [0xe9, 0xdd, 0x49, 0x05, 0x31, 0x87, 0xb1, 0xda, 0xd8, 0x6a, 0xdb, 0x7e, 0x77, 0xaf, 0xce, 0xa2],
    [0x12, 0x06, 0xe0, 0xb9, 0x96, 0x3c, 0x8b, 0xfe, 0x0d, 0xb8, 0x34, 0x9a, 0x1b, 0x5a, 0x3e, 0x00],
    [0xc7, 0x48, 0xf1, 0x07, 0x1d, 0xdf, 0xf3, 0x68, 0x40, 0xe7, 0x9f, 0x2c, 0xd2, 0x71, 0x99, 0xd0],
    [0x75, 0xd9, 0xcd, 0x8a, 0x91, 0xa0, 0x69, 0xbf, 0x09, 0x53, 0x2f, 0x5c, 0x25, 0xed, 0x5f, 0xba],
    [0xea, 0x6e, 0x70, 0x35, 0x20, 0x60, 0x8d, 0xfb, 0x93, 0x43, 0xa1, 0x59, 0x2b, 0x08, 0xfc, 0x7b],
    [0xb7, 0x7a, 0xe6, 0x16, 0xeb, 0xd7, 0xbe, 0xc4, 0xe1, 0x95, 0xbd, 0xcc, 0xa9, 0x21, 0xa3, 0xd4]]"

definition TABLE_S4_40 :: "bytes" where
  "TABLE_S4_40 = concat [
    [0x49, 0x8e, 0x01, 0x27, 0x9d, 0x0b, 0xf6, 0x07, 0x66, 0x8d, 0x74, 0x59, 0x0a, 0xfe, 0xa4, 0x42],
    [0x1d, 0xbb, 0x54, 0x7b, 0x12, 0x0c, 0xed, 0x89, 0x24, 0xba, 0x63, 0xc1, 0x61, 0xec, 0xd5, 0x6d],
    [0xad, 0x16, 0xcc, 0x53, 0xa8, 0xd0, 0x00, 0xb4, 0x6b, 0x6c, 0xa1, 0x1b, 0xe4, 0xc6, 0xf1, 0xeb],
    [0xfa, 0x45, 0x26, 0x7d, 0x17, 0x8a, 0x19, 0x1f, 0xb1, 0x8c, 0x6f, 0x90, 0xd4, 0xf8, 0xdc, 0xae],
    [0xa0, 0x31, 0x03, 0xff, 0x2d, 0x20, 0x10, 0xe5, 0x2c, 0x92, 0x80, 0xee, 0x44, 0xa5, 0x3c, 0x2e],
    [0x2f, 0x84, 0xf7, 0xbf, 0x25, 0xfc, 0x93, 0xa3, 0x2a, 0x77, 0xcb, 0xd8, 0x29, 0x6a, 0x9c, 0x97],
    [0x7f, 0x67, 0x5f, 0x43, 0xf5, 0x96, 0xc2, 0xd2, 0x78, 0x69, 0x3a, 0x71, 0xab, 0xb2, 0xa2, 0x88],
    [0x4b, 0xd9, 0xd7, 0x5d, 0x39, 0xb7, 0x47, 0xa9, 0xe3, 0x73, 0x8b, 0xfb, 0xbd, 0x99, 0x4a, 0x72],
    [0x64, 0x11, 0x79, 0xd3, 0x0f, 0x56, 0xfd, 0xe9, 0xd1, 0xef, 0xf4, 0xb5, 0xdb, 0x75, 0xe2, 0x57],
    [0x5e, 0x35, 0xde, 0x68, 0xa6, 0xea, 0x06, 0x32, 0x21, 0x4d, 0x98, 0x40, 0x34, 0x91, 0x37, 0x85],
    [0x0d, 0x5b, 0x83, 0xb9, 0xaa, 0x1a, 0x82, 0xc8, 0xc7, 0x18, 0xd6, 0xcd, 0x41, 0xf0, 0x5a, 0x33],
    [0x6e, 0x3e, 0xbe, 0x15, 0xc5, 0xf3, 0x48, 0x60, 0xe1, 0xe0, 0xdd, 0xb8, 0x5c, 0xc9, 0x9b, 0xdf],
    [0x51, 0x2b, 0x04, 0x38, 0x09, 0xf9, 0x58, 0x95, 0x4c, 0x3b, 0x46, 0xce, 0x52, 0x23, 0x0e, 0x7a],
    [0x62, 0x14, 0xcf, 0x8f, 0x9f, 0xda, 0x05, 0x81, 0x13, 0x94, 0xc4, 0xe7, 0x4e, 0xb6, 0x7c, 0xac],
    [0x86, 0x50, 0x7e, 0x4f, 0x22, 0x65, 0x9a, 0x36, 0xb0, 0x55, 0xca, 0x02, 0xc0, 0xb3, 0xe6, 0xbc],
    [0x1c, 0x87, 0xf2, 0x30, 0x1e, 0xe8, 0x28, 0xa7, 0x76, 0x3f, 0x3d, 0x9e, 0x70, 0xc3, 0xaf, 0x08]]"

definition TABLE_S4_41 :: "bytes" where
  "TABLE_S4_41 = concat [
    [0x7a, 0xdc, 0x33, 0x1c, 0x75, 0x6b, 0x8a, 0xee, 0x43, 0xdd, 0x04, 0xa6, 0x06, 0x8b, 0xb2, 0x0a],
    [0x2e, 0xe9, 0x66, 0x40, 0xfa, 0x6c, 0x91, 0x60, 0x01, 0xea, 0x13, 0x3e, 0x6d, 0x99, 0xc3, 0x25],
    [0x9d, 0x22, 0x41, 0x1a, 0x70, 0xed, 0x7e, 0x78, 0xd6, 0xeb, 0x08, 0xf7, 0xb3, 0x9f, 0xbb, 0xc9],
    [0xca, 0x71, 0xab, 0x34, 0xcf, 0xb7, 0x67, 0xd3, 0x0c, 0x0b, 0xc6, 0x7c, 0x83, 0xa1, 0x96, 0x8c],
    [0x48, 0xe3, 0x90, 0xd8, 0x42, 0x9b, 0xf4, 0xc4, 0x4d, 0x10, 0xac, 0xbf, 0x4e, 0x0d, 0xfb, 0xf0],
    [0xc7, 0x56, 0x64, 0x98, 0x4a, 0x47, 0x77, 0x82, 0x4b, 0xf5, 0xe7, 0x89, 0x23, 0xc2, 0x5b, 0x49],
    [0x2c, 0xbe, 0xb0, 0x3a, 0x5e, 0xd0, 0x20, 0xce, 0x84, 0x14, 0xec, 0x9c, 0xda, 0xfe, 0x2d, 0x15],
    [0x18, 0x00, 0x38, 0x24, 0x92, 0xf1, 0xa5, 0xb5, 0x1f, 0x0e, 0x5d, 0x16, 0xcc, 0xd5, 0xc5, 0xef],
    [0x39, 0x52, 0xb9, 0x0f, 0xc1, 0x8d, 0x61, 0x55, 0x46, 0x2a, 0xff, 0x27, 0x53, 0xf6, 0x50, 0xe2],
    [0x03, 0x76, 0x1e, 0xb4, 0x68, 0x31, 0x9a, 0x8e, 0xb6, 0x88, 0x93, 0xd2, 0xbc, 0x12, 0x85, 0x30],
    [0x09, 0x59, 0xd9, 0x72, 0xa2, 0x94, 0x2f, 0x07, 0x86, 0x87, 0xba, 0xdf, 0x3b, 0xae, 0xfc, 0xb8],
    [0x6a, 0x3c, 0xe4, 0xde, 0xcd, 0x7d, 0xe5, 0xaf, 0xa0, 0x7f, 0xb1, 0xaa, 0x26, 0x97, 0x3d, 0x54],
    [0x05, 0x73, 0xa8, 0xe8, 0xf8, 0xbd, 0x62, 0xe6, 0x74, 0xf3, 0xa3, 0x80, 0x29, 0xd1, 0x1b, 0xcb],
    [0x36, 0x4c, 0x63, 0x5f, 0x6e, 0x9e, 0x3f, 0xf2, 0x2b, 0x5c, 0x21, 0xa9, 0x35, 0x44, 0x69, 0x1d],
    [0x7b, 0xe0, 0x95, 0x57, 0x79, 0x8f, 0x4f, 0xc0, 0x11, 0x58, 0x5a, 0xf9, 0x17, 0xa4, 0xc8, 0x6f],
    [0xe1, 0x37, 0x19, 0x28, 0x45, 0x02, 0xfd, 0x51, 0xd7, 0x32, 0xad, 0x65, 0xa7, 0xd4, 0x81, 0xdb]]"

definition TABLE_S4_42 :: "bytes" where
  "TABLE_S4_42 = concat [
    [0xa4, 0x89, 0x70, 0x9b, 0xbf, 0x59, 0x03, 0xf7, 0xda, 0xfc, 0x73, 0xb4, 0xfa, 0x0b, 0xf6, 0x60],
    [0x3c, 0x9e, 0x47, 0xd9, 0x90, 0x28, 0x11, 0x9c, 0x86, 0xa9, 0x46, 0xe0, 0x74, 0x10, 0xf1, 0xef],
    [0xe6, 0x5c, 0x91, 0x96, 0x16, 0x0c, 0x3b, 0x19, 0xae, 0x31, 0xeb, 0x50, 0x49, 0xfd, 0x2d, 0x55],
    [0x6d, 0x92, 0x71, 0x4c, 0x53, 0x21, 0x05, 0x29, 0x80, 0xdb, 0xb8, 0x07, 0xe2, 0xe4, 0x77, 0xea],
    [0x13, 0x7d, 0x6f, 0xd1, 0xd3, 0xc1, 0x58, 0xb9, 0x02, 0xfe, 0xcc, 0x5d, 0x18, 0xed, 0xdd, 0xd0],
    [0x25, 0x36, 0x8a, 0xd7, 0x6a, 0x61, 0x97, 0xd4, 0x42, 0x0a, 0x79, 0xd2, 0x5e, 0x6e, 0x01, 0xd8],
    [0x8c, 0xc7, 0x94, 0x85, 0x75, 0x5f, 0x4f, 0x56, 0xbe, 0xa2, 0x9a, 0x82, 0x2f, 0x3f, 0x6b, 0x08],
    [0x06, 0x76, 0x8e, 0x1e, 0x8f, 0xb7, 0x64, 0x40, 0xa0, 0x2a, 0x24, 0xb6, 0x54, 0xba, 0x4a, 0xc4],
    [0x48, 0x09, 0x12, 0x2c, 0xaa, 0x1f, 0x88, 0x26, 0x2e, 0x84, 0xec, 0x99, 0x14, 0x00, 0xab, 0xf2],
    [0xbd, 0x65, 0xb0, 0xdc, 0x78, 0xca, 0x6c, 0xc9, 0x95, 0x23, 0xc8, 0xa3, 0xcf, 0xfb, 0x17, 0x5b],
    [0x30, 0x2b, 0xe5, 0x3a, 0xce, 0xa7, 0x0d, 0xbc, 0x44, 0x7e, 0xa6, 0xf0, 0x35, 0x7f, 0xe7, 0x57],
    [0x45, 0x20, 0x1d, 0x1c, 0x22, 0x66, 0x34, 0xa1, 0xe8, 0x43, 0xc3, 0x93, 0x9d, 0xb5, 0x0e, 0x38],
    [0x33, 0xbb, 0xc6, 0xb1, 0x87, 0xf3, 0xde, 0xaf, 0xc5, 0xf9, 0xd6, 0xac, 0x68, 0xa5, 0x04, 0xf4],
    [0x1a, 0x39, 0x69, 0xee, 0x51, 0x81, 0x4b, 0xb3, 0x72, 0x32, 0xe9, 0x9f, 0x7c, 0xf8, 0x27, 0x62],
    [0xff, 0x37, 0xa8, 0x4d, 0x41, 0x1b, 0x4e, 0x3d, 0xb2, 0x83, 0xad, 0x7b, 0xcb, 0x67, 0x98, 0xdf],
    [0x63, 0xc0, 0xc2, 0x8b, 0xf5, 0x52, 0x3e, 0x8d, 0xcd, 0x0f, 0x7a, 0xe1, 0x5a, 0xd5, 0x15, 0xe3]]"

definition TABLE_S4_43 :: "bytes" where
  "TABLE_S4_43 = concat [
    [0x8a, 0x8c, 0x84, 0x19, 0xb5, 0xee, 0x69, 0xd6, 0x4f, 0x3d, 0x47, 0x6b, 0xfc, 0x03, 0x22, 0x1f],
    [0x93, 0x27, 0x3b, 0x43, 0x5f, 0xc0, 0x3e, 0x85, 0x62, 0x78, 0x77, 0x55, 0x32, 0x88, 0xf8, 0xff],
    [0x7e, 0x1a, 0x81, 0x9f, 0xc7, 0xe8, 0x8e, 0x28, 0x46, 0xfe, 0xf2, 0x7f, 0xf0, 0x52, 0xb7, 0x29],
    [0x65, 0x94, 0x0e, 0x98, 0x92, 0xb4, 0xda, 0x1d, 0x37, 0xd1, 0x99, 0x6d, 0xe7, 0xca, 0xf5, 0x1e],
    [0xd4, 0x3a, 0xaa, 0x24, 0x44, 0xce, 0xd8, 0x4a, 0xd9, 0xe1, 0x2e, 0x0a, 0x18, 0x68, 0x70, 0xe0],
    [0x51, 0x41, 0x66, 0x05, 0xcc, 0xd0, 0xec, 0xf4, 0x31, 0x1b, 0x38, 0x21, 0xa9, 0xe2, 0xeb, 0xfa],
    [0x00, 0x30, 0xb6, 0x6f, 0x64, 0x2c, 0xbc, 0x17, 0x0f, 0x04, 0xba, 0xf9, 0x58, 0x4b, 0xb9, 0xe4],
    [0x83, 0x76, 0xbe, 0xb3, 0x90, 0x6c, 0x33, 0xa2, 0xaf, 0xbd, 0xd7, 0x36, 0x13, 0x7d, 0xbf, 0x01],
    [0xdb, 0xf3, 0x56, 0x60, 0x2d, 0x86, 0xfd, 0xad, 0x08, 0x4c, 0xcf, 0x5a, 0x4e, 0x2b, 0x72, 0x73],
    [0x11, 0x5b, 0x39, 0x89, 0x10, 0x2a, 0x9e, 0xc8, 0xc9, 0xa0, 0xd2, 0x63, 0x45, 0x5e, 0x54, 0x8b],
    [0x95, 0xa1, 0x35, 0x79, 0x4d, 0xfb, 0xcd, 0xa6, 0xa4, 0x16, 0xa7, 0x02, 0x0b, 0xd3, 0xb2, 0xde],
    [0x6e, 0x7a, 0x9c, 0xc5, 0xea, 0x40, 0xf7, 0x82, 0x71, 0xc4, 0x48, 0xe6, 0x67, 0x26, 0x42, 0x7c],
    [0xbb, 0x34, 0x8d, 0x7b, 0x61, 0xa3, 0x8f, 0x14, 0x3c, 0x9b, 0xe3, 0x50, 0xae, 0x0d, 0xe5, 0xac],
    [0x09, 0xa5, 0xb1, 0xf6, 0xed, 0xdc, 0x15, 0xc3, 0x75, 0x2f, 0x53, 0x20, 0x59, 0x91, 0x23, 0xc6],
    [0x96, 0x12, 0x0c, 0x49, 0x5c, 0x1c, 0xf1, 0x87, 0xef, 0x3f, 0xdd, 0x25, 0x57, 0x74, 0x80, 0x07],
    [0xcb, 0x06, 0x9a, 0x6a, 0x97, 0xab, 0xc2, 0xb8, 0x9d, 0xe9, 0xc1, 0xb0, 0xd5, 0x5d, 0xdf, 0xa8]]"

definition TABLE_S4_44 :: "bytes" where
  "TABLE_S4_44 = concat [
    [0xec, 0x2b, 0xa4, 0x82, 0x38, 0xae, 0x53, 0xa2, 0xc3, 0x28, 0xd1, 0xfc, 0xaf, 0x5b, 0x01, 0xe7],
    [0xb8, 0x1e, 0xf1, 0xde, 0xb7, 0xa9, 0x48, 0x2c, 0x81, 0x1f, 0xc6, 0x64, 0xc4, 0x49, 0x70, 0xc8],
    [0x08, 0xb3, 0x69, 0xf6, 0x0d, 0x75, 0xa5, 0x11, 0xce, 0xc9, 0x04, 0xbe, 0x41, 0x63, 0x54, 0x4e],
    [0x5f, 0xe0, 0x83, 0xd8, 0xb2, 0x2f, 0xbc, 0xba, 0x14, 0x29, 0xca, 0x35, 0x71, 0x5d, 0x79, 0x0b],
    [0x05, 0x94, 0xa6, 0x5a, 0x88, 0x85, 0xb5, 0x40, 0x89, 0x37, 0x25, 0x4b, 0xe1, 0x00, 0x99, 0x8b],
    [0x8a, 0x21, 0x52, 0x1a, 0x80, 0x59, 0x36, 0x06, 0x8f, 0xd2, 0x6e, 0x7d, 0x8c, 0xcf, 0x39, 0x32],
    [0xda, 0xc2, 0xfa, 0xe6, 0x50, 0x33, 0x67, 0x77, 0xdd, 0xcc, 0x9f, 0xd4, 0x0e, 0x17, 0x07, 0x2d],
    [0xee, 0x7c, 0x72, 0xf8, 0x9c, 0x12, 0xe2, 0x0c, 0x46, 0xd6, 0x2e, 0x5e, 0x18, 0x3c, 0xef, 0xd7],
    [0xc1, 0xb4, 0xdc, 0x76, 0xaa, 0xf3, 0x58, 0x4c, 0x74, 0x4a, 0x51, 0x10, 0x7e, 0xd0, 0x47, 0xf2],
    [0xfb, 0x90, 0x7b, 0xcd, 0x03, 0x4f, 0xa3, 0x97, 0x84, 0xe8, 0x3d, 0xe5, 0x91, 0x34, 0x92, 0x20],
    [0xa8, 0xfe, 0x26, 0x1c, 0x0f, 0xbf, 0x27, 0x6d, 0x62, 0xbd, 0x73, 0x68, 0xe4, 0x55, 0xff, 0x96],
    [0xcb, 0x9b, 0x1b, 0xb0, 0x60, 0x56, 0xed, 0xc5, 0x44, 0x45, 0x78, 0x1d, 0xf9, 0x6c, 0x3e, 0x7a],
    [0xf4, 0x8e, 0xa1, 0x9d, 0xac, 0x5c, 0xfd, 0x30, 0xe9, 0x9e, 0xe3, 0x6b, 0xf7, 0x86, 0xab, 0xdf],
    [0xc7, 0xb1, 0x6a, 0x2a, 0x3a, 0x7f, 0xa0, 0x24, 0xb6, 0x31, 0x61, 0x42, 0xeb, 0x13, 0xd9, 0x09],
    [0x23, 0xf5, 0xdb, 0xea, 0x87, 0xc0, 0x3f, 0x93, 0x15, 0xf0, 0x6f, 0xa7, 0x65, 0x16, 0x43, 0x19],
    [0xb9, 0x22, 0x57, 0x95, 0xbb, 0x4d, 0x8d, 0x02, 0xd3, 0x9a, 0x98, 0x3b, 0xd5, 0x66, 0x0a, 0xad]]"

definition TABLE_S4_45 :: "bytes" where
  "TABLE_S4_45 = concat [
    [0xaa, 0x0c, 0xe3, 0xcc, 0xa5, 0xbb, 0x5a, 0x3e, 0x93, 0x0d, 0xd4, 0x76, 0xd6, 0x5b, 0x62, 0xda],
    [0xfe, 0x39, 0xb6, 0x90, 0x2a, 0xbc, 0x41, 0xb0, 0xd1, 0x3a, 0xc3, 0xee, 0xbd, 0x49, 0x13, 0xf5],
    [0x4d, 0xf2, 0x91, 0xca, 0xa0, 0x3d, 0xae, 0xa8, 0x06, 0x3b, 0xd8, 0x27, 0x63, 0x4f, 0x6b, 0x19],
    [0x1a, 0xa1, 0x7b, 0xe4, 0x1f, 0x67, 0xb7, 0x03, 0xdc, 0xdb, 0x16, 0xac, 0x53, 0x71, 0x46, 0x5c],
    [0x98, 0x33, 0x40, 0x08, 0x92, 0x4b, 0x24, 0x14, 0x9d, 0xc0, 0x7c, 0x6f, 0x9e, 0xdd, 0x2b, 0x20],
    [0x17, 0x86, 0xb4, 0x48, 0x9a, 0x97, 0xa7, 0x52, 0x9b, 0x25, 0x37, 0x59, 0xf3, 0x12, 0x8b, 0x99],
    [0xfc, 0x6e, 0x60, 0xea, 0x8e, 0x00, 0xf0, 0x1e, 0x54, 0xc4, 0x3c, 0x4c, 0x0a, 0x2e, 0xfd, 0xc5],
    [0xc8, 0xd0, 0xe8, 0xf4, 0x42, 0x21, 0x75, 0x65, 0xcf, 0xde, 0x8d, 0xc6, 0x1c, 0x05, 0x15, 0x3f],
    [0xe9, 0x82, 0x69, 0xdf, 0x11, 0x5d, 0xb1, 0x85, 0x96, 0xfa, 0x2f, 0xf7, 0x83, 0x26, 0x80, 0x32],
    [0xd3, 0xa6, 0xce, 0x64, 0xb8, 0xe1, 0x4a, 0x5e, 0x66, 0x58, 0x43, 0x02, 0x6c, 0xc2, 0x55, 0xe0],
    [0xd9, 0x89, 0x09, 0xa2, 0x72, 0x44, 0xff, 0xd7, 0x56, 0x57, 0x6a, 0x0f, 0xeb, 0x7e, 0x2c, 0x68],
    [0xba, 0xec, 0x34, 0x0e, 0x1d, 0xad, 0x35, 0x7f, 0x70, 0xaf, 0x61, 0x7a, 0xf6, 0x47, 0xed, 0x84],
    [0xd5, 0xa3, 0x78, 0x38, 0x28, 0x6d, 0xb2, 0x36, 0xa4, 0x23, 0x73, 0x50, 0xf9, 0x01, 0xcb, 0x1b],
    [0xe6, 0x9c, 0xb3, 0x8f, 0xbe, 0x4e, 0xef, 0x22, 0xfb, 0x8c, 0xf1, 0x79, 0xe5, 0x94, 0xb9, 0xcd],
    [0xab, 0x30, 0x45, 0x87, 0xa9, 0x5f, 0x9f, 0x10, 0xc1, 0x88, 0x8a, 0x29, 0xc7, 0x74, 0x18, 0xbf],
    [0x31, 0xe7, 0xc9, 0xf8, 0x95, 0xd2, 0x2d, 0x81, 0x07, 0xe2, 0x7d, 0xb5, 0x77, 0x04, 0x51, 0x0b]]"

definition TABLE_S4_46 :: "bytes" where
  "TABLE_S4_46 = concat [
    [0x53, 0x7e, 0x87, 0x6c, 0x48, 0xae, 0xf4, 0x00, 0x2d, 0x0b, 0x84, 0x43, 0x0d, 0xfc, 0x01, 0x97],
    [0xcb, 0x69, 0xb0, 0x2e, 0x67, 0xdf, 0xe6, 0x6b, 0x71, 0x5e, 0xb1, 0x17, 0x83, 0xe7, 0x06, 0x18],
    [0x11, 0xab, 0x66, 0x61, 0xe1, 0xfb, 0xcc, 0xee, 0x59, 0xc6, 0x1c, 0xa7, 0xbe, 0x0a, 0xda, 0xa2],
    [0x9a, 0x65, 0x86, 0xbb, 0xa4, 0xd6, 0xf2, 0xde, 0x77, 0x2c, 0x4f, 0xf0, 0x15, 0x13, 0x80, 0x1d],
    [0xe4, 0x8a, 0x98, 0x26, 0x24, 0x36, 0xaf, 0x4e, 0xf5, 0x09, 0x3b, 0xaa, 0xef, 0x1a, 0x2a, 0x27],
    [0xd2, 0xc1, 0x7d, 0x20, 0x9d, 0x96, 0x60, 0x23, 0xb5, 0xfd, 0x8e, 0x25, 0xa9, 0x99, 0xf6, 0x2f],
    [0x7b, 0x30, 0x63, 0x72, 0x82, 0xa8, 0xb8, 0xa1, 0x49, 0x55, 0x6d, 0x75, 0xd8, 0xc8, 0x9c, 0xff],
    [0xf1, 0x81, 0x79, 0xe9, 0x78, 0x40, 0x93, 0xb7, 0x57, 0xdd, 0xd3, 0x41, 0xa3, 0x4d, 0xbd, 0x33],
    [0xbf, 0xfe, 0xe5, 0xdb, 0x5d, 0xe8, 0x7f, 0xd1, 0xd9, 0x73, 0x1b, 0x6e, 0xe3, 0xf7, 0x5c, 0x05],
    [0x4a, 0x92, 0x47, 0x2b, 0x8f, 0x3d, 0x9b, 0x3e, 0x62, 0xd4, 0x3f, 0x54, 0x38, 0x0c, 0xe0, 0xac],
    [0xc7, 0xdc, 0x12, 0xcd, 0x39, 0x50, 0xfa, 0x4b, 0xb3, 0x89, 0x51, 0x07, 0xc2, 0x88, 0x10, 0xa0],
    [0xb2, 0xd7, 0xea, 0xeb, 0xd5, 0x91, 0xc3, 0x56, 0x1f, 0xb4, 0x34, 0x64, 0x6a, 0x42, 0xf9, 0xcf],
    [0xc4, 0x4c, 0x31, 0x46, 0x70, 0x04, 0x29, 0x58, 0x32, 0x0e, 0x21, 0x5b, 0x9f, 0x52, 0xf3, 0x03],
    [0xed, 0xce, 0x9e, 0x19, 0xa6, 0x76, 0xbc, 0x44, 0x85, 0xc5, 0x1e, 0x68, 0x8b, 0x0f, 0xd0, 0x95],
    [0x08, 0xc0, 0x5f, 0xba, 0xb6, 0xec, 0xb9, 0xca, 0x45, 0x74, 0x5a, 0x8c, 0x3c, 0x90, 0x6f, 0x28],
    [0x94, 0x37, 0x35, 0x7c, 0x02, 0xa5, 0xc9, 0x7a, 0x3a, 0xf8, 0x8d, 0x16, 0xad, 0x22, 0xe2, 0x14]]"

definition TABLE_S4_47 :: "bytes" where
  "TABLE_S4_47 = concat [
    [0xc6, 0xc0, 0xc8, 0x55, 0xf9, 0xa2, 0x25, 0x9a, 0x03, 0x71, 0x0b, 0x27, 0xb0, 0x4f, 0x6e, 0x53],
    [0xdf, 0x6b, 0x77, 0x0f, 0x13, 0x8c, 0x72, 0xc9, 0x2e, 0x34, 0x3b, 0x19, 0x7e, 0xc4, 0xb4, 0xb3],
    [0x32, 0x56, 0xcd, 0xd3, 0x8b, 0xa4, 0xc2, 0x64, 0x0a, 0xb2, 0xbe, 0x33, 0xbc, 0x1e, 0xfb, 0x65],
    [0x29, 0xd8, 0x42, 0xd4, 0xde, 0xf8, 0x96, 0x51, 0x7b, 0x9d, 0xd5, 0x21, 0xab, 0x86, 0xb9, 0x52],
    [0x98, 0x76, 0xe6, 0x68, 0x08, 0x82, 0x94, 0x06, 0x95, 0xad, 0x62, 0x46, 0x54, 0x24, 0x3c, 0xac],
    [0x1d, 0x0d, 0x2a, 0x49, 0x80, 0x9c, 0xa0, 0xb8, 0x7d, 0x57, 0x74, 0x6d, 0xe5, 0xae, 0xa7, 0xb6],
    [0x4c, 0x7c, 0xfa, 0x23, 0x28, 0x60, 0xf0, 0x5b, 0x43, 0x48, 0xf6, 0xb5, 0x14, 0x07, 0xf5, 0xa8],
    [0xcf, 0x3a, 0xf2, 0xff, 0xdc, 0x20, 0x7f, 0xee, 0xe3, 0xf1, 0x9b, 0x7a, 0x5f, 0x31, 0xf3, 0x4d],
    [0x97, 0xbf, 0x1a, 0x2c, 0x61, 0xca, 0xb1, 0xe1, 0x44, 0x00, 0x83, 0x16, 0x02, 0x67, 0x3e, 0x3f],
    [0x5d, 0x17, 0x75, 0xc5, 0x5c, 0x66, 0xd2, 0x84, 0x85, 0xec, 0x9e, 0x2f, 0x09, 0x12, 0x18, 0xc7],
    [0xd9, 0xed, 0x79, 0x35, 0x01, 0xb7, 0x81, 0xea, 0xe8, 0x5a, 0xeb, 0x4e, 0x47, 0x9f, 0xfe, 0x92],
    [0x22, 0x36, 0xd0, 0x89, 0xa6, 0x0c, 0xbb, 0xce, 0x3d, 0x88, 0x04, 0xaa, 0x2b, 0x6a, 0x0e, 0x30],
    [0xf7, 0x78, 0xc1, 0x37, 0x2d, 0xef, 0xc3, 0x58, 0x70, 0xd7, 0xaf, 0x1c, 0xe2, 0x41, 0xa9, 0xe0],
    [0x45, 0xe9, 0xfd, 0xba, 0xa1, 0x90, 0x59, 0x8f, 0x39, 0x63, 0x1f, 0x6c, 0x15, 0xdd, 0x6f, 0x8a],
    [0xda, 0x5e, 0x40, 0x05, 0x10, 0x50, 0xbd, 0xcb, 0xa3, 0x73, 0x91, 0x69, 0x1b, 0x38, 0xcc, 0x4b],
    [0x87, 0x4a, 0xd6, 0x26, 0xdb, 0xe7, 0x8e, 0xf4, 0xd1, 0xa5, 0x8d, 0xfc, 0x99, 0x11, 0x93, 0xe4]]"

definition TABLE_S4_48 :: "bytes" where
  "TABLE_S4_48 = concat [
    [0x79, 0xbe, 0x31, 0x17, 0xad, 0x3b, 0xc6, 0x37, 0x56, 0xbd, 0x44, 0x69, 0x3a, 0xce, 0x94, 0x72],
    [0x2d, 0x8b, 0x64, 0x4b, 0x22, 0x3c, 0xdd, 0xb9, 0x14, 0x8a, 0x53, 0xf1, 0x51, 0xdc, 0xe5, 0x5d],
    [0x9d, 0x26, 0xfc, 0x63, 0x98, 0xe0, 0x30, 0x84, 0x5b, 0x5c, 0x91, 0x2b, 0xd4, 0xf6, 0xc1, 0xdb],
    [0xca, 0x75, 0x16, 0x4d, 0x27, 0xba, 0x29, 0x2f, 0x81, 0xbc, 0x5f, 0xa0, 0xe4, 0xc8, 0xec, 0x9e],
    [0x90, 0x01, 0x33, 0xcf, 0x1d, 0x10, 0x20, 0xd5, 0x1c, 0xa2, 0xb0, 0xde, 0x74, 0x95, 0x0c, 0x1e],
    [0x1f, 0xb4, 0xc7, 0x8f, 0x15, 0xcc, 0xa3, 0x93, 0x1a, 0x47, 0xfb, 0xe8, 0x19, 0x5a, 0xac, 0xa7],
    [0x4f, 0x57, 0x6f, 0x73, 0xc5, 0xa6, 0xf2, 0xe2, 0x48, 0x59, 0x0a, 0x41, 0x9b, 0x82, 0x92, 0xb8],
    [0x7b, 0xe9, 0xe7, 0x6d, 0x09, 0x87, 0x77, 0x99, 0xd3, 0x43, 0xbb, 0xcb, 0x8d, 0xa9, 0x7a, 0x42],
    [0x54, 0x21, 0x49, 0xe3, 0x3f, 0x66, 0xcd, 0xd9, 0xe1, 0xdf, 0xc4, 0x85, 0xeb, 0x45, 0xd2, 0x67],
    [0x6e, 0x05, 0xee, 0x58, 0x96, 0xda, 0x36, 0x02, 0x11, 0x7d, 0xa8, 0x70, 0x04, 0xa1, 0x07, 0xb5],
    [0x3d, 0x6b, 0xb3, 0x89, 0x9a, 0x2a, 0xb2, 0xf8, 0xf7, 0x28, 0xe6, 0xfd, 0x71, 0xc0, 0x6a, 0x03],
    [0x5e, 0x0e, 0x8e, 0x25, 0xf5, 0xc3, 0x78, 0x50, 0xd1, 0xd0, 0xed, 0x88, 0x6c, 0xf9, 0xab, 0xef],
    [0x61, 0x1b, 0x34, 0x08, 0x39, 0xc9, 0x68, 0xa5, 0x7c, 0x0b, 0x76, 0xfe, 0x62, 0x13, 0x3e, 0x4a],
    [0x52, 0x24, 0xff, 0xbf, 0xaf, 0xea, 0x35, 0xb1, 0x23, 0xa4, 0xf4, 0xd7, 0x7e, 0x86, 0x4c, 0x9c],
    [0xb6, 0x60, 0x4e, 0x7f, 0x12, 0x55, 0xaa, 0x06, 0x80, 0x65, 0xfa, 0x32, 0xf0, 0x83, 0xd6, 0x8c],
    [0x2c, 0xb7, 0xc2, 0x00, 0x2e, 0xd8, 0x18, 0x97, 0x46, 0x0f, 0x0d, 0xae, 0x40, 0xf3, 0x9f, 0x38]]"

definition TABLE_S4_49 :: "bytes" where
  "TABLE_S4_49 = concat [
    [0xc6, 0x60, 0x8f, 0xa0, 0xc9, 0xd7, 0x36, 0x52, 0xff, 0x61, 0xb8, 0x1a, 0xba, 0x37, 0x0e, 0xb6],
    [0x92, 0x55, 0xda, 0xfc, 0x46, 0xd0, 0x2d, 0xdc, 0xbd, 0x56, 0xaf, 0x82, 0xd1, 0x25, 0x7f, 0x99],
    [0x21, 0x9e, 0xfd, 0xa6, 0xcc, 0x51, 0xc2, 0xc4, 0x6a, 0x57, 0xb4, 0x4b, 0x0f, 0x23, 0x07, 0x75],
    [0x76, 0xcd, 0x17, 0x88, 0x73, 0x0b, 0xdb, 0x6f, 0xb0, 0xb7, 0x7a, 0xc0, 0x3f, 0x1d, 0x2a, 0x30],
    [0xf4, 0x5f, 0x2c, 0x64, 0xfe, 0x27, 0x48, 0x78, 0xf1, 0xac, 0x10, 0x03, 0xf2, 0xb1, 0x47, 0x4c],
    [0x7b, 0xea, 0xd8, 0x24, 0xf6, 0xfb, 0xcb, 0x3e, 0xf7, 0x49, 0x5b, 0x35, 0x9f, 0x7e, 0xe7, 0xf5],
    [0x90, 0x02, 0x0c, 0x86, 0xe2, 0x6c, 0x9c, 0x72, 0x38, 0xa8, 0x50, 0x20, 0x66, 0x42, 0x91, 0xa9],
    [0xa4, 0xbc, 0x84, 0x98, 0x2e, 0x4d, 0x19, 0x09, 0xa3, 0xb2, 0xe1, 0xaa, 0x70, 0x69, 0x79, 0x53],
    [0x85, 0xee, 0x05, 0xb3, 0x7d, 0x31, 0xdd, 0xe9, 0xfa, 0x96, 0x43, 0x9b, 0xef, 0x4a, 0xec, 0x5e],
    [0xbf, 0xca, 0xa2, 0x08, 0xd4, 0x8d, 0x26, 0x32, 0x0a, 0x34, 0x2f, 0x6e, 0x00, 0xae, 0x39, 0x8c],
    [0xb5, 0xe5, 0x65, 0xce, 0x1e, 0x28, 0x93, 0xbb, 0x3a, 0x3b, 0x06, 0x63, 0x87, 0x12, 0x40, 0x04],
    [0xd6, 0x80, 0x58, 0x62, 0x71, 0xc1, 0x59, 0x13, 0x1c, 0xc3, 0x0d, 0x16, 0x9a, 0x2b, 0x81, 0xe8],
    [0xb9, 0xcf, 0x14, 0x54, 0x44, 0x01, 0xde, 0x5a, 0xc8, 0x4f, 0x1f, 0x3c, 0x95, 0x6d, 0xa7, 0x77],
    [0x8a, 0xf0, 0xdf, 0xe3, 0xd2, 0x22, 0x83, 0x4e, 0x97, 0xe0, 0x9d, 0x15, 0x89, 0xf8, 0xd5, 0xa1],
    [0xc7, 0x5c, 0x29, 0xeb, 0xc5, 0x33, 0xf3, 0x7c, 0xad, 0xe4, 0xe6, 0x45, 0xab, 0x18, 0x74, 0xd3],
    [0x5d, 0x8b, 0xa5, 0x94, 0xf9, 0xbe, 0x41, 0xed, 0x6b, 0x8e, 0x11, 0xd9, 0x1b, 0x68, 0x3d, 0x67]]"

definition TABLE_S4_50 :: "bytes" where
  "TABLE_S4_50 = concat [
    [0x7c, 0x51, 0xa8, 0x43, 0x67, 0x81, 0xdb, 0x2f, 0x02, 0x24, 0xab, 0x6c, 0x22, 0xd3, 0x2e, 0xb8],
    [0xe4, 0x46, 0x9f, 0x01, 0x48, 0xf0, 0xc9, 0x44, 0x5e, 0x71, 0x9e, 0x38, 0xac, 0xc8, 0x29, 0x37],
    [0x3e, 0x84, 0x49, 0x4e, 0xce, 0xd4, 0xe3, 0xc1, 0x76, 0xe9, 0x33, 0x88, 0x91, 0x25, 0xf5, 0x8d],
    [0xb5, 0x4a, 0xa9, 0x94, 0x8b, 0xf9, 0xdd, 0xf1, 0x58, 0x03, 0x60, 0xdf, 0x3a, 0x3c, 0xaf, 0x32],
    [0xcb, 0xa5, 0xb7, 0x09, 0x0b, 0x19, 0x80, 0x61, 0xda, 0x26, 0x14, 0x85, 0xc0, 0x35, 0x05, 0x08],
    [0xfd, 0xee, 0x52, 0x0f, 0xb2, 0xb9, 0x4f, 0x0c, 0x9a, 0xd2, 0xa1, 0x0a, 0x86, 0xb6, 0xd9, 0x00],
    [0x54, 0x1f, 0x4c, 0x5d, 0xad, 0x87, 0x97, 0x8e, 0x66, 0x7a, 0x42, 0x5a, 0xf7, 0xe7, 0xb3, 0xd0],
    [0xde, 0xae, 0x56, 0xc6, 0x57, 0x6f, 0xbc, 0x98, 0x78, 0xf2, 0xfc, 0x6e, 0x8c, 0x62, 0x92, 0x1c],
    [0x90, 0xd1, 0xca, 0xf4, 0x72, 0xc7, 0x50, 0xfe, 0xf6, 0x5c, 0x34, 0x41, 0xcc, 0xd8, 0x73, 0x2a],
    [0x65, 0xbd, 0x68, 0x04, 0xa0, 0x12, 0xb4, 0x11, 0x4d, 0xfb, 0x10, 0x7b, 0x17, 0x23, 0xcf, 0x83],
    [0xe8, 0xf3, 0x3d, 0xe2, 0x16, 0x7f, 0xd5, 0x64, 0x9c, 0xa6, 0x7e, 0x28, 0xed, 0xa7, 0x3f, 0x8f],
    [0x9d, 0xf8, 0xc5, 0xc4, 0xfa, 0xbe, 0xec, 0x79, 0x30, 0x9b, 0x1b, 0x4b, 0x45, 0x6d, 0xd6, 0xe0],
    [0xeb, 0x63, 0x1e, 0x69, 0x5f, 0x2b, 0x06, 0x77, 0x1d, 0x21, 0x0e, 0x74, 0xb0, 0x7d, 0xdc, 0x2c],
    [0xc2, 0xe1, 0xb1, 0x36, 0x89, 0x59, 0x93, 0x6b, 0xaa, 0xea, 0x31, 0x47, 0xa4, 0x20, 0xff, 0xba],
    [0x27, 0xef, 0x70, 0x95, 0x99, 0xc3, 0x96, 0xe5, 0x6a, 0x5b, 0x75, 0xa3, 0x13, 0xbf, 0x40, 0x07],
    [0xbb, 0x18, 0x1a, 0x53, 0x2d, 0x8a, 0xe6, 0x55, 0x15, 0xd7, 0xa2, 0x39, 0x82, 0x0d, 0xcd, 0x3b]]"

definition TABLE_S4_51 :: "bytes" where
  "TABLE_S4_51 = concat [
    [0x34, 0x32, 0x3a, 0xa7, 0x0b, 0x50, 0xd7, 0x68, 0xf1, 0x83, 0xf9, 0xd5, 0x42, 0xbd, 0x9c, 0xa1],
    [0x2d, 0x99, 0x85, 0xfd, 0xe1, 0x7e, 0x80, 0x3b, 0xdc, 0xc6, 0xc9, 0xeb, 0x8c, 0x36, 0x46, 0x41],
    [0xc0, 0xa4, 0x3f, 0x21, 0x79, 0x56, 0x30, 0x96, 0xf8, 0x40, 0x4c, 0xc1, 0x4e, 0xec, 0x09, 0x97],
    [0xdb, 0x2a, 0xb0, 0x26, 0x2c, 0x0a, 0x64, 0xa3, 0x89, 0x6f, 0x27, 0xd3, 0x59, 0x74, 0x4b, 0xa0],
    [0x6a, 0x84, 0x14, 0x9a, 0xfa, 0x70, 0x66, 0xf4, 0x67, 0x5f, 0x90, 0xb4, 0xa6, 0xd6, 0xce, 0x5e],
    [0xef, 0xff, 0xd8, 0xbb, 0x72, 0x6e, 0x52, 0x4a, 0x8f, 0xa5, 0x86, 0x9f, 0x17, 0x5c, 0x55, 0x44],
    [0xbe, 0x8e, 0x08, 0xd1, 0xda, 0x92, 0x02, 0xa9, 0xb1, 0xba, 0x04, 0x47, 0xe6, 0xf5, 0x07, 0x5a],
    [0x3d, 0xc8, 0x00, 0x0d, 0x2e, 0xd2, 0x8d, 0x1c, 0x11, 0x03, 0x69, 0x88, 0xad, 0xc3, 0x01, 0xbf],
    [0x65, 0x4d, 0xe8, 0xde, 0x93, 0x38, 0x43, 0x13, 0xb6, 0xf2, 0x71, 0xe4, 0xf0, 0x95, 0xcc, 0xcd],
    [0xaf, 0xe5, 0x87, 0x37, 0xae, 0x94, 0x20, 0x76, 0x77, 0x1e, 0x6c, 0xdd, 0xfb, 0xe0, 0xea, 0x35],
    [0x2b, 0x1f, 0x8b, 0xc7, 0xf3, 0x45, 0x73, 0x18, 0x1a, 0xa8, 0x19, 0xbc, 0xb5, 0x6d, 0x0c, 0x60],
    [0xd0, 0xc4, 0x22, 0x7b, 0x54, 0xfe, 0x49, 0x3c, 0xcf, 0x7a, 0xf6, 0x58, 0xd9, 0x98, 0xfc, 0xc2],
    [0x05, 0x8a, 0x33, 0xc5, 0xdf, 0x1d, 0x31, 0xaa, 0x82, 0x25, 0x5d, 0xee, 0x10, 0xb3, 0x5b, 0x12],
    [0xb7, 0x1b, 0x0f, 0x48, 0x53, 0x62, 0xab, 0x7d, 0xcb, 0x91, 0xed, 0x9e, 0xe7, 0x2f, 0x9d, 0x78],
    [0x28, 0xac, 0xb2, 0xf7, 0xe2, 0xa2, 0x4f, 0x39, 0x51, 0x81, 0x63, 0x9b, 0xe9, 0xca, 0x3e, 0xb9],
    [0x75, 0xb8, 0x24, 0xd4, 0x29, 0x15, 0x7c, 0x06, 0x23, 0x57, 0x7f, 0x0e, 0x6b, 0xe3, 0x61, 0x16]]"

definition TABLE_S4_52 :: "bytes" where
  "TABLE_S4_52 = concat [
    [0xd3, 0x14, 0x9b, 0xbd, 0x07, 0x91, 0x6c, 0x9d, 0xfc, 0x17, 0xee, 0xc3, 0x90, 0x64, 0x3e, 0xd8],
    [0x87, 0x21, 0xce, 0xe1, 0x88, 0x96, 0x77, 0x13, 0xbe, 0x20, 0xf9, 0x5b, 0xfb, 0x76, 0x4f, 0xf7],
    [0x37, 0x8c, 0x56, 0xc9, 0x32, 0x4a, 0x9a, 0x2e, 0xf1, 0xf6, 0x3b, 0x81, 0x7e, 0x5c, 0x6b, 0x71],
    [0x60, 0xdf, 0xbc, 0xe7, 0x8d, 0x10, 0x83, 0x85, 0x2b, 0x16, 0xf5, 0x0a, 0x4e, 0x62, 0x46, 0x34],
    [0x3a, 0xab, 0x99, 0x65, 0xb7, 0xba, 0x8a, 0x7f, 0xb6, 0x08, 0x1a, 0x74, 0xde, 0x3f, 0xa6, 0xb4],
    [0xb5, 0x1e, 0x6d, 0x25, 0xbf, 0x66, 0x09, 0x39, 0xb0, 0xed, 0x51, 0x42, 0xb3, 0xf0, 0x06, 0x0d],
    [0xe5, 0xfd, 0xc5, 0xd9, 0x6f, 0x0c, 0x58, 0x48, 0xe2, 0xf3, 0xa0, 0xeb, 0x31, 0x28, 0x38, 0x12],
    [0xd1, 0x43, 0x4d, 0xc7, 0xa3, 0x2d, 0xdd, 0x33, 0x79, 0xe9, 0x11, 0x61, 0x27, 0x03, 0xd0, 0xe8],
    [0xfe, 0x8b, 0xe3, 0x49, 0x95, 0xcc, 0x67, 0x73, 0x4b, 0x75, 0x6e, 0x2f, 0x41, 0xef, 0x78, 0xcd],
    [0xc4, 0xaf, 0x44, 0xf2, 0x3c, 0x70, 0x9c, 0xa8, 0xbb, 0xd7, 0x02, 0xda, 0xae, 0x0b, 0xad, 0x1f],
    [0x97, 0xc1, 0x19, 0x23, 0x30, 0x80, 0x18, 0x52, 0x5d, 0x82, 0x4c, 0x57, 0xdb, 0x6a, 0xc0, 0xa9],
    [0xf4, 0xa4, 0x24, 0x8f, 0x5f, 0x69, 0xd2, 0xfa, 0x7b, 0x7a, 0x47, 0x22, 0xc6, 0x53, 0x01, 0x45],
    [0xcb, 0xb1, 0x9e, 0xa2, 0x93, 0x63, 0xc2, 0x0f, 0xd6, 0xa1, 0xdc, 0x54, 0xc8, 0xb9, 0x94, 0xe0],
    [0xf8, 0x8e, 0x55, 0x15, 0x05, 0x40, 0x9f, 0x1b, 0x89, 0x0e, 0x5e, 0x7d, 0xd4, 0x2c, 0xe6, 0x36],
    [0x1c, 0xca, 0xe4, 0xd5, 0xb8, 0xff, 0x00, 0xac, 0x2a, 0xcf, 0x50, 0x98, 0x5a, 0x29, 0x7c, 0x26],
    [0x86, 0x1d, 0x68, 0xaa, 0x84, 0x72, 0xb2, 0x3d, 0xec, 0xa5, 0xa7, 0x04, 0xea, 0x59, 0x35, 0x92]]"

definition TABLE_S4_53 :: "bytes" where
  "TABLE_S4_53 = concat [
    [0x38, 0x9e, 0x71, 0x5e, 0x37, 0x29, 0xc8, 0xac, 0x01, 0x9f, 0x46, 0xe4, 0x44, 0xc9, 0xf0, 0x48],
    [0x6c, 0xab, 0x24, 0x02, 0xb8, 0x2e, 0xd3, 0x22, 0x43, 0xa8, 0x51, 0x7c, 0x2f, 0xdb, 0x81, 0x67],
    [0xdf, 0x60, 0x03, 0x58, 0x32, 0xaf, 0x3c, 0x3a, 0x94, 0xa9, 0x4a, 0xb5, 0xf1, 0xdd, 0xf9, 0x8b],
    [0x88, 0x33, 0xe9, 0x76, 0x8d, 0xf5, 0x25, 0x91, 0x4e, 0x49, 0x84, 0x3e, 0xc1, 0xe3, 0xd4, 0xce],
    [0x0a, 0xa1, 0xd2, 0x9a, 0x00, 0xd9, 0xb6, 0x86, 0x0f, 0x52, 0xee, 0xfd, 0x0c, 0x4f, 0xb9, 0xb2],
    [0x85, 0x14, 0x26, 0xda, 0x08, 0x05, 0x35, 0xc0, 0x09, 0xb7, 0xa5, 0xcb, 0x61, 0x80, 0x19, 0x0b],
    [0x6e, 0xfc, 0xf2, 0x78, 0x1c, 0x92, 0x62, 0x8c, 0xc6, 0x56, 0xae, 0xde, 0x98, 0xbc, 0x6f, 0x57],
    [0x5a, 0x42, 0x7a, 0x66, 0xd0, 0xb3, 0xe7, 0xf7, 0x5d, 0x4c, 0x1f, 0x54, 0x8e, 0x97, 0x87, 0xad],
    [0x7b, 0x10, 0xfb, 0x4d, 0x83, 0xcf, 0x23, 0x17, 0x04, 0x68, 0xbd, 0x65, 0x11, 0xb4, 0x12, 0xa0],
    [0x41, 0x34, 0x5c, 0xf6, 0x2a, 0x73, 0xd8, 0xcc, 0xf4, 0xca, 0xd1, 0x90, 0xfe, 0x50, 0xc7, 0x72],
    [0x4b, 0x1b, 0x9b, 0x30, 0xe0, 0xd6, 0x6d, 0x45, 0xc4, 0xc5, 0xf8, 0x9d, 0x79, 0xec, 0xbe, 0xfa],
    [0x28, 0x7e, 0xa6, 0x9c, 0x8f, 0x3f, 0xa7, 0xed, 0xe2, 0x3d, 0xf3, 0xe8, 0x64, 0xd5, 0x7f, 0x16],
    [0x47, 0x31, 0xea, 0xaa, 0xba, 0xff, 0x20, 0xa4, 0x36, 0xb1, 0xe1, 0xc2, 0x6b, 0x93, 0x59, 0x89],
    [0x74, 0x0e, 0x21, 0x1d, 0x2c, 0xdc, 0x7d, 0xb0, 0x69, 0x1e, 0x63, 0xeb, 0x77, 0x06, 0x2b, 0x5f],
    [0x39, 0xa2, 0xd7, 0x15, 0x3b, 0xcd, 0x0d, 0x82, 0x53, 0x1a, 0x18, 0xbb, 0x55, 0xe6, 0x8a, 0x2d],
    [0xa3, 0x75, 0x5b, 0x6a, 0x07, 0x40, 0xbf, 0x13, 0x95, 0x70, 0xef, 0x27, 0xe5, 0x96, 0xc3, 0x99]]"

definition TABLE_S4_54 :: "bytes" where
  "TABLE_S4_54 = concat [
    [0x99, 0xb4, 0x4d, 0xa6, 0x82, 0x64, 0x3e, 0xca, 0xe7, 0xc1, 0x4e, 0x89, 0xc7, 0x36, 0xcb, 0x5d],
    [0x01, 0xa3, 0x7a, 0xe4, 0xad, 0x15, 0x2c, 0xa1, 0xbb, 0x94, 0x7b, 0xdd, 0x49, 0x2d, 0xcc, 0xd2],
    [0xdb, 0x61, 0xac, 0xab, 0x2b, 0x31, 0x06, 0x24, 0x93, 0x0c, 0xd6, 0x6d, 0x74, 0xc0, 0x10, 0x68],
    [0x50, 0xaf, 0x4c, 0x71, 0x6e, 0x1c, 0x38, 0x14, 0xbd, 0xe6, 0x85, 0x3a, 0xdf, 0xd9, 0x4a, 0xd7],
    [0x2e, 0x40, 0x52, 0xec, 0xee, 0xfc, 0x65, 0x84, 0x3f, 0xc3, 0xf1, 0x60, 0x25, 0xd0, 0xe0, 0xed],
    [0x18, 0x0b, 0xb7, 0xea, 0x57, 0x5c, 0xaa, 0xe9, 0x7f, 0x37, 0x44, 0xef, 0x63, 0x53, 0x3c, 0xe5],
    [0xb1, 0xfa, 0xa9, 0xb8, 0x48, 0x62, 0x72, 0x6b, 0x83, 0x9f, 0xa7, 0xbf, 0x12, 0x02, 0x56, 0x35],
    [0x3b, 0x4b, 0xb3, 0x23, 0xb2, 0x8a, 0x59, 0x7d, 0x9d, 0x17, 0x19, 0x8b, 0x69, 0x87, 0x77, 0xf9],
    [0x75, 0x34, 0x2f, 0x11, 0x97, 0x22, 0xb5, 0x1b, 0x13, 0xb9, 0xd1, 0xa4, 0x29, 0x3d, 0x96, 0xcf],
    [0x80, 0x58, 0x8d, 0xe1, 0x45, 0xf7, 0x51, 0xf4, 0xa8, 0x1e, 0xf5, 0x9e, 0xf2, 0xc6, 0x2a, 0x66],
    [0x0d, 0x16, 0xd8, 0x07, 0xf3, 0x9a, 0x30, 0x81, 0x79, 0x43, 0x9b, 0xcd, 0x08, 0x42, 0xda, 0x6a],
    [0x78, 0x1d, 0x20, 0x21, 0x1f, 0x5b, 0x09, 0x9c, 0xd5, 0x7e, 0xfe, 0xae, 0xa0, 0x88, 0x33, 0x05],
    [0x0e, 0x86, 0xfb, 0x8c, 0xba, 0xce, 0xe3, 0x92, 0xf8, 0xc4, 0xeb, 0x91, 0x55, 0x98, 0x39, 0xc9],
    [0x27, 0x04, 0x54, 0xd3, 0x6c, 0xbc, 0x76, 0x8e, 0x4f, 0x0f, 0xd4, 0xa2, 0x41, 0xc5, 0x1a, 0x5f],
    [0xc2, 0x0a, 0x95, 0x70, 0x7c, 0x26, 0x73, 0x00, 0x8f, 0xbe, 0x90, 0x46, 0xf6, 0x5a, 0xa5, 0xe2],
    [0x5e, 0xfd, 0xff, 0xb6, 0xc8, 0x6f, 0x03, 0xb0, 0xf0, 0x32, 0x47, 0xdc, 0x67, 0xe8, 0x28, 0xde]]"

definition TABLE_S4_55 :: "bytes" where
  "TABLE_S4_55 = concat [
    [0xe9, 0xef, 0xe7, 0x7a, 0xd6, 0x8d, 0x0a, 0xb5, 0x2c, 0x5e, 0x24, 0x08, 0x9f, 0x60, 0x41, 0x7c],
    [0xf0, 0x44, 0x58, 0x20, 0x3c, 0xa3, 0x5d, 0xe6, 0x01, 0x1b, 0x14, 0x36, 0x51, 0xeb, 0x9b, 0x9c],
    [0x1d, 0x79, 0xe2, 0xfc, 0xa4, 0x8b, 0xed, 0x4b, 0x25, 0x9d, 0x91, 0x1c, 0x93, 0x31, 0xd4, 0x4a],
    [0x06, 0xf7, 0x6d, 0xfb, 0xf1, 0xd7, 0xb9, 0x7e, 0x54, 0xb2, 0xfa, 0x0e, 0x84, 0xa9, 0x96, 0x7d],
    [0xb7, 0x59, 0xc9, 0x47, 0x27, 0xad, 0xbb, 0x29, 0xba, 0x82, 0x4d, 0x69, 0x7b, 0x0b, 0x13, 0x83],
    [0x32, 0x22, 0x05, 0x66, 0xaf, 0xb3, 0x8f, 0x97, 0x52, 0x78, 0x5b, 0x42, 0xca, 0x81, 0x88, 0x99],
    [0x63, 0x53, 0xd5, 0x0c, 0x07, 0x4f, 0xdf, 0x74, 0x6c, 0x67, 0xd9, 0x9a, 0x3b, 0x28, 0xda, 0x87],
    [0xe0, 0x15, 0xdd, 0xd0, 0xf3, 0x0f, 0x50, 0xc1, 0xcc, 0xde, 0xb4, 0x55, 0x70, 0x1e, 0xdc, 0x62],
    [0xb8, 0x90, 0x35, 0x03, 0x4e, 0xe5, 0x9e, 0xce, 0x6b, 0x2f, 0xac, 0x39, 0x2d, 0x48, 0x11, 0x10],
    [0x72, 0x38, 0x5a, 0xea, 0x73, 0x49, 0xfd, 0xab, 0xaa, 0xc3, 0xb1, 0x00, 0x26, 0x3d, 0x37, 0xe8],
    [0xf6, 0xc2, 0x56, 0x1a, 0x2e, 0x98, 0xae, 0xc5, 0xc7, 0x75, 0xc4, 0x61, 0x68, 0xb0, 0xd1, 0xbd],
    [0x0d, 0x19, 0xff, 0xa6, 0x89, 0x23, 0x94, 0xe1, 0x12, 0xa7, 0x2b, 0x85, 0x04, 0x45, 0x21, 0x1f],
    [0xd8, 0x57, 0xee, 0x18, 0x02, 0xc0, 0xec, 0x77, 0x5f, 0xf8, 0x80, 0x33, 0xcd, 0x6e, 0x86, 0xcf],
    [0x6a, 0xc6, 0xd2, 0x95, 0x8e, 0xbf, 0x76, 0xa0, 0x16, 0x4c, 0x30, 0x43, 0x3a, 0xf2, 0x40, 0xa5],
    [0xf5, 0x71, 0x6f, 0x2a, 0x3f, 0x7f, 0x92, 0xe4, 0x8c, 0x5c, 0xbe, 0x46, 0x34, 0x17, 0xe3, 0x64],
    [0xa8, 0x65, 0xf9, 0x09, 0xf4, 0xc8, 0xa1, 0xdb, 0xfe, 0x8a, 0xa2, 0xd3, 0xb6, 0x3e, 0xbc, 0xcb]]"

definition TABLE_S4_56 :: "bytes" where
  "TABLE_S4_56 = concat [
    [0xc3, 0x04, 0x8b, 0xad, 0x17, 0x81, 0x7c, 0x8d, 0xec, 0x07, 0xfe, 0xd3, 0x80, 0x74, 0x2e, 0xc8],
    [0x97, 0x31, 0xde, 0xf1, 0x98, 0x86, 0x67, 0x03, 0xae, 0x30, 0xe9, 0x4b, 0xeb, 0x66, 0x5f, 0xe7],
    [0x27, 0x9c, 0x46, 0xd9, 0x22, 0x5a, 0x8a, 0x3e, 0xe1, 0xe6, 0x2b, 0x91, 0x6e, 0x4c, 0x7b, 0x61],
    [0x70, 0xcf, 0xac, 0xf7, 0x9d, 0x00, 0x93, 0x95, 0x3b, 0x06, 0xe5, 0x1a, 0x5e, 0x72, 0x56, 0x24],
    [0x2a, 0xbb, 0x89, 0x75, 0xa7, 0xaa, 0x9a, 0x6f, 0xa6, 0x18, 0x0a, 0x64, 0xce, 0x2f, 0xb6, 0xa4],
    [0xa5, 0x0e, 0x7d, 0x35, 0xaf, 0x76, 0x19, 0x29, 0xa0, 0xfd, 0x41, 0x52, 0xa3, 0xe0, 0x16, 0x1d],
    [0xf5, 0xed, 0xd5, 0xc9, 0x7f, 0x1c, 0x48, 0x58, 0xf2, 0xe3, 0xb0, 0xfb, 0x21, 0x38, 0x28, 0x02],
    [0xc1, 0x53, 0x5d, 0xd7, 0xb3, 0x3d, 0xcd, 0x23, 0x69, 0xf9, 0x01, 0x71, 0x37, 0x13, 0xc0, 0xf8],
    [0xee, 0x9b, 0xf3, 0x59, 0x85, 0xdc, 0x77, 0x63, 0x5b, 0x65, 0x7e, 0x3f, 0x51, 0xff, 0x68, 0xdd],
    [0xd4, 0xbf, 0x54, 0xe2, 0x2c, 0x60, 0x8c, 0xb8, 0xab, 0xc7, 0x12, 0xca, 0xbe, 0x1b, 0xbd, 0x0f],
    [0x87, 0xd1, 0x09, 0x33, 0x20, 0x90, 0x08, 0x42, 0x4d, 0x92, 0x5c, 0x47, 0xcb, 0x7a, 0xd0, 0xb9],
    [0xe4, 0xb4, 0x34, 0x9f, 0x4f, 0x79, 0xc2, 0xea, 0x6b, 0x6a, 0x57, 0x32, 0xd6, 0x43, 0x11, 0x55],
    [0xdb, 0xa1, 0x8e, 0xb2, 0x83, 0x73, 0xd2, 0x1f, 0xc6, 0xb1, 0xcc, 0x44, 0xd8, 0xa9, 0x84, 0xf0],
    [0xe8, 0x9e, 0x45, 0x05, 0x15, 0x50, 0x8f, 0x0b, 0x99, 0x1e, 0x4e, 0x6d, 0xc4, 0x3c, 0xf6, 0x26],
    [0x0c, 0xda, 0xf4, 0xc5, 0xa8, 0xef, 0x10, 0xbc, 0x3a, 0xdf, 0x40, 0x88, 0x4a, 0x39, 0x6c, 0x36],
    [0x96, 0x0d, 0x78, 0xba, 0x94, 0x62, 0xa2, 0x2d, 0xfc, 0xb5, 0xb7, 0x14, 0xfa, 0x49, 0x25, 0x82]]"

definition TABLE_S4_57 :: "bytes" where
  "TABLE_S4_57 = concat [
    [0x59, 0xff, 0x10, 0x3f, 0x56, 0x48, 0xa9, 0xcd, 0x60, 0xfe, 0x27, 0x85, 0x25, 0xa8, 0x91, 0x29],
    [0x0d, 0xca, 0x45, 0x63, 0xd9, 0x4f, 0xb2, 0x43, 0x22, 0xc9, 0x30, 0x1d, 0x4e, 0xba, 0xe0, 0x06],
    [0xbe, 0x01, 0x62, 0x39, 0x53, 0xce, 0x5d, 0x5b, 0xf5, 0xc8, 0x2b, 0xd4, 0x90, 0xbc, 0x98, 0xea],
    [0xe9, 0x52, 0x88, 0x17, 0xec, 0x94, 0x44, 0xf0, 0x2f, 0x28, 0xe5, 0x5f, 0xa0, 0x82, 0xb5, 0xaf],
    [0x6b, 0xc0, 0xb3, 0xfb, 0x61, 0xb8, 0xd7, 0xe7, 0x6e, 0x33, 0x8f, 0x9c, 0x6d, 0x2e, 0xd8, 0xd3],
    [0xe4, 0x75, 0x47, 0xbb, 0x69, 0x64, 0x54, 0xa1, 0x68, 0xd6, 0xc4, 0xaa, 0x00, 0xe1, 0x78, 0x6a],
    [0x0f, 0x9d, 0x93, 0x19, 0x7d, 0xf3, 0x03, 0xed, 0xa7, 0x37, 0xcf, 0xbf, 0xf9, 0xdd, 0x0e, 0x36],
    [0x3b, 0x23, 0x1b, 0x07, 0xb1, 0xd2, 0x86, 0x96, 0x3c, 0x2d, 0x7e, 0x35, 0xef, 0xf6, 0xe6, 0xcc],
    [0x1a, 0x71, 0x9a, 0x2c, 0xe2, 0xae, 0x42, 0x76, 0x65, 0x09, 0xdc, 0x04, 0x70, 0xd5, 0x73, 0xc1],
    [0x20, 0x55, 0x3d, 0x97, 0x4b, 0x12, 0xb9, 0xad, 0x95, 0xab, 0xb0, 0xf1, 0x9f, 0x31, 0xa6, 0x13],
    [0x2a, 0x7a, 0xfa, 0x51, 0x81, 0xb7, 0x0c, 0x24, 0xa5, 0xa4, 0x99, 0xfc, 0x18, 0x8d, 0xdf, 0x9b],
    [0x49, 0x1f, 0xc7, 0xfd, 0xee, 0x5e, 0xc6, 0x8c, 0x83, 0x5c, 0x92, 0x89, 0x05, 0xb4, 0x1e, 0x77],
    [0x26, 0x50, 0x8b, 0xcb, 0xdb, 0x9e, 0x41, 0xc5, 0x57, 0xd0, 0x80, 0xa3, 0x0a, 0xf2, 0x38, 0xe8],
    [0x15, 0x6f, 0x40, 0x7c, 0x4d, 0xbd, 0x1c, 0xd1, 0x08, 0x7f, 0x02, 0x8a, 0x16, 0x67, 0x4a, 0x3e],
    [0x58, 0xc3, 0xb6, 0x74, 0x5a, 0xac, 0x6c, 0xe3, 0x32, 0x7b, 0x79, 0xda, 0x34, 0x87, 0xeb, 0x4c],
    [0xc2, 0x14, 0x3a, 0x0b, 0x66, 0x21, 0xde, 0x72, 0xf4, 0x11, 0x8e, 0x46, 0x84, 0xf7, 0xa2, 0xf8]]"

definition TABLE_S4_58 :: "bytes" where
  "TABLE_S4_58 = concat [
    [0x81, 0xac, 0x55, 0xbe, 0x9a, 0x7c, 0x26, 0xd2, 0xff, 0xd9, 0x56, 0x91, 0xdf, 0x2e, 0xd3, 0x45],
    [0x19, 0xbb, 0x62, 0xfc, 0xb5, 0x0d, 0x34, 0xb9, 0xa3, 0x8c, 0x63, 0xc5, 0x51, 0x35, 0xd4, 0xca],
    [0xc3, 0x79, 0xb4, 0xb3, 0x33, 0x29, 0x1e, 0x3c, 0x8b, 0x14, 0xce, 0x75, 0x6c, 0xd8, 0x08, 0x70],
    [0x48, 0xb7, 0x54, 0x69, 0x76, 0x04, 0x20, 0x0c, 0xa5, 0xfe, 0x9d, 0x22, 0xc7, 0xc1, 0x52, 0xcf],
    [0x36, 0x58, 0x4a, 0xf4, 0xf6, 0xe4, 0x7d, 0x9c, 0x27, 0xdb, 0xe9, 0x78, 0x3d, 0xc8, 0xf8, 0xf5],
    [0x00, 0x13, 0xaf, 0xf2, 0x4f, 0x44, 0xb2, 0xf1, 0x67, 0x2f, 0x5c, 0xf7, 0x7b, 0x4b, 0x24, 0xfd],
    [0xa9, 0xe2, 0xb1, 0xa0, 0x50, 0x7a, 0x6a, 0x73, 0x9b, 0x87, 0xbf, 0xa7, 0x0a, 0x1a, 0x4e, 0x2d],
    [0x23, 0x53, 0xab, 0x3b, 0xaa, 0x92, 0x41, 0x65, 0x85, 0x0f, 0x01, 0x93, 0x71, 0x9f, 0x6f, 0xe1],
    [0x6d, 0x2c, 0x37, 0x09, 0x8f, 0x3a, 0xad, 0x03, 0x0b, 0xa1, 0xc9, 0xbc, 0x31, 0x25, 0x8e, 0xd7],
    [0x98, 0x40, 0x95, 0xf9, 0x5d, 0xef, 0x49, 0xec, 0xb0, 0x06, 0xed, 0x86, 0xea, 0xde, 0x32, 0x7e],
    [0x15, 0x0e, 0xc0, 0x1f, 0xeb, 0x82, 0x28, 0x99, 0x61, 0x5b, 0x83, 0xd5, 0x10, 0x5a, 0xc2, 0x72],
    [0x60, 0x05, 0x38, 0x39, 0x07, 0x43, 0x11, 0x84, 0xcd, 0x66, 0xe6, 0xb6, 0xb8, 0x90, 0x2b, 0x1d],
    [0x16, 0x9e, 0xe3, 0x94, 0xa2, 0xd6, 0xfb, 0x8a, 0xe0, 0xdc, 0xf3, 0x89, 0x4d, 0x80, 0x21, 0xd1],
    [0x3f, 0x1c, 0x4c, 0xcb, 0x74, 0xa4, 0x6e, 0x96, 0x57, 0x17, 0xcc, 0xba, 0x59, 0xdd, 0x02, 0x47],
    [0xda, 0x12, 0x8d, 0x68, 0x64, 0x3e, 0x6b, 0x18, 0x97, 0xa6, 0x88, 0x5e, 0xee, 0x42, 0xbd, 0xfa],
    [0x46, 0xe5, 0xe7, 0xae, 0xd0, 0x77, 0x1b, 0xa8, 0xe8, 0x2a, 0x5f, 0xc4, 0x7f, 0xf0, 0x30, 0xc6]]"

definition TABLE_S4_59 :: "bytes" where
  "TABLE_S4_59 = concat [
    [0x2e, 0x28, 0x20, 0xbd, 0x11, 0x4a, 0xcd, 0x72, 0xeb, 0x99, 0xe3, 0xcf, 0x58, 0xa7, 0x86, 0xbb],
    [0x37, 0x83, 0x9f, 0xe7, 0xfb, 0x64, 0x9a, 0x21, 0xc6, 0xdc, 0xd3, 0xf1, 0x96, 0x2c, 0x5c, 0x5b],
    [0xda, 0xbe, 0x25, 0x3b, 0x63, 0x4c, 0x2a, 0x8c, 0xe2, 0x5a, 0x56, 0xdb, 0x54, 0xf6, 0x13, 0x8d],
    [0xc1, 0x30, 0xaa, 0x3c, 0x36, 0x10, 0x7e, 0xb9, 0x93, 0x75, 0x3d, 0xc9, 0x43, 0x6e, 0x51, 0xba],
    [0x70, 0x9e, 0x0e, 0x80, 0xe0, 0x6a, 0x7c, 0xee, 0x7d, 0x45, 0x8a, 0xae, 0xbc, 0xcc, 0xd4, 0x44],
    [0xf5, 0xe5, 0xc2, 0xa1, 0x68, 0x74, 0x48, 0x50, 0x95, 0xbf, 0x9c, 0x85, 0x0d, 0x46, 0x4f, 0x5e],
    [0xa4, 0x94, 0x12, 0xcb, 0xc0, 0x88, 0x18, 0xb3, 0xab, 0xa0, 0x1e, 0x5d, 0xfc, 0xef, 0x1d, 0x40],
    [0x27, 0xd2, 0x1a, 0x17, 0x34, 0xc8, 0x97, 0x06, 0x0b, 0x19, 0x73, 0x92, 0xb7, 0xd9, 0x1b, 0xa5],
    [0x7f, 0x57, 0xf2, 0xc4, 0x89, 0x22, 0x59, 0x09, 0xac, 0xe8, 0x6b, 0xfe, 0xea, 0x8f, 0xd6, 0xd7],
    [0xb5, 0xff, 0x9d, 0x2d, 0xb4, 0x8e, 0x3a, 0x6c, 0x6d, 0x04, 0x76, 0xc7, 0xe1, 0xfa, 0xf0, 0x2f],
    [0x31, 0x05, 0x91, 0xdd, 0xe9, 0x5f, 0x69, 0x02, 0x00, 0xb2, 0x03, 0xa6, 0xaf, 0x77, 0x16, 0x7a],
    [0xca, 0xde, 0x38, 0x61, 0x4e, 0xe4, 0x53, 0x26, 0xd5, 0x60, 0xec, 0x42, 0xc3, 0x82, 0xe6, 0xd8],
    [0x1f, 0x90, 0x29, 0xdf, 0xc5, 0x07, 0x2b, 0xb0, 0x98, 0x3f, 0x47, 0xf4, 0x0a, 0xa9, 0x41, 0x08],
    [0xad, 0x01, 0x15, 0x52, 0x49, 0x78, 0xb1, 0x67, 0xd1, 0x8b, 0xf7, 0x84, 0xfd, 0x35, 0x87, 0x62],
    [0x32, 0xb6, 0xa8, 0xed, 0xf8, 0xb8, 0x55, 0x23, 0x4b, 0x9b, 0x79, 0x81, 0xf3, 0xd0, 0x24, 0xa3],
    [0x6f, 0xa2, 0x3e, 0xce, 0x33, 0x0f, 0x66, 0x1c, 0x39, 0x4d, 0x65, 0x14, 0x71, 0xf9, 0x7b, 0x0c]]"

definition TABLE_S4_60 :: "bytes" where
  "TABLE_S4_60 = concat [
    [0xf3, 0x34, 0xbb, 0x9d, 0x27, 0xb1, 0x4c, 0xbd, 0xdc, 0x37, 0xce, 0xe3, 0xb0, 0x44, 0x1e, 0xf8],
    [0xa7, 0x01, 0xee, 0xc1, 0xa8, 0xb6, 0x57, 0x33, 0x9e, 0x00, 0xd9, 0x7b, 0xdb, 0x56, 0x6f, 0xd7],
    [0x17, 0xac, 0x76, 0xe9, 0x12, 0x6a, 0xba, 0x0e, 0xd1, 0xd6, 0x1b, 0xa1, 0x5e, 0x7c, 0x4b, 0x51],
    [0x40, 0xff, 0x9c, 0xc7, 0xad, 0x30, 0xa3, 0xa5, 0x0b, 0x36, 0xd5, 0x2a, 0x6e, 0x42, 0x66, 0x14],
    [0x1a, 0x8b, 0xb9, 0x45, 0x97, 0x9a, 0xaa, 0x5f, 0x96, 0x28, 0x3a, 0x54, 0xfe, 0x1f, 0x86, 0x94],
    [0x95, 0x3e, 0x4d, 0x05, 0x9f, 0x46, 0x29, 0x19, 0x90, 0xcd, 0x71, 0x62, 0x93, 0xd0, 0x26, 0x2d],
    [0xc5, 0xdd, 0xe5, 0xf9, 0x4f, 0x2c, 0x78, 0x68, 0xc2, 0xd3, 0x80, 0xcb, 0x11, 0x08, 0x18, 0x32],
    [0xf1, 0x63, 0x6d, 0xe7, 0x83, 0x0d, 0xfd, 0x13, 0x59, 0xc9, 0x31, 0x41, 0x07, 0x23, 0xf0, 0xc8],
    [0xde, 0xab, 0xc3, 0x69, 0xb5, 0xec, 0x47, 0x53, 0x6b, 0x55, 0x4e, 0x0f, 0x61, 0xcf, 0x58, 0xed],
    [0xe4, 0x8f, 0x64, 0xd2, 0x1c, 0x50, 0xbc, 0x88, 0x9b, 0xf7, 0x22, 0xfa, 0x8e, 0x2b, 0x8d, 0x3f],
    [0xb7, 0xe1, 0x39, 0x03, 0x10, 0xa0, 0x38, 0x72, 0x7d, 0xa2, 0x6c, 0x77, 0xfb, 0x4a, 0xe0, 0x89],
    [0xd4, 0x84, 0x04, 0xaf, 0x7f, 0x49, 0xf2, 0xda, 0x5b, 0x5a, 0x67, 0x02, 0xe6, 0x73, 0x21, 0x65],
    [0xeb, 0x91, 0xbe, 0x82, 0xb3, 0x43, 0xe2, 0x2f, 0xf6, 0x81, 0xfc, 0x74, 0xe8, 0x99, 0xb4, 0xc0],
    [0xd8, 0xae, 0x75, 0x35, 0x25, 0x60, 0xbf, 0x3b, 0xa9, 0x2e, 0x7e, 0x5d, 0xf4, 0x0c, 0xc6, 0x16],
    [0x3c, 0xea, 0xc4, 0xf5, 0x98, 0xdf, 0x20, 0x8c, 0x0a, 0xef, 0x70, 0xb8, 0x7a, 0x09, 0x5c, 0x06],
    [0xa6, 0x3d, 0x48, 0x8a, 0xa4, 0x52, 0x92, 0x1d, 0xcc, 0x85, 0x87, 0x24, 0xca, 0x79, 0x15, 0xb2]]"

definition TABLE_S4_61 :: "bytes" where
  "TABLE_S4_61 = concat [
    [0xc8, 0x6e, 0x81, 0xae, 0xc7, 0xd9, 0x38, 0x5c, 0xf1, 0x6f, 0xb6, 0x14, 0xb4, 0x39, 0x00, 0xb8],
    [0x9c, 0x5b, 0xd4, 0xf2, 0x48, 0xde, 0x23, 0xd2, 0xb3, 0x58, 0xa1, 0x8c, 0xdf, 0x2b, 0x71, 0x97],
    [0x2f, 0x90, 0xf3, 0xa8, 0xc2, 0x5f, 0xcc, 0xca, 0x64, 0x59, 0xba, 0x45, 0x01, 0x2d, 0x09, 0x7b],
    [0x78, 0xc3, 0x19, 0x86, 0x7d, 0x05, 0xd5, 0x61, 0xbe, 0xb9, 0x74, 0xce, 0x31, 0x13, 0x24, 0x3e],
    [0xfa, 0x51, 0x22, 0x6a, 0xf0, 0x29, 0x46, 0x76, 0xff, 0xa2, 0x1e, 0x0d, 0xfc, 0xbf, 0x49, 0x42],
    [0x75, 0xe4, 0xd6, 0x2a, 0xf8, 0xf5, 0xc5, 0x30, 0xf9, 0x47, 0x55, 0x3b, 0x91, 0x70, 0xe9, 0xfb],
    [0x9e, 0x0c, 0x02, 0x88, 0xec, 0x62, 0x92, 0x7c, 0x36, 0xa6, 0x5e, 0x2e, 0x68, 0x4c, 0x9f, 0xa7],
    [0xaa, 0xb2, 0x8a, 0x96, 0x20, 0x43, 0x17, 0x07, 0xad, 0xbc, 0xef, 0xa4, 0x7e, 0x67, 0x77, 0x5d],
    [0x8b, 0xe0, 0x0b, 0xbd, 0x73, 0x3f, 0xd3, 0xe7, 0xf4, 0x98, 0x4d, 0x95, 0xe1, 0x44, 0xe2, 0x50],
    [0xb1, 0xc4, 0xac, 0x06, 0xda, 0x83, 0x28, 0x3c, 0x04, 0x3a, 0x21, 0x60, 0x0e, 0xa0, 0x37, 0x82],
    [0xbb, 0xeb, 0x6b, 0xc0, 0x10, 0x26, 0x9d, 0xb5, 0x34, 0x35, 0x08, 0x6d, 0x89, 0x1c, 0x4e, 0x0a],
    [0xd8, 0x8e, 0x56, 0x6c, 0x7f, 0xcf, 0x57, 0x1d, 0x12, 0xcd, 0x03, 0x18, 0x94, 0x25, 0x8f, 0xe6],
    [0xb7, 0xc1, 0x1a, 0x5a, 0x4a, 0x0f, 0xd0, 0x54, 0xc6, 0x41, 0x11, 0x32, 0x9b, 0x63, 0xa9, 0x79],
    [0x84, 0xfe, 0xd1, 0xed, 0xdc, 0x2c, 0x8d, 0x40, 0x99, 0xee, 0x93, 0x1b, 0x87, 0xf6, 0xdb, 0xaf],
    [0xc9, 0x52, 0x27, 0xe5, 0xcb, 0x3d, 0xfd, 0x72, 0xa3, 0xea, 0xe8, 0x4b, 0xa5, 0x16, 0x7a, 0xdd],
    [0x53, 0x85, 0xab, 0x9a, 0xf7, 0xb0, 0x4f, 0xe3, 0x65, 0x80, 0x1f, 0xd7, 0x15, 0x66, 0x33, 0x69]]"

definition TABLE_S4_62 :: "bytes" where
  "TABLE_S4_62 = concat [
    [0x2d, 0x00, 0xf9, 0x12, 0x36, 0xd0, 0x8a, 0x7e, 0x53, 0x75, 0xfa, 0x3d, 0x73, 0x82, 0x7f, 0xe9],
    [0xb5, 0x17, 0xce, 0x50, 0x19, 0xa1, 0x98, 0x15, 0x0f, 0x20, 0xcf, 0x69, 0xfd, 0x99, 0x78, 0x66],
    [0x6f, 0xd5, 0x18, 0x1f, 0x9f, 0x85, 0xb2, 0x90, 0x27, 0xb8, 0x62, 0xd9, 0xc0, 0x74, 0xa4, 0xdc],
    [0xe4, 0x1b, 0xf8, 0xc5, 0xda, 0xa8, 0x8c, 0xa0, 0x09, 0x52, 0x31, 0x8e, 0x6b, 0x6d, 0xfe, 0x63],
    [0x9a, 0xf4, 0xe6, 0x58, 0x5a, 0x48, 0xd1, 0x30, 0x8b, 0x77, 0x45, 0xd4, 0x91, 0x64, 0x54, 0x59],
    [0xac, 0xbf, 0x03, 0x5e, 0xe3, 0xe8, 0x1e, 0x5d, 0xcb, 0x83, 0xf0, 0x5b, 0xd7, 0xe7, 0x88, 0x51],
    [0x05, 0x4e, 0x1d, 0x0c, 0xfc, 0xd6, 0xc6, 0xdf, 0x37, 0x2b, 0x13, 0x0b, 0xa6, 0xb6, 0xe2, 0x81],
    [0x8f, 0xff, 0x07, 0x97, 0x06, 0x3e, 0xed, 0xc9, 0x29, 0xa3, 0xad, 0x3f, 0xdd, 0x33, 0xc3, 0x4d],
    [0xc1, 0x80, 0x9b, 0xa5, 0x23, 0x96, 0x01, 0xaf, 0xa7, 0x0d, 0x65, 0x10, 0x9d, 0x89, 0x22, 0x7b],
    [0x34, 0xec, 0x39, 0x55, 0xf1, 0x43, 0xe5, 0x40, 0x1c, 0xaa, 0x41, 0x2a, 0x46, 0x72, 0x9e, 0xd2],
    [0xb9, 0xa2, 0x6c, 0xb3, 0x47, 0x2e, 0x84, 0x35, 0xcd, 0xf7, 0x2f, 0x79, 0xbc, 0xf6, 0x6e, 0xde],
    [0xcc, 0xa9, 0x94, 0x95, 0xab, 0xef, 0xbd, 0x28, 0x61, 0xca, 0x4a, 0x1a, 0x14, 0x3c, 0x87, 0xb1],
    [0xba, 0x32, 0x4f, 0x38, 0x0e, 0x7a, 0x57, 0x26, 0x4c, 0x70, 0x5f, 0x25, 0xe1, 0x2c, 0x8d, 0x7d],
    [0x93, 0xb0, 0xe0, 0x67, 0xd8, 0x08, 0xc2, 0x3a, 0xfb, 0xbb, 0x60, 0x16, 0xf5, 0x71, 0xae, 0xeb],
    [0x76, 0xbe, 0x21, 0xc4, 0xc8, 0x92, 0xc7, 0xb4, 0x3b, 0x0a, 0x24, 0xf2, 0x42, 0xee, 0x11, 0x56],
    [0xea, 0x49, 0x4b, 0x02, 0x7c, 0xdb, 0xb7, 0x04, 0x44, 0x86, 0xf3, 0x68, 0xd3, 0x5c, 0x9c, 0x6a]]"

definition TABLE_S4_63 :: "bytes" where
  "TABLE_S4_63 = concat [
    [0x43, 0x45, 0x4d, 0xd0, 0x7c, 0x27, 0xa0, 0x1f, 0x86, 0xf4, 0x8e, 0xa2, 0x35, 0xca, 0xeb, 0xd6],
    [0x5a, 0xee, 0xf2, 0x8a, 0x96, 0x09, 0xf7, 0x4c, 0xab, 0xb1, 0xbe, 0x9c, 0xfb, 0x41, 0x31, 0x36],
    [0xb7, 0xd3, 0x48, 0x56, 0x0e, 0x21, 0x47, 0xe1, 0x8f, 0x37, 0x3b, 0xb6, 0x39, 0x9b, 0x7e, 0xe0],
    [0xac, 0x5d, 0xc7, 0x51, 0x5b, 0x7d, 0x13, 0xd4, 0xfe, 0x18, 0x50, 0xa4, 0x2e, 0x03, 0x3c, 0xd7],
    [0x1d, 0xf3, 0x63, 0xed, 0x8d, 0x07, 0x11, 0x83, 0x10, 0x28, 0xe7, 0xc3, 0xd1, 0xa1, 0xb9, 0x29],
    [0x98, 0x88, 0xaf, 0xcc, 0x05, 0x19, 0x25, 0x3d, 0xf8, 0xd2, 0xf1, 0xe8, 0x60, 0x2b, 0x22, 0x33],
    [0xc9, 0xf9, 0x7f, 0xa6, 0xad, 0xe5, 0x75, 0xde, 0xc6, 0xcd, 0x73, 0x30, 0x91, 0x82, 0x70, 0x2d],
    [0x4a, 0xbf, 0x77, 0x7a, 0x59, 0xa5, 0xfa, 0x6b, 0x66, 0x74, 0x1e, 0xff, 0xda, 0xb4, 0x76, 0xc8],
    [0x12, 0x3a, 0x9f, 0xa9, 0xe4, 0x4f, 0x34, 0x64, 0xc1, 0x85, 0x06, 0x93, 0x87, 0xe2, 0xbb, 0xba],
    [0xd8, 0x92, 0xf0, 0x40, 0xd9, 0xe3, 0x57, 0x01, 0x00, 0x69, 0x1b, 0xaa, 0x8c, 0x97, 0x9d, 0x42],
    [0x5c, 0x68, 0xfc, 0xb0, 0x84, 0x32, 0x04, 0x6f, 0x6d, 0xdf, 0x6e, 0xcb, 0xc2, 0x1a, 0x7b, 0x17],
    [0xa7, 0xb3, 0x55, 0x0c, 0x23, 0x89, 0x3e, 0x4b, 0xb8, 0x0d, 0x81, 0x2f, 0xae, 0xef, 0x8b, 0xb5],
    [0x72, 0xfd, 0x44, 0xb2, 0xa8, 0x6a, 0x46, 0xdd, 0xf5, 0x52, 0x2a, 0x99, 0x67, 0xc4, 0x2c, 0x65],
    [0xc0, 0x6c, 0x78, 0x3f, 0x24, 0x15, 0xdc, 0x0a, 0xbc, 0xe6, 0x9a, 0xe9, 0x90, 0x58, 0xea, 0x0f],
    [0x5f, 0xdb, 0xc5, 0x80, 0x95, 0xd5, 0x38, 0x4e, 0x26, 0xf6, 0x14, 0xec, 0x9e, 0xbd, 0x49, 0xce],
    [0x02, 0xcf, 0x53, 0xa3, 0x5e, 0x62, 0x0b, 0x71, 0x54, 0x20, 0x08, 0x79, 0x1c, 0x94, 0x16, 0x61]]"

definition TABLE_S4_64 :: "bytes" where
  "TABLE_S4_64 = concat [
    [0xc4, 0x03, 0x8c, 0xaa, 0x10, 0x86, 0x7b, 0x8a, 0xeb, 0x00, 0xf9, 0xd4, 0x87, 0x73, 0x29, 0xcf],
    [0x90, 0x36, 0xd9, 0xf6, 0x9f, 0x81, 0x60, 0x04, 0xa9, 0x37, 0xee, 0x4c, 0xec, 0x61, 0x58, 0xe0],
    [0x20, 0x9b, 0x41, 0xde, 0x25, 0x5d, 0x8d, 0x39, 0xe6, 0xe1, 0x2c, 0x96, 0x69, 0x4b, 0x7c, 0x66],
    [0x77, 0xc8, 0xab, 0xf0, 0x9a, 0x07, 0x94, 0x92, 0x3c, 0x01, 0xe2, 0x1d, 0x59, 0x75, 0x51, 0x23],
    [0x2d, 0xbc, 0x8e, 0x72, 0xa0, 0xad, 0x9d, 0x68, 0xa1, 0x1f, 0x0d, 0x63, 0xc9, 0x28, 0xb1, 0xa3],
    [0xa2, 0x09, 0x7a, 0x32, 0xa8, 0x71, 0x1e, 0x2e, 0xa7, 0xfa, 0x46, 0x55, 0xa4, 0xe7, 0x11, 0x1a],
    [0xf2, 0xea, 0xd2, 0xce, 0x78, 0x1b, 0x4f, 0x5f, 0xf5, 0xe4, 0xb7, 0xfc, 0x26, 0x3f, 0x2f, 0x05],
    [0xc6, 0x54, 0x5a, 0xd0, 0xb4, 0x3a, 0xca, 0x24, 0x6e, 0xfe, 0x06, 0x76, 0x30, 0x14, 0xc7, 0xff],
    [0xe9, 0x9c, 0xf4, 0x5e, 0x82, 0xdb, 0x70, 0x64, 0x5c, 0x62, 0x79, 0x38, 0x56, 0xf8, 0x6f, 0xda],
    [0xd3, 0xb8, 0x53, 0xe5, 0x2b, 0x67, 0x8b, 0xbf, 0xac, 0xc0, 0x15, 0xcd, 0xb9, 0x1c, 0xba, 0x08],
    [0x80, 0xd6, 0x0e, 0x34, 0x27, 0x97, 0x0f, 0x45, 0x4a, 0x95, 0x5b, 0x40, 0xcc, 0x7d, 0xd7, 0xbe],
    [0xe3, 0xb3, 0x33, 0x98, 0x48, 0x7e, 0xc5, 0xed, 0x6c, 0x6d, 0x50, 0x35, 0xd1, 0x44, 0x16, 0x52],
    [0xdc, 0xa6, 0x89, 0xb5, 0x84, 0x74, 0xd5, 0x18, 0xc1, 0xb6, 0xcb, 0x43, 0xdf, 0xae, 0x83, 0xf7],
    [0xef, 0x99, 0x42, 0x02, 0x12, 0x57, 0x88, 0x0c, 0x9e, 0x19, 0x49, 0x6a, 0xc3, 0x3b, 0xf1, 0x21],
    [0x0b, 0xdd, 0xf3, 0xc2, 0xaf, 0xe8, 0x17, 0xbb, 0x3d, 0xd8, 0x47, 0x8f, 0x4d, 0x3e, 0x6b, 0x31],
    [0x91, 0x0a, 0x7f, 0xbd, 0x93, 0x65, 0xa5, 0x2a, 0xfb, 0xb2, 0xb0, 0x13, 0xfd, 0x4e, 0x22, 0x85]]"

definition TABLE_S4_65 :: "bytes" where
  "TABLE_S4_65 = concat [
    [0x45, 0xe3, 0x0c, 0x23, 0x4a, 0x54, 0xb5, 0xd1, 0x7c, 0xe2, 0x3b, 0x99, 0x39, 0xb4, 0x8d, 0x35],
    [0x11, 0xd6, 0x59, 0x7f, 0xc5, 0x53, 0xae, 0x5f, 0x3e, 0xd5, 0x2c, 0x01, 0x52, 0xa6, 0xfc, 0x1a],
    [0xa2, 0x1d, 0x7e, 0x25, 0x4f, 0xd2, 0x41, 0x47, 0xe9, 0xd4, 0x37, 0xc8, 0x8c, 0xa0, 0x84, 0xf6],
    [0xf5, 0x4e, 0x94, 0x0b, 0xf0, 0x88, 0x58, 0xec, 0x33, 0x34, 0xf9, 0x43, 0xbc, 0x9e, 0xa9, 0xb3],
    [0x77, 0xdc, 0xaf, 0xe7, 0x7d, 0xa4, 0xcb, 0xfb, 0x72, 0x2f, 0x93, 0x80, 0x71, 0x32, 0xc4, 0xcf],
    [0xf8, 0x69, 0x5b, 0xa7, 0x75, 0x78, 0x48, 0xbd, 0x74, 0xca, 0xd8, 0xb6, 0x1c, 0xfd, 0x64, 0x76],
    [0x13, 0x81, 0x8f, 0x05, 0x61, 0xef, 0x1f, 0xf1, 0xbb, 0x2b, 0xd3, 0xa3, 0xe5, 0xc1, 0x12, 0x2a],
    [0x27, 0x3f, 0x07, 0x1b, 0xad, 0xce, 0x9a, 0x8a, 0x20, 0x31, 0x62, 0x29, 0xf3, 0xea, 0xfa, 0xd0],
    [0x06, 0x6d, 0x86, 0x30, 0xfe, 0xb2, 0x5e, 0x6a, 0x79, 0x15, 0xc0, 0x18, 0x6c, 0xc9, 0x6f, 0xdd],
    [0x3c, 0x49, 0x21, 0x8b, 0x57, 0x0e, 0xa5, 0xb1, 0x89, 0xb7, 0xac, 0xed, 0x83, 0x2d, 0xba, 0x0f],
    [0x36, 0x66, 0xe6, 0x4d, 0x9d, 0xab, 0x10, 0x38, 0xb9, 0xb8, 0x85, 0xe0, 0x04, 0x91, 0xc3, 0x87],
    [0x55, 0x03, 0xdb, 0xe1, 0xf2, 0x42, 0xda, 0x90, 0x9f, 0x40, 0x8e, 0x95, 0x19, 0xa8, 0x02, 0x6b],
    [0x3a, 0x4c, 0x97, 0xd7, 0xc7, 0x82, 0x5d, 0xd9, 0x4b, 0xcc, 0x9c, 0xbf, 0x16, 0xee, 0x24, 0xf4],
    [0x09, 0x73, 0x5c, 0x60, 0x51, 0xa1, 0x00, 0xcd, 0x14, 0x63, 0x1e, 0x96, 0x0a, 0x7b, 0x56, 0x22],
    [0x44, 0xdf, 0xaa, 0x68, 0x46, 0xb0, 0x70, 0xff, 0x2e, 0x67, 0x65, 0xc6, 0x28, 0x9b, 0xf7, 0x50],
    [0xde, 0x08, 0x26, 0x17, 0x7a, 0x3d, 0xc2, 0x6e, 0xe8, 0x0d, 0x92, 0x5a, 0x98, 0xeb, 0xbe, 0xe4]]"

definition TABLE_S4_66 :: "bytes" where
  "TABLE_S4_66 = concat [
    [0x93, 0xbe, 0x47, 0xac, 0x88, 0x6e, 0x34, 0xc0, 0xed, 0xcb, 0x44, 0x83, 0xcd, 0x3c, 0xc1, 0x57],
    [0x0b, 0xa9, 0x70, 0xee, 0xa7, 0x1f, 0x26, 0xab, 0xb1, 0x9e, 0x71, 0xd7, 0x43, 0x27, 0xc6, 0xd8],
    [0xd1, 0x6b, 0xa6, 0xa1, 0x21, 0x3b, 0x0c, 0x2e, 0x99, 0x06, 0xdc, 0x67, 0x7e, 0xca, 0x1a, 0x62],
    [0x5a, 0xa5, 0x46, 0x7b, 0x64, 0x16, 0x32, 0x1e, 0xb7, 0xec, 0x8f, 0x30, 0xd5, 0xd3, 0x40, 0xdd],
    [0x24, 0x4a, 0x58, 0xe6, 0xe4, 0xf6, 0x6f, 0x8e, 0x35, 0xc9, 0xfb, 0x6a, 0x2f, 0xda, 0xea, 0xe7],
    [0x12, 0x01, 0xbd, 0xe0, 0x5d, 0x56, 0xa0, 0xe3, 0x75, 0x3d, 0x4e, 0xe5, 0x69, 0x59, 0x36, 0xef],
    [0xbb, 0xf0, 0xa3, 0xb2, 0x42, 0x68, 0x78, 0x61, 0x89, 0x95, 0xad, 0xb5, 0x18, 0x08, 0x5c, 0x3f],
    [0x31, 0x41, 0xb9, 0x29, 0xb8, 0x80, 0x53, 0x77, 0x97, 0x1d, 0x13, 0x81, 0x63, 0x8d, 0x7d, 0xf3],
    [0x7f, 0x3e, 0x25, 0x1b, 0x9d, 0x28, 0xbf, 0x11, 0x19, 0xb3, 0xdb, 0xae, 0x23, 0x37, 0x9c, 0xc5],
    [0x8a, 0x52, 0x87, 0xeb, 0x4f, 0xfd, 0x5b, 0xfe, 0xa2, 0x14, 0xff, 0x94, 0xf8, 0xcc, 0x20, 0x6c],
    [0x07, 0x1c, 0xd2, 0x0d, 0xf9, 0x90, 0x3a, 0x8b, 0x73, 0x49, 0x91, 0xc7, 0x02, 0x48, 0xd0, 0x60],
    [0x72, 0x17, 0x2a, 0x2b, 0x15, 0x51, 0x03, 0x96, 0xdf, 0x74, 0xf4, 0xa4, 0xaa, 0x82, 0x39, 0x0f],
    [0x04, 0x8c, 0xf1, 0x86, 0xb0, 0xc4, 0xe9, 0x98, 0xf2, 0xce, 0xe1, 0x9b, 0x5f, 0x92, 0x33, 0xc3],
    [0x2d, 0x0e, 0x5e, 0xd9, 0x66, 0xb6, 0x7c, 0x84, 0x45, 0x05, 0xde, 0xa8, 0x4b, 0xcf, 0x10, 0x55],
    [0xc8, 0x00, 0x9f, 0x7a, 0x76, 0x2c, 0x79, 0x0a, 0x85, 0xb4, 0x9a, 0x4c, 0xfc, 0x50, 0xaf, 0xe8],
    [0x54, 0xf7, 0xf5, 0xbc, 0xc2, 0x65, 0x09, 0xba, 0xfa, 0x38, 0x4d, 0xd6, 0x6d, 0xe2, 0x22, 0xd4]]"

definition TABLE_S4_67 :: "bytes" where
  "TABLE_S4_67 = concat [
    [0x52, 0x54, 0x5c, 0xc1, 0x6d, 0x36, 0xb1, 0x0e, 0x97, 0xe5, 0x9f, 0xb3, 0x24, 0xdb, 0xfa, 0xc7],
    [0x4b, 0xff, 0xe3, 0x9b, 0x87, 0x18, 0xe6, 0x5d, 0xba, 0xa0, 0xaf, 0x8d, 0xea, 0x50, 0x20, 0x27],
    [0xa6, 0xc2, 0x59, 0x47, 0x1f, 0x30, 0x56, 0xf0, 0x9e, 0x26, 0x2a, 0xa7, 0x28, 0x8a, 0x6f, 0xf1],
    [0xbd, 0x4c, 0xd6, 0x40, 0x4a, 0x6c, 0x02, 0xc5, 0xef, 0x09, 0x41, 0xb5, 0x3f, 0x12, 0x2d, 0xc6],
    [0x0c, 0xe2, 0x72, 0xfc, 0x9c, 0x16, 0x00, 0x92, 0x01, 0x39, 0xf6, 0xd2, 0xc0, 0xb0, 0xa8, 0x38],
    [0x89, 0x99, 0xbe, 0xdd, 0x14, 0x08, 0x34, 0x2c, 0xe9, 0xc3, 0xe0, 0xf9, 0x71, 0x3a, 0x33, 0x22],
    [0xd8, 0xe8, 0x6e, 0xb7, 0xbc, 0xf4, 0x64, 0xcf, 0xd7, 0xdc, 0x62, 0x21, 0x80, 0x93, 0x61, 0x3c],
    [0x5b, 0xae, 0x66, 0x6b, 0x48, 0xb4, 0xeb, 0x7a, 0x77, 0x65, 0x0f, 0xee, 0xcb, 0xa5, 0x67, 0xd9],
    [0x03, 0x2b, 0x8e, 0xb8, 0xf5, 0x5e, 0x25, 0x75, 0xd0, 0x94, 0x17, 0x82, 0x96, 0xf3, 0xaa, 0xab],
    [0xc9, 0x83, 0xe1, 0x51, 0xc8, 0xf2, 0x46, 0x10, 0x11, 0x78, 0x0a, 0xbb, 0x9d, 0x86, 0x8c, 0x53],
    [0x4d, 0x79, 0xed, 0xa1, 0x95, 0x23, 0x15, 0x7e, 0x7c, 0xce, 0x7f, 0xda, 0xd3, 0x0b, 0x6a, 0x06],
    [0xb6, 0xa2, 0x44, 0x1d, 0x32, 0x98, 0x2f, 0x5a, 0xa9, 0x1c, 0x90, 0x3e, 0xbf, 0xfe, 0x9a, 0xa4],
    [0x63, 0xec, 0x55, 0xa3, 0xb9, 0x7b, 0x57, 0xcc, 0xe4, 0x43, 0x3b, 0x88, 0x76, 0xd5, 0x3d, 0x74],
    [0xd1, 0x7d, 0x69, 0x2e, 0x35, 0x04, 0xcd, 0x1b, 0xad, 0xf7, 0x8b, 0xf8, 0x81, 0x49, 0xfb, 0x1e],
    [0x4e, 0xca, 0xd4, 0x91, 0x84, 0xc4, 0x29, 0x5f, 0x37, 0xe7, 0x05, 0xfd, 0x8f, 0xac, 0x58, 0xdf],
    [0x13, 0xde, 0x42, 0xb2, 0x4f, 0x73, 0x1a, 0x60, 0x45, 0x31, 0x19, 0x68, 0x0d, 0x85, 0x07, 0x70]]"

definition TABLE_S4_68 :: "bytes" where
  "TABLE_S4_68 = concat [
    [0x76, 0xb1, 0x3e, 0x18, 0xa2, 0x34, 0xc9, 0x38, 0x59, 0xb2, 0x4b, 0x66, 0x35, 0xc1, 0x9b, 0x7d],
    [0x22, 0x84, 0x6b, 0x44, 0x2d, 0x33, 0xd2, 0xb6, 0x1b, 0x85, 0x5c, 0xfe, 0x5e, 0xd3, 0xea, 0x52],
    [0x92, 0x29, 0xf3, 0x6c, 0x97, 0xef, 0x3f, 0x8b, 0x54, 0x53, 0x9e, 0x24, 0xdb, 0xf9, 0xce, 0xd4],
    [0xc5, 0x7a, 0x19, 0x42, 0x28, 0xb5, 0x26, 0x20, 0x8e, 0xb3, 0x50, 0xaf, 0xeb, 0xc7, 0xe3, 0x91],
    [0x9f, 0x0e, 0x3c, 0xc0, 0x12, 0x1f, 0x2f, 0xda, 0x13, 0xad, 0xbf, 0xd1, 0x7b, 0x9a, 0x03, 0x11],
    [0x10, 0xbb, 0xc8, 0x80, 0x1a, 0xc3, 0xac, 0x9c, 0x15, 0x48, 0xf4, 0xe7, 0x16, 0x55, 0xa3, 0xa8],
    [0x40, 0x58, 0x60, 0x7c, 0xca, 0xa9, 0xfd, 0xed, 0x47, 0x56, 0x05, 0x4e, 0x94, 0x8d, 0x9d, 0xb7],
    [0x74, 0xe6, 0xe8, 0x62, 0x06, 0x88, 0x78, 0x96, 0xdc, 0x4c, 0xb4, 0xc4, 0x82, 0xa6, 0x75, 0x4d],
    [0x5b, 0x2e, 0x46, 0xec, 0x30, 0x69, 0xc2, 0xd6, 0xee, 0xd0, 0xcb, 0x8a, 0xe4, 0x4a, 0xdd, 0x68],
    [0x61, 0x0a, 0xe1, 0x57, 0x99, 0xd5, 0x39, 0x0d, 0x1e, 0x72, 0xa7, 0x7f, 0x0b, 0xae, 0x08, 0xba],
    [0x32, 0x64, 0xbc, 0x86, 0x95, 0x25, 0xbd, 0xf7, 0xf8, 0x27, 0xe9, 0xf2, 0x7e, 0xcf, 0x65, 0x0c],
    [0x51, 0x01, 0x81, 0x2a, 0xfa, 0xcc, 0x77, 0x5f, 0xde, 0xdf, 0xe2, 0x87, 0x63, 0xf6, 0xa4, 0xe0],
    [0x6e, 0x14, 0x3b, 0x07, 0x36, 0xc6, 0x67, 0xaa, 0x73, 0x04, 0x79, 0xf1, 0x6d, 0x1c, 0x31, 0x45],
    [0x5d, 0x2b, 0xf0, 0xb0, 0xa0, 0xe5, 0x3a, 0xbe, 0x2c, 0xab, 0xfb, 0xd8, 0x71, 0x89, 0x43, 0x93],
    [0xb9, 0x6f, 0x41, 0x70, 0x1d, 0x5a, 0xa5, 0x09, 0x8f, 0x6a, 0xf5, 0x3d, 0xff, 0x8c, 0xd9, 0x83],
    [0x23, 0xb8, 0xcd, 0x0f, 0x21, 0xd7, 0x17, 0x98, 0x49, 0x00, 0x02, 0xa1, 0x4f, 0xfc, 0x90, 0x37]]"

definition TABLE_S4_69 :: "bytes" where
  "TABLE_S4_69 = concat [
    [0x86, 0x20, 0xcf, 0xe0, 0x89, 0x97, 0x76, 0x12, 0xbf, 0x21, 0xf8, 0x5a, 0xfa, 0x77, 0x4e, 0xf6],
    [0xd2, 0x15, 0x9a, 0xbc, 0x06, 0x90, 0x6d, 0x9c, 0xfd, 0x16, 0xef, 0xc2, 0x91, 0x65, 0x3f, 0xd9],
    [0x61, 0xde, 0xbd, 0xe6, 0x8c, 0x11, 0x82, 0x84, 0x2a, 0x17, 0xf4, 0x0b, 0x4f, 0x63, 0x47, 0x35],
    [0x36, 0x8d, 0x57, 0xc8, 0x33, 0x4b, 0x9b, 0x2f, 0xf0, 0xf7, 0x3a, 0x80, 0x7f, 0x5d, 0x6a, 0x70],
    [0xb4, 0x1f, 0x6c, 0x24, 0xbe, 0x67, 0x08, 0x38, 0xb1, 0xec, 0x50, 0x43, 0xb2, 0xf1, 0x07, 0x0c],
    [0x3b, 0xaa, 0x98, 0x64, 0xb6, 0xbb, 0x8b, 0x7e, 0xb7, 0x09, 0x1b, 0x75, 0xdf, 0x3e, 0xa7, 0xb5],
    [0xd0, 0x42, 0x4c, 0xc6, 0xa2, 0x2c, 0xdc, 0x32, 0x78, 0xe8, 0x10, 0x60, 0x26, 0x02, 0xd1, 0xe9],
    [0xe4, 0xfc, 0xc4, 0xd8, 0x6e, 0x0d, 0x59, 0x49, 0xe3, 0xf2, 0xa1, 0xea, 0x30, 0x29, 0x39, 0x13],
    [0xc5, 0xae, 0x45, 0xf3, 0x3d, 0x71, 0x9d, 0xa9, 0xba, 0xd6, 0x03, 0xdb, 0xaf, 0x0a, 0xac, 0x1e],
    [0xff, 0x8a, 0xe2, 0x48, 0x94, 0xcd, 0x66, 0x72, 0x4a, 0x74, 0x6f, 0x2e, 0x40, 0xee, 0x79, 0xcc],
    [0xf5, 0xa5, 0x25, 0x8e, 0x5e, 0x68, 0xd3, 0xfb, 0x7a, 0x7b, 0x46, 0x23, 0xc7, 0x52, 0x00, 0x44],
    [0x96, 0xc0, 0x18, 0x22, 0x31, 0x81, 0x19, 0x53, 0x5c, 0x83, 0x4d, 0x56, 0xda, 0x6b, 0xc1, 0xa8],
    [0xf9, 0x8f, 0x54, 0x14, 0x04, 0x41, 0x9e, 0x1a, 0x88, 0x0f, 0x5f, 0x7c, 0xd5, 0x2d, 0xe7, 0x37],
    [0xca, 0xb0, 0x9f, 0xa3, 0x92, 0x62, 0xc3, 0x0e, 0xd7, 0xa0, 0xdd, 0x55, 0xc9, 0xb8, 0x95, 0xe1],
    [0x87, 0x1c, 0x69, 0xab, 0x85, 0x73, 0xb3, 0x3c, 0xed, 0xa4, 0xa6, 0x05, 0xeb, 0x58, 0x34, 0x93],
    [0x1d, 0xcb, 0xe5, 0xd4, 0xb9, 0xfe, 0x01, 0xad, 0x2b, 0xce, 0x51, 0x99, 0x5b, 0x28, 0x7d, 0x27]]"

definition TABLE_S4_70 :: "bytes" where
  "TABLE_S4_70 = concat [
    [0x6e, 0x43, 0xba, 0x51, 0x75, 0x93, 0xc9, 0x3d, 0x10, 0x36, 0xb9, 0x7e, 0x30, 0xc1, 0x3c, 0xaa],
    [0xf6, 0x54, 0x8d, 0x13, 0x5a, 0xe2, 0xdb, 0x56, 0x4c, 0x63, 0x8c, 0x2a, 0xbe, 0xda, 0x3b, 0x25],
    [0x2c, 0x96, 0x5b, 0x5c, 0xdc, 0xc6, 0xf1, 0xd3, 0x64, 0xfb, 0x21, 0x9a, 0x83, 0x37, 0xe7, 0x9f],
    [0xa7, 0x58, 0xbb, 0x86, 0x99, 0xeb, 0xcf, 0xe3, 0x4a, 0x11, 0x72, 0xcd, 0x28, 0x2e, 0xbd, 0x20],
    [0xd9, 0xb7, 0xa5, 0x1b, 0x19, 0x0b, 0x92, 0x73, 0xc8, 0x34, 0x06, 0x97, 0xd2, 0x27, 0x17, 0x1a],
    [0xef, 0xfc, 0x40, 0x1d, 0xa0, 0xab, 0x5d, 0x1e, 0x88, 0xc0, 0xb3, 0x18, 0x94, 0xa4, 0xcb, 0x12],
    [0x46, 0x0d, 0x5e, 0x4f, 0xbf, 0x95, 0x85, 0x9c, 0x74, 0x68, 0x50, 0x48, 0xe5, 0xf5, 0xa1, 0xc2],
    [0xcc, 0xbc, 0x44, 0xd4, 0x45, 0x7d, 0xae, 0x8a, 0x6a, 0xe0, 0xee, 0x7c, 0x9e, 0x70, 0x80, 0x0e],
    [0x82, 0xc3, 0xd8, 0xe6, 0x60, 0xd5, 0x42, 0xec, 0xe4, 0x4e, 0x26, 0x53, 0xde, 0xca, 0x61, 0x38],
    [0x77, 0xaf, 0x7a, 0x16, 0xb2, 0x00, 0xa6, 0x03, 0x5f, 0xe9, 0x02, 0x69, 0x05, 0x31, 0xdd, 0x91],
    [0xfa, 0xe1, 0x2f, 0xf0, 0x04, 0x6d, 0xc7, 0x76, 0x8e, 0xb4, 0x6c, 0x3a, 0xff, 0xb5, 0x2d, 0x9d],
    [0x8f, 0xea, 0xd7, 0xd6, 0xe8, 0xac, 0xfe, 0x6b, 0x22, 0x89, 0x09, 0x59, 0x57, 0x7f, 0xc4, 0xf2],
    [0xf9, 0x71, 0x0c, 0x7b, 0x4d, 0x39, 0x14, 0x65, 0x0f, 0x33, 0x1c, 0x66, 0xa2, 0x6f, 0xce, 0x3e],
    [0xd0, 0xf3, 0xa3, 0x24, 0x9b, 0x4b, 0x81, 0x79, 0xb8, 0xf8, 0x23, 0x55, 0xb6, 0x32, 0xed, 0xa8],
    [0x35, 0xfd, 0x62, 0x87, 0x8b, 0xd1, 0x84, 0xf7, 0x78, 0x49, 0x67, 0xb1, 0x01, 0xad, 0x52, 0x15],
    [0xa9, 0x0a, 0x08, 0x41, 0x3f, 0x98, 0xf4, 0x47, 0x07, 0xc5, 0xb0, 0x2b, 0x90, 0x1f, 0xdf, 0x29]]"

definition TABLE_S4_71 :: "bytes" where
  "TABLE_S4_71 = concat [
    [0x95, 0x93, 0x9b, 0x06, 0xaa, 0xf1, 0x76, 0xc9, 0x50, 0x22, 0x58, 0x74, 0xe3, 0x1c, 0x3d, 0x00],
    [0x8c, 0x38, 0x24, 0x5c, 0x40, 0xdf, 0x21, 0x9a, 0x7d, 0x67, 0x68, 0x4a, 0x2d, 0x97, 0xe7, 0xe0],
    [0x61, 0x05, 0x9e, 0x80, 0xd8, 0xf7, 0x91, 0x37, 0x59, 0xe1, 0xed, 0x60, 0xef, 0x4d, 0xa8, 0x36],
    [0x7a, 0x8b, 0x11, 0x87, 0x8d, 0xab, 0xc5, 0x02, 0x28, 0xce, 0x86, 0x72, 0xf8, 0xd5, 0xea, 0x01],
    [0xcb, 0x25, 0xb5, 0x3b, 0x5b, 0xd1, 0xc7, 0x55, 0xc6, 0xfe, 0x31, 0x15, 0x07, 0x77, 0x6f, 0xff],
    [0x4e, 0x5e, 0x79, 0x1a, 0xd3, 0xcf, 0xf3, 0xeb, 0x2e, 0x04, 0x27, 0x3e, 0xb6, 0xfd, 0xf4, 0xe5],
    [0x1f, 0x2f, 0xa9, 0x70, 0x7b, 0x33, 0xa3, 0x08, 0x10, 0x1b, 0xa5, 0xe6, 0x47, 0x54, 0xa6, 0xfb],
    [0x9c, 0x69, 0xa1, 0xac, 0x8f, 0x73, 0x2c, 0xbd, 0xb0, 0xa2, 0xc8, 0x29, 0x0c, 0x62, 0xa0, 0x1e],
    [0xc4, 0xec, 0x49, 0x7f, 0x32, 0x99, 0xe2, 0xb2, 0x17, 0x53, 0xd0, 0x45, 0x51, 0x34, 0x6d, 0x6c],
    [0x0e, 0x44, 0x26, 0x96, 0x0f, 0x35, 0x81, 0xd7, 0xd6, 0xbf, 0xcd, 0x7c, 0x5a, 0x41, 0x4b, 0x94],
    [0x8a, 0xbe, 0x2a, 0x66, 0x52, 0xe4, 0xd2, 0xb9, 0xbb, 0x09, 0xb8, 0x1d, 0x14, 0xcc, 0xad, 0xc1],
    [0x71, 0x65, 0x83, 0xda, 0xf5, 0x5f, 0xe8, 0x9d, 0x6e, 0xdb, 0x57, 0xf9, 0x78, 0x39, 0x5d, 0x63],
    [0xa4, 0x2b, 0x92, 0x64, 0x7e, 0xbc, 0x90, 0x0b, 0x23, 0x84, 0xfc, 0x4f, 0xb1, 0x12, 0xfa, 0xb3],
    [0x16, 0xba, 0xae, 0xe9, 0xf2, 0xc3, 0x0a, 0xdc, 0x6a, 0x30, 0x4c, 0x3f, 0x46, 0x8e, 0x3c, 0xd9],
    [0x89, 0x0d, 0x13, 0x56, 0x43, 0x03, 0xee, 0x98, 0xf0, 0x20, 0xc2, 0x3a, 0x48, 0x6b, 0x9f, 0x18],
    [0xd4, 0x19, 0x85, 0x75, 0x88, 0xb4, 0xdd, 0xa7, 0x82, 0xf6, 0xde, 0xaf, 0xca, 0x42, 0xc0, 0xb7]]"

definition TABLE_S4_72 :: "bytes" where
  "TABLE_S4_72 = concat [
    [0x56, 0x91, 0x1e, 0x38, 0x82, 0x14, 0xe9, 0x18, 0x79, 0x92, 0x6b, 0x46, 0x15, 0xe1, 0xbb, 0x5d],
    [0x02, 0xa4, 0x4b, 0x64, 0x0d, 0x13, 0xf2, 0x96, 0x3b, 0xa5, 0x7c, 0xde, 0x7e, 0xf3, 0xca, 0x72],
    [0xb2, 0x09, 0xd3, 0x4c, 0xb7, 0xcf, 0x1f, 0xab, 0x74, 0x73, 0xbe, 0x04, 0xfb, 0xd9, 0xee, 0xf4],
    [0xe5, 0x5a, 0x39, 0x62, 0x08, 0x95, 0x06, 0x00, 0xae, 0x93, 0x70, 0x8f, 0xcb, 0xe7, 0xc3, 0xb1],
    [0xbf, 0x2e, 0x1c, 0xe0, 0x32, 0x3f, 0x0f, 0xfa, 0x33, 0x8d, 0x9f, 0xf1, 0x5b, 0xba, 0x23, 0x31],
    [0x30, 0x9b, 0xe8, 0xa0, 0x3a, 0xe3, 0x8c, 0xbc, 0x35, 0x68, 0xd4, 0xc7, 0x36, 0x75, 0x83, 0x88],
    [0x60, 0x78, 0x40, 0x5c, 0xea, 0x89, 0xdd, 0xcd, 0x67, 0x76, 0x25, 0x6e, 0xb4, 0xad, 0xbd, 0x97],
    [0x54, 0xc6, 0xc8, 0x42, 0x26, 0xa8, 0x58, 0xb6, 0xfc, 0x6c, 0x94, 0xe4, 0xa2, 0x86, 0x55, 0x6d],
    [0x7b, 0x0e, 0x66, 0xcc, 0x10, 0x49, 0xe2, 0xf6, 0xce, 0xf0, 0xeb, 0xaa, 0xc4, 0x6a, 0xfd, 0x48],
    [0x41, 0x2a, 0xc1, 0x77, 0xb9, 0xf5, 0x19, 0x2d, 0x3e, 0x52, 0x87, 0x5f, 0x2b, 0x8e, 0x28, 0x9a],
    [0x12, 0x44, 0x9c, 0xa6, 0xb5, 0x05, 0x9d, 0xd7, 0xd8, 0x07, 0xc9, 0xd2, 0x5e, 0xef, 0x45, 0x2c],
    [0x71, 0x21, 0xa1, 0x0a, 0xda, 0xec, 0x57, 0x7f, 0xfe, 0xff, 0xc2, 0xa7, 0x43, 0xd6, 0x84, 0xc0],
    [0x4e, 0x34, 0x1b, 0x27, 0x16, 0xe6, 0x47, 0x8a, 0x53, 0x24, 0x59, 0xd1, 0x4d, 0x3c, 0x11, 0x65],
    [0x7d, 0x0b, 0xd0, 0x90, 0x80, 0xc5, 0x1a, 0x9e, 0x0c, 0x8b, 0xdb, 0xf8, 0x51, 0xa9, 0x63, 0xb3],
    [0x99, 0x4f, 0x61, 0x50, 0x3d, 0x7a, 0x85, 0x29, 0xaf, 0x4a, 0xd5, 0x1d, 0xdf, 0xac, 0xf9, 0xa3],
    [0x03, 0x98, 0xed, 0x2f, 0x01, 0xf7, 0x37, 0xb8, 0x69, 0x20, 0x22, 0x81, 0x6f, 0xdc, 0xb0, 0x17]]"

definition TABLE_S4_73 :: "bytes" where
  "TABLE_S4_73 = concat [
    [0x3a, 0x9c, 0x73, 0x5c, 0x35, 0x2b, 0xca, 0xae, 0x03, 0x9d, 0x44, 0xe6, 0x46, 0xcb, 0xf2, 0x4a],
    [0x6e, 0xa9, 0x26, 0x00, 0xba, 0x2c, 0xd1, 0x20, 0x41, 0xaa, 0x53, 0x7e, 0x2d, 0xd9, 0x83, 0x65],
    [0xdd, 0x62, 0x01, 0x5a, 0x30, 0xad, 0x3e, 0x38, 0x96, 0xab, 0x48, 0xb7, 0xf3, 0xdf, 0xfb, 0x89],
    [0x8a, 0x31, 0xeb, 0x74, 0x8f, 0xf7, 0x27, 0x93, 0x4c, 0x4b, 0x86, 0x3c, 0xc3, 0xe1, 0xd6, 0xcc],
    [0x08, 0xa3, 0xd0, 0x98, 0x02, 0xdb, 0xb4, 0x84, 0x0d, 0x50, 0xec, 0xff, 0x0e, 0x4d, 0xbb, 0xb0],
    [0x87, 0x16, 0x24, 0xd8, 0x0a, 0x07, 0x37, 0xc2, 0x0b, 0xb5, 0xa7, 0xc9, 0x63, 0x82, 0x1b, 0x09],
    [0x6c, 0xfe, 0xf0, 0x7a, 0x1e, 0x90, 0x60, 0x8e, 0xc4, 0x54, 0xac, 0xdc, 0x9a, 0xbe, 0x6d, 0x55],
    [0x58, 0x40, 0x78, 0x64, 0xd2, 0xb1, 0xe5, 0xf5, 0x5f, 0x4e, 0x1d, 0x56, 0x8c, 0x95, 0x85, 0xaf],
    [0x79, 0x12, 0xf9, 0x4f, 0x81, 0xcd, 0x21, 0x15, 0x06, 0x6a, 0xbf, 0x67, 0x13, 0xb6, 0x10, 0xa2],
    [0x43, 0x36, 0x5e, 0xf4, 0x28, 0x71, 0xda, 0xce, 0xf6, 0xc8, 0xd3, 0x92, 0xfc, 0x52, 0xc5, 0x70],
    [0x49, 0x19, 0x99, 0x32, 0xe2, 0xd4, 0x6f, 0x47, 0xc6, 0xc7, 0xfa, 0x9f, 0x7b, 0xee, 0xbc, 0xf8],
    [0x2a, 0x7c, 0xa4, 0x9e, 0x8d, 0x3d, 0xa5, 0xef, 0xe0, 0x3f, 0xf1, 0xea, 0x66, 0xd7, 0x7d, 0x14],
    [0x45, 0x33, 0xe8, 0xa8, 0xb8, 0xfd, 0x22, 0xa6, 0x34, 0xb3, 0xe3, 0xc0, 0x69, 0x91, 0x5b, 0x8b],
    [0x76, 0x0c, 0x23, 0x1f, 0x2e, 0xde, 0x7f, 0xb2, 0x6b, 0x1c, 0x61, 0xe9, 0x75, 0x04, 0x29, 0x5d],
    [0x3b, 0xa0, 0xd5, 0x17, 0x39, 0xcf, 0x0f, 0x80, 0x51, 0x18, 0x1a, 0xb9, 0x57, 0xe4, 0x88, 0x2f],
    [0xa1, 0x77, 0x59, 0x68, 0x05, 0x42, 0xbd, 0x11, 0x97, 0x72, 0xed, 0x25, 0xe7, 0x94, 0xc1, 0x9b]]"

definition TABLE_S4_74 :: "bytes" where
  "TABLE_S4_74 = concat [
    [0xda, 0xf7, 0x0e, 0xe5, 0xc1, 0x27, 0x7d, 0x89, 0xa4, 0x82, 0x0d, 0xca, 0x84, 0x75, 0x88, 0x1e],
    [0x42, 0xe0, 0x39, 0xa7, 0xee, 0x56, 0x6f, 0xe2, 0xf8, 0xd7, 0x38, 0x9e, 0x0a, 0x6e, 0x8f, 0x91],
    [0x98, 0x22, 0xef, 0xe8, 0x68, 0x72, 0x45, 0x67, 0xd0, 0x4f, 0x95, 0x2e, 0x37, 0x83, 0x53, 0x2b],
    [0x13, 0xec, 0x0f, 0x32, 0x2d, 0x5f, 0x7b, 0x57, 0xfe, 0xa5, 0xc6, 0x79, 0x9c, 0x9a, 0x09, 0x94],
    [0x6d, 0x03, 0x11, 0xaf, 0xad, 0xbf, 0x26, 0xc7, 0x7c, 0x80, 0xb2, 0x23, 0x66, 0x93, 0xa3, 0xae],
    [0x5b, 0x48, 0xf4, 0xa9, 0x14, 0x1f, 0xe9, 0xaa, 0x3c, 0x74, 0x07, 0xac, 0x20, 0x10, 0x7f, 0xa6],
    [0xf2, 0xb9, 0xea, 0xfb, 0x0b, 0x21, 0x31, 0x28, 0xc0, 0xdc, 0xe4, 0xfc, 0x51, 0x41, 0x15, 0x76],
    [0x78, 0x08, 0xf0, 0x60, 0xf1, 0xc9, 0x1a, 0x3e, 0xde, 0x54, 0x5a, 0xc8, 0x2a, 0xc4, 0x34, 0xba],
    [0x36, 0x77, 0x6c, 0x52, 0xd4, 0x61, 0xf6, 0x58, 0x50, 0xfa, 0x92, 0xe7, 0x6a, 0x7e, 0xd5, 0x8c],
    [0xc3, 0x1b, 0xce, 0xa2, 0x06, 0xb4, 0x12, 0xb7, 0xeb, 0x5d, 0xb6, 0xdd, 0xb1, 0x85, 0x69, 0x25],
    [0x4e, 0x55, 0x9b, 0x44, 0xb0, 0xd9, 0x73, 0xc2, 0x3a, 0x00, 0xd8, 0x8e, 0x4b, 0x01, 0x99, 0x29],
    [0x3b, 0x5e, 0x63, 0x62, 0x5c, 0x18, 0x4a, 0xdf, 0x96, 0x3d, 0xbd, 0xed, 0xe3, 0xcb, 0x70, 0x46],
    [0x4d, 0xc5, 0xb8, 0xcf, 0xf9, 0x8d, 0xa0, 0xd1, 0xbb, 0x87, 0xa8, 0xd2, 0x16, 0xdb, 0x7a, 0x8a],
    [0x64, 0x47, 0x17, 0x90, 0x2f, 0xff, 0x35, 0xcd, 0x0c, 0x4c, 0x97, 0xe1, 0x02, 0x86, 0x59, 0x1c],
    [0x81, 0x49, 0xd6, 0x33, 0x3f, 0x65, 0x30, 0x43, 0xcc, 0xfd, 0xd3, 0x05, 0xb5, 0x19, 0xe6, 0xa1],
    [0x1d, 0xbe, 0xbc, 0xf5, 0x8b, 0x2c, 0x40, 0xf3, 0xb3, 0x71, 0x04, 0x9f, 0x24, 0xab, 0x6b, 0x9d]]"

definition TABLE_S4_75 :: "bytes" where
  "TABLE_S4_75 = concat [
    [0xea, 0xec, 0xe4, 0x79, 0xd5, 0x8e, 0x09, 0xb6, 0x2f, 0x5d, 0x27, 0x0b, 0x9c, 0x63, 0x42, 0x7f],
    [0xf3, 0x47, 0x5b, 0x23, 0x3f, 0xa0, 0x5e, 0xe5, 0x02, 0x18, 0x17, 0x35, 0x52, 0xe8, 0x98, 0x9f],
    [0x1e, 0x7a, 0xe1, 0xff, 0xa7, 0x88, 0xee, 0x48, 0x26, 0x9e, 0x92, 0x1f, 0x90, 0x32, 0xd7, 0x49],
    [0x05, 0xf4, 0x6e, 0xf8, 0xf2, 0xd4, 0xba, 0x7d, 0x57, 0xb1, 0xf9, 0x0d, 0x87, 0xaa, 0x95, 0x7e],
    [0xb4, 0x5a, 0xca, 0x44, 0x24, 0xae, 0xb8, 0x2a, 0xb9, 0x81, 0x4e, 0x6a, 0x78, 0x08, 0x10, 0x80],
    [0x31, 0x21, 0x06, 0x65, 0xac, 0xb0, 0x8c, 0x94, 0x51, 0x7b, 0x58, 0x41, 0xc9, 0x82, 0x8b, 0x9a],
    [0x60, 0x50, 0xd6, 0x0f, 0x04, 0x4c, 0xdc, 0x77, 0x6f, 0x64, 0xda, 0x99, 0x38, 0x2b, 0xd9, 0x84],
    [0xe3, 0x16, 0xde, 0xd3, 0xf0, 0x0c, 0x53, 0xc2, 0xcf, 0xdd, 0xb7, 0x56, 0x73, 0x1d, 0xdf, 0x61],
    [0xbb, 0x93, 0x36, 0x00, 0x4d, 0xe6, 0x9d, 0xcd, 0x68, 0x2c, 0xaf, 0x3a, 0x2e, 0x4b, 0x12, 0x13],
    [0x71, 0x3b, 0x59, 0xe9, 0x70, 0x4a, 0xfe, 0xa8, 0xa9, 0xc0, 0xb2, 0x03, 0x25, 0x3e, 0x34, 0xeb],
    [0xf5, 0xc1, 0x55, 0x19, 0x2d, 0x9b, 0xad, 0xc6, 0xc4, 0x76, 0xc7, 0x62, 0x6b, 0xb3, 0xd2, 0xbe],
    [0x0e, 0x1a, 0xfc, 0xa5, 0x8a, 0x20, 0x97, 0xe2, 0x11, 0xa4, 0x28, 0x86, 0x07, 0x46, 0x22, 0x1c],
    [0xdb, 0x54, 0xed, 0x1b, 0x01, 0xc3, 0xef, 0x74, 0x5c, 0xfb, 0x83, 0x30, 0xce, 0x6d, 0x85, 0xcc],
    [0x69, 0xc5, 0xd1, 0x96, 0x8d, 0xbc, 0x75, 0xa3, 0x15, 0x4f, 0x33, 0x40, 0x39, 0xf1, 0x43, 0xa6],
    [0xf6, 0x72, 0x6c, 0x29, 0x3c, 0x7c, 0x91, 0xe7, 0x8f, 0x5f, 0xbd, 0x45, 0x37, 0x14, 0xe0, 0x67],
    [0xab, 0x66, 0xfa, 0x0a, 0xf7, 0xcb, 0xa2, 0xd8, 0xfd, 0x89, 0xa1, 0xd0, 0xb5, 0x3d, 0xbf, 0xc8]]"

definition TABLE_S4_76 :: "bytes" where
  "TABLE_S4_76 = concat [
    [0x51, 0x96, 0x19, 0x3f, 0x85, 0x13, 0xee, 0x1f, 0x7e, 0x95, 0x6c, 0x41, 0x12, 0xe6, 0xbc, 0x5a],
    [0x05, 0xa3, 0x4c, 0x63, 0x0a, 0x14, 0xf5, 0x91, 0x3c, 0xa2, 0x7b, 0xd9, 0x79, 0xf4, 0xcd, 0x75],
    [0xb5, 0x0e, 0xd4, 0x4b, 0xb0, 0xc8, 0x18, 0xac, 0x73, 0x74, 0xb9, 0x03, 0xfc, 0xde, 0xe9, 0xf3],
    [0xe2, 0x5d, 0x3e, 0x65, 0x0f, 0x92, 0x01, 0x07, 0xa9, 0x94, 0x77, 0x88, 0xcc, 0xe0, 0xc4, 0xb6],
    [0xb8, 0x29, 0x1b, 0xe7, 0x35, 0x38, 0x08, 0xfd, 0x34, 0x8a, 0x98, 0xf6, 0x5c, 0xbd, 0x24, 0x36],
    [0x37, 0x9c, 0xef, 0xa7, 0x3d, 0xe4, 0x8b, 0xbb, 0x32, 0x6f, 0xd3, 0xc0, 0x31, 0x72, 0x84, 0x8f],
    [0x67, 0x7f, 0x47, 0x5b, 0xed, 0x8e, 0xda, 0xca, 0x60, 0x71, 0x22, 0x69, 0xb3, 0xaa, 0xba, 0x90],
    [0x53, 0xc1, 0xcf, 0x45, 0x21, 0xaf, 0x5f, 0xb1, 0xfb, 0x6b, 0x93, 0xe3, 0xa5, 0x81, 0x52, 0x6a],
    [0x7c, 0x09, 0x61, 0xcb, 0x17, 0x4e, 0xe5, 0xf1, 0xc9, 0xf7, 0xec, 0xad, 0xc3, 0x6d, 0xfa, 0x4f],
    [0x46, 0x2d, 0xc6, 0x70, 0xbe, 0xf2, 0x1e, 0x2a, 0x39, 0x55, 0x80, 0x58, 0x2c, 0x89, 0x2f, 0x9d],
    [0x15, 0x43, 0x9b, 0xa1, 0xb2, 0x02, 0x9a, 0xd0, 0xdf, 0x00, 0xce, 0xd5, 0x59, 0xe8, 0x42, 0x2b],
    [0x76, 0x26, 0xa6, 0x0d, 0xdd, 0xeb, 0x50, 0x78, 0xf9, 0xf8, 0xc5, 0xa0, 0x44, 0xd1, 0x83, 0xc7],
    [0x49, 0x33, 0x1c, 0x20, 0x11, 0xe1, 0x40, 0x8d, 0x54, 0x23, 0x5e, 0xd6, 0x4a, 0x3b, 0x16, 0x62],
    [0x7a, 0x0c, 0xd7, 0x97, 0x87, 0xc2, 0x1d, 0x99, 0x0b, 0x8c, 0xdc, 0xff, 0x56, 0xae, 0x64, 0xb4],
    [0x9e, 0x48, 0x66, 0x57, 0x3a, 0x7d, 0x82, 0x2e, 0xa8, 0x4d, 0xd2, 0x1a, 0xd8, 0xab, 0xfe, 0xa4],
    [0x04, 0x9f, 0xea, 0x28, 0x06, 0xf0, 0x30, 0xbf, 0x6e, 0x27, 0x25, 0x86, 0x68, 0xdb, 0xb7, 0x10]]"

definition TABLE_S4_77 :: "bytes" where
  "TABLE_S4_77 = concat [
    [0x36, 0x90, 0x7f, 0x50, 0x39, 0x27, 0xc6, 0xa2, 0x0f, 0x91, 0x48, 0xea, 0x4a, 0xc7, 0xfe, 0x46],
    [0x62, 0xa5, 0x2a, 0x0c, 0xb6, 0x20, 0xdd, 0x2c, 0x4d, 0xa6, 0x5f, 0x72, 0x21, 0xd5, 0x8f, 0x69],
    [0xd1, 0x6e, 0x0d, 0x56, 0x3c, 0xa1, 0x32, 0x34, 0x9a, 0xa7, 0x44, 0xbb, 0xff, 0xd3, 0xf7, 0x85],
    [0x86, 0x3d, 0xe7, 0x78, 0x83, 0xfb, 0x2b, 0x9f, 0x40, 0x47, 0x8a, 0x30, 0xcf, 0xed, 0xda, 0xc0],
    [0x04, 0xaf, 0xdc, 0x94, 0x0e, 0xd7, 0xb8, 0x88, 0x01, 0x5c, 0xe0, 0xf3, 0x02, 0x41, 0xb7, 0xbc],
    [0x8b, 0x1a, 0x28, 0xd4, 0x06, 0x0b, 0x3b, 0xce, 0x07, 0xb9, 0xab, 0xc5, 0x6f, 0x8e, 0x17, 0x05],
    [0x60, 0xf2, 0xfc, 0x76, 0x12, 0x9c, 0x6c, 0x82, 0xc8, 0x58, 0xa0, 0xd0, 0x96, 0xb2, 0x61, 0x59],
    [0x54, 0x4c, 0x74, 0x68, 0xde, 0xbd, 0xe9, 0xf9, 0x53, 0x42, 0x11, 0x5a, 0x80, 0x99, 0x89, 0xa3],
    [0x75, 0x1e, 0xf5, 0x43, 0x8d, 0xc1, 0x2d, 0x19, 0x0a, 0x66, 0xb3, 0x6b, 0x1f, 0xba, 0x1c, 0xae],
    [0x4f, 0x3a, 0x52, 0xf8, 0x24, 0x7d, 0xd6, 0xc2, 0xfa, 0xc4, 0xdf, 0x9e, 0xf0, 0x5e, 0xc9, 0x7c],
    [0x45, 0x15, 0x95, 0x3e, 0xee, 0xd8, 0x63, 0x4b, 0xca, 0xcb, 0xf6, 0x93, 0x77, 0xe2, 0xb0, 0xf4],
    [0x26, 0x70, 0xa8, 0x92, 0x81, 0x31, 0xa9, 0xe3, 0xec, 0x33, 0xfd, 0xe6, 0x6a, 0xdb, 0x71, 0x18],
    [0x49, 0x3f, 0xe4, 0xa4, 0xb4, 0xf1, 0x2e, 0xaa, 0x38, 0xbf, 0xef, 0xcc, 0x65, 0x9d, 0x57, 0x87],
    [0x7a, 0x00, 0x2f, 0x13, 0x22, 0xd2, 0x73, 0xbe, 0x67, 0x10, 0x6d, 0xe5, 0x79, 0x08, 0x25, 0x51],
    [0x37, 0xac, 0xd9, 0x1b, 0x35, 0xc3, 0x03, 0x8c, 0x5d, 0x14, 0x16, 0xb5, 0x5b, 0xe8, 0x84, 0x23],
    [0xad, 0x7b, 0x55, 0x64, 0x09, 0x4e, 0xb1, 0x1d, 0x9b, 0x7e, 0xe1, 0x29, 0xeb, 0x98, 0xcd, 0x97]]"

definition TABLE_S4_78 :: "bytes" where
  "TABLE_S4_78 = concat [
    [0xa0, 0x8d, 0x74, 0x9f, 0xbb, 0x5d, 0x07, 0xf3, 0xde, 0xf8, 0x77, 0xb0, 0xfe, 0x0f, 0xf2, 0x64],
    [0x38, 0x9a, 0x43, 0xdd, 0x94, 0x2c, 0x15, 0x98, 0x82, 0xad, 0x42, 0xe4, 0x70, 0x14, 0xf5, 0xeb],
    [0xe2, 0x58, 0x95, 0x92, 0x12, 0x08, 0x3f, 0x1d, 0xaa, 0x35, 0xef, 0x54, 0x4d, 0xf9, 0x29, 0x51],
    [0x69, 0x96, 0x75, 0x48, 0x57, 0x25, 0x01, 0x2d, 0x84, 0xdf, 0xbc, 0x03, 0xe6, 0xe0, 0x73, 0xee],
    [0x17, 0x79, 0x6b, 0xd5, 0xd7, 0xc5, 0x5c, 0xbd, 0x06, 0xfa, 0xc8, 0x59, 0x1c, 0xe9, 0xd9, 0xd4],
    [0x21, 0x32, 0x8e, 0xd3, 0x6e, 0x65, 0x93, 0xd0, 0x46, 0x0e, 0x7d, 0xd6, 0x5a, 0x6a, 0x05, 0xdc],
    [0x88, 0xc3, 0x90, 0x81, 0x71, 0x5b, 0x4b, 0x52, 0xba, 0xa6, 0x9e, 0x86, 0x2b, 0x3b, 0x6f, 0x0c],
    [0x02, 0x72, 0x8a, 0x1a, 0x8b, 0xb3, 0x60, 0x44, 0xa4, 0x2e, 0x20, 0xb2, 0x50, 0xbe, 0x4e, 0xc0],
    [0x4c, 0x0d, 0x16, 0x28, 0xae, 0x1b, 0x8c, 0x22, 0x2a, 0x80, 0xe8, 0x9d, 0x10, 0x04, 0xaf, 0xf6],
    [0xb9, 0x61, 0xb4, 0xd8, 0x7c, 0xce, 0x68, 0xcd, 0x91, 0x27, 0xcc, 0xa7, 0xcb, 0xff, 0x13, 0x5f],
    [0x34, 0x2f, 0xe1, 0x3e, 0xca, 0xa3, 0x09, 0xb8, 0x40, 0x7a, 0xa2, 0xf4, 0x31, 0x7b, 0xe3, 0x53],
    [0x41, 0x24, 0x19, 0x18, 0x26, 0x62, 0x30, 0xa5, 0xec, 0x47, 0xc7, 0x97, 0x99, 0xb1, 0x0a, 0x3c],
    [0x37, 0xbf, 0xc2, 0xb5, 0x83, 0xf7, 0xda, 0xab, 0xc1, 0xfd, 0xd2, 0xa8, 0x6c, 0xa1, 0x00, 0xf0],
    [0x1e, 0x3d, 0x6d, 0xea, 0x55, 0x85, 0x4f, 0xb7, 0x76, 0x36, 0xed, 0x9b, 0x78, 0xfc, 0x23, 0x66],
    [0xfb, 0x33, 0xac, 0x49, 0x45, 0x1f, 0x4a, 0x39, 0xb6, 0x87, 0xa9, 0x7f, 0xcf, 0x63, 0x9c, 0xdb],
    [0x67, 0xc4, 0xc6, 0x8f, 0xf1, 0x56, 0x3a, 0x89, 0xc9, 0x0b, 0x7e, 0xe5, 0x5e, 0xd1, 0x11, 0xe7]]"

definition TABLE_S4_79 :: "bytes" where
  "TABLE_S4_79 = concat [
    [0xc5, 0xc3, 0xcb, 0x56, 0xfa, 0xa1, 0x26, 0x99, 0x00, 0x72, 0x08, 0x24, 0xb3, 0x4c, 0x6d, 0x50],
    [0xdc, 0x68, 0x74, 0x0c, 0x10, 0x8f, 0x71, 0xca, 0x2d, 0x37, 0x38, 0x1a, 0x7d, 0xc7, 0xb7, 0xb0],
    [0x31, 0x55, 0xce, 0xd0, 0x88, 0xa7, 0xc1, 0x67, 0x09, 0xb1, 0xbd, 0x30, 0xbf, 0x1d, 0xf8, 0x66],
    [0x2a, 0xdb, 0x41, 0xd7, 0xdd, 0xfb, 0x95, 0x52, 0x78, 0x9e, 0xd6, 0x22, 0xa8, 0x85, 0xba, 0x51],
    [0x9b, 0x75, 0xe5, 0x6b, 0x0b, 0x81, 0x97, 0x05, 0x96, 0xae, 0x61, 0x45, 0x57, 0x27, 0x3f, 0xaf],
    [0x1e, 0x0e, 0x29, 0x4a, 0x83, 0x9f, 0xa3, 0xbb, 0x7e, 0x54, 0x77, 0x6e, 0xe6, 0xad, 0xa4, 0xb5],
    [0x4f, 0x7f, 0xf9, 0x20, 0x2b, 0x63, 0xf3, 0x58, 0x40, 0x4b, 0xf5, 0xb6, 0x17, 0x04, 0xf6, 0xab],
    [0xcc, 0x39, 0xf1, 0xfc, 0xdf, 0x23, 0x7c, 0xed, 0xe0, 0xf2, 0x98, 0x79, 0x5c, 0x32, 0xf0, 0x4e],
    [0x94, 0xbc, 0x19, 0x2f, 0x62, 0xc9, 0xb2, 0xe2, 0x47, 0x03, 0x80, 0x15, 0x01, 0x64, 0x3d, 0x3c],
    [0x5e, 0x14, 0x76, 0xc6, 0x5f, 0x65, 0xd1, 0x87, 0x86, 0xef, 0x9d, 0x2c, 0x0a, 0x11, 0x1b, 0xc4],
    [0xda, 0xee, 0x7a, 0x36, 0x02, 0xb4, 0x82, 0xe9, 0xeb, 0x59, 0xe8, 0x4d, 0x44, 0x9c, 0xfd, 0x91],
    [0x21, 0x35, 0xd3, 0x8a, 0xa5, 0x0f, 0xb8, 0xcd, 0x3e, 0x8b, 0x07, 0xa9, 0x28, 0x69, 0x0d, 0x33],
    [0xf4, 0x7b, 0xc2, 0x34, 0x2e, 0xec, 0xc0, 0x5b, 0x73, 0xd4, 0xac, 0x1f, 0xe1, 0x42, 0xaa, 0xe3],
    [0x46, 0xea, 0xfe, 0xb9, 0xa2, 0x93, 0x5a, 0x8c, 0x3a, 0x60, 0x1c, 0x6f, 0x16, 0xde, 0x6c, 0x89],
    [0xd9, 0x5d, 0x43, 0x06, 0x13, 0x53, 0xbe, 0xc8, 0xa0, 0x70, 0x92, 0x6a, 0x18, 0x3b, 0xcf, 0x48],
    [0x84, 0x49, 0xd5, 0x25, 0xd8, 0xe4, 0x8d, 0xf7, 0xd2, 0xa6, 0x8e, 0xff, 0x9a, 0x12, 0x90, 0xe7]]"

definition TABLE_S4_80 :: "bytes" where
  "TABLE_S4_80 = concat [
    [0xf8, 0x3f, 0xb0, 0x96, 0x2c, 0xba, 0x47, 0xb6, 0xd7, 0x3c, 0xc5, 0xe8, 0xbb, 0x4f, 0x15, 0xf3],
    [0xac, 0x0a, 0xe5, 0xca, 0xa3, 0xbd, 0x5c, 0x38, 0x95, 0x0b, 0xd2, 0x70, 0xd0, 0x5d, 0x64, 0xdc],
    [0x1c, 0xa7, 0x7d, 0xe2, 0x19, 0x61, 0xb1, 0x05, 0xda, 0xdd, 0x10, 0xaa, 0x55, 0x77, 0x40, 0x5a],
    [0x4b, 0xf4, 0x97, 0xcc, 0xa6, 0x3b, 0xa8, 0xae, 0x00, 0x3d, 0xde, 0x21, 0x65, 0x49, 0x6d, 0x1f],
    [0x11, 0x80, 0xb2, 0x4e, 0x9c, 0x91, 0xa1, 0x54, 0x9d, 0x23, 0x31, 0x5f, 0xf5, 0x14, 0x8d, 0x9f],
    [0x9e, 0x35, 0x46, 0x0e, 0x94, 0x4d, 0x22, 0x12, 0x9b, 0xc6, 0x7a, 0x69, 0x98, 0xdb, 0x2d, 0x26],
    [0xce, 0xd6, 0xee, 0xf2, 0x44, 0x27, 0x73, 0x63, 0xc9, 0xd8, 0x8b, 0xc0, 0x1a, 0x03, 0x13, 0x39],
    [0xfa, 0x68, 0x66, 0xec, 0x88, 0x06, 0xf6, 0x18, 0x52, 0xc2, 0x3a, 0x4a, 0x0c, 0x28, 0xfb, 0xc3],
    [0xd5, 0xa0, 0xc8, 0x62, 0xbe, 0xe7, 0x4c, 0x58, 0x60, 0x5e, 0x45, 0x04, 0x6a, 0xc4, 0x53, 0xe6],
    [0xef, 0x84, 0x6f, 0xd9, 0x17, 0x5b, 0xb7, 0x83, 0x90, 0xfc, 0x29, 0xf1, 0x85, 0x20, 0x86, 0x34],
    [0xbc, 0xea, 0x32, 0x08, 0x1b, 0xab, 0x33, 0x79, 0x76, 0xa9, 0x67, 0x7c, 0xf0, 0x41, 0xeb, 0x82],
    [0xdf, 0x8f, 0x0f, 0xa4, 0x74, 0x42, 0xf9, 0xd1, 0x50, 0x51, 0x6c, 0x09, 0xed, 0x78, 0x2a, 0x6e],
    [0xe0, 0x9a, 0xb5, 0x89, 0xb8, 0x48, 0xe9, 0x24, 0xfd, 0x8a, 0xf7, 0x7f, 0xe3, 0x92, 0xbf, 0xcb],
    [0xd3, 0xa5, 0x7e, 0x3e, 0x2e, 0x6b, 0xb4, 0x30, 0xa2, 0x25, 0x75, 0x56, 0xff, 0x07, 0xcd, 0x1d],
    [0x37, 0xe1, 0xcf, 0xfe, 0x93, 0xd4, 0x2b, 0x87, 0x01, 0xe4, 0x7b, 0xb3, 0x71, 0x02, 0x57, 0x0d],
    [0xad, 0x36, 0x43, 0x81, 0xaf, 0x59, 0x99, 0x16, 0xc7, 0x8e, 0x8c, 0x2f, 0xc1, 0x72, 0x1e, 0xb9]]"

definition TABLE_S4_81 :: "bytes" where
  "TABLE_S4_81 = concat [
    [0xab, 0x0d, 0xe2, 0xcd, 0xa4, 0xba, 0x5b, 0x3f, 0x92, 0x0c, 0xd5, 0x77, 0xd7, 0x5a, 0x63, 0xdb],
    [0xff, 0x38, 0xb7, 0x91, 0x2b, 0xbd, 0x40, 0xb1, 0xd0, 0x3b, 0xc2, 0xef, 0xbc, 0x48, 0x12, 0xf4],
    [0x4c, 0xf3, 0x90, 0xcb, 0xa1, 0x3c, 0xaf, 0xa9, 0x07, 0x3a, 0xd9, 0x26, 0x62, 0x4e, 0x6a, 0x18],
    [0x1b, 0xa0, 0x7a, 0xe5, 0x1e, 0x66, 0xb6, 0x02, 0xdd, 0xda, 0x17, 0xad, 0x52, 0x70, 0x47, 0x5d],
    [0x99, 0x32, 0x41, 0x09, 0x93, 0x4a, 0x25, 0x15, 0x9c, 0xc1, 0x7d, 0x6e, 0x9f, 0xdc, 0x2a, 0x21],
    [0x16, 0x87, 0xb5, 0x49, 0x9b, 0x96, 0xa6, 0x53, 0x9a, 0x24, 0x36, 0x58, 0xf2, 0x13, 0x8a, 0x98],
    [0xfd, 0x6f, 0x61, 0xeb, 0x8f, 0x01, 0xf1, 0x1f, 0x55, 0xc5, 0x3d, 0x4d, 0x0b, 0x2f, 0xfc, 0xc4],
    [0xc9, 0xd1, 0xe9, 0xf5, 0x43, 0x20, 0x74, 0x64, 0xce, 0xdf, 0x8c, 0xc7, 0x1d, 0x04, 0x14, 0x3e],
    [0xe8, 0x83, 0x68, 0xde, 0x10, 0x5c, 0xb0, 0x84, 0x97, 0xfb, 0x2e, 0xf6, 0x82, 0x27, 0x81, 0x33],
    [0xd2, 0xa7, 0xcf, 0x65, 0xb9, 0xe0, 0x4b, 0x5f, 0x67, 0x59, 0x42, 0x03, 0x6d, 0xc3, 0x54, 0xe1],
    [0xd8, 0x88, 0x08, 0xa3, 0x73, 0x45, 0xfe, 0xd6, 0x57, 0x56, 0x6b, 0x0e, 0xea, 0x7f, 0x2d, 0x69],
    [0xbb, 0xed, 0x35, 0x0f, 0x1c, 0xac, 0x34, 0x7e, 0x71, 0xae, 0x60, 0x7b, 0xf7, 0x46, 0xec, 0x85],
    [0xd4, 0xa2, 0x79, 0x39, 0x29, 0x6c, 0xb3, 0x37, 0xa5, 0x22, 0x72, 0x51, 0xf8, 0x00, 0xca, 0x1a],
    [0xe7, 0x9d, 0xb2, 0x8e, 0xbf, 0x4f, 0xee, 0x23, 0xfa, 0x8d, 0xf0, 0x78, 0xe4, 0x95, 0xb8, 0xcc],
    [0xaa, 0x31, 0x44, 0x86, 0xa8, 0x5e, 0x9e, 0x11, 0xc0, 0x89, 0x8b, 0x28, 0xc6, 0x75, 0x19, 0xbe],
    [0x30, 0xe6, 0xc8, 0xf9, 0x94, 0xd3, 0x2c, 0x80, 0x06, 0xe3, 0x7c, 0xb4, 0x76, 0x05, 0x50, 0x0a]]"

definition TABLE_S4_82 :: "bytes" where
  "TABLE_S4_82 = concat [
    [0x8b, 0xa6, 0x5f, 0xb4, 0x90, 0x76, 0x2c, 0xd8, 0xf5, 0xd3, 0x5c, 0x9b, 0xd5, 0x24, 0xd9, 0x4f],
    [0x13, 0xb1, 0x68, 0xf6, 0xbf, 0x07, 0x3e, 0xb3, 0xa9, 0x86, 0x69, 0xcf, 0x5b, 0x3f, 0xde, 0xc0],
    [0xc9, 0x73, 0xbe, 0xb9, 0x39, 0x23, 0x14, 0x36, 0x81, 0x1e, 0xc4, 0x7f, 0x66, 0xd2, 0x02, 0x7a],
    [0x42, 0xbd, 0x5e, 0x63, 0x7c, 0x0e, 0x2a, 0x06, 0xaf, 0xf4, 0x97, 0x28, 0xcd, 0xcb, 0x58, 0xc5],
    [0x3c, 0x52, 0x40, 0xfe, 0xfc, 0xee, 0x77, 0x96, 0x2d, 0xd1, 0xe3, 0x72, 0x37, 0xc2, 0xf2, 0xff],
    [0x0a, 0x19, 0xa5, 0xf8, 0x45, 0x4e, 0xb8, 0xfb, 0x6d, 0x25, 0x56, 0xfd, 0x71, 0x41, 0x2e, 0xf7],
    [0xa3, 0xe8, 0xbb, 0xaa, 0x5a, 0x70, 0x60, 0x79, 0x91, 0x8d, 0xb5, 0xad, 0x00, 0x10, 0x44, 0x27],
    [0x29, 0x59, 0xa1, 0x31, 0xa0, 0x98, 0x4b, 0x6f, 0x8f, 0x05, 0x0b, 0x99, 0x7b, 0x95, 0x65, 0xeb],
    [0x67, 0x26, 0x3d, 0x03, 0x85, 0x30, 0xa7, 0x09, 0x01, 0xab, 0xc3, 0xb6, 0x3b, 0x2f, 0x84, 0xdd],
    [0x92, 0x4a, 0x9f, 0xf3, 0x57, 0xe5, 0x43, 0xe6, 0xba, 0x0c, 0xe7, 0x8c, 0xe0, 0xd4, 0x38, 0x74],
    [0x1f, 0x04, 0xca, 0x15, 0xe1, 0x88, 0x22, 0x93, 0x6b, 0x51, 0x89, 0xdf, 0x1a, 0x50, 0xc8, 0x78],
    [0x6a, 0x0f, 0x32, 0x33, 0x0d, 0x49, 0x1b, 0x8e, 0xc7, 0x6c, 0xec, 0xbc, 0xb2, 0x9a, 0x21, 0x17],
    [0x1c, 0x94, 0xe9, 0x9e, 0xa8, 0xdc, 0xf1, 0x80, 0xea, 0xd6, 0xf9, 0x83, 0x47, 0x8a, 0x2b, 0xdb],
    [0x35, 0x16, 0x46, 0xc1, 0x7e, 0xae, 0x64, 0x9c, 0x5d, 0x1d, 0xc6, 0xb0, 0x53, 0xd7, 0x08, 0x4d],
    [0xd0, 0x18, 0x87, 0x62, 0x6e, 0x34, 0x61, 0x12, 0x9d, 0xac, 0x82, 0x54, 0xe4, 0x48, 0xb7, 0xf0],
    [0x4c, 0xef, 0xed, 0xa4, 0xda, 0x7d, 0x11, 0xa2, 0xe2, 0x20, 0x55, 0xce, 0x75, 0xfa, 0x3a, 0xcc]]"

definition TABLE_S4_83 :: "bytes" where
  "TABLE_S4_83 = concat [
    [0x7e, 0x78, 0x70, 0xed, 0x41, 0x1a, 0x9d, 0x22, 0xbb, 0xc9, 0xb3, 0x9f, 0x08, 0xf7, 0xd6, 0xeb],
    [0x67, 0xd3, 0xcf, 0xb7, 0xab, 0x34, 0xca, 0x71, 0x96, 0x8c, 0x83, 0xa1, 0xc6, 0x7c, 0x0c, 0x0b],
    [0x8a, 0xee, 0x75, 0x6b, 0x33, 0x1c, 0x7a, 0xdc, 0xb2, 0x0a, 0x06, 0x8b, 0x04, 0xa6, 0x43, 0xdd],
    [0x91, 0x60, 0xfa, 0x6c, 0x66, 0x40, 0x2e, 0xe9, 0xc3, 0x25, 0x6d, 0x99, 0x13, 0x3e, 0x01, 0xea],
    [0x20, 0xce, 0x5e, 0xd0, 0xb0, 0x3a, 0x2c, 0xbe, 0x2d, 0x15, 0xda, 0xfe, 0xec, 0x9c, 0x84, 0x14],
    [0xa5, 0xb5, 0x92, 0xf1, 0x38, 0x24, 0x18, 0x00, 0xc5, 0xef, 0xcc, 0xd5, 0x5d, 0x16, 0x1f, 0x0e],
    [0xf4, 0xc4, 0x42, 0x9b, 0x90, 0xd8, 0x48, 0xe3, 0xfb, 0xf0, 0x4e, 0x0d, 0xac, 0xbf, 0x4d, 0x10],
    [0x77, 0x82, 0x4a, 0x47, 0x64, 0x98, 0xc7, 0x56, 0x5b, 0x49, 0x23, 0xc2, 0xe7, 0x89, 0x4b, 0xf5],
    [0x2f, 0x07, 0xa2, 0x94, 0xd9, 0x72, 0x09, 0x59, 0xfc, 0xb8, 0x3b, 0xae, 0xba, 0xdf, 0x86, 0x87],
    [0xe5, 0xaf, 0xcd, 0x7d, 0xe4, 0xde, 0x6a, 0x3c, 0x3d, 0x54, 0x26, 0x97, 0xb1, 0xaa, 0xa0, 0x7f],
    [0x61, 0x55, 0xc1, 0x8d, 0xb9, 0x0f, 0x39, 0x52, 0x50, 0xe2, 0x53, 0xf6, 0xff, 0x27, 0x46, 0x2a],
    [0x9a, 0x8e, 0x68, 0x31, 0x1e, 0xb4, 0x03, 0x76, 0x85, 0x30, 0xbc, 0x12, 0x93, 0xd2, 0xb6, 0x88],
    [0x4f, 0xc0, 0x79, 0x8f, 0x95, 0x57, 0x7b, 0xe0, 0xc8, 0x6f, 0x17, 0xa4, 0x5a, 0xf9, 0x11, 0x58],
    [0xfd, 0x51, 0x45, 0x02, 0x19, 0x28, 0xe1, 0x37, 0x81, 0xdb, 0xa7, 0xd4, 0xad, 0x65, 0xd7, 0x32],
    [0x62, 0xe6, 0xf8, 0xbd, 0xa8, 0xe8, 0x05, 0x73, 0x1b, 0xcb, 0x29, 0xd1, 0xa3, 0x80, 0x74, 0xf3],
    [0x3f, 0xf2, 0x6e, 0x9e, 0x63, 0x5f, 0x36, 0x4c, 0x69, 0x1d, 0x35, 0x44, 0x21, 0xa9, 0x2b, 0x5c]]"

definition TABLE_S4_84 :: "bytes" where
  "TABLE_S4_84 = concat [
    [0x46, 0x81, 0x0e, 0x28, 0x92, 0x04, 0xf9, 0x08, 0x69, 0x82, 0x7b, 0x56, 0x05, 0xf1, 0xab, 0x4d],
    [0x12, 0xb4, 0x5b, 0x74, 0x1d, 0x03, 0xe2, 0x86, 0x2b, 0xb5, 0x6c, 0xce, 0x6e, 0xe3, 0xda, 0x62],
    [0xa2, 0x19, 0xc3, 0x5c, 0xa7, 0xdf, 0x0f, 0xbb, 0x64, 0x63, 0xae, 0x14, 0xeb, 0xc9, 0xfe, 0xe4],
    [0xf5, 0x4a, 0x29, 0x72, 0x18, 0x85, 0x16, 0x10, 0xbe, 0x83, 0x60, 0x9f, 0xdb, 0xf7, 0xd3, 0xa1],
    [0xaf, 0x3e, 0x0c, 0xf0, 0x22, 0x2f, 0x1f, 0xea, 0x23, 0x9d, 0x8f, 0xe1, 0x4b, 0xaa, 0x33, 0x21],
    [0x20, 0x8b, 0xf8, 0xb0, 0x2a, 0xf3, 0x9c, 0xac, 0x25, 0x78, 0xc4, 0xd7, 0x26, 0x65, 0x93, 0x98],
    [0x70, 0x68, 0x50, 0x4c, 0xfa, 0x99, 0xcd, 0xdd, 0x77, 0x66, 0x35, 0x7e, 0xa4, 0xbd, 0xad, 0x87],
    [0x44, 0xd6, 0xd8, 0x52, 0x36, 0xb8, 0x48, 0xa6, 0xec, 0x7c, 0x84, 0xf4, 0xb2, 0x96, 0x45, 0x7d],
    [0x6b, 0x1e, 0x76, 0xdc, 0x00, 0x59, 0xf2, 0xe6, 0xde, 0xe0, 0xfb, 0xba, 0xd4, 0x7a, 0xed, 0x58],
    [0x51, 0x3a, 0xd1, 0x67, 0xa9, 0xe5, 0x09, 0x3d, 0x2e, 0x42, 0x97, 0x4f, 0x3b, 0x9e, 0x38, 0x8a],
    [0x02, 0x54, 0x8c, 0xb6, 0xa5, 0x15, 0x8d, 0xc7, 0xc8, 0x17, 0xd9, 0xc2, 0x4e, 0xff, 0x55, 0x3c],
    [0x61, 0x31, 0xb1, 0x1a, 0xca, 0xfc, 0x47, 0x6f, 0xee, 0xef, 0xd2, 0xb7, 0x53, 0xc6, 0x94, 0xd0],
    [0x5e, 0x24, 0x0b, 0x37, 0x06, 0xf6, 0x57, 0x9a, 0x43, 0x34, 0x49, 0xc1, 0x5d, 0x2c, 0x01, 0x75],
    [0x6d, 0x1b, 0xc0, 0x80, 0x90, 0xd5, 0x0a, 0x8e, 0x1c, 0x9b, 0xcb, 0xe8, 0x41, 0xb9, 0x73, 0xa3],
    [0x89, 0x5f, 0x71, 0x40, 0x2d, 0x6a, 0x95, 0x39, 0xbf, 0x5a, 0xc5, 0x0d, 0xcf, 0xbc, 0xe9, 0xb3],
    [0x13, 0x88, 0xfd, 0x3f, 0x11, 0xe7, 0x27, 0xa8, 0x79, 0x30, 0x32, 0x91, 0x7f, 0xcc, 0xa0, 0x07]]"

definition TABLE_S4_85 :: "bytes" where
  "TABLE_S4_85 = concat [
    [0x43, 0xe5, 0x0a, 0x25, 0x4c, 0x52, 0xb3, 0xd7, 0x7a, 0xe4, 0x3d, 0x9f, 0x3f, 0xb2, 0x8b, 0x33],
    [0x17, 0xd0, 0x5f, 0x79, 0xc3, 0x55, 0xa8, 0x59, 0x38, 0xd3, 0x2a, 0x07, 0x54, 0xa0, 0xfa, 0x1c],
    [0xa4, 0x1b, 0x78, 0x23, 0x49, 0xd4, 0x47, 0x41, 0xef, 0xd2, 0x31, 0xce, 0x8a, 0xa6, 0x82, 0xf0],
    [0xf3, 0x48, 0x92, 0x0d, 0xf6, 0x8e, 0x5e, 0xea, 0x35, 0x32, 0xff, 0x45, 0xba, 0x98, 0xaf, 0xb5],
    [0x71, 0xda, 0xa9, 0xe1, 0x7b, 0xa2, 0xcd, 0xfd, 0x74, 0x29, 0x95, 0x86, 0x77, 0x34, 0xc2, 0xc9],
    [0xfe, 0x6f, 0x5d, 0xa1, 0x73, 0x7e, 0x4e, 0xbb, 0x72, 0xcc, 0xde, 0xb0, 0x1a, 0xfb, 0x62, 0x70],
    [0x15, 0x87, 0x89, 0x03, 0x67, 0xe9, 0x19, 0xf7, 0xbd, 0x2d, 0xd5, 0xa5, 0xe3, 0xc7, 0x14, 0x2c],
    [0x21, 0x39, 0x01, 0x1d, 0xab, 0xc8, 0x9c, 0x8c, 0x26, 0x37, 0x64, 0x2f, 0xf5, 0xec, 0xfc, 0xd6],
    [0x00, 0x6b, 0x80, 0x36, 0xf8, 0xb4, 0x58, 0x6c, 0x7f, 0x13, 0xc6, 0x1e, 0x6a, 0xcf, 0x69, 0xdb],
    [0x3a, 0x4f, 0x27, 0x8d, 0x51, 0x08, 0xa3, 0xb7, 0x8f, 0xb1, 0xaa, 0xeb, 0x85, 0x2b, 0xbc, 0x09],
    [0x30, 0x60, 0xe0, 0x4b, 0x9b, 0xad, 0x16, 0x3e, 0xbf, 0xbe, 0x83, 0xe6, 0x02, 0x97, 0xc5, 0x81],
    [0x53, 0x05, 0xdd, 0xe7, 0xf4, 0x44, 0xdc, 0x96, 0x99, 0x46, 0x88, 0x93, 0x1f, 0xae, 0x04, 0x6d],
    [0x3c, 0x4a, 0x91, 0xd1, 0xc1, 0x84, 0x5b, 0xdf, 0x4d, 0xca, 0x9a, 0xb9, 0x10, 0xe8, 0x22, 0xf2],
    [0x0f, 0x75, 0x5a, 0x66, 0x57, 0xa7, 0x06, 0xcb, 0x12, 0x65, 0x18, 0x90, 0x0c, 0x7d, 0x50, 0x24],
    [0x42, 0xd9, 0xac, 0x6e, 0x40, 0xb6, 0x76, 0xf9, 0x28, 0x61, 0x63, 0xc0, 0x2e, 0x9d, 0xf1, 0x56],
    [0xd8, 0x0e, 0x20, 0x11, 0x7c, 0x3b, 0xc4, 0x68, 0xee, 0x0b, 0x94, 0x5c, 0x9e, 0xed, 0xb8, 0xe2]]"

definition TABLE_S4_86 :: "bytes" where
  "TABLE_S4_86 = concat [
    [0xc2, 0xef, 0x16, 0xfd, 0xd9, 0x3f, 0x65, 0x91, 0xbc, 0x9a, 0x15, 0xd2, 0x9c, 0x6d, 0x90, 0x06],
    [0x5a, 0xf8, 0x21, 0xbf, 0xf6, 0x4e, 0x77, 0xfa, 0xe0, 0xcf, 0x20, 0x86, 0x12, 0x76, 0x97, 0x89],
    [0x80, 0x3a, 0xf7, 0xf0, 0x70, 0x6a, 0x5d, 0x7f, 0xc8, 0x57, 0x8d, 0x36, 0x2f, 0x9b, 0x4b, 0x33],
    [0x0b, 0xf4, 0x17, 0x2a, 0x35, 0x47, 0x63, 0x4f, 0xe6, 0xbd, 0xde, 0x61, 0x84, 0x82, 0x11, 0x8c],
    [0x75, 0x1b, 0x09, 0xb7, 0xb5, 0xa7, 0x3e, 0xdf, 0x64, 0x98, 0xaa, 0x3b, 0x7e, 0x8b, 0xbb, 0xb6],
    [0x43, 0x50, 0xec, 0xb1, 0x0c, 0x07, 0xf1, 0xb2, 0x24, 0x6c, 0x1f, 0xb4, 0x38, 0x08, 0x67, 0xbe],
    [0xea, 0xa1, 0xf2, 0xe3, 0x13, 0x39, 0x29, 0x30, 0xd8, 0xc4, 0xfc, 0xe4, 0x49, 0x59, 0x0d, 0x6e],
    [0x60, 0x10, 0xe8, 0x78, 0xe9, 0xd1, 0x02, 0x26, 0xc6, 0x4c, 0x42, 0xd0, 0x32, 0xdc, 0x2c, 0xa2],
    [0x2e, 0x6f, 0x74, 0x4a, 0xcc, 0x79, 0xee, 0x40, 0x48, 0xe2, 0x8a, 0xff, 0x72, 0x66, 0xcd, 0x94],
    [0xdb, 0x03, 0xd6, 0xba, 0x1e, 0xac, 0x0a, 0xaf, 0xf3, 0x45, 0xae, 0xc5, 0xa9, 0x9d, 0x71, 0x3d],
    [0x56, 0x4d, 0x83, 0x5c, 0xa8, 0xc1, 0x6b, 0xda, 0x22, 0x18, 0xc0, 0x96, 0x53, 0x19, 0x81, 0x31],
    [0x23, 0x46, 0x7b, 0x7a, 0x44, 0x00, 0x52, 0xc7, 0x8e, 0x25, 0xa5, 0xf5, 0xfb, 0xd3, 0x68, 0x5e],
    [0x55, 0xdd, 0xa0, 0xd7, 0xe1, 0x95, 0xb8, 0xc9, 0xa3, 0x9f, 0xb0, 0xca, 0x0e, 0xc3, 0x62, 0x92],
    [0x7c, 0x5f, 0x0f, 0x88, 0x37, 0xe7, 0x2d, 0xd5, 0x14, 0x54, 0x8f, 0xf9, 0x1a, 0x9e, 0x41, 0x04],
    [0x99, 0x51, 0xce, 0x2b, 0x27, 0x7d, 0x28, 0x5b, 0xd4, 0xe5, 0xcb, 0x1d, 0xad, 0x01, 0xfe, 0xb9],
    [0x05, 0xa6, 0xa4, 0xed, 0x93, 0x34, 0x58, 0xeb, 0xab, 0x69, 0x1c, 0x87, 0x3c, 0xb3, 0x73, 0x85]]"

definition TABLE_S4_87 :: "bytes" where
  "TABLE_S4_87 = concat [
    [0xae, 0xa8, 0xa0, 0x3d, 0x91, 0xca, 0x4d, 0xf2, 0x6b, 0x19, 0x63, 0x4f, 0xd8, 0x27, 0x06, 0x3b],
    [0xb7, 0x03, 0x1f, 0x67, 0x7b, 0xe4, 0x1a, 0xa1, 0x46, 0x5c, 0x53, 0x71, 0x16, 0xac, 0xdc, 0xdb],
    [0x5a, 0x3e, 0xa5, 0xbb, 0xe3, 0xcc, 0xaa, 0x0c, 0x62, 0xda, 0xd6, 0x5b, 0xd4, 0x76, 0x93, 0x0d],
    [0x41, 0xb0, 0x2a, 0xbc, 0xb6, 0x90, 0xfe, 0x39, 0x13, 0xf5, 0xbd, 0x49, 0xc3, 0xee, 0xd1, 0x3a],
    [0xf0, 0x1e, 0x8e, 0x00, 0x60, 0xea, 0xfc, 0x6e, 0xfd, 0xc5, 0x0a, 0x2e, 0x3c, 0x4c, 0x54, 0xc4],
    [0x75, 0x65, 0x42, 0x21, 0xe8, 0xf4, 0xc8, 0xd0, 0x15, 0x3f, 0x1c, 0x05, 0x8d, 0xc6, 0xcf, 0xde],
    [0x24, 0x14, 0x92, 0x4b, 0x40, 0x08, 0x98, 0x33, 0x2b, 0x20, 0x9e, 0xdd, 0x7c, 0x6f, 0x9d, 0xc0],
    [0xa7, 0x52, 0x9a, 0x97, 0xb4, 0x48, 0x17, 0x86, 0x8b, 0x99, 0xf3, 0x12, 0x37, 0x59, 0x9b, 0x25],
    [0xff, 0xd7, 0x72, 0x44, 0x09, 0xa2, 0xd9, 0x89, 0x2c, 0x68, 0xeb, 0x7e, 0x6a, 0x0f, 0x56, 0x57],
    [0x35, 0x7f, 0x1d, 0xad, 0x34, 0x0e, 0xba, 0xec, 0xed, 0x84, 0xf6, 0x47, 0x61, 0x7a, 0x70, 0xaf],
    [0xb1, 0x85, 0x11, 0x5d, 0x69, 0xdf, 0xe9, 0x82, 0x80, 0x32, 0x83, 0x26, 0x2f, 0xf7, 0x96, 0xfa],
    [0x4a, 0x5e, 0xb8, 0xe1, 0xce, 0x64, 0xd3, 0xa6, 0x55, 0xe0, 0x6c, 0xc2, 0x43, 0x02, 0x66, 0x58],
    [0x9f, 0x10, 0xa9, 0x5f, 0x45, 0x87, 0xab, 0x30, 0x18, 0xbf, 0xc7, 0x74, 0x8a, 0x29, 0xc1, 0x88],
    [0x2d, 0x81, 0x95, 0xd2, 0xc9, 0xf8, 0x31, 0xe7, 0x51, 0x0b, 0x77, 0x04, 0x7d, 0xb5, 0x07, 0xe2],
    [0xb2, 0x36, 0x28, 0x6d, 0x78, 0x38, 0xd5, 0xa3, 0xcb, 0x1b, 0xf9, 0x01, 0x73, 0x50, 0xa4, 0x23],
    [0xef, 0x22, 0xbe, 0x4e, 0xb3, 0x8f, 0xe6, 0x9c, 0xb9, 0xcd, 0xe5, 0x94, 0xf1, 0x79, 0xfb, 0x8c]]"

definition TABLE_S4_88 :: "bytes" where
  "TABLE_S4_88 = concat [
    [0x61, 0xa6, 0x29, 0x0f, 0xb5, 0x23, 0xde, 0x2f, 0x4e, 0xa5, 0x5c, 0x71, 0x22, 0xd6, 0x8c, 0x6a],
    [0x35, 0x93, 0x7c, 0x53, 0x3a, 0x24, 0xc5, 0xa1, 0x0c, 0x92, 0x4b, 0xe9, 0x49, 0xc4, 0xfd, 0x45],
    [0x85, 0x3e, 0xe4, 0x7b, 0x80, 0xf8, 0x28, 0x9c, 0x43, 0x44, 0x89, 0x33, 0xcc, 0xee, 0xd9, 0xc3],
    [0xd2, 0x6d, 0x0e, 0x55, 0x3f, 0xa2, 0x31, 0x37, 0x99, 0xa4, 0x47, 0xb8, 0xfc, 0xd0, 0xf4, 0x86],
    [0x88, 0x19, 0x2b, 0xd7, 0x05, 0x08, 0x38, 0xcd, 0x04, 0xba, 0xa8, 0xc6, 0x6c, 0x8d, 0x14, 0x06],
    [0x07, 0xac, 0xdf, 0x97, 0x0d, 0xd4, 0xbb, 0x8b, 0x02, 0x5f, 0xe3, 0xf0, 0x01, 0x42, 0xb4, 0xbf],
    [0x57, 0x4f, 0x77, 0x6b, 0xdd, 0xbe, 0xea, 0xfa, 0x50, 0x41, 0x12, 0x59, 0x83, 0x9a, 0x8a, 0xa0],
    [0x63, 0xf1, 0xff, 0x75, 0x11, 0x9f, 0x6f, 0x81, 0xcb, 0x5b, 0xa3, 0xd3, 0x95, 0xb1, 0x62, 0x5a],
    [0x4c, 0x39, 0x51, 0xfb, 0x27, 0x7e, 0xd5, 0xc1, 0xf9, 0xc7, 0xdc, 0x9d, 0xf3, 0x5d, 0xca, 0x7f],
    [0x76, 0x1d, 0xf6, 0x40, 0x8e, 0xc2, 0x2e, 0x1a, 0x09, 0x65, 0xb0, 0x68, 0x1c, 0xb9, 0x1f, 0xad],
    [0x25, 0x73, 0xab, 0x91, 0x82, 0x32, 0xaa, 0xe0, 0xef, 0x30, 0xfe, 0xe5, 0x69, 0xd8, 0x72, 0x1b],
    [0x46, 0x16, 0x96, 0x3d, 0xed, 0xdb, 0x60, 0x48, 0xc9, 0xc8, 0xf5, 0x90, 0x74, 0xe1, 0xb3, 0xf7],
    [0x79, 0x03, 0x2c, 0x10, 0x21, 0xd1, 0x70, 0xbd, 0x64, 0x13, 0x6e, 0xe6, 0x7a, 0x0b, 0x26, 0x52],
    [0x4a, 0x3c, 0xe7, 0xa7, 0xb7, 0xf2, 0x2d, 0xa9, 0x3b, 0xbc, 0xec, 0xcf, 0x66, 0x9e, 0x54, 0x84],
    [0xae, 0x78, 0x56, 0x67, 0x0a, 0x4d, 0xb2, 0x1e, 0x98, 0x7d, 0xe2, 0x2a, 0xe8, 0x9b, 0xce, 0x94],
    [0x34, 0xaf, 0xda, 0x18, 0x36, 0xc0, 0x00, 0x8f, 0x5e, 0x17, 0x15, 0xb6, 0x58, 0xeb, 0x87, 0x20]]"

definition TABLE_S4_89 :: "bytes" where
  "TABLE_S4_89 = concat [
    [0x3e, 0x98, 0x77, 0x58, 0x31, 0x2f, 0xce, 0xaa, 0x07, 0x99, 0x40, 0xe2, 0x42, 0xcf, 0xf6, 0x4e],
    [0x6a, 0xad, 0x22, 0x04, 0xbe, 0x28, 0xd5, 0x24, 0x45, 0xae, 0x57, 0x7a, 0x29, 0xdd, 0x87, 0x61],
    [0xd9, 0x66, 0x05, 0x5e, 0x34, 0xa9, 0x3a, 0x3c, 0x92, 0xaf, 0x4c, 0xb3, 0xf7, 0xdb, 0xff, 0x8d],
    [0x8e, 0x35, 0xef, 0x70, 0x8b, 0xf3, 0x23, 0x97, 0x48, 0x4f, 0x82, 0x38, 0xc7, 0xe5, 0xd2, 0xc8],
    [0x0c, 0xa7, 0xd4, 0x9c, 0x06, 0xdf, 0xb0, 0x80, 0x09, 0x54, 0xe8, 0xfb, 0x0a, 0x49, 0xbf, 0xb4],
    [0x83, 0x12, 0x20, 0xdc, 0x0e, 0x03, 0x33, 0xc6, 0x0f, 0xb1, 0xa3, 0xcd, 0x67, 0x86, 0x1f, 0x0d],
    [0x68, 0xfa, 0xf4, 0x7e, 0x1a, 0x94, 0x64, 0x8a, 0xc0, 0x50, 0xa8, 0xd8, 0x9e, 0xba, 0x69, 0x51],
    [0x5c, 0x44, 0x7c, 0x60, 0xd6, 0xb5, 0xe1, 0xf1, 0x5b, 0x4a, 0x19, 0x52, 0x88, 0x91, 0x81, 0xab],
    [0x7d, 0x16, 0xfd, 0x4b, 0x85, 0xc9, 0x25, 0x11, 0x02, 0x6e, 0xbb, 0x63, 0x17, 0xb2, 0x14, 0xa6],
    [0x47, 0x32, 0x5a, 0xf0, 0x2c, 0x75, 0xde, 0xca, 0xf2, 0xcc, 0xd7, 0x96, 0xf8, 0x56, 0xc1, 0x74],
    [0x4d, 0x1d, 0x9d, 0x36, 0xe6, 0xd0, 0x6b, 0x43, 0xc2, 0xc3, 0xfe, 0x9b, 0x7f, 0xea, 0xb8, 0xfc],
    [0x2e, 0x78, 0xa0, 0x9a, 0x89, 0x39, 0xa1, 0xeb, 0xe4, 0x3b, 0xf5, 0xee, 0x62, 0xd3, 0x79, 0x10],
    [0x41, 0x37, 0xec, 0xac, 0xbc, 0xf9, 0x26, 0xa2, 0x30, 0xb7, 0xe7, 0xc4, 0x6d, 0x95, 0x5f, 0x8f],
    [0x72, 0x08, 0x27, 0x1b, 0x2a, 0xda, 0x7b, 0xb6, 0x6f, 0x18, 0x65, 0xed, 0x71, 0x00, 0x2d, 0x59],
    [0x3f, 0xa4, 0xd1, 0x13, 0x3d, 0xcb, 0x0b, 0x84, 0x55, 0x1c, 0x1e, 0xbd, 0x53, 0xe0, 0x8c, 0x2b],
    [0xa5, 0x73, 0x5d, 0x6c, 0x01, 0x46, 0xb9, 0x15, 0x93, 0x76, 0xe9, 0x21, 0xe3, 0x90, 0xc5, 0x9f]]"

definition TABLE_S4_90 :: "bytes" where
  "TABLE_S4_90 = concat [
    [0x0c, 0x21, 0xd8, 0x33, 0x17, 0xf1, 0xab, 0x5f, 0x72, 0x54, 0xdb, 0x1c, 0x52, 0xa3, 0x5e, 0xc8],
    [0x94, 0x36, 0xef, 0x71, 0x38, 0x80, 0xb9, 0x34, 0x2e, 0x01, 0xee, 0x48, 0xdc, 0xb8, 0x59, 0x47],
    [0x4e, 0xf4, 0x39, 0x3e, 0xbe, 0xa4, 0x93, 0xb1, 0x06, 0x99, 0x43, 0xf8, 0xe1, 0x55, 0x85, 0xfd],
    [0xc5, 0x3a, 0xd9, 0xe4, 0xfb, 0x89, 0xad, 0x81, 0x28, 0x73, 0x10, 0xaf, 0x4a, 0x4c, 0xdf, 0x42],
    [0xbb, 0xd5, 0xc7, 0x79, 0x7b, 0x69, 0xf0, 0x11, 0xaa, 0x56, 0x64, 0xf5, 0xb0, 0x45, 0x75, 0x78],
    [0x8d, 0x9e, 0x22, 0x7f, 0xc2, 0xc9, 0x3f, 0x7c, 0xea, 0xa2, 0xd1, 0x7a, 0xf6, 0xc6, 0xa9, 0x70],
    [0x24, 0x6f, 0x3c, 0x2d, 0xdd, 0xf7, 0xe7, 0xfe, 0x16, 0x0a, 0x32, 0x2a, 0x87, 0x97, 0xc3, 0xa0],
    [0xae, 0xde, 0x26, 0xb6, 0x27, 0x1f, 0xcc, 0xe8, 0x08, 0x82, 0x8c, 0x1e, 0xfc, 0x12, 0xe2, 0x6c],
    [0xe0, 0xa1, 0xba, 0x84, 0x02, 0xb7, 0x20, 0x8e, 0x86, 0x2c, 0x44, 0x31, 0xbc, 0xa8, 0x03, 0x5a],
    [0x15, 0xcd, 0x18, 0x74, 0xd0, 0x62, 0xc4, 0x61, 0x3d, 0x8b, 0x60, 0x0b, 0x67, 0x53, 0xbf, 0xf3],
    [0x98, 0x83, 0x4d, 0x92, 0x66, 0x0f, 0xa5, 0x14, 0xec, 0xd6, 0x0e, 0x58, 0x9d, 0xd7, 0x4f, 0xff],
    [0xed, 0x88, 0xb5, 0xb4, 0x8a, 0xce, 0x9c, 0x09, 0x40, 0xeb, 0x6b, 0x3b, 0x35, 0x1d, 0xa6, 0x90],
    [0x9b, 0x13, 0x6e, 0x19, 0x2f, 0x5b, 0x76, 0x07, 0x6d, 0x51, 0x7e, 0x04, 0xc0, 0x0d, 0xac, 0x5c],
    [0xb2, 0x91, 0xc1, 0x46, 0xf9, 0x29, 0xe3, 0x1b, 0xda, 0x9a, 0x41, 0x37, 0xd4, 0x50, 0x8f, 0xca],
    [0x57, 0x9f, 0x00, 0xe5, 0xe9, 0xb3, 0xe6, 0x95, 0x1a, 0x2b, 0x05, 0xd3, 0x63, 0xcf, 0x30, 0x77],
    [0xcb, 0x68, 0x6a, 0x23, 0x5d, 0xfa, 0x96, 0x25, 0x65, 0xa7, 0xd2, 0x49, 0xf2, 0x7d, 0xbd, 0x4b]]"

definition TABLE_S4_91 :: "bytes" where
  "TABLE_S4_91 = concat [
    [0x19, 0x1f, 0x17, 0x8a, 0x26, 0x7d, 0xfa, 0x45, 0xdc, 0xae, 0xd4, 0xf8, 0x6f, 0x90, 0xb1, 0x8c],
    [0x00, 0xb4, 0xa8, 0xd0, 0xcc, 0x53, 0xad, 0x16, 0xf1, 0xeb, 0xe4, 0xc6, 0xa1, 0x1b, 0x6b, 0x6c],
    [0xed, 0x89, 0x12, 0x0c, 0x54, 0x7b, 0x1d, 0xbb, 0xd5, 0x6d, 0x61, 0xec, 0x63, 0xc1, 0x24, 0xba],
    [0xf6, 0x07, 0x9d, 0x0b, 0x01, 0x27, 0x49, 0x8e, 0xa4, 0x42, 0x0a, 0xfe, 0x74, 0x59, 0x66, 0x8d],
    [0x47, 0xa9, 0x39, 0xb7, 0xd7, 0x5d, 0x4b, 0xd9, 0x4a, 0x72, 0xbd, 0x99, 0x8b, 0xfb, 0xe3, 0x73],
    [0xc2, 0xd2, 0xf5, 0x96, 0x5f, 0x43, 0x7f, 0x67, 0xa2, 0x88, 0xab, 0xb2, 0x3a, 0x71, 0x78, 0x69],
    [0x93, 0xa3, 0x25, 0xfc, 0xf7, 0xbf, 0x2f, 0x84, 0x9c, 0x97, 0x29, 0x6a, 0xcb, 0xd8, 0x2a, 0x77],
    [0x10, 0xe5, 0x2d, 0x20, 0x03, 0xff, 0xa0, 0x31, 0x3c, 0x2e, 0x44, 0xa5, 0x80, 0xee, 0x2c, 0x92],
    [0x48, 0x60, 0xc5, 0xf3, 0xbe, 0x15, 0x6e, 0x3e, 0x9b, 0xdf, 0x5c, 0xc9, 0xdd, 0xb8, 0xe1, 0xe0],
    [0x82, 0xc8, 0xaa, 0x1a, 0x83, 0xb9, 0x0d, 0x5b, 0x5a, 0x33, 0x41, 0xf0, 0xd6, 0xcd, 0xc7, 0x18],
    [0x06, 0x32, 0xa6, 0xea, 0xde, 0x68, 0x5e, 0x35, 0x37, 0x85, 0x34, 0x91, 0x98, 0x40, 0x21, 0x4d],
    [0xfd, 0xe9, 0x0f, 0x56, 0x79, 0xd3, 0x64, 0x11, 0xe2, 0x57, 0xdb, 0x75, 0xf4, 0xb5, 0xd1, 0xef],
    [0x28, 0xa7, 0x1e, 0xe8, 0xf2, 0x30, 0x1c, 0x87, 0xaf, 0x08, 0x70, 0xc3, 0x3d, 0x9e, 0x76, 0x3f],
    [0x9a, 0x36, 0x22, 0x65, 0x7e, 0x4f, 0x86, 0x50, 0xe6, 0xbc, 0xc0, 0xb3, 0xca, 0x02, 0xb0, 0x55],
    [0x05, 0x81, 0x9f, 0xda, 0xcf, 0x8f, 0x62, 0x14, 0x7c, 0xac, 0x4e, 0xb6, 0xc4, 0xe7, 0x13, 0x94],
    [0x58, 0x95, 0x09, 0xf9, 0x04, 0x38, 0x51, 0x2b, 0x0e, 0x7a, 0x52, 0x23, 0x46, 0xce, 0x4c, 0x3b]]"

definition TABLE_S4_92 :: "bytes" where
  "TABLE_S4_92 = concat [
    [0xcf, 0x08, 0x87, 0xa1, 0x1b, 0x8d, 0x70, 0x81, 0xe0, 0x0b, 0xf2, 0xdf, 0x8c, 0x78, 0x22, 0xc4],
    [0x9b, 0x3d, 0xd2, 0xfd, 0x94, 0x8a, 0x6b, 0x0f, 0xa2, 0x3c, 0xe5, 0x47, 0xe7, 0x6a, 0x53, 0xeb],
    [0x2b, 0x90, 0x4a, 0xd5, 0x2e, 0x56, 0x86, 0x32, 0xed, 0xea, 0x27, 0x9d, 0x62, 0x40, 0x77, 0x6d],
    [0x7c, 0xc3, 0xa0, 0xfb, 0x91, 0x0c, 0x9f, 0x99, 0x37, 0x0a, 0xe9, 0x16, 0x52, 0x7e, 0x5a, 0x28],
    [0x26, 0xb7, 0x85, 0x79, 0xab, 0xa6, 0x96, 0x63, 0xaa, 0x14, 0x06, 0x68, 0xc2, 0x23, 0xba, 0xa8],
    [0xa9, 0x02, 0x71, 0x39, 0xa3, 0x7a, 0x15, 0x25, 0xac, 0xf1, 0x4d, 0x5e, 0xaf, 0xec, 0x1a, 0x11],
    [0xf9, 0xe1, 0xd9, 0xc5, 0x73, 0x10, 0x44, 0x54, 0xfe, 0xef, 0xbc, 0xf7, 0x2d, 0x34, 0x24, 0x0e],
    [0xcd, 0x5f, 0x51, 0xdb, 0xbf, 0x31, 0xc1, 0x2f, 0x65, 0xf5, 0x0d, 0x7d, 0x3b, 0x1f, 0xcc, 0xf4],
    [0xe2, 0x97, 0xff, 0x55, 0x89, 0xd0, 0x7b, 0x6f, 0x57, 0x69, 0x72, 0x33, 0x5d, 0xf3, 0x64, 0xd1],
    [0xd8, 0xb3, 0x58, 0xee, 0x20, 0x6c, 0x80, 0xb4, 0xa7, 0xcb, 0x1e, 0xc6, 0xb2, 0x17, 0xb1, 0x03],
    [0x8b, 0xdd, 0x05, 0x3f, 0x2c, 0x9c, 0x04, 0x4e, 0x41, 0x9e, 0x50, 0x4b, 0xc7, 0x76, 0xdc, 0xb5],
    [0xe8, 0xb8, 0x38, 0x93, 0x43, 0x75, 0xce, 0xe6, 0x67, 0x66, 0x5b, 0x3e, 0xda, 0x4f, 0x1d, 0x59],
    [0xd7, 0xad, 0x82, 0xbe, 0x8f, 0x7f, 0xde, 0x13, 0xca, 0xbd, 0xc0, 0x48, 0xd4, 0xa5, 0x88, 0xfc],
    [0xe4, 0x92, 0x49, 0x09, 0x19, 0x5c, 0x83, 0x07, 0x95, 0x12, 0x42, 0x61, 0xc8, 0x30, 0xfa, 0x2a],
    [0x00, 0xd6, 0xf8, 0xc9, 0xa4, 0xe3, 0x1c, 0xb0, 0x36, 0xd3, 0x4c, 0x84, 0x46, 0x35, 0x60, 0x3a],
    [0x9a, 0x01, 0x74, 0xb6, 0x98, 0x6e, 0xae, 0x21, 0xf0, 0xb9, 0xbb, 0x18, 0xf6, 0x45, 0x29, 0x8e]]"

definition TABLE_S4_93 :: "bytes" where
  "TABLE_S4_93 = concat [
    [0xaf, 0x09, 0xe6, 0xc9, 0xa0, 0xbe, 0x5f, 0x3b, 0x96, 0x08, 0xd1, 0x73, 0xd3, 0x5e, 0x67, 0xdf],
    [0xfb, 0x3c, 0xb3, 0x95, 0x2f, 0xb9, 0x44, 0xb5, 0xd4, 0x3f, 0xc6, 0xeb, 0xb8, 0x4c, 0x16, 0xf0],
    [0x48, 0xf7, 0x94, 0xcf, 0xa5, 0x38, 0xab, 0xad, 0x03, 0x3e, 0xdd, 0x22, 0x66, 0x4a, 0x6e, 0x1c],
    [0x1f, 0xa4, 0x7e, 0xe1, 0x1a, 0x62, 0xb2, 0x06, 0xd9, 0xde, 0x13, 0xa9, 0x56, 0x74, 0x43, 0x59],
    [0x9d, 0x36, 0x45, 0x0d, 0x97, 0x4e, 0x21, 0x11, 0x98, 0xc5, 0x79, 0x6a, 0x9b, 0xd8, 0x2e, 0x25],
    [0x12, 0x83, 0xb1, 0x4d, 0x9f, 0x92, 0xa2, 0x57, 0x9e, 0x20, 0x32, 0x5c, 0xf6, 0x17, 0x8e, 0x9c],
    [0xf9, 0x6b, 0x65, 0xef, 0x8b, 0x05, 0xf5, 0x1b, 0x51, 0xc1, 0x39, 0x49, 0x0f, 0x2b, 0xf8, 0xc0],
    [0xcd, 0xd5, 0xed, 0xf1, 0x47, 0x24, 0x70, 0x60, 0xca, 0xdb, 0x88, 0xc3, 0x19, 0x00, 0x10, 0x3a],
    [0xec, 0x87, 0x6c, 0xda, 0x14, 0x58, 0xb4, 0x80, 0x93, 0xff, 0x2a, 0xf2, 0x86, 0x23, 0x85, 0x37],
    [0xd6, 0xa3, 0xcb, 0x61, 0xbd, 0xe4, 0x4f, 0x5b, 0x63, 0x5d, 0x46, 0x07, 0x69, 0xc7, 0x50, 0xe5],
    [0xdc, 0x8c, 0x0c, 0xa7, 0x77, 0x41, 0xfa, 0xd2, 0x53, 0x52, 0x6f, 0x0a, 0xee, 0x7b, 0x29, 0x6d],
    [0xbf, 0xe9, 0x31, 0x0b, 0x18, 0xa8, 0x30, 0x7a, 0x75, 0xaa, 0x64, 0x7f, 0xf3, 0x42, 0xe8, 0x81],
    [0xd0, 0xa6, 0x7d, 0x3d, 0x2d, 0x68, 0xb7, 0x33, 0xa1, 0x26, 0x76, 0x55, 0xfc, 0x04, 0xce, 0x1e],
    [0xe3, 0x99, 0xb6, 0x8a, 0xbb, 0x4b, 0xea, 0x27, 0xfe, 0x89, 0xf4, 0x7c, 0xe0, 0x91, 0xbc, 0xc8],
    [0xae, 0x35, 0x40, 0x82, 0xac, 0x5a, 0x9a, 0x15, 0xc4, 0x8d, 0x8f, 0x2c, 0xc2, 0x71, 0x1d, 0xba],
    [0x34, 0xe2, 0xcc, 0xfd, 0x90, 0xd7, 0x28, 0x84, 0x02, 0xe7, 0x78, 0xb0, 0x72, 0x01, 0x54, 0x0e]]"

definition TABLE_S4_94 :: "bytes" where
  "TABLE_S4_94 = concat [
    [0xe5, 0xc8, 0x31, 0xda, 0xfe, 0x18, 0x42, 0xb6, 0x9b, 0xbd, 0x32, 0xf5, 0xbb, 0x4a, 0xb7, 0x21],
    [0x7d, 0xdf, 0x06, 0x98, 0xd1, 0x69, 0x50, 0xdd, 0xc7, 0xe8, 0x07, 0xa1, 0x35, 0x51, 0xb0, 0xae],
    [0xa7, 0x1d, 0xd0, 0xd7, 0x57, 0x4d, 0x7a, 0x58, 0xef, 0x70, 0xaa, 0x11, 0x08, 0xbc, 0x6c, 0x14],
    [0x2c, 0xd3, 0x30, 0x0d, 0x12, 0x60, 0x44, 0x68, 0xc1, 0x9a, 0xf9, 0x46, 0xa3, 0xa5, 0x36, 0xab],
    [0x52, 0x3c, 0x2e, 0x90, 0x92, 0x80, 0x19, 0xf8, 0x43, 0xbf, 0x8d, 0x1c, 0x59, 0xac, 0x9c, 0x91],
    [0x64, 0x77, 0xcb, 0x96, 0x2b, 0x20, 0xd6, 0x95, 0x03, 0x4b, 0x38, 0x93, 0x1f, 0x2f, 0x40, 0x99],
    [0xcd, 0x86, 0xd5, 0xc4, 0x34, 0x1e, 0x0e, 0x17, 0xff, 0xe3, 0xdb, 0xc3, 0x6e, 0x7e, 0x2a, 0x49],
    [0x47, 0x37, 0xcf, 0x5f, 0xce, 0xf6, 0x25, 0x01, 0xe1, 0x6b, 0x65, 0xf7, 0x15, 0xfb, 0x0b, 0x85],
    [0x09, 0x48, 0x53, 0x6d, 0xeb, 0x5e, 0xc9, 0x67, 0x6f, 0xc5, 0xad, 0xd8, 0x55, 0x41, 0xea, 0xb3],
    [0xfc, 0x24, 0xf1, 0x9d, 0x39, 0x8b, 0x2d, 0x88, 0xd4, 0x62, 0x89, 0xe2, 0x8e, 0xba, 0x56, 0x1a],
    [0x71, 0x6a, 0xa4, 0x7b, 0x8f, 0xe6, 0x4c, 0xfd, 0x05, 0x3f, 0xe7, 0xb1, 0x74, 0x3e, 0xa6, 0x16],
    [0x04, 0x61, 0x5c, 0x5d, 0x63, 0x27, 0x75, 0xe0, 0xa9, 0x02, 0x82, 0xd2, 0xdc, 0xf4, 0x4f, 0x79],
    [0x72, 0xfa, 0x87, 0xf0, 0xc6, 0xb2, 0x9f, 0xee, 0x84, 0xb8, 0x97, 0xed, 0x29, 0xe4, 0x45, 0xb5],
    [0x5b, 0x78, 0x28, 0xaf, 0x10, 0xc0, 0x0a, 0xf2, 0x33, 0x73, 0xa8, 0xde, 0x3d, 0xb9, 0x66, 0x23],
    [0xbe, 0x76, 0xe9, 0x0c, 0x00, 0x5a, 0x0f, 0x7c, 0xf3, 0xc2, 0xec, 0x3a, 0x8a, 0x26, 0xd9, 0x9e],
    [0x22, 0x81, 0x83, 0xca, 0xb4, 0x13, 0x7f, 0xcc, 0x8c, 0x4e, 0x3b, 0xa0, 0x1b, 0x94, 0x54, 0xa2]]"

definition TABLE_S4_95 :: "bytes" where
  "TABLE_S4_95 = concat [
    [0x8d, 0x8b, 0x83, 0x1e, 0xb2, 0xe9, 0x6e, 0xd1, 0x48, 0x3a, 0x40, 0x6c, 0xfb, 0x04, 0x25, 0x18],
    [0x94, 0x20, 0x3c, 0x44, 0x58, 0xc7, 0x39, 0x82, 0x65, 0x7f, 0x70, 0x52, 0x35, 0x8f, 0xff, 0xf8],
    [0x79, 0x1d, 0x86, 0x98, 0xc0, 0xef, 0x89, 0x2f, 0x41, 0xf9, 0xf5, 0x78, 0xf7, 0x55, 0xb0, 0x2e],
    [0x62, 0x93, 0x09, 0x9f, 0x95, 0xb3, 0xdd, 0x1a, 0x30, 0xd6, 0x9e, 0x6a, 0xe0, 0xcd, 0xf2, 0x19],
    [0xd3, 0x3d, 0xad, 0x23, 0x43, 0xc9, 0xdf, 0x4d, 0xde, 0xe6, 0x29, 0x0d, 0x1f, 0x6f, 0x77, 0xe7],
    [0x56, 0x46, 0x61, 0x02, 0xcb, 0xd7, 0xeb, 0xf3, 0x36, 0x1c, 0x3f, 0x26, 0xae, 0xe5, 0xec, 0xfd],
    [0x07, 0x37, 0xb1, 0x68, 0x63, 0x2b, 0xbb, 0x10, 0x08, 0x03, 0xbd, 0xfe, 0x5f, 0x4c, 0xbe, 0xe3],
    [0x84, 0x71, 0xb9, 0xb4, 0x97, 0x6b, 0x34, 0xa5, 0xa8, 0xba, 0xd0, 0x31, 0x14, 0x7a, 0xb8, 0x06],
    [0xdc, 0xf4, 0x51, 0x67, 0x2a, 0x81, 0xfa, 0xaa, 0x0f, 0x4b, 0xc8, 0x5d, 0x49, 0x2c, 0x75, 0x74],
    [0x16, 0x5c, 0x3e, 0x8e, 0x17, 0x2d, 0x99, 0xcf, 0xce, 0xa7, 0xd5, 0x64, 0x42, 0x59, 0x53, 0x8c],
    [0x92, 0xa6, 0x32, 0x7e, 0x4a, 0xfc, 0xca, 0xa1, 0xa3, 0x11, 0xa0, 0x05, 0x0c, 0xd4, 0xb5, 0xd9],
    [0x69, 0x7d, 0x9b, 0xc2, 0xed, 0x47, 0xf0, 0x85, 0x76, 0xc3, 0x4f, 0xe1, 0x60, 0x21, 0x45, 0x7b],
    [0xbc, 0x33, 0x8a, 0x7c, 0x66, 0xa4, 0x88, 0x13, 0x3b, 0x9c, 0xe4, 0x57, 0xa9, 0x0a, 0xe2, 0xab],
    [0x0e, 0xa2, 0xb6, 0xf1, 0xea, 0xdb, 0x12, 0xc4, 0x72, 0x28, 0x54, 0x27, 0x5e, 0x96, 0x24, 0xc1],
    [0x91, 0x15, 0x0b, 0x4e, 0x5b, 0x1b, 0xf6, 0x80, 0xe8, 0x38, 0xda, 0x22, 0x50, 0x73, 0x87, 0x00],
    [0xcc, 0x01, 0x9d, 0x6d, 0x90, 0xac, 0xc5, 0xbf, 0x9a, 0xee, 0xc6, 0xb7, 0xd2, 0x5a, 0xd8, 0xaf]]"

definition TABLE_S4_96 :: "bytes" where
  "TABLE_S4_96 = concat [
    [0x84, 0x43, 0xcc, 0xea, 0x50, 0xc6, 0x3b, 0xca, 0xab, 0x40, 0xb9, 0x94, 0xc7, 0x33, 0x69, 0x8f],
    [0xd0, 0x76, 0x99, 0xb6, 0xdf, 0xc1, 0x20, 0x44, 0xe9, 0x77, 0xae, 0x0c, 0xac, 0x21, 0x18, 0xa0],
    [0x60, 0xdb, 0x01, 0x9e, 0x65, 0x1d, 0xcd, 0x79, 0xa6, 0xa1, 0x6c, 0xd6, 0x29, 0x0b, 0x3c, 0x26],
    [0x37, 0x88, 0xeb, 0xb0, 0xda, 0x47, 0xd4, 0xd2, 0x7c, 0x41, 0xa2, 0x5d, 0x19, 0x35, 0x11, 0x63],
    [0x6d, 0xfc, 0xce, 0x32, 0xe0, 0xed, 0xdd, 0x28, 0xe1, 0x5f, 0x4d, 0x23, 0x89, 0x68, 0xf1, 0xe3],
    [0xe2, 0x49, 0x3a, 0x72, 0xe8, 0x31, 0x5e, 0x6e, 0xe7, 0xba, 0x06, 0x15, 0xe4, 0xa7, 0x51, 0x5a],
    [0xb2, 0xaa, 0x92, 0x8e, 0x38, 0x5b, 0x0f, 0x1f, 0xb5, 0xa4, 0xf7, 0xbc, 0x66, 0x7f, 0x6f, 0x45],
    [0x86, 0x14, 0x1a, 0x90, 0xf4, 0x7a, 0x8a, 0x64, 0x2e, 0xbe, 0x46, 0x36, 0x70, 0x54, 0x87, 0xbf],
    [0xa9, 0xdc, 0xb4, 0x1e, 0xc2, 0x9b, 0x30, 0x24, 0x1c, 0x22, 0x39, 0x78, 0x16, 0xb8, 0x2f, 0x9a],
    [0x93, 0xf8, 0x13, 0xa5, 0x6b, 0x27, 0xcb, 0xff, 0xec, 0x80, 0x55, 0x8d, 0xf9, 0x5c, 0xfa, 0x48],
    [0xc0, 0x96, 0x4e, 0x74, 0x67, 0xd7, 0x4f, 0x05, 0x0a, 0xd5, 0x1b, 0x00, 0x8c, 0x3d, 0x97, 0xfe],
    [0xa3, 0xf3, 0x73, 0xd8, 0x08, 0x3e, 0x85, 0xad, 0x2c, 0x2d, 0x10, 0x75, 0x91, 0x04, 0x56, 0x12],
    [0x9c, 0xe6, 0xc9, 0xf5, 0xc4, 0x34, 0x95, 0x58, 0x81, 0xf6, 0x8b, 0x03, 0x9f, 0xee, 0xc3, 0xb7],
    [0xaf, 0xd9, 0x02, 0x42, 0x52, 0x17, 0xc8, 0x4c, 0xde, 0x59, 0x09, 0x2a, 0x83, 0x7b, 0xb1, 0x61],
    [0x4b, 0x9d, 0xb3, 0x82, 0xef, 0xa8, 0x57, 0xfb, 0x7d, 0x98, 0x07, 0xcf, 0x0d, 0x7e, 0x2b, 0x71],
    [0xd1, 0x4a, 0x3f, 0xfd, 0xd3, 0x25, 0xe5, 0x6a, 0xbb, 0xf2, 0xf0, 0x53, 0xbd, 0x0e, 0x62, 0xc5]]"

definition TABLE_S4_97 :: "bytes" where
  "TABLE_S4_97 = concat [
    [0xda, 0x7c, 0x93, 0xbc, 0xd5, 0xcb, 0x2a, 0x4e, 0xe3, 0x7d, 0xa4, 0x06, 0xa6, 0x2b, 0x12, 0xaa],
    [0x8e, 0x49, 0xc6, 0xe0, 0x5a, 0xcc, 0x31, 0xc0, 0xa1, 0x4a, 0xb3, 0x9e, 0xcd, 0x39, 0x63, 0x85],
    [0x3d, 0x82, 0xe1, 0xba, 0xd0, 0x4d, 0xde, 0xd8, 0x76, 0x4b, 0xa8, 0x57, 0x13, 0x3f, 0x1b, 0x69],
    [0x6a, 0xd1, 0x0b, 0x94, 0x6f, 0x17, 0xc7, 0x73, 0xac, 0xab, 0x66, 0xdc, 0x23, 0x01, 0x36, 0x2c],
    [0xe8, 0x43, 0x30, 0x78, 0xe2, 0x3b, 0x54, 0x64, 0xed, 0xb0, 0x0c, 0x1f, 0xee, 0xad, 0x5b, 0x50],
    [0x67, 0xf6, 0xc4, 0x38, 0xea, 0xe7, 0xd7, 0x22, 0xeb, 0x55, 0x47, 0x29, 0x83, 0x62, 0xfb, 0xe9],
    [0x8c, 0x1e, 0x10, 0x9a, 0xfe, 0x70, 0x80, 0x6e, 0x24, 0xb4, 0x4c, 0x3c, 0x7a, 0x5e, 0x8d, 0xb5],
    [0xb8, 0xa0, 0x98, 0x84, 0x32, 0x51, 0x05, 0x15, 0xbf, 0xae, 0xfd, 0xb6, 0x6c, 0x75, 0x65, 0x4f],
    [0x99, 0xf2, 0x19, 0xaf, 0x61, 0x2d, 0xc1, 0xf5, 0xe6, 0x8a, 0x5f, 0x87, 0xf3, 0x56, 0xf0, 0x42],
    [0xa3, 0xd6, 0xbe, 0x14, 0xc8, 0x91, 0x3a, 0x2e, 0x16, 0x28, 0x33, 0x72, 0x1c, 0xb2, 0x25, 0x90],
    [0xa9, 0xf9, 0x79, 0xd2, 0x02, 0x34, 0x8f, 0xa7, 0x26, 0x27, 0x1a, 0x7f, 0x9b, 0x0e, 0x5c, 0x18],
    [0xca, 0x9c, 0x44, 0x7e, 0x6d, 0xdd, 0x45, 0x0f, 0x00, 0xdf, 0x11, 0x0a, 0x86, 0x37, 0x9d, 0xf4],
    [0xa5, 0xd3, 0x08, 0x48, 0x58, 0x1d, 0xc2, 0x46, 0xd4, 0x53, 0x03, 0x20, 0x89, 0x71, 0xbb, 0x6b],
    [0x96, 0xec, 0xc3, 0xff, 0xce, 0x3e, 0x9f, 0x52, 0x8b, 0xfc, 0x81, 0x09, 0x95, 0xe4, 0xc9, 0xbd],
    [0xdb, 0x40, 0x35, 0xf7, 0xd9, 0x2f, 0xef, 0x60, 0xb1, 0xf8, 0xfa, 0x59, 0xb7, 0x04, 0x68, 0xcf],
    [0x41, 0x97, 0xb9, 0x88, 0xe5, 0xa2, 0x5d, 0xf1, 0x77, 0x92, 0x0d, 0xc5, 0x07, 0x74, 0x21, 0x7b]]"

definition TABLE_S4_98 :: "bytes" where
  "TABLE_S4_98 = concat [
    [0x3f, 0x12, 0xeb, 0x00, 0x24, 0xc2, 0x98, 0x6c, 0x41, 0x67, 0xe8, 0x2f, 0x61, 0x90, 0x6d, 0xfb],
    [0xa7, 0x05, 0xdc, 0x42, 0x0b, 0xb3, 0x8a, 0x07, 0x1d, 0x32, 0xdd, 0x7b, 0xef, 0x8b, 0x6a, 0x74],
    [0x7d, 0xc7, 0x0a, 0x0d, 0x8d, 0x97, 0xa0, 0x82, 0x35, 0xaa, 0x70, 0xcb, 0xd2, 0x66, 0xb6, 0xce],
    [0xf6, 0x09, 0xea, 0xd7, 0xc8, 0xba, 0x9e, 0xb2, 0x1b, 0x40, 0x23, 0x9c, 0x79, 0x7f, 0xec, 0x71],
    [0x88, 0xe6, 0xf4, 0x4a, 0x48, 0x5a, 0xc3, 0x22, 0x99, 0x65, 0x57, 0xc6, 0x83, 0x76, 0x46, 0x4b],
    [0xbe, 0xad, 0x11, 0x4c, 0xf1, 0xfa, 0x0c, 0x4f, 0xd9, 0x91, 0xe2, 0x49, 0xc5, 0xf5, 0x9a, 0x43],
    [0x17, 0x5c, 0x0f, 0x1e, 0xee, 0xc4, 0xd4, 0xcd, 0x25, 0x39, 0x01, 0x19, 0xb4, 0xa4, 0xf0, 0x93],
    [0x9d, 0xed, 0x15, 0x85, 0x14, 0x2c, 0xff, 0xdb, 0x3b, 0xb1, 0xbf, 0x2d, 0xcf, 0x21, 0xd1, 0x5f],
    [0xd3, 0x92, 0x89, 0xb7, 0x31, 0x84, 0x13, 0xbd, 0xb5, 0x1f, 0x77, 0x02, 0x8f, 0x9b, 0x30, 0x69],
    [0x26, 0xfe, 0x2b, 0x47, 0xe3, 0x51, 0xf7, 0x52, 0x0e, 0xb8, 0x53, 0x38, 0x54, 0x60, 0x8c, 0xc0],
    [0xab, 0xb0, 0x7e, 0xa1, 0x55, 0x3c, 0x96, 0x27, 0xdf, 0xe5, 0x3d, 0x6b, 0xae, 0xe4, 0x7c, 0xcc],
    [0xde, 0xbb, 0x86, 0x87, 0xb9, 0xfd, 0xaf, 0x3a, 0x73, 0xd8, 0x58, 0x08, 0x06, 0x2e, 0x95, 0xa3],
    [0xa8, 0x20, 0x5d, 0x2a, 0x1c, 0x68, 0x45, 0x34, 0x5e, 0x62, 0x4d, 0x37, 0xf3, 0x3e, 0x9f, 0x6f],
    [0x81, 0xa2, 0xf2, 0x75, 0xca, 0x1a, 0xd0, 0x28, 0xe9, 0xa9, 0x72, 0x04, 0xe7, 0x63, 0xbc, 0xf9],
    [0x64, 0xac, 0x33, 0xd6, 0xda, 0x80, 0xd5, 0xa6, 0x29, 0x18, 0x36, 0xe0, 0x50, 0xfc, 0x03, 0x44],
    [0xf8, 0x5b, 0x59, 0x10, 0x6e, 0xc9, 0xa5, 0x16, 0x56, 0x94, 0xe1, 0x7a, 0xc1, 0x4e, 0x8e, 0x78]]"

definition TABLE_S4_99 :: "bytes" where
  "TABLE_S4_99 = concat [
    [0xe6, 0xe0, 0xe8, 0x75, 0xd9, 0x82, 0x05, 0xba, 0x23, 0x51, 0x2b, 0x07, 0x90, 0x6f, 0x4e, 0x73],
    [0xff, 0x4b, 0x57, 0x2f, 0x33, 0xac, 0x52, 0xe9, 0x0e, 0x14, 0x1b, 0x39, 0x5e, 0xe4, 0x94, 0x93],
    [0x12, 0x76, 0xed, 0xf3, 0xab, 0x84, 0xe2, 0x44, 0x2a, 0x92, 0x9e, 0x13, 0x9c, 0x3e, 0xdb, 0x45],
    [0x09, 0xf8, 0x62, 0xf4, 0xfe, 0xd8, 0xb6, 0x71, 0x5b, 0xbd, 0xf5, 0x01, 0x8b, 0xa6, 0x99, 0x72],
    [0xb8, 0x56, 0xc6, 0x48, 0x28, 0xa2, 0xb4, 0x26, 0xb5, 0x8d, 0x42, 0x66, 0x74, 0x04, 0x1c, 0x8c],
    [0x3d, 0x2d, 0x0a, 0x69, 0xa0, 0xbc, 0x80, 0x98, 0x5d, 0x77, 0x54, 0x4d, 0xc5, 0x8e, 0x87, 0x96],
    [0x6c, 0x5c, 0xda, 0x03, 0x08, 0x40, 0xd0, 0x7b, 0x63, 0x68, 0xd6, 0x95, 0x34, 0x27, 0xd5, 0x88],
    [0xef, 0x1a, 0xd2, 0xdf, 0xfc, 0x00, 0x5f, 0xce, 0xc3, 0xd1, 0xbb, 0x5a, 0x7f, 0x11, 0xd3, 0x6d],
    [0xb7, 0x9f, 0x3a, 0x0c, 0x41, 0xea, 0x91, 0xc1, 0x64, 0x20, 0xa3, 0x36, 0x22, 0x47, 0x1e, 0x1f],
    [0x7d, 0x37, 0x55, 0xe5, 0x7c, 0x46, 0xf2, 0xa4, 0xa5, 0xcc, 0xbe, 0x0f, 0x29, 0x32, 0x38, 0xe7],
    [0xf9, 0xcd, 0x59, 0x15, 0x21, 0x97, 0xa1, 0xca, 0xc8, 0x7a, 0xcb, 0x6e, 0x67, 0xbf, 0xde, 0xb2],
    [0x02, 0x16, 0xf0, 0xa9, 0x86, 0x2c, 0x9b, 0xee, 0x1d, 0xa8, 0x24, 0x8a, 0x0b, 0x4a, 0x2e, 0x10],
    [0xd7, 0x58, 0xe1, 0x17, 0x0d, 0xcf, 0xe3, 0x78, 0x50, 0xf7, 0x8f, 0x3c, 0xc2, 0x61, 0x89, 0xc0],
    [0x65, 0xc9, 0xdd, 0x9a, 0x81, 0xb0, 0x79, 0xaf, 0x19, 0x43, 0x3f, 0x4c, 0x35, 0xfd, 0x4f, 0xaa],
    [0xfa, 0x7e, 0x60, 0x25, 0x30, 0x70, 0x9d, 0xeb, 0x83, 0x53, 0xb1, 0x49, 0x3b, 0x18, 0xec, 0x6b],
    [0xa7, 0x6a, 0xf6, 0x06, 0xfb, 0xc7, 0xae, 0xd4, 0xf1, 0x85, 0xad, 0xdc, 0xb9, 0x31, 0xb3, 0xc4]]"

definition TABLE_S4_100 :: "bytes" where
  "TABLE_S4_100 = concat [
    [0x41, 0x86, 0x09, 0x2f, 0x95, 0x03, 0xfe, 0x0f, 0x6e, 0x85, 0x7c, 0x51, 0x02, 0xf6, 0xac, 0x4a],
    [0x15, 0xb3, 0x5c, 0x73, 0x1a, 0x04, 0xe5, 0x81, 0x2c, 0xb2, 0x6b, 0xc9, 0x69, 0xe4, 0xdd, 0x65],
    [0xa5, 0x1e, 0xc4, 0x5b, 0xa0, 0xd8, 0x08, 0xbc, 0x63, 0x64, 0xa9, 0x13, 0xec, 0xce, 0xf9, 0xe3],
    [0xf2, 0x4d, 0x2e, 0x75, 0x1f, 0x82, 0x11, 0x17, 0xb9, 0x84, 0x67, 0x98, 0xdc, 0xf0, 0xd4, 0xa6],
    [0xa8, 0x39, 0x0b, 0xf7, 0x25, 0x28, 0x18, 0xed, 0x24, 0x9a, 0x88, 0xe6, 0x4c, 0xad, 0x34, 0x26],
    [0x27, 0x8c, 0xff, 0xb7, 0x2d, 0xf4, 0x9b, 0xab, 0x22, 0x7f, 0xc3, 0xd0, 0x21, 0x62, 0x94, 0x9f],
    [0x77, 0x6f, 0x57, 0x4b, 0xfd, 0x9e, 0xca, 0xda, 0x70, 0x61, 0x32, 0x79, 0xa3, 0xba, 0xaa, 0x80],
    [0x43, 0xd1, 0xdf, 0x55, 0x31, 0xbf, 0x4f, 0xa1, 0xeb, 0x7b, 0x83, 0xf3, 0xb5, 0x91, 0x42, 0x7a],
    [0x6c, 0x19, 0x71, 0xdb, 0x07, 0x5e, 0xf5, 0xe1, 0xd9, 0xe7, 0xfc, 0xbd, 0xd3, 0x7d, 0xea, 0x5f],
    [0x56, 0x3d, 0xd6, 0x60, 0xae, 0xe2, 0x0e, 0x3a, 0x29, 0x45, 0x90, 0x48, 0x3c, 0x99, 0x3f, 0x8d],
    [0x05, 0x53, 0x8b, 0xb1, 0xa2, 0x12, 0x8a, 0xc0, 0xcf, 0x10, 0xde, 0xc5, 0x49, 0xf8, 0x52, 0x3b],
    [0x66, 0x36, 0xb6, 0x1d, 0xcd, 0xfb, 0x40, 0x68, 0xe9, 0xe8, 0xd5, 0xb0, 0x54, 0xc1, 0x93, 0xd7],
    [0x59, 0x23, 0x0c, 0x30, 0x01, 0xf1, 0x50, 0x9d, 0x44, 0x33, 0x4e, 0xc6, 0x5a, 0x2b, 0x06, 0x72],
    [0x6a, 0x1c, 0xc7, 0x87, 0x97, 0xd2, 0x0d, 0x89, 0x1b, 0x9c, 0xcc, 0xef, 0x46, 0xbe, 0x74, 0xa4],
    [0x8e, 0x58, 0x76, 0x47, 0x2a, 0x6d, 0x92, 0x3e, 0xb8, 0x5d, 0xc2, 0x0a, 0xc8, 0xbb, 0xee, 0xb4],
    [0x14, 0x8f, 0xfa, 0x38, 0x16, 0xe0, 0x20, 0xaf, 0x7e, 0x37, 0x35, 0x96, 0x78, 0xcb, 0xa7, 0x00]]"

definition TABLE_S4_101 :: "bytes" where
  "TABLE_S4_101 = concat [
    [0x6d, 0xcb, 0x24, 0x0b, 0x62, 0x7c, 0x9d, 0xf9, 0x54, 0xca, 0x13, 0xb1, 0x11, 0x9c, 0xa5, 0x1d],
    [0x39, 0xfe, 0x71, 0x57, 0xed, 0x7b, 0x86, 0x77, 0x16, 0xfd, 0x04, 0x29, 0x7a, 0x8e, 0xd4, 0x32],
    [0x8a, 0x35, 0x56, 0x0d, 0x67, 0xfa, 0x69, 0x6f, 0xc1, 0xfc, 0x1f, 0xe0, 0xa4, 0x88, 0xac, 0xde],
    [0xdd, 0x66, 0xbc, 0x23, 0xd8, 0xa0, 0x70, 0xc4, 0x1b, 0x1c, 0xd1, 0x6b, 0x94, 0xb6, 0x81, 0x9b],
    [0x5f, 0xf4, 0x87, 0xcf, 0x55, 0x8c, 0xe3, 0xd3, 0x5a, 0x07, 0xbb, 0xa8, 0x59, 0x1a, 0xec, 0xe7],
    [0xd0, 0x41, 0x73, 0x8f, 0x5d, 0x50, 0x60, 0x95, 0x5c, 0xe2, 0xf0, 0x9e, 0x34, 0xd5, 0x4c, 0x5e],
    [0x3b, 0xa9, 0xa7, 0x2d, 0x49, 0xc7, 0x37, 0xd9, 0x93, 0x03, 0xfb, 0x8b, 0xcd, 0xe9, 0x3a, 0x02],
    [0x0f, 0x17, 0x2f, 0x33, 0x85, 0xe6, 0xb2, 0xa2, 0x08, 0x19, 0x4a, 0x01, 0xdb, 0xc2, 0xd2, 0xf8],
    [0x2e, 0x45, 0xae, 0x18, 0xd6, 0x9a, 0x76, 0x42, 0x51, 0x3d, 0xe8, 0x30, 0x44, 0xe1, 0x47, 0xf5],
    [0x14, 0x61, 0x09, 0xa3, 0x7f, 0x26, 0x8d, 0x99, 0xa1, 0x9f, 0x84, 0xc5, 0xab, 0x05, 0x92, 0x27],
    [0x1e, 0x4e, 0xce, 0x65, 0xb5, 0x83, 0x38, 0x10, 0x91, 0x90, 0xad, 0xc8, 0x2c, 0xb9, 0xeb, 0xaf],
    [0x7d, 0x2b, 0xf3, 0xc9, 0xda, 0x6a, 0xf2, 0xb8, 0xb7, 0x68, 0xa6, 0xbd, 0x31, 0x80, 0x2a, 0x43],
    [0x12, 0x64, 0xbf, 0xff, 0xef, 0xaa, 0x75, 0xf1, 0x63, 0xe4, 0xb4, 0x97, 0x3e, 0xc6, 0x0c, 0xdc],
    [0x21, 0x5b, 0x74, 0x48, 0x79, 0x89, 0x28, 0xe5, 0x3c, 0x4b, 0x36, 0xbe, 0x22, 0x53, 0x7e, 0x0a],
    [0x6c, 0xf7, 0x82, 0x40, 0x6e, 0x98, 0x58, 0xd7, 0x06, 0x4f, 0x4d, 0xee, 0x00, 0xb3, 0xdf, 0x78],
    [0xf6, 0x20, 0x0e, 0x3f, 0x52, 0x15, 0xea, 0x46, 0xc0, 0x25, 0xba, 0x72, 0xb0, 0xc3, 0x96, 0xcc]]"

definition TABLE_S4_102 :: "bytes" where
  "TABLE_S4_102 = concat [
    [0xb8, 0x95, 0x6c, 0x87, 0xa3, 0x45, 0x1f, 0xeb, 0xc6, 0xe0, 0x6f, 0xa8, 0xe6, 0x17, 0xea, 0x7c],
    [0x20, 0x82, 0x5b, 0xc5, 0x8c, 0x34, 0x0d, 0x80, 0x9a, 0xb5, 0x5a, 0xfc, 0x68, 0x0c, 0xed, 0xf3],
    [0xfa, 0x40, 0x8d, 0x8a, 0x0a, 0x10, 0x27, 0x05, 0xb2, 0x2d, 0xf7, 0x4c, 0x55, 0xe1, 0x31, 0x49],
    [0x71, 0x8e, 0x6d, 0x50, 0x4f, 0x3d, 0x19, 0x35, 0x9c, 0xc7, 0xa4, 0x1b, 0xfe, 0xf8, 0x6b, 0xf6],
    [0x0f, 0x61, 0x73, 0xcd, 0xcf, 0xdd, 0x44, 0xa5, 0x1e, 0xe2, 0xd0, 0x41, 0x04, 0xf1, 0xc1, 0xcc],
    [0x39, 0x2a, 0x96, 0xcb, 0x76, 0x7d, 0x8b, 0xc8, 0x5e, 0x16, 0x65, 0xce, 0x42, 0x72, 0x1d, 0xc4],
    [0x90, 0xdb, 0x88, 0x99, 0x69, 0x43, 0x53, 0x4a, 0xa2, 0xbe, 0x86, 0x9e, 0x33, 0x23, 0x77, 0x14],
    [0x1a, 0x6a, 0x92, 0x02, 0x93, 0xab, 0x78, 0x5c, 0xbc, 0x36, 0x38, 0xaa, 0x48, 0xa6, 0x56, 0xd8],
    [0x54, 0x15, 0x0e, 0x30, 0xb6, 0x03, 0x94, 0x3a, 0x32, 0x98, 0xf0, 0x85, 0x08, 0x1c, 0xb7, 0xee],
    [0xa1, 0x79, 0xac, 0xc0, 0x64, 0xd6, 0x70, 0xd5, 0x89, 0x3f, 0xd4, 0xbf, 0xd3, 0xe7, 0x0b, 0x47],
    [0x2c, 0x37, 0xf9, 0x26, 0xd2, 0xbb, 0x11, 0xa0, 0x58, 0x62, 0xba, 0xec, 0x29, 0x63, 0xfb, 0x4b],
    [0x59, 0x3c, 0x01, 0x00, 0x3e, 0x7a, 0x28, 0xbd, 0xf4, 0x5f, 0xdf, 0x8f, 0x81, 0xa9, 0x12, 0x24],
    [0x2f, 0xa7, 0xda, 0xad, 0x9b, 0xef, 0xc2, 0xb3, 0xd9, 0xe5, 0xca, 0xb0, 0x74, 0xb9, 0x18, 0xe8],
    [0x06, 0x25, 0x75, 0xf2, 0x4d, 0x9d, 0x57, 0xaf, 0x6e, 0x2e, 0xf5, 0x83, 0x60, 0xe4, 0x3b, 0x7e],
    [0xe3, 0x2b, 0xb4, 0x51, 0x5d, 0x07, 0x52, 0x21, 0xae, 0x9f, 0xb1, 0x67, 0xd7, 0x7b, 0x84, 0xc3],
    [0x7f, 0xdc, 0xde, 0x97, 0xe9, 0x4e, 0x22, 0x91, 0xd1, 0x13, 0x66, 0xfd, 0x46, 0xc9, 0x09, 0xff]]"

definition TABLE_S4_103 :: "bytes" where
  "TABLE_S4_103 = concat [
    [0x76, 0x70, 0x78, 0xe5, 0x49, 0x12, 0x95, 0x2a, 0xb3, 0xc1, 0xbb, 0x97, 0x00, 0xff, 0xde, 0xe3],
    [0x6f, 0xdb, 0xc7, 0xbf, 0xa3, 0x3c, 0xc2, 0x79, 0x9e, 0x84, 0x8b, 0xa9, 0xce, 0x74, 0x04, 0x03],
    [0x82, 0xe6, 0x7d, 0x63, 0x3b, 0x14, 0x72, 0xd4, 0xba, 0x02, 0x0e, 0x83, 0x0c, 0xae, 0x4b, 0xd5],
    [0x99, 0x68, 0xf2, 0x64, 0x6e, 0x48, 0x26, 0xe1, 0xcb, 0x2d, 0x65, 0x91, 0x1b, 0x36, 0x09, 0xe2],
    [0x28, 0xc6, 0x56, 0xd8, 0xb8, 0x32, 0x24, 0xb6, 0x25, 0x1d, 0xd2, 0xf6, 0xe4, 0x94, 0x8c, 0x1c],
    [0xad, 0xbd, 0x9a, 0xf9, 0x30, 0x2c, 0x10, 0x08, 0xcd, 0xe7, 0xc4, 0xdd, 0x55, 0x1e, 0x17, 0x06],
    [0xfc, 0xcc, 0x4a, 0x93, 0x98, 0xd0, 0x40, 0xeb, 0xf3, 0xf8, 0x46, 0x05, 0xa4, 0xb7, 0x45, 0x18],
    [0x7f, 0x8a, 0x42, 0x4f, 0x6c, 0x90, 0xcf, 0x5e, 0x53, 0x41, 0x2b, 0xca, 0xef, 0x81, 0x43, 0xfd],
    [0x27, 0x0f, 0xaa, 0x9c, 0xd1, 0x7a, 0x01, 0x51, 0xf4, 0xb0, 0x33, 0xa6, 0xb2, 0xd7, 0x8e, 0x8f],
    [0xed, 0xa7, 0xc5, 0x75, 0xec, 0xd6, 0x62, 0x34, 0x35, 0x5c, 0x2e, 0x9f, 0xb9, 0xa2, 0xa8, 0x77],
    [0x69, 0x5d, 0xc9, 0x85, 0xb1, 0x07, 0x31, 0x5a, 0x58, 0xea, 0x5b, 0xfe, 0xf7, 0x2f, 0x4e, 0x22],
    [0x92, 0x86, 0x60, 0x39, 0x16, 0xbc, 0x0b, 0x7e, 0x8d, 0x38, 0xb4, 0x1a, 0x9b, 0xda, 0xbe, 0x80],
    [0x47, 0xc8, 0x71, 0x87, 0x9d, 0x5f, 0x73, 0xe8, 0xc0, 0x67, 0x1f, 0xac, 0x52, 0xf1, 0x19, 0x50],
    [0xf5, 0x59, 0x4d, 0x0a, 0x11, 0x20, 0xe9, 0x3f, 0x89, 0xd3, 0xaf, 0xdc, 0xa5, 0x6d, 0xdf, 0x3a],
    [0x6a, 0xee, 0xf0, 0xb5, 0xa0, 0xe0, 0x0d, 0x7b, 0x13, 0xc3, 0x21, 0xd9, 0xab, 0x88, 0x7c, 0xfb],
    [0x37, 0xfa, 0x66, 0x96, 0x6b, 0x57, 0x3e, 0x44, 0x61, 0x15, 0x3d, 0x4c, 0x29, 0xa1, 0x23, 0x54]]"

definition TABLE_S4_104 :: "bytes" where
  "TABLE_S4_104 = concat [
    [0xc8, 0x0f, 0x80, 0xa6, 0x1c, 0x8a, 0x77, 0x86, 0xe7, 0x0c, 0xf5, 0xd8, 0x8b, 0x7f, 0x25, 0xc3],
    [0x9c, 0x3a, 0xd5, 0xfa, 0x93, 0x8d, 0x6c, 0x08, 0xa5, 0x3b, 0xe2, 0x40, 0xe0, 0x6d, 0x54, 0xec],
    [0x2c, 0x97, 0x4d, 0xd2, 0x29, 0x51, 0x81, 0x35, 0xea, 0xed, 0x20, 0x9a, 0x65, 0x47, 0x70, 0x6a],
    [0x7b, 0xc4, 0xa7, 0xfc, 0x96, 0x0b, 0x98, 0x9e, 0x30, 0x0d, 0xee, 0x11, 0x55, 0x79, 0x5d, 0x2f],
    [0x21, 0xb0, 0x82, 0x7e, 0xac, 0xa1, 0x91, 0x64, 0xad, 0x13, 0x01, 0x6f, 0xc5, 0x24, 0xbd, 0xaf],
    [0xae, 0x05, 0x76, 0x3e, 0xa4, 0x7d, 0x12, 0x22, 0xab, 0xf6, 0x4a, 0x59, 0xa8, 0xeb, 0x1d, 0x16],
    [0xfe, 0xe6, 0xde, 0xc2, 0x74, 0x17, 0x43, 0x53, 0xf9, 0xe8, 0xbb, 0xf0, 0x2a, 0x33, 0x23, 0x09],
    [0xca, 0x58, 0x56, 0xdc, 0xb8, 0x36, 0xc6, 0x28, 0x62, 0xf2, 0x0a, 0x7a, 0x3c, 0x18, 0xcb, 0xf3],
    [0xe5, 0x90, 0xf8, 0x52, 0x8e, 0xd7, 0x7c, 0x68, 0x50, 0x6e, 0x75, 0x34, 0x5a, 0xf4, 0x63, 0xd6],
    [0xdf, 0xb4, 0x5f, 0xe9, 0x27, 0x6b, 0x87, 0xb3, 0xa0, 0xcc, 0x19, 0xc1, 0xb5, 0x10, 0xb6, 0x04],
    [0x8c, 0xda, 0x02, 0x38, 0x2b, 0x9b, 0x03, 0x49, 0x46, 0x99, 0x57, 0x4c, 0xc0, 0x71, 0xdb, 0xb2],
    [0xef, 0xbf, 0x3f, 0x94, 0x44, 0x72, 0xc9, 0xe1, 0x60, 0x61, 0x5c, 0x39, 0xdd, 0x48, 0x1a, 0x5e],
    [0xd0, 0xaa, 0x85, 0xb9, 0x88, 0x78, 0xd9, 0x14, 0xcd, 0xba, 0xc7, 0x4f, 0xd3, 0xa2, 0x8f, 0xfb],
    [0xe3, 0x95, 0x4e, 0x0e, 0x1e, 0x5b, 0x84, 0x00, 0x92, 0x15, 0x45, 0x66, 0xcf, 0x37, 0xfd, 0x2d],
    [0x07, 0xd1, 0xff, 0xce, 0xa3, 0xe4, 0x1b, 0xb7, 0x31, 0xd4, 0x4b, 0x83, 0x41, 0x32, 0x67, 0x3d],
    [0x9d, 0x06, 0x73, 0xb1, 0x9f, 0x69, 0xa9, 0x26, 0xf7, 0xbe, 0xbc, 0x1f, 0xf1, 0x42, 0x2e, 0x89]]"

definition TABLE_S4_105 :: "bytes" where
  "TABLE_S4_105 = concat [
    [0xa3, 0x05, 0xea, 0xc5, 0xac, 0xb2, 0x53, 0x37, 0x9a, 0x04, 0xdd, 0x7f, 0xdf, 0x52, 0x6b, 0xd3],
    [0xf7, 0x30, 0xbf, 0x99, 0x23, 0xb5, 0x48, 0xb9, 0xd8, 0x33, 0xca, 0xe7, 0xb4, 0x40, 0x1a, 0xfc],
    [0x44, 0xfb, 0x98, 0xc3, 0xa9, 0x34, 0xa7, 0xa1, 0x0f, 0x32, 0xd1, 0x2e, 0x6a, 0x46, 0x62, 0x10],
    [0x13, 0xa8, 0x72, 0xed, 0x16, 0x6e, 0xbe, 0x0a, 0xd5, 0xd2, 0x1f, 0xa5, 0x5a, 0x78, 0x4f, 0x55],
    [0x91, 0x3a, 0x49, 0x01, 0x9b, 0x42, 0x2d, 0x1d, 0x94, 0xc9, 0x75, 0x66, 0x97, 0xd4, 0x22, 0x29],
    [0x1e, 0x8f, 0xbd, 0x41, 0x93, 0x9e, 0xae, 0x5b, 0x92, 0x2c, 0x3e, 0x50, 0xfa, 0x1b, 0x82, 0x90],
    [0xf5, 0x67, 0x69, 0xe3, 0x87, 0x09, 0xf9, 0x17, 0x5d, 0xcd, 0x35, 0x45, 0x03, 0x27, 0xf4, 0xcc],
    [0xc1, 0xd9, 0xe1, 0xfd, 0x4b, 0x28, 0x7c, 0x6c, 0xc6, 0xd7, 0x84, 0xcf, 0x15, 0x0c, 0x1c, 0x36],
    [0xe0, 0x8b, 0x60, 0xd6, 0x18, 0x54, 0xb8, 0x8c, 0x9f, 0xf3, 0x26, 0xfe, 0x8a, 0x2f, 0x89, 0x3b],
    [0xda, 0xaf, 0xc7, 0x6d, 0xb1, 0xe8, 0x43, 0x57, 0x6f, 0x51, 0x4a, 0x0b, 0x65, 0xcb, 0x5c, 0xe9],
    [0xd0, 0x80, 0x00, 0xab, 0x7b, 0x4d, 0xf6, 0xde, 0x5f, 0x5e, 0x63, 0x06, 0xe2, 0x77, 0x25, 0x61],
    [0xb3, 0xe5, 0x3d, 0x07, 0x14, 0xa4, 0x3c, 0x76, 0x79, 0xa6, 0x68, 0x73, 0xff, 0x4e, 0xe4, 0x8d],
    [0xdc, 0xaa, 0x71, 0x31, 0x21, 0x64, 0xbb, 0x3f, 0xad, 0x2a, 0x7a, 0x59, 0xf0, 0x08, 0xc2, 0x12],
    [0xef, 0x95, 0xba, 0x86, 0xb7, 0x47, 0xe6, 0x2b, 0xf2, 0x85, 0xf8, 0x70, 0xec, 0x9d, 0xb0, 0xc4],
    [0xa2, 0x39, 0x4c, 0x8e, 0xa0, 0x56, 0x96, 0x19, 0xc8, 0x81, 0x83, 0x20, 0xce, 0x7d, 0x11, 0xb6],
    [0x38, 0xee, 0xc0, 0xf1, 0x9c, 0xdb, 0x24, 0x88, 0x0e, 0xeb, 0x74, 0xbc, 0x7e, 0x0d, 0x58, 0x02]]"

definition TABLE_S4_106 :: "bytes" where
  "TABLE_S4_106 = concat [
    [0x9f, 0xb2, 0x4b, 0xa0, 0x84, 0x62, 0x38, 0xcc, 0xe1, 0xc7, 0x48, 0x8f, 0xc1, 0x30, 0xcd, 0x5b],
    [0x07, 0xa5, 0x7c, 0xe2, 0xab, 0x13, 0x2a, 0xa7, 0xbd, 0x92, 0x7d, 0xdb, 0x4f, 0x2b, 0xca, 0xd4],
    [0xdd, 0x67, 0xaa, 0xad, 0x2d, 0x37, 0x00, 0x22, 0x95, 0x0a, 0xd0, 0x6b, 0x72, 0xc6, 0x16, 0x6e],
    [0x56, 0xa9, 0x4a, 0x77, 0x68, 0x1a, 0x3e, 0x12, 0xbb, 0xe0, 0x83, 0x3c, 0xd9, 0xdf, 0x4c, 0xd1],
    [0x28, 0x46, 0x54, 0xea, 0xe8, 0xfa, 0x63, 0x82, 0x39, 0xc5, 0xf7, 0x66, 0x23, 0xd6, 0xe6, 0xeb],
    [0x1e, 0x0d, 0xb1, 0xec, 0x51, 0x5a, 0xac, 0xef, 0x79, 0x31, 0x42, 0xe9, 0x65, 0x55, 0x3a, 0xe3],
    [0xb7, 0xfc, 0xaf, 0xbe, 0x4e, 0x64, 0x74, 0x6d, 0x85, 0x99, 0xa1, 0xb9, 0x14, 0x04, 0x50, 0x33],
    [0x3d, 0x4d, 0xb5, 0x25, 0xb4, 0x8c, 0x5f, 0x7b, 0x9b, 0x11, 0x1f, 0x8d, 0x6f, 0x81, 0x71, 0xff],
    [0x73, 0x32, 0x29, 0x17, 0x91, 0x24, 0xb3, 0x1d, 0x15, 0xbf, 0xd7, 0xa2, 0x2f, 0x3b, 0x90, 0xc9],
    [0x86, 0x5e, 0x8b, 0xe7, 0x43, 0xf1, 0x57, 0xf2, 0xae, 0x18, 0xf3, 0x98, 0xf4, 0xc0, 0x2c, 0x60],
    [0x0b, 0x10, 0xde, 0x01, 0xf5, 0x9c, 0x36, 0x87, 0x7f, 0x45, 0x9d, 0xcb, 0x0e, 0x44, 0xdc, 0x6c],
    [0x7e, 0x1b, 0x26, 0x27, 0x19, 0x5d, 0x0f, 0x9a, 0xd3, 0x78, 0xf8, 0xa8, 0xa6, 0x8e, 0x35, 0x03],
    [0x08, 0x80, 0xfd, 0x8a, 0xbc, 0xc8, 0xe5, 0x94, 0xfe, 0xc2, 0xed, 0x97, 0x53, 0x9e, 0x3f, 0xcf],
    [0x21, 0x02, 0x52, 0xd5, 0x6a, 0xba, 0x70, 0x88, 0x49, 0x09, 0xd2, 0xa4, 0x47, 0xc3, 0x1c, 0x59],
    [0xc4, 0x0c, 0x93, 0x76, 0x7a, 0x20, 0x75, 0x06, 0x89, 0xb8, 0x96, 0x40, 0xf0, 0x5c, 0xa3, 0xe4],
    [0x58, 0xfb, 0xf9, 0xb0, 0xce, 0x69, 0x05, 0xb6, 0xf6, 0x34, 0x41, 0xda, 0x61, 0xee, 0x2e, 0xd8]]"

definition TABLE_S4_107 :: "bytes" where
  "TABLE_S4_107 = concat [
    [0xa2, 0xa4, 0xac, 0x31, 0x9d, 0xc6, 0x41, 0xfe, 0x67, 0x15, 0x6f, 0x43, 0xd4, 0x2b, 0x0a, 0x37],
    [0xbb, 0x0f, 0x13, 0x6b, 0x77, 0xe8, 0x16, 0xad, 0x4a, 0x50, 0x5f, 0x7d, 0x1a, 0xa0, 0xd0, 0xd7],
    [0x56, 0x32, 0xa9, 0xb7, 0xef, 0xc0, 0xa6, 0x00, 0x6e, 0xd6, 0xda, 0x57, 0xd8, 0x7a, 0x9f, 0x01],
    [0x4d, 0xbc, 0x26, 0xb0, 0xba, 0x9c, 0xf2, 0x35, 0x1f, 0xf9, 0xb1, 0x45, 0xcf, 0xe2, 0xdd, 0x36],
    [0xfc, 0x12, 0x82, 0x0c, 0x6c, 0xe6, 0xf0, 0x62, 0xf1, 0xc9, 0x06, 0x22, 0x30, 0x40, 0x58, 0xc8],
    [0x79, 0x69, 0x4e, 0x2d, 0xe4, 0xf8, 0xc4, 0xdc, 0x19, 0x33, 0x10, 0x09, 0x81, 0xca, 0xc3, 0xd2],
    [0x28, 0x18, 0x9e, 0x47, 0x4c, 0x04, 0x94, 0x3f, 0x27, 0x2c, 0x92, 0xd1, 0x70, 0x63, 0x91, 0xcc],
    [0xab, 0x5e, 0x96, 0x9b, 0xb8, 0x44, 0x1b, 0x8a, 0x87, 0x95, 0xff, 0x1e, 0x3b, 0x55, 0x97, 0x29],
    [0xf3, 0xdb, 0x7e, 0x48, 0x05, 0xae, 0xd5, 0x85, 0x20, 0x64, 0xe7, 0x72, 0x66, 0x03, 0x5a, 0x5b],
    [0x39, 0x73, 0x11, 0xa1, 0x38, 0x02, 0xb6, 0xe0, 0xe1, 0x88, 0xfa, 0x4b, 0x6d, 0x76, 0x7c, 0xa3],
    [0xbd, 0x89, 0x1d, 0x51, 0x65, 0xd3, 0xe5, 0x8e, 0x8c, 0x3e, 0x8f, 0x2a, 0x23, 0xfb, 0x9a, 0xf6],
    [0x46, 0x52, 0xb4, 0xed, 0xc2, 0x68, 0xdf, 0xaa, 0x59, 0xec, 0x60, 0xce, 0x4f, 0x0e, 0x6a, 0x54],
    [0x93, 0x1c, 0xa5, 0x53, 0x49, 0x8b, 0xa7, 0x3c, 0x14, 0xb3, 0xcb, 0x78, 0x86, 0x25, 0xcd, 0x84],
    [0x21, 0x8d, 0x99, 0xde, 0xc5, 0xf4, 0x3d, 0xeb, 0x5d, 0x07, 0x7b, 0x08, 0x71, 0xb9, 0x0b, 0xee],
    [0xbe, 0x3a, 0x24, 0x61, 0x74, 0x34, 0xd9, 0xaf, 0xc7, 0x17, 0xf5, 0x0d, 0x7f, 0x5c, 0xa8, 0x2f],
    [0xe3, 0x2e, 0xb2, 0x42, 0xbf, 0x83, 0xea, 0x90, 0xb5, 0xc1, 0xe9, 0x98, 0xfd, 0x75, 0xf7, 0x80]]"

definition TABLE_S4_108 :: "bytes" where
  "TABLE_S4_108 = concat [
    [0x2d, 0xea, 0x65, 0x43, 0xf9, 0x6f, 0x92, 0x63, 0x02, 0xe9, 0x10, 0x3d, 0x6e, 0x9a, 0xc0, 0x26],
    [0x79, 0xdf, 0x30, 0x1f, 0x76, 0x68, 0x89, 0xed, 0x40, 0xde, 0x07, 0xa5, 0x05, 0x88, 0xb1, 0x09],
    [0xc9, 0x72, 0xa8, 0x37, 0xcc, 0xb4, 0x64, 0xd0, 0x0f, 0x08, 0xc5, 0x7f, 0x80, 0xa2, 0x95, 0x8f],
    [0x9e, 0x21, 0x42, 0x19, 0x73, 0xee, 0x7d, 0x7b, 0xd5, 0xe8, 0x0b, 0xf4, 0xb0, 0x9c, 0xb8, 0xca],
    [0xc4, 0x55, 0x67, 0x9b, 0x49, 0x44, 0x74, 0x81, 0x48, 0xf6, 0xe4, 0x8a, 0x20, 0xc1, 0x58, 0x4a],
    [0x4b, 0xe0, 0x93, 0xdb, 0x41, 0x98, 0xf7, 0xc7, 0x4e, 0x13, 0xaf, 0xbc, 0x4d, 0x0e, 0xf8, 0xf3],
    [0x1b, 0x03, 0x3b, 0x27, 0x91, 0xf2, 0xa6, 0xb6, 0x1c, 0x0d, 0x5e, 0x15, 0xcf, 0xd6, 0xc6, 0xec],
    [0x2f, 0xbd, 0xb3, 0x39, 0x5d, 0xd3, 0x23, 0xcd, 0x87, 0x17, 0xef, 0x9f, 0xd9, 0xfd, 0x2e, 0x16],
    [0x00, 0x75, 0x1d, 0xb7, 0x6b, 0x32, 0x99, 0x8d, 0xb5, 0x8b, 0x90, 0xd1, 0xbf, 0x11, 0x86, 0x33],
    [0x3a, 0x51, 0xba, 0x0c, 0xc2, 0x8e, 0x62, 0x56, 0x45, 0x29, 0xfc, 0x24, 0x50, 0xf5, 0x53, 0xe1],
    [0x69, 0x3f, 0xe7, 0xdd, 0xce, 0x7e, 0xe6, 0xac, 0xa3, 0x7c, 0xb2, 0xa9, 0x25, 0x94, 0x3e, 0x57],
    [0x0a, 0x5a, 0xda, 0x71, 0xa1, 0x97, 0x2c, 0x04, 0x85, 0x84, 0xb9, 0xdc, 0x38, 0xad, 0xff, 0xbb],
    [0x35, 0x4f, 0x60, 0x5c, 0x6d, 0x9d, 0x3c, 0xf1, 0x28, 0x5f, 0x22, 0xaa, 0x36, 0x47, 0x6a, 0x1e],
    [0x06, 0x70, 0xab, 0xeb, 0xfb, 0xbe, 0x61, 0xe5, 0x77, 0xf0, 0xa0, 0x83, 0x2a, 0xd2, 0x18, 0xc8],
    [0xe2, 0x34, 0x1a, 0x2b, 0x46, 0x01, 0xfe, 0x52, 0xd4, 0x31, 0xae, 0x66, 0xa4, 0xd7, 0x82, 0xd8],
    [0x78, 0xe3, 0x96, 0x54, 0x7a, 0x8c, 0x4c, 0xc3, 0x12, 0x5b, 0x59, 0xfa, 0x14, 0xa7, 0xcb, 0x6c]]"

definition TABLE_S4_109 :: "bytes" where
  "TABLE_S4_109 = concat [
    [0x47, 0xe1, 0x0e, 0x21, 0x48, 0x56, 0xb7, 0xd3, 0x7e, 0xe0, 0x39, 0x9b, 0x3b, 0xb6, 0x8f, 0x37],
    [0x13, 0xd4, 0x5b, 0x7d, 0xc7, 0x51, 0xac, 0x5d, 0x3c, 0xd7, 0x2e, 0x03, 0x50, 0xa4, 0xfe, 0x18],
    [0xa0, 0x1f, 0x7c, 0x27, 0x4d, 0xd0, 0x43, 0x45, 0xeb, 0xd6, 0x35, 0xca, 0x8e, 0xa2, 0x86, 0xf4],
    [0xf7, 0x4c, 0x96, 0x09, 0xf2, 0x8a, 0x5a, 0xee, 0x31, 0x36, 0xfb, 0x41, 0xbe, 0x9c, 0xab, 0xb1],
    [0x75, 0xde, 0xad, 0xe5, 0x7f, 0xa6, 0xc9, 0xf9, 0x70, 0x2d, 0x91, 0x82, 0x73, 0x30, 0xc6, 0xcd],
    [0xfa, 0x6b, 0x59, 0xa5, 0x77, 0x7a, 0x4a, 0xbf, 0x76, 0xc8, 0xda, 0xb4, 0x1e, 0xff, 0x66, 0x74],
    [0x11, 0x83, 0x8d, 0x07, 0x63, 0xed, 0x1d, 0xf3, 0xb9, 0x29, 0xd1, 0xa1, 0xe7, 0xc3, 0x10, 0x28],
    [0x25, 0x3d, 0x05, 0x19, 0xaf, 0xcc, 0x98, 0x88, 0x22, 0x33, 0x60, 0x2b, 0xf1, 0xe8, 0xf8, 0xd2],
    [0x04, 0x6f, 0x84, 0x32, 0xfc, 0xb0, 0x5c, 0x68, 0x7b, 0x17, 0xc2, 0x1a, 0x6e, 0xcb, 0x6d, 0xdf],
    [0x3e, 0x4b, 0x23, 0x89, 0x55, 0x0c, 0xa7, 0xb3, 0x8b, 0xb5, 0xae, 0xef, 0x81, 0x2f, 0xb8, 0x0d],
    [0x34, 0x64, 0xe4, 0x4f, 0x9f, 0xa9, 0x12, 0x3a, 0xbb, 0xba, 0x87, 0xe2, 0x06, 0x93, 0xc1, 0x85],
    [0x57, 0x01, 0xd9, 0xe3, 0xf0, 0x40, 0xd8, 0x92, 0x9d, 0x42, 0x8c, 0x97, 0x1b, 0xaa, 0x00, 0x69],
    [0x38, 0x4e, 0x95, 0xd5, 0xc5, 0x80, 0x5f, 0xdb, 0x49, 0xce, 0x9e, 0xbd, 0x14, 0xec, 0x26, 0xf6],
    [0x0b, 0x71, 0x5e, 0x62, 0x53, 0xa3, 0x02, 0xcf, 0x16, 0x61, 0x1c, 0x94, 0x08, 0x79, 0x54, 0x20],
    [0x46, 0xdd, 0xa8, 0x6a, 0x44, 0xb2, 0x72, 0xfd, 0x2c, 0x65, 0x67, 0xc4, 0x2a, 0x99, 0xf5, 0x52],
    [0xdc, 0x0a, 0x24, 0x15, 0x78, 0x3f, 0xc0, 0x6c, 0xea, 0x0f, 0x90, 0x58, 0x9a, 0xe9, 0xbc, 0xe6]]"

definition TABLE_S4_110 :: "bytes" where
  "TABLE_S4_110 = concat [
    [0x9e, 0xb3, 0x4a, 0xa1, 0x85, 0x63, 0x39, 0xcd, 0xe0, 0xc6, 0x49, 0x8e, 0xc0, 0x31, 0xcc, 0x5a],
    [0x06, 0xa4, 0x7d, 0xe3, 0xaa, 0x12, 0x2b, 0xa6, 0xbc, 0x93, 0x7c, 0xda, 0x4e, 0x2a, 0xcb, 0xd5],
    [0xdc, 0x66, 0xab, 0xac, 0x2c, 0x36, 0x01, 0x23, 0x94, 0x0b, 0xd1, 0x6a, 0x73, 0xc7, 0x17, 0x6f],
    [0x57, 0xa8, 0x4b, 0x76, 0x69, 0x1b, 0x3f, 0x13, 0xba, 0xe1, 0x82, 0x3d, 0xd8, 0xde, 0x4d, 0xd0],
    [0x29, 0x47, 0x55, 0xeb, 0xe9, 0xfb, 0x62, 0x83, 0x38, 0xc4, 0xf6, 0x67, 0x22, 0xd7, 0xe7, 0xea],
    [0x1f, 0x0c, 0xb0, 0xed, 0x50, 0x5b, 0xad, 0xee, 0x78, 0x30, 0x43, 0xe8, 0x64, 0x54, 0x3b, 0xe2],
    [0xb6, 0xfd, 0xae, 0xbf, 0x4f, 0x65, 0x75, 0x6c, 0x84, 0x98, 0xa0, 0xb8, 0x15, 0x05, 0x51, 0x32],
    [0x3c, 0x4c, 0xb4, 0x24, 0xb5, 0x8d, 0x5e, 0x7a, 0x9a, 0x10, 0x1e, 0x8c, 0x6e, 0x80, 0x70, 0xfe],
    [0x72, 0x33, 0x28, 0x16, 0x90, 0x25, 0xb2, 0x1c, 0x14, 0xbe, 0xd6, 0xa3, 0x2e, 0x3a, 0x91, 0xc8],
    [0x87, 0x5f, 0x8a, 0xe6, 0x42, 0xf0, 0x56, 0xf3, 0xaf, 0x19, 0xf2, 0x99, 0xf5, 0xc1, 0x2d, 0x61],
    [0x0a, 0x11, 0xdf, 0x00, 0xf4, 0x9d, 0x37, 0x86, 0x7e, 0x44, 0x9c, 0xca, 0x0f, 0x45, 0xdd, 0x6d],
    [0x7f, 0x1a, 0x27, 0x26, 0x18, 0x5c, 0x0e, 0x9b, 0xd2, 0x79, 0xf9, 0xa9, 0xa7, 0x8f, 0x34, 0x02],
    [0x09, 0x81, 0xfc, 0x8b, 0xbd, 0xc9, 0xe4, 0x95, 0xff, 0xc3, 0xec, 0x96, 0x52, 0x9f, 0x3e, 0xce],
    [0x20, 0x03, 0x53, 0xd4, 0x6b, 0xbb, 0x71, 0x89, 0x48, 0x08, 0xd3, 0xa5, 0x46, 0xc2, 0x1d, 0x58],
    [0xc5, 0x0d, 0x92, 0x77, 0x7b, 0x21, 0x74, 0x07, 0x88, 0xb9, 0x97, 0x41, 0xf1, 0x5d, 0xa2, 0xe5],
    [0x59, 0xfa, 0xf8, 0xb1, 0xcf, 0x68, 0x04, 0xb7, 0xf7, 0x35, 0x40, 0xdb, 0x60, 0xef, 0x2f, 0xd9]]"

definition TABLE_S4_111 :: "bytes" where
  "TABLE_S4_111 = concat [
    [0x5d, 0x5b, 0x53, 0xce, 0x62, 0x39, 0xbe, 0x01, 0x98, 0xea, 0x90, 0xbc, 0x2b, 0xd4, 0xf5, 0xc8],
    [0x44, 0xf0, 0xec, 0x94, 0x88, 0x17, 0xe9, 0x52, 0xb5, 0xaf, 0xa0, 0x82, 0xe5, 0x5f, 0x2f, 0x28],
    [0xa9, 0xcd, 0x56, 0x48, 0x10, 0x3f, 0x59, 0xff, 0x91, 0x29, 0x25, 0xa8, 0x27, 0x85, 0x60, 0xfe],
    [0xb2, 0x43, 0xd9, 0x4f, 0x45, 0x63, 0x0d, 0xca, 0xe0, 0x06, 0x4e, 0xba, 0x30, 0x1d, 0x22, 0xc9],
    [0x03, 0xed, 0x7d, 0xf3, 0x93, 0x19, 0x0f, 0x9d, 0x0e, 0x36, 0xf9, 0xdd, 0xcf, 0xbf, 0xa7, 0x37],
    [0x86, 0x96, 0xb1, 0xd2, 0x1b, 0x07, 0x3b, 0x23, 0xe6, 0xcc, 0xef, 0xf6, 0x7e, 0x35, 0x3c, 0x2d],
    [0xd7, 0xe7, 0x61, 0xb8, 0xb3, 0xfb, 0x6b, 0xc0, 0xd8, 0xd3, 0x6d, 0x2e, 0x8f, 0x9c, 0x6e, 0x33],
    [0x54, 0xa1, 0x69, 0x64, 0x47, 0xbb, 0xe4, 0x75, 0x78, 0x6a, 0x00, 0xe1, 0xc4, 0xaa, 0x68, 0xd6],
    [0x0c, 0x24, 0x81, 0xb7, 0xfa, 0x51, 0x2a, 0x7a, 0xdf, 0x9b, 0x18, 0x8d, 0x99, 0xfc, 0xa5, 0xa4],
    [0xc6, 0x8c, 0xee, 0x5e, 0xc7, 0xfd, 0x49, 0x1f, 0x1e, 0x77, 0x05, 0xb4, 0x92, 0x89, 0x83, 0x5c],
    [0x42, 0x76, 0xe2, 0xae, 0x9a, 0x2c, 0x1a, 0x71, 0x73, 0xc1, 0x70, 0xd5, 0xdc, 0x04, 0x65, 0x09],
    [0xb9, 0xad, 0x4b, 0x12, 0x3d, 0x97, 0x20, 0x55, 0xa6, 0x13, 0x9f, 0x31, 0xb0, 0xf1, 0x95, 0xab],
    [0x6c, 0xe3, 0x5a, 0xac, 0xb6, 0x74, 0x58, 0xc3, 0xeb, 0x4c, 0x34, 0x87, 0x79, 0xda, 0x32, 0x7b],
    [0xde, 0x72, 0x66, 0x21, 0x3a, 0x0b, 0xc2, 0x14, 0xa2, 0xf8, 0x84, 0xf7, 0x8e, 0x46, 0xf4, 0x11],
    [0x41, 0xc5, 0xdb, 0x9e, 0x8b, 0xcb, 0x26, 0x50, 0x38, 0xe8, 0x0a, 0xf2, 0x80, 0xa3, 0x57, 0xd0],
    [0x1c, 0xd1, 0x4d, 0xbd, 0x40, 0x7c, 0x15, 0x6f, 0x4a, 0x3e, 0x16, 0x67, 0x02, 0x8a, 0x08, 0x7f]]"

definition TABLE_S4_112 :: "bytes" where
  "TABLE_S4_112 = concat [
    [0xd9, 0x1e, 0x91, 0xb7, 0x0d, 0x9b, 0x66, 0x97, 0xf6, 0x1d, 0xe4, 0xc9, 0x9a, 0x6e, 0x34, 0xd2],
    [0x8d, 0x2b, 0xc4, 0xeb, 0x82, 0x9c, 0x7d, 0x19, 0xb4, 0x2a, 0xf3, 0x51, 0xf1, 0x7c, 0x45, 0xfd],
    [0x3d, 0x86, 0x5c, 0xc3, 0x38, 0x40, 0x90, 0x24, 0xfb, 0xfc, 0x31, 0x8b, 0x74, 0x56, 0x61, 0x7b],
    [0x6a, 0xd5, 0xb6, 0xed, 0x87, 0x1a, 0x89, 0x8f, 0x21, 0x1c, 0xff, 0x00, 0x44, 0x68, 0x4c, 0x3e],
    [0x30, 0xa1, 0x93, 0x6f, 0xbd, 0xb0, 0x80, 0x75, 0xbc, 0x02, 0x10, 0x7e, 0xd4, 0x35, 0xac, 0xbe],
    [0xbf, 0x14, 0x67, 0x2f, 0xb5, 0x6c, 0x03, 0x33, 0xba, 0xe7, 0x5b, 0x48, 0xb9, 0xfa, 0x0c, 0x07],
    [0xef, 0xf7, 0xcf, 0xd3, 0x65, 0x06, 0x52, 0x42, 0xe8, 0xf9, 0xaa, 0xe1, 0x3b, 0x22, 0x32, 0x18],
    [0xdb, 0x49, 0x47, 0xcd, 0xa9, 0x27, 0xd7, 0x39, 0x73, 0xe3, 0x1b, 0x6b, 0x2d, 0x09, 0xda, 0xe2],
    [0xf4, 0x81, 0xe9, 0x43, 0x9f, 0xc6, 0x6d, 0x79, 0x41, 0x7f, 0x64, 0x25, 0x4b, 0xe5, 0x72, 0xc7],
    [0xce, 0xa5, 0x4e, 0xf8, 0x36, 0x7a, 0x96, 0xa2, 0xb1, 0xdd, 0x08, 0xd0, 0xa4, 0x01, 0xa7, 0x15],
    [0x9d, 0xcb, 0x13, 0x29, 0x3a, 0x8a, 0x12, 0x58, 0x57, 0x88, 0x46, 0x5d, 0xd1, 0x60, 0xca, 0xa3],
    [0xfe, 0xae, 0x2e, 0x85, 0x55, 0x63, 0xd8, 0xf0, 0x71, 0x70, 0x4d, 0x28, 0xcc, 0x59, 0x0b, 0x4f],
    [0xc1, 0xbb, 0x94, 0xa8, 0x99, 0x69, 0xc8, 0x05, 0xdc, 0xab, 0xd6, 0x5e, 0xc2, 0xb3, 0x9e, 0xea],
    [0xf2, 0x84, 0x5f, 0x1f, 0x0f, 0x4a, 0x95, 0x11, 0x83, 0x04, 0x54, 0x77, 0xde, 0x26, 0xec, 0x3c],
    [0x16, 0xc0, 0xee, 0xdf, 0xb2, 0xf5, 0x0a, 0xa6, 0x20, 0xc5, 0x5a, 0x92, 0x50, 0x23, 0x76, 0x2c],
    [0x8c, 0x17, 0x62, 0xa0, 0x8e, 0x78, 0xb8, 0x37, 0xe6, 0xaf, 0xad, 0x0e, 0xe0, 0x53, 0x3f, 0x98]]"

definition TABLE_S4_113 :: "bytes" where
  "TABLE_S4_113 = concat [
    [0x85, 0x23, 0xcc, 0xe3, 0x8a, 0x94, 0x75, 0x11, 0xbc, 0x22, 0xfb, 0x59, 0xf9, 0x74, 0x4d, 0xf5],
    [0xd1, 0x16, 0x99, 0xbf, 0x05, 0x93, 0x6e, 0x9f, 0xfe, 0x15, 0xec, 0xc1, 0x92, 0x66, 0x3c, 0xda],
    [0x62, 0xdd, 0xbe, 0xe5, 0x8f, 0x12, 0x81, 0x87, 0x29, 0x14, 0xf7, 0x08, 0x4c, 0x60, 0x44, 0x36],
    [0x35, 0x8e, 0x54, 0xcb, 0x30, 0x48, 0x98, 0x2c, 0xf3, 0xf4, 0x39, 0x83, 0x7c, 0x5e, 0x69, 0x73],
    [0xb7, 0x1c, 0x6f, 0x27, 0xbd, 0x64, 0x0b, 0x3b, 0xb2, 0xef, 0x53, 0x40, 0xb1, 0xf2, 0x04, 0x0f],
    [0x38, 0xa9, 0x9b, 0x67, 0xb5, 0xb8, 0x88, 0x7d, 0xb4, 0x0a, 0x18, 0x76, 0xdc, 0x3d, 0xa4, 0xb6],
    [0xd3, 0x41, 0x4f, 0xc5, 0xa1, 0x2f, 0xdf, 0x31, 0x7b, 0xeb, 0x13, 0x63, 0x25, 0x01, 0xd2, 0xea],
    [0xe7, 0xff, 0xc7, 0xdb, 0x6d, 0x0e, 0x5a, 0x4a, 0xe0, 0xf1, 0xa2, 0xe9, 0x33, 0x2a, 0x3a, 0x10],
    [0xc6, 0xad, 0x46, 0xf0, 0x3e, 0x72, 0x9e, 0xaa, 0xb9, 0xd5, 0x00, 0xd8, 0xac, 0x09, 0xaf, 0x1d],
    [0xfc, 0x89, 0xe1, 0x4b, 0x97, 0xce, 0x65, 0x71, 0x49, 0x77, 0x6c, 0x2d, 0x43, 0xed, 0x7a, 0xcf],
    [0xf6, 0xa6, 0x26, 0x8d, 0x5d, 0x6b, 0xd0, 0xf8, 0x79, 0x78, 0x45, 0x20, 0xc4, 0x51, 0x03, 0x47],
    [0x95, 0xc3, 0x1b, 0x21, 0x32, 0x82, 0x1a, 0x50, 0x5f, 0x80, 0x4e, 0x55, 0xd9, 0x68, 0xc2, 0xab],
    [0xfa, 0x8c, 0x57, 0x17, 0x07, 0x42, 0x9d, 0x19, 0x8b, 0x0c, 0x5c, 0x7f, 0xd6, 0x2e, 0xe4, 0x34],
    [0xc9, 0xb3, 0x9c, 0xa0, 0x91, 0x61, 0xc0, 0x0d, 0xd4, 0xa3, 0xde, 0x56, 0xca, 0xbb, 0x96, 0xe2],
    [0x84, 0x1f, 0x6a, 0xa8, 0x86, 0x70, 0xb0, 0x3f, 0xee, 0xa7, 0xa5, 0x06, 0xe8, 0x5b, 0x37, 0x90],
    [0x1e, 0xc8, 0xe6, 0xd7, 0xba, 0xfd, 0x02, 0xae, 0x28, 0xcd, 0x52, 0x9a, 0x58, 0x2b, 0x7e, 0x24]]"

definition TABLE_S4_114 :: "bytes" where
  "TABLE_S4_114 = concat [
    [0xf1, 0xdc, 0x25, 0xce, 0xea, 0x0c, 0x56, 0xa2, 0x8f, 0xa9, 0x26, 0xe1, 0xaf, 0x5e, 0xa3, 0x35],
    [0x69, 0xcb, 0x12, 0x8c, 0xc5, 0x7d, 0x44, 0xc9, 0xd3, 0xfc, 0x13, 0xb5, 0x21, 0x45, 0xa4, 0xba],
    [0xb3, 0x09, 0xc4, 0xc3, 0x43, 0x59, 0x6e, 0x4c, 0xfb, 0x64, 0xbe, 0x05, 0x1c, 0xa8, 0x78, 0x00],
    [0x38, 0xc7, 0x24, 0x19, 0x06, 0x74, 0x50, 0x7c, 0xd5, 0x8e, 0xed, 0x52, 0xb7, 0xb1, 0x22, 0xbf],
    [0x46, 0x28, 0x3a, 0x84, 0x86, 0x94, 0x0d, 0xec, 0x57, 0xab, 0x99, 0x08, 0x4d, 0xb8, 0x88, 0x85],
    [0x70, 0x63, 0xdf, 0x82, 0x3f, 0x34, 0xc2, 0x81, 0x17, 0x5f, 0x2c, 0x87, 0x0b, 0x3b, 0x54, 0x8d],
    [0xd9, 0x92, 0xc1, 0xd0, 0x20, 0x0a, 0x1a, 0x03, 0xeb, 0xf7, 0xcf, 0xd7, 0x7a, 0x6a, 0x3e, 0x5d],
    [0x53, 0x23, 0xdb, 0x4b, 0xda, 0xe2, 0x31, 0x15, 0xf5, 0x7f, 0x71, 0xe3, 0x01, 0xef, 0x1f, 0x91],
    [0x1d, 0x5c, 0x47, 0x79, 0xff, 0x4a, 0xdd, 0x73, 0x7b, 0xd1, 0xb9, 0xcc, 0x41, 0x55, 0xfe, 0xa7],
    [0xe8, 0x30, 0xe5, 0x89, 0x2d, 0x9f, 0x39, 0x9c, 0xc0, 0x76, 0x9d, 0xf6, 0x9a, 0xae, 0x42, 0x0e],
    [0x65, 0x7e, 0xb0, 0x6f, 0x9b, 0xf2, 0x58, 0xe9, 0x11, 0x2b, 0xf3, 0xa5, 0x60, 0x2a, 0xb2, 0x02],
    [0x10, 0x75, 0x48, 0x49, 0x77, 0x33, 0x61, 0xf4, 0xbd, 0x16, 0x96, 0xc6, 0xc8, 0xe0, 0x5b, 0x6d],
    [0x66, 0xee, 0x93, 0xe4, 0xd2, 0xa6, 0x8b, 0xfa, 0x90, 0xac, 0x83, 0xf9, 0x3d, 0xf0, 0x51, 0xa1],
    [0x4f, 0x6c, 0x3c, 0xbb, 0x04, 0xd4, 0x1e, 0xe6, 0x27, 0x67, 0xbc, 0xca, 0x29, 0xad, 0x72, 0x37],
    [0xaa, 0x62, 0xfd, 0x18, 0x14, 0x4e, 0x1b, 0x68, 0xe7, 0xd6, 0xf8, 0x2e, 0x9e, 0x32, 0xcd, 0x8a],
    [0x36, 0x95, 0x97, 0xde, 0xa0, 0x07, 0x6b, 0xd8, 0x98, 0x5a, 0x2f, 0xb4, 0x0f, 0x80, 0x40, 0xb6]]"

definition TABLE_S4_115 :: "bytes" where
  "TABLE_S4_115 = concat [
    [0xa6, 0xa0, 0xa8, 0x35, 0x99, 0xc2, 0x45, 0xfa, 0x63, 0x11, 0x6b, 0x47, 0xd0, 0x2f, 0x0e, 0x33],
    [0xbf, 0x0b, 0x17, 0x6f, 0x73, 0xec, 0x12, 0xa9, 0x4e, 0x54, 0x5b, 0x79, 0x1e, 0xa4, 0xd4, 0xd3],
    [0x52, 0x36, 0xad, 0xb3, 0xeb, 0xc4, 0xa2, 0x04, 0x6a, 0xd2, 0xde, 0x53, 0xdc, 0x7e, 0x9b, 0x05],
    [0x49, 0xb8, 0x22, 0xb4, 0xbe, 0x98, 0xf6, 0x31, 0x1b, 0xfd, 0xb5, 0x41, 0xcb, 0xe6, 0xd9, 0x32],
    [0xf8, 0x16, 0x86, 0x08, 0x68, 0xe2, 0xf4, 0x66, 0xf5, 0xcd, 0x02, 0x26, 0x34, 0x44, 0x5c, 0xcc],
    [0x7d, 0x6d, 0x4a, 0x29, 0xe0, 0xfc, 0xc0, 0xd8, 0x1d, 0x37, 0x14, 0x0d, 0x85, 0xce, 0xc7, 0xd6],
    [0x2c, 0x1c, 0x9a, 0x43, 0x48, 0x00, 0x90, 0x3b, 0x23, 0x28, 0x96, 0xd5, 0x74, 0x67, 0x95, 0xc8],
    [0xaf, 0x5a, 0x92, 0x9f, 0xbc, 0x40, 0x1f, 0x8e, 0x83, 0x91, 0xfb, 0x1a, 0x3f, 0x51, 0x93, 0x2d],
    [0xf7, 0xdf, 0x7a, 0x4c, 0x01, 0xaa, 0xd1, 0x81, 0x24, 0x60, 0xe3, 0x76, 0x62, 0x07, 0x5e, 0x5f],
    [0x3d, 0x77, 0x15, 0xa5, 0x3c, 0x06, 0xb2, 0xe4, 0xe5, 0x8c, 0xfe, 0x4f, 0x69, 0x72, 0x78, 0xa7],
    [0xb9, 0x8d, 0x19, 0x55, 0x61, 0xd7, 0xe1, 0x8a, 0x88, 0x3a, 0x8b, 0x2e, 0x27, 0xff, 0x9e, 0xf2],
    [0x42, 0x56, 0xb0, 0xe9, 0xc6, 0x6c, 0xdb, 0xae, 0x5d, 0xe8, 0x64, 0xca, 0x4b, 0x0a, 0x6e, 0x50],
    [0x97, 0x18, 0xa1, 0x57, 0x4d, 0x8f, 0xa3, 0x38, 0x10, 0xb7, 0xcf, 0x7c, 0x82, 0x21, 0xc9, 0x80],
    [0x25, 0x89, 0x9d, 0xda, 0xc1, 0xf0, 0x39, 0xef, 0x59, 0x03, 0x7f, 0x0c, 0x75, 0xbd, 0x0f, 0xea],
    [0xba, 0x3e, 0x20, 0x65, 0x70, 0x30, 0xdd, 0xab, 0xc3, 0x13, 0xf1, 0x09, 0x7b, 0x58, 0xac, 0x2b],
    [0xe7, 0x2a, 0xb6, 0x46, 0xbb, 0x87, 0xee, 0x94, 0xb1, 0xc5, 0xed, 0x9c, 0xf9, 0x71, 0xf3, 0x84]]"

definition TABLE_S4_116 :: "bytes" where
  "TABLE_S4_116 = concat [
    [0xef, 0x28, 0xa7, 0x81, 0x3b, 0xad, 0x50, 0xa1, 0xc0, 0x2b, 0xd2, 0xff, 0xac, 0x58, 0x02, 0xe4],
    [0xbb, 0x1d, 0xf2, 0xdd, 0xb4, 0xaa, 0x4b, 0x2f, 0x82, 0x1c, 0xc5, 0x67, 0xc7, 0x4a, 0x73, 0xcb],
    [0x0b, 0xb0, 0x6a, 0xf5, 0x0e, 0x76, 0xa6, 0x12, 0xcd, 0xca, 0x07, 0xbd, 0x42, 0x60, 0x57, 0x4d],
    [0x5c, 0xe3, 0x80, 0xdb, 0xb1, 0x2c, 0xbf, 0xb9, 0x17, 0x2a, 0xc9, 0x36, 0x72, 0x5e, 0x7a, 0x08],
    [0x06, 0x97, 0xa5, 0x59, 0x8b, 0x86, 0xb6, 0x43, 0x8a, 0x34, 0x26, 0x48, 0xe2, 0x03, 0x9a, 0x88],
    [0x89, 0x22, 0x51, 0x19, 0x83, 0x5a, 0x35, 0x05, 0x8c, 0xd1, 0x6d, 0x7e, 0x8f, 0xcc, 0x3a, 0x31],
    [0xd9, 0xc1, 0xf9, 0xe5, 0x53, 0x30, 0x64, 0x74, 0xde, 0xcf, 0x9c, 0xd7, 0x0d, 0x14, 0x04, 0x2e],
    [0xed, 0x7f, 0x71, 0xfb, 0x9f, 0x11, 0xe1, 0x0f, 0x45, 0xd5, 0x2d, 0x5d, 0x1b, 0x3f, 0xec, 0xd4],
    [0xc2, 0xb7, 0xdf, 0x75, 0xa9, 0xf0, 0x5b, 0x4f, 0x77, 0x49, 0x52, 0x13, 0x7d, 0xd3, 0x44, 0xf1],
    [0xf8, 0x93, 0x78, 0xce, 0x00, 0x4c, 0xa0, 0x94, 0x87, 0xeb, 0x3e, 0xe6, 0x92, 0x37, 0x91, 0x23],
    [0xab, 0xfd, 0x25, 0x1f, 0x0c, 0xbc, 0x24, 0x6e, 0x61, 0xbe, 0x70, 0x6b, 0xe7, 0x56, 0xfc, 0x95],
    [0xc8, 0x98, 0x18, 0xb3, 0x63, 0x55, 0xee, 0xc6, 0x47, 0x46, 0x7b, 0x1e, 0xfa, 0x6f, 0x3d, 0x79],
    [0xf7, 0x8d, 0xa2, 0x9e, 0xaf, 0x5f, 0xfe, 0x33, 0xea, 0x9d, 0xe0, 0x68, 0xf4, 0x85, 0xa8, 0xdc],
    [0xc4, 0xb2, 0x69, 0x29, 0x39, 0x7c, 0xa3, 0x27, 0xb5, 0x32, 0x62, 0x41, 0xe8, 0x10, 0xda, 0x0a],
    [0x20, 0xf6, 0xd8, 0xe9, 0x84, 0xc3, 0x3c, 0x90, 0x16, 0xf3, 0x6c, 0xa4, 0x66, 0x15, 0x40, 0x1a],
    [0xba, 0x21, 0x54, 0x96, 0xb8, 0x4e, 0x8e, 0x01, 0xd0, 0x99, 0x9b, 0x38, 0xd6, 0x65, 0x09, 0xae]]"

definition TABLE_S4_117 :: "bytes" where
  "TABLE_S4_117 = concat [
    [0xf9, 0x5f, 0xb0, 0x9f, 0xf6, 0xe8, 0x09, 0x6d, 0xc0, 0x5e, 0x87, 0x25, 0x85, 0x08, 0x31, 0x89],
    [0xad, 0x6a, 0xe5, 0xc3, 0x79, 0xef, 0x12, 0xe3, 0x82, 0x69, 0x90, 0xbd, 0xee, 0x1a, 0x40, 0xa6],
    [0x1e, 0xa1, 0xc2, 0x99, 0xf3, 0x6e, 0xfd, 0xfb, 0x55, 0x68, 0x8b, 0x74, 0x30, 0x1c, 0x38, 0x4a],
    [0x49, 0xf2, 0x28, 0xb7, 0x4c, 0x34, 0xe4, 0x50, 0x8f, 0x88, 0x45, 0xff, 0x00, 0x22, 0x15, 0x0f],
    [0xcb, 0x60, 0x13, 0x5b, 0xc1, 0x18, 0x77, 0x47, 0xce, 0x93, 0x2f, 0x3c, 0xcd, 0x8e, 0x78, 0x73],
    [0x44, 0xd5, 0xe7, 0x1b, 0xc9, 0xc4, 0xf4, 0x01, 0xc8, 0x76, 0x64, 0x0a, 0xa0, 0x41, 0xd8, 0xca],
    [0xaf, 0x3d, 0x33, 0xb9, 0xdd, 0x53, 0xa3, 0x4d, 0x07, 0x97, 0x6f, 0x1f, 0x59, 0x7d, 0xae, 0x96],
    [0x9b, 0x83, 0xbb, 0xa7, 0x11, 0x72, 0x26, 0x36, 0x9c, 0x8d, 0xde, 0x95, 0x4f, 0x56, 0x46, 0x6c],
    [0xba, 0xd1, 0x3a, 0x8c, 0x42, 0x0e, 0xe2, 0xd6, 0xc5, 0xa9, 0x7c, 0xa4, 0xd0, 0x75, 0xd3, 0x61],
    [0x80, 0xf5, 0x9d, 0x37, 0xeb, 0xb2, 0x19, 0x0d, 0x35, 0x0b, 0x10, 0x51, 0x3f, 0x91, 0x06, 0xb3],
    [0x8a, 0xda, 0x5a, 0xf1, 0x21, 0x17, 0xac, 0x84, 0x05, 0x04, 0x39, 0x5c, 0xb8, 0x2d, 0x7f, 0x3b],
    [0xe9, 0xbf, 0x67, 0x5d, 0x4e, 0xfe, 0x66, 0x2c, 0x23, 0xfc, 0x32, 0x29, 0xa5, 0x14, 0xbe, 0xd7],
    [0x86, 0xf0, 0x2b, 0x6b, 0x7b, 0x3e, 0xe1, 0x65, 0xf7, 0x70, 0x20, 0x03, 0xaa, 0x52, 0x98, 0x48],
    [0xb5, 0xcf, 0xe0, 0xdc, 0xed, 0x1d, 0xbc, 0x71, 0xa8, 0xdf, 0xa2, 0x2a, 0xb6, 0xc7, 0xea, 0x9e],
    [0xf8, 0x63, 0x16, 0xd4, 0xfa, 0x0c, 0xcc, 0x43, 0x92, 0xdb, 0xd9, 0x7a, 0x94, 0x27, 0x4b, 0xec],
    [0x62, 0xb4, 0x9a, 0xab, 0xc6, 0x81, 0x7e, 0xd2, 0x54, 0xb1, 0x2e, 0xe6, 0x24, 0x57, 0x02, 0x58]]"

definition TABLE_S4_118 :: "bytes" where
  "TABLE_S4_118 = concat [
    [0x51, 0x7c, 0x85, 0x6e, 0x4a, 0xac, 0xf6, 0x02, 0x2f, 0x09, 0x86, 0x41, 0x0f, 0xfe, 0x03, 0x95],
    [0xc9, 0x6b, 0xb2, 0x2c, 0x65, 0xdd, 0xe4, 0x69, 0x73, 0x5c, 0xb3, 0x15, 0x81, 0xe5, 0x04, 0x1a],
    [0x13, 0xa9, 0x64, 0x63, 0xe3, 0xf9, 0xce, 0xec, 0x5b, 0xc4, 0x1e, 0xa5, 0xbc, 0x08, 0xd8, 0xa0],
    [0x98, 0x67, 0x84, 0xb9, 0xa6, 0xd4, 0xf0, 0xdc, 0x75, 0x2e, 0x4d, 0xf2, 0x17, 0x11, 0x82, 0x1f],
    [0xe6, 0x88, 0x9a, 0x24, 0x26, 0x34, 0xad, 0x4c, 0xf7, 0x0b, 0x39, 0xa8, 0xed, 0x18, 0x28, 0x25],
    [0xd0, 0xc3, 0x7f, 0x22, 0x9f, 0x94, 0x62, 0x21, 0xb7, 0xff, 0x8c, 0x27, 0xab, 0x9b, 0xf4, 0x2d],
    [0x79, 0x32, 0x61, 0x70, 0x80, 0xaa, 0xba, 0xa3, 0x4b, 0x57, 0x6f, 0x77, 0xda, 0xca, 0x9e, 0xfd],
    [0xf3, 0x83, 0x7b, 0xeb, 0x7a, 0x42, 0x91, 0xb5, 0x55, 0xdf, 0xd1, 0x43, 0xa1, 0x4f, 0xbf, 0x31],
    [0xbd, 0xfc, 0xe7, 0xd9, 0x5f, 0xea, 0x7d, 0xd3, 0xdb, 0x71, 0x19, 0x6c, 0xe1, 0xf5, 0x5e, 0x07],
    [0x48, 0x90, 0x45, 0x29, 0x8d, 0x3f, 0x99, 0x3c, 0x60, 0xd6, 0x3d, 0x56, 0x3a, 0x0e, 0xe2, 0xae],
    [0xc5, 0xde, 0x10, 0xcf, 0x3b, 0x52, 0xf8, 0x49, 0xb1, 0x8b, 0x53, 0x05, 0xc0, 0x8a, 0x12, 0xa2],
    [0xb0, 0xd5, 0xe8, 0xe9, 0xd7, 0x93, 0xc1, 0x54, 0x1d, 0xb6, 0x36, 0x66, 0x68, 0x40, 0xfb, 0xcd],
    [0xc6, 0x4e, 0x33, 0x44, 0x72, 0x06, 0x2b, 0x5a, 0x30, 0x0c, 0x23, 0x59, 0x9d, 0x50, 0xf1, 0x01],
    [0xef, 0xcc, 0x9c, 0x1b, 0xa4, 0x74, 0xbe, 0x46, 0x87, 0xc7, 0x1c, 0x6a, 0x89, 0x0d, 0xd2, 0x97],
    [0x0a, 0xc2, 0x5d, 0xb8, 0xb4, 0xee, 0xbb, 0xc8, 0x47, 0x76, 0x58, 0x8e, 0x3e, 0x92, 0x6d, 0x2a],
    [0x96, 0x35, 0x37, 0x7e, 0x00, 0xa7, 0xcb, 0x78, 0x38, 0xfa, 0x8f, 0x14, 0xaf, 0x20, 0xe0, 0x16]]"

definition TABLE_S4_119 :: "bytes" where
  "TABLE_S4_119 = concat [
    [0x64, 0x62, 0x6a, 0xf7, 0x5b, 0x00, 0x87, 0x38, 0xa1, 0xd3, 0xa9, 0x85, 0x12, 0xed, 0xcc, 0xf1],
    [0x7d, 0xc9, 0xd5, 0xad, 0xb1, 0x2e, 0xd0, 0x6b, 0x8c, 0x96, 0x99, 0xbb, 0xdc, 0x66, 0x16, 0x11],
    [0x90, 0xf4, 0x6f, 0x71, 0x29, 0x06, 0x60, 0xc6, 0xa8, 0x10, 0x1c, 0x91, 0x1e, 0xbc, 0x59, 0xc7],
    [0x8b, 0x7a, 0xe0, 0x76, 0x7c, 0x5a, 0x34, 0xf3, 0xd9, 0x3f, 0x77, 0x83, 0x09, 0x24, 0x1b, 0xf0],
    [0x3a, 0xd4, 0x44, 0xca, 0xaa, 0x20, 0x36, 0xa4, 0x37, 0x0f, 0xc0, 0xe4, 0xf6, 0x86, 0x9e, 0x0e],
    [0xbf, 0xaf, 0x88, 0xeb, 0x22, 0x3e, 0x02, 0x1a, 0xdf, 0xf5, 0xd6, 0xcf, 0x47, 0x0c, 0x05, 0x14],
    [0xee, 0xde, 0x58, 0x81, 0x8a, 0xc2, 0x52, 0xf9, 0xe1, 0xea, 0x54, 0x17, 0xb6, 0xa5, 0x57, 0x0a],
    [0x6d, 0x98, 0x50, 0x5d, 0x7e, 0x82, 0xdd, 0x4c, 0x41, 0x53, 0x39, 0xd8, 0xfd, 0x93, 0x51, 0xef],
    [0x35, 0x1d, 0xb8, 0x8e, 0xc3, 0x68, 0x13, 0x43, 0xe6, 0xa2, 0x21, 0xb4, 0xa0, 0xc5, 0x9c, 0x9d],
    [0xff, 0xb5, 0xd7, 0x67, 0xfe, 0xc4, 0x70, 0x26, 0x27, 0x4e, 0x3c, 0x8d, 0xab, 0xb0, 0xba, 0x65],
    [0x7b, 0x4f, 0xdb, 0x97, 0xa3, 0x15, 0x23, 0x48, 0x4a, 0xf8, 0x49, 0xec, 0xe5, 0x3d, 0x5c, 0x30],
    [0x80, 0x94, 0x72, 0x2b, 0x04, 0xae, 0x19, 0x6c, 0x9f, 0x2a, 0xa6, 0x08, 0x89, 0xc8, 0xac, 0x92],
    [0x55, 0xda, 0x63, 0x95, 0x8f, 0x4d, 0x61, 0xfa, 0xd2, 0x75, 0x0d, 0xbe, 0x40, 0xe3, 0x0b, 0x42],
    [0xe7, 0x4b, 0x5f, 0x18, 0x03, 0x32, 0xfb, 0x2d, 0x9b, 0xc1, 0xbd, 0xce, 0xb7, 0x7f, 0xcd, 0x28],
    [0x78, 0xfc, 0xe2, 0xa7, 0xb2, 0xf2, 0x1f, 0x69, 0x01, 0xd1, 0x33, 0xcb, 0xb9, 0x9a, 0x6e, 0xe9],
    [0x25, 0xe8, 0x74, 0x84, 0x79, 0x45, 0x2c, 0x56, 0x73, 0x07, 0x2f, 0x5e, 0x3b, 0xb3, 0x31, 0x46]]"

definition TABLE_S4_120 :: "bytes" where
  "TABLE_S4_120 = concat [
    [0x83, 0x44, 0xcb, 0xed, 0x57, 0xc1, 0x3c, 0xcd, 0xac, 0x47, 0xbe, 0x93, 0xc0, 0x34, 0x6e, 0x88],
    [0xd7, 0x71, 0x9e, 0xb1, 0xd8, 0xc6, 0x27, 0x43, 0xee, 0x70, 0xa9, 0x0b, 0xab, 0x26, 0x1f, 0xa7],
    [0x67, 0xdc, 0x06, 0x99, 0x62, 0x1a, 0xca, 0x7e, 0xa1, 0xa6, 0x6b, 0xd1, 0x2e, 0x0c, 0x3b, 0x21],
    [0x30, 0x8f, 0xec, 0xb7, 0xdd, 0x40, 0xd3, 0xd5, 0x7b, 0x46, 0xa5, 0x5a, 0x1e, 0x32, 0x16, 0x64],
    [0x6a, 0xfb, 0xc9, 0x35, 0xe7, 0xea, 0xda, 0x2f, 0xe6, 0x58, 0x4a, 0x24, 0x8e, 0x6f, 0xf6, 0xe4],
    [0xe5, 0x4e, 0x3d, 0x75, 0xef, 0x36, 0x59, 0x69, 0xe0, 0xbd, 0x01, 0x12, 0xe3, 0xa0, 0x56, 0x5d],
    [0xb5, 0xad, 0x95, 0x89, 0x3f, 0x5c, 0x08, 0x18, 0xb2, 0xa3, 0xf0, 0xbb, 0x61, 0x78, 0x68, 0x42],
    [0x81, 0x13, 0x1d, 0x97, 0xf3, 0x7d, 0x8d, 0x63, 0x29, 0xb9, 0x41, 0x31, 0x77, 0x53, 0x80, 0xb8],
    [0xae, 0xdb, 0xb3, 0x19, 0xc5, 0x9c, 0x37, 0x23, 0x1b, 0x25, 0x3e, 0x7f, 0x11, 0xbf, 0x28, 0x9d],
    [0x94, 0xff, 0x14, 0xa2, 0x6c, 0x20, 0xcc, 0xf8, 0xeb, 0x87, 0x52, 0x8a, 0xfe, 0x5b, 0xfd, 0x4f],
    [0xc7, 0x91, 0x49, 0x73, 0x60, 0xd0, 0x48, 0x02, 0x0d, 0xd2, 0x1c, 0x07, 0x8b, 0x3a, 0x90, 0xf9],
    [0xa4, 0xf4, 0x74, 0xdf, 0x0f, 0x39, 0x82, 0xaa, 0x2b, 0x2a, 0x17, 0x72, 0x96, 0x03, 0x51, 0x15],
    [0x9b, 0xe1, 0xce, 0xf2, 0xc3, 0x33, 0x92, 0x5f, 0x86, 0xf1, 0x8c, 0x04, 0x98, 0xe9, 0xc4, 0xb0],
    [0xa8, 0xde, 0x05, 0x45, 0x55, 0x10, 0xcf, 0x4b, 0xd9, 0x5e, 0x0e, 0x2d, 0x84, 0x7c, 0xb6, 0x66],
    [0x4c, 0x9a, 0xb4, 0x85, 0xe8, 0xaf, 0x50, 0xfc, 0x7a, 0x9f, 0x00, 0xc8, 0x0a, 0x79, 0x2c, 0x76],
    [0xd6, 0x4d, 0x38, 0xfa, 0xd4, 0x22, 0xe2, 0x6d, 0xbc, 0xf5, 0xf7, 0x54, 0xba, 0x09, 0x65, 0xc2]]"

definition TABLE_S4_121 :: "bytes" where
  "TABLE_S4_121 = concat [
    [0xd6, 0x70, 0x9f, 0xb0, 0xd9, 0xc7, 0x26, 0x42, 0xef, 0x71, 0xa8, 0x0a, 0xaa, 0x27, 0x1e, 0xa6],
    [0x82, 0x45, 0xca, 0xec, 0x56, 0xc0, 0x3d, 0xcc, 0xad, 0x46, 0xbf, 0x92, 0xc1, 0x35, 0x6f, 0x89],
    [0x31, 0x8e, 0xed, 0xb6, 0xdc, 0x41, 0xd2, 0xd4, 0x7a, 0x47, 0xa4, 0x5b, 0x1f, 0x33, 0x17, 0x65],
    [0x66, 0xdd, 0x07, 0x98, 0x63, 0x1b, 0xcb, 0x7f, 0xa0, 0xa7, 0x6a, 0xd0, 0x2f, 0x0d, 0x3a, 0x20],
    [0xe4, 0x4f, 0x3c, 0x74, 0xee, 0x37, 0x58, 0x68, 0xe1, 0xbc, 0x00, 0x13, 0xe2, 0xa1, 0x57, 0x5c],
    [0x6b, 0xfa, 0xc8, 0x34, 0xe6, 0xeb, 0xdb, 0x2e, 0xe7, 0x59, 0x4b, 0x25, 0x8f, 0x6e, 0xf7, 0xe5],
    [0x80, 0x12, 0x1c, 0x96, 0xf2, 0x7c, 0x8c, 0x62, 0x28, 0xb8, 0x40, 0x30, 0x76, 0x52, 0x81, 0xb9],
    [0xb4, 0xac, 0x94, 0x88, 0x3e, 0x5d, 0x09, 0x19, 0xb3, 0xa2, 0xf1, 0xba, 0x60, 0x79, 0x69, 0x43],
    [0x95, 0xfe, 0x15, 0xa3, 0x6d, 0x21, 0xcd, 0xf9, 0xea, 0x86, 0x53, 0x8b, 0xff, 0x5a, 0xfc, 0x4e],
    [0xaf, 0xda, 0xb2, 0x18, 0xc4, 0x9d, 0x36, 0x22, 0x1a, 0x24, 0x3f, 0x7e, 0x10, 0xbe, 0x29, 0x9c],
    [0xa5, 0xf5, 0x75, 0xde, 0x0e, 0x38, 0x83, 0xab, 0x2a, 0x2b, 0x16, 0x73, 0x97, 0x02, 0x50, 0x14],
    [0xc6, 0x90, 0x48, 0x72, 0x61, 0xd1, 0x49, 0x03, 0x0c, 0xd3, 0x1d, 0x06, 0x8a, 0x3b, 0x91, 0xf8],
    [0xa9, 0xdf, 0x04, 0x44, 0x54, 0x11, 0xce, 0x4a, 0xd8, 0x5f, 0x0f, 0x2c, 0x85, 0x7d, 0xb7, 0x67],
    [0x9a, 0xe0, 0xcf, 0xf3, 0xc2, 0x32, 0x93, 0x5e, 0x87, 0xf0, 0x8d, 0x05, 0x99, 0xe8, 0xc5, 0xb1],
    [0xd7, 0x4c, 0x39, 0xfb, 0xd5, 0x23, 0xe3, 0x6c, 0xbd, 0xf4, 0xf6, 0x55, 0xbb, 0x08, 0x64, 0xc3],
    [0x4d, 0x9b, 0xb5, 0x84, 0xe9, 0xae, 0x51, 0xfd, 0x7b, 0x9e, 0x01, 0xc9, 0x0b, 0x78, 0x2d, 0x77]]"

definition TABLE_S4_122 :: "bytes" where
  "TABLE_S4_122 = concat [
    [0x77, 0x5a, 0xa3, 0x48, 0x6c, 0x8a, 0xd0, 0x24, 0x09, 0x2f, 0xa0, 0x67, 0x29, 0xd8, 0x25, 0xb3],
    [0xef, 0x4d, 0x94, 0x0a, 0x43, 0xfb, 0xc2, 0x4f, 0x55, 0x7a, 0x95, 0x33, 0xa7, 0xc3, 0x22, 0x3c],
    [0x35, 0x8f, 0x42, 0x45, 0xc5, 0xdf, 0xe8, 0xca, 0x7d, 0xe2, 0x38, 0x83, 0x9a, 0x2e, 0xfe, 0x86],
    [0xbe, 0x41, 0xa2, 0x9f, 0x80, 0xf2, 0xd6, 0xfa, 0x53, 0x08, 0x6b, 0xd4, 0x31, 0x37, 0xa4, 0x39],
    [0xc0, 0xae, 0xbc, 0x02, 0x00, 0x12, 0x8b, 0x6a, 0xd1, 0x2d, 0x1f, 0x8e, 0xcb, 0x3e, 0x0e, 0x03],
    [0xf6, 0xe5, 0x59, 0x04, 0xb9, 0xb2, 0x44, 0x07, 0x91, 0xd9, 0xaa, 0x01, 0x8d, 0xbd, 0xd2, 0x0b],
    [0x5f, 0x14, 0x47, 0x56, 0xa6, 0x8c, 0x9c, 0x85, 0x6d, 0x71, 0x49, 0x51, 0xfc, 0xec, 0xb8, 0xdb],
    [0xd5, 0xa5, 0x5d, 0xcd, 0x5c, 0x64, 0xb7, 0x93, 0x73, 0xf9, 0xf7, 0x65, 0x87, 0x69, 0x99, 0x17],
    [0x9b, 0xda, 0xc1, 0xff, 0x79, 0xcc, 0x5b, 0xf5, 0xfd, 0x57, 0x3f, 0x4a, 0xc7, 0xd3, 0x78, 0x21],
    [0x6e, 0xb6, 0x63, 0x0f, 0xab, 0x19, 0xbf, 0x1a, 0x46, 0xf0, 0x1b, 0x70, 0x1c, 0x28, 0xc4, 0x88],
    [0xe3, 0xf8, 0x36, 0xe9, 0x1d, 0x74, 0xde, 0x6f, 0x97, 0xad, 0x75, 0x23, 0xe6, 0xac, 0x34, 0x84],
    [0x96, 0xf3, 0xce, 0xcf, 0xf1, 0xb5, 0xe7, 0x72, 0x3b, 0x90, 0x10, 0x40, 0x4e, 0x66, 0xdd, 0xeb],
    [0xe0, 0x68, 0x15, 0x62, 0x54, 0x20, 0x0d, 0x7c, 0x16, 0x2a, 0x05, 0x7f, 0xbb, 0x76, 0xd7, 0x27],
    [0xc9, 0xea, 0xba, 0x3d, 0x82, 0x52, 0x98, 0x60, 0xa1, 0xe1, 0x3a, 0x4c, 0xaf, 0x2b, 0xf4, 0xb1],
    [0x2c, 0xe4, 0x7b, 0x9e, 0x92, 0xc8, 0x9d, 0xee, 0x61, 0x50, 0x7e, 0xa8, 0x18, 0xb4, 0x4b, 0x0c],
    [0xb0, 0x13, 0x11, 0x58, 0x26, 0x81, 0xed, 0x5e, 0x1e, 0xdc, 0xa9, 0x32, 0x89, 0x06, 0xc6, 0x30]]"

definition TABLE_S4_123 :: "bytes" where
  "TABLE_S4_123 = concat [
    [0xc9, 0xcf, 0xc7, 0x5a, 0xf6, 0xad, 0x2a, 0x95, 0x0c, 0x7e, 0x04, 0x28, 0xbf, 0x40, 0x61, 0x5c],
    [0xd0, 0x64, 0x78, 0x00, 0x1c, 0x83, 0x7d, 0xc6, 0x21, 0x3b, 0x34, 0x16, 0x71, 0xcb, 0xbb, 0xbc],
    [0x3d, 0x59, 0xc2, 0xdc, 0x84, 0xab, 0xcd, 0x6b, 0x05, 0xbd, 0xb1, 0x3c, 0xb3, 0x11, 0xf4, 0x6a],
    [0x26, 0xd7, 0x4d, 0xdb, 0xd1, 0xf7, 0x99, 0x5e, 0x74, 0x92, 0xda, 0x2e, 0xa4, 0x89, 0xb6, 0x5d],
    [0x97, 0x79, 0xe9, 0x67, 0x07, 0x8d, 0x9b, 0x09, 0x9a, 0xa2, 0x6d, 0x49, 0x5b, 0x2b, 0x33, 0xa3],
    [0x12, 0x02, 0x25, 0x46, 0x8f, 0x93, 0xaf, 0xb7, 0x72, 0x58, 0x7b, 0x62, 0xea, 0xa1, 0xa8, 0xb9],
    [0x43, 0x73, 0xf5, 0x2c, 0x27, 0x6f, 0xff, 0x54, 0x4c, 0x47, 0xf9, 0xba, 0x1b, 0x08, 0xfa, 0xa7],
    [0xc0, 0x35, 0xfd, 0xf0, 0xd3, 0x2f, 0x70, 0xe1, 0xec, 0xfe, 0x94, 0x75, 0x50, 0x3e, 0xfc, 0x42],
    [0x98, 0xb0, 0x15, 0x23, 0x6e, 0xc5, 0xbe, 0xee, 0x4b, 0x0f, 0x8c, 0x19, 0x0d, 0x68, 0x31, 0x30],
    [0x52, 0x18, 0x7a, 0xca, 0x53, 0x69, 0xdd, 0x8b, 0x8a, 0xe3, 0x91, 0x20, 0x06, 0x1d, 0x17, 0xc8],
    [0xd6, 0xe2, 0x76, 0x3a, 0x0e, 0xb8, 0x8e, 0xe5, 0xe7, 0x55, 0xe4, 0x41, 0x48, 0x90, 0xf1, 0x9d],
    [0x2d, 0x39, 0xdf, 0x86, 0xa9, 0x03, 0xb4, 0xc1, 0x32, 0x87, 0x0b, 0xa5, 0x24, 0x65, 0x01, 0x3f],
    [0xf8, 0x77, 0xce, 0x38, 0x22, 0xe0, 0xcc, 0x57, 0x7f, 0xd8, 0xa0, 0x13, 0xed, 0x4e, 0xa6, 0xef],
    [0x4a, 0xe6, 0xf2, 0xb5, 0xae, 0x9f, 0x56, 0x80, 0x36, 0x6c, 0x10, 0x63, 0x1a, 0xd2, 0x60, 0x85],
    [0xd5, 0x51, 0x4f, 0x0a, 0x1f, 0x5f, 0xb2, 0xc4, 0xac, 0x7c, 0x9e, 0x66, 0x14, 0x37, 0xc3, 0x44],
    [0x88, 0x45, 0xd9, 0x29, 0xd4, 0xe8, 0x81, 0xfb, 0xde, 0xaa, 0x82, 0xf3, 0x96, 0x1e, 0x9c, 0xeb]]"

definition TABLE_S4_124 :: "bytes" where
  "TABLE_S4_124 = concat [
    [0x92, 0x55, 0xda, 0xfc, 0x46, 0xd0, 0x2d, 0xdc, 0xbd, 0x56, 0xaf, 0x82, 0xd1, 0x25, 0x7f, 0x99],
    [0xc6, 0x60, 0x8f, 0xa0, 0xc9, 0xd7, 0x36, 0x52, 0xff, 0x61, 0xb8, 0x1a, 0xba, 0x37, 0x0e, 0xb6],
    [0x76, 0xcd, 0x17, 0x88, 0x73, 0x0b, 0xdb, 0x6f, 0xb0, 0xb7, 0x7a, 0xc0, 0x3f, 0x1d, 0x2a, 0x30],
    [0x21, 0x9e, 0xfd, 0xa6, 0xcc, 0x51, 0xc2, 0xc4, 0x6a, 0x57, 0xb4, 0x4b, 0x0f, 0x23, 0x07, 0x75],
    [0x7b, 0xea, 0xd8, 0x24, 0xf6, 0xfb, 0xcb, 0x3e, 0xf7, 0x49, 0x5b, 0x35, 0x9f, 0x7e, 0xe7, 0xf5],
    [0xf4, 0x5f, 0x2c, 0x64, 0xfe, 0x27, 0x48, 0x78, 0xf1, 0xac, 0x10, 0x03, 0xf2, 0xb1, 0x47, 0x4c],
    [0xa4, 0xbc, 0x84, 0x98, 0x2e, 0x4d, 0x19, 0x09, 0xa3, 0xb2, 0xe1, 0xaa, 0x70, 0x69, 0x79, 0x53],
    [0x90, 0x02, 0x0c, 0x86, 0xe2, 0x6c, 0x9c, 0x72, 0x38, 0xa8, 0x50, 0x20, 0x66, 0x42, 0x91, 0xa9],
    [0xbf, 0xca, 0xa2, 0x08, 0xd4, 0x8d, 0x26, 0x32, 0x0a, 0x34, 0x2f, 0x6e, 0x00, 0xae, 0x39, 0x8c],
    [0x85, 0xee, 0x05, 0xb3, 0x7d, 0x31, 0xdd, 0xe9, 0xfa, 0x96, 0x43, 0x9b, 0xef, 0x4a, 0xec, 0x5e],
    [0xd6, 0x80, 0x58, 0x62, 0x71, 0xc1, 0x59, 0x13, 0x1c, 0xc3, 0x0d, 0x16, 0x9a, 0x2b, 0x81, 0xe8],
    [0xb5, 0xe5, 0x65, 0xce, 0x1e, 0x28, 0x93, 0xbb, 0x3a, 0x3b, 0x06, 0x63, 0x87, 0x12, 0x40, 0x04],
    [0x8a, 0xf0, 0xdf, 0xe3, 0xd2, 0x22, 0x83, 0x4e, 0x97, 0xe0, 0x9d, 0x15, 0x89, 0xf8, 0xd5, 0xa1],
    [0xb9, 0xcf, 0x14, 0x54, 0x44, 0x01, 0xde, 0x5a, 0xc8, 0x4f, 0x1f, 0x3c, 0x95, 0x6d, 0xa7, 0x77],
    [0x5d, 0x8b, 0xa5, 0x94, 0xf9, 0xbe, 0x41, 0xed, 0x6b, 0x8e, 0x11, 0xd9, 0x1b, 0x68, 0x3d, 0x67],
    [0xc7, 0x5c, 0x29, 0xeb, 0xc5, 0x33, 0xf3, 0x7c, 0xad, 0xe4, 0xe6, 0x45, 0xab, 0x18, 0x74, 0xd3]]"

definition TABLE_S4_125 :: "bytes" where
  "TABLE_S4_125 = concat [
    [0xf0, 0x56, 0xb9, 0x96, 0xff, 0xe1, 0x00, 0x64, 0xc9, 0x57, 0x8e, 0x2c, 0x8c, 0x01, 0x38, 0x80],
    [0xa4, 0x63, 0xec, 0xca, 0x70, 0xe6, 0x1b, 0xea, 0x8b, 0x60, 0x99, 0xb4, 0xe7, 0x13, 0x49, 0xaf],
    [0x17, 0xa8, 0xcb, 0x90, 0xfa, 0x67, 0xf4, 0xf2, 0x5c, 0x61, 0x82, 0x7d, 0x39, 0x15, 0x31, 0x43],
    [0x40, 0xfb, 0x21, 0xbe, 0x45, 0x3d, 0xed, 0x59, 0x86, 0x81, 0x4c, 0xf6, 0x09, 0x2b, 0x1c, 0x06],
    [0xc2, 0x69, 0x1a, 0x52, 0xc8, 0x11, 0x7e, 0x4e, 0xc7, 0x9a, 0x26, 0x35, 0xc4, 0x87, 0x71, 0x7a],
    [0x4d, 0xdc, 0xee, 0x12, 0xc0, 0xcd, 0xfd, 0x08, 0xc1, 0x7f, 0x6d, 0x03, 0xa9, 0x48, 0xd1, 0xc3],
    [0xa6, 0x34, 0x3a, 0xb0, 0xd4, 0x5a, 0xaa, 0x44, 0x0e, 0x9e, 0x66, 0x16, 0x50, 0x74, 0xa7, 0x9f],
    [0x92, 0x8a, 0xb2, 0xae, 0x18, 0x7b, 0x2f, 0x3f, 0x95, 0x84, 0xd7, 0x9c, 0x46, 0x5f, 0x4f, 0x65],
    [0xb3, 0xd8, 0x33, 0x85, 0x4b, 0x07, 0xeb, 0xdf, 0xcc, 0xa0, 0x75, 0xad, 0xd9, 0x7c, 0xda, 0x68],
    [0x89, 0xfc, 0x94, 0x3e, 0xe2, 0xbb, 0x10, 0x04, 0x3c, 0x02, 0x19, 0x58, 0x36, 0x98, 0x0f, 0xba],
    [0x83, 0xd3, 0x53, 0xf8, 0x28, 0x1e, 0xa5, 0x8d, 0x0c, 0x0d, 0x30, 0x55, 0xb1, 0x24, 0x76, 0x32],
    [0xe0, 0xb6, 0x6e, 0x54, 0x47, 0xf7, 0x6f, 0x25, 0x2a, 0xf5, 0x3b, 0x20, 0xac, 0x1d, 0xb7, 0xde],
    [0x8f, 0xf9, 0x22, 0x62, 0x72, 0x37, 0xe8, 0x6c, 0xfe, 0x79, 0x29, 0x0a, 0xa3, 0x5b, 0x91, 0x41],
    [0xbc, 0xc6, 0xe9, 0xd5, 0xe4, 0x14, 0xb5, 0x78, 0xa1, 0xd6, 0xab, 0x23, 0xbf, 0xce, 0xe3, 0x97],
    [0xf1, 0x6a, 0x1f, 0xdd, 0xf3, 0x05, 0xc5, 0x4a, 0x9b, 0xd2, 0xd0, 0x73, 0x9d, 0x2e, 0x42, 0xe5],
    [0x6b, 0xbd, 0x93, 0xa2, 0xcf, 0x88, 0x77, 0xdb, 0x5d, 0xb8, 0x27, 0xef, 0x2d, 0x5e, 0x0b, 0x51]]"

definition TABLE_S4_126 :: "bytes" where
  "TABLE_S4_126 = concat [
    [0x0e, 0x23, 0xda, 0x31, 0x15, 0xf3, 0xa9, 0x5d, 0x70, 0x56, 0xd9, 0x1e, 0x50, 0xa1, 0x5c, 0xca],
    [0x96, 0x34, 0xed, 0x73, 0x3a, 0x82, 0xbb, 0x36, 0x2c, 0x03, 0xec, 0x4a, 0xde, 0xba, 0x5b, 0x45],
    [0x4c, 0xf6, 0x3b, 0x3c, 0xbc, 0xa6, 0x91, 0xb3, 0x04, 0x9b, 0x41, 0xfa, 0xe3, 0x57, 0x87, 0xff],
    [0xc7, 0x38, 0xdb, 0xe6, 0xf9, 0x8b, 0xaf, 0x83, 0x2a, 0x71, 0x12, 0xad, 0x48, 0x4e, 0xdd, 0x40],
    [0xb9, 0xd7, 0xc5, 0x7b, 0x79, 0x6b, 0xf2, 0x13, 0xa8, 0x54, 0x66, 0xf7, 0xb2, 0x47, 0x77, 0x7a],
    [0x8f, 0x9c, 0x20, 0x7d, 0xc0, 0xcb, 0x3d, 0x7e, 0xe8, 0xa0, 0xd3, 0x78, 0xf4, 0xc4, 0xab, 0x72],
    [0x26, 0x6d, 0x3e, 0x2f, 0xdf, 0xf5, 0xe5, 0xfc, 0x14, 0x08, 0x30, 0x28, 0x85, 0x95, 0xc1, 0xa2],
    [0xac, 0xdc, 0x24, 0xb4, 0x25, 0x1d, 0xce, 0xea, 0x0a, 0x80, 0x8e, 0x1c, 0xfe, 0x10, 0xe0, 0x6e],
    [0xe2, 0xa3, 0xb8, 0x86, 0x00, 0xb5, 0x22, 0x8c, 0x84, 0x2e, 0x46, 0x33, 0xbe, 0xaa, 0x01, 0x58],
    [0x17, 0xcf, 0x1a, 0x76, 0xd2, 0x60, 0xc6, 0x63, 0x3f, 0x89, 0x62, 0x09, 0x65, 0x51, 0xbd, 0xf1],
    [0x9a, 0x81, 0x4f, 0x90, 0x64, 0x0d, 0xa7, 0x16, 0xee, 0xd4, 0x0c, 0x5a, 0x9f, 0xd5, 0x4d, 0xfd],
    [0xef, 0x8a, 0xb7, 0xb6, 0x88, 0xcc, 0x9e, 0x0b, 0x42, 0xe9, 0x69, 0x39, 0x37, 0x1f, 0xa4, 0x92],
    [0x99, 0x11, 0x6c, 0x1b, 0x2d, 0x59, 0x74, 0x05, 0x6f, 0x53, 0x7c, 0x06, 0xc2, 0x0f, 0xae, 0x5e],
    [0xb0, 0x93, 0xc3, 0x44, 0xfb, 0x2b, 0xe1, 0x19, 0xd8, 0x98, 0x43, 0x35, 0xd6, 0x52, 0x8d, 0xc8],
    [0x55, 0x9d, 0x02, 0xe7, 0xeb, 0xb1, 0xe4, 0x97, 0x18, 0x29, 0x07, 0xd1, 0x61, 0xcd, 0x32, 0x75],
    [0xc9, 0x6a, 0x68, 0x21, 0x5f, 0xf8, 0x94, 0x27, 0x67, 0xa5, 0xd0, 0x4b, 0xf0, 0x7f, 0xbf, 0x49]]"

definition TABLE_S4_127 :: "bytes" where
  "TABLE_S4_127 = concat [
    [0xcd, 0xcb, 0xc3, 0x5e, 0xf2, 0xa9, 0x2e, 0x91, 0x08, 0x7a, 0x00, 0x2c, 0xbb, 0x44, 0x65, 0x58],
    [0xd4, 0x60, 0x7c, 0x04, 0x18, 0x87, 0x79, 0xc2, 0x25, 0x3f, 0x30, 0x12, 0x75, 0xcf, 0xbf, 0xb8],
    [0x39, 0x5d, 0xc6, 0xd8, 0x80, 0xaf, 0xc9, 0x6f, 0x01, 0xb9, 0xb5, 0x38, 0xb7, 0x15, 0xf0, 0x6e],
    [0x22, 0xd3, 0x49, 0xdf, 0xd5, 0xf3, 0x9d, 0x5a, 0x70, 0x96, 0xde, 0x2a, 0xa0, 0x8d, 0xb2, 0x59],
    [0x93, 0x7d, 0xed, 0x63, 0x03, 0x89, 0x9f, 0x0d, 0x9e, 0xa6, 0x69, 0x4d, 0x5f, 0x2f, 0x37, 0xa7],
    [0x16, 0x06, 0x21, 0x42, 0x8b, 0x97, 0xab, 0xb3, 0x76, 0x5c, 0x7f, 0x66, 0xee, 0xa5, 0xac, 0xbd],
    [0x47, 0x77, 0xf1, 0x28, 0x23, 0x6b, 0xfb, 0x50, 0x48, 0x43, 0xfd, 0xbe, 0x1f, 0x0c, 0xfe, 0xa3],
    [0xc4, 0x31, 0xf9, 0xf4, 0xd7, 0x2b, 0x74, 0xe5, 0xe8, 0xfa, 0x90, 0x71, 0x54, 0x3a, 0xf8, 0x46],
    [0x9c, 0xb4, 0x11, 0x27, 0x6a, 0xc1, 0xba, 0xea, 0x4f, 0x0b, 0x88, 0x1d, 0x09, 0x6c, 0x35, 0x34],
    [0x56, 0x1c, 0x7e, 0xce, 0x57, 0x6d, 0xd9, 0x8f, 0x8e, 0xe7, 0x95, 0x24, 0x02, 0x19, 0x13, 0xcc],
    [0xd2, 0xe6, 0x72, 0x3e, 0x0a, 0xbc, 0x8a, 0xe1, 0xe3, 0x51, 0xe0, 0x45, 0x4c, 0x94, 0xf5, 0x99],
    [0x29, 0x3d, 0xdb, 0x82, 0xad, 0x07, 0xb0, 0xc5, 0x36, 0x83, 0x0f, 0xa1, 0x20, 0x61, 0x05, 0x3b],
    [0xfc, 0x73, 0xca, 0x3c, 0x26, 0xe4, 0xc8, 0x53, 0x7b, 0xdc, 0xa4, 0x17, 0xe9, 0x4a, 0xa2, 0xeb],
    [0x4e, 0xe2, 0xf6, 0xb1, 0xaa, 0x9b, 0x52, 0x84, 0x32, 0x68, 0x14, 0x67, 0x1e, 0xd6, 0x64, 0x81],
    [0xd1, 0x55, 0x4b, 0x0e, 0x1b, 0x5b, 0xb6, 0xc0, 0xa8, 0x78, 0x9a, 0x62, 0x10, 0x33, 0xc7, 0x40],
    [0x8c, 0x41, 0xdd, 0x2d, 0xd0, 0xec, 0x85, 0xff, 0xda, 0xae, 0x86, 0xf7, 0x92, 0x1a, 0x98, 0xef]]"

definition TABLE_S4_128 :: "bytes" where
  "TABLE_S4_128 = concat [
    [0x80, 0x47, 0xc8, 0xee, 0x54, 0xc2, 0x3f, 0xce, 0xaf, 0x44, 0xbd, 0x90, 0xc3, 0x37, 0x6d, 0x8b],
    [0xd4, 0x72, 0x9d, 0xb2, 0xdb, 0xc5, 0x24, 0x40, 0xed, 0x73, 0xaa, 0x08, 0xa8, 0x25, 0x1c, 0xa4],
    [0x64, 0xdf, 0x05, 0x9a, 0x61, 0x19, 0xc9, 0x7d, 0xa2, 0xa5, 0x68, 0xd2, 0x2d, 0x0f, 0x38, 0x22],
    [0x33, 0x8c, 0xef, 0xb4, 0xde, 0x43, 0xd0, 0xd6, 0x78, 0x45, 0xa6, 0x59, 0x1d, 0x31, 0x15, 0x67],
    [0x69, 0xf8, 0xca, 0x36, 0xe4, 0xe9, 0xd9, 0x2c, 0xe5, 0x5b, 0x49, 0x27, 0x8d, 0x6c, 0xf5, 0xe7],
    [0xe6, 0x4d, 0x3e, 0x76, 0xec, 0x35, 0x5a, 0x6a, 0xe3, 0xbe, 0x02, 0x11, 0xe0, 0xa3, 0x55, 0x5e],
    [0xb6, 0xae, 0x96, 0x8a, 0x3c, 0x5f, 0x0b, 0x1b, 0xb1, 0xa0, 0xf3, 0xb8, 0x62, 0x7b, 0x6b, 0x41],
    [0x82, 0x10, 0x1e, 0x94, 0xf0, 0x7e, 0x8e, 0x60, 0x2a, 0xba, 0x42, 0x32, 0x74, 0x50, 0x83, 0xbb],
    [0xad, 0xd8, 0xb0, 0x1a, 0xc6, 0x9f, 0x34, 0x20, 0x18, 0x26, 0x3d, 0x7c, 0x12, 0xbc, 0x2b, 0x9e],
    [0x97, 0xfc, 0x17, 0xa1, 0x6f, 0x23, 0xcf, 0xfb, 0xe8, 0x84, 0x51, 0x89, 0xfd, 0x58, 0xfe, 0x4c],
    [0xc4, 0x92, 0x4a, 0x70, 0x63, 0xd3, 0x4b, 0x01, 0x0e, 0xd1, 0x1f, 0x04, 0x88, 0x39, 0x93, 0xfa],
    [0xa7, 0xf7, 0x77, 0xdc, 0x0c, 0x3a, 0x81, 0xa9, 0x28, 0x29, 0x14, 0x71, 0x95, 0x00, 0x52, 0x16],
    [0x98, 0xe2, 0xcd, 0xf1, 0xc0, 0x30, 0x91, 0x5c, 0x85, 0xf2, 0x8f, 0x07, 0x9b, 0xea, 0xc7, 0xb3],
    [0xab, 0xdd, 0x06, 0x46, 0x56, 0x13, 0xcc, 0x48, 0xda, 0x5d, 0x0d, 0x2e, 0x87, 0x7f, 0xb5, 0x65],
    [0x4f, 0x99, 0xb7, 0x86, 0xeb, 0xac, 0x53, 0xff, 0x79, 0x9c, 0x03, 0xcb, 0x09, 0x7a, 0x2f, 0x75],
    [0xd5, 0x4e, 0x3b, 0xf9, 0xd7, 0x21, 0xe1, 0x6e, 0xbf, 0xf6, 0xf4, 0x57, 0xb9, 0x0a, 0x66, 0xc1]]"

definition TABLE_S4_129 :: "bytes" where
  "TABLE_S4_129 = concat [
    [0x4e, 0xe8, 0x07, 0x28, 0x41, 0x5f, 0xbe, 0xda, 0x77, 0xe9, 0x30, 0x92, 0x32, 0xbf, 0x86, 0x3e],
    [0x1a, 0xdd, 0x52, 0x74, 0xce, 0x58, 0xa5, 0x54, 0x35, 0xde, 0x27, 0x0a, 0x59, 0xad, 0xf7, 0x11],
    [0xa9, 0x16, 0x75, 0x2e, 0x44, 0xd9, 0x4a, 0x4c, 0xe2, 0xdf, 0x3c, 0xc3, 0x87, 0xab, 0x8f, 0xfd],
    [0xfe, 0x45, 0x9f, 0x00, 0xfb, 0x83, 0x53, 0xe7, 0x38, 0x3f, 0xf2, 0x48, 0xb7, 0x95, 0xa2, 0xb8],
    [0x7c, 0xd7, 0xa4, 0xec, 0x76, 0xaf, 0xc0, 0xf0, 0x79, 0x24, 0x98, 0x8b, 0x7a, 0x39, 0xcf, 0xc4],
    [0xf3, 0x62, 0x50, 0xac, 0x7e, 0x73, 0x43, 0xb6, 0x7f, 0xc1, 0xd3, 0xbd, 0x17, 0xf6, 0x6f, 0x7d],
    [0x18, 0x8a, 0x84, 0x0e, 0x6a, 0xe4, 0x14, 0xfa, 0xb0, 0x20, 0xd8, 0xa8, 0xee, 0xca, 0x19, 0x21],
    [0x2c, 0x34, 0x0c, 0x10, 0xa6, 0xc5, 0x91, 0x81, 0x2b, 0x3a, 0x69, 0x22, 0xf8, 0xe1, 0xf1, 0xdb],
    [0x0d, 0x66, 0x8d, 0x3b, 0xf5, 0xb9, 0x55, 0x61, 0x72, 0x1e, 0xcb, 0x13, 0x67, 0xc2, 0x64, 0xd6],
    [0x37, 0x42, 0x2a, 0x80, 0x5c, 0x05, 0xae, 0xba, 0x82, 0xbc, 0xa7, 0xe6, 0x88, 0x26, 0xb1, 0x04],
    [0x3d, 0x6d, 0xed, 0x46, 0x96, 0xa0, 0x1b, 0x33, 0xb2, 0xb3, 0x8e, 0xeb, 0x0f, 0x9a, 0xc8, 0x8c],
    [0x5e, 0x08, 0xd0, 0xea, 0xf9, 0x49, 0xd1, 0x9b, 0x94, 0x4b, 0x85, 0x9e, 0x12, 0xa3, 0x09, 0x60],
    [0x31, 0x47, 0x9c, 0xdc, 0xcc, 0x89, 0x56, 0xd2, 0x40, 0xc7, 0x97, 0xb4, 0x1d, 0xe5, 0x2f, 0xff],
    [0x02, 0x78, 0x57, 0x6b, 0x5a, 0xaa, 0x0b, 0xc6, 0x1f, 0x68, 0x15, 0x9d, 0x01, 0x70, 0x5d, 0x29],
    [0x4f, 0xd4, 0xa1, 0x63, 0x4d, 0xbb, 0x7b, 0xf4, 0x25, 0x6c, 0x6e, 0xcd, 0x23, 0x90, 0xfc, 0x5b],
    [0xd5, 0x03, 0x2d, 0x1c, 0x71, 0x36, 0xc9, 0x65, 0xe3, 0x06, 0x99, 0x51, 0x93, 0xe0, 0xb5, 0xef]]"

definition TABLE_S4_130 :: "bytes" where
  "TABLE_S4_130 = concat [
    [0x70, 0x5d, 0xa4, 0x4f, 0x6b, 0x8d, 0xd7, 0x23, 0x0e, 0x28, 0xa7, 0x60, 0x2e, 0xdf, 0x22, 0xb4],
    [0xe8, 0x4a, 0x93, 0x0d, 0x44, 0xfc, 0xc5, 0x48, 0x52, 0x7d, 0x92, 0x34, 0xa0, 0xc4, 0x25, 0x3b],
    [0x32, 0x88, 0x45, 0x42, 0xc2, 0xd8, 0xef, 0xcd, 0x7a, 0xe5, 0x3f, 0x84, 0x9d, 0x29, 0xf9, 0x81],
    [0xb9, 0x46, 0xa5, 0x98, 0x87, 0xf5, 0xd1, 0xfd, 0x54, 0x0f, 0x6c, 0xd3, 0x36, 0x30, 0xa3, 0x3e],
    [0xc7, 0xa9, 0xbb, 0x05, 0x07, 0x15, 0x8c, 0x6d, 0xd6, 0x2a, 0x18, 0x89, 0xcc, 0x39, 0x09, 0x04],
    [0xf1, 0xe2, 0x5e, 0x03, 0xbe, 0xb5, 0x43, 0x00, 0x96, 0xde, 0xad, 0x06, 0x8a, 0xba, 0xd5, 0x0c],
    [0x58, 0x13, 0x40, 0x51, 0xa1, 0x8b, 0x9b, 0x82, 0x6a, 0x76, 0x4e, 0x56, 0xfb, 0xeb, 0xbf, 0xdc],
    [0xd2, 0xa2, 0x5a, 0xca, 0x5b, 0x63, 0xb0, 0x94, 0x74, 0xfe, 0xf0, 0x62, 0x80, 0x6e, 0x9e, 0x10],
    [0x9c, 0xdd, 0xc6, 0xf8, 0x7e, 0xcb, 0x5c, 0xf2, 0xfa, 0x50, 0x38, 0x4d, 0xc0, 0xd4, 0x7f, 0x26],
    [0x69, 0xb1, 0x64, 0x08, 0xac, 0x1e, 0xb8, 0x1d, 0x41, 0xf7, 0x1c, 0x77, 0x1b, 0x2f, 0xc3, 0x8f],
    [0xe4, 0xff, 0x31, 0xee, 0x1a, 0x73, 0xd9, 0x68, 0x90, 0xaa, 0x72, 0x24, 0xe1, 0xab, 0x33, 0x83],
    [0x91, 0xf4, 0xc9, 0xc8, 0xf6, 0xb2, 0xe0, 0x75, 0x3c, 0x97, 0x17, 0x47, 0x49, 0x61, 0xda, 0xec],
    [0xe7, 0x6f, 0x12, 0x65, 0x53, 0x27, 0x0a, 0x7b, 0x11, 0x2d, 0x02, 0x78, 0xbc, 0x71, 0xd0, 0x20],
    [0xce, 0xed, 0xbd, 0x3a, 0x85, 0x55, 0x9f, 0x67, 0xa6, 0xe6, 0x3d, 0x4b, 0xa8, 0x2c, 0xf3, 0xb6],
    [0x2b, 0xe3, 0x7c, 0x99, 0x95, 0xcf, 0x9a, 0xe9, 0x66, 0x57, 0x79, 0xaf, 0x1f, 0xb3, 0x4c, 0x0b],
    [0xb7, 0x14, 0x16, 0x5f, 0x21, 0x86, 0xea, 0x59, 0x19, 0xdb, 0xae, 0x35, 0x8e, 0x01, 0xc1, 0x37]]"

definition TABLE_S4_131 :: "bytes" where
  "TABLE_S4_131 = concat [
    [0xf4, 0xf2, 0xfa, 0x67, 0xcb, 0x90, 0x17, 0xa8, 0x31, 0x43, 0x39, 0x15, 0x82, 0x7d, 0x5c, 0x61],
    [0xed, 0x59, 0x45, 0x3d, 0x21, 0xbe, 0x40, 0xfb, 0x1c, 0x06, 0x09, 0x2b, 0x4c, 0xf6, 0x86, 0x81],
    [0x00, 0x64, 0xff, 0xe1, 0xb9, 0x96, 0xf0, 0x56, 0x38, 0x80, 0x8c, 0x01, 0x8e, 0x2c, 0xc9, 0x57],
    [0x1b, 0xea, 0x70, 0xe6, 0xec, 0xca, 0xa4, 0x63, 0x49, 0xaf, 0xe7, 0x13, 0x99, 0xb4, 0x8b, 0x60],
    [0xaa, 0x44, 0xd4, 0x5a, 0x3a, 0xb0, 0xa6, 0x34, 0xa7, 0x9f, 0x50, 0x74, 0x66, 0x16, 0x0e, 0x9e],
    [0x2f, 0x3f, 0x18, 0x7b, 0xb2, 0xae, 0x92, 0x8a, 0x4f, 0x65, 0x46, 0x5f, 0xd7, 0x9c, 0x95, 0x84],
    [0x7e, 0x4e, 0xc8, 0x11, 0x1a, 0x52, 0xc2, 0x69, 0x71, 0x7a, 0xc4, 0x87, 0x26, 0x35, 0xc7, 0x9a],
    [0xfd, 0x08, 0xc0, 0xcd, 0xee, 0x12, 0x4d, 0xdc, 0xd1, 0xc3, 0xa9, 0x48, 0x6d, 0x03, 0xc1, 0x7f],
    [0xa5, 0x8d, 0x28, 0x1e, 0x53, 0xf8, 0x83, 0xd3, 0x76, 0x32, 0xb1, 0x24, 0x30, 0x55, 0x0c, 0x0d],
    [0x6f, 0x25, 0x47, 0xf7, 0x6e, 0x54, 0xe0, 0xb6, 0xb7, 0xde, 0xac, 0x1d, 0x3b, 0x20, 0x2a, 0xf5],
    [0xeb, 0xdf, 0x4b, 0x07, 0x33, 0x85, 0xb3, 0xd8, 0xda, 0x68, 0xd9, 0x7c, 0x75, 0xad, 0xcc, 0xa0],
    [0x10, 0x04, 0xe2, 0xbb, 0x94, 0x3e, 0x89, 0xfc, 0x0f, 0xba, 0x36, 0x98, 0x19, 0x58, 0x3c, 0x02],
    [0xc5, 0x4a, 0xf3, 0x05, 0x1f, 0xdd, 0xf1, 0x6a, 0x42, 0xe5, 0x9d, 0x2e, 0xd0, 0x73, 0x9b, 0xd2],
    [0x77, 0xdb, 0xcf, 0x88, 0x93, 0xa2, 0x6b, 0xbd, 0x0b, 0x51, 0x2d, 0x5e, 0x27, 0xef, 0x5d, 0xb8],
    [0xe8, 0x6c, 0x72, 0x37, 0x22, 0x62, 0x8f, 0xf9, 0x91, 0x41, 0xa3, 0x5b, 0x29, 0x0a, 0xfe, 0x79],
    [0xb5, 0x78, 0xe4, 0x14, 0xe9, 0xd5, 0xbc, 0xc6, 0xe3, 0x97, 0xbf, 0xce, 0xab, 0x23, 0xa1, 0xd6]]"

definition TABLE_S4_132 :: "bytes" where
  "TABLE_S4_132 = concat [
    [0x44, 0x83, 0x0c, 0x2a, 0x90, 0x06, 0xfb, 0x0a, 0x6b, 0x80, 0x79, 0x54, 0x07, 0xf3, 0xa9, 0x4f],
    [0x10, 0xb6, 0x59, 0x76, 0x1f, 0x01, 0xe0, 0x84, 0x29, 0xb7, 0x6e, 0xcc, 0x6c, 0xe1, 0xd8, 0x60],
    [0xa0, 0x1b, 0xc1, 0x5e, 0xa5, 0xdd, 0x0d, 0xb9, 0x66, 0x61, 0xac, 0x16, 0xe9, 0xcb, 0xfc, 0xe6],
    [0xf7, 0x48, 0x2b, 0x70, 0x1a, 0x87, 0x14, 0x12, 0xbc, 0x81, 0x62, 0x9d, 0xd9, 0xf5, 0xd1, 0xa3],
    [0xad, 0x3c, 0x0e, 0xf2, 0x20, 0x2d, 0x1d, 0xe8, 0x21, 0x9f, 0x8d, 0xe3, 0x49, 0xa8, 0x31, 0x23],
    [0x22, 0x89, 0xfa, 0xb2, 0x28, 0xf1, 0x9e, 0xae, 0x27, 0x7a, 0xc6, 0xd5, 0x24, 0x67, 0x91, 0x9a],
    [0x72, 0x6a, 0x52, 0x4e, 0xf8, 0x9b, 0xcf, 0xdf, 0x75, 0x64, 0x37, 0x7c, 0xa6, 0xbf, 0xaf, 0x85],
    [0x46, 0xd4, 0xda, 0x50, 0x34, 0xba, 0x4a, 0xa4, 0xee, 0x7e, 0x86, 0xf6, 0xb0, 0x94, 0x47, 0x7f],
    [0x69, 0x1c, 0x74, 0xde, 0x02, 0x5b, 0xf0, 0xe4, 0xdc, 0xe2, 0xf9, 0xb8, 0xd6, 0x78, 0xef, 0x5a],
    [0x53, 0x38, 0xd3, 0x65, 0xab, 0xe7, 0x0b, 0x3f, 0x2c, 0x40, 0x95, 0x4d, 0x39, 0x9c, 0x3a, 0x88],
    [0x00, 0x56, 0x8e, 0xb4, 0xa7, 0x17, 0x8f, 0xc5, 0xca, 0x15, 0xdb, 0xc0, 0x4c, 0xfd, 0x57, 0x3e],
    [0x63, 0x33, 0xb3, 0x18, 0xc8, 0xfe, 0x45, 0x6d, 0xec, 0xed, 0xd0, 0xb5, 0x51, 0xc4, 0x96, 0xd2],
    [0x5c, 0x26, 0x09, 0x35, 0x04, 0xf4, 0x55, 0x98, 0x41, 0x36, 0x4b, 0xc3, 0x5f, 0x2e, 0x03, 0x77],
    [0x6f, 0x19, 0xc2, 0x82, 0x92, 0xd7, 0x08, 0x8c, 0x1e, 0x99, 0xc9, 0xea, 0x43, 0xbb, 0x71, 0xa1],
    [0x8b, 0x5d, 0x73, 0x42, 0x2f, 0x68, 0x97, 0x3b, 0xbd, 0x58, 0xc7, 0x0f, 0xcd, 0xbe, 0xeb, 0xb1],
    [0x11, 0x8a, 0xff, 0x3d, 0x13, 0xe5, 0x25, 0xaa, 0x7b, 0x32, 0x30, 0x93, 0x7d, 0xce, 0xa2, 0x05]]"

definition TABLE_S4_133 :: "bytes" where
  "TABLE_S4_133 = concat [
    [0xed, 0x4b, 0xa4, 0x8b, 0xe2, 0xfc, 0x1d, 0x79, 0xd4, 0x4a, 0x93, 0x31, 0x91, 0x1c, 0x25, 0x9d],
    [0xb9, 0x7e, 0xf1, 0xd7, 0x6d, 0xfb, 0x06, 0xf7, 0x96, 0x7d, 0x84, 0xa9, 0xfa, 0x0e, 0x54, 0xb2],
    [0x0a, 0xb5, 0xd6, 0x8d, 0xe7, 0x7a, 0xe9, 0xef, 0x41, 0x7c, 0x9f, 0x60, 0x24, 0x08, 0x2c, 0x5e],
    [0x5d, 0xe6, 0x3c, 0xa3, 0x58, 0x20, 0xf0, 0x44, 0x9b, 0x9c, 0x51, 0xeb, 0x14, 0x36, 0x01, 0x1b],
    [0xdf, 0x74, 0x07, 0x4f, 0xd5, 0x0c, 0x63, 0x53, 0xda, 0x87, 0x3b, 0x28, 0xd9, 0x9a, 0x6c, 0x67],
    [0x50, 0xc1, 0xf3, 0x0f, 0xdd, 0xd0, 0xe0, 0x15, 0xdc, 0x62, 0x70, 0x1e, 0xb4, 0x55, 0xcc, 0xde],
    [0xbb, 0x29, 0x27, 0xad, 0xc9, 0x47, 0xb7, 0x59, 0x13, 0x83, 0x7b, 0x0b, 0x4d, 0x69, 0xba, 0x82],
    [0x8f, 0x97, 0xaf, 0xb3, 0x05, 0x66, 0x32, 0x22, 0x88, 0x99, 0xca, 0x81, 0x5b, 0x42, 0x52, 0x78],
    [0xae, 0xc5, 0x2e, 0x98, 0x56, 0x1a, 0xf6, 0xc2, 0xd1, 0xbd, 0x68, 0xb0, 0xc4, 0x61, 0xc7, 0x75],
    [0x94, 0xe1, 0x89, 0x23, 0xff, 0xa6, 0x0d, 0x19, 0x21, 0x1f, 0x04, 0x45, 0x2b, 0x85, 0x12, 0xa7],
    [0x9e, 0xce, 0x4e, 0xe5, 0x35, 0x03, 0xb8, 0x90, 0x11, 0x10, 0x2d, 0x48, 0xac, 0x39, 0x6b, 0x2f],
    [0xfd, 0xab, 0x73, 0x49, 0x5a, 0xea, 0x72, 0x38, 0x37, 0xe8, 0x26, 0x3d, 0xb1, 0x00, 0xaa, 0xc3],
    [0x92, 0xe4, 0x3f, 0x7f, 0x6f, 0x2a, 0xf5, 0x71, 0xe3, 0x64, 0x34, 0x17, 0xbe, 0x46, 0x8c, 0x5c],
    [0xa1, 0xdb, 0xf4, 0xc8, 0xf9, 0x09, 0xa8, 0x65, 0xbc, 0xcb, 0xb6, 0x3e, 0xa2, 0xd3, 0xfe, 0x8a],
    [0xec, 0x77, 0x02, 0xc0, 0xee, 0x18, 0xd8, 0x57, 0x86, 0xcf, 0xcd, 0x6e, 0x80, 0x33, 0x5f, 0xf8],
    [0x76, 0xa0, 0x8e, 0xbf, 0xd2, 0x95, 0x6a, 0xc6, 0x40, 0xa5, 0x3a, 0xf2, 0x30, 0x43, 0x16, 0x4c]]"

definition TABLE_S4_134 :: "bytes" where
  "TABLE_S4_134 = concat [
    [0xb3, 0x9e, 0x67, 0x8c, 0xa8, 0x4e, 0x14, 0xe0, 0xcd, 0xeb, 0x64, 0xa3, 0xed, 0x1c, 0xe1, 0x77],
    [0x2b, 0x89, 0x50, 0xce, 0x87, 0x3f, 0x06, 0x8b, 0x91, 0xbe, 0x51, 0xf7, 0x63, 0x07, 0xe6, 0xf8],
    [0xf1, 0x4b, 0x86, 0x81, 0x01, 0x1b, 0x2c, 0x0e, 0xb9, 0x26, 0xfc, 0x47, 0x5e, 0xea, 0x3a, 0x42],
    [0x7a, 0x85, 0x66, 0x5b, 0x44, 0x36, 0x12, 0x3e, 0x97, 0xcc, 0xaf, 0x10, 0xf5, 0xf3, 0x60, 0xfd],
    [0x04, 0x6a, 0x78, 0xc6, 0xc4, 0xd6, 0x4f, 0xae, 0x15, 0xe9, 0xdb, 0x4a, 0x0f, 0xfa, 0xca, 0xc7],
    [0x32, 0x21, 0x9d, 0xc0, 0x7d, 0x76, 0x80, 0xc3, 0x55, 0x1d, 0x6e, 0xc5, 0x49, 0x79, 0x16, 0xcf],
    [0x9b, 0xd0, 0x83, 0x92, 0x62, 0x48, 0x58, 0x41, 0xa9, 0xb5, 0x8d, 0x95, 0x38, 0x28, 0x7c, 0x1f],
    [0x11, 0x61, 0x99, 0x09, 0x98, 0xa0, 0x73, 0x57, 0xb7, 0x3d, 0x33, 0xa1, 0x43, 0xad, 0x5d, 0xd3],
    [0x5f, 0x1e, 0x05, 0x3b, 0xbd, 0x08, 0x9f, 0x31, 0x39, 0x93, 0xfb, 0x8e, 0x03, 0x17, 0xbc, 0xe5],
    [0xaa, 0x72, 0xa7, 0xcb, 0x6f, 0xdd, 0x7b, 0xde, 0x82, 0x34, 0xdf, 0xb4, 0xd8, 0xec, 0x00, 0x4c],
    [0x27, 0x3c, 0xf2, 0x2d, 0xd9, 0xb0, 0x1a, 0xab, 0x53, 0x69, 0xb1, 0xe7, 0x22, 0x68, 0xf0, 0x40],
    [0x52, 0x37, 0x0a, 0x0b, 0x35, 0x71, 0x23, 0xb6, 0xff, 0x54, 0xd4, 0x84, 0x8a, 0xa2, 0x19, 0x2f],
    [0x24, 0xac, 0xd1, 0xa6, 0x90, 0xe4, 0xc9, 0xb8, 0xd2, 0xee, 0xc1, 0xbb, 0x7f, 0xb2, 0x13, 0xe3],
    [0x0d, 0x2e, 0x7e, 0xf9, 0x46, 0x96, 0x5c, 0xa4, 0x65, 0x25, 0xfe, 0x88, 0x6b, 0xef, 0x30, 0x75],
    [0xe8, 0x20, 0xbf, 0x5a, 0x56, 0x0c, 0x59, 0x2a, 0xa5, 0x94, 0xba, 0x6c, 0xdc, 0x70, 0x8f, 0xc8],
    [0x74, 0xd7, 0xd5, 0x9c, 0xe2, 0x45, 0x29, 0x9a, 0xda, 0x18, 0x6d, 0xf6, 0x4d, 0xc2, 0x02, 0xf4]]"

definition TABLE_S4_135 :: "bytes" where
  "TABLE_S4_135 = concat [
    [0x7e, 0x78, 0x70, 0xed, 0x41, 0x1a, 0x9d, 0x22, 0xbb, 0xc9, 0xb3, 0x9f, 0x08, 0xf7, 0xd6, 0xeb],
    [0x67, 0xd3, 0xcf, 0xb7, 0xab, 0x34, 0xca, 0x71, 0x96, 0x8c, 0x83, 0xa1, 0xc6, 0x7c, 0x0c, 0x0b],
    [0x8a, 0xee, 0x75, 0x6b, 0x33, 0x1c, 0x7a, 0xdc, 0xb2, 0x0a, 0x06, 0x8b, 0x04, 0xa6, 0x43, 0xdd],
    [0x91, 0x60, 0xfa, 0x6c, 0x66, 0x40, 0x2e, 0xe9, 0xc3, 0x25, 0x6d, 0x99, 0x13, 0x3e, 0x01, 0xea],
    [0x20, 0xce, 0x5e, 0xd0, 0xb0, 0x3a, 0x2c, 0xbe, 0x2d, 0x15, 0xda, 0xfe, 0xec, 0x9c, 0x84, 0x14],
    [0xa5, 0xb5, 0x92, 0xf1, 0x38, 0x24, 0x18, 0x00, 0xc5, 0xef, 0xcc, 0xd5, 0x5d, 0x16, 0x1f, 0x0e],
    [0xf4, 0xc4, 0x42, 0x9b, 0x90, 0xd8, 0x48, 0xe3, 0xfb, 0xf0, 0x4e, 0x0d, 0xac, 0xbf, 0x4d, 0x10],
    [0x77, 0x82, 0x4a, 0x47, 0x64, 0x98, 0xc7, 0x56, 0x5b, 0x49, 0x23, 0xc2, 0xe7, 0x89, 0x4b, 0xf5],
    [0x2f, 0x07, 0xa2, 0x94, 0xd9, 0x72, 0x09, 0x59, 0xfc, 0xb8, 0x3b, 0xae, 0xba, 0xdf, 0x86, 0x87],
    [0xe5, 0xaf, 0xcd, 0x7d, 0xe4, 0xde, 0x6a, 0x3c, 0x3d, 0x54, 0x26, 0x97, 0xb1, 0xaa, 0xa0, 0x7f],
    [0x61, 0x55, 0xc1, 0x8d, 0xb9, 0x0f, 0x39, 0x52, 0x50, 0xe2, 0x53, 0xf6, 0xff, 0x27, 0x46, 0x2a],
    [0x9a, 0x8e, 0x68, 0x31, 0x1e, 0xb4, 0x03, 0x76, 0x85, 0x30, 0xbc, 0x12, 0x93, 0xd2, 0xb6, 0x88],
    [0x4f, 0xc0, 0x79, 0x8f, 0x95, 0x57, 0x7b, 0xe0, 0xc8, 0x6f, 0x17, 0xa4, 0x5a, 0xf9, 0x11, 0x58],
    [0xfd, 0x51, 0x45, 0x02, 0x19, 0x28, 0xe1, 0x37, 0x81, 0xdb, 0xa7, 0xd4, 0xad, 0x65, 0xd7, 0x32],
    [0x62, 0xe6, 0xf8, 0xbd, 0xa8, 0xe8, 0x05, 0x73, 0x1b, 0xcb, 0x29, 0xd1, 0xa3, 0x80, 0x74, 0xf3],
    [0x3f, 0xf2, 0x6e, 0x9e, 0x63, 0x5f, 0x36, 0x4c, 0x69, 0x1d, 0x35, 0x44, 0x21, 0xa9, 0x2b, 0x5c]]"

definition TABLE_S4_136 :: "bytes" where
  "TABLE_S4_136 = concat [
    [0x10, 0xd7, 0x58, 0x7e, 0xc4, 0x52, 0xaf, 0x5e, 0x3f, 0xd4, 0x2d, 0x00, 0x53, 0xa7, 0xfd, 0x1b],
    [0x44, 0xe2, 0x0d, 0x22, 0x4b, 0x55, 0xb4, 0xd0, 0x7d, 0xe3, 0x3a, 0x98, 0x38, 0xb5, 0x8c, 0x34],
    [0xf4, 0x4f, 0x95, 0x0a, 0xf1, 0x89, 0x59, 0xed, 0x32, 0x35, 0xf8, 0x42, 0xbd, 0x9f, 0xa8, 0xb2],
    [0xa3, 0x1c, 0x7f, 0x24, 0x4e, 0xd3, 0x40, 0x46, 0xe8, 0xd5, 0x36, 0xc9, 0x8d, 0xa1, 0x85, 0xf7],
    [0xf9, 0x68, 0x5a, 0xa6, 0x74, 0x79, 0x49, 0xbc, 0x75, 0xcb, 0xd9, 0xb7, 0x1d, 0xfc, 0x65, 0x77],
    [0x76, 0xdd, 0xae, 0xe6, 0x7c, 0xa5, 0xca, 0xfa, 0x73, 0x2e, 0x92, 0x81, 0x70, 0x33, 0xc5, 0xce],
    [0x26, 0x3e, 0x06, 0x1a, 0xac, 0xcf, 0x9b, 0x8b, 0x21, 0x30, 0x63, 0x28, 0xf2, 0xeb, 0xfb, 0xd1],
    [0x12, 0x80, 0x8e, 0x04, 0x60, 0xee, 0x1e, 0xf0, 0xba, 0x2a, 0xd2, 0xa2, 0xe4, 0xc0, 0x13, 0x2b],
    [0x3d, 0x48, 0x20, 0x8a, 0x56, 0x0f, 0xa4, 0xb0, 0x88, 0xb6, 0xad, 0xec, 0x82, 0x2c, 0xbb, 0x0e],
    [0x07, 0x6c, 0x87, 0x31, 0xff, 0xb3, 0x5f, 0x6b, 0x78, 0x14, 0xc1, 0x19, 0x6d, 0xc8, 0x6e, 0xdc],
    [0x54, 0x02, 0xda, 0xe0, 0xf3, 0x43, 0xdb, 0x91, 0x9e, 0x41, 0x8f, 0x94, 0x18, 0xa9, 0x03, 0x6a],
    [0x37, 0x67, 0xe7, 0x4c, 0x9c, 0xaa, 0x11, 0x39, 0xb8, 0xb9, 0x84, 0xe1, 0x05, 0x90, 0xc2, 0x86],
    [0x08, 0x72, 0x5d, 0x61, 0x50, 0xa0, 0x01, 0xcc, 0x15, 0x62, 0x1f, 0x97, 0x0b, 0x7a, 0x57, 0x23],
    [0x3b, 0x4d, 0x96, 0xd6, 0xc6, 0x83, 0x5c, 0xd8, 0x4a, 0xcd, 0x9d, 0xbe, 0x17, 0xef, 0x25, 0xf5],
    [0xdf, 0x09, 0x27, 0x16, 0x7b, 0x3c, 0xc3, 0x6f, 0xe9, 0x0c, 0x93, 0x5b, 0x99, 0xea, 0xbf, 0xe5],
    [0x45, 0xde, 0xab, 0x69, 0x47, 0xb1, 0x71, 0xfe, 0x2f, 0x66, 0x64, 0xc7, 0x29, 0x9a, 0xf6, 0x51]]"

definition TABLE_S4_137 :: "bytes" where
  "TABLE_S4_137 = concat [
    [0x14, 0xb2, 0x5d, 0x72, 0x1b, 0x05, 0xe4, 0x80, 0x2d, 0xb3, 0x6a, 0xc8, 0x68, 0xe5, 0xdc, 0x64],
    [0x40, 0x87, 0x08, 0x2e, 0x94, 0x02, 0xff, 0x0e, 0x6f, 0x84, 0x7d, 0x50, 0x03, 0xf7, 0xad, 0x4b],
    [0xf3, 0x4c, 0x2f, 0x74, 0x1e, 0x83, 0x10, 0x16, 0xb8, 0x85, 0x66, 0x99, 0xdd, 0xf1, 0xd5, 0xa7],
    [0xa4, 0x1f, 0xc5, 0x5a, 0xa1, 0xd9, 0x09, 0xbd, 0x62, 0x65, 0xa8, 0x12, 0xed, 0xcf, 0xf8, 0xe2],
    [0x26, 0x8d, 0xfe, 0xb6, 0x2c, 0xf5, 0x9a, 0xaa, 0x23, 0x7e, 0xc2, 0xd1, 0x20, 0x63, 0x95, 0x9e],
    [0xa9, 0x38, 0x0a, 0xf6, 0x24, 0x29, 0x19, 0xec, 0x25, 0x9b, 0x89, 0xe7, 0x4d, 0xac, 0x35, 0x27],
    [0x42, 0xd0, 0xde, 0x54, 0x30, 0xbe, 0x4e, 0xa0, 0xea, 0x7a, 0x82, 0xf2, 0xb4, 0x90, 0x43, 0x7b],
    [0x76, 0x6e, 0x56, 0x4a, 0xfc, 0x9f, 0xcb, 0xdb, 0x71, 0x60, 0x33, 0x78, 0xa2, 0xbb, 0xab, 0x81],
    [0x57, 0x3c, 0xd7, 0x61, 0xaf, 0xe3, 0x0f, 0x3b, 0x28, 0x44, 0x91, 0x49, 0x3d, 0x98, 0x3e, 0x8c],
    [0x6d, 0x18, 0x70, 0xda, 0x06, 0x5f, 0xf4, 0xe0, 0xd8, 0xe6, 0xfd, 0xbc, 0xd2, 0x7c, 0xeb, 0x5e],
    [0x67, 0x37, 0xb7, 0x1c, 0xcc, 0xfa, 0x41, 0x69, 0xe8, 0xe9, 0xd4, 0xb1, 0x55, 0xc0, 0x92, 0xd6],
    [0x04, 0x52, 0x8a, 0xb0, 0xa3, 0x13, 0x8b, 0xc1, 0xce, 0x11, 0xdf, 0xc4, 0x48, 0xf9, 0x53, 0x3a],
    [0x6b, 0x1d, 0xc6, 0x86, 0x96, 0xd3, 0x0c, 0x88, 0x1a, 0x9d, 0xcd, 0xee, 0x47, 0xbf, 0x75, 0xa5],
    [0x58, 0x22, 0x0d, 0x31, 0x00, 0xf0, 0x51, 0x9c, 0x45, 0x32, 0x4f, 0xc7, 0x5b, 0x2a, 0x07, 0x73],
    [0x15, 0x8e, 0xfb, 0x39, 0x17, 0xe1, 0x21, 0xae, 0x7f, 0x36, 0x34, 0x97, 0x79, 0xca, 0xa6, 0x01],
    [0x8f, 0x59, 0x77, 0x46, 0x2b, 0x6c, 0x93, 0x3f, 0xb9, 0x5c, 0xc3, 0x0b, 0xc9, 0xba, 0xef, 0xb5]]"

definition TABLE_S4_138 :: "bytes" where
  "TABLE_S4_138 = concat [
    [0xf8, 0xd5, 0x2c, 0xc7, 0xe3, 0x05, 0x5f, 0xab, 0x86, 0xa0, 0x2f, 0xe8, 0xa6, 0x57, 0xaa, 0x3c],
    [0x60, 0xc2, 0x1b, 0x85, 0xcc, 0x74, 0x4d, 0xc0, 0xda, 0xf5, 0x1a, 0xbc, 0x28, 0x4c, 0xad, 0xb3],
    [0xba, 0x00, 0xcd, 0xca, 0x4a, 0x50, 0x67, 0x45, 0xf2, 0x6d, 0xb7, 0x0c, 0x15, 0xa1, 0x71, 0x09],
    [0x31, 0xce, 0x2d, 0x10, 0x0f, 0x7d, 0x59, 0x75, 0xdc, 0x87, 0xe4, 0x5b, 0xbe, 0xb8, 0x2b, 0xb6],
    [0x4f, 0x21, 0x33, 0x8d, 0x8f, 0x9d, 0x04, 0xe5, 0x5e, 0xa2, 0x90, 0x01, 0x44, 0xb1, 0x81, 0x8c],
    [0x79, 0x6a, 0xd6, 0x8b, 0x36, 0x3d, 0xcb, 0x88, 0x1e, 0x56, 0x25, 0x8e, 0x02, 0x32, 0x5d, 0x84],
    [0xd0, 0x9b, 0xc8, 0xd9, 0x29, 0x03, 0x13, 0x0a, 0xe2, 0xfe, 0xc6, 0xde, 0x73, 0x63, 0x37, 0x54],
    [0x5a, 0x2a, 0xd2, 0x42, 0xd3, 0xeb, 0x38, 0x1c, 0xfc, 0x76, 0x78, 0xea, 0x08, 0xe6, 0x16, 0x98],
    [0x14, 0x55, 0x4e, 0x70, 0xf6, 0x43, 0xd4, 0x7a, 0x72, 0xd8, 0xb0, 0xc5, 0x48, 0x5c, 0xf7, 0xae],
    [0xe1, 0x39, 0xec, 0x80, 0x24, 0x96, 0x30, 0x95, 0xc9, 0x7f, 0x94, 0xff, 0x93, 0xa7, 0x4b, 0x07],
    [0x6c, 0x77, 0xb9, 0x66, 0x92, 0xfb, 0x51, 0xe0, 0x18, 0x22, 0xfa, 0xac, 0x69, 0x23, 0xbb, 0x0b],
    [0x19, 0x7c, 0x41, 0x40, 0x7e, 0x3a, 0x68, 0xfd, 0xb4, 0x1f, 0x9f, 0xcf, 0xc1, 0xe9, 0x52, 0x64],
    [0x6f, 0xe7, 0x9a, 0xed, 0xdb, 0xaf, 0x82, 0xf3, 0x99, 0xa5, 0x8a, 0xf0, 0x34, 0xf9, 0x58, 0xa8],
    [0x46, 0x65, 0x35, 0xb2, 0x0d, 0xdd, 0x17, 0xef, 0x2e, 0x6e, 0xb5, 0xc3, 0x20, 0xa4, 0x7b, 0x3e],
    [0xa3, 0x6b, 0xf4, 0x11, 0x1d, 0x47, 0x12, 0x61, 0xee, 0xdf, 0xf1, 0x27, 0x97, 0x3b, 0xc4, 0x83],
    [0x3f, 0x9c, 0x9e, 0xd7, 0xa9, 0x0e, 0x62, 0xd1, 0x91, 0x53, 0x26, 0xbd, 0x06, 0x89, 0x49, 0xbf]]"

definition TABLE_S4_139 :: "bytes" where
  "TABLE_S4_139 = concat [
    [0x32, 0x34, 0x3c, 0xa1, 0x0d, 0x56, 0xd1, 0x6e, 0xf7, 0x85, 0xff, 0xd3, 0x44, 0xbb, 0x9a, 0xa7],
    [0x2b, 0x9f, 0x83, 0xfb, 0xe7, 0x78, 0x86, 0x3d, 0xda, 0xc0, 0xcf, 0xed, 0x8a, 0x30, 0x40, 0x47],
    [0xc6, 0xa2, 0x39, 0x27, 0x7f, 0x50, 0x36, 0x90, 0xfe, 0x46, 0x4a, 0xc7, 0x48, 0xea, 0x0f, 0x91],
    [0xdd, 0x2c, 0xb6, 0x20, 0x2a, 0x0c, 0x62, 0xa5, 0x8f, 0x69, 0x21, 0xd5, 0x5f, 0x72, 0x4d, 0xa6],
    [0x6c, 0x82, 0x12, 0x9c, 0xfc, 0x76, 0x60, 0xf2, 0x61, 0x59, 0x96, 0xb2, 0xa0, 0xd0, 0xc8, 0x58],
    [0xe9, 0xf9, 0xde, 0xbd, 0x74, 0x68, 0x54, 0x4c, 0x89, 0xa3, 0x80, 0x99, 0x11, 0x5a, 0x53, 0x42],
    [0xb8, 0x88, 0x0e, 0xd7, 0xdc, 0x94, 0x04, 0xaf, 0xb7, 0xbc, 0x02, 0x41, 0xe0, 0xf3, 0x01, 0x5c],
    [0x3b, 0xce, 0x06, 0x0b, 0x28, 0xd4, 0x8b, 0x1a, 0x17, 0x05, 0x6f, 0x8e, 0xab, 0xc5, 0x07, 0xb9],
    [0x63, 0x4b, 0xee, 0xd8, 0x95, 0x3e, 0x45, 0x15, 0xb0, 0xf4, 0x77, 0xe2, 0xf6, 0x93, 0xca, 0xcb],
    [0xa9, 0xe3, 0x81, 0x31, 0xa8, 0x92, 0x26, 0x70, 0x71, 0x18, 0x6a, 0xdb, 0xfd, 0xe6, 0xec, 0x33],
    [0x2d, 0x19, 0x8d, 0xc1, 0xf5, 0x43, 0x75, 0x1e, 0x1c, 0xae, 0x1f, 0xba, 0xb3, 0x6b, 0x0a, 0x66],
    [0xd6, 0xc2, 0x24, 0x7d, 0x52, 0xf8, 0x4f, 0x3a, 0xc9, 0x7c, 0xf0, 0x5e, 0xdf, 0x9e, 0xfa, 0xc4],
    [0x03, 0x8c, 0x35, 0xc3, 0xd9, 0x1b, 0x37, 0xac, 0x84, 0x23, 0x5b, 0xe8, 0x16, 0xb5, 0x5d, 0x14],
    [0xb1, 0x1d, 0x09, 0x4e, 0x55, 0x64, 0xad, 0x7b, 0xcd, 0x97, 0xeb, 0x98, 0xe1, 0x29, 0x9b, 0x7e],
    [0x2e, 0xaa, 0xb4, 0xf1, 0xe4, 0xa4, 0x49, 0x3f, 0x57, 0x87, 0x65, 0x9d, 0xef, 0xcc, 0x38, 0xbf],
    [0x73, 0xbe, 0x22, 0xd2, 0x2f, 0x13, 0x7a, 0x00, 0x25, 0x51, 0x79, 0x08, 0x6d, 0xe5, 0x67, 0x10]]"

definition TABLE_S4_140 :: "bytes" where
  "TABLE_S4_140 = concat [
    [0xae, 0x69, 0xe6, 0xc0, 0x7a, 0xec, 0x11, 0xe0, 0x81, 0x6a, 0x93, 0xbe, 0xed, 0x19, 0x43, 0xa5],
    [0xfa, 0x5c, 0xb3, 0x9c, 0xf5, 0xeb, 0x0a, 0x6e, 0xc3, 0x5d, 0x84, 0x26, 0x86, 0x0b, 0x32, 0x8a],
    [0x4a, 0xf1, 0x2b, 0xb4, 0x4f, 0x37, 0xe7, 0x53, 0x8c, 0x8b, 0x46, 0xfc, 0x03, 0x21, 0x16, 0x0c],
    [0x1d, 0xa2, 0xc1, 0x9a, 0xf0, 0x6d, 0xfe, 0xf8, 0x56, 0x6b, 0x88, 0x77, 0x33, 0x1f, 0x3b, 0x49],
    [0x47, 0xd6, 0xe4, 0x18, 0xca, 0xc7, 0xf7, 0x02, 0xcb, 0x75, 0x67, 0x09, 0xa3, 0x42, 0xdb, 0xc9],
    [0xc8, 0x63, 0x10, 0x58, 0xc2, 0x1b, 0x74, 0x44, 0xcd, 0x90, 0x2c, 0x3f, 0xce, 0x8d, 0x7b, 0x70],
    [0x98, 0x80, 0xb8, 0xa4, 0x12, 0x71, 0x25, 0x35, 0x9f, 0x8e, 0xdd, 0x96, 0x4c, 0x55, 0x45, 0x6f],
    [0xac, 0x3e, 0x30, 0xba, 0xde, 0x50, 0xa0, 0x4e, 0x04, 0x94, 0x6c, 0x1c, 0x5a, 0x7e, 0xad, 0x95],
    [0x83, 0xf6, 0x9e, 0x34, 0xe8, 0xb1, 0x1a, 0x0e, 0x36, 0x08, 0x13, 0x52, 0x3c, 0x92, 0x05, 0xb0],
    [0xb9, 0xd2, 0x39, 0x8f, 0x41, 0x0d, 0xe1, 0xd5, 0xc6, 0xaa, 0x7f, 0xa7, 0xd3, 0x76, 0xd0, 0x62],
    [0xea, 0xbc, 0x64, 0x5e, 0x4d, 0xfd, 0x65, 0x2f, 0x20, 0xff, 0x31, 0x2a, 0xa6, 0x17, 0xbd, 0xd4],
    [0x89, 0xd9, 0x59, 0xf2, 0x22, 0x14, 0xaf, 0x87, 0x06, 0x07, 0x3a, 0x5f, 0xbb, 0x2e, 0x7c, 0x38],
    [0xb6, 0xcc, 0xe3, 0xdf, 0xee, 0x1e, 0xbf, 0x72, 0xab, 0xdc, 0xa1, 0x29, 0xb5, 0xc4, 0xe9, 0x9d],
    [0x85, 0xf3, 0x28, 0x68, 0x78, 0x3d, 0xe2, 0x66, 0xf4, 0x73, 0x23, 0x00, 0xa9, 0x51, 0x9b, 0x4b],
    [0x61, 0xb7, 0x99, 0xa8, 0xc5, 0x82, 0x7d, 0xd1, 0x57, 0xb2, 0x2d, 0xe5, 0x27, 0x54, 0x01, 0x5b],
    [0xfb, 0x60, 0x15, 0xd7, 0xf9, 0x0f, 0xcf, 0x40, 0x91, 0xd8, 0xda, 0x79, 0x97, 0x24, 0x48, 0xef]]"

definition TABLE_S4_141 :: "bytes" where
  "TABLE_S4_141 = concat [
    [0x8c, 0x2a, 0xc5, 0xea, 0x83, 0x9d, 0x7c, 0x18, 0xb5, 0x2b, 0xf2, 0x50, 0xf0, 0x7d, 0x44, 0xfc],
    [0xd8, 0x1f, 0x90, 0xb6, 0x0c, 0x9a, 0x67, 0x96, 0xf7, 0x1c, 0xe5, 0xc8, 0x9b, 0x6f, 0x35, 0xd3],
    [0x6b, 0xd4, 0xb7, 0xec, 0x86, 0x1b, 0x88, 0x8e, 0x20, 0x1d, 0xfe, 0x01, 0x45, 0x69, 0x4d, 0x3f],
    [0x3c, 0x87, 0x5d, 0xc2, 0x39, 0x41, 0x91, 0x25, 0xfa, 0xfd, 0x30, 0x8a, 0x75, 0x57, 0x60, 0x7a],
    [0xbe, 0x15, 0x66, 0x2e, 0xb4, 0x6d, 0x02, 0x32, 0xbb, 0xe6, 0x5a, 0x49, 0xb8, 0xfb, 0x0d, 0x06],
    [0x31, 0xa0, 0x92, 0x6e, 0xbc, 0xb1, 0x81, 0x74, 0xbd, 0x03, 0x11, 0x7f, 0xd5, 0x34, 0xad, 0xbf],
    [0xda, 0x48, 0x46, 0xcc, 0xa8, 0x26, 0xd6, 0x38, 0x72, 0xe2, 0x1a, 0x6a, 0x2c, 0x08, 0xdb, 0xe3],
    [0xee, 0xf6, 0xce, 0xd2, 0x64, 0x07, 0x53, 0x43, 0xe9, 0xf8, 0xab, 0xe0, 0x3a, 0x23, 0x33, 0x19],
    [0xcf, 0xa4, 0x4f, 0xf9, 0x37, 0x7b, 0x97, 0xa3, 0xb0, 0xdc, 0x09, 0xd1, 0xa5, 0x00, 0xa6, 0x14],
    [0xf5, 0x80, 0xe8, 0x42, 0x9e, 0xc7, 0x6c, 0x78, 0x40, 0x7e, 0x65, 0x24, 0x4a, 0xe4, 0x73, 0xc6],
    [0xff, 0xaf, 0x2f, 0x84, 0x54, 0x62, 0xd9, 0xf1, 0x70, 0x71, 0x4c, 0x29, 0xcd, 0x58, 0x0a, 0x4e],
    [0x9c, 0xca, 0x12, 0x28, 0x3b, 0x8b, 0x13, 0x59, 0x56, 0x89, 0x47, 0x5c, 0xd0, 0x61, 0xcb, 0xa2],
    [0xf3, 0x85, 0x5e, 0x1e, 0x0e, 0x4b, 0x94, 0x10, 0x82, 0x05, 0x55, 0x76, 0xdf, 0x27, 0xed, 0x3d],
    [0xc0, 0xba, 0x95, 0xa9, 0x98, 0x68, 0xc9, 0x04, 0xdd, 0xaa, 0xd7, 0x5f, 0xc3, 0xb2, 0x9f, 0xeb],
    [0x8d, 0x16, 0x63, 0xa1, 0x8f, 0x79, 0xb9, 0x36, 0xe7, 0xae, 0xac, 0x0f, 0xe1, 0x52, 0x3e, 0x99],
    [0x17, 0xc1, 0xef, 0xde, 0xb3, 0xf4, 0x0b, 0xa7, 0x21, 0xc4, 0x5b, 0x93, 0x51, 0x22, 0x77, 0x2d]]"

definition TABLE_S4_142 :: "bytes" where
  "TABLE_S4_142 = concat [
    [0x58, 0x75, 0x8c, 0x67, 0x43, 0xa5, 0xff, 0x0b, 0x26, 0x00, 0x8f, 0x48, 0x06, 0xf7, 0x0a, 0x9c],
    [0xc0, 0x62, 0xbb, 0x25, 0x6c, 0xd4, 0xed, 0x60, 0x7a, 0x55, 0xba, 0x1c, 0x88, 0xec, 0x0d, 0x13],
    [0x1a, 0xa0, 0x6d, 0x6a, 0xea, 0xf0, 0xc7, 0xe5, 0x52, 0xcd, 0x17, 0xac, 0xb5, 0x01, 0xd1, 0xa9],
    [0x91, 0x6e, 0x8d, 0xb0, 0xaf, 0xdd, 0xf9, 0xd5, 0x7c, 0x27, 0x44, 0xfb, 0x1e, 0x18, 0x8b, 0x16],
    [0xef, 0x81, 0x93, 0x2d, 0x2f, 0x3d, 0xa4, 0x45, 0xfe, 0x02, 0x30, 0xa1, 0xe4, 0x11, 0x21, 0x2c],
    [0xd9, 0xca, 0x76, 0x2b, 0x96, 0x9d, 0x6b, 0x28, 0xbe, 0xf6, 0x85, 0x2e, 0xa2, 0x92, 0xfd, 0x24],
    [0x70, 0x3b, 0x68, 0x79, 0x89, 0xa3, 0xb3, 0xaa, 0x42, 0x5e, 0x66, 0x7e, 0xd3, 0xc3, 0x97, 0xf4],
    [0xfa, 0x8a, 0x72, 0xe2, 0x73, 0x4b, 0x98, 0xbc, 0x5c, 0xd6, 0xd8, 0x4a, 0xa8, 0x46, 0xb6, 0x38],
    [0xb4, 0xf5, 0xee, 0xd0, 0x56, 0xe3, 0x74, 0xda, 0xd2, 0x78, 0x10, 0x65, 0xe8, 0xfc, 0x57, 0x0e],
    [0x41, 0x99, 0x4c, 0x20, 0x84, 0x36, 0x90, 0x35, 0x69, 0xdf, 0x34, 0x5f, 0x33, 0x07, 0xeb, 0xa7],
    [0xcc, 0xd7, 0x19, 0xc6, 0x32, 0x5b, 0xf1, 0x40, 0xb8, 0x82, 0x5a, 0x0c, 0xc9, 0x83, 0x1b, 0xab],
    [0xb9, 0xdc, 0xe1, 0xe0, 0xde, 0x9a, 0xc8, 0x5d, 0x14, 0xbf, 0x3f, 0x6f, 0x61, 0x49, 0xf2, 0xc4],
    [0xcf, 0x47, 0x3a, 0x4d, 0x7b, 0x0f, 0x22, 0x53, 0x39, 0x05, 0x2a, 0x50, 0x94, 0x59, 0xf8, 0x08],
    [0xe6, 0xc5, 0x95, 0x12, 0xad, 0x7d, 0xb7, 0x4f, 0x8e, 0xce, 0x15, 0x63, 0x80, 0x04, 0xdb, 0x9e],
    [0x03, 0xcb, 0x54, 0xb1, 0xbd, 0xe7, 0xb2, 0xc1, 0x4e, 0x7f, 0x51, 0x87, 0x37, 0x9b, 0x64, 0x23],
    [0x9f, 0x3c, 0x3e, 0x77, 0x09, 0xae, 0xc2, 0x71, 0x31, 0xf3, 0x86, 0x1d, 0xa6, 0x29, 0xe9, 0x1f]]"

definition TABLE_S4_143 :: "bytes" where
  "TABLE_S4_143 = concat [
    [0x0f, 0x09, 0x01, 0x9c, 0x30, 0x6b, 0xec, 0x53, 0xca, 0xb8, 0xc2, 0xee, 0x79, 0x86, 0xa7, 0x9a],
    [0x16, 0xa2, 0xbe, 0xc6, 0xda, 0x45, 0xbb, 0x00, 0xe7, 0xfd, 0xf2, 0xd0, 0xb7, 0x0d, 0x7d, 0x7a],
    [0xfb, 0x9f, 0x04, 0x1a, 0x42, 0x6d, 0x0b, 0xad, 0xc3, 0x7b, 0x77, 0xfa, 0x75, 0xd7, 0x32, 0xac],
    [0xe0, 0x11, 0x8b, 0x1d, 0x17, 0x31, 0x5f, 0x98, 0xb2, 0x54, 0x1c, 0xe8, 0x62, 0x4f, 0x70, 0x9b],
    [0x51, 0xbf, 0x2f, 0xa1, 0xc1, 0x4b, 0x5d, 0xcf, 0x5c, 0x64, 0xab, 0x8f, 0x9d, 0xed, 0xf5, 0x65],
    [0xd4, 0xc4, 0xe3, 0x80, 0x49, 0x55, 0x69, 0x71, 0xb4, 0x9e, 0xbd, 0xa4, 0x2c, 0x67, 0x6e, 0x7f],
    [0x85, 0xb5, 0x33, 0xea, 0xe1, 0xa9, 0x39, 0x92, 0x8a, 0x81, 0x3f, 0x7c, 0xdd, 0xce, 0x3c, 0x61],
    [0x06, 0xf3, 0x3b, 0x36, 0x15, 0xe9, 0xb6, 0x27, 0x2a, 0x38, 0x52, 0xb3, 0x96, 0xf8, 0x3a, 0x84],
    [0x5e, 0x76, 0xd3, 0xe5, 0xa8, 0x03, 0x78, 0x28, 0x8d, 0xc9, 0x4a, 0xdf, 0xcb, 0xae, 0xf7, 0xf6],
    [0x94, 0xde, 0xbc, 0x0c, 0x95, 0xaf, 0x1b, 0x4d, 0x4c, 0x25, 0x57, 0xe6, 0xc0, 0xdb, 0xd1, 0x0e],
    [0x10, 0x24, 0xb0, 0xfc, 0xc8, 0x7e, 0x48, 0x23, 0x21, 0x93, 0x22, 0x87, 0x8e, 0x56, 0x37, 0x5b],
    [0xeb, 0xff, 0x19, 0x40, 0x6f, 0xc5, 0x72, 0x07, 0xf4, 0x41, 0xcd, 0x63, 0xe2, 0xa3, 0xc7, 0xf9],
    [0x3e, 0xb1, 0x08, 0xfe, 0xe4, 0x26, 0x0a, 0x91, 0xb9, 0x1e, 0x66, 0xd5, 0x2b, 0x88, 0x60, 0x29],
    [0x8c, 0x20, 0x34, 0x73, 0x68, 0x59, 0x90, 0x46, 0xf0, 0xaa, 0xd6, 0xa5, 0xdc, 0x14, 0xa6, 0x43],
    [0x13, 0x97, 0x89, 0xcc, 0xd9, 0x99, 0x74, 0x02, 0x6a, 0xba, 0x58, 0xa0, 0xd2, 0xf1, 0x05, 0x82],
    [0x4e, 0x83, 0x1f, 0xef, 0x12, 0x2e, 0x47, 0x3d, 0x18, 0x6c, 0x44, 0x35, 0x50, 0xd8, 0x5a, 0x2d]]"

definition TABLE_S4_rows :: "bytes list" where
  "TABLE_S4_rows = [
    TABLE_S4_0, TABLE_S4_1, TABLE_S4_2, TABLE_S4_3, TABLE_S4_4, TABLE_S4_5, TABLE_S4_6, TABLE_S4_7,
    TABLE_S4_8, TABLE_S4_9, TABLE_S4_10, TABLE_S4_11, TABLE_S4_12, TABLE_S4_13, TABLE_S4_14,
    TABLE_S4_15, TABLE_S4_16, TABLE_S4_17, TABLE_S4_18, TABLE_S4_19, TABLE_S4_20, TABLE_S4_21,
    TABLE_S4_22, TABLE_S4_23, TABLE_S4_24, TABLE_S4_25, TABLE_S4_26, TABLE_S4_27, TABLE_S4_28,
    TABLE_S4_29, TABLE_S4_30, TABLE_S4_31, TABLE_S4_32, TABLE_S4_33, TABLE_S4_34, TABLE_S4_35,
    TABLE_S4_36, TABLE_S4_37, TABLE_S4_38, TABLE_S4_39, TABLE_S4_40, TABLE_S4_41, TABLE_S4_42,
    TABLE_S4_43, TABLE_S4_44, TABLE_S4_45, TABLE_S4_46, TABLE_S4_47, TABLE_S4_48, TABLE_S4_49,
    TABLE_S4_50, TABLE_S4_51, TABLE_S4_52, TABLE_S4_53, TABLE_S4_54, TABLE_S4_55, TABLE_S4_56,
    TABLE_S4_57, TABLE_S4_58, TABLE_S4_59, TABLE_S4_60, TABLE_S4_61, TABLE_S4_62, TABLE_S4_63,
    TABLE_S4_64, TABLE_S4_65, TABLE_S4_66, TABLE_S4_67, TABLE_S4_68, TABLE_S4_69, TABLE_S4_70,
    TABLE_S4_71, TABLE_S4_72, TABLE_S4_73, TABLE_S4_74, TABLE_S4_75, TABLE_S4_76, TABLE_S4_77,
    TABLE_S4_78, TABLE_S4_79, TABLE_S4_80, TABLE_S4_81, TABLE_S4_82, TABLE_S4_83, TABLE_S4_84,
    TABLE_S4_85, TABLE_S4_86, TABLE_S4_87, TABLE_S4_88, TABLE_S4_89, TABLE_S4_90, TABLE_S4_91,
    TABLE_S4_92, TABLE_S4_93, TABLE_S4_94, TABLE_S4_95, TABLE_S4_96, TABLE_S4_97, TABLE_S4_98,
    TABLE_S4_99, TABLE_S4_100, TABLE_S4_101, TABLE_S4_102, TABLE_S4_103, TABLE_S4_104,
    TABLE_S4_105, TABLE_S4_106, TABLE_S4_107, TABLE_S4_108, TABLE_S4_109, TABLE_S4_110,
    TABLE_S4_111, TABLE_S4_112, TABLE_S4_113, TABLE_S4_114, TABLE_S4_115, TABLE_S4_116,
    TABLE_S4_117, TABLE_S4_118, TABLE_S4_119, TABLE_S4_120, TABLE_S4_121, TABLE_S4_122,
    TABLE_S4_123, TABLE_S4_124, TABLE_S4_125, TABLE_S4_126, TABLE_S4_127, TABLE_S4_128,
    TABLE_S4_129, TABLE_S4_130, TABLE_S4_131, TABLE_S4_132, TABLE_S4_133, TABLE_S4_134,
    TABLE_S4_135, TABLE_S4_136, TABLE_S4_137, TABLE_S4_138, TABLE_S4_139, TABLE_S4_140,
    TABLE_S4_141, TABLE_S4_142, TABLE_S4_143]"

definition TABLE_S4 :: "bytes" where
  "TABLE_S4 = concat TABLE_S4_rows"

definition TABLE_S5 :: "u32 list" where
  "TABLE_S5 = concat [
    [0x21aa8423, 0x2fa1892a, 0x3dbc9e31, 0x33b79338, 0x1986b007, 0x178dbd0e, 0x0590aa15, 0x0b9ba71c],
    [0x51f2ec6b, 0x5ff9e162, 0x4de4f679, 0x43effb70, 0x69ded84f, 0x67d5d546, 0x75c8c25d, 0x7bc3cf54],
    [0xc11a54b3, 0xcf1159ba, 0xdd0c4ea1, 0xd30743a8, 0xf9366097, 0xf73d6d9e, 0xe5207a85, 0xeb2b778c],
    [0xb1423cfb, 0xbf4931f2, 0xad5426e9, 0xa35f2be0, 0x896e08df, 0x876505d6, 0x957812cd, 0x9b731fc4],
    [0xfad13f18, 0xf4da3211, 0xe6c7250a, 0xe8cc2803, 0xc2fd0b3c, 0xccf60635, 0xdeeb112e, 0xd0e01c27],
    [0x8a895750, 0x84825a59, 0x969f4d42, 0x9894404b, 0xb2a56374, 0xbcae6e7d, 0xaeb37966, 0xa0b8746f],
    [0x1a61ef88, 0x146ae281, 0x0677f59a, 0x087cf893, 0x224ddbac, 0x2c46d6a5, 0x3e5bc1be, 0x3050ccb7],
    [0x6a3987c0, 0x64328ac9, 0x762f9dd2, 0x782490db, 0x5215b3e4, 0x5c1ebeed, 0x4e03a9f6, 0x4008a4ff],
    [0x8c5ce955, 0x8257e45c, 0x904af347, 0x9e41fe4e, 0xb470dd71, 0xba7bd078, 0xa866c763, 0xa66dca6a],
    [0xfc04811d, 0xf20f8c14, 0xe0129b0f, 0xee199606, 0xc428b539, 0xca23b830, 0xd83eaf2b, 0xd635a222],
    [0x6cec39c5, 0x62e734cc, 0x70fa23d7, 0x7ef12ede, 0x54c00de1, 0x5acb00e8, 0x48d617f3, 0x46dd1afa],
    [0x1cb4518d, 0x12bf5c84, 0x00a24b9f, 0x0ea94696, 0x249865a9, 0x2a9368a0, 0x388e7fbb, 0x368572b2],
    [0x5727526e, 0x592c5f67, 0x4b31487c, 0x453a4575, 0x6f0b664a, 0x61006b43, 0x731d7c58, 0x7d167151],
    [0x277f3a26, 0x2974372f, 0x3b692034, 0x35622d3d, 0x1f530e02, 0x1158030b, 0x03451410, 0x0d4e1919],
    [0xb79782fe, 0xb99c8ff7, 0xab8198ec, 0xa58a95e5, 0x8fbbb6da, 0x81b0bbd3, 0x93adacc8, 0x9da6a1c1],
    [0xc7cfeab6, 0xc9c4e7bf, 0xdbd9f0a4, 0xd5d2fdad, 0xffe3de92, 0xf1e8d39b, 0xe3f5c480, 0xedfec989],
    [0x605d5ecf, 0x6e5653c6, 0x7c4b44dd, 0x724049d4, 0x58716aeb, 0x567a67e2, 0x446770f9, 0x4a6c7df0],
    [0x10053687, 0x1e0e3b8e, 0x0c132c95, 0x0218219c, 0x282902a3, 0x26220faa, 0x343f18b1, 0x3a3415b8],
    [0x80ed8e5f, 0x8ee68356, 0x9cfb944d, 0x92f09944, 0xb8c1ba7b, 0xb6cab772, 0xa4d7a069, 0xaadcad60],
    [0xf0b5e617, 0xfebeeb1e, 0xeca3fc05, 0xe2a8f10c, 0xc899d233, 0xc692df3a, 0xd48fc821, 0xda84c528],
    [0xbb26e5f4, 0xb52de8fd, 0xa730ffe6, 0xa93bf2ef, 0x830ad1d0, 0x8d01dcd9, 0x9f1ccbc2, 0x9117c6cb],
    [0xcb7e8dbc, 0xc57580b5, 0xd76897ae, 0xd9639aa7, 0xf352b998, 0xfd59b491, 0xef44a38a, 0xe14fae83],
    [0x5b963564, 0x559d386d, 0x47802f76, 0x498b227f, 0x63ba0140, 0x6db10c49, 0x7fac1b52, 0x71a7165b],
    [0x2bce5d2c, 0x25c55025, 0x37d8473e, 0x39d34a37, 0x13e26908, 0x1de96401, 0x0ff4731a, 0x01ff7e13],
    [0xcdab33b9, 0xc3a03eb0, 0xd1bd29ab, 0xdfb624a2, 0xf587079d, 0xfb8c0a94, 0xe9911d8f, 0xe79a1086],
    [0xbdf35bf1, 0xb3f856f8, 0xa1e541e3, 0xafee4cea, 0x85df6fd5, 0x8bd462dc, 0x99c975c7, 0x97c278ce],
    [0x2d1be329, 0x2310ee20, 0x310df93b, 0x3f06f432, 0x1537d70d, 0x1b3cda04, 0x0921cd1f, 0x072ac016],
    [0x5d438b61, 0x53488668, 0x41559173, 0x4f5e9c7a, 0x656fbf45, 0x6b64b24c, 0x7979a557, 0x7772a85e],
    [0x16d08882, 0x18db858b, 0x0ac69290, 0x04cd9f99, 0x2efcbca6, 0x20f7b1af, 0x32eaa6b4, 0x3ce1abbd],
    [0x6688e0ca, 0x6883edc3, 0x7a9efad8, 0x7495f7d1, 0x5ea4d4ee, 0x50afd9e7, 0x42b2cefc, 0x4cb9c3f5],
    [0xf6605812, 0xf86b551b, 0xea764200, 0xe47d4f09, 0xce4c6c36, 0xc047613f, 0xd25a7624, 0xdc517b2d],
    [0x8638305a, 0x88333d53, 0x9a2e2a48, 0x94252741, 0xbe14047e, 0xb01f0977, 0xa2021e6c, 0xac091365]]"

definition TABLE_S6 :: "u32 list" where
  "TABLE_S6 = concat [
    [0x05ee7493, 0x0ce07f9e, 0x17f26289, 0x1efc6984, 0x21d658a7, 0x28d853aa, 0x33ca4ebd, 0x3ac445b0],
    [0x4d9e2cfb, 0x449027f6, 0x5f823ae1, 0x568c31ec, 0x69a600cf, 0x60a80bc2, 0x7bba16d5, 0x72b41dd8],
    [0x950ec443, 0x9c00cf4e, 0x8712d259, 0x8e1cd954, 0xb136e877, 0xb838e37a, 0xa32afe6d, 0xaa24f560],
    [0xdd7e9c2b, 0xd4709726, 0xcf628a31, 0xc66c813c, 0xf946b01f, 0xf048bb12, 0xeb5aa605, 0xe254ad08],
    [0x3e350f28, 0x373b0425, 0x2c291932, 0x2527123f, 0x1a0d231c, 0x13032811, 0x08113506, 0x011f3e0b],
    [0x76455740, 0x7f4b5c4d, 0x6459415a, 0x6d574a57, 0x527d7b74, 0x5b737079, 0x40616d6e, 0x496f6663],
    [0xaed5bff8, 0xa7dbb4f5, 0xbcc9a9e2, 0xb5c7a2ef, 0x8aed93cc, 0x83e398c1, 0x98f185d6, 0x91ff8edb],
    [0xe6a5e790, 0xefabec9d, 0xf4b9f18a, 0xfdb7fa87, 0xc29dcba4, 0xcb93c0a9, 0xd081ddbe, 0xd98fd6b3],
    [0x734382fe, 0x7a4d89f3, 0x615f94e4, 0x68519fe9, 0x577baeca, 0x5e75a5c7, 0x4567b8d0, 0x4c69b3dd],
    [0x3b33da96, 0x323dd19b, 0x292fcc8c, 0x2021c781, 0x1f0bf6a2, 0x1605fdaf, 0x0d17e0b8, 0x0419ebb5],
    [0xe3a3322e, 0xeaad3923, 0xf1bf2434, 0xf8b12f39, 0xc79b1e1a, 0xce951517, 0xd5870800, 0xdc89030d],
    [0xabd36a46, 0xa2dd614b, 0xb9cf7c5c, 0xb0c17751, 0x8feb4672, 0x86e54d7f, 0x9df75068, 0x94f95b65],
    [0x4898f945, 0x4196f248, 0x5a84ef5f, 0x538ae452, 0x6ca0d571, 0x65aede7c, 0x7ebcc36b, 0x77b2c866],
    [0x00e8a12d, 0x09e6aa20, 0x12f4b737, 0x1bfabc3a, 0x24d08d19, 0x2dde8614, 0x36cc9b03, 0x3fc2900e],
    [0xd8784995, 0xd1764298, 0xca645f8f, 0xc36a5482, 0xfc4065a1, 0xf54e6eac, 0xee5c73bb, 0xe75278b6],
    [0x900811fd, 0x99061af0, 0x821407e7, 0x8b1a0cea, 0xb4303dc9, 0xbd3e36c4, 0xa62c2bd3, 0xaf2220de],
    [0xe9af8349, 0xe0a18844, 0xfbb39553, 0xf2bd9e5e, 0xcd97af7d, 0xc499a470, 0xdf8bb967, 0xd685b26a],
    [0xa1dfdb21, 0xa8d1d02c, 0xb3c3cd3b, 0xbacdc636, 0x85e7f715, 0x8ce9fc18, 0x97fbe10f, 0x9ef5ea02],
    [0x794f3399, 0x70413894, 0x6b532583, 0x625d2e8e, 0x5d771fad, 0x547914a0, 0x4f6b09b7, 0x466502ba],
    [0x313f6bf1, 0x383160fc, 0x23237deb, 0x2a2d76e6, 0x150747c5, 0x1c094cc8, 0x071b51df, 0x0e155ad2],
    [0xd274f8f2, 0xdb7af3ff, 0xc068eee8, 0xc966e5e5, 0xf64cd4c6, 0xff42dfcb, 0xe450c2dc, 0xed5ec9d1],
    [0x9a04a09a, 0x930aab97, 0x8818b680, 0x8116bd8d, 0xbe3c8cae, 0xb73287a3, 0xac209ab4, 0xa52e91b9],
    [0x42944822, 0x4b9a432f, 0x50885e38, 0x59865535, 0x66ac6416, 0x6fa26f1b, 0x74b0720c, 0x7dbe7901],
    [0x0ae4104a, 0x03ea1b47, 0x18f80650, 0x11f60d5d, 0x2edc3c7e, 0x27d23773, 0x3cc02a64, 0x35ce2169],
    [0x9f027524, 0x960c7e29, 0x8d1e633e, 0x84106833, 0xbb3a5910, 0xb234521d, 0xa9264f0a, 0xa0284407],
    [0xd7722d4c, 0xde7c2641, 0xc56e3b56, 0xcc60305b, 0xf34a0178, 0xfa440a75, 0xe1561762, 0xe8581c6f],
    [0x0fe2c5f4, 0x06eccef9, 0x1dfed3ee, 0x14f0d8e3, 0x2bdae9c0, 0x22d4e2cd, 0x39c6ffda, 0x30c8f4d7],
    [0x47929d9c, 0x4e9c9691, 0x558e8b86, 0x5c80808b, 0x63aab1a8, 0x6aa4baa5, 0x71b6a7b2, 0x78b8acbf],
    [0xa4d90e9f, 0xadd70592, 0xb6c51885, 0xbfcb1388, 0x80e122ab, 0x89ef29a6, 0x92fd34b1, 0x9bf33fbc],
    [0xeca956f7, 0xe5a75dfa, 0xfeb540ed, 0xf7bb4be0, 0xc8917ac3, 0xc19f71ce, 0xda8d6cd9, 0xd38367d4],
    [0x3439be4f, 0x3d37b542, 0x2625a855, 0x2f2ba358, 0x1001927b, 0x190f9976, 0x021d8461, 0x0b138f6c],
    [0x7c49e627, 0x7547ed2a, 0x6e55f03d, 0x675bfb30, 0x5871ca13, 0x517fc11e, 0x4a6ddc09, 0x4363d704]]"

definition TABLE_S7 :: "u32 list" where
  "TABLE_S7 = concat [
    [0xb33a6e73, 0xbe336078, 0xa9287265, 0xa4217c6e, 0x871e565f, 0x8a175854, 0x9d0c4a49, 0x90054442],
    [0xdb721e2b, 0xd67b1020, 0xc160023d, 0xcc690c36, 0xef562607, 0xe25f280c, 0xf5443a11, 0xf84d341a],
    [0x63aa8ec3, 0x6ea380c8, 0x79b892d5, 0x74b19cde, 0x578eb6ef, 0x5a87b8e4, 0x4d9caaf9, 0x4095a4f2],
    [0x0be2fe9b, 0x06ebf090, 0x11f0e28d, 0x1cf9ec86, 0x3fc6c6b7, 0x32cfc8bc, 0x25d4daa1, 0x28ddd4aa],
    [0x0801b508, 0x0508bb03, 0x1213a91e, 0x1f1aa715, 0x3c258d24, 0x312c832f, 0x26379132, 0x2b3e9f39],
    [0x6049c550, 0x6d40cb5b, 0x7a5bd946, 0x7752d74d, 0x546dfd7c, 0x5964f377, 0x4e7fe16a, 0x4376ef61],
    [0xd89155b8, 0xd5985bb3, 0xc28349ae, 0xcf8a47a5, 0xecb56d94, 0xe1bc639f, 0xf6a77182, 0xfbae7f89],
    [0xb0d925e0, 0xbdd02beb, 0xaacb39f6, 0xa7c237fd, 0x84fd1dcc, 0x89f413c7, 0x9eef01da, 0x93e60fd1],
    [0xde4cc385, 0xd345cd8e, 0xc45edf93, 0xc957d198, 0xea68fba9, 0xe761f5a2, 0xf07ae7bf, 0xfd73e9b4],
    [0xb604b3dd, 0xbb0dbdd6, 0xac16afcb, 0xa11fa1c0, 0x82208bf1, 0x8f2985fa, 0x983297e7, 0x953b99ec],
    [0x0edc2335, 0x03d52d3e, 0x14ce3f23, 0x19c73128, 0x3af81b19, 0x37f11512, 0x20ea070f, 0x2de30904],
    [0x6694536d, 0x6b9d5d66, 0x7c864f7b, 0x718f4170, 0x52b06b41, 0x5fb9654a, 0x48a27757, 0x45ab795c],
    [0x657718fe, 0x687e16f5, 0x7f6504e8, 0x726c0ae3, 0x515320d2, 0x5c5a2ed9, 0x4b413cc4, 0x464832cf],
    [0x0d3f68a6, 0x003666ad, 0x172d74b0, 0x1a247abb, 0x391b508a, 0x34125e81, 0x23094c9c, 0x2e004297],
    [0xb5e7f84e, 0xb8eef645, 0xaff5e458, 0xa2fcea53, 0x81c3c062, 0x8ccace69, 0x9bd1dc74, 0x96d8d27f],
    [0xddaf8816, 0xd0a6861d, 0xc7bd9400, 0xcab49a0b, 0xe98bb03a, 0xe482be31, 0xf399ac2c, 0xfe90a227],
    [0x69d62f84, 0x64df218f, 0x73c43392, 0x7ecd3d99, 0x5df217a8, 0x50fb19a3, 0x47e00bbe, 0x4ae905b5],
    [0x019e5fdc, 0x0c9751d7, 0x1b8c43ca, 0x16854dc1, 0x35ba67f0, 0x38b369fb, 0x2fa87be6, 0x22a175ed],
    [0xb946cf34, 0xb44fc13f, 0xa354d322, 0xae5ddd29, 0x8d62f718, 0x806bf913, 0x9770eb0e, 0x9a79e505],
    [0xd10ebf6c, 0xdc07b167, 0xcb1ca37a, 0xc615ad71, 0xe52a8740, 0xe823894b, 0xff389b56, 0xf231955d],
    [0xd2edf4ff, 0xdfe4faf4, 0xc8ffe8e9, 0xc5f6e6e2, 0xe6c9ccd3, 0xebc0c2d8, 0xfcdbd0c5, 0xf1d2dece],
    [0xbaa584a7, 0xb7ac8aac, 0xa0b798b1, 0xadbe96ba, 0x8e81bc8b, 0x8388b280, 0x9493a09d, 0x999aae96],
    [0x027d144f, 0x0f741a44, 0x186f0859, 0x15660652, 0x36592c63, 0x3b502268, 0x2c4b3075, 0x21423e7e],
    [0x6a356417, 0x673c6a1c, 0x70277801, 0x7d2e760a, 0x5e115c3b, 0x53185230, 0x4403402d, 0x490a4e26],
    [0x04a08272, 0x09a98c79, 0x1eb29e64, 0x13bb906f, 0x3084ba5e, 0x3d8db455, 0x2a96a648, 0x279fa843],
    [0x6ce8f22a, 0x61e1fc21, 0x76faee3c, 0x7bf3e037, 0x58ccca06, 0x55c5c40d, 0x42ded610, 0x4fd7d81b],
    [0xd43062c2, 0xd9396cc9, 0xce227ed4, 0xc32b70df, 0xe0145aee, 0xed1d54e5, 0xfa0646f8, 0xf70f48f3],
    [0xbc78129a, 0xb1711c91, 0xa66a0e8c, 0xab630087, 0x885c2ab6, 0x855524bd, 0x924e36a0, 0x9f4738ab],
    [0xbf9b5909, 0xb2925702, 0xa589451f, 0xa8804b14, 0x8bbf6125, 0x86b66f2e, 0x91ad7d33, 0x9ca47338],
    [0xd7d32951, 0xdada275a, 0xcdc13547, 0xc0c83b4c, 0xe3f7117d, 0xeefe1f76, 0xf9e50d6b, 0xf4ec0360],
    [0x6f0bb9b9, 0x6202b7b2, 0x7519a5af, 0x7810aba4, 0x5b2f8195, 0x56268f9e, 0x413d9d83, 0x4c349388],
    [0x0743c9e1, 0x0a4ac7ea, 0x1d51d5f7, 0x1058dbfc, 0x3367f1cd, 0x3e6effc6, 0x2975eddb, 0x247ce3d0]]"

definition TABLE_S8 :: "u32 list" where
  "TABLE_S8 = concat [
    [0xb4469bf0, 0xbf4b92fe, 0xa25c89ec, 0xa95180e2, 0x9872bfc8, 0x937fb6c6, 0x8e68add4, 0x8565a4da],
    [0xec2ed380, 0xe723da8e, 0xfa34c19c, 0xf139c892, 0xc01af7b8, 0xcb17feb6, 0xd600e5a4, 0xdd0decaa],
    [0x04960b10, 0x0f9b021e, 0x128c190c, 0x19811002, 0x28a22f28, 0x23af2626, 0x3eb83d34, 0x35b5343a],
    [0x5cfe4360, 0x57f34a6e, 0x4ae4517c, 0x41e95872, 0x70ca6758, 0x7bc76e56, 0x66d07544, 0x6ddd7c4a],
    [0xcffda02b, 0xc4f0a925, 0xd9e7b237, 0xd2eabb39, 0xe3c98413, 0xe8c48d1d, 0xf5d3960f, 0xfede9f01],
    [0x9795e85b, 0x9c98e155, 0x818ffa47, 0x8a82f349, 0xbba1cc63, 0xb0acc56d, 0xadbbde7f, 0xa6b6d771],
    [0x7f2d30cb, 0x742039c5, 0x693722d7, 0x623a2bd9, 0x531914f3, 0x58141dfd, 0x450306ef, 0x4e0e0fe1],
    [0x274578bb, 0x2c4871b5, 0x315f6aa7, 0x3a5263a9, 0x0b715c83, 0x007c558d, 0x1d6b4e9f, 0x16664791],
    [0x422bed5d, 0x4926e453, 0x5431ff41, 0x5f3cf64f, 0x6e1fc965, 0x6512c06b, 0x7805db79, 0x7308d277],
    [0x1a43a52d, 0x114eac23, 0x0c59b731, 0x0754be3f, 0x36778115, 0x3d7a881b, 0x206d9309, 0x2b609a07],
    [0xf2fb7dbd, 0xf9f674b3, 0xe4e16fa1, 0xefec66af, 0xdecf5985, 0xd5c2508b, 0xc8d54b99, 0xc3d84297],
    [0xaa9335cd, 0xa19e3cc3, 0xbc8927d1, 0xb7842edf, 0x86a711f5, 0x8daa18fb, 0x90bd03e9, 0x9bb00ae7],
    [0x3990d686, 0x329ddf88, 0x2f8ac49a, 0x2487cd94, 0x15a4f2be, 0x1ea9fbb0, 0x03bee0a2, 0x08b3e9ac],
    [0x61f89ef6, 0x6af597f8, 0x77e28cea, 0x7cef85e4, 0x4dccbace, 0x46c1b3c0, 0x5bd6a8d2, 0x50dba1dc],
    [0x89404666, 0x824d4f68, 0x9f5a547a, 0x94575d74, 0xa574625e, 0xae796b50, 0xb36e7042, 0xb863794c],
    [0xd1280e16, 0xda250718, 0xc7321c0a, 0xcc3f1504, 0xfd1c2a2e, 0xf6112320, 0xeb063832, 0xe00b313c],
    [0x439c77b1, 0x48917ebf, 0x558665ad, 0x5e8b6ca3, 0x6fa85389, 0x64a55a87, 0x79b24195, 0x72bf489b],
    [0x1bf43fc1, 0x10f936cf, 0x0dee2ddd, 0x06e324d3, 0x37c01bf9, 0x3ccd12f7, 0x21da09e5, 0x2ad700eb],
    [0xf34ce751, 0xf841ee5f, 0xe556f54d, 0xee5bfc43, 0xdf78c369, 0xd475ca67, 0xc962d175, 0xc26fd87b],
    [0xab24af21, 0xa029a62f, 0xbd3ebd3d, 0xb633b433, 0x87108b19, 0x8c1d8217, 0x910a9905, 0x9a07900b],
    [0x38274c6a, 0x332a4564, 0x2e3d5e76, 0x25305778, 0x14136852, 0x1f1e615c, 0x02097a4e, 0x09047340],
    [0x604f041a, 0x6b420d14, 0x76551606, 0x7d581f08, 0x4c7b2022, 0x4776292c, 0x5a61323e, 0x516c3b30],
    [0x88f7dc8a, 0x83fad584, 0x9eedce96, 0x95e0c798, 0xa4c3f8b2, 0xafcef1bc, 0xb2d9eaae, 0xb9d4e3a0],
    [0xd09f94fa, 0xdb929df4, 0xc68586e6, 0xcd888fe8, 0xfcabb0c2, 0xf7a6b9cc, 0xeab1a2de, 0xe1bcabd0],
    [0xb5f1011c, 0xbefc0812, 0xa3eb1300, 0xa8e61a0e, 0x99c52524, 0x92c82c2a, 0x8fdf3738, 0x84d23e36],
    [0xed99496c, 0xe6944062, 0xfb835b70, 0xf08e527e, 0xc1ad6d54, 0xcaa0645a, 0xd7b77f48, 0xdcba7646],
    [0x052191fc, 0x0e2c98f2, 0x133b83e0, 0x18368aee, 0x2915b5c4, 0x2218bcca, 0x3f0fa7d8, 0x3402aed6],
    [0x5d49d98c, 0x5644d082, 0x4b53cb90, 0x405ec29e, 0x717dfdb4, 0x7a70f4ba, 0x6767efa8, 0x6c6ae6a6],
    [0xce4a3ac7, 0xc54733c9, 0xd85028db, 0xd35d21d5, 0xe27e1eff, 0xe97317f1, 0xf4640ce3, 0xff6905ed],
    [0x962272b7, 0x9d2f7bb9, 0x803860ab, 0x8b3569a5, 0xba16568f, 0xb11b5f81, 0xac0c4493, 0xa7014d9d],
    [0x7e9aaa27, 0x7597a329, 0x6880b83b, 0x638db135, 0x52ae8e1f, 0x59a38711, 0x44b49c03, 0x4fb9950d],
    [0x26f2e257, 0x2dffeb59, 0x30e8f04b, 0x3be5f945, 0x0ac6c66f, 0x01cbcf61, 0x1cdcd473, 0x17d1dd7d]]"

definition INDEX_MANGLE :: "bytes" where
  "INDEX_MANGLE = [
    0x01, 0x02, 0x04, 0x08, 0x10, 0x20, 0x40, 0x80, 0x1b, 0x36, 0x6c]"

end
