(* ===== verification/Fairplay_Message_Tables.thy ===== *)
theory Fairplay_Message_Tables
  imports Rust_Ops
begin

text \<open>
  src/crypto/fairplay_tables.rs, second part: the tables of the message decryption, S2 and S10
  (substitution) and S9 (mixing) with its keys and initial vectors, and the constants the session
  key is hashed from.
\<close>

definition TABLE_S2_0 :: "bytes" where
  "TABLE_S2_0 = concat [
    [0xab, 0x0d, 0xb5, 0xc8, 0x9d, 0xed, 0x11, 0x50, 0x63, 0x8b, 0x83, 0x79, 0x12, 0x7c, 0x8d, 0x23],
    [0xa1, 0xeb, 0x4c, 0xe6, 0xd2, 0x53, 0x7b, 0x62, 0xf0, 0x14, 0x28, 0xae, 0x9e, 0xaf, 0xb6, 0x8c],
    [0xc6, 0xb3, 0x85, 0x40, 0x94, 0x6d, 0x32, 0x58, 0xf7, 0xf8, 0x86, 0xb1, 0xdd, 0xdb, 0xfc, 0x37],
    [0x5b, 0xa4, 0xee, 0x46, 0x27, 0x1a, 0x41, 0x93, 0x89, 0xdf, 0x03, 0x5a, 0x59, 0x87, 0x60, 0xd5],
    [0xe5, 0xb7, 0xc1, 0x3c, 0xce, 0x1f, 0xc2, 0x6f, 0x36, 0x09, 0x5f, 0xe0, 0x10, 0x52, 0x4a, 0x61],
    [0x4b, 0xe7, 0x42, 0xbe, 0xa0, 0xde, 0x2d, 0xa9, 0x91, 0x21, 0xfe, 0x39, 0xb9, 0x26, 0x68, 0xbb],
    [0x25, 0xec, 0x4f, 0x97, 0x0a, 0x4e, 0xfb, 0x81, 0x49, 0x5c, 0x67, 0xc7, 0x1c, 0x17, 0xb8, 0xa7],
    [0x16, 0xad, 0xf9, 0x69, 0xe4, 0x3e, 0x00, 0xd9, 0xac, 0x3d, 0x2e, 0x47, 0xd1, 0x74, 0x1d, 0x54],
    [0x07, 0x9b, 0xd3, 0x56, 0x29, 0xdc, 0xa6, 0xc9, 0x33, 0x9c, 0x2a, 0xfd, 0x72, 0xf5, 0x0b, 0x7d],
    [0x22, 0x80, 0x96, 0x04, 0x3f, 0xe9, 0x2f, 0x34, 0x65, 0x84, 0x38, 0xa3, 0x2b, 0xe1, 0x24, 0xc4],
    [0x7f, 0x57, 0xc0, 0xb4, 0xea, 0xca, 0x45, 0x99, 0x90, 0x75, 0xbc, 0x71, 0xb0, 0xf6, 0x1b, 0xcb],
    [0x9f, 0x06, 0xff, 0x98, 0x20, 0xd4, 0xfa, 0x9a, 0xd0, 0x8a, 0x18, 0x70, 0xb2, 0x5e, 0x13, 0x3a],
    [0xe3, 0x35, 0x5d, 0x1e, 0xd8, 0xd6, 0xda, 0x51, 0x02, 0x66, 0x08, 0xd7, 0xcf, 0xf1, 0x30, 0x2c],
    [0x6b, 0x95, 0xaa, 0xf2, 0xba, 0xc3, 0xef, 0x78, 0x0c, 0x8f, 0xa2, 0x4d, 0x44, 0x43, 0x7a, 0x77],
    [0x15, 0xa8, 0xc5, 0xf3, 0x05, 0xf4, 0x0e, 0x0f, 0x55, 0x48, 0xbf, 0xe2, 0xbd, 0x92, 0x7e, 0x6c],
    [0xcd, 0x82, 0x31, 0x3b, 0xcc, 0x19, 0x6e, 0x6a, 0x01, 0x76, 0x73, 0x64, 0xe8, 0x8e, 0xa5, 0x88]]"

definition TABLE_S2_1 :: "bytes" where
  "TABLE_S2_1 = concat [
    [0x28, 0xef, 0x30, 0x80, 0xaa, 0x79, 0x37, 0xa8, 0xaf, 0x53, 0xf6, 0x5a, 0xb8, 0x3c, 0xcf, 0xb1],
    [0xf1, 0x4e, 0x18, 0x27, 0x70, 0x5b, 0x43, 0x01, 0x2d, 0xd0, 0xa6, 0xf4, 0x7e, 0xd3, 0x0e, 0xdf],
    [0x56, 0x3f, 0x2c, 0xbd, 0x45, 0x0c, 0x65, 0xc0, 0x78, 0xe8, 0xbc, 0x07, 0xc8, 0x11, 0x2f, 0xf5],
    [0xd6, 0x76, 0x4d, 0x58, 0xb6, 0xa9, 0x06, 0x0d, 0x86, 0x5e, 0xfd, 0x34, 0x90, 0xea, 0x5f, 0x1b],
    [0xbf, 0x39, 0x05, 0xe1, 0x9d, 0xa7, 0xbe, 0x8f, 0xf7, 0x5d, 0xfa, 0xb0, 0x73, 0x6a, 0x42, 0xc3],
    [0x68, 0x92, 0x9a, 0x72, 0x32, 0x9c, 0x6d, 0x03, 0xd9, 0xa4, 0x1c, 0xba, 0x41, 0x00, 0xfc, 0x8c],
    [0x4b, 0x12, 0xce, 0x98, 0xc4, 0x71, 0x96, 0x48, 0x57, 0xff, 0xb5, 0x4a, 0x82, 0x50, 0x0b, 0x36],
    [0xa0, 0x97, 0xe9, 0xe6, 0x26, 0xed, 0xca, 0xcc, 0x51, 0x94, 0xa2, 0xd7, 0x49, 0x23, 0x7c, 0x85],
    [0x5c, 0xb3, 0x9e, 0x1d, 0x66, 0x6b, 0x52, 0x55, 0xe3, 0xbb, 0x84, 0x7a, 0x69, 0xfe, 0xd2, 0xab],
    [0xc6, 0x19, 0x77, 0x13, 0x3d, 0x21, 0xe0, 0xde, 0x0f, 0x4c, 0x24, 0xf2, 0x40, 0xcb, 0xc7, 0xc9],
    [0x75, 0x62, 0x67, 0x10, 0x99, 0xb4, 0x9f, 0xf9, 0x2a, 0x20, 0x93, 0xdc, 0x7b, 0x7f, 0x08, 0xdd],
    [0xf3, 0xae, 0x59, 0x44, 0x7d, 0x6f, 0x83, 0xac, 0xe2, 0xd4, 0xb9, 0x04, 0x1e, 0x1f, 0xe5, 0x14],
    [0xb2, 0x29, 0x95, 0x74, 0xd5, 0x35, 0xf0, 0x3a, 0x15, 0x87, 0x91, 0x33, 0x25, 0x3e, 0xf8, 0x2e],
    [0xec, 0x3b, 0x8d, 0x22, 0x6c, 0x1a, 0xe4, 0x63, 0x47, 0xc2, 0x8a, 0x16, 0xd8, 0xb7, 0xcd, 0x38],
    [0x61, 0x09, 0x9b, 0xc1, 0x2b, 0x02, 0x4f, 0xa3, 0x89, 0xee, 0x17, 0x8e, 0x8b, 0xeb, 0xc5, 0x31],
    [0x60, 0xad, 0x64, 0x81, 0xda, 0x0a, 0xe7, 0xa1, 0xa5, 0xd1, 0x46, 0x6e, 0x88, 0x54, 0xdb, 0xfb]]"

definition TABLE_S2_2 :: "bytes" where
  "TABLE_S2_2 = concat [
    [0x83, 0x21, 0x07, 0x95, 0xea, 0x3c, 0x37, 0x2c, 0x87, 0x66, 0xa0, 0x3b, 0xe2, 0x28, 0xc7, 0x27],
    [0x98, 0x04, 0x55, 0xd0, 0xdf, 0x2a, 0xca, 0xa5, 0x9f, 0x30, 0xfe, 0x29, 0xf6, 0x71, 0x7e, 0x08],
    [0x05, 0x9c, 0x9b, 0xfc, 0xd7, 0x23, 0x99, 0xf9, 0x89, 0xd3, 0x73, 0x1b, 0x5d, 0xb1, 0x39, 0x10],
    [0x54, 0x7c, 0xb7, 0xc3, 0xc9, 0xe9, 0x9a, 0x46, 0x76, 0x93, 0x72, 0xbf, 0xf5, 0xb3, 0xc8, 0x18],
    [0x96, 0x68, 0xf1, 0xa9, 0xc0, 0xb9, 0x7b, 0xec, 0x8c, 0x0f, 0x4e, 0xa1, 0x40, 0x47, 0x74, 0x79],
    [0x36, 0xe0, 0x1d, 0x5e, 0xd5, 0xdb, 0x52, 0xd9, 0x65, 0x01, 0xd4, 0x0b, 0xf2, 0xcc, 0x2f, 0x33],
    [0x81, 0xce, 0x38, 0x32, 0x1a, 0xcf, 0x69, 0x6d, 0x75, 0x02, 0x67, 0x70, 0x8d, 0xeb, 0x8b, 0xa6],
    [0xab, 0x16, 0xf0, 0xc6, 0xf7, 0x06, 0x0c, 0x0d, 0x4b, 0x56, 0xe1, 0xbc, 0x91, 0xbe, 0x6f, 0x7d],
    [0xe8, 0xa2, 0xe5, 0x4f, 0x50, 0xd1, 0x61, 0x78, 0x17, 0xf3, 0xad, 0x2b, 0xac, 0x9d, 0x8f, 0xb5],
    [0x0e, 0xa8, 0xcb, 0xb6, 0xee, 0x9e, 0x53, 0x12, 0x88, 0x60, 0x7a, 0x80, 0x7f, 0x11, 0x20, 0x8e],
    [0xa7, 0x58, 0x45, 0xed, 0x19, 0x24, 0x90, 0x42, 0xdc, 0x8a, 0x59, 0x00, 0x84, 0x5a, 0xd6, 0x63],
    [0xb0, 0xc5, 0x43, 0x86, 0x6e, 0x97, 0x5b, 0x31, 0xfb, 0xf4, 0xb2, 0x85, 0xd8, 0xde, 0x34, 0xff],
    [0xe4, 0x48, 0xbd, 0x41, 0xdd, 0xa3, 0xaa, 0x2e, 0x22, 0x92, 0x3a, 0xfd, 0x25, 0xba, 0xb8, 0x6b],
    [0xb4, 0xe6, 0x3f, 0xc2, 0x1c, 0xcd, 0x6c, 0xc1, 0x0a, 0x35, 0xe3, 0x5c, 0x51, 0x13, 0x62, 0x49],
    [0xae, 0x15, 0x6a, 0xfa, 0x3d, 0xe7, 0xda, 0x03, 0x3e, 0xaf, 0x44, 0x2d, 0x77, 0xd2, 0x57, 0x1e],
    [0xef, 0x26, 0x94, 0x4c, 0x4d, 0x09, 0x82, 0xf8, 0x5f, 0x4a, 0xc4, 0x64, 0x14, 0x1f, 0xa4, 0xbb]]"

definition TABLE_S2_3 :: "bytes" where
  "TABLE_S2_3 = concat [
    [0x47, 0xbb, 0x4e, 0xe2, 0x28, 0xac, 0xa5, 0xdb, 0xfb, 0x3c, 0x94, 0x24, 0x6d, 0xbe, 0xbc, 0x23],
    [0xc4, 0x39, 0xe0, 0xb2, 0xc7, 0x6a, 0xcb, 0x1a, 0x5a, 0xe5, 0x33, 0x0c, 0x4f, 0x64, 0x15, 0x57],
    [0xfc, 0x6c, 0x13, 0xa8, 0x05, 0xdc, 0xe1, 0x3b, 0x2b, 0x42, 0xa9, 0x38, 0x18, 0x51, 0xd4, 0x71],
    [0x4a, 0x92, 0x20, 0xe9, 0xfe, 0x84, 0x0f, 0x4b, 0x62, 0xc2, 0x4c, 0x59, 0xbd, 0xa2, 0x19, 0x12],
    [0x49, 0xe3, 0xa4, 0xee, 0x7e, 0x67, 0xd7, 0x56, 0x2d, 0xab, 0xf5, 0x11, 0xb3, 0x89, 0x9b, 0xaa],
    [0xb0, 0xcd, 0xae, 0x08, 0x14, 0x55, 0x98, 0xe8, 0x86, 0x7c, 0x66, 0x8e, 0x88, 0x26, 0x17, 0x79],
    [0xeb, 0x43, 0x5e, 0xa1, 0x44, 0x96, 0x22, 0x1f, 0x06, 0x5f, 0x8c, 0xda, 0x65, 0xd0, 0x5c, 0x82],
    [0x80, 0x45, 0xc3, 0xb6, 0x37, 0x5d, 0x91, 0x68, 0x83, 0xb4, 0xf2, 0xfd, 0xf9, 0x32, 0xd8, 0xde],
    [0xaf, 0xf7, 0x6e, 0x90, 0xea, 0x7d, 0xbf, 0xc6, 0xa7, 0x48, 0x09, 0x8a, 0x7f, 0x72, 0x41, 0x46],
    [0x58, 0x1b, 0xe6, 0x30, 0xdf, 0x54, 0xdd, 0xd3, 0x0d, 0xd2, 0x07, 0x63, 0x35, 0x29, 0xca, 0xf4],
    [0x34, 0x3e, 0xc8, 0x87, 0x6b, 0x6f, 0xc9, 0x1c, 0x76, 0x61, 0x04, 0x73, 0xa0, 0x8d, 0xed, 0x8b],
    [0xc0, 0xf6, 0x10, 0xad, 0x0b, 0x0a, 0x00, 0xf1, 0xba, 0xe7, 0x50, 0x4d, 0x7b, 0x69, 0xb8, 0x97],
    [0x93, 0x01, 0x27, 0x85, 0x2a, 0x31, 0x3a, 0xec, 0x3d, 0xa6, 0x60, 0x81, 0x21, 0xc1, 0x2e, 0xe4],
    [0xd6, 0x53, 0x02, 0x9e, 0xa3, 0xcc, 0x2c, 0xd9, 0x2f, 0xf8, 0x36, 0x99, 0x0e, 0x78, 0x77, 0xf0],
    [0xfa, 0x9d, 0x9a, 0x03, 0xff, 0x9f, 0x25, 0xd1, 0x1d, 0x75, 0xd5, 0x8f, 0x16, 0x3f, 0xb7, 0x5b],
    [0xc5, 0xb1, 0x7a, 0x52, 0x40, 0x9c, 0xef, 0xcf, 0xb9, 0x74, 0x95, 0x70, 0x1e, 0xce, 0xb5, 0xf3]]"

definition TABLE_S2_4 :: "bytes" where
  "TABLE_S2_4 = concat [
    [0x6c, 0xca, 0x72, 0x0f, 0x5a, 0x2a, 0xd6, 0x97, 0xa4, 0x4c, 0x44, 0xbe, 0xd5, 0xbb, 0x4a, 0xe4],
    [0x66, 0x2c, 0x8b, 0x21, 0x15, 0x94, 0xbc, 0xa5, 0x37, 0xd3, 0xef, 0x69, 0x59, 0x68, 0x71, 0x4b],
    [0x01, 0x74, 0x42, 0x87, 0x53, 0xaa, 0xf5, 0x9f, 0x30, 0x3f, 0x41, 0x76, 0x1a, 0x1c, 0x3b, 0xf0],
    [0x9c, 0x63, 0x29, 0x81, 0xe0, 0xdd, 0x86, 0x54, 0x4e, 0x18, 0xc4, 0x9d, 0x9e, 0x40, 0xa7, 0x12],
    [0x22, 0x70, 0x06, 0xfb, 0x09, 0xd8, 0x05, 0xa8, 0xf1, 0xce, 0x98, 0x27, 0xd7, 0x95, 0x8d, 0xa6],
    [0x8c, 0x20, 0x85, 0x79, 0x67, 0x19, 0xea, 0x6e, 0x56, 0xe6, 0x39, 0xfe, 0x7e, 0xe1, 0xaf, 0x7c],
    [0xe2, 0x2b, 0x88, 0x50, 0xcd, 0x89, 0x3c, 0x46, 0x8e, 0x9b, 0xa0, 0x00, 0xdb, 0xd0, 0x7f, 0x60],
    [0xd1, 0x6a, 0x3e, 0xae, 0x23, 0xf9, 0xc7, 0x1e, 0x6b, 0xfa, 0xe9, 0x80, 0x16, 0xb3, 0xda, 0x93],
    [0xc0, 0x5c, 0x14, 0x91, 0xee, 0x1b, 0x61, 0x0e, 0xf4, 0x5b, 0xed, 0x3a, 0xb5, 0x32, 0xcc, 0xba],
    [0xe5, 0x47, 0x51, 0xc3, 0xf8, 0x2e, 0xe8, 0xf3, 0xa2, 0x43, 0xff, 0x64, 0xec, 0x26, 0xe3, 0x03],
    [0xb8, 0x90, 0x07, 0x73, 0x2d, 0x0d, 0x82, 0x5e, 0x57, 0xb2, 0x7b, 0xb6, 0x77, 0x31, 0xdc, 0x0c],
    [0x58, 0xc1, 0x38, 0x5f, 0xe7, 0x13, 0x3d, 0x5d, 0x17, 0x4d, 0xdf, 0xb7, 0x75, 0x99, 0xd4, 0xfd],
    [0x24, 0xf2, 0x9a, 0xd9, 0x1f, 0x11, 0x1d, 0x96, 0xc5, 0xa1, 0xcf, 0x10, 0x08, 0x36, 0xf7, 0xeb],
    [0xac, 0x52, 0x6d, 0x35, 0x7d, 0x04, 0x28, 0xbf, 0xcb, 0x48, 0x65, 0x8a, 0x83, 0x84, 0xbd, 0xb0],
    [0xd2, 0x6f, 0x02, 0x34, 0xc2, 0x33, 0xc9, 0xc8, 0x92, 0x8f, 0x78, 0x25, 0x7a, 0x55, 0xb9, 0xab],
    [0x0a, 0x45, 0xf6, 0xfc, 0x0b, 0xde, 0xa9, 0xad, 0xc6, 0xb1, 0xb4, 0xa3, 0x2f, 0x49, 0x62, 0x4f]]"

definition TABLE_S2_5 :: "bytes" where
  "TABLE_S2_5 = concat [
    [0xad, 0x6a, 0xb5, 0x05, 0x2f, 0xfc, 0xb2, 0x2d, 0x2a, 0xd6, 0x73, 0xdf, 0x3d, 0xb9, 0x4a, 0x34],
    [0x74, 0xcb, 0x9d, 0xa2, 0xf5, 0xde, 0xc6, 0x84, 0xa8, 0x55, 0x23, 0x71, 0xfb, 0x56, 0x8b, 0x5a],
    [0xd3, 0xba, 0xa9, 0x38, 0xc0, 0x89, 0xe0, 0x45, 0xfd, 0x6d, 0x39, 0x82, 0x4d, 0x94, 0xaa, 0x70],
    [0x53, 0xf3, 0xc8, 0xdd, 0x33, 0x2c, 0x83, 0x88, 0x03, 0xdb, 0x78, 0xb1, 0x15, 0x6f, 0xda, 0x9e],
    [0x3a, 0xbc, 0x80, 0x64, 0x18, 0x22, 0x3b, 0x0a, 0x72, 0xd8, 0x7f, 0x35, 0xf6, 0xef, 0xc7, 0x46],
    [0xed, 0x17, 0x1f, 0xf7, 0xb7, 0x19, 0xe8, 0x86, 0x5c, 0x21, 0x99, 0x3f, 0xc4, 0x85, 0x79, 0x09],
    [0xce, 0x97, 0x4b, 0x1d, 0x41, 0xf4, 0x13, 0xcd, 0xd2, 0x7a, 0x30, 0xcf, 0x07, 0xd5, 0x8e, 0xb3],
    [0x25, 0x12, 0x6c, 0x63, 0xa3, 0x68, 0x4f, 0x49, 0xd4, 0x11, 0x27, 0x52, 0xcc, 0xa6, 0xf9, 0x00],
    [0xd9, 0x36, 0x1b, 0x98, 0xe3, 0xee, 0xd7, 0xd0, 0x66, 0x3e, 0x01, 0xff, 0xec, 0x7b, 0x57, 0x2e],
    [0x43, 0x9c, 0xf2, 0x96, 0xb8, 0xa4, 0x65, 0x5b, 0x8a, 0xc9, 0xa1, 0x77, 0xc5, 0x4e, 0x42, 0x4c],
    [0xf0, 0xe7, 0xe2, 0x95, 0x1c, 0x31, 0x1a, 0x7c, 0xaf, 0xa5, 0x16, 0x59, 0xfe, 0xfa, 0x8d, 0x58],
    [0x76, 0x2b, 0xdc, 0xc1, 0xf8, 0xea, 0x06, 0x29, 0x67, 0x51, 0x3c, 0x81, 0x9b, 0x9a, 0x60, 0x91],
    [0x37, 0xac, 0x10, 0xf1, 0x50, 0xb0, 0x75, 0xbf, 0x90, 0x02, 0x14, 0xb6, 0xa0, 0xbb, 0x7d, 0xab],
    [0x69, 0xbe, 0x08, 0xa7, 0xe9, 0x9f, 0x61, 0xe6, 0xc2, 0x47, 0x0f, 0x93, 0x5d, 0x32, 0x48, 0xbd],
    [0xe4, 0x8c, 0x1e, 0x44, 0xae, 0x87, 0xca, 0x26, 0x0c, 0x6b, 0x92, 0x0b, 0x0e, 0x6e, 0x40, 0xb4],
    [0xe5, 0x28, 0xe1, 0x04, 0x5f, 0x8f, 0x62, 0x24, 0x20, 0x54, 0xc3, 0xeb, 0x0d, 0xd1, 0x5e, 0x7e]]"

definition TABLE_S2_6 :: "bytes" where
  "TABLE_S2_6 = concat [
    [0x94, 0x36, 0x10, 0x82, 0xfd, 0x2b, 0x20, 0x3b, 0x90, 0x71, 0xb7, 0x2c, 0xf5, 0x3f, 0xd0, 0x30],
    [0x8f, 0x13, 0x42, 0xc7, 0xc8, 0x3d, 0xdd, 0xb2, 0x88, 0x27, 0xe9, 0x3e, 0xe1, 0x66, 0x69, 0x1f],
    [0x12, 0x8b, 0x8c, 0xeb, 0xc0, 0x34, 0x8e, 0xee, 0x9e, 0xc4, 0x64, 0x0c, 0x4a, 0xa6, 0x2e, 0x07],
    [0x43, 0x6b, 0xa0, 0xd4, 0xde, 0xfe, 0x8d, 0x51, 0x61, 0x84, 0x65, 0xa8, 0xe2, 0xa4, 0xdf, 0x0f],
    [0x81, 0x7f, 0xe6, 0xbe, 0xd7, 0xae, 0x6c, 0xfb, 0x9b, 0x18, 0x59, 0xb6, 0x57, 0x50, 0x63, 0x6e],
    [0x21, 0xf7, 0x0a, 0x49, 0xc2, 0xcc, 0x45, 0xce, 0x72, 0x16, 0xc3, 0x1c, 0xe5, 0xdb, 0x38, 0x24],
    [0x96, 0xd9, 0x2f, 0x25, 0x0d, 0xd8, 0x7e, 0x7a, 0x62, 0x15, 0x70, 0x67, 0x9a, 0xfc, 0x9c, 0xb1],
    [0xbc, 0x01, 0xe7, 0xd1, 0xe0, 0x11, 0x1b, 0x1a, 0x5c, 0x41, 0xf6, 0xab, 0x86, 0xa9, 0x78, 0x6a],
    [0xff, 0xb5, 0xf2, 0x58, 0x47, 0xc6, 0x76, 0x6f, 0x00, 0xe4, 0xba, 0x3c, 0xbb, 0x8a, 0x98, 0xa2],
    [0x19, 0xbf, 0xdc, 0xa1, 0xf9, 0x89, 0x44, 0x05, 0x9f, 0x77, 0x6d, 0x97, 0x68, 0x06, 0x37, 0x99],
    [0xb0, 0x4f, 0x52, 0xfa, 0x0e, 0x33, 0x87, 0x55, 0xcb, 0x9d, 0x4e, 0x17, 0x93, 0x4d, 0xc1, 0x74],
    [0xa7, 0xd2, 0x54, 0x91, 0x79, 0x80, 0x4c, 0x26, 0xec, 0xe3, 0xa5, 0x92, 0xcf, 0xc9, 0x23, 0xe8],
    [0xf3, 0x5f, 0xaa, 0x56, 0xca, 0xb4, 0xbd, 0x39, 0x35, 0x85, 0x2d, 0xea, 0x32, 0xad, 0xaf, 0x7c],
    [0xa3, 0xf1, 0x28, 0xd5, 0x0b, 0xda, 0x7b, 0xd6, 0x1d, 0x22, 0xf4, 0x4b, 0x46, 0x04, 0x75, 0x5e],
    [0xb9, 0x02, 0x7d, 0xed, 0x2a, 0xf0, 0xcd, 0x14, 0x29, 0xb8, 0x53, 0x3a, 0x60, 0xc5, 0x40, 0x09],
    [0xf8, 0x31, 0x83, 0x5b, 0x5a, 0x1e, 0x95, 0xef, 0x48, 0x5d, 0xd3, 0x73, 0x03, 0x08, 0xb3, 0xac]]"

definition TABLE_S2_7 :: "bytes" where
  "TABLE_S2_7 = concat [
    [0x8c, 0x70, 0x85, 0x29, 0xe3, 0x67, 0x6e, 0x10, 0x30, 0xf7, 0x5f, 0xef, 0xa6, 0x75, 0x77, 0xe8],
    [0x0f, 0xf2, 0x2b, 0x79, 0x0c, 0xa1, 0x00, 0xd1, 0x91, 0x2e, 0xf8, 0xc7, 0x84, 0xaf, 0xde, 0x9c],
    [0x37, 0xa7, 0xd8, 0x63, 0xce, 0x17, 0x2a, 0xf0, 0xe0, 0x89, 0x62, 0xf3, 0xd3, 0x9a, 0x1f, 0xba],
    [0x81, 0x59, 0xeb, 0x22, 0x35, 0x4f, 0xc4, 0x80, 0xa9, 0x09, 0x87, 0x92, 0x76, 0x69, 0xd2, 0xd9],
    [0x82, 0x28, 0x6f, 0x25, 0xb5, 0xac, 0x1c, 0x9d, 0xe6, 0x60, 0x3e, 0xda, 0x78, 0x42, 0x50, 0x61],
    [0x7b, 0x06, 0x65, 0xc3, 0xdf, 0x9e, 0x53, 0x23, 0x4d, 0xb7, 0xad, 0x45, 0x43, 0xed, 0xdc, 0xb2],
    [0x20, 0x88, 0x95, 0x6a, 0x8f, 0x5d, 0xe9, 0xd4, 0xcd, 0x94, 0x47, 0x11, 0xae, 0x1b, 0x97, 0x49],
    [0x4b, 0x8e, 0x08, 0x7d, 0xfc, 0x96, 0x5a, 0xa3, 0x48, 0x7f, 0x39, 0x36, 0x32, 0xf9, 0x13, 0x15],
    [0x64, 0x3c, 0xa5, 0x5b, 0x21, 0xb6, 0x74, 0x0d, 0x6c, 0x83, 0xc2, 0x41, 0xb4, 0xb9, 0x8a, 0x8d],
    [0x93, 0xd0, 0x2d, 0xfb, 0x14, 0x9f, 0x16, 0x18, 0xc6, 0x19, 0xcc, 0xa8, 0xfe, 0xe2, 0x01, 0x3f],
    [0xff, 0xf5, 0x03, 0x4c, 0xa0, 0xa4, 0x02, 0xd7, 0xbd, 0xaa, 0xcf, 0xb8, 0x6b, 0x46, 0x26, 0x40],
    [0x0b, 0x3d, 0xdb, 0x66, 0xc0, 0xc1, 0xcb, 0x3a, 0x71, 0x2c, 0x9b, 0x86, 0xb0, 0xa2, 0x73, 0x5c],
    [0x58, 0xca, 0xec, 0x4e, 0xe1, 0xfa, 0xf1, 0x27, 0xf6, 0x6d, 0xab, 0x4a, 0xea, 0x0a, 0xe5, 0x2f],
    [0x1d, 0x98, 0xc9, 0x55, 0x68, 0x07, 0xe7, 0x12, 0xe4, 0x33, 0xfd, 0x52, 0xc5, 0xb3, 0xbc, 0x3b],
    [0x31, 0x56, 0x51, 0xc8, 0x34, 0x54, 0xee, 0x1a, 0xd6, 0xbe, 0x1e, 0x44, 0xdd, 0xf4, 0x7c, 0x90],
    [0x0e, 0x7a, 0xb1, 0x99, 0x8b, 0x57, 0x24, 0x04, 0x72, 0xbf, 0x5e, 0xbb, 0xd5, 0x05, 0x7e, 0x38]]"

definition TABLE_S2_8 :: "bytes" where
  "TABLE_S2_8 = concat [
    [0x01, 0xa7, 0x1f, 0x62, 0x37, 0x47, 0xbb, 0xfa, 0xc9, 0x21, 0x29, 0xd3, 0xb8, 0xd6, 0x27, 0x89],
    [0x0b, 0x41, 0xe6, 0x4c, 0x78, 0xf9, 0xd1, 0xc8, 0x5a, 0xbe, 0x82, 0x04, 0x34, 0x05, 0x1c, 0x26],
    [0x6c, 0x19, 0x2f, 0xea, 0x3e, 0xc7, 0x98, 0xf2, 0x5d, 0x52, 0x2c, 0x1b, 0x77, 0x71, 0x56, 0x9d],
    [0xf1, 0x0e, 0x44, 0xec, 0x8d, 0xb0, 0xeb, 0x39, 0x23, 0x75, 0xa9, 0xf0, 0xf3, 0x2d, 0xca, 0x7f],
    [0x4f, 0x1d, 0x6b, 0x96, 0x64, 0xb5, 0x68, 0xc5, 0x9c, 0xa3, 0xf5, 0x4a, 0xba, 0xf8, 0xe0, 0xcb],
    [0xe1, 0x4d, 0xe8, 0x14, 0x0a, 0x74, 0x87, 0x03, 0x3b, 0x8b, 0x54, 0x93, 0x13, 0x8c, 0xc2, 0x11],
    [0x8f, 0x46, 0xe5, 0x3d, 0xa0, 0xe4, 0x51, 0x2b, 0xe3, 0xf6, 0xcd, 0x6d, 0xb6, 0xbd, 0x12, 0x0d],
    [0xbc, 0x07, 0x53, 0xc3, 0x4e, 0x94, 0xaa, 0x73, 0x06, 0x97, 0x84, 0xed, 0x7b, 0xde, 0xb7, 0xfe],
    [0xad, 0x31, 0x79, 0xfc, 0x83, 0x76, 0x0c, 0x63, 0x99, 0x36, 0x80, 0x57, 0xd8, 0x5f, 0xa1, 0xd7],
    [0x88, 0x2a, 0x3c, 0xae, 0x95, 0x43, 0x85, 0x9e, 0xcf, 0x2e, 0x92, 0x09, 0x81, 0x4b, 0x8e, 0x6e],
    [0xd5, 0xfd, 0x6a, 0x1e, 0x40, 0x60, 0xef, 0x33, 0x3a, 0xdf, 0x16, 0xdb, 0x1a, 0x5c, 0xb1, 0x61],
    [0x35, 0xac, 0x55, 0x32, 0x8a, 0x7e, 0x50, 0x30, 0x7a, 0x20, 0xb2, 0xda, 0x18, 0xf4, 0xb9, 0x90],
    [0x49, 0x9f, 0xf7, 0xb4, 0x72, 0x7c, 0x70, 0xfb, 0xa8, 0xcc, 0xa2, 0x7d, 0x65, 0x5b, 0x9a, 0x86],
    [0xc1, 0x3f, 0x00, 0x58, 0x10, 0x69, 0x45, 0xd2, 0xa6, 0x25, 0x08, 0xe7, 0xee, 0xe9, 0xd0, 0xdd],
    [0xbf, 0x02, 0x6f, 0x59, 0xaf, 0x5e, 0xa4, 0xa5, 0xff, 0xe2, 0x15, 0x48, 0x17, 0x38, 0xd4, 0xc6],
    [0x67, 0x28, 0x9b, 0x91, 0x66, 0xb3, 0xc4, 0xc0, 0xab, 0xdc, 0xd9, 0xce, 0x42, 0x24, 0x0f, 0x22]]"

definition TABLE_S2_9 :: "bytes" where
  "TABLE_S2_9 = concat [
    [0xf4, 0x33, 0xec, 0x5c, 0x76, 0xa5, 0xeb, 0x74, 0x73, 0x8f, 0x2a, 0x86, 0x64, 0xe0, 0x13, 0x6d],
    [0x2d, 0x92, 0xc4, 0xfb, 0xac, 0x87, 0x9f, 0xdd, 0xf1, 0x0c, 0x7a, 0x28, 0xa2, 0x0f, 0xd2, 0x03],
    [0x8a, 0xe3, 0xf0, 0x61, 0x99, 0xd0, 0xb9, 0x1c, 0xa4, 0x34, 0x60, 0xdb, 0x14, 0xcd, 0xf3, 0x29],
    [0x0a, 0xaa, 0x91, 0x84, 0x6a, 0x75, 0xda, 0xd1, 0x5a, 0x82, 0x21, 0xe8, 0x4c, 0x36, 0x83, 0xc7],
    [0x63, 0xe5, 0xd9, 0x3d, 0x41, 0x7b, 0x62, 0x53, 0x2b, 0x81, 0x26, 0x6c, 0xaf, 0xb6, 0x9e, 0x1f],
    [0xb4, 0x4e, 0x46, 0xae, 0xee, 0x40, 0xb1, 0xdf, 0x05, 0x78, 0xc0, 0x66, 0x9d, 0xdc, 0x20, 0x50],
    [0x97, 0xce, 0x12, 0x44, 0x18, 0xad, 0x4a, 0x94, 0x8b, 0x23, 0x69, 0x96, 0x5e, 0x8c, 0xd7, 0xea],
    [0x7c, 0x4b, 0x35, 0x3a, 0xfa, 0x31, 0x16, 0x10, 0x8d, 0x48, 0x7e, 0x0b, 0x95, 0xff, 0xa0, 0x59],
    [0x80, 0x6f, 0x42, 0xc1, 0xba, 0xb7, 0x8e, 0x89, 0x3f, 0x67, 0x58, 0xa6, 0xb5, 0x22, 0x0e, 0x77],
    [0x1a, 0xc5, 0xab, 0xcf, 0xe1, 0xfd, 0x3c, 0x02, 0xd3, 0x90, 0xf8, 0x2e, 0x9c, 0x17, 0x1b, 0x15],
    [0xa9, 0xbe, 0xbb, 0xcc, 0x45, 0x68, 0x43, 0x25, 0xf6, 0xfc, 0x4f, 0x00, 0xa7, 0xa3, 0xd4, 0x01],
    [0x2f, 0x72, 0x85, 0x98, 0xa1, 0xb3, 0x5f, 0x70, 0x3e, 0x08, 0x65, 0xd8, 0xc2, 0xc3, 0x39, 0xc8],
    [0x6e, 0xf5, 0x49, 0xa8, 0x09, 0xe9, 0x2c, 0xe6, 0xc9, 0x5b, 0x4d, 0xef, 0xf9, 0xe2, 0x24, 0xf2],
    [0x30, 0xe7, 0x51, 0xfe, 0xb0, 0xc6, 0x38, 0xbf, 0x9b, 0x1e, 0x56, 0xca, 0x04, 0x6b, 0x11, 0xe4],
    [0xbd, 0xd5, 0x47, 0x1d, 0xf7, 0xde, 0x93, 0x7f, 0x55, 0x32, 0xcb, 0x52, 0x57, 0x37, 0x19, 0xed],
    [0xbc, 0x71, 0xb8, 0x5d, 0x06, 0xd6, 0x3b, 0x7d, 0x79, 0x0d, 0x9a, 0xb2, 0x54, 0x88, 0x07, 0x27]]"

definition TABLE_S2_10 :: "bytes" where
  "TABLE_S2_10 = concat [
    [0x31, 0x93, 0xb5, 0x27, 0x58, 0x8e, 0x85, 0x9e, 0x35, 0xd4, 0x12, 0x89, 0x50, 0x9a, 0x75, 0x95],
    [0x2a, 0xb6, 0xe7, 0x62, 0x6d, 0x98, 0x78, 0x17, 0x2d, 0x82, 0x4c, 0x9b, 0x44, 0xc3, 0xcc, 0xba],
    [0xb7, 0x2e, 0x29, 0x4e, 0x65, 0x91, 0x2b, 0x4b, 0x3b, 0x61, 0xc1, 0xa9, 0xef, 0x03, 0x8b, 0xa2],
    [0xe6, 0xce, 0x05, 0x71, 0x7b, 0x5b, 0x28, 0xf4, 0xc4, 0x21, 0xc0, 0x0d, 0x47, 0x01, 0x7a, 0xaa],
    [0x24, 0xda, 0x43, 0x1b, 0x72, 0x0b, 0xc9, 0x5e, 0x3e, 0xbd, 0xfc, 0x13, 0xf2, 0xf5, 0xc6, 0xcb],
    [0x84, 0x52, 0xaf, 0xec, 0x67, 0x69, 0xe0, 0x6b, 0xd7, 0xb3, 0x66, 0xb9, 0x40, 0x7e, 0x9d, 0x81],
    [0x33, 0x7c, 0x8a, 0x80, 0xa8, 0x7d, 0xdb, 0xdf, 0xc7, 0xb0, 0xd5, 0xc2, 0x3f, 0x59, 0x39, 0x14],
    [0x19, 0xa4, 0x42, 0x74, 0x45, 0xb4, 0xbe, 0xbf, 0xf9, 0xe4, 0x53, 0x0e, 0x23, 0x0c, 0xdd, 0xcf],
    [0x5a, 0x10, 0x57, 0xfd, 0xe2, 0x63, 0xd3, 0xca, 0xa5, 0x41, 0x1f, 0x99, 0x1e, 0x2f, 0x3d, 0x07],
    [0xbc, 0x1a, 0x79, 0x04, 0x5c, 0x2c, 0xe1, 0xa0, 0x3a, 0xd2, 0xc8, 0x32, 0xcd, 0xa3, 0x92, 0x3c],
    [0x15, 0xea, 0xf7, 0x5f, 0xab, 0x96, 0x22, 0xf0, 0x6e, 0x38, 0xeb, 0xb2, 0x36, 0xe8, 0x64, 0xd1],
    [0x02, 0x77, 0xf1, 0x34, 0xdc, 0x25, 0xe9, 0x83, 0x49, 0x46, 0x00, 0x37, 0x6a, 0x6c, 0x86, 0x4d],
    [0x56, 0xfa, 0x0f, 0xf3, 0x6f, 0x11, 0x18, 0x9c, 0x90, 0x20, 0x88, 0x4f, 0x97, 0x08, 0x0a, 0xd9],
    [0x06, 0x54, 0x8d, 0x70, 0xae, 0x7f, 0xde, 0x73, 0xb8, 0x87, 0x51, 0xee, 0xe3, 0xa1, 0xd0, 0xfb],
    [0x1c, 0xa7, 0xd8, 0x48, 0x8f, 0x55, 0x68, 0xb1, 0x8c, 0x1d, 0xf6, 0x9f, 0xc5, 0x60, 0xe5, 0xac],
    [0x5d, 0x94, 0x26, 0xfe, 0xff, 0xbb, 0x30, 0x4a, 0xed, 0xf8, 0x76, 0xd6, 0xa6, 0xad, 0x16, 0x09]]"

definition TABLE_S2_11 :: "bytes" where
  "TABLE_S2_11 = concat [
    [0x66, 0x9a, 0x6f, 0xc3, 0x09, 0x8d, 0x84, 0xfa, 0xda, 0x1d, 0xb5, 0x05, 0x4c, 0x9f, 0x9d, 0x02],
    [0xe5, 0x18, 0xc1, 0x93, 0xe6, 0x4b, 0xea, 0x3b, 0x7b, 0xc4, 0x12, 0x2d, 0x6e, 0x45, 0x34, 0x76],
    [0xdd, 0x4d, 0x32, 0x89, 0x24, 0xfd, 0xc0, 0x1a, 0x0a, 0x63, 0x88, 0x19, 0x39, 0x70, 0xf5, 0x50],
    [0x6b, 0xb3, 0x01, 0xc8, 0xdf, 0xa5, 0x2e, 0x6a, 0x43, 0xe3, 0x6d, 0x78, 0x9c, 0x83, 0x38, 0x33],
    [0x68, 0xc2, 0x85, 0xcf, 0x5f, 0x46, 0xf6, 0x77, 0x0c, 0x8a, 0xd4, 0x30, 0x92, 0xa8, 0xba, 0x8b],
    [0x91, 0xec, 0x8f, 0x29, 0x35, 0x74, 0xb9, 0xc9, 0xa7, 0x5d, 0x47, 0xaf, 0xa9, 0x07, 0x36, 0x58],
    [0xca, 0x62, 0x7f, 0x80, 0x65, 0xb7, 0x03, 0x3e, 0x27, 0x7e, 0xad, 0xfb, 0x44, 0xf1, 0x7d, 0xa3],
    [0xa1, 0x64, 0xe2, 0x97, 0x16, 0x7c, 0xb0, 0x49, 0xa2, 0x95, 0xd3, 0xdc, 0xd8, 0x13, 0xf9, 0xff],
    [0x8e, 0xd6, 0x4f, 0xb1, 0xcb, 0x5c, 0x9e, 0xe7, 0x86, 0x69, 0x28, 0xab, 0x5e, 0x53, 0x60, 0x67],
    [0x79, 0x3a, 0xc7, 0x11, 0xfe, 0x75, 0xfc, 0xf2, 0x2c, 0xf3, 0x26, 0x42, 0x14, 0x08, 0xeb, 0xd5],
    [0x15, 0x1f, 0xe9, 0xa6, 0x4a, 0x4e, 0xe8, 0x3d, 0x57, 0x40, 0x25, 0x52, 0x81, 0xac, 0xcc, 0xaa],
    [0xe1, 0xd7, 0x31, 0x8c, 0x2a, 0x2b, 0x21, 0xd0, 0x9b, 0xc6, 0x71, 0x6c, 0x5a, 0x48, 0x99, 0xb6],
    [0xb2, 0x20, 0x06, 0xa4, 0x0b, 0x10, 0x1b, 0xcd, 0x1c, 0x87, 0x41, 0xa0, 0x00, 0xe0, 0x0f, 0xc5],
    [0xf7, 0x72, 0x23, 0xbf, 0x82, 0xed, 0x0d, 0xf8, 0x0e, 0xd9, 0x17, 0xb8, 0x2f, 0x59, 0x56, 0xd1],
    [0xdb, 0xbc, 0xbb, 0x22, 0xde, 0xbe, 0x04, 0xf0, 0x3c, 0x54, 0xf4, 0xae, 0x37, 0x1e, 0x96, 0x7a],
    [0xe4, 0x90, 0x5b, 0x73, 0x61, 0xbd, 0xce, 0xee, 0x98, 0x55, 0xb4, 0x51, 0x3f, 0xef, 0x94, 0xd2]]"

definition TABLE_S2_12 :: "bytes" where
  "TABLE_S2_12 = concat [
    [0x2b, 0x8d, 0x35, 0x48, 0x1d, 0x6d, 0x91, 0xd0, 0xe3, 0x0b, 0x03, 0xf9, 0x92, 0xfc, 0x0d, 0xa3],
    [0x21, 0x6b, 0xcc, 0x66, 0x52, 0xd3, 0xfb, 0xe2, 0x70, 0x94, 0xa8, 0x2e, 0x1e, 0x2f, 0x36, 0x0c],
    [0x46, 0x33, 0x05, 0xc0, 0x14, 0xed, 0xb2, 0xd8, 0x77, 0x78, 0x06, 0x31, 0x5d, 0x5b, 0x7c, 0xb7],
    [0xdb, 0x24, 0x6e, 0xc6, 0xa7, 0x9a, 0xc1, 0x13, 0x09, 0x5f, 0x83, 0xda, 0xd9, 0x07, 0xe0, 0x55],
    [0x65, 0x37, 0x41, 0xbc, 0x4e, 0x9f, 0x42, 0xef, 0xb6, 0x89, 0xdf, 0x60, 0x90, 0xd2, 0xca, 0xe1],
    [0xcb, 0x67, 0xc2, 0x3e, 0x20, 0x5e, 0xad, 0x29, 0x11, 0xa1, 0x7e, 0xb9, 0x39, 0xa6, 0xe8, 0x3b],
    [0xa5, 0x6c, 0xcf, 0x17, 0x8a, 0xce, 0x7b, 0x01, 0xc9, 0xdc, 0xe7, 0x47, 0x9c, 0x97, 0x38, 0x27],
    [0x96, 0x2d, 0x79, 0xe9, 0x64, 0xbe, 0x80, 0x59, 0x2c, 0xbd, 0xae, 0xc7, 0x51, 0xf4, 0x9d, 0xd4],
    [0x87, 0x1b, 0x53, 0xd6, 0xa9, 0x5c, 0x26, 0x49, 0xb3, 0x1c, 0xaa, 0x7d, 0xf2, 0x75, 0x8b, 0xfd],
    [0xa2, 0x00, 0x16, 0x84, 0xbf, 0x69, 0xaf, 0xb4, 0xe5, 0x04, 0xb8, 0x23, 0xab, 0x61, 0xa4, 0x44],
    [0xff, 0xd7, 0x40, 0x34, 0x6a, 0x4a, 0xc5, 0x19, 0x10, 0xf5, 0x3c, 0xf1, 0x30, 0x76, 0x9b, 0x4b],
    [0x1f, 0x86, 0x7f, 0x18, 0xa0, 0x54, 0x7a, 0x1a, 0x50, 0x0a, 0x98, 0xf0, 0x32, 0xde, 0x93, 0xba],
    [0x63, 0xb5, 0xdd, 0x9e, 0x58, 0x56, 0x5a, 0xd1, 0x82, 0xe6, 0x88, 0x57, 0x4f, 0x71, 0xb0, 0xac],
    [0xeb, 0x15, 0x2a, 0x72, 0x3a, 0x43, 0x6f, 0xf8, 0x8c, 0x0f, 0x22, 0xcd, 0xc4, 0xc3, 0xfa, 0xf7],
    [0x95, 0x28, 0x45, 0x73, 0x85, 0x74, 0x8e, 0x8f, 0xd5, 0xc8, 0x3f, 0x62, 0x3d, 0x12, 0xfe, 0xec],
    [0x4d, 0x02, 0xb1, 0xbb, 0x4c, 0x99, 0xee, 0xea, 0x81, 0xf6, 0xf3, 0xe4, 0x68, 0x0e, 0x25, 0x08]]"

definition TABLE_S2_13 :: "bytes" where
  "TABLE_S2_13 = concat [
    [0xfa, 0x3d, 0xe2, 0x52, 0x78, 0xab, 0xe5, 0x7a, 0x7d, 0x81, 0x24, 0x88, 0x6a, 0xee, 0x1d, 0x63],
    [0x23, 0x9c, 0xca, 0xf5, 0xa2, 0x89, 0x91, 0xd3, 0xff, 0x02, 0x74, 0x26, 0xac, 0x01, 0xdc, 0x0d],
    [0x84, 0xed, 0xfe, 0x6f, 0x97, 0xde, 0xb7, 0x12, 0xaa, 0x3a, 0x6e, 0xd5, 0x1a, 0xc3, 0xfd, 0x27],
    [0x04, 0xa4, 0x9f, 0x8a, 0x64, 0x7b, 0xd4, 0xdf, 0x54, 0x8c, 0x2f, 0xe6, 0x42, 0x38, 0x8d, 0xc9],
    [0x6d, 0xeb, 0xd7, 0x33, 0x4f, 0x75, 0x6c, 0x5d, 0x25, 0x8f, 0x28, 0x62, 0xa1, 0xb8, 0x90, 0x11],
    [0xba, 0x40, 0x48, 0xa0, 0xe0, 0x4e, 0xbf, 0xd1, 0x0b, 0x76, 0xce, 0x68, 0x93, 0xd2, 0x2e, 0x5e],
    [0x99, 0xc0, 0x1c, 0x4a, 0x16, 0xa3, 0x44, 0x9a, 0x85, 0x2d, 0x67, 0x98, 0x50, 0x82, 0xd9, 0xe4],
    [0x72, 0x45, 0x3b, 0x34, 0xf4, 0x3f, 0x18, 0x1e, 0x83, 0x46, 0x70, 0x05, 0x9b, 0xf1, 0xae, 0x57],
    [0x8e, 0x61, 0x4c, 0xcf, 0xb4, 0xb9, 0x80, 0x87, 0x31, 0x69, 0x56, 0xa8, 0xbb, 0x2c, 0x00, 0x79],
    [0x14, 0xcb, 0xa5, 0xc1, 0xef, 0xf3, 0x32, 0x0c, 0xdd, 0x9e, 0xf6, 0x20, 0x92, 0x19, 0x15, 0x1b],
    [0xa7, 0xb0, 0xb5, 0xc2, 0x4b, 0x66, 0x4d, 0x2b, 0xf8, 0xf2, 0x41, 0x0e, 0xa9, 0xad, 0xda, 0x0f],
    [0x21, 0x7c, 0x8b, 0x96, 0xaf, 0xbd, 0x51, 0x7e, 0x30, 0x06, 0x6b, 0xd6, 0xcc, 0xcd, 0x37, 0xc6],
    [0x60, 0xfb, 0x47, 0xa6, 0x07, 0xe7, 0x22, 0xe8, 0xc7, 0x55, 0x43, 0xe1, 0xf7, 0xec, 0x2a, 0xfc],
    [0x3e, 0xe9, 0x5f, 0xf0, 0xbe, 0xc8, 0x36, 0xb1, 0x95, 0x10, 0x58, 0xc4, 0x0a, 0x65, 0x1f, 0xea],
    [0xb3, 0xdb, 0x49, 0x13, 0xf9, 0xd0, 0x9d, 0x71, 0x5b, 0x3c, 0xc5, 0x5c, 0x59, 0x39, 0x17, 0xe3],
    [0xb2, 0x7f, 0xb6, 0x53, 0x08, 0xd8, 0x35, 0x73, 0x77, 0x03, 0x94, 0xbc, 0x5a, 0x86, 0x09, 0x29]]"

definition TABLE_S2_14 :: "bytes" where
  "TABLE_S2_14 = concat [
    [0x3f, 0x9d, 0xbb, 0x29, 0x56, 0x80, 0x8b, 0x90, 0x3b, 0xda, 0x1c, 0x87, 0x5e, 0x94, 0x7b, 0x9b],
    [0x24, 0xb8, 0xe9, 0x6c, 0x63, 0x96, 0x76, 0x19, 0x23, 0x8c, 0x42, 0x95, 0x4a, 0xcd, 0xc2, 0xb4],
    [0xb9, 0x20, 0x27, 0x40, 0x6b, 0x9f, 0x25, 0x45, 0x35, 0x6f, 0xcf, 0xa7, 0xe1, 0x0d, 0x85, 0xac],
    [0xe8, 0xc0, 0x0b, 0x7f, 0x75, 0x55, 0x26, 0xfa, 0xca, 0x2f, 0xce, 0x03, 0x49, 0x0f, 0x74, 0xa4],
    [0x2a, 0xd4, 0x4d, 0x15, 0x7c, 0x05, 0xc7, 0x50, 0x30, 0xb3, 0xf2, 0x1d, 0xfc, 0xfb, 0xc8, 0xc5],
    [0x8a, 0x5c, 0xa1, 0xe2, 0x69, 0x67, 0xee, 0x65, 0xd9, 0xbd, 0x68, 0xb7, 0x4e, 0x70, 0x93, 0x8f],
    [0x3d, 0x72, 0x84, 0x8e, 0xa6, 0x73, 0xd5, 0xd1, 0xc9, 0xbe, 0xdb, 0xcc, 0x31, 0x57, 0x37, 0x1a],
    [0x17, 0xaa, 0x4c, 0x7a, 0x4b, 0xba, 0xb0, 0xb1, 0xf7, 0xea, 0x5d, 0x00, 0x2d, 0x02, 0xd3, 0xc1],
    [0x54, 0x1e, 0x59, 0xf3, 0xec, 0x6d, 0xdd, 0xc4, 0xab, 0x4f, 0x11, 0x97, 0x10, 0x21, 0x33, 0x09],
    [0xb2, 0x14, 0x77, 0x0a, 0x52, 0x22, 0xef, 0xae, 0x34, 0xdc, 0xc6, 0x3c, 0xc3, 0xad, 0x9c, 0x32],
    [0x1b, 0xe4, 0xf9, 0x51, 0xa5, 0x98, 0x2c, 0xfe, 0x60, 0x36, 0xe5, 0xbc, 0x38, 0xe6, 0x6a, 0xdf],
    [0x0c, 0x79, 0xff, 0x3a, 0xd2, 0x2b, 0xe7, 0x8d, 0x47, 0x48, 0x0e, 0x39, 0x64, 0x62, 0x88, 0x43],
    [0x58, 0xf4, 0x01, 0xfd, 0x61, 0x1f, 0x16, 0x92, 0x9e, 0x2e, 0x86, 0x41, 0x99, 0x06, 0x04, 0xd7],
    [0x08, 0x5a, 0x83, 0x7e, 0xa0, 0x71, 0xd0, 0x7d, 0xb6, 0x89, 0x5f, 0xe0, 0xed, 0xaf, 0xde, 0xf5],
    [0x12, 0xa9, 0xd6, 0x46, 0x81, 0x5b, 0x66, 0xbf, 0x82, 0x13, 0xf8, 0x91, 0xcb, 0x6e, 0xeb, 0xa2],
    [0x53, 0x9a, 0x28, 0xf0, 0xf1, 0xb5, 0x3e, 0x44, 0xe3, 0xf6, 0x78, 0xd8, 0xa8, 0xa3, 0x18, 0x07]]"

definition TABLE_S2_15 :: "bytes" where
  "TABLE_S2_15 = concat [
    [0xef, 0x13, 0xe6, 0x4a, 0x80, 0x04, 0x0d, 0x73, 0x53, 0x94, 0x3c, 0x8c, 0xc5, 0x16, 0x14, 0x8b],
    [0x6c, 0x91, 0x48, 0x1a, 0x6f, 0xc2, 0x63, 0xb2, 0xf2, 0x4d, 0x9b, 0xa4, 0xe7, 0xcc, 0xbd, 0xff],
    [0x54, 0xc4, 0xbb, 0x00, 0xad, 0x74, 0x49, 0x93, 0x83, 0xea, 0x01, 0x90, 0xb0, 0xf9, 0x7c, 0xd9],
    [0xe2, 0x3a, 0x88, 0x41, 0x56, 0x2c, 0xa7, 0xe3, 0xca, 0x6a, 0xe4, 0xf1, 0x15, 0x0a, 0xb1, 0xba],
    [0xe1, 0x4b, 0x0c, 0x46, 0xd6, 0xcf, 0x7f, 0xfe, 0x85, 0x03, 0x5d, 0xb9, 0x1b, 0x21, 0x33, 0x02],
    [0x18, 0x65, 0x06, 0xa0, 0xbc, 0xfd, 0x30, 0x40, 0x2e, 0xd4, 0xce, 0x26, 0x20, 0x8e, 0xbf, 0xd1],
    [0x43, 0xeb, 0xf6, 0x09, 0xec, 0x3e, 0x8a, 0xb7, 0xae, 0xf7, 0x24, 0x72, 0xcd, 0x78, 0xf4, 0x2a],
    [0x28, 0xed, 0x6b, 0x1e, 0x9f, 0xf5, 0x39, 0xc0, 0x2b, 0x1c, 0x5a, 0x55, 0x51, 0x9a, 0x70, 0x76],
    [0x07, 0x5f, 0xc6, 0x38, 0x42, 0xd5, 0x17, 0x6e, 0x0f, 0xe0, 0xa1, 0x22, 0xd7, 0xda, 0xe9, 0xee],
    [0xf0, 0xb3, 0x4e, 0x98, 0x77, 0xfc, 0x75, 0x7b, 0xa5, 0x7a, 0xaf, 0xcb, 0x9d, 0x81, 0x62, 0x5c],
    [0x9c, 0x96, 0x60, 0x2f, 0xc3, 0xc7, 0x61, 0xb4, 0xde, 0xc9, 0xac, 0xdb, 0x08, 0x25, 0x45, 0x23],
    [0x68, 0x5e, 0xb8, 0x05, 0xa3, 0xa2, 0xa8, 0x59, 0x12, 0x4f, 0xf8, 0xe5, 0xd3, 0xc1, 0x10, 0x3f],
    [0x3b, 0xa9, 0x8f, 0x2d, 0x82, 0x99, 0x92, 0x44, 0x95, 0x0e, 0xc8, 0x29, 0x89, 0x69, 0x86, 0x4c],
    [0x7e, 0xfb, 0xaa, 0x36, 0x0b, 0x64, 0x84, 0x71, 0x87, 0x50, 0x9e, 0x31, 0xa6, 0xd0, 0xdf, 0x58],
    [0x52, 0x35, 0x32, 0xab, 0x57, 0x37, 0x8d, 0x79, 0xb5, 0xdd, 0x7d, 0x27, 0xbe, 0x97, 0x1f, 0xf3],
    [0x6d, 0x19, 0xd2, 0xfa, 0xe8, 0x34, 0x47, 0x67, 0x11, 0xdc, 0x3d, 0xd8, 0xb6, 0x66, 0x1d, 0x5b]]"

definition TABLE_S2_16 :: "bytes" where
  "TABLE_S2_16 = concat [
    [0x89, 0x2f, 0x97, 0xea, 0xbf, 0xcf, 0x33, 0x72, 0x41, 0xa9, 0xa1, 0x5b, 0x30, 0x5e, 0xaf, 0x01],
    [0x83, 0xc9, 0x6e, 0xc4, 0xf0, 0x71, 0x59, 0x40, 0xd2, 0x36, 0x0a, 0x8c, 0xbc, 0x8d, 0x94, 0xae],
    [0xe4, 0x91, 0xa7, 0x62, 0xb6, 0x4f, 0x10, 0x7a, 0xd5, 0xda, 0xa4, 0x93, 0xff, 0xf9, 0xde, 0x15],
    [0x79, 0x86, 0xcc, 0x64, 0x05, 0x38, 0x63, 0xb1, 0xab, 0xfd, 0x21, 0x78, 0x7b, 0xa5, 0x42, 0xf7],
    [0xc7, 0x95, 0xe3, 0x1e, 0xec, 0x3d, 0xe0, 0x4d, 0x14, 0x2b, 0x7d, 0xc2, 0x32, 0x70, 0x68, 0x43],
    [0x69, 0xc5, 0x60, 0x9c, 0x82, 0xfc, 0x0f, 0x8b, 0xb3, 0x03, 0xdc, 0x1b, 0x9b, 0x04, 0x4a, 0x99],
    [0x07, 0xce, 0x6d, 0xb5, 0x28, 0x6c, 0xd9, 0xa3, 0x6b, 0x7e, 0x45, 0xe5, 0x3e, 0x35, 0x9a, 0x85],
    [0x34, 0x8f, 0xdb, 0x4b, 0xc6, 0x1c, 0x22, 0xfb, 0x8e, 0x1f, 0x0c, 0x65, 0xf3, 0x56, 0x3f, 0x76],
    [0x25, 0xb9, 0xf1, 0x74, 0x0b, 0xfe, 0x84, 0xeb, 0x11, 0xbe, 0x08, 0xdf, 0x50, 0xd7, 0x29, 0x5f],
    [0x00, 0xa2, 0xb4, 0x26, 0x1d, 0xcb, 0x0d, 0x16, 0x47, 0xa6, 0x1a, 0x81, 0x09, 0xc3, 0x06, 0xe6],
    [0x5d, 0x75, 0xe2, 0x96, 0xc8, 0xe8, 0x67, 0xbb, 0xb2, 0x57, 0x9e, 0x53, 0x92, 0xd4, 0x39, 0xe9],
    [0xbd, 0x24, 0xdd, 0xba, 0x02, 0xf6, 0xd8, 0xb8, 0xf2, 0xa8, 0x3a, 0x52, 0x90, 0x7c, 0x31, 0x18],
    [0xc1, 0x17, 0x7f, 0x3c, 0xfa, 0xf4, 0xf8, 0x73, 0x20, 0x44, 0x2a, 0xf5, 0xed, 0xd3, 0x12, 0x0e],
    [0x49, 0xb7, 0x88, 0xd0, 0x98, 0xe1, 0xcd, 0x5a, 0x2e, 0xad, 0x80, 0x6f, 0x66, 0x61, 0x58, 0x55],
    [0x37, 0x8a, 0xe7, 0xd1, 0x27, 0xd6, 0x2c, 0x2d, 0x77, 0x6a, 0x9d, 0xc0, 0x9f, 0xb0, 0x5c, 0x4e],
    [0xef, 0xa0, 0x13, 0x19, 0xee, 0x3b, 0x4c, 0x48, 0x23, 0x54, 0x51, 0x46, 0xca, 0xac, 0x87, 0xaa]]"

definition TABLE_S2_17 :: "bytes" where
  "TABLE_S2_17 = concat [
    [0x76, 0xb1, 0x6e, 0xde, 0xf4, 0x27, 0x69, 0xf6, 0xf1, 0x0d, 0xa8, 0x04, 0xe6, 0x62, 0x91, 0xef],
    [0xaf, 0x10, 0x46, 0x79, 0x2e, 0x05, 0x1d, 0x5f, 0x73, 0x8e, 0xf8, 0xaa, 0x20, 0x8d, 0x50, 0x81],
    [0x08, 0x61, 0x72, 0xe3, 0x1b, 0x52, 0x3b, 0x9e, 0x26, 0xb6, 0xe2, 0x59, 0x96, 0x4f, 0x71, 0xab],
    [0x88, 0x28, 0x13, 0x06, 0xe8, 0xf7, 0x58, 0x53, 0xd8, 0x00, 0xa3, 0x6a, 0xce, 0xb4, 0x01, 0x45],
    [0xe1, 0x67, 0x5b, 0xbf, 0xc3, 0xf9, 0xe0, 0xd1, 0xa9, 0x03, 0xa4, 0xee, 0x2d, 0x34, 0x1c, 0x9d],
    [0x36, 0xcc, 0xc4, 0x2c, 0x6c, 0xc2, 0x33, 0x5d, 0x87, 0xfa, 0x42, 0xe4, 0x1f, 0x5e, 0xa2, 0xd2],
    [0x15, 0x4c, 0x90, 0xc6, 0x9a, 0x2f, 0xc8, 0x16, 0x09, 0xa1, 0xeb, 0x14, 0xdc, 0x0e, 0x55, 0x68],
    [0xfe, 0xc9, 0xb7, 0xb8, 0x78, 0xb3, 0x94, 0x92, 0x0f, 0xca, 0xfc, 0x89, 0x17, 0x7d, 0x22, 0xdb],
    [0x02, 0xed, 0xc0, 0x43, 0x38, 0x35, 0x0c, 0x0b, 0xbd, 0xe5, 0xda, 0x24, 0x37, 0xa0, 0x8c, 0xf5],
    [0x98, 0x47, 0x29, 0x4d, 0x63, 0x7f, 0xbe, 0x80, 0x51, 0x12, 0x7a, 0xac, 0x1e, 0x95, 0x99, 0x97],
    [0x2b, 0x3c, 0x39, 0x4e, 0xc7, 0xea, 0xc1, 0xa7, 0x74, 0x7e, 0xcd, 0x82, 0x25, 0x21, 0x56, 0x83],
    [0xad, 0xf0, 0x07, 0x1a, 0x23, 0x31, 0xdd, 0xf2, 0xbc, 0x8a, 0xe7, 0x5a, 0x40, 0x41, 0xbb, 0x4a],
    [0xec, 0x77, 0xcb, 0x2a, 0x8b, 0x6b, 0xae, 0x64, 0x4b, 0xd9, 0xcf, 0x6d, 0x7b, 0x60, 0xa6, 0x70],
    [0xb2, 0x65, 0xd3, 0x7c, 0x32, 0x44, 0xba, 0x3d, 0x19, 0x9c, 0xd4, 0x48, 0x86, 0xe9, 0x93, 0x66],
    [0x3f, 0x57, 0xc5, 0x9f, 0x75, 0x5c, 0x11, 0xfd, 0xd7, 0xb0, 0x49, 0xd0, 0xd5, 0xb5, 0x9b, 0x6f],
    [0x3e, 0xf3, 0x3a, 0xdf, 0x84, 0x54, 0xb9, 0xff, 0xfb, 0x8f, 0x18, 0x30, 0xd6, 0x0a, 0x85, 0xa5]]"

definition TABLE_S2_18 :: "bytes" where
  "TABLE_S2_18 = concat [
    [0x17, 0xb5, 0x93, 0x01, 0x7e, 0xa8, 0xa3, 0xb8, 0x13, 0xf2, 0x34, 0xaf, 0x76, 0xbc, 0x53, 0xb3],
    [0x0c, 0x90, 0xc1, 0x44, 0x4b, 0xbe, 0x5e, 0x31, 0x0b, 0xa4, 0x6a, 0xbd, 0x62, 0xe5, 0xea, 0x9c],
    [0x91, 0x08, 0x0f, 0x68, 0x43, 0xb7, 0x0d, 0x6d, 0x1d, 0x47, 0xe7, 0x8f, 0xc9, 0x25, 0xad, 0x84],
    [0xc0, 0xe8, 0x23, 0x57, 0x5d, 0x7d, 0x0e, 0xd2, 0xe2, 0x07, 0xe6, 0x2b, 0x61, 0x27, 0x5c, 0x8c],
    [0x02, 0xfc, 0x65, 0x3d, 0x54, 0x2d, 0xef, 0x78, 0x18, 0x9b, 0xda, 0x35, 0xd4, 0xd3, 0xe0, 0xed],
    [0xa2, 0x74, 0x89, 0xca, 0x41, 0x4f, 0xc6, 0x4d, 0xf1, 0x95, 0x40, 0x9f, 0x66, 0x58, 0xbb, 0xa7],
    [0x15, 0x5a, 0xac, 0xa6, 0x8e, 0x5b, 0xfd, 0xf9, 0xe1, 0x96, 0xf3, 0xe4, 0x19, 0x7f, 0x1f, 0x32],
    [0x3f, 0x82, 0x64, 0x52, 0x63, 0x92, 0x98, 0x99, 0xdf, 0xc2, 0x75, 0x28, 0x05, 0x2a, 0xfb, 0xe9],
    [0x7c, 0x36, 0x71, 0xdb, 0xc4, 0x45, 0xf5, 0xec, 0x83, 0x67, 0x39, 0xbf, 0x38, 0x09, 0x1b, 0x21],
    [0x9a, 0x3c, 0x5f, 0x22, 0x7a, 0x0a, 0xc7, 0x86, 0x1c, 0xf4, 0xee, 0x14, 0xeb, 0x85, 0xb4, 0x1a],
    [0x33, 0xcc, 0xd1, 0x79, 0x8d, 0xb0, 0x04, 0xd6, 0x48, 0x1e, 0xcd, 0x94, 0x10, 0xce, 0x42, 0xf7],
    [0x24, 0x51, 0xd7, 0x12, 0xfa, 0x03, 0xcf, 0xa5, 0x6f, 0x60, 0x26, 0x11, 0x4c, 0x4a, 0xa0, 0x6b],
    [0x70, 0xdc, 0x29, 0xd5, 0x49, 0x37, 0x3e, 0xba, 0xb6, 0x06, 0xae, 0x69, 0xb1, 0x2e, 0x2c, 0xff],
    [0x20, 0x72, 0xab, 0x56, 0x88, 0x59, 0xf8, 0x55, 0x9e, 0xa1, 0x77, 0xc8, 0xc5, 0x87, 0xf6, 0xdd],
    [0x3a, 0x81, 0xfe, 0x6e, 0xa9, 0x73, 0x4e, 0x97, 0xaa, 0x3b, 0xd0, 0xb9, 0xe3, 0x46, 0xc3, 0x8a],
    [0x7b, 0xb2, 0x00, 0xd8, 0xd9, 0x9d, 0x16, 0x6c, 0xcb, 0xde, 0x50, 0xf0, 0x80, 0x8b, 0x30, 0x2f]]"

definition TABLE_S2_19 :: "bytes" where
  "TABLE_S2_19 = concat [
    [0x34, 0xc8, 0x3d, 0x91, 0x5b, 0xdf, 0xd6, 0xa8, 0x88, 0x4f, 0xe7, 0x57, 0x1e, 0xcd, 0xcf, 0x50],
    [0xb7, 0x4a, 0x93, 0xc1, 0xb4, 0x19, 0xb8, 0x69, 0x29, 0x96, 0x40, 0x7f, 0x3c, 0x17, 0x66, 0x24],
    [0x8f, 0x1f, 0x60, 0xdb, 0x76, 0xaf, 0x92, 0x48, 0x58, 0x31, 0xda, 0x4b, 0x6b, 0x22, 0xa7, 0x02],
    [0x39, 0xe1, 0x53, 0x9a, 0x8d, 0xf7, 0x7c, 0x38, 0x11, 0xb1, 0x3f, 0x2a, 0xce, 0xd1, 0x6a, 0x61],
    [0x3a, 0x90, 0xd7, 0x9d, 0x0d, 0x14, 0xa4, 0x25, 0x5e, 0xd8, 0x86, 0x62, 0xc0, 0xfa, 0xe8, 0xd9],
    [0xc3, 0xbe, 0xdd, 0x7b, 0x67, 0x26, 0xeb, 0x9b, 0xf5, 0x0f, 0x15, 0xfd, 0xfb, 0x55, 0x64, 0x0a],
    [0x98, 0x30, 0x2d, 0xd2, 0x37, 0xe5, 0x51, 0x6c, 0x75, 0x2c, 0xff, 0xa9, 0x16, 0xa3, 0x2f, 0xf1],
    [0xf3, 0x36, 0xb0, 0xc5, 0x44, 0x2e, 0xe2, 0x1b, 0xf0, 0xc7, 0x81, 0x8e, 0x8a, 0x41, 0xab, 0xad],
    [0xdc, 0x84, 0x1d, 0xe3, 0x99, 0x0e, 0xcc, 0xb5, 0xd4, 0x3b, 0x7a, 0xf9, 0x0c, 0x01, 0x32, 0x35],
    [0x2b, 0x68, 0x95, 0x43, 0xac, 0x27, 0xae, 0xa0, 0x7e, 0xa1, 0x74, 0x10, 0x46, 0x5a, 0xb9, 0x87],
    [0x47, 0x4d, 0xbb, 0xf4, 0x18, 0x1c, 0xba, 0x6f, 0x05, 0x12, 0x77, 0x00, 0xd3, 0xfe, 0x9e, 0xf8],
    [0xb3, 0x85, 0x63, 0xde, 0x78, 0x79, 0x73, 0x82, 0xc9, 0x94, 0x23, 0x3e, 0x08, 0x1a, 0xcb, 0xe4],
    [0xe0, 0x72, 0x54, 0xf6, 0x59, 0x42, 0x49, 0x9f, 0x4e, 0xd5, 0x13, 0xf2, 0x52, 0xb2, 0x5d, 0x97],
    [0xa5, 0x20, 0x71, 0xed, 0xd0, 0xbf, 0x5f, 0xaa, 0x5c, 0x8b, 0x45, 0xea, 0x7d, 0x0b, 0x04, 0x83],
    [0x89, 0xee, 0xe9, 0x70, 0x8c, 0xec, 0x56, 0xa2, 0x6e, 0x06, 0xa6, 0xfc, 0x65, 0x4c, 0xc4, 0x28],
    [0xb6, 0xc2, 0x09, 0x21, 0x33, 0xef, 0x9c, 0xbc, 0xca, 0x07, 0xe6, 0x03, 0x6d, 0xbd, 0xc6, 0x80]]"

definition TABLE_S2_20 :: "bytes" where
  "TABLE_S2_20 = concat [
    [0x5b, 0xfd, 0x45, 0x38, 0x6d, 0x1d, 0xe1, 0xa0, 0x93, 0x7b, 0x73, 0x89, 0xe2, 0x8c, 0x7d, 0xd3],
    [0x51, 0x1b, 0xbc, 0x16, 0x22, 0xa3, 0x8b, 0x92, 0x00, 0xe4, 0xd8, 0x5e, 0x6e, 0x5f, 0x46, 0x7c],
    [0x36, 0x43, 0x75, 0xb0, 0x64, 0x9d, 0xc2, 0xa8, 0x07, 0x08, 0x76, 0x41, 0x2d, 0x2b, 0x0c, 0xc7],
    [0xab, 0x54, 0x1e, 0xb6, 0xd7, 0xea, 0xb1, 0x63, 0x79, 0x2f, 0xf3, 0xaa, 0xa9, 0x77, 0x90, 0x25],
    [0x15, 0x47, 0x31, 0xcc, 0x3e, 0xef, 0x32, 0x9f, 0xc6, 0xf9, 0xaf, 0x10, 0xe0, 0xa2, 0xba, 0x91],
    [0xbb, 0x17, 0xb2, 0x4e, 0x50, 0x2e, 0xdd, 0x59, 0x61, 0xd1, 0x0e, 0xc9, 0x49, 0xd6, 0x98, 0x4b],
    [0xd5, 0x1c, 0xbf, 0x67, 0xfa, 0xbe, 0x0b, 0x71, 0xb9, 0xac, 0x97, 0x37, 0xec, 0xe7, 0x48, 0x57],
    [0xe6, 0x5d, 0x09, 0x99, 0x14, 0xce, 0xf0, 0x29, 0x5c, 0xcd, 0xde, 0xb7, 0x21, 0x84, 0xed, 0xa4],
    [0xf7, 0x6b, 0x23, 0xa6, 0xd9, 0x2c, 0x56, 0x39, 0xc3, 0x6c, 0xda, 0x0d, 0x82, 0x05, 0xfb, 0x8d],
    [0xd2, 0x70, 0x66, 0xf4, 0xcf, 0x19, 0xdf, 0xc4, 0x95, 0x74, 0xc8, 0x53, 0xdb, 0x11, 0xd4, 0x34],
    [0x8f, 0xa7, 0x30, 0x44, 0x1a, 0x3a, 0xb5, 0x69, 0x60, 0x85, 0x4c, 0x81, 0x40, 0x06, 0xeb, 0x3b],
    [0x6f, 0xf6, 0x0f, 0x68, 0xd0, 0x24, 0x0a, 0x6a, 0x20, 0x7a, 0xe8, 0x80, 0x42, 0xae, 0xe3, 0xca],
    [0x13, 0xc5, 0xad, 0xee, 0x28, 0x26, 0x2a, 0xa1, 0xf2, 0x96, 0xf8, 0x27, 0x3f, 0x01, 0xc0, 0xdc],
    [0x9b, 0x65, 0x5a, 0x02, 0x4a, 0x33, 0x1f, 0x88, 0xfc, 0x7f, 0x52, 0xbd, 0xb4, 0xb3, 0x8a, 0x87],
    [0xe5, 0x58, 0x35, 0x03, 0xf5, 0x04, 0xfe, 0xff, 0xa5, 0xb8, 0x4f, 0x12, 0x4d, 0x62, 0x8e, 0x9c],
    [0x3d, 0x72, 0xc1, 0xcb, 0x3c, 0xe9, 0x9e, 0x9a, 0xf1, 0x86, 0x83, 0x94, 0x18, 0x7e, 0x55, 0x78]]"

definition TABLE_S2_21 :: "bytes" where
  "TABLE_S2_21 = concat [
    [0xc0, 0x07, 0xd8, 0x68, 0x42, 0x91, 0xdf, 0x40, 0x47, 0xbb, 0x1e, 0xb2, 0x50, 0xd4, 0x27, 0x59],
    [0x19, 0xa6, 0xf0, 0xcf, 0x98, 0xb3, 0xab, 0xe9, 0xc5, 0x38, 0x4e, 0x1c, 0x96, 0x3b, 0xe6, 0x37],
    [0xbe, 0xd7, 0xc4, 0x55, 0xad, 0xe4, 0x8d, 0x28, 0x90, 0x00, 0x54, 0xef, 0x20, 0xf9, 0xc7, 0x1d],
    [0x3e, 0x9e, 0xa5, 0xb0, 0x5e, 0x41, 0xee, 0xe5, 0x6e, 0xb6, 0x15, 0xdc, 0x78, 0x02, 0xb7, 0xf3],
    [0x57, 0xd1, 0xed, 0x09, 0x75, 0x4f, 0x56, 0x67, 0x1f, 0xb5, 0x12, 0x58, 0x9b, 0x82, 0xaa, 0x2b],
    [0x80, 0x7a, 0x72, 0x9a, 0xda, 0x74, 0x85, 0xeb, 0x31, 0x4c, 0xf4, 0x52, 0xa9, 0xe8, 0x14, 0x64],
    [0xa3, 0xfa, 0x26, 0x70, 0x2c, 0x99, 0x7e, 0xa0, 0xbf, 0x17, 0x5d, 0xa2, 0x6a, 0xb8, 0xe3, 0xde],
    [0x48, 0x7f, 0x01, 0x0e, 0xce, 0x05, 0x22, 0x24, 0xb9, 0x7c, 0x4a, 0x3f, 0xa1, 0xcb, 0x94, 0x6d],
    [0xb4, 0x5b, 0x76, 0xf5, 0x8e, 0x83, 0xba, 0xbd, 0x0b, 0x53, 0x6c, 0x92, 0x81, 0x16, 0x3a, 0x43],
    [0x2e, 0xf1, 0x9f, 0xfb, 0xd5, 0xc9, 0x08, 0x36, 0xe7, 0xa4, 0xcc, 0x1a, 0xa8, 0x23, 0x2f, 0x21],
    [0x9d, 0x8a, 0x8f, 0xf8, 0x71, 0x5c, 0x77, 0x11, 0xc2, 0xc8, 0x7b, 0x34, 0x93, 0x97, 0xe0, 0x35],
    [0x1b, 0x46, 0xb1, 0xac, 0x95, 0x87, 0x6b, 0x44, 0x0a, 0x3c, 0x51, 0xec, 0xf6, 0xf7, 0x0d, 0xfc],
    [0x5a, 0xc1, 0x7d, 0x9c, 0x3d, 0xdd, 0x18, 0xd2, 0xfd, 0x6f, 0x79, 0xdb, 0xcd, 0xd6, 0x10, 0xc6],
    [0x04, 0xd3, 0x65, 0xca, 0x84, 0xf2, 0x0c, 0x8b, 0xaf, 0x2a, 0x62, 0xfe, 0x30, 0x5f, 0x25, 0xd0],
    [0x89, 0xe1, 0x73, 0x29, 0xc3, 0xea, 0xa7, 0x4b, 0x61, 0x06, 0xff, 0x66, 0x63, 0x03, 0x2d, 0xd9],
    [0x88, 0x45, 0x8c, 0x69, 0x32, 0xe2, 0x0f, 0x49, 0x4d, 0x39, 0xae, 0x86, 0x60, 0xbc, 0x33, 0x13]]"

definition TABLE_S2_22 :: "bytes" where
  "TABLE_S2_22 = concat [
    [0xc8, 0x6a, 0x4c, 0xde, 0xa1, 0x77, 0x7c, 0x67, 0xcc, 0x2d, 0xeb, 0x70, 0xa9, 0x63, 0x8c, 0x6c],
    [0xd3, 0x4f, 0x1e, 0x9b, 0x94, 0x61, 0x81, 0xee, 0xd4, 0x7b, 0xb5, 0x62, 0xbd, 0x3a, 0x35, 0x43],
    [0x4e, 0xd7, 0xd0, 0xb7, 0x9c, 0x68, 0xd2, 0xb2, 0xc2, 0x98, 0x38, 0x50, 0x16, 0xfa, 0x72, 0x5b],
    [0x1f, 0x37, 0xfc, 0x88, 0x82, 0xa2, 0xd1, 0x0d, 0x3d, 0xd8, 0x39, 0xf4, 0xbe, 0xf8, 0x83, 0x53],
    [0xdd, 0x23, 0xba, 0xe2, 0x8b, 0xf2, 0x30, 0xa7, 0xc7, 0x44, 0x05, 0xea, 0x0b, 0x0c, 0x3f, 0x32],
    [0x7d, 0xab, 0x56, 0x15, 0x9e, 0x90, 0x19, 0x92, 0x2e, 0x4a, 0x9f, 0x40, 0xb9, 0x87, 0x64, 0x78],
    [0xca, 0x85, 0x73, 0x79, 0x51, 0x84, 0x22, 0x26, 0x3e, 0x49, 0x2c, 0x3b, 0xc6, 0xa0, 0xc0, 0xed],
    [0xe0, 0x5d, 0xbb, 0x8d, 0xbc, 0x4d, 0x47, 0x46, 0x00, 0x1d, 0xaa, 0xf7, 0xda, 0xf5, 0x24, 0x36],
    [0xa3, 0xe9, 0xae, 0x04, 0x1b, 0x9a, 0x2a, 0x33, 0x5c, 0xb8, 0xe6, 0x60, 0xe7, 0xd6, 0xc4, 0xfe],
    [0x45, 0xe3, 0x80, 0xfd, 0xa5, 0xd5, 0x18, 0x59, 0xc3, 0x2b, 0x31, 0xcb, 0x34, 0x5a, 0x6b, 0xc5],
    [0xec, 0x13, 0x0e, 0xa6, 0x52, 0x6f, 0xdb, 0x09, 0x97, 0xc1, 0x12, 0x4b, 0xcf, 0x11, 0x9d, 0x28],
    [0xfb, 0x8e, 0x08, 0xcd, 0x25, 0xdc, 0x10, 0x7a, 0xb0, 0xbf, 0xf9, 0xce, 0x93, 0x95, 0x7f, 0xb4],
    [0xaf, 0x03, 0xf6, 0x0a, 0x96, 0xe8, 0xe1, 0x65, 0x69, 0xd9, 0x71, 0xb6, 0x6e, 0xf1, 0xf3, 0x20],
    [0xff, 0xad, 0x74, 0x89, 0x57, 0x86, 0x27, 0x8a, 0x41, 0x7e, 0xa8, 0x17, 0x1a, 0x58, 0x29, 0x02],
    [0xe5, 0x5e, 0x21, 0xb1, 0x76, 0xac, 0x91, 0x48, 0x75, 0xe4, 0x0f, 0x66, 0x3c, 0x99, 0x1c, 0x55],
    [0xa4, 0x6d, 0xdf, 0x07, 0x06, 0x42, 0xc9, 0xb3, 0x14, 0x01, 0x8f, 0x2f, 0x5f, 0x54, 0xef, 0xf0]]"

definition TABLE_S2_23 :: "bytes" where
  "TABLE_S2_23 = concat [
    [0xee, 0x12, 0xe7, 0x4b, 0x81, 0x05, 0x0c, 0x72, 0x52, 0x95, 0x3d, 0x8d, 0xc4, 0x17, 0x15, 0x8a],
    [0x6d, 0x90, 0x49, 0x1b, 0x6e, 0xc3, 0x62, 0xb3, 0xf3, 0x4c, 0x9a, 0xa5, 0xe6, 0xcd, 0xbc, 0xfe],
    [0x55, 0xc5, 0xba, 0x01, 0xac, 0x75, 0x48, 0x92, 0x82, 0xeb, 0x00, 0x91, 0xb1, 0xf8, 0x7d, 0xd8],
    [0xe3, 0x3b, 0x89, 0x40, 0x57, 0x2d, 0xa6, 0xe2, 0xcb, 0x6b, 0xe5, 0xf0, 0x14, 0x0b, 0xb0, 0xbb],
    [0xe0, 0x4a, 0x0d, 0x47, 0xd7, 0xce, 0x7e, 0xff, 0x84, 0x02, 0x5c, 0xb8, 0x1a, 0x20, 0x32, 0x03],
    [0x19, 0x64, 0x07, 0xa1, 0xbd, 0xfc, 0x31, 0x41, 0x2f, 0xd5, 0xcf, 0x27, 0x21, 0x8f, 0xbe, 0xd0],
    [0x42, 0xea, 0xf7, 0x08, 0xed, 0x3f, 0x8b, 0xb6, 0xaf, 0xf6, 0x25, 0x73, 0xcc, 0x79, 0xf5, 0x2b],
    [0x29, 0xec, 0x6a, 0x1f, 0x9e, 0xf4, 0x38, 0xc1, 0x2a, 0x1d, 0x5b, 0x54, 0x50, 0x9b, 0x71, 0x77],
    [0x06, 0x5e, 0xc7, 0x39, 0x43, 0xd4, 0x16, 0x6f, 0x0e, 0xe1, 0xa0, 0x23, 0xd6, 0xdb, 0xe8, 0xef],
    [0xf1, 0xb2, 0x4f, 0x99, 0x76, 0xfd, 0x74, 0x7a, 0xa4, 0x7b, 0xae, 0xca, 0x9c, 0x80, 0x63, 0x5d],
    [0x9d, 0x97, 0x61, 0x2e, 0xc2, 0xc6, 0x60, 0xb5, 0xdf, 0xc8, 0xad, 0xda, 0x09, 0x24, 0x44, 0x22],
    [0x69, 0x5f, 0xb9, 0x04, 0xa2, 0xa3, 0xa9, 0x58, 0x13, 0x4e, 0xf9, 0xe4, 0xd2, 0xc0, 0x11, 0x3e],
    [0x3a, 0xa8, 0x8e, 0x2c, 0x83, 0x98, 0x93, 0x45, 0x94, 0x0f, 0xc9, 0x28, 0x88, 0x68, 0x87, 0x4d],
    [0x7f, 0xfa, 0xab, 0x37, 0x0a, 0x65, 0x85, 0x70, 0x86, 0x51, 0x9f, 0x30, 0xa7, 0xd1, 0xde, 0x59],
    [0x53, 0x34, 0x33, 0xaa, 0x56, 0x36, 0x8c, 0x78, 0xb4, 0xdc, 0x7c, 0x26, 0xbf, 0x96, 0x1e, 0xf2],
    [0x6c, 0x18, 0xd3, 0xfb, 0xe9, 0x35, 0x46, 0x66, 0x10, 0xdd, 0x3c, 0xd9, 0xb7, 0x67, 0x1c, 0x5a]]"

definition TABLE_S2_24 :: "bytes" where
  "TABLE_S2_24 = concat [
    [0xa7, 0x01, 0xb9, 0xc4, 0x91, 0xe1, 0x1d, 0x5c, 0x6f, 0x87, 0x8f, 0x75, 0x1e, 0x70, 0x81, 0x2f],
    [0xad, 0xe7, 0x40, 0xea, 0xde, 0x5f, 0x77, 0x6e, 0xfc, 0x18, 0x24, 0xa2, 0x92, 0xa3, 0xba, 0x80],
    [0xca, 0xbf, 0x89, 0x4c, 0x98, 0x61, 0x3e, 0x54, 0xfb, 0xf4, 0x8a, 0xbd, 0xd1, 0xd7, 0xf0, 0x3b],
    [0x57, 0xa8, 0xe2, 0x4a, 0x2b, 0x16, 0x4d, 0x9f, 0x85, 0xd3, 0x0f, 0x56, 0x55, 0x8b, 0x6c, 0xd9],
    [0xe9, 0xbb, 0xcd, 0x30, 0xc2, 0x13, 0xce, 0x63, 0x3a, 0x05, 0x53, 0xec, 0x1c, 0x5e, 0x46, 0x6d],
    [0x47, 0xeb, 0x4e, 0xb2, 0xac, 0xd2, 0x21, 0xa5, 0x9d, 0x2d, 0xf2, 0x35, 0xb5, 0x2a, 0x64, 0xb7],
    [0x29, 0xe0, 0x43, 0x9b, 0x06, 0x42, 0xf7, 0x8d, 0x45, 0x50, 0x6b, 0xcb, 0x10, 0x1b, 0xb4, 0xab],
    [0x1a, 0xa1, 0xf5, 0x65, 0xe8, 0x32, 0x0c, 0xd5, 0xa0, 0x31, 0x22, 0x4b, 0xdd, 0x78, 0x11, 0x58],
    [0x0b, 0x97, 0xdf, 0x5a, 0x25, 0xd0, 0xaa, 0xc5, 0x3f, 0x90, 0x26, 0xf1, 0x7e, 0xf9, 0x07, 0x71],
    [0x2e, 0x8c, 0x9a, 0x08, 0x33, 0xe5, 0x23, 0x38, 0x69, 0x88, 0x34, 0xaf, 0x27, 0xed, 0x28, 0xc8],
    [0x73, 0x5b, 0xcc, 0xb8, 0xe6, 0xc6, 0x49, 0x95, 0x9c, 0x79, 0xb0, 0x7d, 0xbc, 0xfa, 0x17, 0xc7],
    [0x93, 0x0a, 0xf3, 0x94, 0x2c, 0xd8, 0xf6, 0x96, 0xdc, 0x86, 0x14, 0x7c, 0xbe, 0x52, 0x1f, 0x36],
    [0xef, 0x39, 0x51, 0x12, 0xd4, 0xda, 0xd6, 0x5d, 0x0e, 0x6a, 0x04, 0xdb, 0xc3, 0xfd, 0x3c, 0x20],
    [0x67, 0x99, 0xa6, 0xfe, 0xb6, 0xcf, 0xe3, 0x74, 0x00, 0x83, 0xae, 0x41, 0x48, 0x4f, 0x76, 0x7b],
    [0x19, 0xa4, 0xc9, 0xff, 0x09, 0xf8, 0x02, 0x03, 0x59, 0x44, 0xb3, 0xee, 0xb1, 0x9e, 0x72, 0x60],
    [0xc1, 0x8e, 0x3d, 0x37, 0xc0, 0x15, 0x62, 0x66, 0x0d, 0x7a, 0x7f, 0x68, 0xe4, 0x82, 0xa9, 0x84]]"

definition TABLE_S2_25 :: "bytes" where
  "TABLE_S2_25 = concat [
    [0x28, 0xef, 0x30, 0x80, 0xaa, 0x79, 0x37, 0xa8, 0xaf, 0x53, 0xf6, 0x5a, 0xb8, 0x3c, 0xcf, 0xb1],
    [0xf1, 0x4e, 0x18, 0x27, 0x70, 0x5b, 0x43, 0x01, 0x2d, 0xd0, 0xa6, 0xf4, 0x7e, 0xd3, 0x0e, 0xdf],
    [0x56, 0x3f, 0x2c, 0xbd, 0x45, 0x0c, 0x65, 0xc0, 0x78, 0xe8, 0xbc, 0x07, 0xc8, 0x11, 0x2f, 0xf5],
    [0xd6, 0x76, 0x4d, 0x58, 0xb6, 0xa9, 0x06, 0x0d, 0x86, 0x5e, 0xfd, 0x34, 0x90, 0xea, 0x5f, 0x1b],
    [0xbf, 0x39, 0x05, 0xe1, 0x9d, 0xa7, 0xbe, 0x8f, 0xf7, 0x5d, 0xfa, 0xb0, 0x73, 0x6a, 0x42, 0xc3],
    [0x68, 0x92, 0x9a, 0x72, 0x32, 0x9c, 0x6d, 0x03, 0xd9, 0xa4, 0x1c, 0xba, 0x41, 0x00, 0xfc, 0x8c],
    [0x4b, 0x12, 0xce, 0x98, 0xc4, 0x71, 0x96, 0x48, 0x57, 0xff, 0xb5, 0x4a, 0x82, 0x50, 0x0b, 0x36],
    [0xa0, 0x97, 0xe9, 0xe6, 0x26, 0xed, 0xca, 0xcc, 0x51, 0x94, 0xa2, 0xd7, 0x49, 0x23, 0x7c, 0x85],
    [0x5c, 0xb3, 0x9e, 0x1d, 0x66, 0x6b, 0x52, 0x55, 0xe3, 0xbb, 0x84, 0x7a, 0x69, 0xfe, 0xd2, 0xab],
    [0xc6, 0x19, 0x77, 0x13, 0x3d, 0x21, 0xe0, 0xde, 0x0f, 0x4c, 0x24, 0xf2, 0x40, 0xcb, 0xc7, 0xc9],
    [0x75, 0x62, 0x67, 0x10, 0x99, 0xb4, 0x9f, 0xf9, 0x2a, 0x20, 0x93, 0xdc, 0x7b, 0x7f, 0x08, 0xdd],
    [0xf3, 0xae, 0x59, 0x44, 0x7d, 0x6f, 0x83, 0xac, 0xe2, 0xd4, 0xb9, 0x04, 0x1e, 0x1f, 0xe5, 0x14],
    [0xb2, 0x29, 0x95, 0x74, 0xd5, 0x35, 0xf0, 0x3a, 0x15, 0x87, 0x91, 0x33, 0x25, 0x3e, 0xf8, 0x2e],
    [0xec, 0x3b, 0x8d, 0x22, 0x6c, 0x1a, 0xe4, 0x63, 0x47, 0xc2, 0x8a, 0x16, 0xd8, 0xb7, 0xcd, 0x38],
    [0x61, 0x09, 0x9b, 0xc1, 0x2b, 0x02, 0x4f, 0xa3, 0x89, 0xee, 0x17, 0x8e, 0x8b, 0xeb, 0xc5, 0x31],
    [0x60, 0xad, 0x64, 0x81, 0xda, 0x0a, 0xe7, 0xa1, 0xa5, 0xd1, 0x46, 0x6e, 0x88, 0x54, 0xdb, 0xfb]]"

definition TABLE_S2_26 :: "bytes" where
  "TABLE_S2_26 = concat [
    [0x6c, 0xce, 0xe8, 0x7a, 0x05, 0xd3, 0xd8, 0xc3, 0x68, 0x89, 0x4f, 0xd4, 0x0d, 0xc7, 0x28, 0xc8],
    [0x77, 0xeb, 0xba, 0x3f, 0x30, 0xc5, 0x25, 0x4a, 0x70, 0xdf, 0x11, 0xc6, 0x19, 0x9e, 0x91, 0xe7],
    [0xea, 0x73, 0x74, 0x13, 0x38, 0xcc, 0x76, 0x16, 0x66, 0x3c, 0x9c, 0xf4, 0xb2, 0x5e, 0xd6, 0xff],
    [0xbb, 0x93, 0x58, 0x2c, 0x26, 0x06, 0x75, 0xa9, 0x99, 0x7c, 0x9d, 0x50, 0x1a, 0x5c, 0x27, 0xf7],
    [0x79, 0x87, 0x1e, 0x46, 0x2f, 0x56, 0x94, 0x03, 0x63, 0xe0, 0xa1, 0x4e, 0xaf, 0xa8, 0x9b, 0x96],
    [0xd9, 0x0f, 0xf2, 0xb1, 0x3a, 0x34, 0xbd, 0x36, 0x8a, 0xee, 0x3b, 0xe4, 0x1d, 0x23, 0xc0, 0xdc],
    [0x6e, 0x21, 0xd7, 0xdd, 0xf5, 0x20, 0x86, 0x82, 0x9a, 0xed, 0x88, 0x9f, 0x62, 0x04, 0x64, 0x49],
    [0x44, 0xf9, 0x1f, 0x29, 0x18, 0xe9, 0xe3, 0xe2, 0xa4, 0xb9, 0x0e, 0x53, 0x7e, 0x51, 0x80, 0x92],
    [0x07, 0x4d, 0x0a, 0xa0, 0xbf, 0x3e, 0x8e, 0x97, 0xf8, 0x1c, 0x42, 0xc4, 0x43, 0x72, 0x60, 0x5a],
    [0xe1, 0x47, 0x24, 0x59, 0x01, 0x71, 0xbc, 0xfd, 0x67, 0x8f, 0x95, 0x6f, 0x90, 0xfe, 0xcf, 0x61],
    [0x48, 0xb7, 0xaa, 0x02, 0xf6, 0xcb, 0x7f, 0xad, 0x33, 0x65, 0xb6, 0xef, 0x6b, 0xb5, 0x39, 0x8c],
    [0x5f, 0x2a, 0xac, 0x69, 0x81, 0x78, 0xb4, 0xde, 0x14, 0x1b, 0x5d, 0x6a, 0x37, 0x31, 0xdb, 0x10],
    [0x0b, 0xa7, 0x52, 0xae, 0x32, 0x4c, 0x45, 0xc1, 0xcd, 0x7d, 0xd5, 0x12, 0xca, 0x55, 0x57, 0x84],
    [0x5b, 0x09, 0xd0, 0x2d, 0xf3, 0x22, 0x83, 0x2e, 0xe5, 0xda, 0x0c, 0xb3, 0xbe, 0xfc, 0x8d, 0xa6],
    [0x41, 0xfa, 0x85, 0x15, 0xd2, 0x08, 0x35, 0xec, 0xd1, 0x40, 0xab, 0xc2, 0x98, 0x3d, 0xb8, 0xf1],
    [0x00, 0xc9, 0x7b, 0xa3, 0xa2, 0xe6, 0x6d, 0x17, 0xb0, 0xa5, 0x2b, 0x8b, 0xfb, 0xf0, 0x4b, 0x54]]"

definition TABLE_S2_27 :: "bytes" where
  "TABLE_S2_27 = concat [
    [0x29, 0xd5, 0x20, 0x8c, 0x46, 0xc2, 0xcb, 0xb5, 0x95, 0x52, 0xfa, 0x4a, 0x03, 0xd0, 0xd2, 0x4d],
    [0xaa, 0x57, 0x8e, 0xdc, 0xa9, 0x04, 0xa5, 0x74, 0x34, 0x8b, 0x5d, 0x62, 0x21, 0x0a, 0x7b, 0x39],
    [0x92, 0x02, 0x7d, 0xc6, 0x6b, 0xb2, 0x8f, 0x55, 0x45, 0x2c, 0xc7, 0x56, 0x76, 0x3f, 0xba, 0x1f],
    [0x24, 0xfc, 0x4e, 0x87, 0x90, 0xea, 0x61, 0x25, 0x0c, 0xac, 0x22, 0x37, 0xd3, 0xcc, 0x77, 0x7c],
    [0x27, 0x8d, 0xca, 0x80, 0x10, 0x09, 0xb9, 0x38, 0x43, 0xc5, 0x9b, 0x7f, 0xdd, 0xe7, 0xf5, 0xc4],
    [0xde, 0xa3, 0xc0, 0x66, 0x7a, 0x3b, 0xf6, 0x86, 0xe8, 0x12, 0x08, 0xe0, 0xe6, 0x48, 0x79, 0x17],
    [0x85, 0x2d, 0x30, 0xcf, 0x2a, 0xf8, 0x4c, 0x71, 0x68, 0x31, 0xe2, 0xb4, 0x0b, 0xbe, 0x32, 0xec],
    [0xee, 0x2b, 0xad, 0xd8, 0x59, 0x33, 0xff, 0x06, 0xed, 0xda, 0x9c, 0x93, 0x97, 0x5c, 0xb6, 0xb0],
    [0xc1, 0x99, 0x00, 0xfe, 0x84, 0x13, 0xd1, 0xa8, 0xc9, 0x26, 0x67, 0xe4, 0x11, 0x1c, 0x2f, 0x28],
    [0x36, 0x75, 0x88, 0x5e, 0xb1, 0x3a, 0xb3, 0xbd, 0x63, 0xbc, 0x69, 0x0d, 0x5b, 0x47, 0xa4, 0x9a],
    [0x5a, 0x50, 0xa6, 0xe9, 0x05, 0x01, 0xa7, 0x72, 0x18, 0x0f, 0x6a, 0x1d, 0xce, 0xe3, 0x83, 0xe5],
    [0xae, 0x98, 0x7e, 0xc3, 0x65, 0x64, 0x6e, 0x9f, 0xd4, 0x89, 0x3e, 0x23, 0x15, 0x07, 0xd6, 0xf9],
    [0xfd, 0x6f, 0x49, 0xeb, 0x44, 0x5f, 0x54, 0x82, 0x53, 0xc8, 0x0e, 0xef, 0x4f, 0xaf, 0x40, 0x8a],
    [0xb8, 0x3d, 0x6c, 0xf0, 0xcd, 0xa2, 0x42, 0xb7, 0x41, 0x96, 0x58, 0xf7, 0x60, 0x16, 0x19, 0x9e],
    [0x94, 0xf3, 0xf4, 0x6d, 0x91, 0xf1, 0x4b, 0xbf, 0x73, 0x1b, 0xbb, 0xe1, 0x78, 0x51, 0xd9, 0x35],
    [0xab, 0xdf, 0x14, 0x3c, 0x2e, 0xf2, 0x81, 0xa1, 0xd7, 0x1a, 0xfb, 0x1e, 0x70, 0xa0, 0xdb, 0x9d]]"

definition TABLE_S2_28 :: "bytes" where
  "TABLE_S2_28 = concat [
    [0xc8, 0x6e, 0xd6, 0xab, 0xfe, 0x8e, 0x72, 0x33, 0x00, 0xe8, 0xe0, 0x1a, 0x71, 0x1f, 0xee, 0x40],
    [0xc2, 0x88, 0x2f, 0x85, 0xb1, 0x30, 0x18, 0x01, 0x93, 0x77, 0x4b, 0xcd, 0xfd, 0xcc, 0xd5, 0xef],
    [0xa5, 0xd0, 0xe6, 0x23, 0xf7, 0x0e, 0x51, 0x3b, 0x94, 0x9b, 0xe5, 0xd2, 0xbe, 0xb8, 0x9f, 0x54],
    [0x38, 0xc7, 0x8d, 0x25, 0x44, 0x79, 0x22, 0xf0, 0xea, 0xbc, 0x60, 0x39, 0x3a, 0xe4, 0x03, 0xb6],
    [0x86, 0xd4, 0xa2, 0x5f, 0xad, 0x7c, 0xa1, 0x0c, 0x55, 0x6a, 0x3c, 0x83, 0x73, 0x31, 0x29, 0x02],
    [0x28, 0x84, 0x21, 0xdd, 0xc3, 0xbd, 0x4e, 0xca, 0xf2, 0x42, 0x9d, 0x5a, 0xda, 0x45, 0x0b, 0xd8],
    [0x46, 0x8f, 0x2c, 0xf4, 0x69, 0x2d, 0x98, 0xe2, 0x2a, 0x3f, 0x04, 0xa4, 0x7f, 0x74, 0xdb, 0xc4],
    [0x75, 0xce, 0x9a, 0x0a, 0x87, 0x5d, 0x63, 0xba, 0xcf, 0x5e, 0x4d, 0x24, 0xb2, 0x17, 0x7e, 0x37],
    [0x64, 0xf8, 0xb0, 0x35, 0x4a, 0xbf, 0xc5, 0xaa, 0x50, 0xff, 0x49, 0x9e, 0x11, 0x96, 0x68, 0x1e],
    [0x41, 0xe3, 0xf5, 0x67, 0x5c, 0x8a, 0x4c, 0x57, 0x06, 0xe7, 0x5b, 0xc0, 0x48, 0x82, 0x47, 0xa7],
    [0x1c, 0x34, 0xa3, 0xd7, 0x89, 0xa9, 0x26, 0xfa, 0xf3, 0x16, 0xdf, 0x12, 0xd3, 0x95, 0x78, 0xa8],
    [0xfc, 0x65, 0x9c, 0xfb, 0x43, 0xb7, 0x99, 0xf9, 0xb3, 0xe9, 0x7b, 0x13, 0xd1, 0x3d, 0x70, 0x59],
    [0x80, 0x56, 0x3e, 0x7d, 0xbb, 0xb5, 0xb9, 0x32, 0x61, 0x05, 0x6b, 0xb4, 0xac, 0x92, 0x53, 0x4f],
    [0x08, 0xf6, 0xc9, 0x91, 0xd9, 0xa0, 0x8c, 0x1b, 0x6f, 0xec, 0xc1, 0x2e, 0x27, 0x20, 0x19, 0x14],
    [0x76, 0xcb, 0xa6, 0x90, 0x66, 0x97, 0x6d, 0x6c, 0x36, 0x2b, 0xdc, 0x81, 0xde, 0xf1, 0x1d, 0x0f],
    [0xae, 0xe1, 0x52, 0x58, 0xaf, 0x7a, 0x0d, 0x09, 0x62, 0x15, 0x10, 0x07, 0x8b, 0xed, 0xc6, 0xeb]]"

definition TABLE_S2_29 :: "bytes" where
  "TABLE_S2_29 = concat [
    [0x21, 0xe6, 0x39, 0x89, 0xa3, 0x70, 0x3e, 0xa1, 0xa6, 0x5a, 0xff, 0x53, 0xb1, 0x35, 0xc6, 0xb8],
    [0xf8, 0x47, 0x11, 0x2e, 0x79, 0x52, 0x4a, 0x08, 0x24, 0xd9, 0xaf, 0xfd, 0x77, 0xda, 0x07, 0xd6],
    [0x5f, 0x36, 0x25, 0xb4, 0x4c, 0x05, 0x6c, 0xc9, 0x71, 0xe1, 0xb5, 0x0e, 0xc1, 0x18, 0x26, 0xfc],
    [0xdf, 0x7f, 0x44, 0x51, 0xbf, 0xa0, 0x0f, 0x04, 0x8f, 0x57, 0xf4, 0x3d, 0x99, 0xe3, 0x56, 0x12],
    [0xb6, 0x30, 0x0c, 0xe8, 0x94, 0xae, 0xb7, 0x86, 0xfe, 0x54, 0xf3, 0xb9, 0x7a, 0x63, 0x4b, 0xca],
    [0x61, 0x9b, 0x93, 0x7b, 0x3b, 0x95, 0x64, 0x0a, 0xd0, 0xad, 0x15, 0xb3, 0x48, 0x09, 0xf5, 0x85],
    [0x42, 0x1b, 0xc7, 0x91, 0xcd, 0x78, 0x9f, 0x41, 0x5e, 0xf6, 0xbc, 0x43, 0x8b, 0x59, 0x02, 0x3f],
    [0xa9, 0x9e, 0xe0, 0xef, 0x2f, 0xe4, 0xc3, 0xc5, 0x58, 0x9d, 0xab, 0xde, 0x40, 0x2a, 0x75, 0x8c],
    [0x55, 0xba, 0x97, 0x14, 0x6f, 0x62, 0x5b, 0x5c, 0xea, 0xb2, 0x8d, 0x73, 0x60, 0xf7, 0xdb, 0xa2],
    [0xcf, 0x10, 0x7e, 0x1a, 0x34, 0x28, 0xe9, 0xd7, 0x06, 0x45, 0x2d, 0xfb, 0x49, 0xc2, 0xce, 0xc0],
    [0x7c, 0x6b, 0x6e, 0x19, 0x90, 0xbd, 0x96, 0xf0, 0x23, 0x29, 0x9a, 0xd5, 0x72, 0x76, 0x01, 0xd4],
    [0xfa, 0xa7, 0x50, 0x4d, 0x74, 0x66, 0x8a, 0xa5, 0xeb, 0xdd, 0xb0, 0x0d, 0x17, 0x16, 0xec, 0x1d],
    [0xbb, 0x20, 0x9c, 0x7d, 0xdc, 0x3c, 0xf9, 0x33, 0x1c, 0x8e, 0x98, 0x3a, 0x2c, 0x37, 0xf1, 0x27],
    [0xe5, 0x32, 0x84, 0x2b, 0x65, 0x13, 0xed, 0x6a, 0x4e, 0xcb, 0x83, 0x1f, 0xd1, 0xbe, 0xc4, 0x31],
    [0x68, 0x00, 0x92, 0xc8, 0x22, 0x0b, 0x46, 0xaa, 0x80, 0xe7, 0x1e, 0x87, 0x82, 0xe2, 0xcc, 0x38],
    [0x69, 0xa4, 0x6d, 0x88, 0xd3, 0x03, 0xee, 0xa8, 0xac, 0xd8, 0x4f, 0x67, 0x81, 0x5d, 0xd2, 0xf2]]"

definition TABLE_S2_30 :: "bytes" where
  "TABLE_S2_30 = concat [
    [0xe9, 0x4b, 0x6d, 0xff, 0x80, 0x56, 0x5d, 0x46, 0xed, 0x0c, 0xca, 0x51, 0x88, 0x42, 0xad, 0x4d],
    [0xf2, 0x6e, 0x3f, 0xba, 0xb5, 0x40, 0xa0, 0xcf, 0xf5, 0x5a, 0x94, 0x43, 0x9c, 0x1b, 0x14, 0x62],
    [0x6f, 0xf6, 0xf1, 0x96, 0xbd, 0x49, 0xf3, 0x93, 0xe3, 0xb9, 0x19, 0x71, 0x37, 0xdb, 0x53, 0x7a],
    [0x3e, 0x16, 0xdd, 0xa9, 0xa3, 0x83, 0xf0, 0x2c, 0x1c, 0xf9, 0x18, 0xd5, 0x9f, 0xd9, 0xa2, 0x72],
    [0xfc, 0x02, 0x9b, 0xc3, 0xaa, 0xd3, 0x11, 0x86, 0xe6, 0x65, 0x24, 0xcb, 0x2a, 0x2d, 0x1e, 0x13],
    [0x5c, 0x8a, 0x77, 0x34, 0xbf, 0xb1, 0x38, 0xb3, 0x0f, 0x6b, 0xbe, 0x61, 0x98, 0xa6, 0x45, 0x59],
    [0xeb, 0xa4, 0x52, 0x58, 0x70, 0xa5, 0x03, 0x07, 0x1f, 0x68, 0x0d, 0x1a, 0xe7, 0x81, 0xe1, 0xcc],
    [0xc1, 0x7c, 0x9a, 0xac, 0x9d, 0x6c, 0x66, 0x67, 0x21, 0x3c, 0x8b, 0xd6, 0xfb, 0xd4, 0x05, 0x17],
    [0x82, 0xc8, 0x8f, 0x25, 0x3a, 0xbb, 0x0b, 0x12, 0x7d, 0x99, 0xc7, 0x41, 0xc6, 0xf7, 0xe5, 0xdf],
    [0x64, 0xc2, 0xa1, 0xdc, 0x84, 0xf4, 0x39, 0x78, 0xe2, 0x0a, 0x10, 0xea, 0x15, 0x7b, 0x4a, 0xe4],
    [0xcd, 0x32, 0x2f, 0x87, 0x73, 0x4e, 0xfa, 0x28, 0xb6, 0xe0, 0x33, 0x6a, 0xee, 0x30, 0xbc, 0x09],
    [0xda, 0xaf, 0x29, 0xec, 0x04, 0xfd, 0x31, 0x5b, 0x91, 0x9e, 0xd8, 0xef, 0xb2, 0xb4, 0x5e, 0x95],
    [0x8e, 0x22, 0xd7, 0x2b, 0xb7, 0xc9, 0xc0, 0x44, 0x48, 0xf8, 0x50, 0x97, 0x4f, 0xd0, 0xd2, 0x01],
    [0xde, 0x8c, 0x55, 0xa8, 0x76, 0xa7, 0x06, 0xab, 0x60, 0x5f, 0x89, 0x36, 0x3b, 0x79, 0x08, 0x23],
    [0xc4, 0x7f, 0x00, 0x90, 0x57, 0x8d, 0xb0, 0x69, 0x54, 0xc5, 0x2e, 0x47, 0x1d, 0xb8, 0x3d, 0x74],
    [0x85, 0x4c, 0xfe, 0x26, 0x27, 0x63, 0xe8, 0x92, 0x35, 0x20, 0xae, 0x0e, 0x7e, 0x75, 0xce, 0xd1]]"

definition TABLE_S2_31 :: "bytes" where
  "TABLE_S2_31 = concat [
    [0x8e, 0x72, 0x87, 0x2b, 0xe1, 0x65, 0x6c, 0x12, 0x32, 0xf5, 0x5d, 0xed, 0xa4, 0x77, 0x75, 0xea],
    [0x0d, 0xf0, 0x29, 0x7b, 0x0e, 0xa3, 0x02, 0xd3, 0x93, 0x2c, 0xfa, 0xc5, 0x86, 0xad, 0xdc, 0x9e],
    [0x35, 0xa5, 0xda, 0x61, 0xcc, 0x15, 0x28, 0xf2, 0xe2, 0x8b, 0x60, 0xf1, 0xd1, 0x98, 0x1d, 0xb8],
    [0x83, 0x5b, 0xe9, 0x20, 0x37, 0x4d, 0xc6, 0x82, 0xab, 0x0b, 0x85, 0x90, 0x74, 0x6b, 0xd0, 0xdb],
    [0x80, 0x2a, 0x6d, 0x27, 0xb7, 0xae, 0x1e, 0x9f, 0xe4, 0x62, 0x3c, 0xd8, 0x7a, 0x40, 0x52, 0x63],
    [0x79, 0x04, 0x67, 0xc1, 0xdd, 0x9c, 0x51, 0x21, 0x4f, 0xb5, 0xaf, 0x47, 0x41, 0xef, 0xde, 0xb0],
    [0x22, 0x8a, 0x97, 0x68, 0x8d, 0x5f, 0xeb, 0xd6, 0xcf, 0x96, 0x45, 0x13, 0xac, 0x19, 0x95, 0x4b],
    [0x49, 0x8c, 0x0a, 0x7f, 0xfe, 0x94, 0x58, 0xa1, 0x4a, 0x7d, 0x3b, 0x34, 0x30, 0xfb, 0x11, 0x17],
    [0x66, 0x3e, 0xa7, 0x59, 0x23, 0xb4, 0x76, 0x0f, 0x6e, 0x81, 0xc0, 0x43, 0xb6, 0xbb, 0x88, 0x8f],
    [0x91, 0xd2, 0x2f, 0xf9, 0x16, 0x9d, 0x14, 0x1a, 0xc4, 0x1b, 0xce, 0xaa, 0xfc, 0xe0, 0x03, 0x3d],
    [0xfd, 0xf7, 0x01, 0x4e, 0xa2, 0xa6, 0x00, 0xd5, 0xbf, 0xa8, 0xcd, 0xba, 0x69, 0x44, 0x24, 0x42],
    [0x09, 0x3f, 0xd9, 0x64, 0xc2, 0xc3, 0xc9, 0x38, 0x73, 0x2e, 0x99, 0x84, 0xb2, 0xa0, 0x71, 0x5e],
    [0x5a, 0xc8, 0xee, 0x4c, 0xe3, 0xf8, 0xf3, 0x25, 0xf4, 0x6f, 0xa9, 0x48, 0xe8, 0x08, 0xe7, 0x2d],
    [0x1f, 0x9a, 0xcb, 0x57, 0x6a, 0x05, 0xe5, 0x10, 0xe6, 0x31, 0xff, 0x50, 0xc7, 0xb1, 0xbe, 0x39],
    [0x33, 0x54, 0x53, 0xca, 0x36, 0x56, 0xec, 0x18, 0xd4, 0xbc, 0x1c, 0x46, 0xdf, 0xf6, 0x7e, 0x92],
    [0x0c, 0x78, 0xb3, 0x9b, 0x89, 0x55, 0x26, 0x06, 0x70, 0xbd, 0x5c, 0xb9, 0xd7, 0x07, 0x7c, 0x3a]]"

definition TABLE_S2_32 :: "bytes" where
  "TABLE_S2_32 = concat [
    [0xfa, 0x3b, 0x87, 0x55, 0xc6, 0x13, 0xdc, 0x89, 0xb8, 0xc7, 0x67, 0xc9, 0xbc, 0x82, 0x28, 0x44],
    [0xaf, 0xdf, 0x77, 0xd4, 0x05, 0x49, 0xf6, 0x7d, 0x07, 0xd9, 0xca, 0xf9, 0xe1, 0x08, 0x29, 0x04],
    [0xae, 0xd8, 0x65, 0xad, 0x63, 0xc2, 0x23, 0x61, 0x7f, 0x1f, 0x7e, 0x02, 0x7c, 0x79, 0xcf, 0x15],
    [0x60, 0xf5, 0x4b, 0xa7, 0x58, 0x11, 0x2a, 0x9d, 0x39, 0x0c, 0x56, 0xa3, 0x12, 0xbf, 0x69, 0x9a],
    [0x6a, 0x7b, 0x2d, 0x27, 0x34, 0xcb, 0x99, 0xf4, 0x3e, 0x80, 0x0e, 0xd1, 0x90, 0x78, 0xe6, 0xe4],
    [0x76, 0xa0, 0x6e, 0xf3, 0x2b, 0x33, 0x41, 0x3c, 0x3d, 0x4a, 0x83, 0x73, 0x50, 0xa6, 0x42, 0x1b],
    [0xb4, 0x0b, 0x96, 0x18, 0x48, 0x03, 0xe8, 0x47, 0x5d, 0xcd, 0xaa, 0x86, 0x16, 0xbd, 0x62, 0xfb],
    [0xbb, 0x32, 0x6f, 0xfe, 0xe7, 0x8f, 0x1d, 0xff, 0xb7, 0xa4, 0x0d, 0x5f, 0xd7, 0x52, 0x94, 0x6c],
    [0x71, 0xc8, 0xb2, 0x25, 0x6d, 0xec, 0xd6, 0xa5, 0x35, 0xa1, 0xd2, 0xc0, 0x46, 0x40, 0x1c, 0x20],
    [0xbe, 0x4f, 0xee, 0xb9, 0xf0, 0xea, 0xba, 0xd0, 0x38, 0x3f, 0x8a, 0x2e, 0x0f, 0x21, 0x8c, 0xb6],
    [0x5c, 0x43, 0xd5, 0xf2, 0x68, 0x4d, 0xf7, 0xb1, 0x57, 0xd3, 0xfc, 0xda, 0xc5, 0xfd, 0x8e, 0x66],
    [0xab, 0xe3, 0x17, 0x88, 0x72, 0x92, 0xac, 0x3a, 0x01, 0x8d, 0xc1, 0x85, 0x24, 0xf8, 0xf1, 0xef],
    [0x59, 0x97, 0x64, 0xce, 0x8b, 0x75, 0x9b, 0x5b, 0x51, 0x0a, 0x37, 0x00, 0xde, 0xc3, 0x81, 0x7a],
    [0x9e, 0xeb, 0xe0, 0x2c, 0x9c, 0x1e, 0x9f, 0xa9, 0x06, 0xe2, 0xcc, 0x70, 0x5e, 0x26, 0xb5, 0x5a],
    [0x09, 0xc4, 0xed, 0xdd, 0xa2, 0x1a, 0x91, 0x84, 0xb0, 0x22, 0x4e, 0x2f, 0x10, 0x98, 0x45, 0xe9],
    [0xe5, 0x4c, 0x74, 0x95, 0x93, 0x54, 0xdb, 0x36, 0xa8, 0x30, 0x31, 0x19, 0x6b, 0xb3, 0x53, 0x14]]"

definition TABLE_S2_33 :: "bytes" where
  "TABLE_S2_33 = concat [
    [0x43, 0x84, 0x5b, 0xeb, 0xc1, 0x12, 0x5c, 0xc3, 0xc4, 0x38, 0x9d, 0x31, 0xd3, 0x57, 0xa4, 0xda],
    [0x9a, 0x25, 0x73, 0x4c, 0x1b, 0x30, 0x28, 0x6a, 0x46, 0xbb, 0xcd, 0x9f, 0x15, 0xb8, 0x65, 0xb4],
    [0x3d, 0x54, 0x47, 0xd6, 0x2e, 0x67, 0x0e, 0xab, 0x13, 0x83, 0xd7, 0x6c, 0xa3, 0x7a, 0x44, 0x9e],
    [0xbd, 0x1d, 0x26, 0x33, 0xdd, 0xc2, 0x6d, 0x66, 0xed, 0x35, 0x96, 0x5f, 0xfb, 0x81, 0x34, 0x70],
    [0xd4, 0x52, 0x6e, 0x8a, 0xf6, 0xcc, 0xd5, 0xe4, 0x9c, 0x36, 0x91, 0xdb, 0x18, 0x01, 0x29, 0xa8],
    [0x03, 0xf9, 0xf1, 0x19, 0x59, 0xf7, 0x06, 0x68, 0xb2, 0xcf, 0x77, 0xd1, 0x2a, 0x6b, 0x97, 0xe7],
    [0x20, 0x79, 0xa5, 0xf3, 0xaf, 0x1a, 0xfd, 0x23, 0x3c, 0x94, 0xde, 0x21, 0xe9, 0x3b, 0x60, 0x5d],
    [0xcb, 0xfc, 0x82, 0x8d, 0x4d, 0x86, 0xa1, 0xa7, 0x3a, 0xff, 0xc9, 0xbc, 0x22, 0x48, 0x17, 0xee],
    [0x37, 0xd8, 0xf5, 0x76, 0x0d, 0x00, 0x39, 0x3e, 0x88, 0xd0, 0xef, 0x11, 0x02, 0x95, 0xb9, 0xc0],
    [0xad, 0x72, 0x1c, 0x78, 0x56, 0x4a, 0x8b, 0xb5, 0x64, 0x27, 0x4f, 0x99, 0x2b, 0xa0, 0xac, 0xa2],
    [0x1e, 0x09, 0x0c, 0x7b, 0xf2, 0xdf, 0xf4, 0x92, 0x41, 0x4b, 0xf8, 0xb7, 0x10, 0x14, 0x63, 0xb6],
    [0x98, 0xc5, 0x32, 0x2f, 0x16, 0x04, 0xe8, 0xc7, 0x89, 0xbf, 0xd2, 0x6f, 0x75, 0x74, 0x8e, 0x7f],
    [0xd9, 0x42, 0xfe, 0x1f, 0xbe, 0x5e, 0x9b, 0x51, 0x7e, 0xec, 0xfa, 0x58, 0x4e, 0x55, 0x93, 0x45],
    [0x87, 0x50, 0xe6, 0x49, 0x07, 0x71, 0x8f, 0x08, 0x2c, 0xa9, 0xe1, 0x7d, 0xb3, 0xdc, 0xa6, 0x53],
    [0x0a, 0x62, 0xf0, 0xaa, 0x40, 0x69, 0x24, 0xc8, 0xe2, 0x85, 0x7c, 0xe5, 0xe0, 0x80, 0xae, 0x5a],
    [0x0b, 0xc6, 0x0f, 0xea, 0xb1, 0x61, 0x8c, 0xca, 0xce, 0xba, 0x2d, 0x05, 0xe3, 0x3f, 0xb0, 0x90]]"

definition TABLE_S2_34 :: "bytes" where
  "TABLE_S2_34 = concat [
    [0xc2, 0x60, 0x46, 0xd4, 0xab, 0x7d, 0x76, 0x6d, 0xc6, 0x27, 0xe1, 0x7a, 0xa3, 0x69, 0x86, 0x66],
    [0xd9, 0x45, 0x14, 0x91, 0x9e, 0x6b, 0x8b, 0xe4, 0xde, 0x71, 0xbf, 0x68, 0xb7, 0x30, 0x3f, 0x49],
    [0x44, 0xdd, 0xda, 0xbd, 0x96, 0x62, 0xd8, 0xb8, 0xc8, 0x92, 0x32, 0x5a, 0x1c, 0xf0, 0x78, 0x51],
    [0x15, 0x3d, 0xf6, 0x82, 0x88, 0xa8, 0xdb, 0x07, 0x37, 0xd2, 0x33, 0xfe, 0xb4, 0xf2, 0x89, 0x59],
    [0xd7, 0x29, 0xb0, 0xe8, 0x81, 0xf8, 0x3a, 0xad, 0xcd, 0x4e, 0x0f, 0xe0, 0x01, 0x06, 0x35, 0x38],
    [0x77, 0xa1, 0x5c, 0x1f, 0x94, 0x9a, 0x13, 0x98, 0x24, 0x40, 0x95, 0x4a, 0xb3, 0x8d, 0x6e, 0x72],
    [0xc0, 0x8f, 0x79, 0x73, 0x5b, 0x8e, 0x28, 0x2c, 0x34, 0x43, 0x26, 0x31, 0xcc, 0xaa, 0xca, 0xe7],
    [0xea, 0x57, 0xb1, 0x87, 0xb6, 0x47, 0x4d, 0x4c, 0x0a, 0x17, 0xa0, 0xfd, 0xd0, 0xff, 0x2e, 0x3c],
    [0xa9, 0xe3, 0xa4, 0x0e, 0x11, 0x90, 0x20, 0x39, 0x56, 0xb2, 0xec, 0x6a, 0xed, 0xdc, 0xce, 0xf4],
    [0x4f, 0xe9, 0x8a, 0xf7, 0xaf, 0xdf, 0x12, 0x53, 0xc9, 0x21, 0x3b, 0xc1, 0x3e, 0x50, 0x61, 0xcf],
    [0xe6, 0x19, 0x04, 0xac, 0x58, 0x65, 0xd1, 0x03, 0x9d, 0xcb, 0x18, 0x41, 0xc5, 0x1b, 0x97, 0x22],
    [0xf1, 0x84, 0x02, 0xc7, 0x2f, 0xd6, 0x1a, 0x70, 0xba, 0xb5, 0xf3, 0xc4, 0x99, 0x9f, 0x75, 0xbe],
    [0xa5, 0x09, 0xfc, 0x00, 0x9c, 0xe2, 0xeb, 0x6f, 0x63, 0xd3, 0x7b, 0xbc, 0x64, 0xfb, 0xf9, 0x2a],
    [0xf5, 0xa7, 0x7e, 0x83, 0x5d, 0x8c, 0x2d, 0x80, 0x4b, 0x74, 0xa2, 0x1d, 0x10, 0x52, 0x23, 0x08],
    [0xef, 0x54, 0x2b, 0xbb, 0x7c, 0xa6, 0x9b, 0x42, 0x7f, 0xee, 0x05, 0x6c, 0x36, 0x93, 0x16, 0x5f],
    [0xae, 0x67, 0xd5, 0x0d, 0x0c, 0x48, 0xc3, 0xb9, 0x1e, 0x0b, 0x85, 0x25, 0x55, 0x5e, 0xe5, 0xfa]]"

definition TABLE_S2_35 :: "bytes" where
  "TABLE_S2_35 = concat [
    [0xd5, 0xa8, 0xbf, 0xa7, 0xfa, 0x67, 0xe2, 0x34, 0xd6, 0x8f, 0xc4, 0x32, 0x17, 0xe7, 0xa9, 0xde],
    [0x0d, 0x60, 0xa0, 0x5f, 0xb9, 0xb3, 0xfe, 0xef, 0x72, 0x70, 0x04, 0xec, 0x9a, 0x45, 0xaa, 0x14],
    [0x89, 0x6b, 0x73, 0x1b, 0xfb, 0x6a, 0x2f, 0xa6, 0x00, 0xf8, 0x43, 0xc6, 0x99, 0xcb, 0x23, 0x30],
    [0x7c, 0xd3, 0xdc, 0x97, 0x02, 0x8c, 0x20, 0x9f, 0xf6, 0x6f, 0x82, 0x29, 0x3e, 0x12, 0xc9, 0x59],
    [0x62, 0xe9, 0x91, 0xdd, 0xe3, 0x40, 0x3b, 0x4b, 0xbd, 0x90, 0x75, 0x9c, 0x5e, 0x6d, 0x93, 0x4d],
    [0x48, 0x1d, 0x52, 0x87, 0x13, 0xc1, 0x6e, 0xaf, 0xbc, 0xd0, 0x28, 0x16, 0xf3, 0x5d, 0x2c, 0x53],
    [0xbe, 0x09, 0xcc, 0x85, 0xdf, 0x33, 0xf4, 0x61, 0xfd, 0x0e, 0x86, 0x2b, 0xc2, 0x37, 0xad, 0x98],
    [0xb7, 0xf5, 0xf7, 0x56, 0xf1, 0x39, 0x3a, 0x4c, 0x5b, 0x81, 0xe8, 0xed, 0xea, 0x96, 0xeb, 0x8b],
    [0x0b, 0x3d, 0x08, 0x8a, 0x74, 0xb8, 0x0a, 0x7f, 0x21, 0xce, 0xca, 0xb2, 0x58, 0xe4, 0x92, 0x76],
    [0x0f, 0xcf, 0x1f, 0xe1, 0xf0, 0x5a, 0xcd, 0x03, 0x15, 0xee, 0x4a, 0x57, 0xa3, 0x94, 0xc5, 0x9e],
    [0x4f, 0xa2, 0x07, 0xc0, 0xe0, 0x01, 0x71, 0xd8, 0xc7, 0x80, 0xff, 0x27, 0xa5, 0x8d, 0x3c, 0xa4],
    [0x05, 0x10, 0x36, 0x8e, 0x79, 0x49, 0x9d, 0x50, 0xd1, 0x7d, 0x84, 0x0c, 0xda, 0xbb, 0x24, 0xb6],
    [0x2e, 0x44, 0x64, 0x7e, 0x7a, 0x2d, 0x2a, 0xdb, 0x18, 0x22, 0x9b, 0xb5, 0x1e, 0xba, 0xac, 0xab],
    [0x42, 0x31, 0xf9, 0x78, 0x26, 0xb1, 0xe5, 0x5c, 0x88, 0xb4, 0xd2, 0xd4, 0x46, 0x54, 0xa1, 0x35],
    [0x38, 0xae, 0xe6, 0x06, 0x83, 0x1c, 0x3f, 0x77, 0x65, 0x7b, 0xb0, 0x6c, 0x55, 0x11, 0x95, 0x19],
    [0x63, 0x25, 0xfc, 0xd9, 0x41, 0x66, 0xc8, 0xd7, 0x1a, 0xf2, 0x51, 0x69, 0x68, 0x4e, 0xc3, 0x47]]"

definition TABLE_S2_36 :: "bytes" where
  "TABLE_S2_36 = concat [
    [0x44, 0xe2, 0x5a, 0x27, 0x72, 0x02, 0xfe, 0xbf, 0x8c, 0x64, 0x6c, 0x96, 0xfd, 0x93, 0x62, 0xcc],
    [0x4e, 0x04, 0xa3, 0x09, 0x3d, 0xbc, 0x94, 0x8d, 0x1f, 0xfb, 0xc7, 0x41, 0x71, 0x40, 0x59, 0x63],
    [0x29, 0x5c, 0x6a, 0xaf, 0x7b, 0x82, 0xdd, 0xb7, 0x18, 0x17, 0x69, 0x5e, 0x32, 0x34, 0x13, 0xd8],
    [0xb4, 0x4b, 0x01, 0xa9, 0xc8, 0xf5, 0xae, 0x7c, 0x66, 0x30, 0xec, 0xb5, 0xb6, 0x68, 0x8f, 0x3a],
    [0x0a, 0x58, 0x2e, 0xd3, 0x21, 0xf0, 0x2d, 0x80, 0xd9, 0xe6, 0xb0, 0x0f, 0xff, 0xbd, 0xa5, 0x8e],
    [0xa4, 0x08, 0xad, 0x51, 0x4f, 0x31, 0xc2, 0x46, 0x7e, 0xce, 0x11, 0xd6, 0x56, 0xc9, 0x87, 0x54],
    [0xca, 0x03, 0xa0, 0x78, 0xe5, 0xa1, 0x14, 0x6e, 0xa6, 0xb3, 0x88, 0x28, 0xf3, 0xf8, 0x57, 0x48],
    [0xf9, 0x42, 0x16, 0x86, 0x0b, 0xd1, 0xef, 0x36, 0x43, 0xd2, 0xc1, 0xa8, 0x3e, 0x9b, 0xf2, 0xbb],
    [0xe8, 0x74, 0x3c, 0xb9, 0xc6, 0x33, 0x49, 0x26, 0xdc, 0x73, 0xc5, 0x12, 0x9d, 0x1a, 0xe4, 0x92],
    [0xcd, 0x6f, 0x79, 0xeb, 0xd0, 0x06, 0xc0, 0xdb, 0x8a, 0x6b, 0xd7, 0x4c, 0xc4, 0x0e, 0xcb, 0x2b],
    [0x90, 0xb8, 0x2f, 0x5b, 0x05, 0x25, 0xaa, 0x76, 0x7f, 0x9a, 0x53, 0x9e, 0x5f, 0x19, 0xf4, 0x24],
    [0x70, 0xe9, 0x10, 0x77, 0xcf, 0x3b, 0x15, 0x75, 0x3f, 0x65, 0xf7, 0x9f, 0x5d, 0xb1, 0xfc, 0xd5],
    [0x0c, 0xda, 0xb2, 0xf1, 0x37, 0x39, 0x35, 0xbe, 0xed, 0x89, 0xe7, 0x38, 0x20, 0x1e, 0xdf, 0xc3],
    [0x84, 0x7a, 0x45, 0x1d, 0x55, 0x2c, 0x00, 0x97, 0xe3, 0x60, 0x4d, 0xa2, 0xab, 0xac, 0x95, 0x98],
    [0xfa, 0x47, 0x2a, 0x1c, 0xea, 0x1b, 0xe1, 0xe0, 0xba, 0xa7, 0x50, 0x0d, 0x52, 0x7d, 0x91, 0x83],
    [0x22, 0x6d, 0xde, 0xd4, 0x23, 0xf6, 0x81, 0x85, 0xee, 0x99, 0x9c, 0x8b, 0x07, 0x61, 0x4a, 0x67]]"

definition TABLE_S2_37 :: "bytes" where
  "TABLE_S2_37 = concat [
    [0xd0, 0x17, 0xc8, 0x78, 0x52, 0x81, 0xcf, 0x50, 0x57, 0xab, 0x0e, 0xa2, 0x40, 0xc4, 0x37, 0x49],
    [0x09, 0xb6, 0xe0, 0xdf, 0x88, 0xa3, 0xbb, 0xf9, 0xd5, 0x28, 0x5e, 0x0c, 0x86, 0x2b, 0xf6, 0x27],
    [0xae, 0xc7, 0xd4, 0x45, 0xbd, 0xf4, 0x9d, 0x38, 0x80, 0x10, 0x44, 0xff, 0x30, 0xe9, 0xd7, 0x0d],
    [0x2e, 0x8e, 0xb5, 0xa0, 0x4e, 0x51, 0xfe, 0xf5, 0x7e, 0xa6, 0x05, 0xcc, 0x68, 0x12, 0xa7, 0xe3],
    [0x47, 0xc1, 0xfd, 0x19, 0x65, 0x5f, 0x46, 0x77, 0x0f, 0xa5, 0x02, 0x48, 0x8b, 0x92, 0xba, 0x3b],
    [0x90, 0x6a, 0x62, 0x8a, 0xca, 0x64, 0x95, 0xfb, 0x21, 0x5c, 0xe4, 0x42, 0xb9, 0xf8, 0x04, 0x74],
    [0xb3, 0xea, 0x36, 0x60, 0x3c, 0x89, 0x6e, 0xb0, 0xaf, 0x07, 0x4d, 0xb2, 0x7a, 0xa8, 0xf3, 0xce],
    [0x58, 0x6f, 0x11, 0x1e, 0xde, 0x15, 0x32, 0x34, 0xa9, 0x6c, 0x5a, 0x2f, 0xb1, 0xdb, 0x84, 0x7d],
    [0xa4, 0x4b, 0x66, 0xe5, 0x9e, 0x93, 0xaa, 0xad, 0x1b, 0x43, 0x7c, 0x82, 0x91, 0x06, 0x2a, 0x53],
    [0x3e, 0xe1, 0x8f, 0xeb, 0xc5, 0xd9, 0x18, 0x26, 0xf7, 0xb4, 0xdc, 0x0a, 0xb8, 0x33, 0x3f, 0x31],
    [0x8d, 0x9a, 0x9f, 0xe8, 0x61, 0x4c, 0x67, 0x01, 0xd2, 0xd8, 0x6b, 0x24, 0x83, 0x87, 0xf0, 0x25],
    [0x0b, 0x56, 0xa1, 0xbc, 0x85, 0x97, 0x7b, 0x54, 0x1a, 0x2c, 0x41, 0xfc, 0xe6, 0xe7, 0x1d, 0xec],
    [0x4a, 0xd1, 0x6d, 0x8c, 0x2d, 0xcd, 0x08, 0xc2, 0xed, 0x7f, 0x69, 0xcb, 0xdd, 0xc6, 0x00, 0xd6],
    [0x14, 0xc3, 0x75, 0xda, 0x94, 0xe2, 0x1c, 0x9b, 0xbf, 0x3a, 0x72, 0xee, 0x20, 0x4f, 0x35, 0xc0],
    [0x99, 0xf1, 0x63, 0x39, 0xd3, 0xfa, 0xb7, 0x5b, 0x71, 0x16, 0xef, 0x76, 0x73, 0x13, 0x3d, 0xc9],
    [0x98, 0x55, 0x9c, 0x79, 0x22, 0xf2, 0x1f, 0x59, 0x5d, 0x29, 0xbe, 0x96, 0x70, 0xac, 0x23, 0x03]]"

definition TABLE_S2_38 :: "bytes" where
  "TABLE_S2_38 = concat [
    [0x69, 0x2b, 0x29, 0x88, 0x2f, 0xe7, 0xe4, 0x92, 0x85, 0x5f, 0x36, 0x33, 0x34, 0x48, 0x35, 0x55],
    [0x60, 0xd7, 0x12, 0x5b, 0x01, 0xed, 0x2a, 0xbf, 0x23, 0xd0, 0x58, 0xf5, 0x1c, 0xe9, 0x73, 0x46],
    [0x96, 0xc3, 0x8c, 0x59, 0xcd, 0x1f, 0xb0, 0x71, 0x62, 0x0e, 0xf6, 0xc8, 0x2d, 0x83, 0xf2, 0x8d],
    [0xbc, 0x37, 0x4f, 0x03, 0x3d, 0x9e, 0xe5, 0x95, 0x63, 0x4e, 0xab, 0x42, 0x80, 0xb3, 0x4d, 0x93],
    [0xa2, 0x0d, 0x02, 0x49, 0xdc, 0x52, 0xfe, 0x41, 0x28, 0xb1, 0x5c, 0xf7, 0xe0, 0xcc, 0x17, 0x87],
    [0x57, 0xb5, 0xad, 0xc5, 0x25, 0xb4, 0xf1, 0x78, 0xde, 0x26, 0x9d, 0x18, 0x47, 0x15, 0xfd, 0xee],
    [0xd3, 0xbe, 0x7e, 0x81, 0x67, 0x6d, 0x20, 0x31, 0xac, 0xae, 0xda, 0x32, 0x44, 0x9b, 0x74, 0xca],
    [0x0b, 0x76, 0x61, 0x79, 0x24, 0xb9, 0x3c, 0xea, 0x08, 0x51, 0x1a, 0xec, 0xc9, 0x39, 0x77, 0x00],
    [0xbd, 0xfb, 0x22, 0x07, 0x9f, 0xb8, 0x16, 0x09, 0xc4, 0x2c, 0x8f, 0xb7, 0xb6, 0x90, 0x1d, 0x99],
    [0xe6, 0x70, 0x38, 0xd8, 0x5d, 0xc2, 0xe1, 0xa9, 0xbb, 0xa5, 0x6e, 0xb2, 0x8b, 0xcf, 0x4b, 0xc7],
    [0x9c, 0xef, 0x27, 0xa6, 0xf8, 0x6f, 0x3b, 0x82, 0x56, 0x6a, 0x0c, 0x0a, 0x98, 0x8a, 0x7f, 0xeb],
    [0xf0, 0x9a, 0xba, 0xa0, 0xa4, 0xf3, 0xf4, 0x05, 0xc6, 0xfc, 0x45, 0x6b, 0xc0, 0x64, 0x72, 0x75],
    [0xdb, 0xce, 0xe8, 0x50, 0xa7, 0x97, 0x43, 0x8e, 0x0f, 0xa3, 0x5a, 0xd2, 0x04, 0x65, 0xfa, 0x68],
    [0x91, 0x7c, 0xd9, 0x1e, 0x3e, 0xdf, 0xaf, 0x06, 0x19, 0x5e, 0x21, 0xf9, 0x7b, 0x53, 0xe2, 0x7a],
    [0xd1, 0x11, 0xc1, 0x3f, 0x2e, 0x84, 0x13, 0xdd, 0xcb, 0x30, 0x94, 0x89, 0x7d, 0x4a, 0x1b, 0x40],
    [0xd5, 0xe3, 0xd6, 0x54, 0xaa, 0x66, 0xd4, 0xa1, 0xff, 0x10, 0x14, 0x6c, 0x86, 0x3a, 0x4c, 0xa8]]"

definition TABLE_S2_39 :: "bytes" where
  "TABLE_S2_39 = concat [
    [0x72, 0x8e, 0x7b, 0xd7, 0x1d, 0x99, 0x90, 0xee, 0xce, 0x09, 0xa1, 0x11, 0x58, 0x8b, 0x89, 0x16],
    [0xf1, 0x0c, 0xd5, 0x87, 0xf2, 0x5f, 0xfe, 0x2f, 0x6f, 0xd0, 0x06, 0x39, 0x7a, 0x51, 0x20, 0x62],
    [0xc9, 0x59, 0x26, 0x9d, 0x30, 0xe9, 0xd4, 0x0e, 0x1e, 0x77, 0x9c, 0x0d, 0x2d, 0x64, 0xe1, 0x44],
    [0x7f, 0xa7, 0x15, 0xdc, 0xcb, 0xb1, 0x3a, 0x7e, 0x57, 0xf7, 0x79, 0x6c, 0x88, 0x97, 0x2c, 0x27],
    [0x7c, 0xd6, 0x91, 0xdb, 0x4b, 0x52, 0xe2, 0x63, 0x18, 0x9e, 0xc0, 0x24, 0x86, 0xbc, 0xae, 0x9f],
    [0x85, 0xf8, 0x9b, 0x3d, 0x21, 0x60, 0xad, 0xdd, 0xb3, 0x49, 0x53, 0xbb, 0xbd, 0x13, 0x22, 0x4c],
    [0xde, 0x76, 0x6b, 0x94, 0x71, 0xa3, 0x17, 0x2a, 0x33, 0x6a, 0xb9, 0xef, 0x50, 0xe5, 0x69, 0xb7],
    [0xb5, 0x70, 0xf6, 0x83, 0x02, 0x68, 0xa4, 0x5d, 0xb6, 0x81, 0xc7, 0xc8, 0xcc, 0x07, 0xed, 0xeb],
    [0x9a, 0xc2, 0x5b, 0xa5, 0xdf, 0x48, 0x8a, 0xf3, 0x92, 0x7d, 0x3c, 0xbf, 0x4a, 0x47, 0x74, 0x73],
    [0x6d, 0x2e, 0xd3, 0x05, 0xea, 0x61, 0xe8, 0xe6, 0x38, 0xe7, 0x32, 0x56, 0x00, 0x1c, 0xff, 0xc1],
    [0x01, 0x0b, 0xfd, 0xb2, 0x5e, 0x5a, 0xfc, 0x29, 0x43, 0x54, 0x31, 0x46, 0x95, 0xb8, 0xd8, 0xbe],
    [0xf5, 0xc3, 0x25, 0x98, 0x3e, 0x3f, 0x35, 0xc4, 0x8f, 0xd2, 0x65, 0x78, 0x4e, 0x5c, 0x8d, 0xa2],
    [0xa6, 0x34, 0x12, 0xb0, 0x1f, 0x04, 0x0f, 0xd9, 0x08, 0x93, 0x55, 0xb4, 0x14, 0xf4, 0x1b, 0xd1],
    [0xe3, 0x66, 0x37, 0xab, 0x96, 0xf9, 0x19, 0xec, 0x1a, 0xcd, 0x03, 0xac, 0x3b, 0x4d, 0x42, 0xc5],
    [0xcf, 0xa8, 0xaf, 0x36, 0xca, 0xaa, 0x10, 0xe4, 0x28, 0x40, 0xe0, 0xba, 0x23, 0x0a, 0x82, 0x6e],
    [0xf0, 0x84, 0x4f, 0x67, 0x75, 0xa9, 0xda, 0xfa, 0x8c, 0x41, 0xa0, 0x45, 0x2b, 0xfb, 0x80, 0xc6]]"

definition TABLE_S2_40 :: "bytes" where
  "TABLE_S2_40 = concat [
    [0x05, 0xa3, 0x1b, 0x66, 0x33, 0x43, 0xbf, 0xfe, 0xcd, 0x25, 0x2d, 0xd7, 0xbc, 0xd2, 0x23, 0x8d],
    [0x0f, 0x45, 0xe2, 0x48, 0x7c, 0xfd, 0xd5, 0xcc, 0x5e, 0xba, 0x86, 0x00, 0x30, 0x01, 0x18, 0x22],
    [0x68, 0x1d, 0x2b, 0xee, 0x3a, 0xc3, 0x9c, 0xf6, 0x59, 0x56, 0x28, 0x1f, 0x73, 0x75, 0x52, 0x99],
    [0xf5, 0x0a, 0x40, 0xe8, 0x89, 0xb4, 0xef, 0x3d, 0x27, 0x71, 0xad, 0xf4, 0xf7, 0x29, 0xce, 0x7b],
    [0x4b, 0x19, 0x6f, 0x92, 0x60, 0xb1, 0x6c, 0xc1, 0x98, 0xa7, 0xf1, 0x4e, 0xbe, 0xfc, 0xe4, 0xcf],
    [0xe5, 0x49, 0xec, 0x10, 0x0e, 0x70, 0x83, 0x07, 0x3f, 0x8f, 0x50, 0x97, 0x17, 0x88, 0xc6, 0x15],
    [0x8b, 0x42, 0xe1, 0x39, 0xa4, 0xe0, 0x55, 0x2f, 0xe7, 0xf2, 0xc9, 0x69, 0xb2, 0xb9, 0x16, 0x09],
    [0xb8, 0x03, 0x57, 0xc7, 0x4a, 0x90, 0xae, 0x77, 0x02, 0x93, 0x80, 0xe9, 0x7f, 0xda, 0xb3, 0xfa],
    [0xa9, 0x35, 0x7d, 0xf8, 0x87, 0x72, 0x08, 0x67, 0x9d, 0x32, 0x84, 0x53, 0xdc, 0x5b, 0xa5, 0xd3],
    [0x8c, 0x2e, 0x38, 0xaa, 0x91, 0x47, 0x81, 0x9a, 0xcb, 0x2a, 0x96, 0x0d, 0x85, 0x4f, 0x8a, 0x6a],
    [0xd1, 0xf9, 0x6e, 0x1a, 0x44, 0x64, 0xeb, 0x37, 0x3e, 0xdb, 0x12, 0xdf, 0x1e, 0x58, 0xb5, 0x65],
    [0x31, 0xa8, 0x51, 0x36, 0x8e, 0x7a, 0x54, 0x34, 0x7e, 0x24, 0xb6, 0xde, 0x1c, 0xf0, 0xbd, 0x94],
    [0x4d, 0x9b, 0xf3, 0xb0, 0x76, 0x78, 0x74, 0xff, 0xac, 0xc8, 0xa6, 0x79, 0x61, 0x5f, 0x9e, 0x82],
    [0xc5, 0x3b, 0x04, 0x5c, 0x14, 0x6d, 0x41, 0xd6, 0xa2, 0x21, 0x0c, 0xe3, 0xea, 0xed, 0xd4, 0xd9],
    [0xbb, 0x06, 0x6b, 0x5d, 0xab, 0x5a, 0xa0, 0xa1, 0xfb, 0xe6, 0x11, 0x4c, 0x13, 0x3c, 0xd0, 0xc2],
    [0x63, 0x2c, 0x9f, 0x95, 0x62, 0xb7, 0xc0, 0xc4, 0xaf, 0xd8, 0xdd, 0xca, 0x46, 0x20, 0x0b, 0x26]]"

definition TABLE_S2_41 :: "bytes" where
  "TABLE_S2_41 = concat [
    [0xde, 0x50, 0xfc, 0x43, 0xa0, 0x0f, 0x00, 0x4b, 0xe2, 0xce, 0x15, 0x85, 0x2a, 0xb3, 0x5e, 0xf5],
    [0x27, 0xb6, 0xf3, 0x7a, 0x55, 0xb7, 0xaf, 0xc7, 0x45, 0x17, 0xff, 0xec, 0xdc, 0x24, 0x9f, 0x1a],
    [0x65, 0x6f, 0x22, 0x33, 0xd1, 0xbc, 0x7c, 0x83, 0x46, 0x99, 0x76, 0xc8, 0xae, 0xac, 0xd8, 0x30],
    [0x26, 0xbb, 0x3e, 0xe8, 0x09, 0x74, 0x63, 0x7b, 0xcb, 0x3b, 0x75, 0x02, 0x0a, 0x53, 0x18, 0xee],
    [0x2d, 0xe5, 0xe6, 0x90, 0x6b, 0x29, 0x2b, 0x8a, 0x36, 0x4a, 0x37, 0x57, 0x87, 0x5d, 0x34, 0x31],
    [0x03, 0xef, 0x28, 0xbd, 0x62, 0xd5, 0x10, 0x59, 0x1e, 0xeb, 0x71, 0x44, 0x21, 0xd2, 0x5a, 0xf7],
    [0xcf, 0x1d, 0xb2, 0x73, 0x94, 0xc1, 0x8e, 0x5b, 0x2f, 0x81, 0xf0, 0x8f, 0x60, 0x0c, 0xf4, 0xca],
    [0x3f, 0x9c, 0xe7, 0x97, 0xbe, 0x35, 0x4d, 0x01, 0x82, 0xb1, 0x4f, 0x91, 0x61, 0x4c, 0xa9, 0x40],
    [0xa5, 0x95, 0x41, 0x8c, 0xd9, 0xcc, 0xea, 0x52, 0x06, 0x67, 0xf8, 0x6a, 0x0d, 0xa1, 0x58, 0xd0],
    [0x3c, 0xdd, 0xad, 0x04, 0x93, 0x7e, 0xdb, 0x1c, 0x79, 0x51, 0xe0, 0x78, 0x1b, 0x5c, 0x23, 0xfb],
    [0x2c, 0x86, 0x11, 0xdf, 0xd3, 0x13, 0xc3, 0x3d, 0x7f, 0x48, 0x19, 0x42, 0xc9, 0x32, 0x96, 0x8b],
    [0xa8, 0x64, 0xd6, 0xa3, 0xd7, 0xe1, 0xd4, 0x56, 0x84, 0x38, 0x4e, 0xaa, 0xfd, 0x12, 0x16, 0x6e],
    [0x9d, 0xba, 0x14, 0x0b, 0xbf, 0xf9, 0x20, 0x05, 0xb4, 0x92, 0x1f, 0x9b, 0xc6, 0x2e, 0x8d, 0xb5],
    [0x5f, 0xc0, 0xe3, 0xab, 0xe4, 0x72, 0x3a, 0xda, 0x89, 0xcd, 0x49, 0xc5, 0xb9, 0xa7, 0x6c, 0xb0],
    [0xfa, 0x6d, 0x39, 0x80, 0x9e, 0xed, 0x25, 0xa4, 0x9a, 0x88, 0x7d, 0xe9, 0x54, 0x68, 0x0e, 0x08],
    [0xa6, 0xf1, 0xf6, 0x07, 0xf2, 0x98, 0xb8, 0xa2, 0xc2, 0x66, 0x70, 0x77, 0xc4, 0xfe, 0x47, 0x69]]"

definition TABLE_S2_42 :: "bytes" where
  "TABLE_S2_42 = concat [
    [0xfe, 0x5c, 0x7a, 0xe8, 0x97, 0x41, 0x4a, 0x51, 0xfa, 0x1b, 0xdd, 0x46, 0x9f, 0x55, 0xba, 0x5a],
    [0xe5, 0x79, 0x28, 0xad, 0xa2, 0x57, 0xb7, 0xd8, 0xe2, 0x4d, 0x83, 0x54, 0x8b, 0x0c, 0x03, 0x75],
    [0x78, 0xe1, 0xe6, 0x81, 0xaa, 0x5e, 0xe4, 0x84, 0xf4, 0xae, 0x0e, 0x66, 0x20, 0xcc, 0x44, 0x6d],
    [0x29, 0x01, 0xca, 0xbe, 0xb4, 0x94, 0xe7, 0x3b, 0x0b, 0xee, 0x0f, 0xc2, 0x88, 0xce, 0xb5, 0x65],
    [0xeb, 0x15, 0x8c, 0xd4, 0xbd, 0xc4, 0x06, 0x91, 0xf1, 0x72, 0x33, 0xdc, 0x3d, 0x3a, 0x09, 0x04],
    [0x4b, 0x9d, 0x60, 0x23, 0xa8, 0xa6, 0x2f, 0xa4, 0x18, 0x7c, 0xa9, 0x76, 0x8f, 0xb1, 0x52, 0x4e],
    [0xfc, 0xb3, 0x45, 0x4f, 0x67, 0xb2, 0x14, 0x10, 0x08, 0x7f, 0x1a, 0x0d, 0xf0, 0x96, 0xf6, 0xdb],
    [0xd6, 0x6b, 0x8d, 0xbb, 0x8a, 0x7b, 0x71, 0x70, 0x36, 0x2b, 0x9c, 0xc1, 0xec, 0xc3, 0x12, 0x00],
    [0x95, 0xdf, 0x98, 0x32, 0x2d, 0xac, 0x1c, 0x05, 0x6a, 0x8e, 0xd0, 0x56, 0xd1, 0xe0, 0xf2, 0xc8],
    [0x73, 0xd5, 0xb6, 0xcb, 0x93, 0xe3, 0x2e, 0x6f, 0xf5, 0x1d, 0x07, 0xfd, 0x02, 0x6c, 0x5d, 0xf3],
    [0xda, 0x25, 0x38, 0x90, 0x64, 0x59, 0xed, 0x3f, 0xa1, 0xf7, 0x24, 0x7d, 0xf9, 0x27, 0xab, 0x1e],
    [0xcd, 0xb8, 0x3e, 0xfb, 0x13, 0xea, 0x26, 0x4c, 0x86, 0x89, 0xcf, 0xf8, 0xa5, 0xa3, 0x49, 0x82],
    [0x99, 0x35, 0xc0, 0x3c, 0xa0, 0xde, 0xd7, 0x53, 0x5f, 0xef, 0x47, 0x80, 0x58, 0xc7, 0xc5, 0x16],
    [0xc9, 0x9b, 0x42, 0xbf, 0x61, 0xb0, 0x11, 0xbc, 0x77, 0x48, 0x9e, 0x21, 0x2c, 0x6e, 0x1f, 0x34],
    [0xd3, 0x68, 0x17, 0x87, 0x40, 0x9a, 0xa7, 0x7e, 0x43, 0xd2, 0x39, 0x50, 0x0a, 0xaf, 0x2a, 0x63],
    [0x92, 0x5b, 0xe9, 0x31, 0x30, 0x74, 0xff, 0x85, 0x22, 0x37, 0xb9, 0x19, 0x69, 0x62, 0xd9, 0xc6]]"

definition TABLE_S2_43 :: "bytes" where
  "TABLE_S2_43 = concat [
    [0x71, 0x8d, 0x78, 0xd4, 0x1e, 0x9a, 0x93, 0xed, 0xcd, 0x0a, 0xa2, 0x12, 0x5b, 0x88, 0x8a, 0x15],
    [0xf2, 0x0f, 0xd6, 0x84, 0xf1, 0x5c, 0xfd, 0x2c, 0x6c, 0xd3, 0x05, 0x3a, 0x79, 0x52, 0x23, 0x61],
    [0xca, 0x5a, 0x25, 0x9e, 0x33, 0xea, 0xd7, 0x0d, 0x1d, 0x74, 0x9f, 0x0e, 0x2e, 0x67, 0xe2, 0x47],
    [0x7c, 0xa4, 0x16, 0xdf, 0xc8, 0xb2, 0x39, 0x7d, 0x54, 0xf4, 0x7a, 0x6f, 0x8b, 0x94, 0x2f, 0x24],
    [0x7f, 0xd5, 0x92, 0xd8, 0x48, 0x51, 0xe1, 0x60, 0x1b, 0x9d, 0xc3, 0x27, 0x85, 0xbf, 0xad, 0x9c],
    [0x86, 0xfb, 0x98, 0x3e, 0x22, 0x63, 0xae, 0xde, 0xb0, 0x4a, 0x50, 0xb8, 0xbe, 0x10, 0x21, 0x4f],
    [0xdd, 0x75, 0x68, 0x97, 0x72, 0xa0, 0x14, 0x29, 0x30, 0x69, 0xba, 0xec, 0x53, 0xe6, 0x6a, 0xb4],
    [0xb6, 0x73, 0xf5, 0x80, 0x01, 0x6b, 0xa7, 0x5e, 0xb5, 0x82, 0xc4, 0xcb, 0xcf, 0x04, 0xee, 0xe8],
    [0x99, 0xc1, 0x58, 0xa6, 0xdc, 0x4b, 0x89, 0xf0, 0x91, 0x7e, 0x3f, 0xbc, 0x49, 0x44, 0x77, 0x70],
    [0x6e, 0x2d, 0xd0, 0x06, 0xe9, 0x62, 0xeb, 0xe5, 0x3b, 0xe4, 0x31, 0x55, 0x03, 0x1f, 0xfc, 0xc2],
    [0x02, 0x08, 0xfe, 0xb1, 0x5d, 0x59, 0xff, 0x2a, 0x40, 0x57, 0x32, 0x45, 0x96, 0xbb, 0xdb, 0xbd],
    [0xf6, 0xc0, 0x26, 0x9b, 0x3d, 0x3c, 0x36, 0xc7, 0x8c, 0xd1, 0x66, 0x7b, 0x4d, 0x5f, 0x8e, 0xa1],
    [0xa5, 0x37, 0x11, 0xb3, 0x1c, 0x07, 0x0c, 0xda, 0x0b, 0x90, 0x56, 0xb7, 0x17, 0xf7, 0x18, 0xd2],
    [0xe0, 0x65, 0x34, 0xa8, 0x95, 0xfa, 0x1a, 0xef, 0x19, 0xce, 0x00, 0xaf, 0x38, 0x4e, 0x41, 0xc6],
    [0xcc, 0xab, 0xac, 0x35, 0xc9, 0xa9, 0x13, 0xe7, 0x2b, 0x43, 0xe3, 0xb9, 0x20, 0x09, 0x81, 0x6d],
    [0xf3, 0x87, 0x4c, 0x64, 0x76, 0xaa, 0xd9, 0xf9, 0x8f, 0x42, 0xa3, 0x46, 0x28, 0xf8, 0x83, 0xc5]]"

definition TABLE_S2_44 :: "bytes" where
  "TABLE_S2_44 = concat [
    [0x9f, 0x76, 0x93, 0xbe, 0x4e, 0x90, 0x6e, 0x5d, 0xde, 0x92, 0xea, 0x61, 0x48, 0x38, 0x43, 0xe0],
    [0x15, 0x2b, 0xd3, 0xbf, 0x50, 0x2f, 0x5e, 0xf0, 0x84, 0x51, 0x1e, 0x4b, 0xac, 0x6d, 0xc2, 0x10],
    [0x28, 0x85, 0x0d, 0xfe, 0x9b, 0xae, 0x34, 0xc1, 0x86, 0xcf, 0x0a, 0xbd, 0x62, 0xf7, 0x30, 0xdc],
    [0xee, 0xeb, 0x82, 0x58, 0x88, 0xe8, 0x95, 0xe9, 0x55, 0xf4, 0xf6, 0xb4, 0x4f, 0x39, 0x3a, 0xf2],
    [0x31, 0xc7, 0x8c, 0xd5, 0xdd, 0xaa, 0xe4, 0x14, 0xa4, 0xbc, 0xab, 0xd6, 0x37, 0xe1, 0x64, 0xf9],
    [0xef, 0x07, 0x73, 0x71, 0x17, 0xa9, 0x46, 0x99, 0x5c, 0xa3, 0x63, 0x0e, 0xec, 0xfd, 0xb0, 0xba],
    [0xc5, 0x40, 0xfb, 0x03, 0x33, 0x20, 0xc8, 0x9a, 0x18, 0x70, 0x68, 0x8a, 0xa5, 0x2c, 0x69, 0xf8],
    [0x2a, 0x81, 0x6c, 0xf5, 0x5a, 0xca, 0x11, 0x3d, 0x94, 0xdf, 0xd0, 0x7f, 0x9c, 0x23, 0x8f, 0x01],
    [0xb6, 0x98, 0x21, 0x1b, 0xa8, 0xaf, 0xb9, 0x1d, 0x7d, 0x67, 0x47, 0x2d, 0xd8, 0x29, 0x2e, 0x79],
    [0xd7, 0xd1, 0xb7, 0x8b, 0x36, 0xa2, 0x57, 0x45, 0x7b, 0xfa, 0x32, 0x41, 0x5f, 0xe6, 0xb2, 0x25],
    [0x6f, 0xb3, 0x78, 0x66, 0x1a, 0x96, 0x12, 0x56, 0x05, 0xe5, 0xad, 0x3b, 0x74, 0x3c, 0x1f, 0x80],
    [0x6a, 0x52, 0xf1, 0x19, 0x44, 0xc0, 0x4d, 0x6b, 0xda, 0xff, 0x26, 0x60, 0xd4, 0xcb, 0x65, 0x42],
    [0xb1, 0xc9, 0xcd, 0x22, 0x75, 0x91, 0xe7, 0x5b, 0x89, 0x0b, 0x3e, 0x08, 0x7c, 0x09, 0xbb, 0x77],
    [0x54, 0x49, 0xed, 0x16, 0x9d, 0xc6, 0x97, 0xa0, 0xe2, 0x1c, 0xcc, 0x0c, 0x00, 0xce, 0x59, 0xf3],
    [0x24, 0xfc, 0x83, 0xc4, 0xa7, 0x3f, 0x8e, 0xa6, 0xc3, 0x04, 0xa1, 0x4c, 0xdb, 0x72, 0x02, 0xe3],
    [0x0f, 0x87, 0x7e, 0xd2, 0xb5, 0x27, 0xb8, 0xd9, 0x8d, 0x35, 0x13, 0x06, 0x53, 0x9e, 0x4a, 0x7a]]"

definition TABLE_S2_45 :: "bytes" where
  "TABLE_S2_45 = concat [
    [0x36, 0xf1, 0x2e, 0x9e, 0xb4, 0x67, 0x29, 0xb6, 0xb1, 0x4d, 0xe8, 0x44, 0xa6, 0x22, 0xd1, 0xaf],
    [0xef, 0x50, 0x06, 0x39, 0x6e, 0x45, 0x5d, 0x1f, 0x33, 0xce, 0xb8, 0xea, 0x60, 0xcd, 0x10, 0xc1],
    [0x48, 0x21, 0x32, 0xa3, 0x5b, 0x12, 0x7b, 0xde, 0x66, 0xf6, 0xa2, 0x19, 0xd6, 0x0f, 0x31, 0xeb],
    [0xc8, 0x68, 0x53, 0x46, 0xa8, 0xb7, 0x18, 0x13, 0x98, 0x40, 0xe3, 0x2a, 0x8e, 0xf4, 0x41, 0x05],
    [0xa1, 0x27, 0x1b, 0xff, 0x83, 0xb9, 0xa0, 0x91, 0xe9, 0x43, 0xe4, 0xae, 0x6d, 0x74, 0x5c, 0xdd],
    [0x76, 0x8c, 0x84, 0x6c, 0x2c, 0x82, 0x73, 0x1d, 0xc7, 0xba, 0x02, 0xa4, 0x5f, 0x1e, 0xe2, 0x92],
    [0x55, 0x0c, 0xd0, 0x86, 0xda, 0x6f, 0x88, 0x56, 0x49, 0xe1, 0xab, 0x54, 0x9c, 0x4e, 0x15, 0x28],
    [0xbe, 0x89, 0xf7, 0xf8, 0x38, 0xf3, 0xd4, 0xd2, 0x4f, 0x8a, 0xbc, 0xc9, 0x57, 0x3d, 0x62, 0x9b],
    [0x42, 0xad, 0x80, 0x03, 0x78, 0x75, 0x4c, 0x4b, 0xfd, 0xa5, 0x9a, 0x64, 0x77, 0xe0, 0xcc, 0xb5],
    [0xd8, 0x07, 0x69, 0x0d, 0x23, 0x3f, 0xfe, 0xc0, 0x11, 0x52, 0x3a, 0xec, 0x5e, 0xd5, 0xd9, 0xd7],
    [0x6b, 0x7c, 0x79, 0x0e, 0x87, 0xaa, 0x81, 0xe7, 0x34, 0x3e, 0x8d, 0xc2, 0x65, 0x61, 0x16, 0xc3],
    [0xed, 0xb0, 0x47, 0x5a, 0x63, 0x71, 0x9d, 0xb2, 0xfc, 0xca, 0xa7, 0x1a, 0x00, 0x01, 0xfb, 0x0a],
    [0xac, 0x37, 0x8b, 0x6a, 0xcb, 0x2b, 0xee, 0x24, 0x0b, 0x99, 0x8f, 0x2d, 0x3b, 0x20, 0xe6, 0x30],
    [0xf2, 0x25, 0x93, 0x3c, 0x72, 0x04, 0xfa, 0x7d, 0x59, 0xdc, 0x94, 0x08, 0xc6, 0xa9, 0xd3, 0x26],
    [0x7f, 0x17, 0x85, 0xdf, 0x35, 0x1c, 0x51, 0xbd, 0x97, 0xf0, 0x09, 0x90, 0x95, 0xf5, 0xdb, 0x2f],
    [0x7e, 0xb3, 0x7a, 0x9f, 0xc4, 0x14, 0xf9, 0xbf, 0xbb, 0xcf, 0x58, 0x70, 0x96, 0x4a, 0xc5, 0xe5]]"

definition TABLE_S2_46 :: "bytes" where
  "TABLE_S2_46 = concat [
    [0x2c, 0x8e, 0xa8, 0x3a, 0x45, 0x93, 0x98, 0x83, 0x28, 0xc9, 0x0f, 0x94, 0x4d, 0x87, 0x68, 0x88],
    [0x37, 0xab, 0xfa, 0x7f, 0x70, 0x85, 0x65, 0x0a, 0x30, 0x9f, 0x51, 0x86, 0x59, 0xde, 0xd1, 0xa7],
    [0xaa, 0x33, 0x34, 0x53, 0x78, 0x8c, 0x36, 0x56, 0x26, 0x7c, 0xdc, 0xb4, 0xf2, 0x1e, 0x96, 0xbf],
    [0xfb, 0xd3, 0x18, 0x6c, 0x66, 0x46, 0x35, 0xe9, 0xd9, 0x3c, 0xdd, 0x10, 0x5a, 0x1c, 0x67, 0xb7],
    [0x39, 0xc7, 0x5e, 0x06, 0x6f, 0x16, 0xd4, 0x43, 0x23, 0xa0, 0xe1, 0x0e, 0xef, 0xe8, 0xdb, 0xd6],
    [0x99, 0x4f, 0xb2, 0xf1, 0x7a, 0x74, 0xfd, 0x76, 0xca, 0xae, 0x7b, 0xa4, 0x5d, 0x63, 0x80, 0x9c],
    [0x2e, 0x61, 0x97, 0x9d, 0xb5, 0x60, 0xc6, 0xc2, 0xda, 0xad, 0xc8, 0xdf, 0x22, 0x44, 0x24, 0x09],
    [0x04, 0xb9, 0x5f, 0x69, 0x58, 0xa9, 0xa3, 0xa2, 0xe4, 0xf9, 0x4e, 0x13, 0x3e, 0x11, 0xc0, 0xd2],
    [0x47, 0x0d, 0x4a, 0xe0, 0xff, 0x7e, 0xce, 0xd7, 0xb8, 0x5c, 0x02, 0x84, 0x03, 0x32, 0x20, 0x1a],
    [0xa1, 0x07, 0x64, 0x19, 0x41, 0x31, 0xfc, 0xbd, 0x27, 0xcf, 0xd5, 0x2f, 0xd0, 0xbe, 0x8f, 0x21],
    [0x08, 0xf7, 0xea, 0x42, 0xb6, 0x8b, 0x3f, 0xed, 0x73, 0x25, 0xf6, 0xaf, 0x2b, 0xf5, 0x79, 0xcc],
    [0x1f, 0x6a, 0xec, 0x29, 0xc1, 0x38, 0xf4, 0x9e, 0x54, 0x5b, 0x1d, 0x2a, 0x77, 0x71, 0x9b, 0x50],
    [0x4b, 0xe7, 0x12, 0xee, 0x72, 0x0c, 0x05, 0x81, 0x8d, 0x3d, 0x95, 0x52, 0x8a, 0x15, 0x17, 0xc4],
    [0x1b, 0x49, 0x90, 0x6d, 0xb3, 0x62, 0xc3, 0x6e, 0xa5, 0x9a, 0x4c, 0xf3, 0xfe, 0xbc, 0xcd, 0xe6],
    [0x01, 0xba, 0xc5, 0x55, 0x92, 0x48, 0x75, 0xac, 0x91, 0x00, 0xeb, 0x82, 0xd8, 0x7d, 0xf8, 0xb1],
    [0x40, 0x89, 0x3b, 0xe3, 0xe2, 0xa6, 0x2d, 0x57, 0xf0, 0xe5, 0x6b, 0xcb, 0xbb, 0xb0, 0x0b, 0x14]]"

definition TABLE_S2_47 :: "bytes" where
  "TABLE_S2_47 = concat [
    [0x31, 0x23, 0xd6, 0x42, 0xff, 0xc3, 0xa5, 0xa3, 0x51, 0xc6, 0x92, 0x2b, 0x35, 0x46, 0x8e, 0x0f],
    [0x69, 0xcd, 0xdb, 0xdc, 0x6f, 0x55, 0xec, 0xc2, 0x0d, 0x5a, 0x5d, 0xac, 0x59, 0x33, 0x13, 0x09],
    [0x1f, 0x39, 0xb4, 0x30, 0x6d, 0x85, 0x26, 0x1e, 0x36, 0x11, 0xbf, 0xa0, 0x14, 0x52, 0x8b, 0xae],
    [0x22, 0x66, 0xe2, 0x6e, 0x12, 0x0c, 0xc7, 0x1b, 0xf4, 0x6b, 0x48, 0x00, 0x4f, 0xd9, 0x91, 0x71],
    [0xd4, 0xe3, 0xb2, 0xe9, 0x62, 0x99, 0x3d, 0x20, 0x87, 0x2d, 0xba, 0x74, 0x78, 0xb8, 0x68, 0x96],
    [0x2f, 0x93, 0xe5, 0x01, 0x56, 0xb9, 0xbd, 0xc5, 0x03, 0xcf, 0x7d, 0x08, 0x7c, 0x4a, 0x7f, 0xfd],
    [0xad, 0xcc, 0x53, 0xc1, 0xa6, 0x0a, 0xf3, 0x7b, 0x0e, 0x3e, 0xea, 0x27, 0x72, 0x67, 0x41, 0xf9],
    [0xd2, 0xfa, 0x4b, 0xd3, 0xb0, 0xf7, 0x88, 0x50, 0x97, 0x76, 0x06, 0xaf, 0x38, 0xd5, 0x70, 0xb7],
    [0x84, 0x2a, 0x5b, 0x24, 0xcb, 0xa7, 0x5f, 0x61, 0x64, 0xb6, 0x19, 0xd8, 0x3f, 0x6a, 0x25, 0xf0],
    [0x29, 0x1a, 0xe4, 0x3a, 0xca, 0xe7, 0x02, 0xeb, 0x94, 0x37, 0x4c, 0x3c, 0x15, 0x9e, 0xe6, 0xaa],
    [0x9d, 0xe1, 0x9c, 0xfc, 0x2c, 0xf6, 0x9f, 0x9a, 0x86, 0x4e, 0x4d, 0x3b, 0xc0, 0x82, 0x80, 0x21],
    [0xb5, 0x40, 0xda, 0xef, 0x8a, 0x79, 0xf1, 0x5c, 0xa8, 0x44, 0x83, 0x16, 0xc9, 0x7e, 0xbb, 0xf2],
    [0xed, 0x32, 0xdd, 0x63, 0x05, 0x07, 0x73, 0x9b, 0xce, 0xc4, 0x89, 0x98, 0x7a, 0x17, 0xd7, 0x28],
    [0x60, 0x90, 0xde, 0xa9, 0xa1, 0xf8, 0xb3, 0x45, 0x8d, 0x10, 0x95, 0x43, 0xa2, 0xdf, 0xc8, 0xd0],
    [0x49, 0x65, 0xbe, 0x2e, 0x81, 0x18, 0xf5, 0x5e, 0x75, 0xfb, 0x57, 0xe8, 0x0b, 0xa4, 0xab, 0xe0],
    [0xee, 0xbc, 0x54, 0x47, 0x77, 0x8f, 0x34, 0xb1, 0x8c, 0x1d, 0x58, 0xd1, 0xfe, 0x1c, 0x04, 0x6c]]"

definition TABLE_S2_48 :: "bytes" where
  "TABLE_S2_48 = concat [
    [0x6a, 0xcc, 0x74, 0x09, 0x5c, 0x2c, 0xd0, 0x91, 0xa2, 0x4a, 0x42, 0xb8, 0xd3, 0xbd, 0x4c, 0xe2],
    [0x60, 0x2a, 0x8d, 0x27, 0x13, 0x92, 0xba, 0xa3, 0x31, 0xd5, 0xe9, 0x6f, 0x5f, 0x6e, 0x77, 0x4d],
    [0x07, 0x72, 0x44, 0x81, 0x55, 0xac, 0xf3, 0x99, 0x36, 0x39, 0x47, 0x70, 0x1c, 0x1a, 0x3d, 0xf6],
    [0x9a, 0x65, 0x2f, 0x87, 0xe6, 0xdb, 0x80, 0x52, 0x48, 0x1e, 0xc2, 0x9b, 0x98, 0x46, 0xa1, 0x14],
    [0x24, 0x76, 0x00, 0xfd, 0x0f, 0xde, 0x03, 0xae, 0xf7, 0xc8, 0x9e, 0x21, 0xd1, 0x93, 0x8b, 0xa0],
    [0x8a, 0x26, 0x83, 0x7f, 0x61, 0x1f, 0xec, 0x68, 0x50, 0xe0, 0x3f, 0xf8, 0x78, 0xe7, 0xa9, 0x7a],
    [0xe4, 0x2d, 0x8e, 0x56, 0xcb, 0x8f, 0x3a, 0x40, 0x88, 0x9d, 0xa6, 0x06, 0xdd, 0xd6, 0x79, 0x66],
    [0xd7, 0x6c, 0x38, 0xa8, 0x25, 0xff, 0xc1, 0x18, 0x6d, 0xfc, 0xef, 0x86, 0x10, 0xb5, 0xdc, 0x95],
    [0xc6, 0x5a, 0x12, 0x97, 0xe8, 0x1d, 0x67, 0x08, 0xf2, 0x5d, 0xeb, 0x3c, 0xb3, 0x34, 0xca, 0xbc],
    [0xe3, 0x41, 0x57, 0xc5, 0xfe, 0x28, 0xee, 0xf5, 0xa4, 0x45, 0xf9, 0x62, 0xea, 0x20, 0xe5, 0x05],
    [0xbe, 0x96, 0x01, 0x75, 0x2b, 0x0b, 0x84, 0x58, 0x51, 0xb4, 0x7d, 0xb0, 0x71, 0x37, 0xda, 0x0a],
    [0x5e, 0xc7, 0x3e, 0x59, 0xe1, 0x15, 0x3b, 0x5b, 0x11, 0x4b, 0xd9, 0xb1, 0x73, 0x9f, 0xd2, 0xfb],
    [0x22, 0xf4, 0x9c, 0xdf, 0x19, 0x17, 0x1b, 0x90, 0xc3, 0xa7, 0xc9, 0x16, 0x0e, 0x30, 0xf1, 0xed],
    [0xaa, 0x54, 0x6b, 0x33, 0x7b, 0x02, 0x2e, 0xb9, 0xcd, 0x4e, 0x63, 0x8c, 0x85, 0x82, 0xbb, 0xb6],
    [0xd4, 0x69, 0x04, 0x32, 0xc4, 0x35, 0xcf, 0xce, 0x94, 0x89, 0x7e, 0x23, 0x7c, 0x53, 0xbf, 0xad],
    [0x0c, 0x43, 0xf0, 0xfa, 0x0d, 0xd8, 0xaf, 0xab, 0xc0, 0xb7, 0xb2, 0xa5, 0x29, 0x4f, 0x64, 0x49]]"

definition TABLE_S2_49 :: "bytes" where
  "TABLE_S2_49 = concat [
    [0xad, 0x6a, 0xb5, 0x05, 0x2f, 0xfc, 0xb2, 0x2d, 0x2a, 0xd6, 0x73, 0xdf, 0x3d, 0xb9, 0x4a, 0x34],
    [0x74, 0xcb, 0x9d, 0xa2, 0xf5, 0xde, 0xc6, 0x84, 0xa8, 0x55, 0x23, 0x71, 0xfb, 0x56, 0x8b, 0x5a],
    [0xd3, 0xba, 0xa9, 0x38, 0xc0, 0x89, 0xe0, 0x45, 0xfd, 0x6d, 0x39, 0x82, 0x4d, 0x94, 0xaa, 0x70],
    [0x53, 0xf3, 0xc8, 0xdd, 0x33, 0x2c, 0x83, 0x88, 0x03, 0xdb, 0x78, 0xb1, 0x15, 0x6f, 0xda, 0x9e],
    [0x3a, 0xbc, 0x80, 0x64, 0x18, 0x22, 0x3b, 0x0a, 0x72, 0xd8, 0x7f, 0x35, 0xf6, 0xef, 0xc7, 0x46],
    [0xed, 0x17, 0x1f, 0xf7, 0xb7, 0x19, 0xe8, 0x86, 0x5c, 0x21, 0x99, 0x3f, 0xc4, 0x85, 0x79, 0x09],
    [0xce, 0x97, 0x4b, 0x1d, 0x41, 0xf4, 0x13, 0xcd, 0xd2, 0x7a, 0x30, 0xcf, 0x07, 0xd5, 0x8e, 0xb3],
    [0x25, 0x12, 0x6c, 0x63, 0xa3, 0x68, 0x4f, 0x49, 0xd4, 0x11, 0x27, 0x52, 0xcc, 0xa6, 0xf9, 0x00],
    [0xd9, 0x36, 0x1b, 0x98, 0xe3, 0xee, 0xd7, 0xd0, 0x66, 0x3e, 0x01, 0xff, 0xec, 0x7b, 0x57, 0x2e],
    [0x43, 0x9c, 0xf2, 0x96, 0xb8, 0xa4, 0x65, 0x5b, 0x8a, 0xc9, 0xa1, 0x77, 0xc5, 0x4e, 0x42, 0x4c],
    [0xf0, 0xe7, 0xe2, 0x95, 0x1c, 0x31, 0x1a, 0x7c, 0xaf, 0xa5, 0x16, 0x59, 0xfe, 0xfa, 0x8d, 0x58],
    [0x76, 0x2b, 0xdc, 0xc1, 0xf8, 0xea, 0x06, 0x29, 0x67, 0x51, 0x3c, 0x81, 0x9b, 0x9a, 0x60, 0x91],
    [0x37, 0xac, 0x10, 0xf1, 0x50, 0xb0, 0x75, 0xbf, 0x90, 0x02, 0x14, 0xb6, 0xa0, 0xbb, 0x7d, 0xab],
    [0x69, 0xbe, 0x08, 0xa7, 0xe9, 0x9f, 0x61, 0xe6, 0xc2, 0x47, 0x0f, 0x93, 0x5d, 0x32, 0x48, 0xbd],
    [0xe4, 0x8c, 0x1e, 0x44, 0xae, 0x87, 0xca, 0x26, 0x0c, 0x6b, 0x92, 0x0b, 0x0e, 0x6e, 0x40, 0xb4],
    [0xe5, 0x28, 0xe1, 0x04, 0x5f, 0x8f, 0x62, 0x24, 0x20, 0x54, 0xc3, 0xeb, 0x0d, 0xd1, 0x5e, 0x7e]]"

definition TABLE_S2_50 :: "bytes" where
  "TABLE_S2_50 = concat [
    [0x57, 0xf5, 0xd3, 0x41, 0x3e, 0xe8, 0xe3, 0xf8, 0x53, 0xb2, 0x74, 0xef, 0x36, 0xfc, 0x13, 0xf3],
    [0x4c, 0xd0, 0x81, 0x04, 0x0b, 0xfe, 0x1e, 0x71, 0x4b, 0xe4, 0x2a, 0xfd, 0x22, 0xa5, 0xaa, 0xdc],
    [0xd1, 0x48, 0x4f, 0x28, 0x03, 0xf7, 0x4d, 0x2d, 0x5d, 0x07, 0xa7, 0xcf, 0x89, 0x65, 0xed, 0xc4],
    [0x80, 0xa8, 0x63, 0x17, 0x1d, 0x3d, 0x4e, 0x92, 0xa2, 0x47, 0xa6, 0x6b, 0x21, 0x67, 0x1c, 0xcc],
    [0x42, 0xbc, 0x25, 0x7d, 0x14, 0x6d, 0xaf, 0x38, 0x58, 0xdb, 0x9a, 0x75, 0x94, 0x93, 0xa0, 0xad],
    [0xe2, 0x34, 0xc9, 0x8a, 0x01, 0x0f, 0x86, 0x0d, 0xb1, 0xd5, 0x00, 0xdf, 0x26, 0x18, 0xfb, 0xe7],
    [0x55, 0x1a, 0xec, 0xe6, 0xce, 0x1b, 0xbd, 0xb9, 0xa1, 0xd6, 0xb3, 0xa4, 0x59, 0x3f, 0x5f, 0x72],
    [0x7f, 0xc2, 0x24, 0x12, 0x23, 0xd2, 0xd8, 0xd9, 0x9f, 0x82, 0x35, 0x68, 0x45, 0x6a, 0xbb, 0xa9],
    [0x3c, 0x76, 0x31, 0x9b, 0x84, 0x05, 0xb5, 0xac, 0xc3, 0x27, 0x79, 0xff, 0x78, 0x49, 0x5b, 0x61],
    [0xda, 0x7c, 0x1f, 0x62, 0x3a, 0x4a, 0x87, 0xc6, 0x5c, 0xb4, 0xae, 0x54, 0xab, 0xc5, 0xf4, 0x5a],
    [0x73, 0x8c, 0x91, 0x39, 0xcd, 0xf0, 0x44, 0x96, 0x08, 0x5e, 0x8d, 0xd4, 0x50, 0x8e, 0x02, 0xb7],
    [0x64, 0x11, 0x97, 0x52, 0xba, 0x43, 0x8f, 0xe5, 0x2f, 0x20, 0x66, 0x51, 0x0c, 0x0a, 0xe0, 0x2b],
    [0x30, 0x9c, 0x69, 0x95, 0x09, 0x77, 0x7e, 0xfa, 0xf6, 0x46, 0xee, 0x29, 0xf1, 0x6e, 0x6c, 0xbf],
    [0x60, 0x32, 0xeb, 0x16, 0xc8, 0x19, 0xb8, 0x15, 0xde, 0xe1, 0x37, 0x88, 0x85, 0xc7, 0xb6, 0x9d],
    [0x7a, 0xc1, 0xbe, 0x2e, 0xe9, 0x33, 0x0e, 0xd7, 0xea, 0x7b, 0x90, 0xf9, 0xa3, 0x06, 0x83, 0xca],
    [0x3b, 0xf2, 0x40, 0x98, 0x99, 0xdd, 0x56, 0x2c, 0x8b, 0x9e, 0x10, 0xb0, 0xc0, 0xcb, 0x70, 0x6f]]"

definition TABLE_S2_51 :: "bytes" where
  "TABLE_S2_51 = concat [
    [0x55, 0xa9, 0x5c, 0xf0, 0x3a, 0xbe, 0xb7, 0xc9, 0xe9, 0x2e, 0x86, 0x36, 0x7f, 0xac, 0xae, 0x31],
    [0xd6, 0x2b, 0xf2, 0xa0, 0xd5, 0x78, 0xd9, 0x08, 0x48, 0xf7, 0x21, 0x1e, 0x5d, 0x76, 0x07, 0x45],
    [0xee, 0x7e, 0x01, 0xba, 0x17, 0xce, 0xf3, 0x29, 0x39, 0x50, 0xbb, 0x2a, 0x0a, 0x43, 0xc6, 0x63],
    [0x58, 0x80, 0x32, 0xfb, 0xec, 0x96, 0x1d, 0x59, 0x70, 0xd0, 0x5e, 0x4b, 0xaf, 0xb0, 0x0b, 0x00],
    [0x5b, 0xf1, 0xb6, 0xfc, 0x6c, 0x75, 0xc5, 0x44, 0x3f, 0xb9, 0xe7, 0x03, 0xa1, 0x9b, 0x89, 0xb8],
    [0xa2, 0xdf, 0xbc, 0x1a, 0x06, 0x47, 0x8a, 0xfa, 0x94, 0x6e, 0x74, 0x9c, 0x9a, 0x34, 0x05, 0x6b],
    [0xf9, 0x51, 0x4c, 0xb3, 0x56, 0x84, 0x30, 0x0d, 0x14, 0x4d, 0x9e, 0xc8, 0x77, 0xc2, 0x4e, 0x90],
    [0x92, 0x57, 0xd1, 0xa4, 0x25, 0x4f, 0x83, 0x7a, 0x91, 0xa6, 0xe0, 0xef, 0xeb, 0x20, 0xca, 0xcc],
    [0xbd, 0xe5, 0x7c, 0x82, 0xf8, 0x6f, 0xad, 0xd4, 0xb5, 0x5a, 0x1b, 0x98, 0x6d, 0x60, 0x53, 0x54],
    [0x4a, 0x09, 0xf4, 0x22, 0xcd, 0x46, 0xcf, 0xc1, 0x1f, 0xc0, 0x15, 0x71, 0x27, 0x3b, 0xd8, 0xe6],
    [0x26, 0x2c, 0xda, 0x95, 0x79, 0x7d, 0xdb, 0x0e, 0x64, 0x73, 0x16, 0x61, 0xb2, 0x9f, 0xff, 0x99],
    [0xd2, 0xe4, 0x02, 0xbf, 0x19, 0x18, 0x12, 0xe3, 0xa8, 0xf5, 0x42, 0x5f, 0x69, 0x7b, 0xaa, 0x85],
    [0x81, 0x13, 0x35, 0x97, 0x38, 0x23, 0x28, 0xfe, 0x2f, 0xb4, 0x72, 0x93, 0x33, 0xd3, 0x3c, 0xf6],
    [0xc4, 0x41, 0x10, 0x8c, 0xb1, 0xde, 0x3e, 0xcb, 0x3d, 0xea, 0x24, 0x8b, 0x1c, 0x6a, 0x65, 0xe2],
    [0xe8, 0x8f, 0x88, 0x11, 0xed, 0x8d, 0x37, 0xc3, 0x0f, 0x67, 0xc7, 0x9d, 0x04, 0x2d, 0xa5, 0x49],
    [0xd7, 0xa3, 0x68, 0x40, 0x52, 0x8e, 0xfd, 0xdd, 0xab, 0x66, 0x87, 0x62, 0x0c, 0xdc, 0xa7, 0xe1]]"

definition TABLE_S2_52 :: "bytes" where
  "TABLE_S2_52 = concat [
    [0x46, 0xe0, 0x58, 0x25, 0x70, 0x00, 0xfc, 0xbd, 0x8e, 0x66, 0x6e, 0x94, 0xff, 0x91, 0x60, 0xce],
    [0x4c, 0x06, 0xa1, 0x0b, 0x3f, 0xbe, 0x96, 0x8f, 0x1d, 0xf9, 0xc5, 0x43, 0x73, 0x42, 0x5b, 0x61],
    [0x2b, 0x5e, 0x68, 0xad, 0x79, 0x80, 0xdf, 0xb5, 0x1a, 0x15, 0x6b, 0x5c, 0x30, 0x36, 0x11, 0xda],
    [0xb6, 0x49, 0x03, 0xab, 0xca, 0xf7, 0xac, 0x7e, 0x64, 0x32, 0xee, 0xb7, 0xb4, 0x6a, 0x8d, 0x38],
    [0x08, 0x5a, 0x2c, 0xd1, 0x23, 0xf2, 0x2f, 0x82, 0xdb, 0xe4, 0xb2, 0x0d, 0xfd, 0xbf, 0xa7, 0x8c],
    [0xa6, 0x0a, 0xaf, 0x53, 0x4d, 0x33, 0xc0, 0x44, 0x7c, 0xcc, 0x13, 0xd4, 0x54, 0xcb, 0x85, 0x56],
    [0xc8, 0x01, 0xa2, 0x7a, 0xe7, 0xa3, 0x16, 0x6c, 0xa4, 0xb1, 0x8a, 0x2a, 0xf1, 0xfa, 0x55, 0x4a],
    [0xfb, 0x40, 0x14, 0x84, 0x09, 0xd3, 0xed, 0x34, 0x41, 0xd0, 0xc3, 0xaa, 0x3c, 0x99, 0xf0, 0xb9],
    [0xea, 0x76, 0x3e, 0xbb, 0xc4, 0x31, 0x4b, 0x24, 0xde, 0x71, 0xc7, 0x10, 0x9f, 0x18, 0xe6, 0x90],
    [0xcf, 0x6d, 0x7b, 0xe9, 0xd2, 0x04, 0xc2, 0xd9, 0x88, 0x69, 0xd5, 0x4e, 0xc6, 0x0c, 0xc9, 0x29],
    [0x92, 0xba, 0x2d, 0x59, 0x07, 0x27, 0xa8, 0x74, 0x7d, 0x98, 0x51, 0x9c, 0x5d, 0x1b, 0xf6, 0x26],
    [0x72, 0xeb, 0x12, 0x75, 0xcd, 0x39, 0x17, 0x77, 0x3d, 0x67, 0xf5, 0x9d, 0x5f, 0xb3, 0xfe, 0xd7],
    [0x0e, 0xd8, 0xb0, 0xf3, 0x35, 0x3b, 0x37, 0xbc, 0xef, 0x8b, 0xe5, 0x3a, 0x22, 0x1c, 0xdd, 0xc1],
    [0x86, 0x78, 0x47, 0x1f, 0x57, 0x2e, 0x02, 0x95, 0xe1, 0x62, 0x4f, 0xa0, 0xa9, 0xae, 0x97, 0x9a],
    [0xf8, 0x45, 0x28, 0x1e, 0xe8, 0x19, 0xe3, 0xe2, 0xb8, 0xa5, 0x52, 0x0f, 0x50, 0x7f, 0x93, 0x81],
    [0x20, 0x6f, 0xdc, 0xd6, 0x21, 0xf4, 0x83, 0x87, 0xec, 0x9b, 0x9e, 0x89, 0x05, 0x63, 0x48, 0x65]]"

definition TABLE_S2_53 :: "bytes" where
  "TABLE_S2_53 = concat [
    [0x11, 0xd6, 0x09, 0xb9, 0x93, 0x40, 0x0e, 0x91, 0x96, 0x6a, 0xcf, 0x63, 0x81, 0x05, 0xf6, 0x88],
    [0xc8, 0x77, 0x21, 0x1e, 0x49, 0x62, 0x7a, 0x38, 0x14, 0xe9, 0x9f, 0xcd, 0x47, 0xea, 0x37, 0xe6],
    [0x6f, 0x06, 0x15, 0x84, 0x7c, 0x35, 0x5c, 0xf9, 0x41, 0xd1, 0x85, 0x3e, 0xf1, 0x28, 0x16, 0xcc],
    [0xef, 0x4f, 0x74, 0x61, 0x8f, 0x90, 0x3f, 0x34, 0xbf, 0x67, 0xc4, 0x0d, 0xa9, 0xd3, 0x66, 0x22],
    [0x86, 0x00, 0x3c, 0xd8, 0xa4, 0x9e, 0x87, 0xb6, 0xce, 0x64, 0xc3, 0x89, 0x4a, 0x53, 0x7b, 0xfa],
    [0x51, 0xab, 0xa3, 0x4b, 0x0b, 0xa5, 0x54, 0x3a, 0xe0, 0x9d, 0x25, 0x83, 0x78, 0x39, 0xc5, 0xb5],
    [0x72, 0x2b, 0xf7, 0xa1, 0xfd, 0x48, 0xaf, 0x71, 0x6e, 0xc6, 0x8c, 0x73, 0xbb, 0x69, 0x32, 0x0f],
    [0x99, 0xae, 0xd0, 0xdf, 0x1f, 0xd4, 0xf3, 0xf5, 0x68, 0xad, 0x9b, 0xee, 0x70, 0x1a, 0x45, 0xbc],
    [0x65, 0x8a, 0xa7, 0x24, 0x5f, 0x52, 0x6b, 0x6c, 0xda, 0x82, 0xbd, 0x43, 0x50, 0xc7, 0xeb, 0x92],
    [0xff, 0x20, 0x4e, 0x2a, 0x04, 0x18, 0xd9, 0xe7, 0x36, 0x75, 0x1d, 0xcb, 0x79, 0xf2, 0xfe, 0xf0],
    [0x4c, 0x5b, 0x5e, 0x29, 0xa0, 0x8d, 0xa6, 0xc0, 0x13, 0x19, 0xaa, 0xe5, 0x42, 0x46, 0x31, 0xe4],
    [0xca, 0x97, 0x60, 0x7d, 0x44, 0x56, 0xba, 0x95, 0xdb, 0xed, 0x80, 0x3d, 0x27, 0x26, 0xdc, 0x2d],
    [0x8b, 0x10, 0xac, 0x4d, 0xec, 0x0c, 0xc9, 0x03, 0x2c, 0xbe, 0xa8, 0x0a, 0x1c, 0x07, 0xc1, 0x17],
    [0xd5, 0x02, 0xb4, 0x1b, 0x55, 0x23, 0xdd, 0x5a, 0x7e, 0xfb, 0xb3, 0x2f, 0xe1, 0x8e, 0xf4, 0x01],
    [0x58, 0x30, 0xa2, 0xf8, 0x12, 0x3b, 0x76, 0x9a, 0xb0, 0xd7, 0x2e, 0xb7, 0xb2, 0xd2, 0xfc, 0x08],
    [0x59, 0x94, 0x5d, 0xb8, 0xe3, 0x33, 0xde, 0x98, 0x9c, 0xe8, 0x7f, 0x57, 0xb1, 0x6d, 0xe2, 0xc2]]"

definition TABLE_S2_54 :: "bytes" where
  "TABLE_S2_54 = concat [
    [0xa6, 0x04, 0x22, 0xb0, 0xcf, 0x19, 0x12, 0x09, 0xa2, 0x43, 0x85, 0x1e, 0xc7, 0x0d, 0xe2, 0x02],
    [0xbd, 0x21, 0x70, 0xf5, 0xfa, 0x0f, 0xef, 0x80, 0xba, 0x15, 0xdb, 0x0c, 0xd3, 0x54, 0x5b, 0x2d],
    [0x20, 0xb9, 0xbe, 0xd9, 0xf2, 0x06, 0xbc, 0xdc, 0xac, 0xf6, 0x56, 0x3e, 0x78, 0x94, 0x1c, 0x35],
    [0x71, 0x59, 0x92, 0xe6, 0xec, 0xcc, 0xbf, 0x63, 0x53, 0xb6, 0x57, 0x9a, 0xd0, 0x96, 0xed, 0x3d],
    [0xb3, 0x4d, 0xd4, 0x8c, 0xe5, 0x9c, 0x5e, 0xc9, 0xa9, 0x2a, 0x6b, 0x84, 0x65, 0x62, 0x51, 0x5c],
    [0x13, 0xc5, 0x38, 0x7b, 0xf0, 0xfe, 0x77, 0xfc, 0x40, 0x24, 0xf1, 0x2e, 0xd7, 0xe9, 0x0a, 0x16],
    [0xa4, 0xeb, 0x1d, 0x17, 0x3f, 0xea, 0x4c, 0x48, 0x50, 0x27, 0x42, 0x55, 0xa8, 0xce, 0xae, 0x83],
    [0x8e, 0x33, 0xd5, 0xe3, 0xd2, 0x23, 0x29, 0x28, 0x6e, 0x73, 0xc4, 0x99, 0xb4, 0x9b, 0x4a, 0x58],
    [0xcd, 0x87, 0xc0, 0x6a, 0x75, 0xf4, 0x44, 0x5d, 0x32, 0xd6, 0x88, 0x0e, 0x89, 0xb8, 0xaa, 0x90],
    [0x2b, 0x8d, 0xee, 0x93, 0xcb, 0xbb, 0x76, 0x37, 0xad, 0x45, 0x5f, 0xa5, 0x5a, 0x34, 0x05, 0xab],
    [0x82, 0x7d, 0x60, 0xc8, 0x3c, 0x01, 0xb5, 0x67, 0xf9, 0xaf, 0x7c, 0x25, 0xa1, 0x7f, 0xf3, 0x46],
    [0x95, 0xe0, 0x66, 0xa3, 0x4b, 0xb2, 0x7e, 0x14, 0xde, 0xd1, 0x97, 0xa0, 0xfd, 0xfb, 0x11, 0xda],
    [0xc1, 0x6d, 0x98, 0x64, 0xf8, 0x86, 0x8f, 0x0b, 0x07, 0xb7, 0x1f, 0xd8, 0x00, 0x9f, 0x9d, 0x4e],
    [0x91, 0xc3, 0x1a, 0xe7, 0x39, 0xe8, 0x49, 0xe4, 0x2f, 0x10, 0xc6, 0x79, 0x74, 0x36, 0x47, 0x6c],
    [0x8b, 0x30, 0x4f, 0xdf, 0x18, 0xc2, 0xff, 0x26, 0x1b, 0x8a, 0x61, 0x08, 0x52, 0xf7, 0x72, 0x3b],
    [0xca, 0x03, 0xb1, 0x69, 0x68, 0x2c, 0xa7, 0xdd, 0x7a, 0x6f, 0xe1, 0x41, 0x31, 0x3a, 0x81, 0x9e]]"

definition TABLE_S2_55 :: "bytes" where
  "TABLE_S2_55 = concat [
    [0xbc, 0x40, 0xb5, 0x19, 0xd3, 0x57, 0x5e, 0x20, 0x00, 0xc7, 0x6f, 0xdf, 0x96, 0x45, 0x47, 0xd8],
    [0x3f, 0xc2, 0x1b, 0x49, 0x3c, 0x91, 0x30, 0xe1, 0xa1, 0x1e, 0xc8, 0xf7, 0xb4, 0x9f, 0xee, 0xac],
    [0x07, 0x97, 0xe8, 0x53, 0xfe, 0x27, 0x1a, 0xc0, 0xd0, 0xb9, 0x52, 0xc3, 0xe3, 0xaa, 0x2f, 0x8a],
    [0xb1, 0x69, 0xdb, 0x12, 0x05, 0x7f, 0xf4, 0xb0, 0x99, 0x39, 0xb7, 0xa2, 0x46, 0x59, 0xe2, 0xe9],
    [0xb2, 0x18, 0x5f, 0x15, 0x85, 0x9c, 0x2c, 0xad, 0xd6, 0x50, 0x0e, 0xea, 0x48, 0x72, 0x60, 0x51],
    [0x4b, 0x36, 0x55, 0xf3, 0xef, 0xae, 0x63, 0x13, 0x7d, 0x87, 0x9d, 0x75, 0x73, 0xdd, 0xec, 0x82],
    [0x10, 0xb8, 0xa5, 0x5a, 0xbf, 0x6d, 0xd9, 0xe4, 0xfd, 0xa4, 0x77, 0x21, 0x9e, 0x2b, 0xa7, 0x79],
    [0x7b, 0xbe, 0x38, 0x4d, 0xcc, 0xa6, 0x6a, 0x93, 0x78, 0x4f, 0x09, 0x06, 0x02, 0xc9, 0x23, 0x25],
    [0x54, 0x0c, 0x95, 0x6b, 0x11, 0x86, 0x44, 0x3d, 0x5c, 0xb3, 0xf2, 0x71, 0x84, 0x89, 0xba, 0xbd],
    [0xa3, 0xe0, 0x1d, 0xcb, 0x24, 0xaf, 0x26, 0x28, 0xf6, 0x29, 0xfc, 0x98, 0xce, 0xd2, 0x31, 0x0f],
    [0xcf, 0xc5, 0x33, 0x7c, 0x90, 0x94, 0x32, 0xe7, 0x8d, 0x9a, 0xff, 0x88, 0x5b, 0x76, 0x16, 0x70],
    [0x3b, 0x0d, 0xeb, 0x56, 0xf0, 0xf1, 0xfb, 0x0a, 0x41, 0x1c, 0xab, 0xb6, 0x80, 0x92, 0x43, 0x6c],
    [0x68, 0xfa, 0xdc, 0x7e, 0xd1, 0xca, 0xc1, 0x17, 0xc6, 0x5d, 0x9b, 0x7a, 0xda, 0x3a, 0xd5, 0x1f],
    [0x2d, 0xa8, 0xf9, 0x65, 0x58, 0x37, 0xd7, 0x22, 0xd4, 0x03, 0xcd, 0x62, 0xf5, 0x83, 0x8c, 0x0b],
    [0x01, 0x66, 0x61, 0xf8, 0x04, 0x64, 0xde, 0x2a, 0xe6, 0x8e, 0x2e, 0x74, 0xed, 0xc4, 0x4c, 0xa0],
    [0x3e, 0x4a, 0x81, 0xa9, 0xbb, 0x67, 0x14, 0x34, 0x42, 0x8f, 0x6e, 0x8b, 0xe5, 0x35, 0x4e, 0x08]]"

definition TABLE_S2_56 :: "bytes" where
  "TABLE_S2_56 = concat [
    [0x62, 0xc4, 0x7c, 0x01, 0x54, 0x24, 0xd8, 0x99, 0xaa, 0x42, 0x4a, 0xb0, 0xdb, 0xb5, 0x44, 0xea],
    [0x68, 0x22, 0x85, 0x2f, 0x1b, 0x9a, 0xb2, 0xab, 0x39, 0xdd, 0xe1, 0x67, 0x57, 0x66, 0x7f, 0x45],
    [0x0f, 0x7a, 0x4c, 0x89, 0x5d, 0xa4, 0xfb, 0x91, 0x3e, 0x31, 0x4f, 0x78, 0x14, 0x12, 0x35, 0xfe],
    [0x92, 0x6d, 0x27, 0x8f, 0xee, 0xd3, 0x88, 0x5a, 0x40, 0x16, 0xca, 0x93, 0x90, 0x4e, 0xa9, 0x1c],
    [0x2c, 0x7e, 0x08, 0xf5, 0x07, 0xd6, 0x0b, 0xa6, 0xff, 0xc0, 0x96, 0x29, 0xd9, 0x9b, 0x83, 0xa8],
    [0x82, 0x2e, 0x8b, 0x77, 0x69, 0x17, 0xe4, 0x60, 0x58, 0xe8, 0x37, 0xf0, 0x70, 0xef, 0xa1, 0x72],
    [0xec, 0x25, 0x86, 0x5e, 0xc3, 0x87, 0x32, 0x48, 0x80, 0x95, 0xae, 0x0e, 0xd5, 0xde, 0x71, 0x6e],
    [0xdf, 0x64, 0x30, 0xa0, 0x2d, 0xf7, 0xc9, 0x10, 0x65, 0xf4, 0xe7, 0x8e, 0x18, 0xbd, 0xd4, 0x9d],
    [0xce, 0x52, 0x1a, 0x9f, 0xe0, 0x15, 0x6f, 0x00, 0xfa, 0x55, 0xe3, 0x34, 0xbb, 0x3c, 0xc2, 0xb4],
    [0xeb, 0x49, 0x5f, 0xcd, 0xf6, 0x20, 0xe6, 0xfd, 0xac, 0x4d, 0xf1, 0x6a, 0xe2, 0x28, 0xed, 0x0d],
    [0xb6, 0x9e, 0x09, 0x7d, 0x23, 0x03, 0x8c, 0x50, 0x59, 0xbc, 0x75, 0xb8, 0x79, 0x3f, 0xd2, 0x02],
    [0x56, 0xcf, 0x36, 0x51, 0xe9, 0x1d, 0x33, 0x53, 0x19, 0x43, 0xd1, 0xb9, 0x7b, 0x97, 0xda, 0xf3],
    [0x2a, 0xfc, 0x94, 0xd7, 0x11, 0x1f, 0x13, 0x98, 0xcb, 0xaf, 0xc1, 0x1e, 0x06, 0x38, 0xf9, 0xe5],
    [0xa2, 0x5c, 0x63, 0x3b, 0x73, 0x0a, 0x26, 0xb1, 0xc5, 0x46, 0x6b, 0x84, 0x8d, 0x8a, 0xb3, 0xbe],
    [0xdc, 0x61, 0x0c, 0x3a, 0xcc, 0x3d, 0xc7, 0xc6, 0x9c, 0x81, 0x76, 0x2b, 0x74, 0x5b, 0xb7, 0xa5],
    [0x04, 0x4b, 0xf8, 0xf2, 0x05, 0xd0, 0xa7, 0xa3, 0xc8, 0xbf, 0xba, 0xad, 0x21, 0x47, 0x6c, 0x41]]"

definition TABLE_S2_57 :: "bytes" where
  "TABLE_S2_57 = concat [
    [0x1c, 0xdb, 0x04, 0xb4, 0x9e, 0x4d, 0x03, 0x9c, 0x9b, 0x67, 0xc2, 0x6e, 0x8c, 0x08, 0xfb, 0x85],
    [0xc5, 0x7a, 0x2c, 0x13, 0x44, 0x6f, 0x77, 0x35, 0x19, 0xe4, 0x92, 0xc0, 0x4a, 0xe7, 0x3a, 0xeb],
    [0x62, 0x0b, 0x18, 0x89, 0x71, 0x38, 0x51, 0xf4, 0x4c, 0xdc, 0x88, 0x33, 0xfc, 0x25, 0x1b, 0xc1],
    [0xe2, 0x42, 0x79, 0x6c, 0x82, 0x9d, 0x32, 0x39, 0xb2, 0x6a, 0xc9, 0x00, 0xa4, 0xde, 0x6b, 0x2f],
    [0x8b, 0x0d, 0x31, 0xd5, 0xa9, 0x93, 0x8a, 0xbb, 0xc3, 0x69, 0xce, 0x84, 0x47, 0x5e, 0x76, 0xf7],
    [0x5c, 0xa6, 0xae, 0x46, 0x06, 0xa8, 0x59, 0x37, 0xed, 0x90, 0x28, 0x8e, 0x75, 0x34, 0xc8, 0xb8],
    [0x7f, 0x26, 0xfa, 0xac, 0xf0, 0x45, 0xa2, 0x7c, 0x63, 0xcb, 0x81, 0x7e, 0xb6, 0x64, 0x3f, 0x02],
    [0x94, 0xa3, 0xdd, 0xd2, 0x12, 0xd9, 0xfe, 0xf8, 0x65, 0xa0, 0x96, 0xe3, 0x7d, 0x17, 0x48, 0xb1],
    [0x68, 0x87, 0xaa, 0x29, 0x52, 0x5f, 0x66, 0x61, 0xd7, 0x8f, 0xb0, 0x4e, 0x5d, 0xca, 0xe6, 0x9f],
    [0xf2, 0x2d, 0x43, 0x27, 0x09, 0x15, 0xd4, 0xea, 0x3b, 0x78, 0x10, 0xc6, 0x74, 0xff, 0xf3, 0xfd],
    [0x41, 0x56, 0x53, 0x24, 0xad, 0x80, 0xab, 0xcd, 0x1e, 0x14, 0xa7, 0xe8, 0x4f, 0x4b, 0x3c, 0xe9],
    [0xc7, 0x9a, 0x6d, 0x70, 0x49, 0x5b, 0xb7, 0x98, 0xd6, 0xe0, 0x8d, 0x30, 0x2a, 0x2b, 0xd1, 0x20],
    [0x86, 0x1d, 0xa1, 0x40, 0xe1, 0x01, 0xc4, 0x0e, 0x21, 0xb3, 0xa5, 0x07, 0x11, 0x0a, 0xcc, 0x1a],
    [0xd8, 0x0f, 0xb9, 0x16, 0x58, 0x2e, 0xd0, 0x57, 0x73, 0xf6, 0xbe, 0x22, 0xec, 0x83, 0xf9, 0x0c],
    [0x55, 0x3d, 0xaf, 0xf5, 0x1f, 0x36, 0x7b, 0x97, 0xbd, 0xda, 0x23, 0xba, 0xbf, 0xdf, 0xf1, 0x05],
    [0x54, 0x99, 0x50, 0xb5, 0xee, 0x3e, 0xd3, 0x95, 0x91, 0xe5, 0x72, 0x5a, 0xbc, 0x60, 0xef, 0xcf]]"

definition TABLE_S2_58 :: "bytes" where
  "TABLE_S2_58 = concat [
    [0x7a, 0xd8, 0xfe, 0x6c, 0x13, 0xc5, 0xce, 0xd5, 0x7e, 0x9f, 0x59, 0xc2, 0x1b, 0xd1, 0x3e, 0xde],
    [0x61, 0xfd, 0xac, 0x29, 0x26, 0xd3, 0x33, 0x5c, 0x66, 0xc9, 0x07, 0xd0, 0x0f, 0x88, 0x87, 0xf1],
    [0xfc, 0x65, 0x62, 0x05, 0x2e, 0xda, 0x60, 0x00, 0x70, 0x2a, 0x8a, 0xe2, 0xa4, 0x48, 0xc0, 0xe9],
    [0xad, 0x85, 0x4e, 0x3a, 0x30, 0x10, 0x63, 0xbf, 0x8f, 0x6a, 0x8b, 0x46, 0x0c, 0x4a, 0x31, 0xe1],
    [0x6f, 0x91, 0x08, 0x50, 0x39, 0x40, 0x82, 0x15, 0x75, 0xf6, 0xb7, 0x58, 0xb9, 0xbe, 0x8d, 0x80],
    [0xcf, 0x19, 0xe4, 0xa7, 0x2c, 0x22, 0xab, 0x20, 0x9c, 0xf8, 0x2d, 0xf2, 0x0b, 0x35, 0xd6, 0xca],
    [0x78, 0x37, 0xc1, 0xcb, 0xe3, 0x36, 0x90, 0x94, 0x8c, 0xfb, 0x9e, 0x89, 0x74, 0x12, 0x72, 0x5f],
    [0x52, 0xef, 0x09, 0x3f, 0x0e, 0xff, 0xf5, 0xf4, 0xb2, 0xaf, 0x18, 0x45, 0x68, 0x47, 0x96, 0x84],
    [0x11, 0x5b, 0x1c, 0xb6, 0xa9, 0x28, 0x98, 0x81, 0xee, 0x0a, 0x54, 0xd2, 0x55, 0x64, 0x76, 0x4c],
    [0xf7, 0x51, 0x32, 0x4f, 0x17, 0x67, 0xaa, 0xeb, 0x71, 0x99, 0x83, 0x79, 0x86, 0xe8, 0xd9, 0x77],
    [0x5e, 0xa1, 0xbc, 0x14, 0xe0, 0xdd, 0x69, 0xbb, 0x25, 0x73, 0xa0, 0xf9, 0x7d, 0xa3, 0x2f, 0x9a],
    [0x49, 0x3c, 0xba, 0x7f, 0x97, 0x6e, 0xa2, 0xc8, 0x02, 0x0d, 0x4b, 0x7c, 0x21, 0x27, 0xcd, 0x06],
    [0x1d, 0xb1, 0x44, 0xb8, 0x24, 0x5a, 0x53, 0xd7, 0xdb, 0x6b, 0xc3, 0x04, 0xdc, 0x43, 0x41, 0x92],
    [0x4d, 0x1f, 0xc6, 0x3b, 0xe5, 0x34, 0x95, 0x38, 0xf3, 0xcc, 0x1a, 0xa5, 0xa8, 0xea, 0x9b, 0xb0],
    [0x57, 0xec, 0x93, 0x03, 0xc4, 0x1e, 0x23, 0xfa, 0xc7, 0x56, 0xbd, 0xd4, 0x8e, 0x2b, 0xae, 0xe7],
    [0x16, 0xdf, 0x6d, 0xb5, 0xb4, 0xf0, 0x7b, 0x01, 0xa6, 0xb3, 0x3d, 0x9d, 0xed, 0xe6, 0x5d, 0x42]]"

definition TABLE_S2_59 :: "bytes" where
  "TABLE_S2_59 = concat [
    [0x15, 0xe9, 0x1c, 0xb0, 0x7a, 0xfe, 0xf7, 0x89, 0xa9, 0x6e, 0xc6, 0x76, 0x3f, 0xec, 0xee, 0x71],
    [0x96, 0x6b, 0xb2, 0xe0, 0x95, 0x38, 0x99, 0x48, 0x08, 0xb7, 0x61, 0x5e, 0x1d, 0x36, 0x47, 0x05],
    [0xae, 0x3e, 0x41, 0xfa, 0x57, 0x8e, 0xb3, 0x69, 0x79, 0x10, 0xfb, 0x6a, 0x4a, 0x03, 0x86, 0x23],
    [0x18, 0xc0, 0x72, 0xbb, 0xac, 0xd6, 0x5d, 0x19, 0x30, 0x90, 0x1e, 0x0b, 0xef, 0xf0, 0x4b, 0x40],
    [0x1b, 0xb1, 0xf6, 0xbc, 0x2c, 0x35, 0x85, 0x04, 0x7f, 0xf9, 0xa7, 0x43, 0xe1, 0xdb, 0xc9, 0xf8],
    [0xe2, 0x9f, 0xfc, 0x5a, 0x46, 0x07, 0xca, 0xba, 0xd4, 0x2e, 0x34, 0xdc, 0xda, 0x74, 0x45, 0x2b],
    [0xb9, 0x11, 0x0c, 0xf3, 0x16, 0xc4, 0x70, 0x4d, 0x54, 0x0d, 0xde, 0x88, 0x37, 0x82, 0x0e, 0xd0],
    [0xd2, 0x17, 0x91, 0xe4, 0x65, 0x0f, 0xc3, 0x3a, 0xd1, 0xe6, 0xa0, 0xaf, 0xab, 0x60, 0x8a, 0x8c],
    [0xfd, 0xa5, 0x3c, 0xc2, 0xb8, 0x2f, 0xed, 0x94, 0xf5, 0x1a, 0x5b, 0xd8, 0x2d, 0x20, 0x13, 0x14],
    [0x0a, 0x49, 0xb4, 0x62, 0x8d, 0x06, 0x8f, 0x81, 0x5f, 0x80, 0x55, 0x31, 0x67, 0x7b, 0x98, 0xa6],
    [0x66, 0x6c, 0x9a, 0xd5, 0x39, 0x3d, 0x9b, 0x4e, 0x24, 0x33, 0x56, 0x21, 0xf2, 0xdf, 0xbf, 0xd9],
    [0x92, 0xa4, 0x42, 0xff, 0x59, 0x58, 0x52, 0xa3, 0xe8, 0xb5, 0x02, 0x1f, 0x29, 0x3b, 0xea, 0xc5],
    [0xc1, 0x53, 0x75, 0xd7, 0x78, 0x63, 0x68, 0xbe, 0x6f, 0xf4, 0x32, 0xd3, 0x73, 0x93, 0x7c, 0xb6],
    [0x84, 0x01, 0x50, 0xcc, 0xf1, 0x9e, 0x7e, 0x8b, 0x7d, 0xaa, 0x64, 0xcb, 0x5c, 0x2a, 0x25, 0xa2],
    [0xa8, 0xcf, 0xc8, 0x51, 0xad, 0xcd, 0x77, 0x83, 0x4f, 0x27, 0x87, 0xdd, 0x44, 0x6d, 0xe5, 0x09],
    [0x97, 0xe3, 0x28, 0x00, 0x12, 0xce, 0xbd, 0x9d, 0xeb, 0x26, 0xc7, 0x22, 0x4c, 0x9c, 0xe7, 0xa1]]"

definition TABLE_S2_60 :: "bytes" where
  "TABLE_S2_60 = concat [
    [0xe0, 0x46, 0xfe, 0x83, 0xd6, 0xa6, 0x5a, 0x1b, 0x28, 0xc0, 0xc8, 0x32, 0x59, 0x37, 0xc6, 0x68],
    [0xea, 0xa0, 0x07, 0xad, 0x99, 0x18, 0x30, 0x29, 0xbb, 0x5f, 0x63, 0xe5, 0xd5, 0xe4, 0xfd, 0xc7],
    [0x8d, 0xf8, 0xce, 0x0b, 0xdf, 0x26, 0x79, 0x13, 0xbc, 0xb3, 0xcd, 0xfa, 0x96, 0x90, 0xb7, 0x7c],
    [0x10, 0xef, 0xa5, 0x0d, 0x6c, 0x51, 0x0a, 0xd8, 0xc2, 0x94, 0x48, 0x11, 0x12, 0xcc, 0x2b, 0x9e],
    [0xae, 0xfc, 0x8a, 0x77, 0x85, 0x54, 0x89, 0x24, 0x7d, 0x42, 0x14, 0xab, 0x5b, 0x19, 0x01, 0x2a],
    [0x00, 0xac, 0x09, 0xf5, 0xeb, 0x95, 0x66, 0xe2, 0xda, 0x6a, 0xb5, 0x72, 0xf2, 0x6d, 0x23, 0xf0],
    [0x6e, 0xa7, 0x04, 0xdc, 0x41, 0x05, 0xb0, 0xca, 0x02, 0x17, 0x2c, 0x8c, 0x57, 0x5c, 0xf3, 0xec],
    [0x5d, 0xe6, 0xb2, 0x22, 0xaf, 0x75, 0x4b, 0x92, 0xe7, 0x76, 0x65, 0x0c, 0x9a, 0x3f, 0x56, 0x1f],
    [0x4c, 0xd0, 0x98, 0x1d, 0x62, 0x97, 0xed, 0x82, 0x78, 0xd7, 0x61, 0xb6, 0x39, 0xbe, 0x40, 0x36],
    [0x69, 0xcb, 0xdd, 0x4f, 0x74, 0xa2, 0x64, 0x7f, 0x2e, 0xcf, 0x73, 0xe8, 0x60, 0xaa, 0x6f, 0x8f],
    [0x34, 0x1c, 0x8b, 0xff, 0xa1, 0x81, 0x0e, 0xd2, 0xdb, 0x3e, 0xf7, 0x3a, 0xfb, 0xbd, 0x50, 0x80],
    [0xd4, 0x4d, 0xb4, 0xd3, 0x6b, 0x9f, 0xb1, 0xd1, 0x9b, 0xc1, 0x53, 0x3b, 0xf9, 0x15, 0x58, 0x71],
    [0xa8, 0x7e, 0x16, 0x55, 0x93, 0x9d, 0x91, 0x1a, 0x49, 0x2d, 0x43, 0x9c, 0x84, 0xba, 0x7b, 0x67],
    [0x20, 0xde, 0xe1, 0xb9, 0xf1, 0x88, 0xa4, 0x33, 0x47, 0xc4, 0xe9, 0x06, 0x0f, 0x08, 0x31, 0x3c],
    [0x5e, 0xe3, 0x8e, 0xb8, 0x4e, 0xbf, 0x45, 0x44, 0x1e, 0x03, 0xf4, 0xa9, 0xf6, 0xd9, 0x35, 0x27],
    [0x86, 0xc9, 0x7a, 0x70, 0x87, 0x52, 0x25, 0x21, 0x4a, 0x3d, 0x38, 0x2f, 0xa3, 0xc5, 0xee, 0xc3]]"

definition TABLE_S2_61 :: "bytes" where
  "TABLE_S2_61 = concat [
    [0x7f, 0xb8, 0x67, 0xd7, 0xfd, 0x2e, 0x60, 0xff, 0xf8, 0x04, 0xa1, 0x0d, 0xef, 0x6b, 0x98, 0xe6],
    [0xa6, 0x19, 0x4f, 0x70, 0x27, 0x0c, 0x14, 0x56, 0x7a, 0x87, 0xf1, 0xa3, 0x29, 0x84, 0x59, 0x88],
    [0x01, 0x68, 0x7b, 0xea, 0x12, 0x5b, 0x32, 0x97, 0x2f, 0xbf, 0xeb, 0x50, 0x9f, 0x46, 0x78, 0xa2],
    [0x81, 0x21, 0x1a, 0x0f, 0xe1, 0xfe, 0x51, 0x5a, 0xd1, 0x09, 0xaa, 0x63, 0xc7, 0xbd, 0x08, 0x4c],
    [0xe8, 0x6e, 0x52, 0xb6, 0xca, 0xf0, 0xe9, 0xd8, 0xa0, 0x0a, 0xad, 0xe7, 0x24, 0x3d, 0x15, 0x94],
    [0x3f, 0xc5, 0xcd, 0x25, 0x65, 0xcb, 0x3a, 0x54, 0x8e, 0xf3, 0x4b, 0xed, 0x16, 0x57, 0xab, 0xdb],
    [0x1c, 0x45, 0x99, 0xcf, 0x93, 0x26, 0xc1, 0x1f, 0x00, 0xa8, 0xe2, 0x1d, 0xd5, 0x07, 0x5c, 0x61],
    [0xf7, 0xc0, 0xbe, 0xb1, 0x71, 0xba, 0x9d, 0x9b, 0x06, 0xc3, 0xf5, 0x80, 0x1e, 0x74, 0x2b, 0xd2],
    [0x0b, 0xe4, 0xc9, 0x4a, 0x31, 0x3c, 0x05, 0x02, 0xb4, 0xec, 0xd3, 0x2d, 0x3e, 0xa9, 0x85, 0xfc],
    [0x91, 0x4e, 0x20, 0x44, 0x6a, 0x76, 0xb7, 0x89, 0x58, 0x1b, 0x73, 0xa5, 0x17, 0x9c, 0x90, 0x9e],
    [0x22, 0x35, 0x30, 0x47, 0xce, 0xe3, 0xc8, 0xae, 0x7d, 0x77, 0xc4, 0x8b, 0x2c, 0x28, 0x5f, 0x8a],
    [0xa4, 0xf9, 0x0e, 0x13, 0x2a, 0x38, 0xd4, 0xfb, 0xb5, 0x83, 0xee, 0x53, 0x49, 0x48, 0xb2, 0x43],
    [0xe5, 0x7e, 0xc2, 0x23, 0x82, 0x62, 0xa7, 0x6d, 0x42, 0xd0, 0xc6, 0x64, 0x72, 0x69, 0xaf, 0x79],
    [0xbb, 0x6c, 0xda, 0x75, 0x3b, 0x4d, 0xb3, 0x34, 0x10, 0x95, 0xdd, 0x41, 0x8f, 0xe0, 0x9a, 0x6f],
    [0x36, 0x5e, 0xcc, 0x96, 0x7c, 0x55, 0x18, 0xf4, 0xde, 0xb9, 0x40, 0xd9, 0xdc, 0xbc, 0x92, 0x66],
    [0x37, 0xfa, 0x33, 0xd6, 0x8d, 0x5d, 0xb0, 0xf6, 0xf2, 0x86, 0x11, 0x39, 0xdf, 0x03, 0x8c, 0xac]]"

definition TABLE_S2_62 :: "bytes" where
  "TABLE_S2_62 = concat [
    [0x24, 0x86, 0xa0, 0x32, 0x4d, 0x9b, 0x90, 0x8b, 0x20, 0xc1, 0x07, 0x9c, 0x45, 0x8f, 0x60, 0x80],
    [0x3f, 0xa3, 0xf2, 0x77, 0x78, 0x8d, 0x6d, 0x02, 0x38, 0x97, 0x59, 0x8e, 0x51, 0xd6, 0xd9, 0xaf],
    [0xa2, 0x3b, 0x3c, 0x5b, 0x70, 0x84, 0x3e, 0x5e, 0x2e, 0x74, 0xd4, 0xbc, 0xfa, 0x16, 0x9e, 0xb7],
    [0xf3, 0xdb, 0x10, 0x64, 0x6e, 0x4e, 0x3d, 0xe1, 0xd1, 0x34, 0xd5, 0x18, 0x52, 0x14, 0x6f, 0xbf],
    [0x31, 0xcf, 0x56, 0x0e, 0x67, 0x1e, 0xdc, 0x4b, 0x2b, 0xa8, 0xe9, 0x06, 0xe7, 0xe0, 0xd3, 0xde],
    [0x91, 0x47, 0xba, 0xf9, 0x72, 0x7c, 0xf5, 0x7e, 0xc2, 0xa6, 0x73, 0xac, 0x55, 0x6b, 0x88, 0x94],
    [0x26, 0x69, 0x9f, 0x95, 0xbd, 0x68, 0xce, 0xca, 0xd2, 0xa5, 0xc0, 0xd7, 0x2a, 0x4c, 0x2c, 0x01],
    [0x0c, 0xb1, 0x57, 0x61, 0x50, 0xa1, 0xab, 0xaa, 0xec, 0xf1, 0x46, 0x1b, 0x36, 0x19, 0xc8, 0xda],
    [0x4f, 0x05, 0x42, 0xe8, 0xf7, 0x76, 0xc6, 0xdf, 0xb0, 0x54, 0x0a, 0x8c, 0x0b, 0x3a, 0x28, 0x12],
    [0xa9, 0x0f, 0x6c, 0x11, 0x49, 0x39, 0xf4, 0xb5, 0x2f, 0xc7, 0xdd, 0x27, 0xd8, 0xb6, 0x87, 0x29],
    [0x00, 0xff, 0xe2, 0x4a, 0xbe, 0x83, 0x37, 0xe5, 0x7b, 0x2d, 0xfe, 0xa7, 0x23, 0xfd, 0x71, 0xc4],
    [0x17, 0x62, 0xe4, 0x21, 0xc9, 0x30, 0xfc, 0x96, 0x5c, 0x53, 0x15, 0x22, 0x7f, 0x79, 0x93, 0x58],
    [0x43, 0xef, 0x1a, 0xe6, 0x7a, 0x04, 0x0d, 0x89, 0x85, 0x35, 0x9d, 0x5a, 0x82, 0x1d, 0x1f, 0xcc],
    [0x13, 0x41, 0x98, 0x65, 0xbb, 0x6a, 0xcb, 0x66, 0xad, 0x92, 0x44, 0xfb, 0xf6, 0xb4, 0xc5, 0xee],
    [0x09, 0xb2, 0xcd, 0x5d, 0x9a, 0x40, 0x7d, 0xa4, 0x99, 0x08, 0xe3, 0x8a, 0xd0, 0x75, 0xf0, 0xb9],
    [0x48, 0x81, 0x33, 0xeb, 0xea, 0xae, 0x25, 0x5f, 0xf8, 0xed, 0x63, 0xc3, 0xb3, 0xb8, 0x03, 0x1c]]"

definition TABLE_S2_63 :: "bytes" where
  "TABLE_S2_63 = concat [
    [0x4a, 0xb6, 0x43, 0xef, 0x25, 0xa1, 0xa8, 0xd6, 0xf6, 0x31, 0x99, 0x29, 0x60, 0xb3, 0xb1, 0x2e],
    [0xc9, 0x34, 0xed, 0xbf, 0xca, 0x67, 0xc6, 0x17, 0x57, 0xe8, 0x3e, 0x01, 0x42, 0x69, 0x18, 0x5a],
    [0xf1, 0x61, 0x1e, 0xa5, 0x08, 0xd1, 0xec, 0x36, 0x26, 0x4f, 0xa4, 0x35, 0x15, 0x5c, 0xd9, 0x7c],
    [0x47, 0x9f, 0x2d, 0xe4, 0xf3, 0x89, 0x02, 0x46, 0x6f, 0xcf, 0x41, 0x54, 0xb0, 0xaf, 0x14, 0x1f],
    [0x44, 0xee, 0xa9, 0xe3, 0x73, 0x6a, 0xda, 0x5b, 0x20, 0xa6, 0xf8, 0x1c, 0xbe, 0x84, 0x96, 0xa7],
    [0xbd, 0xc0, 0xa3, 0x05, 0x19, 0x58, 0x95, 0xe5, 0x8b, 0x71, 0x6b, 0x83, 0x85, 0x2b, 0x1a, 0x74],
    [0xe6, 0x4e, 0x53, 0xac, 0x49, 0x9b, 0x2f, 0x12, 0x0b, 0x52, 0x81, 0xd7, 0x68, 0xdd, 0x51, 0x8f],
    [0x8d, 0x48, 0xce, 0xbb, 0x3a, 0x50, 0x9c, 0x65, 0x8e, 0xb9, 0xff, 0xf0, 0xf4, 0x3f, 0xd5, 0xd3],
    [0xa2, 0xfa, 0x63, 0x9d, 0xe7, 0x70, 0xb2, 0xcb, 0xaa, 0x45, 0x04, 0x87, 0x72, 0x7f, 0x4c, 0x4b],
    [0x55, 0x16, 0xeb, 0x3d, 0xd2, 0x59, 0xd0, 0xde, 0x00, 0xdf, 0x0a, 0x6e, 0x38, 0x24, 0xc7, 0xf9],
    [0x39, 0x33, 0xc5, 0x8a, 0x66, 0x62, 0xc4, 0x11, 0x7b, 0x6c, 0x09, 0x7e, 0xad, 0x80, 0xe0, 0x86],
    [0xcd, 0xfb, 0x1d, 0xa0, 0x06, 0x07, 0x0d, 0xfc, 0xb7, 0xea, 0x5d, 0x40, 0x76, 0x64, 0xb5, 0x9a],
    [0x9e, 0x0c, 0x2a, 0x88, 0x27, 0x3c, 0x37, 0xe1, 0x30, 0xab, 0x6d, 0x8c, 0x2c, 0xcc, 0x23, 0xe9],
    [0xdb, 0x5e, 0x0f, 0x93, 0xae, 0xc1, 0x21, 0xd4, 0x22, 0xf5, 0x3b, 0x94, 0x03, 0x75, 0x7a, 0xfd],
    [0xf7, 0x90, 0x97, 0x0e, 0xf2, 0x92, 0x28, 0xdc, 0x10, 0x78, 0xd8, 0x82, 0x1b, 0x32, 0xba, 0x56],
    [0xc8, 0xbc, 0x77, 0x5f, 0x4d, 0x91, 0xe2, 0xc2, 0xb4, 0x79, 0x98, 0x7d, 0x13, 0xc3, 0xb8, 0xfe]]"

definition TABLE_S2_64 :: "bytes" where
  "TABLE_S2_64 = concat [
    [0x5f, 0xf9, 0x41, 0x3c, 0x69, 0x19, 0xe5, 0xa4, 0x97, 0x7f, 0x77, 0x8d, 0xe6, 0x88, 0x79, 0xd7],
    [0x55, 0x1f, 0xb8, 0x12, 0x26, 0xa7, 0x8f, 0x96, 0x04, 0xe0, 0xdc, 0x5a, 0x6a, 0x5b, 0x42, 0x78],
    [0x32, 0x47, 0x71, 0xb4, 0x60, 0x99, 0xc6, 0xac, 0x03, 0x0c, 0x72, 0x45, 0x29, 0x2f, 0x08, 0xc3],
    [0xaf, 0x50, 0x1a, 0xb2, 0xd3, 0xee, 0xb5, 0x67, 0x7d, 0x2b, 0xf7, 0xae, 0xad, 0x73, 0x94, 0x21],
    [0x11, 0x43, 0x35, 0xc8, 0x3a, 0xeb, 0x36, 0x9b, 0xc2, 0xfd, 0xab, 0x14, 0xe4, 0xa6, 0xbe, 0x95],
    [0xbf, 0x13, 0xb6, 0x4a, 0x54, 0x2a, 0xd9, 0x5d, 0x65, 0xd5, 0x0a, 0xcd, 0x4d, 0xd2, 0x9c, 0x4f],
    [0xd1, 0x18, 0xbb, 0x63, 0xfe, 0xba, 0x0f, 0x75, 0xbd, 0xa8, 0x93, 0x33, 0xe8, 0xe3, 0x4c, 0x53],
    [0xe2, 0x59, 0x0d, 0x9d, 0x10, 0xca, 0xf4, 0x2d, 0x58, 0xc9, 0xda, 0xb3, 0x25, 0x80, 0xe9, 0xa0],
    [0xf3, 0x6f, 0x27, 0xa2, 0xdd, 0x28, 0x52, 0x3d, 0xc7, 0x68, 0xde, 0x09, 0x86, 0x01, 0xff, 0x89],
    [0xd6, 0x74, 0x62, 0xf0, 0xcb, 0x1d, 0xdb, 0xc0, 0x91, 0x70, 0xcc, 0x57, 0xdf, 0x15, 0xd0, 0x30],
    [0x8b, 0xa3, 0x34, 0x40, 0x1e, 0x3e, 0xb1, 0x6d, 0x64, 0x81, 0x48, 0x85, 0x44, 0x02, 0xef, 0x3f],
    [0x6b, 0xf2, 0x0b, 0x6c, 0xd4, 0x20, 0x0e, 0x6e, 0x24, 0x7e, 0xec, 0x84, 0x46, 0xaa, 0xe7, 0xce],
    [0x17, 0xc1, 0xa9, 0xea, 0x2c, 0x22, 0x2e, 0xa5, 0xf6, 0x92, 0xfc, 0x23, 0x3b, 0x05, 0xc4, 0xd8],
    [0x9f, 0x61, 0x5e, 0x06, 0x4e, 0x37, 0x1b, 0x8c, 0xf8, 0x7b, 0x56, 0xb9, 0xb0, 0xb7, 0x8e, 0x83],
    [0xe1, 0x5c, 0x31, 0x07, 0xf1, 0x00, 0xfa, 0xfb, 0xa1, 0xbc, 0x4b, 0x16, 0x49, 0x66, 0x8a, 0x98],
    [0x39, 0x76, 0xc5, 0xcf, 0x38, 0xed, 0x9a, 0x9e, 0xf5, 0x82, 0x87, 0x90, 0x1c, 0x7a, 0x51, 0x7c]]"

definition TABLE_S2_65 :: "bytes" where
  "TABLE_S2_65 = concat [
    [0x01, 0xc6, 0x19, 0xa9, 0x83, 0x50, 0x1e, 0x81, 0x86, 0x7a, 0xdf, 0x73, 0x91, 0x15, 0xe6, 0x98],
    [0xd8, 0x67, 0x31, 0x0e, 0x59, 0x72, 0x6a, 0x28, 0x04, 0xf9, 0x8f, 0xdd, 0x57, 0xfa, 0x27, 0xf6],
    [0x7f, 0x16, 0x05, 0x94, 0x6c, 0x25, 0x4c, 0xe9, 0x51, 0xc1, 0x95, 0x2e, 0xe1, 0x38, 0x06, 0xdc],
    [0xff, 0x5f, 0x64, 0x71, 0x9f, 0x80, 0x2f, 0x24, 0xaf, 0x77, 0xd4, 0x1d, 0xb9, 0xc3, 0x76, 0x32],
    [0x96, 0x10, 0x2c, 0xc8, 0xb4, 0x8e, 0x97, 0xa6, 0xde, 0x74, 0xd3, 0x99, 0x5a, 0x43, 0x6b, 0xea],
    [0x41, 0xbb, 0xb3, 0x5b, 0x1b, 0xb5, 0x44, 0x2a, 0xf0, 0x8d, 0x35, 0x93, 0x68, 0x29, 0xd5, 0xa5],
    [0x62, 0x3b, 0xe7, 0xb1, 0xed, 0x58, 0xbf, 0x61, 0x7e, 0xd6, 0x9c, 0x63, 0xab, 0x79, 0x22, 0x1f],
    [0x89, 0xbe, 0xc0, 0xcf, 0x0f, 0xc4, 0xe3, 0xe5, 0x78, 0xbd, 0x8b, 0xfe, 0x60, 0x0a, 0x55, 0xac],
    [0x75, 0x9a, 0xb7, 0x34, 0x4f, 0x42, 0x7b, 0x7c, 0xca, 0x92, 0xad, 0x53, 0x40, 0xd7, 0xfb, 0x82],
    [0xef, 0x30, 0x5e, 0x3a, 0x14, 0x08, 0xc9, 0xf7, 0x26, 0x65, 0x0d, 0xdb, 0x69, 0xe2, 0xee, 0xe0],
    [0x5c, 0x4b, 0x4e, 0x39, 0xb0, 0x9d, 0xb6, 0xd0, 0x03, 0x09, 0xba, 0xf5, 0x52, 0x56, 0x21, 0xf4],
    [0xda, 0x87, 0x70, 0x6d, 0x54, 0x46, 0xaa, 0x85, 0xcb, 0xfd, 0x90, 0x2d, 0x37, 0x36, 0xcc, 0x3d],
    [0x9b, 0x00, 0xbc, 0x5d, 0xfc, 0x1c, 0xd9, 0x13, 0x3c, 0xae, 0xb8, 0x1a, 0x0c, 0x17, 0xd1, 0x07],
    [0xc5, 0x12, 0xa4, 0x0b, 0x45, 0x33, 0xcd, 0x4a, 0x6e, 0xeb, 0xa3, 0x3f, 0xf1, 0x9e, 0xe4, 0x11],
    [0x48, 0x20, 0xb2, 0xe8, 0x02, 0x2b, 0x66, 0x8a, 0xa0, 0xc7, 0x3e, 0xa7, 0xa2, 0xc2, 0xec, 0x18],
    [0x49, 0x84, 0x4d, 0xa8, 0xf3, 0x23, 0xce, 0x88, 0x8c, 0xf8, 0x6f, 0x47, 0xa1, 0x7d, 0xf2, 0xd2]]"

definition TABLE_S2_66 :: "bytes" where
  "TABLE_S2_66 = concat [
    [0x07, 0xa5, 0x83, 0x11, 0x6e, 0xb8, 0xb3, 0xa8, 0x03, 0xe2, 0x24, 0xbf, 0x66, 0xac, 0x43, 0xa3],
    [0x1c, 0x80, 0xd1, 0x54, 0x5b, 0xae, 0x4e, 0x21, 0x1b, 0xb4, 0x7a, 0xad, 0x72, 0xf5, 0xfa, 0x8c],
    [0x81, 0x18, 0x1f, 0x78, 0x53, 0xa7, 0x1d, 0x7d, 0x0d, 0x57, 0xf7, 0x9f, 0xd9, 0x35, 0xbd, 0x94],
    [0xd0, 0xf8, 0x33, 0x47, 0x4d, 0x6d, 0x1e, 0xc2, 0xf2, 0x17, 0xf6, 0x3b, 0x71, 0x37, 0x4c, 0x9c],
    [0x12, 0xec, 0x75, 0x2d, 0x44, 0x3d, 0xff, 0x68, 0x08, 0x8b, 0xca, 0x25, 0xc4, 0xc3, 0xf0, 0xfd],
    [0xb2, 0x64, 0x99, 0xda, 0x51, 0x5f, 0xd6, 0x5d, 0xe1, 0x85, 0x50, 0x8f, 0x76, 0x48, 0xab, 0xb7],
    [0x05, 0x4a, 0xbc, 0xb6, 0x9e, 0x4b, 0xed, 0xe9, 0xf1, 0x86, 0xe3, 0xf4, 0x09, 0x6f, 0x0f, 0x22],
    [0x2f, 0x92, 0x74, 0x42, 0x73, 0x82, 0x88, 0x89, 0xcf, 0xd2, 0x65, 0x38, 0x15, 0x3a, 0xeb, 0xf9],
    [0x6c, 0x26, 0x61, 0xcb, 0xd4, 0x55, 0xe5, 0xfc, 0x93, 0x77, 0x29, 0xaf, 0x28, 0x19, 0x0b, 0x31],
    [0x8a, 0x2c, 0x4f, 0x32, 0x6a, 0x1a, 0xd7, 0x96, 0x0c, 0xe4, 0xfe, 0x04, 0xfb, 0x95, 0xa4, 0x0a],
    [0x23, 0xdc, 0xc1, 0x69, 0x9d, 0xa0, 0x14, 0xc6, 0x58, 0x0e, 0xdd, 0x84, 0x00, 0xde, 0x52, 0xe7],
    [0x34, 0x41, 0xc7, 0x02, 0xea, 0x13, 0xdf, 0xb5, 0x7f, 0x70, 0x36, 0x01, 0x5c, 0x5a, 0xb0, 0x7b],
    [0x60, 0xcc, 0x39, 0xc5, 0x59, 0x27, 0x2e, 0xaa, 0xa6, 0x16, 0xbe, 0x79, 0xa1, 0x3e, 0x3c, 0xef],
    [0x30, 0x62, 0xbb, 0x46, 0x98, 0x49, 0xe8, 0x45, 0x8e, 0xb1, 0x67, 0xd8, 0xd5, 0x97, 0xe6, 0xcd],
    [0x2a, 0x91, 0xee, 0x7e, 0xb9, 0x63, 0x5e, 0x87, 0xba, 0x2b, 0xc0, 0xa9, 0xf3, 0x56, 0xd3, 0x9a],
    [0x6b, 0xa2, 0x10, 0xc8, 0xc9, 0x8d, 0x06, 0x7c, 0xdb, 0xce, 0x40, 0xe0, 0x90, 0x9b, 0x20, 0x3f]]"

definition TABLE_S2_67 :: "bytes" where
  "TABLE_S2_67 = concat [
    [0xf9, 0x05, 0xf0, 0x5c, 0x96, 0x12, 0x1b, 0x65, 0x45, 0x82, 0x2a, 0x9a, 0xd3, 0x00, 0x02, 0x9d],
    [0x7a, 0x87, 0x5e, 0x0c, 0x79, 0xd4, 0x75, 0xa4, 0xe4, 0x5b, 0x8d, 0xb2, 0xf1, 0xda, 0xab, 0xe9],
    [0x42, 0xd2, 0xad, 0x16, 0xbb, 0x62, 0x5f, 0x85, 0x95, 0xfc, 0x17, 0x86, 0xa6, 0xef, 0x6a, 0xcf],
    [0xf4, 0x2c, 0x9e, 0x57, 0x40, 0x3a, 0xb1, 0xf5, 0xdc, 0x7c, 0xf2, 0xe7, 0x03, 0x1c, 0xa7, 0xac],
    [0xf7, 0x5d, 0x1a, 0x50, 0xc0, 0xd9, 0x69, 0xe8, 0x93, 0x15, 0x4b, 0xaf, 0x0d, 0x37, 0x25, 0x14],
    [0x0e, 0x73, 0x10, 0xb6, 0xaa, 0xeb, 0x26, 0x56, 0x38, 0xc2, 0xd8, 0x30, 0x36, 0x98, 0xa9, 0xc7],
    [0x55, 0xfd, 0xe0, 0x1f, 0xfa, 0x28, 0x9c, 0xa1, 0xb8, 0xe1, 0x32, 0x64, 0xdb, 0x6e, 0xe2, 0x3c],
    [0x3e, 0xfb, 0x7d, 0x08, 0x89, 0xe3, 0x2f, 0xd6, 0x3d, 0x0a, 0x4c, 0x43, 0x47, 0x8c, 0x66, 0x60],
    [0x11, 0x49, 0xd0, 0x2e, 0x54, 0xc3, 0x01, 0x78, 0x19, 0xf6, 0xb7, 0x34, 0xc1, 0xcc, 0xff, 0xf8],
    [0xe6, 0xa5, 0x58, 0x8e, 0x61, 0xea, 0x63, 0x6d, 0xb3, 0x6c, 0xb9, 0xdd, 0x8b, 0x97, 0x74, 0x4a],
    [0x8a, 0x80, 0x76, 0x39, 0xd5, 0xd1, 0x77, 0xa2, 0xc8, 0xdf, 0xba, 0xcd, 0x1e, 0x33, 0x53, 0x35],
    [0x7e, 0x48, 0xae, 0x13, 0xb5, 0xb4, 0xbe, 0x4f, 0x04, 0x59, 0xee, 0xf3, 0xc5, 0xd7, 0x06, 0x29],
    [0x2d, 0xbf, 0x99, 0x3b, 0x94, 0x8f, 0x84, 0x52, 0x83, 0x18, 0xde, 0x3f, 0x9f, 0x7f, 0x90, 0x5a],
    [0x68, 0xed, 0xbc, 0x20, 0x1d, 0x72, 0x92, 0x67, 0x91, 0x46, 0x88, 0x27, 0xb0, 0xc6, 0xc9, 0x4e],
    [0x44, 0x23, 0x24, 0xbd, 0x41, 0x21, 0x9b, 0x6f, 0xa3, 0xcb, 0x6b, 0x31, 0xa8, 0x81, 0x09, 0xe5],
    [0x7b, 0x0f, 0xc4, 0xec, 0xfe, 0x22, 0x51, 0x71, 0x07, 0xca, 0x2b, 0xce, 0xa0, 0x70, 0x0b, 0x4d]]"

definition TABLE_S2_68 :: "bytes" where
  "TABLE_S2_68 = concat [
    [0x87, 0x21, 0x99, 0xe4, 0xb1, 0xc1, 0x3d, 0x7c, 0x4f, 0xa7, 0xaf, 0x55, 0x3e, 0x50, 0xa1, 0x0f],
    [0x8d, 0xc7, 0x60, 0xca, 0xfe, 0x7f, 0x57, 0x4e, 0xdc, 0x38, 0x04, 0x82, 0xb2, 0x83, 0x9a, 0xa0],
    [0xea, 0x9f, 0xa9, 0x6c, 0xb8, 0x41, 0x1e, 0x74, 0xdb, 0xd4, 0xaa, 0x9d, 0xf1, 0xf7, 0xd0, 0x1b],
    [0x77, 0x88, 0xc2, 0x6a, 0x0b, 0x36, 0x6d, 0xbf, 0xa5, 0xf3, 0x2f, 0x76, 0x75, 0xab, 0x4c, 0xf9],
    [0xc9, 0x9b, 0xed, 0x10, 0xe2, 0x33, 0xee, 0x43, 0x1a, 0x25, 0x73, 0xcc, 0x3c, 0x7e, 0x66, 0x4d],
    [0x67, 0xcb, 0x6e, 0x92, 0x8c, 0xf2, 0x01, 0x85, 0xbd, 0x0d, 0xd2, 0x15, 0x95, 0x0a, 0x44, 0x97],
    [0x09, 0xc0, 0x63, 0xbb, 0x26, 0x62, 0xd7, 0xad, 0x65, 0x70, 0x4b, 0xeb, 0x30, 0x3b, 0x94, 0x8b],
    [0x3a, 0x81, 0xd5, 0x45, 0xc8, 0x12, 0x2c, 0xf5, 0x80, 0x11, 0x02, 0x6b, 0xfd, 0x58, 0x31, 0x78],
    [0x2b, 0xb7, 0xff, 0x7a, 0x05, 0xf0, 0x8a, 0xe5, 0x1f, 0xb0, 0x06, 0xd1, 0x5e, 0xd9, 0x27, 0x51],
    [0x0e, 0xac, 0xba, 0x28, 0x13, 0xc5, 0x03, 0x18, 0x49, 0xa8, 0x14, 0x8f, 0x07, 0xcd, 0x08, 0xe8],
    [0x53, 0x7b, 0xec, 0x98, 0xc6, 0xe6, 0x69, 0xb5, 0xbc, 0x59, 0x90, 0x5d, 0x9c, 0xda, 0x37, 0xe7],
    [0xb3, 0x2a, 0xd3, 0xb4, 0x0c, 0xf8, 0xd6, 0xb6, 0xfc, 0xa6, 0x34, 0x5c, 0x9e, 0x72, 0x3f, 0x16],
    [0xcf, 0x19, 0x71, 0x32, 0xf4, 0xfa, 0xf6, 0x7d, 0x2e, 0x4a, 0x24, 0xfb, 0xe3, 0xdd, 0x1c, 0x00],
    [0x47, 0xb9, 0x86, 0xde, 0x96, 0xef, 0xc3, 0x54, 0x20, 0xa3, 0x8e, 0x61, 0x68, 0x6f, 0x56, 0x5b],
    [0x39, 0x84, 0xe9, 0xdf, 0x29, 0xd8, 0x22, 0x23, 0x79, 0x64, 0x93, 0xce, 0x91, 0xbe, 0x52, 0x40],
    [0xe1, 0xae, 0x1d, 0x17, 0xe0, 0x35, 0x42, 0x46, 0x2d, 0x5a, 0x5f, 0x48, 0xc4, 0xa2, 0x89, 0xa4]]"

definition TABLE_S2_69 :: "bytes" where
  "TABLE_S2_69 = concat [
    [0xe4, 0x23, 0xfc, 0x4c, 0x66, 0xb5, 0xfb, 0x64, 0x63, 0x9f, 0x3a, 0x96, 0x74, 0xf0, 0x03, 0x7d],
    [0x3d, 0x82, 0xd4, 0xeb, 0xbc, 0x97, 0x8f, 0xcd, 0xe1, 0x1c, 0x6a, 0x38, 0xb2, 0x1f, 0xc2, 0x13],
    [0x9a, 0xf3, 0xe0, 0x71, 0x89, 0xc0, 0xa9, 0x0c, 0xb4, 0x24, 0x70, 0xcb, 0x04, 0xdd, 0xe3, 0x39],
    [0x1a, 0xba, 0x81, 0x94, 0x7a, 0x65, 0xca, 0xc1, 0x4a, 0x92, 0x31, 0xf8, 0x5c, 0x26, 0x93, 0xd7],
    [0x73, 0xf5, 0xc9, 0x2d, 0x51, 0x6b, 0x72, 0x43, 0x3b, 0x91, 0x36, 0x7c, 0xbf, 0xa6, 0x8e, 0x0f],
    [0xa4, 0x5e, 0x56, 0xbe, 0xfe, 0x50, 0xa1, 0xcf, 0x15, 0x68, 0xd0, 0x76, 0x8d, 0xcc, 0x30, 0x40],
    [0x87, 0xde, 0x02, 0x54, 0x08, 0xbd, 0x5a, 0x84, 0x9b, 0x33, 0x79, 0x86, 0x4e, 0x9c, 0xc7, 0xfa],
    [0x6c, 0x5b, 0x25, 0x2a, 0xea, 0x21, 0x06, 0x00, 0x9d, 0x58, 0x6e, 0x1b, 0x85, 0xef, 0xb0, 0x49],
    [0x90, 0x7f, 0x52, 0xd1, 0xaa, 0xa7, 0x9e, 0x99, 0x2f, 0x77, 0x48, 0xb6, 0xa5, 0x32, 0x1e, 0x67],
    [0x0a, 0xd5, 0xbb, 0xdf, 0xf1, 0xed, 0x2c, 0x12, 0xc3, 0x80, 0xe8, 0x3e, 0x8c, 0x07, 0x0b, 0x05],
    [0xb9, 0xae, 0xab, 0xdc, 0x55, 0x78, 0x53, 0x35, 0xe6, 0xec, 0x5f, 0x10, 0xb7, 0xb3, 0xc4, 0x11],
    [0x3f, 0x62, 0x95, 0x88, 0xb1, 0xa3, 0x4f, 0x60, 0x2e, 0x18, 0x75, 0xc8, 0xd2, 0xd3, 0x29, 0xd8],
    [0x7e, 0xe5, 0x59, 0xb8, 0x19, 0xf9, 0x3c, 0xf6, 0xd9, 0x4b, 0x5d, 0xff, 0xe9, 0xf2, 0x34, 0xe2],
    [0x20, 0xf7, 0x41, 0xee, 0xa0, 0xd6, 0x28, 0xaf, 0x8b, 0x0e, 0x46, 0xda, 0x14, 0x7b, 0x01, 0xf4],
    [0xad, 0xc5, 0x57, 0x0d, 0xe7, 0xce, 0x83, 0x6f, 0x45, 0x22, 0xdb, 0x42, 0x47, 0x27, 0x09, 0xfd],
    [0xac, 0x61, 0xa8, 0x4d, 0x16, 0xc6, 0x2b, 0x6d, 0x69, 0x1d, 0x8a, 0xa2, 0x44, 0x98, 0x17, 0x37]]"

definition TABLE_S2_70 :: "bytes" where
  "TABLE_S2_70 = concat [
    [0x7f, 0xdd, 0xfb, 0x69, 0x16, 0xc0, 0xcb, 0xd0, 0x7b, 0x9a, 0x5c, 0xc7, 0x1e, 0xd4, 0x3b, 0xdb],
    [0x64, 0xf8, 0xa9, 0x2c, 0x23, 0xd6, 0x36, 0x59, 0x63, 0xcc, 0x02, 0xd5, 0x0a, 0x8d, 0x82, 0xf4],
    [0xf9, 0x60, 0x67, 0x00, 0x2b, 0xdf, 0x65, 0x05, 0x75, 0x2f, 0x8f, 0xe7, 0xa1, 0x4d, 0xc5, 0xec],
    [0xa8, 0x80, 0x4b, 0x3f, 0x35, 0x15, 0x66, 0xba, 0x8a, 0x6f, 0x8e, 0x43, 0x09, 0x4f, 0x34, 0xe4],
    [0x6a, 0x94, 0x0d, 0x55, 0x3c, 0x45, 0x87, 0x10, 0x70, 0xf3, 0xb2, 0x5d, 0xbc, 0xbb, 0x88, 0x85],
    [0xca, 0x1c, 0xe1, 0xa2, 0x29, 0x27, 0xae, 0x25, 0x99, 0xfd, 0x28, 0xf7, 0x0e, 0x30, 0xd3, 0xcf],
    [0x7d, 0x32, 0xc4, 0xce, 0xe6, 0x33, 0x95, 0x91, 0x89, 0xfe, 0x9b, 0x8c, 0x71, 0x17, 0x77, 0x5a],
    [0x57, 0xea, 0x0c, 0x3a, 0x0b, 0xfa, 0xf0, 0xf1, 0xb7, 0xaa, 0x1d, 0x40, 0x6d, 0x42, 0x93, 0x81],
    [0x14, 0x5e, 0x19, 0xb3, 0xac, 0x2d, 0x9d, 0x84, 0xeb, 0x0f, 0x51, 0xd7, 0x50, 0x61, 0x73, 0x49],
    [0xf2, 0x54, 0x37, 0x4a, 0x12, 0x62, 0xaf, 0xee, 0x74, 0x9c, 0x86, 0x7c, 0x83, 0xed, 0xdc, 0x72],
    [0x5b, 0xa4, 0xb9, 0x11, 0xe5, 0xd8, 0x6c, 0xbe, 0x20, 0x76, 0xa5, 0xfc, 0x78, 0xa6, 0x2a, 0x9f],
    [0x4c, 0x39, 0xbf, 0x7a, 0x92, 0x6b, 0xa7, 0xcd, 0x07, 0x08, 0x4e, 0x79, 0x24, 0x22, 0xc8, 0x03],
    [0x18, 0xb4, 0x41, 0xbd, 0x21, 0x5f, 0x56, 0xd2, 0xde, 0x6e, 0xc6, 0x01, 0xd9, 0x46, 0x44, 0x97],
    [0x48, 0x1a, 0xc3, 0x3e, 0xe0, 0x31, 0x90, 0x3d, 0xf6, 0xc9, 0x1f, 0xa0, 0xad, 0xef, 0x9e, 0xb5],
    [0x52, 0xe9, 0x96, 0x06, 0xc1, 0x1b, 0x26, 0xff, 0xc2, 0x53, 0xb8, 0xd1, 0x8b, 0x2e, 0xab, 0xe2],
    [0x13, 0xda, 0x68, 0xb0, 0xb1, 0xf5, 0x7e, 0x04, 0xa3, 0xb6, 0x38, 0x98, 0xe8, 0xe3, 0x58, 0x47]]"

definition TABLE_S2_71 :: "bytes" where
  "TABLE_S2_71 = concat [
    [0x97, 0x6b, 0x9e, 0x32, 0xf8, 0x7c, 0x75, 0x0b, 0x2b, 0xec, 0x44, 0xf4, 0xbd, 0x6e, 0x6c, 0xf3],
    [0x14, 0xe9, 0x30, 0x62, 0x17, 0xba, 0x1b, 0xca, 0x8a, 0x35, 0xe3, 0xdc, 0x9f, 0xb4, 0xc5, 0x87],
    [0x2c, 0xbc, 0xc3, 0x78, 0xd5, 0x0c, 0x31, 0xeb, 0xfb, 0x92, 0x79, 0xe8, 0xc8, 0x81, 0x04, 0xa1],
    [0x9a, 0x42, 0xf0, 0x39, 0x2e, 0x54, 0xdf, 0x9b, 0xb2, 0x12, 0x9c, 0x89, 0x6d, 0x72, 0xc9, 0xc2],
    [0x99, 0x33, 0x74, 0x3e, 0xae, 0xb7, 0x07, 0x86, 0xfd, 0x7b, 0x25, 0xc1, 0x63, 0x59, 0x4b, 0x7a],
    [0x60, 0x1d, 0x7e, 0xd8, 0xc4, 0x85, 0x48, 0x38, 0x56, 0xac, 0xb6, 0x5e, 0x58, 0xf6, 0xc7, 0xa9],
    [0x3b, 0x93, 0x8e, 0x71, 0x94, 0x46, 0xf2, 0xcf, 0xd6, 0x8f, 0x5c, 0x0a, 0xb5, 0x00, 0x8c, 0x52],
    [0x50, 0x95, 0x13, 0x66, 0xe7, 0x8d, 0x41, 0xb8, 0x53, 0x64, 0x22, 0x2d, 0x29, 0xe2, 0x08, 0x0e],
    [0x7f, 0x27, 0xbe, 0x40, 0x3a, 0xad, 0x6f, 0x16, 0x77, 0x98, 0xd9, 0x5a, 0xaf, 0xa2, 0x91, 0x96],
    [0x88, 0xcb, 0x36, 0xe0, 0x0f, 0x84, 0x0d, 0x03, 0xdd, 0x02, 0xd7, 0xb3, 0xe5, 0xf9, 0x1a, 0x24],
    [0xe4, 0xee, 0x18, 0x57, 0xbb, 0xbf, 0x19, 0xcc, 0xa6, 0xb1, 0xd4, 0xa3, 0x70, 0x5d, 0x3d, 0x5b],
    [0x10, 0x26, 0xc0, 0x7d, 0xdb, 0xda, 0xd0, 0x21, 0x6a, 0x37, 0x80, 0x9d, 0xab, 0xb9, 0x68, 0x47],
    [0x43, 0xd1, 0xf7, 0x55, 0xfa, 0xe1, 0xea, 0x3c, 0xed, 0x76, 0xb0, 0x51, 0xf1, 0x11, 0xfe, 0x34],
    [0x06, 0x83, 0xd2, 0x4e, 0x73, 0x1c, 0xfc, 0x09, 0xff, 0x28, 0xe6, 0x49, 0xde, 0xa8, 0xa7, 0x20],
    [0x2a, 0x4d, 0x4a, 0xd3, 0x2f, 0x4f, 0xf5, 0x01, 0xcd, 0xa5, 0x05, 0x5f, 0xc6, 0xef, 0x67, 0x8b],
    [0x15, 0x61, 0xaa, 0x82, 0x90, 0x4c, 0x3f, 0x1f, 0x69, 0xa4, 0x45, 0xa0, 0xce, 0x1e, 0x65, 0x23]]"

definition TABLE_S2_72 :: "bytes" where
  "TABLE_S2_72 = concat [
    [0x6a, 0xcc, 0x74, 0x09, 0x5c, 0x2c, 0xd0, 0x91, 0xa2, 0x4a, 0x42, 0xb8, 0xd3, 0xbd, 0x4c, 0xe2],
    [0x60, 0x2a, 0x8d, 0x27, 0x13, 0x92, 0xba, 0xa3, 0x31, 0xd5, 0xe9, 0x6f, 0x5f, 0x6e, 0x77, 0x4d],
    [0x07, 0x72, 0x44, 0x81, 0x55, 0xac, 0xf3, 0x99, 0x36, 0x39, 0x47, 0x70, 0x1c, 0x1a, 0x3d, 0xf6],
    [0x9a, 0x65, 0x2f, 0x87, 0xe6, 0xdb, 0x80, 0x52, 0x48, 0x1e, 0xc2, 0x9b, 0x98, 0x46, 0xa1, 0x14],
    [0x24, 0x76, 0x00, 0xfd, 0x0f, 0xde, 0x03, 0xae, 0xf7, 0xc8, 0x9e, 0x21, 0xd1, 0x93, 0x8b, 0xa0],
    [0x8a, 0x26, 0x83, 0x7f, 0x61, 0x1f, 0xec, 0x68, 0x50, 0xe0, 0x3f, 0xf8, 0x78, 0xe7, 0xa9, 0x7a],
    [0xe4, 0x2d, 0x8e, 0x56, 0xcb, 0x8f, 0x3a, 0x40, 0x88, 0x9d, 0xa6, 0x06, 0xdd, 0xd6, 0x79, 0x66],
    [0xd7, 0x6c, 0x38, 0xa8, 0x25, 0xff, 0xc1, 0x18, 0x6d, 0xfc, 0xef, 0x86, 0x10, 0xb5, 0xdc, 0x95],
    [0xc6, 0x5a, 0x12, 0x97, 0xe8, 0x1d, 0x67, 0x08, 0xf2, 0x5d, 0xeb, 0x3c, 0xb3, 0x34, 0xca, 0xbc],
    [0xe3, 0x41, 0x57, 0xc5, 0xfe, 0x28, 0xee, 0xf5, 0xa4, 0x45, 0xf9, 0x62, 0xea, 0x20, 0xe5, 0x05],
    [0xbe, 0x96, 0x01, 0x75, 0x2b, 0x0b, 0x84, 0x58, 0x51, 0xb4, 0x7d, 0xb0, 0x71, 0x37, 0xda, 0x0a],
    [0x5e, 0xc7, 0x3e, 0x59, 0xe1, 0x15, 0x3b, 0x5b, 0x11, 0x4b, 0xd9, 0xb1, 0x73, 0x9f, 0xd2, 0xfb],
    [0x22, 0xf4, 0x9c, 0xdf, 0x19, 0x17, 0x1b, 0x90, 0xc3, 0xa7, 0xc9, 0x16, 0x0e, 0x30, 0xf1, 0xed],
    [0xaa, 0x54, 0x6b, 0x33, 0x7b, 0x02, 0x2e, 0xb9, 0xcd, 0x4e, 0x63, 0x8c, 0x85, 0x82, 0xbb, 0xb6],
    [0xd4, 0x69, 0x04, 0x32, 0xc4, 0x35, 0xcf, 0xce, 0x94, 0x89, 0x7e, 0x23, 0x7c, 0x53, 0xbf, 0xad],
    [0x0c, 0x43, 0xf0, 0xfa, 0x0d, 0xd8, 0xaf, 0xab, 0xc0, 0xb7, 0xb2, 0xa5, 0x29, 0x4f, 0x64, 0x49]]"

definition TABLE_S2_73 :: "bytes" where
  "TABLE_S2_73 = concat [
    [0x8e, 0x49, 0x96, 0x26, 0x0c, 0xdf, 0x91, 0x0e, 0x09, 0xf5, 0x50, 0xfc, 0x1e, 0x9a, 0x69, 0x17],
    [0x57, 0xe8, 0xbe, 0x81, 0xd6, 0xfd, 0xe5, 0xa7, 0x8b, 0x76, 0x00, 0x52, 0xd8, 0x75, 0xa8, 0x79],
    [0xf0, 0x99, 0x8a, 0x1b, 0xe3, 0xaa, 0xc3, 0x66, 0xde, 0x4e, 0x1a, 0xa1, 0x6e, 0xb7, 0x89, 0x53],
    [0x70, 0xd0, 0xeb, 0xfe, 0x10, 0x0f, 0xa0, 0xab, 0x20, 0xf8, 0x5b, 0x92, 0x36, 0x4c, 0xf9, 0xbd],
    [0x19, 0x9f, 0xa3, 0x47, 0x3b, 0x01, 0x18, 0x29, 0x51, 0xfb, 0x5c, 0x16, 0xd5, 0xcc, 0xe4, 0x65],
    [0xce, 0x34, 0x3c, 0xd4, 0x94, 0x3a, 0xcb, 0xa5, 0x7f, 0x02, 0xba, 0x1c, 0xe7, 0xa6, 0x5a, 0x2a],
    [0xed, 0xb4, 0x68, 0x3e, 0x62, 0xd7, 0x30, 0xee, 0xf1, 0x59, 0x13, 0xec, 0x24, 0xf6, 0xad, 0x90],
    [0x06, 0x31, 0x4f, 0x40, 0x80, 0x4b, 0x6c, 0x6a, 0xf7, 0x32, 0x04, 0x71, 0xef, 0x85, 0xda, 0x23],
    [0xfa, 0x15, 0x38, 0xbb, 0xc0, 0xcd, 0xf4, 0xf3, 0x45, 0x1d, 0x22, 0xdc, 0xcf, 0x58, 0x74, 0x0d],
    [0x60, 0xbf, 0xd1, 0xb5, 0x9b, 0x87, 0x46, 0x78, 0xa9, 0xea, 0x82, 0x54, 0xe6, 0x6d, 0x61, 0x6f],
    [0xd3, 0xc4, 0xc1, 0xb6, 0x3f, 0x12, 0x39, 0x5f, 0x8c, 0x86, 0x35, 0x7a, 0xdd, 0xd9, 0xae, 0x7b],
    [0x55, 0x08, 0xff, 0xe2, 0xdb, 0xc9, 0x25, 0x0a, 0x44, 0x72, 0x1f, 0xa2, 0xb8, 0xb9, 0x43, 0xb2],
    [0x14, 0x8f, 0x33, 0xd2, 0x73, 0x93, 0x56, 0x9c, 0xb3, 0x21, 0x37, 0x95, 0x83, 0x98, 0x5e, 0x88],
    [0x4a, 0x9d, 0x2b, 0x84, 0xca, 0xbc, 0x42, 0xc5, 0xe1, 0x64, 0x2c, 0xb0, 0x7e, 0x11, 0x6b, 0x9e],
    [0xc7, 0xaf, 0x3d, 0x67, 0x8d, 0xa4, 0xe9, 0x05, 0x2f, 0x48, 0xb1, 0x28, 0x2d, 0x4d, 0x63, 0x97],
    [0xc6, 0x0b, 0xc2, 0x27, 0x7c, 0xac, 0x41, 0x07, 0x03, 0x77, 0xe0, 0xc8, 0x2e, 0xf2, 0x7d, 0x5d]]"

definition TABLE_S2_74 :: "bytes" where
  "TABLE_S2_74 = concat [
    [0xa4, 0x06, 0x20, 0xb2, 0xcd, 0x1b, 0x10, 0x0b, 0xa0, 0x41, 0x87, 0x1c, 0xc5, 0x0f, 0xe0, 0x00],
    [0xbf, 0x23, 0x72, 0xf7, 0xf8, 0x0d, 0xed, 0x82, 0xb8, 0x17, 0xd9, 0x0e, 0xd1, 0x56, 0x59, 0x2f],
    [0x22, 0xbb, 0xbc, 0xdb, 0xf0, 0x04, 0xbe, 0xde, 0xae, 0xf4, 0x54, 0x3c, 0x7a, 0x96, 0x1e, 0x37],
    [0x73, 0x5b, 0x90, 0xe4, 0xee, 0xce, 0xbd, 0x61, 0x51, 0xb4, 0x55, 0x98, 0xd2, 0x94, 0xef, 0x3f],
    [0xb1, 0x4f, 0xd6, 0x8e, 0xe7, 0x9e, 0x5c, 0xcb, 0xab, 0x28, 0x69, 0x86, 0x67, 0x60, 0x53, 0x5e],
    [0x11, 0xc7, 0x3a, 0x79, 0xf2, 0xfc, 0x75, 0xfe, 0x42, 0x26, 0xf3, 0x2c, 0xd5, 0xeb, 0x08, 0x14],
    [0xa6, 0xe9, 0x1f, 0x15, 0x3d, 0xe8, 0x4e, 0x4a, 0x52, 0x25, 0x40, 0x57, 0xaa, 0xcc, 0xac, 0x81],
    [0x8c, 0x31, 0xd7, 0xe1, 0xd0, 0x21, 0x2b, 0x2a, 0x6c, 0x71, 0xc6, 0x9b, 0xb6, 0x99, 0x48, 0x5a],
    [0xcf, 0x85, 0xc2, 0x68, 0x77, 0xf6, 0x46, 0x5f, 0x30, 0xd4, 0x8a, 0x0c, 0x8b, 0xba, 0xa8, 0x92],
    [0x29, 0x8f, 0xec, 0x91, 0xc9, 0xb9, 0x74, 0x35, 0xaf, 0x47, 0x5d, 0xa7, 0x58, 0x36, 0x07, 0xa9],
    [0x80, 0x7f, 0x62, 0xca, 0x3e, 0x03, 0xb7, 0x65, 0xfb, 0xad, 0x7e, 0x27, 0xa3, 0x7d, 0xf1, 0x44],
    [0x97, 0xe2, 0x64, 0xa1, 0x49, 0xb0, 0x7c, 0x16, 0xdc, 0xd3, 0x95, 0xa2, 0xff, 0xf9, 0x13, 0xd8],
    [0xc3, 0x6f, 0x9a, 0x66, 0xfa, 0x84, 0x8d, 0x09, 0x05, 0xb5, 0x1d, 0xda, 0x02, 0x9d, 0x9f, 0x4c],
    [0x93, 0xc1, 0x18, 0xe5, 0x3b, 0xea, 0x4b, 0xe6, 0x2d, 0x12, 0xc4, 0x7b, 0x76, 0x34, 0x45, 0x6e],
    [0x89, 0x32, 0x4d, 0xdd, 0x1a, 0xc0, 0xfd, 0x24, 0x19, 0x88, 0x63, 0x0a, 0x50, 0xf5, 0x70, 0x39],
    [0xc8, 0x01, 0xb3, 0x6b, 0x6a, 0x2e, 0xa5, 0xdf, 0x78, 0x6d, 0xe3, 0x43, 0x33, 0x38, 0x83, 0x9c]]"

definition TABLE_S2_75 :: "bytes" where
  "TABLE_S2_75 = concat [
    [0x6f, 0x93, 0x66, 0xca, 0x00, 0x84, 0x8d, 0xf3, 0xd3, 0x14, 0xbc, 0x0c, 0x45, 0x96, 0x94, 0x0b],
    [0xec, 0x11, 0xc8, 0x9a, 0xef, 0x42, 0xe3, 0x32, 0x72, 0xcd, 0x1b, 0x24, 0x67, 0x4c, 0x3d, 0x7f],
    [0xd4, 0x44, 0x3b, 0x80, 0x2d, 0xf4, 0xc9, 0x13, 0x03, 0x6a, 0x81, 0x10, 0x30, 0x79, 0xfc, 0x59],
    [0x62, 0xba, 0x08, 0xc1, 0xd6, 0xac, 0x27, 0x63, 0x4a, 0xea, 0x64, 0x71, 0x95, 0x8a, 0x31, 0x3a],
    [0x61, 0xcb, 0x8c, 0xc6, 0x56, 0x4f, 0xff, 0x7e, 0x05, 0x83, 0xdd, 0x39, 0x9b, 0xa1, 0xb3, 0x82],
    [0x98, 0xe5, 0x86, 0x20, 0x3c, 0x7d, 0xb0, 0xc0, 0xae, 0x54, 0x4e, 0xa6, 0xa0, 0x0e, 0x3f, 0x51],
    [0xc3, 0x6b, 0x76, 0x89, 0x6c, 0xbe, 0x0a, 0x37, 0x2e, 0x77, 0xa4, 0xf2, 0x4d, 0xf8, 0x74, 0xaa],
    [0xa8, 0x6d, 0xeb, 0x9e, 0x1f, 0x75, 0xb9, 0x40, 0xab, 0x9c, 0xda, 0xd5, 0xd1, 0x1a, 0xf0, 0xf6],
    [0x87, 0xdf, 0x46, 0xb8, 0xc2, 0x55, 0x97, 0xee, 0x8f, 0x60, 0x21, 0xa2, 0x57, 0x5a, 0x69, 0x6e],
    [0x70, 0x33, 0xce, 0x18, 0xf7, 0x7c, 0xf5, 0xfb, 0x25, 0xfa, 0x2f, 0x4b, 0x1d, 0x01, 0xe2, 0xdc],
    [0x1c, 0x16, 0xe0, 0xaf, 0x43, 0x47, 0xe1, 0x34, 0x5e, 0x49, 0x2c, 0x5b, 0x88, 0xa5, 0xc5, 0xa3],
    [0xe8, 0xde, 0x38, 0x85, 0x23, 0x22, 0x28, 0xd9, 0x92, 0xcf, 0x78, 0x65, 0x53, 0x41, 0x90, 0xbf],
    [0xbb, 0x29, 0x0f, 0xad, 0x02, 0x19, 0x12, 0xc4, 0x15, 0x8e, 0x48, 0xa9, 0x09, 0xe9, 0x06, 0xcc],
    [0xfe, 0x7b, 0x2a, 0xb6, 0x8b, 0xe4, 0x04, 0xf1, 0x07, 0xd0, 0x1e, 0xb1, 0x26, 0x50, 0x5f, 0xd8],
    [0xd2, 0xb5, 0xb2, 0x2b, 0xd7, 0xb7, 0x0d, 0xf9, 0x35, 0x5d, 0xfd, 0xa7, 0x3e, 0x17, 0x9f, 0x73],
    [0xed, 0x99, 0x52, 0x7a, 0x68, 0xb4, 0xc7, 0xe7, 0x91, 0x5c, 0xbd, 0x58, 0x36, 0xe6, 0x9d, 0xdb]]"

definition TABLE_S2_76 :: "bytes" where
  "TABLE_S2_76 = concat [
    [0x96, 0x30, 0x88, 0xf5, 0xa0, 0xd0, 0x2c, 0x6d, 0x5e, 0xb6, 0xbe, 0x44, 0x2f, 0x41, 0xb0, 0x1e],
    [0x9c, 0xd6, 0x71, 0xdb, 0xef, 0x6e, 0x46, 0x5f, 0xcd, 0x29, 0x15, 0x93, 0xa3, 0x92, 0x8b, 0xb1],
    [0xfb, 0x8e, 0xb8, 0x7d, 0xa9, 0x50, 0x0f, 0x65, 0xca, 0xc5, 0xbb, 0x8c, 0xe0, 0xe6, 0xc1, 0x0a],
    [0x66, 0x99, 0xd3, 0x7b, 0x1a, 0x27, 0x7c, 0xae, 0xb4, 0xe2, 0x3e, 0x67, 0x64, 0xba, 0x5d, 0xe8],
    [0xd8, 0x8a, 0xfc, 0x01, 0xf3, 0x22, 0xff, 0x52, 0x0b, 0x34, 0x62, 0xdd, 0x2d, 0x6f, 0x77, 0x5c],
    [0x76, 0xda, 0x7f, 0x83, 0x9d, 0xe3, 0x10, 0x94, 0xac, 0x1c, 0xc3, 0x04, 0x84, 0x1b, 0x55, 0x86],
    [0x18, 0xd1, 0x72, 0xaa, 0x37, 0x73, 0xc6, 0xbc, 0x74, 0x61, 0x5a, 0xfa, 0x21, 0x2a, 0x85, 0x9a],
    [0x2b, 0x90, 0xc4, 0x54, 0xd9, 0x03, 0x3d, 0xe4, 0x91, 0x00, 0x13, 0x7a, 0xec, 0x49, 0x20, 0x69],
    [0x3a, 0xa6, 0xee, 0x6b, 0x14, 0xe1, 0x9b, 0xf4, 0x0e, 0xa1, 0x17, 0xc0, 0x4f, 0xc8, 0x36, 0x40],
    [0x1f, 0xbd, 0xab, 0x39, 0x02, 0xd4, 0x12, 0x09, 0x58, 0xb9, 0x05, 0x9e, 0x16, 0xdc, 0x19, 0xf9],
    [0x42, 0x6a, 0xfd, 0x89, 0xd7, 0xf7, 0x78, 0xa4, 0xad, 0x48, 0x81, 0x4c, 0x8d, 0xcb, 0x26, 0xf6],
    [0xa2, 0x3b, 0xc2, 0xa5, 0x1d, 0xe9, 0xc7, 0xa7, 0xed, 0xb7, 0x25, 0x4d, 0x8f, 0x63, 0x2e, 0x07],
    [0xde, 0x08, 0x60, 0x23, 0xe5, 0xeb, 0xe7, 0x6c, 0x3f, 0x5b, 0x35, 0xea, 0xf2, 0xcc, 0x0d, 0x11],
    [0x56, 0xa8, 0x97, 0xcf, 0x87, 0xfe, 0xd2, 0x45, 0x31, 0xb2, 0x9f, 0x70, 0x79, 0x7e, 0x47, 0x4a],
    [0x28, 0x95, 0xf8, 0xce, 0x38, 0xc9, 0x33, 0x32, 0x68, 0x75, 0x82, 0xdf, 0x80, 0xaf, 0x43, 0x51],
    [0xf0, 0xbf, 0x0c, 0x06, 0xf1, 0x24, 0x53, 0x57, 0x3c, 0x4b, 0x4e, 0x59, 0xd5, 0xb3, 0x98, 0xb5]]"

definition TABLE_S2_77 :: "bytes" where
  "TABLE_S2_77 = concat [
    [0x81, 0x46, 0x99, 0x29, 0x03, 0xd0, 0x9e, 0x01, 0x06, 0xfa, 0x5f, 0xf3, 0x11, 0x95, 0x66, 0x18],
    [0x58, 0xe7, 0xb1, 0x8e, 0xd9, 0xf2, 0xea, 0xa8, 0x84, 0x79, 0x0f, 0x5d, 0xd7, 0x7a, 0xa7, 0x76],
    [0xff, 0x96, 0x85, 0x14, 0xec, 0xa5, 0xcc, 0x69, 0xd1, 0x41, 0x15, 0xae, 0x61, 0xb8, 0x86, 0x5c],
    [0x7f, 0xdf, 0xe4, 0xf1, 0x1f, 0x00, 0xaf, 0xa4, 0x2f, 0xf7, 0x54, 0x9d, 0x39, 0x43, 0xf6, 0xb2],
    [0x16, 0x90, 0xac, 0x48, 0x34, 0x0e, 0x17, 0x26, 0x5e, 0xf4, 0x53, 0x19, 0xda, 0xc3, 0xeb, 0x6a],
    [0xc1, 0x3b, 0x33, 0xdb, 0x9b, 0x35, 0xc4, 0xaa, 0x70, 0x0d, 0xb5, 0x13, 0xe8, 0xa9, 0x55, 0x25],
    [0xe2, 0xbb, 0x67, 0x31, 0x6d, 0xd8, 0x3f, 0xe1, 0xfe, 0x56, 0x1c, 0xe3, 0x2b, 0xf9, 0xa2, 0x9f],
    [0x09, 0x3e, 0x40, 0x4f, 0x8f, 0x44, 0x63, 0x65, 0xf8, 0x3d, 0x0b, 0x7e, 0xe0, 0x8a, 0xd5, 0x2c],
    [0xf5, 0x1a, 0x37, 0xb4, 0xcf, 0xc2, 0xfb, 0xfc, 0x4a, 0x12, 0x2d, 0xd3, 0xc0, 0x57, 0x7b, 0x02],
    [0x6f, 0xb0, 0xde, 0xba, 0x94, 0x88, 0x49, 0x77, 0xa6, 0xe5, 0x8d, 0x5b, 0xe9, 0x62, 0x6e, 0x60],
    [0xdc, 0xcb, 0xce, 0xb9, 0x30, 0x1d, 0x36, 0x50, 0x83, 0x89, 0x3a, 0x75, 0xd2, 0xd6, 0xa1, 0x74],
    [0x5a, 0x07, 0xf0, 0xed, 0xd4, 0xc6, 0x2a, 0x05, 0x4b, 0x7d, 0x10, 0xad, 0xb7, 0xb6, 0x4c, 0xbd],
    [0x1b, 0x80, 0x3c, 0xdd, 0x7c, 0x9c, 0x59, 0x93, 0xbc, 0x2e, 0x38, 0x9a, 0x8c, 0x97, 0x51, 0x87],
    [0x45, 0x92, 0x24, 0x8b, 0xc5, 0xb3, 0x4d, 0xca, 0xee, 0x6b, 0x23, 0xbf, 0x71, 0x1e, 0x64, 0x91],
    [0xc8, 0xa0, 0x32, 0x68, 0x82, 0xab, 0xe6, 0x0a, 0x20, 0x47, 0xbe, 0x27, 0x22, 0x42, 0x6c, 0x98],
    [0xc9, 0x04, 0xcd, 0x28, 0x73, 0xa3, 0x4e, 0x08, 0x0c, 0x78, 0xef, 0xc7, 0x21, 0xfd, 0x72, 0x52]]"

definition TABLE_S2_78 :: "bytes" where
  "TABLE_S2_78 = concat [
    [0xdf, 0x7d, 0x5b, 0xc9, 0xb6, 0x60, 0x6b, 0x70, 0xdb, 0x3a, 0xfc, 0x67, 0xbe, 0x74, 0x9b, 0x7b],
    [0xc4, 0x58, 0x09, 0x8c, 0x83, 0x76, 0x96, 0xf9, 0xc3, 0x6c, 0xa2, 0x75, 0xaa, 0x2d, 0x22, 0x54],
    [0x59, 0xc0, 0xc7, 0xa0, 0x8b, 0x7f, 0xc5, 0xa5, 0xd5, 0x8f, 0x2f, 0x47, 0x01, 0xed, 0x65, 0x4c],
    [0x08, 0x20, 0xeb, 0x9f, 0x95, 0xb5, 0xc6, 0x1a, 0x2a, 0xcf, 0x2e, 0xe3, 0xa9, 0xef, 0x94, 0x44],
    [0xca, 0x34, 0xad, 0xf5, 0x9c, 0xe5, 0x27, 0xb0, 0xd0, 0x53, 0x12, 0xfd, 0x1c, 0x1b, 0x28, 0x25],
    [0x6a, 0xbc, 0x41, 0x02, 0x89, 0x87, 0x0e, 0x85, 0x39, 0x5d, 0x88, 0x57, 0xae, 0x90, 0x73, 0x6f],
    [0xdd, 0x92, 0x64, 0x6e, 0x46, 0x93, 0x35, 0x31, 0x29, 0x5e, 0x3b, 0x2c, 0xd1, 0xb7, 0xd7, 0xfa],
    [0xf7, 0x4a, 0xac, 0x9a, 0xab, 0x5a, 0x50, 0x51, 0x17, 0x0a, 0xbd, 0xe0, 0xcd, 0xe2, 0x33, 0x21],
    [0xb4, 0xfe, 0xb9, 0x13, 0x0c, 0x8d, 0x3d, 0x24, 0x4b, 0xaf, 0xf1, 0x77, 0xf0, 0xc1, 0xd3, 0xe9],
    [0x52, 0xf4, 0x97, 0xea, 0xb2, 0xc2, 0x0f, 0x4e, 0xd4, 0x3c, 0x26, 0xdc, 0x23, 0x4d, 0x7c, 0xd2],
    [0xfb, 0x04, 0x19, 0xb1, 0x45, 0x78, 0xcc, 0x1e, 0x80, 0xd6, 0x05, 0x5c, 0xd8, 0x06, 0x8a, 0x3f],
    [0xec, 0x99, 0x1f, 0xda, 0x32, 0xcb, 0x07, 0x6d, 0xa7, 0xa8, 0xee, 0xd9, 0x84, 0x82, 0x68, 0xa3],
    [0xb8, 0x14, 0xe1, 0x1d, 0x81, 0xff, 0xf6, 0x72, 0x7e, 0xce, 0x66, 0xa1, 0x79, 0xe6, 0xe4, 0x37],
    [0xe8, 0xba, 0x63, 0x9e, 0x40, 0x91, 0x30, 0x9d, 0x56, 0x69, 0xbf, 0x00, 0x0d, 0x4f, 0x3e, 0x15],
    [0xf2, 0x49, 0x36, 0xa6, 0x61, 0xbb, 0x86, 0x5f, 0x62, 0xf3, 0x18, 0x71, 0x2b, 0x8e, 0x0b, 0x42],
    [0xb3, 0x7a, 0xc8, 0x10, 0x11, 0x55, 0xde, 0xa4, 0x03, 0x16, 0x98, 0x38, 0x48, 0x43, 0xf8, 0xe7]]"

definition TABLE_S2_79 :: "bytes" where
  "TABLE_S2_79 = concat [
    [0x11, 0xed, 0x18, 0xb4, 0x7e, 0xfa, 0xf3, 0x8d, 0xad, 0x6a, 0xc2, 0x72, 0x3b, 0xe8, 0xea, 0x75],
    [0x92, 0x6f, 0xb6, 0xe4, 0x91, 0x3c, 0x9d, 0x4c, 0x0c, 0xb3, 0x65, 0x5a, 0x19, 0x32, 0x43, 0x01],
    [0xaa, 0x3a, 0x45, 0xfe, 0x53, 0x8a, 0xb7, 0x6d, 0x7d, 0x14, 0xff, 0x6e, 0x4e, 0x07, 0x82, 0x27],
    [0x1c, 0xc4, 0x76, 0xbf, 0xa8, 0xd2, 0x59, 0x1d, 0x34, 0x94, 0x1a, 0x0f, 0xeb, 0xf4, 0x4f, 0x44],
    [0x1f, 0xb5, 0xf2, 0xb8, 0x28, 0x31, 0x81, 0x00, 0x7b, 0xfd, 0xa3, 0x47, 0xe5, 0xdf, 0xcd, 0xfc],
    [0xe6, 0x9b, 0xf8, 0x5e, 0x42, 0x03, 0xce, 0xbe, 0xd0, 0x2a, 0x30, 0xd8, 0xde, 0x70, 0x41, 0x2f],
    [0xbd, 0x15, 0x08, 0xf7, 0x12, 0xc0, 0x74, 0x49, 0x50, 0x09, 0xda, 0x8c, 0x33, 0x86, 0x0a, 0xd4],
    [0xd6, 0x13, 0x95, 0xe0, 0x61, 0x0b, 0xc7, 0x3e, 0xd5, 0xe2, 0xa4, 0xab, 0xaf, 0x64, 0x8e, 0x88],
    [0xf9, 0xa1, 0x38, 0xc6, 0xbc, 0x2b, 0xe9, 0x90, 0xf1, 0x1e, 0x5f, 0xdc, 0x29, 0x24, 0x17, 0x10],
    [0x0e, 0x4d, 0xb0, 0x66, 0x89, 0x02, 0x8b, 0x85, 0x5b, 0x84, 0x51, 0x35, 0x63, 0x7f, 0x9c, 0xa2],
    [0x62, 0x68, 0x9e, 0xd1, 0x3d, 0x39, 0x9f, 0x4a, 0x20, 0x37, 0x52, 0x25, 0xf6, 0xdb, 0xbb, 0xdd],
    [0x96, 0xa0, 0x46, 0xfb, 0x5d, 0x5c, 0x56, 0xa7, 0xec, 0xb1, 0x06, 0x1b, 0x2d, 0x3f, 0xee, 0xc1],
    [0xc5, 0x57, 0x71, 0xd3, 0x7c, 0x67, 0x6c, 0xba, 0x6b, 0xf0, 0x36, 0xd7, 0x77, 0x97, 0x78, 0xb2],
    [0x80, 0x05, 0x54, 0xc8, 0xf5, 0x9a, 0x7a, 0x8f, 0x79, 0xae, 0x60, 0xcf, 0x58, 0x2e, 0x21, 0xa6],
    [0xac, 0xcb, 0xcc, 0x55, 0xa9, 0xc9, 0x73, 0x87, 0x4b, 0x23, 0x83, 0xd9, 0x40, 0x69, 0xe1, 0x0d],
    [0x93, 0xe7, 0x2c, 0x04, 0x16, 0xca, 0xb9, 0x99, 0xef, 0x22, 0xc3, 0x26, 0x48, 0x98, 0xe3, 0xa5]]"

definition TABLE_S2_80 :: "bytes" where
  "TABLE_S2_80 = concat [
    [0x81, 0x27, 0x9f, 0xe2, 0xb7, 0xc7, 0x3b, 0x7a, 0x49, 0xa1, 0xa9, 0x53, 0x38, 0x56, 0xa7, 0x09],
    [0x8b, 0xc1, 0x66, 0xcc, 0xf8, 0x79, 0x51, 0x48, 0xda, 0x3e, 0x02, 0x84, 0xb4, 0x85, 0x9c, 0xa6],
    [0xec, 0x99, 0xaf, 0x6a, 0xbe, 0x47, 0x18, 0x72, 0xdd, 0xd2, 0xac, 0x9b, 0xf7, 0xf1, 0xd6, 0x1d],
    [0x71, 0x8e, 0xc4, 0x6c, 0x0d, 0x30, 0x6b, 0xb9, 0xa3, 0xf5, 0x29, 0x70, 0x73, 0xad, 0x4a, 0xff],
    [0xcf, 0x9d, 0xeb, 0x16, 0xe4, 0x35, 0xe8, 0x45, 0x1c, 0x23, 0x75, 0xca, 0x3a, 0x78, 0x60, 0x4b],
    [0x61, 0xcd, 0x68, 0x94, 0x8a, 0xf4, 0x07, 0x83, 0xbb, 0x0b, 0xd4, 0x13, 0x93, 0x0c, 0x42, 0x91],
    [0x0f, 0xc6, 0x65, 0xbd, 0x20, 0x64, 0xd1, 0xab, 0x63, 0x76, 0x4d, 0xed, 0x36, 0x3d, 0x92, 0x8d],
    [0x3c, 0x87, 0xd3, 0x43, 0xce, 0x14, 0x2a, 0xf3, 0x86, 0x17, 0x04, 0x6d, 0xfb, 0x5e, 0x37, 0x7e],
    [0x2d, 0xb1, 0xf9, 0x7c, 0x03, 0xf6, 0x8c, 0xe3, 0x19, 0xb6, 0x00, 0xd7, 0x58, 0xdf, 0x21, 0x57],
    [0x08, 0xaa, 0xbc, 0x2e, 0x15, 0xc3, 0x05, 0x1e, 0x4f, 0xae, 0x12, 0x89, 0x01, 0xcb, 0x0e, 0xee],
    [0x55, 0x7d, 0xea, 0x9e, 0xc0, 0xe0, 0x6f, 0xb3, 0xba, 0x5f, 0x96, 0x5b, 0x9a, 0xdc, 0x31, 0xe1],
    [0xb5, 0x2c, 0xd5, 0xb2, 0x0a, 0xfe, 0xd0, 0xb0, 0xfa, 0xa0, 0x32, 0x5a, 0x98, 0x74, 0x39, 0x10],
    [0xc9, 0x1f, 0x77, 0x34, 0xf2, 0xfc, 0xf0, 0x7b, 0x28, 0x4c, 0x22, 0xfd, 0xe5, 0xdb, 0x1a, 0x06],
    [0x41, 0xbf, 0x80, 0xd8, 0x90, 0xe9, 0xc5, 0x52, 0x26, 0xa5, 0x88, 0x67, 0x6e, 0x69, 0x50, 0x5d],
    [0x3f, 0x82, 0xef, 0xd9, 0x2f, 0xde, 0x24, 0x25, 0x7f, 0x62, 0x95, 0xc8, 0x97, 0xb8, 0x54, 0x46],
    [0xe7, 0xa8, 0x1b, 0x11, 0xe6, 0x33, 0x44, 0x40, 0x2b, 0x5c, 0x59, 0x4e, 0xc2, 0xa4, 0x8f, 0xa2]]"

definition TABLE_S2_81 :: "bytes" where
  "TABLE_S2_81 = concat [
    [0xe4, 0x23, 0xfc, 0x4c, 0x66, 0xb5, 0xfb, 0x64, 0x63, 0x9f, 0x3a, 0x96, 0x74, 0xf0, 0x03, 0x7d],
    [0x3d, 0x82, 0xd4, 0xeb, 0xbc, 0x97, 0x8f, 0xcd, 0xe1, 0x1c, 0x6a, 0x38, 0xb2, 0x1f, 0xc2, 0x13],
    [0x9a, 0xf3, 0xe0, 0x71, 0x89, 0xc0, 0xa9, 0x0c, 0xb4, 0x24, 0x70, 0xcb, 0x04, 0xdd, 0xe3, 0x39],
    [0x1a, 0xba, 0x81, 0x94, 0x7a, 0x65, 0xca, 0xc1, 0x4a, 0x92, 0x31, 0xf8, 0x5c, 0x26, 0x93, 0xd7],
    [0x73, 0xf5, 0xc9, 0x2d, 0x51, 0x6b, 0x72, 0x43, 0x3b, 0x91, 0x36, 0x7c, 0xbf, 0xa6, 0x8e, 0x0f],
    [0xa4, 0x5e, 0x56, 0xbe, 0xfe, 0x50, 0xa1, 0xcf, 0x15, 0x68, 0xd0, 0x76, 0x8d, 0xcc, 0x30, 0x40],
    [0x87, 0xde, 0x02, 0x54, 0x08, 0xbd, 0x5a, 0x84, 0x9b, 0x33, 0x79, 0x86, 0x4e, 0x9c, 0xc7, 0xfa],
    [0x6c, 0x5b, 0x25, 0x2a, 0xea, 0x21, 0x06, 0x00, 0x9d, 0x58, 0x6e, 0x1b, 0x85, 0xef, 0xb0, 0x49],
    [0x90, 0x7f, 0x52, 0xd1, 0xaa, 0xa7, 0x9e, 0x99, 0x2f, 0x77, 0x48, 0xb6, 0xa5, 0x32, 0x1e, 0x67],
    [0x0a, 0xd5, 0xbb, 0xdf, 0xf1, 0xed, 0x2c, 0x12, 0xc3, 0x80, 0xe8, 0x3e, 0x8c, 0x07, 0x0b, 0x05],
    [0xb9, 0xae, 0xab, 0xdc, 0x55, 0x78, 0x53, 0x35, 0xe6, 0xec, 0x5f, 0x10, 0xb7, 0xb3, 0xc4, 0x11],
    [0x3f, 0x62, 0x95, 0x88, 0xb1, 0xa3, 0x4f, 0x60, 0x2e, 0x18, 0x75, 0xc8, 0xd2, 0xd3, 0x29, 0xd8],
    [0x7e, 0xe5, 0x59, 0xb8, 0x19, 0xf9, 0x3c, 0xf6, 0xd9, 0x4b, 0x5d, 0xff, 0xe9, 0xf2, 0x34, 0xe2],
    [0x20, 0xf7, 0x41, 0xee, 0xa0, 0xd6, 0x28, 0xaf, 0x8b, 0x0e, 0x46, 0xda, 0x14, 0x7b, 0x01, 0xf4],
    [0xad, 0xc5, 0x57, 0x0d, 0xe7, 0xce, 0x83, 0x6f, 0x45, 0x22, 0xdb, 0x42, 0x47, 0x27, 0x09, 0xfd],
    [0xac, 0x61, 0xa8, 0x4d, 0x16, 0xc6, 0x2b, 0x6d, 0x69, 0x1d, 0x8a, 0xa2, 0x44, 0x98, 0x17, 0x37]]"

definition TABLE_S2_82 :: "bytes" where
  "TABLE_S2_82 = concat [
    [0x71, 0x7b, 0x36, 0x27, 0xc5, 0xa8, 0x68, 0x97, 0x52, 0x8d, 0x62, 0xdc, 0xba, 0xb8, 0xcc, 0x24],
    [0x32, 0xaf, 0x2a, 0xfc, 0x1d, 0x60, 0x77, 0x6f, 0xdf, 0x2f, 0x61, 0x16, 0x1e, 0x47, 0x0c, 0xfa],
    [0xca, 0x44, 0xe8, 0x57, 0xb4, 0x1b, 0x14, 0x5f, 0xf6, 0xda, 0x01, 0x91, 0x3e, 0xa7, 0x4a, 0xe1],
    [0x33, 0xa2, 0xe7, 0x6e, 0x41, 0xa3, 0xbb, 0xd3, 0x51, 0x03, 0xeb, 0xf8, 0xc8, 0x30, 0x8b, 0x0e],
    [0xdb, 0x09, 0xa6, 0x67, 0x80, 0xd5, 0x9a, 0x4f, 0x3b, 0x95, 0xe4, 0x9b, 0x74, 0x18, 0xe0, 0xde],
    [0x2b, 0x88, 0xf3, 0x83, 0xaa, 0x21, 0x59, 0x15, 0x96, 0xa5, 0x5b, 0x85, 0x75, 0x58, 0xbd, 0x54],
    [0x39, 0xf1, 0xf2, 0x84, 0x7f, 0x3d, 0x3f, 0x9e, 0x22, 0x5e, 0x23, 0x43, 0x93, 0x49, 0x20, 0x25],
    [0x17, 0xfb, 0x3c, 0xa9, 0x76, 0xc1, 0x04, 0x4d, 0x0a, 0xff, 0x65, 0x50, 0x35, 0xc6, 0x4e, 0xe3],
    [0x38, 0x92, 0x05, 0xcb, 0xc7, 0x07, 0xd7, 0x29, 0x6b, 0x5c, 0x0d, 0x56, 0xdd, 0x26, 0x82, 0x9f],
    [0xbc, 0x70, 0xc2, 0xb7, 0xc3, 0xf5, 0xc0, 0x42, 0x90, 0x2c, 0x5a, 0xbe, 0xe9, 0x06, 0x02, 0x7a],
    [0xb1, 0x81, 0x55, 0x98, 0xcd, 0xd8, 0xfe, 0x46, 0x12, 0x73, 0xec, 0x7e, 0x19, 0xb5, 0x4c, 0xc4],
    [0x28, 0xc9, 0xb9, 0x10, 0x87, 0x6a, 0xcf, 0x08, 0x6d, 0x45, 0xf4, 0x6c, 0x0f, 0x48, 0x37, 0xef],
    [0xee, 0x79, 0x2d, 0x94, 0x8a, 0xf9, 0x31, 0xb0, 0x8e, 0x9c, 0x69, 0xfd, 0x40, 0x7c, 0x1a, 0x1c],
    [0xb2, 0xe5, 0xe2, 0x13, 0xe6, 0x8c, 0xac, 0xb6, 0xd6, 0x72, 0x64, 0x63, 0xd0, 0xea, 0x53, 0x7d],
    [0x89, 0xae, 0x00, 0x1f, 0xab, 0xed, 0x34, 0x11, 0xa0, 0x86, 0x0b, 0x8f, 0xd2, 0x3a, 0x99, 0xa1],
    [0x4b, 0xd4, 0xf7, 0xbf, 0xf0, 0x66, 0x2e, 0xce, 0x9d, 0xd9, 0x5d, 0xd1, 0xad, 0xb3, 0x78, 0xa4]]"

definition TABLE_S2_83 :: "bytes" where
  "TABLE_S2_83 = concat [
    [0x4e, 0xb2, 0x47, 0xeb, 0x21, 0xa5, 0xac, 0xd2, 0xf2, 0x35, 0x9d, 0x2d, 0x64, 0xb7, 0xb5, 0x2a],
    [0xcd, 0x30, 0xe9, 0xbb, 0xce, 0x63, 0xc2, 0x13, 0x53, 0xec, 0x3a, 0x05, 0x46, 0x6d, 0x1c, 0x5e],
    [0xf5, 0x65, 0x1a, 0xa1, 0x0c, 0xd5, 0xe8, 0x32, 0x22, 0x4b, 0xa0, 0x31, 0x11, 0x58, 0xdd, 0x78],
    [0x43, 0x9b, 0x29, 0xe0, 0xf7, 0x8d, 0x06, 0x42, 0x6b, 0xcb, 0x45, 0x50, 0xb4, 0xab, 0x10, 0x1b],
    [0x40, 0xea, 0xad, 0xe7, 0x77, 0x6e, 0xde, 0x5f, 0x24, 0xa2, 0xfc, 0x18, 0xba, 0x80, 0x92, 0xa3],
    [0xb9, 0xc4, 0xa7, 0x01, 0x1d, 0x5c, 0x91, 0xe1, 0x8f, 0x75, 0x6f, 0x87, 0x81, 0x2f, 0x1e, 0x70],
    [0xe2, 0x4a, 0x57, 0xa8, 0x4d, 0x9f, 0x2b, 0x16, 0x0f, 0x56, 0x85, 0xd3, 0x6c, 0xd9, 0x55, 0x8b],
    [0x89, 0x4c, 0xca, 0xbf, 0x3e, 0x54, 0x98, 0x61, 0x8a, 0xbd, 0xfb, 0xf4, 0xf0, 0x3b, 0xd1, 0xd7],
    [0xa6, 0xfe, 0x67, 0x99, 0xe3, 0x74, 0xb6, 0xcf, 0xae, 0x41, 0x00, 0x83, 0x76, 0x7b, 0x48, 0x4f],
    [0x51, 0x12, 0xef, 0x39, 0xd6, 0x5d, 0xd4, 0xda, 0x04, 0xdb, 0x0e, 0x6a, 0x3c, 0x20, 0xc3, 0xfd],
    [0x3d, 0x37, 0xc1, 0x8e, 0x62, 0x66, 0xc0, 0x15, 0x7f, 0x68, 0x0d, 0x7a, 0xa9, 0x84, 0xe4, 0x82],
    [0xc9, 0xff, 0x19, 0xa4, 0x02, 0x03, 0x09, 0xf8, 0xb3, 0xee, 0x59, 0x44, 0x72, 0x60, 0xb1, 0x9e],
    [0x9a, 0x08, 0x2e, 0x8c, 0x23, 0x38, 0x33, 0xe5, 0x34, 0xaf, 0x69, 0x88, 0x28, 0xc8, 0x27, 0xed],
    [0xdf, 0x5a, 0x0b, 0x97, 0xaa, 0xc5, 0x25, 0xd0, 0x26, 0xf1, 0x3f, 0x90, 0x07, 0x71, 0x7e, 0xf9],
    [0xf3, 0x94, 0x93, 0x0a, 0xf6, 0x96, 0x2c, 0xd8, 0x14, 0x7c, 0xdc, 0x86, 0x1f, 0x36, 0xbe, 0x52],
    [0xcc, 0xb8, 0x73, 0x5b, 0x49, 0x95, 0xe6, 0xc6, 0xb0, 0x7d, 0x9c, 0x79, 0x17, 0xc7, 0xbc, 0xfa]]"

definition TABLE_S2_84 :: "bytes" where
  "TABLE_S2_84 = concat [
    [0x2d, 0x8b, 0x33, 0x4e, 0x1b, 0x6b, 0x97, 0xd6, 0xe5, 0x0d, 0x05, 0xff, 0x94, 0xfa, 0x0b, 0xa5],
    [0x27, 0x6d, 0xca, 0x60, 0x54, 0xd5, 0xfd, 0xe4, 0x76, 0x92, 0xae, 0x28, 0x18, 0x29, 0x30, 0x0a],
    [0x40, 0x35, 0x03, 0xc6, 0x12, 0xeb, 0xb4, 0xde, 0x71, 0x7e, 0x00, 0x37, 0x5b, 0x5d, 0x7a, 0xb1],
    [0xdd, 0x22, 0x68, 0xc0, 0xa1, 0x9c, 0xc7, 0x15, 0x0f, 0x59, 0x85, 0xdc, 0xdf, 0x01, 0xe6, 0x53],
    [0x63, 0x31, 0x47, 0xba, 0x48, 0x99, 0x44, 0xe9, 0xb0, 0x8f, 0xd9, 0x66, 0x96, 0xd4, 0xcc, 0xe7],
    [0xcd, 0x61, 0xc4, 0x38, 0x26, 0x58, 0xab, 0x2f, 0x17, 0xa7, 0x78, 0xbf, 0x3f, 0xa0, 0xee, 0x3d],
    [0xa3, 0x6a, 0xc9, 0x11, 0x8c, 0xc8, 0x7d, 0x07, 0xcf, 0xda, 0xe1, 0x41, 0x9a, 0x91, 0x3e, 0x21],
    [0x90, 0x2b, 0x7f, 0xef, 0x62, 0xb8, 0x86, 0x5f, 0x2a, 0xbb, 0xa8, 0xc1, 0x57, 0xf2, 0x9b, 0xd2],
    [0x81, 0x1d, 0x55, 0xd0, 0xaf, 0x5a, 0x20, 0x4f, 0xb5, 0x1a, 0xac, 0x7b, 0xf4, 0x73, 0x8d, 0xfb],
    [0xa4, 0x06, 0x10, 0x82, 0xb9, 0x6f, 0xa9, 0xb2, 0xe3, 0x02, 0xbe, 0x25, 0xad, 0x67, 0xa2, 0x42],
    [0xf9, 0xd1, 0x46, 0x32, 0x6c, 0x4c, 0xc3, 0x1f, 0x16, 0xf3, 0x3a, 0xf7, 0x36, 0x70, 0x9d, 0x4d],
    [0x19, 0x80, 0x79, 0x1e, 0xa6, 0x52, 0x7c, 0x1c, 0x56, 0x0c, 0x9e, 0xf6, 0x34, 0xd8, 0x95, 0xbc],
    [0x65, 0xb3, 0xdb, 0x98, 0x5e, 0x50, 0x5c, 0xd7, 0x84, 0xe0, 0x8e, 0x51, 0x49, 0x77, 0xb6, 0xaa],
    [0xed, 0x13, 0x2c, 0x74, 0x3c, 0x45, 0x69, 0xfe, 0x8a, 0x09, 0x24, 0xcb, 0xc2, 0xc5, 0xfc, 0xf1],
    [0x93, 0x2e, 0x43, 0x75, 0x83, 0x72, 0x88, 0x89, 0xd3, 0xce, 0x39, 0x64, 0x3b, 0x14, 0xf8, 0xea],
    [0x4b, 0x04, 0xb7, 0xbd, 0x4a, 0x9f, 0xe8, 0xec, 0x87, 0xf0, 0xf5, 0xe2, 0x6e, 0x08, 0x23, 0x0e]]"

definition TABLE_S2_85 :: "bytes" where
  "TABLE_S2_85 = concat [
    [0xaf, 0xf8, 0x59, 0xa8, 0xc6, 0xac, 0xfc, 0xe6, 0x38, 0x9c, 0x29, 0x2e, 0xa0, 0x9a, 0x37, 0x19],
    [0x33, 0xa4, 0xde, 0x67, 0xb3, 0xc0, 0xfa, 0x7b, 0xd6, 0xc4, 0xb7, 0x23, 0x36, 0x0a, 0x56, 0x50],
    [0x9e, 0x01, 0xf5, 0xbd, 0x2c, 0xba, 0x84, 0x64, 0x93, 0xd7, 0x9b, 0x17, 0xf9, 0xe7, 0xee, 0x32],
    [0xe4, 0xc3, 0x55, 0x4a, 0xa7, 0xe1, 0x5b, 0x7e, 0xcc, 0xea, 0xc5, 0x41, 0x70, 0x98, 0xeb, 0xd3],
    [0x3a, 0xf6, 0xfd, 0x88, 0xbf, 0x89, 0x08, 0x8a, 0x66, 0xda, 0xf4, 0x10, 0x4c, 0xa3, 0x30, 0x48],
    [0xd8, 0x72, 0x81, 0x4f, 0x4d, 0x8d, 0x63, 0x9d, 0x16, 0x21, 0x1c, 0x47, 0x6c, 0x97, 0xd5, 0xc8],
    [0x83, 0x62, 0x5a, 0xf3, 0x20, 0xcd, 0x42, 0x85, 0x0f, 0x27, 0x26, 0xbe, 0x02, 0x45, 0xa5, 0x7d],
    [0xcb, 0xfb, 0xd2, 0x1f, 0x92, 0x87, 0x0c, 0xb4, 0x39, 0x58, 0x34, 0xa6, 0xff, 0x53, 0x8e, 0x06],
    [0xc2, 0x61, 0xc9, 0xb9, 0x6b, 0xe0, 0x5f, 0x13, 0xef, 0xdc, 0xcf, 0x11, 0x12, 0x3f, 0x1e, 0xf7],
    [0x43, 0x91, 0x2d, 0xec, 0x9f, 0xca, 0x05, 0xd0, 0xdf, 0x71, 0xd1, 0xae, 0x52, 0x3e, 0x94, 0xaa],
    [0xb1, 0x5d, 0xe3, 0x76, 0x8b, 0x3c, 0x07, 0x4e, 0xb5, 0x40, 0x1a, 0x2f, 0x8c, 0x7f, 0xa9, 0x04],
    [0xbb, 0x73, 0xce, 0xb8, 0x77, 0x35, 0xd4, 0x75, 0x14, 0x68, 0x09, 0x69, 0x03, 0xd9, 0x6f, 0x6a],
    [0xe5, 0x78, 0xb6, 0x60, 0x2a, 0x57, 0x25, 0x3d, 0x65, 0x95, 0x5c, 0x2b, 0x0d, 0x54, 0xb0, 0x46],
    [0x31, 0x3b, 0x6d, 0x7c, 0xe2, 0x8f, 0xdd, 0x22, 0xc7, 0x18, 0x96, 0x28, 0xf2, 0xf0, 0x6e, 0x86],
    [0xe8, 0x79, 0x24, 0xad, 0xe9, 0x0b, 0x99, 0xf1, 0x49, 0x1b, 0xb2, 0xa1, 0x7a, 0x82, 0x44, 0xc1],
    [0x0e, 0x80, 0x1d, 0xa2, 0x51, 0xfe, 0x15, 0x5e, 0x90, 0xbc, 0xdb, 0x4b, 0xed, 0x74, 0xab, 0x00]]"

definition TABLE_S2_86 :: "bytes" where
  "TABLE_S2_86 = concat [
    [0x33, 0x91, 0xb7, 0x25, 0x5a, 0x8c, 0x87, 0x9c, 0x37, 0xd6, 0x10, 0x8b, 0x52, 0x98, 0x77, 0x97],
    [0x28, 0xb4, 0xe5, 0x60, 0x6f, 0x9a, 0x7a, 0x15, 0x2f, 0x80, 0x4e, 0x99, 0x46, 0xc1, 0xce, 0xb8],
    [0xb5, 0x2c, 0x2b, 0x4c, 0x67, 0x93, 0x29, 0x49, 0x39, 0x63, 0xc3, 0xab, 0xed, 0x01, 0x89, 0xa0],
    [0xe4, 0xcc, 0x07, 0x73, 0x79, 0x59, 0x2a, 0xf6, 0xc6, 0x23, 0xc2, 0x0f, 0x45, 0x03, 0x78, 0xa8],
    [0x26, 0xd8, 0x41, 0x19, 0x70, 0x09, 0xcb, 0x5c, 0x3c, 0xbf, 0xfe, 0x11, 0xf0, 0xf7, 0xc4, 0xc9],
    [0x86, 0x50, 0xad, 0xee, 0x65, 0x6b, 0xe2, 0x69, 0xd5, 0xb1, 0x64, 0xbb, 0x42, 0x7c, 0x9f, 0x83],
    [0x31, 0x7e, 0x88, 0x82, 0xaa, 0x7f, 0xd9, 0xdd, 0xc5, 0xb2, 0xd7, 0xc0, 0x3d, 0x5b, 0x3b, 0x16],
    [0x1b, 0xa6, 0x40, 0x76, 0x47, 0xb6, 0xbc, 0xbd, 0xfb, 0xe6, 0x51, 0x0c, 0x21, 0x0e, 0xdf, 0xcd],
    [0x58, 0x12, 0x55, 0xff, 0xe0, 0x61, 0xd1, 0xc8, 0xa7, 0x43, 0x1d, 0x9b, 0x1c, 0x2d, 0x3f, 0x05],
    [0xbe, 0x18, 0x7b, 0x06, 0x5e, 0x2e, 0xe3, 0xa2, 0x38, 0xd0, 0xca, 0x30, 0xcf, 0xa1, 0x90, 0x3e],
    [0x17, 0xe8, 0xf5, 0x5d, 0xa9, 0x94, 0x20, 0xf2, 0x6c, 0x3a, 0xe9, 0xb0, 0x34, 0xea, 0x66, 0xd3],
    [0x00, 0x75, 0xf3, 0x36, 0xde, 0x27, 0xeb, 0x81, 0x4b, 0x44, 0x02, 0x35, 0x68, 0x6e, 0x84, 0x4f],
    [0x54, 0xf8, 0x0d, 0xf1, 0x6d, 0x13, 0x1a, 0x9e, 0x92, 0x22, 0x8a, 0x4d, 0x95, 0x0a, 0x08, 0xdb],
    [0x04, 0x56, 0x8f, 0x72, 0xac, 0x7d, 0xdc, 0x71, 0xba, 0x85, 0x53, 0xec, 0xe1, 0xa3, 0xd2, 0xf9],
    [0x1e, 0xa5, 0xda, 0x4a, 0x8d, 0x57, 0x6a, 0xb3, 0x8e, 0x1f, 0xf4, 0x9d, 0xc7, 0x62, 0xe7, 0xae],
    [0x5f, 0x96, 0x24, 0xfc, 0xfd, 0xb9, 0x32, 0x48, 0xef, 0xfa, 0x74, 0xd4, 0xa4, 0xaf, 0x14, 0x0b]]"

definition TABLE_S2_87 :: "bytes" where
  "TABLE_S2_87 = concat [
    [0xb5, 0x49, 0xbc, 0x10, 0xda, 0x5e, 0x57, 0x29, 0x09, 0xce, 0x66, 0xd6, 0x9f, 0x4c, 0x4e, 0xd1],
    [0x36, 0xcb, 0x12, 0x40, 0x35, 0x98, 0x39, 0xe8, 0xa8, 0x17, 0xc1, 0xfe, 0xbd, 0x96, 0xe7, 0xa5],
    [0x0e, 0x9e, 0xe1, 0x5a, 0xf7, 0x2e, 0x13, 0xc9, 0xd9, 0xb0, 0x5b, 0xca, 0xea, 0xa3, 0x26, 0x83],
    [0xb8, 0x60, 0xd2, 0x1b, 0x0c, 0x76, 0xfd, 0xb9, 0x90, 0x30, 0xbe, 0xab, 0x4f, 0x50, 0xeb, 0xe0],
    [0xbb, 0x11, 0x56, 0x1c, 0x8c, 0x95, 0x25, 0xa4, 0xdf, 0x59, 0x07, 0xe3, 0x41, 0x7b, 0x69, 0x58],
    [0x42, 0x3f, 0x5c, 0xfa, 0xe6, 0xa7, 0x6a, 0x1a, 0x74, 0x8e, 0x94, 0x7c, 0x7a, 0xd4, 0xe5, 0x8b],
    [0x19, 0xb1, 0xac, 0x53, 0xb6, 0x64, 0xd0, 0xed, 0xf4, 0xad, 0x7e, 0x28, 0x97, 0x22, 0xae, 0x70],
    [0x72, 0xb7, 0x31, 0x44, 0xc5, 0xaf, 0x63, 0x9a, 0x71, 0x46, 0x00, 0x0f, 0x0b, 0xc0, 0x2a, 0x2c],
    [0x5d, 0x05, 0x9c, 0x62, 0x18, 0x8f, 0x4d, 0x34, 0x55, 0xba, 0xfb, 0x78, 0x8d, 0x80, 0xb3, 0xb4],
    [0xaa, 0xe9, 0x14, 0xc2, 0x2d, 0xa6, 0x2f, 0x21, 0xff, 0x20, 0xf5, 0x91, 0xc7, 0xdb, 0x38, 0x06],
    [0xc6, 0xcc, 0x3a, 0x75, 0x99, 0x9d, 0x3b, 0xee, 0x84, 0x93, 0xf6, 0x81, 0x52, 0x7f, 0x1f, 0x79],
    [0x32, 0x04, 0xe2, 0x5f, 0xf9, 0xf8, 0xf2, 0x03, 0x48, 0x15, 0xa2, 0xbf, 0x89, 0x9b, 0x4a, 0x65],
    [0x61, 0xf3, 0xd5, 0x77, 0xd8, 0xc3, 0xc8, 0x1e, 0xcf, 0x54, 0x92, 0x73, 0xd3, 0x33, 0xdc, 0x16],
    [0x24, 0xa1, 0xf0, 0x6c, 0x51, 0x3e, 0xde, 0x2b, 0xdd, 0x0a, 0xc4, 0x6b, 0xfc, 0x8a, 0x85, 0x02],
    [0x08, 0x6f, 0x68, 0xf1, 0x0d, 0x6d, 0xd7, 0x23, 0xef, 0x87, 0x27, 0x7d, 0xe4, 0xcd, 0x45, 0xa9],
    [0x37, 0x43, 0x88, 0xa0, 0xb2, 0x6e, 0x1d, 0x3d, 0x4b, 0x86, 0x67, 0x82, 0xec, 0x3c, 0x47, 0x01]]"

definition TABLE_S2_88 :: "bytes" where
  "TABLE_S2_88 = concat [
    [0x4c, 0x62, 0xcf, 0xf5, 0x7b, 0x7c, 0xc9, 0x6d, 0xb3, 0xa9, 0xf9, 0x93, 0xfd, 0x0c, 0xad, 0xfa],
    [0x05, 0x03, 0x5f, 0x63, 0x76, 0xe2, 0x91, 0x83, 0x2e, 0xaf, 0x95, 0xe6, 0x32, 0x8b, 0xf1, 0x66],
    [0x67, 0xbb, 0xb2, 0xac, 0x42, 0xce, 0x82, 0xc6, 0x31, 0xd1, 0xef, 0x79, 0xe8, 0xa0, 0x54, 0xcb],
    [0x86, 0xbe, 0xcd, 0x25, 0x14, 0x90, 0xbf, 0x99, 0x2b, 0x0e, 0xb4, 0xf2, 0x1f, 0x00, 0x96, 0xb1],
    [0x1d, 0x65, 0xf6, 0x19, 0x45, 0xa1, 0x8f, 0x33, 0xdf, 0x5d, 0xdc, 0xea, 0xdd, 0xa8, 0xa3, 0x6f],
    [0x9d, 0x80, 0xc2, 0x39, 0x12, 0x49, 0x74, 0x43, 0xc8, 0x36, 0xd8, 0x18, 0x1a, 0xd4, 0x27, 0x8d],
    [0x28, 0xf0, 0x10, 0x57, 0xeb, 0x73, 0x72, 0x5a, 0xd0, 0x17, 0x98, 0x75, 0xa6, 0x0f, 0x37, 0xd6],
    [0x53, 0xdb, 0x06, 0xaa, 0xf3, 0x61, 0x0d, 0x6c, 0xe1, 0x59, 0xd2, 0xc7, 0x4a, 0x87, 0xae, 0x9e],
    [0xa2, 0x4b, 0x6a, 0x47, 0x44, 0x9a, 0x89, 0xba, 0x46, 0x0a, 0xb5, 0x3e, 0xec, 0x9c, 0x34, 0x97],
    [0xff, 0xc1, 0x6b, 0x07, 0xfb, 0x84, 0x24, 0x8a, 0x85, 0x50, 0x9f, 0xca, 0xb9, 0x78, 0xc4, 0x16],
    [0x51, 0xfc, 0x2a, 0xd9, 0x7a, 0x4f, 0x15, 0xe0, 0x1b, 0x52, 0x69, 0xde, 0x23, 0xb6, 0x08, 0xe4],
    [0x3f, 0x3a, 0x8c, 0x56, 0x3c, 0x5c, 0x3d, 0x41, 0x20, 0x81, 0x60, 0x22, 0xed, 0x9b, 0x26, 0xee],
    [0x13, 0xe5, 0x01, 0x58, 0x7e, 0x09, 0xc0, 0x30, 0x68, 0x70, 0x02, 0x7f, 0x35, 0xe3, 0x2d, 0xb0],
    [0xd3, 0x3b, 0xa5, 0xa7, 0x7d, 0xc3, 0x4d, 0x92, 0x77, 0x88, 0xda, 0xb7, 0x29, 0x38, 0x6e, 0x64],
    [0x94, 0x11, 0xd7, 0x2f, 0xf4, 0xe7, 0x4e, 0x1c, 0xa4, 0xcc, 0x5e, 0xbc, 0xf8, 0x71, 0x2c, 0xbd],
    [0x55, 0xfe, 0x21, 0xb8, 0x1e, 0x8e, 0xe9, 0xc5, 0x0b, 0x40, 0xab, 0x04, 0xf7, 0x48, 0xd5, 0x5b]]"

definition TABLE_S2_89 :: "bytes" where
  "TABLE_S2_89 = concat [
    [0x67, 0xa0, 0x7f, 0xcf, 0xe5, 0x36, 0x78, 0xe7, 0xe0, 0x1c, 0xb9, 0x15, 0xf7, 0x73, 0x80, 0xfe],
    [0xbe, 0x01, 0x57, 0x68, 0x3f, 0x14, 0x0c, 0x4e, 0x62, 0x9f, 0xe9, 0xbb, 0x31, 0x9c, 0x41, 0x90],
    [0x19, 0x70, 0x63, 0xf2, 0x0a, 0x43, 0x2a, 0x8f, 0x37, 0xa7, 0xf3, 0x48, 0x87, 0x5e, 0x60, 0xba],
    [0x99, 0x39, 0x02, 0x17, 0xf9, 0xe6, 0x49, 0x42, 0xc9, 0x11, 0xb2, 0x7b, 0xdf, 0xa5, 0x10, 0x54],
    [0xf0, 0x76, 0x4a, 0xae, 0xd2, 0xe8, 0xf1, 0xc0, 0xb8, 0x12, 0xb5, 0xff, 0x3c, 0x25, 0x0d, 0x8c],
    [0x27, 0xdd, 0xd5, 0x3d, 0x7d, 0xd3, 0x22, 0x4c, 0x96, 0xeb, 0x53, 0xf5, 0x0e, 0x4f, 0xb3, 0xc3],
    [0x04, 0x5d, 0x81, 0xd7, 0x8b, 0x3e, 0xd9, 0x07, 0x18, 0xb0, 0xfa, 0x05, 0xcd, 0x1f, 0x44, 0x79],
    [0xef, 0xd8, 0xa6, 0xa9, 0x69, 0xa2, 0x85, 0x83, 0x1e, 0xdb, 0xed, 0x98, 0x06, 0x6c, 0x33, 0xca],
    [0x13, 0xfc, 0xd1, 0x52, 0x29, 0x24, 0x1d, 0x1a, 0xac, 0xf4, 0xcb, 0x35, 0x26, 0xb1, 0x9d, 0xe4],
    [0x89, 0x56, 0x38, 0x5c, 0x72, 0x6e, 0xaf, 0x91, 0x40, 0x03, 0x6b, 0xbd, 0x0f, 0x84, 0x88, 0x86],
    [0x3a, 0x2d, 0x28, 0x5f, 0xd6, 0xfb, 0xd0, 0xb6, 0x65, 0x6f, 0xdc, 0x93, 0x34, 0x30, 0x47, 0x92],
    [0xbc, 0xe1, 0x16, 0x0b, 0x32, 0x20, 0xcc, 0xe3, 0xad, 0x9b, 0xf6, 0x4b, 0x51, 0x50, 0xaa, 0x5b],
    [0xfd, 0x66, 0xda, 0x3b, 0x9a, 0x7a, 0xbf, 0x75, 0x5a, 0xc8, 0xde, 0x7c, 0x6a, 0x71, 0xb7, 0x61],
    [0xa3, 0x74, 0xc2, 0x6d, 0x23, 0x55, 0xab, 0x2c, 0x08, 0x8d, 0xc5, 0x59, 0x97, 0xf8, 0x82, 0x77],
    [0x2e, 0x46, 0xd4, 0x8e, 0x64, 0x4d, 0x00, 0xec, 0xc6, 0xa1, 0x58, 0xc1, 0xc4, 0xa4, 0x8a, 0x7e],
    [0x2f, 0xe2, 0x2b, 0xce, 0x95, 0x45, 0xa8, 0xee, 0xea, 0x9e, 0x09, 0x21, 0xc7, 0x1b, 0x94, 0xb4]]"

definition TABLE_S2_90 :: "bytes" where
  "TABLE_S2_90 = concat [
    [0x9a, 0x38, 0x1e, 0x8c, 0xf3, 0x25, 0x2e, 0x35, 0x9e, 0x7f, 0xb9, 0x22, 0xfb, 0x31, 0xde, 0x3e],
    [0x81, 0x1d, 0x4c, 0xc9, 0xc6, 0x33, 0xd3, 0xbc, 0x86, 0x29, 0xe7, 0x30, 0xef, 0x68, 0x67, 0x11],
    [0x1c, 0x85, 0x82, 0xe5, 0xce, 0x3a, 0x80, 0xe0, 0x90, 0xca, 0x6a, 0x02, 0x44, 0xa8, 0x20, 0x09],
    [0x4d, 0x65, 0xae, 0xda, 0xd0, 0xf0, 0x83, 0x5f, 0x6f, 0x8a, 0x6b, 0xa6, 0xec, 0xaa, 0xd1, 0x01],
    [0x8f, 0x71, 0xe8, 0xb0, 0xd9, 0xa0, 0x62, 0xf5, 0x95, 0x16, 0x57, 0xb8, 0x59, 0x5e, 0x6d, 0x60],
    [0x2f, 0xf9, 0x04, 0x47, 0xcc, 0xc2, 0x4b, 0xc0, 0x7c, 0x18, 0xcd, 0x12, 0xeb, 0xd5, 0x36, 0x2a],
    [0x98, 0xd7, 0x21, 0x2b, 0x03, 0xd6, 0x70, 0x74, 0x6c, 0x1b, 0x7e, 0x69, 0x94, 0xf2, 0x92, 0xbf],
    [0xb2, 0x0f, 0xe9, 0xdf, 0xee, 0x1f, 0x15, 0x14, 0x52, 0x4f, 0xf8, 0xa5, 0x88, 0xa7, 0x76, 0x64],
    [0xf1, 0xbb, 0xfc, 0x56, 0x49, 0xc8, 0x78, 0x61, 0x0e, 0xea, 0xb4, 0x32, 0xb5, 0x84, 0x96, 0xac],
    [0x17, 0xb1, 0xd2, 0xaf, 0xf7, 0x87, 0x4a, 0x0b, 0x91, 0x79, 0x63, 0x99, 0x66, 0x08, 0x39, 0x97],
    [0xbe, 0x41, 0x5c, 0xf4, 0x00, 0x3d, 0x89, 0x5b, 0xc5, 0x93, 0x40, 0x19, 0x9d, 0x43, 0xcf, 0x7a],
    [0xa9, 0xdc, 0x5a, 0x9f, 0x77, 0x8e, 0x42, 0x28, 0xe2, 0xed, 0xab, 0x9c, 0xc1, 0xc7, 0x2d, 0xe6],
    [0xfd, 0x51, 0xa4, 0x58, 0xc4, 0xba, 0xb3, 0x37, 0x3b, 0x8b, 0x23, 0xe4, 0x3c, 0xa3, 0xa1, 0x72],
    [0xad, 0xff, 0x26, 0xdb, 0x05, 0xd4, 0x75, 0xd8, 0x13, 0x2c, 0xfa, 0x45, 0x48, 0x0a, 0x7b, 0x50],
    [0xb7, 0x0c, 0x73, 0xe3, 0x24, 0xfe, 0xc3, 0x1a, 0x27, 0xb6, 0x5d, 0x34, 0x6e, 0xcb, 0x4e, 0x07],
    [0xf6, 0x3f, 0x8d, 0x55, 0x54, 0x10, 0x9b, 0xe1, 0x46, 0x53, 0xdd, 0x7d, 0x0d, 0x06, 0xbd, 0xa2]]"

definition TABLE_S2_91 :: "bytes" where
  "TABLE_S2_91 = concat [
    [0x31, 0x14, 0xae, 0xe8, 0x05, 0x1a, 0x8c, 0xab, 0x9c, 0xa4, 0xd7, 0x3f, 0x0e, 0x8a, 0xa5, 0x83],
    [0x2b, 0xcb, 0xf5, 0x63, 0xf2, 0xba, 0x4e, 0xd1, 0x7d, 0xa1, 0xa8, 0xb6, 0x58, 0xd4, 0x98, 0xdc],
    [0x34, 0xb5, 0x8f, 0xfc, 0x28, 0x91, 0xeb, 0x7c, 0x1f, 0x19, 0x45, 0x79, 0x6c, 0xf8, 0x8b, 0x99],
    [0xa9, 0xb3, 0xe3, 0x89, 0xe7, 0x16, 0xb7, 0xe0, 0x56, 0x78, 0xd5, 0xef, 0x61, 0x66, 0xd3, 0x77],
    [0xfb, 0x43, 0xc8, 0xdd, 0x50, 0x9d, 0xb4, 0x84, 0x49, 0xc1, 0x1c, 0xb0, 0xe9, 0x7b, 0x17, 0x76],
    [0xca, 0x0d, 0x82, 0x6f, 0xbc, 0x15, 0x2d, 0xcc, 0x32, 0xea, 0x0a, 0x4d, 0xf1, 0x69, 0x68, 0x40],
    [0xd2, 0x2c, 0xc2, 0x02, 0x00, 0xce, 0x3d, 0x97, 0x87, 0x9a, 0xd8, 0x23, 0x08, 0x53, 0x6e, 0x59],
    [0xc5, 0x47, 0xc6, 0xf0, 0xc7, 0xb2, 0xb9, 0x75, 0x07, 0x7f, 0xec, 0x03, 0x5f, 0xbb, 0x95, 0x29],
    [0x3a, 0x9b, 0x7a, 0x38, 0xf7, 0x81, 0x3c, 0xf4, 0x25, 0x20, 0x96, 0x4c, 0x26, 0x46, 0x27, 0x5b],
    [0x01, 0x48, 0x73, 0xc4, 0x39, 0xac, 0x12, 0xfe, 0x4b, 0xe6, 0x30, 0xc3, 0x60, 0x55, 0x0f, 0xfa],
    [0x9f, 0x4a, 0x85, 0xd0, 0xa3, 0x62, 0xde, 0x0c, 0xe5, 0xdb, 0x71, 0x1d, 0xe1, 0x9e, 0x3e, 0x90],
    [0x5c, 0x10, 0xaf, 0x24, 0xf6, 0x86, 0x2e, 0x8d, 0xb8, 0x51, 0x70, 0x5d, 0x5e, 0x80, 0x93, 0xa0],
    [0x11, 0x5a, 0xb1, 0x1e, 0xed, 0x52, 0xcf, 0x41, 0x4f, 0xe4, 0x3b, 0xa2, 0x04, 0x94, 0xf3, 0xdf],
    [0xbe, 0xd6, 0x44, 0xa6, 0xe2, 0x6b, 0x36, 0xa7, 0x8e, 0x0b, 0xcd, 0x35, 0xee, 0xfd, 0x54, 0x06],
    [0x6d, 0x92, 0xc0, 0xad, 0x33, 0x22, 0x74, 0x7e, 0xc9, 0x21, 0xbf, 0xbd, 0x67, 0xd9, 0x57, 0x88],
    [0x72, 0x6a, 0x18, 0x65, 0x2f, 0xf9, 0x37, 0xaa, 0x09, 0xff, 0x1b, 0x42, 0x64, 0x13, 0xda, 0x2a]]"

definition TABLE_S2_92 :: "bytes" where
  "TABLE_S2_92 = concat [
    [0x2d, 0x8b, 0x33, 0x4e, 0x1b, 0x6b, 0x97, 0xd6, 0xe5, 0x0d, 0x05, 0xff, 0x94, 0xfa, 0x0b, 0xa5],
    [0x27, 0x6d, 0xca, 0x60, 0x54, 0xd5, 0xfd, 0xe4, 0x76, 0x92, 0xae, 0x28, 0x18, 0x29, 0x30, 0x0a],
    [0x40, 0x35, 0x03, 0xc6, 0x12, 0xeb, 0xb4, 0xde, 0x71, 0x7e, 0x00, 0x37, 0x5b, 0x5d, 0x7a, 0xb1],
    [0xdd, 0x22, 0x68, 0xc0, 0xa1, 0x9c, 0xc7, 0x15, 0x0f, 0x59, 0x85, 0xdc, 0xdf, 0x01, 0xe6, 0x53],
    [0x63, 0x31, 0x47, 0xba, 0x48, 0x99, 0x44, 0xe9, 0xb0, 0x8f, 0xd9, 0x66, 0x96, 0xd4, 0xcc, 0xe7],
    [0xcd, 0x61, 0xc4, 0x38, 0x26, 0x58, 0xab, 0x2f, 0x17, 0xa7, 0x78, 0xbf, 0x3f, 0xa0, 0xee, 0x3d],
    [0xa3, 0x6a, 0xc9, 0x11, 0x8c, 0xc8, 0x7d, 0x07, 0xcf, 0xda, 0xe1, 0x41, 0x9a, 0x91, 0x3e, 0x21],
    [0x90, 0x2b, 0x7f, 0xef, 0x62, 0xb8, 0x86, 0x5f, 0x2a, 0xbb, 0xa8, 0xc1, 0x57, 0xf2, 0x9b, 0xd2],
    [0x81, 0x1d, 0x55, 0xd0, 0xaf, 0x5a, 0x20, 0x4f, 0xb5, 0x1a, 0xac, 0x7b, 0xf4, 0x73, 0x8d, 0xfb],
    [0xa4, 0x06, 0x10, 0x82, 0xb9, 0x6f, 0xa9, 0xb2, 0xe3, 0x02, 0xbe, 0x25, 0xad, 0x67, 0xa2, 0x42],
    [0xf9, 0xd1, 0x46, 0x32, 0x6c, 0x4c, 0xc3, 0x1f, 0x16, 0xf3, 0x3a, 0xf7, 0x36, 0x70, 0x9d, 0x4d],
    [0x19, 0x80, 0x79, 0x1e, 0xa6, 0x52, 0x7c, 0x1c, 0x56, 0x0c, 0x9e, 0xf6, 0x34, 0xd8, 0x95, 0xbc],
    [0x65, 0xb3, 0xdb, 0x98, 0x5e, 0x50, 0x5c, 0xd7, 0x84, 0xe0, 0x8e, 0x51, 0x49, 0x77, 0xb6, 0xaa],
    [0xed, 0x13, 0x2c, 0x74, 0x3c, 0x45, 0x69, 0xfe, 0x8a, 0x09, 0x24, 0xcb, 0xc2, 0xc5, 0xfc, 0xf1],
    [0x93, 0x2e, 0x43, 0x75, 0x83, 0x72, 0x88, 0x89, 0xd3, 0xce, 0x39, 0x64, 0x3b, 0x14, 0xf8, 0xea],
    [0x4b, 0x04, 0xb7, 0xbd, 0x4a, 0x9f, 0xe8, 0xec, 0x87, 0xf0, 0xf5, 0xe2, 0x6e, 0x08, 0x23, 0x0e]]"

definition TABLE_S2_93 :: "bytes" where
  "TABLE_S2_93 = concat [
    [0xfa, 0x3d, 0xe2, 0x52, 0x78, 0xab, 0xe5, 0x7a, 0x7d, 0x81, 0x24, 0x88, 0x6a, 0xee, 0x1d, 0x63],
    [0x23, 0x9c, 0xca, 0xf5, 0xa2, 0x89, 0x91, 0xd3, 0xff, 0x02, 0x74, 0x26, 0xac, 0x01, 0xdc, 0x0d],
    [0x84, 0xed, 0xfe, 0x6f, 0x97, 0xde, 0xb7, 0x12, 0xaa, 0x3a, 0x6e, 0xd5, 0x1a, 0xc3, 0xfd, 0x27],
    [0x04, 0xa4, 0x9f, 0x8a, 0x64, 0x7b, 0xd4, 0xdf, 0x54, 0x8c, 0x2f, 0xe6, 0x42, 0x38, 0x8d, 0xc9],
    [0x6d, 0xeb, 0xd7, 0x33, 0x4f, 0x75, 0x6c, 0x5d, 0x25, 0x8f, 0x28, 0x62, 0xa1, 0xb8, 0x90, 0x11],
    [0xba, 0x40, 0x48, 0xa0, 0xe0, 0x4e, 0xbf, 0xd1, 0x0b, 0x76, 0xce, 0x68, 0x93, 0xd2, 0x2e, 0x5e],
    [0x99, 0xc0, 0x1c, 0x4a, 0x16, 0xa3, 0x44, 0x9a, 0x85, 0x2d, 0x67, 0x98, 0x50, 0x82, 0xd9, 0xe4],
    [0x72, 0x45, 0x3b, 0x34, 0xf4, 0x3f, 0x18, 0x1e, 0x83, 0x46, 0x70, 0x05, 0x9b, 0xf1, 0xae, 0x57],
    [0x8e, 0x61, 0x4c, 0xcf, 0xb4, 0xb9, 0x80, 0x87, 0x31, 0x69, 0x56, 0xa8, 0xbb, 0x2c, 0x00, 0x79],
    [0x14, 0xcb, 0xa5, 0xc1, 0xef, 0xf3, 0x32, 0x0c, 0xdd, 0x9e, 0xf6, 0x20, 0x92, 0x19, 0x15, 0x1b],
    [0xa7, 0xb0, 0xb5, 0xc2, 0x4b, 0x66, 0x4d, 0x2b, 0xf8, 0xf2, 0x41, 0x0e, 0xa9, 0xad, 0xda, 0x0f],
    [0x21, 0x7c, 0x8b, 0x96, 0xaf, 0xbd, 0x51, 0x7e, 0x30, 0x06, 0x6b, 0xd6, 0xcc, 0xcd, 0x37, 0xc6],
    [0x60, 0xfb, 0x47, 0xa6, 0x07, 0xe7, 0x22, 0xe8, 0xc7, 0x55, 0x43, 0xe1, 0xf7, 0xec, 0x2a, 0xfc],
    [0x3e, 0xe9, 0x5f, 0xf0, 0xbe, 0xc8, 0x36, 0xb1, 0x95, 0x10, 0x58, 0xc4, 0x0a, 0x65, 0x1f, 0xea],
    [0xb3, 0xdb, 0x49, 0x13, 0xf9, 0xd0, 0x9d, 0x71, 0x5b, 0x3c, 0xc5, 0x5c, 0x59, 0x39, 0x17, 0xe3],
    [0xb2, 0x7f, 0xb6, 0x53, 0x08, 0xd8, 0x35, 0x73, 0x77, 0x03, 0x94, 0xbc, 0x5a, 0x86, 0x09, 0x29]]"

definition TABLE_S2_94 :: "bytes" where
  "TABLE_S2_94 = concat [
    [0x06, 0xbe, 0x98, 0x8d, 0xd8, 0x15, 0xc1, 0xf1, 0x84, 0x0c, 0xf5, 0x59, 0x3e, 0xac, 0x33, 0x52],
    [0x48, 0x8f, 0x2a, 0xc7, 0x50, 0xf9, 0x89, 0x68, 0xaf, 0x77, 0x08, 0x4f, 0x2c, 0xb4, 0x05, 0x2d],
    [0x69, 0x97, 0x47, 0x87, 0x8b, 0x45, 0xd2, 0x78, 0xdf, 0xc2, 0x66, 0x9d, 0x16, 0x4d, 0x1c, 0x2b],
    [0x02, 0x80, 0xb5, 0x83, 0xf7, 0x82, 0x30, 0xfc, 0x3a, 0x42, 0x46, 0xa9, 0xfe, 0x1a, 0x6c, 0xd0],
    [0x51, 0x74, 0xad, 0xeb, 0x5f, 0x40, 0xee, 0xc9, 0xe1, 0xd9, 0x7a, 0x92, 0xcf, 0x4b, 0xc6, 0xe0],
    [0x8e, 0x6e, 0x26, 0xb0, 0xff, 0xb7, 0x94, 0x0b, 0xe4, 0x38, 0xf3, 0xed, 0x91, 0x1d, 0x99, 0xdd],
    [0xf0, 0x71, 0xb9, 0xca, 0xd4, 0x6d, 0x39, 0xae, 0x5c, 0x5a, 0x3c, 0x00, 0xbd, 0x29, 0xdc, 0xce],
    [0xf6, 0xec, 0xcc, 0xa6, 0x53, 0xa2, 0xa5, 0xf2, 0x3d, 0x13, 0xaa, 0x90, 0x23, 0x24, 0x32, 0x96],
    [0x1f, 0x54, 0x5b, 0xf4, 0x17, 0xa8, 0x04, 0x8a, 0xa1, 0x0a, 0xe7, 0x7e, 0xd1, 0x41, 0x9a, 0xb6],
    [0x93, 0xfb, 0xe3, 0x01, 0x2e, 0xa7, 0xe2, 0x73, 0x4e, 0xcb, 0x70, 0x88, 0xb8, 0xab, 0x43, 0x11],
    [0xd7, 0x28, 0xe8, 0x85, 0x67, 0x76, 0x3b, 0x31, 0x64, 0x8c, 0xf8, 0xfa, 0x9c, 0x22, 0xcd, 0x12],
    [0x2f, 0x37, 0x20, 0x5d, 0xbc, 0x6a, 0xef, 0x72, 0xba, 0x4c, 0x07, 0x5e, 0x56, 0x21, 0x6f, 0x9f],
    [0xde, 0x7f, 0x7d, 0x3f, 0xc4, 0xb2, 0xb1, 0x79, 0x65, 0x60, 0x09, 0xd3, 0x03, 0x63, 0x1e, 0x62],
    [0x0d, 0x44, 0x81, 0x36, 0xe9, 0x7c, 0xbb, 0x57, 0xa3, 0x0e, 0x86, 0x75, 0x10, 0x25, 0xbf, 0x4a],
    [0x0f, 0xda, 0x95, 0xc0, 0x27, 0xe6, 0x49, 0x9b, 0x9e, 0xa0, 0x58, 0x34, 0xdb, 0xa4, 0xd5, 0x7b],
    [0x55, 0x19, 0x61, 0xea, 0xc3, 0xb3, 0xc8, 0x6b, 0x14, 0xfd, 0x18, 0x35, 0xc5, 0x1b, 0xe5, 0xd6]]"

definition TABLE_S2_95 :: "bytes" where
  "TABLE_S2_95 = concat [
    [0x36, 0xca, 0x3f, 0x93, 0x59, 0xdd, 0xd4, 0xaa, 0x8a, 0x4d, 0xe5, 0x55, 0x1c, 0xcf, 0xcd, 0x52],
    [0xb5, 0x48, 0x91, 0xc3, 0xb6, 0x1b, 0xba, 0x6b, 0x2b, 0x94, 0x42, 0x7d, 0x3e, 0x15, 0x64, 0x26],
    [0x8d, 0x1d, 0x62, 0xd9, 0x74, 0xad, 0x90, 0x4a, 0x5a, 0x33, 0xd8, 0x49, 0x69, 0x20, 0xa5, 0x00],
    [0x3b, 0xe3, 0x51, 0x98, 0x8f, 0xf5, 0x7e, 0x3a, 0x13, 0xb3, 0x3d, 0x28, 0xcc, 0xd3, 0x68, 0x63],
    [0x38, 0x92, 0xd5, 0x9f, 0x0f, 0x16, 0xa6, 0x27, 0x5c, 0xda, 0x84, 0x60, 0xc2, 0xf8, 0xea, 0xdb],
    [0xc1, 0xbc, 0xdf, 0x79, 0x65, 0x24, 0xe9, 0x99, 0xf7, 0x0d, 0x17, 0xff, 0xf9, 0x57, 0x66, 0x08],
    [0x9a, 0x32, 0x2f, 0xd0, 0x35, 0xe7, 0x53, 0x6e, 0x77, 0x2e, 0xfd, 0xab, 0x14, 0xa1, 0x2d, 0xf3],
    [0xf1, 0x34, 0xb2, 0xc7, 0x46, 0x2c, 0xe0, 0x19, 0xf2, 0xc5, 0x83, 0x8c, 0x88, 0x43, 0xa9, 0xaf],
    [0xde, 0x86, 0x1f, 0xe1, 0x9b, 0x0c, 0xce, 0xb7, 0xd6, 0x39, 0x78, 0xfb, 0x0e, 0x03, 0x30, 0x37],
    [0x29, 0x6a, 0x97, 0x41, 0xae, 0x25, 0xac, 0xa2, 0x7c, 0xa3, 0x76, 0x12, 0x44, 0x58, 0xbb, 0x85],
    [0x45, 0x4f, 0xb9, 0xf6, 0x1a, 0x1e, 0xb8, 0x6d, 0x07, 0x10, 0x75, 0x02, 0xd1, 0xfc, 0x9c, 0xfa],
    [0xb1, 0x87, 0x61, 0xdc, 0x7a, 0x7b, 0x71, 0x80, 0xcb, 0x96, 0x21, 0x3c, 0x0a, 0x18, 0xc9, 0xe6],
    [0xe2, 0x70, 0x56, 0xf4, 0x5b, 0x40, 0x4b, 0x9d, 0x4c, 0xd7, 0x11, 0xf0, 0x50, 0xb0, 0x5f, 0x95],
    [0xa7, 0x22, 0x73, 0xef, 0xd2, 0xbd, 0x5d, 0xa8, 0x5e, 0x89, 0x47, 0xe8, 0x7f, 0x09, 0x06, 0x81],
    [0x8b, 0xec, 0xeb, 0x72, 0x8e, 0xee, 0x54, 0xa0, 0x6c, 0x04, 0xa4, 0xfe, 0x67, 0x4e, 0xc6, 0x2a],
    [0xb4, 0xc0, 0x0b, 0x23, 0x31, 0xed, 0x9e, 0xbe, 0xc8, 0x05, 0xe4, 0x01, 0x6f, 0xbf, 0xc4, 0x82]]"

definition TABLE_S2_96 :: "bytes" where
  "TABLE_S2_96 = concat [
    [0x29, 0x8f, 0x37, 0x4a, 0x1f, 0x6f, 0x93, 0xd2, 0xe1, 0x09, 0x01, 0xfb, 0x90, 0xfe, 0x0f, 0xa1],
    [0x23, 0x69, 0xce, 0x64, 0x50, 0xd1, 0xf9, 0xe0, 0x72, 0x96, 0xaa, 0x2c, 0x1c, 0x2d, 0x34, 0x0e],
    [0x44, 0x31, 0x07, 0xc2, 0x16, 0xef, 0xb0, 0xda, 0x75, 0x7a, 0x04, 0x33, 0x5f, 0x59, 0x7e, 0xb5],
    [0xd9, 0x26, 0x6c, 0xc4, 0xa5, 0x98, 0xc3, 0x11, 0x0b, 0x5d, 0x81, 0xd8, 0xdb, 0x05, 0xe2, 0x57],
    [0x67, 0x35, 0x43, 0xbe, 0x4c, 0x9d, 0x40, 0xed, 0xb4, 0x8b, 0xdd, 0x62, 0x92, 0xd0, 0xc8, 0xe3],
    [0xc9, 0x65, 0xc0, 0x3c, 0x22, 0x5c, 0xaf, 0x2b, 0x13, 0xa3, 0x7c, 0xbb, 0x3b, 0xa4, 0xea, 0x39],
    [0xa7, 0x6e, 0xcd, 0x15, 0x88, 0xcc, 0x79, 0x03, 0xcb, 0xde, 0xe5, 0x45, 0x9e, 0x95, 0x3a, 0x25],
    [0x94, 0x2f, 0x7b, 0xeb, 0x66, 0xbc, 0x82, 0x5b, 0x2e, 0xbf, 0xac, 0xc5, 0x53, 0xf6, 0x9f, 0xd6],
    [0x85, 0x19, 0x51, 0xd4, 0xab, 0x5e, 0x24, 0x4b, 0xb1, 0x1e, 0xa8, 0x7f, 0xf0, 0x77, 0x89, 0xff],
    [0xa0, 0x02, 0x14, 0x86, 0xbd, 0x6b, 0xad, 0xb6, 0xe7, 0x06, 0xba, 0x21, 0xa9, 0x63, 0xa6, 0x46],
    [0xfd, 0xd5, 0x42, 0x36, 0x68, 0x48, 0xc7, 0x1b, 0x12, 0xf7, 0x3e, 0xf3, 0x32, 0x74, 0x99, 0x49],
    [0x1d, 0x84, 0x7d, 0x1a, 0xa2, 0x56, 0x78, 0x18, 0x52, 0x08, 0x9a, 0xf2, 0x30, 0xdc, 0x91, 0xb8],
    [0x61, 0xb7, 0xdf, 0x9c, 0x5a, 0x54, 0x58, 0xd3, 0x80, 0xe4, 0x8a, 0x55, 0x4d, 0x73, 0xb2, 0xae],
    [0xe9, 0x17, 0x28, 0x70, 0x38, 0x41, 0x6d, 0xfa, 0x8e, 0x0d, 0x20, 0xcf, 0xc6, 0xc1, 0xf8, 0xf5],
    [0x97, 0x2a, 0x47, 0x71, 0x87, 0x76, 0x8c, 0x8d, 0xd7, 0xca, 0x3d, 0x60, 0x3f, 0x10, 0xfc, 0xee],
    [0x4f, 0x00, 0xb3, 0xb9, 0x4e, 0x9b, 0xec, 0xe8, 0x83, 0xf4, 0xf1, 0xe6, 0x6a, 0x0c, 0x27, 0x0a]]"

definition TABLE_S2_97 :: "bytes" where
  "TABLE_S2_97 = concat [
    [0x01, 0xc6, 0x19, 0xa9, 0x83, 0x50, 0x1e, 0x81, 0x86, 0x7a, 0xdf, 0x73, 0x91, 0x15, 0xe6, 0x98],
    [0xd8, 0x67, 0x31, 0x0e, 0x59, 0x72, 0x6a, 0x28, 0x04, 0xf9, 0x8f, 0xdd, 0x57, 0xfa, 0x27, 0xf6],
    [0x7f, 0x16, 0x05, 0x94, 0x6c, 0x25, 0x4c, 0xe9, 0x51, 0xc1, 0x95, 0x2e, 0xe1, 0x38, 0x06, 0xdc],
    [0xff, 0x5f, 0x64, 0x71, 0x9f, 0x80, 0x2f, 0x24, 0xaf, 0x77, 0xd4, 0x1d, 0xb9, 0xc3, 0x76, 0x32],
    [0x96, 0x10, 0x2c, 0xc8, 0xb4, 0x8e, 0x97, 0xa6, 0xde, 0x74, 0xd3, 0x99, 0x5a, 0x43, 0x6b, 0xea],
    [0x41, 0xbb, 0xb3, 0x5b, 0x1b, 0xb5, 0x44, 0x2a, 0xf0, 0x8d, 0x35, 0x93, 0x68, 0x29, 0xd5, 0xa5],
    [0x62, 0x3b, 0xe7, 0xb1, 0xed, 0x58, 0xbf, 0x61, 0x7e, 0xd6, 0x9c, 0x63, 0xab, 0x79, 0x22, 0x1f],
    [0x89, 0xbe, 0xc0, 0xcf, 0x0f, 0xc4, 0xe3, 0xe5, 0x78, 0xbd, 0x8b, 0xfe, 0x60, 0x0a, 0x55, 0xac],
    [0x75, 0x9a, 0xb7, 0x34, 0x4f, 0x42, 0x7b, 0x7c, 0xca, 0x92, 0xad, 0x53, 0x40, 0xd7, 0xfb, 0x82],
    [0xef, 0x30, 0x5e, 0x3a, 0x14, 0x08, 0xc9, 0xf7, 0x26, 0x65, 0x0d, 0xdb, 0x69, 0xe2, 0xee, 0xe0],
    [0x5c, 0x4b, 0x4e, 0x39, 0xb0, 0x9d, 0xb6, 0xd0, 0x03, 0x09, 0xba, 0xf5, 0x52, 0x56, 0x21, 0xf4],
    [0xda, 0x87, 0x70, 0x6d, 0x54, 0x46, 0xaa, 0x85, 0xcb, 0xfd, 0x90, 0x2d, 0x37, 0x36, 0xcc, 0x3d],
    [0x9b, 0x00, 0xbc, 0x5d, 0xfc, 0x1c, 0xd9, 0x13, 0x3c, 0xae, 0xb8, 0x1a, 0x0c, 0x17, 0xd1, 0x07],
    [0xc5, 0x12, 0xa4, 0x0b, 0x45, 0x33, 0xcd, 0x4a, 0x6e, 0xeb, 0xa3, 0x3f, 0xf1, 0x9e, 0xe4, 0x11],
    [0x48, 0x20, 0xb2, 0xe8, 0x02, 0x2b, 0x66, 0x8a, 0xa0, 0xc7, 0x3e, 0xa7, 0xa2, 0xc2, 0xec, 0x18],
    [0x49, 0x84, 0x4d, 0xa8, 0xf3, 0x23, 0xce, 0x88, 0x8c, 0xf8, 0x6f, 0x47, 0xa1, 0x7d, 0xf2, 0xd2]]"

definition TABLE_S2_98 :: "bytes" where
  "TABLE_S2_98 = concat [
    [0xfc, 0x5e, 0x78, 0xea, 0x95, 0x43, 0x48, 0x53, 0xf8, 0x19, 0xdf, 0x44, 0x9d, 0x57, 0xb8, 0x58],
    [0xe7, 0x7b, 0x2a, 0xaf, 0xa0, 0x55, 0xb5, 0xda, 0xe0, 0x4f, 0x81, 0x56, 0x89, 0x0e, 0x01, 0x77],
    [0x7a, 0xe3, 0xe4, 0x83, 0xa8, 0x5c, 0xe6, 0x86, 0xf6, 0xac, 0x0c, 0x64, 0x22, 0xce, 0x46, 0x6f],
    [0x2b, 0x03, 0xc8, 0xbc, 0xb6, 0x96, 0xe5, 0x39, 0x09, 0xec, 0x0d, 0xc0, 0x8a, 0xcc, 0xb7, 0x67],
    [0xe9, 0x17, 0x8e, 0xd6, 0xbf, 0xc6, 0x04, 0x93, 0xf3, 0x70, 0x31, 0xde, 0x3f, 0x38, 0x0b, 0x06],
    [0x49, 0x9f, 0x62, 0x21, 0xaa, 0xa4, 0x2d, 0xa6, 0x1a, 0x7e, 0xab, 0x74, 0x8d, 0xb3, 0x50, 0x4c],
    [0xfe, 0xb1, 0x47, 0x4d, 0x65, 0xb0, 0x16, 0x12, 0x0a, 0x7d, 0x18, 0x0f, 0xf2, 0x94, 0xf4, 0xd9],
    [0xd4, 0x69, 0x8f, 0xb9, 0x88, 0x79, 0x73, 0x72, 0x34, 0x29, 0x9e, 0xc3, 0xee, 0xc1, 0x10, 0x02],
    [0x97, 0xdd, 0x9a, 0x30, 0x2f, 0xae, 0x1e, 0x07, 0x68, 0x8c, 0xd2, 0x54, 0xd3, 0xe2, 0xf0, 0xca],
    [0x71, 0xd7, 0xb4, 0xc9, 0x91, 0xe1, 0x2c, 0x6d, 0xf7, 0x1f, 0x05, 0xff, 0x00, 0x6e, 0x5f, 0xf1],
    [0xd8, 0x27, 0x3a, 0x92, 0x66, 0x5b, 0xef, 0x3d, 0xa3, 0xf5, 0x26, 0x7f, 0xfb, 0x25, 0xa9, 0x1c],
    [0xcf, 0xba, 0x3c, 0xf9, 0x11, 0xe8, 0x24, 0x4e, 0x84, 0x8b, 0xcd, 0xfa, 0xa7, 0xa1, 0x4b, 0x80],
    [0x9b, 0x37, 0xc2, 0x3e, 0xa2, 0xdc, 0xd5, 0x51, 0x5d, 0xed, 0x45, 0x82, 0x5a, 0xc5, 0xc7, 0x14],
    [0xcb, 0x99, 0x40, 0xbd, 0x63, 0xb2, 0x13, 0xbe, 0x75, 0x4a, 0x9c, 0x23, 0x2e, 0x6c, 0x1d, 0x36],
    [0xd1, 0x6a, 0x15, 0x85, 0x42, 0x98, 0xa5, 0x7c, 0x41, 0xd0, 0x3b, 0x52, 0x08, 0xad, 0x28, 0x61],
    [0x90, 0x59, 0xeb, 0x33, 0x32, 0x76, 0xfd, 0x87, 0x20, 0x35, 0xbb, 0x1b, 0x6b, 0x60, 0xdb, 0xc4]]"

definition TABLE_S2_99 :: "bytes" where
  "TABLE_S2_99 = concat [
    [0xa2, 0x5e, 0xab, 0x07, 0xcd, 0x49, 0x40, 0x3e, 0x1e, 0xd9, 0x71, 0xc1, 0x88, 0x5b, 0x59, 0xc6],
    [0x21, 0xdc, 0x05, 0x57, 0x22, 0x8f, 0x2e, 0xff, 0xbf, 0x00, 0xd6, 0xe9, 0xaa, 0x81, 0xf0, 0xb2],
    [0x19, 0x89, 0xf6, 0x4d, 0xe0, 0x39, 0x04, 0xde, 0xce, 0xa7, 0x4c, 0xdd, 0xfd, 0xb4, 0x31, 0x94],
    [0xaf, 0x77, 0xc5, 0x0c, 0x1b, 0x61, 0xea, 0xae, 0x87, 0x27, 0xa9, 0xbc, 0x58, 0x47, 0xfc, 0xf7],
    [0xac, 0x06, 0x41, 0x0b, 0x9b, 0x82, 0x32, 0xb3, 0xc8, 0x4e, 0x10, 0xf4, 0x56, 0x6c, 0x7e, 0x4f],
    [0x55, 0x28, 0x4b, 0xed, 0xf1, 0xb0, 0x7d, 0x0d, 0x63, 0x99, 0x83, 0x6b, 0x6d, 0xc3, 0xf2, 0x9c],
    [0x0e, 0xa6, 0xbb, 0x44, 0xa1, 0x73, 0xc7, 0xfa, 0xe3, 0xba, 0x69, 0x3f, 0x80, 0x35, 0xb9, 0x67],
    [0x65, 0xa0, 0x26, 0x53, 0xd2, 0xb8, 0x74, 0x8d, 0x66, 0x51, 0x17, 0x18, 0x1c, 0xd7, 0x3d, 0x3b],
    [0x4a, 0x12, 0x8b, 0x75, 0x0f, 0x98, 0x5a, 0x23, 0x42, 0xad, 0xec, 0x6f, 0x9a, 0x97, 0xa4, 0xa3],
    [0xbd, 0xfe, 0x03, 0xd5, 0x3a, 0xb1, 0x38, 0x36, 0xe8, 0x37, 0xe2, 0x86, 0xd0, 0xcc, 0x2f, 0x11],
    [0xd1, 0xdb, 0x2d, 0x62, 0x8e, 0x8a, 0x2c, 0xf9, 0x93, 0x84, 0xe1, 0x96, 0x45, 0x68, 0x08, 0x6e],
    [0x25, 0x13, 0xf5, 0x48, 0xee, 0xef, 0xe5, 0x14, 0x5f, 0x02, 0xb5, 0xa8, 0x9e, 0x8c, 0x5d, 0x72],
    [0x76, 0xe4, 0xc2, 0x60, 0xcf, 0xd4, 0xdf, 0x09, 0xd8, 0x43, 0x85, 0x64, 0xc4, 0x24, 0xcb, 0x01],
    [0x33, 0xb6, 0xe7, 0x7b, 0x46, 0x29, 0xc9, 0x3c, 0xca, 0x1d, 0xd3, 0x7c, 0xeb, 0x9d, 0x92, 0x15],
    [0x1f, 0x78, 0x7f, 0xe6, 0x1a, 0x7a, 0xc0, 0x34, 0xf8, 0x90, 0x30, 0x6a, 0xf3, 0xda, 0x52, 0xbe],
    [0x20, 0x54, 0x9f, 0xb7, 0xa5, 0x79, 0x0a, 0x2a, 0x5c, 0x91, 0x70, 0x95, 0xfb, 0x2b, 0x50, 0x16]]"

definition TABLE_S2_100 :: "bytes" where
  "TABLE_S2_100 = concat [
    [0x0f, 0xa9, 0x11, 0x6c, 0x39, 0x49, 0xb5, 0xf4, 0xc7, 0x2f, 0x27, 0xdd, 0xb6, 0xd8, 0x29, 0x87],
    [0x05, 0x4f, 0xe8, 0x42, 0x76, 0xf7, 0xdf, 0xc6, 0x54, 0xb0, 0x8c, 0x0a, 0x3a, 0x0b, 0x12, 0x28],
    [0x62, 0x17, 0x21, 0xe4, 0x30, 0xc9, 0x96, 0xfc, 0x53, 0x5c, 0x22, 0x15, 0x79, 0x7f, 0x58, 0x93],
    [0xff, 0x00, 0x4a, 0xe2, 0x83, 0xbe, 0xe5, 0x37, 0x2d, 0x7b, 0xa7, 0xfe, 0xfd, 0x23, 0xc4, 0x71],
    [0x41, 0x13, 0x65, 0x98, 0x6a, 0xbb, 0x66, 0xcb, 0x92, 0xad, 0xfb, 0x44, 0xb4, 0xf6, 0xee, 0xc5],
    [0xef, 0x43, 0xe6, 0x1a, 0x04, 0x7a, 0x89, 0x0d, 0x35, 0x85, 0x5a, 0x9d, 0x1d, 0x82, 0xcc, 0x1f],
    [0x81, 0x48, 0xeb, 0x33, 0xae, 0xea, 0x5f, 0x25, 0xed, 0xf8, 0xc3, 0x63, 0xb8, 0xb3, 0x1c, 0x03],
    [0xb2, 0x09, 0x5d, 0xcd, 0x40, 0x9a, 0xa4, 0x7d, 0x08, 0x99, 0x8a, 0xe3, 0x75, 0xd0, 0xb9, 0xf0],
    [0xa3, 0x3f, 0x77, 0xf2, 0x8d, 0x78, 0x02, 0x6d, 0x97, 0x38, 0x8e, 0x59, 0xd6, 0x51, 0xaf, 0xd9],
    [0x86, 0x24, 0x32, 0xa0, 0x9b, 0x4d, 0x8b, 0x90, 0xc1, 0x20, 0x9c, 0x07, 0x8f, 0x45, 0x80, 0x60],
    [0xdb, 0xf3, 0x64, 0x10, 0x4e, 0x6e, 0xe1, 0x3d, 0x34, 0xd1, 0x18, 0xd5, 0x14, 0x52, 0xbf, 0x6f],
    [0x3b, 0xa2, 0x5b, 0x3c, 0x84, 0x70, 0x5e, 0x3e, 0x74, 0x2e, 0xbc, 0xd4, 0x16, 0xfa, 0xb7, 0x9e],
    [0x47, 0x91, 0xf9, 0xba, 0x7c, 0x72, 0x7e, 0xf5, 0xa6, 0xc2, 0xac, 0x73, 0x6b, 0x55, 0x94, 0x88],
    [0xcf, 0x31, 0x0e, 0x56, 0x1e, 0x67, 0x4b, 0xdc, 0xa8, 0x2b, 0x06, 0xe9, 0xe0, 0xe7, 0xde, 0xd3],
    [0xb1, 0x0c, 0x61, 0x57, 0xa1, 0x50, 0xaa, 0xab, 0xf1, 0xec, 0x1b, 0x46, 0x19, 0x36, 0xda, 0xc8],
    [0x69, 0x26, 0x95, 0x9f, 0x68, 0xbd, 0xca, 0xce, 0xa5, 0xd2, 0xd7, 0xc0, 0x4c, 0x2a, 0x01, 0x2c]]"

definition TABLE_S2_101 :: "bytes" where
  "TABLE_S2_101 = concat [
    [0xab, 0x6c, 0xb3, 0x03, 0x29, 0xfa, 0xb4, 0x2b, 0x2c, 0xd0, 0x75, 0xd9, 0x3b, 0xbf, 0x4c, 0x32],
    [0x72, 0xcd, 0x9b, 0xa4, 0xf3, 0xd8, 0xc0, 0x82, 0xae, 0x53, 0x25, 0x77, 0xfd, 0x50, 0x8d, 0x5c],
    [0xd5, 0xbc, 0xaf, 0x3e, 0xc6, 0x8f, 0xe6, 0x43, 0xfb, 0x6b, 0x3f, 0x84, 0x4b, 0x92, 0xac, 0x76],
    [0x55, 0xf5, 0xce, 0xdb, 0x35, 0x2a, 0x85, 0x8e, 0x05, 0xdd, 0x7e, 0xb7, 0x13, 0x69, 0xdc, 0x98],
    [0x3c, 0xba, 0x86, 0x62, 0x1e, 0x24, 0x3d, 0x0c, 0x74, 0xde, 0x79, 0x33, 0xf0, 0xe9, 0xc1, 0x40],
    [0xeb, 0x11, 0x19, 0xf1, 0xb1, 0x1f, 0xee, 0x80, 0x5a, 0x27, 0x9f, 0x39, 0xc2, 0x83, 0x7f, 0x0f],
    [0xc8, 0x91, 0x4d, 0x1b, 0x47, 0xf2, 0x15, 0xcb, 0xd4, 0x7c, 0x36, 0xc9, 0x01, 0xd3, 0x88, 0xb5],
    [0x23, 0x14, 0x6a, 0x65, 0xa5, 0x6e, 0x49, 0x4f, 0xd2, 0x17, 0x21, 0x54, 0xca, 0xa0, 0xff, 0x06],
    [0xdf, 0x30, 0x1d, 0x9e, 0xe5, 0xe8, 0xd1, 0xd6, 0x60, 0x38, 0x07, 0xf9, 0xea, 0x7d, 0x51, 0x28],
    [0x45, 0x9a, 0xf4, 0x90, 0xbe, 0xa2, 0x63, 0x5d, 0x8c, 0xcf, 0xa7, 0x71, 0xc3, 0x48, 0x44, 0x4a],
    [0xf6, 0xe1, 0xe4, 0x93, 0x1a, 0x37, 0x1c, 0x7a, 0xa9, 0xa3, 0x10, 0x5f, 0xf8, 0xfc, 0x8b, 0x5e],
    [0x70, 0x2d, 0xda, 0xc7, 0xfe, 0xec, 0x00, 0x2f, 0x61, 0x57, 0x3a, 0x87, 0x9d, 0x9c, 0x66, 0x97],
    [0x31, 0xaa, 0x16, 0xf7, 0x56, 0xb6, 0x73, 0xb9, 0x96, 0x04, 0x12, 0xb0, 0xa6, 0xbd, 0x7b, 0xad],
    [0x6f, 0xb8, 0x0e, 0xa1, 0xef, 0x99, 0x67, 0xe0, 0xc4, 0x41, 0x09, 0x95, 0x5b, 0x34, 0x4e, 0xbb],
    [0xe2, 0x8a, 0x18, 0x42, 0xa8, 0x81, 0xcc, 0x20, 0x0a, 0x6d, 0x94, 0x0d, 0x08, 0x68, 0x46, 0xb2],
    [0xe3, 0x2e, 0xe7, 0x02, 0x59, 0x89, 0x64, 0x22, 0x26, 0x52, 0xc5, 0xed, 0x0b, 0xd7, 0x58, 0x78]]"

definition TABLE_S2_102 :: "bytes" where
  "TABLE_S2_102 = concat [
    [0x89, 0x2b, 0x0d, 0x9f, 0xe0, 0x36, 0x3d, 0x26, 0x8d, 0x6c, 0xaa, 0x31, 0xe8, 0x22, 0xcd, 0x2d],
    [0x92, 0x0e, 0x5f, 0xda, 0xd5, 0x20, 0xc0, 0xaf, 0x95, 0x3a, 0xf4, 0x23, 0xfc, 0x7b, 0x74, 0x02],
    [0x0f, 0x96, 0x91, 0xf6, 0xdd, 0x29, 0x93, 0xf3, 0x83, 0xd9, 0x79, 0x11, 0x57, 0xbb, 0x33, 0x1a],
    [0x5e, 0x76, 0xbd, 0xc9, 0xc3, 0xe3, 0x90, 0x4c, 0x7c, 0x99, 0x78, 0xb5, 0xff, 0xb9, 0xc2, 0x12],
    [0x9c, 0x62, 0xfb, 0xa3, 0xca, 0xb3, 0x71, 0xe6, 0x86, 0x05, 0x44, 0xab, 0x4a, 0x4d, 0x7e, 0x73],
    [0x3c, 0xea, 0x17, 0x54, 0xdf, 0xd1, 0x58, 0xd3, 0x6f, 0x0b, 0xde, 0x01, 0xf8, 0xc6, 0x25, 0x39],
    [0x8b, 0xc4, 0x32, 0x38, 0x10, 0xc5, 0x63, 0x67, 0x7f, 0x08, 0x6d, 0x7a, 0x87, 0xe1, 0x81, 0xac],
    [0xa1, 0x1c, 0xfa, 0xcc, 0xfd, 0x0c, 0x06, 0x07, 0x41, 0x5c, 0xeb, 0xb6, 0x9b, 0xb4, 0x65, 0x77],
    [0xe2, 0xa8, 0xef, 0x45, 0x5a, 0xdb, 0x6b, 0x72, 0x1d, 0xf9, 0xa7, 0x21, 0xa6, 0x97, 0x85, 0xbf],
    [0x04, 0xa2, 0xc1, 0xbc, 0xe4, 0x94, 0x59, 0x18, 0x82, 0x6a, 0x70, 0x8a, 0x75, 0x1b, 0x2a, 0x84],
    [0xad, 0x52, 0x4f, 0xe7, 0x13, 0x2e, 0x9a, 0x48, 0xd6, 0x80, 0x53, 0x0a, 0x8e, 0x50, 0xdc, 0x69],
    [0xba, 0xcf, 0x49, 0x8c, 0x64, 0x9d, 0x51, 0x3b, 0xf1, 0xfe, 0xb8, 0x8f, 0xd2, 0xd4, 0x3e, 0xf5],
    [0xee, 0x42, 0xb7, 0x4b, 0xd7, 0xa9, 0xa0, 0x24, 0x28, 0x98, 0x30, 0xf7, 0x2f, 0xb0, 0xb2, 0x61],
    [0xbe, 0xec, 0x35, 0xc8, 0x16, 0xc7, 0x66, 0xcb, 0x00, 0x3f, 0xe9, 0x56, 0x5b, 0x19, 0x68, 0x43],
    [0xa4, 0x1f, 0x60, 0xf0, 0x37, 0xed, 0xd0, 0x09, 0x34, 0xa5, 0x4e, 0x27, 0x7d, 0xd8, 0x5d, 0x14],
    [0xe5, 0x2c, 0x9e, 0x46, 0x47, 0x03, 0x88, 0xf2, 0x55, 0x40, 0xce, 0x6e, 0x1e, 0x15, 0xae, 0xb1]]"

definition TABLE_S2_103 :: "bytes" where
  "TABLE_S2_103 = concat [
    [0xdb, 0x27, 0xd2, 0x7e, 0xb4, 0x30, 0x39, 0x47, 0x67, 0xa0, 0x08, 0xb8, 0xf1, 0x22, 0x20, 0xbf],
    [0x58, 0xa5, 0x7c, 0x2e, 0x5b, 0xf6, 0x57, 0x86, 0xc6, 0x79, 0xaf, 0x90, 0xd3, 0xf8, 0x89, 0xcb],
    [0x60, 0xf0, 0x8f, 0x34, 0x99, 0x40, 0x7d, 0xa7, 0xb7, 0xde, 0x35, 0xa4, 0x84, 0xcd, 0x48, 0xed],
    [0xd6, 0x0e, 0xbc, 0x75, 0x62, 0x18, 0x93, 0xd7, 0xfe, 0x5e, 0xd0, 0xc5, 0x21, 0x3e, 0x85, 0x8e],
    [0xd5, 0x7f, 0x38, 0x72, 0xe2, 0xfb, 0x4b, 0xca, 0xb1, 0x37, 0x69, 0x8d, 0x2f, 0x15, 0x07, 0x36],
    [0x2c, 0x51, 0x32, 0x94, 0x88, 0xc9, 0x04, 0x74, 0x1a, 0xe0, 0xfa, 0x12, 0x14, 0xba, 0x8b, 0xe5],
    [0x77, 0xdf, 0xc2, 0x3d, 0xd8, 0x0a, 0xbe, 0x83, 0x9a, 0xc3, 0x10, 0x46, 0xf9, 0x4c, 0xc0, 0x1e],
    [0x1c, 0xd9, 0x5f, 0x2a, 0xab, 0xc1, 0x0d, 0xf4, 0x1f, 0x28, 0x6e, 0x61, 0x65, 0xae, 0x44, 0x42],
    [0x33, 0x6b, 0xf2, 0x0c, 0x76, 0xe1, 0x23, 0x5a, 0x3b, 0xd4, 0x95, 0x16, 0xe3, 0xee, 0xdd, 0xda],
    [0xc4, 0x87, 0x7a, 0xac, 0x43, 0xc8, 0x41, 0x4f, 0x91, 0x4e, 0x9b, 0xff, 0xa9, 0xb5, 0x56, 0x68],
    [0xa8, 0xa2, 0x54, 0x1b, 0xf7, 0xf3, 0x55, 0x80, 0xea, 0xfd, 0x98, 0xef, 0x3c, 0x11, 0x71, 0x17],
    [0x5c, 0x6a, 0x8c, 0x31, 0x97, 0x96, 0x9c, 0x6d, 0x26, 0x7b, 0xcc, 0xd1, 0xe7, 0xf5, 0x24, 0x0b],
    [0x0f, 0x9d, 0xbb, 0x19, 0xb6, 0xad, 0xa6, 0x70, 0xa1, 0x3a, 0xfc, 0x1d, 0xbd, 0x5d, 0xb2, 0x78],
    [0x4a, 0xcf, 0x9e, 0x02, 0x3f, 0x50, 0xb0, 0x45, 0xb3, 0x64, 0xaa, 0x05, 0x92, 0xe4, 0xeb, 0x6c],
    [0x66, 0x01, 0x06, 0x9f, 0x63, 0x03, 0xb9, 0x4d, 0x81, 0xe9, 0x49, 0x13, 0x8a, 0xa3, 0x2b, 0xc7],
    [0x59, 0x2d, 0xe6, 0xce, 0xdc, 0x00, 0x73, 0x53, 0x25, 0xe8, 0x09, 0xec, 0x82, 0x52, 0x29, 0x6f]]"

definition TABLE_S2_104 :: "bytes" where
  "TABLE_S2_104 = concat [
    [0x8f, 0x29, 0x91, 0xec, 0xb9, 0xc9, 0x35, 0x74, 0x47, 0xaf, 0xa7, 0x5d, 0x36, 0x58, 0xa9, 0x07],
    [0x85, 0xcf, 0x68, 0xc2, 0xf6, 0x77, 0x5f, 0x46, 0xd4, 0x30, 0x0c, 0x8a, 0xba, 0x8b, 0x92, 0xa8],
    [0xe2, 0x97, 0xa1, 0x64, 0xb0, 0x49, 0x16, 0x7c, 0xd3, 0xdc, 0xa2, 0x95, 0xf9, 0xff, 0xd8, 0x13],
    [0x7f, 0x80, 0xca, 0x62, 0x03, 0x3e, 0x65, 0xb7, 0xad, 0xfb, 0x27, 0x7e, 0x7d, 0xa3, 0x44, 0xf1],
    [0xc1, 0x93, 0xe5, 0x18, 0xea, 0x3b, 0xe6, 0x4b, 0x12, 0x2d, 0x7b, 0xc4, 0x34, 0x76, 0x6e, 0x45],
    [0x6f, 0xc3, 0x66, 0x9a, 0x84, 0xfa, 0x09, 0x8d, 0xb5, 0x05, 0xda, 0x1d, 0x9d, 0x02, 0x4c, 0x9f],
    [0x01, 0xc8, 0x6b, 0xb3, 0x2e, 0x6a, 0xdf, 0xa5, 0x6d, 0x78, 0x43, 0xe3, 0x38, 0x33, 0x9c, 0x83],
    [0x32, 0x89, 0xdd, 0x4d, 0xc0, 0x1a, 0x24, 0xfd, 0x88, 0x19, 0x0a, 0x63, 0xf5, 0x50, 0x39, 0x70],
    [0x23, 0xbf, 0xf7, 0x72, 0x0d, 0xf8, 0x82, 0xed, 0x17, 0xb8, 0x0e, 0xd9, 0x56, 0xd1, 0x2f, 0x59],
    [0x06, 0xa4, 0xb2, 0x20, 0x1b, 0xcd, 0x0b, 0x10, 0x41, 0xa0, 0x1c, 0x87, 0x0f, 0xc5, 0x00, 0xe0],
    [0x5b, 0x73, 0xe4, 0x90, 0xce, 0xee, 0x61, 0xbd, 0xb4, 0x51, 0x98, 0x55, 0x94, 0xd2, 0x3f, 0xef],
    [0xbb, 0x22, 0xdb, 0xbc, 0x04, 0xf0, 0xde, 0xbe, 0xf4, 0xae, 0x3c, 0x54, 0x96, 0x7a, 0x37, 0x1e],
    [0xc7, 0x11, 0x79, 0x3a, 0xfc, 0xf2, 0xfe, 0x75, 0x26, 0x42, 0x2c, 0xf3, 0xeb, 0xd5, 0x14, 0x08],
    [0x4f, 0xb1, 0x8e, 0xd6, 0x9e, 0xe7, 0xcb, 0x5c, 0x28, 0xab, 0x86, 0x69, 0x60, 0x67, 0x5e, 0x53],
    [0x31, 0x8c, 0xe1, 0xd7, 0x21, 0xd0, 0x2a, 0x2b, 0x71, 0x6c, 0x9b, 0xc6, 0x99, 0xb6, 0x5a, 0x48],
    [0xe9, 0xa6, 0x15, 0x1f, 0xe8, 0x3d, 0x4a, 0x4e, 0x25, 0x52, 0x57, 0x40, 0xcc, 0xaa, 0x81, 0xac]]"

definition TABLE_S2_105 :: "bytes" where
  "TABLE_S2_105 = concat [
    [0x55, 0x92, 0x4d, 0xfd, 0xd7, 0x04, 0x4a, 0xd5, 0xd2, 0x2e, 0x8b, 0x27, 0xc5, 0x41, 0xb2, 0xcc],
    [0x8c, 0x33, 0x65, 0x5a, 0x0d, 0x26, 0x3e, 0x7c, 0x50, 0xad, 0xdb, 0x89, 0x03, 0xae, 0x73, 0xa2],
    [0x2b, 0x42, 0x51, 0xc0, 0x38, 0x71, 0x18, 0xbd, 0x05, 0x95, 0xc1, 0x7a, 0xb5, 0x6c, 0x52, 0x88],
    [0xab, 0x0b, 0x30, 0x25, 0xcb, 0xd4, 0x7b, 0x70, 0xfb, 0x23, 0x80, 0x49, 0xed, 0x97, 0x22, 0x66],
    [0xc2, 0x44, 0x78, 0x9c, 0xe0, 0xda, 0xc3, 0xf2, 0x8a, 0x20, 0x87, 0xcd, 0x0e, 0x17, 0x3f, 0xbe],
    [0x15, 0xef, 0xe7, 0x0f, 0x4f, 0xe1, 0x10, 0x7e, 0xa4, 0xd9, 0x61, 0xc7, 0x3c, 0x7d, 0x81, 0xf1],
    [0x36, 0x6f, 0xb3, 0xe5, 0xb9, 0x0c, 0xeb, 0x35, 0x2a, 0x82, 0xc8, 0x37, 0xff, 0x2d, 0x76, 0x4b],
    [0xdd, 0xea, 0x94, 0x9b, 0x5b, 0x90, 0xb7, 0xb1, 0x2c, 0xe9, 0xdf, 0xaa, 0x34, 0x5e, 0x01, 0xf8],
    [0x21, 0xce, 0xe3, 0x60, 0x1b, 0x16, 0x2f, 0x28, 0x9e, 0xc6, 0xf9, 0x07, 0x14, 0x83, 0xaf, 0xd6],
    [0xbb, 0x64, 0x0a, 0x6e, 0x40, 0x5c, 0x9d, 0xa3, 0x72, 0x31, 0x59, 0x8f, 0x3d, 0xb6, 0xba, 0xb4],
    [0x08, 0x1f, 0x1a, 0x6d, 0xe4, 0xc9, 0xe2, 0x84, 0x57, 0x5d, 0xee, 0xa1, 0x06, 0x02, 0x75, 0xa0],
    [0x8e, 0xd3, 0x24, 0x39, 0x00, 0x12, 0xfe, 0xd1, 0x9f, 0xa9, 0xc4, 0x79, 0x63, 0x62, 0x98, 0x69],
    [0xcf, 0x54, 0xe8, 0x09, 0xa8, 0x48, 0x8d, 0x47, 0x68, 0xfa, 0xec, 0x4e, 0x58, 0x43, 0x85, 0x53],
    [0x91, 0x46, 0xf0, 0x5f, 0x11, 0x67, 0x99, 0x1e, 0x3a, 0xbf, 0xf7, 0x6b, 0xa5, 0xca, 0xb0, 0x45],
    [0x1c, 0x74, 0xe6, 0xbc, 0x56, 0x7f, 0x32, 0xde, 0xf4, 0x93, 0x6a, 0xf3, 0xf6, 0x96, 0xb8, 0x4c],
    [0x1d, 0xd0, 0x19, 0xfc, 0xa7, 0x77, 0x9a, 0xdc, 0xd8, 0xac, 0x3b, 0x13, 0xf5, 0x29, 0xa6, 0x86]]"

definition TABLE_S2_106 :: "bytes" where
  "TABLE_S2_106 = concat [
    [0x27, 0x85, 0xa3, 0x31, 0x4e, 0x98, 0x93, 0x88, 0x23, 0xc2, 0x04, 0x9f, 0x46, 0x8c, 0x63, 0x83],
    [0x3c, 0xa0, 0xf1, 0x74, 0x7b, 0x8e, 0x6e, 0x01, 0x3b, 0x94, 0x5a, 0x8d, 0x52, 0xd5, 0xda, 0xac],
    [0xa1, 0x38, 0x3f, 0x58, 0x73, 0x87, 0x3d, 0x5d, 0x2d, 0x77, 0xd7, 0xbf, 0xf9, 0x15, 0x9d, 0xb4],
    [0xf0, 0xd8, 0x13, 0x67, 0x6d, 0x4d, 0x3e, 0xe2, 0xd2, 0x37, 0xd6, 0x1b, 0x51, 0x17, 0x6c, 0xbc],
    [0x32, 0xcc, 0x55, 0x0d, 0x64, 0x1d, 0xdf, 0x48, 0x28, 0xab, 0xea, 0x05, 0xe4, 0xe3, 0xd0, 0xdd],
    [0x92, 0x44, 0xb9, 0xfa, 0x71, 0x7f, 0xf6, 0x7d, 0xc1, 0xa5, 0x70, 0xaf, 0x56, 0x68, 0x8b, 0x97],
    [0x25, 0x6a, 0x9c, 0x96, 0xbe, 0x6b, 0xcd, 0xc9, 0xd1, 0xa6, 0xc3, 0xd4, 0x29, 0x4f, 0x2f, 0x02],
    [0x0f, 0xb2, 0x54, 0x62, 0x53, 0xa2, 0xa8, 0xa9, 0xef, 0xf2, 0x45, 0x18, 0x35, 0x1a, 0xcb, 0xd9],
    [0x4c, 0x06, 0x41, 0xeb, 0xf4, 0x75, 0xc5, 0xdc, 0xb3, 0x57, 0x09, 0x8f, 0x08, 0x39, 0x2b, 0x11],
    [0xaa, 0x0c, 0x6f, 0x12, 0x4a, 0x3a, 0xf7, 0xb6, 0x2c, 0xc4, 0xde, 0x24, 0xdb, 0xb5, 0x84, 0x2a],
    [0x03, 0xfc, 0xe1, 0x49, 0xbd, 0x80, 0x34, 0xe6, 0x78, 0x2e, 0xfd, 0xa4, 0x20, 0xfe, 0x72, 0xc7],
    [0x14, 0x61, 0xe7, 0x22, 0xca, 0x33, 0xff, 0x95, 0x5f, 0x50, 0x16, 0x21, 0x7c, 0x7a, 0x90, 0x5b],
    [0x40, 0xec, 0x19, 0xe5, 0x79, 0x07, 0x0e, 0x8a, 0x86, 0x36, 0x9e, 0x59, 0x81, 0x1e, 0x1c, 0xcf],
    [0x10, 0x42, 0x9b, 0x66, 0xb8, 0x69, 0xc8, 0x65, 0xae, 0x91, 0x47, 0xf8, 0xf5, 0xb7, 0xc6, 0xed],
    [0x0a, 0xb1, 0xce, 0x5e, 0x99, 0x43, 0x7e, 0xa7, 0x9a, 0x0b, 0xe0, 0x89, 0xd3, 0x76, 0xf3, 0xba],
    [0x4b, 0x82, 0x30, 0xe8, 0xe9, 0xad, 0x26, 0x5c, 0xfb, 0xee, 0x60, 0xc0, 0xb0, 0xbb, 0x00, 0x1f]]"

definition TABLE_S2_107 :: "bytes" where
  "TABLE_S2_107 = concat [
    [0xd7, 0x2b, 0xde, 0x72, 0xb8, 0x3c, 0x35, 0x4b, 0x6b, 0xac, 0x04, 0xb4, 0xfd, 0x2e, 0x2c, 0xb3],
    [0x54, 0xa9, 0x70, 0x22, 0x57, 0xfa, 0x5b, 0x8a, 0xca, 0x75, 0xa3, 0x9c, 0xdf, 0xf4, 0x85, 0xc7],
    [0x6c, 0xfc, 0x83, 0x38, 0x95, 0x4c, 0x71, 0xab, 0xbb, 0xd2, 0x39, 0xa8, 0x88, 0xc1, 0x44, 0xe1],
    [0xda, 0x02, 0xb0, 0x79, 0x6e, 0x14, 0x9f, 0xdb, 0xf2, 0x52, 0xdc, 0xc9, 0x2d, 0x32, 0x89, 0x82],
    [0xd9, 0x73, 0x34, 0x7e, 0xee, 0xf7, 0x47, 0xc6, 0xbd, 0x3b, 0x65, 0x81, 0x23, 0x19, 0x0b, 0x3a],
    [0x20, 0x5d, 0x3e, 0x98, 0x84, 0xc5, 0x08, 0x78, 0x16, 0xec, 0xf6, 0x1e, 0x18, 0xb6, 0x87, 0xe9],
    [0x7b, 0xd3, 0xce, 0x31, 0xd4, 0x06, 0xb2, 0x8f, 0x96, 0xcf, 0x1c, 0x4a, 0xf5, 0x40, 0xcc, 0x12],
    [0x10, 0xd5, 0x53, 0x26, 0xa7, 0xcd, 0x01, 0xf8, 0x13, 0x24, 0x62, 0x6d, 0x69, 0xa2, 0x48, 0x4e],
    [0x3f, 0x67, 0xfe, 0x00, 0x7a, 0xed, 0x2f, 0x56, 0x37, 0xd8, 0x99, 0x1a, 0xef, 0xe2, 0xd1, 0xd6],
    [0xc8, 0x8b, 0x76, 0xa0, 0x4f, 0xc4, 0x4d, 0x43, 0x9d, 0x42, 0x97, 0xf3, 0xa5, 0xb9, 0x5a, 0x64],
    [0xa4, 0xae, 0x58, 0x17, 0xfb, 0xff, 0x59, 0x8c, 0xe6, 0xf1, 0x94, 0xe3, 0x30, 0x1d, 0x7d, 0x1b],
    [0x50, 0x66, 0x80, 0x3d, 0x9b, 0x9a, 0x90, 0x61, 0x2a, 0x77, 0xc0, 0xdd, 0xeb, 0xf9, 0x28, 0x07],
    [0x03, 0x91, 0xb7, 0x15, 0xba, 0xa1, 0xaa, 0x7c, 0xad, 0x36, 0xf0, 0x11, 0xb1, 0x51, 0xbe, 0x74],
    [0x46, 0xc3, 0x92, 0x0e, 0x33, 0x5c, 0xbc, 0x49, 0xbf, 0x68, 0xa6, 0x09, 0x9e, 0xe8, 0xe7, 0x60],
    [0x6a, 0x0d, 0x0a, 0x93, 0x6f, 0x0f, 0xb5, 0x41, 0x8d, 0xe5, 0x45, 0x1f, 0x86, 0xaf, 0x27, 0xcb],
    [0x55, 0x21, 0xea, 0xc2, 0xd0, 0x0c, 0x7f, 0x5f, 0x29, 0xe4, 0x05, 0xe0, 0x8e, 0x5e, 0x25, 0x63]]"

definition TABLE_S2_108 :: "bytes" where
  "TABLE_S2_108 = concat [
    [0xcc, 0x6a, 0xd2, 0xaf, 0xfa, 0x8a, 0x76, 0x37, 0x04, 0xec, 0xe4, 0x1e, 0x75, 0x1b, 0xea, 0x44],
    [0xc6, 0x8c, 0x2b, 0x81, 0xb5, 0x34, 0x1c, 0x05, 0x97, 0x73, 0x4f, 0xc9, 0xf9, 0xc8, 0xd1, 0xeb],
    [0xa1, 0xd4, 0xe2, 0x27, 0xf3, 0x0a, 0x55, 0x3f, 0x90, 0x9f, 0xe1, 0xd6, 0xba, 0xbc, 0x9b, 0x50],
    [0x3c, 0xc3, 0x89, 0x21, 0x40, 0x7d, 0x26, 0xf4, 0xee, 0xb8, 0x64, 0x3d, 0x3e, 0xe0, 0x07, 0xb2],
    [0x82, 0xd0, 0xa6, 0x5b, 0xa9, 0x78, 0xa5, 0x08, 0x51, 0x6e, 0x38, 0x87, 0x77, 0x35, 0x2d, 0x06],
    [0x2c, 0x80, 0x25, 0xd9, 0xc7, 0xb9, 0x4a, 0xce, 0xf6, 0x46, 0x99, 0x5e, 0xde, 0x41, 0x0f, 0xdc],
    [0x42, 0x8b, 0x28, 0xf0, 0x6d, 0x29, 0x9c, 0xe6, 0x2e, 0x3b, 0x00, 0xa0, 0x7b, 0x70, 0xdf, 0xc0],
    [0x71, 0xca, 0x9e, 0x0e, 0x83, 0x59, 0x67, 0xbe, 0xcb, 0x5a, 0x49, 0x20, 0xb6, 0x13, 0x7a, 0x33],
    [0x60, 0xfc, 0xb4, 0x31, 0x4e, 0xbb, 0xc1, 0xae, 0x54, 0xfb, 0x4d, 0x9a, 0x15, 0x92, 0x6c, 0x1a],
    [0x45, 0xe7, 0xf1, 0x63, 0x58, 0x8e, 0x48, 0x53, 0x02, 0xe3, 0x5f, 0xc4, 0x4c, 0x86, 0x43, 0xa3],
    [0x18, 0x30, 0xa7, 0xd3, 0x8d, 0xad, 0x22, 0xfe, 0xf7, 0x12, 0xdb, 0x16, 0xd7, 0x91, 0x7c, 0xac],
    [0xf8, 0x61, 0x98, 0xff, 0x47, 0xb3, 0x9d, 0xfd, 0xb7, 0xed, 0x7f, 0x17, 0xd5, 0x39, 0x74, 0x5d],
    [0x84, 0x52, 0x3a, 0x79, 0xbf, 0xb1, 0xbd, 0x36, 0x65, 0x01, 0x6f, 0xb0, 0xa8, 0x96, 0x57, 0x4b],
    [0x0c, 0xf2, 0xcd, 0x95, 0xdd, 0xa4, 0x88, 0x1f, 0x6b, 0xe8, 0xc5, 0x2a, 0x23, 0x24, 0x1d, 0x10],
    [0x72, 0xcf, 0xa2, 0x94, 0x62, 0x93, 0x69, 0x68, 0x32, 0x2f, 0xd8, 0x85, 0xda, 0xf5, 0x19, 0x0b],
    [0xaa, 0xe5, 0x56, 0x5c, 0xab, 0x7e, 0x09, 0x0d, 0x66, 0x11, 0x14, 0x03, 0x8f, 0xe9, 0xc2, 0xef]]"

definition TABLE_S2_109 :: "bytes" where
  "TABLE_S2_109 = concat [
    [0xb5, 0x72, 0xad, 0x1d, 0x37, 0xe4, 0xaa, 0x35, 0x32, 0xce, 0x6b, 0xc7, 0x25, 0xa1, 0x52, 0x2c],
    [0x6c, 0xd3, 0x85, 0xba, 0xed, 0xc6, 0xde, 0x9c, 0xb0, 0x4d, 0x3b, 0x69, 0xe3, 0x4e, 0x93, 0x42],
    [0xcb, 0xa2, 0xb1, 0x20, 0xd8, 0x91, 0xf8, 0x5d, 0xe5, 0x75, 0x21, 0x9a, 0x55, 0x8c, 0xb2, 0x68],
    [0x4b, 0xeb, 0xd0, 0xc5, 0x2b, 0x34, 0x9b, 0x90, 0x1b, 0xc3, 0x60, 0xa9, 0x0d, 0x77, 0xc2, 0x86],
    [0x22, 0xa4, 0x98, 0x7c, 0x00, 0x3a, 0x23, 0x12, 0x6a, 0xc0, 0x67, 0x2d, 0xee, 0xf7, 0xdf, 0x5e],
    [0xf5, 0x0f, 0x07, 0xef, 0xaf, 0x01, 0xf0, 0x9e, 0x44, 0x39, 0x81, 0x27, 0xdc, 0x9d, 0x61, 0x11],
    [0xd6, 0x8f, 0x53, 0x05, 0x59, 0xec, 0x0b, 0xd5, 0xca, 0x62, 0x28, 0xd7, 0x1f, 0xcd, 0x96, 0xab],
    [0x3d, 0x0a, 0x74, 0x7b, 0xbb, 0x70, 0x57, 0x51, 0xcc, 0x09, 0x3f, 0x4a, 0xd4, 0xbe, 0xe1, 0x18],
    [0xc1, 0x2e, 0x03, 0x80, 0xfb, 0xf6, 0xcf, 0xc8, 0x7e, 0x26, 0x19, 0xe7, 0xf4, 0x63, 0x4f, 0x36],
    [0x5b, 0x84, 0xea, 0x8e, 0xa0, 0xbc, 0x7d, 0x43, 0x92, 0xd1, 0xb9, 0x6f, 0xdd, 0x56, 0x5a, 0x54],
    [0xe8, 0xff, 0xfa, 0x8d, 0x04, 0x29, 0x02, 0x64, 0xb7, 0xbd, 0x0e, 0x41, 0xe6, 0xe2, 0x95, 0x40],
    [0x6e, 0x33, 0xc4, 0xd9, 0xe0, 0xf2, 0x1e, 0x31, 0x7f, 0x49, 0x24, 0x99, 0x83, 0x82, 0x78, 0x89],
    [0x2f, 0xb4, 0x08, 0xe9, 0x48, 0xa8, 0x6d, 0xa7, 0x88, 0x1a, 0x0c, 0xae, 0xb8, 0xa3, 0x65, 0xb3],
    [0x71, 0xa6, 0x10, 0xbf, 0xf1, 0x87, 0x79, 0xfe, 0xda, 0x5f, 0x17, 0x8b, 0x45, 0x2a, 0x50, 0xa5],
    [0xfc, 0x94, 0x06, 0x5c, 0xb6, 0x9f, 0xd2, 0x3e, 0x14, 0x73, 0x8a, 0x13, 0x16, 0x76, 0x58, 0xac],
    [0xfd, 0x30, 0xf9, 0x1c, 0x47, 0x97, 0x7a, 0x3c, 0x38, 0x4c, 0xdb, 0xf3, 0x15, 0xc9, 0x46, 0x66]]"

definition TABLE_S2_110 :: "bytes" where
  "TABLE_S2_110 = concat [
    [0x26, 0x84, 0xa2, 0x30, 0x4f, 0x99, 0x92, 0x89, 0x22, 0xc3, 0x05, 0x9e, 0x47, 0x8d, 0x62, 0x82],
    [0x3d, 0xa1, 0xf0, 0x75, 0x7a, 0x8f, 0x6f, 0x00, 0x3a, 0x95, 0x5b, 0x8c, 0x53, 0xd4, 0xdb, 0xad],
    [0xa0, 0x39, 0x3e, 0x59, 0x72, 0x86, 0x3c, 0x5c, 0x2c, 0x76, 0xd6, 0xbe, 0xf8, 0x14, 0x9c, 0xb5],
    [0xf1, 0xd9, 0x12, 0x66, 0x6c, 0x4c, 0x3f, 0xe3, 0xd3, 0x36, 0xd7, 0x1a, 0x50, 0x16, 0x6d, 0xbd],
    [0x33, 0xcd, 0x54, 0x0c, 0x65, 0x1c, 0xde, 0x49, 0x29, 0xaa, 0xeb, 0x04, 0xe5, 0xe2, 0xd1, 0xdc],
    [0x93, 0x45, 0xb8, 0xfb, 0x70, 0x7e, 0xf7, 0x7c, 0xc0, 0xa4, 0x71, 0xae, 0x57, 0x69, 0x8a, 0x96],
    [0x24, 0x6b, 0x9d, 0x97, 0xbf, 0x6a, 0xcc, 0xc8, 0xd0, 0xa7, 0xc2, 0xd5, 0x28, 0x4e, 0x2e, 0x03],
    [0x0e, 0xb3, 0x55, 0x63, 0x52, 0xa3, 0xa9, 0xa8, 0xee, 0xf3, 0x44, 0x19, 0x34, 0x1b, 0xca, 0xd8],
    [0x4d, 0x07, 0x40, 0xea, 0xf5, 0x74, 0xc4, 0xdd, 0xb2, 0x56, 0x08, 0x8e, 0x09, 0x38, 0x2a, 0x10],
    [0xab, 0x0d, 0x6e, 0x13, 0x4b, 0x3b, 0xf6, 0xb7, 0x2d, 0xc5, 0xdf, 0x25, 0xda, 0xb4, 0x85, 0x2b],
    [0x02, 0xfd, 0xe0, 0x48, 0xbc, 0x81, 0x35, 0xe7, 0x79, 0x2f, 0xfc, 0xa5, 0x21, 0xff, 0x73, 0xc6],
    [0x15, 0x60, 0xe6, 0x23, 0xcb, 0x32, 0xfe, 0x94, 0x5e, 0x51, 0x17, 0x20, 0x7d, 0x7b, 0x91, 0x5a],
    [0x41, 0xed, 0x18, 0xe4, 0x78, 0x06, 0x0f, 0x8b, 0x87, 0x37, 0x9f, 0x58, 0x80, 0x1f, 0x1d, 0xce],
    [0x11, 0x43, 0x9a, 0x67, 0xb9, 0x68, 0xc9, 0x64, 0xaf, 0x90, 0x46, 0xf9, 0xf4, 0xb6, 0xc7, 0xec],
    [0x0b, 0xb0, 0xcf, 0x5f, 0x98, 0x42, 0x7f, 0xa6, 0x9b, 0x0a, 0xe1, 0x88, 0xd2, 0x77, 0xf2, 0xbb],
    [0x4a, 0x83, 0x31, 0xe9, 0xe8, 0xac, 0x27, 0x5d, 0xfa, 0xef, 0x61, 0xc1, 0xb1, 0xba, 0x01, 0x1e]]"

definition TABLE_S2_111 :: "bytes" where
  "TABLE_S2_111 = concat [
    [0x99, 0x65, 0x90, 0x3c, 0xf6, 0x72, 0x7b, 0x05, 0x25, 0xe2, 0x4a, 0xfa, 0xb3, 0x60, 0x62, 0xfd],
    [0x1a, 0xe7, 0x3e, 0x6c, 0x19, 0xb4, 0x15, 0xc4, 0x84, 0x3b, 0xed, 0xd2, 0x91, 0xba, 0xcb, 0x89],
    [0x22, 0xb2, 0xcd, 0x76, 0xdb, 0x02, 0x3f, 0xe5, 0xf5, 0x9c, 0x77, 0xe6, 0xc6, 0x8f, 0x0a, 0xaf],
    [0x94, 0x4c, 0xfe, 0x37, 0x20, 0x5a, 0xd1, 0x95, 0xbc, 0x1c, 0x92, 0x87, 0x63, 0x7c, 0xc7, 0xcc],
    [0x97, 0x3d, 0x7a, 0x30, 0xa0, 0xb9, 0x09, 0x88, 0xf3, 0x75, 0x2b, 0xcf, 0x6d, 0x57, 0x45, 0x74],
    [0x6e, 0x13, 0x70, 0xd6, 0xca, 0x8b, 0x46, 0x36, 0x58, 0xa2, 0xb8, 0x50, 0x56, 0xf8, 0xc9, 0xa7],
    [0x35, 0x9d, 0x80, 0x7f, 0x9a, 0x48, 0xfc, 0xc1, 0xd8, 0x81, 0x52, 0x04, 0xbb, 0x0e, 0x82, 0x5c],
    [0x5e, 0x9b, 0x1d, 0x68, 0xe9, 0x83, 0x4f, 0xb6, 0x5d, 0x6a, 0x2c, 0x23, 0x27, 0xec, 0x06, 0x00],
    [0x71, 0x29, 0xb0, 0x4e, 0x34, 0xa3, 0x61, 0x18, 0x79, 0x96, 0xd7, 0x54, 0xa1, 0xac, 0x9f, 0x98],
    [0x86, 0xc5, 0x38, 0xee, 0x01, 0x8a, 0x03, 0x0d, 0xd3, 0x0c, 0xd9, 0xbd, 0xeb, 0xf7, 0x14, 0x2a],
    [0xea, 0xe0, 0x16, 0x59, 0xb5, 0xb1, 0x17, 0xc2, 0xa8, 0xbf, 0xda, 0xad, 0x7e, 0x53, 0x33, 0x55],
    [0x1e, 0x28, 0xce, 0x73, 0xd5, 0xd4, 0xde, 0x2f, 0x64, 0x39, 0x8e, 0x93, 0xa5, 0xb7, 0x66, 0x49],
    [0x4d, 0xdf, 0xf9, 0x5b, 0xf4, 0xef, 0xe4, 0x32, 0xe3, 0x78, 0xbe, 0x5f, 0xff, 0x1f, 0xf0, 0x3a],
    [0x08, 0x8d, 0xdc, 0x40, 0x7d, 0x12, 0xf2, 0x07, 0xf1, 0x26, 0xe8, 0x47, 0xd0, 0xa6, 0xa9, 0x2e],
    [0x24, 0x43, 0x44, 0xdd, 0x21, 0x41, 0xfb, 0x0f, 0xc3, 0xab, 0x0b, 0x51, 0xc8, 0xe1, 0x69, 0x85],
    [0x1b, 0x6f, 0xa4, 0x8c, 0x9e, 0x42, 0x31, 0x11, 0x67, 0xaa, 0x4b, 0xae, 0xc0, 0x10, 0x6b, 0x2d]]"

definition TABLE_S2_112 :: "bytes" where
  "TABLE_S2_112 = concat [
    [0xca, 0x6c, 0xd4, 0xa9, 0xfc, 0x8c, 0x70, 0x31, 0x02, 0xea, 0xe2, 0x18, 0x73, 0x1d, 0xec, 0x42],
    [0xc0, 0x8a, 0x2d, 0x87, 0xb3, 0x32, 0x1a, 0x03, 0x91, 0x75, 0x49, 0xcf, 0xff, 0xce, 0xd7, 0xed],
    [0xa7, 0xd2, 0xe4, 0x21, 0xf5, 0x0c, 0x53, 0x39, 0x96, 0x99, 0xe7, 0xd0, 0xbc, 0xba, 0x9d, 0x56],
    [0x3a, 0xc5, 0x8f, 0x27, 0x46, 0x7b, 0x20, 0xf2, 0xe8, 0xbe, 0x62, 0x3b, 0x38, 0xe6, 0x01, 0xb4],
    [0x84, 0xd6, 0xa0, 0x5d, 0xaf, 0x7e, 0xa3, 0x0e, 0x57, 0x68, 0x3e, 0x81, 0x71, 0x33, 0x2b, 0x00],
    [0x2a, 0x86, 0x23, 0xdf, 0xc1, 0xbf, 0x4c, 0xc8, 0xf0, 0x40, 0x9f, 0x58, 0xd8, 0x47, 0x09, 0xda],
    [0x44, 0x8d, 0x2e, 0xf6, 0x6b, 0x2f, 0x9a, 0xe0, 0x28, 0x3d, 0x06, 0xa6, 0x7d, 0x76, 0xd9, 0xc6],
    [0x77, 0xcc, 0x98, 0x08, 0x85, 0x5f, 0x61, 0xb8, 0xcd, 0x5c, 0x4f, 0x26, 0xb0, 0x15, 0x7c, 0x35],
    [0x66, 0xfa, 0xb2, 0x37, 0x48, 0xbd, 0xc7, 0xa8, 0x52, 0xfd, 0x4b, 0x9c, 0x13, 0x94, 0x6a, 0x1c],
    [0x43, 0xe1, 0xf7, 0x65, 0x5e, 0x88, 0x4e, 0x55, 0x04, 0xe5, 0x59, 0xc2, 0x4a, 0x80, 0x45, 0xa5],
    [0x1e, 0x36, 0xa1, 0xd5, 0x8b, 0xab, 0x24, 0xf8, 0xf1, 0x14, 0xdd, 0x10, 0xd1, 0x97, 0x7a, 0xaa],
    [0xfe, 0x67, 0x9e, 0xf9, 0x41, 0xb5, 0x9b, 0xfb, 0xb1, 0xeb, 0x79, 0x11, 0xd3, 0x3f, 0x72, 0x5b],
    [0x82, 0x54, 0x3c, 0x7f, 0xb9, 0xb7, 0xbb, 0x30, 0x63, 0x07, 0x69, 0xb6, 0xae, 0x90, 0x51, 0x4d],
    [0x0a, 0xf4, 0xcb, 0x93, 0xdb, 0xa2, 0x8e, 0x19, 0x6d, 0xee, 0xc3, 0x2c, 0x25, 0x22, 0x1b, 0x16],
    [0x74, 0xc9, 0xa4, 0x92, 0x64, 0x95, 0x6f, 0x6e, 0x34, 0x29, 0xde, 0x83, 0xdc, 0xf3, 0x1f, 0x0d],
    [0xac, 0xe3, 0x50, 0x5a, 0xad, 0x78, 0x0f, 0x0b, 0x60, 0x17, 0x12, 0x05, 0x89, 0xef, 0xc4, 0xe9]]"

definition TABLE_S2_113 :: "bytes" where
  "TABLE_S2_113 = concat [
    [0x9f, 0x58, 0x87, 0x37, 0x1d, 0xce, 0x80, 0x1f, 0x18, 0xe4, 0x41, 0xed, 0x0f, 0x8b, 0x78, 0x06],
    [0x46, 0xf9, 0xaf, 0x90, 0xc7, 0xec, 0xf4, 0xb6, 0x9a, 0x67, 0x11, 0x43, 0xc9, 0x64, 0xb9, 0x68],
    [0xe1, 0x88, 0x9b, 0x0a, 0xf2, 0xbb, 0xd2, 0x77, 0xcf, 0x5f, 0x0b, 0xb0, 0x7f, 0xa6, 0x98, 0x42],
    [0x61, 0xc1, 0xfa, 0xef, 0x01, 0x1e, 0xb1, 0xba, 0x31, 0xe9, 0x4a, 0x83, 0x27, 0x5d, 0xe8, 0xac],
    [0x08, 0x8e, 0xb2, 0x56, 0x2a, 0x10, 0x09, 0x38, 0x40, 0xea, 0x4d, 0x07, 0xc4, 0xdd, 0xf5, 0x74],
    [0xdf, 0x25, 0x2d, 0xc5, 0x85, 0x2b, 0xda, 0xb4, 0x6e, 0x13, 0xab, 0x0d, 0xf6, 0xb7, 0x4b, 0x3b],
    [0xfc, 0xa5, 0x79, 0x2f, 0x73, 0xc6, 0x21, 0xff, 0xe0, 0x48, 0x02, 0xfd, 0x35, 0xe7, 0xbc, 0x81],
    [0x17, 0x20, 0x5e, 0x51, 0x91, 0x5a, 0x7d, 0x7b, 0xe6, 0x23, 0x15, 0x60, 0xfe, 0x94, 0xcb, 0x32],
    [0xeb, 0x04, 0x29, 0xaa, 0xd1, 0xdc, 0xe5, 0xe2, 0x54, 0x0c, 0x33, 0xcd, 0xde, 0x49, 0x65, 0x1c],
    [0x71, 0xae, 0xc0, 0xa4, 0x8a, 0x96, 0x57, 0x69, 0xb8, 0xfb, 0x93, 0x45, 0xf7, 0x7c, 0x70, 0x7e],
    [0xc2, 0xd5, 0xd0, 0xa7, 0x2e, 0x03, 0x28, 0x4e, 0x9d, 0x97, 0x24, 0x6b, 0xcc, 0xc8, 0xbf, 0x6a],
    [0x44, 0x19, 0xee, 0xf3, 0xca, 0xd8, 0x34, 0x1b, 0x55, 0x63, 0x0e, 0xb3, 0xa9, 0xa8, 0x52, 0xa3],
    [0x05, 0x9e, 0x22, 0xc3, 0x62, 0x82, 0x47, 0x8d, 0xa2, 0x30, 0x26, 0x84, 0x92, 0x89, 0x4f, 0x99],
    [0x5b, 0x8c, 0x3a, 0x95, 0xdb, 0xad, 0x53, 0xd4, 0xf0, 0x75, 0x3d, 0xa1, 0x6f, 0x00, 0x7a, 0x8f],
    [0xd6, 0xbe, 0x2c, 0x76, 0x9c, 0xb5, 0xf8, 0x14, 0x3e, 0x59, 0xa0, 0x39, 0x3c, 0x5c, 0x72, 0x86],
    [0xd7, 0x1a, 0xd3, 0x36, 0x6d, 0xbd, 0x50, 0x16, 0x12, 0x66, 0xf1, 0xd9, 0x3f, 0xe3, 0x6c, 0x4c]]"

definition TABLE_S2_114 :: "bytes" where
  "TABLE_S2_114 = concat [
    [0x9f, 0x3d, 0x1b, 0x89, 0xf6, 0x20, 0x2b, 0x30, 0x9b, 0x7a, 0xbc, 0x27, 0xfe, 0x34, 0xdb, 0x3b],
    [0x84, 0x18, 0x49, 0xcc, 0xc3, 0x36, 0xd6, 0xb9, 0x83, 0x2c, 0xe2, 0x35, 0xea, 0x6d, 0x62, 0x14],
    [0x19, 0x80, 0x87, 0xe0, 0xcb, 0x3f, 0x85, 0xe5, 0x95, 0xcf, 0x6f, 0x07, 0x41, 0xad, 0x25, 0x0c],
    [0x48, 0x60, 0xab, 0xdf, 0xd5, 0xf5, 0x86, 0x5a, 0x6a, 0x8f, 0x6e, 0xa3, 0xe9, 0xaf, 0xd4, 0x04],
    [0x8a, 0x74, 0xed, 0xb5, 0xdc, 0xa5, 0x67, 0xf0, 0x90, 0x13, 0x52, 0xbd, 0x5c, 0x5b, 0x68, 0x65],
    [0x2a, 0xfc, 0x01, 0x42, 0xc9, 0xc7, 0x4e, 0xc5, 0x79, 0x1d, 0xc8, 0x17, 0xee, 0xd0, 0x33, 0x2f],
    [0x9d, 0xd2, 0x24, 0x2e, 0x06, 0xd3, 0x75, 0x71, 0x69, 0x1e, 0x7b, 0x6c, 0x91, 0xf7, 0x97, 0xba],
    [0xb7, 0x0a, 0xec, 0xda, 0xeb, 0x1a, 0x10, 0x11, 0x57, 0x4a, 0xfd, 0xa0, 0x8d, 0xa2, 0x73, 0x61],
    [0xf4, 0xbe, 0xf9, 0x53, 0x4c, 0xcd, 0x7d, 0x64, 0x0b, 0xef, 0xb1, 0x37, 0xb0, 0x81, 0x93, 0xa9],
    [0x12, 0xb4, 0xd7, 0xaa, 0xf2, 0x82, 0x4f, 0x0e, 0x94, 0x7c, 0x66, 0x9c, 0x63, 0x0d, 0x3c, 0x92],
    [0xbb, 0x44, 0x59, 0xf1, 0x05, 0x38, 0x8c, 0x5e, 0xc0, 0x96, 0x45, 0x1c, 0x98, 0x46, 0xca, 0x7f],
    [0xac, 0xd9, 0x5f, 0x9a, 0x72, 0x8b, 0x47, 0x2d, 0xe7, 0xe8, 0xae, 0x99, 0xc4, 0xc2, 0x28, 0xe3],
    [0xf8, 0x54, 0xa1, 0x5d, 0xc1, 0xbf, 0xb6, 0x32, 0x3e, 0x8e, 0x26, 0xe1, 0x39, 0xa6, 0xa4, 0x77],
    [0xa8, 0xfa, 0x23, 0xde, 0x00, 0xd1, 0x70, 0xdd, 0x16, 0x29, 0xff, 0x40, 0x4d, 0x0f, 0x7e, 0x55],
    [0xb2, 0x09, 0x76, 0xe6, 0x21, 0xfb, 0xc6, 0x1f, 0x22, 0xb3, 0x58, 0x31, 0x6b, 0xce, 0x4b, 0x02],
    [0xf3, 0x3a, 0x88, 0x50, 0x51, 0x15, 0x9e, 0xe4, 0x43, 0x56, 0xd8, 0x78, 0x08, 0x03, 0xb8, 0xa7]]"

definition TABLE_S2_115 :: "bytes" where
  "TABLE_S2_115 = concat [
    [0xe7, 0x1b, 0xee, 0x42, 0x88, 0x0c, 0x05, 0x7b, 0x5b, 0x9c, 0x34, 0x84, 0xcd, 0x1e, 0x1c, 0x83],
    [0x64, 0x99, 0x40, 0x12, 0x67, 0xca, 0x6b, 0xba, 0xfa, 0x45, 0x93, 0xac, 0xef, 0xc4, 0xb5, 0xf7],
    [0x5c, 0xcc, 0xb3, 0x08, 0xa5, 0x7c, 0x41, 0x9b, 0x8b, 0xe2, 0x09, 0x98, 0xb8, 0xf1, 0x74, 0xd1],
    [0xea, 0x32, 0x80, 0x49, 0x5e, 0x24, 0xaf, 0xeb, 0xc2, 0x62, 0xec, 0xf9, 0x1d, 0x02, 0xb9, 0xb2],
    [0xe9, 0x43, 0x04, 0x4e, 0xde, 0xc7, 0x77, 0xf6, 0x8d, 0x0b, 0x55, 0xb1, 0x13, 0x29, 0x3b, 0x0a],
    [0x10, 0x6d, 0x0e, 0xa8, 0xb4, 0xf5, 0x38, 0x48, 0x26, 0xdc, 0xc6, 0x2e, 0x28, 0x86, 0xb7, 0xd9],
    [0x4b, 0xe3, 0xfe, 0x01, 0xe4, 0x36, 0x82, 0xbf, 0xa6, 0xff, 0x2c, 0x7a, 0xc5, 0x70, 0xfc, 0x22],
    [0x20, 0xe5, 0x63, 0x16, 0x97, 0xfd, 0x31, 0xc8, 0x23, 0x14, 0x52, 0x5d, 0x59, 0x92, 0x78, 0x7e],
    [0x0f, 0x57, 0xce, 0x30, 0x4a, 0xdd, 0x1f, 0x66, 0x07, 0xe8, 0xa9, 0x2a, 0xdf, 0xd2, 0xe1, 0xe6],
    [0xf8, 0xbb, 0x46, 0x90, 0x7f, 0xf4, 0x7d, 0x73, 0xad, 0x72, 0xa7, 0xc3, 0x95, 0x89, 0x6a, 0x54],
    [0x94, 0x9e, 0x68, 0x27, 0xcb, 0xcf, 0x69, 0xbc, 0xd6, 0xc1, 0xa4, 0xd3, 0x00, 0x2d, 0x4d, 0x2b],
    [0x60, 0x56, 0xb0, 0x0d, 0xab, 0xaa, 0xa0, 0x51, 0x1a, 0x47, 0xf0, 0xed, 0xdb, 0xc9, 0x18, 0x37],
    [0x33, 0xa1, 0x87, 0x25, 0x8a, 0x91, 0x9a, 0x4c, 0x9d, 0x06, 0xc0, 0x21, 0x81, 0x61, 0x8e, 0x44],
    [0x76, 0xf3, 0xa2, 0x3e, 0x03, 0x6c, 0x8c, 0x79, 0x8f, 0x58, 0x96, 0x39, 0xae, 0xd8, 0xd7, 0x50],
    [0x5a, 0x3d, 0x3a, 0xa3, 0x5f, 0x3f, 0x85, 0x71, 0xbd, 0xd5, 0x75, 0x2f, 0xb6, 0x9f, 0x17, 0xfb],
    [0x65, 0x11, 0xda, 0xf2, 0xe0, 0x3c, 0x4f, 0x6f, 0x19, 0xd4, 0x35, 0xd0, 0xbe, 0x6e, 0x15, 0x53]]"

definition TABLE_S2_116 :: "bytes" where
  "TABLE_S2_116 = concat [
    [0xa7, 0x01, 0xb9, 0xc4, 0x91, 0xe1, 0x1d, 0x5c, 0x6f, 0x87, 0x8f, 0x75, 0x1e, 0x70, 0x81, 0x2f],
    [0xad, 0xe7, 0x40, 0xea, 0xde, 0x5f, 0x77, 0x6e, 0xfc, 0x18, 0x24, 0xa2, 0x92, 0xa3, 0xba, 0x80],
    [0xca, 0xbf, 0x89, 0x4c, 0x98, 0x61, 0x3e, 0x54, 0xfb, 0xf4, 0x8a, 0xbd, 0xd1, 0xd7, 0xf0, 0x3b],
    [0x57, 0xa8, 0xe2, 0x4a, 0x2b, 0x16, 0x4d, 0x9f, 0x85, 0xd3, 0x0f, 0x56, 0x55, 0x8b, 0x6c, 0xd9],
    [0xe9, 0xbb, 0xcd, 0x30, 0xc2, 0x13, 0xce, 0x63, 0x3a, 0x05, 0x53, 0xec, 0x1c, 0x5e, 0x46, 0x6d],
    [0x47, 0xeb, 0x4e, 0xb2, 0xac, 0xd2, 0x21, 0xa5, 0x9d, 0x2d, 0xf2, 0x35, 0xb5, 0x2a, 0x64, 0xb7],
    [0x29, 0xe0, 0x43, 0x9b, 0x06, 0x42, 0xf7, 0x8d, 0x45, 0x50, 0x6b, 0xcb, 0x10, 0x1b, 0xb4, 0xab],
    [0x1a, 0xa1, 0xf5, 0x65, 0xe8, 0x32, 0x0c, 0xd5, 0xa0, 0x31, 0x22, 0x4b, 0xdd, 0x78, 0x11, 0x58],
    [0x0b, 0x97, 0xdf, 0x5a, 0x25, 0xd0, 0xaa, 0xc5, 0x3f, 0x90, 0x26, 0xf1, 0x7e, 0xf9, 0x07, 0x71],
    [0x2e, 0x8c, 0x9a, 0x08, 0x33, 0xe5, 0x23, 0x38, 0x69, 0x88, 0x34, 0xaf, 0x27, 0xed, 0x28, 0xc8],
    [0x73, 0x5b, 0xcc, 0xb8, 0xe6, 0xc6, 0x49, 0x95, 0x9c, 0x79, 0xb0, 0x7d, 0xbc, 0xfa, 0x17, 0xc7],
    [0x93, 0x0a, 0xf3, 0x94, 0x2c, 0xd8, 0xf6, 0x96, 0xdc, 0x86, 0x14, 0x7c, 0xbe, 0x52, 0x1f, 0x36],
    [0xef, 0x39, 0x51, 0x12, 0xd4, 0xda, 0xd6, 0x5d, 0x0e, 0x6a, 0x04, 0xdb, 0xc3, 0xfd, 0x3c, 0x20],
    [0x67, 0x99, 0xa6, 0xfe, 0xb6, 0xcf, 0xe3, 0x74, 0x00, 0x83, 0xae, 0x41, 0x48, 0x4f, 0x76, 0x7b],
    [0x19, 0xa4, 0xc9, 0xff, 0x09, 0xf8, 0x02, 0x03, 0x59, 0x44, 0xb3, 0xee, 0xb1, 0x9e, 0x72, 0x60],
    [0xc1, 0x8e, 0x3d, 0x37, 0xc0, 0x15, 0x62, 0x66, 0x0d, 0x7a, 0x7f, 0x68, 0xe4, 0x82, 0xa9, 0x84]]"

definition TABLE_S2_117 :: "bytes" where
  "TABLE_S2_117 = concat [
    [0x0b, 0xcc, 0x13, 0xa3, 0x89, 0x5a, 0x14, 0x8b, 0x8c, 0x70, 0xd5, 0x79, 0x9b, 0x1f, 0xec, 0x92],
    [0xd2, 0x6d, 0x3b, 0x04, 0x53, 0x78, 0x60, 0x22, 0x0e, 0xf3, 0x85, 0xd7, 0x5d, 0xf0, 0x2d, 0xfc],
    [0x75, 0x1c, 0x0f, 0x9e, 0x66, 0x2f, 0x46, 0xe3, 0x5b, 0xcb, 0x9f, 0x24, 0xeb, 0x32, 0x0c, 0xd6],
    [0xf5, 0x55, 0x6e, 0x7b, 0x95, 0x8a, 0x25, 0x2e, 0xa5, 0x7d, 0xde, 0x17, 0xb3, 0xc9, 0x7c, 0x38],
    [0x9c, 0x1a, 0x26, 0xc2, 0xbe, 0x84, 0x9d, 0xac, 0xd4, 0x7e, 0xd9, 0x93, 0x50, 0x49, 0x61, 0xe0],
    [0x4b, 0xb1, 0xb9, 0x51, 0x11, 0xbf, 0x4e, 0x20, 0xfa, 0x87, 0x3f, 0x99, 0x62, 0x23, 0xdf, 0xaf],
    [0x68, 0x31, 0xed, 0xbb, 0xe7, 0x52, 0xb5, 0x6b, 0x74, 0xdc, 0x96, 0x69, 0xa1, 0x73, 0x28, 0x15],
    [0x83, 0xb4, 0xca, 0xc5, 0x05, 0xce, 0xe9, 0xef, 0x72, 0xb7, 0x81, 0xf4, 0x6a, 0x00, 0x5f, 0xa6],
    [0x7f, 0x90, 0xbd, 0x3e, 0x45, 0x48, 0x71, 0x76, 0xc0, 0x98, 0xa7, 0x59, 0x4a, 0xdd, 0xf1, 0x88],
    [0xe5, 0x3a, 0x54, 0x30, 0x1e, 0x02, 0xc3, 0xfd, 0x2c, 0x6f, 0x07, 0xd1, 0x63, 0xe8, 0xe4, 0xea],
    [0x56, 0x41, 0x44, 0x33, 0xba, 0x97, 0xbc, 0xda, 0x09, 0x03, 0xb0, 0xff, 0x58, 0x5c, 0x2b, 0xfe],
    [0xd0, 0x8d, 0x7a, 0x67, 0x5e, 0x4c, 0xa0, 0x8f, 0xc1, 0xf7, 0x9a, 0x27, 0x3d, 0x3c, 0xc6, 0x37],
    [0x91, 0x0a, 0xb6, 0x57, 0xf6, 0x16, 0xd3, 0x19, 0x36, 0xa4, 0xb2, 0x10, 0x06, 0x1d, 0xdb, 0x0d],
    [0xcf, 0x18, 0xae, 0x01, 0x4f, 0x39, 0xc7, 0x40, 0x64, 0xe1, 0xa9, 0x35, 0xfb, 0x94, 0xee, 0x1b],
    [0x42, 0x2a, 0xb8, 0xe2, 0x08, 0x21, 0x6c, 0x80, 0xaa, 0xcd, 0x34, 0xad, 0xa8, 0xc8, 0xe6, 0x12],
    [0x43, 0x8e, 0x47, 0xa2, 0xf9, 0x29, 0xc4, 0x82, 0x86, 0xf2, 0x65, 0x4d, 0xab, 0x77, 0xf8, 0xd8]]"

definition TABLE_S2_118 :: "bytes" where
  "TABLE_S2_118 = concat [
    [0xea, 0x48, 0x6e, 0xfc, 0x83, 0x55, 0x5e, 0x45, 0xee, 0x0f, 0xc9, 0x52, 0x8b, 0x41, 0xae, 0x4e],
    [0xf1, 0x6d, 0x3c, 0xb9, 0xb6, 0x43, 0xa3, 0xcc, 0xf6, 0x59, 0x97, 0x40, 0x9f, 0x18, 0x17, 0x61],
    [0x6c, 0xf5, 0xf2, 0x95, 0xbe, 0x4a, 0xf0, 0x90, 0xe0, 0xba, 0x1a, 0x72, 0x34, 0xd8, 0x50, 0x79],
    [0x3d, 0x15, 0xde, 0xaa, 0xa0, 0x80, 0xf3, 0x2f, 0x1f, 0xfa, 0x1b, 0xd6, 0x9c, 0xda, 0xa1, 0x71],
    [0xff, 0x01, 0x98, 0xc0, 0xa9, 0xd0, 0x12, 0x85, 0xe5, 0x66, 0x27, 0xc8, 0x29, 0x2e, 0x1d, 0x10],
    [0x5f, 0x89, 0x74, 0x37, 0xbc, 0xb2, 0x3b, 0xb0, 0x0c, 0x68, 0xbd, 0x62, 0x9b, 0xa5, 0x46, 0x5a],
    [0xe8, 0xa7, 0x51, 0x5b, 0x73, 0xa6, 0x00, 0x04, 0x1c, 0x6b, 0x0e, 0x19, 0xe4, 0x82, 0xe2, 0xcf],
    [0xc2, 0x7f, 0x99, 0xaf, 0x9e, 0x6f, 0x65, 0x64, 0x22, 0x3f, 0x88, 0xd5, 0xf8, 0xd7, 0x06, 0x14],
    [0x81, 0xcb, 0x8c, 0x26, 0x39, 0xb8, 0x08, 0x11, 0x7e, 0x9a, 0xc4, 0x42, 0xc5, 0xf4, 0xe6, 0xdc],
    [0x67, 0xc1, 0xa2, 0xdf, 0x87, 0xf7, 0x3a, 0x7b, 0xe1, 0x09, 0x13, 0xe9, 0x16, 0x78, 0x49, 0xe7],
    [0xce, 0x31, 0x2c, 0x84, 0x70, 0x4d, 0xf9, 0x2b, 0xb5, 0xe3, 0x30, 0x69, 0xed, 0x33, 0xbf, 0x0a],
    [0xd9, 0xac, 0x2a, 0xef, 0x07, 0xfe, 0x32, 0x58, 0x92, 0x9d, 0xdb, 0xec, 0xb1, 0xb7, 0x5d, 0x96],
    [0x8d, 0x21, 0xd4, 0x28, 0xb4, 0xca, 0xc3, 0x47, 0x4b, 0xfb, 0x53, 0x94, 0x4c, 0xd3, 0xd1, 0x02],
    [0xdd, 0x8f, 0x56, 0xab, 0x75, 0xa4, 0x05, 0xa8, 0x63, 0x5c, 0x8a, 0x35, 0x38, 0x7a, 0x0b, 0x20],
    [0xc7, 0x7c, 0x03, 0x93, 0x54, 0x8e, 0xb3, 0x6a, 0x57, 0xc6, 0x2d, 0x44, 0x1e, 0xbb, 0x3e, 0x77],
    [0x86, 0x4f, 0xfd, 0x25, 0x24, 0x60, 0xeb, 0x91, 0x36, 0x23, 0xad, 0x0d, 0x7d, 0x76, 0xcd, 0xd2]]"

definition TABLE_S2_119 :: "bytes" where
  "TABLE_S2_119 = concat [
    [0x13, 0xef, 0x1a, 0xb6, 0x7c, 0xf8, 0xf1, 0x8f, 0xaf, 0x68, 0xc0, 0x70, 0x39, 0xea, 0xe8, 0x77],
    [0x90, 0x6d, 0xb4, 0xe6, 0x93, 0x3e, 0x9f, 0x4e, 0x0e, 0xb1, 0x67, 0x58, 0x1b, 0x30, 0x41, 0x03],
    [0xa8, 0x38, 0x47, 0xfc, 0x51, 0x88, 0xb5, 0x6f, 0x7f, 0x16, 0xfd, 0x6c, 0x4c, 0x05, 0x80, 0x25],
    [0x1e, 0xc6, 0x74, 0xbd, 0xaa, 0xd0, 0x5b, 0x1f, 0x36, 0x96, 0x18, 0x0d, 0xe9, 0xf6, 0x4d, 0x46],
    [0x1d, 0xb7, 0xf0, 0xba, 0x2a, 0x33, 0x83, 0x02, 0x79, 0xff, 0xa1, 0x45, 0xe7, 0xdd, 0xcf, 0xfe],
    [0xe4, 0x99, 0xfa, 0x5c, 0x40, 0x01, 0xcc, 0xbc, 0xd2, 0x28, 0x32, 0xda, 0xdc, 0x72, 0x43, 0x2d],
    [0xbf, 0x17, 0x0a, 0xf5, 0x10, 0xc2, 0x76, 0x4b, 0x52, 0x0b, 0xd8, 0x8e, 0x31, 0x84, 0x08, 0xd6],
    [0xd4, 0x11, 0x97, 0xe2, 0x63, 0x09, 0xc5, 0x3c, 0xd7, 0xe0, 0xa6, 0xa9, 0xad, 0x66, 0x8c, 0x8a],
    [0xfb, 0xa3, 0x3a, 0xc4, 0xbe, 0x29, 0xeb, 0x92, 0xf3, 0x1c, 0x5d, 0xde, 0x2b, 0x26, 0x15, 0x12],
    [0x0c, 0x4f, 0xb2, 0x64, 0x8b, 0x00, 0x89, 0x87, 0x59, 0x86, 0x53, 0x37, 0x61, 0x7d, 0x9e, 0xa0],
    [0x60, 0x6a, 0x9c, 0xd3, 0x3f, 0x3b, 0x9d, 0x48, 0x22, 0x35, 0x50, 0x27, 0xf4, 0xd9, 0xb9, 0xdf],
    [0x94, 0xa2, 0x44, 0xf9, 0x5f, 0x5e, 0x54, 0xa5, 0xee, 0xb3, 0x04, 0x19, 0x2f, 0x3d, 0xec, 0xc3],
    [0xc7, 0x55, 0x73, 0xd1, 0x7e, 0x65, 0x6e, 0xb8, 0x69, 0xf2, 0x34, 0xd5, 0x75, 0x95, 0x7a, 0xb0],
    [0x82, 0x07, 0x56, 0xca, 0xf7, 0x98, 0x78, 0x8d, 0x7b, 0xac, 0x62, 0xcd, 0x5a, 0x2c, 0x23, 0xa4],
    [0xae, 0xc9, 0xce, 0x57, 0xab, 0xcb, 0x71, 0x85, 0x49, 0x21, 0x81, 0xdb, 0x42, 0x6b, 0xe3, 0x0f],
    [0x91, 0xe5, 0x2e, 0x06, 0x14, 0xc8, 0xbb, 0x9b, 0xed, 0x20, 0xc1, 0x24, 0x4a, 0x9a, 0xe1, 0xa7]]"

definition TABLE_S2_120 :: "bytes" where
  "TABLE_S2_120 = concat [
    [0x18, 0xbe, 0x06, 0x7b, 0x2e, 0x5e, 0xa2, 0xe3, 0xd0, 0x38, 0x30, 0xca, 0xa1, 0xcf, 0x3e, 0x90],
    [0x12, 0x58, 0xff, 0x55, 0x61, 0xe0, 0xc8, 0xd1, 0x43, 0xa7, 0x9b, 0x1d, 0x2d, 0x1c, 0x05, 0x3f],
    [0x75, 0x00, 0x36, 0xf3, 0x27, 0xde, 0x81, 0xeb, 0x44, 0x4b, 0x35, 0x02, 0x6e, 0x68, 0x4f, 0x84],
    [0xe8, 0x17, 0x5d, 0xf5, 0x94, 0xa9, 0xf2, 0x20, 0x3a, 0x6c, 0xb0, 0xe9, 0xea, 0x34, 0xd3, 0x66],
    [0x56, 0x04, 0x72, 0x8f, 0x7d, 0xac, 0x71, 0xdc, 0x85, 0xba, 0xec, 0x53, 0xa3, 0xe1, 0xf9, 0xd2],
    [0xf8, 0x54, 0xf1, 0x0d, 0x13, 0x6d, 0x9e, 0x1a, 0x22, 0x92, 0x4d, 0x8a, 0x0a, 0x95, 0xdb, 0x08],
    [0x96, 0x5f, 0xfc, 0x24, 0xb9, 0xfd, 0x48, 0x32, 0xfa, 0xef, 0xd4, 0x74, 0xaf, 0xa4, 0x0b, 0x14],
    [0xa5, 0x1e, 0x4a, 0xda, 0x57, 0x8d, 0xb3, 0x6a, 0x1f, 0x8e, 0x9d, 0xf4, 0x62, 0xc7, 0xae, 0xe7],
    [0xb4, 0x28, 0x60, 0xe5, 0x9a, 0x6f, 0x15, 0x7a, 0x80, 0x2f, 0x99, 0x4e, 0xc1, 0x46, 0xb8, 0xce],
    [0x91, 0x33, 0x25, 0xb7, 0x8c, 0x5a, 0x9c, 0x87, 0xd6, 0x37, 0x8b, 0x10, 0x98, 0x52, 0x97, 0x77],
    [0xcc, 0xe4, 0x73, 0x07, 0x59, 0x79, 0xf6, 0x2a, 0x23, 0xc6, 0x0f, 0xc2, 0x03, 0x45, 0xa8, 0x78],
    [0x2c, 0xb5, 0x4c, 0x2b, 0x93, 0x67, 0x49, 0x29, 0x63, 0x39, 0xab, 0xc3, 0x01, 0xed, 0xa0, 0x89],
    [0x50, 0x86, 0xee, 0xad, 0x6b, 0x65, 0x69, 0xe2, 0xb1, 0xd5, 0xbb, 0x64, 0x7c, 0x42, 0x83, 0x9f],
    [0xd8, 0x26, 0x19, 0x41, 0x09, 0x70, 0x5c, 0xcb, 0xbf, 0x3c, 0x11, 0xfe, 0xf7, 0xf0, 0xc9, 0xc4],
    [0xa6, 0x1b, 0x76, 0x40, 0xb6, 0x47, 0xbd, 0xbc, 0xe6, 0xfb, 0x0c, 0x51, 0x0e, 0x21, 0xcd, 0xdf],
    [0x7e, 0x31, 0x82, 0x88, 0x7f, 0xaa, 0xdd, 0xd9, 0xb2, 0xc5, 0xc0, 0xd7, 0x5b, 0x3d, 0x16, 0x3b]]"

definition TABLE_S2_121 :: "bytes" where
  "TABLE_S2_121 = concat [
    [0xe4, 0x23, 0xfc, 0x4c, 0x66, 0xb5, 0xfb, 0x64, 0x63, 0x9f, 0x3a, 0x96, 0x74, 0xf0, 0x03, 0x7d],
    [0x3d, 0x82, 0xd4, 0xeb, 0xbc, 0x97, 0x8f, 0xcd, 0xe1, 0x1c, 0x6a, 0x38, 0xb2, 0x1f, 0xc2, 0x13],
    [0x9a, 0xf3, 0xe0, 0x71, 0x89, 0xc0, 0xa9, 0x0c, 0xb4, 0x24, 0x70, 0xcb, 0x04, 0xdd, 0xe3, 0x39],
    [0x1a, 0xba, 0x81, 0x94, 0x7a, 0x65, 0xca, 0xc1, 0x4a, 0x92, 0x31, 0xf8, 0x5c, 0x26, 0x93, 0xd7],
    [0x73, 0xf5, 0xc9, 0x2d, 0x51, 0x6b, 0x72, 0x43, 0x3b, 0x91, 0x36, 0x7c, 0xbf, 0xa6, 0x8e, 0x0f],
    [0xa4, 0x5e, 0x56, 0xbe, 0xfe, 0x50, 0xa1, 0xcf, 0x15, 0x68, 0xd0, 0x76, 0x8d, 0xcc, 0x30, 0x40],
    [0x87, 0xde, 0x02, 0x54, 0x08, 0xbd, 0x5a, 0x84, 0x9b, 0x33, 0x79, 0x86, 0x4e, 0x9c, 0xc7, 0xfa],
    [0x6c, 0x5b, 0x25, 0x2a, 0xea, 0x21, 0x06, 0x00, 0x9d, 0x58, 0x6e, 0x1b, 0x85, 0xef, 0xb0, 0x49],
    [0x90, 0x7f, 0x52, 0xd1, 0xaa, 0xa7, 0x9e, 0x99, 0x2f, 0x77, 0x48, 0xb6, 0xa5, 0x32, 0x1e, 0x67],
    [0x0a, 0xd5, 0xbb, 0xdf, 0xf1, 0xed, 0x2c, 0x12, 0xc3, 0x80, 0xe8, 0x3e, 0x8c, 0x07, 0x0b, 0x05],
    [0xb9, 0xae, 0xab, 0xdc, 0x55, 0x78, 0x53, 0x35, 0xe6, 0xec, 0x5f, 0x10, 0xb7, 0xb3, 0xc4, 0x11],
    [0x3f, 0x62, 0x95, 0x88, 0xb1, 0xa3, 0x4f, 0x60, 0x2e, 0x18, 0x75, 0xc8, 0xd2, 0xd3, 0x29, 0xd8],
    [0x7e, 0xe5, 0x59, 0xb8, 0x19, 0xf9, 0x3c, 0xf6, 0xd9, 0x4b, 0x5d, 0xff, 0xe9, 0xf2, 0x34, 0xe2],
    [0x20, 0xf7, 0x41, 0xee, 0xa0, 0xd6, 0x28, 0xaf, 0x8b, 0x0e, 0x46, 0xda, 0x14, 0x7b, 0x01, 0xf4],
    [0xad, 0xc5, 0x57, 0x0d, 0xe7, 0xce, 0x83, 0x6f, 0x45, 0x22, 0xdb, 0x42, 0x47, 0x27, 0x09, 0xfd],
    [0xac, 0x61, 0xa8, 0x4d, 0x16, 0xc6, 0x2b, 0x6d, 0x69, 0x1d, 0x8a, 0xa2, 0x44, 0x98, 0x17, 0x37]]"

definition TABLE_S2_122 :: "bytes" where
  "TABLE_S2_122 = concat [
    [0x90, 0x32, 0x14, 0x86, 0xf9, 0x2f, 0x24, 0x3f, 0x94, 0x75, 0xb3, 0x28, 0xf1, 0x3b, 0xd4, 0x34],
    [0x8b, 0x17, 0x46, 0xc3, 0xcc, 0x39, 0xd9, 0xb6, 0x8c, 0x23, 0xed, 0x3a, 0xe5, 0x62, 0x6d, 0x1b],
    [0x16, 0x8f, 0x88, 0xef, 0xc4, 0x30, 0x8a, 0xea, 0x9a, 0xc0, 0x60, 0x08, 0x4e, 0xa2, 0x2a, 0x03],
    [0x47, 0x6f, 0xa4, 0xd0, 0xda, 0xfa, 0x89, 0x55, 0x65, 0x80, 0x61, 0xac, 0xe6, 0xa0, 0xdb, 0x0b],
    [0x85, 0x7b, 0xe2, 0xba, 0xd3, 0xaa, 0x68, 0xff, 0x9f, 0x1c, 0x5d, 0xb2, 0x53, 0x54, 0x67, 0x6a],
    [0x25, 0xf3, 0x0e, 0x4d, 0xc6, 0xc8, 0x41, 0xca, 0x76, 0x12, 0xc7, 0x18, 0xe1, 0xdf, 0x3c, 0x20],
    [0x92, 0xdd, 0x2b, 0x21, 0x09, 0xdc, 0x7a, 0x7e, 0x66, 0x11, 0x74, 0x63, 0x9e, 0xf8, 0x98, 0xb5],
    [0xb8, 0x05, 0xe3, 0xd5, 0xe4, 0x15, 0x1f, 0x1e, 0x58, 0x45, 0xf2, 0xaf, 0x82, 0xad, 0x7c, 0x6e],
    [0xfb, 0xb1, 0xf6, 0x5c, 0x43, 0xc2, 0x72, 0x6b, 0x04, 0xe0, 0xbe, 0x38, 0xbf, 0x8e, 0x9c, 0xa6],
    [0x1d, 0xbb, 0xd8, 0xa5, 0xfd, 0x8d, 0x40, 0x01, 0x9b, 0x73, 0x69, 0x93, 0x6c, 0x02, 0x33, 0x9d],
    [0xb4, 0x4b, 0x56, 0xfe, 0x0a, 0x37, 0x83, 0x51, 0xcf, 0x99, 0x4a, 0x13, 0x97, 0x49, 0xc5, 0x70],
    [0xa3, 0xd6, 0x50, 0x95, 0x7d, 0x84, 0x48, 0x22, 0xe8, 0xe7, 0xa1, 0x96, 0xcb, 0xcd, 0x27, 0xec],
    [0xf7, 0x5b, 0xae, 0x52, 0xce, 0xb0, 0xb9, 0x3d, 0x31, 0x81, 0x29, 0xee, 0x36, 0xa9, 0xab, 0x78],
    [0xa7, 0xf5, 0x2c, 0xd1, 0x0f, 0xde, 0x7f, 0xd2, 0x19, 0x26, 0xf0, 0x4f, 0x42, 0x00, 0x71, 0x5a],
    [0xbd, 0x06, 0x79, 0xe9, 0x2e, 0xf4, 0xc9, 0x10, 0x2d, 0xbc, 0x57, 0x3e, 0x64, 0xc1, 0x44, 0x0d],
    [0xfc, 0x35, 0x87, 0x5f, 0x5e, 0x1a, 0x91, 0xeb, 0x4c, 0x59, 0xd7, 0x77, 0x07, 0x0c, 0xb7, 0xa8]]"

definition TABLE_S2_123 :: "bytes" where
  "TABLE_S2_123 = concat [
    [0x23, 0xdf, 0x2a, 0x86, 0x4c, 0xc8, 0xc1, 0xbf, 0x9f, 0x58, 0xf0, 0x40, 0x09, 0xda, 0xd8, 0x47],
    [0xa0, 0x5d, 0x84, 0xd6, 0xa3, 0x0e, 0xaf, 0x7e, 0x3e, 0x81, 0x57, 0x68, 0x2b, 0x00, 0x71, 0x33],
    [0x98, 0x08, 0x77, 0xcc, 0x61, 0xb8, 0x85, 0x5f, 0x4f, 0x26, 0xcd, 0x5c, 0x7c, 0x35, 0xb0, 0x15],
    [0x2e, 0xf6, 0x44, 0x8d, 0x9a, 0xe0, 0x6b, 0x2f, 0x06, 0xa6, 0x28, 0x3d, 0xd9, 0xc6, 0x7d, 0x76],
    [0x2d, 0x87, 0xc0, 0x8a, 0x1a, 0x03, 0xb3, 0x32, 0x49, 0xcf, 0x91, 0x75, 0xd7, 0xed, 0xff, 0xce],
    [0xd4, 0xa9, 0xca, 0x6c, 0x70, 0x31, 0xfc, 0x8c, 0xe2, 0x18, 0x02, 0xea, 0xec, 0x42, 0x73, 0x1d],
    [0x8f, 0x27, 0x3a, 0xc5, 0x20, 0xf2, 0x46, 0x7b, 0x62, 0x3b, 0xe8, 0xbe, 0x01, 0xb4, 0x38, 0xe6],
    [0xe4, 0x21, 0xa7, 0xd2, 0x53, 0x39, 0xf5, 0x0c, 0xe7, 0xd0, 0x96, 0x99, 0x9d, 0x56, 0xbc, 0xba],
    [0xcb, 0x93, 0x0a, 0xf4, 0x8e, 0x19, 0xdb, 0xa2, 0xc3, 0x2c, 0x6d, 0xee, 0x1b, 0x16, 0x25, 0x22],
    [0x3c, 0x7f, 0x82, 0x54, 0xbb, 0x30, 0xb9, 0xb7, 0x69, 0xb6, 0x63, 0x07, 0x51, 0x4d, 0xae, 0x90],
    [0x50, 0x5a, 0xac, 0xe3, 0x0f, 0x0b, 0xad, 0x78, 0x12, 0x05, 0x60, 0x17, 0xc4, 0xe9, 0x89, 0xef],
    [0xa4, 0x92, 0x74, 0xc9, 0x6f, 0x6e, 0x64, 0x95, 0xde, 0x83, 0x34, 0x29, 0x1f, 0x0d, 0xdc, 0xf3],
    [0xf7, 0x65, 0x43, 0xe1, 0x4e, 0x55, 0x5e, 0x88, 0x59, 0xc2, 0x04, 0xe5, 0x45, 0xa5, 0x4a, 0x80],
    [0xb2, 0x37, 0x66, 0xfa, 0xc7, 0xa8, 0x48, 0xbd, 0x4b, 0x9c, 0x52, 0xfd, 0x6a, 0x1c, 0x13, 0x94],
    [0x9e, 0xf9, 0xfe, 0x67, 0x9b, 0xfb, 0x41, 0xb5, 0x79, 0x11, 0xb1, 0xeb, 0x72, 0x5b, 0xd3, 0x3f],
    [0xa1, 0xd5, 0x1e, 0x36, 0x24, 0xf8, 0x8b, 0xab, 0xdd, 0x10, 0xf1, 0x14, 0x7a, 0xaa, 0xd1, 0x97]]"

definition TABLE_S2_124 :: "bytes" where
  "TABLE_S2_124 = concat [
    [0xce, 0x68, 0xd0, 0xad, 0xf8, 0x88, 0x74, 0x35, 0x06, 0xee, 0xe6, 0x1c, 0x77, 0x19, 0xe8, 0x46],
    [0xc4, 0x8e, 0x29, 0x83, 0xb7, 0x36, 0x1e, 0x07, 0x95, 0x71, 0x4d, 0xcb, 0xfb, 0xca, 0xd3, 0xe9],
    [0xa3, 0xd6, 0xe0, 0x25, 0xf1, 0x08, 0x57, 0x3d, 0x92, 0x9d, 0xe3, 0xd4, 0xb8, 0xbe, 0x99, 0x52],
    [0x3e, 0xc1, 0x8b, 0x23, 0x42, 0x7f, 0x24, 0xf6, 0xec, 0xba, 0x66, 0x3f, 0x3c, 0xe2, 0x05, 0xb0],
    [0x80, 0xd2, 0xa4, 0x59, 0xab, 0x7a, 0xa7, 0x0a, 0x53, 0x6c, 0x3a, 0x85, 0x75, 0x37, 0x2f, 0x04],
    [0x2e, 0x82, 0x27, 0xdb, 0xc5, 0xbb, 0x48, 0xcc, 0xf4, 0x44, 0x9b, 0x5c, 0xdc, 0x43, 0x0d, 0xde],
    [0x40, 0x89, 0x2a, 0xf2, 0x6f, 0x2b, 0x9e, 0xe4, 0x2c, 0x39, 0x02, 0xa2, 0x79, 0x72, 0xdd, 0xc2],
    [0x73, 0xc8, 0x9c, 0x0c, 0x81, 0x5b, 0x65, 0xbc, 0xc9, 0x58, 0x4b, 0x22, 0xb4, 0x11, 0x78, 0x31],
    [0x62, 0xfe, 0xb6, 0x33, 0x4c, 0xb9, 0xc3, 0xac, 0x56, 0xf9, 0x4f, 0x98, 0x17, 0x90, 0x6e, 0x18],
    [0x47, 0xe5, 0xf3, 0x61, 0x5a, 0x8c, 0x4a, 0x51, 0x00, 0xe1, 0x5d, 0xc6, 0x4e, 0x84, 0x41, 0xa1],
    [0x1a, 0x32, 0xa5, 0xd1, 0x8f, 0xaf, 0x20, 0xfc, 0xf5, 0x10, 0xd9, 0x14, 0xd5, 0x93, 0x7e, 0xae],
    [0xfa, 0x63, 0x9a, 0xfd, 0x45, 0xb1, 0x9f, 0xff, 0xb5, 0xef, 0x7d, 0x15, 0xd7, 0x3b, 0x76, 0x5f],
    [0x86, 0x50, 0x38, 0x7b, 0xbd, 0xb3, 0xbf, 0x34, 0x67, 0x03, 0x6d, 0xb2, 0xaa, 0x94, 0x55, 0x49],
    [0x0e, 0xf0, 0xcf, 0x97, 0xdf, 0xa6, 0x8a, 0x1d, 0x69, 0xea, 0xc7, 0x28, 0x21, 0x26, 0x1f, 0x12],
    [0x70, 0xcd, 0xa0, 0x96, 0x60, 0x91, 0x6b, 0x6a, 0x30, 0x2d, 0xda, 0x87, 0xd8, 0xf7, 0x1b, 0x09],
    [0xa8, 0xe7, 0x54, 0x5e, 0xa9, 0x7c, 0x0b, 0x0f, 0x64, 0x13, 0x16, 0x01, 0x8d, 0xeb, 0xc0, 0xed]]"

definition TABLE_S2_125 :: "bytes" where
  "TABLE_S2_125 = concat [
    [0x02, 0xc5, 0x1a, 0xaa, 0x80, 0x53, 0x1d, 0x82, 0x85, 0x79, 0xdc, 0x70, 0x92, 0x16, 0xe5, 0x9b],
    [0xdb, 0x64, 0x32, 0x0d, 0x5a, 0x71, 0x69, 0x2b, 0x07, 0xfa, 0x8c, 0xde, 0x54, 0xf9, 0x24, 0xf5],
    [0x7c, 0x15, 0x06, 0x97, 0x6f, 0x26, 0x4f, 0xea, 0x52, 0xc2, 0x96, 0x2d, 0xe2, 0x3b, 0x05, 0xdf],
    [0xfc, 0x5c, 0x67, 0x72, 0x9c, 0x83, 0x2c, 0x27, 0xac, 0x74, 0xd7, 0x1e, 0xba, 0xc0, 0x75, 0x31],
    [0x95, 0x13, 0x2f, 0xcb, 0xb7, 0x8d, 0x94, 0xa5, 0xdd, 0x77, 0xd0, 0x9a, 0x59, 0x40, 0x68, 0xe9],
    [0x42, 0xb8, 0xb0, 0x58, 0x18, 0xb6, 0x47, 0x29, 0xf3, 0x8e, 0x36, 0x90, 0x6b, 0x2a, 0xd6, 0xa6],
    [0x61, 0x38, 0xe4, 0xb2, 0xee, 0x5b, 0xbc, 0x62, 0x7d, 0xd5, 0x9f, 0x60, 0xa8, 0x7a, 0x21, 0x1c],
    [0x8a, 0xbd, 0xc3, 0xcc, 0x0c, 0xc7, 0xe0, 0xe6, 0x7b, 0xbe, 0x88, 0xfd, 0x63, 0x09, 0x56, 0xaf],
    [0x76, 0x99, 0xb4, 0x37, 0x4c, 0x41, 0x78, 0x7f, 0xc9, 0x91, 0xae, 0x50, 0x43, 0xd4, 0xf8, 0x81],
    [0xec, 0x33, 0x5d, 0x39, 0x17, 0x0b, 0xca, 0xf4, 0x25, 0x66, 0x0e, 0xd8, 0x6a, 0xe1, 0xed, 0xe3],
    [0x5f, 0x48, 0x4d, 0x3a, 0xb3, 0x9e, 0xb5, 0xd3, 0x00, 0x0a, 0xb9, 0xf6, 0x51, 0x55, 0x22, 0xf7],
    [0xd9, 0x84, 0x73, 0x6e, 0x57, 0x45, 0xa9, 0x86, 0xc8, 0xfe, 0x93, 0x2e, 0x34, 0x35, 0xcf, 0x3e],
    [0x98, 0x03, 0xbf, 0x5e, 0xff, 0x1f, 0xda, 0x10, 0x3f, 0xad, 0xbb, 0x19, 0x0f, 0x14, 0xd2, 0x04],
    [0xc6, 0x11, 0xa7, 0x08, 0x46, 0x30, 0xce, 0x49, 0x6d, 0xe8, 0xa0, 0x3c, 0xf2, 0x9d, 0xe7, 0x12],
    [0x4b, 0x23, 0xb1, 0xeb, 0x01, 0x28, 0x65, 0x89, 0xa3, 0xc4, 0x3d, 0xa4, 0xa1, 0xc1, 0xef, 0x1b],
    [0x4a, 0x87, 0x4e, 0xab, 0xf0, 0x20, 0xcd, 0x8b, 0x8f, 0xfb, 0x6c, 0x44, 0xa2, 0x7e, 0xf1, 0xd1]]"

definition TABLE_S2_126 :: "bytes" where
  "TABLE_S2_126 = concat [
    [0x3a, 0x98, 0xbe, 0x2c, 0x53, 0x85, 0x8e, 0x95, 0x3e, 0xdf, 0x19, 0x82, 0x5b, 0x91, 0x7e, 0x9e],
    [0x21, 0xbd, 0xec, 0x69, 0x66, 0x93, 0x73, 0x1c, 0x26, 0x89, 0x47, 0x90, 0x4f, 0xc8, 0xc7, 0xb1],
    [0xbc, 0x25, 0x22, 0x45, 0x6e, 0x9a, 0x20, 0x40, 0x30, 0x6a, 0xca, 0xa2, 0xe4, 0x08, 0x80, 0xa9],
    [0xed, 0xc5, 0x0e, 0x7a, 0x70, 0x50, 0x23, 0xff, 0xcf, 0x2a, 0xcb, 0x06, 0x4c, 0x0a, 0x71, 0xa1],
    [0x2f, 0xd1, 0x48, 0x10, 0x79, 0x00, 0xc2, 0x55, 0x35, 0xb6, 0xf7, 0x18, 0xf9, 0xfe, 0xcd, 0xc0],
    [0x8f, 0x59, 0xa4, 0xe7, 0x6c, 0x62, 0xeb, 0x60, 0xdc, 0xb8, 0x6d, 0xb2, 0x4b, 0x75, 0x96, 0x8a],
    [0x38, 0x77, 0x81, 0x8b, 0xa3, 0x76, 0xd0, 0xd4, 0xcc, 0xbb, 0xde, 0xc9, 0x34, 0x52, 0x32, 0x1f],
    [0x12, 0xaf, 0x49, 0x7f, 0x4e, 0xbf, 0xb5, 0xb4, 0xf2, 0xef, 0x58, 0x05, 0x28, 0x07, 0xd6, 0xc4],
    [0x51, 0x1b, 0x5c, 0xf6, 0xe9, 0x68, 0xd8, 0xc1, 0xae, 0x4a, 0x14, 0x92, 0x15, 0x24, 0x36, 0x0c],
    [0xb7, 0x11, 0x72, 0x0f, 0x57, 0x27, 0xea, 0xab, 0x31, 0xd9, 0xc3, 0x39, 0xc6, 0xa8, 0x99, 0x37],
    [0x1e, 0xe1, 0xfc, 0x54, 0xa0, 0x9d, 0x29, 0xfb, 0x65, 0x33, 0xe0, 0xb9, 0x3d, 0xe3, 0x6f, 0xda],
    [0x09, 0x7c, 0xfa, 0x3f, 0xd7, 0x2e, 0xe2, 0x88, 0x42, 0x4d, 0x0b, 0x3c, 0x61, 0x67, 0x8d, 0x46],
    [0x5d, 0xf1, 0x04, 0xf8, 0x64, 0x1a, 0x13, 0x97, 0x9b, 0x2b, 0x83, 0x44, 0x9c, 0x03, 0x01, 0xd2],
    [0x0d, 0x5f, 0x86, 0x7b, 0xa5, 0x74, 0xd5, 0x78, 0xb3, 0x8c, 0x5a, 0xe5, 0xe8, 0xaa, 0xdb, 0xf0],
    [0x17, 0xac, 0xd3, 0x43, 0x84, 0x5e, 0x63, 0xba, 0x87, 0x16, 0xfd, 0x94, 0xce, 0x6b, 0xee, 0xa7],
    [0x56, 0x9f, 0x2d, 0xf5, 0xf4, 0xb0, 0x3b, 0x41, 0xe6, 0xf3, 0x7d, 0xdd, 0xad, 0xa6, 0x1d, 0x02]]"

definition TABLE_S2_127 :: "bytes" where
  "TABLE_S2_127 = concat [
    [0x6d, 0x91, 0x64, 0xc8, 0x02, 0x86, 0x8f, 0xf1, 0xd1, 0x16, 0xbe, 0x0e, 0x47, 0x94, 0x96, 0x09],
    [0xee, 0x13, 0xca, 0x98, 0xed, 0x40, 0xe1, 0x30, 0x70, 0xcf, 0x19, 0x26, 0x65, 0x4e, 0x3f, 0x7d],
    [0xd6, 0x46, 0x39, 0x82, 0x2f, 0xf6, 0xcb, 0x11, 0x01, 0x68, 0x83, 0x12, 0x32, 0x7b, 0xfe, 0x5b],
    [0x60, 0xb8, 0x0a, 0xc3, 0xd4, 0xae, 0x25, 0x61, 0x48, 0xe8, 0x66, 0x73, 0x97, 0x88, 0x33, 0x38],
    [0x63, 0xc9, 0x8e, 0xc4, 0x54, 0x4d, 0xfd, 0x7c, 0x07, 0x81, 0xdf, 0x3b, 0x99, 0xa3, 0xb1, 0x80],
    [0x9a, 0xe7, 0x84, 0x22, 0x3e, 0x7f, 0xb2, 0xc2, 0xac, 0x56, 0x4c, 0xa4, 0xa2, 0x0c, 0x3d, 0x53],
    [0xc1, 0x69, 0x74, 0x8b, 0x6e, 0xbc, 0x08, 0x35, 0x2c, 0x75, 0xa6, 0xf0, 0x4f, 0xfa, 0x76, 0xa8],
    [0xaa, 0x6f, 0xe9, 0x9c, 0x1d, 0x77, 0xbb, 0x42, 0xa9, 0x9e, 0xd8, 0xd7, 0xd3, 0x18, 0xf2, 0xf4],
    [0x85, 0xdd, 0x44, 0xba, 0xc0, 0x57, 0x95, 0xec, 0x8d, 0x62, 0x23, 0xa0, 0x55, 0x58, 0x6b, 0x6c],
    [0x72, 0x31, 0xcc, 0x1a, 0xf5, 0x7e, 0xf7, 0xf9, 0x27, 0xf8, 0x2d, 0x49, 0x1f, 0x03, 0xe0, 0xde],
    [0x1e, 0x14, 0xe2, 0xad, 0x41, 0x45, 0xe3, 0x36, 0x5c, 0x4b, 0x2e, 0x59, 0x8a, 0xa7, 0xc7, 0xa1],
    [0xea, 0xdc, 0x3a, 0x87, 0x21, 0x20, 0x2a, 0xdb, 0x90, 0xcd, 0x7a, 0x67, 0x51, 0x43, 0x92, 0xbd],
    [0xb9, 0x2b, 0x0d, 0xaf, 0x00, 0x1b, 0x10, 0xc6, 0x17, 0x8c, 0x4a, 0xab, 0x0b, 0xeb, 0x04, 0xce],
    [0xfc, 0x79, 0x28, 0xb4, 0x89, 0xe6, 0x06, 0xf3, 0x05, 0xd2, 0x1c, 0xb3, 0x24, 0x52, 0x5d, 0xda],
    [0xd0, 0xb7, 0xb0, 0x29, 0xd5, 0xb5, 0x0f, 0xfb, 0x37, 0x5f, 0xff, 0xa5, 0x3c, 0x15, 0x9d, 0x71],
    [0xef, 0x9b, 0x50, 0x78, 0x6a, 0xb6, 0xc5, 0xe5, 0x93, 0x5e, 0xbf, 0x5a, 0x34, 0xe4, 0x9f, 0xd9]]"

definition TABLE_S2_128 :: "bytes" where
  "TABLE_S2_128 = concat [
    [0xc8, 0x6e, 0xd6, 0xab, 0xfe, 0x8e, 0x72, 0x33, 0x00, 0xe8, 0xe0, 0x1a, 0x71, 0x1f, 0xee, 0x40],
    [0xc2, 0x88, 0x2f, 0x85, 0xb1, 0x30, 0x18, 0x01, 0x93, 0x77, 0x4b, 0xcd, 0xfd, 0xcc, 0xd5, 0xef],
    [0xa5, 0xd0, 0xe6, 0x23, 0xf7, 0x0e, 0x51, 0x3b, 0x94, 0x9b, 0xe5, 0xd2, 0xbe, 0xb8, 0x9f, 0x54],
    [0x38, 0xc7, 0x8d, 0x25, 0x44, 0x79, 0x22, 0xf0, 0xea, 0xbc, 0x60, 0x39, 0x3a, 0xe4, 0x03, 0xb6],
    [0x86, 0xd4, 0xa2, 0x5f, 0xad, 0x7c, 0xa1, 0x0c, 0x55, 0x6a, 0x3c, 0x83, 0x73, 0x31, 0x29, 0x02],
    [0x28, 0x84, 0x21, 0xdd, 0xc3, 0xbd, 0x4e, 0xca, 0xf2, 0x42, 0x9d, 0x5a, 0xda, 0x45, 0x0b, 0xd8],
    [0x46, 0x8f, 0x2c, 0xf4, 0x69, 0x2d, 0x98, 0xe2, 0x2a, 0x3f, 0x04, 0xa4, 0x7f, 0x74, 0xdb, 0xc4],
    [0x75, 0xce, 0x9a, 0x0a, 0x87, 0x5d, 0x63, 0xba, 0xcf, 0x5e, 0x4d, 0x24, 0xb2, 0x17, 0x7e, 0x37],
    [0x64, 0xf8, 0xb0, 0x35, 0x4a, 0xbf, 0xc5, 0xaa, 0x50, 0xff, 0x49, 0x9e, 0x11, 0x96, 0x68, 0x1e],
    [0x41, 0xe3, 0xf5, 0x67, 0x5c, 0x8a, 0x4c, 0x57, 0x06, 0xe7, 0x5b, 0xc0, 0x48, 0x82, 0x47, 0xa7],
    [0x1c, 0x34, 0xa3, 0xd7, 0x89, 0xa9, 0x26, 0xfa, 0xf3, 0x16, 0xdf, 0x12, 0xd3, 0x95, 0x78, 0xa8],
    [0xfc, 0x65, 0x9c, 0xfb, 0x43, 0xb7, 0x99, 0xf9, 0xb3, 0xe9, 0x7b, 0x13, 0xd1, 0x3d, 0x70, 0x59],
    [0x80, 0x56, 0x3e, 0x7d, 0xbb, 0xb5, 0xb9, 0x32, 0x61, 0x05, 0x6b, 0xb4, 0xac, 0x92, 0x53, 0x4f],
    [0x08, 0xf6, 0xc9, 0x91, 0xd9, 0xa0, 0x8c, 0x1b, 0x6f, 0xec, 0xc1, 0x2e, 0x27, 0x20, 0x19, 0x14],
    [0x76, 0xcb, 0xa6, 0x90, 0x66, 0x97, 0x6d, 0x6c, 0x36, 0x2b, 0xdc, 0x81, 0xde, 0xf1, 0x1d, 0x0f],
    [0xae, 0xe1, 0x52, 0x58, 0xaf, 0x7a, 0x0d, 0x09, 0x62, 0x15, 0x10, 0x07, 0x8b, 0xed, 0xc6, 0xeb]]"

definition TABLE_S2_129 :: "bytes" where
  "TABLE_S2_129 = concat [
    [0xf3, 0x4d, 0xc3, 0x1c, 0x5d, 0xb5, 0x2b, 0x29, 0xa7, 0xb6, 0xe0, 0xea, 0xf9, 0x06, 0x54, 0x39],
    [0xf0, 0x87, 0x4e, 0xbe, 0x9d, 0x6b, 0x8f, 0xd6, 0xbb, 0x6d, 0xa3, 0x3e, 0xe6, 0xfe, 0x8c, 0xf1],
    [0x90, 0x00, 0x67, 0x4b, 0xdb, 0x70, 0xaf, 0x36, 0x79, 0xc6, 0x5b, 0xd5, 0x85, 0xce, 0x25, 0x8a],
    [0x7a, 0x69, 0xc0, 0x92, 0x1a, 0x9f, 0x59, 0xa1, 0x76, 0xff, 0xa2, 0x33, 0x2a, 0x42, 0xd0, 0x32],
    [0x75, 0x0a, 0xaa, 0x04, 0x71, 0x4f, 0xe5, 0x89, 0x37, 0xf6, 0x4a, 0x98, 0x0b, 0xde, 0x11, 0x44],
    [0xca, 0x14, 0x07, 0x34, 0x2c, 0xc5, 0xe4, 0xc9, 0x62, 0x12, 0xba, 0x19, 0xc8, 0x84, 0x3b, 0xb0],
    [0xb2, 0xd2, 0xb3, 0xcf, 0xb1, 0xb4, 0x02, 0xd8, 0x63, 0x15, 0xa8, 0x60, 0xae, 0x0f, 0xee, 0xac],
    [0xf4, 0xc1, 0x9b, 0x6e, 0xdf, 0x72, 0xa4, 0x57, 0xad, 0x38, 0x86, 0x6a, 0x95, 0xdc, 0xe7, 0x50],
    [0x9c, 0xc7, 0xfa, 0xcd, 0x13, 0x0e, 0x4c, 0xb7, 0x94, 0x5a, 0xa9, 0x03, 0x46, 0xb8, 0x56, 0x96],
    [0xcb, 0x2f, 0x01, 0xbd, 0x93, 0xeb, 0x78, 0x97, 0x53, 0x26, 0x2d, 0xe1, 0x51, 0xd3, 0x52, 0x64],
    [0x7d, 0xef, 0x83, 0xe2, 0xdd, 0x55, 0x88, 0x24, 0xc4, 0x09, 0x20, 0x10, 0x6f, 0xd7, 0x5c, 0x49],
    [0x65, 0xfd, 0xfc, 0xd4, 0xa6, 0x7e, 0x9e, 0xd9, 0x28, 0x81, 0xb9, 0x58, 0x5e, 0x99, 0x16, 0xfb],
    [0xf8, 0x6c, 0x1f, 0x0d, 0x8b, 0x8d, 0xd1, 0xed, 0xbc, 0x05, 0x7f, 0xe8, 0xa0, 0x21, 0x1b, 0x68],
    [0xf5, 0xf2, 0x47, 0xe3, 0xc2, 0xec, 0x41, 0x7b, 0x73, 0x82, 0x23, 0x74, 0x3d, 0x27, 0x77, 0x1d],
    [0x9a, 0x1e, 0x31, 0x17, 0x08, 0x30, 0x43, 0xab, 0x91, 0x8e, 0x18, 0x3f, 0xa5, 0x80, 0x3a, 0x7c],
    [0xcc, 0x40, 0x0c, 0x48, 0xe9, 0x35, 0x3c, 0x22, 0x66, 0x2e, 0xda, 0x45, 0xbf, 0x5f, 0x61, 0xf7]]"

definition TABLE_S2_130 :: "bytes" where
  "TABLE_S2_130 = concat [
    [0xb0, 0x12, 0x34, 0xa6, 0xd9, 0x0f, 0x04, 0x1f, 0xb4, 0x55, 0x93, 0x08, 0xd1, 0x1b, 0xf4, 0x14],
    [0xab, 0x37, 0x66, 0xe3, 0xec, 0x19, 0xf9, 0x96, 0xac, 0x03, 0xcd, 0x1a, 0xc5, 0x42, 0x4d, 0x3b],
    [0x36, 0xaf, 0xa8, 0xcf, 0xe4, 0x10, 0xaa, 0xca, 0xba, 0xe0, 0x40, 0x28, 0x6e, 0x82, 0x0a, 0x23],
    [0x67, 0x4f, 0x84, 0xf0, 0xfa, 0xda, 0xa9, 0x75, 0x45, 0xa0, 0x41, 0x8c, 0xc6, 0x80, 0xfb, 0x2b],
    [0xa5, 0x5b, 0xc2, 0x9a, 0xf3, 0x8a, 0x48, 0xdf, 0xbf, 0x3c, 0x7d, 0x92, 0x73, 0x74, 0x47, 0x4a],
    [0x05, 0xd3, 0x2e, 0x6d, 0xe6, 0xe8, 0x61, 0xea, 0x56, 0x32, 0xe7, 0x38, 0xc1, 0xff, 0x1c, 0x00],
    [0xb2, 0xfd, 0x0b, 0x01, 0x29, 0xfc, 0x5a, 0x5e, 0x46, 0x31, 0x54, 0x43, 0xbe, 0xd8, 0xb8, 0x95],
    [0x98, 0x25, 0xc3, 0xf5, 0xc4, 0x35, 0x3f, 0x3e, 0x78, 0x65, 0xd2, 0x8f, 0xa2, 0x8d, 0x5c, 0x4e],
    [0xdb, 0x91, 0xd6, 0x7c, 0x63, 0xe2, 0x52, 0x4b, 0x24, 0xc0, 0x9e, 0x18, 0x9f, 0xae, 0xbc, 0x86],
    [0x3d, 0x9b, 0xf8, 0x85, 0xdd, 0xad, 0x60, 0x21, 0xbb, 0x53, 0x49, 0xb3, 0x4c, 0x22, 0x13, 0xbd],
    [0x94, 0x6b, 0x76, 0xde, 0x2a, 0x17, 0xa3, 0x71, 0xef, 0xb9, 0x6a, 0x33, 0xb7, 0x69, 0xe5, 0x50],
    [0x83, 0xf6, 0x70, 0xb5, 0x5d, 0xa4, 0x68, 0x02, 0xc8, 0xc7, 0x81, 0xb6, 0xeb, 0xed, 0x07, 0xcc],
    [0xd7, 0x7b, 0x8e, 0x72, 0xee, 0x90, 0x99, 0x1d, 0x11, 0xa1, 0x09, 0xce, 0x16, 0x89, 0x8b, 0x58],
    [0x87, 0xd5, 0x0c, 0xf1, 0x2f, 0xfe, 0x5f, 0xf2, 0x39, 0x06, 0xd0, 0x6f, 0x62, 0x20, 0x51, 0x7a],
    [0x9d, 0x26, 0x59, 0xc9, 0x0e, 0xd4, 0xe9, 0x30, 0x0d, 0x9c, 0x77, 0x1e, 0x44, 0xe1, 0x64, 0x2d],
    [0xdc, 0x15, 0xa7, 0x7f, 0x7e, 0x3a, 0xb1, 0xcb, 0x6c, 0x79, 0xf7, 0x57, 0x27, 0x2c, 0x97, 0x88]]"

definition TABLE_S2_131 :: "bytes" where
  "TABLE_S2_131 = concat [
    [0x0d, 0xf1, 0x04, 0xa8, 0x62, 0xe6, 0xef, 0x91, 0xb1, 0x76, 0xde, 0x6e, 0x27, 0xf4, 0xf6, 0x69],
    [0x8e, 0x73, 0xaa, 0xf8, 0x8d, 0x20, 0x81, 0x50, 0x10, 0xaf, 0x79, 0x46, 0x05, 0x2e, 0x5f, 0x1d],
    [0xb6, 0x26, 0x59, 0xe2, 0x4f, 0x96, 0xab, 0x71, 0x61, 0x08, 0xe3, 0x72, 0x52, 0x1b, 0x9e, 0x3b],
    [0x00, 0xd8, 0x6a, 0xa3, 0xb4, 0xce, 0x45, 0x01, 0x28, 0x88, 0x06, 0x13, 0xf7, 0xe8, 0x53, 0x58],
    [0x03, 0xa9, 0xee, 0xa4, 0x34, 0x2d, 0x9d, 0x1c, 0x67, 0xe1, 0xbf, 0x5b, 0xf9, 0xc3, 0xd1, 0xe0],
    [0xfa, 0x87, 0xe4, 0x42, 0x5e, 0x1f, 0xd2, 0xa2, 0xcc, 0x36, 0x2c, 0xc4, 0xc2, 0x6c, 0x5d, 0x33],
    [0xa1, 0x09, 0x14, 0xeb, 0x0e, 0xdc, 0x68, 0x55, 0x4c, 0x15, 0xc6, 0x90, 0x2f, 0x9a, 0x16, 0xc8],
    [0xca, 0x0f, 0x89, 0xfc, 0x7d, 0x17, 0xdb, 0x22, 0xc9, 0xfe, 0xb8, 0xb7, 0xb3, 0x78, 0x92, 0x94],
    [0xe5, 0xbd, 0x24, 0xda, 0xa0, 0x37, 0xf5, 0x8c, 0xed, 0x02, 0x43, 0xc0, 0x35, 0x38, 0x0b, 0x0c],
    [0x12, 0x51, 0xac, 0x7a, 0x95, 0x1e, 0x97, 0x99, 0x47, 0x98, 0x4d, 0x29, 0x7f, 0x63, 0x80, 0xbe],
    [0x7e, 0x74, 0x82, 0xcd, 0x21, 0x25, 0x83, 0x56, 0x3c, 0x2b, 0x4e, 0x39, 0xea, 0xc7, 0xa7, 0xc1],
    [0x8a, 0xbc, 0x5a, 0xe7, 0x41, 0x40, 0x4a, 0xbb, 0xf0, 0xad, 0x1a, 0x07, 0x31, 0x23, 0xf2, 0xdd],
    [0xd9, 0x4b, 0x6d, 0xcf, 0x60, 0x7b, 0x70, 0xa6, 0x77, 0xec, 0x2a, 0xcb, 0x6b, 0x8b, 0x64, 0xae],
    [0x9c, 0x19, 0x48, 0xd4, 0xe9, 0x86, 0x66, 0x93, 0x65, 0xb2, 0x7c, 0xd3, 0x44, 0x32, 0x3d, 0xba],
    [0xb0, 0xd7, 0xd0, 0x49, 0xb5, 0xd5, 0x6f, 0x9b, 0x57, 0x3f, 0x9f, 0xc5, 0x5c, 0x75, 0xfd, 0x11],
    [0x8f, 0xfb, 0x30, 0x18, 0x0a, 0xd6, 0xa5, 0x85, 0xf3, 0x3e, 0xdf, 0x3a, 0x54, 0x84, 0xff, 0xb9]]"

definition TABLE_S2_132 :: "bytes" where
  "TABLE_S2_132 = concat [
    [0x7a, 0xdb, 0x3a, 0x78, 0xb7, 0xc1, 0x7c, 0xb4, 0x65, 0x60, 0xd6, 0x0c, 0x66, 0x06, 0x67, 0x1b],
    [0x41, 0x08, 0x33, 0x84, 0x79, 0xec, 0x52, 0xbe, 0x0b, 0xa6, 0x70, 0x83, 0x20, 0x15, 0x4f, 0xba],
    [0xdf, 0x0a, 0xc5, 0x90, 0xe3, 0x22, 0x9e, 0x4c, 0xa5, 0x9b, 0x31, 0x5d, 0xa1, 0xde, 0x7e, 0xd0],
    [0x1c, 0x50, 0xef, 0x64, 0xb6, 0xc6, 0x6e, 0xcd, 0xf8, 0x11, 0x30, 0x1d, 0x1e, 0xc0, 0xd3, 0xe0],
    [0x51, 0x1a, 0xf1, 0x5e, 0xad, 0x12, 0x8f, 0x01, 0x0f, 0xa4, 0x7b, 0xe2, 0x44, 0xd4, 0xb3, 0x9f],
    [0xfe, 0x96, 0x04, 0xe6, 0xa2, 0x2b, 0x76, 0xe7, 0xce, 0x4b, 0x8d, 0x75, 0xae, 0xbd, 0x14, 0x46],
    [0x2d, 0xd2, 0x80, 0xed, 0x73, 0x62, 0x34, 0x3e, 0x89, 0x61, 0xff, 0xfd, 0x27, 0x99, 0x17, 0xc8],
    [0x32, 0x2a, 0x58, 0x25, 0x6f, 0xb9, 0x77, 0xea, 0x49, 0xbf, 0x5b, 0x02, 0x24, 0x53, 0x9a, 0x6a],
    [0x71, 0x54, 0xee, 0xa8, 0x45, 0x5a, 0xcc, 0xeb, 0xdc, 0xe4, 0x97, 0x7f, 0x4e, 0xca, 0xe5, 0xc3],
    [0x6b, 0x8b, 0xb5, 0x23, 0xb2, 0xfa, 0x0e, 0x91, 0x3d, 0xe1, 0xe8, 0xf6, 0x18, 0x94, 0xd8, 0x9c],
    [0x74, 0xf5, 0xcf, 0xbc, 0x68, 0xd1, 0xab, 0x3c, 0x5f, 0x59, 0x05, 0x39, 0x2c, 0xb8, 0xcb, 0xd9],
    [0xe9, 0xf3, 0xa3, 0xc9, 0xa7, 0x56, 0xf7, 0xa0, 0x16, 0x38, 0x95, 0xaf, 0x21, 0x26, 0x93, 0x37],
    [0xbb, 0x03, 0x88, 0x9d, 0x10, 0xdd, 0xf4, 0xc4, 0x09, 0x81, 0x5c, 0xf0, 0xa9, 0x3b, 0x57, 0x36],
    [0x8a, 0x4d, 0xc2, 0x2f, 0xfc, 0x55, 0x6d, 0x8c, 0x72, 0xaa, 0x4a, 0x0d, 0xb1, 0x29, 0x28, 0x00],
    [0x92, 0x6c, 0x82, 0x42, 0x40, 0x8e, 0x7d, 0xd7, 0xc7, 0xda, 0x98, 0x63, 0x48, 0x13, 0x2e, 0x19],
    [0x85, 0x07, 0x86, 0xb0, 0x87, 0xf2, 0xf9, 0x35, 0x47, 0x3f, 0xac, 0x43, 0x1f, 0xfb, 0xd5, 0x69]]"

definition TABLE_S2_133 :: "bytes" where
  "TABLE_S2_133 = concat [
    [0x53, 0x94, 0x4b, 0xfb, 0xd1, 0x02, 0x4c, 0xd3, 0xd4, 0x28, 0x8d, 0x21, 0xc3, 0x47, 0xb4, 0xca],
    [0x8a, 0x35, 0x63, 0x5c, 0x0b, 0x20, 0x38, 0x7a, 0x56, 0xab, 0xdd, 0x8f, 0x05, 0xa8, 0x75, 0xa4],
    [0x2d, 0x44, 0x57, 0xc6, 0x3e, 0x77, 0x1e, 0xbb, 0x03, 0x93, 0xc7, 0x7c, 0xb3, 0x6a, 0x54, 0x8e],
    [0xad, 0x0d, 0x36, 0x23, 0xcd, 0xd2, 0x7d, 0x76, 0xfd, 0x25, 0x86, 0x4f, 0xeb, 0x91, 0x24, 0x60],
    [0xc4, 0x42, 0x7e, 0x9a, 0xe6, 0xdc, 0xc5, 0xf4, 0x8c, 0x26, 0x81, 0xcb, 0x08, 0x11, 0x39, 0xb8],
    [0x13, 0xe9, 0xe1, 0x09, 0x49, 0xe7, 0x16, 0x78, 0xa2, 0xdf, 0x67, 0xc1, 0x3a, 0x7b, 0x87, 0xf7],
    [0x30, 0x69, 0xb5, 0xe3, 0xbf, 0x0a, 0xed, 0x33, 0x2c, 0x84, 0xce, 0x31, 0xf9, 0x2b, 0x70, 0x4d],
    [0xdb, 0xec, 0x92, 0x9d, 0x5d, 0x96, 0xb1, 0xb7, 0x2a, 0xef, 0xd9, 0xac, 0x32, 0x58, 0x07, 0xfe],
    [0x27, 0xc8, 0xe5, 0x66, 0x1d, 0x10, 0x29, 0x2e, 0x98, 0xc0, 0xff, 0x01, 0x12, 0x85, 0xa9, 0xd0],
    [0xbd, 0x62, 0x0c, 0x68, 0x46, 0x5a, 0x9b, 0xa5, 0x74, 0x37, 0x5f, 0x89, 0x3b, 0xb0, 0xbc, 0xb2],
    [0x0e, 0x19, 0x1c, 0x6b, 0xe2, 0xcf, 0xe4, 0x82, 0x51, 0x5b, 0xe8, 0xa7, 0x00, 0x04, 0x73, 0xa6],
    [0x88, 0xd5, 0x22, 0x3f, 0x06, 0x14, 0xf8, 0xd7, 0x99, 0xaf, 0xc2, 0x7f, 0x65, 0x64, 0x9e, 0x6f],
    [0xc9, 0x52, 0xee, 0x0f, 0xae, 0x4e, 0x8b, 0x41, 0x6e, 0xfc, 0xea, 0x48, 0x5e, 0x45, 0x83, 0x55],
    [0x97, 0x40, 0xf6, 0x59, 0x17, 0x61, 0x9f, 0x18, 0x3c, 0xb9, 0xf1, 0x6d, 0xa3, 0xcc, 0xb6, 0x43],
    [0x1a, 0x72, 0xe0, 0xba, 0x50, 0x79, 0x34, 0xd8, 0xf2, 0x95, 0x6c, 0xf5, 0xf0, 0x90, 0xbe, 0x4a],
    [0x1b, 0xd6, 0x1f, 0xfa, 0xa1, 0x71, 0x9c, 0xda, 0xde, 0xaa, 0x3d, 0x15, 0xf3, 0x2f, 0xa0, 0x80]]"

definition TABLE_S2_134 :: "bytes" where
  "TABLE_S2_134 = concat [
    [0x63, 0xc1, 0xe7, 0x75, 0x0a, 0xdc, 0xd7, 0xcc, 0x67, 0x86, 0x40, 0xdb, 0x02, 0xc8, 0x27, 0xc7],
    [0x78, 0xe4, 0xb5, 0x30, 0x3f, 0xca, 0x2a, 0x45, 0x7f, 0xd0, 0x1e, 0xc9, 0x16, 0x91, 0x9e, 0xe8],
    [0xe5, 0x7c, 0x7b, 0x1c, 0x37, 0xc3, 0x79, 0x19, 0x69, 0x33, 0x93, 0xfb, 0xbd, 0x51, 0xd9, 0xf0],
    [0xb4, 0x9c, 0x57, 0x23, 0x29, 0x09, 0x7a, 0xa6, 0x96, 0x73, 0x92, 0x5f, 0x15, 0x53, 0x28, 0xf8],
    [0x76, 0x88, 0x11, 0x49, 0x20, 0x59, 0x9b, 0x0c, 0x6c, 0xef, 0xae, 0x41, 0xa0, 0xa7, 0x94, 0x99],
    [0xd6, 0x00, 0xfd, 0xbe, 0x35, 0x3b, 0xb2, 0x39, 0x85, 0xe1, 0x34, 0xeb, 0x12, 0x2c, 0xcf, 0xd3],
    [0x61, 0x2e, 0xd8, 0xd2, 0xfa, 0x2f, 0x89, 0x8d, 0x95, 0xe2, 0x87, 0x90, 0x6d, 0x0b, 0x6b, 0x46],
    [0x4b, 0xf6, 0x10, 0x26, 0x17, 0xe6, 0xec, 0xed, 0xab, 0xb6, 0x01, 0x5c, 0x71, 0x5e, 0x8f, 0x9d],
    [0x08, 0x42, 0x05, 0xaf, 0xb0, 0x31, 0x81, 0x98, 0xf7, 0x13, 0x4d, 0xcb, 0x4c, 0x7d, 0x6f, 0x55],
    [0xee, 0x48, 0x2b, 0x56, 0x0e, 0x7e, 0xb3, 0xf2, 0x68, 0x80, 0x9a, 0x60, 0x9f, 0xf1, 0xc0, 0x6e],
    [0x47, 0xb8, 0xa5, 0x0d, 0xf9, 0xc4, 0x70, 0xa2, 0x3c, 0x6a, 0xb9, 0xe0, 0x64, 0xba, 0x36, 0x83],
    [0x50, 0x25, 0xa3, 0x66, 0x8e, 0x77, 0xbb, 0xd1, 0x1b, 0x14, 0x52, 0x65, 0x38, 0x3e, 0xd4, 0x1f],
    [0x04, 0xa8, 0x5d, 0xa1, 0x3d, 0x43, 0x4a, 0xce, 0xc2, 0x72, 0xda, 0x1d, 0xc5, 0x5a, 0x58, 0x8b],
    [0x54, 0x06, 0xdf, 0x22, 0xfc, 0x2d, 0x8c, 0x21, 0xea, 0xd5, 0x03, 0xbc, 0xb1, 0xf3, 0x82, 0xa9],
    [0x4e, 0xf5, 0x8a, 0x1a, 0xdd, 0x07, 0x3a, 0xe3, 0xde, 0x4f, 0xa4, 0xcd, 0x97, 0x32, 0xb7, 0xfe],
    [0x0f, 0xc6, 0x74, 0xac, 0xad, 0xe9, 0x62, 0x18, 0xbf, 0xaa, 0x24, 0x84, 0xf4, 0xff, 0x44, 0x5b]]"

definition TABLE_S2_135 :: "bytes" where
  "TABLE_S2_135 = concat [
    [0x9c, 0xb9, 0x60, 0x26, 0x92, 0x8d, 0x23, 0x04, 0x2c, 0x14, 0xb7, 0x5f, 0x02, 0x86, 0x0b, 0x2d],
    [0x43, 0xa3, 0xeb, 0x7d, 0x32, 0x7a, 0x59, 0xc6, 0x29, 0xf5, 0x3e, 0x20, 0x5c, 0xd0, 0x54, 0x10],
    [0x3d, 0xbc, 0x74, 0x07, 0x19, 0xa0, 0xf4, 0x63, 0x91, 0x97, 0xf1, 0xcd, 0x70, 0xe4, 0x11, 0x03],
    [0x3b, 0x21, 0x01, 0x6b, 0x9e, 0x6f, 0x68, 0x3f, 0xf0, 0xde, 0x67, 0x5d, 0xee, 0xe9, 0xff, 0x5b],
    [0xcb, 0x73, 0x55, 0x40, 0x15, 0xd8, 0x0c, 0x3c, 0x49, 0xc1, 0x38, 0x94, 0xf3, 0x61, 0xfe, 0x9f],
    [0x85, 0x42, 0xe7, 0x0a, 0x9d, 0x34, 0x44, 0xa5, 0x62, 0xba, 0xc5, 0x82, 0xe1, 0x79, 0xc8, 0xe0],
    [0xa4, 0x5a, 0x8a, 0x4a, 0x46, 0x88, 0x1f, 0xb5, 0x12, 0x0f, 0xab, 0x50, 0xdb, 0x80, 0xd1, 0xe6],
    [0xcf, 0x4d, 0x78, 0x4e, 0x3a, 0x4f, 0xfd, 0x31, 0xf7, 0x8f, 0x8b, 0x64, 0x33, 0xd7, 0xa1, 0x1d],
    [0x13, 0xb2, 0xb0, 0xf2, 0x09, 0x7f, 0x7c, 0xb4, 0xa8, 0xad, 0xc4, 0x1e, 0xce, 0xae, 0xd3, 0xaf],
    [0xc0, 0x89, 0x4c, 0xfb, 0x24, 0xb1, 0x76, 0x9a, 0x6e, 0xc3, 0x4b, 0xb8, 0xdd, 0xe8, 0x72, 0x87],
    [0xc2, 0x17, 0x58, 0x0d, 0xea, 0x2b, 0x84, 0x56, 0x53, 0x6d, 0x95, 0xf9, 0x16, 0x69, 0x18, 0xb6],
    [0x98, 0xd4, 0xac, 0x27, 0x0e, 0x7e, 0x05, 0xa6, 0xd9, 0x30, 0xd5, 0xf8, 0x08, 0xd6, 0x28, 0x1b],
    [0xd2, 0x99, 0x96, 0x39, 0xda, 0x65, 0xc9, 0x47, 0x6c, 0xc7, 0x2a, 0xb3, 0x1c, 0x8c, 0x57, 0x7b],
    [0x5e, 0x36, 0x2e, 0xcc, 0xe3, 0x6a, 0x2f, 0xbe, 0x83, 0x06, 0xbd, 0x45, 0x75, 0x66, 0x8e, 0xdc],
    [0x1a, 0xe5, 0x25, 0x48, 0xaa, 0xbb, 0xf6, 0xfc, 0xa9, 0x41, 0x35, 0x37, 0x51, 0xef, 0x00, 0xdf],
    [0xe2, 0xfa, 0xed, 0x90, 0x71, 0xa7, 0x22, 0xbf, 0x77, 0x81, 0xca, 0x93, 0x9b, 0xec, 0xa2, 0x52]]"

definition TABLE_S2_136 :: "bytes" where
  "TABLE_S2_136 = concat [
    [0xa1, 0x07, 0xbf, 0xc2, 0x97, 0xe7, 0x1b, 0x5a, 0x69, 0x81, 0x89, 0x73, 0x18, 0x76, 0x87, 0x29],
    [0xab, 0xe1, 0x46, 0xec, 0xd8, 0x59, 0x71, 0x68, 0xfa, 0x1e, 0x22, 0xa4, 0x94, 0xa5, 0xbc, 0x86],
    [0xcc, 0xb9, 0x8f, 0x4a, 0x9e, 0x67, 0x38, 0x52, 0xfd, 0xf2, 0x8c, 0xbb, 0xd7, 0xd1, 0xf6, 0x3d],
    [0x51, 0xae, 0xe4, 0x4c, 0x2d, 0x10, 0x4b, 0x99, 0x83, 0xd5, 0x09, 0x50, 0x53, 0x8d, 0x6a, 0xdf],
    [0xef, 0xbd, 0xcb, 0x36, 0xc4, 0x15, 0xc8, 0x65, 0x3c, 0x03, 0x55, 0xea, 0x1a, 0x58, 0x40, 0x6b],
    [0x41, 0xed, 0x48, 0xb4, 0xaa, 0xd4, 0x27, 0xa3, 0x9b, 0x2b, 0xf4, 0x33, 0xb3, 0x2c, 0x62, 0xb1],
    [0x2f, 0xe6, 0x45, 0x9d, 0x00, 0x44, 0xf1, 0x8b, 0x43, 0x56, 0x6d, 0xcd, 0x16, 0x1d, 0xb2, 0xad],
    [0x1c, 0xa7, 0xf3, 0x63, 0xee, 0x34, 0x0a, 0xd3, 0xa6, 0x37, 0x24, 0x4d, 0xdb, 0x7e, 0x17, 0x5e],
    [0x0d, 0x91, 0xd9, 0x5c, 0x23, 0xd6, 0xac, 0xc3, 0x39, 0x96, 0x20, 0xf7, 0x78, 0xff, 0x01, 0x77],
    [0x28, 0x8a, 0x9c, 0x0e, 0x35, 0xe3, 0x25, 0x3e, 0x6f, 0x8e, 0x32, 0xa9, 0x21, 0xeb, 0x2e, 0xce],
    [0x75, 0x5d, 0xca, 0xbe, 0xe0, 0xc0, 0x4f, 0x93, 0x9a, 0x7f, 0xb6, 0x7b, 0xba, 0xfc, 0x11, 0xc1],
    [0x95, 0x0c, 0xf5, 0x92, 0x2a, 0xde, 0xf0, 0x90, 0xda, 0x80, 0x12, 0x7a, 0xb8, 0x54, 0x19, 0x30],
    [0xe9, 0x3f, 0x57, 0x14, 0xd2, 0xdc, 0xd0, 0x5b, 0x08, 0x6c, 0x02, 0xdd, 0xc5, 0xfb, 0x3a, 0x26],
    [0x61, 0x9f, 0xa0, 0xf8, 0xb0, 0xc9, 0xe5, 0x72, 0x06, 0x85, 0xa8, 0x47, 0x4e, 0x49, 0x70, 0x7d],
    [0x1f, 0xa2, 0xcf, 0xf9, 0x0f, 0xfe, 0x04, 0x05, 0x5f, 0x42, 0xb5, 0xe8, 0xb7, 0x98, 0x74, 0x66],
    [0xc7, 0x88, 0x3b, 0x31, 0xc6, 0x13, 0x64, 0x60, 0x0b, 0x7c, 0x79, 0x6e, 0xe2, 0x84, 0xaf, 0x82]]"

definition TABLE_S2_137 :: "bytes" where
  "TABLE_S2_137 = concat [
    [0x28, 0xef, 0x30, 0x80, 0xaa, 0x79, 0x37, 0xa8, 0xaf, 0x53, 0xf6, 0x5a, 0xb8, 0x3c, 0xcf, 0xb1],
    [0xf1, 0x4e, 0x18, 0x27, 0x70, 0x5b, 0x43, 0x01, 0x2d, 0xd0, 0xa6, 0xf4, 0x7e, 0xd3, 0x0e, 0xdf],
    [0x56, 0x3f, 0x2c, 0xbd, 0x45, 0x0c, 0x65, 0xc0, 0x78, 0xe8, 0xbc, 0x07, 0xc8, 0x11, 0x2f, 0xf5],
    [0xd6, 0x76, 0x4d, 0x58, 0xb6, 0xa9, 0x06, 0x0d, 0x86, 0x5e, 0xfd, 0x34, 0x90, 0xea, 0x5f, 0x1b],
    [0xbf, 0x39, 0x05, 0xe1, 0x9d, 0xa7, 0xbe, 0x8f, 0xf7, 0x5d, 0xfa, 0xb0, 0x73, 0x6a, 0x42, 0xc3],
    [0x68, 0x92, 0x9a, 0x72, 0x32, 0x9c, 0x6d, 0x03, 0xd9, 0xa4, 0x1c, 0xba, 0x41, 0x00, 0xfc, 0x8c],
    [0x4b, 0x12, 0xce, 0x98, 0xc4, 0x71, 0x96, 0x48, 0x57, 0xff, 0xb5, 0x4a, 0x82, 0x50, 0x0b, 0x36],
    [0xa0, 0x97, 0xe9, 0xe6, 0x26, 0xed, 0xca, 0xcc, 0x51, 0x94, 0xa2, 0xd7, 0x49, 0x23, 0x7c, 0x85],
    [0x5c, 0xb3, 0x9e, 0x1d, 0x66, 0x6b, 0x52, 0x55, 0xe3, 0xbb, 0x84, 0x7a, 0x69, 0xfe, 0xd2, 0xab],
    [0xc6, 0x19, 0x77, 0x13, 0x3d, 0x21, 0xe0, 0xde, 0x0f, 0x4c, 0x24, 0xf2, 0x40, 0xcb, 0xc7, 0xc9],
    [0x75, 0x62, 0x67, 0x10, 0x99, 0xb4, 0x9f, 0xf9, 0x2a, 0x20, 0x93, 0xdc, 0x7b, 0x7f, 0x08, 0xdd],
    [0xf3, 0xae, 0x59, 0x44, 0x7d, 0x6f, 0x83, 0xac, 0xe2, 0xd4, 0xb9, 0x04, 0x1e, 0x1f, 0xe5, 0x14],
    [0xb2, 0x29, 0x95, 0x74, 0xd5, 0x35, 0xf0, 0x3a, 0x15, 0x87, 0x91, 0x33, 0x25, 0x3e, 0xf8, 0x2e],
    [0xec, 0x3b, 0x8d, 0x22, 0x6c, 0x1a, 0xe4, 0x63, 0x47, 0xc2, 0x8a, 0x16, 0xd8, 0xb7, 0xcd, 0x38],
    [0x61, 0x09, 0x9b, 0xc1, 0x2b, 0x02, 0x4f, 0xa3, 0x89, 0xee, 0x17, 0x8e, 0x8b, 0xeb, 0xc5, 0x31],
    [0x60, 0xad, 0x64, 0x81, 0xda, 0x0a, 0xe7, 0xa1, 0xa5, 0xd1, 0x46, 0x6e, 0x88, 0x54, 0xdb, 0xfb]]"

definition TABLE_S2_138 :: "bytes" where
  "TABLE_S2_138 = concat [
    [0xc8, 0x1a, 0xb5, 0x74, 0x93, 0xc6, 0x89, 0x5c, 0x28, 0x86, 0xf7, 0x88, 0x67, 0x0b, 0xf3, 0xcd],
    [0x38, 0x9b, 0xe0, 0x90, 0xb9, 0x32, 0x4a, 0x06, 0x85, 0xb6, 0x48, 0x96, 0x66, 0x4b, 0xae, 0x47],
    [0x2a, 0xe2, 0xe1, 0x97, 0x6c, 0x2e, 0x2c, 0x8d, 0x31, 0x4d, 0x30, 0x50, 0x80, 0x5a, 0x33, 0x36],
    [0x04, 0xe8, 0x2f, 0xba, 0x65, 0xd2, 0x17, 0x5e, 0x19, 0xec, 0x76, 0x43, 0x26, 0xd5, 0x5d, 0xf0],
    [0x62, 0x68, 0x25, 0x34, 0xd6, 0xbb, 0x7b, 0x84, 0x41, 0x9e, 0x71, 0xcf, 0xa9, 0xab, 0xdf, 0x37],
    [0x21, 0xbc, 0x39, 0xef, 0x0e, 0x73, 0x64, 0x7c, 0xcc, 0x3c, 0x72, 0x05, 0x0d, 0x54, 0x1f, 0xe9],
    [0xd9, 0x57, 0xfb, 0x44, 0xa7, 0x08, 0x07, 0x4c, 0xe5, 0xc9, 0x12, 0x82, 0x2d, 0xb4, 0x59, 0xf2],
    [0x20, 0xb1, 0xf4, 0x7d, 0x52, 0xb0, 0xa8, 0xc0, 0x42, 0x10, 0xf8, 0xeb, 0xdb, 0x23, 0x98, 0x1d],
    [0xfd, 0x6a, 0x3e, 0x87, 0x99, 0xea, 0x22, 0xa3, 0x9d, 0x8f, 0x7a, 0xee, 0x53, 0x6f, 0x09, 0x0f],
    [0xa1, 0xf6, 0xf1, 0x00, 0xf5, 0x9f, 0xbf, 0xa5, 0xc5, 0x61, 0x77, 0x70, 0xc3, 0xf9, 0x40, 0x6e],
    [0x9a, 0xbd, 0x13, 0x0c, 0xb8, 0xfe, 0x27, 0x02, 0xb3, 0x95, 0x18, 0x9c, 0xc1, 0x29, 0x8a, 0xb2],
    [0x58, 0xc7, 0xe4, 0xac, 0xe3, 0x75, 0x3d, 0xdd, 0x8e, 0xca, 0x4e, 0xc2, 0xbe, 0xa0, 0x6b, 0xb7],
    [0x2b, 0x81, 0x16, 0xd8, 0xd4, 0x14, 0xc4, 0x3a, 0x78, 0x4f, 0x1e, 0x45, 0xce, 0x35, 0x91, 0x8c],
    [0xaf, 0x63, 0xd1, 0xa4, 0xd0, 0xe6, 0xd3, 0x51, 0x83, 0x3f, 0x49, 0xad, 0xfa, 0x15, 0x11, 0x69],
    [0xa2, 0x92, 0x46, 0x8b, 0xde, 0xcb, 0xed, 0x55, 0x01, 0x60, 0xff, 0x6d, 0x0a, 0xa6, 0x5f, 0xd7],
    [0x3b, 0xda, 0xaa, 0x03, 0x94, 0x79, 0xdc, 0x1b, 0x7e, 0x56, 0xe7, 0x7f, 0x1c, 0x5b, 0x24, 0xfc]]"

definition TABLE_S2_139 :: "bytes" where
  "TABLE_S2_139 = concat [
    [0xf0, 0x0c, 0xf9, 0x55, 0x9f, 0x1b, 0x12, 0x6c, 0x4c, 0x8b, 0x23, 0x93, 0xda, 0x09, 0x0b, 0x94],
    [0x73, 0x8e, 0x57, 0x05, 0x70, 0xdd, 0x7c, 0xad, 0xed, 0x52, 0x84, 0xbb, 0xf8, 0xd3, 0xa2, 0xe0],
    [0x4b, 0xdb, 0xa4, 0x1f, 0xb2, 0x6b, 0x56, 0x8c, 0x9c, 0xf5, 0x1e, 0x8f, 0xaf, 0xe6, 0x63, 0xc6],
    [0xfd, 0x25, 0x97, 0x5e, 0x49, 0x33, 0xb8, 0xfc, 0xd5, 0x75, 0xfb, 0xee, 0x0a, 0x15, 0xae, 0xa5],
    [0xfe, 0x54, 0x13, 0x59, 0xc9, 0xd0, 0x60, 0xe1, 0x9a, 0x1c, 0x42, 0xa6, 0x04, 0x3e, 0x2c, 0x1d],
    [0x07, 0x7a, 0x19, 0xbf, 0xa3, 0xe2, 0x2f, 0x5f, 0x31, 0xcb, 0xd1, 0x39, 0x3f, 0x91, 0xa0, 0xce],
    [0x5c, 0xf4, 0xe9, 0x16, 0xf3, 0x21, 0x95, 0xa8, 0xb1, 0xe8, 0x3b, 0x6d, 0xd2, 0x67, 0xeb, 0x35],
    [0x37, 0xf2, 0x74, 0x01, 0x80, 0xea, 0x26, 0xdf, 0x34, 0x03, 0x45, 0x4a, 0x4e, 0x85, 0x6f, 0x69],
    [0x18, 0x40, 0xd9, 0x27, 0x5d, 0xca, 0x08, 0x71, 0x10, 0xff, 0xbe, 0x3d, 0xc8, 0xc5, 0xf6, 0xf1],
    [0xef, 0xac, 0x51, 0x87, 0x68, 0xe3, 0x6a, 0x64, 0xba, 0x65, 0xb0, 0xd4, 0x82, 0x9e, 0x7d, 0x43],
    [0x83, 0x89, 0x7f, 0x30, 0xdc, 0xd8, 0x7e, 0xab, 0xc1, 0xd6, 0xb3, 0xc4, 0x17, 0x3a, 0x5a, 0x3c],
    [0x77, 0x41, 0xa7, 0x1a, 0xbc, 0xbd, 0xb7, 0x46, 0x0d, 0x50, 0xe7, 0xfa, 0xcc, 0xde, 0x0f, 0x20],
    [0x24, 0xb6, 0x90, 0x32, 0x9d, 0x86, 0x8d, 0x5b, 0x8a, 0x11, 0xd7, 0x36, 0x96, 0x76, 0x99, 0x53],
    [0x61, 0xe4, 0xb5, 0x29, 0x14, 0x7b, 0x9b, 0x6e, 0x98, 0x4f, 0x81, 0x2e, 0xb9, 0xcf, 0xc0, 0x47],
    [0x4d, 0x2a, 0x2d, 0xb4, 0x48, 0x28, 0x92, 0x66, 0xaa, 0xc2, 0x62, 0x38, 0xa1, 0x88, 0x00, 0xec],
    [0x72, 0x06, 0xcd, 0xe5, 0xf7, 0x2b, 0x58, 0x78, 0x0e, 0xc3, 0x22, 0xc7, 0xa9, 0x79, 0x02, 0x44]]"

definition TABLE_S2_140 :: "bytes" where
  "TABLE_S2_140 = concat [
    [0x8f, 0x29, 0x91, 0xec, 0xb9, 0xc9, 0x35, 0x74, 0x47, 0xaf, 0xa7, 0x5d, 0x36, 0x58, 0xa9, 0x07],
    [0x85, 0xcf, 0x68, 0xc2, 0xf6, 0x77, 0x5f, 0x46, 0xd4, 0x30, 0x0c, 0x8a, 0xba, 0x8b, 0x92, 0xa8],
    [0xe2, 0x97, 0xa1, 0x64, 0xb0, 0x49, 0x16, 0x7c, 0xd3, 0xdc, 0xa2, 0x95, 0xf9, 0xff, 0xd8, 0x13],
    [0x7f, 0x80, 0xca, 0x62, 0x03, 0x3e, 0x65, 0xb7, 0xad, 0xfb, 0x27, 0x7e, 0x7d, 0xa3, 0x44, 0xf1],
    [0xc1, 0x93, 0xe5, 0x18, 0xea, 0x3b, 0xe6, 0x4b, 0x12, 0x2d, 0x7b, 0xc4, 0x34, 0x76, 0x6e, 0x45],
    [0x6f, 0xc3, 0x66, 0x9a, 0x84, 0xfa, 0x09, 0x8d, 0xb5, 0x05, 0xda, 0x1d, 0x9d, 0x02, 0x4c, 0x9f],
    [0x01, 0xc8, 0x6b, 0xb3, 0x2e, 0x6a, 0xdf, 0xa5, 0x6d, 0x78, 0x43, 0xe3, 0x38, 0x33, 0x9c, 0x83],
    [0x32, 0x89, 0xdd, 0x4d, 0xc0, 0x1a, 0x24, 0xfd, 0x88, 0x19, 0x0a, 0x63, 0xf5, 0x50, 0x39, 0x70],
    [0x23, 0xbf, 0xf7, 0x72, 0x0d, 0xf8, 0x82, 0xed, 0x17, 0xb8, 0x0e, 0xd9, 0x56, 0xd1, 0x2f, 0x59],
    [0x06, 0xa4, 0xb2, 0x20, 0x1b, 0xcd, 0x0b, 0x10, 0x41, 0xa0, 0x1c, 0x87, 0x0f, 0xc5, 0x00, 0xe0],
    [0x5b, 0x73, 0xe4, 0x90, 0xce, 0xee, 0x61, 0xbd, 0xb4, 0x51, 0x98, 0x55, 0x94, 0xd2, 0x3f, 0xef],
    [0xbb, 0x22, 0xdb, 0xbc, 0x04, 0xf0, 0xde, 0xbe, 0xf4, 0xae, 0x3c, 0x54, 0x96, 0x7a, 0x37, 0x1e],
    [0xc7, 0x11, 0x79, 0x3a, 0xfc, 0xf2, 0xfe, 0x75, 0x26, 0x42, 0x2c, 0xf3, 0xeb, 0xd5, 0x14, 0x08],
    [0x4f, 0xb1, 0x8e, 0xd6, 0x9e, 0xe7, 0xcb, 0x5c, 0x28, 0xab, 0x86, 0x69, 0x60, 0x67, 0x5e, 0x53],
    [0x31, 0x8c, 0xe1, 0xd7, 0x21, 0xd0, 0x2a, 0x2b, 0x71, 0x6c, 0x9b, 0xc6, 0x99, 0xb6, 0x5a, 0x48],
    [0xe9, 0xa6, 0x15, 0x1f, 0xe8, 0x3d, 0x4a, 0x4e, 0x25, 0x52, 0x57, 0x40, 0xcc, 0xaa, 0x81, 0xac]]"

definition TABLE_S2_141 :: "bytes" where
  "TABLE_S2_141 = concat [
    [0xa7, 0x25, 0x10, 0x26, 0x52, 0x27, 0x95, 0x59, 0x9f, 0xe7, 0xe3, 0x0c, 0x5b, 0xbf, 0xc9, 0x75],
    [0xcc, 0x32, 0xe2, 0x22, 0x2e, 0xe0, 0x77, 0xdd, 0x7a, 0x67, 0xc3, 0x38, 0xb3, 0xe8, 0xb9, 0x8e],
    [0xed, 0x2a, 0x8f, 0x62, 0xf5, 0x5c, 0x2c, 0xcd, 0x0a, 0xd2, 0xad, 0xea, 0x89, 0x11, 0xa0, 0x88],
    [0xa3, 0x1b, 0x3d, 0x28, 0x7d, 0xb0, 0x64, 0x54, 0x21, 0xa9, 0x50, 0xfc, 0x9b, 0x09, 0x96, 0xf7],
    [0x53, 0x49, 0x69, 0x03, 0xf6, 0x07, 0x00, 0x57, 0x98, 0xb6, 0x0f, 0x35, 0x86, 0x81, 0x97, 0x33],
    [0x55, 0xd4, 0x1c, 0x6f, 0x71, 0xc8, 0x9c, 0x0b, 0xf9, 0xff, 0x99, 0xa5, 0x18, 0x8c, 0x79, 0x6b],
    [0x2b, 0xcb, 0x83, 0x15, 0x5a, 0x12, 0x31, 0xae, 0x41, 0x9d, 0x56, 0x48, 0x34, 0xb8, 0x3c, 0x78],
    [0xf4, 0xd1, 0x08, 0x4e, 0xfa, 0xe5, 0x4b, 0x6c, 0x44, 0x7c, 0xdf, 0x37, 0x6a, 0xee, 0x63, 0x45],
    [0x8a, 0x92, 0x85, 0xf8, 0x19, 0xcf, 0x4a, 0xd7, 0x1f, 0xe9, 0xa2, 0xfb, 0xf3, 0x84, 0xca, 0x3a],
    [0x72, 0x8d, 0x4d, 0x20, 0xc2, 0xd3, 0x9e, 0x94, 0xc1, 0x29, 0x5d, 0x5f, 0x39, 0x87, 0x68, 0xb7],
    [0x36, 0x5e, 0x46, 0xa4, 0x8b, 0x02, 0x47, 0xd6, 0xeb, 0x6e, 0xd5, 0x2d, 0x1d, 0x0e, 0xe6, 0xb4],
    [0xba, 0xf1, 0xfe, 0x51, 0xb2, 0x0d, 0xa1, 0x2f, 0x04, 0xaf, 0x42, 0xdb, 0x74, 0xe4, 0x3f, 0x13],
    [0xf0, 0xbc, 0xc4, 0x4f, 0x66, 0x16, 0x6d, 0xce, 0xb1, 0x58, 0xbd, 0x90, 0x60, 0xbe, 0x40, 0x73],
    [0xaa, 0x7f, 0x30, 0x65, 0x82, 0x43, 0xec, 0x3e, 0x3b, 0x05, 0xfd, 0x91, 0x7e, 0x01, 0x70, 0xde],
    [0xa8, 0xe1, 0x24, 0x93, 0x4c, 0xd9, 0x1e, 0xf2, 0x06, 0xab, 0x23, 0xd0, 0xb5, 0x80, 0x1a, 0xef],
    [0x7b, 0xda, 0xd8, 0x9a, 0x61, 0x17, 0x14, 0xdc, 0xc0, 0xc5, 0xac, 0x76, 0xa6, 0xc6, 0xbb, 0xc7]]"

definition TABLE_S2_142 :: "bytes" where
  "TABLE_S2_142 = concat [
    [0x7e, 0xdc, 0xfa, 0x68, 0x17, 0xc1, 0xca, 0xd1, 0x7a, 0x9b, 0x5d, 0xc6, 0x1f, 0xd5, 0x3a, 0xda],
    [0x65, 0xf9, 0xa8, 0x2d, 0x22, 0xd7, 0x37, 0x58, 0x62, 0xcd, 0x03, 0xd4, 0x0b, 0x8c, 0x83, 0xf5],
    [0xf8, 0x61, 0x66, 0x01, 0x2a, 0xde, 0x64, 0x04, 0x74, 0x2e, 0x8e, 0xe6, 0xa0, 0x4c, 0xc4, 0xed],
    [0xa9, 0x81, 0x4a, 0x3e, 0x34, 0x14, 0x67, 0xbb, 0x8b, 0x6e, 0x8f, 0x42, 0x08, 0x4e, 0x35, 0xe5],
    [0x6b, 0x95, 0x0c, 0x54, 0x3d, 0x44, 0x86, 0x11, 0x71, 0xf2, 0xb3, 0x5c, 0xbd, 0xba, 0x89, 0x84],
    [0xcb, 0x1d, 0xe0, 0xa3, 0x28, 0x26, 0xaf, 0x24, 0x98, 0xfc, 0x29, 0xf6, 0x0f, 0x31, 0xd2, 0xce],
    [0x7c, 0x33, 0xc5, 0xcf, 0xe7, 0x32, 0x94, 0x90, 0x88, 0xff, 0x9a, 0x8d, 0x70, 0x16, 0x76, 0x5b],
    [0x56, 0xeb, 0x0d, 0x3b, 0x0a, 0xfb, 0xf1, 0xf0, 0xb6, 0xab, 0x1c, 0x41, 0x6c, 0x43, 0x92, 0x80],
    [0x15, 0x5f, 0x18, 0xb2, 0xad, 0x2c, 0x9c, 0x85, 0xea, 0x0e, 0x50, 0xd6, 0x51, 0x60, 0x72, 0x48],
    [0xf3, 0x55, 0x36, 0x4b, 0x13, 0x63, 0xae, 0xef, 0x75, 0x9d, 0x87, 0x7d, 0x82, 0xec, 0xdd, 0x73],
    [0x5a, 0xa5, 0xb8, 0x10, 0xe4, 0xd9, 0x6d, 0xbf, 0x21, 0x77, 0xa4, 0xfd, 0x79, 0xa7, 0x2b, 0x9e],
    [0x4d, 0x38, 0xbe, 0x7b, 0x93, 0x6a, 0xa6, 0xcc, 0x06, 0x09, 0x4f, 0x78, 0x25, 0x23, 0xc9, 0x02],
    [0x19, 0xb5, 0x40, 0xbc, 0x20, 0x5e, 0x57, 0xd3, 0xdf, 0x6f, 0xc7, 0x00, 0xd8, 0x47, 0x45, 0x96],
    [0x49, 0x1b, 0xc2, 0x3f, 0xe1, 0x30, 0x91, 0x3c, 0xf7, 0xc8, 0x1e, 0xa1, 0xac, 0xee, 0x9f, 0xb4],
    [0x53, 0xe8, 0x97, 0x07, 0xc0, 0x1a, 0x27, 0xfe, 0xc3, 0x52, 0xb9, 0xd0, 0x8a, 0x2f, 0xaa, 0xe3],
    [0x12, 0xdb, 0x69, 0xb1, 0xb0, 0xf4, 0x7f, 0x05, 0xa2, 0xb7, 0x39, 0x99, 0xe9, 0xe2, 0x59, 0x46]]"

definition TABLE_S2_143 :: "bytes" where
  "TABLE_S2_143 = concat [
    [0x54, 0xa8, 0x5d, 0xf1, 0x3b, 0xbf, 0xb6, 0xc8, 0xe8, 0x2f, 0x87, 0x37, 0x7e, 0xad, 0xaf, 0x30],
    [0xd7, 0x2a, 0xf3, 0xa1, 0xd4, 0x79, 0xd8, 0x09, 0x49, 0xf6, 0x20, 0x1f, 0x5c, 0x77, 0x06, 0x44],
    [0xef, 0x7f, 0x00, 0xbb, 0x16, 0xcf, 0xf2, 0x28, 0x38, 0x51, 0xba, 0x2b, 0x0b, 0x42, 0xc7, 0x62],
    [0x59, 0x81, 0x33, 0xfa, 0xed, 0x97, 0x1c, 0x58, 0x71, 0xd1, 0x5f, 0x4a, 0xae, 0xb1, 0x0a, 0x01],
    [0x5a, 0xf0, 0xb7, 0xfd, 0x6d, 0x74, 0xc4, 0x45, 0x3e, 0xb8, 0xe6, 0x02, 0xa0, 0x9a, 0x88, 0xb9],
    [0xa3, 0xde, 0xbd, 0x1b, 0x07, 0x46, 0x8b, 0xfb, 0x95, 0x6f, 0x75, 0x9d, 0x9b, 0x35, 0x04, 0x6a],
    [0xf8, 0x50, 0x4d, 0xb2, 0x57, 0x85, 0x31, 0x0c, 0x15, 0x4c, 0x9f, 0xc9, 0x76, 0xc3, 0x4f, 0x91],
    [0x93, 0x56, 0xd0, 0xa5, 0x24, 0x4e, 0x82, 0x7b, 0x90, 0xa7, 0xe1, 0xee, 0xea, 0x21, 0xcb, 0xcd],
    [0xbc, 0xe4, 0x7d, 0x83, 0xf9, 0x6e, 0xac, 0xd5, 0xb4, 0x5b, 0x1a, 0x99, 0x6c, 0x61, 0x52, 0x55],
    [0x4b, 0x08, 0xf5, 0x23, 0xcc, 0x47, 0xce, 0xc0, 0x1e, 0xc1, 0x14, 0x70, 0x26, 0x3a, 0xd9, 0xe7],
    [0x27, 0x2d, 0xdb, 0x94, 0x78, 0x7c, 0xda, 0x0f, 0x65, 0x72, 0x17, 0x60, 0xb3, 0x9e, 0xfe, 0x98],
    [0xd3, 0xe5, 0x03, 0xbe, 0x18, 0x19, 0x13, 0xe2, 0xa9, 0xf4, 0x43, 0x5e, 0x68, 0x7a, 0xab, 0x84],
    [0x80, 0x12, 0x34, 0x96, 0x39, 0x22, 0x29, 0xff, 0x2e, 0xb5, 0x73, 0x92, 0x32, 0xd2, 0x3d, 0xf7],
    [0xc5, 0x40, 0x11, 0x8d, 0xb0, 0xdf, 0x3f, 0xca, 0x3c, 0xeb, 0x25, 0x8a, 0x1d, 0x6b, 0x64, 0xe3],
    [0xe9, 0x8e, 0x89, 0x10, 0xec, 0x8c, 0x36, 0xc2, 0x0e, 0x66, 0xc6, 0x9c, 0x05, 0x2c, 0xa4, 0x48],
    [0xd6, 0xa2, 0x69, 0x41, 0x53, 0x8f, 0xfc, 0xdc, 0xaa, 0x67, 0x86, 0x63, 0x0d, 0xdd, 0xa6, 0xe0]]"

definition TABLE_S2_rows :: "bytes list" where
  "TABLE_S2_rows = [
    TABLE_S2_0, TABLE_S2_1, TABLE_S2_2, TABLE_S2_3, TABLE_S2_4, TABLE_S2_5, TABLE_S2_6, TABLE_S2_7,
    TABLE_S2_8, TABLE_S2_9, TABLE_S2_10, TABLE_S2_11, TABLE_S2_12, TABLE_S2_13, TABLE_S2_14,
    TABLE_S2_15, TABLE_S2_16, TABLE_S2_17, TABLE_S2_18, TABLE_S2_19, TABLE_S2_20, TABLE_S2_21,
    TABLE_S2_22, TABLE_S2_23, TABLE_S2_24, TABLE_S2_25, TABLE_S2_26, TABLE_S2_27, TABLE_S2_28,
    TABLE_S2_29, TABLE_S2_30, TABLE_S2_31, TABLE_S2_32, TABLE_S2_33, TABLE_S2_34, TABLE_S2_35,
    TABLE_S2_36, TABLE_S2_37, TABLE_S2_38, TABLE_S2_39, TABLE_S2_40, TABLE_S2_41, TABLE_S2_42,
    TABLE_S2_43, TABLE_S2_44, TABLE_S2_45, TABLE_S2_46, TABLE_S2_47, TABLE_S2_48, TABLE_S2_49,
    TABLE_S2_50, TABLE_S2_51, TABLE_S2_52, TABLE_S2_53, TABLE_S2_54, TABLE_S2_55, TABLE_S2_56,
    TABLE_S2_57, TABLE_S2_58, TABLE_S2_59, TABLE_S2_60, TABLE_S2_61, TABLE_S2_62, TABLE_S2_63,
    TABLE_S2_64, TABLE_S2_65, TABLE_S2_66, TABLE_S2_67, TABLE_S2_68, TABLE_S2_69, TABLE_S2_70,
    TABLE_S2_71, TABLE_S2_72, TABLE_S2_73, TABLE_S2_74, TABLE_S2_75, TABLE_S2_76, TABLE_S2_77,
    TABLE_S2_78, TABLE_S2_79, TABLE_S2_80, TABLE_S2_81, TABLE_S2_82, TABLE_S2_83, TABLE_S2_84,
    TABLE_S2_85, TABLE_S2_86, TABLE_S2_87, TABLE_S2_88, TABLE_S2_89, TABLE_S2_90, TABLE_S2_91,
    TABLE_S2_92, TABLE_S2_93, TABLE_S2_94, TABLE_S2_95, TABLE_S2_96, TABLE_S2_97, TABLE_S2_98,
    TABLE_S2_99, TABLE_S2_100, TABLE_S2_101, TABLE_S2_102, TABLE_S2_103, TABLE_S2_104,
    TABLE_S2_105, TABLE_S2_106, TABLE_S2_107, TABLE_S2_108, TABLE_S2_109, TABLE_S2_110,
    TABLE_S2_111, TABLE_S2_112, TABLE_S2_113, TABLE_S2_114, TABLE_S2_115, TABLE_S2_116,
    TABLE_S2_117, TABLE_S2_118, TABLE_S2_119, TABLE_S2_120, TABLE_S2_121, TABLE_S2_122,
    TABLE_S2_123, TABLE_S2_124, TABLE_S2_125, TABLE_S2_126, TABLE_S2_127, TABLE_S2_128,
    TABLE_S2_129, TABLE_S2_130, TABLE_S2_131, TABLE_S2_132, TABLE_S2_133, TABLE_S2_134,
    TABLE_S2_135, TABLE_S2_136, TABLE_S2_137, TABLE_S2_138, TABLE_S2_139, TABLE_S2_140,
    TABLE_S2_141, TABLE_S2_142, TABLE_S2_143]"

definition TABLE_S2 :: "bytes" where
  "TABLE_S2 = concat TABLE_S2_rows"

definition TABLE_S10_0 :: "bytes" where
  "TABLE_S10_0 = concat [
    [0x54, 0x67, 0xc5, 0x1a, 0x53, 0x09, 0xa6, 0xeb, 0xac, 0x07, 0xc2, 0xe7, 0x6c, 0xa7, 0x8d, 0x7b],
    [0xc1, 0x83, 0x2a, 0x06, 0x51, 0x21, 0xb7, 0x36, 0x52, 0xe6, 0x74, 0x14, 0x99, 0x8e, 0x0f, 0x17],
    [0x55, 0x4f, 0x48, 0x35, 0x0c, 0xe3, 0x3f, 0x2e, 0x42, 0x97, 0x82, 0x1f, 0x84, 0x0e, 0x4d, 0x7f],
    [0xe4, 0x81, 0xc3, 0xbf, 0xa1, 0xa9, 0xaf, 0x1c, 0x57, 0xd4, 0x28, 0x7e, 0xb4, 0x18, 0x66, 0x41],
    [0xcc, 0x95, 0x45, 0x70, 0x90, 0xe9, 0x8f, 0xb3, 0xe5, 0xbd, 0x3e, 0x8c, 0x3c, 0xbb, 0xa0, 0xfc],
    [0x3a, 0x9c, 0x65, 0xca, 0x5b, 0x4e, 0x34, 0x04, 0x4c, 0x2b, 0x1d, 0x30, 0xda, 0x3b, 0xa3, 0x8a],
    [0xf1, 0x93, 0xe0, 0xc6, 0x77, 0x7a, 0x5d, 0x92, 0x6a, 0xf4, 0x76, 0xcf, 0x23, 0x2c, 0x40, 0x4b],
    [0xb6, 0xde, 0x0d, 0x39, 0x56, 0x20, 0xe2, 0x5e, 0x44, 0xea, 0xfe, 0x25, 0x9b, 0x62, 0xb9, 0x31],
    [0xf2, 0xd9, 0xcb, 0x61, 0xee, 0x1e, 0xd1, 0x80, 0xa5, 0xc9, 0x24, 0xd7, 0xe8, 0x12, 0xed, 0x3d],
    [0xe1, 0x08, 0x5c, 0x38, 0xba, 0xd3, 0x64, 0xb5, 0x26, 0xd2, 0xaa, 0x91, 0xbe, 0x16, 0x6b, 0x05],
    [0x6d, 0xfb, 0xdf, 0x5f, 0x19, 0x4a, 0x75, 0x89, 0xd6, 0xf8, 0x9a, 0x22, 0x85, 0xd8, 0x33, 0xd0],
    [0x03, 0x68, 0x87, 0x13, 0xb1, 0xdb, 0xc7, 0x43, 0x01, 0x9d, 0xf9, 0xb8, 0xd5, 0xa4, 0xf6, 0xfa],
    [0x46, 0x2f, 0x6e, 0x73, 0xc4, 0x8b, 0x94, 0x71, 0xb2, 0xec, 0x27, 0x11, 0x0a, 0xc8, 0x6f, 0xae],
    [0x69, 0x96, 0xce, 0x02, 0x10, 0x15, 0x59, 0x7d, 0xfd, 0xdd, 0x0b, 0xb0, 0xef, 0xff, 0x2d, 0xa8],
    [0x7c, 0x9e, 0x9f, 0x98, 0xa2, 0x88, 0xad, 0x37, 0xab, 0xf0, 0x50, 0xdc, 0x00, 0x86, 0xf7, 0x79],
    [0x5a, 0x58, 0xf5, 0x60, 0xc0, 0x63, 0x29, 0xf3, 0x78, 0x32, 0x72, 0xbc, 0x49, 0x47, 0x1b, 0xcd]]"

definition TABLE_S10_1 :: "bytes" where
  "TABLE_S10_1 = concat [
    [0xee, 0xc3, 0xf5, 0x92, 0x54, 0x7d, 0xe5, 0x04, 0x14, 0xbb, 0x42, 0xe4, 0xda, 0xea, 0x90, 0x85],
    [0x52, 0xe0, 0x63, 0x3b, 0x22, 0x7e, 0x65, 0xe2, 0xae, 0x9b, 0x4b, 0x12, 0x6d, 0x51, 0x37, 0x4e],
    [0xfb, 0x20, 0x34, 0x9a, 0xef, 0x67, 0xbc, 0x45, 0xe7, 0xd3, 0x00, 0x68, 0x80, 0x3c, 0xfe, 0x88],
    [0x11, 0xa8, 0x2a, 0xb4, 0x95, 0x9e, 0xf2, 0xfd, 0x18, 0x3e, 0x4d, 0x2f, 0x4c, 0x83, 0xa4, 0xa9],
    [0xca, 0xaa, 0x38, 0x8c, 0xc9, 0xd1, 0x50, 0x47, 0xd8, 0xf4, 0x5d, 0x1f, 0xe8, 0x69, 0xff, 0x8f],
    [0x39, 0x1c, 0xd9, 0x72, 0xa5, 0x53, 0x79, 0xb2, 0xc4, 0x1b, 0xb9, 0x8a, 0x35, 0x78, 0xd7, 0x8d],
    [0xa0, 0xf6, 0x0a, 0x89, 0x9f, 0xb8, 0xc6, 0x6a, 0x61, 0x1d, 0x5f, 0x3a, 0xc2, 0x71, 0x77, 0x7f],
    [0xc1, 0x5c, 0x49, 0x9c, 0xa1, 0x93, 0xd0, 0x5a, 0xeb, 0x96, 0x91, 0x8b, 0xf0, 0xe1, 0x3d, 0xd2],
    [0x6e, 0xd5, 0x03, 0x23, 0x76, 0xf3, 0x21, 0x31, 0xdc, 0x10, 0x48, 0xb7, 0xa3, 0x87, 0xcb, 0xce],
    [0xcf, 0xf9, 0x32, 0x6c, 0x70, 0xb1, 0x16, 0xd4, 0xad, 0xb0, 0xf1, 0x98, 0xaf, 0x4a, 0x55, 0x1a],
    [0x62, 0xac, 0xec, 0xa6, 0x13, 0xc5, 0x99, 0x97, 0xbe, 0x2b, 0x86, 0x84, 0x2d, 0xf7, 0xbd, 0x1e],
    [0x02, 0x8e, 0x2e, 0x75, 0xa7, 0x29, 0x58, 0xde, 0x46, 0x41, 0x40, 0xa2, 0xe9, 0x73, 0x56, 0x7c],
    [0x4f, 0x74, 0x0c, 0xf8, 0xdb, 0xb5, 0xc8, 0x60, 0xe6, 0x82, 0xd6, 0x3f, 0x6b, 0xba, 0x0d, 0x64],
    [0x09, 0xfa, 0x17, 0x7b, 0xe3, 0x33, 0xcc, 0x36, 0xbf, 0x15, 0x07, 0x2c, 0x5e, 0x0f, 0xc0, 0x30],
    [0x66, 0x27, 0x43, 0xdf, 0x24, 0x28, 0x7a, 0x0b, 0xcd, 0x59, 0xb6, 0xdd, 0x9d, 0x19, 0x05, 0x6f],
    [0xfc, 0x44, 0x26, 0x08, 0x0e, 0xed, 0x06, 0x5b, 0x81, 0x01, 0x25, 0xb3, 0x57, 0xab, 0x94, 0xc7]]"

definition TABLE_S10_2 :: "bytes" where
  "TABLE_S10_2 = concat [
    [0x26, 0xcf, 0x16, 0x72, 0xfd, 0x94, 0x9b, 0x4a, 0xfc, 0x08, 0xbf, 0x84, 0x38, 0x90, 0x2b, 0x45],
    [0xf7, 0xdc, 0x4f, 0xe5, 0x30, 0xc0, 0xae, 0xff, 0xe7, 0x8b, 0xf9, 0x0a, 0x3c, 0xc6, 0x13, 0xc3],
    [0x46, 0x2d, 0x3d, 0xa9, 0xf5, 0x9f, 0x6d, 0xe9, 0xb3, 0x2f, 0x96, 0xd7, 0x8a, 0xfb, 0xd4, 0xd8],
    [0xd5, 0x43, 0x71, 0xf1, 0x64, 0x37, 0xa7, 0x5b, 0xd6, 0xf8, 0x0c, 0xb4, 0xf6, 0xab, 0xfe, 0x1d],
    [0xb8, 0x47, 0x2c, 0xe0, 0x3b, 0x3e, 0x53, 0x77, 0xf3, 0xd3, 0x9e, 0x25, 0xd1, 0xc1, 0x86, 0x03],
    [0x01, 0x68, 0x5d, 0x40, 0xa5, 0xea, 0x5f, 0xba, 0xc2, 0x9c, 0x3f, 0x09, 0xe6, 0x24, 0x80, 0x41],
    [0x76, 0x74, 0x4e, 0xdb, 0x4d, 0xee, 0xdd, 0x07, 0x1c, 0x56, 0x92, 0x5c, 0x69, 0x67, 0xe3, 0x35],
    [0xb0, 0x52, 0xb6, 0xb1, 0xa6, 0x8c, 0x19, 0x83, 0xde, 0x85, 0xf2, 0x7e, 0xa8, 0x2e, 0x57, 0xd9],
    [0xad, 0xef, 0x28, 0x04, 0x0f, 0x7f, 0x18, 0x99, 0xc8, 0x7c, 0x3a, 0x5a, 0xa0, 0xb7, 0x39, 0x21],
    [0x49, 0x7a, 0x34, 0xeb, 0x27, 0x7d, 0xc5, 0x88, 0x29, 0x82, 0xc9, 0xec, 0x89, 0x42, 0x55, 0xa3],
    [0xaf, 0xca, 0x91, 0xed, 0x87, 0x8f, 0x32, 0x81, 0xfa, 0x79, 0x50, 0x06, 0x36, 0x9a, 0x6f, 0x48],
    [0x61, 0x7b, 0x1b, 0x66, 0xcd, 0x22, 0x00, 0x11, 0xb9, 0x6c, 0x31, 0xac, 0x20, 0xaa, 0x51, 0x63],
    [0xb2, 0x14, 0xe4, 0x4b, 0x60, 0x75, 0x2a, 0x1a, 0x05, 0x62, 0x1e, 0x33, 0x15, 0xf4, 0xa4, 0x8d],
    [0xbb, 0xe2, 0x5e, 0x6b, 0xc7, 0xbe, 0x9d, 0xa1, 0x93, 0xcb, 0xa2, 0x10, 0x95, 0x12, 0xd2, 0x8e],
    [0xf0, 0x98, 0x17, 0x23, 0x0e, 0x78, 0x70, 0xcc, 0xc4, 0x6a, 0x0b, 0xd0, 0x4c, 0xb5, 0x1f, 0x97],
    [0xbd, 0xdf, 0xe8, 0xce, 0x54, 0x59, 0xbc, 0x73, 0xda, 0x44, 0xe1, 0x58, 0x02, 0x0d, 0x65, 0x6e]]"

definition TABLE_S10_3 :: "bytes" where
  "TABLE_S10_3 = concat [
    [0x03, 0xac, 0x5c, 0xfa, 0x52, 0x62, 0x3d, 0x28, 0x7b, 0x56, 0x2a, 0x4d, 0xc5, 0xec, 0xbc, 0x5d],
    [0x23, 0x16, 0xaa, 0xf3, 0xe9, 0xd5, 0xf6, 0x8f, 0x58, 0xea, 0x83, 0xdb, 0xc6, 0x9a, 0x5a, 0xdd],
    [0x6b, 0x5f, 0xd0, 0xb8, 0x84, 0x38, 0x30, 0x46, 0x98, 0x43, 0x22, 0x8c, 0xdf, 0x57, 0xfd, 0x04],
    [0x86, 0xa0, 0x97, 0xf5, 0x3b, 0xf4, 0x11, 0x1c, 0x10, 0xa9, 0x0c, 0x92, 0x26, 0x2d, 0x45, 0x4a],
    [0x4c, 0x60, 0xa7, 0xe5, 0xd1, 0x50, 0x37, 0x47, 0x12, 0x72, 0x34, 0x80, 0x69, 0x71, 0xff, 0xe8],
    [0xa3, 0x7c, 0x32, 0x01, 0xc0, 0x8d, 0x35, 0x6f, 0xa4, 0x81, 0xca, 0x61, 0xeb, 0x1d, 0x0a, 0xc1],
    [0xa5, 0xd9, 0x82, 0xe7, 0xc9, 0x7a, 0xc7, 0xcf, 0x4e, 0x18, 0x31, 0xb2, 0x00, 0x27, 0xd2, 0x7e],
    [0x2e, 0x53, 0x33, 0x29, 0x59, 0x48, 0x6a, 0x85, 0xe4, 0x79, 0x24, 0xf1, 0x2b, 0x19, 0xe2, 0x68],
    [0xa8, 0x64, 0x0f, 0xf0, 0x3f, 0x1b, 0x76, 0x73, 0x6d, 0xd6, 0x9b, 0xbb, 0x4b, 0xce, 0x89, 0x99],
    [0x08, 0x15, 0x20, 0x49, 0xf2, 0x17, 0xa2, 0xed, 0x41, 0x77, 0xd4, 0x8a, 0x09, 0xc8, 0x6c, 0xae],
    [0x93, 0x06, 0x3c, 0x3e, 0x4f, 0x95, 0xa6, 0x05, 0x14, 0xda, 0x1e, 0x54, 0x7d, 0xab, 0x2f, 0x21],
    [0xf9, 0xfe, 0x1a, 0xf8, 0xcb, 0x51, 0xc4, 0xee, 0x36, 0xba, 0xcd, 0x96, 0x91, 0x1f, 0x66, 0xe0],
    [0x3a, 0x5e, 0x87, 0x6e, 0x02, 0xd3, 0xdc, 0xb5, 0xcc, 0xf7, 0x40, 0xb4, 0x0d, 0x63, 0xd8, 0x70],
    [0xad, 0x07, 0x94, 0xbf, 0xb7, 0xe6, 0x88, 0x78, 0x42, 0xb1, 0xc3, 0xaf, 0x8b, 0x5b, 0x8e, 0x74],
    [0xe1, 0x75, 0x65, 0x0e, 0xa1, 0x25, 0xd7, 0xbd, 0x9f, 0xde, 0x67, 0xfb, 0x90, 0x9c, 0xb3, 0xc2],
    [0xb9, 0x39, 0x0b, 0x9d, 0x13, 0xef, 0x7f, 0x2c, 0xfc, 0x44, 0xb0, 0x9e, 0x55, 0xb6, 0xe3, 0xbe]]"

definition TABLE_S10_4 :: "bytes" where
  "TABLE_S10_4 = concat [
    [0xe4, 0xd7, 0x75, 0xaa, 0xe3, 0xb9, 0x16, 0x5b, 0x1c, 0xb7, 0x72, 0x57, 0xdc, 0x17, 0x3d, 0xcb],
    [0x71, 0x33, 0x9a, 0xb6, 0xe1, 0x91, 0x07, 0x86, 0xe2, 0x56, 0xc4, 0xa4, 0x29, 0x3e, 0xbf, 0xa7],
    [0xe5, 0xff, 0xf8, 0x85, 0xbc, 0x53, 0x8f, 0x9e, 0xf2, 0x27, 0x32, 0xaf, 0x34, 0xbe, 0xfd, 0xcf],
    [0x54, 0x31, 0x73, 0x0f, 0x11, 0x19, 0x1f, 0xac, 0xe7, 0x64, 0x98, 0xce, 0x04, 0xa8, 0xd6, 0xf1],
    [0x7c, 0x25, 0xf5, 0xc0, 0x20, 0x59, 0x3f, 0x03, 0x55, 0x0d, 0x8e, 0x3c, 0x8c, 0x0b, 0x10, 0x4c],
    [0x8a, 0x2c, 0xd5, 0x7a, 0xeb, 0xfe, 0x84, 0xb4, 0xfc, 0x9b, 0xad, 0x80, 0x6a, 0x8b, 0x13, 0x3a],
    [0x41, 0x23, 0x50, 0x76, 0xc7, 0xca, 0xed, 0x22, 0xda, 0x44, 0xc6, 0x7f, 0x93, 0x9c, 0xf0, 0xfb],
    [0x06, 0x6e, 0xbd, 0x89, 0xe6, 0x90, 0x52, 0xee, 0xf4, 0x5a, 0x4e, 0x95, 0x2b, 0xd2, 0x09, 0x81],
    [0x42, 0x69, 0x7b, 0xd1, 0x5e, 0xae, 0x61, 0x30, 0x15, 0x79, 0x94, 0x67, 0x58, 0xa2, 0x5d, 0x8d],
    [0x51, 0xb8, 0xec, 0x88, 0x0a, 0x63, 0xd4, 0x05, 0x96, 0x62, 0x1a, 0x21, 0x0e, 0xa6, 0xdb, 0xb5],
    [0xdd, 0x4b, 0x6f, 0xef, 0xa9, 0xfa, 0xc5, 0x39, 0x66, 0x48, 0x2a, 0x92, 0x35, 0x68, 0x83, 0x60],
    [0xb3, 0xd8, 0x37, 0xa3, 0x01, 0x6b, 0x77, 0xf3, 0xb1, 0x2d, 0x49, 0x08, 0x65, 0x14, 0x46, 0x4a],
    [0xf6, 0x9f, 0xde, 0xc3, 0x74, 0x3b, 0x24, 0xc1, 0x02, 0x5c, 0x97, 0xa1, 0xba, 0x78, 0xdf, 0x1e],
    [0xd9, 0x26, 0x7e, 0xb2, 0xa0, 0xa5, 0xe9, 0xcd, 0x4d, 0x6d, 0xbb, 0x00, 0x5f, 0x4f, 0x9d, 0x18],
    [0xcc, 0x2e, 0x2f, 0x28, 0x12, 0x38, 0x1d, 0x87, 0x1b, 0x40, 0xe0, 0x6c, 0xb0, 0x36, 0x47, 0xc9],
    [0xea, 0xe8, 0x45, 0xd0, 0x70, 0xd3, 0x99, 0x43, 0xc8, 0x82, 0xc2, 0x0c, 0xf9, 0xf7, 0xab, 0x7d]]"

definition TABLE_S10_5 :: "bytes" where
  "TABLE_S10_5 = concat [
    [0x3d, 0x10, 0x26, 0x41, 0x87, 0xae, 0x36, 0xd7, 0xc7, 0x68, 0x91, 0x37, 0x09, 0x39, 0x43, 0x56],
    [0x81, 0x33, 0xb0, 0xe8, 0xf1, 0xad, 0xb6, 0x31, 0x7d, 0x48, 0x98, 0xc1, 0xbe, 0x82, 0xe4, 0x9d],
    [0x28, 0xf3, 0xe7, 0x49, 0x3c, 0xb4, 0x6f, 0x96, 0x34, 0x00, 0xd3, 0xbb, 0x53, 0xef, 0x2d, 0x5b],
    [0xc2, 0x7b, 0xf9, 0x67, 0x46, 0x4d, 0x21, 0x2e, 0xcb, 0xed, 0x9e, 0xfc, 0x9f, 0x50, 0x77, 0x7a],
    [0x19, 0x79, 0xeb, 0x5f, 0x1a, 0x02, 0x83, 0x94, 0x0b, 0x27, 0x8e, 0xcc, 0x3b, 0xba, 0x2c, 0x5c],
    [0xea, 0xcf, 0x0a, 0xa1, 0x76, 0x80, 0xaa, 0x61, 0x17, 0xc8, 0x6a, 0x59, 0xe6, 0xab, 0x04, 0x5e],
    [0x73, 0x25, 0xd9, 0x5a, 0x4c, 0x6b, 0x15, 0xb9, 0xb2, 0xce, 0x8c, 0xe9, 0x11, 0xa2, 0xa4, 0xac],
    [0x12, 0x8f, 0x9a, 0x4f, 0x72, 0x40, 0x03, 0x89, 0x38, 0x45, 0x42, 0x58, 0x23, 0x32, 0xee, 0x01],
    [0xbd, 0x06, 0xd0, 0xf0, 0xa5, 0x20, 0xf2, 0xe2, 0x0f, 0xc3, 0x9b, 0x64, 0x70, 0x54, 0x18, 0x1d],
    [0x1c, 0x2a, 0xe1, 0xbf, 0xa3, 0x62, 0xc5, 0x07, 0x7e, 0x63, 0x22, 0x4b, 0x7c, 0x99, 0x86, 0xc9],
    [0xb1, 0x7f, 0x3f, 0x75, 0xc0, 0x16, 0x4a, 0x44, 0x6d, 0xf8, 0x55, 0x57, 0xfe, 0x24, 0x6e, 0xcd],
    [0xd1, 0x5d, 0xfd, 0xa6, 0x74, 0xfa, 0x8b, 0x0d, 0x95, 0x92, 0x93, 0x71, 0x3a, 0xa0, 0x85, 0xaf],
    [0x9c, 0xa7, 0xdf, 0x2b, 0x08, 0x66, 0x1b, 0xb3, 0x35, 0x51, 0x05, 0xec, 0xb8, 0x69, 0xde, 0xb7],
    [0xda, 0x29, 0xc4, 0xa8, 0x30, 0xe0, 0x1f, 0xe5, 0x6c, 0xc6, 0xd4, 0xff, 0x8d, 0xdc, 0x13, 0xe3],
    [0xb5, 0xf4, 0x90, 0x0c, 0xf7, 0xfb, 0xa9, 0xd8, 0x1e, 0x8a, 0x65, 0x0e, 0x4e, 0xca, 0xd6, 0xbc],
    [0x2f, 0x97, 0xf5, 0xdb, 0xdd, 0x3e, 0xd5, 0x88, 0x52, 0xd2, 0xf6, 0x60, 0x84, 0x78, 0x47, 0x14]]"

definition TABLE_S10_6 :: "bytes" where
  "TABLE_S10_6 = concat [
    [0x2c, 0xc5, 0x1c, 0x78, 0xf7, 0x9e, 0x91, 0x40, 0xf6, 0x02, 0xb5, 0x8e, 0x32, 0x9a, 0x21, 0x4f],
    [0xfd, 0xd6, 0x45, 0xef, 0x3a, 0xca, 0xa4, 0xf5, 0xed, 0x81, 0xf3, 0x00, 0x36, 0xcc, 0x19, 0xc9],
    [0x4c, 0x27, 0x37, 0xa3, 0xff, 0x95, 0x67, 0xe3, 0xb9, 0x25, 0x9c, 0xdd, 0x80, 0xf1, 0xde, 0xd2],
    [0xdf, 0x49, 0x7b, 0xfb, 0x6e, 0x3d, 0xad, 0x51, 0xdc, 0xf2, 0x06, 0xbe, 0xfc, 0xa1, 0xf4, 0x17],
    [0xb2, 0x4d, 0x26, 0xea, 0x31, 0x34, 0x59, 0x7d, 0xf9, 0xd9, 0x94, 0x2f, 0xdb, 0xcb, 0x8c, 0x09],
    [0x0b, 0x62, 0x57, 0x4a, 0xaf, 0xe0, 0x55, 0xb0, 0xc8, 0x96, 0x35, 0x03, 0xec, 0x2e, 0x8a, 0x4b],
    [0x7c, 0x7e, 0x44, 0xd1, 0x47, 0xe4, 0xd7, 0x0d, 0x16, 0x5c, 0x98, 0x56, 0x63, 0x6d, 0xe9, 0x3f],
    [0xba, 0x58, 0xbc, 0xbb, 0xac, 0x86, 0x13, 0x89, 0xd4, 0x8f, 0xf8, 0x74, 0xa2, 0x24, 0x5d, 0xd3],
    [0xa7, 0xe5, 0x22, 0x0e, 0x05, 0x75, 0x12, 0x93, 0xc2, 0x76, 0x30, 0x50, 0xaa, 0xbd, 0x33, 0x2b],
    [0x43, 0x70, 0x3e, 0xe1, 0x2d, 0x77, 0xcf, 0x82, 0x23, 0x88, 0xc3, 0xe6, 0x83, 0x48, 0x5f, 0xa9],
    [0xa5, 0xc0, 0x9b, 0xe7, 0x8d, 0x85, 0x38, 0x8b, 0xf0, 0x73, 0x5a, 0x0c, 0x3c, 0x90, 0x65, 0x42],
    [0x6b, 0x71, 0x11, 0x6c, 0xc7, 0x28, 0x0a, 0x1b, 0xb3, 0x66, 0x3b, 0xa6, 0x2a, 0xa0, 0x5b, 0x69],
    [0xb8, 0x1e, 0xee, 0x41, 0x6a, 0x7f, 0x20, 0x10, 0x0f, 0x68, 0x14, 0x39, 0x1f, 0xfe, 0xae, 0x87],
    [0xb1, 0xe8, 0x54, 0x61, 0xcd, 0xb4, 0x97, 0xab, 0x99, 0xc1, 0xa8, 0x1a, 0x9f, 0x18, 0xd8, 0x84],
    [0xfa, 0x92, 0x1d, 0x29, 0x04, 0x72, 0x7a, 0xc6, 0xce, 0x60, 0x01, 0xda, 0x46, 0xbf, 0x15, 0x9d],
    [0xb7, 0xd5, 0xe2, 0xc4, 0x5e, 0x53, 0xb6, 0x79, 0xd0, 0x4e, 0xeb, 0x52, 0x08, 0x07, 0x6f, 0x64]]"

definition TABLE_S10_7 :: "bytes" where
  "TABLE_S10_7 = concat [
    [0x9d, 0x32, 0xc2, 0x64, 0xcc, 0xfc, 0xa3, 0xb6, 0xe5, 0xc8, 0xb4, 0xd3, 0x5b, 0x72, 0x22, 0xc3],
    [0xbd, 0x88, 0x34, 0x6d, 0x77, 0x4b, 0x68, 0x11, 0xc6, 0x74, 0x1d, 0x45, 0x58, 0x04, 0xc4, 0x43],
    [0xf5, 0xc1, 0x4e, 0x26, 0x1a, 0xa6, 0xae, 0xd8, 0x06, 0xdd, 0xbc, 0x12, 0x41, 0xc9, 0x63, 0x9a],
    [0x18, 0x3e, 0x09, 0x6b, 0xa5, 0x6a, 0x8f, 0x82, 0x8e, 0x37, 0x92, 0x0c, 0xb8, 0xb3, 0xdb, 0xd4],
    [0xd2, 0xfe, 0x39, 0x7b, 0x4f, 0xce, 0xa9, 0xd9, 0x8c, 0xec, 0xaa, 0x1e, 0xf7, 0xef, 0x61, 0x76],
    [0x3d, 0xe2, 0xac, 0x9f, 0x5e, 0x13, 0xab, 0xf1, 0x3a, 0x1f, 0x54, 0xff, 0x75, 0x83, 0x94, 0x5f],
    [0x3b, 0x47, 0x1c, 0x79, 0x57, 0xe4, 0x59, 0x51, 0xd0, 0x86, 0xaf, 0x2c, 0x9e, 0xb9, 0x4c, 0xe0],
    [0xb0, 0xcd, 0xad, 0xb7, 0xc7, 0xd6, 0xf4, 0x1b, 0x7a, 0xe7, 0xba, 0x6f, 0xb5, 0x87, 0x7c, 0xf6],
    [0x36, 0xfa, 0x91, 0x6e, 0xa1, 0x85, 0xe8, 0xed, 0xf3, 0x48, 0x05, 0x25, 0xd5, 0x50, 0x17, 0x07],
    [0x96, 0x8b, 0xbe, 0xd7, 0x6c, 0x89, 0x3c, 0x73, 0xdf, 0xe9, 0x4a, 0x14, 0x97, 0x56, 0xf2, 0x30],
    [0x0d, 0x98, 0xa2, 0xa0, 0xd1, 0x0b, 0x38, 0x9b, 0x8a, 0x44, 0x80, 0xca, 0xe3, 0x35, 0xb1, 0xbf],
    [0x67, 0x60, 0x84, 0x66, 0x55, 0xcf, 0x5a, 0x70, 0xa8, 0x24, 0x53, 0x08, 0x0f, 0x81, 0xf8, 0x7e],
    [0xa4, 0xc0, 0x19, 0xf0, 0x9c, 0x4d, 0x42, 0x2b, 0x52, 0x69, 0xde, 0x2a, 0x93, 0xfd, 0x46, 0xee],
    [0x33, 0x99, 0x0a, 0x21, 0x29, 0x78, 0x16, 0xe6, 0xdc, 0x2f, 0x5d, 0x31, 0x15, 0xc5, 0x10, 0xea],
    [0x7f, 0xeb, 0xfb, 0x90, 0x3f, 0xbb, 0x49, 0x23, 0x01, 0x40, 0xf9, 0x65, 0x0e, 0x02, 0x2d, 0x5c],
    [0x27, 0xa7, 0x95, 0x03, 0x8d, 0x71, 0xe1, 0xb2, 0x62, 0xda, 0x2e, 0x00, 0xcb, 0x28, 0x7d, 0x20]]"

definition TABLE_S10_8 :: "bytes" where
  "TABLE_S10_8 = concat [
    [0x86, 0xb5, 0x17, 0xc8, 0x81, 0xdb, 0x74, 0x39, 0x7e, 0xd5, 0x10, 0x35, 0xbe, 0x75, 0x5f, 0xa9],
    [0x13, 0x51, 0xf8, 0xd4, 0x83, 0xf3, 0x65, 0xe4, 0x80, 0x34, 0xa6, 0xc6, 0x4b, 0x5c, 0xdd, 0xc5],
    [0x87, 0x9d, 0x9a, 0xe7, 0xde, 0x31, 0xed, 0xfc, 0x90, 0x45, 0x50, 0xcd, 0x56, 0xdc, 0x9f, 0xad],
    [0x36, 0x53, 0x11, 0x6d, 0x73, 0x7b, 0x7d, 0xce, 0x85, 0x06, 0xfa, 0xac, 0x66, 0xca, 0xb4, 0x93],
    [0x1e, 0x47, 0x97, 0xa2, 0x42, 0x3b, 0x5d, 0x61, 0x37, 0x6f, 0xec, 0x5e, 0xee, 0x69, 0x72, 0x2e],
    [0xe8, 0x4e, 0xb7, 0x18, 0x89, 0x9c, 0xe6, 0xd6, 0x9e, 0xf9, 0xcf, 0xe2, 0x08, 0xe9, 0x71, 0x58],
    [0x23, 0x41, 0x32, 0x14, 0xa5, 0xa8, 0x8f, 0x40, 0xb8, 0x26, 0xa4, 0x1d, 0xf1, 0xfe, 0x92, 0x99],
    [0x64, 0x0c, 0xdf, 0xeb, 0x84, 0xf2, 0x30, 0x8c, 0x96, 0x38, 0x2c, 0xf7, 0x49, 0xb0, 0x6b, 0xe3],
    [0x20, 0x0b, 0x19, 0xb3, 0x3c, 0xcc, 0x03, 0x52, 0x77, 0x1b, 0xf6, 0x05, 0x3a, 0xc0, 0x3f, 0xef],
    [0x33, 0xda, 0x8e, 0xea, 0x68, 0x01, 0xb6, 0x67, 0xf4, 0x00, 0x78, 0x43, 0x6c, 0xc4, 0xb9, 0xd7],
    [0xbf, 0x29, 0x0d, 0x8d, 0xcb, 0x98, 0xa7, 0x5b, 0x04, 0x2a, 0x48, 0xf0, 0x57, 0x0a, 0xe1, 0x02],
    [0xd1, 0xba, 0x55, 0xc1, 0x63, 0x09, 0x15, 0x91, 0xd3, 0x4f, 0x2b, 0x6a, 0x07, 0x76, 0x24, 0x28],
    [0x94, 0xfd, 0xbc, 0xa1, 0x16, 0x59, 0x46, 0xa3, 0x60, 0x3e, 0xf5, 0xc3, 0xd8, 0x1a, 0xbd, 0x7c],
    [0xbb, 0x44, 0x1c, 0xd0, 0xc2, 0xc7, 0x8b, 0xaf, 0x2f, 0x0f, 0xd9, 0x62, 0x3d, 0x2d, 0xff, 0x7a],
    [0xae, 0x4c, 0x4d, 0x4a, 0x70, 0x5a, 0x7f, 0xe5, 0x79, 0x22, 0x82, 0x0e, 0xd2, 0x54, 0x25, 0xab],
    [0x88, 0x8a, 0x27, 0xb2, 0x12, 0xb1, 0xfb, 0x21, 0xaa, 0xe0, 0xa0, 0x6e, 0x9b, 0x95, 0xc9, 0x1f]]"

definition TABLE_S10_9 :: "bytes" where
  "TABLE_S10_9 = concat [
    [0xcd, 0xe0, 0xd6, 0xb1, 0x77, 0x5e, 0xc6, 0x27, 0x37, 0x98, 0x61, 0xc7, 0xf9, 0xc9, 0xb3, 0xa6],
    [0x71, 0xc3, 0x40, 0x18, 0x01, 0x5d, 0x46, 0xc1, 0x8d, 0xb8, 0x68, 0x31, 0x4e, 0x72, 0x14, 0x6d],
    [0xd8, 0x03, 0x17, 0xb9, 0xcc, 0x44, 0x9f, 0x66, 0xc4, 0xf0, 0x23, 0x4b, 0xa3, 0x1f, 0xdd, 0xab],
    [0x32, 0x8b, 0x09, 0x97, 0xb6, 0xbd, 0xd1, 0xde, 0x3b, 0x1d, 0x6e, 0x0c, 0x6f, 0xa0, 0x87, 0x8a],
    [0xe9, 0x89, 0x1b, 0xaf, 0xea, 0xf2, 0x73, 0x64, 0xfb, 0xd7, 0x7e, 0x3c, 0xcb, 0x4a, 0xdc, 0xac],
    [0x1a, 0x3f, 0xfa, 0x51, 0x86, 0x70, 0x5a, 0x91, 0xe7, 0x38, 0x9a, 0xa9, 0x16, 0x5b, 0xf4, 0xae],
    [0x83, 0xd5, 0x29, 0xaa, 0xbc, 0x9b, 0xe5, 0x49, 0x42, 0x3e, 0x7c, 0x19, 0xe1, 0x52, 0x54, 0x5c],
    [0xe2, 0x7f, 0x6a, 0xbf, 0x82, 0xb0, 0xf3, 0x79, 0xc8, 0xb5, 0xb2, 0xa8, 0xd3, 0xc2, 0x1e, 0xf1],
    [0x4d, 0xf6, 0x20, 0x00, 0x55, 0xd0, 0x02, 0x12, 0xff, 0x33, 0x6b, 0x94, 0x80, 0xa4, 0xe8, 0xed],
    [0xec, 0xda, 0x11, 0x4f, 0x53, 0x92, 0x35, 0xf7, 0x8e, 0x93, 0xd2, 0xbb, 0x8c, 0x69, 0x76, 0x39],
    [0x41, 0x8f, 0xcf, 0x85, 0x30, 0xe6, 0xba, 0xb4, 0x9d, 0x08, 0xa5, 0xa7, 0x0e, 0xd4, 0x9e, 0x3d],
    [0x21, 0xad, 0x0d, 0x56, 0x84, 0x0a, 0x7b, 0xfd, 0x65, 0x62, 0x63, 0x81, 0xca, 0x50, 0x75, 0x5f],
    [0x6c, 0x57, 0x2f, 0xdb, 0xf8, 0x96, 0xeb, 0x43, 0xc5, 0xa1, 0xf5, 0x1c, 0x48, 0x99, 0x2e, 0x47],
    [0x2a, 0xd9, 0x34, 0x58, 0xc0, 0x10, 0xef, 0x15, 0x9c, 0x36, 0x24, 0x0f, 0x7d, 0x2c, 0xe3, 0x13],
    [0x45, 0x04, 0x60, 0xfc, 0x07, 0x0b, 0x59, 0x28, 0xee, 0x7a, 0x95, 0xfe, 0xbe, 0x3a, 0x26, 0x4c],
    [0xdf, 0x67, 0x05, 0x2b, 0x2d, 0xce, 0x25, 0x78, 0xa2, 0x22, 0x06, 0x90, 0x74, 0x88, 0xb7, 0xe4]]"

definition TABLE_S10_10 :: "bytes" where
  "TABLE_S10_10 = concat [
    [0x76, 0x9f, 0x46, 0x22, 0xad, 0xc4, 0xcb, 0x1a, 0xac, 0x58, 0xef, 0xd4, 0x68, 0xc0, 0x7b, 0x15],
    [0xa7, 0x8c, 0x1f, 0xb5, 0x60, 0x90, 0xfe, 0xaf, 0xb7, 0xdb, 0xa9, 0x5a, 0x6c, 0x96, 0x43, 0x93],
    [0x16, 0x7d, 0x6d, 0xf9, 0xa5, 0xcf, 0x3d, 0xb9, 0xe3, 0x7f, 0xc6, 0x87, 0xda, 0xab, 0x84, 0x88],
    [0x85, 0x13, 0x21, 0xa1, 0x34, 0x67, 0xf7, 0x0b, 0x86, 0xa8, 0x5c, 0xe4, 0xa6, 0xfb, 0xae, 0x4d],
    [0xe8, 0x17, 0x7c, 0xb0, 0x6b, 0x6e, 0x03, 0x27, 0xa3, 0x83, 0xce, 0x75, 0x81, 0x91, 0xd6, 0x53],
    [0x51, 0x38, 0x0d, 0x10, 0xf5, 0xba, 0x0f, 0xea, 0x92, 0xcc, 0x6f, 0x59, 0xb6, 0x74, 0xd0, 0x11],
    [0x26, 0x24, 0x1e, 0x8b, 0x1d, 0xbe, 0x8d, 0x57, 0x4c, 0x06, 0xc2, 0x0c, 0x39, 0x37, 0xb3, 0x65],
    [0xe0, 0x02, 0xe6, 0xe1, 0xf6, 0xdc, 0x49, 0xd3, 0x8e, 0xd5, 0xa2, 0x2e, 0xf8, 0x7e, 0x07, 0x89],
    [0xfd, 0xbf, 0x78, 0x54, 0x5f, 0x2f, 0x48, 0xc9, 0x98, 0x2c, 0x6a, 0x0a, 0xf0, 0xe7, 0x69, 0x71],
    [0x19, 0x2a, 0x64, 0xbb, 0x77, 0x2d, 0x95, 0xd8, 0x79, 0xd2, 0x99, 0xbc, 0xd9, 0x12, 0x05, 0xf3],
    [0xff, 0x9a, 0xc1, 0xbd, 0xd7, 0xdf, 0x62, 0xd1, 0xaa, 0x29, 0x00, 0x56, 0x66, 0xca, 0x3f, 0x18],
    [0x31, 0x2b, 0x4b, 0x36, 0x9d, 0x72, 0x50, 0x41, 0xe9, 0x3c, 0x61, 0xfc, 0x70, 0xfa, 0x01, 0x33],
    [0xe2, 0x44, 0xb4, 0x1b, 0x30, 0x25, 0x7a, 0x4a, 0x55, 0x32, 0x4e, 0x63, 0x45, 0xa4, 0xf4, 0xdd],
    [0xeb, 0xb2, 0x0e, 0x3b, 0x97, 0xee, 0xcd, 0xf1, 0xc3, 0x9b, 0xf2, 0x40, 0xc5, 0x42, 0x82, 0xde],
    [0xa0, 0xc8, 0x47, 0x73, 0x5e, 0x28, 0x20, 0x9c, 0x94, 0x3a, 0x5b, 0x80, 0x1c, 0xe5, 0x4f, 0xc7],
    [0xed, 0x8f, 0xb8, 0x9e, 0x04, 0x09, 0xec, 0x23, 0x8a, 0x14, 0xb1, 0x08, 0x52, 0x5d, 0x35, 0x3e]]"

definition TABLE_S10_11 :: "bytes" where
  "TABLE_S10_11 = concat [
    [0xc4, 0x6b, 0x9b, 0x3d, 0x95, 0xa5, 0xfa, 0xef, 0xbc, 0x91, 0xed, 0x8a, 0x02, 0x2b, 0x7b, 0x9a],
    [0xe4, 0xd1, 0x6d, 0x34, 0x2e, 0x12, 0x31, 0x48, 0x9f, 0x2d, 0x44, 0x1c, 0x01, 0x5d, 0x9d, 0x1a],
    [0xac, 0x98, 0x17, 0x7f, 0x43, 0xff, 0xf7, 0x81, 0x5f, 0x84, 0xe5, 0x4b, 0x18, 0x90, 0x3a, 0xc3],
    [0x41, 0x67, 0x50, 0x32, 0xfc, 0x33, 0xd6, 0xdb, 0xd7, 0x6e, 0xcb, 0x55, 0xe1, 0xea, 0x82, 0x8d],
    [0x8b, 0xa7, 0x60, 0x22, 0x16, 0x97, 0xf0, 0x80, 0xd5, 0xb5, 0xf3, 0x47, 0xae, 0xb6, 0x38, 0x2f],
    [0x64, 0xbb, 0xf5, 0xc6, 0x07, 0x4a, 0xf2, 0xa8, 0x63, 0x46, 0x0d, 0xa6, 0x2c, 0xda, 0xcd, 0x06],
    [0x62, 0x1e, 0x45, 0x20, 0x0e, 0xbd, 0x00, 0x08, 0x89, 0xdf, 0xf6, 0x75, 0xc7, 0xe0, 0x15, 0xb9],
    [0xe9, 0x94, 0xf4, 0xee, 0x9e, 0x8f, 0xad, 0x42, 0x23, 0xbe, 0xe3, 0x36, 0xec, 0xde, 0x25, 0xaf],
    [0x6f, 0xa3, 0xc8, 0x37, 0xf8, 0xdc, 0xb1, 0xb4, 0xaa, 0x11, 0x5c, 0x7c, 0x8c, 0x09, 0x4e, 0x5e],
    [0xcf, 0xd2, 0xe7, 0x8e, 0x35, 0xd0, 0x65, 0x2a, 0x86, 0xb0, 0x13, 0x4d, 0xce, 0x0f, 0xab, 0x69],
    [0x54, 0xc1, 0xfb, 0xf9, 0x88, 0x52, 0x61, 0xc2, 0xd3, 0x1d, 0xd9, 0x93, 0xba, 0x6c, 0xe8, 0xe6],
    [0x3e, 0x39, 0xdd, 0x3f, 0x0c, 0x96, 0x03, 0x29, 0xf1, 0x7d, 0x0a, 0x51, 0x56, 0xd8, 0xa1, 0x27],
    [0xfd, 0x99, 0x40, 0xa9, 0xc5, 0x14, 0x1b, 0x72, 0x0b, 0x30, 0x87, 0x73, 0xca, 0xa4, 0x1f, 0xb7],
    [0x6a, 0xc0, 0x53, 0x78, 0x70, 0x21, 0x4f, 0xbf, 0x85, 0x76, 0x04, 0x68, 0x4c, 0x9c, 0x49, 0xb3],
    [0x26, 0xb2, 0xa2, 0xc9, 0x66, 0xe2, 0x10, 0x7a, 0x58, 0x19, 0xa0, 0x3c, 0x57, 0x5b, 0x74, 0x05],
    [0x7e, 0xfe, 0xcc, 0x5a, 0xd4, 0x28, 0xb8, 0xeb, 0x3b, 0x83, 0x77, 0x59, 0x92, 0x71, 0x24, 0x79]]"

definition TABLE_S10_12 :: "bytes" where
  "TABLE_S10_12 = concat [
    [0x0f, 0x3c, 0x9e, 0x41, 0x08, 0x52, 0xfd, 0xb0, 0xf7, 0x5c, 0x99, 0xbc, 0x37, 0xfc, 0xd6, 0x20],
    [0x9a, 0xd8, 0x71, 0x5d, 0x0a, 0x7a, 0xec, 0x6d, 0x09, 0xbd, 0x2f, 0x4f, 0xc2, 0xd5, 0x54, 0x4c],
    [0x0e, 0x14, 0x13, 0x6e, 0x57, 0xb8, 0x64, 0x75, 0x19, 0xcc, 0xd9, 0x44, 0xdf, 0x55, 0x16, 0x24],
    [0xbf, 0xda, 0x98, 0xe4, 0xfa, 0xf2, 0xf4, 0x47, 0x0c, 0x8f, 0x73, 0x25, 0xef, 0x43, 0x3d, 0x1a],
    [0x97, 0xce, 0x1e, 0x2b, 0xcb, 0xb2, 0xd4, 0xe8, 0xbe, 0xe6, 0x65, 0xd7, 0x67, 0xe0, 0xfb, 0xa7],
    [0x61, 0xc7, 0x3e, 0x91, 0x00, 0x15, 0x6f, 0x5f, 0x17, 0x70, 0x46, 0x6b, 0x81, 0x60, 0xf8, 0xd1],
    [0xaa, 0xc8, 0xbb, 0x9d, 0x2c, 0x21, 0x06, 0xc9, 0x31, 0xaf, 0x2d, 0x94, 0x78, 0x77, 0x1b, 0x10],
    [0xed, 0x85, 0x56, 0x62, 0x0d, 0x7b, 0xb9, 0x05, 0x1f, 0xb1, 0xa5, 0x7e, 0xc0, 0x39, 0xe2, 0x6a],
    [0xa9, 0x82, 0x90, 0x3a, 0xb5, 0x45, 0x8a, 0xdb, 0xfe, 0x92, 0x7f, 0x8c, 0xb3, 0x49, 0xb6, 0x66],
    [0xba, 0x53, 0x07, 0x63, 0xe1, 0x88, 0x3f, 0xee, 0x7d, 0x89, 0xf1, 0xca, 0xe5, 0x4d, 0x30, 0x5e],
    [0x36, 0xa0, 0x84, 0x04, 0x42, 0x11, 0x2e, 0xd2, 0x8d, 0xa3, 0xc1, 0x79, 0xde, 0x83, 0x68, 0x8b],
    [0x58, 0x33, 0xdc, 0x48, 0xea, 0x80, 0x9c, 0x18, 0x5a, 0xc6, 0xa2, 0xe3, 0x8e, 0xff, 0xad, 0xa1],
    [0x1d, 0x74, 0x35, 0x28, 0x9f, 0xd0, 0xcf, 0x2a, 0xe9, 0xb7, 0x7c, 0x4a, 0x51, 0x93, 0x34, 0xf5],
    [0x32, 0xcd, 0x95, 0x59, 0x4b, 0x4e, 0x02, 0x26, 0xa6, 0x86, 0x50, 0xeb, 0xb4, 0xa4, 0x76, 0xf3],
    [0x27, 0xc5, 0xc4, 0xc3, 0xf9, 0xd3, 0xf6, 0x6c, 0xf0, 0xab, 0x0b, 0x87, 0x5b, 0xdd, 0xac, 0x22],
    [0x01, 0x03, 0xae, 0x3b, 0x9b, 0x38, 0x72, 0xa8, 0x23, 0x69, 0x29, 0xe7, 0x12, 0x1c, 0x40, 0x96]]"

definition TABLE_S10_13 :: "bytes" where
  "TABLE_S10_13 = concat [
    [0xae, 0x83, 0xb5, 0xd2, 0x14, 0x3d, 0xa5, 0x44, 0x54, 0xfb, 0x02, 0xa4, 0x9a, 0xaa, 0xd0, 0xc5],
    [0x12, 0xa0, 0x23, 0x7b, 0x62, 0x3e, 0x25, 0xa2, 0xee, 0xdb, 0x0b, 0x52, 0x2d, 0x11, 0x77, 0x0e],
    [0xbb, 0x60, 0x74, 0xda, 0xaf, 0x27, 0xfc, 0x05, 0xa7, 0x93, 0x40, 0x28, 0xc0, 0x7c, 0xbe, 0xc8],
    [0x51, 0xe8, 0x6a, 0xf4, 0xd5, 0xde, 0xb2, 0xbd, 0x58, 0x7e, 0x0d, 0x6f, 0x0c, 0xc3, 0xe4, 0xe9],
    [0x8a, 0xea, 0x78, 0xcc, 0x89, 0x91, 0x10, 0x07, 0x98, 0xb4, 0x1d, 0x5f, 0xa8, 0x29, 0xbf, 0xcf],
    [0x79, 0x5c, 0x99, 0x32, 0xe5, 0x13, 0x39, 0xf2, 0x84, 0x5b, 0xf9, 0xca, 0x75, 0x38, 0x97, 0xcd],
    [0xe0, 0xb6, 0x4a, 0xc9, 0xdf, 0xf8, 0x86, 0x2a, 0x21, 0x5d, 0x1f, 0x7a, 0x82, 0x31, 0x37, 0x3f],
    [0x81, 0x1c, 0x09, 0xdc, 0xe1, 0xd3, 0x90, 0x1a, 0xab, 0xd6, 0xd1, 0xcb, 0xb0, 0xa1, 0x7d, 0x92],
    [0x2e, 0x95, 0x43, 0x63, 0x36, 0xb3, 0x61, 0x71, 0x9c, 0x50, 0x08, 0xf7, 0xe3, 0xc7, 0x8b, 0x8e],
    [0x8f, 0xb9, 0x72, 0x2c, 0x30, 0xf1, 0x56, 0x94, 0xed, 0xf0, 0xb1, 0xd8, 0xef, 0x0a, 0x15, 0x5a],
    [0x22, 0xec, 0xac, 0xe6, 0x53, 0x85, 0xd9, 0xd7, 0xfe, 0x6b, 0xc6, 0xc4, 0x6d, 0xb7, 0xfd, 0x5e],
    [0x42, 0xce, 0x6e, 0x35, 0xe7, 0x69, 0x18, 0x9e, 0x06, 0x01, 0x00, 0xe2, 0xa9, 0x33, 0x16, 0x3c],
    [0x0f, 0x34, 0x4c, 0xb8, 0x9b, 0xf5, 0x88, 0x20, 0xa6, 0xc2, 0x96, 0x7f, 0x2b, 0xfa, 0x4d, 0x24],
    [0x49, 0xba, 0x57, 0x3b, 0xa3, 0x73, 0x8c, 0x76, 0xff, 0x55, 0x47, 0x6c, 0x1e, 0x4f, 0x80, 0x70],
    [0x26, 0x67, 0x03, 0x9f, 0x64, 0x68, 0x3a, 0x4b, 0x8d, 0x19, 0xf6, 0x9d, 0xdd, 0x59, 0x45, 0x2f],
    [0xbc, 0x04, 0x66, 0x48, 0x4e, 0xad, 0x46, 0x1b, 0xc1, 0x41, 0x65, 0xf3, 0x17, 0xeb, 0xd4, 0x87]]"

definition TABLE_S10_14 :: "bytes" where
  "TABLE_S10_14 = concat [
    [0x11, 0xf8, 0x21, 0x45, 0xca, 0xa3, 0xac, 0x7d, 0xcb, 0x3f, 0x88, 0xb3, 0x0f, 0xa7, 0x1c, 0x72],
    [0xc0, 0xeb, 0x78, 0xd2, 0x07, 0xf7, 0x99, 0xc8, 0xd0, 0xbc, 0xce, 0x3d, 0x0b, 0xf1, 0x24, 0xf4],
    [0x71, 0x1a, 0x0a, 0x9e, 0xc2, 0xa8, 0x5a, 0xde, 0x84, 0x18, 0xa1, 0xe0, 0xbd, 0xcc, 0xe3, 0xef],
    [0xe2, 0x74, 0x46, 0xc6, 0x53, 0x00, 0x90, 0x6c, 0xe1, 0xcf, 0x3b, 0x83, 0xc1, 0x9c, 0xc9, 0x2a],
    [0x8f, 0x70, 0x1b, 0xd7, 0x0c, 0x09, 0x64, 0x40, 0xc4, 0xe4, 0xa9, 0x12, 0xe6, 0xf6, 0xb1, 0x34],
    [0x36, 0x5f, 0x6a, 0x77, 0x92, 0xdd, 0x68, 0x8d, 0xf5, 0xab, 0x08, 0x3e, 0xd1, 0x13, 0xb7, 0x76],
    [0x41, 0x43, 0x79, 0xec, 0x7a, 0xd9, 0xea, 0x30, 0x2b, 0x61, 0xa5, 0x6b, 0x5e, 0x50, 0xd4, 0x02],
    [0x87, 0x65, 0x81, 0x86, 0x91, 0xbb, 0x2e, 0xb4, 0xe9, 0xb2, 0xc5, 0x49, 0x9f, 0x19, 0x60, 0xee],
    [0x9a, 0xd8, 0x1f, 0x33, 0x38, 0x48, 0x2f, 0xae, 0xff, 0x4b, 0x0d, 0x6d, 0x97, 0x80, 0x0e, 0x16],
    [0x7e, 0x4d, 0x03, 0xdc, 0x10, 0x4a, 0xf2, 0xbf, 0x1e, 0xb5, 0xfe, 0xdb, 0xbe, 0x75, 0x62, 0x94],
    [0x98, 0xfd, 0xa6, 0xda, 0xb0, 0xb8, 0x05, 0xb6, 0xcd, 0x4e, 0x67, 0x31, 0x01, 0xad, 0x58, 0x7f],
    [0x56, 0x4c, 0x2c, 0x51, 0xfa, 0x15, 0x37, 0x26, 0x8e, 0x5b, 0x06, 0x9b, 0x17, 0x9d, 0x66, 0x54],
    [0x85, 0x23, 0xd3, 0x7c, 0x57, 0x42, 0x1d, 0x2d, 0x32, 0x55, 0x29, 0x04, 0x22, 0xc3, 0x93, 0xba],
    [0x8c, 0xd5, 0x69, 0x5c, 0xf0, 0x89, 0xaa, 0x96, 0xa4, 0xfc, 0x95, 0x27, 0xa2, 0x25, 0xe5, 0xb9],
    [0xc7, 0xaf, 0x20, 0x14, 0x39, 0x4f, 0x47, 0xfb, 0xf3, 0x5d, 0x3c, 0xe7, 0x7b, 0x82, 0x28, 0xa0],
    [0x8a, 0xe8, 0xdf, 0xf9, 0x63, 0x6e, 0x8b, 0x44, 0xed, 0x73, 0xd6, 0x6f, 0x35, 0x3a, 0x52, 0x59]]"

definition TABLE_S10_15 :: "bytes" where
  "TABLE_S10_15 = concat [
    [0x93, 0x3c, 0xcc, 0x6a, 0xc2, 0xf2, 0xad, 0xb8, 0xeb, 0xc6, 0xba, 0xdd, 0x55, 0x7c, 0x2c, 0xcd],
    [0xb3, 0x86, 0x3a, 0x63, 0x79, 0x45, 0x66, 0x1f, 0xc8, 0x7a, 0x13, 0x4b, 0x56, 0x0a, 0xca, 0x4d],
    [0xfb, 0xcf, 0x40, 0x28, 0x14, 0xa8, 0xa0, 0xd6, 0x08, 0xd3, 0xb2, 0x1c, 0x4f, 0xc7, 0x6d, 0x94],
    [0x16, 0x30, 0x07, 0x65, 0xab, 0x64, 0x81, 0x8c, 0x80, 0x39, 0x9c, 0x02, 0xb6, 0xbd, 0xd5, 0xda],
    [0xdc, 0xf0, 0x37, 0x75, 0x41, 0xc0, 0xa7, 0xd7, 0x82, 0xe2, 0xa4, 0x10, 0xf9, 0xe1, 0x6f, 0x78],
    [0x33, 0xec, 0xa2, 0x91, 0x50, 0x1d, 0xa5, 0xff, 0x34, 0x11, 0x5a, 0xf1, 0x7b, 0x8d, 0x9a, 0x51],
    [0x35, 0x49, 0x12, 0x77, 0x59, 0xea, 0x57, 0x5f, 0xde, 0x88, 0xa1, 0x22, 0x90, 0xb7, 0x42, 0xee],
    [0xbe, 0xc3, 0xa3, 0xb9, 0xc9, 0xd8, 0xfa, 0x15, 0x74, 0xe9, 0xb4, 0x61, 0xbb, 0x89, 0x72, 0xf8],
    [0x38, 0xf4, 0x9f, 0x60, 0xaf, 0x8b, 0xe6, 0xe3, 0xfd, 0x46, 0x0b, 0x2b, 0xdb, 0x5e, 0x19, 0x09],
    [0x98, 0x85, 0xb0, 0xd9, 0x62, 0x87, 0x32, 0x7d, 0xd1, 0xe7, 0x44, 0x1a, 0x99, 0x58, 0xfc, 0x3e],
    [0x03, 0x96, 0xac, 0xae, 0xdf, 0x05, 0x36, 0x95, 0x84, 0x4a, 0x8e, 0xc4, 0xed, 0x3b, 0xbf, 0xb1],
    [0x69, 0x6e, 0x8a, 0x68, 0x5b, 0xc1, 0x54, 0x7e, 0xa6, 0x2a, 0x5d, 0x06, 0x01, 0x8f, 0xf6, 0x70],
    [0xaa, 0xce, 0x17, 0xfe, 0x92, 0x43, 0x4c, 0x25, 0x5c, 0x67, 0xd0, 0x24, 0x9d, 0xf3, 0x48, 0xe0],
    [0x3d, 0x97, 0x04, 0x2f, 0x27, 0x76, 0x18, 0xe8, 0xd2, 0x21, 0x53, 0x3f, 0x1b, 0xcb, 0x1e, 0xe4],
    [0x71, 0xe5, 0xf5, 0x9e, 0x31, 0xb5, 0x47, 0x2d, 0x0f, 0x4e, 0xf7, 0x6b, 0x00, 0x0c, 0x23, 0x52],
    [0x29, 0xa9, 0x9b, 0x0d, 0x83, 0x7f, 0xef, 0xbc, 0x6c, 0xd4, 0x20, 0x0e, 0xc5, 0x26, 0x73, 0x2e]]"

definition TABLE_S10_rows :: "bytes list" where
  "TABLE_S10_rows = [
    TABLE_S10_0, TABLE_S10_1, TABLE_S10_2, TABLE_S10_3, TABLE_S10_4, TABLE_S10_5, TABLE_S10_6,
    TABLE_S10_7, TABLE_S10_8, TABLE_S10_9, TABLE_S10_10, TABLE_S10_11, TABLE_S10_12, TABLE_S10_13,
    TABLE_S10_14, TABLE_S10_15]"

definition TABLE_S10 :: "bytes" where
  "TABLE_S10 = concat TABLE_S10_rows"

definition TABLE_S9_0 :: "u32 list" where
  "TABLE_S9_0 = concat [
    [0x7cba6f01, 0x2c06b734, 0x220ec640, 0x72b21e75, 0x82c46d87, 0xd278b5b2, 0xdc70c4c6, 0x8ccc1cf3, 0xa4a8a905, 0xf4147130, 0xfa1c0044, 0xaaa0d871, 0x5ad6ab83, 0x0a6a73b6, 0x046202c2, 0x54dedaf7],
    [0x2854fa3e, 0x78e8220b, 0x76e0537f, 0x265c8b4a, 0xd62af8b8, 0x8696208d, 0x889e51f9, 0xd82289cc, 0xf0463c3a, 0xa0fae40f, 0xaef2957b, 0xfe4e4d4e, 0x0e383ebc, 0x5e84e689, 0x508c97fd, 0x00304fc8],
    [0x613fde08, 0x3183063d, 0x3f8b7749, 0x6f37af7c, 0x9f41dc8e, 0xcffd04bb, 0xc1f575cf, 0x9149adfa, 0xb92d180c, 0xe991c039, 0xe799b14d, 0xb7256978, 0x47531a8a, 0x17efc2bf, 0x19e7b3cb, 0x495b6bfe],
    [0x35d14b37, 0x656d9302, 0x6b65e276, 0x3bd93a43, 0xcbaf49b1, 0x9b139184, 0x951be0f0, 0xc5a738c5, 0xedc38d33, 0xbd7f5506, 0xb3772472, 0xe3cbfc47, 0x13bd8fb5, 0x43015780, 0x4d0926f4, 0x1db5fec1],
    [0x08ab92d9, 0x58174aec, 0x561f3b98, 0x06a3e3ad, 0xf6d5905f, 0xa669486a, 0xa861391e, 0xf8dde12b, 0xd0b954dd, 0x80058ce8, 0x8e0dfd9c, 0xdeb125a9, 0x2ec7565b, 0x7e7b8e6e, 0x7073ff1a, 0x20cf272f],
    [0x5c4507e6, 0x0cf9dfd3, 0x02f1aea7, 0x524d7692, 0xa23b0560, 0xf287dd55, 0xfc8fac21, 0xac337414, 0x8457c1e2, 0xd4eb19d7, 0xdae368a3, 0x8a5fb096, 0x7a29c364, 0x2a951b51, 0x249d6a25, 0x7421b210],
    [0x152e23d0, 0x4592fbe5, 0x4b9a8a91, 0x1b2652a4, 0xeb502156, 0xbbecf963, 0xb5e48817, 0xe5585022, 0xcd3ce5d4, 0x9d803de1, 0x93884c95, 0xc33494a0, 0x3342e752, 0x63fe3f67, 0x6df64e13, 0x3d4a9626],
    [0x41c0b6ef, 0x117c6eda, 0x1f741fae, 0x4fc8c79b, 0xbfbeb469, 0xef026c5c, 0xe10a1d28, 0xb1b6c51d, 0x99d270eb, 0xc96ea8de, 0xc766d9aa, 0x97da019f, 0x67ac726d, 0x3710aa58, 0x3918db2c, 0x69a40319],
    [0xec5d851c, 0xbce15d29, 0xb2e92c5d, 0xe255f468, 0x1223879a, 0x429f5faf, 0x4c972edb, 0x1c2bf6ee, 0x344f4318, 0x64f39b2d, 0x6afbea59, 0x3a47326c, 0xca31419e, 0x9a8d99ab, 0x9485e8df, 0xc43930ea],
    [0xb8b31023, 0xe80fc816, 0xe607b962, 0xb6bb6157, 0x46cd12a5, 0x1671ca90, 0x1879bbe4, 0x48c563d1, 0x60a1d627, 0x301d0e12, 0x3e157f66, 0x6ea9a753, 0x9edfd4a1, 0xce630c94, 0xc06b7de0, 0x90d7a5d5],
    [0xf1d83415, 0xa164ec20, 0xaf6c9d54, 0xffd04561, 0x0fa63693, 0x5f1aeea6, 0x51129fd2, 0x01ae47e7, 0x29caf211, 0x79762a24, 0x777e5b50, 0x27c28365, 0xd7b4f097, 0x870828a2, 0x890059d6, 0xd9bc81e3],
    [0xa536a12a, 0xf58a791f, 0xfb82086b, 0xab3ed05e, 0x5b48a3ac, 0x0bf47b99, 0x05fc0aed, 0x5540d2d8, 0x7d24672e, 0x2d98bf1b, 0x2390ce6f, 0x732c165a, 0x835a65a8, 0xd3e6bd9d, 0xddeecce9, 0x8d5214dc],
    [0x984c78c4, 0xc8f0a0f1, 0xc6f8d185, 0x964409b0, 0x66327a42, 0x368ea277, 0x3886d303, 0x683a0b36, 0x405ebec0, 0x10e266f5, 0x1eea1781, 0x4e56cfb4, 0xbe20bc46, 0xee9c6473, 0xe0941507, 0xb028cd32],
    [0xcca2edfb, 0x9c1e35ce, 0x921644ba, 0xc2aa9c8f, 0x32dcef7d, 0x62603748, 0x6c68463c, 0x3cd49e09, 0x14b02bff, 0x440cf3ca, 0x4a0482be, 0x1ab85a8b, 0xeace2979, 0xba72f14c, 0xb47a8038, 0xe4c6580d],
    [0x85c9c9cd, 0xd57511f8, 0xdb7d608c, 0x8bc1b8b9, 0x7bb7cb4b, 0x2b0b137e, 0x2503620a, 0x75bfba3f, 0x5ddb0fc9, 0x0d67d7fc, 0x036fa688, 0x53d37ebd, 0xa3a50d4f, 0xf319d57a, 0xfd11a40e, 0xadad7c3b],
    [0xd1275cf2, 0x819b84c7, 0x8f93f5b3, 0xdf2f2d86, 0x2f595e74, 0x7fe58641, 0x71edf735, 0x21512f00, 0x09359af6, 0x598942c3, 0x578133b7, 0x073deb82, 0xf74b9870, 0xa7f74045, 0xa9ff3131, 0xf943e904]]"

definition TABLE_S9_1 :: "u32 list" where
  "TABLE_S9_1 = concat [
    [0xcdbd827d, 0x7165b72d, 0x7914c323, 0xc5ccf673, 0xb3bf0483, 0x0f6731d3, 0x071645dd, 0xbbce708d, 0xdf7b86a5, 0x63a3b3f5, 0x6bd2c7fb, 0xd70af2ab, 0xa179005b, 0x1da1350b, 0x15d04105, 0xa9087455],
    [0x2328bd29, 0x9ff08879, 0x9781fc77, 0x2b59c927, 0x5d2a3bd7, 0xe1f20e87, 0xe9837a89, 0x555b4fd9, 0x31eeb9f1, 0x8d368ca1, 0x8547f8af, 0x399fcdff, 0x4fec3f0f, 0xf3340a5f, 0xfb457e51, 0x479d4b01],
    [0x480c8b60, 0xf4d4be30, 0xfca5ca3e, 0x407dff6e, 0x360e0d9e, 0x8ad638ce, 0x82a74cc0, 0x3e7f7990, 0x5aca8fb8, 0xe612bae8, 0xee63cee6, 0x52bbfbb6, 0x24c80946, 0x98103c16, 0x90614818, 0x2cb97d48],
    [0xa699b434, 0x1a418164, 0x1230f56a, 0xaee8c03a, 0xd89b32ca, 0x6443079a, 0x6c327394, 0xd0ea46c4, 0xb45fb0ec, 0x088785bc, 0x00f6f1b2, 0xbc2ec4e2, 0xca5d3612, 0x76850342, 0x7ef4774c, 0xc22c421c],
    [0xdc405a09, 0x60986f59, 0x68e91b57, 0xd4312e07, 0xa242dcf7, 0x1e9ae9a7, 0x16eb9da9, 0xaa33a8f9, 0xce865ed1, 0x725e6b81, 0x7a2f1f8f, 0xc6f72adf, 0xb084d82f, 0x0c5ced7f, 0x042d9971, 0xb8f5ac21],
    [0x32d5655d, 0x8e0d500d, 0x867c2403, 0x3aa41153, 0x4cd7e3a3, 0xf00fd6f3, 0xf87ea2fd, 0x44a697ad, 0x20136185, 0x9ccb54d5, 0x94ba20db, 0x2862158b, 0x5e11e77b, 0xe2c9d22b, 0xeab8a625, 0x56609375],
    [0x59f15314, 0xe5296644, 0xed58124a, 0x5180271a, 0x27f3d5ea, 0x9b2be0ba, 0x935a94b4, 0x2f82a1e4, 0x4b3757cc, 0xf7ef629c, 0xff9e1692, 0x434623c2, 0x3535d132, 0x89ede462, 0x819c906c, 0x3d44a53c],
    [0xb7646c40, 0x0bbc5910, 0x03cd2d1e, 0xbf15184e, 0xc966eabe, 0x75bedfee, 0x7dcfabe0, 0xc1179eb0, 0xa5a26898, 0x197a5dc8, 0x110b29c6, 0xadd31c96, 0xdba0ee66, 0x6778db36, 0x6f09af38, 0xd3d19a68],
    [0x2a579fed, 0x968faabd, 0x9efedeb3, 0x2226ebe3, 0x54551913, 0xe88d2c43, 0xe0fc584d, 0x5c246d1d, 0x38919b35, 0x8449ae65, 0x8c38da6b, 0x30e0ef3b, 0x46931dcb, 0xfa4b289b, 0xf23a5c95, 0x4ee269c5],
    [0xc4c2a0b9, 0x781a95e9, 0x706be1e7, 0xccb3d4b7, 0xbac02647, 0x06181317, 0x0e696719, 0xb2b15249, 0xd604a461, 0x6adc9131, 0x62ade53f, 0xde75d06f, 0xa806229f, 0x14de17cf, 0x1caf63c1, 0xa0775691],
    [0xafe696f0, 0x133ea3a0, 0x1b4fd7ae, 0xa797e2fe, 0xd1e4100e, 0x6d3c255e, 0x654d5150, 0xd9956400, 0xbd209228, 0x01f8a778, 0x0989d376, 0xb551e626, 0xc32214d6, 0x7ffa2186, 0x778b5588, 0xcb5360d8],
    [0x4173a9a4, 0xfdab9cf4, 0xf5dae8fa, 0x4902ddaa, 0x3f712f5a, 0x83a91a0a, 0x8bd86e04, 0x37005b54, 0x53b5ad7c, 0xef6d982c, 0xe71cec22, 0x5bc4d972, 0x2db72b82, 0x916f1ed2, 0x991e6adc, 0x25c65f8c],
    [0x3baa4799, 0x877272c9, 0x8f0306c7, 0x33db3397, 0x45a8c167, 0xf970f437, 0xf1018039, 0x4dd9b569, 0x296c4341, 0x95b47611, 0x9dc5021f, 0x211d374f, 0x576ec5bf, 0xebb6f0ef, 0xe3c784e1, 0x5f1fb1b1],
    [0xd53f78cd, 0x69e74d9d, 0x61963993, 0xdd4e0cc3, 0xab3dfe33, 0x17e5cb63, 0x1f94bf6d, 0xa34c8a3d, 0xc7f97c15, 0x7b214945, 0x73503d4b, 0xcf88081b, 0xb9fbfaeb, 0x0523cfbb, 0x0d52bbb5, 0xb18a8ee5],
    [0xbe1b4e84, 0x02c37bd4, 0x0ab20fda, 0xb66a3a8a, 0xc019c87a, 0x7cc1fd2a, 0x74b08924, 0xc868bc74, 0xacdd4a5c, 0x10057f0c, 0x18740b02, 0xa4ac3e52, 0xd2dfcca2, 0x6e07f9f2, 0x66768dfc, 0xdaaeb8ac],
    [0x508e71d0, 0xec564480, 0xe427308e, 0x58ff05de, 0x2e8cf72e, 0x9254c27e, 0x9a25b670, 0x26fd8320, 0x42487508, 0xfe904058, 0xf6e13456, 0x4a390106, 0x3c4af3f6, 0x8092c6a6, 0x88e3b2a8, 0x343b87f8]]"

definition TABLE_S9_2 :: "u32 list" where
  "TABLE_S9_2 = concat [
    [0xd78d63dd, 0x0fb83361, 0x7ecc3d69, 0xa6f96dd5, 0xd50b9da3, 0x0d3ecd1f, 0x7c4ac317, 0xa47f93ab, 0x1189bbcf, 0xc9bceb73, 0xb8c8e57b, 0x60fdb5c7, 0x130f45b1, 0xcb3a150d, 0xba4e1b05, 0x627b4bb9],
    [0x42b23733, 0x9a87678f, 0xebf36987, 0x33c6393b, 0x4034c94d, 0x980199f1, 0xe97597f9, 0x3140c745, 0x84b6ef21, 0x5c83bf9d, 0x2df7b195, 0xf5c2e129, 0x8630115f, 0x5e0541e3, 0x2f714feb, 0xf7441f57],
    [0x66847e58, 0xbeb12ee4, 0xcfc520ec, 0x17f07050, 0x64028026, 0xbc37d09a, 0xcd43de92, 0x15768e2e, 0xa080a64a, 0x78b5f6f6, 0x09c1f8fe, 0xd1f4a842, 0xa2065834, 0x7a330888, 0x0b470680, 0xd372563c],
    [0xf3bb2ab6, 0x2b8e7a0a, 0x5afa7402, 0x82cf24be, 0xf13dd4c8, 0x29088474, 0x587c8a7c, 0x8049dac0, 0x35bff2a4, 0xed8aa218, 0x9cfeac10, 0x44cbfcac, 0x37390cda, 0xef0c5c66, 0x9e78526e, 0x464d02d2],
    [0x2a5517cc, 0xf2604770, 0x83144978, 0x5b2119c4, 0x28d3e9b2, 0xf0e6b90e, 0x8192b706, 0x59a7e7ba, 0xec51cfde, 0x34649f62, 0x4510916a, 0x9d25c1d6, 0xeed731a0, 0x36e2611c, 0x47966f14, 0x9fa33fa8],
    [0xbf6a4322, 0x675f139e, 0x162b1d96, 0xce1e4d2a, 0xbdecbd5c, 0x65d9ede0, 0x14ade3e8, 0xcc98b354, 0x796e9b30, 0xa15bcb8c, 0xd02fc584, 0x081a9538, 0x7be8654e, 0xa3dd35f2, 0xd2a93bfa, 0x0a9c6b46],
    [0x9b5c0a49, 0x43695af5, 0x321d54fd, 0xea280441, 0x99daf437, 0x41efa48b, 0x309baa83, 0xe8aefa3f, 0x5d58d25b, 0x856d82e7, 0xf4198cef, 0x2c2cdc53, 0x5fde2c25, 0x87eb7c99, 0xf69f7291, 0x2eaa222d],
    [0x0e635ea7, 0xd6560e1b, 0xa7220013, 0x7f1750af, 0x0ce5a0d9, 0xd4d0f065, 0xa5a4fe6d, 0x7d91aed1, 0xc86786b5, 0x1052d609, 0x6126d801, 0xb91388bd, 0xcae178cb, 0x12d42877, 0x63a0267f, 0xbb9576c3],
    [0x3d90f33a, 0xe5a5a386, 0x94d1ad8e, 0x4ce4fd32, 0x3f160d44, 0xe7235df8, 0x965753f0, 0x4e62034c, 0xfb942b28, 0x23a17b94, 0x52d5759c, 0x8ae02520, 0xf912d556, 0x212785ea, 0x50538be2, 0x8866db5e],
    [0xa8afa7d4, 0x709af768, 0x01eef960, 0xd9dba9dc, 0xaa2959aa, 0x721c0916, 0x0368071e, 0xdb5d57a2, 0x6eab7fc6, 0xb69e2f7a, 0xc7ea2172, 0x1fdf71ce, 0x6c2d81b8, 0xb418d104, 0xc56cdf0c, 0x1d598fb0],
    [0x8c99eebf, 0x54acbe03, 0x25d8b00b, 0xfdede0b7, 0x8e1f10c1, 0x562a407d, 0x275e4e75, 0xff6b1ec9, 0x4a9d36ad, 0x92a86611, 0xe3dc6819, 0x3be938a5, 0x481bc8d3, 0x902e986f, 0xe15a9667, 0x396fc6db],
    [0x19a6ba51, 0xc193eaed, 0xb0e7e4e5, 0x68d2b459, 0x1b20442f, 0xc3151493, 0xb2611a9b, 0x6a544a27, 0xdfa26243, 0x079732ff, 0x76e33cf7, 0xaed66c4b, 0xdd249c3d, 0x0511cc81, 0x7465c289, 0xac509235],
    [0xc048872b, 0x187dd797, 0x6909d99f, 0xb13c8923, 0xc2ce7955, 0x1afb29e9, 0x6b8f27e1, 0xb3ba775d, 0x064c5f39, 0xde790f85, 0xaf0d018d, 0x77385131, 0x04caa147, 0xdcfff1fb, 0xad8bfff3, 0x75beaf4f],
    [0x5577d3c5, 0x8d428379, 0xfc368d71, 0x2403ddcd, 0x57f12dbb, 0x8fc47d07, 0xfeb0730f, 0x268523b3, 0x93730bd7, 0x4b465b6b, 0x3a325563, 0xe20705df, 0x91f5f5a9, 0x49c0a515, 0x38b4ab1d, 0xe081fba1],
    [0x71419aae, 0xa974ca12, 0xd800c41a, 0x003594a6, 0x73c764d0, 0xabf2346c, 0xda863a64, 0x02b36ad8, 0xb74542bc, 0x6f701200, 0x1e041c08, 0xc6314cb4, 0xb5c3bcc2, 0x6df6ec7e, 0x1c82e276, 0xc4b7b2ca],
    [0xe47ece40, 0x3c4b9efc, 0x4d3f90f4, 0x950ac048, 0xe6f8303e, 0x3ecd6082, 0x4fb96e8a, 0x978c3e36, 0x227a1652, 0xfa4f46ee, 0x8b3b48e6, 0x530e185a, 0x20fce82c, 0xf8c9b890, 0x89bdb698, 0x5188e624]]"

definition TABLE_S9_3 :: "u32 list" where
  "TABLE_S9_3 = concat [
    [0x052ae490, 0x307a5848, 0x44745039, 0x7124ece1, 0x83d49a92, 0xb684264a, 0xc28a2e3b, 0xf7da92e3, 0x01f2f656, 0x34a24a8e, 0x40ac42ff, 0x75fcfe27, 0x870c8854, 0xb25c348c, 0xc6523cfd, 0xf3028025],
    [0x3a7e0a05, 0x0f2eb6dd, 0x7b20beac, 0x4e700274, 0xbc807407, 0x89d0c8df, 0xfddec0ae, 0xc88e7c76, 0x3ea618c3, 0x0bf6a41b, 0x7ff8ac6a, 0x4aa810b2, 0xb85866c1, 0x8d08da19, 0xf906d268, 0xcc566eb0],
    [0x0c376121, 0x3967ddf9, 0x4d69d588, 0x78396950, 0x8ac91f23, 0xbf99a3fb, 0xcb97ab8a, 0xfec71752, 0x08ef73e7, 0x3dbfcf3f, 0x49b1c74e, 0x7ce17b96, 0x8e110de5, 0xbb41b13d, 0xcf4fb94c, 0xfa1f0594],
    [0x33638fb4, 0x0633336c, 0x723d3b1d, 0x476d87c5, 0xb59df1b6, 0x80cd4d6e, 0xf4c3451f, 0xc193f9c7, 0x37bb9d72, 0x02eb21aa, 0x76e529db, 0x43b59503, 0xb145e370, 0x84155fa8, 0xf01b57d9, 0xc54beb01],
    [0xdd5ef56d, 0xe80e49b5, 0x9c0041c4, 0xa950fd1c, 0x5ba08b6f, 0x6ef037b7, 0x1afe3fc6, 0x2fae831e, 0xd986e7ab, 0xecd65b73, 0x98d85302, 0xad88efda, 0x5f7899a9, 0x6a282571, 0x1e262d00, 0x2b7691d8],
    [0xe20a1bf8, 0xd75aa720, 0xa354af51, 0x96041389, 0x64f465fa, 0x51a4d922, 0x25aad153, 0x10fa6d8b, 0xe6d2093e, 0xd382b5e6, 0xa78cbd97, 0x92dc014f, 0x602c773c, 0x557ccbe4, 0x2172c395, 0x14227f4d],
    [0xd44370dc, 0xe113cc04, 0x951dc475, 0xa04d78ad, 0x52bd0ede, 0x67edb206, 0x13e3ba77, 0x26b306af, 0xd09b621a, 0xe5cbdec2, 0x91c5d6b3, 0xa4956a6b, 0x56651c18, 0x6335a0c0, 0x173ba8b1, 0x226b1469],
    [0xeb179e49, 0xde472291, 0xaa492ae0, 0x9f199638, 0x6de9e04b, 0x58b95c93, 0x2cb754e2, 0x19e7e83a, 0xefcf8c8f, 0xda9f3057, 0xae913826, 0x9bc184fe, 0x6931f28d, 0x5c614e55, 0x286f4624, 0x1d3ffafc],
    [0x18ba037a, 0x2deabfa2, 0x59e4b7d3, 0x6cb40b0b, 0x9e447d78, 0xab14c1a0, 0xdf1ac9d1, 0xea4a7509, 0x1c6211bc, 0x2932ad64, 0x5d3ca515, 0x686c19cd, 0x9a9c6fbe, 0xafccd366, 0xdbc2db17, 0xee9267cf],
    [0x27eeedef, 0x12be5137, 0x66b05946, 0x53e0e59e, 0xa11093ed, 0x94402f35, 0xe04e2744, 0xd51e9b9c, 0x2336ff29, 0x166643f1, 0x62684b80, 0x5738f758, 0xa5c8812b, 0x90983df3, 0xe4963582, 0xd1c6895a],
    [0x11a786cb, 0x24f73a13, 0x50f93262, 0x65a98eba, 0x9759f8c9, 0xa2094411, 0xd6074c60, 0xe357f0b8, 0x157f940d, 0x202f28d5, 0x542120a4, 0x61719c7c, 0x9381ea0f, 0xa6d156d7, 0xd2df5ea6, 0xe78fe27e],
    [0x2ef3685e, 0x1ba3d486, 0x6faddcf7, 0x5afd602f, 0xa80d165c, 0x9d5daa84, 0xe953a2f5, 0xdc031e2d, 0x2a2b7a98, 0x1f7bc640, 0x6b75ce31, 0x5e2572e9, 0xacd5049a, 0x9985b842, 0xed8bb033, 0xd8db0ceb],
    [0xc0ce1287, 0xf59eae5f, 0x8190a62e, 0xb4c01af6, 0x46306c85, 0x7360d05d, 0x076ed82c, 0x323e64f4, 0xc4160041, 0xf146bc99, 0x8548b4e8, 0xb0180830, 0x42e87e43, 0x77b8c29b, 0x03b6caea, 0x36e67632],
    [0xff9afc12, 0xcaca40ca, 0xbec448bb, 0x8b94f463, 0x79648210, 0x4c343ec8, 0x383a36b9, 0x0d6a8a61, 0xfb42eed4, 0xce12520c, 0xba1c5a7d, 0x8f4ce6a5, 0x7dbc90d6, 0x48ec2c0e, 0x3ce2247f, 0x09b298a7],
    [0xc9d39736, 0xfc832bee, 0x888d239f, 0xbddd9f47, 0x4f2de934, 0x7a7d55ec, 0x0e735d9d, 0x3b23e145, 0xcd0b85f0, 0xf85b3928, 0x8c553159, 0xb9058d81, 0x4bf5fbf2, 0x7ea5472a, 0x0aab4f5b, 0x3ffbf383],
    [0xf68779a3, 0xc3d7c57b, 0xb7d9cd0a, 0x828971d2, 0x707907a1, 0x4529bb79, 0x3127b308, 0x04770fd0, 0xf25f6b65, 0xc70fd7bd, 0xb301dfcc, 0x86516314, 0x74a11567, 0x41f1a9bf, 0x35ffa1ce, 0x00af1d16]]"

definition TABLE_S9_rows :: "u32 list list" where
  "TABLE_S9_rows = [
    TABLE_S9_0, TABLE_S9_1, TABLE_S9_2, TABLE_S9_3]"

definition TABLE_S9 :: "u32 list" where
  "TABLE_S9 = concat TABLE_S9_rows"

definition INITIAL_SESSION_KEY :: "bytes" where
  "INITIAL_SESSION_KEY = [
    0xdc, 0xdc, 0xf3, 0xb9, 0x0b, 0x74, 0xdc, 0xfb, 0x86, 0x7f, 0xf7, 0x60, 0x16, 0x72, 0x90, 0x51]"

definition STATIC_SOURCE_1 :: "bytes" where
  "STATIC_SOURCE_1 = [
    0xfa, 0x9c, 0xad, 0x4d, 0x4b, 0x68, 0x26, 0x8c, 0x7f, 0xf3, 0x88, 0x99, 0xde, 0x92, 0x2e, 0x95,
    0x1e]"

definition STATIC_SOURCE_2 :: "bytes" where
  "STATIC_SOURCE_2 = [
    0xec, 0x4e, 0x27, 0x5e, 0xfd, 0xf2, 0xe8, 0x30, 0x97, 0xae, 0x70, 0xfb, 0xe0, 0x00, 0x3f, 0x1c,
    0x39, 0x80, 0x00, 0x00, 0x00, 0x00, 0x00, 0x00, 0x00, 0x00, 0x00, 0x00, 0x00, 0x00, 0x00, 0x00,
    0x00, 0x00, 0x00, 0x00, 0x00, 0x00, 0x00, 0x10, 0x09, 0x00, 0x00, 0x00, 0x00, 0x00, 0x00]"

definition DEFAULT_SAP :: "bytes" where
  "DEFAULT_SAP = [
    0x00, 0x03, 0x00, 0x00, 0x00, 0x00, 0x00, 0x00, 0x79, 0x79, 0x79, 0x79, 0x79, 0x79, 0x79, 0x79,
    0x79, 0x79, 0x79, 0x79, 0x79, 0x79, 0x79, 0x79, 0x79, 0x79, 0x79, 0x79, 0x79, 0x79, 0x79, 0x79,
    0x79, 0x79, 0x79, 0x79, 0x79, 0x79, 0x79, 0x79, 0x79, 0x79, 0x79, 0x79, 0x00, 0x00, 0x00, 0x00,
    0x00, 0x00, 0x00, 0x00, 0x00, 0x00, 0x00, 0x00, 0x00, 0x00, 0x00, 0x00, 0x00, 0x00, 0x00, 0x00,
    0x79, 0x79, 0x79, 0x79, 0x79, 0x79, 0x79, 0x79, 0x79, 0x79, 0x79, 0x79, 0x79, 0x79, 0x79, 0x79,
    0x79, 0x79, 0x79, 0x79, 0x79, 0x79, 0x79, 0x79, 0x79, 0x79, 0x79, 0x79, 0x79, 0x79, 0x79, 0x79,
    0x79, 0x79, 0x79, 0x79, 0x00, 0x00, 0x00, 0x00, 0x00, 0x00, 0x00, 0x00, 0x00, 0x00, 0x00, 0x00,
    0x00, 0x00, 0x00, 0x00, 0x00, 0x00, 0x00, 0x00, 0x00, 0x00, 0x00, 0x00, 0x02, 0x03, 0x02, 0x53,
    0x00, 0x01, 0xcc, 0x34, 0x2a, 0x5e, 0x5b, 0x1a, 0x67, 0x73, 0xc2, 0x0e, 0x21, 0xb8, 0x22, 0x4d,
    0xf8, 0x62, 0x48, 0x18, 0x64, 0xef, 0x81, 0x0a, 0xae, 0x2e, 0x37, 0x03, 0xc8, 0x81, 0x9c, 0x23,
    0x53, 0x9d, 0xe5, 0xf5, 0xd7, 0x49, 0xbc, 0x5b, 0x7a, 0x26, 0x6c, 0x49, 0x62, 0x83, 0xce, 0x7f,
    0x03, 0x93, 0x7a, 0xe1, 0xf6, 0x16, 0xde, 0x0c, 0x15, 0xff, 0x33, 0x8c, 0xca, 0xff, 0xb0, 0x9e,
    0xaa, 0xbb, 0xe4, 0x0f, 0x5d, 0x5f, 0x55, 0x8f, 0xb9, 0x7f, 0x17, 0x31, 0xf8, 0xf7, 0xda, 0x60,
    0xa0, 0xec, 0x65, 0x79, 0xc3, 0x3e, 0xa9, 0x83, 0x12, 0xc3, 0xb6, 0x71, 0x35, 0xa6, 0x69, 0x4f,
    0xf8, 0x23, 0x05, 0xd9, 0xba, 0x5c, 0x61, 0x5f, 0xa2, 0x54, 0xd2, 0xb1, 0x83, 0x45, 0x83, 0xce,
    0xe4, 0x2d, 0x44, 0x26, 0xc8, 0x35, 0xa7, 0xa5, 0xf6, 0xc8, 0x42, 0x1c, 0x0d, 0xa3, 0xf1, 0xc7,
    0x00, 0x50, 0xf2, 0xe5, 0x17, 0xf8, 0xd0, 0xfa, 0x77, 0x8d, 0xfb, 0x82, 0x8d, 0x40, 0xc7, 0x8e,
    0x94, 0x1e, 0x1e, 0x1e]"

definition MESSAGE_KEY :: "bytes list" where
  "MESSAGE_KEY = [
   [
    0x1d, 0x24, 0x03, 0x40, 0xdc, 0xae, 0xc7, 0xa8, 0x26, 0x7c, 0x20, 0x99, 0x5d, 0x7e, 0x89, 0x2e,
    0xa2, 0x58, 0xaf, 0xbe, 0xb8, 0x07, 0x9a, 0x2f, 0x87, 0x77, 0xd3, 0xce, 0x37, 0x3e, 0x1b, 0x16,
    0x41, 0x4f, 0x4e, 0xbe, 0x62, 0x5a, 0x00, 0x77, 0xc6, 0xeb, 0xda, 0x4b, 0x97, 0x1a, 0x61, 0x8d,
    0x31, 0x32, 0x1c, 0xa2, 0x78, 0x9b, 0x66, 0x72, 0x60, 0x94, 0x44, 0x86, 0xcb, 0x09, 0xbd, 0x3a,
    0x77, 0x57, 0xc1, 0x72, 0x61, 0x1d, 0x32, 0xc7, 0x85, 0xd1, 0xef, 0xe5, 0x4d, 0x95, 0x0b, 0xf0,
    0xd8, 0x18, 0xe7, 0x4a, 0xdc, 0x77, 0xca, 0x55, 0x28, 0x32, 0x93, 0x2a, 0x7b, 0x3e, 0x3a, 0xd4,
    0x97, 0xfd, 0x7d, 0x6d, 0x95, 0x71, 0x27, 0x9c, 0x77, 0x6a, 0x7c, 0xd5, 0xbf, 0x9d, 0x0e, 0xf2,
    0x0f, 0x55, 0x91, 0x29, 0xcf, 0xaa, 0x58, 0x1c, 0x7a, 0xe7, 0xcb, 0x8b, 0x20, 0x07, 0x53, 0xaa,
    0x59, 0x40, 0x3b, 0x03, 0xbe, 0x33, 0x47, 0x47, 0x5a, 0x4f, 0x86, 0x31, 0x8d, 0x30, 0xf9, 0x1c],
   [
    0xf1, 0xa2, 0x04, 0x7a, 0xae, 0xe9, 0xd8, 0xbf, 0xd4, 0xc0, 0x6b, 0x77, 0xc1, 0x05, 0x8c, 0x99,
    0xa9, 0xfd, 0x3d, 0x44, 0xee, 0x7b, 0x6c, 0x28, 0x42, 0x31, 0x63, 0x87, 0x6d, 0xd2, 0x6d, 0x48,
    0xcc, 0x4e, 0x93, 0x31, 0x7b, 0x27, 0x14, 0xfc, 0x2d, 0x71, 0x5d, 0xe4, 0xb0, 0xf9, 0x4b, 0x82,
    0x76, 0x52, 0xd5, 0x02, 0x6c, 0xb6, 0xcf, 0x57, 0xfe, 0xb2, 0xbf, 0xb7, 0x30, 0x56, 0x7b, 0x9b,
    0x3e, 0x3e, 0xb0, 0x47, 0x10, 0x63, 0xe8, 0x72, 0x1c, 0x38, 0x2d, 0x79, 0xc4, 0x77, 0x3c, 0xd1,
    0xed, 0x02, 0x43, 0x03, 0x5c, 0xbc, 0x57, 0x9e, 0x43, 0x02, 0x67, 0xa1, 0x9b, 0x8c, 0xf3, 0x54,
    0xe4, 0x46, 0xe1, 0x1c, 0x4f, 0xdc, 0xf7, 0x9f, 0xf4, 0x49, 0x76, 0x4f, 0x13, 0x96, 0x86, 0xcf,
    0xf1, 0x7a, 0x01, 0xac, 0xe4, 0xd5, 0x32, 0x5b, 0x5d, 0x7d, 0xee, 0xca, 0xbf, 0x76, 0xfb, 0x50,
    0xd7, 0xec, 0x9c, 0xa3, 0xf6, 0x2e, 0xbe, 0x9b, 0xc7, 0xc8, 0x0f, 0xf2, 0xb7, 0x3b, 0xde, 0x8a],
   [
    0x18, 0x6e, 0xd3, 0x73, 0x5e, 0xe9, 0x5a, 0x8f, 0x66, 0x3f, 0xf1, 0xb8, 0x4a, 0x62, 0xd9, 0xc0,
    0xd2, 0x08, 0x13, 0x61, 0xcb, 0xf3, 0xad, 0xa6, 0x26, 0x4d, 0x3a, 0x7b, 0x06, 0xb5, 0x51, 0x56,
    0xfe, 0x66, 0x0a, 0xd8, 0x3a, 0xaa, 0x47, 0x49, 0xd3, 0x7c, 0xc3, 0x68, 0x70, 0xd0, 0x96, 0x80,
    0x6a, 0x05, 0x90, 0xef, 0xaf, 0x43, 0x42, 0xc4, 0x2e, 0x50, 0x4c, 0x96, 0x13, 0xb5, 0x2e, 0x4c,
    0x80, 0xa2, 0x8d, 0x23, 0xee, 0xe2, 0x5e, 0x78, 0xf4, 0x3d, 0x65, 0xca, 0x71, 0x4f, 0x68, 0x9e,
    0x4b, 0x43, 0x58, 0x7b, 0x47, 0x96, 0x40, 0x81, 0x8a, 0x98, 0x6c, 0x04, 0x33, 0x0f, 0x2f, 0x1c,
    0x33, 0x8e, 0xea, 0xa1, 0x4f, 0xa8, 0x37, 0x93, 0x17, 0x1d, 0x8d, 0x18, 0xa9, 0x6a, 0x1b, 0x07,
    0x7c, 0xb6, 0x08, 0x58, 0x1f, 0x12, 0x00, 0xfa, 0x37, 0x4d, 0x7f, 0xba, 0xa5, 0x00, 0x6b, 0x72,
    0x78, 0x9c, 0x33, 0xe8, 0x41, 0x07, 0xb7, 0xc1, 0x67, 0x9b, 0x76, 0xbb, 0xdd, 0x91, 0x3d, 0x3d],
   [
    0x47, 0x69, 0x9f, 0x08, 0xb8, 0x82, 0xfb, 0xa1, 0x95, 0xe5, 0x6f, 0x41, 0x79, 0x1e, 0x0c, 0xb6,
    0xa1, 0xca, 0x11, 0x0a, 0xe2, 0x87, 0x2c, 0x7e, 0x39, 0xbc, 0x98, 0xa5, 0x1e, 0xb2, 0xfa, 0x1f,
    0xee, 0x73, 0x42, 0xd7, 0xa9, 0x09, 0x42, 0xc0, 0xef, 0xc4, 0x44, 0x0c, 0x0f, 0x6f, 0x97, 0x09,
    0x08, 0xbc, 0x66, 0x31, 0x33, 0xff, 0xca, 0x7e, 0xb5, 0xe9, 0x7d, 0x77, 0x98, 0xc0, 0xd2, 0x6a,
    0xfd, 0x2f, 0x0b, 0x6c, 0x9d, 0xab, 0xaa, 0x78, 0x4c, 0x76, 0xde, 0x21, 0xbf, 0xf4, 0x3a, 0x28,
    0x2a, 0xc4, 0x74, 0xb4, 0xa9, 0x1b, 0x9a, 0x38, 0x21, 0x4c, 0xeb, 0xbd, 0x72, 0x51, 0xa6, 0x15,
    0xd4, 0x9e, 0x17, 0xf3, 0x94, 0x26, 0x6d, 0x07, 0x5f, 0x92, 0xaa, 0xa4, 0x4e, 0xf2, 0xcd, 0x3f,
    0x02, 0x4f, 0x05, 0x35, 0xe3, 0x58, 0xdf, 0x82, 0x7e, 0x6a, 0x17, 0xf0, 0x5f, 0x6b, 0xdc, 0xe9,
    0x3a, 0xcf, 0x04, 0xb3, 0x01, 0x44, 0x87, 0xd7, 0xbc, 0xad, 0x3d, 0x74, 0x96, 0x74, 0xa3, 0x99]]"

definition MESSAGE_IV :: "bytes list" where
  "MESSAGE_IV = [
   [
    0x57, 0x52, 0xf1, 0xb7, 0x54, 0x9d, 0x8f, 0x87, 0x0c, 0x10, 0x48, 0x5a, 0x60, 0x88, 0xca, 0xdb],
   [
    0xdf, 0x7b, 0x15, 0x63, 0xf0, 0x05, 0x58, 0x77, 0x52, 0xa9, 0x04, 0x02, 0xb9, 0xa3, 0x92, 0x95],
   [
    0x68, 0xb5, 0x46, 0x11, 0xfb, 0x04, 0xde, 0x67, 0x6c, 0x96, 0x8e, 0xfb, 0x8c, 0x9d, 0xb0, 0xc9],
   [
    0x27, 0x07, 0x8b, 0x21, 0x23, 0x36, 0x1e, 0x7a, 0xdc, 0x9d, 0x0b, 0x11, 0x53, 0x54, 0x69, 0x0d]]"

definition MD5_SHIFT :: "u32 list" where
  "MD5_SHIFT = concat [
    [7, 12, 17, 22, 7, 12, 17, 22],
    [7, 12, 17, 22, 7, 12, 17, 22],
    [5, 9, 14, 20, 5, 9, 14, 20],
    [5, 9, 14, 20, 5, 9, 14, 20],
    [4, 11, 16, 23, 4, 11, 16, 23],
    [4, 11, 16, 23, 4, 11, 16, 23],
    [6, 10, 15, 21, 6, 10, 15, 21],
    [6, 10, 15, 21, 6, 10, 15, 21]]"

end
