(* ===== verification/Fairplay_Garble.thy ===== *)
theory Fairplay_Garble
  imports Rust_Ops
begin

text \<open>
  src/crypto/fairplay_garble.rs: the garble transformation of the session key hash. The function is
  a straight line of assignments to four buffers and to registers; here it is the list of these
  assignments, in the order of the source, each a function of the state, and running it is folding
  over the list. Every index is a constant below the size of its buffer or is reduced modulo the
  size, so none is out of range as long as the buffers keep their sizes, which they do.
\<close>

section \<open>Rotations\<close>

text \<open>Casts between the two widths.\<close>

abbreviation w32 :: "byte \<Rightarrow> u32" where "w32 b \<equiv> ucast b"
abbreviation w8 :: "u32 \<Rightarrow> byte" where "w8 x \<equiv> ucast x"

definition weird_ror8 :: "byte \<Rightarrow> u32 \<Rightarrow> u32" where
  "weird_ror8 inp count =
     (if count = 0 then 0
      else let c = count AND 7
           in (shr (w32 inp) (unat c) AND 0xff) OR shl (w32 inp AND 0xff) (unat (8 - c)))"

definition weird_rol8 :: "byte \<Rightarrow> u32 \<Rightarrow> u32" where
  "weird_rol8 inp count =
     (if count = 0 then 0
      else let c = count AND 7
           in (shl (w32 inp) (unat c) AND 0xff) OR shr (w32 inp) (unat (8 - c)))"

definition weird_rol32 :: "byte \<Rightarrow> u32 \<Rightarrow> u32" where
  "weird_rol32 inp count =
     (if count = 0 then 0 else shl (w32 inp) (unat count) XOR shr (w32 inp) (unat (8 - count)))"

definition rol8 :: "byte \<Rightarrow> u32 \<Rightarrow> byte" where
  "rol8 x y = ucast (shl (ucast x :: u16) (unat (y AND 7)) OR shr (ucast x :: u16) (unat (8 - (y AND 7))))"

definition rol8x :: "byte \<Rightarrow> u32 \<Rightarrow> u32" where
  "rol8x x y = shl (w32 x) (unat (y AND 7)) OR shr (w32 x) (unat (8 - (y AND 7)))"

section \<open>The transformation\<close>

record garble_state =
  buffer0 :: bytes
  buffer1 :: bytes
  buffer2 :: bytes
  buffer3 :: bytes
  buffer4 :: bytes
  reg_tmp :: u32
  reg_tmp2 :: u32
  reg_tmp3 :: u32
  reg_A :: u32
  reg_B :: u32
  reg_C :: u32
  reg_D :: u32
  reg_E :: u32
  reg_F :: u32
  reg_G :: u32
  reg_H :: u32
  reg_J :: u32
  reg_K :: u32
  reg_M :: u32
  reg_R :: u32
  reg_S :: u32
  reg_T :: u32
  reg_U :: u32
  reg_V :: u32
  reg_W :: u32
  reg_X :: u32
  reg_Y :: u32
  reg_Z :: u32

definition put0 :: "nat \<Rightarrow> byte \<Rightarrow> garble_state \<Rightarrow> garble_state" where
  "put0 i v s = s\<lparr>buffer0 := (buffer0 s)[i := v]\<rparr>"

definition put1 :: "nat \<Rightarrow> byte \<Rightarrow> garble_state \<Rightarrow> garble_state" where
  "put1 i v s = s\<lparr>buffer1 := (buffer1 s)[i := v]\<rparr>"

definition put2 :: "nat \<Rightarrow> byte \<Rightarrow> garble_state \<Rightarrow> garble_state" where
  "put2 i v s = s\<lparr>buffer2 := (buffer2 s)[i := v]\<rparr>"

definition put3 :: "nat \<Rightarrow> byte \<Rightarrow> garble_state \<Rightarrow> garble_state" where
  "put3 i v s = s\<lparr>buffer3 := (buffer3 s)[i := v]\<rparr>"

definition garble_1 :: "(garble_state \<Rightarrow> garble_state) list" where
  "garble_1 = [
    \<lambda>s. put2 12 (w8 (0x14 + (((w32 (buffer1 s ! 64) AND 92) OR ((w32 (buffer1 s ! 99)
      div 3) AND 35)) AND w32 (buffer4 s ! ((unat (rol8x (buffer4 s ! (unat (buffer1 s ! 206)
      mod 21)) (4))) mod 21))))) s,
    \<lambda>s. put1 4 (w8 (((w32 (buffer1 s ! 99) div 5) * (w32 (buffer1 s ! 99) div 5)) * 2)) s,
    \<lambda>s. put2 34 (w8 (0xb8)) s,
    \<lambda>s. put1 153 ((buffer1 s ! 153) XOR (w8 ((w32 (buffer2 s ! (unat (buffer1 s ! 203)
      mod 35)) * w32 (buffer2 s ! (unat (buffer1 s ! 203) mod 35))) * w32 (buffer1 s ! 190)))) s,
    \<lambda>s. put0 3 ((buffer0 s ! 3) - (w8 (((shr (w32 (buffer4 s ! (unat (buffer1 s ! 205)
      mod 21))) 1) AND 80) OR 0xe6440))) s,
    \<lambda>s. put0 16 (w8 (0x93)) s,
    \<lambda>s. put0 13 (w8 (0x62)) s,
    \<lambda>s. put1 33 ((buffer1 s ! 33) - (w8 (w32 (buffer4 s ! (unat (buffer1 s ! 36) mod 21))
      AND 0xf6))) s,
    \<lambda>s. s\<lparr>reg_tmp2 := w32 (buffer2 s ! (unat (buffer1 s ! 67) mod 35))\<rparr>,
    \<lambda>s. put2 12 (w8 (0x07)) s,
    \<lambda>s. s\<lparr>reg_tmp := w32 (buffer0 s ! (unat (buffer1 s ! 181) mod 20))\<rparr>,
    \<lambda>s. put1 2 ((buffer1 s ! 2) - (w8 (3136 AND 0xff))) s,
    \<lambda>s. put0 19 (w8 (w32 (buffer4 s ! (unat (buffer1 s ! 58) mod 21)))) s,
    \<lambda>s. put3 0 (w8 (92 - w32 (buffer2 s ! (unat (buffer1 s ! 32) mod 35)))) s,
    \<lambda>s. put3 4 (w8 (w32 (buffer2 s ! (unat (buffer1 s ! 15) mod 35)) + 0x9e)) s,
    \<lambda>s. put1 34 ((buffer1 s ! 34) +
      ((buffer4 s ! ((unat ((w32 (buffer2 s ! (unat (buffer1 s ! 15) mod 35)) + 0x9e) AND 0xff))
      mod 21)) div 5)) s,
    \<lambda>s. put0 19 ((buffer0 s ! 19) + (w8 (0xfffffee6 -
      ((shr (w32 (buffer0 s ! (unat (buffer3 s ! 4) mod 20))) 1) AND 102)))) s,
    \<lambda>s. put1 15 (w8 ((3 * (((shr (w32 (buffer1 s ! 72))
      (unat (w32 (buffer4 s ! (unat (buffer1 s ! 190) mod 21)) AND 7)))
      XOR (shl (w32 (buffer1 s ! 72)) (unat ((7 - (w32 (buffer4 s ! (unat (buffer1 s ! 190)
      mod 21)) - 1)) AND 7)))) - (3 * w32 (buffer4 s ! (unat (buffer1 s ! 126) mod 21)))))
      XOR w32 (buffer1 s ! 15))) s,
    \<lambda>s. put0 15 ((buffer0 s ! 15) XOR (w8 ((w32 (buffer2 s ! (unat (buffer1 s ! 181)
      mod 35)) * w32 (buffer2 s ! (unat (buffer1 s ! 181) mod 35))) *
      w32 (buffer2 s ! (unat (buffer1 s ! 181) mod 35))))) s,
    \<lambda>s. put2 4 ((buffer2 s ! 4) XOR (w8 (w32 (buffer1 s ! 202) div 3))) s]"

definition garble_2 :: "(garble_state \<Rightarrow> garble_state) list" where
  "garble_2 = [
    \<lambda>s. s\<lparr>reg_A := 92 - w32 (buffer0 s ! (unat (buffer3 s ! 0) mod 20))\<rparr>,
    \<lambda>s. s\<lparr>reg_E := (((reg_A s) AND 0xc6) OR (NOT (w32 (buffer1 s ! 105)) AND 0xc6))
      OR ((reg_A s) AND NOT (w32 (buffer1 s ! 105)))\<rparr>,
    \<lambda>s. put2 1 ((buffer2 s ! 1) + (w8 (((reg_E s) * (reg_E s)) * (reg_E s)))) s,
    \<lambda>s. put0 19 ((buffer0 s ! 19) XOR (w8 (((224
      OR (w32 (buffer4 s ! (unat (buffer1 s ! 92) mod 21)) AND 27)) *
      w32 (buffer2 s ! (unat (buffer1 s ! 41) mod 35))) div 3))) s,
    \<lambda>s. put1 140 ((buffer1 s ! 140) + (w8 (weird_ror8 (92) (w32 (buffer1 s ! 5) AND 7)))) s,
    \<lambda>s. put2 12 ((buffer2 s ! 12) + (w8 ((((NOT (w32 (buffer1 s ! 4))
      XOR w32 (buffer2 s ! (unat (buffer1 s ! 12) mod 35))) OR w32 (buffer1 s ! 182)) AND 192)
      OR ((NOT (w32 (buffer1 s ! 4)) XOR w32 (buffer2 s ! (unat (buffer1 s ! 12) mod 35)))
      AND w32 (buffer1 s ! 182))))) s,
    \<lambda>s. put1 36 ((buffer1 s ! 36) + 125) s,
    \<lambda>s. put1 124 (w8 (rol8x (w8 ((((74 AND w32 (buffer1 s ! 138)) OR ((74
      OR w32 (buffer1 s ! 138)) AND w32 (buffer0 s ! 15)))
      AND w32 (buffer0 s ! (unat (buffer1 s ! 43) mod 20))) OR ((((74 AND w32 (buffer1 s ! 138))
      OR ((74 OR w32 (buffer1 s ! 138)) AND w32 (buffer0 s ! 15)))
      OR w32 (buffer0 s ! (unat (buffer1 s ! 43) mod 20))) AND 95))) (4))) s,
    \<lambda>s. put3 8 (w8 ((((w32 (buffer0 s ! (unat (buffer3 s ! 4) mod 20)) AND 95)
      AND (shl (w32 (buffer4 s ! (unat (buffer1 s ! 68) mod 21)) AND 46) 1)) OR 16) XOR 92)) s,
    \<lambda>s. s\<lparr>reg_A := w32 (buffer1 s ! 177) + w32 (buffer4 s ! (unat (buffer1 s ! 79)
      mod 21))\<rparr>,
    \<lambda>s. s\<lparr>reg_D := (((shr (reg_A s) 1) OR ((3 * w32 (buffer1 s ! 148)) div 5))
      AND w32 (buffer2 s ! 1)) OR ((shr (reg_A s) 1) AND ((3 * w32 (buffer1 s ! 148))
      div 5))\<rparr>,
    \<lambda>s. put3 12 (w8 ((0 - 34) - (reg_D s))) s,
    \<lambda>s. s\<lparr>reg_A := 8 - (w32 (buffer2 s ! 22) AND 7)\<rparr>,
    \<lambda>s. s\<lparr>reg_B := shr (w32 (buffer1 s ! 33)) (unat ((reg_A s) AND 7))\<rparr>,
    \<lambda>s. s\<lparr>reg_C := shl (w32 (buffer1 s ! 33)) (unat (w32 (buffer2 s ! 22)
      AND 7))\<rparr>,
    \<lambda>s. put2 16 ((buffer2 s ! 16) + (w8 ((((w32 (buffer2 s ! (unat (buffer3 s ! 0) mod 35))
      AND 159) OR w32 (buffer0 s ! (unat (buffer3 s ! 4) mod 20))) OR 8) - (((reg_B s)
      XOR (reg_C s)) OR 128)))) s,
    \<lambda>s. put0 14 ((buffer0 s ! 14) XOR (w8 (w32 (buffer2 s ! (unat (buffer3 s ! 12)
      mod 35))))) s,
    \<lambda>s. s\<lparr>reg_A := weird_rol8
      (buffer4 s ! ((unat (buffer0 s ! (unat (buffer1 s ! 201) mod 20))) mod 21))
      ((shl (w32 (buffer2 s ! (unat (buffer1 s ! 112) mod 35))) 1) AND 7)\<rparr>,
    \<lambda>s. s\<lparr>reg_D := (w32 (buffer0 s ! (unat (buffer1 s ! 208) mod 20)) AND 131)
      OR (w32 (buffer0 s ! (unat (buffer1 s ! 164) mod 20)) AND 124)\<rparr>,
    \<lambda>s. put1 19 ((buffer1 s ! 19) + (w8 (((reg_A s) AND ((reg_D s) div 5)) OR (((reg_A s)
      OR ((reg_D s) div 5)) AND 37)))) s]"

definition garble_3 :: "(garble_state \<Rightarrow> garble_state) list" where
  "garble_3 = [
    \<lambda>s. put2 8 (w8 (weird_ror8 (140) (((w32 (buffer4 s ! (unat (buffer1 s ! 45) mod 21)) +
      92) * (w32 (buffer4 s ! (unat (buffer1 s ! 45) mod 21)) + 92)) AND 7))) s,
    \<lambda>s. put1 190 (56) s,
    \<lambda>s. put2 8 ((buffer2 s ! 8) XOR (w8 (w32 (buffer3 s ! 0)))) s,
    \<lambda>s. put1 53 (w8 (NOT ((w32 (buffer0 s ! (unat (buffer1 s ! 83) mod 20)) OR 204)
      div 5))) s,
    \<lambda>s. put0 13 ((buffer0 s ! 13) + (w8 (w32 (buffer0 s ! (unat (buffer1 s ! 41)
      mod 20))))) s,
    \<lambda>s. put0 10 (w8 (((w32 (buffer2 s ! (unat (buffer3 s ! 0) mod 35))
      AND w32 (buffer1 s ! 2)) OR ((w32 (buffer2 s ! (unat (buffer3 s ! 0) mod 35))
      OR w32 (buffer1 s ! 2)) AND w32 (buffer3 s ! 12))) div 15)) s,
    \<lambda>s. s\<lparr>reg_A := (((56 OR (w32 (buffer4 s ! (unat (buffer1 s ! 2) mod 21))
      AND 68)) OR w32 (buffer2 s ! (unat (buffer3 s ! 8) mod 35))) AND 42)
      OR (((w32 (buffer4 s ! (unat (buffer1 s ! 2) mod 21)) AND 68) OR 56)
      AND w32 (buffer2 s ! (unat (buffer3 s ! 8) mod 35)))\<rparr>,
    \<lambda>s. put3 16 (w8 (((reg_A s) * (reg_A s)) + 110)) s,
    \<lambda>s. put3 20 (w8 (202 - w32 (buffer3 s ! 16))) s,
    \<lambda>s. put3 24 (w8 (w32 (buffer1 s ! 151))) s,
    \<lambda>s. put2 13 ((buffer2 s ! 13) XOR (w8 (w32 (buffer4 s ! (unat (buffer3 s ! 0)
      mod 21))))) s,
    \<lambda>s. s\<lparr>reg_B := ((w32 (buffer2 s ! (unat (buffer1 s ! 179) mod 35)) - 38)
      AND 177) OR (w32 (buffer3 s ! 12) AND 177)\<rparr>,
    \<lambda>s. s\<lparr>reg_C := (w32 (buffer2 s ! (unat (buffer1 s ! 179) mod 35)) - 38)
      AND w32 (buffer3 s ! 12)\<rparr>,
    \<lambda>s. put3 28 (w8 (30 + (((reg_B s) OR (reg_C s)) * ((reg_B s) OR (reg_C s))))) s,
    \<lambda>s. put3 32 (w8 (w32 (buffer3 s ! 28) + 62)) s,
    \<lambda>s. s\<lparr>reg_A := ((w32 (buffer3 s ! 20) + (w32 (buffer3 s ! 0) AND 74))
      OR NOT (w32 (buffer4 s ! (unat (buffer3 s ! 0) mod 21)))) AND 121\<rparr>,
    \<lambda>s. s\<lparr>reg_B := (w32 (buffer3 s ! 20) + (w32 (buffer3 s ! 0) AND 74))
      AND NOT (w32 (buffer4 s ! (unat (buffer3 s ! 0) mod 21)))\<rparr>,
    \<lambda>s. s\<lparr>reg_tmp3 := (reg_A s) OR (reg_B s)\<rparr>,
    \<lambda>s. s\<lparr>reg_C := (((((reg_A s) OR (reg_B s)) XOR 0xffffffa6)
      OR w32 (buffer3 s ! 0)) AND 4) OR ((((reg_A s) OR (reg_B s)) XOR 0xffffffa6)
      AND w32 (buffer3 s ! 0))\<rparr>,
    \<lambda>s. put1 47 (w8 ((w32 (buffer2 s ! (unat (buffer1 s ! 89) mod 35)) + (reg_C s))
      XOR w32 (buffer1 s ! 47))) s]"

definition garble_4 :: "(garble_state \<Rightarrow> garble_state) list" where
  "garble_4 = [
    \<lambda>s. put3 36 (w8 (((w32 (rol8 (w8 (((reg_tmp s) AND 179) + 68)) (2))
      AND w32 (buffer0 s ! 3)) OR ((reg_tmp2 s) AND NOT (w32 (buffer0 s ! 3)))) - 15)) s,
    \<lambda>s. put1 123 ((buffer1 s ! 123) XOR 221) s,
    \<lambda>s. s\<lparr>reg_A := (w32 (buffer4 s ! (unat (buffer3 s ! 0) mod 21)) div 3) -
      w32 (buffer2 s ! (unat (buffer3 s ! 4) mod 35))\<rparr>,
    \<lambda>s. s\<lparr>reg_C := (((w32 (buffer3 s ! 0) AND 163) + 92) AND 246)
      OR (w32 (buffer3 s ! 0) AND 92)\<rparr>,
    \<lambda>s. s\<lparr>reg_E := (((reg_C s) OR w32 (buffer3 s ! 24)) AND 54) OR ((reg_C s)
      AND w32 (buffer3 s ! 24))\<rparr>,
    \<lambda>s. put3 40 (w8 ((reg_A s) - (reg_E s))) s,
    \<lambda>s. put3 44 (w8 (((reg_tmp3 s) XOR 81) XOR (((shr (w32 (buffer3 s ! 0)) 1) AND 101) +
      26))) s,
    \<lambda>s. put3 48 (w8 (w32 (buffer2 s ! (unat (buffer3 s ! 4) mod 35)) AND 27)) s,
    \<lambda>s. put3 52 (27) s,
    \<lambda>s. put3 56 (199) s,
    \<lambda>s. put3 64 (w8 (w32 (buffer3 s ! 4) + (((((((w32 (buffer3 s ! 40)
      OR w32 (buffer3 s ! 24)) AND 177) OR (w32 (buffer3 s ! 40) AND w32 (buffer3 s ! 24)))
      AND (((w32 (buffer4 s ! (unat (buffer3 s ! 0) mod 20)) AND 177) OR 176)
      OR (w32 (buffer4 s ! (unat (buffer3 s ! 0) mod 21)) AND NOT (3))))
      OR ((((w32 (buffer3 s ! 40) AND w32 (buffer3 s ! 24)) OR ((w32 (buffer3 s ! 40)
      OR w32 (buffer3 s ! 24)) AND 177)) AND 199) OR ((((w32 (buffer4 s ! (unat (buffer3 s ! 0)
      mod 21)) AND 1) + 176) OR (w32 (buffer4 s ! (unat (buffer3 s ! 0) mod 21)) AND NOT (3)))
      AND w32 (buffer3 s ! 56)))) AND NOT (w32 (buffer3 s ! 52))) OR w32 (buffer3 s ! 48)))) s,
    \<lambda>s. put2 33 ((buffer2 s ! 33) XOR (w8 (w32 (buffer1 s ! 26)))) s,
    \<lambda>s. put1 106 ((buffer1 s ! 106) XOR (w8 (w32 (buffer3 s ! 20) XOR 133))) s,
    \<lambda>s. put2 30 (w8 (((w32 (buffer3 s ! 64) div 3) - (275 OR (w32 (buffer3 s ! 0)
      AND 247))) XOR w32 (buffer0 s ! (unat (buffer1 s ! 122) mod 20)))) s,
    \<lambda>s. put1 22 (w8 ((w32 (buffer2 s ! (unat (buffer1 s ! 90) mod 35)) AND 95) OR 68)) s,
    \<lambda>s. s\<lparr>reg_A := (w32 (buffer4 s ! (unat (buffer3 s ! 36) mod 21)) AND 184)
      OR (w32 (buffer2 s ! (unat (buffer3 s ! 44) mod 35)) AND NOT (184))\<rparr>,
    \<lambda>s. put2 18 ((buffer2 s ! 18) + (w8 (shr (((reg_A s) * (reg_A s)) * (reg_A s)) 1))) s,
    \<lambda>s. put2 5 ((buffer2 s ! 5) - (w8 (w32 (buffer4 s ! (unat (buffer1 s ! 92) mod 21)))))
      s,
    \<lambda>s. s\<lparr>reg_A := (((w32 (buffer1 s ! 41) AND NOT (24))
      OR (w32 (buffer2 s ! (unat (buffer1 s ! 183) mod 35)) AND 24)) AND (w32 (buffer3 s ! 16) +
      53)) OR (w32 (buffer3 s ! 20) AND w32 (buffer2 s ! (unat (buffer3 s ! 20) mod 35)))\<rparr>,
    \<lambda>s. s\<lparr>reg_B := (w32 (buffer1 s ! 17) AND NOT (w32 (buffer3 s ! 44)))
      OR (w32 (buffer0 s ! (unat (buffer1 s ! 59) mod 20)) AND w32 (buffer3 s ! 44))\<rparr>]"

definition garble_5 :: "(garble_state \<Rightarrow> garble_state) list" where
  "garble_5 = [
    \<lambda>s. put2 18 ((buffer2 s ! 18) XOR (w8 ((reg_A s) * (reg_B s)))) s,
    \<lambda>s. s\<lparr>reg_A := (weird_ror8 (buffer1 s ! 11)
      (w32 (buffer2 s ! (unat (buffer1 s ! 28) mod 35)) AND 7)) AND 7\<rparr>,
    \<lambda>s. s\<lparr>reg_B := (((w32 (buffer0 s ! (unat (buffer1 s ! 93) mod 20))
      AND NOT (w32 (buffer0 s ! 14))) OR (w32 (buffer0 s ! 14) AND 150)) AND NOT (28))
      OR (w32 (buffer1 s ! 7) AND 28)\<rparr>,
    \<lambda>s. put2 22 (w8 ((((((reg_B s) OR (weird_rol8
      (w8 (w32 (buffer2 s ! (unat (buffer3 s ! 0) mod 35)))) (reg_A s))) AND w32 (buffer2 s ! 33))
      OR ((reg_B s) AND (weird_rol8 (w8 (w32 (buffer2 s ! (unat (buffer3 s ! 0) mod 35))))
      (reg_A s)))) + 74) AND 0xff)) s,
    \<lambda>s. s\<lparr>reg_A := w32 (buffer4 s ! ((unat (w32 (buffer0 s ! (unat (buffer1 s ! 39)
      mod 20)) XOR 217)) mod 21))\<rparr>,
    \<lambda>s. put0 15 ((buffer0 s ! 15) - (w8 (((((w32 (buffer3 s ! 20) OR w32 (buffer3 s ! 0))
      AND 214) OR (w32 (buffer3 s ! 20) AND w32 (buffer3 s ! 0))) AND (reg_A s))
      OR (((((w32 (buffer3 s ! 20) OR w32 (buffer3 s ! 0)) AND 214) OR (w32 (buffer3 s ! 20)
      AND w32 (buffer3 s ! 0))) OR (reg_A s)) AND w32 (buffer3 s ! 32))))) s,
    \<lambda>s. s\<lparr>reg_B := ((((w32 (buffer2 s ! (unat (buffer1 s ! 57) mod 35))
      AND w32 (buffer0 s ! (unat (buffer3 s ! 64) mod 20)))
      OR ((w32 (buffer0 s ! (unat (buffer3 s ! 64) mod 20))
      OR w32 (buffer2 s ! (unat (buffer1 s ! 57) mod 35))) AND 95)) OR (w32 (buffer3 s ! 64)
      AND 45)) OR 82) AND 32\<rparr>,
    \<lambda>s. s\<lparr>reg_C := ((w32 (buffer2 s ! (unat (buffer1 s ! 57) mod 35))
      AND w32 (buffer0 s ! (unat (buffer3 s ! 64) mod 20)))
      OR ((w32 (buffer2 s ! (unat (buffer1 s ! 57) mod 35))
      OR w32 (buffer0 s ! (unat (buffer3 s ! 64) mod 20))) AND 95)) AND ((w32 (buffer3 s ! 64)
      AND 45) OR 82)\<rparr>,
    \<lambda>s. s\<lparr>reg_D := (((w32 (buffer3 s ! 0) div 3) - (w32 (buffer3 s ! 64)
      OR w32 (buffer1 s ! 22))) XOR (w32 (buffer3 s ! 28) + 62)) XOR ((reg_B s)
      OR (reg_C s))\<rparr>,
    \<lambda>s. s\<lparr>reg_T := w32 (buffer0 s ! ((unat ((reg_D s) AND 0xff)) mod 20))\<rparr>,
    \<lambda>s. put3 68 (w8 ((((w32 (buffer0 s ! (unat (buffer1 s ! 99) mod 20)) *
      w32 (buffer0 s ! (unat (buffer1 s ! 99) mod 20))) * w32 (buffer0 s ! (unat (buffer1 s ! 99)
      mod 20))) * w32 (buffer0 s ! (unat (buffer1 s ! 99) mod 20)))
      OR w32 (buffer2 s ! (unat (buffer3 s ! 64) mod 35)))) s,
    \<lambda>s. s\<lparr>reg_U := w32 (buffer0 s ! (unat (buffer1 s ! 50) mod 20))\<rparr>,
    \<lambda>s. s\<lparr>reg_W := w32 (buffer2 s ! (unat (buffer1 s ! 138) mod 35))\<rparr>,
    \<lambda>s. s\<lparr>reg_X := w32 (buffer4 s ! (unat (buffer1 s ! 39) mod 21))\<rparr>,
    \<lambda>s. s\<lparr>reg_Y := w32 (buffer0 s ! (unat (buffer1 s ! 4) mod 20))\<rparr>,
    \<lambda>s. s\<lparr>reg_Z := w32 (buffer4 s ! (unat (buffer1 s ! 202) mod 21))\<rparr>,
    \<lambda>s. s\<lparr>reg_V := w32 (buffer0 s ! (unat (buffer1 s ! 151) mod 20))\<rparr>,
    \<lambda>s. s\<lparr>reg_S := w32 (buffer2 s ! (unat (buffer1 s ! 14) mod 35))\<rparr>,
    \<lambda>s. s\<lparr>reg_R := w32 (buffer0 s ! (unat (buffer1 s ! 145) mod 20))\<rparr>,
    \<lambda>s. s\<lparr>reg_A := (w32 (buffer2 s ! (unat (buffer3 s ! 68) mod 35))
      AND w32 (buffer0 s ! (unat (buffer1 s ! 209) mod 20)))
      OR ((w32 (buffer2 s ! (unat (buffer3 s ! 68) mod 35))
      OR w32 (buffer0 s ! (unat (buffer1 s ! 209) mod 20))) AND 24)\<rparr>]"

definition garble_6 :: "(garble_state \<Rightarrow> garble_state) list" where
  "garble_6 = [
    \<lambda>s. s\<lparr>reg_B := weird_rol8 (w8 (w32 (buffer4 s ! (unat (buffer1 s ! 127)
      mod 21)))) (w32 (buffer2 s ! (unat (buffer3 s ! 68) mod 35)) AND 7)\<rparr>,
    \<lambda>s. s\<lparr>reg_C := ((reg_A s) AND w32 (buffer0 s ! 10)) OR ((reg_B s)
      AND NOT (w32 (buffer0 s ! 10)))\<rparr>,
    \<lambda>s. s\<lparr>reg_D := 7
      XOR (shl (w32 (buffer4 s ! ((unat (buffer2 s ! (unat (buffer3 s ! 36) mod 35))) mod 21)))
      1)\<rparr>,
    \<lambda>s. put3 72 (w8 (((reg_C s) AND 71) OR ((reg_D s) AND NOT (71)))) s,
    \<lambda>s. put2 2 ((buffer2 s ! 2) + (w8 ((((shl (w32 (buffer0 s ! (unat (buffer3 s ! 20)
      mod 20))) 1) AND 159) OR (w32 (buffer4 s ! (unat (buffer1 s ! 190) mod 21)) AND NOT (159)))
      AND ((((w32 (buffer4 s ! (unat (buffer3 s ! 64) mod 21)) AND 110)
      OR (w32 (buffer0 s ! (unat (buffer1 s ! 25) mod 20)) AND NOT (110))) AND NOT (150))
      OR (w32 (buffer1 s ! 25) AND 150))))) s,
    \<lambda>s. put2 14 ((buffer2 s ! 14) - (w8 (((w32 (buffer2 s ! (unat (buffer3 s ! 20) mod 35))
      AND (w32 (buffer3 s ! 72) XOR w32 (buffer2 s ! (unat (buffer1 s ! 100) mod 35))))
      AND NOT (34)) OR (w32 (buffer1 s ! 97) AND 34)))) s,
    \<lambda>s. put0 17 (115) s,
    \<lambda>s. put1 23 ((buffer1 s ! 23) XOR (w8 (shl (((((w32 (buffer4 s ! (unat (buffer1 s ! 17)
      mod 21)) OR w32 (buffer0 s ! (unat (buffer3 s ! 20) mod 20))) AND w32 (buffer3 s ! 72))
      OR (w32 (buffer4 s ! (unat (buffer1 s ! 17) mod 21))
      AND w32 (buffer0 s ! (unat (buffer3 s ! 20) mod 20)))) AND (w32 (buffer1 s ! 50) div 3))
      OR (((((w32 (buffer4 s ! (unat (buffer1 s ! 17) mod 21))
      OR w32 (buffer0 s ! (unat (buffer3 s ! 20) mod 20))) AND w32 (buffer3 s ! 72))
      OR (w32 (buffer4 s ! (unat (buffer1 s ! 17) mod 21))
      AND w32 (buffer0 s ! (unat (buffer3 s ! 20) mod 20)))) OR (w32 (buffer1 s ! 50) div 3))
      AND 246)) 1))) s,
    \<lambda>s. put0 13 (w8 (shr (((((w32 (buffer0 s ! (unat (buffer3 s ! 40) mod 20))
      OR w32 (buffer1 s ! 10)) AND 82) OR (w32 (buffer0 s ! (unat (buffer3 s ! 40) mod 20))
      AND w32 (buffer1 s ! 10))) AND 209) OR ((shl (w32 (buffer0 s ! (unat (buffer1 s ! 39)
      mod 20))) 1) AND 46)) 1)) s,
    \<lambda>s. put2 33 ((buffer2 s ! 33) - (w8 (w32 (buffer1 s ! 113) AND 9))) s,
    \<lambda>s. put2 28 ((buffer2 s ! 28) - (w8 (((shr (2 OR (w32 (buffer1 s ! 110) AND 222)) 1)
      AND NOT (223)) OR (w32 (buffer3 s ! 20) AND 223)))) s,
    \<lambda>s. s\<lparr>reg_J := weird_rol8 (w8 ((reg_V s) OR (reg_Z s))) ((reg_U s)
      AND 7)\<rparr>,
    \<lambda>s. s\<lparr>reg_A := (w32 (buffer2 s ! 16) AND (reg_T s)) OR ((reg_W s)
      AND NOT (w32 (buffer2 s ! 16)))\<rparr>,
    \<lambda>s. s\<lparr>reg_B := (w32 (buffer1 s ! 33) AND 17) OR ((reg_X s) AND NOT (17))\<rparr>,
    \<lambda>s. s\<lparr>reg_E := (((reg_Y s) OR (((reg_A s) + (reg_B s)) div 5)) AND 147)
      OR ((reg_Y s) AND (((reg_A s) + (reg_B s)) div 5))\<rparr>,
    \<lambda>s. s\<lparr>reg_M := (w32 (buffer3 s ! 40)
      AND w32 (buffer4 s ! ((unat (((w32 (buffer3 s ! 8) + (reg_J s)) + (reg_E s)) AND 0xff))
      mod 21))) OR ((w32 (buffer3 s ! 40) OR w32 (buffer4 s ! ((unat (((w32 (buffer3 s ! 8) +
      (reg_J s)) + (reg_E s)) AND 0xff)) mod 21))) AND w32 (buffer2 s ! 23))\<rparr>,
    \<lambda>s. put0 15 (w8 (((((w32 (buffer4 s ! (unat (buffer3 s ! 20) mod 21)) - 48)
      AND NOT (w32 (buffer1 s ! 184))) OR ((w32 (buffer4 s ! (unat (buffer3 s ! 20) mod 21)) - 48)
      AND 189)) OR (189 AND NOT (w32 (buffer1 s ! 184)))) AND (((reg_M s) * (reg_M s)) *
      (reg_M s)))) s,
    \<lambda>s. put2 22 ((buffer2 s ! 22) + (w8 (w32 (buffer1 s ! 183)))) s,
    \<lambda>s. put3 76 (w8 ((3 * w32 (buffer4 s ! (unat (buffer1 s ! 1) mod 21)))
      XOR w32 (buffer3 s ! 0))) s,
    \<lambda>s. s\<lparr>reg_A := w32 (buffer2 s ! ((unat ((w32 (buffer3 s ! 8) + ((reg_J s) +
      (reg_E s))) AND 0xff)) mod 35))\<rparr>]"

definition garble_7 :: "(garble_state \<Rightarrow> garble_state) list" where
  "garble_7 = [
    \<lambda>s. s\<lparr>reg_F := (((w32 (buffer4 s ! (unat (buffer1 s ! 178) mod 21))
      AND (reg_A s)) OR ((w32 (buffer4 s ! (unat (buffer1 s ! 178) mod 21)) OR (reg_A s)) AND 209))
      * w32 (buffer0 s ! (unat (buffer1 s ! 13) mod 20))) *
      (shr (w32 (buffer4 s ! (unat (buffer1 s ! 26) mod 21))) 1)\<rparr>,
    \<lambda>s. s\<lparr>reg_G := ((((reg_F s) + 0x733ffff9) * 198) - (((((reg_F s) + 0x733ffff9) *
      396) + 212) AND 212)) + 85\<rparr>,
    \<lambda>s. put3 80 (w8 (((w32 (buffer3 s ! 36) + ((reg_G s) XOR 148)) + (shl ((reg_G s)
      XOR 107) 1)) - 127)) s,
    \<lambda>s. put3 84 (w8 ((w32 (buffer2 s ! (unat (buffer3 s ! 64) mod 35)) AND 245)
      OR (w32 (buffer2 s ! (unat (buffer3 s ! 20) mod 35)) AND 10))) s,
    \<lambda>s. s\<lparr>reg_A := w32 (buffer0 s ! (unat (buffer3 s ! 68) mod 20)) OR 81\<rparr>,
    \<lambda>s. put2 18 ((buffer2 s ! 18) - (w8 (((((reg_A s) * (reg_A s)) * (reg_A s))
      AND NOT (w32 (buffer0 s ! 15))) OR ((w32 (buffer3 s ! 80) div 15)
      AND w32 (buffer0 s ! 15))))) s,
    \<lambda>s. put3 88 (w8 ((((w32 (buffer3 s ! 8) + (reg_J s)) + (reg_E s)) -
      w32 (buffer0 s ! (unat (buffer1 s ! 160) mod 20))) +
      (w32 (buffer4 s ! ((unat (buffer0 s ! ((unat (((w32 (buffer3 s ! 8) + (reg_J s)) + (reg_E s))
      AND 255)) mod 20))) mod 21)) div 3))) s,
    \<lambda>s. s\<lparr>reg_B := (((reg_R s) XOR w32 (buffer3 s ! 72)) AND NOT (198))
      OR (((reg_S s) * (reg_S s)) AND 198)\<rparr>,
    \<lambda>s. s\<lparr>reg_F := (w32 (buffer4 s ! (unat (buffer1 s ! 69) mod 21))
      AND w32 (buffer1 s ! 172)) OR ((w32 (buffer4 s ! (unat (buffer1 s ! 69) mod 21))
      OR w32 (buffer1 s ! 172)) AND ((w32 (buffer3 s ! 12) - (reg_B s)) + 77))\<rparr>,
    \<lambda>s. put0 16 (w8 (147 - ((w32 (buffer3 s ! 72) AND (((reg_F s) AND 251) OR 1))
      OR ((((reg_F s) AND 250) OR w32 (buffer3 s ! 72)) AND 198)))) s,
    \<lambda>s. s\<lparr>reg_C := ((w32 (buffer4 s ! (unat (buffer1 s ! 168) mod 21))
      AND w32 (buffer0 s ! (unat (buffer1 s ! 29) mod 20))) AND 7)
      OR ((w32 (buffer4 s ! (unat (buffer1 s ! 168) mod 21))
      OR w32 (buffer0 s ! (unat (buffer1 s ! 29) mod 20))) AND 6)\<rparr>,
    \<lambda>s. s\<lparr>reg_F := (w32 (buffer4 s ! (unat (buffer1 s ! 155) mod 21))
      AND w32 (buffer1 s ! 105)) OR ((w32 (buffer4 s ! (unat (buffer1 s ! 155) mod 21))
      OR w32 (buffer1 s ! 105)) AND 141)\<rparr>,
    \<lambda>s. put0 3 ((buffer0 s ! 3) - (buffer4 s ! ((unat (weird_rol32 (w8 (reg_F s))
      (reg_C s))) mod 21))) s,
    \<lambda>s. put1 5 (w8 ((weird_ror8 (buffer0 s ! 12) ((w32 (buffer0 s ! (unat (buffer1 s ! 61)
      mod 20)) div 5) AND 7)) XOR (NOT (w32 (buffer2 s ! (unat (buffer3 s ! 84) mod 35))) div 5)))
      s,
    \<lambda>s. put1 198 ((buffer1 s ! 198) + (w8 (w32 (buffer1 s ! 3)))) s,
    \<lambda>s. s\<lparr>reg_A := 162 OR w32 (buffer2 s ! (unat (buffer3 s ! 64) mod 35))\<rparr>,
    \<lambda>s. put1 164 ((buffer1 s ! 164) + (w8 (((reg_A s) * (reg_A s)) div 5))) s,
    \<lambda>s. s\<lparr>reg_G := weird_ror8 (139) (w32 (buffer3 s ! 80) AND 7)\<rparr>,
    \<lambda>s. s\<lparr>reg_C := (((w32 (buffer4 s ! (unat (buffer3 s ! 64) mod 21)) *
      w32 (buffer4 s ! (unat (buffer3 s ! 64) mod 21))) * w32 (buffer4 s ! (unat (buffer3 s ! 64)
      mod 21))) AND 95) OR (w32 (buffer0 s ! (unat (buffer3 s ! 40) mod 20)) AND NOT (95))\<rparr>,
    \<lambda>s. put3 92 (w8 (((((reg_G s) AND 12) OR (w32 (buffer0 s ! (unat (buffer3 s ! 20)
      mod 20)) AND 12)) OR ((reg_G s) AND w32 (buffer0 s ! (unat (buffer3 s ! 20) mod 20))))
      OR (reg_C s))) s]"

definition garble_8 :: "(garble_state \<Rightarrow> garble_state) list" where
  "garble_8 = [
    \<lambda>s. put2 12 ((buffer2 s ! 12) + (w8 ((((w32 (buffer1 s ! 103) AND 32)
      OR (w32 (buffer3 s ! 92) AND (w32 (buffer1 s ! 103) OR 60))) OR 16) div 3))) s,
    \<lambda>s. put3 96 (w8 (w32 (buffer1 s ! 143))) s,
    \<lambda>s. put3 100 (27) s,
    \<lambda>s. put3 104 (w8 ((((w32 (buffer3 s ! 40) AND NOT (w32 (buffer2 s ! 8)))
      OR (w32 (buffer1 s ! 35) AND w32 (buffer2 s ! 8))) AND w32 (buffer3 s ! 64)) XOR 119)) s,
    \<lambda>s. put3 108 (w8 (238 AND (shl (((w32 (buffer3 s ! 40) AND NOT (w32 (buffer2 s ! 8)))
      OR (w32 (buffer1 s ! 35) AND w32 (buffer2 s ! 8))) AND w32 (buffer3 s ! 64)) 1))) s,
    \<lambda>s. put3 112 (w8 ((NOT (w32 (buffer3 s ! 64)) AND (w32 (buffer3 s ! 84) div 3))
      XOR 49)) s,
    \<lambda>s. put3 116 (w8 (98 AND (shl (NOT (w32 (buffer3 s ! 64)) AND (w32 (buffer3 s ! 84)
      div 3)) 1))) s,
    \<lambda>s. s\<lparr>reg_A := (w32 (buffer1 s ! 35) AND w32 (buffer2 s ! 8))
      OR (w32 (buffer3 s ! 40) AND NOT (w32 (buffer2 s ! 8)))\<rparr>,
    \<lambda>s. s\<lparr>reg_B := ((reg_A s) AND w32 (buffer3 s ! 64)) OR ((w32 (buffer3 s ! 84)
      div 3) AND NOT (w32 (buffer3 s ! 64)))\<rparr>,
    \<lambda>s. put1 143 (w8 (w32 (buffer3 s ! 96) - (((reg_B s) AND (86 +
      (shr (w32 (buffer1 s ! 172) AND 64) 1))) OR ((((shr (w32 (buffer1 s ! 172) AND 65) 1) XOR 86)
      OR ((NOT (w32 (buffer3 s ! 64)) AND (w32 (buffer3 s ! 84) div 3)) OR (((w32 (buffer3 s ! 40)
      AND NOT (w32 (buffer2 s ! 8))) OR (w32 (buffer1 s ! 35) AND w32 (buffer2 s ! 8)))
      AND w32 (buffer3 s ! 64)))) AND w32 (buffer3 s ! 100))))) s,
    \<lambda>s. put2 29 (162) s,
    \<lambda>s. s\<lparr>reg_A := shr ((w32 (buffer4 s ! (unat (buffer3 s ! 88) mod 21)) AND 160)
      OR (w32 (buffer0 s ! (unat (buffer1 s ! 125) mod 20)) AND 95)) 1\<rparr>,
    \<lambda>s. s\<lparr>reg_B := w32 (buffer2 s ! (unat (buffer1 s ! 149) mod 35))
      XOR (w32 (buffer1 s ! 43) * w32 (buffer1 s ! 43))\<rparr>,
    \<lambda>s. put0 15 ((buffer0 s ! 15) + (w8 (((reg_B s) AND (reg_A s)) OR (((reg_A s)
      OR (reg_B s)) AND 115)))) s,
    \<lambda>s. put3 120 (w8 (w32 (buffer3 s ! 64) - w32 (buffer0 s ! (unat (buffer3 s ! 40)
      mod 20)))) s,
    \<lambda>s. put1 95 (w8 (w32 (buffer4 s ! (unat (buffer3 s ! 20) mod 21)))) s,
    \<lambda>s. s\<lparr>reg_A := weird_ror8 (buffer2 s ! (unat (buffer3 s ! 80) mod 35))
      (((w32 (buffer2 s ! (unat (buffer1 s ! 17) mod 35)) * w32 (buffer2 s ! (unat (buffer1 s ! 17)
      mod 35))) * w32 (buffer2 s ! (unat (buffer1 s ! 17) mod 35))) AND 7)\<rparr>,
    \<lambda>s. put0 7 ((buffer0 s ! 7) - (w8 ((reg_A s) * (reg_A s)))) s,
    \<lambda>s. put2 8 (w8 ((w32 (buffer2 s ! 8) - w32 (buffer1 s ! 184)) +
      ((w32 (buffer4 s ! (unat (buffer1 s ! 202) mod 21)) *
      w32 (buffer4 s ! (unat (buffer1 s ! 202) mod 21))) * w32 (buffer4 s ! (unat (buffer1 s ! 202)
      mod 21))))) s,
    \<lambda>s. put0 16 (w8 ((shl (w32 (buffer2 s ! (unat (buffer1 s ! 102) mod 35))) 1) AND 132))
      s]"

definition garble_9 :: "(garble_state \<Rightarrow> garble_state) list" where
  "garble_9 = [
    \<lambda>s. put3 124 (w8 ((shr (w32 (buffer4 s ! (unat (buffer3 s ! 40) mod 21))) 1)
      XOR w32 (buffer3 s ! 68))) s,
    \<lambda>s. put0 7 ((buffer0 s ! 7) - (w8 (w32 (buffer0 s ! (unat (buffer1 s ! 191) mod 20)) -
      (((shl (w32 (buffer4 s ! (unat (buffer1 s ! 80) mod 21))) 1) AND NOT (177))
      OR (w32 (buffer4 s ! ((unat (buffer4 s ! (unat (buffer3 s ! 88) mod 21))) mod 21))
      AND 177))))) s,
    \<lambda>s. put0 6 (w8 (w32 (buffer0 s ! (unat (buffer1 s ! 119) mod 20)))) s,
    \<lambda>s. s\<lparr>reg_A := (w32 (buffer4 s ! (unat (buffer1 s ! 190) mod 21)) AND NOT (209))
      OR (w32 (buffer1 s ! 118) AND 209)\<rparr>,
    \<lambda>s. s\<lparr>reg_B := w32 (buffer0 s ! (unat (buffer3 s ! 120) mod 20)) *
      w32 (buffer0 s ! (unat (buffer3 s ! 120) mod 20))\<rparr>,
    \<lambda>s. put0 12 (w8 ((w32 (buffer0 s ! (unat (buffer3 s ! 84) mod 20))
      XOR (w32 (buffer2 s ! (unat (buffer1 s ! 71) mod 35)) +
      w32 (buffer2 s ! (unat (buffer1 s ! 15) mod 35)))) AND (((reg_A s) AND (reg_B s))
      OR (((reg_A s) OR (reg_B s)) AND 27)))) s,
    \<lambda>s. s\<lparr>reg_B := (w32 (buffer1 s ! 32) AND w32 (buffer2 s ! (unat (buffer3 s ! 88)
      mod 35))) OR ((w32 (buffer1 s ! 32) OR w32 (buffer2 s ! (unat (buffer3 s ! 88) mod 35)))
      AND 23)\<rparr>,
    \<lambda>s. s\<lparr>reg_D := ((w32 (buffer4 s ! (unat (buffer1 s ! 57) mod 21)) * 231)
      AND 169) OR ((reg_B s) AND 86)\<rparr>,
    \<lambda>s. s\<lparr>reg_F := (((w32 (buffer0 s ! (unat (buffer1 s ! 82) mod 20)) AND NOT (29))
      OR (w32 (buffer4 s ! (unat (buffer3 s ! 124) mod 21)) AND 29)) AND 190)
      OR (w32 (buffer4 s ! ((unat ((reg_D s) div 5)) mod 21)) AND NOT (190))\<rparr>,
    \<lambda>s. s\<lparr>reg_H := (w32 (buffer0 s ! (unat (buffer3 s ! 40) mod 20)) *
      w32 (buffer0 s ! (unat (buffer3 s ! 40) mod 20))) * w32 (buffer0 s ! (unat (buffer3 s ! 40)
      mod 20))\<rparr>,
    \<lambda>s. s\<lparr>reg_K := (((reg_H s) AND w32 (buffer1 s ! 82)) OR ((reg_H s) AND 92))
      OR (w32 (buffer1 s ! 82) AND 92)\<rparr>,
    \<lambda>s. put3 128 (w8 ((((reg_F s) AND (reg_K s)) OR (((reg_F s) OR (reg_K s)) AND 192))
      XOR ((reg_D s) div 5))) s,
    \<lambda>s. put2 25 ((buffer2 s ! 25) XOR (w8 (((shl (w32 (buffer0 s ! (unat (buffer3 s ! 120)
      mod 20))) 1) * w32 (buffer1 s ! 5)) - ((weird_rol8 (w8 (w32 (buffer3 s ! 76)))
      (w32 (buffer4 s ! (unat (buffer3 s ! 124) mod 21)) AND 7)) AND (w32 (buffer3 s ! 20) +
      110))))) s]"

definition garble_steps :: "(garble_state \<Rightarrow> garble_state) list" where
  "garble_steps = garble_1 @ garble_2 @ garble_3 @ garble_4 @ garble_5 @ garble_6 @ garble_7 @ garble_8 @ garble_9"

text \<open>The buffers after the call; the registers start at zero and are dropped.\<close>

definition garble :: "bytes \<Rightarrow> bytes \<Rightarrow> bytes \<Rightarrow> bytes \<Rightarrow> bytes \<Rightarrow> garble_state" where
  "garble b0 b1 b2 b3 b4 = fold (\<lambda>f. f) garble_steps
     \<lparr>buffer0 = b0, buffer1 = b1, buffer2 = b2, buffer3 = b3, buffer4 = b4,
      reg_tmp = 0, reg_tmp2 = 0, reg_tmp3 = 0,
      reg_A = 0, reg_B = 0, reg_C = 0, reg_D = 0, reg_E = 0, reg_F = 0, reg_G = 0, reg_H = 0,
      reg_J = 0, reg_K = 0, reg_M = 0, reg_R = 0, reg_S = 0, reg_T = 0, reg_U = 0, reg_V = 0,
      reg_W = 0, reg_X = 0, reg_Y = 0, reg_Z = 0\<rparr>"

section \<open>The buffers keep their sizes\<close>

definition buffer_sizes :: "garble_state \<Rightarrow> nat list" where
  "buffer_sizes s = map length [buffer0 s, buffer1 s, buffer2 s, buffer3 s, buffer4 s]"

lemma put_sizes:
  "buffer_sizes (put0 i v s) = buffer_sizes s" "buffer_sizes (put1 i v s) = buffer_sizes s"
  "buffer_sizes (put2 i v s) = buffer_sizes s" "buffer_sizes (put3 i v s) = buffer_sizes s"
  by (simp_all add: buffer_sizes_def put0_def put1_def put2_def put3_def)

lemma register_sizes:
  "buffer_sizes (s\<lparr>reg_tmp := v\<rparr>) = buffer_sizes s"
  "buffer_sizes (s\<lparr>reg_tmp2 := v\<rparr>) = buffer_sizes s"
  "buffer_sizes (s\<lparr>reg_tmp3 := v\<rparr>) = buffer_sizes s"
  "buffer_sizes (s\<lparr>reg_A := v\<rparr>) = buffer_sizes s"
  "buffer_sizes (s\<lparr>reg_B := v\<rparr>) = buffer_sizes s"
  "buffer_sizes (s\<lparr>reg_C := v\<rparr>) = buffer_sizes s"
  "buffer_sizes (s\<lparr>reg_D := v\<rparr>) = buffer_sizes s"
  "buffer_sizes (s\<lparr>reg_E := v\<rparr>) = buffer_sizes s"
  "buffer_sizes (s\<lparr>reg_F := v\<rparr>) = buffer_sizes s"
  "buffer_sizes (s\<lparr>reg_G := v\<rparr>) = buffer_sizes s"
  "buffer_sizes (s\<lparr>reg_H := v\<rparr>) = buffer_sizes s"
  "buffer_sizes (s\<lparr>reg_J := v\<rparr>) = buffer_sizes s"
  "buffer_sizes (s\<lparr>reg_K := v\<rparr>) = buffer_sizes s"
  "buffer_sizes (s\<lparr>reg_M := v\<rparr>) = buffer_sizes s"
  "buffer_sizes (s\<lparr>reg_R := v\<rparr>) = buffer_sizes s"
  "buffer_sizes (s\<lparr>reg_S := v\<rparr>) = buffer_sizes s"
  "buffer_sizes (s\<lparr>reg_T := v\<rparr>) = buffer_sizes s"
  "buffer_sizes (s\<lparr>reg_U := v\<rparr>) = buffer_sizes s"
  "buffer_sizes (s\<lparr>reg_V := v\<rparr>) = buffer_sizes s"
  "buffer_sizes (s\<lparr>reg_W := v\<rparr>) = buffer_sizes s"
  "buffer_sizes (s\<lparr>reg_X := v\<rparr>) = buffer_sizes s"
  "buffer_sizes (s\<lparr>reg_Y := v\<rparr>) = buffer_sizes s"
  "buffer_sizes (s\<lparr>reg_Z := v\<rparr>) = buffer_sizes s"
  by (simp_all add: buffer_sizes_def)

lemma garble_steps_sizes: "\<forall>f \<in> set garble_steps. \<forall>s. buffer_sizes (f s) = buffer_sizes s"
  unfolding garble_steps_def garble_1_def garble_2_def garble_3_def garble_4_def garble_5_def garble_6_def garble_7_def garble_8_def garble_9_def
  by (simp only: append.simps list.set ball_simps put_sizes register_sizes simp_thms)

lemma garble_sizes:
  "map length [buffer0 (garble b0 b1 b2 b3 b4), buffer1 (garble b0 b1 b2 b3 b4),
     buffer2 (garble b0 b1 b2 b3 b4), buffer3 (garble b0 b1 b2 b3 b4), buffer4 (garble b0 b1 b2 b3 b4)] =
   map length [b0, b1, b2, b3, b4]"
proof -
  have "buffer_sizes (fold (\<lambda>f. f) fs s) = buffer_sizes s"
    if "\<forall>f \<in> set fs. \<forall>s. buffer_sizes (f s) = buffer_sizes s" for fs and s
    using that by (induction fs arbitrary: s) simp_all
  from this [OF garble_steps_sizes] show ?thesis by (simp add: garble_def buffer_sizes_def)
qed

end
