(* ===== verification/Fairplay_Cipher.thy ===== *)
theory Fairplay_Cipher
  imports Fairplay_Tables Fairplay_Message_Tables Fairplay_Garble "HOL-Library.Monad_Syntax"
begin

text \<open>
  src/crypto/fairplay.rs, the block cipher of the key decryption over the tables S1 and S3 to S8:
  key schedule and rounds. A fixed-size array is a list of its size, and an index that its type or a
  constant keeps in range is \<open>!\<close>; that no table is exceeded is \<open>tables_in_range\<close> of
  Fairplay_Key.
\<close>

section \<open>Block operations\<close>

definition z_xor_block :: "bytes \<Rightarrow> bytes" where
  "z_xor_block inp = map2 (XOR) inp Z_KEY"

definition z_xor_inplace :: "bytes \<Rightarrow> bytes" where
  "z_xor_inplace block = map2 (XOR) block Z_KEY"

definition x_xor_inplace :: "bytes \<Rightarrow> bytes" where
  "x_xor_inplace block = map2 (XOR) block X_KEY"

definition t_xor :: "bytes \<Rightarrow> bytes" where
  "t_xor inp = map2 (XOR) inp T_KEY"

definition table_index :: "nat \<Rightarrow> bytes" where
  "table_index i = (let offset = (31 * i) mod 0x28 * 256 in slice offset (offset + 256) TABLE_S1)"

definition message_table_index :: "nat \<Rightarrow> bytes" where
  "message_table_index i = (let offset = (97 * i) mod 144 * 256 in slice offset (offset + 256) TABLE_S2)"

definition permute_table_2 :: "nat \<Rightarrow> bytes" where
  "permute_table_2 i = (let offset = (71 * i) mod 144 * 256 in slice offset (offset + 256) TABLE_S4)"

text \<open>The order of assignments that \<open>permute_block_1\<close>, \<open>permute_block_2\<close> and the two
  permutations of \<open>decrypt_message\<close> share; \<open>f i v\<close> is the substitution at position
  \<open>i\<close>.\<close>

definition permute :: "(nat \<Rightarrow> byte \<Rightarrow> byte) \<Rightarrow> bytes \<Rightarrow> bytes" where
  "permute f b0 =
     (let b = b0[0 := f 0 (b0 ! 0)]; b = b[4 := f 4 (b ! 4)]; b = b[8 := f 8 (b ! 8)];
          b = b[12 := f 12 (b ! 12)];
          t = b ! 13; b = b[13 := f 13 (b ! 9)]; b = b[9 := f 9 (b ! 5)]; b = b[5 := f 5 (b ! 1)];
          b = b[1 := f 1 t];
          t = b ! 2; b = b[2 := f 2 (b ! 10)]; b = b[10 := f 10 t];
          t = b ! 6; b = b[6 := f 6 (b ! 14)]; b = b[14 := f 14 t];
          t = b ! 3; b = b[3 := f 3 (b ! 7)]; b = b[7 := f 7 (b ! 11)]; b = b[11 := f 11 (b ! 15)];
          b = b[15 := f 15 t]
      in b)"

definition S3_OFFSETS :: "nat list" where
  "S3_OFFSETS = [0, 0x500, 0xa00, 0xf00, 0x400, 0x900, 0xe00, 0x300,
                 0x800, 0xd00, 0x200, 0x700, 0xc00, 0x100, 0x600, 0xb00]"

definition permute_block_1 :: "bytes \<Rightarrow> bytes" where
  "permute_block_1 block = permute (\<lambda>i v. TABLE_S3 ! (S3_OFFSETS ! i + unat v)) block"

definition permute_block_2 :: "bytes \<Rightarrow> nat \<Rightarrow> bytes" where
  "permute_block_2 block round =
     (let r = round * 16 in permute (\<lambda>i v. permute_table_2 (r + i) ! unat v) block)"

definition read_u32_le :: "bytes \<Rightarrow> nat \<Rightarrow> u32" where
  "read_u32_le block offset =
     from_le_bytes [block ! offset, block ! (offset + 1), block ! (offset + 2), block ! (offset + 3)]"

definition write_u32_le :: "bytes \<Rightarrow> nat \<Rightarrow> u32 \<Rightarrow> bytes" where
  "write_u32_le block offset val = copy_at offset (to_le_bytes 4 val) block"

text \<open>One round: the words of the buffer become the round key, then the buffer is advanced.\<close>

definition key_schedule_round :: "u32 list list \<times> bytes \<times> nat \<Rightarrow> nat \<Rightarrow> u32 list list \<times> bytes \<times> nat" where
  "key_schedule_round = (\<lambda>(key_schedule, buffer, ti) round.
     (let key_schedule = key_schedule[round := [read_u32_le buffer 0, read_u32_le buffer 4,
                                                read_u32_le buffer 8, read_u32_le buffer 12]];
          t1 = table_index ti; t2 = table_index (ti + 1);
          t3 = table_index (ti + 2); t4 = table_index (ti + 3);
          buffer = buffer[0 := (buffer ! 0) XOR ((t1 ! unat (buffer ! 0x0d)) XOR (INDEX_MANGLE ! round))];
          buffer = buffer[1 := (buffer ! 1) XOR (t2 ! unat (buffer ! 0x0e))];
          buffer = buffer[2 := (buffer ! 2) XOR (t3 ! unat (buffer ! 0x0f))];
          buffer = buffer[3 := (buffer ! 3) XOR (t4 ! unat (buffer ! 0x0c))];
          w0 = read_u32_le buffer 0;
          w1 = read_u32_le buffer 4 XOR w0; buffer = write_u32_le buffer 4 w1;
          w2 = read_u32_le buffer 8 XOR w1; buffer = write_u32_le buffer 8 w2;
          w3 = read_u32_le buffer 12 XOR w2; buffer = write_u32_le buffer 12 w3
      in (key_schedule, buffer, ti + 4)))"

definition generate_key_schedule :: "bytes \<Rightarrow> u32 list list" where
  "generate_key_schedule key_material =
     fst (foldl key_schedule_round (replicate 11 (replicate 4 0), t_xor key_material, 0) [0..<11])"

text \<open>XOR of the block with the words of a round key.\<close>

definition xor_round_key :: "bytes \<Rightarrow> u32 list \<Rightarrow> bytes" where
  "xor_round_key block ks =
     foldl (\<lambda>b i. write_u32_le b (i * 4) (read_u32_le b (i * 4) XOR (ks ! i))) block [0..<4]"

text \<open>The word of one column, with the key bytes added.\<close>

definition mix_word :: "bytes \<Rightarrow> nat \<Rightarrow> u32 \<Rightarrow> u32" where
  "mix_word block c k =
     (let key_bytes = to_le_bytes 4 k
      in (TABLE_S5 ! unat ((block ! (c + 3)) XOR (key_bytes ! 3)))
         XOR (TABLE_S6 ! unat ((block ! (c + 2)) XOR (key_bytes ! 2)))
         XOR (TABLE_S7 ! unat ((block ! (c + 1)) XOR (key_bytes ! 1)))
         XOR (TABLE_S8 ! unat ((block ! c) XOR (key_bytes ! 0))))"

definition cycle_round :: "u32 list list \<Rightarrow> bytes \<Rightarrow> nat \<Rightarrow> bytes" where
  "cycle_round key_schedule block round =
     (let ks = key_schedule ! (9 - round);
          block = write_u32_le block 0 (mix_word block 0 (ks ! 0));
          block = write_u32_le block 4 (mix_word block 4 (ks ! 1));
          block = write_u32_le block 8 (mix_word block 8 (ks ! 2));
          block = write_u32_le block 12 (mix_word block 12 (ks ! 3))
      in permute_block_2 block (8 - round))"

definition cycle :: "bytes \<Rightarrow> u32 list list \<Rightarrow> bytes" where
  "cycle block key_schedule =
     (let block = xor_round_key block (key_schedule ! 10);
          block = permute_block_1 block;
          block = foldl (cycle_round key_schedule) block [0..<9]
      in xor_round_key block (key_schedule ! 0))"

end
