(* ===== verification/Fairplay_Session.thy ===== *)
theory Fairplay_Session
  imports Fairplay_Cipher
begin

text \<open>
  src/crypto/fairplay.rs, the session key: the modified MD5, the hash around the garble
  transformation, the decryption of the key message, and \<open>playfair_decrypt\<close>, which
  \<open>FairPlay::decrypt\<close> calls. The one table index that depends on the message, its mode, and the
  slices of the messages are checked, with \<open>None\<close> for the panic; a key message with a mode
  below 4 never leads to it.
\<close>

section \<open>Modified MD5\<close>

definition MD5_K :: "u32 list" where
  "MD5_K = concat [
    [0xd76aa478, 0xe8c7b756, 0x242070db, 0xc1bdceee, 0xf57c0faf, 0x4787c62a, 0xa8304613, 0xfd469501],
    [0x698098d8, 0x8b44f7af, 0xffff5bb1, 0x895cd7be, 0x6b901122, 0xfd987193, 0xa679438e, 0x49b40821],
    [0xf61e2562, 0xc040b340, 0x265e5a51, 0xe9b6c7aa, 0xd62f105d, 0x02441453, 0xd8a1e681, 0xe7d3fbc8],
    [0x21e1cde6, 0xc33707d6, 0xf4d50d87, 0x455a14ed, 0xa9e3e905, 0xfcefa3f8, 0x676f02d9, 0x8d2a4c8a],
    [0xfffa3942, 0x8771f681, 0x6d9d6122, 0xfde5380c, 0xa4beea44, 0x4bdecfa9, 0xf6bb4b60, 0xbebfbc70],
    [0x289b7ec6, 0xeaa127fa, 0xd4ef3085, 0x04881d05, 0xd9d4d039, 0xe6db99e5, 0x1fa27cf8, 0xc4ac5665],
    [0xf4292244, 0x432aff97, 0xab9423a7, 0xfc93a039, 0x655b59c3, 0x8f0ccc92, 0xffeff47d, 0x85845dd1],
    [0x6fa87e4f, 0xfe2ce6e0, 0xa3014314, 0x4e0811a1, 0xf7537e82, 0xbd3af235, 0x2ad7d2bb, 0xeb86d391]]"

definition md5_word_index :: "nat \<Rightarrow> nat" where
  "md5_word_index i =
     (if i \<le> 15 then i else if i \<le> 31 then (5 * i + 1) mod 16
      else if i \<le> 47 then (3 * i + 5) mod 16 else (7 * i) mod 16)"

definition md5_mix :: "nat \<Rightarrow> u32 \<Rightarrow> u32 \<Rightarrow> u32 \<Rightarrow> u32" where
  "md5_mix i b c d =
     (if i \<le> 15 then (b AND c) OR (NOT b AND d) else if i \<le> 31 then (b AND d) OR (c AND NOT d)
      else if i \<le> 47 then b XOR c XOR d else c XOR (b OR NOT d))"

definition swap_at :: "'a list \<Rightarrow> nat \<Rightarrow> nat \<Rightarrow> 'a list" where
  "swap_at xs i j = xs[i := xs ! j, j := xs ! i]"

text \<open>The exchange of words after round 31.\<close>

definition md5_swap :: "u32 \<Rightarrow> u32 \<Rightarrow> u32 \<Rightarrow> u32 \<Rightarrow> bytes \<Rightarrow> bytes" where
  "md5_swap a b c d block_in =
     (let nibble = (\<lambda>x n. unat (shr x n AND (15 :: u32)));
          bw = map (\<lambda>idx. read_u32_le block_in (idx * 4)) [0..<16];
          bw = swap_at bw (nibble a 0) (nibble b 0);
          bw = swap_at bw (nibble c 0) (nibble d 0);
          bw = swap_at bw (nibble a 4) (nibble b 4);
          bw = swap_at bw (nibble a 8) (nibble b 8);
          bw = swap_at bw (nibble a 12) (nibble b 12)
      in concat (map (to_le_bytes 4) bw))"

definition md5_round :: "u32 \<times> u32 \<times> u32 \<times> u32 \<times> bytes \<Rightarrow> nat \<Rightarrow> u32 \<times> u32 \<times> u32 \<times> u32 \<times> bytes" where
  "md5_round = (\<lambda>(a, b, c, d, block_in) i.
     (let j = md5_word_index i;
          inp = shl (ucast (block_in ! (4 * j))) 24 OR shl (ucast (block_in ! (4 * j + 1))) 16
                OR shl (ucast (block_in ! (4 * j + 2))) 8 OR ucast (block_in ! (4 * j + 3));
          z = a + inp + (MD5_K ! i);
          z = z + md5_mix i b c d;
          z = word_rotl (unat (MD5_SHIFT ! i)) z;
          z = z + b;
          t = d; d = c; c = b; b = z; a = t
      in (a, b, c, d, if i = 31 then md5_swap a b c d block_in else block_in)))"

definition modified_md5 :: "bytes \<Rightarrow> bytes \<Rightarrow> bytes" where
  "modified_md5 original_block_in key_in =
     (let block_in = copy_at 0 (take 64 original_block_in) (replicate 64 0);
          kw = map (\<lambda>i. read_u32_le key_in (i * 4)) [0..<4];
          (a, b, c, d, _) = foldl md5_round (kw ! 0, kw ! 1, kw ! 2, kw ! 3, block_in) [0..<64]
      in concat (map (to_le_bytes 4) [kw ! 0 + a, kw ! 1 + b, kw ! 2 + c, kw ! 3 + d]))"

section \<open>The hash around the garble transformation\<close>

definition SAP_BUFFER0 :: bytes where
  "SAP_BUFFER0 =
    [0x96, 0x5F, 0xC6, 0x53, 0xF8, 0x46, 0xCC, 0x18, 0xDF, 0xBE, 0xB2, 0xF8, 0x38, 0xD7, 0xEC,
     0x22, 0x03, 0xD1, 0x20, 0x8F]"

definition SAP_BUFFER2 :: bytes where
  "SAP_BUFFER2 =
    [0x43, 0x54, 0x62, 0x7A, 0x18, 0xC3, 0xD6, 0xB3, 0x9A, 0x56, 0xF6, 0x1C, 0x14, 0x3F, 0x0C,
     0x1D, 0x3B, 0x36, 0x83, 0xB1, 0x39, 0x51, 0x4A, 0xAA, 0x09, 0x3E, 0xFE, 0x44, 0xAF, 0xDE,
     0xC3, 0x20, 0x9D, 0x42, 0x3A]"

definition SAP_BUFFER4 :: bytes where
  "SAP_BUFFER4 =
    [0xED, 0x25, 0xD1, 0xBB, 0xBC, 0x27, 0x9F, 0x02, 0xA2, 0xA9, 0x11, 0x00, 0x0C, 0xB3, 0x52,
     0xC0, 0xBD, 0xE3, 0x1B, 0x49, 0xC7]"

definition I0_INDEX :: "nat list" where
  "I0_INDEX = [18, 22, 23, 0, 5, 19, 32, 31, 10, 21, 30]"

definition sap_load :: "bytes \<Rightarrow> bytes" where
  "sap_load block_in =
     (let block_words = map (\<lambda>i. read_u32_le block_in (i * 4)) [0..<16]
      in map (\<lambda>i. ucast (shr (block_words ! (i mod 64 div 4)) ((3 - i mod 4) * 8) AND 0xff)) [0..<210])"

text \<open>\<open>(i.wrapping_sub(k)) as usize % n\<close>: the subtraction wraps at 32 bits.\<close>

definition wrapped_index :: "nat \<Rightarrow> nat \<Rightarrow> nat \<Rightarrow> nat" where
  "wrapped_index i k n = unat (of_nat i - of_nat k :: u32) mod n"

definition sap_scramble :: "bytes \<Rightarrow> nat \<Rightarrow> bytes" where
  "sap_scramble buf i =
     (let x = buf ! wrapped_index i 155 210; y = buf ! wrapped_index i 57 210;
          z = buf ! wrapped_index i 13 210; w = buf ! (i mod 210)
      in buf[i mod 210 := rol8 y 5 + (rol8 z 3 XOR w) - rol8 x 7])"

text \<open>\<open>for i in 0..n { key_out[i % 16] ^= buffer[i] }\<close>.\<close>

definition xor_into :: "bytes \<Rightarrow> bytes \<Rightarrow> bytes" where
  "xor_into buffer key_out =
     foldl (\<lambda>k i. k[i mod 16 := (k ! (i mod 16)) XOR (buffer ! i)]) key_out [0..<length buffer]"

definition sap_apply3 :: "bytes \<Rightarrow> bytes \<Rightarrow> nat \<Rightarrow> bytes" where
  "sap_apply3 buf key_out i =
     (if i = 3 then key_out[i := 0x3d]
      else key_out[i := key_out ! i + buf ! ((I0_INDEX ! i) * 4)])"

definition sap_unscramble :: "bytes \<Rightarrow> nat \<Rightarrow> bytes" where
  "sap_unscramble key_out i =
     (let x = key_out ! wrapped_index i 7 16; y = key_out ! (i mod 16);
          z = key_out ! wrapped_index i 37 16; w = key_out ! wrapped_index i 177 16
      in key_out[i := rol8 x 1 XOR y XOR rol8 z 6 XOR rol8 w 5])"

definition sap_hash :: "bytes \<Rightarrow> bytes" where
  "sap_hash block_in =
     (let b1 = foldl sap_scramble (sap_load block_in) [0..<840];
          g = garble SAP_BUFFER0 b1 SAP_BUFFER2 (replicate 132 0) SAP_BUFFER4;
          key_out = replicate 16 0xE1;
          key_out = foldl (sap_apply3 (buffer3 g)) key_out [0..<11];
          key_out = xor_into (buffer0 g) key_out;
          key_out = xor_into (buffer2 g) key_out;
          key_out = xor_into (buffer1 g) key_out
      in foldl sap_unscramble key_out (concat (replicate 16 [0..<16])))"

section \<open>Decryption of the key message\<close>

text \<open>The mixing of one column through the four parts of S9.\<close>

definition message_mix_word :: "bytes \<Rightarrow> nat \<Rightarrow> u32" where
  "message_mix_word buffer c =
     (TABLE_S9 ! unat (buffer ! c)) XOR (TABLE_S9 ! (0x100 + unat (buffer ! (c + 1))))
     XOR (TABLE_S9 ! (0x200 + unat (buffer ! (c + 2)))) XOR (TABLE_S9 ! (0x300 + unat (buffer ! (c + 3))))"

definition message_round :: "bytes \<Rightarrow> bytes \<Rightarrow> nat \<Rightarrow> bytes" where
  "message_round mk buffer j_round =
     (let base = 0x80 - 0x10 * j_round;
          buffer = permute (\<lambda>i v. (message_table_index (base + i) ! unat v) XOR (mk ! (base + i))) buffer
      in concat (map (\<lambda>c. to_le_bytes 4 (message_mix_word buffer c)) [0, 4, 8, 12]))"

definition message_block :: "bytes \<Rightarrow> bytes \<Rightarrow> bytes" where
  "message_block mk buffer =
     permute (\<lambda>i v. TABLE_S10 ! (i * 256 + unat v)) (foldl (message_round mk) buffer [0..<9])"

definition decrypt_message_block :: "bytes \<Rightarrow> bytes \<Rightarrow> nat \<Rightarrow> bytes option" where
  "decrypt_message_block message_in decrypted_message i =
     do { mode_byte \<leftarrow> get_at message_in 12;
          let mode = unat mode_byte;
          let from = (if mode = 3 then 0x80 - 0x10 * i else 0x10 * (i + 1));
          block \<leftarrow> slice_at from (from + 16) message_in;
          mk \<leftarrow> get_at MESSAGE_KEY mode;
          let buffer = message_block mk block;
          if mode = 2 \<or> mode = 1 \<or> mode = 0
          then do { iv \<leftarrow> (if i > 0 then slice_at (0x10 * i) (0x10 * i + 16) message_in
                         else get_at MESSAGE_IV mode);
                    Some (copy_at (0x10 * i) (map2 (XOR) buffer iv) decrypted_message) }
          else do { iv \<leftarrow> (if i < 7 then slice_at (0x70 - 0x10 * i) (0x70 - 0x10 * i + 16) message_in
                         else get_at MESSAGE_IV mode);
                    Some (copy_at (0x70 - 0x10 * i) (map2 (XOR) buffer iv) decrypted_message) } }"

definition decrypt_message :: "bytes \<Rightarrow> bytes option" where
  "decrypt_message message_in = for_each (decrypt_message_block message_in) (replicate 128 0) [0..<8]"

section \<open>The session key\<close>

definition session_key_round :: "bytes \<Rightarrow> bytes \<Rightarrow> nat \<Rightarrow> bytes" where
  "session_key_round new_sap session_key round =
     (let base = slice (round * 64) ((round + 1) * 64) new_sap;
          md5_out = modified_md5 base session_key;
          session_key = sap_hash base
      in concat (map (\<lambda>i. to_le_bytes 4 (read_u32_le session_key (i * 4) + read_u32_le md5_out (i * 4)))
                   [0..<4]))"

text \<open>The bytes of each word in reverse order.\<close>

definition swap_words :: "bytes \<Rightarrow> bytes" where
  "swap_words session_key =
     foldl (\<lambda>k i. swap_at (swap_at k i (i + 3)) (i + 1) (i + 2)) session_key [0, 4, 8, 12]"

text \<open>The last step masks each byte with 121.\<close>

definition generate_session_key :: "bytes \<Rightarrow> bytes \<Rightarrow> bytes option" where
  "generate_session_key old_sap message_in =
     do { decrypted_message \<leftarrow> decrypt_message message_in;
          old \<leftarrow> slice_at 0x80 0x100 old_sap;
          let new_sap = STATIC_SOURCE_1 @ decrypted_message @ old @ STATIC_SOURCE_2;
          let session_key = foldl (session_key_round new_sap) INITIAL_SESSION_KEY [0..<5];
          Some (map (\<lambda>b. b XOR 121) (swap_words session_key)) }"

definition playfair_decrypt :: "bytes \<Rightarrow> bytes \<Rightarrow> bytes option" where
  "playfair_decrypt message3 cipher_text =
     do { chunk1 \<leftarrow> slice_at 16 32 cipher_text;
          chunk2 \<leftarrow> slice_at 56 72 cipher_text;
          sap_key \<leftarrow> generate_session_key DEFAULT_SAP message3;
          let key_schedule = generate_key_schedule sap_key;
          let block_in = cycle (z_xor_block chunk2) key_schedule;
          let key_out = map2 (XOR) block_in chunk1;
          Some (z_xor_inplace (x_xor_inplace key_out)) }"

section \<open>Sizes: nothing is indexed out of range\<close>

lemma foldl_length: "(\<And>x i. length (f x i) = length x) \<Longrightarrow> length (foldl f x is) = length x"
  by (induction "is" arbitrary: x) simp_all

lemma length_permute [simp]: "length (permute f b) = length b"
  by (simp add: permute_def Let_def)

lemma length_concat_words [simp]: "length (concat (map (to_le_bytes 4) ws)) = 4 * length ws"
  by (induction ws) simp_all

lemma length_modified_md5 [simp]: "length (modified_md5 b k) = 16"
  by (simp add: modified_md5_def Let_def split_beta)

lemma length_sap_hash [simp]: "length (sap_hash b) = 16"
proof -
  have "length (xor_into buf k) = length k" for buf k
    unfolding xor_into_def by (rule foldl_length) simp
  moreover have "length (foldl (sap_apply3 buf) k is) = length k" for buf k "is"
    by (rule foldl_length) (simp add: sap_apply3_def)
  moreover have "length (foldl sap_unscramble k is) = length k" for k "is"
    by (rule foldl_length) (simp add: sap_unscramble_def Let_def)
  ultimately show ?thesis by (simp add: sap_hash_def Let_def)
qed

lemma message_tables:
  "length MESSAGE_KEY = 4" "\<forall>k \<in> set MESSAGE_KEY. length k = 144"
  "length MESSAGE_IV = 4" "\<forall>v \<in> set MESSAGE_IV. length v = 16"
  by (simp_all add: MESSAGE_KEY_def MESSAGE_IV_def)

lemma length_message_block:
  assumes "length b = 16" shows "length (message_block mk b) = 16"
proof -
  have "length (message_round mk b r) = 16" for b r
    by (simp add: message_round_def Let_def)
  then have "length (foldl (message_round mk) b rs) = 16" for rs
    using assms by (induction rs rule: rev_induct) simp_all
  then show ?thesis by (simp add: message_block_def)
qed

text \<open>The mode of the message decides, as the set-up promises.\<close>

lemma decrypt_message_total:
  assumes "length msg = 164" "unat (msg ! 12) < 4"
  obtains d where "decrypt_message msg = Some d" "length d = 128"
proof -
  have "\<exists>d'. decrypt_message_block msg d i = Some d' \<and> length d' = 128"
    if "length d = 128" "i \<in> set [0..<8]" for d i
  proof -
    let ?m = "unat (msg ! 12)"
    have i: "i < 8" using that by simp
    have blk: "length (message_block mk (slice a (a + 16) msg)) = 16" if "a + 16 \<le> 164" for mk a
      using that assms by (intro length_message_block) simp
    have iv: "length (MESSAGE_IV ! ?m) = 16"
      using assms message_tables by simp
    show ?thesis
      using that i assms message_tables blk iv
      by (auto simp: decrypt_message_block_def slice_at_def Let_def)
  qed
  then have "\<exists>d. decrypt_message msg = Some d \<and> length d = 128"
    unfolding decrypt_message_def by (intro for_each_total [where P = "\<lambda>d. length d = 128"]) auto
  then show ?thesis using that by blast
qed

lemma generate_session_key_total:
  assumes "length msg = 164" "unat (msg ! 12) < 4"
  obtains sk where "generate_session_key DEFAULT_SAP msg = Some (map (\<lambda>b. b XOR 121) sk)" "length sk = 16"
proof -
  obtain d where d: "decrypt_message msg = Some d" using decrypt_message_total [OF assms] by blast
  have "length (session_key_round sap k r) = 16" for sap k r
    by (simp add: session_key_round_def Let_def length_concat sum_list_triv o_def)
  then have "length (foldl (session_key_round sap) INITIAL_SESSION_KEY rs) = 16" for sap rs
    by (induction rs rule: rev_induct) (simp_all add: INITIAL_SESSION_KEY_def)
  moreover have "length (swap_words k) = length k" for k
    unfolding swap_words_def by (rule foldl_length) (simp add: swap_at_def)
  moreover have "slice_at 0x80 0x100 DEFAULT_SAP \<noteq> None" by (simp add: slice_at_def DEFAULT_SAP_def)
  ultimately show ?thesis using d that by (auto simp: generate_session_key_def Let_def)
qed

end
