(* ===== verification/Rsa_Fairplay.thy ===== *)
theory Rsa_Fairplay
  imports Rust_Str Errors Fairplay_Session
begin

text \<open>
  The two key transports of AirPlay 1. src/crypto/rsa.rs: the challenge response and the
  decryption of the announced AES key, around the parameters of \<open>rsa_crypto\<close> (base64 engine,
  PKCS#1 signing and OAEP of the crates \<open>base64\<close> and \<open>rsa\<close>). src/crypto/fairplay.rs: the
  fp-setup state machine; the key decryption it ends with is \<open>playfair_decrypt\<close> of the theory
  Fairplay_Session.
\<close>

section \<open>RSA key\<close>

record rsa_crypto =
  b64_decode :: "string \<Rightarrow> bytes option"
  b64_encode :: "bytes \<Rightarrow> string"
  modulus_bits :: nat
  pkcs1_sign :: "bytes \<Rightarrow> string + bytes"
  oaep_decrypt :: "bytes \<Rightarrow> bytes option"

definition sign_payload :: "bytes \<Rightarrow> bytes \<Rightarrow> bytes \<Rightarrow> bytes" where
  "sign_payload challenge ip_addr hw_addr =
     (let d = challenge @ ip_addr @ hw_addr in
      if length d < 32 then d @ replicate (32 - length d) 0 else d)"

definition sign_challenge :: "rsa_crypto \<Rightarrow> string \<Rightarrow> bytes \<Rightarrow> bytes \<Rightarrow> crypto_error + string" where
  "sign_challenge rc b64_challenge ip_addr hw_addr =
     (if length hw_addr \<noteq> 6 then Inl (RsaKey ''invalid hw_addr length'')
      else if length ip_addr \<noteq> 4 \<and> length ip_addr \<noteq> 16 then Inl (RsaKey ''invalid ip_addr length'')
      else case b64_decode rc b64_challenge of
        None \<Rightarrow> Inl (RsaKey ''invalid base64 challenge'')
      | Some challenge \<Rightarrow>
          (case pkcs1_sign rc (sign_payload challenge ip_addr hw_addr) of
             Inl e \<Rightarrow> Inl (RsaKey e)
           | Inr sig \<Rightarrow> Inr (b64_encode rc sig)))"

definition rsa_decrypt :: "rsa_crypto \<Rightarrow> string \<Rightarrow> crypto_error + bytes" where
  "rsa_decrypt rc b64_input =
     (case b64_decode rc b64_input of
        None \<Rightarrow> Inl RsaDecrypt
      | Some ciphertext \<Rightarrow>
          let key_len = modulus_bits rc div 8 in
          if length ciphertext > key_len then Inl RsaDecrypt
          else
            let offset = key_len - length ciphertext;
                padded = copy_at offset ciphertext (replicate key_len 0)
            in case oaep_decrypt rc padded of None \<Rightarrow> Inl RsaDecrypt | Some k \<Rightarrow> Inr k)"

definition rsa_decode :: "rsa_crypto \<Rightarrow> string \<Rightarrow> crypto_error + bytes" where
  "rsa_decode rc b64_input =
     (case b64_decode rc b64_input of None \<Rightarrow> Inl (RsaKey ''invalid base64 input'') | Some x \<Rightarrow> Inr x)"

section \<open>FairPlay set-up\<close>

definition REPLY_MESSAGE :: "bytes list" where
  "REPLY_MESSAGE =
    [[0x46, 0x50, 0x4c, 0x59, 0x03, 0x01, 0x02, 0x00, 0x00, 0x00, 0x00, 0x82, 0x02, 0x00, 0x0f, 0x9f, 0x3f, 0x9e,
      0x0a, 0x25, 0x21, 0xdb, 0xdf, 0x31, 0x2a, 0xb2, 0xbf, 0xb2, 0x9e, 0x8d, 0x23, 0x2b, 0x63, 0x76, 0xa8, 0xc8,
      0x18, 0x70, 0x1d, 0x22, 0xae, 0x93, 0xd8, 0x27, 0x37, 0xfe, 0xaf, 0x9d, 0xb4, 0xfd, 0xf4, 0x1c, 0x2d, 0xba,
      0x9d, 0x1f, 0x49, 0xca, 0xaa, 0xbf, 0x65, 0x91, 0xac, 0x1f, 0x7b, 0xc6, 0xf7, 0xe0, 0x66, 0x3d, 0x21, 0xaf,
      0xe0, 0x15, 0x65, 0x95, 0x3e, 0xab, 0x81, 0xf4, 0x18, 0xce, 0xed, 0x09, 0x5a, 0xdb, 0x7c, 0x3d, 0x0e, 0x25,
      0x49, 0x09, 0xa7, 0x98, 0x31, 0xd4, 0x9c, 0x39, 0x82, 0x97, 0x34, 0x34, 0xfa, 0xcb, 0x42, 0xc6, 0x3a, 0x1c,
      0xd9, 0x11, 0xa6, 0xfe, 0x94, 0x1a, 0x8a, 0x6d, 0x4a, 0x74, 0x3b, 0x46, 0xc3, 0xa7, 0x64, 0x9e, 0x44, 0xc7,
      0x89, 0x55, 0xe4, 0x9d, 0x81, 0x55, 0x00, 0x95, 0x49, 0xc4, 0xe2, 0xf7, 0xa3, 0xf6, 0xd5, 0xba],
     [0x46, 0x50, 0x4c, 0x59, 0x03, 0x01, 0x02, 0x00, 0x00, 0x00, 0x00, 0x82, 0x02, 0x01, 0xcf, 0x32, 0xa2, 0x57,
      0x14, 0xb2, 0x52, 0x4f, 0x8a, 0xa0, 0xad, 0x7a, 0xf1, 0x64, 0xe3, 0x7b, 0xcf, 0x44, 0x24, 0xe2, 0x00, 0x04,
      0x7e, 0xfc, 0x0a, 0xd6, 0x7a, 0xfc, 0xd9, 0x5d, 0xed, 0x1c, 0x27, 0x30, 0xbb, 0x59, 0x1b, 0x96, 0x2e, 0xd6,
      0x3a, 0x9c, 0x4d, 0xed, 0x88, 0xba, 0x8f, 0xc7, 0x8d, 0xe6, 0x4d, 0x91, 0xcc, 0xfd, 0x5c, 0x7b, 0x56, 0xda,
      0x88, 0xe3, 0x1f, 0x5c, 0xce, 0xaf, 0xc7, 0x43, 0x19, 0x95, 0xa0, 0x16, 0x65, 0xa5, 0x4e, 0x19, 0x39, 0xd2,
      0x5b, 0x94, 0xdb, 0x64, 0xb9, 0xe4, 0x5d, 0x8d, 0x06, 0x3e, 0x1e, 0x6a, 0xf0, 0x7e, 0x96, 0x56, 0x16, 0x2b,
      0x0e, 0xfa, 0x40, 0x42, 0x75, 0xea, 0x5a, 0x44, 0xd9, 0x59, 0x1c, 0x72, 0x56, 0xb9, 0xfb, 0xe6, 0x51, 0x38,
      0x98, 0xb8, 0x02, 0x27, 0x72, 0x19, 0x88, 0x57, 0x16, 0x50, 0x94, 0x2a, 0xd9, 0x46, 0x68, 0x8a],
     [0x46, 0x50, 0x4c, 0x59, 0x03, 0x01, 0x02, 0x00, 0x00, 0x00, 0x00, 0x82, 0x02, 0x02, 0xc1, 0x69, 0xa3, 0x52,
      0xee, 0xed, 0x35, 0xb1, 0x8c, 0xdd, 0x9c, 0x58, 0xd6, 0x4f, 0x16, 0xc1, 0x51, 0x9a, 0x89, 0xeb, 0x53, 0x17,
      0xbd, 0x0d, 0x43, 0x36, 0xcd, 0x68, 0xf6, 0x38, 0xff, 0x9d, 0x01, 0x6a, 0x5b, 0x52, 0xb7, 0xfa, 0x92, 0x16,
      0xb2, 0xb6, 0x54, 0x82, 0xc7, 0x84, 0x44, 0x11, 0x81, 0x21, 0xa2, 0xc7, 0xfe, 0xd8, 0x3d, 0xb7, 0x11, 0x9e,
      0x91, 0x82, 0xaa, 0xd7, 0xd1, 0x8c, 0x70, 0x63, 0xe2, 0xa4, 0x57, 0x55, 0x59, 0x10, 0xaf, 0x9e, 0x0e, 0xfc,
      0x76, 0x34, 0x7d, 0x16, 0x40, 0x43, 0x80, 0x7f, 0x58, 0x1e, 0xe4, 0xfb, 0xe4, 0x2c, 0xa9, 0xde, 0xdc, 0x1b,
      0x5e, 0xb2, 0xa3, 0xaa, 0x3d, 0x2e, 0xcd, 0x59, 0xe7, 0xee, 0xe7, 0x0b, 0x36, 0x29, 0xf2, 0x2a, 0xfd, 0x16,
      0x1d, 0x87, 0x73, 0x53, 0xdd, 0xb9, 0x9a, 0xdc, 0x8e, 0x07, 0x00, 0x6e, 0x56, 0xf8, 0x50, 0xce],
     [0x46, 0x50, 0x4c, 0x59, 0x03, 0x01, 0x02, 0x00, 0x00, 0x00, 0x00, 0x82, 0x02, 0x03, 0x90, 0x01, 0xe1, 0x72,
      0x7e, 0x0f, 0x57, 0xf9, 0xf5, 0x88, 0x0d, 0xb1, 0x04, 0xa6, 0x25, 0x7a, 0x23, 0xf5, 0xcf, 0xff, 0x1a, 0xbb,
      0xe1, 0xe9, 0x30, 0x45, 0x25, 0x1a, 0xfb, 0x97, 0xeb, 0x9f, 0xc0, 0x01, 0x1e, 0xbe, 0x0f, 0x3a, 0x81, 0xdf,
      0x5b, 0x69, 0x1d, 0x76, 0xac, 0xb2, 0xf7, 0xa5, 0xc7, 0x08, 0xe3, 0xd3, 0x28, 0xf5, 0x6b, 0xb3, 0x9d, 0xbd,
      0xe5, 0xf2, 0x9c, 0x8a, 0x17, 0xf4, 0x81, 0x48, 0x7e, 0x3a, 0xe8, 0x63, 0xc6, 0x78, 0x32, 0x54, 0x22, 0xe6,
      0xf7, 0x8e, 0x16, 0x6d, 0x18, 0xaa, 0x7f, 0xd6, 0x36, 0x25, 0x8b, 0xce, 0x28, 0x72, 0x6f, 0x66, 0x1f, 0x73,
      0x88, 0x93, 0xce, 0x44, 0x31, 0x1e, 0x4b, 0xe6, 0xc0, 0x53, 0x51, 0x93, 0xe5, 0xef, 0x72, 0xe8, 0x68, 0x62,
      0x33, 0x72, 0x9c, 0x22, 0x7d, 0x82, 0x0c, 0x99, 0x94, 0x45, 0xd8, 0x92, 0x46, 0xc8, 0xc3, 0x59]]"

definition FP_HEADER :: bytes where
  "FP_HEADER = [0x46, 0x50, 0x4c, 0x59, 0x03, 0x01, 0x04, 0x00, 0x00, 0x00, 0x00, 0x14]"

record fairplay =
  keymsg :: bytes
  keymsglen :: nat

definition fairplay_new :: fairplay where
  "fairplay_new = \<lparr>keymsg = replicate 164 0, keymsglen = 0\<rparr>"

definition fairplay_setup :: "fairplay \<Rightarrow> bytes \<Rightarrow> (crypto_error + bytes) \<times> fairplay" where
  "fairplay_setup fp request =
     (if request ! 4 \<noteq> 0x03 then (Inl (FairPlay ''unsupported version''), fp)
      else if unat (request ! 14) \<ge> 4 then (Inl (FairPlay ''invalid mode''), fp)
      else (Inr (REPLY_MESSAGE ! unat (request ! 14)), fp\<lparr>keymsglen := 0\<rparr>))"

definition fairplay_handshake :: "fairplay \<Rightarrow> bytes \<Rightarrow> (crypto_error + bytes) \<times> fairplay" where
  "fairplay_handshake fp request =
     (if request ! 4 \<noteq> 0x03 then (Inl (FairPlay ''unsupported version''), fp)
      else if unat (request ! 12) \<ge> length MESSAGE_KEY then (Inl (FairPlay ''invalid mode''), fp)
      else (Inr (FP_HEADER @ slice 144 164 request), fp\<lparr>keymsg := request, keymsglen := 164\<rparr>))"

text \<open>The key message was accepted when \<open>keymsglen\<close> is 164, and then the decryption does not
  panic (lemma \<open>playfair_total\<close> below).\<close>

definition fairplay_decrypt :: "fairplay \<Rightarrow> bytes \<Rightarrow> crypto_error + bytes" where
  "fairplay_decrypt fp input =
     (if keymsglen fp \<noteq> 164 then Inl (FairPlay ''handshake not complete'')
      else Inr (the (playfair_decrypt (keymsg fp) input)))"

text \<open>A key message is only used after it was accepted: its version and mode are in range, so
  the tables indexed by the mode later are not exceeded.\<close>

definition fairplay_inv :: "fairplay \<Rightarrow> bool" where
  [inv_defs]: "fairplay_inv fp \<longleftrightarrow>
     length (keymsg fp) = 164
     \<and> (keymsglen fp = 0 \<or> (keymsglen fp = 164 \<and> keymsg fp ! 4 = 0x03 \<and> unat (keymsg fp ! 12) < 4))"

lemma fairplay_inv_new: "fairplay_inv fairplay_new"
  by (simp add: fairplay_inv_def fairplay_new_def)

lemma fairplay_inv_setup: "fairplay_inv fp \<Longrightarrow> fairplay_inv (snd (fairplay_setup fp req))"
  by (auto simp: fairplay_inv_def fairplay_setup_def)

lemma fairplay_inv_handshake:
  "fairplay_inv fp \<Longrightarrow> length req = 164 \<Longrightarrow> fairplay_inv (snd (fairplay_handshake fp req))"
  by (auto simp: fairplay_inv_def fairplay_handshake_def message_tables)

lemma playfair_total:
  assumes "fairplay_inv fp" "keymsglen fp = 164" "length inp = 72"
  shows "playfair_decrypt (keymsg fp) inp \<noteq> None"
proof -
  have "length (keymsg fp) = 164" "unat (keymsg fp ! 12) < 4"
    using assms by (simp_all add: fairplay_inv_def)
  then show ?thesis
    using assms(3) by (auto simp: playfair_decrypt_def slice_at_def Let_def elim: generate_session_key_total)
qed

text \<open>The replies have the sizes the protocol fixes.\<close>

lemma fairplay_reply_sizes:
  "fst (fairplay_setup fp r1) = Inr a \<Longrightarrow> length a = 142"
  "length r2 = 164 \<Longrightarrow> fst (fairplay_handshake fp r2) = Inr b \<Longrightarrow> length b = 32"
proof -
  show "length a = 142" if "fst (fairplay_setup fp r1) = Inr a"
  proof -
    have "k < 4 \<Longrightarrow> length (REPLY_MESSAGE ! k) = 142" for k :: nat
      by (auto simp: REPLY_MESSAGE_def numeral_eq_Suc less_Suc_eq)
    with that show ?thesis by (auto simp: fairplay_setup_def split: if_splits)
  qed
  show "length b = 32" if "length r2 = 164" "fst (fairplay_handshake fp r2) = Inr b"
    using that by (auto simp: fairplay_handshake_def FP_HEADER_def split: if_splits)
qed

end
