(* ===== verification/Http.thy ===== *)
theory Http
  imports Segments Utf8 Errors
begin

text \<open>
  The incremental RTSP/HTTP request parser and the response builder of src/proto/http.rs.
  The crate \<open>httparse\<close> is the parameter \<open>hp\<close>, its result the datatype \<open>hp_status\<close>; the
  connection's body policy is the parameter \<open>on_headers\<close>. A failing operation returns the
  error together with the state it leaves behind.
\<close>

section \<open>Request parser\<close>

definition MAX_HEADER_BYTES :: nat where "MAX_HEADER_BYTES = 64 * 1024"
definition MAX_HEADER_COUNT :: nat where "MAX_HEADER_COUNT = 64"
definition MAX_BODY_BYTES :: nat where "MAX_BODY_BYTES = 32 * 1024 * 1024"

record http_request =
  buffer :: bytes
  request_line_start :: "nat option"
  verb :: "string option"
  url :: "string option"
  headers :: "string \<rightharpoonup> string"
  body :: "bytes option"
  content_length :: "nat option"
  headers_complete :: bool
  complete :: bool
  req_error :: "string option"

definition request_new :: http_request where
  "request_new = \<lparr>buffer = [], request_line_start = None, verb = None, url = None,
     headers = Map.empty, body = None, content_length = None, headers_complete = False,
     complete = False, req_error = None\<rparr>"

text \<open>What \<open>httparse::Request::parse\<close> reports: the length of the header block with method,
  path and header fields, the need for more data, or an error with its message. Its header
  array has room for \<open>MAX_HEADER_COUNT\<close> fields.\<close>

datatype hp_status =
    HpComplete nat "string option" "string option" "(string \<times> bytes) list"
  | HpPartial
  | HpError string

definition ends_with :: "'a list \<Rightarrow> 'a list \<Rightarrow> bool" where
  "ends_with xs p \<longleftrightarrow> length p \<le> length xs \<and> drop (length xs - length p) xs = p"

definition CR :: byte where "CR = 13"
definition LF :: byte where "LF = 10"

definition normalize_line :: "bytes \<Rightarrow> bytes" where
  "normalize_line line =
     (let e = length line - (if ends_with line [CR] then 1 else 0); l = take e line in
      if ends_with l (as_bytes '' RTSP/1.0'')
      then copy_at (length l - 8) (as_bytes ''HTTP'') line
      else line)"

definition normalize_request_version :: "http_request \<Rightarrow> http_request" where
  "normalize_request_version s =
     (case request_line_start s of
        None \<Rightarrow> s
      | Some start \<Rightarrow>
          let line = takeWhile (\<lambda>b. b \<noteq> LF) (drop start (buffer s)) in
          s\<lparr>buffer := copy_at start (normalize_line line) (buffer s)\<rparr>)"

fun insert_headers :: "http_request \<Rightarrow> (string \<times> bytes) list \<Rightarrow> (protocol_error + unit) \<times> http_request" where
  "insert_headers s [] = (Inr (), s)"
| "insert_headers s ((n, v) # hs) =
     (let name = map to_ascii_lower n in
      if name = ''transfer-encoding'' then (Inl (InvalidRtsp ''transfer framing is unsupported''), s)
      else if (name = ''content-length'' \<or> name = ''content-type'') \<and> headers s name \<noteq> None
      then (Inl (InvalidRtsp ''duplicate body metadata''), s)
      else insert_headers (s\<lparr>headers := (headers s)(name \<mapsto> from_utf8_lossy v)\<rparr>) hs)"

definition parse_content_length :: "http_request \<Rightarrow> protocol_error + nat option" where
  "parse_content_length s =
     (let len =
        (case headers s ''content-length'' of
           None \<Rightarrow> Inr None
         | Some val \<Rightarrow>
             if val = [] \<or> \<not> list_all is_digit val then Inl (InvalidRtsp ''invalid Content-Length'')
             else (case parse_nat 64 val of
                     None \<Rightarrow> Inl (InvalidRtsp ''Content-Length overflow'')
                   | Some n \<Rightarrow> Inr (Some n)))
      in case len of
           Inl e \<Rightarrow> Inl e
         | Inr l \<Rightarrow> if (case l of None \<Rightarrow> 0 | Some n \<Rightarrow> n) > MAX_BODY_BYTES
                     then Inl (InvalidRtsp ''request body exceeds 32 MiB'') else Inr l)"

definition try_parse_headers ::
  "(bytes \<Rightarrow> hp_status) \<Rightarrow> http_request \<Rightarrow> (protocol_error + bool) \<times> http_request" where
  "try_parse_headers hp s0 =
     (let s = normalize_request_version s0 in
      case hp (buffer s) of
        HpComplete body_offset m u hs \<Rightarrow>
          (case insert_headers (s\<lparr>verb := m, url := u\<rparr>) hs of
             (Inl e, s1) \<Rightarrow> (Inl e, s1)
           | (Inr _, s1) \<Rightarrow>
               (case parse_content_length s1 of
                  Inl e \<Rightarrow> (Inl e, s1)
                | Inr l \<Rightarrow> (Inr True, s1\<lparr>content_length := l, headers_complete := True, buffer := []\<rparr>)))
      | HpPartial \<Rightarrow> (Inr False, s)
      | HpError m \<Rightarrow> (Inl (InvalidRtsp m), s))"

definition needed :: "http_request \<Rightarrow> nat" where
  "needed s = (case content_length s of None \<Rightarrow> 0 | Some n \<Rightarrow> n)"

definition buffer_body_and_leftover :: "http_request \<Rightarrow> bytes \<Rightarrow> http_request" where
  "buffer_body_and_leftover s data =
     (let accepted = min (length data) (needed s - length (buffer s));
          s1 = s\<lparr>buffer := buffer s @ take accepted data\<rparr>
      in if length (buffer s1) = needed s then
           (let s2 = (if needed s \<noteq> 0 then s1\<lparr>body := Some (buffer s1), buffer := []\<rparr> else s1)
            in s2\<lparr>complete := True, buffer := buffer s2 @ drop accepted data\<rparr>)
         else s1)"

definition at_blank_line :: "http_request \<Rightarrow> bool" where
  "at_blank_line s \<longleftrightarrow>
     request_line_start s \<noteq> None \<and> (ends_with (buffer s) [LF, CR, LF] \<or> ends_with (buffer s) [LF, LF])"

definition push_byte :: "http_request \<Rightarrow> byte \<Rightarrow> http_request" where
  "push_byte s b =
     (let s1 = (if request_line_start s = None \<and> \<not> (b = CR \<or> b = LF)
                then s\<lparr>request_line_start := Some (length (buffer s))\<rparr> else s)
      in s1\<lparr>buffer := buffer s1 @ [b]\<rparr>)"

text \<open>The byte loop of \<open>ingest\<close>; the third component is the data left when it ends.\<close>

fun header_loop ::
  "(bytes \<Rightarrow> hp_status) \<Rightarrow> (http_request \<Rightarrow> protocol_error + nat) \<Rightarrow> http_request \<Rightarrow> bytes
   \<Rightarrow> (protocol_error + unit) \<times> http_request \<times> bytes" where
  "header_loop hp on_headers s [] = (Inr (), s, [])"
| "header_loop hp on_headers s (b # rest) =
     (if length (buffer s) = MAX_HEADER_BYTES
      then (Inl (InvalidRtsp ''request headers exceed 64 KiB''), s, b # rest)
      else
        let s2 = push_byte s b in
        if at_blank_line s2 then
          (case try_parse_headers hp s2 of
             (Inl e, s3) \<Rightarrow> (Inl e, s3, rest)
           | (Inr False, s3) \<Rightarrow> header_loop hp on_headers s3 rest
           | (Inr True, s3) \<Rightarrow>
               (case on_headers s3 of
                  Inl e \<Rightarrow> (Inl e, s3, rest)
                | Inr l \<Rightarrow>
                    if needed s3 > min l MAX_BODY_BYTES
                    then (Inl (InvalidRtsp ''request body exceeds connection policy''), s3, rest)
                    else (Inr (), s3, rest)))
        else header_loop hp on_headers s2 rest)"

definition ingest ::
  "(bytes \<Rightarrow> hp_status) \<Rightarrow> (http_request \<Rightarrow> protocol_error + nat) \<Rightarrow> http_request \<Rightarrow> bytes
   \<Rightarrow> (protocol_error + unit) \<times> http_request" where
  "ingest hp on_headers s data =
     (if complete s then (Inr (), s\<lparr>buffer := buffer s @ data\<rparr>)
      else
        (case (if headers_complete s then (Inr (), s, data) else header_loop hp on_headers s data) of
           (Inl e, s1, _) \<Rightarrow> (Inl e, s1)
         | (Inr _, s1, rest) \<Rightarrow>
             if headers_complete s1 then (Inr (), buffer_body_and_leftover s1 rest)
             else (Inr (), s1)))"

definition error_message :: "protocol_error \<Rightarrow> string" where
  "error_message e = (case e of InvalidRtsp m \<Rightarrow> m | _ \<Rightarrow> protocol_error_display e)"

definition add_data_with_body_limit ::
  "(bytes \<Rightarrow> hp_status) \<Rightarrow> (http_request \<Rightarrow> protocol_error + nat) \<Rightarrow> http_request \<Rightarrow> bytes
   \<Rightarrow> (protocol_error + unit) \<times> http_request" where
  "add_data_with_body_limit hp on_headers s data =
     (case req_error s of
        Some m \<Rightarrow> (Inl (InvalidRtsp m), s)
      | None \<Rightarrow>
          (case ingest hp on_headers s data of
             (Inl e, s1) \<Rightarrow> (Inl e, s1\<lparr>req_error := Some (error_message e)\<rparr>)
           | (Inr _, s1) \<Rightarrow> (Inr (), s1)))"

definition add_data ::
  "(bytes \<Rightarrow> hp_status) \<Rightarrow> http_request \<Rightarrow> bytes \<Rightarrow> (protocol_error + unit) \<times> http_request" where
  "add_data hp = add_data_with_body_limit hp (\<lambda>_. Inr MAX_BODY_BYTES)"

definition take_leftover :: "http_request \<Rightarrow> bytes \<times> http_request" where
  "take_leftover s = (if \<not> complete s then ([], s) else (buffer s, s\<lparr>buffer := []\<rparr>))"

definition header :: "http_request \<Rightarrow> string \<Rightarrow> string option" where
  "header s name = headers s (map to_ascii_lower name)"

section \<open>Response builder\<close>

record http_response =
  data :: bytes
  resp_complete :: bool
  disconnect :: bool
  code :: u16

definition CRLF :: bytes where "CRLF = [CR, LF]"

definition response_new :: "string \<Rightarrow> u16 \<Rightarrow> string \<Rightarrow> http_response" where
  "response_new protocol c message =
     \<lparr>data = as_bytes (protocol @ '' '' @ show_nat (unat c) @ '' '' @ message) @ CRLF,
      resp_complete = False, disconnect = False, code = c\<rparr>"

definition add_header :: "string \<Rightarrow> string \<Rightarrow> http_response \<Rightarrow> http_response" where
  "add_header name val r = r\<lparr>data := data r @ as_bytes name @ as_bytes '': '' @ as_bytes val @ CRLF\<rparr>"

definition finish :: "bytes option \<Rightarrow> http_response \<Rightarrow> http_response" where
  "finish b r =
     (let r1 = (case (case b of Some x \<Rightarrow> if x \<noteq> [] then Some x else None | None \<Rightarrow> None) of
        Some x \<Rightarrow>
          r\<lparr>data := data r @ as_bytes ''Content-Length: '' @ as_bytes (show_nat (length x)) @ CRLF @ CRLF @ x\<rparr>
      | None \<Rightarrow> r\<lparr>data := data r @ CRLF\<rparr>)
      in r1\<lparr>resp_complete := True\<rparr>)"

text \<open>\<open>encoded\<close> is what \<open>plist::to_writer_binary\<close> writes for the dictionary, if it succeeds.\<close>

definition set_plist_body :: "bytes option \<Rightarrow> http_response \<Rightarrow> bytes option \<times> http_response" where
  "set_plist_body encoded r =
     (case encoded of
        None \<Rightarrow> (None, r)
      | Some buf \<Rightarrow> (Some buf, add_header ''Content-Type'' ''application/x-apple-binary-plist'' r))"

definition set_disconnect :: "bool \<Rightarrow> http_response \<Rightarrow> http_response" where
  "set_disconnect d r = r\<lparr>disconnect := d\<rparr>"

section \<open>Invariant\<close>

text \<open>
  While the headers are being read the buffer holds at most 64 KiB of them; while the body is
  being read it holds less than the announced length, which is within the limits; a failed
  request never becomes complete.
\<close>

definition http_inv :: "http_request \<Rightarrow> bool" where
  [inv_defs]: "http_inv s \<longleftrightarrow>
     (\<not> headers_complete s \<longrightarrow> length (buffer s) \<le> MAX_HEADER_BYTES \<and> \<not> complete s
        \<and> (case request_line_start s of None \<Rightarrow> True | Some i \<Rightarrow> i < length (buffer s)))
     \<and> (complete s \<longrightarrow> req_error s = None)
     \<and> (headers_complete s \<and> \<not> complete s \<longrightarrow>
          needed s \<le> MAX_BODY_BYTES
          \<and> (if req_error s = None then length (buffer s) < needed s else buffer s = []))"

lemma http_inv_new: "http_inv request_new"
  by (simp add: http_inv_def request_new_def)

section \<open>Header parsing keeps the frame\<close>

lemma insert_headers_frame: "insert_headers s hs = (r, s') \<Longrightarrow> \<exists>h. s' = s\<lparr>headers := h\<rparr>"
proof (induction s hs rule: insert_headers.induct)
  case (1 s)
  then have "s' = s\<lparr>headers := headers s\<rparr>" by simp
  then show ?case by blast
next
  case (2 s n v hs)
  let ?name = "map to_ascii_lower n"
  show ?case
  proof (cases "?name = ''transfer-encoding''
      \<or> (?name = ''content-length'' \<or> ?name = ''content-type'') \<and> headers s ?name \<noteq> None")
    case True
    with "2.prems" have "s' = s\<lparr>headers := headers s\<rparr>" by (auto simp: Let_def split: if_splits)
    then show ?thesis by blast
  next
    case False
    with "2.prems" have "insert_headers (s\<lparr>headers := (headers s)(?name \<mapsto> from_utf8_lossy v)\<rparr>) hs = (r, s')"
      by (auto simp: Let_def)
    from "2.IH" [OF refl _ _ this] False show ?thesis by fastforce
  qed
qed

lemma length_normalize_line [simp]: "length (normalize_line l) = length l"
  by (auto simp: normalize_line_def Let_def ends_with_def as_bytes_def)

lemma normalize_frame:
  assumes "\<And>i. request_line_start s = Some i \<Longrightarrow> i < length (buffer s)"
  shows "\<exists>b. normalize_request_version s = s\<lparr>buffer := b\<rparr> \<and> length b = length (buffer s)"
proof (cases "request_line_start s")
  case None
  then have "normalize_request_version s = s\<lparr>buffer := buffer s\<rparr>"
    by (simp add: normalize_request_version_def)
  then show ?thesis by blast
next
  case (Some i)
  let ?l = "takeWhile (\<lambda>b. b \<noteq> LF) (drop i (buffer s))"
  have "length ?l \<le> length (drop i (buffer s))" by (rule length_takeWhile_le)
  then have "i + length (normalize_line ?l) \<le> length (buffer s)" using assms [OF Some] by simp
  then have "length (copy_at i (normalize_line ?l) (buffer s)) = length (buffer s)" by simp
  with Some show ?thesis by (auto simp: normalize_request_version_def Let_def)
qed

text \<open>The states in which header bytes are accepted.\<close>

definition reading_headers :: "http_request \<Rightarrow> bool" where
  "reading_headers s \<longleftrightarrow> \<not> headers_complete s \<and> \<not> complete s \<and> req_error s = None
     \<and> length (buffer s) \<le> MAX_HEADER_BYTES
     \<and> (case request_line_start s of None \<Rightarrow> True | Some i \<Rightarrow> i < length (buffer s))"

definition headers_read :: "http_request \<Rightarrow> bool" where
  "headers_read s \<longleftrightarrow> headers_complete s \<and> \<not> complete s \<and> req_error s = None \<and> buffer s = []
     \<and> needed s \<le> MAX_BODY_BYTES"

lemma parse_content_length_bound:
  "parse_content_length s = Inr l \<Longrightarrow> (case l of None \<Rightarrow> 0 | Some n \<Rightarrow> n) \<le> MAX_BODY_BYTES"
  by (auto simp: parse_content_length_def Let_def split: sum.splits if_splits)

lemma try_parse_headers_cases:
  assumes "reading_headers s" "try_parse_headers hp s = (r, s')"
  shows "case r of Inl _ \<Rightarrow> reading_headers s' | Inr False \<Rightarrow> reading_headers s' | Inr True \<Rightarrow> headers_read s'"
proof -
  from assms(1) obtain b where n: "normalize_request_version s = s\<lparr>buffer := b\<rparr>" "length b = length (buffer s)"
    using normalize_frame [of s] by (cases "request_line_start s") (auto simp: reading_headers_def)
  let ?s = "s\<lparr>buffer := b\<rparr>"
  have rd: "reading_headers (?s\<lparr>verb := m, url := u, headers := h\<rparr>)" for m u h
    using assms(1) n(2) by (simp add: reading_headers_def split: option.splits)
  have rd0: "reading_headers ?s" using assms(1) n(2) by (simp add: reading_headers_def split: option.splits)
  show ?thesis
  proof (cases "hp b")
    case (HpComplete off m u hs)
    obtain r1 s1 where i: "insert_headers (?s\<lparr>verb := m, url := u\<rparr>) hs = (r1, s1)" by fastforce
    from insert_headers_frame [OF i] obtain h where s1: "s1 = ?s\<lparr>verb := m, url := u, headers := h\<rparr>" by auto
    show ?thesis
    proof (cases r1)
      case (Inl e)
      with assms(2) n HpComplete i s1 rd show ?thesis by (auto simp: try_parse_headers_def Let_def)
    next
      case (Inr u')
      show ?thesis
      proof (cases "parse_content_length s1")
        case (Inl e)
        with assms(2) n HpComplete i s1 rd Inr show ?thesis by (auto simp: try_parse_headers_def Let_def)
      next
        case (Inr l)
        from parse_content_length_bound [OF this]
        have "headers_read (s1\<lparr>content_length := l, headers_complete := True, buffer := []\<rparr>)"
          using rd [where m = m and u = u and h = h] s1 by (simp add: headers_read_def reading_headers_def needed_def)
        with assms(2) n HpComplete i \<open>r1 = Inr u'\<close> Inr show ?thesis
          by (auto simp: try_parse_headers_def Let_def)
      qed
    qed
  next
    case HpPartial
    with assms(2) n rd0 show ?thesis by (auto simp: try_parse_headers_def Let_def)
  next
    case (HpError m)
    with assms(2) n rd0 show ?thesis by (auto simp: try_parse_headers_def Let_def)
  qed
qed

lemma reading_headers_push:
  "reading_headers s \<Longrightarrow> length (buffer s) \<noteq> MAX_HEADER_BYTES \<Longrightarrow> reading_headers (push_byte s b)"
  by (auto simp: reading_headers_def push_byte_def Let_def split: option.splits)

text \<open>The body limit a completed header block was accepted with.\<close>

definition policy_ok :: "(http_request \<Rightarrow> protocol_error + nat) \<Rightarrow> http_request \<Rightarrow> bool" where
  "policy_ok oh s \<longleftrightarrow> (\<exists>t l. oh t = Inr l \<and> needed s \<le> min l MAX_BODY_BYTES
     \<and> verb t = verb s \<and> url t = url s \<and> headers t = headers s)"

lemma try_parse_headers_body:
  assumes "reading_headers s" "try_parse_headers hp s = (r, s')"
  shows "body s' = body s"
proof -
  from assms(1) obtain b where n: "normalize_request_version s = s\<lparr>buffer := b\<rparr>"
    using normalize_frame [of s] by (cases "request_line_start s") (auto simp: reading_headers_def)
  show ?thesis
  proof (cases "hp b")
    case (HpComplete off m u hs)
    obtain r1 s1 where i: "insert_headers (s\<lparr>buffer := b, verb := m, url := u\<rparr>) hs = (r1, s1)" by fastforce
    from insert_headers_frame [OF i] have "body s1 = body s" by auto
    with assms(2) n HpComplete i show ?thesis
      by (auto simp: try_parse_headers_def split: sum.splits)
  qed (use assms(2) in \<open>auto simp: try_parse_headers_def n\<close>)
qed

text \<open>One byte of the header loop, whatever follows it.\<close>

lemma header_loop_step:
  assumes "reading_headers s"
  obtains (Full) e where "\<And>xs. header_loop hp oh s (b # xs) = (Inl e, s, b # xs)"
  | (More) s2 where "reading_headers s2" "body s2 = body s"
      "\<And>xs. header_loop hp oh s (b # xs) = header_loop hp oh s2 xs"
  | (Fail) e s3 where "reading_headers s3 \<or> headers_read s3" "body s3 = body s"
      "\<And>xs. header_loop hp oh s (b # xs) = (Inl e, s3, xs)"
  | (Done) s3 where "headers_read s3" "body s3 = body s" "policy_ok oh s3"
      "\<And>xs. header_loop hp oh s (b # xs) = (Inr (), s3, xs)"
proof (cases "length (buffer s) = MAX_HEADER_BYTES")
  case True
  then show ?thesis by (intro Full) simp
next
  case False
  let ?s = "push_byte s b"
  have b: "body ?s = body s" by (simp add: push_byte_def Let_def)
  have p: "reading_headers ?s" by (rule reading_headers_push [OF assms False])
  show ?thesis
  proof (cases "at_blank_line ?s")
    case False
    with p b \<open>length (buffer s) \<noteq> _\<close> show ?thesis by (intro More [of ?s]) simp_all
  next
    case True
    obtain r s3 where t: "try_parse_headers hp ?s = (r, s3)" by fastforce
    note c = try_parse_headers_cases [OF p t] and bt = try_parse_headers_body [OF p t, unfolded b]
    consider e where "r = Inl e" | "r = Inr False" | e where "r = Inr True" "oh s3 = Inl e"
      | l where "r = Inr True" "oh s3 = Inr l" by (cases r; cases "oh s3") auto
    then show ?thesis
    proof cases
      case 1
      with c bt t True False show ?thesis by (intro Fail [of s3]) simp_all
    next
      case 2
      with c bt t True False show ?thesis by (intro More [of s3]) simp_all
    next
      case 3
      with c bt t True False show ?thesis by (intro Fail [of s3]) simp_all
    next
      case 4
      show ?thesis
      proof (cases "needed s3 > min l MAX_BODY_BYTES")
        case True
        with c bt t 4 \<open>at_blank_line _\<close> False show ?thesis by (intro Fail [of s3]) simp_all
      next
        case False
        with 4 have "policy_ok oh s3" by (auto simp: policy_ok_def not_less)
        with c bt t 4 \<open>at_blank_line _\<close> \<open>length (buffer s) \<noteq> _\<close> False show ?thesis
          by (intro Done [of s3]) simp_all
      qed
    qed
  qed
qed

lemma header_loop_cases:
  assumes "reading_headers s" "header_loop hp oh s xs = (r, s', rest)"
  shows "body s' = body s \<and> (case r of
      Inl e \<Rightarrow> reading_headers s' \<or> headers_read s'
    | Inr _ \<Rightarrow> (reading_headers s' \<and> rest = []) \<or> headers_read s' \<and> policy_ok oh s')"
  using assms
proof (induction xs arbitrary: s)
  case (Cons b xs)
  from Cons.prems(1) show ?case
    by (cases rule: header_loop_step [where hp = hp and oh = oh and b = b]) (use Cons in auto)
qed auto

text \<open>Reading more data after a piece.\<close>

lemma header_loop_append:
  assumes "reading_headers s" "header_loop hp oh s xs = (r, s', rest)"
  shows "header_loop hp oh s (xs @ ys) =
     (if (\<exists>e. r = Inl e) \<or> headers_complete s' then (r, s', rest @ ys) else header_loop hp oh s' ys)"
  using assms
proof (induction xs arbitrary: s)
  case (Cons b xs)
  from Cons.prems(1) show ?case
    by (cases rule: header_loop_step [where hp = hp and oh = oh and b = b])
       (use Cons in \<open>auto simp: headers_read_def\<close>)
qed (auto simp: reading_headers_def)

end
