(* ===== verification/Http_Feed.thy ===== *)
theory Http_Feed
  imports Http
begin

text \<open>
  Feeding a request in pieces: the parser is a segment action, so how TCP cuts a stream into
  reads has no effect on the requests; its memory stays bounded; a request, its body and what
  follows it are separated exactly.
\<close>

section \<open>Feeding is a segment action\<close>

definition feed ::
  "(bytes \<Rightarrow> hp_status) \<Rightarrow> (http_request \<Rightarrow> protocol_error + nat) \<Rightarrow> http_request \<Rightarrow> bytes \<Rightarrow> http_request" where
  "feed hp oh s xs = snd (add_data_with_body_limit hp oh s xs)"

text \<open>The states in which body bytes are accepted.\<close>

definition reading_body :: "http_request \<Rightarrow> bool" where
  "reading_body s \<longleftrightarrow> headers_complete s \<and> \<not> complete s \<and> req_error s = None
     \<and> length (buffer s) < needed s \<and> needed s \<le> MAX_BODY_BYTES"

definition finished :: "http_request \<Rightarrow> bool" where
  "finished s \<longleftrightarrow> headers_complete s \<and> complete s \<and> req_error s = None"

definition failed :: "http_request \<Rightarrow> bool" where
  "failed s \<longleftrightarrow> http_inv s \<and> req_error s \<noteq> None"

lemma http_inv_cases:
  "http_inv s \<longleftrightarrow> reading_headers s \<or> reading_body s \<or> finished s \<or> failed s"
  by (cases "headers_complete s"; cases "complete s"; cases "req_error s")
     (auto simp: http_inv_def reading_headers_def reading_body_def finished_def failed_def)

lemma buffer_body_cases:
  assumes "headers_read s \<or> reading_body s"
  shows "reading_body (buffer_body_and_leftover s xs) \<or> finished (buffer_body_and_leftover s xs)"
  using assms
  by (auto simp: buffer_body_and_leftover_def Let_def headers_read_def reading_body_def finished_def
      needed_def min_def)

lemma buffer_body_append:
  assumes "headers_read s \<or> reading_body s"
  shows "buffer_body_and_leftover s (xs @ ys) =
    (let t = buffer_body_and_leftover s xs in
     if complete t then t\<lparr>buffer := buffer t @ ys\<rparr> else buffer_body_and_leftover t ys)"
proof -
  let ?m = "needed s - length (buffer s)"
  have len: "length (buffer s) \<le> needed s" "\<not> complete s"
    using assms by (auto simp: headers_read_def reading_body_def)
  have nd: "needed (s\<lparr>buffer := b\<rparr>) = needed s" for b by (simp add: needed_def)
  show ?thesis
  proof (cases "length xs < ?m")
    case True
    then have "buffer_body_and_leftover s xs = s\<lparr>buffer := buffer s @ xs\<rparr>"
      by (simp add: buffer_body_and_leftover_def Let_def)
    moreover have "min (length (xs @ ys)) ?m = length xs + min (length ys) (needed s - length (buffer s @ xs))"
      using True by auto
    ultimately show ?thesis
      using True len by (auto simp: buffer_body_and_leftover_def Let_def nd)
  next
    case False
    then have "min (length xs) ?m = ?m" "min (length (xs @ ys)) ?m = ?m" by auto
    with False len show ?thesis by (simp add: buffer_body_and_leftover_def Let_def)
  qed
qed

lemma feed_failed: "req_error s \<noteq> None \<Longrightarrow> feed hp oh s xs = s"
  by (auto simp: feed_def add_data_with_body_limit_def)

lemma feed_finished: "finished s \<Longrightarrow> feed hp oh s xs = s\<lparr>buffer := buffer s @ xs\<rparr>"
  by (simp add: feed_def add_data_with_body_limit_def ingest_def finished_def)

lemma feed_reading_body: "reading_body s \<Longrightarrow> feed hp oh s xs = buffer_body_and_leftover s xs"
  by (simp add: feed_def add_data_with_body_limit_def ingest_def reading_body_def)

lemma feed_reading_headers:
  assumes "reading_headers s" "header_loop hp oh s xs = (r, s', rest)"
  shows "feed hp oh s xs =
    (case r of Inl e \<Rightarrow> s'\<lparr>req_error := Some (error_message e)\<rparr>
     | Inr _ \<Rightarrow> if headers_complete s' then buffer_body_and_leftover s' rest else s')"
  using assms by (cases r) (auto simp: feed_def add_data_with_body_limit_def ingest_def reading_headers_def)

lemma failed_upd: "reading_headers s \<or> headers_read s \<Longrightarrow> failed (s\<lparr>req_error := Some m\<rparr>)"
  by (auto simp: failed_def http_inv_def reading_headers_def headers_read_def needed_def split: option.splits)

lemma feed_inv: "http_inv s \<Longrightarrow> http_inv (feed hp oh s xs)"
proof -
  assume "http_inv s"
  then consider "reading_headers s" | "reading_body s" | "finished s" | "failed s"
    using http_inv_cases by blast
  then show ?thesis
  proof cases
    case 1
    obtain r s' rest where l: "header_loop hp oh s xs = (r, s', rest)" by (metis prod_cases3)
    from header_loop_cases [OF 1 l] feed_reading_headers [OF 1 l] show ?thesis
      using buffer_body_cases [of s' rest] failed_upd [of s'] http_inv_cases
      by (cases r) (auto simp: headers_read_def reading_headers_def)
  next
    case 2
    then show ?thesis using buffer_body_cases [of s xs] http_inv_cases by (auto simp: feed_reading_body)
  next
    case 3
    then show ?thesis by (simp add: feed_finished http_inv_cases) (simp add: finished_def)
  next
    case 4
    then show ?thesis by (simp add: feed_failed failed_def)
  qed
qed

lemma feed_Nil: "http_inv s \<Longrightarrow> feed hp oh s [] = s"
proof -
  assume "http_inv s"
  then consider "reading_headers s" | "reading_body s" | "finished s" | "failed s"
    using http_inv_cases by blast
  then show ?thesis
  proof cases
    case 1
    then show ?thesis using feed_reading_headers [OF 1, of hp oh "[]"] by (simp add: reading_headers_def)
  next
    case 2
    then show ?thesis by (simp add: feed_reading_body buffer_body_and_leftover_def) (simp add: reading_body_def)
  qed (simp_all add: feed_finished feed_failed failed_def)
qed

lemma feed_append: "http_inv s \<Longrightarrow> feed hp oh s (xs @ ys) = feed hp oh (feed hp oh s xs) ys"
proof -
  assume "http_inv s"
  then consider "reading_headers s" | "reading_body s" | "finished s" | "failed s"
    using http_inv_cases by blast
  then show ?thesis
  proof cases
    case 1
    obtain r s' rest where l: "header_loop hp oh s xs = (r, s', rest)" by (metis prod_cases3)
    note app = header_loop_append [OF 1 l, of ys] and c = header_loop_cases [OF 1 l]
    show ?thesis
    proof (cases "headers_complete s' \<or> (\<exists>e. r = Inl e)")
      case False
      then have "reading_headers s'" "rest = []" using c by (cases r; auto simp: headers_read_def)+
      moreover obtain r2 s2 rest2 where "header_loop hp oh s' ys = (r2, s2, rest2)" by (metis prod_cases3)
      ultimately show ?thesis
        using False app feed_reading_headers [OF 1 l] feed_reading_headers [OF 1, of hp oh "xs @ ys"]
          feed_reading_headers [of s' hp oh ys] by (cases r) auto
    next
      case True
      show ?thesis
      proof (cases r)
        case (Inl e)
        with app feed_reading_headers [OF 1 l] feed_reading_headers [OF 1, of hp oh "xs @ ys"]
        show ?thesis by (simp add: feed_failed)
      next
        case (Inr u)
        with True have hc: "headers_complete s'" by simp
        with c Inr have hr: "headers_read s'" by (auto simp: reading_headers_def)
        let ?t = "buffer_body_and_leftover s' rest"
        have "feed hp oh s (xs @ ys) = buffer_body_and_leftover s' (rest @ ys)"
          using hc Inr app feed_reading_headers [OF 1, of hp oh "xs @ ys"] by simp
        moreover have "feed hp oh s xs = ?t" using hc Inr feed_reading_headers [OF 1 l] by simp
        moreover have "reading_body ?t \<or> finished ?t" using buffer_body_cases hr by blast
        ultimately show ?thesis
          using hr buffer_body_append [of s' rest ys]
          by (auto simp: Let_def feed_reading_body feed_finished) (auto simp: reading_body_def finished_def)
      qed
    qed
  next
    case 2
    let ?t = "buffer_body_and_leftover s xs"
    have "reading_body ?t \<or> finished ?t" using buffer_body_cases 2 by blast
    then show ?thesis
      using 2 buffer_body_append [of s xs ys]
      by (auto simp: Let_def feed_reading_body feed_finished) (auto simp: reading_body_def finished_def)
  next
    case 3
    then have "finished (s\<lparr>buffer := buffer s @ xs\<rparr>)" by (simp add: finished_def)
    with 3 show ?thesis by (simp add: feed_finished)
  next
    case 4
    then show ?thesis by (simp add: feed_failed failed_def)
  qed
qed

lemma buffer_body_error [simp]: "req_error (buffer_body_and_leftover s xs) = req_error s"
  by (simp add: buffer_body_and_leftover_def Let_def)

text \<open>A call fails exactly when it leaves the request in error.\<close>

lemma add_data_result:
  assumes "http_inv s" "req_error s = None"
  shows "isl (fst (add_data_with_body_limit hp oh s d)) \<longleftrightarrow> req_error (feed hp oh s d) \<noteq> None"
proof (cases "headers_complete s")
  case True
  then show ?thesis
    using assms(2) by (simp add: feed_def add_data_with_body_limit_def ingest_def)
next
  case False
  then have rd: "reading_headers s" using assms by (auto simp: http_inv_def reading_headers_def)
  obtain r s' rest where l: "header_loop hp oh s d = (r, s', rest)" by (metis prod_cases3)
  show ?thesis
  proof (cases r)
    case (Inl e)
    then show ?thesis using rd l by (simp add: feed_def add_data_with_body_limit_def ingest_def reading_headers_def)
  next
    case (Inr u)
    with header_loop_cases [OF rd l] have "req_error s' = None" by (auto simp: reading_headers_def headers_read_def)
    with Inr rd l show ?thesis by (simp add: feed_def add_data_with_body_limit_def ingest_def reading_headers_def)
  qed
qed

interpretation http: segment_action "feed hp oh" http_inv for hp oh
  by unfold_locales (simp_all add: feed_Nil feed_append feed_inv)

section \<open>Properties\<close>

text \<open>
  However the network cuts a byte stream into reads, the parser ends in the same state:
  same request, same error, same buffered bytes.
\<close>

theorem http_resegment:
  assumes "concat segs = concat segs'"
  shows "foldl (\<lambda>s d. snd (add_data_with_body_limit hp oh s d)) request_new segs =
         foldl (\<lambda>s d. snd (add_data_with_body_limit hp oh s d)) request_new segs'"
  using http.resegment [OF http_inv_new assms, of hp oh] by (simp add: feed_def [abs_def])

lemma http_resegment_witness:
  "foldl (\<lambda>s d. snd (add_data_with_body_limit (\<lambda>_. HpPartial) (\<lambda>_. Inr 9) s d)) request_new [[71, 69], [84]] =
   foldl (\<lambda>s d. snd (add_data_with_body_limit (\<lambda>_. HpPartial) (\<lambda>_. Inr 9) s d)) request_new [[71], [], [69, 84]]"
  by (rule http_resegment) simp

text \<open>What the parser retains and why: the body has the announced length, within the limit
  the connection's policy gave for these headers.\<close>

definition body_inv :: "(http_request \<Rightarrow> protocol_error + nat) \<Rightarrow> http_request \<Rightarrow> bool" where
  "body_inv oh s \<longleftrightarrow>
     (headers_complete s \<and> req_error s = None \<longrightarrow> policy_ok oh s)
     \<and> (case body s of None \<Rightarrow> complete s \<longrightarrow> needed s = 0 | Some b \<Rightarrow> complete s \<and> length b = needed s)"

lemma buffer_body_body_inv:
  assumes "headers_read s \<or> reading_body s" "body s = None" "policy_ok oh s"
  shows "body_inv oh (buffer_body_and_leftover s xs)"
  using assms
  by (auto simp: body_inv_def buffer_body_and_leftover_def Let_def policy_ok_def needed_def
      headers_read_def reading_body_def min_def)

lemma feed_body_inv: "http_inv s \<Longrightarrow> body_inv oh s \<Longrightarrow> body_inv oh (feed hp oh s xs)"
proof -
  assume "http_inv s" and bi: "body_inv oh s"
  then consider "reading_headers s" | "reading_body s" | "finished s" | "failed s"
    using http_inv_cases by blast
  then show ?thesis
  proof cases
    case 1
    obtain r s' rest where l: "header_loop hp oh s xs = (r, s', rest)" by (metis prod_cases3)
    have none: "body s = None" using 1 bi by (auto simp: body_inv_def reading_headers_def split: option.splits)
    from header_loop_cases [OF 1 l] feed_reading_headers [OF 1 l] none
    show ?thesis using buffer_body_body_inv [of s' oh rest]
      by (cases r) (auto simp: body_inv_def headers_read_def reading_headers_def)
  next
    case 2
    with bi have "body s = None" "policy_ok oh s"
      by (auto simp: body_inv_def reading_body_def split: option.splits)
    with 2 show ?thesis using buffer_body_body_inv [of s oh xs] by (simp add: feed_reading_body)
  next
    case 3
    with bi show ?thesis by (simp add: feed_finished) (simp add: body_inv_def policy_ok_def needed_def split: option.splits)
  next
    case 4
    with bi show ?thesis by (simp add: feed_failed failed_def)
  qed
qed

lemma feeds_inv:
  "http_inv s \<Longrightarrow> body_inv oh s \<Longrightarrow> http_inv (foldl (feed hp oh) s segs) \<and> body_inv oh (foldl (feed hp oh) s segs)"
  by (induction segs arbitrary: s) (simp_all add: feed_inv feed_body_inv)

text \<open>
  Whatever a peer sends, an unfinished request holds at most 64 KiB of headers or fewer
  body bytes than announced, a request is only completed when the connection's policy accepted
  its headers with a limit its body keeps, and the body has exactly the announced length.
\<close>

theorem http_memory_bounded:
  fixes segs hp oh
  defines "s \<equiv> foldl (\<lambda>s d. snd (add_data_with_body_limit hp oh s d)) request_new segs"
  shows "(\<not> complete s \<longrightarrow>
            length (buffer s) \<le> (if headers_complete s then needed s else MAX_HEADER_BYTES)
            \<and> (headers_complete s \<longrightarrow> needed s \<le> MAX_BODY_BYTES))
       \<and> (complete s \<longrightarrow> policy_ok oh s
            \<and> length (case body s of None \<Rightarrow> [] | Some b \<Rightarrow> b) = needed s)"
proof -
  have "body_inv oh request_new" by (simp add: body_inv_def request_new_def)
  then have i: "http_inv s" "body_inv oh s"
    using feeds_inv [OF http_inv_new, of oh hp segs] by (simp_all add: s_def feed_def [abs_def])
  then consider "reading_headers s" | "reading_body s" | "finished s" | "failed s"
    using http_inv_cases by blast
  then show ?thesis
  proof cases
    case 3
    with i(2) show ?thesis by (auto simp: finished_def body_inv_def split: option.splits)
  next
    case 4
    with i(1) show ?thesis by (auto simp: failed_def http_inv_def)
  qed (auto simp: reading_headers_def reading_body_def)
qed

lemma http_memory_bounded_witness:
  "\<not> complete (foldl (\<lambda>s d. snd (add_data_with_body_limit (\<lambda>_. HpPartial) (\<lambda>_. Inr 9) s d)) request_new [[71, 69]])
   \<and> length (buffer (foldl (\<lambda>s d. snd (add_data_with_body_limit (\<lambda>_. HpPartial) (\<lambda>_. Inr 9) s d)) request_new [[71, 69]]))
     \<le> MAX_HEADER_BYTES"
proof -
  let ?s = "foldl (\<lambda>s d. snd (add_data_with_body_limit (\<lambda>_. HpPartial) (\<lambda>_. Inr 9) s d)) request_new [[71, 69]]"
  have "\<not> complete ?s" "\<not> headers_complete ?s"
    by (simp_all add: add_data_with_body_limit_def ingest_def request_new_def push_byte_def at_blank_line_def
        ends_with_def CR_def LF_def MAX_HEADER_BYTES_def)
  then show ?thesis
    using http_memory_bounded [where segs = "[[71, 69]]" and hp = "\<lambda>_. HpPartial" and oh = "\<lambda>_. Inr 9"] by simp
qed

text \<open>
  A request the parser has rejected stays rejected: every later piece is refused with the
  same message, nothing more is stored and the request never becomes complete.
\<close>

theorem http_error_sticky:
  assumes "http_inv s" "add_data_with_body_limit hp oh s d = (Inl e, s')"
  shows "add_data_with_body_limit hp oh' s' d' = (Inl (InvalidRtsp (error_message e)), s') \<and> \<not> complete s'"
proof -
  have "req_error s' = Some (error_message e)"
    using assms(2)
    by (auto simp: add_data_with_body_limit_def error_message_def split: option.splits prod.splits sum.splits)
  moreover have "http_inv s'" using feed_inv [OF assms(1), of hp oh d] assms(2) by (simp add: feed_def)
  ultimately show ?thesis by (auto simp: add_data_with_body_limit_def http_inv_def)
qed

lemma http_error_sticky_witness:
  "fst (add_data (\<lambda>_. HpPartial)
     (snd (add_data (\<lambda>_. HpError ''bad'') request_new [65, 10, 10])) [10, 10]) = Inl (InvalidRtsp ''bad'')"
proof -
  let ?oh = "\<lambda>_::http_request. Inr MAX_BODY_BYTES :: protocol_error + nat"
  let ?p = "add_data_with_body_limit (\<lambda>_. HpError ''bad'') ?oh request_new [65, 10, 10]"
  have "fst ?p = Inl (InvalidRtsp ''bad'')"
    by (simp add: add_data_with_body_limit_def ingest_def request_new_def push_byte_def at_blank_line_def
        ends_with_def CR_def LF_def MAX_HEADER_BYTES_def try_parse_headers_def Let_def
        normalize_request_version_def normalize_line_def copy_at_def)
  then have p: "?p = (Inl (InvalidRtsp ''bad''), snd ?p)" by (metis prod.collapse)
  have "\<forall>d'. add_data_with_body_limit (\<lambda>_. HpError ''bad'') ?oh (snd ?p) d' = (Inl (InvalidRtsp ''bad''), snd ?p)"
    using http_error_sticky [OF http_inv_new p] by (simp add: error_message_def)
  then have "req_error (snd ?p) = Some ''bad''"
    using http_error_sticky [OF http_inv_new p, of ?oh "[]"] p
    by (auto simp: add_data_with_body_limit_def error_message_def split: option.splits prod.splits sum.splits)
  then show ?thesis by (simp add: add_data_def add_data_with_body_limit_def [of _ _ "snd _"])
qed

section \<open>One request out of a stream\<close>

definition blank_end :: "bytes \<Rightarrow> bool" where
  "blank_end p \<longleftrightarrow> ends_with p [LF, CR, LF] \<or> ends_with p [LF, LF]"

text \<open>A header block: it starts with the request line and its first empty line ends it.\<close>

definition head_ok :: "bytes \<Rightarrow> bool" where
  "head_ok h \<longleftrightarrow> h \<noteq> [] \<and> hd h \<noteq> CR \<and> hd h \<noteq> LF \<and> length h \<le> MAX_HEADER_BYTES
     \<and> blank_end h \<and> list_all (\<lambda>k. \<not> blank_end (take k h)) [0..<length h]"

text \<open>The block as \<open>httparse\<close> sees it: an RTSP version is turned into an HTTP one.\<close>

definition normalize_head :: "bytes \<Rightarrow> bytes" where
  "normalize_head h = copy_at 0 (normalize_line (takeWhile (\<lambda>b. b \<noteq> LF) h)) h"

definition request_headers :: "(string \<rightharpoonup> string) \<Rightarrow> (string \<times> bytes) list \<Rightarrow> string \<rightharpoonup> string" where
  "request_headers = foldl (\<lambda>m (n, v). m(map to_ascii_lower n \<mapsto> from_utf8_lossy v))"

definition body_field :: "string \<Rightarrow> bool" where
  "body_field n \<longleftrightarrow> n = ''content-length'' \<or> n = ''content-type''"

definition lname :: "string \<times> bytes \<Rightarrow> string" where
  "lname h = map to_ascii_lower (fst h)"

definition fields_ok :: "(string \<times> bytes) list \<Rightarrow> bool" where
  "fields_ok hs \<longleftrightarrow>
     ''transfer-encoding'' \<notin> lname ` set hs \<and> distinct (filter body_field (map lname hs))"

lemma insert_headers_ok:
  "fields_ok hs \<Longrightarrow> (\<And>n. n \<in> lname ` set hs \<Longrightarrow> body_field n \<Longrightarrow> headers s n = None)
   \<Longrightarrow> insert_headers s hs = (Inr (), s\<lparr>headers := request_headers (headers s) hs\<rparr>)"
proof (induction hs arbitrary: s)
  case Nil
  then show ?case by (simp add: request_headers_def)
next
  case (Cons h hs)
  obtain n v where h: "h = (n, v)" by (cases h)
  let ?s = "s\<lparr>headers := (headers s)(lname h \<mapsto> from_utf8_lossy v)\<rparr>"
  have fresh: "body_field (lname h) \<Longrightarrow> lname h \<notin> lname ` set hs" using Cons.prems(1) by (simp add: fields_ok_def)
  have "insert_headers ?s hs = (Inr (), ?s\<lparr>headers := request_headers (headers ?s) hs\<rparr>)"
  proof (rule Cons.IH)
    show "fields_ok hs" using Cons.prems(1) by (simp add: fields_ok_def split: if_splits)
    fix k assume k: "k \<in> lname ` set hs" "body_field k"
    then have "k \<noteq> lname h" using fresh by metis
    with k Cons.prems(2) show "headers ?s k = None" by simp
  qed
  moreover have "lname h \<noteq> ''transfer-encoding''" "body_field (lname h) \<Longrightarrow> headers s (lname h) = None"
    using Cons.prems by (auto simp: fields_ok_def)
  ultimately show ?case using h by (auto simp: Let_def request_headers_def body_field_def lname_def)
qed

definition hstate :: "bytes \<Rightarrow> http_request" where
  "hstate p = request_new\<lparr>buffer := p, request_line_start := (if p = [] then None else Some 0)\<rparr>"

lemma hstate_push: "p \<noteq> [] \<or> (b \<noteq> CR \<and> b \<noteq> LF) \<Longrightarrow> push_byte (hstate p) b = hstate (p @ [b])"
  by (auto simp: hstate_def push_byte_def request_new_def)

lemma hstate_blank [simp]: "p \<noteq> [] \<Longrightarrow> at_blank_line (hstate p) = blank_end p"
  by (simp add: hstate_def at_blank_line_def blank_end_def)

lemma header_loop_head:
  assumes "head_ok h" "p @ x # xs = h"
  shows "header_loop hp oh (hstate p) ((x # xs) @ rest) = header_loop hp oh (hstate (butlast h)) (last h # rest)"
  using assms(2)
proof (induction xs arbitrary: p x)
  case Nil
  then show ?case by auto
next
  case (Cons y ys)
  let ?p = "p @ [x]"
  have len: "length p < MAX_HEADER_BYTES" using assms(1) Cons.prems by (auto simp: head_ok_def)
  have "p = [] \<Longrightarrow> x = hd h" using Cons.prems by auto
  then have push: "push_byte (hstate p) x = hstate ?p"
    using assms(1) by (intro hstate_push) (auto simp: head_ok_def)
  have "take (length ?p) h = ?p" "length ?p < length h" using Cons.prems by auto
  then have "\<not> blank_end ?p" using assms(1) unfolding head_ok_def list_all_iff by (metis atLeastLessThan_iff set_upt zero_le)
  moreover have "buffer (hstate p) = p" by (simp add: hstate_def)
  ultimately have "header_loop hp oh (hstate p) ((x # y # ys) @ rest) = header_loop hp oh (hstate ?p) ((y # ys) @ rest)"
    using len push by simp
  with Cons show ?case by simp
qed

lemma normalize_hstate: "h \<noteq> [] \<Longrightarrow> normalize_request_version (hstate h) = (hstate h)\<lparr>buffer := normalize_head h\<rparr>"
  by (simp add: normalize_request_version_def hstate_def normalize_head_def Let_def)

lemma feed_request_exact:
  fixes nxt
  assumes head: "head_ok h" "hp (normalize_head h) = HpComplete (length h) m u hs" "fields_ok hs"
    and len: "request_headers Map.empty hs ''content-length''
                = (if b = [] then None else Some (show_nat (length b)))"
    and limit: "length b \<le> min l MAX_BODY_BYTES" "\<And>t. oh t = Inr l"
  defines "s \<equiv> feed hp oh request_new (h @ b @ nxt)"
  shows "finished s \<and> verb s = m \<and> url s = u \<and> headers s = request_headers Map.empty hs
    \<and> body s = (if b = [] then None else Some b) \<and> buffer s = nxt"
proof -
  have hne: "h \<noteq> []" using head by (simp add: head_ok_def)
  define cl where "cl = (if b = [] then None else Some (length b))"
  define t where "t = (hstate h)\<lparr>buffer := [], verb := m, url := u, headers := request_headers Map.empty hs,
    content_length := cl, headers_complete := True\<rparr>"
  have [simp]: "headers (hstate h) = Map.empty" by (simp add: hstate_def request_new_def)
  have b64: "length b < 2 ^ 64" using limit(1) by (simp add: MAX_BODY_BYTES_def)
  have pcl: "parse_content_length r = Inr cl" if "headers r = request_headers Map.empty hs" for r
    using that len limit(1) show_nat_digits [of "length b"] parse_nat_show [OF b64]
    by (auto simp: parse_content_length_def cl_def MAX_BODY_BYTES_def)
  have parse: "try_parse_headers hp (hstate h) = (Inr True, t)"
    using head insert_headers_ok [OF head(3), of "(hstate h)\<lparr>buffer := normalize_head h, verb := m, url := u\<rparr>"] pcl
    by (simp add: try_parse_headers_def normalize_hstate [OF hne] t_def)
  have need: "needed t = length b" by (simp add: t_def cl_def needed_def)
  have "length (butlast h) \<noteq> MAX_HEADER_BYTES"
    using hne head(1) by (cases h rule: rev_cases) (auto simp: head_ok_def)
  moreover have "push_byte (hstate (butlast h)) (last h) = hstate h"
  proof -
    have "butlast h = [] \<Longrightarrow> last h = hd h" using hne by (cases h) auto
    then show ?thesis using head(1) hne hstate_push [of "butlast h" "last h"] by (auto simp: head_ok_def)
  qed
  ultimately have "header_loop hp oh (hstate (butlast h)) (last h # b @ nxt) = (Inr (), t, b @ nxt)"
    using head(1) hne parse limit need
    by (simp add: head_ok_def) (simp add: hstate_def not_less)
  moreover obtain x xs where h: "h = x # xs" using hne by (cases h) auto
  ultimately have loop: "header_loop hp oh request_new (h @ b @ nxt) = (Inr (), t, b @ nxt)"
    using header_loop_head [OF head(1), of "[]" x xs hp oh "b @ nxt"] by (simp add: hstate_def h request_new_def)
  have "s = buffer_body_and_leftover t (b @ nxt)"
    unfolding s_def using feed_reading_headers [OF _ loop] by (simp add: reading_headers_def t_def) (simp add: request_new_def)
  also have "\<dots> = t\<lparr>body := (if b = [] then None else Some b), complete := True, buffer := nxt\<rparr>"
    by (simp add: buffer_body_and_leftover_def need Let_def) (simp add: t_def hstate_def request_new_def)
  finally show ?thesis by (simp add: t_def hstate_def request_new_def finished_def)
qed

text \<open>
  C11: From a stream that carries a header block, a body of the announced length and further
  bytes, cut in any way, the parser extracts exactly this request: method, path, headers by
  lower-case name, the body, and as leftover precisely the bytes that follow.
\<close>

theorem http_request_exact:
  assumes head: "head_ok h" "hp (normalize_head h) = HpComplete (length h) m u hs" "fields_ok hs"
    and len: "request_headers Map.empty hs ''content-length''
                = (if b = [] then None else Some (show_nat (length b)))"
    and limit: "length b \<le> min l MAX_BODY_BYTES" "\<And>t. oh t = Inr l"
    and stream: "concat segs = h @ b @ nxt"
  defines "s \<equiv> foldl (\<lambda>s d. snd (add_data_with_body_limit hp oh s d)) request_new segs"
  shows "complete s \<and> req_error s = None \<and> verb s = m \<and> url s = u \<and> headers s = request_headers Map.empty hs
    \<and> body s = (if b = [] then None else Some b) \<and> fst (take_leftover s) = nxt"
proof -
  have "s = feed hp oh request_new (h @ b @ nxt)"
    using http.foldl_concat [OF http_inv_new, of hp oh segs] stream by (simp add: s_def feed_def [abs_def])
  with feed_request_exact [of h hp m u hs b l oh nxt] head len limit show ?thesis
    by (simp add: finished_def take_leftover_def)
qed

definition sample_tail :: bytes where
  "sample_tail = CRLF @ as_bytes ''Content-Length: 2'' @ CRLF @ CRLF"

definition sample_hp :: "bytes \<Rightarrow> hp_status" where
  "sample_hp x =
     (if x = as_bytes ''A / HTTP/1.0'' @ sample_tail
      then HpComplete (length x) (Some ''A'') (Some ''/'') [(''Content-Length'', as_bytes ''2'')]
      else HpPartial)"

lemma http_request_exact_witness:
  "let s = foldl (\<lambda>s d. snd (add_data_with_body_limit sample_hp (\<lambda>_. Inr 9) s d)) request_new
       [as_bytes ''A / RT'', as_bytes ''SP/1.0'' @ sample_tail @ [1], [2, 3, 4]]
   in complete s \<and> verb s = Some ''A'' \<and> body s = Some [1, 2] \<and> fst (take_leftover s) = [3, 4]"
proof -
  let ?h = "as_bytes ''A / RTSP/1.0'' @ sample_tail"
  have "head_ok ?h"
    by (simp add: head_ok_def sample_tail_def CRLF_def CR_def LF_def as_bytes_def blank_end_def ends_with_def
        MAX_HEADER_BYTES_def upt_rec)
  moreover have "normalize_head ?h = as_bytes ''A / HTTP/1.0'' @ sample_tail"
    by (simp add: normalize_head_def normalize_line_def sample_tail_def CRLF_def CR_def LF_def as_bytes_def
        ends_with_def copy_at_def)
  moreover have "map to_ascii_lower ''Content-Length'' = ''content-length''"
    by (simp add: to_ascii_lower_def char_of_def bit_0)
  moreover have "from_utf8_lossy (as_bytes ''2'') = ''2''"
    by (subst from_utf8_lossy_valid) (simp add: as_bytes_def utf8_valid_ascii, simp)
  moreover have "show_nat (Suc (Suc 0)) = ''2''" by (simp add: show_nat.simps char_of_def bit_0)
  ultimately show ?thesis
    using http_request_exact [of ?h sample_hp "Some ''A''" "Some ''/''" "[(''Content-Length'', as_bytes ''2'')]"
        "[1, 2]" 9 "\<lambda>_. Inr 9" "[as_bytes ''A / RT'', as_bytes ''SP/1.0'' @ sample_tail @ [1], [2, 3, 4]]" "[3, 4]"]
    by (simp add: sample_hp_def fields_ok_def lname_def request_headers_def MAX_BODY_BYTES_def Let_def as_bytes_def)
qed

end
