(* ===== verification/Http_Server.thy ===== *)
theory Http_Server
  imports Http_Feed
begin

text \<open>
  One connection of the RTSP server, src/net/server.rs: the pending request with its body
  deadline, dispatch of completed requests, plain and encrypted input, and the connection loop;
  further the listener set-up. The trait \<open>ConnectionHandler\<close> is a record of operations over a
  handler state. The stream is what was written so far; \<open>write_ok\<close> tells which write succeeds,
  read events carry the instant at which the read returned. One round of the loop is taken to
  happen at one instant. A handler sees a request through its accessors only (the fields are
  private), which is its \<open>request_view\<close>.
\<close>

section \<open>Handlers and pending requests\<close>

record body_policy =
  max_bytes :: nat
  completion_timeout :: "nat option"

definition default_policy :: body_policy where
  "default_policy = \<lparr>max_bytes = MAX_BODY_BYTES, completion_timeout = None\<rparr>"

record request_view =
  rv_method :: "string option"
  rv_url :: "string option"
  rv_headers :: "string \<rightharpoonup> string"
  rv_data :: "bytes option"

definition view :: "http_request \<Rightarrow> request_view" where
  "view r = \<lparr>rv_method = verb r, rv_url = url r, rv_headers = headers r, rv_data = body r\<rparr>"

record 'h handler_ops =
  conn_request :: "'h \<Rightarrow> request_view \<Rightarrow> http_response \<times> 'h"
  request_body_policy :: "'h \<Rightarrow> request_view \<Rightarrow> protocol_error + body_policy"
  decrypt_incoming :: "'h \<Rightarrow> bytes \<Rightarrow> (bytes \<times> nat) option \<times> 'h"
  encrypt_outgoing :: "'h \<Rightarrow> bytes \<Rightarrow> bytes \<times> 'h"
  is_encrypted :: "'h \<Rightarrow> bool"
  after_response :: "'h \<Rightarrow> 'h"

record net_env =
  httparse :: "bytes \<Rightarrow> hp_status"
  write_ok :: "nat \<Rightarrow> bool"

record pending_request =
  request :: http_request
  body_deadline :: "nat option"

definition pending_default :: pending_request where
  "pending_default = \<lparr>request = request_new, body_deadline = None\<rparr>"

definition body_limit :: "'h handler_ops \<Rightarrow> 'h \<Rightarrow> http_request \<Rightarrow> protocol_error + nat" where
  "body_limit ops h r =
     (case request_body_policy ops h (view r) of Inl e \<Rightarrow> Inl e | Inr p \<Rightarrow> Inr (max_bytes p))"

text \<open>The policy is consulted when the headers have just been completed; at that moment the
  request has no body yet.\<close>

definition new_deadline :: "'h handler_ops \<Rightarrow> 'h \<Rightarrow> nat \<Rightarrow> pending_request \<Rightarrow> http_request \<Rightarrow> nat option" where
  "new_deadline ops h now p r =
     (if \<not> headers_complete (request p) \<and> headers_complete r then
        (case request_body_policy ops h ((view r)\<lparr>rv_data := None\<rparr>) of
           Inl e \<Rightarrow> body_deadline p
         | Inr pol \<Rightarrow> map_option (\<lambda>t. now + t) (completion_timeout pol))
      else body_deadline p)"

definition pending_add_data ::
  "net_env \<Rightarrow> 'h handler_ops \<Rightarrow> 'h \<Rightarrow> nat \<Rightarrow> pending_request \<Rightarrow> bytes
   \<Rightarrow> (protocol_error + unit) \<times> pending_request" where
  "pending_add_data env ops h now p d =
     (case add_data_with_body_limit (httparse env) (body_limit ops h) (request p) d of
        (Inl e, r) \<Rightarrow> (Inl e, \<lparr>request = r, body_deadline = new_deadline ops h now p r\<rparr>)
      | (Inr _, r) \<Rightarrow>
          (Inr (), \<lparr>request = r, body_deadline = (if complete r then None else new_deadline ops h now p r)\<rparr>))"

section \<open>Connection\<close>

record 'h conn =
  handler :: 'h
  pending :: pending_request
  raw_buf :: bytes
  out :: "bytes list"
  shut :: bool

definition conn_new :: "'h \<Rightarrow> 'h conn" where
  "conn_new h = \<lparr>handler = h, pending = pending_default, raw_buf = [], out = [], shut = False\<rparr>"

definition bad_request :: http_response where
  "bad_request = finish None (add_header ''Connection'' ''close'' (response_new ''RTSP/1.0'' 400 ''Bad Request''))"

definition wire_of :: "'h handler_ops \<Rightarrow> 'h \<Rightarrow> http_response \<Rightarrow> bytes \<times> 'h" where
  "wire_of ops h resp = (if is_encrypted ops h then encrypt_outgoing ops h (data resp) else (data resp, h))"

definition write_bad_request_and_close :: "net_env \<Rightarrow> 'h handler_ops \<Rightarrow> 'h conn \<Rightarrow> 'h conn" where
  "write_bad_request_and_close env ops c =
     (case wire_of ops (handler c) bad_request of
        (w, h) \<Rightarrow> c\<lparr>handler := h, out := (if write_ok env (length (out c)) then out c @ [w] else out c),
                     shut := True\<rparr>)"

lemma feed_new_consumes:
  assumes "complete (feed hp oh request_new d)"
  shows "length (buffer (feed hp oh request_new d)) < length d"
proof -
  obtain r s rest where l: "header_loop hp oh request_new d = (r, s, rest)" by (metis prod_cases3)
  have rd: "reading_headers request_new" by (simp add: reading_headers_def request_new_def)
  have short: "reading_headers t \<Longrightarrow> header_loop hp oh t xs = (Inr (), s, rest) \<Longrightarrow> headers_complete s \<Longrightarrow>
      length rest < length xs" for t xs
  proof (induction xs arbitrary: t)
    case (Cons b xs)
    from Cons.prems(1) show ?case
      by (cases rule: header_loop_step [where hp = hp and oh = oh and b = b]) (use Cons in \<open>auto intro: less_SucI\<close>)
  qed (auto simp: reading_headers_def)
  from header_loop_cases [OF rd l] feed_reading_headers [OF rd l] assms
  have s: "r = Inr ()" "headers_complete s" "headers_read s"
    "feed hp oh request_new d = buffer_body_and_leftover s rest"
    by (cases r; auto simp: reading_headers_def headers_read_def split: if_splits)+
  have "length (buffer (buffer_body_and_leftover s rest)) \<le> length rest" if "complete (buffer_body_and_leftover s rest)"
    using that s(3) by (auto simp: buffer_body_and_leftover_def Let_def headers_read_def)
  with short [OF rd] l s assms show ?thesis by fastforce
qed

lemma feed_pending: "request (snd (pending_add_data env ops h now p d)) =
   feed (httparse env) (body_limit ops h) (request p) d"
  by (auto simp: pending_add_data_def feed_def split: prod.split sum.split)

function send_completed_responses ::
  "net_env \<Rightarrow> 'h handler_ops \<Rightarrow> nat \<Rightarrow> 'h conn \<Rightarrow> bool \<times> 'h conn" where
  "send_completed_responses env ops now c =
     (if \<not> complete (request (pending c)) then (True, c)
      else
        let (resp, h1) = conn_request ops (handler c) (view (request (pending c)));
            (w, h2) = wire_of ops h1 resp
        in if w = [] \<or> \<not> write_ok env (length (out c)) then (False, c\<lparr>handler := h2\<rparr>)
           else
             let c3 = c\<lparr>handler := after_response ops h2, out := out c @ [w]\<rparr> in
             if disconnect resp then (False, c3\<lparr>shut := True\<rparr>)
             else
               let leftover = fst (take_leftover (request (pending c)));
                   added = pending_add_data env ops (handler c3) now pending_default leftover
               in if leftover = [] then (True, c3\<lparr>pending := pending_default\<rparr>)
                  else if isl (fst added)
                  then (False, write_bad_request_and_close env ops (c3\<lparr>pending := snd added\<rparr>))
                  else send_completed_responses env ops now (c3\<lparr>pending := snd added\<rparr>))"
  by pat_completeness auto
termination
proof (relation "measure (\<lambda>(env, ops, now, c). if complete (request (pending c))
      then Suc (length (buffer (request (pending c)))) else 0)", goal_cases)
  case (2 env ops now c x resp h1 y w h2 c3 leftover added)
  then have leftover: "leftover = buffer (request (pending c))" by (simp add: take_leftover_def)
  show ?case
    using 2 feed_new_consumes [of "httparse env" "body_limit ops (handler c3)" leftover]
      feed_pending [of env ops "handler c3" now pending_default leftover]
    by (auto simp: leftover pending_default_def)
qed simp

declare send_completed_responses.simps [simp del]

definition add_request_data ::
  "net_env \<Rightarrow> 'h handler_ops \<Rightarrow> nat \<Rightarrow> 'h conn \<Rightarrow> bytes \<Rightarrow> bool \<times> 'h conn" where
  "add_request_data env ops now c d =
     (case pending_add_data env ops (handler c) now (pending c) d of
        (Inr _, p) \<Rightarrow> (True, c\<lparr>pending := p\<rparr>)
      | (Inl e, p) \<Rightarrow> (False, write_bad_request_and_close env ops (c\<lparr>pending := p\<rparr>)))"

definition MAX_ENCRYPTED_BUFFER_LEN :: nat where "MAX_ENCRYPTED_BUFFER_LEN = 1024 * 1024"

definition ingest_encrypted_data ::
  "net_env \<Rightarrow> 'h handler_ops \<Rightarrow> nat \<Rightarrow> 'h conn \<Rightarrow> bytes \<Rightarrow> bool \<times> 'h conn" where
  "ingest_encrypted_data env ops now c d =
     (if length d > MAX_ENCRYPTED_BUFFER_LEN - length (raw_buf c) then (False, c)
      else
        let raw = raw_buf c @ d; (res, h) = decrypt_incoming ops (handler c) raw;
            c1 = c\<lparr>raw_buf := raw, handler := h\<rparr>
        in case res of
             None \<Rightarrow> (False, c1)
           | Some (plain, consumed) \<Rightarrow>
               if consumed > length raw then (False, c1)
               else if consumed = 0 \<and> plain \<noteq> [] then (False, c1)
               else
                 let c2 = c1\<lparr>raw_buf := drop consumed raw\<rparr> in
                 if plain = [] then (True, c2) else add_request_data env ops now c2 plain)"

text \<open>What a read returns, and when: data (none at end of file) or an error.\<close>

datatype read_event = ReadOk bytes nat | ReadErr nat

fun event_time :: "read_event \<Rightarrow> nat" where
  "event_time (ReadOk d t) = t"
| "event_time (ReadErr t) = t"

definition handle_read :: "net_env \<Rightarrow> 'h handler_ops \<Rightarrow> 'h conn \<Rightarrow> read_event \<Rightarrow> bool \<times> 'h conn" where
  "handle_read env ops c ev =
     (if (case body_deadline (pending c) of Some dl \<Rightarrow> \<not> event_time ev < dl | None \<Rightarrow> False)
      then (False, c)
      else case ev of
        ReadErr t \<Rightarrow> (False, c)
      | ReadOk d t \<Rightarrow>
          if d = [] then (False, c)
          else if is_encrypted ops (handler c) then ingest_encrypted_data env ops t c d
          else add_request_data env ops t c d)"

text \<open>The loop of \<open>process_connection\<close> over the reads that return; with no further event the
  connection waits in \<open>read\<close>. The first component tells whether the loop goes on.\<close>

fun process_connection ::
  "net_env \<Rightarrow> 'h handler_ops \<Rightarrow> nat \<Rightarrow> 'h conn \<Rightarrow> read_event list \<Rightarrow> bool \<times> 'h conn" where
  "process_connection env ops now c [] = send_completed_responses env ops now c"
| "process_connection env ops now c (ev # evs) =
     (case send_completed_responses env ops now c of
        (False, c1) \<Rightarrow> (False, c1)
      | (True, c1) \<Rightarrow>
          (case handle_read env ops c1 ev of
             (False, c2) \<Rightarrow> (False, c2)
           | (True, c2) \<Rightarrow> process_connection env ops (event_time ev) c2 evs))"

section \<open>Listeners\<close>

record bind_config =
  bind_addrs :: "string list"
  port :: u16
  auto_port :: bool

definition DEFAULT_RTSP_PORT :: u16 where "DEFAULT_RTSP_PORT = 5000"

definition bind_config_default :: bind_config where
  "bind_config_default = \<lparr>bind_addrs = [], port = DEFAULT_RTSP_PORT, auto_port = True\<rparr>"

definition addrs :: "string list \<Rightarrow> bind_config \<Rightarrow> bind_config" where
  "addrs as b = b\<lparr>bind_addrs := as\<rparr>"

definition with_port :: "u16 \<Rightarrow> bind_config \<Rightarrow> bind_config" where
  "with_port p b = b\<lparr>port := p\<rparr>"

definition exact_port :: "bind_config \<Rightarrow> bind_config" where
  "exact_port b = b\<lparr>auto_port := False\<rparr>"

text \<open>\<open>bind\<close> is the operating system: the port a listener got, or an error message. Asking for
  port 0 lets the system choose. \<open>local_addr\<close> of a bound listener is taken to succeed.\<close>

type_synonym os_bind = "string \<Rightarrow> u16 \<Rightarrow> string + u16"

function bind_loop :: "os_bind \<Rightarrow> string \<Rightarrow> u16 \<Rightarrow> bool \<Rightarrow> u16 \<Rightarrow> network_error + u16" where
  "bind_loop bind addr start_port auto p =
     (case bind addr p of
        Inr got \<Rightarrow> Inr got
      | Inl e \<Rightarrow>
          if auto \<and> p < saturating_add start_port 100 then bind_loop bind addr start_port auto (p + 1)
          else Inl (Io e))"
  by pat_completeness auto
termination
proof (relation "measure (\<lambda>(bind, addr, start_port, auto, p). 2 ^ 16 - unat p)", goal_cases)
  case (2 bind addr start_port auto p e)
  then have "unat (p + 1) = Suc (unat p)" by (blast intro: unat_plus_one_less)
  moreover have "unat p < 2 ^ 16" using unsigned_less [of p] by simp
  ultimately show ?case by simp
qed simp

declare bind_loop.simps [simp del]

definition bind_listener :: "os_bind \<Rightarrow> string \<Rightarrow> u16 \<Rightarrow> bool \<Rightarrow> network_error + u16" where
  "bind_listener bind addr start_port auto = bind_loop bind addr start_port auto start_port"

record http_server =
  srv_port :: u16
  running :: bool
  bind_cfg :: bind_config
  listeners :: "(string \<times> u16) list"

definition http_server_new :: http_server where
  "http_server_new = \<lparr>srv_port = 0, running = False, bind_cfg = bind_config_default, listeners = []\<rparr>"

definition set_bind_config :: "bind_config \<Rightarrow> http_server \<Rightarrow> http_server" where
  "set_bind_config cfg s = s\<lparr>bind_cfg := cfg\<rparr>"

definition server_start :: "os_bind \<Rightarrow> u16 \<Rightarrow> http_server \<Rightarrow> (network_error + u16) \<times> http_server" where
  "server_start bind p s =
     (if running s then (Inr (srv_port s), s)
      else
        let bind_port = (if p > 0 then p else port (bind_cfg s));
            as = (if bind_addrs (bind_cfg s) = [] then [''0.0.0.0'', ''::''] else bind_addrs (bind_cfg s))
        in case bind_listener bind (hd as) bind_port (auto_port (bind_cfg s)) of
             Inl e \<Rightarrow> (Inl e, s)
           | Inr actual \<Rightarrow>
               let others = filter (\<lambda>a. \<not> isl (bind_listener bind a actual False)) (tl as) in
               (Inr actual, s\<lparr>srv_port := actual, running := True,
                  listeners := map (\<lambda>a. (a, actual)) (hd as # others)\<rparr>))"

text \<open>The shutdown signal ends the accept loops, which drop their listeners.\<close>

definition server_stop :: "http_server \<Rightarrow> http_server" where
  "server_stop s = s\<lparr>running := False, listeners := []\<rparr>"

end
