(* ===== verification/Raop_Handlers.thy ===== *)
theory Raop_Handlers
  imports Dacp Sdp Dmap Digest Pairing_Ap1 Rsa_Fairplay Http_Server
begin

text \<open>
  The AirPlay 1 request handlers of src/raop/handlers_ap1.rs with the connection state they
  share (and the server-wide state of src/raop/connection.rs), in the default build. A handler
  takes the connection, the request and the response under construction and returns the body,
  if any, and both changed. Calls on the application's \<open>AudioHandler\<close> are a log of events.
  What the environment supplies (cryptography, float parsing, address printing and parsing, mDNS lookups, results of binding sockets, random
  bytes) is the record \<open>raop_env\<close>; what may differ from request to request is indexed by the
  number of requests the connection has seen.
\<close>

section \<open>Connection state\<close>

record raop_env =
  env_pair :: pair_crypto
  env_md5 :: "bytes \<Rightarrow> bytes"
  parse_f32 :: "string \<Rightarrow> u32 option"
  ip_show :: "ip_addr \<Rightarrow> string"
  ip_read :: "string \<Rightarrow> ip_addr option"
  env_browse :: "nat \<Rightarrow> string \<Rightarrow> u16 option"
  env_bind :: "nat \<Rightarrow> nat \<Rightarrow> string + u16"
  env_rnd :: "nat \<Rightarrow> bytes"

datatype app_event =
    OnError shairplay_error
  | OnVolume u32
  | OnProgress u32 u32 u32
  | OnCoverart bytes
  | OnMetadata track_metadata
  | OnRemoteControl dacp_client
  | AudioInit audio_format
  | OnClientConnected string
  | OnClientDisconnected string

text \<open>The flag \<open>pipewire_auth_setup_compat\<close> exists in builds with the feature of that name only;
  the default build never reads it.\<close>

record raop_shared =
  rsakey :: rsa_crypto
  sh_pairing :: pairing
  hwaddr :: bytes
  password :: string
  pipewire_auth_setup_compat :: bool
  output_sample_rate :: "u32 option"

text \<open>\<open>c_stopped\<close> lists the sessions that were stopped before they were dropped;
  \<open>c_requests\<close> counts the requests.\<close>

record raop_conn =
  c_rtp :: "raop_rtp option"
  c_fairplay :: fairplay
  c_pairing :: pairing_session
  c_local_addr :: bytes
  c_remote_addr :: bytes
  c_remote_socket :: socket_addr
  c_nonce :: string
  c_shared :: raop_shared
  c_stopped :: "raop_rtp list"
  c_requests :: nat
  c_app :: "app_event list"

type_synonym raop_handler =
  "raop_env \<Rightarrow> raop_conn \<Rightarrow> request_view \<Rightarrow> http_response \<Rightarrow> bytes option \<times> raop_conn \<times> http_response"

definition notify :: "app_event \<Rightarrow> raop_conn \<Rightarrow> raop_conn" where
  "notify e c = c\<lparr>c_app := c_app c @ [e]\<rparr>"

definition rv_header :: "request_view \<Rightarrow> string \<Rightarrow> string option" where
  "rv_header rv name = rv_headers rv (map to_ascii_lower name)"

text \<open>The address bytes of a connection are those of a socket address, 4 or 16 of them; a
  shorter slice would panic.\<close>

definition ip_from_bytes :: "bytes \<Rightarrow> ip_addr" where
  "ip_from_bytes b = (if length b = 16 then V6 b else V4 (take 4 b))"

definition local_ip_from :: "raop_conn \<Rightarrow> ip_addr" where
  "local_ip_from c = ip_from_bytes (c_local_addr c)"

fun octets :: "ip_addr \<Rightarrow> bytes" where
  "octets (V4 b) = b"
| "octets (V6 b) = b"

definition remote_addr_bytes :: "(string \<Rightarrow> ip_addr option) \<Rightarrow> string \<Rightarrow> bytes" where
  "remote_addr_bytes read_ip remote =
     (let addr_str = (case strip_prefix ''IP6 '' remote of Some r \<Rightarrow> r | None \<Rightarrow> remote) in
      case read_ip addr_str of Some ip \<Rightarrow> octets ip | None \<Rightarrow> [])"

section \<open>Pairing and FairPlay\<close>

definition OCTET_STREAM :: string where "OCTET_STREAM = ''application/octet-stream''"

definition handle_pair_setup :: raop_handler where
  "handle_pair_setup env c rv resp =
     (case rv_data rv of
        None \<Rightarrow> (None, c, resp)
      | Some d \<Rightarrow>
          if length d \<noteq> 32 then (None, c, resp)
          else (Some (public_key (env_pair env) (sh_pairing (c_shared c))), c,
                add_header ''Content-Type'' OCTET_STREAM resp))"

definition pair_verify_start :: "raop_env \<Rightarrow> raop_conn \<Rightarrow> bytes \<Rightarrow> http_response \<Rightarrow> bytes option \<times> raop_conn \<times> http_response" where
  "pair_verify_start env c d resp =
     (if length d \<noteq> 4 + 32 + 32 then (None, c, resp)
      else
        let s = snd (handshake (env_pair env) (env_rnd env (c_requests c)) (c_pairing c)
                       (slice 4 36 d) (slice 36 68 d));
            c1 = c\<lparr>c_pairing := s\<rparr>
        in case get_public_key s of
             Inl _ \<Rightarrow> (None, c1, resp)
           | Inr pk \<Rightarrow>
               (case get_signature (env_pair env) s of
                  Inl _ \<Rightarrow> (None, c1, resp)
                | Inr sig \<Rightarrow> (Some (pk @ sig), c1, add_header ''Content-Type'' OCTET_STREAM resp)))"

definition pair_verify_finish :: "raop_env \<Rightarrow> raop_conn \<Rightarrow> bytes \<Rightarrow> http_response \<Rightarrow> bytes option \<times> raop_conn \<times> http_response" where
  "pair_verify_finish env c d resp =
     (if length d \<noteq> 4 + 64 then (None, c, resp)
      else
        case finish_pairing (env_pair env) (c_pairing c) (slice 4 68 d) of
          (Inr _, s) \<Rightarrow> (None, c\<lparr>c_pairing := s\<rparr>, resp)
        | (Inl e, s) \<Rightarrow>
            (None, notify (OnError (Crypto e)) (c\<lparr>c_pairing := s\<rparr>), set_disconnect True resp))"

definition handle_pair_verify :: raop_handler where
  "handle_pair_verify env c rv resp =
     (case rv_data rv of
        None \<Rightarrow> (None, c, resp)
      | Some d \<Rightarrow>
          if length d < 4 then (None, c, resp)
          else if d ! 0 = 1 then pair_verify_start env c d resp
          else if d ! 0 = 0 then pair_verify_finish env c d resp
          else (None, c, resp))"

definition fp_reply :: "raop_conn \<Rightarrow> http_response \<Rightarrow> (crypto_error + bytes) \<times> fairplay \<Rightarrow> bytes option \<times> raop_conn \<times> http_response" where
  "fp_reply c resp r =
     (case r of
        (Inr reply, fp) \<Rightarrow> (Some reply, c\<lparr>c_fairplay := fp\<rparr>, resp)
      | (Inl e, fp) \<Rightarrow> (None, notify (OnError (Crypto e)) (c\<lparr>c_fairplay := fp\<rparr>), resp))"

definition handle_fp_setup :: raop_handler where
  "handle_fp_setup env c rv resp =
     (case rv_data rv of
        None \<Rightarrow> (None, c, resp)
      | Some d \<Rightarrow>
          if length d = 16 then fp_reply c resp (fairplay_setup (c_fairplay c) d)
          else if length d = 164 then fp_reply c resp (fairplay_handshake (c_fairplay c) d)
          else (None, c, resp))"

section \<open>Session control\<close>

definition handle_options :: raop_handler where
  "handle_options env c rv resp =
     (None, c, add_header ''Public''
        ''ANNOUNCE, SETUP, RECORD, PAUSE, FLUSH, TEARDOWN, OPTIONS, GET_PARAMETER, SET_PARAMETER'' resp)"

text \<open>Recovery of the announced AES key, by RSA or FairPlay.\<close>

definition announce_key :: "raop_env \<Rightarrow> raop_conn \<Rightarrow> sdp \<Rightarrow> bytes option \<times> raop_conn" where
  "announce_key env c sdp =
     (case rsaaeskey sdp of
        Some k \<Rightarrow>
          (case rsa_decrypt (rsakey (c_shared c)) k of
             Inr key \<Rightarrow> (Some key, c)
           | Inl e \<Rightarrow> (None, notify (OnError (Crypto e)) c))
      | None \<Rightarrow>
          (case fpaeskey sdp of
             Some k \<Rightarrow>
               (case rsa_decode (rsakey (c_shared c)) k of
                  Inr d \<Rightarrow>
                    if length d = 72 then
                      (case fairplay_decrypt (c_fairplay c) d of
                         Inr key \<Rightarrow> (Some key, c)
                       | Inl e \<Rightarrow> (None, notify (OnError (Crypto e)) c))
                    else (None, c)
                | Inl e \<Rightarrow> (None, notify (OnError (Crypto e)) c))
           | None \<Rightarrow> (None, c)))"

text \<open>Key and initialisation vector of the stream: \<open>None\<close> aborts the announcement,
  \<open>Some None\<close> is an unencrypted stream.\<close>

definition announce_iv :: "raop_conn \<Rightarrow> sdp \<Rightarrow> bytes option" where
  "announce_iv c sdp =
     (case aesiv sdp of
        None \<Rightarrow> None
      | Some s \<Rightarrow>
          (case rsa_decode (rsakey (c_shared c)) s of
             Inl _ \<Rightarrow> None
           | Inr iv \<Rightarrow> if length iv \<ge> 16 then Some iv else None))"

definition announce_encryption :: "bool \<Rightarrow> bytes option \<Rightarrow> bytes option \<Rightarrow> (bytes \<times> bytes) option option" where
  "announce_encryption expected key iv =
     (if \<not> expected then Some None
      else
        case key of
          None \<Rightarrow> None
        | Some k \<Rightarrow>
            if length k < 16 then None
            else (case iv of None \<Rightarrow> None | Some v \<Rightarrow> Some (Some (take 16 k, take 16 v))))"

definition announce_session :: "raop_conn \<Rightarrow> string \<Rightarrow> string \<Rightarrow> string option \<Rightarrow> (bytes \<times> bytes) option \<Rightarrow> http_response
    \<Rightarrow> bytes option \<times> raop_conn \<times> http_response" where
  "announce_session c remote rmap fm encryption resp =
     (let r = rtp_new \<lparr>cfg_remote = remote, cfg_local_addr = local_ip_from c, cfg_rtpmap = rmap,
                        cfg_fmtp = fm, cfg_encryption = encryption,
                        cfg_output_rate = output_sample_rate (c_shared c),
                        cfg_remote_socket = c_remote_socket c\<rparr>;
          c1 = c\<lparr>c_rtp := r\<rparr>
      in if r = None then
           (None,
            notify (OnError (Codec (UnsupportedFormat (''ANNOUNCE rtpmap='' @ rmap @ '' fmtp=''
              @ (case fm of Some f \<Rightarrow> f | None \<Rightarrow> ''<missing>''))))) c1,
            set_disconnect True resp)
         else (None, c1, resp))"

definition announce_sdp :: "raop_env \<Rightarrow> raop_conn \<Rightarrow> sdp \<Rightarrow> http_response \<Rightarrow> bytes option \<times> raop_conn \<times> http_response" where
  "announce_sdp env c sdp resp =
     (case (connection sdp, rtpmap sdp) of
        (Some remote, Some rmap) \<Rightarrow>
          if rsaaeskey sdp \<noteq> None \<and> fpaeskey sdp \<noteq> None then (None, c, set_disconnect True resp)
          else
            let expected = (rsaaeskey sdp \<noteq> None \<or> fpaeskey sdp \<noteq> None) in
            if \<not> expected \<and> aesiv sdp \<noteq> None then (None, c, set_disconnect True resp)
            else
              (case announce_key env c sdp of
                 (key, c1) \<Rightarrow>
                   (case announce_encryption expected key (announce_iv c1 sdp) of
                      None \<Rightarrow> (None, c1, set_disconnect True resp)
                    | Some enc \<Rightarrow> announce_session c1 remote rmap (fmtp sdp) enc resp))
      | _ \<Rightarrow> (None, c, resp))"

definition handle_announce :: raop_handler where
  "handle_announce env c rv resp =
     (case rv_data rv of
        None \<Rightarrow> (None, c, resp)
      | Some d \<Rightarrow>
          (case from_utf8 d of
             None \<Rightarrow> (None, c, resp)
           | Some s \<Rightarrow> announce_sdp env c (sdp_parse s) resp))"

text \<open>The ports of the \<open>Transport\<close> header; what does not parse is 0.\<close>

definition transport_part :: "u16 \<times> u16 \<Rightarrow> string \<Rightarrow> u16 \<times> u16" where
  "transport_part p part =
     (case p of (cport, tport) \<Rightarrow>
        (case strip_prefix ''control_port='' part of
           Some v \<Rightarrow> (case parse_uint v of Some x \<Rightarrow> x | None \<Rightarrow> 0, tport)
         | None \<Rightarrow>
             (case strip_prefix ''timing_port='' part of
                Some v \<Rightarrow> (cport, case parse_uint v of Some x \<Rightarrow> x | None \<Rightarrow> 0)
              | None \<Rightarrow> (cport, tport))))"

definition transport_ports :: "string \<Rightarrow> u16 \<times> u16" where
  "transport_ports transport = foldl transport_part (0, 0) (split_on (CHR '';'') transport)"

definition transport_reply :: "bool \<Rightarrow> u16 \<times> u16 \<times> u16 \<Rightarrow> string" where
  "transport_reply use_udp ports =
     (case ports of (cport, tport, dport) \<Rightarrow>
        if use_udp then
          ''RTP/AVP/UDP;unicast;mode=record;timing_port='' @ show_nat (unat tport)
          @ '';events;control_port='' @ show_nat (unat cport) @ '';server_port='' @ show_nat (unat dport)
        else ''RTP/AVP/TCP;unicast;interleaved=0-1;mode=record;server_port='' @ show_nat (unat dport))"

definition setup_remote :: "raop_env \<Rightarrow> raop_conn \<Rightarrow> request_view \<Rightarrow> raop_conn" where
  "setup_remote env c rv =
     (case (rv_header rv ''DACP-ID'', rv_header rv ''Active-Remote'') of
        (Some did, Some remote) \<Rightarrow>
          notify (OnRemoteControl
            (remote_control_new (env_browse env (c_requests c)) did remote
               (remote_addr_bytes (ip_read env) (ip_show env (fst (c_remote_socket c)))))) c
      | _ \<Rightarrow> c)"

definition handle_setup :: raop_handler where
  "handle_setup env c0 rv resp =
     (case rv_header rv ''Transport'' of
        None \<Rightarrow> (None, c0, resp)
      | Some transport \<Rightarrow>
          let c = setup_remote env c0 rv;
              use_udp = (\<not> starts_with transport ''RTP/AVP/TCP'');
              (remote_cport, remote_tport) = (if use_udp then transport_ports transport else (0, 0))
          in case c_rtp c of
               None \<Rightarrow> (None, c, set_disconnect True resp)
             | Some rtp \<Rightarrow>
                 (case rtp_start (env_bind env (c_requests c)) use_udp remote_cport remote_tport rtp of
                    (Inl e, rtp1) \<Rightarrow> (None, notify (OnError e) (c\<lparr>c_rtp := Some rtp1\<rparr>), resp)
                  | (Inr (ports, format), rtp1) \<Rightarrow>
                      (None, notify (AudioInit format) (c\<lparr>c_rtp := Some rtp1\<rparr>),
                       add_header ''Session'' ''DEADBEEF''
                         (add_header ''Transport'' (transport_reply use_udp ports) resp))))"

definition handle_record :: raop_handler where
  "handle_record env c rv resp = (None, c, add_header ''Audio-Latency'' ''0'' resp)"

section \<open>Parameters\<close>

fun contains :: "string \<Rightarrow> string \<Rightarrow> bool" where
  "contains [] pat = (pat = [])"
| "contains (x # xs) pat = (take (length pat) (x # xs) = pat \<or> contains xs pat)"

definition handle_get_parameter :: raop_handler where
  "handle_get_parameter env c rv resp =
     (if rv_header rv ''Content-Type'' \<noteq> Some ''text/parameters'' then (None, c, resp)
      else
        case rv_data rv of
          None \<Rightarrow> (None, c, resp)
        | Some d \<Rightarrow>
            (case from_utf8 d of
               None \<Rightarrow> (None, c, resp)
             | Some text \<Rightarrow>
                 if contains text ''volume'' then
                   (Some (as_bytes ''volume: 0.000000'' @ CRLF), c,
                    add_header ''Content-Type'' ''text/parameters'' resp)
                 else (None, c, resp)))"

definition text_parameter :: "raop_env \<Rightarrow> string \<Rightarrow> app_event list" where
  "text_parameter env text =
     (case strip_prefix ''volume: '' text of
        Some rest \<Rightarrow> (case parse_f32 env (trim rest) of Some v \<Rightarrow> [OnVolume v] | None \<Rightarrow> [])
      | None \<Rightarrow>
          (case strip_prefix ''progress: '' text of
             Some rest \<Rightarrow>
               (case split_on (CHR ''/'') (trim rest) of
                  [s, cur, e] \<Rightarrow>
                    (case (parse_uint s, parse_uint cur, parse_uint e) of
                       (Some s', Some cur', Some e') \<Rightarrow> [OnProgress s' cur' e']
                     | _ \<Rightarrow> [])
                | _ \<Rightarrow> [])
           | None \<Rightarrow> []))"

definition parameter_events :: "raop_env \<Rightarrow> string \<Rightarrow> bytes \<Rightarrow> app_event list" where
  "parameter_events env content_type d =
     (if content_type = ''text/parameters'' then
        (case from_utf8 d of None \<Rightarrow> [] | Some text \<Rightarrow> text_parameter env text)
      else if content_type = ''image/jpeg'' \<or> content_type = ''image/png'' then [OnCoverart d]
      else if content_type = ''application/x-dmap-tagged'' then [OnMetadata (from_dmap d)]
      else [])"

definition handle_set_parameter :: raop_handler where
  "handle_set_parameter env c rv resp =
     (case (rv_header rv ''Content-Type'', rv_data rv) of
        (Some content_type, Some d) \<Rightarrow>
          (None, c\<lparr>c_app := c_app c @ parameter_events env content_type d\<rparr>, resp)
      | _ \<Rightarrow> (None, c, resp))"

end
