(* ===== verification/Rtsp.thy ===== *)
theory Rtsp
  imports Raop_Handlers
begin

text \<open>
  Dispatch of RTSP requests, src/raop/rtsp.rs with src/raop/auth_setup.rs: the route table of
  the default build, digest authentication and the Apple-Challenge as middleware, and the
  methods with routing of their own. \<open>pw\<close> tells whether the crate is built with the
  feature \<open>pipewire-auth-setup-compat\<close>.
\<close>

section \<open>Responses and the compatibility route\<close>

definition DIGEST_REALM :: string where "DIGEST_REALM = ''airplay''"
definition RTSP_SERVER_HEADER_VALUE :: string where "RTSP_SERVER_HEADER_VALUE = ''AirTunes/105.1''"

definition new_response :: "u16 \<Rightarrow> string \<Rightarrow> string \<Rightarrow> http_response" where
  "new_response st message cseq =
     add_header ''Server'' RTSP_SERVER_HEADER_VALUE
       (add_header ''CSeq'' cseq (response_new ''RTSP/1.0'' st message))"

definition request_cseq :: "request_view \<Rightarrow> string" where
  "request_cseq rv = (case rv_header rv ''CSeq'' of Some s \<Rightarrow> s | None \<Rightarrow> ''0'')"

definition request_method :: "request_view \<Rightarrow> string" where
  "request_method rv = (case rv_method rv of Some m \<Rightarrow> m | None \<Rightarrow> [])"

definition request_url :: "request_view \<Rightarrow> string" where
  "request_url rv = (case rv_url rv of Some u \<Rightarrow> u | None \<Rightarrow> [])"

definition PIPEWIRE_PROBE :: bytes where
  "PIPEWIRE_PROBE =
    [0x01, 0x59, 0x02, 0xed, 0xe9, 0x0d, 0x4e, 0xf2, 0xbd, 0x4c, 0xb6, 0x8a, 0x63, 0x30, 0x03, 0x82,
     0x07, 0xa9, 0x4d, 0xbd, 0x50, 0xd8, 0xaa, 0x46, 0x5b, 0x5d, 0x8c, 0x01, 0x2a, 0x0c, 0x7e, 0x1d,
     0x4e]"

text \<open>Instants are in milliseconds.\<close>

definition BODY_TIMEOUT :: nat where "BODY_TIMEOUT = 5000"

definition trim_blanks :: "string \<Rightarrow> string" where
  "trim_blanks s =
     (let ws = (\<lambda>c. c = CHR '' '' \<or> c = CHR 0x09) in rev (dropWhile ws (rev (dropWhile ws s))))"

definition has_expected_content_type :: "request_view \<Rightarrow> bool" where
  "has_expected_content_type rv =
     (case rv_header rv ''content-type'' of
        Some v \<Rightarrow> eq_ignore_ascii_case (trim_blanks v) OCTET_STREAM
      | None \<Rightarrow> False)"

definition auth_setup_body_policy :: "request_view \<Rightarrow> protocol_error + body_policy" where
  "auth_setup_body_policy rv =
     (if (case rv_header rv ''content-length'' of Some v \<Rightarrow> parse_nat 64 v | None \<Rightarrow> None)
          \<noteq> Some (length PIPEWIRE_PROBE)
      then Inl (InvalidRtsp ''invalid PipeWire probe length'')
      else Inr \<lparr>max_bytes = length PIPEWIRE_PROBE, completion_timeout = Some BODY_TIMEOUT\<rparr>)"

definition auth_setup_handle :: raop_handler where
  "auth_setup_handle env c rv resp =
     (let resp1 =
        (if \<not> has_expected_content_type rv \<or> rv_data rv \<noteq> Some PIPEWIRE_PROBE
         then set_disconnect True (add_header ''Connection'' ''close'' (new_response 400 ''Bad Request'' (request_cseq rv)))
         else resp)
      in (None, c, add_header ''Content-Length'' ''0'' resp1))"

record route =
  rt_method :: string
  rt_path :: string
  rt_handler :: raop_handler

definition PIPEWIRE_AUTH_SETUP_ROUTE :: route where
  "PIPEWIRE_AUTH_SETUP_ROUTE = \<lparr>rt_method = ''POST'', rt_path = ''/auth-setup'', rt_handler = auth_setup_handle\<rparr>"

definition pipewire_auth_setup_route :: "bool \<Rightarrow> raop_conn \<Rightarrow> request_view \<Rightarrow> route option" where
  "pipewire_auth_setup_route pw c rv =
     (if pw \<and> pipewire_auth_setup_compat (c_shared c)
         \<and> rv_method rv = Some (rt_method PIPEWIRE_AUTH_SETUP_ROUTE)
         \<and> rv_url rv = Some (rt_path PIPEWIRE_AUTH_SETUP_ROUTE)
      then Some PIPEWIRE_AUTH_SETUP_ROUTE else None)"

definition rtsp_body_policy :: "bool \<Rightarrow> raop_conn \<Rightarrow> request_view \<Rightarrow> protocol_error + body_policy" where
  "rtsp_body_policy pw c rv =
     (if pipewire_auth_setup_route pw c rv \<noteq> None then auth_setup_body_policy rv else Inr default_policy)"

section \<open>Routes\<close>

definition ROUTES :: "route list" where
  "ROUTES =
    [\<lparr>rt_method = ''POST'', rt_path = ''/pair-setup'', rt_handler = handle_pair_setup\<rparr>,
     \<lparr>rt_method = ''POST'', rt_path = ''/pair-verify'', rt_handler = handle_pair_verify\<rparr>,
     \<lparr>rt_method = ''POST'', rt_path = ''/fp-setup'', rt_handler = handle_fp_setup\<rparr>,
     \<lparr>rt_method = ''OPTIONS'', rt_path = ''*'', rt_handler = handle_options\<rparr>,
     \<lparr>rt_method = ''ANNOUNCE'', rt_path = ''*'', rt_handler = handle_announce\<rparr>,
     \<lparr>rt_method = ''GET_PARAMETER'', rt_path = ''*'', rt_handler = handle_get_parameter\<rparr>,
     \<lparr>rt_method = ''SET_PARAMETER'', rt_path = ''*'', rt_handler = handle_set_parameter\<rparr>]"

fun find_route :: "route list \<Rightarrow> string \<Rightarrow> string \<Rightarrow> raop_handler option" where
  "find_route [] meth target = None"
| "find_route (r # rs) meth target =
     (if rt_method r = meth \<and> (rt_path r = ''*'' \<or> rt_path r = List.hd (split_on (CHR ''?'') target))
      then Some (rt_handler r) else find_route rs meth target)"

fun rtp_info_seq :: "string list \<Rightarrow> int option" where
  "rtp_info_seq [] = None"
| "rtp_info_seq (token # tokens) =
     (case split_once (CHR ''='') (trim token) of
        None \<Rightarrow> rtp_info_seq tokens
      | Some (key, v) \<Rightarrow>
          if eq_ignore_ascii_case key ''seq'' then
            (case parse_i32 (trim v) of
               None \<Rightarrow> None
             | Some n \<Rightarrow> if n \<ge> 0 then Some n else None)
          else rtp_info_seq tokens)"

definition parse_rtp_info_seq :: "string \<Rightarrow> int option" where
  "parse_rtp_info_seq rtp_info =
     rtp_info_seq (concat (map (split_on (CHR '';'')) (split_on (CHR '','') rtp_info)))"

definition handle_flush_inline :: "raop_conn \<Rightarrow> request_view \<Rightarrow> raop_conn" where
  "handle_flush_inline c rv =
     (case rv_header rv ''RTP-Info'' of
        None \<Rightarrow> c
      | Some rtp_info \<Rightarrow>
          (case (parse_rtp_info_seq rtp_info, c_rtp c) of
             (Some next_seq, Some rtp) \<Rightarrow> c\<lparr>c_rtp := Some (rtp_flush next_seq rtp)\<rparr>
           | _ \<Rightarrow> c))"

definition handle_teardown :: raop_handler where
  "handle_teardown env c rv resp =
     (None,
      (case c_rtp c of
         Some rtp \<Rightarrow> c\<lparr>c_rtp := None, c_stopped := c_stopped c @ [rtp_stop rtp]\<rparr>
       | None \<Rightarrow> c),
      set_disconnect True (add_header ''Connection'' ''close'' resp))"

datatype route_resolution = NoBody | HandlerFn raop_handler

definition resolve_setup :: "raop_handler option" where "resolve_setup = Some handle_setup"
definition resolve_record :: "raop_handler option" where "resolve_record = Some handle_record"

text \<open>\<open>FLUSH\<close> acts on the connection while it is resolved.\<close>

definition resolve_handler ::
  "bool \<Rightarrow> raop_conn \<Rightarrow> request_view \<Rightarrow> string \<Rightarrow> string \<Rightarrow> route_resolution option \<times> raop_conn" where
  "resolve_handler pw c rv meth target =
     (case pipewire_auth_setup_route pw c rv of
        Some r \<Rightarrow> (Some (HandlerFn (rt_handler r)), c)
      | None \<Rightarrow>
          (case find_route ROUTES meth target of
             Some h \<Rightarrow> (Some (HandlerFn h), c)
           | None \<Rightarrow>
               if meth = ''SETUP'' then (map_option HandlerFn resolve_setup, c)
               else if meth = ''RECORD'' then (map_option HandlerFn resolve_record, c)
               else if meth = ''FLUSH'' then (Some NoBody, handle_flush_inline c rv)
               else if meth = ''TEARDOWN'' then (Some (HandlerFn handle_teardown), c)
               else (None, c)))"

section \<open>Dispatch\<close>

definition authorized :: "raop_env \<Rightarrow> raop_conn \<Rightarrow> request_view \<Rightarrow> bool" where
  "authorized env c rv \<longleftrightarrow>
     request_method rv = ''OPTIONS'' \<or> password (c_shared c) = []
     \<or> is_valid (env_md5 env) DIGEST_REALM (password (c_shared c)) (c_nonce c)
          (request_method rv) (request_url rv) (rv_header rv ''Authorization'')"

definition unauthorized_response :: "raop_conn \<Rightarrow> request_view \<Rightarrow> http_response" where
  "unauthorized_response c rv =
     finish None (add_header ''WWW-Authenticate''
       (''Digest realm='' @ [CHR 0x22] @ DIGEST_REALM @ [CHR 0x22] @ '', nonce='' @ [CHR 0x22] @ c_nonce c @ [CHR 0x22])
       (new_response 401 ''Unauthorized'' (request_cseq rv)))"

definition challenge_response :: "raop_conn \<Rightarrow> request_view \<Rightarrow> http_response \<Rightarrow> http_response" where
  "challenge_response c rv resp =
     (case rv_header rv ''Apple-Challenge'' of
        None \<Rightarrow> resp
      | Some challenge \<Rightarrow>
          (case sign_challenge (rsakey (c_shared c)) challenge (c_local_addr c) (hwaddr (c_shared c)) of
             Inr sig \<Rightarrow> add_header ''Apple-Response'' sig resp
           | Inl _ \<Rightarrow> resp))"

definition ok_response :: "request_view \<Rightarrow> http_response" where
  "ok_response rv =
     add_header ''Apple-Jack-Status'' ''connected; type=analog'' (new_response 200 ''OK'' (request_cseq rv))"

definition next_request :: "raop_conn \<Rightarrow> raop_conn" where
  "next_request c = c\<lparr>c_requests := Suc (c_requests c)\<rparr>"

definition dispatch :: "bool \<Rightarrow> raop_env \<Rightarrow> raop_conn \<Rightarrow> request_view \<Rightarrow> http_response \<times> raop_conn" where
  "dispatch pw env c rv =
     (if \<not> authorized env c rv then (unauthorized_response c rv, next_request c)
      else
        let resp = challenge_response c rv (ok_response rv) in
        case resolve_handler pw c rv (request_method rv) (request_url rv) of
          (Some (HandlerFn h), c1) \<Rightarrow>
            (case h env c1 rv resp of (b, c2, resp2) \<Rightarrow> (finish b resp2, next_request c2))
        | (Some NoBody, c1) \<Rightarrow> (finish None resp, next_request c1)
        | (None, c1) \<Rightarrow> (finish None (new_response 404 ''Not Found'' (request_cseq rv)), next_request c1))"

end
