(* ===== verification/Rtsp_Laws.thy ===== *)
theory Rtsp_Laws
  imports Rtsp
begin

text \<open>
  What holds of a connection over any sequence of requests. The locale \<open>dispatch_invariant\<close>
  reduces a property of the connection state to the few ways the handlers change it; it is
  interpreted for the consistency of the state, for the parts that never change, and for the
  event log. Further: the digest gate, the framing of responses, the treatment of announced
  keys, and the course of a session.
\<close>

section \<open>Invariants of dispatch\<close>

definition seq_target :: "int \<Rightarrow> bool" where
  "seq_target n \<longleftrightarrow> 0 \<le> n \<and> n < 2 ^ 31"

lemma parse_i32_bound: "parse_i32 s = Some n \<Longrightarrow> n < 2 ^ 31"
  by (auto simp: parse_i32_def split: if_splits option.splits list.splits)

lemma rtp_info_seq_bound: "rtp_info_seq ts = Some n \<Longrightarrow> seq_target n"
  by (induction ts rule: rtp_info_seq.induct)
    (fastforce simp: seq_target_def dest: parse_i32_bound split: option.splits if_splits)+

fun dispatch_all :: "bool \<Rightarrow> raop_env \<Rightarrow> raop_conn \<Rightarrow> request_view list \<Rightarrow> http_response list \<times> raop_conn" where
  "dispatch_all pw env c [] = ([], c)"
| "dispatch_all pw env c (rv # rvs) =
     (case dispatch pw env c rv of (r, c1) \<Rightarrow>
        (case dispatch_all pw env c1 rvs of (rs, c2) \<Rightarrow> (r # rs, c2)))"

locale dispatch_invariant =
  fixes inv :: "raop_env \<Rightarrow> raop_conn \<Rightarrow> bool"
  assumes inv_app: "inv env c \<Longrightarrow> inv env (c\<lparr>c_app := c_app c @ es\<rparr>)"
    and inv_next: "inv env c \<Longrightarrow> inv env (next_request c)"
    and inv_pairing: "inv env c \<Longrightarrow> pair_step (env_pair env) (c_pairing c) s \<Longrightarrow> inv env (c\<lparr>c_pairing := s\<rparr>)"
    and inv_fp_setup: "inv env c \<Longrightarrow> inv env (c\<lparr>c_fairplay := snd (fairplay_setup (c_fairplay c) d)\<rparr>)"
    and inv_fp_handshake: "inv env c \<Longrightarrow> length d = 164 \<Longrightarrow>
      inv env (c\<lparr>c_fairplay := snd (fairplay_handshake (c_fairplay c) d)\<rparr>)"
    and inv_announce: "inv env c \<Longrightarrow> inv env (c\<lparr>c_rtp := rtp_new cfg\<rparr>)"
    and inv_start: "inv env c \<Longrightarrow> c_rtp c = Some r \<Longrightarrow>
      inv env (c\<lparr>c_rtp := Some (snd (rtp_start os udp cp tp r))\<rparr>)"
    and inv_flush: "inv env c \<Longrightarrow> c_rtp c = Some r \<Longrightarrow> seq_target n \<Longrightarrow>
      inv env (c\<lparr>c_rtp := Some (rtp_flush n r)\<rparr>)"
    and inv_stop: "inv env c \<Longrightarrow> inv env (c\<lparr>c_rtp := None, c_stopped := rs\<rparr>)"
begin

lemma inv_notify: "inv env c \<Longrightarrow> inv env (notify e c)"
  by (simp add: notify_def inv_app)

lemma inv_pair_verify: "inv env c \<Longrightarrow> inv env (fst (snd (handle_pair_verify env c rv resp)))"
proof -
  assume i: "inv env c"
  have "inv env (fst (snd (pair_verify_start env c d resp)))" for d
    using i inv_pairing [OF i step_handshake [OF prod.collapse [symmetric]]]
    by (auto simp: pair_verify_start_def Let_def split: sum.split)
  moreover have "inv env (fst (snd (pair_verify_finish env c d resp)))" for d
    using i inv_pairing [OF i step_finish]
    by (auto simp: pair_verify_finish_def inv_notify split: prod.split sum.split)
  ultimately show ?thesis
    using i by (auto simp: handle_pair_verify_def split: option.split)
qed

lemma inv_fp: "inv env c \<Longrightarrow> inv env (fst (snd (handle_fp_setup env c rv resp)))"
proof -
  assume i: "inv env c"
  have "inv env (fst (snd (fp_reply c resp r)))" if "inv env (c\<lparr>c_fairplay := snd r\<rparr>)" for r
    using that by (auto simp: fp_reply_def inv_notify split: prod.split sum.split)
  then show ?thesis
    using i inv_fp_setup [OF i] inv_fp_handshake [OF i]
    by (simp add: handle_fp_setup_def split: option.split)
qed

lemma inv_announce_key: "inv env c \<Longrightarrow> inv env (snd (announce_key env c sdp))"
  by (auto simp: announce_key_def inv_notify split: option.split sum.split)

lemma inv_announce_session: "inv env c \<Longrightarrow> inv env (fst (snd (announce_session c a b f e resp)))"
proof -
  assume "inv env c"
  define r where "r = rtp_new \<lparr>cfg_remote = a, cfg_local_addr = local_ip_from c, cfg_rtpmap = b,
    cfg_fmtp = f, cfg_encryption = e, cfg_output_rate = output_sample_rate (c_shared c),
    cfg_remote_socket = c_remote_socket c\<rparr>"
  with \<open>inv env c\<close> have "inv env (c\<lparr>c_rtp := r\<rparr>)" by (simp add: inv_announce)
  then show ?thesis
    unfolding announce_session_def Let_def r_def [symmetric] by (cases r) (simp_all add: inv_notify)
qed

lemma inv_announce_sdp: "inv env c \<Longrightarrow> inv env (fst (snd (announce_sdp env c sdp resp)))"
proof -
  assume i: "inv env c"
  obtain k c1 where k: "announce_key env c sdp = (k, c1)" by (cases "announce_key env c sdp")
  with inv_announce_key [OF i, of sdp] have "inv env c1" by simp
  then show ?thesis
    using i by (simp add: announce_sdp_def Let_def k inv_announce_session split: option.split)
qed

lemma inv_handle_announce: "inv env c \<Longrightarrow> inv env (fst (snd (handle_announce env c rv resp)))"
  by (simp add: handle_announce_def inv_announce_sdp split: option.split)

lemma inv_setup: "inv env c \<Longrightarrow> inv env (fst (snd (handle_setup env c rv resp)))"
proof -
  assume "inv env c"
  then have "inv env (setup_remote env c rv)" (is "inv env ?c")
    by (auto simp: setup_remote_def inv_notify split: option.split)
  then show ?thesis
    using inv_start [of env ?c] \<open>inv env c\<close>
    by (auto simp: handle_setup_def Let_def inv_notify split: option.split prod.split sum.split)
      (metis inv_notify snd_conv)+
qed

lemma inv_flush_inline: "inv env c \<Longrightarrow> inv env (handle_flush_inline c rv)"
  by (auto simp: handle_flush_inline_def parse_rtp_info_seq_def inv_flush
    dest: rtp_info_seq_bound split: option.split)

lemma inv_teardown: "inv env c \<Longrightarrow> inv env (fst (snd (handle_teardown env c rv resp)))"
  by (auto simp: handle_teardown_def inv_stop split: option.split)

lemma inv_route:
  assumes "inv env c" and "find_route ROUTES meth target = Some h"
  shows "inv env (fst (snd (h env c rv resp)))"
  using assms by (auto simp: ROUTES_def handle_pair_setup_def handle_options_def handle_get_parameter_def
    handle_set_parameter_def inv_pair_verify inv_fp inv_handle_announce inv_app
    split: if_splits option.split)

theorem inv_dispatch: "inv env c \<Longrightarrow> inv env (snd (dispatch pw env c rv))"
proof -
  assume i: "inv env c"
  obtain res c1 where r: "resolve_handler pw c rv (request_method rv) (request_url rv) = (res, c1)"
    by (cases "resolve_handler pw c rv (request_method rv) (request_url rv)")
  have c1: "inv env c1"
    using r i by (auto simp: resolve_handler_def inv_flush_inline split: option.splits if_splits)
  have h: "inv env (fst (snd (h env c1 rv resp)))" if "res = Some (HandlerFn h)" for h resp
    using r that c1 by (auto simp: resolve_handler_def resolve_setup_def resolve_record_def
      inv_route inv_setup inv_teardown handle_record_def auth_setup_handle_def Let_def
      pipewire_auth_setup_route_def PIPEWIRE_AUTH_SETUP_ROUTE_def split: option.splits if_splits)
  show ?thesis
    using i c1 h [of _ "challenge_response c rv (ok_response rv)"]
    by (auto simp: dispatch_def r inv_next Let_def split: option.split route_resolution.split prod.split)
qed

lemma inv_requests: "inv env c \<Longrightarrow> inv env (snd (dispatch_all pw env c rvs))"
  by (induction rvs arbitrary: c) (simp_all add: inv_dispatch split: prod.splits, metis inv_dispatch snd_conv)

end

section \<open>Consistency of the connection\<close>

text \<open>A session's buffer is consistent, the format it announces to the application is that of
  its buffer, and a pending flush is one the control connection asked for.\<close>

definition rtp_inv :: "raop_rtp \<Rightarrow> bool" where
  [inv_defs]: "rtp_inv r \<longleftrightarrow>
     buf_inv (r_buffer r) \<and> r_format r = raop_format (r_buffer r)
     \<and> (r_flush r = NO_FLUSH \<or> seq_target (r_flush r))
     \<and> (\<not> r_started r \<longrightarrow> control_lport r = 0 \<and> timing_lport r = 0 \<and> data_lport r = 0)"

definition conn_ok :: "raop_env \<Rightarrow> raop_conn \<Rightarrow> bool" where
  [inv_defs]: "conn_ok env c \<longleftrightarrow>
     pair_inv (env_pair env) (sh_pairing (c_shared c)) (c_pairing c)
     \<and> fairplay_inv (c_fairplay c) \<and> (\<forall>r. c_rtp c = Some r \<longrightarrow> rtp_inv r)"

lemma rtp_inv_new: "rtp_new cfg = Some r \<Longrightarrow> rtp_inv r"
  by (auto simp: rtp_new_def rtp_inv_def raop_new_def raop_new_unencrypted_def NO_FLUSH_def
    dest: buf_inv_build split: option.splits prod.splits)

lemma rtp_inv_start: "rtp_inv r \<Longrightarrow> rtp_inv (snd (rtp_start os udp cp tp r))"
  by (auto simp: rtp_start_def rtp_inv_def Let_def split: sum.splits)

lemma rtp_inv_flush: "rtp_inv r \<Longrightarrow> seq_target n \<Longrightarrow> rtp_inv (rtp_flush n r)"
  by (simp add: rtp_inv_def rtp_flush_def)

interpretation ok: dispatch_invariant conn_ok
  by unfold_locales
    (auto simp: conn_ok_def next_request_def rtp_inv_start rtp_inv_new rtp_inv_flush
      dest: pair_inv_step fairplay_inv_setup fairplay_inv_handshake)

section \<open>Identity and event log\<close>

text \<open>Requests change neither the configuration nor the addresses nor the nonce, and events
  once reported are never taken back.\<close>

definition identity :: "raop_conn \<Rightarrow> raop_shared \<times> bytes \<times> bytes \<times> socket_addr \<times> string" where
  "identity c = (c_shared c, c_local_addr c, c_remote_addr c, c_remote_socket c, c_nonce c)"

interpretation identity: dispatch_invariant "\<lambda>env c. identity c = i" for i
  by unfold_locales (auto simp: identity_def next_request_def)

interpretation app_log: dispatch_invariant "\<lambda>env c. \<exists>es. c_app c = es0 @ es" for es0
  by unfold_locales (auto simp: next_request_def)

section \<open>Authentication\<close>

definition digest_ok :: "raop_env \<Rightarrow> raop_conn \<Rightarrow> request_view \<Rightarrow> bool" where
  "digest_ok env c rv =
     is_valid (env_md5 env) DIGEST_REALM (password (c_shared c)) (c_nonce c)
       (request_method rv) (request_url rv) (rv_header rv ''Authorization'')"

lemma dispatch_options:
  "request_method rv = ''OPTIONS'' \<Longrightarrow> snd (dispatch pw env c rv) = next_request c"
  by (auto simp: dispatch_def authorized_def resolve_handler_def ROUTES_def handle_options_def Let_def
    pipewire_auth_setup_route_def PIPEWIRE_AUTH_SETUP_ROUTE_def request_method_def split: option.split)

lemma dispatch_unauthorized: "\<not> authorized env c rv \<Longrightarrow> dispatch pw env c rv = (unauthorized_response c rv, next_request c)"
  by (simp add: dispatch_def)

text \<open>
  C6: a connection to a receiver with a password is inert until a request carries the digest
  of that password for its own method and URL under the connection's nonce: whatever sequence
  of other requests is sent, every one that is not OPTIONS is answered by the 401 challenge,
  and pairing, FairPlay, session and event log are unchanged.
\<close>

theorem password_protects:
  assumes "password (c_shared c) \<noteq> []"
    and "\<forall>rv \<in> set rvs. request_method rv = ''OPTIONS'' \<or> \<not> digest_ok env c rv"
    and "dispatch_all pw env c rvs = (rs, c')"
  shows "c' = c\<lparr>c_requests := c_requests c + length rvs\<rparr>
    \<and> list_all2 (\<lambda>rv r. request_method rv = ''OPTIONS'' \<or> r = unauthorized_response c rv) rvs rs"
  using assms
proof (induction rvs arbitrary: c rs)
  case (Cons rv rvs)
  obtain r c1 where d: "dispatch pw env c rv = (r, c1)" by (cases "dispatch pw env c rv")
  obtain rs' where rs: "dispatch_all pw env c1 rvs = (rs', c')" "rs = r # rs'"
    using Cons.prems(3) d by (auto split: prod.splits)
  have "c1 = next_request c"
    using d Cons.prems dispatch_options [of rv pw env c] dispatch_unauthorized [of env c rv pw]
    by (auto simp: authorized_def digest_ok_def)
  moreover have "request_method rv = ''OPTIONS'' \<or> r = unauthorized_response c rv"
    using d Cons.prems dispatch_unauthorized [of env c rv pw] by (auto simp: authorized_def digest_ok_def)
  ultimately show ?case
    using Cons.IH [of "next_request c" rs'] Cons.prems rs
    by (simp add: next_request_def digest_ok_def unauthorized_response_def)
qed simp

section \<open>Announced keys\<close>

definition announced_key :: "raop_env \<Rightarrow> raop_conn \<Rightarrow> sdp \<Rightarrow> bytes \<Rightarrow> bool" where
  "announced_key env c sdp k \<longleftrightarrow>
     (\<exists>s. rsaaeskey sdp = Some s \<and> rsa_decrypt (rsakey (c_shared c)) s = Inr k)
     \<or> (\<exists>s d. fpaeskey sdp = Some s \<and> rsa_decode (rsakey (c_shared c)) s = Inr d \<and> length d = 72
          \<and> fairplay_decrypt (c_fairplay c) d = Inr k)"

definition announced_iv :: "raop_conn \<Rightarrow> sdp \<Rightarrow> bytes \<Rightarrow> bool" where
  "announced_iv c sdp iv \<longleftrightarrow> (\<exists>s. aesiv sdp = Some s \<and> rsa_decode (rsakey (c_shared c)) s = Inr iv)"

definition encrypted_announce :: "sdp \<Rightarrow> bool" where
  "encrypted_announce sdp \<longleftrightarrow> rsaaeskey sdp \<noteq> None \<or> fpaeskey sdp \<noteq> None"

lemma announce_key_cases:
  assumes "announce_key env c sdp = (k, c1)"
  shows "(\<forall>x. k = Some x \<longrightarrow> announced_key env c sdp x) \<and> c_rtp c1 = c_rtp c \<and> c_shared c1 = c_shared c"
  using assms by (auto simp: announce_key_def announced_key_def notify_def
    split: option.splits sum.splits if_splits)

lemma announce_encryption_cases:
  assumes "announce_encryption expected k iv = Some enc"
  shows "if expected
    then \<exists>x v. k = Some x \<and> iv = Some v \<and> 16 \<le> length x \<and> enc = Some (take 16 x, take 16 v)
    else enc = None"
  using assms by (auto simp: announce_encryption_def split: if_splits option.splits)

lemma rtp_new_aes:
  "rtp_new cfg = Some r \<Longrightarrow>
   b_aes (r_buffer r) = map_option (\<lambda>(k, iv). \<lparr>aes_key = k, aes_iv = iv\<rparr>) (cfg_encryption cfg)"
  by (auto simp: rtp_new_def raop_new_def raop_new_unencrypted_def raop_build_def
    split: option.splits prod.splits bind_splits)

lemma announce_session_cases:
  assumes "announce_session c a b f e resp = (d, c', resp')"
  shows "c_rtp c' = None \<and> disconnect resp'
    \<or> (\<exists>r. c_rtp c' = Some r \<and> b_aes (r_buffer r) = map_option (\<lambda>(k, iv). \<lparr>aes_key = k, aes_iv = iv\<rparr>) e)"
proof -
  define cfg where "cfg = \<lparr>cfg_remote = a, cfg_local_addr = local_ip_from c, cfg_rtpmap = b,
    cfg_fmtp = f, cfg_encryption = e, cfg_output_rate = output_sample_rate (c_shared c),
    cfg_remote_socket = c_remote_socket c\<rparr>"
  have "cfg_encryption cfg = e" by (simp add: cfg_def)
  with assms show ?thesis
    unfolding announce_session_def Let_def cfg_def [symmetric]
    by (cases "rtp_new cfg") (auto simp: notify_def set_disconnect_def dest: rtp_new_aes)
qed

text \<open>
  C7: an announced key is honoured or the connection is given up. After ANNOUNCE the session is
  the old one (the announcement was refused, or had no connection or format line), or there is
  none and the connection closes, or it is a new one; and a new session decrypts with the first
  16 bytes of the key recovered by RSA or FairPlay and of the decoded \<open>aesiv\<close> when the sender
  announced a key, and only without any key and IV is it unencrypted. Encrypted audio is never
  passed on as PCM.
\<close>

theorem announce_keys:
  assumes "rv_data rv = Some d" and "from_utf8 d = Some s"
    and "handle_announce env c rv resp = (b, c', resp')"
  shows "c_rtp c' = c_rtp c \<and> (disconnect resp' \<or> connection (sdp_parse s) = None \<or> rtpmap (sdp_parse s) = None)
    \<or> c_rtp c' = None \<and> disconnect resp'
    \<or> (\<exists>r. c_rtp c' = Some r \<and>
         (if encrypted_announce (sdp_parse s)
          then \<exists>k iv. announced_key env c (sdp_parse s) k \<and> announced_iv c (sdp_parse s) iv
                 \<and> 16 \<le> length k \<and> 16 \<le> length iv
                 \<and> b_aes (r_buffer r) = Some \<lparr>aes_key = take 16 k, aes_iv = take 16 iv\<rparr>
          else aesiv (sdp_parse s) = None \<and> b_aes (r_buffer r) = None))"
proof -
  let ?sdp = "sdp_parse s"
  have a: "announce_sdp env c ?sdp resp = (b, c', resp')"
    using assms by (simp add: handle_announce_def)
  obtain k c1 where k: "announce_key env c ?sdp = (k, c1)" by (cases "announce_key env c ?sdp")
  note kc = announce_key_cases [OF k]
  then have c1: "c_rtp c1 = c_rtp c" "announce_iv c1 ?sdp = announce_iv c ?sdp"
    by (simp_all only: announce_iv_def)
  have iv: "announced_iv c ?sdp iv \<and> 16 \<le> length iv" if "announce_iv c ?sdp = Some iv" for iv
    using that by (auto simp: announce_iv_def announced_iv_def split: option.splits sum.splits if_splits)
  show ?thesis
  proof (cases "announce_encryption (encrypted_announce ?sdp) k (announce_iv c ?sdp)")
    case None
    then show ?thesis
      using a k c1 by (auto simp: announce_sdp_def Let_def set_disconnect_def encrypted_announce_def
        announce_encryption_def split: option.splits if_splits)
  next
    case (Some enc)
    consider (refused) "c_rtp c' = c_rtp c" "disconnect resp' \<or> connection ?sdp = None \<or> rtpmap ?sdp = None"
      | (session) x y where "announce_session c1 x y (fmtp ?sdp) enc resp = (b, c', resp')"
          "encrypted_announce ?sdp \<or> aesiv ?sdp = None"
      using a k c1 Some by (auto simp: announce_sdp_def Let_def set_disconnect_def encrypted_announce_def
        split: option.splits if_splits)
    then show ?thesis
    proof cases
      case refused
      then show ?thesis by blast
    next
      case session
      note enc = announce_encryption_cases [OF Some]
      show ?thesis
      proof (cases "encrypted_announce ?sdp")
        case True
        with enc obtain x v where "k = Some x" "announce_iv c ?sdp = Some v" "16 \<le> length x"
          "enc = Some (take 16 x, take 16 v)" by auto
        with kc iv have "announced_key env c ?sdp x" "announced_iv c ?sdp v" "16 \<le> length v" by auto
        with announce_session_cases [OF session(1)] True \<open>enc = _\<close> \<open>16 \<le> length x\<close> show ?thesis by auto
      next
        case False
        with announce_session_cases [OF session(1)] enc session(2) show ?thesis by auto
      qed
    qed
  qed
qed

section \<open>Course of a session\<close>

definition via :: "raop_handler \<Rightarrow> raop_env \<Rightarrow> raop_conn \<Rightarrow> request_view \<Rightarrow> http_response \<times> raop_conn" where
  "via h env c rv =
     (case h env c rv (challenge_response c rv (ok_response rv)) of
        (b, c2, resp) \<Rightarrow> (finish b resp, next_request c2))"

lemma dispatch_via:
  assumes "authorized env c rv"
  shows "request_method rv = ''ANNOUNCE'' \<Longrightarrow> dispatch pw env c rv = via handle_announce env c rv"
    and "request_method rv = ''SETUP'' \<Longrightarrow> dispatch pw env c rv = via handle_setup env c rv"
    and "request_method rv = ''TEARDOWN'' \<Longrightarrow> dispatch pw env c rv = via handle_teardown env c rv"
proof -
  have "request_method rv \<noteq> ''POST'' \<Longrightarrow> pipewire_auth_setup_route pw c rv = None"
    by (auto simp: pipewire_auth_setup_route_def PIPEWIRE_AUTH_SETUP_ROUTE_def request_method_def)
  with assms show "request_method rv = ''ANNOUNCE'' \<Longrightarrow> dispatch pw env c rv = via handle_announce env c rv"
    and "request_method rv = ''SETUP'' \<Longrightarrow> dispatch pw env c rv = via handle_setup env c rv"
    and "request_method rv = ''TEARDOWN'' \<Longrightarrow> dispatch pw env c rv = via handle_teardown env c rv"
    by (simp_all add: dispatch_def via_def resolve_handler_def ROUTES_def resolve_setup_def)
qed

lemma finish_code [simp]: "code (finish b r) = code r" "disconnect (finish b r) = disconnect r"
  by (auto simp: finish_def Let_def split: option.split)

lemma challenge_code [simp]:
  "code (challenge_response c rv (ok_response rv)) = 200"
  "disconnect (challenge_response c rv (ok_response rv)) = False"
  by (simp_all add: challenge_response_def ok_response_def new_response_def response_new_def add_header_def
    split: option.split sum.split)

text \<open>An announcement of an unencrypted stream that the receiver can decode into buffer \<open>b\<close>.\<close>

definition plain_announce :: "request_view \<Rightarrow> raop_buffer \<Rightarrow> bool" where
  "plain_announce rv b \<longleftrightarrow>
     (\<exists>d s remote m. rv_data rv = Some d \<and> from_utf8 d = Some s \<and> connection (sdp_parse s) = Some remote
        \<and> rtpmap (sdp_parse s) = Some m \<and> rsaaeskey (sdp_parse s) = None \<and> fpaeskey (sdp_parse s) = None
        \<and> aesiv (sdp_parse s) = None
        \<and> raop_build m (case fmtp (sdp_parse s) of Some f \<Rightarrow> f | None \<Rightarrow> []) None = Some b)"

lemma announce_plain:
  assumes "plain_announce rv b"
  shows "\<exists>r. (\<forall>resp. handle_announce env c rv resp = (None, c\<lparr>c_rtp := Some r\<rparr>, resp)) \<and> r_buffer r = b
    \<and> r_format r = raop_format b \<and> r_output_rate r = output_sample_rate (c_shared c)"
  using assms
  by (auto simp: plain_announce_def handle_announce_def announce_sdp_def announce_key_def announce_encryption_def
    announce_session_def rtp_new_def raop_new_unencrypted_def Let_def)

lemma setup_remote_keeps [simp]:
  "c_rtp (setup_remote env c rv) = c_rtp c" "c_shared (setup_remote env c rv) = c_shared c"
  "c_requests (setup_remote env c rv) = c_requests c" "c_stopped (setup_remote env c rv) = c_stopped c"
  by (simp_all add: setup_remote_def notify_def split: option.split)

lemma setup_udp:
  assumes "rv_header u ''Transport'' = Some t" and "\<not> starts_with t ''RTP/AVP/TCP''" and "c_rtp c = Some r"
    and "env_bind env (c_requests c) 0 = Inr cp" and "env_bind env (c_requests c) 1 = Inr tp"
    and "env_bind env (c_requests c) 2 = Inr dp"
  shows "\<exists>r'. handle_setup env c u resp =
      (None, notify (AudioInit (rtp_audio_format r')) ((setup_remote env c u)\<lparr>c_rtp := Some r'\<rparr>),
       add_header ''Session'' ''DEADBEEF'' (add_header ''Transport'' (transport_reply True (cp, tp, dp)) resp))
    \<and> r_started r' \<and> r_buffer r' = r_buffer r \<and> control_rport r' = fst (transport_ports t)
    \<and> r_format r' = r_format r \<and> r_output_rate r' = r_output_rate r"
  using assms by (auto simp: handle_setup_def rtp_start_def Let_def case_prod_beta)

definition session_format :: "raop_conn \<Rightarrow> raop_buffer \<Rightarrow> audio_format" where
  "session_format c b = \<lparr>af_bits = 32, af_channels = sf_num_channels (raop_format b),
     af_sample_rate = (case output_sample_rate (c_shared c) of Some x \<Rightarrow> x | None \<Rightarrow> sf_sample_rate (raop_format b))\<rparr>"

text \<open>
  C14: a client can set up a session. On a receiver without a password, ANNOUNCE of a decodable
  unencrypted stream followed by SETUP over UDP, with free ports, leaves a started session on
  exactly that buffer, tells the application its format, and answers both requests with 200 and
  the connection open; the SETUP response names the three bound ports, and a following TEARDOWN
  stops the session and closes the connection.
\<close>

theorem session_set_up:
  assumes "password (c_shared c) = []"
    and "rv_method a = Some ''ANNOUNCE''" and "plain_announce a b"
    and "rv_method u = Some ''SETUP''" and "rv_header u ''Transport'' = Some t" and "\<not> starts_with t ''RTP/AVP/TCP''"
    and "env_bind env (Suc (c_requests c)) 0 = Inr cp" and "env_bind env (Suc (c_requests c)) 1 = Inr tp"
    and "env_bind env (Suc (c_requests c)) 2 = Inr dp"
    and "rv_method d = Some ''TEARDOWN''"
  shows "\<exists>c1 r c2 ra ru rd c3.
    dispatch_all pw env c [a, u] = ([ra, ru], c1) \<and> c_rtp c1 = Some r \<and> r_started r \<and> r_buffer r = b
    \<and> control_rport r = fst (transport_ports t)
    \<and> AudioInit (session_format c b) \<in> set (c_app c1)
    \<and> code ra = 200 \<and> code ru = 200 \<and> \<not> disconnect ra \<and> \<not> disconnect ru
    \<and> (\<exists>pre. data ru = pre @ as_bytes ''Transport'' @ as_bytes '': '' @ as_bytes (transport_reply True (cp, tp, dp)) @ CRLF
          @ as_bytes ''Session'' @ as_bytes '': '' @ as_bytes ''DEADBEEF'' @ CRLF @ CRLF)
    \<and> dispatch pw env c1 d = (rd, c3) \<and> disconnect rd \<and> c_rtp c3 = None \<and> c_stopped c3 = c_stopped c1 @ [rtp_stop r]"
proof -
  have auth: "authorized env x rv" if "c_shared x = c_shared c" for x rv
    using that assms(1) by (simp add: authorized_def)
  obtain r where r: "\<forall>resp. handle_announce env c a resp = (None, c\<lparr>c_rtp := Some r\<rparr>, resp)" "r_buffer r = b"
    "r_format r = raop_format b" "r_output_rate r = output_sample_rate (c_shared c)"
    using announce_plain [OF assms(3), of env c] by blast
  let ?c1 = "next_request (c\<lparr>c_rtp := Some r\<rparr>)"
  have d1: "dispatch pw env c a = (finish None (challenge_response c a (ok_response a)), ?c1)"
    using assms(2) auth by (simp add: dispatch_via(1) request_method_def via_def r(1))
  have c1: "c_rtp ?c1 = Some r" "c_requests ?c1 = Suc (c_requests c)" "c_shared ?c1 = c_shared c"
    by (simp_all add: next_request_def)
  obtain r' where s: "handle_setup env ?c1 u (challenge_response ?c1 u (ok_response u)) =
      (None, notify (AudioInit (rtp_audio_format r')) ((setup_remote env ?c1 u)\<lparr>c_rtp := Some r'\<rparr>),
       add_header ''Session'' ''DEADBEEF'' (add_header ''Transport'' (transport_reply True (cp, tp, dp))
         (challenge_response ?c1 u (ok_response u))))"
    "r_started r'" "r_buffer r' = b" "control_rport r' = fst (transport_ports t)"
    "r_format r' = r_format r" "r_output_rate r' = r_output_rate r"
    using setup_udp [OF assms(5,6) c1(1), unfolded c1(2), OF assms(7-9)] r(2) by blast
  have f: "rtp_audio_format r' = session_format c b"
    by (simp add: rtp_audio_format_def session_format_def s(5,6) r(3,4) split: option.split)
  let ?c2 = "next_request (notify (AudioInit (session_format c b)) ((setup_remote env ?c1 u)\<lparr>c_rtp := Some r'\<rparr>))"
  let ?ru = "finish None (add_header ''Session'' ''DEADBEEF'' (add_header ''Transport''
     (transport_reply True (cp, tp, dp)) (challenge_response ?c1 u (ok_response u))))"
  have d2: "dispatch pw env ?c1 u = (?ru, ?c2)"
    using assms(4) auth c1(3) by (simp add: dispatch_via(2) request_method_def via_def s(1) f)
  have c2: "c_rtp ?c2 = Some r'" "c_shared ?c2 = c_shared c" "AudioInit (session_format c b) \<in> set (c_app ?c2)"
    by (simp_all add: next_request_def notify_def)
  have d3: "\<exists>rd c3. dispatch pw env ?c2 d = (rd, c3) \<and> disconnect rd \<and> c_rtp c3 = None
      \<and> c_stopped c3 = c_stopped ?c2 @ [rtp_stop r']"
    using assms(10) auth [OF c2(2)] c2(1)
    by (simp add: dispatch_via(3) request_method_def via_def handle_teardown_def set_disconnect_def next_request_def)
  have ru: "data ?ru = data (challenge_response ?c1 u (ok_response u)) @ as_bytes ''Transport'' @ as_bytes '': ''
      @ as_bytes (transport_reply True (cp, tp, dp)) @ CRLF @ as_bytes ''Session'' @ as_bytes '': ''
      @ as_bytes ''DEADBEEF'' @ CRLF @ CRLF" "code ?ru = 200" "\<not> disconnect ?ru"
    by (simp_all add: finish_def add_header_def)
  have "dispatch_all pw env c [a, u] = ([finish None (challenge_response c a (ok_response a)), ?ru], ?c2)"
    by (simp add: d1 d2)
  with c2 s ru d3 show ?thesis by fastforce
qed

section \<open>Examples\<close>

definition sample_rsa :: rsa_crypto where
  "sample_rsa = \<lparr>b64_decode = \<lambda>s. Some (replicate 16 3), b64_encode = \<lambda>b. ''QUJD'', modulus_bits = 2048,
     pkcs1_sign = \<lambda>d. Inr d, oaep_decrypt = \<lambda>d. Some (replicate 16 5)\<rparr>"

definition sample_env :: raop_env where
  "sample_env = \<lparr>env_pair = sample_crypto, env_md5 = \<lambda>d. replicate 16 0,
     parse_f32 = \<lambda>s. None, ip_show = \<lambda>ip. ''10.0.0.2'', ip_read = \<lambda>s. Some (V4 [10, 0, 0, 2]),
     env_browse = \<lambda>n s. None, env_bind = \<lambda>n k. Inr (of_nat (6000 + k)), env_rnd = \<lambda>n. replicate 32 9\<rparr>"

definition sample_conn :: "string \<Rightarrow> raop_conn" where
  "sample_conn pass =
     \<lparr>c_rtp = None, c_fairplay = fairplay_new, c_pairing = create_session (pairing_from_seed []),
      c_local_addr = [10, 0, 0, 1], c_remote_addr = [10, 0, 0, 2], c_remote_socket = (V4 [10, 0, 0, 2], 50000),
      c_nonce = ''0123'',
      c_shared = \<lparr>rsakey = sample_rsa, sh_pairing = pairing_from_seed [], hwaddr = [1, 2, 3, 4, 5, 6],
        password = pass, pipewire_auth_setup_compat = False, output_sample_rate = None\<rparr>,
      c_stopped = [], c_requests = 0, c_app = []\<rparr>"

definition sample_sdp :: "string \<Rightarrow> string" where
  "sample_sdp keys = ''c=IN IP4 10.0.0.2'' @ [CHR 0x0D, CHR 0x0A] @ ''a=rtpmap:96 L16/44100/2'' @ [CHR 0x0D, CHR 0x0A] @ keys"

definition sample_keys :: string where
  "sample_keys = ''a=rsaaeskey:AAAA'' @ [CHR 0x0D, CHR 0x0A] @ ''a=aesiv:BBBB''"

definition sample_request :: "string \<Rightarrow> (string \<rightharpoonup> string) \<Rightarrow> bytes option \<Rightarrow> request_view" where
  "sample_request m hs d = \<lparr>rv_method = Some m, rv_url = Some ''*'', rv_headers = hs, rv_data = d\<rparr>"

lemma sample_sdp_parse:
  "sdp_parse (sample_sdp sample_keys) = sdp_empty\<lparr>connection := Some ''IN IP4 10.0.0.2'',
     rtpmap := Some ''96 L16/44100/2'', rsaaeskey := Some ''AAAA'', aesiv := Some ''BBBB''\<rparr>"
  "sdp_parse (sample_sdp []) = sdp_empty\<lparr>connection := Some ''IN IP4 10.0.0.2'', rtpmap := Some ''96 L16/44100/2''\<rparr>"
  by code_simp+

lemma sample_sdp_utf8:
  "from_utf8 (as_bytes (sample_sdp sample_keys)) = Some (sample_sdp sample_keys)"
  "from_utf8 (as_bytes (sample_sdp [])) = Some (sample_sdp [])"
  by (simp_all add: sample_sdp_def sample_keys_def from_utf8_def as_bytes_def utf8_valid_ascii str_of_bytes_def
    char_of_def bit_0)

lemma sample_codec: "parse_codec ''96 L16/44100/2'' = Some (CfgPcm \<lparr>pcm_num_channels = 2, pcm_sample_rate = 44100\<rparr>)"
proof -
  have "split_whitespace ''96 L16/44100/2'' = [''96'', ''L16/44100/2'']"
    "split_on (CHR ''/'') ''L16/44100/2'' = [''L16'', ''44100'', ''2'']"
    "\<not> eq_ignore_ascii_case ''L16'' ''AppleLossless''" "eq_ignore_ascii_case ''L16'' ''L16''"
    by code_simp+
  then show ?thesis
    by (simp add: parse_codec_def parse_l16_def parse_uint_def parse_nat_def parse_digits_def strip_plus_def
      is_digit_def digits_value_def)
qed

lemma password_protects_witness:
  "dispatch_all False sample_env (sample_conn ''pw'') [sample_request ''ANNOUNCE'' Map.empty None]
     = ([unauthorized_response (sample_conn ''pw'') (sample_request ''ANNOUNCE'' Map.empty None)],
        (sample_conn ''pw'')\<lparr>c_requests := 1\<rparr>)"
proof -
  let ?c = "sample_conn ''pw''" and ?rvs = "[sample_request ''ANNOUNCE'' Map.empty None]"
  obtain rs c' where d: "dispatch_all False sample_env ?c ?rvs = (rs, c')"
    by (cases "dispatch_all False sample_env ?c ?rvs")
  have "password (c_shared ?c) \<noteq> []" by (simp add: sample_conn_def)
  moreover have "\<forall>rv \<in> set ?rvs. request_method rv = ''OPTIONS'' \<or> \<not> digest_ok sample_env ?c rv"
    by (simp add: sample_request_def digest_ok_def rv_header_def is_valid_def)
  ultimately show ?thesis
    using password_protects [OF _ _ d] d
    by (auto simp: list_all2_Cons1 sample_request_def request_method_def) (simp_all add: sample_conn_def)
qed

lemma announce_keys_witness:
  "let rv = sample_request ''ANNOUNCE'' Map.empty (Some (as_bytes (sample_sdp sample_keys)));
       c' = fst (snd (handle_announce sample_env (sample_conn []) rv (response_new [] 200 [])))
   in c_rtp c' \<noteq> None \<and> b_aes (r_buffer (the (c_rtp c'))) = Some \<lparr>aes_key = replicate 16 5, aes_iv = replicate 16 3\<rparr>"
proof -
  let ?rv = "sample_request ''ANNOUNCE'' Map.empty (Some (as_bytes (sample_sdp sample_keys)))"
  let ?c = "sample_conn []" and ?resp = "response_new [] 200 []"
  obtain b c' resp' where h: "handle_announce sample_env ?c ?rv ?resp = (b, c', resp')"
    by (cases "handle_announce sample_env ?c ?rv ?resp")
  have d: "rv_data ?rv = Some (as_bytes (sample_sdp sample_keys))" by (simp add: sample_request_def)
  have "\<exists>r. c_rtp c' = Some r \<and> \<not> disconnect resp'"
    using h by (auto simp: handle_announce_def d sample_sdp_utf8 sample_sdp_parse sdp_empty_def announce_sdp_def
      announce_key_def announce_iv_def announce_encryption_def announce_session_def rtp_new_def raop_new_def
      raop_build_def sample_codec sample_conn_def sample_rsa_def rsa_decrypt_def rsa_decode_def response_new_def)
  then obtain r where r: "c_rtp c' = Some r" "\<not> disconnect resp'" by blast
  from announce_keys [OF d sample_sdp_utf8(1) h] r
  have "b_aes (r_buffer r) = Some \<lparr>aes_key = replicate 16 5, aes_iv = replicate 16 3\<rparr>"
    by (auto simp: sample_sdp_parse sdp_empty_def encrypted_announce_def announced_key_def announced_iv_def
      sample_conn_def sample_rsa_def rsa_decrypt_def rsa_decode_def)
  with r show ?thesis unfolding Let_def h by simp
qed

lemma session_set_up_witness:
  "let announce = sample_request ''ANNOUNCE'' Map.empty (Some (as_bytes (sample_sdp [])));
       setup = sample_request ''SETUP'' [''transport'' \<mapsto> ''RTP/AVP/UDP''] None
   in c_rtp (snd (dispatch_all False sample_env (sample_conn []) [announce, setup])) \<noteq> None"
proof -
  let ?a = "sample_request ''ANNOUNCE'' Map.empty (Some (as_bytes (sample_sdp [])))"
  let ?u = "sample_request ''SETUP'' [''transport'' \<mapsto> ''RTP/AVP/UDP''] None"
  have "\<exists>b. plain_announce ?a b"
    by (simp add: plain_announce_def sample_request_def sample_sdp_utf8 sample_sdp_parse sdp_empty_def raop_build_def
      sample_codec)
  then obtain b where b: "plain_announce ?a b" by blast
  have t: "rv_header ?u ''Transport'' = Some ''RTP/AVP/UDP''" "\<not> starts_with ''RTP/AVP/UDP'' ''RTP/AVP/TCP''"
    by (simp_all add: rv_header_def sample_request_def starts_with_def to_ascii_lower_def char_of_def bit_0)
  have m: "rv_method (sample_request x hs dd) = Some x" for x hs dd by (simp add: sample_request_def)
  have p: "password (c_shared (sample_conn [])) = []" by (simp add: sample_conn_def)
  have e: "env_bind sample_env n k = Inr (of_nat (6000 + k))" for n k by (simp add: sample_env_def)
  from session_set_up [OF p m b m t e e e m [of "''TEARDOWN''" Map.empty None], where pw = False]
  show ?thesis by (auto simp: Let_def)
qed

end
