(* ===== verification/Rtsp_Framing.thy ===== *)
theory Rtsp_Framing
  imports Rtsp_Laws
begin

text \<open>
  The shape of the responses on the wire: status line, the echoed sequence number, further
  header lines, a blank line and a body of exactly the announced length.
\<close>

section \<open>Header lines\<close>

definition str_safe :: "string \<Rightarrow> bool" where
  "str_safe s \<longleftrightarrow> CHR 0x0D \<notin> set s \<and> CHR 0x0A \<notin> set s"

definition line_safe :: "bytes \<Rightarrow> bool" where
  "line_safe l \<longleftrightarrow> CR \<notin> set l \<and> LF \<notin> set l"

definition header_block :: "bytes list \<Rightarrow> bytes" where
  "header_block ls = concat (map (\<lambda>l. l @ CRLF) ls)"

lemma header_block_append [simp]: "header_block (ls @ ms) = header_block ls @ header_block ms"
  by (simp add: header_block_def)

lemma line_safe_append [simp]: "line_safe (a @ b) \<longleftrightarrow> line_safe a \<and> line_safe b"
  by (auto simp: line_safe_def)

lemma as_bytes_append [simp]: "as_bytes (a @ b) = as_bytes a @ as_bytes b"
  by (simp add: as_bytes_def)

lemma byte_in_as_bytes: "b \<in> set (as_bytes s) \<longleftrightarrow> char_of (unat b) \<in> set s"
proof
  assume "b \<in> set (as_bytes s)"
  then have "char_of (unat b) \<in> set (str_of_bytes (as_bytes s))" by (simp add: str_of_bytes_def)
  then show "char_of (unat b) \<in> set s" by simp
next
  assume "char_of (unat b) \<in> set s"
  then have "set (as_bytes [char_of (unat b)]) \<subseteq> set (as_bytes s)"
    by (simp add: as_bytes_def del: of_char_of)
  moreover have "as_bytes [char_of (unat b)] = [b]"
    using as_bytes_of_bytes [of "[b]"] by (simp add: str_of_bytes_def)
  ultimately show "b \<in> set (as_bytes s)" by simp
qed

lemma line_safe_as_bytes [simp]: "line_safe (as_bytes s) \<longleftrightarrow> str_safe s"
proof -
  have "char_of (unat CR) = CHR 0x0D" "char_of (unat LF) = CHR 0x0A"
    by (simp_all add: CR_def LF_def char_of_def bit_0)
  then show ?thesis by (simp add: line_safe_def str_safe_def byte_in_as_bytes)
qed

lemma str_safe_simps [simp]:
  "str_safe []"
  "str_safe (c # s) \<longleftrightarrow> c \<noteq> CHR 0x0D \<and> c \<noteq> CHR 0x0A \<and> str_safe s"
  "str_safe (a @ b) \<longleftrightarrow> str_safe a \<and> str_safe b"
  by (auto simp: str_safe_def)

lemma as_bytes_Cons: "as_bytes (c # s) = as_bytes [c] @ as_bytes s"
  by (simp add: as_bytes_def)

lemma str_safe_show_nat [simp]: "str_safe (show_nat n)"
proof -
  have "list_all is_digit s \<Longrightarrow> str_safe s" for s
    by (auto simp: str_safe_def list_all_iff is_digit_def)
  then show ?thesis using show_nat_digits [of n] by blast
qed

section \<open>Responses\<close>

text \<open>A response while headers are added to it, and a finished one; \<open>cseq\<close> is the sequence
  number it echoes.\<close>

definition open_response :: "string \<Rightarrow> http_response \<Rightarrow> bool" where
  "open_response cseq r \<longleftrightarrow>
     (\<exists>st ls. data r = header_block (st # (as_bytes ''CSeq: '' @ as_bytes cseq) # ls) \<and> (\<forall>l \<in> set (st # ls). line_safe l))"

definition framed_response :: "string \<Rightarrow> http_response \<Rightarrow> bool" where
  "framed_response cseq r \<longleftrightarrow>
     resp_complete r
     \<and> (\<exists>st ls b. data r = header_block (st # (as_bytes ''CSeq: '' @ as_bytes cseq) # ls) @ CRLF @ b
          \<and> (\<forall>l \<in> set (st # ls). line_safe l)
          \<and> (b \<noteq> [] \<longrightarrow> ls \<noteq> [] \<and> last ls = as_bytes ''Content-Length: '' @ as_bytes (show_nat (length b))))"

lemma open_add_header:
  assumes "open_response cseq r" and "str_safe name" and "str_safe val"
  shows "open_response cseq (add_header name val r)"
proof -
  from assms(1) obtain st ls where r: "data r = header_block (st # (as_bytes ''CSeq: '' @ as_bytes cseq) # ls)"
    "\<forall>l \<in> set (st # ls). line_safe l" by (auto simp: open_response_def)
  show ?thesis
    unfolding open_response_def using r assms(2,3)
    by (intro exI [of _ st] exI [of _ "ls @ [as_bytes name @ as_bytes '': '' @ as_bytes val]"])
      (auto simp: add_header_def header_block_def)
qed

lemma open_set_disconnect [simp]: "open_response cseq (set_disconnect b r) = open_response cseq r"
  by (simp add: open_response_def set_disconnect_def)

lemma open_new_response: "str_safe message \<Longrightarrow> open_response cseq (new_response st message cseq)"
proof -
  assume m: "str_safe message"
  have "open_response cseq (add_header ''CSeq'' cseq (response_new ''RTSP/1.0'' st message))"
    unfolding open_response_def using m
    by (intro exI [of _ "as_bytes (''RTSP/1.0 '' @ show_nat (unat st) @ '' '' @ message)"] exI [of _ "[]"])
      (simp add: add_header_def response_new_def header_block_def, simp add: as_bytes_def)
  then show ?thesis
    unfolding new_response_def by (rule open_add_header) (simp_all add: RTSP_SERVER_HEADER_VALUE_def)
qed

lemma framedI:
  "resp_complete r \<Longrightarrow> data r = header_block (st # (as_bytes ''CSeq: '' @ as_bytes cseq) # ls) @ CRLF @ b \<Longrightarrow>
   \<forall>l \<in> set (st # ls). line_safe l \<Longrightarrow>
   (b \<noteq> [] \<Longrightarrow> ls \<noteq> [] \<and> last ls = as_bytes ''Content-Length: '' @ as_bytes (show_nat (length b))) \<Longrightarrow>
   framed_response cseq r"
  unfolding framed_response_def by blast

lemma framed_finish: "open_response cseq r \<Longrightarrow> framed_response cseq (finish b r)"
proof -
  assume "open_response cseq r"
  then obtain st ls where r: "data r = header_block (st # (as_bytes ''CSeq: '' @ as_bytes cseq) # ls)"
    "\<forall>l \<in> set (st # ls). line_safe l" by (auto simp: open_response_def)
  show ?thesis
  proof (cases "\<exists>x. b = Some x \<and> x \<noteq> []")
    case True
    then obtain x where "b = Some x" "x \<noteq> []" by blast
    then show ?thesis
      using r by (intro framedI [of _ st _ "ls @ [as_bytes ''Content-Length: '' @ as_bytes (show_nat (length x))]" x])
        (auto simp: finish_def header_block_def)
  next
    case False
    then show ?thesis
      using r by (intro framedI [of _ st _ ls "[]"]) (auto simp: finish_def Let_def split: option.split)
  qed
qed

section \<open>Handlers\<close>

lemmas header_rules = open_add_header open_set_disconnect

text \<open>No handler breaks the header block; the names and values it adds are fixed text, numbers
  and base64.\<close>

lemma open_handlers:
  assumes "open_response cseq resp"
  shows "open_response cseq (snd (snd (handle_pair_setup env c rv resp)))"
    and "open_response cseq (snd (snd (handle_pair_verify env c rv resp)))"
    and "open_response cseq (snd (snd (handle_fp_setup env c rv resp)))"
    and "open_response cseq (snd (snd (handle_options env c rv resp)))"
    and "open_response cseq (snd (snd (handle_announce env c rv resp)))"
    and "open_response cseq (snd (snd (handle_setup env c rv resp)))"
    and "open_response cseq (snd (snd (handle_record env c rv resp)))"
    and "open_response cseq (snd (snd (handle_get_parameter env c rv resp)))"
    and "open_response cseq (snd (snd (handle_set_parameter env c rv resp)))"
    and "open_response cseq (snd (snd (handle_teardown env c rv resp)))"
  using assms
  by (auto simp: handle_pair_setup_def handle_pair_verify_def pair_verify_start_def pair_verify_finish_def
    handle_fp_setup_def fp_reply_def handle_options_def handle_announce_def announce_sdp_def announce_session_def
    handle_setup_def handle_record_def handle_get_parameter_def handle_set_parameter_def handle_teardown_def
    Let_def OCTET_STREAM_def transport_reply_def intro!: open_add_header
    split: option.split sum.split prod.split)

lemma open_auth_setup:
  "request_cseq rv = cseq \<Longrightarrow> open_response cseq resp \<Longrightarrow>
   open_response cseq (snd (snd (auth_setup_handle env c rv resp)))"
  by (auto simp: auth_setup_handle_def Let_def intro!: open_add_header open_new_response)

lemma resolve_handler_open:
  assumes "resolve_handler pw c rv m u = (Some (HandlerFn h), c1)"
    and "open_response (request_cseq rv) resp"
  shows "open_response (request_cseq rv) (snd (snd (h env c1 rv resp)))"
  using assms by (auto simp: resolve_handler_def ROUTES_def resolve_setup_def resolve_record_def
    pipewire_auth_setup_route_def PIPEWIRE_AUTH_SETUP_ROUTE_def open_handlers open_auth_setup
    split: option.splits if_splits)



end
