(* ===== verification/Server_Run.thy ===== *)
theory Server_Run
  imports Http_Server
begin

text \<open>
  Whole runs of a connection. For handlers that stay in plaintext and set no body deadline the
  connection is a segment action: its responses do not depend on how the input arrives, and a
  pipeline of requests is answered one by one, in order. For every handler the retained
  ciphertext is bounded.
\<close>

section \<open>Listeners\<close>

text \<open>
  Port sensing returns the first port from the requested one on that the system grants,
  and tries at most 100 further ports, never past 65535; without sensing only the requested
  port is tried.
\<close>

theorem bind_listener_first_free:
  assumes "\<And>q. q < p \<Longrightarrow> start \<le> q \<Longrightarrow> isl (bind addr q)" and "bind addr p = Inr got"
    and "start \<le> p" and "p = start \<or> (auto \<and> unat p \<le> min (unat start + 100) 65535)"
  shows "bind_listener bind addr start auto = Inr got"
proof -
  have sat: "q < saturating_add start 100" if "q < p" for q
  proof -
    have "unat q < min (unat start + 100) 65535 \<or> start = p"
      using that assms(4) by (auto simp: word_less_nat_alt)
    moreover have "unat (saturating_add start 100) = min (unat start + 100) 65535"
      by (simp add: saturating_add_def unat_word_ariths unsigned_minus_1_eq_mask mask_eq_exp_minus_1 min_def)
    moreover have "unat p < 65536" using unsigned_less [of p] by simp
    ultimately show ?thesis
      using that assms(3) by (auto simp: word_less_nat_alt word_le_nat_alt)
  qed
  have "start \<le> q \<Longrightarrow> q \<le> p \<Longrightarrow> bind_loop bind addr start auto q = Inr got" for q
  proof (induction "unat p - unat q" arbitrary: q)
    case 0
    then have "q = p" by (simp add: word_le_nat_alt word_unat_eq_iff)
    with assms(2) show ?case by (subst bind_loop.simps) simp
  next
    case (Suc n)
    then have less: "q < p" by (auto simp: word_less_nat_alt)
    then have u: "unat (q + 1) = Suc (unat q)" by (rule unat_plus_one_less)
    from assms(1) [OF less Suc.prems(1)] obtain e where e: "bind addr q = Inl e" by (cases "bind addr q") auto
    from less assms(4) Suc.prems(1) have "auto" by (auto simp: word_less_nat_alt word_le_nat_alt)
    moreover have "bind_loop bind addr start auto (q + 1) = Inr got"
      using Suc u less by (intro Suc.hyps(1)) (auto simp: word_less_nat_alt word_le_nat_alt)
    ultimately show ?case using e sat [OF less] by (simp add: bind_loop.simps [of _ _ _ _ q])
  qed
  with assms(3) show ?thesis by (simp add: bind_listener_def)
qed

lemma bind_listener_first_free_witness:
  "bind_listener (\<lambda>a q. if q < 5002 then Inl ''in use'' else Inr q) ''::'' 5000 True = Inr 5002"
proof (rule bind_listener_first_free)
  fix q :: u16
  assume "q < 5002"
  then show "isl (if q < 5002 then Inl ''in use'' else Inr q)" by simp
qed simp_all

section \<open>Plaintext connections\<close>

text \<open>A connection that is closed drops its pending request.\<close>

fun closed :: "bool \<times> 'h conn \<Rightarrow> bool \<times> 'h conn" where
  "closed (a, c) = (a, if a then c else c\<lparr>pending := pending_default\<rparr>)"

definition serve :: "net_env \<Rightarrow> 'h handler_ops \<Rightarrow> bool \<times> 'h conn \<Rightarrow> bytes \<Rightarrow> bool \<times> 'h conn" where
  "serve env ops st d =
     (case st of (a, c) \<Rightarrow>
        if \<not> a then st
        else case add_request_data env ops 0 c d of
               (False, c1) \<Rightarrow> closed (False, c1)
             | (True, c1) \<Rightarrow> closed (send_completed_responses env ops 0 c1))"

definition plain_pending :: "http_request \<Rightarrow> pending_request" where
  "plain_pending r = \<lparr>request = r, body_deadline = None\<rparr>"

lemma plain_pending_default: "pending_default = plain_pending request_new"
  by (simp add: plain_pending_def pending_default_def)

lemma plain_pending_sel [simp]:
  "request (plain_pending r) = r" "body_deadline (plain_pending r) = None"
  by (simp_all add: plain_pending_def)

lemma plain_pending_eq: "body_deadline p = None \<Longrightarrow> p = plain_pending (request p)"
  by (simp add: plain_pending_def)

lemma send_idle: "\<not> complete (request (pending c)) \<Longrightarrow> send_completed_responses env ops now c = (True, c)"
  by (simp add: send_completed_responses.simps)

locale plaintext_handler =
  fixes ops :: "'h handler_ops"
  assumes plain: "\<not> is_encrypted ops h"
    and no_timeout: "request_body_policy ops h v = Inr p \<Longrightarrow> completion_timeout p = None"
begin

definition eat :: "net_env \<Rightarrow> 'h \<Rightarrow> http_request \<Rightarrow> bytes \<Rightarrow> http_request" where
  "eat env h r d = feed (httparse env) (body_limit ops h) r d"

lemma pending_add_plain:
  assumes "http_inv r" "req_error r = None"
  shows "snd (pending_add_data env ops h now (plain_pending r) d) = plain_pending (eat env h r d)"
    and "isl (fst (pending_add_data env ops h now (plain_pending r) d)) \<longleftrightarrow> req_error (eat env h r d) \<noteq> None"
proof -
  obtain res r' where a: "add_data_with_body_limit (httparse env) (body_limit ops h) r d = (res, r')" by fastforce
  then have r': "eat env h r d = r'" by (simp add: eat_def feed_def)
  have dl: "new_deadline ops h now (plain_pending r) r' = None"
    by (auto simp: new_deadline_def no_timeout split: sum.split)
  show "snd (pending_add_data env ops h now (plain_pending r) d) = plain_pending (eat env h r d)"
    using a r' dl by (cases res) (simp_all add: pending_add_data_def plain_pending_def [of r'])
  have "isl (fst (pending_add_data env ops h now (plain_pending r) d)) \<longleftrightarrow> isl res"
    using a by (cases res) (simp_all add: pending_add_data_def)
  then show "isl (fst (pending_add_data env ops h now (plain_pending r) d)) \<longleftrightarrow> req_error (eat env h r d) \<noteq> None"
    using add_data_result [OF assms, of "httparse env" "body_limit ops h" d] a by (simp add: eat_def)
qed

text \<open>Reading data and answering, in terms of the request alone.\<close>

definition taken :: "net_env \<Rightarrow> nat \<Rightarrow> 'h conn \<Rightarrow> http_request \<Rightarrow> bool \<times> 'h conn" where
  "taken env now c r =
     (if req_error r = None then closed (send_completed_responses env ops now (c\<lparr>pending := plain_pending r\<rparr>))
      else closed (False, write_bad_request_and_close env ops (c\<lparr>pending := plain_pending r\<rparr>)))"

lemma taken_pending [simp]: "taken env now (c\<lparr>pending := p\<rparr>) r = taken env now c r"
  "taken env now (c\<lparr>pending := p, handler := h, out := ws\<rparr>) r = taken env now (c\<lparr>handler := h, out := ws\<rparr>) r"
  by (simp_all add: taken_def)

lemma eat_new_Nil [simp]: "eat env h request_new [] = request_new"
  by (simp add: eat_def feed_Nil http_inv_new)

lemma add_request_data_plain:
  assumes "http_inv r" "req_error r = None" "pending c = plain_pending r"
  shows "add_request_data env ops now c d =
    (let c1 = c\<lparr>pending := plain_pending (eat env (handler c) r d)\<rparr> in
     if req_error (eat env (handler c) r d) = None then (True, c1)
     else (False, write_bad_request_and_close env ops c1))"
proof -
  obtain res p where p: "pending_add_data env ops (handler c) now (plain_pending r) d = (res, p)" by fastforce
  with pending_add_plain [OF assms(1,2), of env "handler c" now d] assms(3) show ?thesis
    by (cases res) (auto simp: add_request_data_def)
qed

lemma send_answers:
  assumes "complete (request (pending c))"
    and "conn_request ops (handler c) (view (request (pending c))) = (resp, h)"
  shows "closed (send_completed_responses env ops now c) =
    (if data resp = [] \<or> \<not> write_ok env (length (out c)) then closed (False, c\<lparr>handler := h\<rparr>)
     else
       let c3 = c\<lparr>handler := after_response ops h, out := out c @ [data resp]\<rparr> in
       if disconnect resp then closed (False, c3\<lparr>shut := True\<rparr>)
       else taken env now c3 (eat env (handler c3) request_new (buffer (request (pending c)))))"
proof -
  let ?c3 = "c\<lparr>handler := after_response ops h, out := out c @ [data resp]\<rparr>"
  let ?l = "buffer (request (pending c))"
  have new: "http_inv request_new" "req_error request_new = None"
    by (simp_all add: http_inv_new) (simp add: request_new_def)
  have w: "wire_of ops h resp = (data resp, h)" by (simp add: wire_of_def plain)
  have l: "fst (take_leftover (request (pending c))) = ?l" using assms(1) by (simp add: take_leftover_def)
  note p = pending_add_plain [OF new, of env "handler ?c3" now ?l, folded plain_pending_default]
  show ?thesis
  proof (cases "?l = []")
    case True
    have "\<not> complete (request (pending (?c3\<lparr>pending := pending_default\<rparr>)))"
      by (simp add: pending_default_def request_new_def)
    with True show ?thesis
      using assms w l True new(2) unfolding taken_def
      by (simp add: send_completed_responses.simps [of _ _ _ c] send_idle plain_pending_default [symmetric] Let_def)
  next
    case False
    then show ?thesis
      using assms w l p by (simp add: send_completed_responses.simps [of _ _ _ c] taken_def Let_def)
  qed
qed

lemma eat_append: "http_inv r \<Longrightarrow> eat env h r (xs @ ys) = eat env h (eat env h r xs) ys"
  by (simp add: eat_def feed_append)

lemma eat_inv: "http_inv r \<Longrightarrow> http_inv (eat env h r xs)"
  by (simp add: eat_def feed_inv)

text \<open>Answering one complete request; the bytes left over shrink.\<close>

definition todo :: "http_request \<Rightarrow> nat" where
  "todo r = (if complete r then Suc (length (buffer r)) else 0)"

lemma taken_complete:
  assumes "finished r" "conn_request ops (handler c) (view r) = (resp, h)"
  shows "taken env now c r =
    (let c3 = c\<lparr>handler := after_response ops h, out := out c @ [data resp]\<rparr> in
     if data resp = [] \<or> \<not> write_ok env (length (out c)) then (False, c\<lparr>handler := h, pending := pending_default\<rparr>)
     else if disconnect resp then (False, c3\<lparr>shut := True, pending := pending_default\<rparr>)
     else taken env now c3 (eat env (handler c3) request_new (buffer r)))"
proof -
  have "closed (send_completed_responses env ops now (c\<lparr>pending := plain_pending r\<rparr>)) =
     (let c3 = c\<lparr>handler := after_response ops h, out := out c @ [data resp]\<rparr> in
      if data resp = [] \<or> \<not> write_ok env (length (out c)) then (False, c\<lparr>handler := h, pending := pending_default\<rparr>)
      else if disconnect resp then (False, c3\<lparr>shut := True, pending := pending_default\<rparr>)
      else taken env now c3 (eat env (handler c3) request_new (buffer r)))"
    using assms send_answers [of "c\<lparr>pending := plain_pending r\<rparr>" resp h env now]
    by (simp add: finished_def Let_def)
  then show ?thesis using assms(1) by (simp add: taken_def [of _ _ c r] finished_def)
qed

lemma todo_decreases: "finished r \<Longrightarrow> todo (eat env h request_new (buffer r)) < todo r"
  using feed_new_consumes [of "httparse env" "body_limit ops h" "buffer r"]
  by (simp add: todo_def eat_def finished_def)

lemma taken_idle:
  "req_error r = None \<Longrightarrow> \<not> complete r \<Longrightarrow> taken env now c r = (True, c\<lparr>pending := plain_pending r\<rparr>)"
  by (simp add: taken_def send_idle)

lemma taken_failed: "req_error r \<noteq> None \<Longrightarrow>
  taken env now c r = closed (False, write_bad_request_and_close env ops (c\<lparr>pending := plain_pending r\<rparr>))"
  by (auto simp: taken_def)

lemma request_cases:
  assumes "http_inv r"
  obtains "req_error r \<noteq> None" | "req_error r = None" "\<not> complete r" | "finished r"
  using assms by (auto simp: http_inv_def finished_def)

text \<open>Data that arrives while a complete request waits is handled after it has been answered.\<close>

lemma taken_append:
  assumes "http_inv r"
  shows "taken env now c (eat env (handler c) r ys) =
     (case taken env now c r of (a, c1) \<Rightarrow>
        if \<not> a then (a, c1) else taken env now c1 (eat env (handler c1) (request (pending c1)) ys))"
  using assms
proof (induction "todo r" arbitrary: r c rule: less_induct)
  case less
  from less.prems show ?case
  proof (cases rule: request_cases)
    case 1
    then show ?thesis by (simp add: eat_def feed_failed taken_failed)
  next
    case 2
    then show ?thesis by (simp add: taken_idle)
  next
    case 3
    let ?r = "r\<lparr>buffer := buffer r @ ys\<rparr>"
    have e: "eat env (handler c) r ys = ?r" and f: "finished ?r"
      using 3 by (simp_all add: eat_def feed_finished) (simp add: finished_def)
    have v: "view ?r = view r" by (simp add: view_def)
    obtain resp h where q: "conn_request ops (handler c) (view r) = (resp, h)" by fastforce
    note IH = less.hyps [OF todo_decreases [OF 3] eat_inv [OF http_inv_new]]
    show ?thesis
      unfolding e taken_complete [OF 3 q] taken_complete [OF f, unfolded v, OF q]
      by (simp add: Let_def eat_append http_inv_new IH [where c = "_\<lparr>handler := _, out := _\<rparr>", simplified])
  qed
qed

definition serve_inv :: "bool \<times> 'h conn \<Rightarrow> bool" where
  "serve_inv st \<longleftrightarrow>
     (case st of (a, c) \<Rightarrow>
        if a then body_deadline (pending c) = None \<and> http_inv (request (pending c))
                  \<and> req_error (request (pending c)) = None \<and> \<not> complete (request (pending c))
        else pending c = pending_default)"

lemma taken_inv: "http_inv r \<Longrightarrow> serve_inv (taken env now c r)"
proof (induction "todo r" arbitrary: r c rule: less_induct)
  case less
  from less.prems show ?case
  proof (cases rule: request_cases)
    case 3
    obtain resp h where q: "conn_request ops (handler c) (view r) = (resp, h)" by fastforce
    note IH = less.hyps [OF todo_decreases [OF 3] eat_inv [OF http_inv_new]]
    show ?thesis unfolding taken_complete [OF 3 q] by (simp add: Let_def IH) (simp add: serve_inv_def)
  qed (use less.prems in \<open>simp_all add: taken_idle taken_failed serve_inv_def\<close>)
qed

lemma serve_taken:
  assumes "serve_inv (True, c)"
  shows "serve env ops (True, c) d = taken env 0 c (eat env (handler c) (request (pending c)) d)"
proof -
  have "pending c = plain_pending (request (pending c))"
    using assms plain_pending_eq by (simp add: serve_inv_def)
  then show ?thesis
    using assms add_request_data_plain [of "request (pending c)" c env 0 d]
    by (auto simp: serve_def taken_def serve_inv_def Let_def)
qed

end

sublocale plaintext_handler \<subseteq> run: segment_action "serve env ops" serve_inv for env
proof
  fix st :: "bool \<times> 'h conn" and xs ys
  assume inv: "serve_inv st"
  obtain a c where st: "st = (a, c)" by (cases st)
  show "serve_inv (serve env ops st xs)"
    using inv taken_inv [of "eat env (handler c) (request (pending c)) xs" env 0 c] eat_inv
    by (cases a) (auto simp: st serve_taken, auto simp: serve_inv_def serve_def)
  show "serve env ops st (xs @ ys) = serve env ops (serve env ops st xs) ys"
  proof (cases a)
    case False
    then show ?thesis by (simp add: st serve_def)
  next
    case True
    with inv st have c: "serve_inv (True, c)" and r: "http_inv (request (pending c))" by (simp_all add: serve_inv_def)
    obtain a1 c1 where t: "taken env 0 c (eat env (handler c) (request (pending c)) xs) = (a1, c1)" by fastforce
    have "serve_inv (a1, c1)" using taken_inv [OF eat_inv [OF r]] t by metis
    then have "serve env ops (a1, c1) ys =
        (if \<not> a1 then (a1, c1) else taken env 0 c1 (eat env (handler c1) (request (pending c1)) ys))"
      by (cases a1) (simp_all add: serve_taken, simp add: serve_def)
    with True c r t show ?thesis
      using taken_append [of "eat env (handler c) (request (pending c)) xs" env 0 c ys] eat_inv [OF r]
      by (simp add: st serve_taken eat_append)
  qed
  show "serve env ops st [] = st"
  proof (cases a)
    case True
    with inv st have c: "serve_inv (True, c)" by simp
    then have "eat env (handler c) (request (pending c)) [] = request (pending c)"
      by (simp add: eat_def feed_Nil serve_inv_def)
    moreover have "plain_pending (request (pending c)) = pending c"
      using c plain_pending_eq by (simp add: serve_inv_def)
    ultimately show ?thesis using True c by (simp add: st serve_taken taken_idle) (simp add: taken_idle serve_inv_def)
  qed (simp add: st serve_def)
qed

context plaintext_handler
begin

lemma taken_self:
  assumes "pending c = plain_pending r" "req_error r = None"
  shows "closed (send_completed_responses env ops now c) = taken env now c r"
proof -
  have "c\<lparr>pending := plain_pending r\<rparr> = c" using assms(1) by (cases c) simp
  with assms(2) show ?thesis by (simp only: taken_def if_True simp_thms)
qed

lemma taken_now: "http_inv r \<Longrightarrow> taken env now c r = taken env 0 c r"
proof (induction "todo r" arbitrary: r c rule: less_induct)
  case less
  from less.prems show ?case
  proof (cases rule: request_cases)
    case 3
    obtain resp h where q: "conn_request ops (handler c) (view r) = (resp, h)" by fastforce
    note IH = less.hyps [OF todo_decreases [OF 3] eat_inv [OF http_inv_new]]
    show ?thesis unfolding taken_complete [OF 3 q] by (simp add: Let_def IH)
  qed (simp_all add: taken_idle taken_failed)
qed

lemma serve_closed [simp]: "serve env ops (False, c) d = (False, c)"
  by (simp add: serve_def)

lemma foldl_serve_closed: "foldl (serve env ops) (False, c) ds = (False, c)"
  by (induction ds) simp_all

text \<open>The connection loop is the fold of \<open>serve\<close> over the data read.\<close>

lemma process_reads:
  assumes "http_inv r" "req_error r = None" "pending c = plain_pending r" "[] \<notin> fst ` set reads"
  shows "closed (process_connection env ops now c (map (\<lambda>(d, t). ReadOk d t) reads)) =
         foldl (serve env ops) (taken env 0 c r) (map fst reads)"
  using assms
proof (induction reads arbitrary: now c r)
  case Nil
  then have "closed (send_completed_responses env ops now c) = taken env now c r"
    by (simp add: taken_self)
  with Nil taken_now [of r env now c] show ?case by simp
next
  case (Cons rd reads)
  obtain d t where rd: "rd = (d, t)" by (cases rd)
  have d: "d \<noteq> []" using Cons.prems(4) by (auto simp: rd)
  have t0: "closed (send_completed_responses env ops now c) = taken env 0 c r"
    using Cons.prems taken_now [OF Cons.prems(1), of env now c] by (simp add: taken_self)
  obtain a c1 where s: "send_completed_responses env ops now c = (a, c1)" by fastforce
  show ?case
  proof (cases a)
    case False
    with s t0 have "taken env 0 c r = (False, c1\<lparr>pending := pending_default\<rparr>)" by simp
    then show ?thesis using False s by (simp add: foldl_serve_closed)
  next
    case True
    then have tk: "taken env 0 c r = (True, c1)" using s t0 by simp
    then have inv: "serve_inv (True, c1)" using taken_inv [OF Cons.prems(1), of env 0 c] by simp
    then have pl: "pending c1 = plain_pending (request (pending c1))"
      using plain_pending_eq by (simp add: serve_inv_def)
    let ?r = "eat env (handler c1) (request (pending c1)) d"
    let ?c2 = "c1\<lparr>pending := plain_pending ?r\<rparr>"
    have add: "handle_read env ops c1 (ReadOk d t) =
        (if req_error ?r = None then (True, ?c2) else (False, write_bad_request_and_close env ops ?c2))"
      using inv d add_request_data_plain [OF _ _ pl, of env t d]
      by (simp add: handle_read_def serve_inv_def plain Let_def)
    have sv: "serve env ops (True, c1) d = taken env 0 ?c2 ?r" using inv by (simp add: serve_taken)
    show ?thesis
    proof (cases "req_error ?r = None")
      case err: True
      have "closed (process_connection env ops t ?c2 (map (\<lambda>(d, t). ReadOk d t) reads)) =
          foldl (serve env ops) (taken env 0 ?c2 ?r) (map fst reads)"
        using err inv Cons.prems(4) eat_inv by (intro Cons.IH) (auto simp: serve_inv_def)
      then show ?thesis using add sv err s True tk by (simp add: rd)
    next
      case err: False
      then have "taken env 0 ?c2 ?r = (False, (write_bad_request_and_close env ops ?c2)\<lparr>pending := pending_default\<rparr>)"
        by (simp add: taken_failed)
      then show ?thesis using add sv err s True tk by (simp add: rd foldl_serve_closed)
    qed
  qed
qed

end

section \<open>Pipelines of requests\<close>

text \<open>A request on the wire (header block, body) and the view its handler gets.\<close>

definition request_ok :: "(bytes \<Rightarrow> hp_status) \<Rightarrow> bytes \<times> bytes \<times> request_view \<Rightarrow> bool" where
  "request_ok hp q =
     (case q of (h, b, v) \<Rightarrow>
        head_ok h \<and> length b \<le> MAX_BODY_BYTES
        \<and> (case hp (normalize_head h) of
              HpComplete n m u hs \<Rightarrow>
                n = length h \<and> fields_ok hs
                \<and> request_headers Map.empty hs ''content-length''
                    = (if b = [] then None else Some (show_nat (length b)))
                \<and> v = \<lparr>rv_method = m, rv_url = u, rv_headers = request_headers Map.empty hs,
                       rv_data = (if b = [] then None else Some b)\<rparr>
            | _ \<Rightarrow> False))"

definition wire :: "bytes \<times> bytes \<times> request_view \<Rightarrow> bytes" where
  "wire q = (case q of (h, b, v) \<Rightarrow> h @ b)"

fun answers :: "'h handler_ops \<Rightarrow> 'h \<Rightarrow> request_view list \<Rightarrow> bytes list \<times> 'h" where
  "answers ops h [] = ([], h)"
| "answers ops h (v # vs) =
     (case conn_request ops h v of (resp, h1) \<Rightarrow>
      case answers ops (after_response ops h1) vs of (ws, h2) \<Rightarrow> (data resp # ws, h2))"

fun keeps_open :: "'h handler_ops \<Rightarrow> 'h \<Rightarrow> request_view list \<Rightarrow> bool" where
  "keeps_open ops h [] = True"
| "keeps_open ops h (v # vs) =
     (case conn_request ops h v of (resp, h1) \<Rightarrow>
        data resp \<noteq> [] \<and> \<not> disconnect resp \<and> keeps_open ops (after_response ops h1) vs)"

locale default_handler = plaintext_handler +
  assumes default_body_policy: "request_body_policy ops h v = Inr default_policy"
begin

lemma eat_request:
  assumes "request_ok (httparse env) (hb, b, v)"
  shows "finished (eat env h request_new (hb @ b @ nxt)) \<and> view (eat env h request_new (hb @ b @ nxt)) = v
    \<and> buffer (eat env h request_new (hb @ b @ nxt)) = nxt"
proof -
  have "body_limit ops h t = Inr MAX_BODY_BYTES" for t
    by (simp add: body_limit_def default_body_policy default_policy_def)
  then show ?thesis
    using assms feed_request_exact [of hb "httparse env" _ _ _ b MAX_BODY_BYTES "body_limit ops h" nxt]
    by (auto simp: request_ok_def eat_def view_def split: hp_status.splits)
qed

lemma taken_pipeline:
  assumes "list_all (request_ok (httparse env)) qs" "keeps_open ops (handler c) (map (snd \<circ> snd) qs)"
    and "\<And>k. write_ok env k"
  shows "taken env now c (eat env (handler c) request_new (concat (map wire qs))) =
    (case answers ops (handler c) (map (snd \<circ> snd) qs) of (ws, h) \<Rightarrow>
       (True, c\<lparr>handler := h, out := out c @ ws, pending := pending_default\<rparr>))"
  using assms(1,2)
proof (induction qs arbitrary: c)
  case Nil
  have "req_error request_new = None" "\<not> complete request_new" by (simp_all add: request_new_def)
  then show ?case by (simp add: taken_idle plain_pending_default)
next
  case (Cons q qs)
  obtain hb b v where q: "q = (hb, b, v)" by (cases q)
  let ?r = "eat env (handler c) request_new (hb @ b @ concat (map wire qs))"
  obtain resp h1 where cr: "conn_request ops (handler c) v = (resp, h1)" by fastforce
  have r: "finished ?r" "view ?r = v" "buffer ?r = concat (map wire qs)"
    using eat_request [of env hb b v "handler c"] Cons.prems(1) q by auto
  let ?c3 = "c\<lparr>handler := after_response ops h1, out := out c @ [data resp]\<rparr>"
  have "taken env now ?c3 (eat env (handler ?c3) request_new (concat (map wire qs))) =
    (case answers ops (handler ?c3) (map (snd \<circ> snd) qs) of (ws, h) \<Rightarrow>
       (True, ?c3\<lparr>handler := h, out := out ?c3 @ ws, pending := pending_default\<rparr>))"
    using Cons.prems cr q by (intro Cons.IH) simp_all
  moreover have "wire q = hb @ b" by (simp add: q wire_def)
  ultimately show ?case
    using Cons.prems(2) cr q r taken_complete [OF r(1), of c resp h1 env now] assms(3)
    by (simp add: Let_def comp_def split: prod.splits)
qed

end

section \<open>Memory of a connection\<close>

definition conn_inv :: "'h conn \<Rightarrow> bool" where
  [inv_defs]: "conn_inv c \<longleftrightarrow> length (raw_buf c) \<le> MAX_ENCRYPTED_BUFFER_LEN \<and> http_inv (request (pending c))"

lemma conn_inv_new: "conn_inv (conn_new h)"
  by (simp add: conn_inv_def conn_new_def pending_default_def http_inv_new)

lemma conn_inv_cong:
  "raw_buf c' = raw_buf c \<Longrightarrow> pending c' = pending c \<Longrightarrow> conn_inv c \<Longrightarrow> conn_inv c'"
  by (simp add: conn_inv_def)

lemma bad_request_inv: "conn_inv c \<Longrightarrow> conn_inv (write_bad_request_and_close env ops c)"
  by (rule conn_inv_cong [of _ c]) (simp_all add: write_bad_request_and_close_def split: prod.split)

lemma pending_add_inv:
  "http_inv (request p) \<Longrightarrow> http_inv (request (snd (pending_add_data env ops h now p d)))"
  by (simp add: feed_pending feed_inv)

lemma send_inv:
  "conn_inv c \<Longrightarrow> conn_inv (snd (send_completed_responses env ops now c))
   \<and> (fst (send_completed_responses env ops now c)
        \<longrightarrow> \<not> complete (request (pending (snd (send_completed_responses env ops now c)))))"
proof (induction env ops now c rule: send_completed_responses.induct)
  case (1 env ops now c)
  show ?case
  proof (cases "complete (request (pending c))")
    case False
    with "1.prems" show ?thesis by (simp add: send_completed_responses.simps)
  next
    case True
    obtain resp h1 where q: "conn_request ops (handler c) (view (request (pending c))) = (resp, h1)" by fastforce
    obtain w h2 where w: "wire_of ops h1 resp = (w, h2)" by fastforce
    let ?c3 = "c\<lparr>handler := after_response ops h2, out := out c @ [w]\<rparr>"
    let ?l = "fst (take_leftover (request (pending c)))"
    let ?p = "pending_add_data env ops (handler ?c3) now pending_default ?l"
    have p: "conn_inv (?c3\<lparr>pending := snd ?p\<rparr>)"
      using "1.prems" pending_add_inv [of pending_default env ops "handler ?c3" now ?l]
      by (simp add: conn_inv_def pending_default_def http_inv_new)
    have d: "conn_inv (?c3\<lparr>pending := pending_default\<rparr>)" "\<not> complete (request pending_default)"
      using "1.prems" by (simp_all add: conn_inv_def pending_default_def http_inv_new) (simp add: request_new_def)
    have k: "conn_inv (c\<lparr>handler := x\<rparr>)" "conn_inv (?c3\<lparr>shut := b\<rparr>)" for x b
      using "1.prems" by (simp_all add: conn_inv_def)
    consider "w = [] \<or> \<not> write_ok env (length (out c))" | "disconnect resp" | "?l = []" | "isl (fst ?p)"
      | "\<not> (w = [] \<or> \<not> write_ok env (length (out c)))" "\<not> disconnect resp" "?l \<noteq> []" "\<not> isl (fst ?p)" by blast
    then show ?thesis
    proof cases
      case 5
      note IH = "1.IH" [OF _ q [symmetric] refl w [symmetric] refl 5(1) refl 5(2) refl refl 5(3,4) p]
      show ?thesis using IH True 5 q w by (simp add: send_completed_responses.simps [of env ops now c] Let_def)
    qed (use True q w p d k bad_request_inv [OF p] in
        \<open>simp_all add: send_completed_responses.simps [of env ops now c] Let_def\<close>)
  qed
qed

lemma add_request_data_inv: "conn_inv c \<Longrightarrow> conn_inv (snd (add_request_data env ops now c d))"
proof -
  assume c: "conn_inv c"
  let ?p = "pending_add_data env ops (handler c) now (pending c) d"
  have "conn_inv (c\<lparr>pending := snd ?p\<rparr>)"
    using c pending_add_inv [of "pending c" env ops "handler c" now d] by (simp add: conn_inv_def)
  then show ?thesis
    using bad_request_inv by (cases ?p; cases "fst ?p") (auto simp: add_request_data_def)
qed

lemma conn_inv_upd [simp]:
  "conn_inv (c\<lparr>handler := h\<rparr>) = conn_inv c"
  "conn_inv c \<Longrightarrow> length x \<le> MAX_ENCRYPTED_BUFFER_LEN \<Longrightarrow> conn_inv (c\<lparr>raw_buf := x\<rparr>)"
  "conn_inv c \<Longrightarrow> length x \<le> MAX_ENCRYPTED_BUFFER_LEN \<Longrightarrow> conn_inv (c\<lparr>handler := h, raw_buf := x\<rparr>)"
  "conn_inv c \<Longrightarrow> length x \<le> MAX_ENCRYPTED_BUFFER_LEN \<Longrightarrow> conn_inv (c\<lparr>raw_buf := x, handler := h\<rparr>)"
  by (simp_all add: conn_inv_def)

lemma ingest_encrypted_data_inv: "conn_inv c \<Longrightarrow> conn_inv (snd (ingest_encrypted_data env ops now c d))"
proof -
  assume c: "conn_inv c"
  have "length (raw_buf c) \<le> MAX_ENCRYPTED_BUFFER_LEN" using c by (simp add: conn_inv_def)
  then have n: "length (raw_buf c @ d) \<le> MAX_ENCRYPTED_BUFFER_LEN"
    if "\<not> MAX_ENCRYPTED_BUFFER_LEN - length (raw_buf c) < length d" using that by simp
  then have "length (drop k (raw_buf c @ d)) \<le> MAX_ENCRYPTED_BUFFER_LEN"
    if "\<not> MAX_ENCRYPTED_BUFFER_LEN - length (raw_buf c) < length d" for k using that by simp
  with n c show ?thesis
    by (auto simp: ingest_encrypted_data_def Let_def add_request_data_inv simp del: drop_append length_append length_drop
        split: prod.split option.split)
qed

lemma handle_read_inv: "conn_inv c \<Longrightarrow> conn_inv (snd (handle_read env ops c ev))"
  by (auto simp: handle_read_def ingest_encrypted_data_inv add_request_data_inv split: read_event.split)

lemma process_connection_inv:
  "conn_inv c \<Longrightarrow> conn_inv (snd (process_connection env ops now c evs))
   \<and> (fst (process_connection env ops now c evs)
        \<longrightarrow> \<not> complete (request (pending (snd (process_connection env ops now c evs)))))"
proof (induction evs arbitrary: now c)
  case Nil
  then show ?case by (simp add: send_inv)
next
  case (Cons ev evs)
  obtain a c1 where s: "send_completed_responses env ops now c = (a, c1)" by fastforce
  obtain a2 c2 where r: "handle_read env ops c1 ev = (a2, c2)" by fastforce
  have "conn_inv c1" using send_inv [OF Cons.prems, of env ops now] s by simp
  then have "conn_inv c2" using handle_read_inv [of c1 env ops ev] r by simp
  with Cons.IH [of c2 "event_time ev"] \<open>conn_inv c1\<close> s r show ?case by (cases a; cases a2) simp_all
qed

text \<open>
  Whatever a peer sends and whatever handler serves it, an open connection retains at most
  1 MiB of undeciphered input, at most 64 KiB of request headers or fewer bytes than the announced body
  (itself at most 32 MiB), and no complete request is left unanswered.
\<close>

theorem connection_memory_bounded:
  assumes "process_connection env ops now (conn_new h) evs = (True, c)"
  shows "length (raw_buf c) \<le> MAX_ENCRYPTED_BUFFER_LEN \<and> \<not> complete (request (pending c))
    \<and> length (buffer (request (pending c)))
        \<le> (if headers_complete (request (pending c)) then needed (request (pending c)) else MAX_HEADER_BYTES)
    \<and> (headers_complete (request (pending c)) \<longrightarrow> needed (request (pending c)) \<le> MAX_BODY_BYTES)"
proof -
  have i: "conn_inv c" "\<not> complete (request (pending c))"
    using process_connection_inv [OF conn_inv_new, of env ops now h evs] assms by simp_all
  then show ?thesis
    by (cases "headers_complete (request (pending c))"; cases "req_error (request (pending c))")
       (auto simp: conn_inv_def http_inv_def)
qed

lemma connection_memory_bounded_witness:
  "let ops = \<lparr>conn_request = \<lambda>h v. (bad_request, h), request_body_policy = \<lambda>h v. Inr default_policy,
              decrypt_incoming = \<lambda>h d. (Some (d, length d), h), encrypt_outgoing = \<lambda>h d. (d, h),
              is_encrypted = \<lambda>h. False, after_response = \<lambda>h. h\<rparr>;
       env = \<lparr>httparse = \<lambda>_. HpPartial, write_ok = \<lambda>_. True\<rparr>
   in length (raw_buf (snd (process_connection env ops 0 (conn_new ()) [ReadOk [65] 1]))) \<le> MAX_ENCRYPTED_BUFFER_LEN"
proof -
  let ?ops = "\<lparr>conn_request = \<lambda>h v. (bad_request, h), request_body_policy = \<lambda>h v. Inr default_policy,
              decrypt_incoming = \<lambda>h d. (Some (d, length d), h), encrypt_outgoing = \<lambda>h d. (d, h),
              is_encrypted = \<lambda>h. False, after_response = \<lambda>h. h\<rparr> :: unit handler_ops"
  let ?env = "\<lparr>httparse = \<lambda>_. HpPartial, write_ok = \<lambda>_. True\<rparr>"
  have "add_data_with_body_limit (\<lambda>_. HpPartial) oh request_new [65] =
      (Inr (), request_new\<lparr>buffer := [65], request_line_start := Some 0\<rparr>)" for oh
    by (simp add: request_new_def add_data_with_body_limit_def ingest_def push_byte_def
        at_blank_line_def ends_with_def CR_def LF_def MAX_HEADER_BYTES_def)
  then have "handle_read ?env ?ops (conn_new ()) (ReadOk [65] 1) =
      (True, (conn_new ())\<lparr>pending := \<lparr>request = request_new\<lparr>buffer := [65], request_line_start := Some 0\<rparr>,
          body_deadline = None\<rparr>\<rparr>)"
    by (simp add: handle_read_def add_request_data_def pending_add_data_def conn_new_def pending_default_def
        new_deadline_def)
  then have "fst (process_connection ?env ?ops 0 (conn_new ()) [ReadOk [65] 1])"
    by (simp add: send_idle conn_new_def pending_default_def) (simp add: request_new_def send_idle)
  then obtain p where p: "process_connection ?env ?ops 0 (conn_new ()) [ReadOk [65] 1] = p" "fst p" by blast
  from p(2) have "p = (True, snd p)" by (cases p) simp
  with p(1) have "process_connection ?env ?ops 0 (conn_new ()) [ReadOk [65] 1] = (True, snd p)" by (rule trans)
  from connection_memory_bounded [OF this] show ?thesis unfolding Let_def p(1) by (rule conjunct1)
qed

end
