(* ===== verification/Raop_Connection.thy ===== *)
theory Raop_Connection
  imports Rtsp_Framing Server_Run
begin

text \<open>
  The connection handler of src/raop/connection.rs: a fresh connection, and the operations the
  connection loop calls in the default build, where nothing is encrypted. They are an instance
  of the interfaces of Server_Run, whose facts are stated here for the real dispatcher.
\<close>

section \<open>Fresh connections\<close>

definition MAX_NONCE_LEN :: nat where "MAX_NONCE_LEN = 32"

definition socket_ip_bytes :: "socket_addr \<Rightarrow> bytes" where
  "socket_ip_bytes a = (case fst a of V4 ip \<Rightarrow> ip | V6 ip \<Rightarrow> ip)"

text \<open>\<open>rnd\<close> are the 16 random bytes of the nonce.\<close>

definition new_raop_connection ::
  "raop_env \<Rightarrow> bytes \<Rightarrow> raop_shared \<Rightarrow> socket_addr \<Rightarrow> socket_addr \<Rightarrow> raop_conn" where
  "new_raop_connection env rnd sh local remote =
     \<lparr>c_rtp = None, c_fairplay = fairplay_new, c_pairing = create_session (sh_pairing sh),
      c_local_addr = socket_ip_bytes local, c_remote_addr = socket_ip_bytes remote,
      c_remote_socket = remote, c_nonce = generate_nonce (env_md5 env) rnd MAX_NONCE_LEN,
      c_shared = sh, c_stopped = [], c_requests = 0, c_app = []\<rparr>"

record raop_connection_handler =
  h_conn :: raop_conn
  h_remote_addr :: string

definition conn_init ::
  "raop_env \<Rightarrow> bytes \<Rightarrow> raop_shared \<Rightarrow> socket_addr \<Rightarrow> socket_addr \<Rightarrow> raop_connection_handler option" where
  "conn_init env rnd sh local remote =
     (let remote_str = ip_show env (fst remote) in
      Some \<lparr>h_conn = notify (OnClientConnected remote_str) (new_raop_connection env rnd sh local remote),
            h_remote_addr = remote_str\<rparr>)"

definition drop_handler :: "raop_connection_handler \<Rightarrow> raop_connection_handler" where
  "drop_handler h = h\<lparr>h_conn := notify (OnClientDisconnected (h_remote_addr h)) (h_conn h)\<rparr>"

section \<open>Operations of the default build\<close>

definition ap1_conn_request ::
  "bool \<Rightarrow> raop_env \<Rightarrow> raop_connection_handler \<Rightarrow> request_view \<Rightarrow> http_response \<times> raop_connection_handler" where
  "ap1_conn_request pw env h rv =
     (case dispatch pw env (h_conn h) rv of (resp, c) \<Rightarrow> (resp, h\<lparr>h_conn := c\<rparr>))"

definition ap1_ops :: "bool \<Rightarrow> raop_env \<Rightarrow> raop_connection_handler handler_ops" where
  "ap1_ops pw env =
     \<lparr>conn_request = ap1_conn_request pw env,
      request_body_policy = (\<lambda>h rv. rtsp_body_policy pw (h_conn h) rv),
      decrypt_incoming = (\<lambda>h d. (Some (d, length d), h)),
      encrypt_outgoing = (\<lambda>h d. (d, h)),
      is_encrypted = (\<lambda>h. False),
      after_response = (\<lambda>h. h)\<rparr>"

interpretation ap1: default_handler "ap1_ops False renv" for renv
  by unfold_locales
    (auto simp: ap1_ops_def rtsp_body_policy_def pipewire_auth_setup_route_def default_policy_def)

section \<open>Invariant of a served connection\<close>

lemma conn_ok_new: "conn_ok env (new_raop_connection env rnd sh local remote)"
  by (simp add: conn_ok_def new_raop_connection_def pair_inv_create fairplay_inv_new)

text \<open>
  C13: every connection stays consistent. After any sequence of requests to a fresh connection,
  in any order and with any content, pairing is finished only on a verified signature, a FairPlay
  key message in use has an accepted version and mode, and a session has a consistent packet
  buffer, announces the format of that buffer, and a pending flush target is a sequence number
  some FLUSH asked for; identity, addresses and nonce are those of the connection.
\<close>

theorem connection_consistent:
  assumes "dispatch_all pw env (new_raop_connection env rnd sh local remote) rvs = (rs, c)"
  shows "pair_inv (env_pair env) (sh_pairing sh) (c_pairing c) \<and> fairplay_inv (c_fairplay c)
    \<and> (\<forall>r. c_rtp c = Some r \<longrightarrow> rtp_inv r)
    \<and> identity c = identity (new_raop_connection env rnd sh local remote)"
proof -
  let ?c0 = "new_raop_connection env rnd sh local remote"
  have "conn_ok env (snd (dispatch_all pw env ?c0 rvs))" by (rule ok.inv_requests [OF conn_ok_new])
  moreover have "identity (snd (dispatch_all pw env ?c0 rvs)) = identity ?c0" by (rule identity.inv_requests) simp
  ultimately show ?thesis
    using assms by (simp add: conn_ok_def) (simp add: identity_def new_raop_connection_def)
qed

section \<open>Plaintext connections\<close>

lemma request_new_fresh [simp]: "req_error request_new = None" "\<not> complete request_new"
  by (simp_all add: request_new_def)

lemma process_fresh:
  assumes "[] \<notin> fst ` set reads"
  shows "closed (process_connection net (ap1_ops False env) now (conn_new h) (map (\<lambda>(d, t). ReadOk d t) reads))
    = serve net (ap1_ops False env) (True, conn_new h) (concat (map fst reads))"
proof -
  have pd: "pending (conn_new h) = plain_pending request_new" by (simp add: conn_new_def plain_pending_default)
  have t: "ap1.taken env net 0 (conn_new h) request_new = (True, conn_new h)"
    using pd ap1.taken_idle [where r = request_new and env = net and c = "conn_new h"] by (simp add: conn_new_def)
  then have "ap1.serve_inv (True, conn_new h)" using ap1.taken_inv [OF http_inv_new] by metis
  then show ?thesis
    using ap1.process_reads [OF http_inv_new _ pd assms, where env = net and now = now] ap1.run.foldl_concat t by simp
qed

text \<open>
  C12: a connection does not depend on how TCP cuts the request stream: two sequences of reads
  that carry the same bytes give the same answers, the same events and the same connection
  state, and either both leave the connection open or both close it.
\<close>

theorem rtsp_resegment:
  assumes "[] \<notin> fst ` set reads" and "[] \<notin> fst ` set reads'"
    and "concat (map fst reads) = concat (map fst reads')"
  shows "closed (process_connection net (ap1_ops False env) now (conn_new h) (map (\<lambda>(d, t). ReadOk d t) reads))
    = closed (process_connection net (ap1_ops False env) now' (conn_new h) (map (\<lambda>(d, t). ReadOk d t) reads'))"
  using assms by (simp add: process_fresh)

lemma dispatch_data: "data (fst (dispatch pw env c rv)) \<noteq> []"
  by (auto simp: dispatch_def unauthorized_response_def finish_def Let_def CRLF_def
    split: option.split route_resolution.split prod.split)

lemma answers_dispatch:
  "answers (ap1_ops pw env) h vs =
   (map data (fst (dispatch_all pw env (h_conn h) vs)), h\<lparr>h_conn := snd (dispatch_all pw env (h_conn h) vs)\<rparr>)"
  by (induction vs arbitrary: h) (simp_all add: ap1_ops_def ap1_conn_request_def split: prod.split)

lemma keeps_open_dispatch:
  "keeps_open (ap1_ops pw env) h vs \<longleftrightarrow> (\<forall>r \<in> set (fst (dispatch_all pw env (h_conn h) vs)). \<not> disconnect r)"
proof (induction vs arbitrary: h)
  case (Cons v vs)
  then show ?case
    using dispatch_data [of pw env "h_conn h" v]
    by (auto simp: ap1_ops_def ap1_conn_request_def split: prod.splits)
qed simp

text \<open>
  C1: requests are answered in order, one response each. A client that pipelines well-formed
  requests, cut into segments in any way, receives exactly the responses the dispatcher gives
  when it handles the requests one after another, and the connection ends in the state they
  leave, as long as no response asks for the connection to be closed.
\<close>

theorem rtsp_pipeline:
  assumes "list_all (request_ok (httparse net)) qs" and "\<And>k. write_ok net k"
    and "[] \<notin> fst ` set reads" and "concat (map fst reads) = concat (map wire qs)"
    and "dispatch_all False env (h_conn h) (map (snd \<circ> snd) qs) = (rs, c)"
    and "\<forall>r \<in> set rs. \<not> disconnect r"
  shows "closed (process_connection net (ap1_ops False env) now (conn_new h) (map (\<lambda>(d, t). ReadOk d t) reads))
    = (True, (conn_new h)\<lparr>handler := h\<lparr>h_conn := c\<rparr>, out := map data rs\<rparr>)"
proof -
  let ?ops = "ap1_ops False env" and ?c0 = "conn_new h"
  have h: "handler ?c0 = h" "out ?c0 = []" "pending ?c0 = pending_default" "request pending_default = request_new"
    by (simp_all add: conn_new_def pending_default_def)
  have "ap1.serve_inv (True, ?c0)"
    using http_inv_new by (simp add: ap1.serve_inv_def h) (simp add: pending_default_def)
  then have "serve net ?ops (True, ?c0) (concat (map wire qs)) =
      ap1.taken env net 0 ?c0 (ap1.eat env net h request_new (concat (map wire qs)))"
    by (simp add: ap1.serve_taken h)
  also have "\<dots> = (True, ?c0\<lparr>handler := h\<lparr>h_conn := c\<rparr>, out := map data rs, pending := pending_default\<rparr>)"
    using ap1.taken_pipeline [where env = net and qs = qs and c = ?c0 and now = 0] assms
    by (simp add: h answers_dispatch keeps_open_dispatch)
  finally show ?thesis
    using process_fresh [OF assms(3), of net env now h] assms(4) by (simp add: conn_new_def)
qed

section \<open>Examples\<close>

lemma connection_consistent_witness:
  "let sh = c_shared (sample_conn []);
       c = new_raop_connection sample_env [] sh (V4 [10, 0, 0, 1], 5000) (V4 [10, 0, 0, 2], 50000);
       c' = snd (dispatch_all False sample_env c [sample_request ''OPTIONS'' Map.empty None])
   in fairplay_inv (c_fairplay c') \<and> pair_inv sample_crypto (sh_pairing sh) (c_pairing c')"
proof -
  let ?sh = "c_shared (sample_conn [])" and ?l = "(V4 [10, 0, 0, 1], 5000)" and ?r = "(V4 [10, 0, 0, 2], 50000)"
  obtain rs c' where d: "dispatch_all False sample_env (new_raop_connection sample_env [] ?sh ?l ?r)
      [sample_request ''OPTIONS'' Map.empty None] = (rs, c')"
    by (cases "dispatch_all False sample_env (new_raop_connection sample_env [] ?sh ?l ?r)
      [sample_request ''OPTIONS'' Map.empty None]")
  have "env_pair sample_env = sample_crypto" by (simp add: sample_env_def)
  with connection_consistent [OF d] show ?thesis unfolding Let_def d by simp
qed

definition sample_handler :: raop_connection_handler where
  "sample_handler = \<lparr>h_conn = sample_conn [], h_remote_addr = ''10.0.0.2''\<rparr>"

definition sample_head :: "bytes \<Rightarrow> bytes" where
  "sample_head v = as_bytes ''A * '' @ v @ as_bytes ''/1.0'' @ CRLF @ CRLF"

definition sample_net :: net_env where
  "sample_net = \<lparr>httparse = \<lambda>x. if x = sample_head (as_bytes ''HTTP'')
       then HpComplete (length x) (Some ''A'') (Some ''*'') [] else HpPartial,
     write_ok = \<lambda>_. True\<rparr>"

lemma rtsp_resegment_witness:
  "closed (process_connection sample_net (ap1_ops False sample_env) 0 (conn_new sample_handler) [ReadOk [65, 66] 1])
   = closed (process_connection sample_net (ap1_ops False sample_env) 0 (conn_new sample_handler) [ReadOk [65] 1, ReadOk [66] 2])"
  using rtsp_resegment [of "[([65, 66], 1)]" "[([65], 1), ([66], 2)]" sample_net sample_env 0 sample_handler 0] by simp

lemma sample_request_ok:
  "request_ok (httparse sample_net) (sample_head (as_bytes ''RTSP''), [], sample_request ''A'' Map.empty None)"
proof -
  let ?h = "sample_head (as_bytes ''RTSP'')"
  have "head_ok ?h"
    by (simp add: head_ok_def sample_head_def CRLF_def CR_def LF_def as_bytes_def blank_end_def ends_with_def
        MAX_HEADER_BYTES_def upt_rec)
  moreover have "normalize_head ?h = sample_head (as_bytes ''HTTP'')"
    by (simp add: normalize_head_def normalize_line_def sample_head_def CRLF_def CR_def LF_def as_bytes_def
        ends_with_def copy_at_def)
  moreover have "length ?h = length (sample_head (as_bytes ''HTTP''))" by (simp add: sample_head_def)
  ultimately show ?thesis
    by (simp add: request_ok_def sample_net_def fields_ok_def request_headers_def sample_request_def)
qed

lemma rtsp_pipeline_witness:
  "let q = (sample_head (as_bytes ''RTSP''), [] :: bytes, sample_request ''A'' Map.empty None);
       w = wire q @ wire q;
       rs = fst (dispatch_all False sample_env (sample_conn []) [snd (snd q), snd (snd q)])
   in out (snd (closed (process_connection sample_net (ap1_ops False sample_env) 0 (conn_new sample_handler)
        [ReadOk (take 5 w) 1, ReadOk (drop 5 w) 2]))) = map data rs \<and> length rs = 2"
proof -
  let ?q = "(sample_head (as_bytes ''RTSP''), [] :: bytes, sample_request ''A'' Map.empty None)"
  let ?w = "wire ?q @ wire ?q"
  obtain rs c where d: "dispatch_all False sample_env (h_conn sample_handler) (map (snd \<circ> snd) [?q, ?q]) = (rs, c)"
    by (cases "dispatch_all False sample_env (h_conn sample_handler) (map (snd \<circ> snd) [?q, ?q])")
  have n: "\<forall>r \<in> set rs. \<not> disconnect r" "length rs = 2"
    using d by (auto simp: sample_handler_def sample_request_def dispatch_def authorized_def resolve_handler_def ROUTES_def
      pipewire_auth_setup_route_def PIPEWIRE_AUTH_SETUP_ROUTE_def request_method_def new_response_def response_new_def
      add_header_def sample_conn_def next_request_def Let_def)
  have w: "length ?w > 5" by (simp add: wire_def sample_head_def)
  have "closed (process_connection sample_net (ap1_ops False sample_env) 0 (conn_new sample_handler)
      (map (\<lambda>(d, t). ReadOk d t) [(take 5 ?w, 1), (drop 5 ?w, 2)]))
    = (True, (conn_new sample_handler)\<lparr>handler := sample_handler\<lparr>h_conn := c\<rparr>, out := map data rs\<rparr>)"
  proof (rule rtsp_pipeline [OF _ _ _ _ d n(1)])
    show "concat (map fst [(take 5 ?w, 1 :: nat), (drop 5 ?w, 2)]) = concat (map wire [?q, ?q])"
      by (simp del: take_append drop_append)
    show "[] \<notin> fst ` set [(take 5 ?w, 1 :: nat), (drop 5 ?w, 2)]"
      using w by (simp del: take_append drop_append length_append) (simp add: wire_def sample_head_def CRLF_def)
  qed (simp_all add: sample_request_ok, simp add: sample_net_def)
  then have "closed (process_connection sample_net (ap1_ops False sample_env) 0 (conn_new sample_handler)
      [ReadOk (take 5 ?w) 1, ReadOk (drop 5 ?w) 2])
    = (True, (conn_new sample_handler)\<lparr>handler := sample_handler\<lparr>h_conn := c\<rparr>, out := map data rs\<rparr>)" (is "?run = _")
    by (simp only: list.map prod.case)
  then have "out (snd ?run) = map data rs" by (metis conn.select_convs(4) conn.surjective conn.update_convs(1,4) snd_conv)
  moreover have "fst (dispatch_all False sample_env (sample_conn []) [snd (snd ?q), snd (snd ?q)]) = rs"
    using d by (simp add: sample_handler_def)
  ultimately show ?thesis unfolding Let_def using n(2) by blast
qed

end
