(* ===== verification/Encrypted_Connection.thy ===== *)
theory Encrypted_Connection
  imports Server_Run Chacha_Transport
begin

text \<open>
  The connection handler of src/raop/connection.rs in a build with AirPlay 2: it switches to the
  encrypted transport after the response that completes pair-verify. What can be said of the
  writes of any handler over the whole connection loop is the locale \<open>write_invariant\<close>.
\<close>

section \<open>Operations\<close>

text \<open>Generic in the connection and its dispatcher; \<open>secret\<close> reads the shared secret that a
  completed pair-verify leaves in the connection.\<close>

record 'c ap2_handler =
  a_conn :: 'c
  cipher :: "encrypted_channel option"
  pending_secret :: "bytes option"

record transport_crypto =
  tc_hkdf :: hkdf_expand
  tc_seal :: aead_seal
  tc_open :: aead_open

definition ap2_conn_request ::
  "('c \<Rightarrow> request_view \<Rightarrow> http_response \<times> 'c) \<Rightarrow> ('c \<Rightarrow> bytes option) \<Rightarrow> 'c ap2_handler \<Rightarrow> request_view
   \<Rightarrow> http_response \<times> 'c ap2_handler" where
  "ap2_conn_request disp secret h rv =
     (case disp (a_conn h) rv of (resp, c) \<Rightarrow>
        let h1 = h\<lparr>a_conn := c\<rparr> in
        (resp,
         (case (cipher h1, secret c) of
            (None, Some s) \<Rightarrow> h1\<lparr>pending_secret := Some s\<rparr>
          | _ \<Rightarrow> h1)))"

definition ap2_after_response :: "transport_crypto \<Rightarrow> 'c ap2_handler \<Rightarrow> 'c ap2_handler" where
  "ap2_after_response tc h =
     (case (cipher h, pending_secret h) of
        (None, Some s) \<Rightarrow>
          (case channel_control (tc_hkdf tc) s of
             Inr ch \<Rightarrow> h\<lparr>pending_secret := None, cipher := Some ch\<rparr>
           | Inl e \<Rightarrow> h\<lparr>pending_secret := None\<rparr>)
      | _ \<Rightarrow> h)"

definition ap2_decrypt_incoming :: "transport_crypto \<Rightarrow> 'c ap2_handler \<Rightarrow> bytes \<Rightarrow> (bytes \<times> nat) option \<times> 'c ap2_handler" where
  "ap2_decrypt_incoming tc h d =
     (case cipher h of
        None \<Rightarrow> (Some (d, length d), h)
      | Some ch \<Rightarrow>
          (case decrypt (tc_open tc) (decrypt_ctx ch) d of
             (Inr r, ctx) \<Rightarrow> (Some r, h\<lparr>cipher := Some (ch\<lparr>decrypt_ctx := ctx\<rparr>)\<rparr>)
           | (Inl e, ctx) \<Rightarrow> (None, h\<lparr>cipher := Some (ch\<lparr>decrypt_ctx := ctx\<rparr>)\<rparr>)))"

definition ap2_encrypt_outgoing :: "transport_crypto \<Rightarrow> 'c ap2_handler \<Rightarrow> bytes \<Rightarrow> bytes \<times> 'c ap2_handler" where
  "ap2_encrypt_outgoing tc h d =
     (case cipher h of
        None \<Rightarrow> (d, h)
      | Some ch \<Rightarrow>
          (case encrypt (tc_seal tc) (encrypt_ctx ch) d of
             (Inr w, ctx) \<Rightarrow> (w, h\<lparr>cipher := Some (ch\<lparr>encrypt_ctx := ctx\<rparr>)\<rparr>)
           | (Inl e, ctx) \<Rightarrow> ([], h\<lparr>cipher := Some (ch\<lparr>encrypt_ctx := ctx\<rparr>)\<rparr>)))"

definition ap2_ops ::
  "transport_crypto \<Rightarrow> ('c \<Rightarrow> request_view \<Rightarrow> http_response \<times> 'c) \<Rightarrow> ('c \<Rightarrow> bytes option)
   \<Rightarrow> ('c \<Rightarrow> request_view \<Rightarrow> protocol_error + body_policy) \<Rightarrow> 'c ap2_handler handler_ops" where
  "ap2_ops tc disp secret policy =
     \<lparr>conn_request = ap2_conn_request disp secret,
      request_body_policy = (\<lambda>h rv. policy (a_conn h) rv),
      decrypt_incoming = ap2_decrypt_incoming tc,
      encrypt_outgoing = ap2_encrypt_outgoing tc,
      is_encrypted = (\<lambda>h. cipher h \<noteq> None),
      after_response = ap2_after_response tc\<rparr>"

section \<open>Writes of a connection\<close>

locale write_invariant =
  fixes ops :: "'h handler_ops"
    and J :: "'h \<Rightarrow> bytes list \<Rightarrow> bool"
  assumes J_request: "J h ws \<Longrightarrow> conn_request ops h v = (resp, h1) \<Longrightarrow> J h1 ws"
    and J_drop: "J h ws \<Longrightarrow> wire_of ops h resp = (w, h1) \<Longrightarrow> J h1 ws"
    and J_write: "J h ws \<Longrightarrow> wire_of ops h resp = (w, h1) \<Longrightarrow> J h1 (ws @ [w])"
    and J_after: "J h ws \<Longrightarrow> J (after_response ops h) ws"
    and J_decrypt: "J h ws \<Longrightarrow> decrypt_incoming ops h d = (r, h1) \<Longrightarrow> J h1 ws"
begin

lemma J_bad_request:
  "J (handler c) (out c) \<Longrightarrow>
   J (handler (write_bad_request_and_close env ops c)) (out (write_bad_request_and_close env ops c))"
proof -
  assume j: "J (handler c) (out c)"
  obtain w h where w: "wire_of ops (handler c) bad_request = (w, h)" by fastforce
  from J_drop [OF j w] J_write [OF j w] show ?thesis by (simp add: write_bad_request_and_close_def w)
qed

abbreviation JC :: "'h conn \<Rightarrow> bool" where
  "JC c \<equiv> J (handler c) (out c)"

lemma J_send_aux: "o' = ops \<Longrightarrow> JC c \<Longrightarrow> JC (snd (send_completed_responses env o' now c))"
proof (induction env o' now c rule: send_completed_responses.induct)
  case (1 env o' now c)
  show ?case
  proof (cases "complete (request (pending c))")
    case False
    with "1.prems" show ?thesis by (simp add: send_completed_responses.simps)
  next
    case True
    note [simp] = \<open>o' = ops\<close>
    obtain resp h1 where q: "conn_request ops (handler c) (view (request (pending c))) = (resp, h1)" by fastforce
    obtain w h2 where w: "wire_of ops h1 resp = (w, h2)" by fastforce
    have J: "J h2 (out c)" "J (after_response ops h2) (out c @ [w])"
      using "1.prems" J_request [OF _ q] J_drop [OF _ w] J_write [OF _ w] J_after by blast+
    let ?c3 = "c\<lparr>handler := after_response ops h2, out := out c @ [w]\<rparr>"
    let ?l = "fst (take_leftover (request (pending c)))"
    let ?p = "pending_add_data env ops (handler ?c3) now pending_default ?l"
    have p: "JC (?c3\<lparr>pending := snd ?p\<rparr>)" using J by simp
    consider "w = [] \<or> \<not> write_ok env (length (out c))" | "disconnect resp" | "?l = []" | "isl (fst ?p)"
      | "\<not> (w = [] \<or> \<not> write_ok env (length (out c)))" "\<not> disconnect resp" "?l \<noteq> []" "\<not> isl (fst ?p)" by blast
    then show ?thesis
    proof cases
      case 5
      note IH = "1.IH" [unfolded \<open>o' = ops\<close>, OF _ q [symmetric] refl w [symmetric] refl 5(1) refl 5(2) refl refl 5(3,4) refl p]
      show ?thesis using IH True 5 q w by (simp add: send_completed_responses.simps [of env ops now c] Let_def)
    qed (use True q w p J J_bad_request [OF p] in
        \<open>simp_all add: send_completed_responses.simps [of env ops now c] Let_def\<close>)
  qed
qed

lemmas J_send = J_send_aux [OF refl]

lemma J_add_request_data: "JC c \<Longrightarrow> JC (snd (add_request_data env ops now c d))"
  using J_bad_request [of "c\<lparr>pending := p\<rparr>" for p]
  by (auto simp: add_request_data_def split: prod.split sum.split)

lemma J_ingest: "JC c \<Longrightarrow> JC (snd (ingest_encrypted_data env ops now c d))"
proof -
  assume "JC c"
  obtain r h where d: "decrypt_incoming ops (handler c) (raw_buf c @ d) = (r, h)" by fastforce
  have "JC (c\<lparr>raw_buf := x, handler := h, raw_buf := y\<rparr>)" for x y using J_decrypt [OF \<open>JC c\<close> d] by simp
  then show ?thesis
    using J_add_request_data \<open>JC c\<close> J_decrypt [OF \<open>JC c\<close> d]
    by (auto simp: ingest_encrypted_data_def Let_def d split: option.split)
qed

lemma J_handle_read: "JC c \<Longrightarrow> JC (snd (handle_read env ops c ev))"
  by (simp add: handle_read_def J_ingest J_add_request_data split: read_event.split)

lemma J_process_sent:
  "JC (snd (send_completed_responses env ops now c)) \<Longrightarrow> JC (snd (process_connection env ops now c evs))"
proof (induction evs arbitrary: c now)
  case (Cons ev evs)
  obtain a c1 where s: "send_completed_responses env ops now c = (a, c1)" by fastforce
  obtain a2 c2 where r: "handle_read env ops c1 ev = (a2, c2)" by fastforce
  have "JC c1" using Cons.prems s by simp
  then have "JC c2" using J_handle_read [of c1 env ev] r by simp
  then show ?case using s r \<open>JC c1\<close> Cons.IH [OF J_send] by (cases a; cases a2) simp_all
qed simp

lemma J_process: "JC c \<Longrightarrow> JC (snd (process_connection env ops now c evs))"
  by (rule J_process_sent) (rule J_send)

end

section \<open>Sealed writes\<close>

text \<open>Every write is what \<open>encrypt\<close> makes of some message under the key \<open>k\<close> (nothing, when it
  fails), with counters that never go back: from \<open>n\<close> at the first write to \<open>m\<close> after the last.\<close>

fun sealed_writes :: "aead_seal \<Rightarrow> bytes \<Rightarrow> nat \<Rightarrow> bytes list \<Rightarrow> nat \<Rightarrow> bool" where
  "sealed_writes seal k n [] m \<longleftrightarrow> n \<le> m"
| "sealed_writes seal k n (w # ws) m \<longleftrightarrow>
     (\<exists>ctx msg r ctx'. key ctx = k \<and> n \<le> unat (counter ctx) \<and> encrypt seal ctx msg = (r, ctx')
        \<and> w = (case r of Inr x \<Rightarrow> x | Inl _ \<Rightarrow> []) \<and> sealed_writes seal k (unat (counter ctx')) ws m)"

lemma encrypt_blocks_mono:
  "encrypt_blocks seal ctx x cs = (r, ctx') \<Longrightarrow> key ctx' = key ctx \<and> unat (counter ctx) \<le> unat (counter ctx')"
proof (induction seal ctx x cs rule: encrypt_blocks.induct)
  case (2 seal ctx x chunk cs)
  then show ?case
    using unat_inc_counter [of "counter ctx"]
    by (fastforce simp: Let_def split: option.splits if_splits)
qed simp

lemma encrypt_mono:
  "encrypt seal ctx m = (r, ctx') \<Longrightarrow> key ctx' = key ctx \<and> unat (counter ctx) \<le> unat (counter ctx')"
  by (auto simp: encrypt_def Let_def split: if_splits dest: encrypt_blocks_mono)

lemma sealed_writes_mono: "sealed_writes seal k n ws m \<Longrightarrow> m \<le> m' \<Longrightarrow> sealed_writes seal k n ws m'"
  by (induction ws arbitrary: n) fastforce+

lemma sealed_writes_snoc:
  assumes "sealed_writes seal k n ws (unat (counter ctx))" and "key ctx = k" and "encrypt seal ctx msg = (r, ctx')"
  shows "sealed_writes seal k n (ws @ [case r of Inr x \<Rightarrow> x | Inl _ \<Rightarrow> []]) (unat (counter ctx'))"
  using assms(1)
proof (induction ws arbitrary: n)
  case Nil
  then show ?case using assms(2,3) by auto
qed fastforce

definition sealed_state :: "transport_crypto \<Rightarrow> bytes \<Rightarrow> nat \<Rightarrow> bytes list \<Rightarrow> 'c ap2_handler \<Rightarrow> bytes list \<Rightarrow> bool" where
  "sealed_state tc k n ws0 h ws \<longleftrightarrow>
     (\<exists>ch vs. cipher h = Some ch \<and> key (encrypt_ctx ch) = k \<and> ws = ws0 @ vs
        \<and> sealed_writes (tc_seal tc) k n vs (unat (counter (encrypt_ctx ch))))"

interpretation enc: write_invariant "ap2_ops tc disp secret policy" "sealed_state tc k n ws0"
  for tc disp secret policy k n ws0
proof
  fix h h1 :: "'a ap2_handler" and ws w resp
  assume "sealed_state tc k n ws0 h ws" and "wire_of (ap2_ops tc disp secret policy) h resp = (w, h1)"
  then obtain ch vs r ctx where s: "cipher h = Some ch" "key (encrypt_ctx ch) = k" "ws = ws0 @ vs"
      "sealed_writes (tc_seal tc) k n vs (unat (counter (encrypt_ctx ch)))"
    and e: "encrypt (tc_seal tc) (encrypt_ctx ch) (data resp) = (r, ctx)"
      "w = (case r of Inr x \<Rightarrow> x | Inl _ \<Rightarrow> [])" "cipher h1 = Some (ch\<lparr>encrypt_ctx := ctx\<rparr>)"
    by (auto simp: sealed_state_def wire_of_def ap2_ops_def ap2_encrypt_outgoing_def split: prod.splits sum.splits)
  from encrypt_mono [OF e(1)] s sealed_writes_mono [OF s(4)] show "sealed_state tc k n ws0 h1 ws"
    by (simp add: sealed_state_def e(3))
  from encrypt_mono [OF e(1)] s(1-3) sealed_writes_snoc [OF s(4,2) e(1)] show "sealed_state tc k n ws0 h1 (ws @ [w])"
    by (simp add: sealed_state_def e(2,3))
qed (auto simp: sealed_state_def ap2_ops_def ap2_conn_request_def ap2_after_response_def ap2_decrypt_incoming_def
  Let_def split: prod.splits sum.splits)

text \<open>
  C10: the response that completes pairing is the last one in clear. When the handler of a pending
  request leaves a shared secret from which the control channel can be set up, that response is
  written as it is, and whatever arrives later, everything the connection writes after it is
  sealed under the channel's write key with counters that never repeat, or is nothing at all;
  no later response is ever sent in clear, error responses included.
\<close>

theorem transport_switch:
  assumes "cipher (handler c) = None" and "complete (request (pending c))"
    and "disp (a_conn (handler c)) (view (request (pending c))) = (resp, cn)" and "secret cn = Some s"
    and "channel_control (tc_hkdf tc) s = Inr ch" and "data resp \<noteq> []" and "write_ok env (length (out c))"
    and "process_connection env (ap2_ops tc disp secret policy) now c evs = (a, c')"
  shows "\<exists>ws m. out c' = out c @ data resp # ws \<and> cipher (handler c') \<noteq> None
    \<and> sealed_writes (tc_seal tc) (key (encrypt_ctx ch)) 0 ws m"
proof -
  let ?ops = "ap2_ops tc disp secret policy"
  let ?J = "sealed_state tc (key (encrypt_ctx ch)) 0 (out c @ [data resp])"
  let ?h1 = "(handler c)\<lparr>a_conn := cn, pending_secret := Some s\<rparr>"
  let ?c3 = "c\<lparr>handler := (handler c)\<lparr>a_conn := cn, pending_secret := None, cipher := Some ch\<rparr>, out := out c @ [data resp]\<rparr>"
  have q: "conn_request ?ops (handler c) (view (request (pending c))) = (resp, ?h1)" "wire_of ?ops ?h1 resp = (data resp, ?h1)"
    "after_response ?ops ?h1 = (handler c)\<lparr>a_conn := cn, pending_secret := None, cipher := Some ch\<rparr>"
    using assms(1-5) by (simp_all add: ap2_ops_def ap2_conn_request_def wire_of_def ap2_after_response_def)
  have J: "?J (handler (?c3\<lparr>pending := p\<rparr>)) (out (?c3\<lparr>pending := p\<rparr>))" for p
    by (simp add: sealed_state_def)
  have "?J (handler (snd (send_completed_responses env ?ops now c))) (out (snd (send_completed_responses env ?ops now c)))"
    using enc.J_bad_request [OF J] enc.J_send [OF J] J assms(2,6,7) q
    by (simp add: send_completed_responses.simps [of env ?ops now c] Let_def)
  from enc.J_process_sent [OF this, of evs] assms(8) show ?thesis
    by (auto simp: sealed_state_def)
qed

text \<open>A connection with a pending request whose handler pairs; a toy cipher that appends a tag.\<close>

definition sample_transport :: transport_crypto where
  "sample_transport = \<lparr>tc_hkdf = \<lambda>salt ikm info n. Some (replicate n 1),
     tc_seal = \<lambda>k n a m. Some (m @ replicate 16 0), tc_open = \<lambda>k n a m. Some (take (length m - 16) m)\<rparr>"

definition sample_pairing_conn :: "unit ap2_handler conn" where
  "sample_pairing_conn = (conn_new \<lparr>a_conn = (), cipher = None, pending_secret = None\<rparr>)
     \<lparr>pending := \<lparr>request = request_new\<lparr>headers_complete := True, complete := True\<rparr>, body_deadline = None\<rparr>\<rparr>"

lemma transport_switch_witness:
  "\<exists>ws m. out (snd (process_connection \<lparr>httparse = \<lambda>_. HpPartial, write_ok = \<lambda>_. True\<rparr>
       (ap2_ops sample_transport (\<lambda>c v. (bad_request, c)) (\<lambda>_. Some [1]) (\<lambda>_ _. Inr default_policy)) 0
       sample_pairing_conn [ReadOk [1, 0] 5])) = data bad_request # ws
     \<and> sealed_writes (tc_seal sample_transport) (replicate 32 1) 0 ws m"
proof -
  let ?env = "\<lparr>httparse = \<lambda>_. HpPartial, write_ok = \<lambda>_. True\<rparr> :: net_env"
  let ?run = "process_connection ?env (ap2_ops sample_transport (\<lambda>c v. (bad_request, c)) (\<lambda>_. Some [1])
       (\<lambda>_ _. Inr default_policy)) 0 sample_pairing_conn [ReadOk [1, 0] 5]"
  have c: "cipher (handler sample_pairing_conn) = None" "complete (request (pending sample_pairing_conn))"
    "out sample_pairing_conn = []" "data bad_request \<noteq> []"
    by (simp_all add: sample_pairing_conn_def conn_new_def bad_request_def finish_def CRLF_def)
  have k: "channel_control (tc_hkdf sample_transport) [1] =
      Inr \<lparr>encrypt_ctx = cipher_new (replicate 32 1), decrypt_ctx = cipher_new (replicate 32 1)\<rparr>"
    by (simp add: channel_control_def channel_new_def sample_transport_def)
  obtain a c' where r: "?run = (a, c')" by (cases ?run)
  from transport_switch [OF c(1,2) refl refl k c(4) _ r] show ?thesis
    unfolding r by (auto simp: c(3) cipher_new_def)
qed

end
