(* ===== verification/Rtp_Tasks.thy ===== *)
theory Rtp_Tasks
  imports Rtp_Session
begin

text \<open>
  What the receive tasks guarantee: datagrams of other hosts have no influence; every packet
  leaves a buffer that has nothing more to deliver; the TCP framing is a segment action, so
  packets are recovered however the stream is cut.
\<close>

section \<open>UDP\<close>

fun from_peer :: "socket_addr \<Rightarrow> udp_event \<Rightarrow> bool" where
  "from_peer remote (DataIn addr p) = peer_ip_matches remote addr"
| "from_peer remote (CtrlIn addr p) = peer_ip_matches remote addr"
| "from_peer remote (FlushRequest n) = True"

text \<open>The states of a task between two events: consistent buffer, no overdue flush.\<close>

fun no_flush_request :: "udp_event \<Rightarrow> bool" where
  "no_flush_request (FlushRequest n) = False"
| "no_flush_request _ = True"

lemma check_flush_idem [simp]: "check_flush (check_flush t) = check_flush t"
  by (simp add: check_flush_def)

lemma check_flush_none: "t_flush t = NO_FLUSH \<Longrightarrow> check_flush t = t"
  by (simp add: check_flush_def)

lemma udp_handle_flushed:
  "no_flush_request ev \<Longrightarrow> t_flush (udp_handle cbc unwound remote nr t ev) = NO_FLUSH"
  by (cases ev) (simp_all add: udp_handle_def check_flush_def Let_def)

lemma udp_handle_foreign:
  "\<not> from_peer remote ev \<Longrightarrow> udp_handle cbc unwound remote nr t ev = check_flush t"
  by (cases ev) (simp_all add: udp_handle_def Let_def)



definition idle_task :: rx_task where
  "idle_task = \<lparr>t_buffer = \<lparr>b_aes = None, b_codec = CPcm \<lparr>pcm_num_channels = 2, pcm_sample_rate = 44100\<rparr>,
     b_empty = True, first_seqnum = 0, last_seqnum = 0, b_entries = replicate 32 (empty_entry 8),
     frame_capacity = 8, silence_samples = 4\<rparr>, t_flush = NO_FLUSH, t_audio = [], t_packet_buf = []\<rparr>"


section \<open>TCP framing\<close>

definition tcp_feed :: "cbc \<Rightarrow> alac_decoder \<Rightarrow> bool \<times> rx_task \<Rightarrow> bytes \<Rightarrow> bool \<times> rx_task" where
  "tcp_feed cbc unwound st d =
     (case st of (go, t) \<Rightarrow>
        if go then tcp_frames cbc unwound (t\<lparr>t_packet_buf := t_packet_buf t @ d\<rparr>) else st)"

definition tcp_inv :: "cbc \<Rightarrow> alac_decoder \<Rightarrow> bool \<times> rx_task \<Rightarrow> bool" where
  "tcp_inv cbc unwound st \<longleftrightarrow> (case st of (go, t) \<Rightarrow> go \<longrightarrow> tcp_frames cbc unwound t = (True, t))"

lemma drain_frames_upd [simp]:
  "drain_frames nr (t\<lparr>t_packet_buf := x\<rparr>) = (drain_frames nr t)\<lparr>t_packet_buf := x\<rparr>"
  by (simp add: drain_frames_def split: prod.split)

lemma deliver_upd [simp]:
  "deliver cbc unwound (t\<lparr>t_packet_buf := x\<rparr>) p = (deliver cbc unwound t p)\<lparr>t_packet_buf := x\<rparr>"
  by (simp add: deliver_def drain_frames_def split: prod.split)

lemma tcp_frames_append:
  "tcp_frames cbc unwound (t\<lparr>t_packet_buf := t_packet_buf t @ ys\<rparr>) =
   (case tcp_frames cbc unwound t of (go, t1) \<Rightarrow>
      if go then tcp_frames cbc unwound (t1\<lparr>t_packet_buf := t_packet_buf t1 @ ys\<rparr>) else (go, t1))"
proof (induction cbc unwound t rule: tcp_frames.induct)
  case (1 cbc unwound t)
  let ?pb = "t_packet_buf t"
  let ?t = "t\<lparr>t_packet_buf := ?pb @ ys\<rparr>"
  show ?case
  proof (cases "length ?pb < 4")
    case True
    then show ?thesis by (simp add: tcp_frames.simps [of cbc unwound t])
  next
    case long: False
    then have nth: "(?pb @ ys) ! 0 = ?pb ! 0" "(?pb @ ys) ! 1 = ?pb ! 1" "frame_len (?pb @ ys) = frame_len ?pb"
      by (auto simp: nth_append frame_len_def)
    show ?thesis
    proof (cases "?pb ! 0 \<noteq> 0x24 \<or> ?pb ! 1 \<noteq> 0")
      case True
      have "drop 1 (?pb @ ys) = drop 1 ?pb @ ys" using long by simp
      with True long nth "1.IH"(1) [OF refl long True] show ?thesis
        by (simp add: tcp_frames.simps [of cbc unwound t] tcp_frames.simps [of cbc unwound ?t])
    next
      case sync: False
      then have s: "?pb ! 0 = 0x24" "?pb ! 1 = 0" by simp_all
      show ?thesis
      proof (cases "frame_len ?pb > RAOP_PACKET_LEN")
        case True
        with long nth s show ?thesis
          by (simp add: tcp_frames.simps [of cbc unwound t] tcp_frames.simps [of cbc unwound ?t])
      next
        case ok: False
        show ?thesis
        proof (cases "length ?pb < 4 + frame_len ?pb")
          case True
          with long s ok show ?thesis by (simp add: tcp_frames.simps [of cbc unwound t])
        next
          case False
          let ?n = "4 + frame_len ?pb"
          have "slice 4 ?n (?pb @ ys) = slice 4 ?n ?pb" "drop ?n (?pb @ ys) = drop ?n ?pb @ ys"
            using False by (simp_all add: slice_append_left)
          with False long nth s ok "1.IH"(2) [OF refl long sync ok False] show ?thesis
            by (simp add: tcp_frames.simps [of cbc unwound t] tcp_frames.simps [of cbc unwound ?t] Let_def del: drop_append)
        qed
      qed
    qed
  qed
qed

lemma tcp_frames_stable: "tcp_frames cbc unwound t = (True, t1) \<Longrightarrow> tcp_frames cbc unwound t1 = (True, t1)"
proof (induction cbc unwound t rule: tcp_frames.induct)
  case (1 cbc unwound t)
  from "1.prems" show ?case
    using 1 by (subst (asm) tcp_frames.simps) (auto simp: Let_def split: if_splits)
qed

interpretation tcp: segment_action "tcp_feed cbc unwound" "tcp_inv cbc unwound" for cbc unwound
proof
  fix st :: "bool \<times> rx_task" and xs ys :: bytes
  assume inv: "tcp_inv cbc unwound st"
  obtain go t where st: "st = (go, t)" by (cases st)
  show "tcp_feed cbc unwound st [] = st" using inv by (auto simp: st tcp_feed_def tcp_inv_def)
  show "tcp_inv cbc unwound (tcp_feed cbc unwound st xs)"
    using inv by (auto simp: st tcp_feed_def tcp_inv_def tcp_frames_stable)
  show "tcp_feed cbc unwound st (xs @ ys) = tcp_feed cbc unwound (tcp_feed cbc unwound st xs) ys"
    using tcp_frames_append [of cbc unwound "t\<lparr>t_packet_buf := t_packet_buf t @ xs\<rparr>" ys]
    by (auto simp: st tcp_feed_def split: prod.split)
qed

text \<open>A stable buffer is shorter than one frame, so the safety limit is never reached.\<close>

lemma tcp_stable_short: "tcp_frames cbc unwound t = (True, t) \<Longrightarrow> length (t_packet_buf t) < 4 + RAOP_PACKET_LEN"
proof -
  assume st: "tcp_frames cbc unwound t = (True, t)"
  have len: "tcp_frames cbc unwound u = (True, v) \<Longrightarrow> length (t_packet_buf v) \<le> length (t_packet_buf u)" for u v
  proof (induction cbc unwound u rule: tcp_frames.induct)
    case (1 cbc unwound u)
    then show ?case
      by (subst (asm) (3) tcp_frames.simps) (fastforce simp: Let_def split: if_splits)
  qed
  show ?thesis
  proof (rule ccontr)
    assume long: "\<not> length (t_packet_buf t) < 4 + RAOP_PACKET_LEN"
    let ?pb = "t_packet_buf t"
    show False
    proof (cases "?pb ! 0 \<noteq> 0x24 \<or> ?pb ! 1 \<noteq> 0")
      case True
      with st long have "tcp_frames cbc unwound (t\<lparr>t_packet_buf := drop 1 ?pb\<rparr>) = (True, t)"
        by (subst (asm) tcp_frames.simps) (auto simp: RAOP_PACKET_LEN_def)
      from len [OF this] long show False by simp
    next
      case False
      with st long have "tcp_frames cbc unwound
          ((deliver cbc unwound t (slice 4 (4 + frame_len ?pb) ?pb))\<lparr>t_packet_buf := drop (4 + frame_len ?pb) ?pb\<rparr>) = (True, t)"
        by (subst (asm) tcp_frames.simps) (auto simp: Let_def split: if_splits)
      from len [OF this] long show False by simp
    qed
  qed
qed

text \<open>The sender's side: an RTP packet on channel 0.\<close>

definition interleave :: "bytes \<Rightarrow> bytes" where
  "interleave p = [0x24, 0, of_nat (length p div 256), of_nat (length p)] @ p"

lemma frame_len_interleave:
  "length p \<le> RAOP_PACKET_LEN \<Longrightarrow> frame_len (interleave p @ rest) = length p"
proof -
  assume "length p \<le> RAOP_PACKET_LEN"
  then have "unat (of_nat (length p div 256) :: byte) = length p div 256"
    by (simp add: RAOP_PACKET_LEN_def unat_of_nat)
  then show ?thesis by (simp add: frame_len_def interleave_def unat_of_nat)
qed

lemma tcp_frames_interleave:
  assumes "length p \<le> RAOP_PACKET_LEN"
  shows "tcp_frames cbc unwound (t\<lparr>t_packet_buf := interleave p @ rest\<rparr>) =
         tcp_frames cbc unwound ((deliver cbc unwound t p)\<lparr>t_packet_buf := rest\<rparr>)"
proof -
  have n: "frame_len (interleave p @ rest) = length p" by (rule frame_len_interleave [OF assms])
  have l: "length (interleave p) = 4 + length p" by (simp add: interleave_def)
  then have "drop (4 + length p) (interleave p @ rest) = rest" by (metis append_eq_conv_conj)
  moreover have "slice 4 (4 + length p) (interleave p @ rest) = p"
    "length (interleave p @ rest) = 4 + length p + length rest"
    "(interleave p @ rest) ! 0 = 0x24" "(interleave p @ rest) ! 1 = 0"
    by (simp_all add: interleave_def slice_def)
  ultimately show ?thesis using assms n by (subst tcp_frames.simps) (simp add: Let_def del: drop_append)
qed

lemma tcp_frames_packets:
  "list_all (\<lambda>p. length p \<le> RAOP_PACKET_LEN) ps \<Longrightarrow>
   tcp_frames cbc unwound (t\<lparr>t_packet_buf := concat (map interleave ps)\<rparr>) =
   (True, (foldl (deliver cbc unwound) t ps)\<lparr>t_packet_buf := []\<rparr>)"
proof (induction ps arbitrary: t)
  case Nil
  then show ?case by (simp add: tcp_frames.simps)
next
  case (Cons p ps)
  then show ?case by (simp add: tcp_frames_interleave)
qed

lemma tcp_frames_flush: "t_flush (snd (tcp_frames cbc unwound t)) = t_flush t"
proof (induction cbc unwound t rule: tcp_frames.induct)
  case (1 cbc unwound t)
  have [simp]: "t_flush (deliver cbc unwound u p) = t_flush u" for u p
    by (simp add: deliver_def drain_frames_def split: prod.split)
  show ?case using 1 by (subst tcp_frames.simps) (simp add: Let_def)
qed

text \<open>The receive loop without pending flushes is the fold of the framing.\<close>

lemma tcp_rounds_feed:
  assumes "tcp_inv cbc unwound (go, t)" "t_flush t = NO_FLUSH" "list_all (\<lambda>d. d \<noteq> [] \<and> length d \<le> 4096) ds"
  shows "foldl (tcp_round cbc unwound) (go, t) ds = foldl (tcp_feed cbc unwound) (go, t) ds"
  using assms
proof (induction ds arbitrary: go t)
  case (Cons d ds)
  obtain go1 t1 where f: "tcp_feed cbc unwound (go, t) d = (go1, t1)" by fastforce
  have i: "tcp_inv cbc unwound (go1, t1)" using tcp.act_invar [OF Cons.prems(1), of d] f by simp
  have "tcp_round cbc unwound (go, t) d = (go1, t1) \<and> t_flush t1 = NO_FLUSH"
  proof (cases go)
    case True
    have "length (t_packet_buf t) < 4 + RAOP_PACKET_LEN"
      using Cons.prems(1) True by (auto simp: tcp_inv_def intro: tcp_stable_short)
    then show ?thesis
      using f True Cons.prems(2,3) tcp_frames_flush [of cbc unwound "t\<lparr>t_packet_buf := t_packet_buf t @ d\<rparr>"]
      by (simp add: tcp_round_def tcp_read_def tcp_feed_def check_flush_none RAOP_PACKET_LEN_def)
  qed (use f Cons.prems in \<open>auto simp: tcp_round_def tcp_feed_def\<close>)
  with Cons.IH [OF i] Cons.prems f show ?case by simp
qed simp

text \<open>
  C30: RTP packets sent interleaved over TCP are delivered one by one, in order and unchanged,
  however the stream is cut into reads of up to 4096 bytes; nothing is left over and the
  connection stays open.
\<close>

theorem tcp_stream_delivery:
  assumes "t_flush t = NO_FLUSH" "t_packet_buf t = []"
    and "list_all (\<lambda>p. length p \<le> RAOP_PACKET_LEN) ps"
    and "list_all (\<lambda>d. d \<noteq> [] \<and> length d \<le> 4096) reads" "concat reads = concat (map interleave ps)"
  shows "foldl (tcp_round cbc unwound) (True, t) reads = (True, foldl (deliver cbc unwound) t ps)"
proof -
  have i: "tcp_inv cbc unwound (True, t)" using assms(2) by (simp add: tcp_inv_def tcp_frames.simps)
  have e: "t_packet_buf (foldl (deliver cbc unwound) t ps) = []"
    using assms(2) by (induction ps rule: rev_induct) simp_all
  have "foldl (tcp_round cbc unwound) (True, t) reads = tcp_feed cbc unwound (True, t) (concat reads)"
    using tcp_rounds_feed [OF i assms(1,4)] tcp.foldl_concat [OF i] by simp
  also have "\<dots> = (True, (foldl (deliver cbc unwound) t ps)\<lparr>t_packet_buf := []\<rparr>)"
    using assms(2,5) tcp_frames_packets [OF assms(3), of cbc unwound t] by (simp add: tcp_feed_def)
  finally show ?thesis using e by simp
qed

lemma tcp_stream_delivery_witness:
  "foldl (tcp_round (\<lambda>k iv d. d) (alac_new 16 2)) (True, idle_task) [[0x24], [0, 0, 2, 7], [8]]
   = (True, deliver (\<lambda>k iv d. d) (alac_new 16 2) idle_task [7, 8])"
proof -
  have "t_flush idle_task = NO_FLUSH" "t_packet_buf idle_task = []" by (simp_all add: idle_task_def)
  from tcp_stream_delivery [OF this, of "[[7, 8]]" "[[0x24], [0, 0, 2, 7], [8]]" "\<lambda>k iv d. d" "alac_new 16 2"]
  show ?thesis by (simp add: RAOP_PACKET_LEN_def interleave_def)
qed

end
