(* ===== verification/Aac_Adts.thy ===== *)
theory Aac_Adts
  imports Rust_Str Complex_Main
begin

text \<open>
  The AirPlay 2 format identifiers and the ADTS framing of raw AAC packets, src/codec/aac.rs.
  The AAC decoder itself is a crate; \<open>decode\<close> is modelled up to the framed packet it is given.
\<close>

section \<open>Formats\<close>

datatype audio_ssrc =
    SsrcNone | Alac44100S16Stereo | Alac48000S24Stereo | Aac44100F24Stereo | Aac48000F24Stereo
  | Aac48000F24Surround51 | Aac48000F24Surround71

definition ssrc_from_u32 :: "u32 \<Rightarrow> audio_ssrc" where
  "ssrc_from_u32 v =
     (if v = 0x0000FACE then Alac44100S16Stereo
      else if v = 0x15000000 then Alac48000S24Stereo
      else if v = 0x16000000 then Aac44100F24Stereo
      else if v = 0x17000000 then Aac48000F24Stereo
      else if v = 0x27000000 then Aac48000F24Surround51
      else if v = 0x28000000 then Aac48000F24Surround71
      else SsrcNone)"

definition is_aac :: "audio_ssrc \<Rightarrow> bool" where
  "is_aac s \<longleftrightarrow> s \<in> {Aac44100F24Stereo, Aac48000F24Stereo, Aac48000F24Surround51, Aac48000F24Surround71}"

definition is_alac :: "audio_ssrc \<Rightarrow> bool" where
  "is_alac s \<longleftrightarrow> s \<in> {Alac44100S16Stereo, Alac48000S24Stereo}"

definition ssrc_sample_rate :: "audio_ssrc \<Rightarrow> u32" where
  "ssrc_sample_rate s = (if s = Alac44100S16Stereo \<or> s = Aac44100F24Stereo then 44100 else 48000)"

definition ssrc_channels :: "audio_ssrc \<Rightarrow> byte" where
  "ssrc_channels s = (if s = Aac48000F24Surround51 then 6 else if s = Aac48000F24Surround71 then 8 else 2)"

definition ssrc_bit_depth :: "audio_ssrc \<Rightarrow> byte option" where
  "ssrc_bit_depth s =
     (if s = Alac44100S16Stereo then Some 16 else if s = Alac48000S24Stereo then Some 24 else None)"

definition adts_channel_config :: "audio_ssrc \<Rightarrow> byte" where
  "adts_channel_config s = (if s = Aac48000F24Surround51 then 6 else if s = Aac48000F24Surround71 then 7 else 2)"

section \<open>ADTS\<close>

definition ADTS_RATES :: "u32 list" where
  "ADTS_RATES = [96000, 88200, 64000, 48000, 44100, 32000, 24000, 22050, 16000, 12000, 11025, 8000, 7350]"

fun index_of :: "'a \<Rightarrow> 'a list \<Rightarrow> nat option" where
  "index_of x [] = None"
| "index_of x (y # ys) = (if x = y then Some 0 else map_option Suc (index_of x ys))"

definition adts_header :: "nat \<Rightarrow> u32 \<Rightarrow> byte \<Rightarrow> string + bytes" where
  "adts_header packet_len rate channels =
     (if packet_len < 7 then Inl ''ADTS frame length must include 7-byte header''
      else if packet_len > 0x1FFF
      then Inl (''ADTS frame length exceeds 13-bit limit: '' @ show_nat packet_len @ '' > 8191'')
      else if channels > 7
      then Inl (''ADTS channel configuration out of range: '' @ show_nat (unat channels))
      else case index_of rate ADTS_RATES of
        None \<Rightarrow> Inl (''Unsupported ADTS sample rate: '' @ show_nat (unat rate) @ '' Hz'')
      | Some i \<Rightarrow>
          let profile = 2 :: byte; freq_idx = of_nat i :: byte; chan_cfg = channels; len = of_nat packet_len :: u16
          in Inr [0xFF, 0xF9,
               (push_bit 6 (profile - 1) OR push_bit 2 freq_idx) OR drop_bit 2 chan_cfg,
               push_bit 6 (chan_cfg AND 3) OR ucast (drop_bit 11 len),
               ucast (drop_bit 3 (len AND 0x7FF)),
               push_bit 5 (ucast (len AND 7)) OR 0x1F,
               0xFC])"

definition wrap_adts :: "bytes \<Rightarrow> u32 \<Rightarrow> byte \<Rightarrow> string + bytes" where
  "wrap_adts raw_aac rate channels =
     (case adts_header (length raw_aac + 7) rate channels of
        Inl e \<Rightarrow> Inl e
      | Inr header \<Rightarrow> Inr (header @ raw_aac))"

record 'd aac_decoder =
  aac_state :: 'd
  aac_sample_rate :: u32
  aac_channel_config :: byte

datatype position =
  FRONT_LEFT | FRONT_RIGHT | FRONT_CENTER | REAR_LEFT | REAR_RIGHT | SIDE_LEFT | SIDE_RIGHT | LFE1

definition aac_layout :: "byte \<Rightarrow> position set" where
  "aac_layout channels =
     (if channels = 1 then {FRONT_CENTER}
      else if channels = 6 then {FRONT_LEFT, FRONT_RIGHT, FRONT_CENTER, REAR_LEFT, REAR_RIGHT, LFE1}
      else if channels = 8
      then {FRONT_LEFT, FRONT_RIGHT, FRONT_CENTER, SIDE_LEFT, SIDE_RIGHT, REAR_LEFT, REAR_RIGHT, LFE1}
      else {FRONT_LEFT, FRONT_RIGHT})"

text \<open>\<open>mk\<close> and \<open>dec\<close> are the decoder of the crate \<open>symphonia\<close>.\<close>

definition aac_new :: "(u32 \<Rightarrow> position set \<Rightarrow> string + 'd) \<Rightarrow> u32 \<Rightarrow> byte \<Rightarrow> string + 'd aac_decoder" where
  "aac_new mk rate channels =
     (if channels = 0 \<or> channels > 8
      then Inl (''Unsupported AAC channel count for ADTS framing: '' @ show_nat (unat channels))
      else case mk rate (aac_layout channels) of
        Inl e \<Rightarrow> Inl (''AAC decoder init failed: '' @ e)
      | Inr d \<Rightarrow> Inr \<lparr>aac_state = d, aac_sample_rate = rate,
                        aac_channel_config = (if channels = 8 then 7 else channels)\<rparr>)"

definition aac_decode ::
  "('d \<Rightarrow> bytes \<Rightarrow> (string + rat list) \<times> 'd) \<Rightarrow> 'd aac_decoder \<Rightarrow> bytes \<Rightarrow> (string + rat list) \<times> 'd aac_decoder" where
  "aac_decode dec a raw_aac =
     (case wrap_adts raw_aac (aac_sample_rate a) (aac_channel_config a) of
        Inl e \<Rightarrow> (Inl e, a)
      | Inr framed \<Rightarrow>
          (case dec (aac_state a) framed of
             (Inl e, d) \<Rightarrow> (Inl (''AAC decode failed: '' @ e), a\<lparr>aac_state := d\<rparr>)
           | (Inr pcm, d) \<Rightarrow> (Inr pcm, a\<lparr>aac_state := d\<rparr>)))"

section \<open>The header says what it should\<close>

text \<open>The fields of an ADTS header by their position in the standard.\<close>

definition adts_sync :: "bytes \<Rightarrow> bool" where
  "adts_sync h \<longleftrightarrow> h ! 0 = 0xFF \<and> unat (h ! 1) div 16 = 15"

definition adts_profile :: "bytes \<Rightarrow> nat" where "adts_profile h = unat (h ! 2) div 64"
definition adts_freq :: "bytes \<Rightarrow> nat" where "adts_freq h = unat (h ! 2) div 4 mod 16"
definition adts_chan :: "bytes \<Rightarrow> nat" where "adts_chan h = (unat (h ! 2) mod 2) * 4 + unat (h ! 3) div 64"

definition adts_len :: "bytes \<Rightarrow> nat" where
  "adts_len h = (unat (h ! 3) mod 4) * 2048 + unat (h ! 4) * 8 + unat (h ! 5) div 32"

lemma index_of_Some: "index_of x ys = Some i \<Longrightarrow> i < length ys \<and> ys ! i = x"
  by (induction x ys arbitrary: i rule: index_of.induct) (auto split: if_splits)

lemma unat_masked: "unat (w AND mask k) = unat w mod 2 ^ k" for w :: "'a::len word"
  by (metis take_bit_eq_mask take_bit_eq_mod unsigned_take_bit_eq)

lemma small_byte: fixes y :: byte shows "unat y < n \<Longrightarrow> y \<in> set (map of_nat [0..<n])"
  by (auto intro!: image_eqI [of _ _ "unat y"])

lemma header_byte_2:
  fixes i c :: byte
  assumes "unat i < 13" and "unat c < 8"
  shows "unat ((push_bit 6 (2 - 1) OR push_bit 2 i) OR drop_bit 2 c) = 64 + 4 * unat i + unat c div 4"
  using small_byte [OF assms(1)] small_byte [OF assms(2)] by (auto simp: upt_rec)

lemma header_byte_3:
  fixes y c :: byte
  assumes "unat y < 4" and "unat c < 8"
  shows "unat (push_bit 6 (c AND 3) OR y) mod 4 = unat y" and "unat (push_bit 6 (c AND 3) OR y) div 64 = unat c mod 4"
  using small_byte [OF assms(1)] small_byte [OF assms(2)] by (auto simp: upt_rec)

lemma header_byte_5: fixes z :: byte shows "unat z < 8 \<Longrightarrow> unat (push_bit 5 z OR 0x1F) div 32 = unat z"
  using small_byte [of z 8] by (auto simp: upt_rec)

lemma header_arith:
  assumes "i < 13" and "c < (8 :: nat)"
  shows "(64 + 4 * i + c div 4) div 64 = 1 \<and> (64 + 4 * i + c div 4) div 4 mod 16 = i
    \<and> (64 + 4 * i + c div 4) mod 2 * 4 + c mod 4 = c"
proof -
  define q where "q = c div 4"
  have "q < 2" "c = 4 * q + c mod 4" using assms(2) by (auto simp: q_def)
  moreover have "(64 + 4 * i + q) div 4 = 16 + i" "(64 + 4 * i + q) div 64 = 1"
    using assms(1) \<open>q < 2\<close> by auto
  moreover have "(64 + 4 * i + q) mod 2 = q" using \<open>q < 2\<close> by presburger
  ultimately show ?thesis using assms(1) by (simp add: q_def [symmetric])
qed

lemma length_arith: "(n :: nat) div 2048 * 2048 + n mod 2048 div 8 * 8 + n mod 8 = n"
proof -
  have "n mod 8 = n mod 2048 mod 8" by (simp add: mod_mod_cancel)
  then show ?thesis by (metis add.assoc div_mult_mod_eq)
qed

lemma adts_header_fields:
  assumes "adts_header n rate ch = Inr h"
  shows "length h = 7 \<and> adts_sync h \<and> adts_profile h = 1 \<and> ADTS_RATES ! adts_freq h = rate
    \<and> adts_chan h = unat ch \<and> adts_len h = n"
proof -
  obtain i where i: "index_of rate ADTS_RATES = Some i" and n: "7 \<le> n" "n \<le> 0x1FFF" and c: "ch \<le> 7"
    using assms by (auto simp: adts_header_def not_less split: if_splits option.splits)
  let ?len = "of_nat n :: u16" and ?i = "of_nat i :: byte"
  have h: "h = [0xFF, 0xF9, (push_bit 6 (2 - 1) OR push_bit 2 ?i) OR drop_bit 2 ch,
      push_bit 6 (ch AND 3) OR ucast (drop_bit 11 ?len), ucast (drop_bit 3 (?len AND 0x7FF)),
      push_bit 5 (ucast (?len AND 7)) OR 0x1F, 0xFC]"
    using assms i n c by (simp add: adts_header_def Let_def not_less split: if_splits)
  have ii: "i < 13" "ADTS_RATES ! i = rate" using index_of_Some [OF i] by (simp_all add: ADTS_RATES_def)
  have l: "unat ?len = n" using n by (subst unat_of_nat) simp
  have c8: "unat ch < 8" using c by (simp add: word_le_nat_alt)
  have i13: "unat ?i < 13" "unat ?i = i" using ii by (simp_all add: unat_of_nat)
  have b3: "unat (ucast (drop_bit 11 ?len) :: byte) = n div 2048"
    using n by (simp add: unsigned_ucast_eq drop_bit_eq_div take_bit_eq_mod unat_div l del: of_nat_add)
  have b4: "unat (ucast (drop_bit 3 (?len AND 0x7FF)) :: byte) = n mod 2048 div 8"
    using unat_masked [of ?len 11] l
    by (simp add: unsigned_ucast_eq drop_bit_eq_div take_bit_eq_mod unat_div mask_eq_exp_minus_1 del: of_nat_add)
  have b5: "unat (ucast (?len AND 7) :: byte) = n mod 8"
    using unat_masked [of ?len 3] l
    by (simp add: unsigned_ucast_eq take_bit_eq_mod mask_eq_exp_minus_1 del: of_nat_add)
  have d4: "n div 2048 < 4" using n by auto
  obtain x2 x3 x4 x5 where x: "h = [0xFF, 0xF9, x2, x3, x4, x5, 0xFC]"
    and u: "unat x2 = 64 + 4 * i + unat ch div 4" "unat x3 mod 4 = n div 2048" "unat x3 div 64 = unat ch mod 4"
      "unat x4 = n mod 2048 div 8" "unat x5 div 32 = n mod 8"
    by (rule that [OF h header_byte_2 [OF i13(1) c8, unfolded i13(2)]
      header_byte_3 [of "ucast (drop_bit 11 ?len)" ch, unfolded b3, OF d4 c8] b4
      header_byte_5 [of "ucast (?len AND 7)", unfolded b5, OF mod_less_divisor [OF zero_less_numeral]]])
  have "(64 + 4 * i + unat ch div 4) div 64 = 1" "(64 + 4 * i + unat ch div 4) div 4 mod 16 = i"
    "(64 + 4 * i + unat ch div 4) mod 2 * 4 + unat ch mod 4 = unat ch"
    using header_arith [OF ii(1) c8] by blast+
  moreover have "n div 2048 * 2048 + n mod 2048 div 8 * 8 + n mod 8 = n" by (rule length_arith)
  ultimately have "adts_sync h" "adts_profile h = 1" "ADTS_RATES ! adts_freq h = rate" "adts_chan h = unat ch"
    "adts_len h = n"
    by (simp_all add: x u ii adts_sync_def adts_profile_def adts_freq_def adts_chan_def adts_len_def)
  moreover have "length h = 7" by (simp add: h)
  ultimately show ?thesis by blast
qed

lemma index_of_None: "index_of x ys = None \<Longrightarrow> x \<notin> set ys"
  by (induction ys) (auto split: if_splits)

text \<open>
  An ADTS header describes its packet. Whenever a raw packet is framed, the header carries the
  sync word, the AAC-LC profile, the index of the sample rate, the channel configuration and a
  frame length equal to the framed packet's length, and the packet follows unchanged; framing
  fails exactly when the packet is longer than the 13-bit length allows, the configuration
  exceeds 7 or the rate has no index.
\<close>

theorem adts_describes_packet:
  "(case wrap_adts raw rate ch of
      Inl _ \<Rightarrow> \<not> (length raw + 7 \<le> 0x1FFF \<and> ch \<le> 7 \<and> rate \<in> set ADTS_RATES)
    | Inr p \<Rightarrow> adts_sync p \<and> adts_profile p = 1 \<and> ADTS_RATES ! adts_freq p = rate \<and> adts_chan p = unat ch
        \<and> adts_len p = length p \<and> drop 7 p = raw)"
proof (cases "adts_header (length raw + 7) rate ch")
  case (Inl e)
  then show ?thesis
    by (auto simp: wrap_adts_def adts_header_def Let_def not_less split: if_splits option.splits dest: index_of_None)
next
  case (Inr h)
  with adts_header_fields [OF Inr] show ?thesis
    by (simp add: wrap_adts_def adts_sync_def adts_profile_def adts_freq_def adts_chan_def adts_len_def nth_append)
qed

end
