(* ===== verification/Playout.thy ===== *)
theory Playout
  imports Aac_Adts "HOL-Library.Multiset"
begin

text \<open>
  The playout engine of AirPlay 2 buffered audio, src/raop/buffered_audio.rs: commands of the
  control connection, arrival of decoded frames and the rounds of the delivery thread, all on
  one shared state behind a lock, hence atomic steps. The \<open>BTreeMap\<close> of frames is a list sorted
  by timestamp. Of a buffered frame the samples and the format are kept; its other fields are
  only logged. What the application is told is a list of events.
\<close>

section \<open>State\<close>

record buffered_frame =
  bf_samples :: "rat list"
  bf_ssrc :: audio_ssrc

type_synonym 'v btree = "(u32 \<times> 'v) list"

fun bt_insert :: "u32 \<Rightarrow> 'v \<Rightarrow> 'v btree \<Rightarrow> 'v btree" where
  "bt_insert k v [] = [(k, v)]"
| "bt_insert k v ((k', v') # m) =
     (if k < k' then (k, v) # (k', v') # m
      else if k = k' then (k, v) # m
      else (k', v') # bt_insert k v m)"

definition bt_retain :: "(u32 \<Rightarrow> bool) \<Rightarrow> 'v btree \<Rightarrow> 'v btree" where
  "bt_retain P m = filter (\<lambda>(k, v). P k) m"

definition bt_ok :: "'v btree \<Rightarrow> bool" where
  "bt_ok m \<longleftrightarrow> sorted (map fst m) \<and> distinct (map fst m)"

datatype playout_command = SetRate u32 u64 u32 | PFlush u32 u32 | PStop

record playout_state =
  p_buffer :: "buffered_frame btree"
  anchor_rtp :: u32
  anchor_local_ns :: u64
  rate :: u32
  p_sample_rate :: u32
  p_channels :: byte
  stopped :: bool
  format_changed :: bool
  flush_pending :: bool

definition playout_new :: "u32 option \<Rightarrow> playout_state" where
  "playout_new sample_rate =
     \<lparr>p_buffer = [], anchor_rtp = 0, anchor_local_ns = 0, rate = 0,
      p_sample_rate = (case sample_rate of Some r \<Rightarrow> r | None \<Rightarrow> 44100), p_channels = 2,
      stopped = False, format_changed = False, flush_pending = False\<rparr>"

section \<open>Commands\<close>

text \<open>The result tells whether the command task goes on.\<close>

definition set_rate :: "u32 \<Rightarrow> u32 \<Rightarrow> u64 \<Rightarrow> playout_state \<Rightarrow> playout_state" where
  "set_rate anchor r now s =
     (if r = 0 then s\<lparr>anchor_rtp := anchor, rate := r\<rparr>
      else
        let a = (case p_buffer s of
                   [] \<Rightarrow> anchor
                 | (first_ts, _) # _ \<Rightarrow> first_ts - p_sample_rate s div 10)
        in s\<lparr>anchor_rtp := a, rate := r, anchor_local_ns := now,
             p_buffer := bt_retain (\<lambda>ts. \<not> sint (a - ts) > 0) (p_buffer s)\<rparr>)"

fun apply_playout_command :: "u64 \<Rightarrow> playout_state \<Rightarrow> playout_command \<Rightarrow> bool \<times> playout_state" where
  "apply_playout_command now s (SetRate anchor _ r) = (True, set_rate anchor r now s)"
| "apply_playout_command now s (PFlush from_seq until_seq) =
     (True, s\<lparr>p_buffer := bt_retain (\<lambda>ts. \<not> (ts \<ge> from_seq \<and> ts \<le> until_seq)) (p_buffer s), flush_pending := True\<rparr>)"
| "apply_playout_command now s PStop = (False, s\<lparr>stopped := True, p_buffer := []\<rparr>)"

section \<open>Delivery\<close>

datatype playout_event =
    Init byte u32
  | Flushed
  | Processed u32 "rat list"

definition waits :: "playout_state \<Rightarrow> bool" where
  "waits s \<longleftrightarrow> \<not> stopped s \<and> \<not> flush_pending s \<and> (rate s = 0 \<or> p_buffer s = [])"

definition elapsed_frames :: "u64 \<Rightarrow> playout_state \<Rightarrow> u32" where
  "elapsed_frames now s =
     of_nat (unat (saturating_sub now (anchor_local_ns s)) * unat (p_sample_rate s) div 1000000000)"

definition target_rtp :: "u64 \<Rightarrow> playout_state \<Rightarrow> u32" where
  "target_rtp now s = anchor_rtp s + elapsed_frames now s"

definition due :: "u32 \<Rightarrow> u32 \<Rightarrow> bool" where
  "due target ts \<longleftrightarrow> sint (target - ts) \<ge> 0"

text \<open>One round of the delivery thread after it stopped waiting; \<open>session\<close> tells whether an audio
  session exists. A stopped engine ends the thread without a further event.\<close>

definition delivery_round :: "u64 \<Rightarrow> bool \<Rightarrow> playout_state \<Rightarrow> playout_event list \<times> bool \<times> playout_state" where
  "delivery_round now session s =
     (if waits s \<or> stopped s then ([], session, s)
      else
        let fresh = (\<not> session \<or> format_changed s);
            init = (if fresh then [Init (p_channels s) (p_sample_rate s)] else []);
            target = target_rtp now s;
            ready = bt_retain (due target) (p_buffer s);
            s1 = s\<lparr>format_changed := format_changed s \<and> \<not> fresh, flush_pending := False,
                   p_buffer := bt_retain (\<lambda>ts. \<not> due target ts) (p_buffer s)\<rparr>
        in (init @ (if flush_pending s then [Flushed] else [])
              @ map (\<lambda>(ts, f). Processed ts (bf_samples f)) ready,
            True, s1))"

section \<open>Receiver\<close>

text \<open>What the receive loop does to the shared state: a format change, a decoded frame, its end.\<close>

definition change_format :: "u32 \<Rightarrow> byte \<Rightarrow> playout_state \<Rightarrow> playout_state" where
  "change_format sr ch s = s\<lparr>p_sample_rate := sr, p_channels := ch, format_changed := True\<rparr>"

definition enqueue_frame :: "u32 \<Rightarrow> buffered_frame \<Rightarrow> playout_state \<Rightarrow> playout_state" where
  "enqueue_frame ts f s = s\<lparr>p_buffer := bt_insert ts f (p_buffer s)\<rparr>"

definition end_receive :: "playout_state \<Rightarrow> playout_state" where
  "end_receive s = s\<lparr>stopped := True, p_buffer := []\<rparr>"

section \<open>The engine\<close>

text \<open>The command task, the receiver and the delivery thread step on the shared state in any
  order. \<open>Stop\<close> ends the command task, a closed connection the receiver, and a stopped state the
  delivery thread; a receiver that is still running goes on filling the map.\<close>

record playout_engine =
  pe_state :: playout_state
  pe_session :: bool
  pe_commands :: bool
  pe_receiving :: bool

datatype playout_step =
    Command playout_command u64
  | Arrive u32 buffered_frame
  | Format u32 byte
  | Round u64
  | Closed

definition engine_new :: "u32 option \<Rightarrow> playout_engine" where
  "engine_new sample_rate =
     \<lparr>pe_state = playout_new sample_rate, pe_session = False, pe_commands = True, pe_receiving = True\<rparr>"

fun engine_step :: "playout_step \<Rightarrow> playout_engine \<Rightarrow> playout_event list \<times> playout_engine" where
  "engine_step (Command c now) e =
     (if pe_commands e
      then let (go, s) = apply_playout_command now (pe_state e) c in ([], e\<lparr>pe_state := s, pe_commands := go\<rparr>)
      else ([], e))"
| "engine_step (Arrive ts f) e =
     (if pe_receiving e then ([], e\<lparr>pe_state := enqueue_frame ts f (pe_state e)\<rparr>) else ([], e))"
| "engine_step (Format sr ch) e =
     (if pe_receiving e then ([], e\<lparr>pe_state := change_format sr ch (pe_state e)\<rparr>) else ([], e))"
| "engine_step (Round now) e =
     (let (evs, session, s) = delivery_round now (pe_session e) (pe_state e)
      in (evs, e\<lparr>pe_state := s, pe_session := session\<rparr>))"
| "engine_step Closed e =
     (if pe_receiving e then ([], e\<lparr>pe_state := end_receive (pe_state e), pe_receiving := False\<rparr>) else ([], e))"

fun engine_run :: "playout_step list \<Rightarrow> playout_engine \<Rightarrow> playout_event list \<times> playout_engine" where
  "engine_run [] e = ([], e)"
| "engine_run (st # sts) e =
     (let (evs, e1) = engine_step st e; (evs', e2) = engine_run sts e1 in (evs @ evs', e2))"

text \<open>What arrived, what the application got and what still waits, as timestamped samples.\<close>

fun arrivals :: "playout_step list \<Rightarrow> (u32 \<times> rat list) multiset" where
  "arrivals [] = {#}"
| "arrivals (Arrive ts f # sts) = add_mset (ts, bf_samples f) (arrivals sts)"
| "arrivals (_ # sts) = arrivals sts"

fun played :: "playout_event list \<Rightarrow> (u32 \<times> rat list) list" where
  "played [] = []"
| "played (Processed ts xs # evs) = (ts, xs) # played evs"
| "played (_ # evs) = played evs"

abbreviation deliveries :: "playout_event list \<Rightarrow> (u32 \<times> rat list) multiset" where
  "deliveries evs \<equiv> mset (played evs)"

definition waiting :: "playout_engine \<Rightarrow> (u32 \<times> rat list) multiset" where
  "waiting e = {# (ts, bf_samples f). (ts, f) \<in># mset (p_buffer (pe_state e)) #}"

section \<open>Timestamps as distances\<close>

lemma sint_of_int_u32: "- (2 ^ 31) \<le> i \<Longrightarrow> i < 2 ^ 31 \<Longrightarrow> sint (of_int i :: u32) = i"
  by (simp add: signed_of_int signed_take_bit_int_eq_self)

lemma sint_diff_close:
  fixes a b :: u32
  assumes "unat (a - c) < 2 ^ 31" "unat (b - c) < 2 ^ 31"
  shows "sint (a - b) = int (unat (a - c)) - int (unat (b - c))"
proof -
  have e: "a - b = of_int (int (unat (a - c)) - int (unat (b - c)))" by simp
  have "unat (a - c) < 2147483648" "unat (b - c) < 2147483648" using assms by simp_all
  then have "- 2147483648 \<le> int (unat (a - c)) - int (unat (b - c))" "int (unat (a - c)) - int (unat (b - c)) < 2147483648"
    by linarith+
  then show ?thesis by (subst e, intro sint_of_int_u32) (simp_all only: power_numeral num.simps, simp_all)
qed

lemma due_iff:
  assumes "unat (target - a) < 2 ^ 31" "unat (ts - a) < 2 ^ 31"
  shows "due target ts \<longleftrightarrow> unat (ts - a) \<le> unat (target - a)"
  unfolding due_def sint_diff_close [OF assms] by linarith

lemma bt_retain_ok: "bt_ok m \<Longrightarrow> bt_ok (bt_retain P m)"
  unfolding bt_ok_def bt_retain_def
  by (induction m) auto

lemma bt_insert_keys: "fst ` set (bt_insert k v m) = insert k (fst ` set m)"
  by (induction m rule: bt_insert.induct) (simp_all add: insert_commute)

lemma bt_insert_ok: "bt_ok m \<Longrightarrow> bt_ok (bt_insert k v m)"
  unfolding bt_ok_def by (induction k v m rule: bt_insert.induct) (auto simp: bt_insert_keys image_iff)

lemma mset_bt_retain: "mset (bt_retain P m) + mset (bt_retain (\<lambda>k. \<not> P k) m) = mset m"
  by (induction m) (auto simp: bt_retain_def)

lemma mset_bt_insert: "mset (bt_insert k v m) \<subseteq># add_mset (k, v) (mset m)"
proof (induction m rule: bt_insert.induct)
  case (2 k v k' v' m)
  then have "add_mset (k', v') (mset (bt_insert k v m)) \<subseteq># add_mset (k', v') (add_mset (k, v) (mset m))" if "\<not> k < k'" "k \<noteq> k'"
    using that by simp
  then show ?case by (auto simp: add_mset_commute)
qed simp

section \<open>Conservation of frames\<close>

lemma bt_retain_sub: "mset (bt_retain P m) \<subseteq># mset m"
  using mset_bt_retain [of P m] by (metis mset_subset_eq_add_left)

lemma played_append [simp]: "played (evs @ evs') = played evs @ played evs'"
  by (induction evs rule: played.induct) auto

lemma played_processed [simp]:
  "played (map (\<lambda>(ts, f). Processed ts (bf_samples f)) m) = map (\<lambda>(ts, f). (ts, bf_samples f)) m"
  by (induction m) auto

lemma set_rate_buffer: "mset (p_buffer (set_rate a r now s)) \<subseteq># mset (p_buffer s)"
  by (simp add: set_rate_def Let_def bt_retain_sub)

lemma command_buffer:
  "mset (p_buffer (snd (apply_playout_command now s c))) \<subseteq># mset (p_buffer s)"
  by (cases c) (simp_all add: set_rate_buffer bt_retain_sub)

lemma command_ok: "bt_ok (p_buffer s) \<Longrightarrow> bt_ok (p_buffer (snd (apply_playout_command now s c)))"
  by (cases c) (simp_all add: set_rate_def Let_def bt_retain_ok, simp add: bt_ok_def)

lemma round_conserves:
  "delivery_round now session s = (evs, session', s') \<Longrightarrow>
   deliveries evs + {# (ts, bf_samples f). (ts, f) \<in># mset (p_buffer s') #}
     = {# (ts, bf_samples f). (ts, f) \<in># mset (p_buffer s) #}"
  using mset_bt_retain [of "due (target_rtp now s)" "p_buffer s"]
  by (auto simp: delivery_round_def Let_def simp flip: image_mset_union split: if_splits)

lemma round_ok:
  "delivery_round now session s = (evs, session', s') \<Longrightarrow> bt_ok (p_buffer s) \<Longrightarrow> bt_ok (p_buffer s')"
  by (auto simp: delivery_round_def Let_def bt_retain_ok split: if_splits)

lemma engine_step_ok:
  assumes that: "engine_step st e = (evs, e')" "bt_ok (p_buffer (pe_state e))"
  shows "bt_ok (p_buffer (pe_state e'))"
proof (cases st)
  case (Command c now)
  then show ?thesis
    using that command_ok [OF that(2), of now c] by (auto split: if_splits prod.splits)
next
  case (Arrive ts f)
  then show ?thesis
    using that bt_insert_ok [OF that(2)] by (auto simp: enqueue_frame_def split: if_splits)
next
  case (Round now)
  then show ?thesis
    using that round_ok by (auto split: prod.splits)
qed (use that in \<open>auto simp: change_format_def end_receive_def bt_ok_def [of "[]"] split: if_splits\<close>)

lemma engine_step_conserves:
  assumes "engine_step st e = (evs, e')"
  shows "deliveries evs + waiting e' \<subseteq># arrivals [st] + waiting e"
proof (cases st)
  case (Command c now)
  with assms show ?thesis
    using image_mset_subseteq_mono [OF command_buffer [of now "pe_state e" c]]
    by (auto simp: waiting_def split: if_splits prod.splits)
next
  case (Arrive ts f)
  with assms show ?thesis
    using image_mset_subseteq_mono [OF mset_bt_insert [of ts f "p_buffer (pe_state e)"], of "\<lambda>(ts, f). (ts, bf_samples f)"]
    by (auto simp: waiting_def enqueue_frame_def split: if_splits)
next
  case (Round now)
  with assms show ?thesis using round_conserves by (auto simp: waiting_def split: prod.splits)
qed (use assms in \<open>auto simp: waiting_def change_format_def end_receive_def split: if_splits\<close>)

lemma arrivals_Cons: "arrivals (st # sts) = arrivals [st] + arrivals sts"
  by (cases st) simp_all

lemma engine_run_invariant:
  "engine_run sts e = (evs, e') \<Longrightarrow> bt_ok (p_buffer (pe_state e)) \<Longrightarrow>
   bt_ok (p_buffer (pe_state e')) \<and> deliveries evs + waiting e' \<subseteq># arrivals sts + waiting e"
proof (induction sts arbitrary: e evs)
  case (Cons st sts)
  obtain ev1 e1 ev2 where s: "engine_step st e = (ev1, e1)" "engine_run sts e1 = (ev2, e')" "evs = ev1 @ ev2"
    using Cons.prems(1) by (auto split: prod.splits)
  have ih: "bt_ok (p_buffer (pe_state e'))" "deliveries ev2 + waiting e' \<subseteq># arrivals sts + waiting e1"
    using Cons.IH [OF s(2)] engine_step_ok [OF s(1) Cons.prems(2)] by auto
  have "deliveries ev1 + (deliveries ev2 + waiting e') \<subseteq># deliveries ev1 + (arrivals sts + waiting e1)"
    using ih(2) by simp
  also have "\<dots> = arrivals sts + (deliveries ev1 + waiting e1)" by (simp add: ac_simps)
  also have "\<dots> \<subseteq># arrivals sts + (arrivals [st] + waiting e)"
    using engine_step_conserves [OF s(1)] by simp
  finally show ?case using ih(1) s(3) arrivals_Cons [of st sts] by (simp add: ac_simps)
qed simp

text \<open>
  C16: whatever commands, arrivals, format changes and delivery rounds interleave, the frames the
  application was given together with those still waiting are among the frames that arrived,
  each at most as often as it arrived; nothing is invented or delivered twice. The map stays
  ordered by timestamp without duplicates.
\<close>

theorem playout_conserves:
  "let (evs, e) = engine_run sts (engine_new sr)
   in deliveries evs + waiting e \<subseteq># arrivals sts \<and> bt_ok (p_buffer (pe_state e))"
proof -
  obtain evs e where r: "engine_run sts (engine_new sr) = (evs, e)" by fastforce
  have "bt_ok (p_buffer (pe_state (engine_new sr)))" "waiting (engine_new sr) = {#}"
    by (simp_all add: engine_new_def playout_new_def bt_ok_def waiting_def)
  with engine_run_invariant [OF r] r show ?thesis by simp
qed

section \<open>Timing after a resume\<close>

definition lead :: "playout_state \<Rightarrow> u32 \<Rightarrow> nat" where
  "lead s ts = unat ts - unat (fst (hd (p_buffer s))) + unat (p_sample_rate s) div 10"

definition on_time :: "u64 \<Rightarrow> u64 \<Rightarrow> playout_state \<Rightarrow> u32 \<Rightarrow> bool" where
  "on_time now t s ts \<longleftrightarrow> lead s ts * 1000000000 \<le> (unat t - unat now) * unat (p_sample_rate s)"

lemma unat_of_nat_u32: "n < 2 ^ 31 \<Longrightarrow> unat (of_nat n :: u32) = n"
  by (simp add: unat_of_nat)

lemma bt_first_le:
  assumes "bt_ok m" "(ts, f) \<in> set m"
  shows "fst (hd m) \<le> ts"
  using assms by (cases m) (auto simp: bt_ok_def)

lemma lead_distance:
  assumes "bt_ok (p_buffer s)" "(ts, f) \<in> set (p_buffer s)" "lead s ts < 2 ^ 31"
  shows "unat (ts - (fst (hd (p_buffer s)) - p_sample_rate s div 10)) = lead s ts"
proof -
  have le: "fst (hd (p_buffer s)) \<le> ts" using bt_first_le [OF assms(1,2)] .
  have "of_nat (lead s ts) = ts - (fst (hd (p_buffer s)) - p_sample_rate s div 10)"
    using le by (simp add: lead_def word_le_nat_alt of_nat_diff word_arith_nat_div)
  then show ?thesis using assms(3) unat_of_nat_u32 [of "lead s ts"] by simp
qed

lemma set_rate_keeps:
  assumes "bt_ok (p_buffer s)" "p_buffer s \<noteq> []" "r \<noteq> 0" "\<forall>(ts, f) \<in> set (p_buffer s). lead s ts < 2 ^ 31"
  shows "set_rate anchor r now s = s\<lparr>anchor_rtp := fst (hd (p_buffer s)) - p_sample_rate s div 10,
           rate := r, anchor_local_ns := now\<rparr>"
proof -
  let ?a = "fst (hd (p_buffer s)) - p_sample_rate s div 10"
  have "\<not> sint (?a - ts) > 0" if "(ts, f) \<in> set (p_buffer s)" for ts f
    using sint_diff_close [of ?a ?a ts] lead_distance [OF assms(1) that] assms(4) that by auto
  then have "bt_retain (\<lambda>ts. \<not> sint (?a - ts) > 0) (p_buffer s) = p_buffer s"
    by (auto simp: bt_retain_def filter_id_conv)
  with assms(2,3) show ?thesis by (auto simp: set_rate_def Let_def neq_Nil_conv)
qed

lemma due_on_time:
  assumes "bt_ok (p_buffer s)" "(ts, f) \<in> set (p_buffer s)" "lead s ts < 2 ^ 31"
    "anchor_rtp s = fst (hd (p_buffer s)) - p_sample_rate s div 10"
    "(unat t - unat (anchor_local_ns s)) * unat (p_sample_rate s) < 2 ^ 31 * 1000000000"
  shows "due (target_rtp t s) ts \<longleftrightarrow> on_time (anchor_local_ns s) t s ts"
proof -
  let ?n = "(unat t - unat (anchor_local_ns s)) * unat (p_sample_rate s)"
  have "?n div 1000000000 < 2 ^ 31" using assms(5) by (simp add: less_mult_imp_div_less)
  then have u: "unat (target_rtp t s - anchor_rtp s) = ?n div 1000000000"
    using unat_of_nat_u32 by (simp add: target_rtp_def elapsed_frames_def)
  have "unat (ts - anchor_rtp s) = lead s ts" using lead_distance [OF assms(1-3)] assms(4) by simp
  with u show ?thesis
    using due_iff [of "target_rtp t s" "anchor_rtp s" ts] assms(3) \<open>?n div 1000000000 < 2 ^ 31\<close>
    by (simp add: on_time_def less_eq_div_iff_mult_less_eq)
qed

text \<open>
  C17: when playback resumes, no buffered frame is lost and each is played on time: with the
  first frame 100 ms ahead, a later delivery round plays exactly the frames whose distance from
  the first one plus that lead has elapsed on the clock, in timestamp order, and keeps the others.
  The frames must lie within half the timestamp range, without a wrap of the timestamp.
\<close>

theorem resume_on_time:
  assumes "bt_ok (p_buffer s)" "p_buffer s \<noteq> []" "\<not> stopped s" "r \<noteq> 0"
    and span: "\<forall>(ts, f) \<in> set (p_buffer s). lead s ts < 2 ^ 31"
    and elapsed: "(unat t - unat now) * unat (p_sample_rate s) < 2 ^ 31 * 1000000000"
    and resumed: "apply_playout_command now s (SetRate anchor ns r) = (go, s1)"
    and round: "delivery_round t session s1 = (evs, session', s2)"
  shows "go \<and> p_buffer s1 = p_buffer s \<and> session'
    \<and> played evs = map (\<lambda>(ts, f). (ts, bf_samples f)) (bt_retain (on_time now t s) (p_buffer s))
    \<and> p_buffer s2 = bt_retain (\<lambda>ts. \<not> on_time now t s ts) (p_buffer s)"
proof -
  have s1: "go" "s1 = s\<lparr>anchor_rtp := fst (hd (p_buffer s)) - p_sample_rate s div 10, rate := r, anchor_local_ns := now\<rparr>"
    using resumed set_rate_keeps [OF assms(1,2,4) span, of anchor now] by auto
  have d: "due (target_rtp t s1) ts \<longleftrightarrow> on_time now t s ts" if "(ts, f) \<in> set (p_buffer s)" for ts f
    using due_on_time [of s1 ts f t] that assms(1) span elapsed by (auto simp: s1 on_time_def lead_def)
  have "\<not> waits s1" "\<not> stopped s1" using assms(2,3,4) by (simp_all add: s1 waits_def)
  moreover have "bt_retain (due (target_rtp t s1)) (p_buffer s) = bt_retain (on_time now t s) (p_buffer s)"
    "bt_retain (\<lambda>ts. \<not> due (target_rtp t s1) ts) (p_buffer s) = bt_retain (\<lambda>ts. \<not> on_time now t s ts) (p_buffer s)"
    using d by (auto simp: bt_retain_def intro!: filter_cong)
  moreover have "p_buffer s1 = p_buffer s" by (simp add: s1)
  ultimately show ?thesis using round s1(1) by (auto simp: delivery_round_def Let_def split: if_splits)
qed

definition sample_playout :: playout_state where
  "sample_playout = (playout_new (Some 44100))\<lparr>p_buffer :=
     [(8820, \<lparr>bf_samples = [1], bf_ssrc = Alac44100S16Stereo\<rparr>), (9172, \<lparr>bf_samples = [2], bf_ssrc = Alac44100S16Stereo\<rparr>)]\<rparr>"

theorem resume_on_time_witness:
  "played (fst (delivery_round 100000000 False (snd (apply_playout_command 0 sample_playout (SetRate 0 0 1))))) = [(8820, [1])]"
proof -
  obtain evs session s2 where r: "delivery_round 100000000 False
      (snd (apply_playout_command 0 sample_playout (SetRate 0 0 1))) = (evs, session, s2)"
    by (meson prod_cases3)
  have "played evs = map (\<lambda>(ts, f). (ts, bf_samples f))
      (bt_retain (on_time 0 100000000 sample_playout) (p_buffer sample_playout))"
    using resume_on_time [OF _ _ _ _ _ _ surjective_pairing r]
    by (simp add: sample_playout_def playout_new_def bt_ok_def lead_def)
  then show ?thesis
    unfolding r by (simp add: sample_playout_def playout_new_def on_time_def lead_def bt_retain_def)
qed

text \<open>Across a wrap of the timestamp the numerically smallest key is not the oldest frame: here the
  frame 200 ms before the wrap is thrown away when playback resumes, although none is late.\<close>

lemma resume_across_wrap:
  "map fst (p_buffer (set_rate anchor 1 now
     (sample_playout\<lparr>p_buffer := [(0, f), (- 8820, g)]\<rparr>))) = [0]"
  by (simp add: set_rate_def sample_playout_def playout_new_def bt_retain_def)

end
