(* ===== verification/Rust_Float.thy ===== *)
theory Rust_Float
  imports Complex_Main
begin

text \<open>
  Binary floating point as Rust's \<open>f32\<close> and \<open>f64\<close> compute it on finite values: the exact
  rational result rounded to the nearest representable value, ties to even. Values too large for
  the format are out of scope: samples and volumes are small. Infinities and NaN occur only
  where a number comes from outside, as \<open>NotFinite\<close>.
\<close>

fun bit_length :: "nat \<Rightarrow> nat" where
  "bit_length n = (if n = 0 then 0 else Suc (bit_length (n div 2)))"

declare bit_length.simps [simp del]

definition round_even :: "rat \<Rightarrow> int" where
  "round_even x =
     (let f = \<lfloor>x\<rfloor>; r = x - of_int f
      in if r < 1 / 2 then f else if r > 1 / 2 then f + 1 else if even f then f else f + 1)"

definition pow2 :: "int \<Rightarrow> rat" where
  "pow2 e = (if e \<ge> 0 then 2 ^ nat e else 1 / 2 ^ nat (- e))"

text \<open>Rounding to \<open>prec\<close> significant bits, the exponent of the last one at least \<open>emin\<close>.\<close>

definition round_binary :: "nat \<Rightarrow> int \<Rightarrow> rat \<Rightarrow> rat" where
  "round_binary prec emin x =
     (if x = 0 then 0
      else
        let (n, d) = quotient_of \<bar>x\<bar>;
            e0 = int (bit_length (nat n)) - int (bit_length (nat d)) - int prec;
            e1 = (if \<bar>x\<bar> \<ge> pow2 (e0 + int prec) then e0 + 1 else e0);
            e = max e1 emin
        in of_int (round_even (x / pow2 e)) * pow2 e)"

definition round_f32 :: "rat \<Rightarrow> rat" where "round_f32 = round_binary 24 (- 149)"
definition round_f64 :: "rat \<Rightarrow> rat" where "round_f64 = round_binary 53 (- 1074)"

datatype f64 = Finite rat | NotFinite

section \<open>Rounding stays within representable bounds\<close>

lemma less_bit_length: "n < 2 ^ bit_length n"
proof (induction n rule: bit_length.induct)
  case (1 n)
  then show ?case by (cases "n = 0") (simp_all add: bit_length.simps [of n])
qed

lemma bit_length_least: "n < 2 ^ k \<Longrightarrow> bit_length n \<le> k"
proof (induction n arbitrary: k rule: bit_length.induct)
  case (1 n)
  show ?case
  proof (cases "n = 0")
    case False
    with "1.prems" obtain k' where k: "k = Suc k'" by (cases k) auto
    with "1.prems" have "n div 2 < 2 ^ k'" by simp
    from "1.IH" [OF False this] False k show ?thesis by (simp add: bit_length.simps [of n])
  qed (simp add: bit_length.simps)
qed

lemma pow2_pos [simp]: "0 < pow2 e"
  by (simp add: pow2_def)

lemma pow2_neg: "pow2 (- int k) = 1 / 2 ^ k"
  by (simp add: pow2_def)

lemma round_even_ge: "of_int k \<le> x \<Longrightarrow> k \<le> round_even x"
proof -
  assume "of_int k \<le> x"
  then have "k \<le> \<lfloor>x\<rfloor>" by (simp add: le_floor_iff)
  then show ?thesis by (simp add: round_even_def Let_def)
qed

lemma round_even_le: "x \<le> of_int k \<Longrightarrow> round_even x \<le> k"
proof -
  assume k: "x \<le> of_int k"
  show ?thesis
  proof (cases "\<lfloor>x\<rfloor> = k")
    case True
    with k have "x = of_int k" by linarith
    then show ?thesis by (simp add: round_even_def)
  next
    case False
    with k have "\<lfloor>x\<rfloor> < k" by linarith
    then show ?thesis by (simp add: round_even_def Let_def)
  qed
qed

text \<open>The exponent of the last digit of a value below \<open>2 ^ m\<close>.\<close>

lemma exponent_bound:
  assumes "\<bar>x\<bar> < 2 ^ m" "quotient_of \<bar>x\<bar> = (n, d)"
  shows "int (bit_length (nat n)) - int (bit_length (nat d)) \<le> int m"
proof -
  have d: "0 < d" and x: "\<bar>x\<bar> = of_int n / of_int d"
    using assms(2) quotient_of_denom_pos quotient_of_div by blast+
  have n: "0 \<le> n" using x d by (metis abs_ge_zero divide_less_0_iff not_le of_int_0_less_iff of_int_less_0_iff)
  have "(of_int n :: rat) < 2 ^ m * of_int d" using assms(1) x d by (simp add: divide_less_eq)
  then have "(of_int n :: rat) < of_int (2 ^ m * d)" by simp
  then have "n < 2 ^ m * d" by (simp only: of_int_less_iff)
  then have "nat n < nat (2 ^ m * d)" using d by simp
  also have "\<dots> = 2 ^ m * nat d" using d by (simp add: nat_mult_distrib nat_power_eq)
  also have "\<dots> < 2 ^ m * 2 ^ bit_length (nat d)" using less_bit_length by simp
  finally have "bit_length (nat n) \<le> m + bit_length (nat d)"
    by (intro bit_length_least) (simp add: power_add)
  then show ?thesis by simp
qed

lemma round_binary_between:
  fixes lo hi :: int
  assumes x: "of_int lo \<le> x" "x \<le> of_int hi" and m: "\<bar>x\<bar> < 2 ^ m" "Suc m \<le> prec" "emin \<le> 0"
  shows "of_int lo \<le> round_binary prec emin x \<and> round_binary prec emin x \<le> of_int hi"
proof (cases "x = 0")
  case True
  then show ?thesis using x by (simp add: round_binary_def)
next
  case False
  obtain n d where q: "quotient_of \<bar>x\<bar> = (n, d)" by fastforce
  define e where "e = max (if \<bar>x\<bar> \<ge> pow2 (int (bit_length (nat n)) - int (bit_length (nat d)) - int prec + int prec)
      then int (bit_length (nat n)) - int (bit_length (nat d)) - int prec + 1
      else int (bit_length (nat n)) - int (bit_length (nat d)) - int prec) emin"
  have "e \<le> 0" using exponent_bound [OF m(1) q] m(2,3) unfolding e_def by (simp split: if_splits)
  then obtain k where k: "e = - int k" by (metis minus_minus nonneg_int_cases neg_0_le_iff_le)
  have "round_binary prec emin x = of_int (round_even (x / pow2 e)) * pow2 e"
    unfolding round_binary_def q Let_def prod.case using False by (simp only: if_False flip: e_def)
  then have r: "round_binary prec emin x = of_int (round_even (x * 2 ^ k)) / 2 ^ k"
    by (simp add: k pow2_neg)
  have "of_int (lo * 2 ^ k) \<le> x * 2 ^ k" "x * 2 ^ k \<le> of_int (hi * 2 ^ k)" using x by simp_all
  from round_even_ge [OF this(1)] round_even_le [OF this(2)]
  have b: "lo * 2 ^ k \<le> round_even (x * 2 ^ k)" "round_even (x * 2 ^ k) \<le> hi * 2 ^ k" by simp_all
  have "(of_int (lo * 2 ^ k) :: rat) \<le> of_int (round_even (x * 2 ^ k))"
    "(of_int (round_even (x * 2 ^ k)) :: rat) \<le> of_int (hi * 2 ^ k)" using b by (simp_all only: of_int_le_iff)
  then show ?thesis by (simp add: r le_divide_eq divide_le_eq)
qed

end
