(* ===== verification/Audio_Output.thy ===== *)
theory Audio_Output
  imports Chacha_Transport Alac Rust_Float
begin

text \<open>
  What both AirPlay 2 audio receivers share: the packet decryption of src/raop/audio\_pipeline.rs
  and the mixdown and resampling of src/codec/resample.rs. Samples (\<open>f32\<close>) are finite rationals;
  arithmetic on them rounds to the nearest single-precision value, ties to even. The resampler of
  the crate \<open>rubato\<close> is a parameter.
\<close>

section \<open>Packet decryption\<close>

definition RTP_HEADER_LEN :: nat where "RTP_HEADER_LEN = 12"
definition CHACHA_TAG_LEN :: nat where "CHACHA_TAG_LEN = 16"
definition NONCE_TRAIL_LEN :: nat where "NONCE_TRAIL_LEN = 8"

definition decrypt_rtp_chacha :: "aead_open \<Rightarrow> bytes \<Rightarrow> bytes \<Rightarrow> bytes option" where
  "decrypt_rtp_chacha aopen k packet =
     (let pkt_len = length packet in
      if pkt_len < RTP_HEADER_LEN + CHACHA_TAG_LEN + NONCE_TRAIL_LEN then None
      else
        let n = replicate 4 0 @ drop (pkt_len - NONCE_TRAIL_LEN) packet;
            aad = slice 4 12 packet;
            ciphertext = slice RTP_HEADER_LEN (pkt_len - NONCE_TRAIL_LEN) packet
        in aopen k n aad ciphertext)"

text \<open>The sender's side: header, sealed payload, and the nonce at the end.\<close>

definition rtp_chacha_packet :: "aead_seal \<Rightarrow> bytes \<Rightarrow> bytes \<Rightarrow> bytes \<Rightarrow> bytes \<Rightarrow> bytes option" where
  "rtp_chacha_packet seal k header tail payload =
     map_option (\<lambda>ct. header @ ct @ tail) (seal k (replicate 4 0 @ tail) (slice 4 12 header) payload)"

lemma decrypt_rtp_roundtrip:
  assumes "aead_ok seal aopen" "length k = 32" "length header = 12" "length tail = 8" "length payload < 2 ^ 32"
  obtains packet where "rtp_chacha_packet seal k header tail payload = Some packet"
    "decrypt_rtp_chacha aopen k packet = Some payload" "length packet = length payload + 36"
proof -
  obtain c where c: "seal k (replicate 4 0 @ tail) (slice 4 12 header) payload = Some c" "length c = length payload + TAG_LEN"
    "aopen k (replicate 4 0 @ tail) (slice 4 12 header) c = Some payload"
    using aead_okD [OF assms(1,2), of "replicate 4 0 @ tail"] assms(4,5) by auto
  have "decrypt_rtp_chacha aopen k (header @ c @ tail) = Some payload"
    using c assms(3,4)
    by (simp add: decrypt_rtp_chacha_def RTP_HEADER_LEN_def CHACHA_TAG_LEN_def NONCE_TRAIL_LEN_def TAG_LEN_def slice_def Let_def)
  with that c assms(3,4) show ?thesis by (simp add: rtp_chacha_packet_def TAG_LEN_def)
qed

section \<open>Single-precision arithmetic\<close>

definition f32_add :: "rat \<Rightarrow> rat \<Rightarrow> rat" where "f32_add a b = round_f32 (a + b)"
definition f32_mul :: "rat \<Rightarrow> rat \<Rightarrow> rat" where "f32_mul a b = round_f32 (a * b)"

definition f32_clamp :: "rat \<Rightarrow> rat" where
  "f32_clamp x = (if x < - 1 then - 1 else if x > 1 then 1 else x)"

section \<open>Mixdown\<close>

definition DOWNMIX_3DB :: rat where "DOWNMIX_3DB = 11863283 / 16777216"

definition mix_frame :: "rat list \<Rightarrow> rat \<times> rat" where
  "mix_frame fm =
     (let k = DOWNMIX_3DB in
      if length fm = 6 then
        (let fl = fm ! 0; fr = fm ! 1; fc = fm ! 2; rl = fm ! 4; rr = fm ! 5
         in (f32_add (f32_add fl (f32_mul k fc)) (f32_mul k rl), f32_add (f32_add fr (f32_mul k fc)) (f32_mul k rr)))
      else if length fm = 8 then
        (let fl = fm ! 0; fr = fm ! 1; fc = fm ! 2; sl = fm ! 4; sr = fm ! 5; rl = fm ! 6; rr = fm ! 7
         in (f32_add (f32_add (f32_add fl (f32_mul k fc)) (f32_mul k sl)) (f32_mul k rl),
             f32_add (f32_add (f32_add fr (f32_mul k fc)) (f32_mul k sr)) (f32_mul k rr)))
      else (fm ! 0, if 1 < length fm then fm ! 1 else fm ! 0))"

definition mixdown :: "rat list \<Rightarrow> nat \<Rightarrow> nat \<Rightarrow> rat list" where
  "mixdown input in_channels out_channels =
     (if in_channels = 0 then []
      else if in_channels = out_channels then input
      else if out_channels \<noteq> 2 then input
      else concat (map (\<lambda>fm. let (l, r) = mix_frame fm in [f32_clamp l, f32_clamp r])
             (as_chunks in_channels input)))"

section \<open>Resampler\<close>

text \<open>\<open>mk\<close> creates the resampler of the crate for a pair of rates, a chunk size and a channel count;
  \<open>rub\<close> processes one chunk given as one list per channel, yielding interleaved output.\<close>

type_synonym 'r rubato = "'r \<Rightarrow> rat list list \<Rightarrow> rat list option \<times> 'r"

record 'r stream_resampler =
  rs_resampler :: 'r
  rs_channels :: nat
  rs_chunk_size :: nat
  rs_pending :: "rat list"

definition resampler_new :: "(u32 \<Rightarrow> u32 \<Rightarrow> nat \<Rightarrow> nat \<Rightarrow> 'r option) \<Rightarrow> u32 \<Rightarrow> u32 \<Rightarrow> nat \<Rightarrow> 'r stream_resampler option" where
  "resampler_new mk from_rate to_rate channels =
     (if from_rate = to_rate \<or> channels = 0 then None
      else map_option (\<lambda>r. \<lparr>rs_resampler = r, rs_channels = channels, rs_chunk_size = 128, rs_pending = []\<rparr>)
             (mk from_rate to_rate 128 channels))"

definition deinterleave :: "nat \<Rightarrow> rat list \<Rightarrow> rat list list" where
  "deinterleave channels chunk = map (\<lambda>ch. map (\<lambda>fm. fm ! ch) (as_chunks channels chunk)) [0..<channels]"

text \<open>The loop over complete chunks; it stops at the first error and leaves the rest pending.\<close>

function resample_loop :: "'r rubato \<Rightarrow> nat \<Rightarrow> nat \<Rightarrow> 'r \<Rightarrow> rat list \<Rightarrow> rat list \<times> 'r \<times> rat list" where
  "resample_loop rub spc channels r pend =
     (if length pend < spc \<or> spc = 0 then ([], r, pend)
      else
        case rub r (deinterleave channels (take spc pend)) of
          (None, r1) \<Rightarrow> ([], r1, pend)
        | (Some out, r1) \<Rightarrow>
            (case resample_loop rub spc channels r1 (drop spc pend) of (out2, r2, rest) \<Rightarrow> (out @ out2, r2, rest)))"
  by pat_completeness auto
termination by (relation "measure (\<lambda>(_, _, _, _, pend). length pend)") auto

declare resample_loop.simps [simp del]

definition resampler_process :: "'r rubato \<Rightarrow> 'r stream_resampler \<Rightarrow> rat list \<Rightarrow> rat list \<times> 'r stream_resampler" where
  "resampler_process rub rs interleaved =
     (case resample_loop rub (rs_chunk_size rs * rs_channels rs) (rs_channels rs) (rs_resampler rs)
             (rs_pending rs @ interleaved) of
        (out, r, rest) \<Rightarrow> (out, rs\<lparr>rs_resampler := r, rs_pending := rest\<rparr>))"

definition mixdown_and_resample ::
  "'r rubato \<Rightarrow> rat list \<Rightarrow> byte \<Rightarrow> byte \<Rightarrow> 'r stream_resampler option \<Rightarrow> rat list \<times> 'r stream_resampler option" where
  "mixdown_and_resample rub samples src_channels out_channels resampler =
     (let mixed = (if src_channels > out_channels then mixdown samples (unat src_channels) (unat out_channels) else samples)
      in case resampler of
           None \<Rightarrow> (mixed, None)
         | Some rs \<Rightarrow> (case resampler_process rub rs mixed of (out, rs1) \<Rightarrow> (out, Some rs1)))"

section \<open>Output does not depend on packet sizes\<close>

definition rubato_ok :: "'r rubato \<Rightarrow> bool" where
  "rubato_ok rub \<longleftrightarrow> (\<forall>r x. fst (rub r x) \<noteq> None)"

lemma resample_loop_short: "length pend < spc \<Longrightarrow> resample_loop rub spc ch r pend = ([], r, pend)"
  by (subst resample_loop.simps) simp

lemma resample_loop_append:
  assumes rub: "rubato_ok rub"
  shows "resample_loop rub spc ch r (p @ ys) =
     (case resample_loop rub spc ch r p of (o1, r1, rest) \<Rightarrow>
      case resample_loop rub spc ch r1 (rest @ ys) of (o2, r2, rest2) \<Rightarrow> (o1 @ o2, r2, rest2))"
proof (induction "length p" arbitrary: p r rule: less_induct)
  case less
  show ?case
  proof (cases "length p < spc \<or> spc = 0")
    case True
    then have "resample_loop rub spc ch r p = ([], r, p)" by (subst resample_loop.simps) auto
    then show ?thesis by (simp split: prod.split)
  next
    case False
    obtain out r1 where o: "rub r (deinterleave ch (take spc p)) = (Some out, r1)"
      using rub unfolding rubato_ok_def by (metis option.exhaust prod.collapse)
    have t: "take spc (p @ ys) = take spc p" "drop spc (p @ ys) = drop spc p @ ys" using False by auto
    have "resample_loop rub spc ch r p = (case resample_loop rub spc ch r1 (drop spc p) of (out2, r2, rest) \<Rightarrow> (out @ out2, r2, rest))"
      using False o by (subst resample_loop.simps) simp
    moreover have "resample_loop rub spc ch r (p @ ys)
        = (case resample_loop rub spc ch r1 (drop spc p @ ys) of (out2, r2, rest) \<Rightarrow> (out @ out2, r2, rest))"
      using False o t by (subst resample_loop.simps) simp
    ultimately show ?thesis using less [of "drop spc p" r1] False by (simp split: prod.splits)
  qed
qed

lemma resample_loop_rest:
  assumes "rubato_ok rub" "0 < spc"
  shows "length (snd (snd (resample_loop rub spc ch r p))) < spc"
proof (induction "length p" arbitrary: p r rule: less_induct)
  case less
  obtain out r1 where o: "rub r (deinterleave ch (take spc p)) = (Some out, r1)"
    using assms(1) unfolding rubato_ok_def by (metis option.exhaust prod.collapse)
  show ?case
  proof (cases "length p < spc")
    case False
    with less [of "drop spc p" r1] assms(2) o show ?thesis
      by (subst resample_loop.simps) (auto split: prod.splits)
  qed (simp add: resample_loop_short)
qed

text \<open>The resampler with everything it has emitted so far.\<close>

fun resample_feed :: "'r rubato \<Rightarrow> rat list \<times> 'r stream_resampler \<Rightarrow> rat list \<Rightarrow> rat list \<times> 'r stream_resampler" where
  "resample_feed rub (out, rs) xs = (case resampler_process rub rs xs of (o1, rs1) \<Rightarrow> (out @ o1, rs1))"

fun resample_inv :: "'r rubato \<Rightarrow> rat list \<times> 'r stream_resampler \<Rightarrow> bool" where
  "resample_inv rub (out, rs) \<longleftrightarrow> rubato_ok rub \<and> length (rs_pending rs) < rs_chunk_size rs * rs_channels rs"

interpretation resampler: segment_action "resample_feed rub" "resample_inv rub" for rub :: "'r rubato"
proof
  fix s :: "rat list \<times> 'r stream_resampler" and xs ys :: "rat list"
  obtain out rs where s: "s = (out, rs)" by fastforce
  assume inv: "resample_inv rub s"
  then have r: "rubato_ok rub" and l: "length (rs_pending rs) < rs_chunk_size rs * rs_channels rs" by (simp_all add: s)
  show "resample_feed rub s [] = s" using l by (simp add: s resampler_process_def resample_loop_short)
  show "resample_feed rub s (xs @ ys) = resample_feed rub (resample_feed rub s xs) ys"
    using resample_loop_append [OF r, of _ _ _ "rs_pending rs @ xs" ys]
    by (simp add: s resampler_process_def split: prod.splits)
  have "0 < rs_chunk_size rs * rs_channels rs" using l by linarith
  from resample_loop_rest [OF r this, of "rs_channels rs" "rs_resampler rs" "rs_pending rs @ xs"]
  show "resample_inv rub (resample_feed rub s xs)"
    using r by (auto simp: s resampler_process_def split: prod.splits)
qed


lemma chunks_append_dvd:
  assumes "0 < n" "n dvd length xs"
  shows "chunks n (xs @ ys) = chunks n xs @ chunks n ys"
  using assms(2)
proof (induction "length xs" arbitrary: xs rule: less_induct)
  case less
  show ?case
  proof (cases "xs = []")
    case False
    then have "n \<le> length xs" using less.prems by (simp add: dvd_imp_le)
    moreover have "n dvd length (drop n xs)" using less.prems \<open>n \<le> length xs\<close> by simp
    ultimately show ?thesis
      using less.hyps [of "drop n xs"] assms(1) False chunks_step [of n xs] chunks_step [of n "xs @ ys"] by simp
  qed (simp add: chunks_Nil)
qed


lemma mixdown_append:
  assumes "n dvd length xs"
  shows "mixdown (xs @ ys) n m = mixdown xs n m @ mixdown ys n m"
  using assms by (simp add: mixdown_def as_chunks_def chunks_append_dvd)

lemma mixdown_Nil [simp]: "mixdown [] n m = []"
  by (simp add: mixdown_def as_chunks_def)

lemma f32_clamp_bounds: "- 1 \<le> f32_clamp x" "f32_clamp x \<le> 1"
  by (simp_all add: f32_clamp_def)

lemma mixdown_bounds:
  assumes "2 < n" "x \<in> set (mixdown xs n 2)"
  shows "- 1 \<le> x \<and> x \<le> 1"
  using assms f32_clamp_bounds by (auto simp: mixdown_def Let_def split: prod.splits)

fun output_run ::
  "'r rubato \<Rightarrow> byte \<Rightarrow> byte \<Rightarrow> 'r stream_resampler option \<Rightarrow> rat list list \<Rightarrow> rat list \<times> 'r stream_resampler option" where
  "output_run rub src out rs [] = ([], rs)"
| "output_run rub src out rs (p # ps) =
     (case mixdown_and_resample rub p src out rs of (o1, rs1) \<Rightarrow>
      case output_run rub src out rs1 ps of (o2, rs2) \<Rightarrow> (o1 @ o2, rs2))"

definition mixed :: "byte \<Rightarrow> byte \<Rightarrow> rat list \<Rightarrow> rat list" where
  "mixed src out xs = (if src > out then mixdown xs (unat src) (unat out) else xs)"

lemma mixed_concat:
  assumes "\<forall>p \<in> set ps. unat src dvd length p"
  shows "mixed src out (concat ps) = concat (map (mixed src out) ps)"
  using assms by (induction ps) (auto simp: mixed_def mixdown_append)

lemma output_run_feed:
  assumes "resample_inv rub (acc, rs)"
  shows "(case output_run rub src out (Some rs) ps of (o1, rs1) \<Rightarrow> (acc @ o1, rs1))
    = map_prod id Some (foldl (resample_feed rub) (acc, rs) (map (mixed src out) ps))"
  using assms
proof (induction ps arbitrary: acc rs)
  case (Cons p ps)
  obtain o1 rs1 where r: "resampler_process rub rs (mixed src out p) = (o1, rs1)" by fastforce
  have "resample_inv rub (acc @ o1, rs1)"
    using resampler.act_invar [OF Cons.prems, of "mixed src out p"] r by simp
  from Cons.IH [OF this] show ?case
    using r by (simp add: mixdown_and_resample_def mixed_def Let_def split: prod.splits)
qed simp



text \<open>A request for mono output is not honoured: the samples of all channels come out unmixed.\<close>

lemma mono_not_mixed: "0 < n \<Longrightarrow> mixdown xs n 1 = xs"
  by (simp add: mixdown_def)

end
