(* ===== verification/Buffered_Audio.thy ===== *)
theory Buffered_Audio
  imports Playout Audio_Output
begin

text \<open>
  The receiver of AirPlay 2 buffered audio, src/raop/buffered\_audio.rs: extraction of AAC access
  units, the choice among candidate payloads, decoders, and the receive loop over the TCP stream.
  The loop is a function of the bytes that arrive until the connection closes; what it does to the
  playout state is a list of steps of the engine of \<open>Playout\<close>. Labels, counts and amplitudes that
  are only logged are left out.
\<close>

section \<open>AAC payloads\<close>

definition be16 :: "bytes \<Rightarrow> nat \<Rightarrow> u16" where
  "be16 p i = from_be_bytes (slice i (i + 2) p)"

definition div_ceil8 :: "nat \<Rightarrow> nat" where
  "div_ceil8 n = (n + 7) div 8"

definition extract_aac_access_unit :: "bytes \<Rightarrow> bytes option" where
  "extract_aac_access_unit payload =
     (if length payload < 4 then None
      else
        let au_headers_bits = unat (be16 payload 0) in
        if au_headers_bits = 0 \<or> au_headers_bits mod 8 \<noteq> 0 \<or> au_headers_bits > 128 then None
        else
          let data_start = 2 + au_headers_bits div 8 in
          if data_start \<ge> length payload then None
          else if au_headers_bits \<ge> 16 \<and> length payload \<ge> 4 then
            let au_size_bits = unat (drop_bit 3 (be16 payload 2)) in
            if au_size_bits = 0 then None
            else
              let au_size_bytes = div_ceil8 au_size_bits in
              if au_size_bytes \<le> length payload - data_start
              then Some (slice data_start (data_start + au_size_bytes) payload) else None
          else
            let au = drop data_start payload in
            if length au \<ge> 8 then Some au else None)"

definition extract_aac_access_unit_direct_header :: "bytes \<Rightarrow> bytes option" where
  "extract_aac_access_unit_direct_header payload =
     (if length payload < 3 then None
      else
        let au_size_bits = unat (drop_bit 3 (be16 payload 0)) in
        if au_size_bits = 0 then None
        else
          let au_size_bytes = div_ceil8 au_size_bits in
          if au_size_bytes > length payload - 2 then None
          else
            let au = slice 2 (2 + au_size_bytes) payload in
            if length au \<ge> 8 then Some au else None)"

definition starts_with_adts_sync :: "bytes \<Rightarrow> bool" where
  "starts_with_adts_sync payload \<longleftrightarrow> length payload \<ge> 2 \<and> payload ! 0 = 0xFF \<and> payload ! 1 AND 0xF0 = 0xF0"

text \<open>The first plausible unit at an offset of at most 16.\<close>

definition extract_aac_access_unit_shifted :: "bytes \<Rightarrow> bytes option" where
  "extract_aac_access_unit_shifted payload =
     (case List.map_filter (\<lambda>offset.
             if length payload < offset + 4 then None
             else case extract_aac_access_unit (drop offset payload) of
                    None \<Rightarrow> None
                  | Some au \<Rightarrow> if length au < length payload - offset then Some au else None) [0..<17] of
        [] \<Rightarrow> None
      | au # _ \<Rightarrow> Some au)"

fun opt_list :: "'a option \<Rightarrow> 'a list" where
  "opt_list None = []"
| "opt_list (Some x) = [x]"

fun dedup_candidates :: "bytes list \<Rightarrow> bytes list \<Rightarrow> bytes list" where
  "dedup_candidates unique [] = unique"
| "dedup_candidates unique (c # cs) =
     (if length c < 8 \<or> c \<in> set unique then dedup_candidates unique cs
      else dedup_candidates (unique @ [c]) cs)"

definition collect_aac_payload_candidates :: "bytes \<Rightarrow> bytes list" where
  "collect_aac_payload_candidates payload =
     dedup_candidates []
       ((if starts_with_adts_sync payload \<and> length payload > 7 then [drop 7 payload] else [])
        @ (if length payload > 11 \<and> starts_with_adts_sync (drop 4 payload) then [drop 11 payload] else [])
        @ concat (map (\<lambda>offset.
             if length payload < offset + 4 then []
             else opt_list (extract_aac_access_unit (drop offset payload))
                  @ opt_list (extract_aac_access_unit_direct_header (drop offset payload))) [0..<17])
        @ concat (map (\<lambda>offset. if length payload \<le> offset + 8 then [] else [drop offset payload]) [0..<33]))"

definition samples_peak_abs :: "rat list \<Rightarrow> rat" where
  "samples_peak_abs samples = foldl (\<lambda>acc v. if v > acc then v else acc) 0 (map abs samples)"

definition SILENCE_PEAK :: rat where "SILENCE_PEAK = 14073749 / 140737488355328"

definition better :: "(bytes \<times> rat) option \<Rightarrow> rat \<Rightarrow> bool" where
  "better best peak \<longleftrightarrow> (case best of None \<Rightarrow> True | Some (_, p) \<Rightarrow> peak > p)"

text \<open>Each candidate is decoded by a decoder of its own; the loudest audible one wins, else the
  loudest of the others.\<close>

fun probe_loop ::
  "(string + 'd aac_decoder) \<Rightarrow> ('d \<Rightarrow> bytes \<Rightarrow> (string + rat list) \<times> 'd) \<Rightarrow> (bytes \<times> rat) option \<Rightarrow> (bytes \<times> rat) option
   \<Rightarrow> bytes list \<Rightarrow> bytes option" where
  "probe_loop fresh dec loud quiet [] = map_option fst (case loud of Some b \<Rightarrow> Some b | None \<Rightarrow> quiet)"
| "probe_loop fresh dec loud quiet (c # cs) =
     (case fresh of
        Inl _ \<Rightarrow> probe_loop fresh dec loud quiet []
      | Inr a \<Rightarrow>
          (case fst (aac_decode dec a c) of
             Inl _ \<Rightarrow> probe_loop fresh dec loud quiet cs
           | Inr [] \<Rightarrow> probe_loop fresh dec loud quiet cs
           | Inr samples \<Rightarrow>
               let peak = samples_peak_abs samples in
               if peak > SILENCE_PEAK
               then probe_loop fresh dec (if better loud peak then Some (c, peak) else loud) quiet cs
               else probe_loop fresh dec loud (if better quiet peak then Some (c, peak) else quiet) cs))"

definition probe_aac_candidates ::
  "(u32 \<Rightarrow> position set \<Rightarrow> string + 'd) \<Rightarrow> ('d \<Rightarrow> bytes \<Rightarrow> (string + rat list) \<times> 'd) \<Rightarrow> bytes \<Rightarrow> u32 \<Rightarrow> byte \<Rightarrow> bytes option" where
  "probe_aac_candidates mk dec payload sr channels =
     probe_loop (aac_new mk sr channels) dec None None (collect_aac_payload_candidates payload)"

definition select_aac_payload :: "bytes \<Rightarrow> bytes" where
  "select_aac_payload payload =
     (if starts_with_adts_sync payload \<and> length payload > 7 then drop 7 payload
      else if length payload > 11 \<and> starts_with_adts_sync (drop 4 payload) then drop 11 payload
      else case extract_aac_access_unit_shifted payload of
        Some au \<Rightarrow> au
      | None \<Rightarrow>
          (case extract_aac_access_unit_direct_header payload of
             Some au \<Rightarrow> au
           | None \<Rightarrow> payload))"

section \<open>Decoders\<close>

definition buffered_decoder_info :: "u32 \<Rightarrow> byte \<Rightarrow> byte \<Rightarrow> bytes" where
  "buffered_decoder_info sr bit_depth channels =
     (let info = replicate 48 0;
          spf = (if sr \<ge> 48000 then 480 else 352 :: u32);
          info = copy_at 24 (to_be_bytes 4 spf) info;
          info = info[29 := bit_depth, 30 := 40, 31 := 10, 32 := 14, 33 := channels];
          info = copy_at 34 (to_be_bytes 2 (255 :: u16)) info
      in copy_at 44 (to_be_bytes 4 sr) info)"

datatype 'd buffered_decoder = DAac "'d aac_decoder" | DAlac alac_decoder

definition make_decoder :: "(u32 \<Rightarrow> position set \<Rightarrow> string + 'd) \<Rightarrow> audio_ssrc \<Rightarrow> u32 \<Rightarrow> byte \<Rightarrow> 'd buffered_decoder option" where
  "make_decoder mk ssrc src_sr src_ch =
     (if is_alac ssrc then
        (let bit_depth = (case ssrc_bit_depth ssrc of Some b \<Rightarrow> b | None \<Rightarrow> 16)
         in Some (DAlac (set_info (alac_new (ucast bit_depth) (ucast src_ch)) (buffered_decoder_info src_sr bit_depth src_ch))))
      else case aac_new mk src_sr src_ch of Inl _ \<Rightarrow> None | Inr a \<Rightarrow> Some (DAac a))"

section \<open>The receive loop\<close>

record ('d, 'r) rx_env =
  rx_open :: aead_open
  rx_key :: bytes
  rx_mk_aac :: "u32 \<Rightarrow> position set \<Rightarrow> string + 'd"
  rx_dec_aac :: "'d \<Rightarrow> bytes \<Rightarrow> (string + rat list) \<times> 'd"
  rx_mk_rs :: "u32 \<Rightarrow> u32 \<Rightarrow> nat \<Rightarrow> nat \<Rightarrow> 'r option"
  rx_rub :: "'r rubato"
  rx_unwound :: alac_decoder
  rx_sample_rate :: "u32 option"
  rx_max_channels :: "byte option"

record ('d, 'r) rx_audio =
  rx_decoder :: "'d buffered_decoder option"
  current_ssrc :: audio_ssrc
  rx_resampler :: "'r stream_resampler option"
  source_channels :: byte
  output_channels :: byte

definition rx_new :: "('d, 'r) rx_audio" where
  "rx_new = \<lparr>rx_decoder = None, current_ssrc = SsrcNone, rx_resampler = None, source_channels = 2, output_channels = 2\<rparr>"

text \<open>A step of the engine, or the message of an unsupported format reported to the application.\<close>

datatype rx_action = Play playout_step | Unsupported audio_ssrc u32 byte

definition detect_format :: "('d, 'r) rx_env \<Rightarrow> ('d, 'r) rx_audio \<Rightarrow> audio_ssrc \<Rightarrow> rx_action list \<times> ('d, 'r) rx_audio" where
  "detect_format env a ssrc =
     (if ssrc = SsrcNone \<or> ssrc = current_ssrc a then ([], a)
      else
        let src_sr = ssrc_sample_rate ssrc; src_ch = ssrc_channels ssrc;
            dec = make_decoder (rx_mk_aac env) ssrc src_sr src_ch;
            target_sr = (case rx_sample_rate env of Some r \<Rightarrow> r | None \<Rightarrow> src_sr);
            target_ch = (case rx_max_channels env of Some m \<Rightarrow> min src_ch m | None \<Rightarrow> src_ch)
        in ((if dec = None then [Unsupported ssrc src_sr src_ch] else []) @ [Play (Format target_sr target_ch)],
            a\<lparr>current_ssrc := ssrc, rx_decoder := dec,
              rx_resampler := resampler_new (rx_mk_rs env) src_sr target_sr (unat target_ch),
              source_channels := src_ch, output_channels := target_ch\<rparr>))"

definition decode_plain :: "('d, 'r) rx_env \<Rightarrow> ('d, 'r) rx_audio \<Rightarrow> bytes \<Rightarrow> rat list option \<times> 'd buffered_decoder option" where
  "decode_plain env a plaintext =
     (case rx_decoder a of
        None \<Rightarrow> (None, None)
      | Some (DAac dec) \<Rightarrow>
          (let payload = (case probe_aac_candidates (rx_mk_aac env) (rx_dec_aac env) plaintext
                                 (ssrc_sample_rate (current_ssrc a)) (ssrc_channels (current_ssrc a)) of
                            Some p \<Rightarrow> p | None \<Rightarrow> select_aac_payload plaintext)
           in case aac_decode (rx_dec_aac env) dec payload of
                (Inr samples, dec1) \<Rightarrow> (Some samples, Some (DAac dec1))
              | (Inl _, dec1) \<Rightarrow> (None, Some (DAac dec1)))
      | Some (DAlac dec) \<Rightarrow>
          (case decode_frame_f32 (rx_unwound env) dec plaintext of (r, dec1) \<Rightarrow> (r, Some (DAlac dec1))))"

definition packet_timestamp :: "bytes \<Rightarrow> u32" where
  "packet_timestamp packet = from_be_bytes (slice 4 8 packet)"

definition packet_ssrc :: "bytes \<Rightarrow> audio_ssrc" where
  "packet_ssrc packet = ssrc_from_u32 (from_be_bytes (slice 8 12 packet))"

text \<open>One packet of more than 20 bytes.\<close>

definition rx_packet :: "('d, 'r) rx_env \<Rightarrow> ('d, 'r) rx_audio \<Rightarrow> bytes \<Rightarrow> rx_action list \<times> ('d, 'r) rx_audio" where
  "rx_packet env a packet =
     (case detect_format env a (packet_ssrc packet) of (acts, a1) \<Rightarrow>
        (case decrypt_rtp_chacha (rx_open env) (rx_key env) packet of
           None \<Rightarrow> (acts, a1)
         | Some plaintext \<Rightarrow>
             (case decode_plain env a1 plaintext of
                (None, dec) \<Rightarrow> (acts, a1\<lparr>rx_decoder := dec\<rparr>)
              | (Some samples, dec) \<Rightarrow>
                  (case mixdown_and_resample (rx_rub env) samples (source_channels a1) (output_channels a1) (rx_resampler a1) of
                     (out, rs) \<Rightarrow>
                       (acts @ [Play (Arrive (packet_timestamp packet) \<lparr>bf_samples = out, bf_ssrc = current_ssrc a1\<rparr>)],
                        a1\<lparr>rx_decoder := dec, rx_resampler := rs\<rparr>)))))"

text \<open>The stream is what arrives until the connection ends; an incomplete packet ends the loop.\<close>

function receive_loop :: "('d, 'r) rx_env \<Rightarrow> ('d, 'r) rx_audio \<Rightarrow> bytes \<Rightarrow> rx_action list" where
  "receive_loop env a stream =
     (if length stream < 2 then [Play Closed]
      else
        let total_len = unat (be16 stream 0) in
        if total_len < 2 \<or> length stream < total_len then [Play Closed]
        else
          let packet = slice 2 total_len stream; rest = drop total_len stream in
          if length packet \<le> RTP_HEADER_LEN + NONCE_TRAIL_LEN then receive_loop env a rest
          else case rx_packet env a packet of (acts, a1) \<Rightarrow> acts @ receive_loop env a1 rest)"
  by pat_completeness auto
termination by (relation "measure (\<lambda>(env, a, stream). length stream)") auto

declare receive_loop.simps [simp del]

section \<open>A sealed stream is received frame by frame\<close>

text \<open>The sender's side: a length, an RTP header with timestamp and format, the sealed frame.\<close>

definition stream_packet :: "aead_seal \<Rightarrow> bytes \<Rightarrow> u32 \<Rightarrow> bytes \<Rightarrow> u32 \<times> bytes \<Rightarrow> bytes" where
  "stream_packet seal k code tail = (\<lambda>(ts, payload).
     let p = the (rtp_chacha_packet seal k ([0x80, 0x67, 0, 0] @ to_be_bytes 4 ts @ to_be_bytes 4 code) tail payload)
     in to_be_bytes 2 (of_nat (length p + 2) :: u16) @ p)"

text \<open>What the receiver makes of the frames, once the format is known.\<close>

fun rx_frames :: "('d, 'r) rx_env \<Rightarrow> ('d, 'r) rx_audio \<Rightarrow> (u32 \<times> bytes) list \<Rightarrow> playout_step list" where
  "rx_frames env a [] = []"
| "rx_frames env a ((ts, payload) # fs) =
     (case decode_plain env a payload of
        (None, dec) \<Rightarrow> rx_frames env (a\<lparr>rx_decoder := dec\<rparr>) fs
      | (Some samples, dec) \<Rightarrow>
          (case mixdown_and_resample (rx_rub env) samples (source_channels a) (output_channels a) (rx_resampler a) of
             (out, rs) \<Rightarrow> Arrive ts \<lparr>bf_samples = out, bf_ssrc = current_ssrc a\<rparr>
                # rx_frames env (a\<lparr>rx_decoder := dec, rx_resampler := rs\<rparr>) fs))"

definition incomplete :: "bytes \<Rightarrow> bool" where
  "incomplete rest \<longleftrightarrow> length rest < 2 \<or> length rest < unat (be16 rest 0)"

lemma receive_incomplete: "incomplete rest \<Longrightarrow> receive_loop env a rest = [Play Closed]"
  by (subst receive_loop.simps) (auto simp: incomplete_def Let_def)

lemma stream_packet_shape:
  assumes "aead_ok seal aopen" "length k = 32" "length tail = 8" "length payload \<le> 65000"
  obtains p where "stream_packet seal k code tail (ts, payload) = to_be_bytes 2 (of_nat (length p + 2) :: u16) @ p"
    "decrypt_rtp_chacha aopen k p = Some payload" "length p = length payload + 36"
    "packet_timestamp p = ts" "slice 8 12 p = to_be_bytes 4 code"
proof -
  let ?h = "[0x80, 0x67, 0, 0] @ to_be_bytes 4 ts @ to_be_bytes 4 code"
  obtain p where p: "rtp_chacha_packet seal k ?h tail payload = Some p" "decrypt_rtp_chacha aopen k p = Some payload"
      "length p = length payload + 36"
    using decrypt_rtp_roundtrip [OF assms(1,2), of ?h tail payload] assms(3,4) by auto
  then obtain ct where ct: "p = ?h @ ct" by (auto simp: rtp_chacha_packet_def)
  have "packet_timestamp p = ts" "slice 8 12 p = to_be_bytes 4 code"
    by (simp_all add: packet_timestamp_def ct slice_def from_to_be_bytes)
  with p that show ?thesis by (simp add: stream_packet_def Let_def)
qed

lemma receive_packet:
  assumes p: "length p + 2 < 65536" "20 < length p"
  shows "receive_loop env a ((to_be_bytes 2 (of_nat (length p + 2) :: u16) @ p) @ rest)
     = (case rx_packet env a p of (acts, a1) \<Rightarrow> acts @ receive_loop env a1 rest)"
proof -
  have l: "unat (of_nat (length p + 2) :: u16) = length p + 2" using p(1) by (simp only: unat_of_nat) simp
  have "be16 ((to_be_bytes 2 (of_nat (length p + 2) :: u16) @ p) @ rest) 0 = of_nat (length p + 2)"
    by (simp add: be16_def slice_def from_to_be_bytes del: of_nat_add)
  then show ?thesis using p l
    by (subst receive_loop.simps) (simp add: slice_def RTP_HEADER_LEN_def NONCE_TRAIL_LEN_def Let_def)
qed

lemma receive_frames:
  assumes ok: "aead_ok seal (rx_open env)" "length (rx_key env) = 32" "length tail = 8"
    and fs: "\<forall>(ts, payload) \<in> set fs. length payload \<le> 65000"
    and ssrc: "current_ssrc a = ssrc_from_u32 code" and rest: "incomplete rest"
  shows "receive_loop env a (concat (map (stream_packet seal (rx_key env) code tail) fs) @ rest)
     = map Play (rx_frames env a fs) @ [Play Closed]"
  using fs ssrc
proof (induction fs arbitrary: a)
  case Nil
  then show ?case using receive_incomplete [OF rest] by simp
next
  case (Cons f fs)
  obtain ts payload where f: "f = (ts, payload)" by fastforce
  obtain p where p: "stream_packet seal (rx_key env) code tail f = to_be_bytes 2 (of_nat (length p + 2) :: u16) @ p"
    "decrypt_rtp_chacha (rx_open env) (rx_key env) p = Some payload" "length p = length payload + 36"
    "packet_timestamp p = ts" "slice 8 12 p = to_be_bytes 4 code"
    using stream_packet_shape [OF ok, of payload code ts] Cons.prems(1) f by auto
  have l: "length p + 2 < 65536" "20 < length p" using p(3) Cons.prems(1) f by auto
  have s: "packet_ssrc p = current_ssrc a" using Cons.prems(2) p(5) by (simp add: packet_ssrc_def from_to_be_bytes)
  have "receive_loop env a (concat (map (stream_packet seal (rx_key env) code tail) (f # fs)) @ rest)
      = (case rx_packet env a p of (acts, a1) \<Rightarrow> acts @ receive_loop env a1
           (concat (map (stream_packet seal (rx_key env) code tail) fs) @ rest))"
    using receive_packet [OF l, of env a] p(1) by simp
  also have "\<dots> = map Play (rx_frames env a (f # fs)) @ [Play Closed]"
    using Cons.IH Cons.prems p(2,4) s
    by (auto simp: rx_packet_def detect_format_def f split: prod.splits option.splits)
  finally show ?case .
qed


lemma detect_format_twice:
  assumes "ssrc \<noteq> SsrcNone" "detect_format env a ssrc = (acts, a1)"
  shows "current_ssrc a1 = ssrc" "detect_format env a1 ssrc = ([], a1)"
  using assms by (auto simp: detect_format_def Let_def split: if_splits)

lemma rx_packet_format:
  assumes "packet_ssrc p = ssrc" "ssrc \<noteq> SsrcNone" "detect_format env a ssrc = (acts, a1)"
  shows "rx_packet env a p = (case rx_packet env a1 p of (acts', a') \<Rightarrow> (acts @ acts', a'))"
  using assms(1,3) detect_format_twice(2) [OF assms(2,3)]
  by (auto simp: rx_packet_def split: option.splits prod.splits)


definition sample_rx :: "(unit, unit) rx_env" where
  "sample_rx = \<lparr>rx_open = (\<lambda>k n a c. Some (take (length c - 16) c)), rx_key = replicate 32 1,
     rx_mk_aac = (\<lambda>_ _. Inr ()), rx_dec_aac = (\<lambda>d p. (Inr [1, 2], d)), rx_mk_rs = (\<lambda>_ _ _ _. None),
     rx_rub = (\<lambda>r x. (Some [], r)), rx_unwound = alac_new 16 2, rx_sample_rate = None, rx_max_channels = None\<rparr>"


text \<open>The code divides the AU-size field by eight. RFC 3640 gives that field in octets: of an access
  unit of \<open>n\<close> octets only the first eighth is extracted.\<close>

lemma access_unit_cut:
  assumes "0 < n" "n < 8192" "n \<le> length unit"
  shows "extract_aac_access_unit ([0, 16] @ to_be_bytes 2 (of_nat (n * 8) :: u16) @ unit) = Some (take (div_ceil8 n) unit)"
proof -
  have u: "unat (of_nat (n * 8) :: u16) = n * 8" using assms(2) by (simp only: unat_of_nat) simp
  have "unat (drop_bit 3 (of_nat (n * 8) :: u16)) = n"
    using u by (simp add: drop_bit_eq_div unat_div)
  moreover have "div_ceil8 n \<le> length unit" "0 < length unit" using assms by (auto simp: div_ceil8_def)
  moreover have "be16 ([0, 16] @ to_be_bytes 2 (of_nat (n * 8) :: u16) @ unit) 0 = 16"
    by (simp add: be16_def slice_def from_be_bytes_def)
  moreover have "be16 ([0, 16] @ to_be_bytes 2 (of_nat (n * 8) :: u16) @ unit) 2 = of_nat (n * 8)"
    by (simp add: be16_def slice_def from_to_be_bytes del: of_nat_mult)
  ultimately show ?thesis
    using assms(1) by (simp add: extract_aac_access_unit_def Let_def slice_def del: of_nat_mult)
qed

end
