(* ===== verification/Realtime_Audio.thy ===== *)
theory Realtime_Audio
  imports Audio_Output Errors
begin

text \<open>
  The realtime audio receiver of AirPlay 2, src/raop/realtime\_audio.rs: datagrams are decrypted,
  decoded and handed to the application at once. One step of the loop consumes one result of the
  socket; the application's calls are a list of events. \<open>unwound\<close> is the decoder a panicking call
  leaves behind, as in \<open>decode_frame_f32\<close>.
\<close>

section \<open>Model\<close>

record output_config =
  source_sample_rate :: u32
  samples_per_frame :: u32
  oc_channels :: byte
  oc_bit_depth :: byte
  oc_sample_rate :: "u32 option"
  oc_max_channels :: "byte option"

definition positive :: "'a::len word option \<Rightarrow> 'a word option" where
  "positive x = (case x of Some r \<Rightarrow> if r > 0 then Some r else None | None \<Rightarrow> None)"

definition normalize_output_config :: "output_config \<Rightarrow> output_config" where
  "normalize_output_config c =
     \<lparr>source_sample_rate = (if source_sample_rate c = 0 then 44100 else source_sample_rate c),
      samples_per_frame = (if samples_per_frame c = 0 then 352 else samples_per_frame c),
      oc_channels = (if oc_channels c = 0 then 2 else oc_channels c),
      oc_bit_depth = (if oc_bit_depth c = 0 then 16 else oc_bit_depth c),
      oc_sample_rate = positive (oc_sample_rate c),
      oc_max_channels = positive (oc_max_channels c)\<rparr>"

definition rt_decoder_info :: "output_config \<Rightarrow> bytes" where
  "rt_decoder_info c =
     (let info = replicate 48 0;
          info = copy_at 24 (to_be_bytes 4 (samples_per_frame c)) info;
          info = info[29 := oc_bit_depth c, 30 := 40, 31 := 10, 32 := 14, 33 := oc_channels c];
          info = copy_at 34 (to_be_bytes 2 (255 :: u16)) info
      in copy_at 44 (to_be_bytes 4 (source_sample_rate c)) info)"

record 'r rt_state =
  rt_decoder :: "alac_decoder option"
  rt_resampler :: "'r stream_resampler option"
  rt_session :: bool
  rt_src_ch :: byte
  rt_out_ch :: byte

datatype rt_event =
    RtInit byte u32
  | RtProcess "rat list"
  | RtError network_error

datatype recv_result = Datagram bytes | RecvError string

definition rt_new :: "'r rt_state" where
  "rt_new = \<lparr>rt_decoder = None, rt_resampler = None, rt_session = False, rt_src_ch = 2, rt_out_ch = 2\<rparr>"

record 'r rt_env =
  rt_open :: aead_open
  rt_key :: bytes
  rt_mk :: "u32 \<Rightarrow> u32 \<Rightarrow> nat \<Rightarrow> nat \<Rightarrow> 'r option"
  rt_rub :: "'r rubato"
  rt_unwound :: alac_decoder

text \<open>The set-up at the first packet; \<open>c\<close> is the normalised configuration.\<close>

definition rt_init :: "'r rt_env \<Rightarrow> output_config \<Rightarrow> 'r rt_state \<Rightarrow> rt_event list \<times> 'r rt_state" where
  "rt_init env c s =
     (if rt_session s then ([], s)
      else
        let src_sr = source_sample_rate c; src_ch = oc_channels c;
            target_sr = (case oc_sample_rate c of Some r \<Rightarrow> r | None \<Rightarrow> src_sr);
            out_ch = (case oc_max_channels c of Some m \<Rightarrow> min src_ch m | None \<Rightarrow> src_ch)
        in ([RtInit out_ch target_sr],
            s\<lparr>rt_src_ch := src_ch, rt_out_ch := out_ch,
              rt_decoder := Some (set_info (alac_new (ucast (oc_bit_depth c)) (ucast src_ch)) (rt_decoder_info c)),
              rt_resampler := (if target_sr \<noteq> src_sr then resampler_new (rt_mk env) src_sr target_sr (unat out_ch)
                               else rt_resampler s),
              rt_session := True\<rparr>))"

definition rt_audio :: "'r rt_env \<Rightarrow> 'r rt_state \<Rightarrow> bytes \<Rightarrow> rt_event list \<times> 'r rt_state" where
  "rt_audio env s packet =
     (case decrypt_rtp_chacha (rt_open env) (rt_key env) packet of
        None \<Rightarrow> ([], s)
      | Some alac_data \<Rightarrow>
          (case rt_decoder s of
             None \<Rightarrow> ([], s)
           | Some d \<Rightarrow>
               (case decode_frame_f32 (rt_unwound env) d alac_data of
                  (None, d1) \<Rightarrow> ([], s\<lparr>rt_decoder := Some d1\<rparr>)
                | (Some samples, d1) \<Rightarrow>
                    (case mixdown_and_resample (rt_rub env) samples (rt_src_ch s) (rt_out_ch s) (rt_resampler s) of
                       (out, rs) \<Rightarrow> ([RtProcess out], s\<lparr>rt_decoder := Some d1, rt_resampler := rs\<rparr>)))))"

definition rt_packet :: "'r rt_env \<Rightarrow> output_config \<Rightarrow> 'r rt_state \<Rightarrow> bytes \<Rightarrow> rt_event list \<times> 'r rt_state" where
  "rt_packet env c s packet =
     (if length packet \<le> RTP_HEADER_LEN + NONCE_TRAIL_LEN then ([], s)
      else case rt_init env c s of (ev1, s1) \<Rightarrow> case rt_audio env s1 packet of (ev2, s2) \<Rightarrow> (ev1 @ ev2, s2))"

text \<open>The loop on the results of the socket; the receive buffer has 4096 bytes. It ends with an
  error or an empty datagram.\<close>

fun rt_loop :: "'r rt_env \<Rightarrow> output_config \<Rightarrow> 'r rt_state \<Rightarrow> recv_result list \<Rightarrow> rt_event list \<times> 'r rt_state" where
  "rt_loop env c s [] = ([], s)"
| "rt_loop env c s (RecvError e # rs) = ([RtError (Io e)], s)"
| "rt_loop env c s (Datagram d # rs) =
     (if d = [] then ([], s)
      else case rt_packet env c s (take 4096 d) of (ev1, s1) \<Rightarrow>
           case rt_loop env c s1 rs of (ev2, s2) \<Rightarrow> (ev1 @ ev2, s2))"

definition rt_run :: "'r rt_env \<Rightarrow> output_config \<Rightarrow> recv_result list \<Rightarrow> rt_event list" where
  "rt_run env config rs = fst (rt_loop env (normalize_output_config config) rt_new rs)"

section \<open>Only authentic packets are heard\<close>

fun rt_played :: "rt_event list \<Rightarrow> rat list list" where
  "rt_played [] = []"
| "rt_played (RtProcess xs # es) = xs # rt_played es"
| "rt_played (_ # es) = rt_played es"

definition authentic :: "'r rt_env \<Rightarrow> bytes \<Rightarrow> bool" where
  "authentic env d \<longleftrightarrow> decrypt_rtp_chacha (rt_open env) (rt_key env) (take 4096 d) \<noteq> None"

text \<open>The state as it is for the next packet: set up or about to be.\<close>

definition rt_ready :: "'r rt_env \<Rightarrow> output_config \<Rightarrow> 'r rt_state \<Rightarrow> 'r rt_state" where
  "rt_ready env c s = snd (rt_init env c s)"

lemma rt_played_append [simp]: "rt_played (es @ es') = rt_played es @ rt_played es'"
  by (induction es rule: rt_played.induct) auto

lemma rt_init_silent [simp]: "rt_init env c s = (ev, s') \<Longrightarrow> rt_played ev = []"
  by (auto simp: rt_init_def Let_def split: if_splits)

lemma rt_ready_idem: "rt_session s \<Longrightarrow> rt_ready env c s = s" "rt_session (rt_ready env c s)"
  by (auto simp: rt_ready_def rt_init_def Let_def)

lemma rt_audio_session: "rt_audio env s p = (ev, s') \<Longrightarrow> rt_session s' = rt_session s"
  by (auto simp: rt_audio_def split: option.splits prod.splits)

lemma authentic_long: "decrypt_rtp_chacha aopen k p \<noteq> None \<Longrightarrow> RTP_HEADER_LEN + NONCE_TRAIL_LEN < length p"
  by (auto simp: decrypt_rtp_chacha_def RTP_HEADER_LEN_def NONCE_TRAIL_LEN_def CHACHA_TAG_LEN_def Let_def split: if_splits)

lemma rt_packet_cases:
  assumes "rt_packet env c s p = (ev, s')"
  shows "rt_played ev = (if decrypt_rtp_chacha (rt_open env) (rt_key env) p = None then []
            else rt_played (fst (rt_audio env (rt_ready env c s) p)))
    \<and> rt_ready env c s' = (if decrypt_rtp_chacha (rt_open env) (rt_key env) p = None then rt_ready env c s
            else snd (rt_audio env (rt_ready env c s) p))"
proof (cases "length p \<le> RTP_HEADER_LEN + NONCE_TRAIL_LEN")
  case True
  then show ?thesis using assms authentic_long [of "rt_open env" "rt_key env" p] by (auto simp: rt_packet_def)
next
  case False
  obtain ev1 s1 ev2 where i: "rt_init env c s = (ev1, s1)" "rt_audio env s1 p = (ev2, s')" "ev = ev1 @ ev2"
    using assms False by (auto simp: rt_packet_def split: prod.splits)
  have "s1 = rt_ready env c s" by (simp add: rt_ready_def i(1))
  moreover have "rt_ready env c s' = s'"
    using rt_ready_idem rt_audio_session [OF i(2)] \<open>s1 = rt_ready env c s\<close> by metis
  moreover have "decrypt_rtp_chacha (rt_open env) (rt_key env) p = None \<Longrightarrow> ev2 = [] \<and> s' = s1"
    using i(2) by (auto simp: rt_audio_def)
  ultimately show ?thesis using i by auto
qed

lemma rt_loop_ready:
  assumes "rt_ready env c s = rt_ready env c t" "[] \<notin> set ds"
  shows "rt_played (fst (rt_loop env c s (map Datagram ds)))
    = rt_played (fst (rt_loop env c t (map Datagram (filter (authentic env) ds))))"
  using assms
proof (induction ds arbitrary: s t)
  case (Cons d ds)
  obtain ev s1 where p: "rt_packet env c s (take 4096 d) = (ev, s1)" by fastforce
  note f = rt_packet_cases [OF p]
  show ?case
  proof (cases "authentic env d")
    case True
    obtain ev' t1 where q: "rt_packet env c t (take 4096 d) = (ev', t1)" by fastforce
    note g = rt_packet_cases [OF q]
    from Cons.IH [of s1 t1] f g True p q Cons.prems show ?thesis by (auto simp: authentic_def split: prod.splits)
  next
    case False
    from Cons.IH [of s1 t] f False p Cons.prems show ?thesis by (auto simp: authentic_def split: prod.splits)
  qed
qed simp


definition rt_sample_env :: "unit rt_env" where
  "rt_sample_env = \<lparr>rt_open = (\<lambda>k n a ct. if k = n then None else Some ct), rt_key = replicate 32 1,
     rt_mk = (\<lambda>_ _ _ _. None), rt_rub = (\<lambda>r x. (Some [], r)), rt_unwound = alac_new 16 2\<rparr>"


text \<open>An empty datagram, which anybody can send, ends the receiver: nothing after it is heard.\<close>

lemma empty_datagram_ends: "rt_run env config (Datagram [] # rs) = []"
  by (simp add: rt_run_def)

end
