(* ===== verification/Homekit_Srp.thy ===== *)
theory Homekit_Srp
  imports Tlv Chacha_Transport Pairing_Ap1 Utf8
begin

text \<open>
  HomeKit pair-setup, the first half of src/crypto/pairing_homekit.rs: the SRP-6a server over the
  3072-bit group of RFC 5054 and the exchange of long-term identities (M1 to M6). Big integers
  (\<open>BigUint\<close>) are natural numbers. SHA-512 and Ed25519 are those of \<open>pair_crypto\<close>, HKDF and
  ChaCha20-Poly1305 further parameters; random bytes are arguments.
\<close>

section \<open>Numbers and bytes\<close>

fun to_bytes_be :: "nat \<Rightarrow> bytes" where
  "to_bytes_be n = (if n < 256 then [of_nat n] else to_bytes_be (n div 256) @ [of_nat (n mod 256)])"

declare to_bytes_be.simps [simp del]

definition from_bytes_be :: "bytes \<Rightarrow> nat" where
  "from_bytes_be bs = nat_of_le (rev bs)"

definition to_bytes_be_padded :: "nat \<Rightarrow> nat \<Rightarrow> bytes" where
  "to_bytes_be_padded n len =
     (let b = to_bytes_be n in if length b \<ge> len then b else replicate (len - length b) 0 @ b)"

definition modpow :: "nat \<Rightarrow> nat \<Rightarrow> nat \<Rightarrow> nat" where
  "modpow b e m = b ^ e mod m"

section \<open>Constants\<close>

definition USERNAME :: bytes where "USERNAME = as_bytes ''Pair-Setup''"
definition TRANSIENT_PIN :: bytes where "TRANSIENT_PIN = as_bytes ''3939''"
definition PAIRING_METHOD_PAIR_SETUP :: byte where "PAIRING_METHOD_PAIR_SETUP = 0"
definition PAIRING_FLAGS_TRANSIENT :: byte where "PAIRING_FLAGS_TRANSIENT = 0x10"
definition TLV_ERROR_AUTHENTICATION :: byte where "TLV_ERROR_AUTHENTICATION = 2"

definition PS_ENCRYPT_SALT :: string where "PS_ENCRYPT_SALT = ''Pair-Setup-Encrypt-Salt''"
definition PS_ENCRYPT_INFO :: string where "PS_ENCRYPT_INFO = ''Pair-Setup-Encrypt-Info''"
definition PV_ENCRYPT_SALT :: string where "PV_ENCRYPT_SALT = ''Pair-Verify-Encrypt-Salt''"
definition PV_ENCRYPT_INFO :: string where "PV_ENCRYPT_INFO = ''Pair-Verify-Encrypt-Info''"

definition N_3072 :: nat where
  "N_3072 = 0xFFFFFFFFFFFFFFFFC90FDAA22168C234C4C6628B80DC1CD129024E088A67CC74020BBEA63B139B22514A08798E3404DDEF9519B3CD3A431B302B0A6DF25F14374FE1356D6D51C245E485B576625E7EC6F44C42E9A637ED6B0BFF5CB6F406B7EDEE386BFB5A899FA5AE9F24117C4B1FE649286651ECE45B3DC2007CB8A163BF0598DA48361C55D39A69163FA8FD24CF5F83655D23DCA3AD961C62F356208552BB9ED529077096966D670C354E4ABC9804F1746C08CA18217C32905E462E36CE3BE39E772C180E86039B2783A2EC07A28FB5C55DF06F4C52C9DE2BCBF6955817183995497CEA956AE515D2261898FA051015728E5A8AAAC42DAD33170D04507A33A85521ABDF1CBA64ECFB850458DBEF0A8AEA71575D060C7DB3970F85A6E1E4C7ABF5AE8CDB0933D71E8C94E04A25619DCEE3D2261AD2EE6BF12FFA06D98A0864D87602733EC86A64521F2B18177B200CBBE117577A615D6C770988C0BAD946E208E24FA074E5AB3143DB5BFCE0FD108E4B82D120A93AD2CAFFFFFFFFFFFFFFFF"

definition G_3072 :: nat where "G_3072 = 5"
definition N_3072_LEN :: nat where "N_3072_LEN = 384"

section \<open>SRP hashes\<close>

definition h_nn_pad :: "pair_crypto \<Rightarrow> nat \<Rightarrow> nat \<Rightarrow> nat \<Rightarrow> nat" where
  "h_nn_pad pc n1 n2 padded_len =
     from_bytes_be (sha512 pc (to_bytes_be_padded n1 padded_len @ to_bytes_be_padded n2 padded_len))"

definition calculate_x :: "pair_crypto \<Rightarrow> nat \<Rightarrow> bytes \<Rightarrow> bytes \<Rightarrow> nat" where
  "calculate_x pc salt username pass =
     (let ucp_hash = sha512 pc (username @ as_bytes '':'' @ pass)
      in from_bytes_be (sha512 pc (to_bytes_be salt @ ucp_hash)))"

definition calculate_m :: "pair_crypto \<Rightarrow> nat \<Rightarrow> nat \<Rightarrow> bytes \<Rightarrow> nat \<Rightarrow> nat \<Rightarrow> nat \<Rightarrow> bytes \<Rightarrow> bytes" where
  "calculate_m pc n g username salt big_a big_b session_key =
     (let h_n = sha512 pc (to_bytes_be n);
          h_g = sha512 pc (to_bytes_be g);
          h_xor = map (\<lambda>i. h_n ! i XOR h_g ! i) [0..<64]
      in sha512 pc (h_xor @ sha512 pc username @ to_bytes_be salt @ to_bytes_be big_a @ to_bytes_be big_b @ session_key))"

definition calculate_h_amk :: "pair_crypto \<Rightarrow> nat \<Rightarrow> bytes \<Rightarrow> bytes \<Rightarrow> bytes" where
  "calculate_h_amk pc big_a m session_key = sha512 pc (to_bytes_be big_a @ m @ session_key)"

section \<open>The SRP server\<close>

record srp_server =
  srp_n :: nat
  srp_g :: nat
  srp_salt :: bytes
  srp_v :: nat
  srp_b :: nat
  srp_big_b :: nat
  srp_session_key :: bytes
  srp_m2 :: bytes
  srp_is_transient :: bool
  srp_allow_transient :: bool
  srp_verified :: bool

text \<open>\<open>salt_bytes\<close> (16) and \<open>b_bytes\<close> (32) are drawn at random.\<close>

definition srp_new :: "pair_crypto \<Rightarrow> bytes \<Rightarrow> bytes \<Rightarrow> bytes option \<Rightarrow> srp_server" where
  "srp_new pc salt_bytes b_bytes pin =
     (let n = N_3072; g = G_3072;
          x = calculate_x pc (from_bytes_be salt_bytes) USERNAME (case pin of None \<Rightarrow> TRANSIENT_PIN | Some p \<Rightarrow> p);
          v = modpow g x n;
          k = h_nn_pad pc n g N_3072_LEN;
          b = from_bytes_be b_bytes
      in \<lparr>srp_n = n, srp_g = g, srp_salt = salt_bytes, srp_v = v, srp_b = b,
          srp_big_b = (k * v mod n + modpow g b n) mod n,
          srp_session_key = [], srp_m2 = [], srp_is_transient = False,
          srp_allow_transient = (pin = None), srp_verified = False\<rparr>)"

definition tlv_error_text :: "tlv_error \<Rightarrow> string" where
  "tlv_error_text e = (case e of Truncated \<Rightarrow> ''TLV data truncated'')"

text \<open>Decoding a message and demanding a field, with the errors the code reports.\<close>

definition tlv_parse :: "bytes \<Rightarrow> crypto_error + tlv_values" where
  "tlv_parse d = (case tlv_decode d of Inl e \<Rightarrow> Inl (PairingHandshake (tlv_error_text e)) | Inr t \<Rightarrow> Inr t)"

definition tlv_need :: "tlv_values \<Rightarrow> tlv_type \<Rightarrow> string \<Rightarrow> crypto_error + bytes" where
  "tlv_need t ty msg = (case tlv_get_type t ty of None \<Rightarrow> Inl (PairingHandshake msg) | Some v \<Rightarrow> Inr v)"

definition process_m1 :: "srp_server \<Rightarrow> bytes \<Rightarrow> (crypto_error + unit) \<times> srp_server" where
  "process_m1 s d =
     (case tlv_parse d of
        Inl e \<Rightarrow> (Inl e, s)
      | Inr t \<Rightarrow>
          (case tlv_need t Method ''Missing Method'' of
             Inl e \<Rightarrow> (Inl e, s)
           | Inr m \<Rightarrow>
               if m \<noteq> [PAIRING_METHOD_PAIR_SETUP] then (Inl (PairingHandshake ''Unexpected pairing method''), s)
               else
                 let s1 = s\<lparr>srp_is_transient :=
                              (case tlv_get_type t Flags of None \<Rightarrow> False | Some f \<Rightarrow> f = [PAIRING_FLAGS_TRANSIENT])\<rparr>
                 in if srp_is_transient s1 \<and> \<not> srp_allow_transient s1
                    then (Inl (PairingHandshake ''transient pair-setup is disabled when a PIN is configured''), s1)
                    else (Inr (), s1)))"

definition build_m2 :: "srp_server \<Rightarrow> bytes" where
  "build_m2 s =
     tlv_encode (tlv_add (tlv_add (tlv_add tlv_new (tlv_code State) [2]) (tlv_code Salt) (srp_salt s))
       (tlv_code PublicKey) (to_bytes_be_padded (srp_big_b s) N_3072_LEN))"

definition srp_shared :: "srp_server \<Rightarrow> nat \<Rightarrow> nat \<Rightarrow> nat" where
  "srp_shared s big_a u = modpow (big_a * modpow (srp_v s) u (srp_n s) mod srp_n s) (srp_b s) (srp_n s)"

definition process_m3 :: "pair_crypto \<Rightarrow> srp_server \<Rightarrow> bytes \<Rightarrow> (crypto_error + bool) \<times> srp_server" where
  "process_m3 pc s d =
     (case tlv_parse d of
        Inl e \<Rightarrow> (Inl e, s)
      | Inr t \<Rightarrow>
          (case tlv_need t PublicKey ''Missing PublicKey'' of
             Inl e \<Rightarrow> (Inl e, s)
           | Inr pk_bytes \<Rightarrow>
               (case tlv_need t Proof ''Missing Proof'' of
                  Inl e \<Rightarrow> (Inl e, s)
                | Inr proof \<Rightarrow>
                    if length proof \<noteq> 64 then (Inl (PairingHandshake ''Invalid proof length''), s)
                    else
                      let big_a = from_bytes_be pk_bytes
                      in if big_a mod srp_n s = 0 then (Inl (PairingHandshake ''A mod N is zero''), s)
                         else
                           let u = h_nn_pad pc big_a (srp_big_b s) N_3072_LEN;
                               s1 = s\<lparr>srp_session_key := sha512 pc (to_bytes_be (srp_shared s big_a u))\<rparr>;
                               expected_m = calculate_m pc (srp_n s) (srp_g s) USERNAME (from_bytes_be (srp_salt s))
                                              big_a (srp_big_b s) (srp_session_key s1)
                           in if proof \<noteq> expected_m then (Inr False, s1\<lparr>srp_verified := False\<rparr>)
                              else (Inr True, s1\<lparr>srp_m2 := calculate_h_amk pc big_a expected_m (srp_session_key s1),
                                                 srp_verified := True\<rparr>))))"

definition pairing_error_response :: "byte \<Rightarrow> bytes" where
  "pairing_error_response st =
     tlv_encode (tlv_add (tlv_add tlv_new (tlv_code State) [st]) (tlv_code Error) [TLV_ERROR_AUTHENTICATION])"

definition build_m4 :: "srp_server \<Rightarrow> crypto_error + bytes" where
  "build_m4 s =
     (if \<not> srp_verified s
      then Inr (tlv_encode (tlv_add (tlv_add tlv_new (tlv_code State) [4]) (tlv_code Error) [TLV_ERROR_AUTHENTICATION]))
      else Inr (tlv_encode (tlv_add (tlv_add tlv_new (tlv_code State) [4]) (tlv_code Proof) (srp_m2 s))))"

definition srp_shared_secret :: "srp_server \<Rightarrow> bytes option" where
  "srp_shared_secret s = (if srp_verified s \<and> srp_is_transient s then Some (srp_session_key s) else None)"

section \<open>Identity exchange\<close>

record hk_crypto =
  hk_pair :: pair_crypto
  hk_hkdf :: hkdf_expand
  hk_seal :: aead_seal
  hk_open :: aead_open

definition hkdf_derive :: "hk_crypto \<Rightarrow> bytes \<Rightarrow> string \<Rightarrow> string \<Rightarrow> crypto_error + bytes" where
  "hkdf_derive hk ikm salt info =
     (case hk_hkdf hk salt ikm info 32 of
        None \<Rightarrow> Inl (PairingHandshake ''HKDF expand failed'')
      | Some out \<Rightarrow> Inr out)"

definition encrypt_chacha :: "hk_crypto \<Rightarrow> bytes \<Rightarrow> bytes \<Rightarrow> bytes \<Rightarrow> crypto_error + bytes" where
  "encrypt_chacha hk k n plaintext =
     (case hk_seal hk k n [] plaintext of
        None \<Rightarrow> Inl (PairingHandshake ''ChaCha20 encrypt failed'')
      | Some c \<Rightarrow> Inr c)"

definition decrypt_chacha :: "hk_crypto \<Rightarrow> bytes \<Rightarrow> bytes \<Rightarrow> bytes \<Rightarrow> crypto_error + bytes" where
  "decrypt_chacha hk k n ct =
     (case hk_open hk k n [] ct of
        None \<Rightarrow> Inl (PairingHandshake ''ChaCha20 decrypt failed'')
      | Some p \<Rightarrow> Inr p)"

definition make_nonce :: "string \<Rightarrow> bytes" where
  "make_nonce tag = copy_at 4 (take 8 (as_bytes tag)) (replicate 12 0)"

text \<open>The pair of keys of an identity is its seed and the public key of that seed.\<close>

definition identity_keypair :: "hk_crypto \<Rightarrow> bytes \<Rightarrow> bytes \<times> bytes" where
  "identity_keypair hk seed = (seed, ed_public (hk_pair hk) seed)"

definition server_keypair :: "hk_crypto \<Rightarrow> string \<Rightarrow> bytes \<times> bytes" where
  "server_keypair hk device_id =
     identity_keypair hk (copy_at 0 (take 32 (as_bytes device_id)) (replicate 32 0))"

definition bind_sum :: "'e + 'a \<Rightarrow> ('a \<Rightarrow> 'e + 'b) \<Rightarrow> 'e + 'b" where
  "bind_sum r f = (case r of Inl e \<Rightarrow> Inl e | Inr x \<Rightarrow> f x)"

lemma bind_sum_simps [simp]: "bind_sum (Inl e) f = Inl e" "bind_sum (Inr x) f = f x"
  by (simp_all add: bind_sum_def)

definition decrypt_setup_m5 :: "hk_crypto \<Rightarrow> bytes \<Rightarrow> bytes \<Rightarrow> crypto_error + tlv_values" where
  "decrypt_setup_m5 hk session_key d =
     bind_sum (tlv_parse d) (\<lambda>t.
     bind_sum (tlv_need t EncryptedData ''M5: missing encrypted data'') (\<lambda>enc.
     bind_sum (hkdf_derive hk session_key PS_ENCRYPT_SALT PS_ENCRYPT_INFO) (\<lambda>derived.
     bind_sum (decrypt_chacha hk derived (make_nonce ''PS-Msg05'') enc) tlv_parse)))"

definition verify_controller_identity ::
  "hk_crypto \<Rightarrow> bytes \<Rightarrow> bytes \<Rightarrow> bytes \<Rightarrow> bytes \<Rightarrow> crypto_error + bytes" where
  "verify_controller_identity hk session_key identifier signature client_pk =
     bind_sum (hkdf_derive hk session_key ''Pair-Setup-Controller-Sign-Salt'' ''Pair-Setup-Controller-Sign-Info'')
       (\<lambda>device_x.
          if length client_pk \<noteq> 32 then Inl (PairingHandshake ''M5: invalid public key length'')
          else if \<not> ed_key_ok (hk_pair hk) client_pk then Inl (PairingHandshake ''M5: invalid public key'')
          else if length signature \<noteq> 64 then Inl (PairingHandshake ''M5: invalid signature length'')
          else if \<not> ed_verify (hk_pair hk) client_pk (device_x @ identifier @ client_pk) signature then Inl PairingVerify
          else Inr client_pk)"

definition setup_verify_client_identity :: "hk_crypto \<Rightarrow> bytes \<Rightarrow> bytes \<Rightarrow> crypto_error + string \<times> bytes" where
  "setup_verify_client_identity hk session_key d =
     bind_sum (decrypt_setup_m5 hk session_key d) (\<lambda>inner.
     bind_sum (tlv_need inner Identifier ''M5: missing identifier'') (\<lambda>identifier.
     bind_sum (tlv_need inner Signature ''M5: missing signature'') (\<lambda>signature.
     bind_sum (tlv_need inner PublicKey ''M5: missing public key'') (\<lambda>client_pk.
     bind_sum (verify_controller_identity hk session_key identifier signature client_pk) (\<lambda>public_key.
       case from_utf8 identifier of
         None \<Rightarrow> Inl (PairingHandshake ''M5: invalid identifier encoding'')
       | Some ident \<Rightarrow> Inr (ident, public_key))))))"

definition process_m5 :: "hk_crypto \<Rightarrow> srp_server \<Rightarrow> bytes \<Rightarrow> crypto_error + string \<times> bytes" where
  "process_m5 hk s d =
     (if \<not> srp_verified s
      then Inl (PairingHandshake ''M5: pair-setup not verified (M3 must succeed first)'')
      else if srp_is_transient s then Inl (PairingHandshake ''M5: not allowed for transient pairing'')
      else setup_verify_client_identity hk (srp_session_key s) d)"

definition setup_build_accessory_identity :: "hk_crypto \<Rightarrow> bytes \<Rightarrow> string \<Rightarrow> bytes \<Rightarrow> crypto_error + bytes" where
  "setup_build_accessory_identity hk session_key device_id identity_seed =
     (let (sk, vk) = identity_keypair hk identity_seed in
      bind_sum (hkdf_derive hk session_key ''Pair-Setup-Accessory-Sign-Salt'' ''Pair-Setup-Accessory-Sign-Info'')
        (\<lambda>device_x.
          let signature = ed_sign (hk_pair hk) sk (device_x @ as_bytes device_id @ vk);
              inner = tlv_add (tlv_add (tlv_add tlv_new (tlv_code Identifier) (as_bytes device_id))
                        (tlv_code Signature) signature) (tlv_code PublicKey) vk
          in bind_sum (hkdf_derive hk session_key PS_ENCRYPT_SALT PS_ENCRYPT_INFO) (\<lambda>derived.
             bind_sum (encrypt_chacha hk derived (make_nonce ''PS-Msg06'') (tlv_encode inner)) (\<lambda>encrypted.
               Inr (tlv_encode (tlv_add (tlv_add tlv_new (tlv_code State) [6]) (tlv_code EncryptedData) encrypted))))))"

definition build_m6 :: "hk_crypto \<Rightarrow> srp_server \<Rightarrow> string \<Rightarrow> bytes \<Rightarrow> crypto_error + bytes" where
  "build_m6 hk s device_id identity_seed =
     setup_build_accessory_identity hk (srp_session_key s) device_id identity_seed"

end
