(* ===== verification/Homekit_Verify.thy ===== *)
theory Homekit_Verify
  imports Homekit_Srp
begin

text \<open>
  HomeKit pair-verify, the second half of src/crypto/pairing_homekit.rs: an X25519 exchange in
  which both sides sign both ephemeral keys with their long-term identities.
\<close>

section \<open>Model\<close>

record pair_verify_server =
  pv_device_id :: string
  pv_server_sk :: bytes
  pv_server_eph_sk :: bytes
  pv_server_eph_pk :: bytes
  pv_client_eph_pk :: bytes
  pv_shared_secret :: bytes
  pv_m1_processed :: bool
  pv_completed :: bool

text \<open>\<open>eph\<close> is the random ephemeral secret.\<close>

definition pv_new :: "hk_crypto \<Rightarrow> bytes \<Rightarrow> string \<Rightarrow> bytes \<Rightarrow> pair_verify_server" where
  "pv_new hk eph device_id identity_seed =
     \<lparr>pv_device_id = device_id, pv_server_sk = fst (identity_keypair hk identity_seed),
      pv_server_eph_sk = eph, pv_server_eph_pk = x_public (hk_pair hk) eph,
      pv_client_eph_pk = replicate 32 0, pv_shared_secret = replicate 32 0,
      pv_m1_processed = False, pv_completed = False\<rparr>"

definition pv_m2 :: "hk_crypto \<Rightarrow> pair_verify_server \<Rightarrow> crypto_error + bytes" where
  "pv_m2 hk s =
     (let signature = ed_sign (hk_pair hk) (pv_server_sk s)
            (pv_server_eph_pk s @ as_bytes (pv_device_id s) @ pv_client_eph_pk s);
          inner = tlv_add (tlv_add tlv_new (tlv_code Identifier) (as_bytes (pv_device_id s))) (tlv_code Signature) signature
      in bind_sum (hkdf_derive hk (pv_shared_secret s) PV_ENCRYPT_SALT PV_ENCRYPT_INFO) (\<lambda>derived.
         bind_sum (encrypt_chacha hk derived (make_nonce ''PV-Msg02'') (tlv_encode inner)) (\<lambda>encrypted.
           Inr (tlv_encode (tlv_add (tlv_add (tlv_add tlv_new (tlv_code State) [2])
             (tlv_code PublicKey) (pv_server_eph_pk s)) (tlv_code EncryptedData) encrypted)))))"

definition process_m1_build_m2 :: "hk_crypto \<Rightarrow> pair_verify_server \<Rightarrow> bytes \<Rightarrow> (crypto_error + bytes) \<times> pair_verify_server" where
  "process_m1_build_m2 hk s d =
     (case bind_sum (tlv_parse d) (\<lambda>t.
             bind_sum (tlv_need t State ''Verify M1: missing state'') (\<lambda>st.
             if st \<noteq> [1] then Inl (PairingHandshake ''Verify M1: unexpected state'')
             else bind_sum (tlv_need t PublicKey ''Verify M1: missing public key'') (\<lambda>client_pk.
               if length client_pk \<noteq> 32 then Inl (PairingHandshake ''Verify M1: invalid key length'')
               else Inr client_pk))) of
        Inl e \<Rightarrow> (Inl e, s)
      | Inr client_pk \<Rightarrow>
          let s1 = s\<lparr>pv_client_eph_pk := client_pk,
                     pv_shared_secret := x_shared (hk_pair hk) (pv_server_eph_sk s) client_pk,
                     pv_m1_processed := True\<rparr>
          in (pv_m2 hk s1, s1))"

definition pv_check_signature ::
  "hk_crypto \<Rightarrow> pair_verify_server \<Rightarrow> (string \<Rightarrow> bytes option) option \<Rightarrow> bytes \<Rightarrow> bytes \<Rightarrow> crypto_error + unit" where
  "pv_check_signature hk s lookup identifier signature =
     (case lookup of
        None \<Rightarrow> Inr ()
      | Some look \<Rightarrow>
          (case from_utf8 identifier of
             None \<Rightarrow> Inl (PairingHandshake ''Verify M3: invalid identifier encoding'')
           | Some ident \<Rightarrow>
               (case look ident of
                  None \<Rightarrow> Inl PairingVerify
                | Some ltpk \<Rightarrow>
                    if \<not> ed_key_ok (hk_pair hk) ltpk then Inl (PairingHandshake ''Verify M3: invalid stored key'')
                    else if length signature \<noteq> 64 then Inl (PairingHandshake ''Verify M3: invalid signature length'')
                    else if \<not> ed_verify (hk_pair hk) ltpk
                               (pv_client_eph_pk s @ as_bytes ident @ pv_server_eph_pk s) signature
                    then Inl PairingVerify
                    else Inr ())))"

definition pv_m3_inner :: "hk_crypto \<Rightarrow> pair_verify_server \<Rightarrow> bytes \<Rightarrow> crypto_error + tlv_values" where
  "pv_m3_inner hk s d =
     bind_sum (tlv_parse d) (\<lambda>t.
     bind_sum (tlv_need t State ''Verify M3: missing state'') (\<lambda>st.
     if st \<noteq> [3] then Inl (PairingHandshake ''Verify M3: unexpected state'')
     else
       bind_sum (tlv_need t EncryptedData ''Verify M3: missing encrypted data'') (\<lambda>enc.
       bind_sum (hkdf_derive hk (pv_shared_secret s) PV_ENCRYPT_SALT PV_ENCRYPT_INFO) (\<lambda>derived.
       bind_sum (decrypt_chacha hk derived (make_nonce ''PV-Msg03'') enc) tlv_parse))))"

definition process_m3_build_m4 ::
  "hk_crypto \<Rightarrow> pair_verify_server \<Rightarrow> bytes \<Rightarrow> (string \<Rightarrow> bytes option) option
   \<Rightarrow> (crypto_error + bytes) \<times> pair_verify_server" where
  "process_m3_build_m4 hk s d lookup =
     (if \<not> pv_m1_processed s then (Inl (PairingHandshake ''Verify M3: M1 must be processed first''), s)
      else
        case bind_sum (pv_m3_inner hk s d) (\<lambda>inner.
               bind_sum (tlv_need inner Identifier ''Verify M3: missing identifier'') (\<lambda>identifier.
               bind_sum (tlv_need inner Signature ''Verify M3: missing signature'') (\<lambda>signature.
                 pv_check_signature hk s lookup identifier signature))) of
          Inl e \<Rightarrow> (Inl e, s)
        | Inr _ \<Rightarrow> (Inr (tlv_encode (tlv_add tlv_new (tlv_code State) [4])), s\<lparr>pv_completed := True\<rparr>))"

definition pv_secret :: "pair_verify_server \<Rightarrow> bytes option" where
  "pv_secret s = (if pv_completed s then Some (pv_shared_secret s) else None)"

definition ecdh_shared_secret :: "pair_verify_server \<Rightarrow> bytes" where
  "ecdh_shared_secret s = pv_shared_secret s"

end
