(* ===== verification/Homekit_Laws.thy ===== *)
theory Homekit_Laws
  imports Homekit_Verify
begin

text \<open>
  An honest HomeKit controller against the receiver's pair-setup and pair-verify: both sides
  compute the same SRP session key, each accepts the other's identity, and pair-verify ends with
  the same shared secret. The controller is specified here; it is not part of the program.
\<close>

section \<open>Numbers and messages\<close>

lemma from_bytes_be_append: "from_bytes_be (xs @ [b]) = from_bytes_be xs * 256 + unat b"
  by (simp add: from_bytes_be_def)

lemma from_to_bytes_be [simp]: "from_bytes_be (to_bytes_be n) = n"
proof (induction n rule: to_bytes_be.induct)
  case (1 n)
  show ?case
  proof (cases "n < 256")
    case True
    then show ?thesis by (subst to_bytes_be.simps) (simp add: from_bytes_be_def unat_of_nat)
  next
    case False
    then show ?thesis using 1
      by (subst to_bytes_be.simps) (simp add: from_bytes_be_append unat_of_nat)
  qed
qed

lemma nat_of_le_zeros: "nat_of_le (bs @ replicate k 0) = nat_of_le bs"
proof (induction bs)
  case Nil
  then show ?case by (induction k) simp_all
qed simp

lemma from_bytes_be_padded [simp]: "from_bytes_be (to_bytes_be_padded n len) = n"
  using from_to_bytes_be [of n]
  by (simp add: to_bytes_be_padded_def Let_def from_bytes_be_def nat_of_le_zeros)

lemma tlv_parse_encode: "separated (entries v) \<Longrightarrow> tlv_parse (tlv_encode v) = Inr v"
  using decode_encode_coalesce [of v] coalesce_id_iff [of v] by (simp add: tlv_parse_def)

lemma entries_add [simp]: "entries (tlv_add v t x) = entries v @ [(t, x)]"
  by (simp add: tlv_add_def)

lemma entries_new [simp]: "entries tlv_new = []"
  by (simp add: tlv_new_def)

text \<open>Messages whose neighbouring fields have different tags read back as written.\<close>

lemma tlv_parse_fields:
  "t1 \<noteq> t2 \<Longrightarrow> tlv_parse (tlv_encode (tlv_add (tlv_add tlv_new t1 a) t2 b)) = Inr (tlv_add (tlv_add tlv_new t1 a) t2 b)"
  "t1 \<noteq> t2 \<Longrightarrow> t2 \<noteq> t3 \<Longrightarrow>
   tlv_parse (tlv_encode (tlv_add (tlv_add (tlv_add tlv_new t1 a) t2 b) t3 c))
     = Inr (tlv_add (tlv_add (tlv_add tlv_new t1 a) t2 b) t3 c)"
  by (rule tlv_parse_encode, simp add: absorbs_def)+

section \<open>SRP: both sides compute the same key\<close>

text \<open>The controller's side of SRP-6a: it knows the PIN, draws \<open>a\<close> and reads salt and \<open>B\<close> in M2.\<close>

definition client_public :: "nat \<Rightarrow> nat" where
  "client_public a = modpow G_3072 a N_3072"

definition client_shared :: "pair_crypto \<Rightarrow> bytes \<Rightarrow> nat \<Rightarrow> bytes \<Rightarrow> nat \<Rightarrow> nat" where
  "client_shared pc pin a salt big_b =
     (let x = calculate_x pc (from_bytes_be salt) USERNAME pin;
          k = h_nn_pad pc N_3072 G_3072 N_3072_LEN;
          u = h_nn_pad pc (client_public a) big_b N_3072_LEN
      in modpow (nat ((int big_b - int k * int (modpow G_3072 x N_3072)) mod int N_3072)) (a + u * x) N_3072)"

lemma N_3072_big: "1 < N_3072"
  by (simp add: N_3072_def)

lemma N_3072_not_dvd: "\<not> N_3072 dvd G_3072 ^ a"
proof
  assume d: "N_3072 dvd G_3072 ^ a"
  have "N_3072 = 5 * 0x333333333333333328365EED39E1C070F427AD4F19C59F5D0833A934E87B28E40068BFBAD89D856D437534E51C70CDC5FCB76B8A5C3EDA38A33BCEE2CA13040B0FF9D77C49105A0DFA81244AE0794C8E30DC0D61EE0B2F7BCF33128AFD9AF195FC71AF32454EB98789530736B2756CC7A83B47A9FC2DABD926CCE5BE86AD8C9AB82BA80AD27790B87B6AD98832A0F6464D7AAC3A5F53EF846C13CA446CE776F252F76E9B1684847C47CF3DDC7558EB34304A7C01C204D37F3D5012DAD60AF60BFA52E4A26B361ACD856E4D86FC0186E98AC112C9AFDC108EC608C2648444D16B3EB77518FBB77BC76AC3A1381E9867699DE3B6121BBBC0D5EF709E35CDA9B20A54DDD388C638F2142F658100DE9263021BC87D11790135B2BD849CB454939427EF3122E8F89B70C49FB5B7600ED446B92960C3A13890961596A332015EB534E0F8179A170C8E7BADAA063BD19E4BD335BF2D04AB1879DF7C17CEB4F35891DAFA01C6DCB9B0FABBD6A72BDF329365D01C75809039BB722A289999999999999999 + 2" unfolding N_3072_def by simp
  then obtain q where "N_3072 = 5 * q + 2" by blast
  then have "N_3072 mod 5 = 2" by presburger
  then have "gcd N_3072 5 = gcd 5 2" by (metis gcd_red_nat)
  also have "gcd 5 (2 :: nat) = 1" by (simp add: gcd_non_0_nat)
  finally have "coprime N_3072 G_3072" by (simp add: G_3072_def coprime_iff_gcd_eq_1)
  then have "coprime N_3072 (G_3072 ^ a)" by simp
  with d have "N_3072 = 1" by (metis coprime_common_divisor_nat dvd_refl)
  then show False using N_3072_big by simp
qed

lemma client_public_nonzero: "client_public a mod N_3072 \<noteq> 0"
  using N_3072_not_dvd by (simp add: client_public_def modpow_def dvd_eq_mod_eq_0)

lemma srp_algebra:
  fixes N g k v x b a u :: nat
  assumes v: "v = g ^ x mod N" and B: "B = (k * v mod N + g ^ b mod N) mod N" and N: "0 < N"
  shows "(g ^ a mod N * (v ^ u mod N) mod N) ^ b mod N
    = nat ((int B - int k * int v) mod int N) ^ (a + u * x) mod N"
proof -
  have "(int B - int k * int v) mod int N = int (g ^ b mod N)"
    unfolding B by (simp add: zmod_int mod_simps)
  then have "nat ((int B - int k * int v) mod int N) ^ (a + u * x) mod N = (g ^ b) ^ (a + u * x) mod N"
    by (simp add: power_mod)
  also have "\<dots> = (g ^ a * (g ^ x) ^ u) ^ b mod N"
    by (simp add: power_mult [symmetric] power_add [symmetric] algebra_simps)
  also have "\<dots> = (g ^ a mod N * (v ^ u mod N) mod N) ^ b mod N"
    by (metis v mod_mult_eq power_mod)
  finally show ?thesis by simp
qed


text \<open>The controller's answer to M2: the message M3, its session key and the proof it expects in M4.\<close>

definition srp_client :: "pair_crypto \<Rightarrow> bytes \<Rightarrow> nat \<Rightarrow> bytes \<Rightarrow> (bytes \<times> bytes \<times> bytes) option" where
  "srp_client pc pin a m2 =
     (case tlv_parse m2 of
        Inl _ \<Rightarrow> None
      | Inr t \<Rightarrow>
          (case (tlv_get_type t Salt, tlv_get_type t PublicKey) of
             (Some salt, Some pk) \<Rightarrow>
               let big_b = from_bytes_be pk; big_a = client_public a;
                   k = sha512 pc (to_bytes_be (client_shared pc pin a salt big_b));
                   m = calculate_m pc N_3072 G_3072 USERNAME (from_bytes_be salt) big_a big_b k
               in Some (tlv_encode (tlv_add (tlv_add (tlv_add tlv_new (tlv_code State) [3])
                          (tlv_code PublicKey) (to_bytes_be_padded big_a N_3072_LEN)) (tlv_code Proof) m),
                        k, calculate_h_amk pc big_a m k)
           | _ \<Rightarrow> None))"

definition pin_used :: "bytes option \<Rightarrow> bytes" where
  "pin_used pin = (case pin of None \<Rightarrow> TRANSIENT_PIN | Some p \<Rightarrow> p)"

text \<open>What message M1 leaves alone, and what every server state agrees with its PIN on.\<close>

definition srp_ok :: "pair_crypto \<Rightarrow> bytes option \<Rightarrow> srp_server \<Rightarrow> bool" where
  [inv_defs]: "srp_ok pc pin s \<longleftrightarrow>
     srp_n s = N_3072 \<and> srp_g s = G_3072
     \<and> srp_v s = modpow G_3072 (calculate_x pc (from_bytes_be (srp_salt s)) USERNAME (pin_used pin)) N_3072
     \<and> srp_big_b s = (h_nn_pad pc N_3072 G_3072 N_3072_LEN * srp_v s mod N_3072 + modpow G_3072 (srp_b s) N_3072) mod N_3072
     \<and> srp_allow_transient s = (pin = None)"

lemma srp_ok_new: "srp_ok pc pin (srp_new pc salt b pin)"
  by (simp add: srp_ok_def srp_new_def Let_def pin_used_def)

lemma srp_ok_m1: "srp_ok pc pin s \<Longrightarrow> process_m1 s d = (r, s') \<Longrightarrow> srp_ok pc pin s'"
  by (auto simp: srp_ok_def process_m1_def Let_def split: sum.splits if_splits option.splits)

lemma srp_ok_m3: "srp_ok pc pin s \<Longrightarrow> process_m3 pc s d = (r, s') \<Longrightarrow> srp_ok pc pin s'"
  by (auto simp: srp_ok_def process_m3_def Let_def split: sum.splits if_splits)

lemma srp_shared_agree:
  assumes "srp_ok pc pin s"
  shows "srp_shared s (client_public a) (h_nn_pad pc (client_public a) (srp_big_b s) N_3072_LEN)
    = client_shared pc (pin_used pin) a (srp_salt s) (srp_big_b s)"
  using srp_algebra [of "srp_v s" G_3072 "calculate_x pc (from_bytes_be (srp_salt s)) USERNAME (pin_used pin)"
      N_3072 "srp_big_b s" "h_nn_pad pc N_3072 G_3072 N_3072_LEN" "srp_b s" a] assms N_3072_big
  by (simp add: srp_ok_def srp_shared_def client_shared_def client_public_def modpow_def Let_def)

lemma srp_agreement:
  assumes ok: "srp_ok pc pin s" and len: "\<forall>m. length (sha512 pc m) = 64"
  obtains m3 K pf s' where "srp_client pc (pin_used pin) a (build_m2 s) = Some (m3, K, pf)"
    "process_m3 pc s m3 = (Inr True, s')" "s' = s\<lparr>srp_session_key := K, srp_m2 := pf, srp_verified := True\<rparr>"
    "length K = 64"
proof -
  let ?A = "client_public a"
  let ?K = "sha512 pc (to_bytes_be (client_shared pc (pin_used pin) a (srp_salt s) (srp_big_b s)))"
  let ?m = "calculate_m pc N_3072 G_3072 USERNAME (from_bytes_be (srp_salt s)) ?A (srp_big_b s) ?K"
  let ?m3 = "tlv_encode (tlv_add (tlv_add (tlv_add tlv_new (tlv_code State) [3])
                (tlv_code PublicKey) (to_bytes_be_padded ?A N_3072_LEN)) (tlv_code Proof) ?m)"
  have c: "srp_client pc (pin_used pin) a (build_m2 s) = Some (?m3, ?K, calculate_h_amk pc ?A ?m ?K)"
    by (simp add: srp_client_def build_m2_def tlv_parse_fields tlv_get_type_def tlv_get_def Let_def)
  have l: "length ?m = 64" using len by (simp add: calculate_m_def Let_def)
  have "process_m3 pc s ?m3 = (Inr True,
      s\<lparr>srp_session_key := ?K, srp_m2 := calculate_h_amk pc ?A ?m ?K, srp_verified := True\<rparr>)"
    using ok l client_public_nonzero [of a] srp_shared_agree [OF ok, of a]
    by (simp add: process_m3_def tlv_parse_fields tlv_need_def tlv_get_type_def tlv_get_def Let_def srp_ok_def)
  with c show ?thesis using that len by blast
qed

section \<open>The controller's side of the identity exchange\<close>

text \<open>The documented behaviour of the primitives.\<close>

definition hk_ok :: "hk_crypto \<Rightarrow> bool" where
  "hk_ok hk \<longleftrightarrow> pair_crypto_ok (hk_pair hk) \<and> aead_ok (hk_seal hk) (hk_open hk)
     \<and> (\<forall>k. length (ed_public (hk_pair hk) k) = 32) \<and> (\<forall>k. length (x_public (hk_pair hk) k) = 32)
     \<and> (\<forall>salt ikm info. \<exists>out. hk_hkdf hk salt ikm info 32 = Some out \<and> length out = 32)"

definition sealed_tlv :: "hk_crypto \<Rightarrow> bytes \<Rightarrow> string \<Rightarrow> string \<Rightarrow> string \<Rightarrow> tlv_values \<Rightarrow> crypto_error + bytes" where
  "sealed_tlv hk ikm salt info tag inner =
     bind_sum (hkdf_derive hk ikm salt info) (\<lambda>d. encrypt_chacha hk d (make_nonce tag) (tlv_encode inner))"

definition opened_tlv :: "hk_crypto \<Rightarrow> bytes \<Rightarrow> string \<Rightarrow> string \<Rightarrow> string \<Rightarrow> bytes \<Rightarrow> crypto_error + tlv_values" where
  "opened_tlv hk ikm salt info tag enc =
     bind_sum (hkdf_derive hk ikm salt info) (\<lambda>d. bind_sum (decrypt_chacha hk d (make_nonce tag) enc) tlv_parse)"

definition client_m5 :: "hk_crypto \<Rightarrow> bytes \<Rightarrow> string \<Rightarrow> bytes \<Rightarrow> crypto_error + bytes" where
  "client_m5 hk K ident seed =
     bind_sum (hkdf_derive hk K ''Pair-Setup-Controller-Sign-Salt'' ''Pair-Setup-Controller-Sign-Info'') (\<lambda>x.
     let pk = ed_public (hk_pair hk) seed;
         sig = ed_sign (hk_pair hk) seed (x @ as_bytes ident @ pk)
     in bind_sum (sealed_tlv hk K PS_ENCRYPT_SALT PS_ENCRYPT_INFO ''PS-Msg05''
          (tlv_add (tlv_add (tlv_add tlv_new (tlv_code Identifier) (as_bytes ident)) (tlv_code Signature) sig)
            (tlv_code PublicKey) pk)) (\<lambda>enc.
        Inr (tlv_encode (tlv_add (tlv_add tlv_new (tlv_code State) [5]) (tlv_code EncryptedData) enc))))"

definition client_check_m6 :: "hk_crypto \<Rightarrow> bytes \<Rightarrow> bytes \<Rightarrow> crypto_error + bytes \<times> bytes" where
  "client_check_m6 hk K m6 =
     bind_sum (tlv_parse m6) (\<lambda>t.
     bind_sum (tlv_need t EncryptedData '''') (\<lambda>enc.
     bind_sum (opened_tlv hk K PS_ENCRYPT_SALT PS_ENCRYPT_INFO ''PS-Msg06'' enc) (\<lambda>inner.
     bind_sum (tlv_need inner Identifier '''') (\<lambda>ident.
     bind_sum (tlv_need inner Signature '''') (\<lambda>sig.
     bind_sum (tlv_need inner PublicKey '''') (\<lambda>pk.
     bind_sum (hkdf_derive hk K ''Pair-Setup-Accessory-Sign-Salt'' ''Pair-Setup-Accessory-Sign-Info'') (\<lambda>x.
       if ed_verify (hk_pair hk) pk (x @ ident @ pk) sig then Inr (ident, pk) else Inl PairingVerify)))))))"

lemma length_make_nonce [simp]: "length (make_nonce tag) = 12"
  by (simp add: make_nonce_def)

lemma hk_okD:
  assumes "hk_ok hk"
  shows "length (ed_public (hk_pair hk) k) = 32" "length (x_public (hk_pair hk) k) = 32"
    "length (ed_sign (hk_pair hk) k m) = 64" "ed_verify (hk_pair hk) (ed_public (hk_pair hk) k) m (ed_sign (hk_pair hk) k m)"
    "ed_key_ok (hk_pair hk) (ed_public (hk_pair hk) k)" "length (sha512 (hk_pair hk) m) = 64"
    "x_shared (hk_pair hk) a (x_public (hk_pair hk) b) = x_shared (hk_pair hk) b (x_public (hk_pair hk) a)"
  using assms by (auto simp: hk_ok_def pair_crypto_ok_def)

lemma hkdf_total:
  assumes "hk_ok hk"
  obtains d where "hkdf_derive hk ikm salt info = Inr d" "length d = 32"
  using assms unfolding hk_ok_def hkdf_derive_def by (metis option.simps(5))

lemma length_encode_entry: "length (encode_entry (t, v)) \<le> 3 * length v + 2"
proof (cases "v = []")
  case False
  have "length (concat (map (tlv_item t) cs)) = length (concat cs) + 2 * length cs" for cs
    by (induction cs) (simp_all add: tlv_item_def)
  from this [of "chunks 255 v"] show ?thesis
    using False by (simp add: concat_chunks length_chunks)
qed simp

lemma length_tlv_encode: "length (tlv_encode v) \<le> (\<Sum>e\<leftarrow>entries v. 3 * length (snd e) + 2)"
proof -
  have "length (concat (map encode_entry es)) \<le> (\<Sum>e\<leftarrow>es. 3 * length (snd e) + 2)" for es
  proof (induction es)
    case (Cons e es)
    then show ?case using length_encode_entry [of "fst e" "snd e"] by simp
  qed simp
  then show ?thesis by (simp add: tlv_encode_def)
qed

lemma sealed_opens:
  assumes hk: "hk_ok hk" and sep: "separated (entries v)" and size: "(\<Sum>e\<leftarrow>entries v. 3 * length (snd e) + 2) < 2 ^ 32"
  obtains enc where "sealed_tlv hk ikm salt info tag v = Inr enc" "opened_tlv hk ikm salt info tag enc = Inr v"
proof -
  obtain d where d: "hkdf_derive hk ikm salt info = Inr d" "length d = 32" using hkdf_total [OF hk] .
  have aead: "aead_ok (hk_seal hk) (hk_open hk)" using hk by (simp add: hk_ok_def)
  have "length (tlv_encode v) < 2 ^ 32" using length_tlv_encode [of v] size by linarith
  then obtain c where "hk_seal hk d (make_nonce tag) [] (tlv_encode v) = Some c"
    "hk_open hk d (make_nonce tag) [] c = Some (tlv_encode v)"
    using aead_okD [OF aead d(2) length_make_nonce] by blast
  with that d tlv_parse_encode [OF sep] show ?thesis
    by (simp add: sealed_tlv_def opened_tlv_def encrypt_chacha_def decrypt_chacha_def)
qed

lemma bind_sum_assoc: "bind_sum (bind_sum r f) g = bind_sum r (\<lambda>x. bind_sum (f x) g)"
  by (cases r) simp_all

lemma decrypt_setup_m5_opened:
  "decrypt_setup_m5 hk K d =
     bind_sum (tlv_parse d) (\<lambda>t. bind_sum (tlv_need t EncryptedData ''M5: missing encrypted data'')
       (opened_tlv hk K PS_ENCRYPT_SALT PS_ENCRYPT_INFO ''PS-Msg05''))"
  by (simp add: decrypt_setup_m5_def opened_tlv_def [abs_def])

lemma identity_separated:
  "separated (entries (tlv_add (tlv_add (tlv_add tlv_new (tlv_code Identifier) i) (tlv_code Signature) s) (tlv_code PublicKey) p))"
  "separated (entries (tlv_add (tlv_add tlv_new (tlv_code Identifier) i) (tlv_code Signature) s))"
  by (simp_all add: absorbs_def)

lemma identity_small:
  assumes "length i < 2 ^ 30" "length s = 64" "length p = 32"
  shows "(\<Sum>e\<leftarrow>entries (tlv_add (tlv_add (tlv_add tlv_new t1 i) t2 s) t3 p). 3 * length (snd e) + 2) < 2 ^ 32"
    "(\<Sum>e\<leftarrow>entries (tlv_add (tlv_add tlv_new t1 i) t2 s). 3 * length (snd e) + 2) < 2 ^ 32"
  using assms by simp_all

lemma from_utf8_as_bytes: "utf8_valid (as_bytes ident) \<Longrightarrow> from_utf8 (as_bytes ident) = Some ident"
  by (simp add: from_utf8_def)

lemma m5_accepted:
  assumes hk: "hk_ok hk" and ident: "utf8_valid (as_bytes ident)" "length ident < 2 ^ 30"
  obtains m5 where "client_m5 hk K ident seed = Inr m5"
    "setup_verify_client_identity hk K m5 = Inr (ident, ed_public (hk_pair hk) seed)"
proof -
  obtain x where x: "hkdf_derive hk K ''Pair-Setup-Controller-Sign-Salt'' ''Pair-Setup-Controller-Sign-Info'' = Inr x"
    using hkdf_total [OF hk] .
  let ?pk = "ed_public (hk_pair hk) seed"
  let ?sig = "ed_sign (hk_pair hk) seed (x @ as_bytes ident @ ?pk)"
  let ?inner = "tlv_add (tlv_add (tlv_add tlv_new (tlv_code Identifier) (as_bytes ident)) (tlv_code Signature) ?sig)
                  (tlv_code PublicKey) ?pk"
  obtain enc where enc: "sealed_tlv hk K PS_ENCRYPT_SALT PS_ENCRYPT_INFO ''PS-Msg05'' ?inner = Inr enc"
      "opened_tlv hk K PS_ENCRYPT_SALT PS_ENCRYPT_INFO ''PS-Msg05'' enc = Inr ?inner"
    using sealed_opens [OF hk identity_separated(1) identity_small(1) [OF _ hk_okD(3) [OF hk] hk_okD(1) [OF hk]]] ident(2)
    by (metis length_as_bytes)
  have v: "verify_controller_identity hk K (as_bytes ident) ?sig ?pk = Inr ?pk"
    using x hk_okD [OF hk] by (simp add: verify_controller_identity_def)
  let ?m5 = "tlv_encode (tlv_add (tlv_add tlv_new (tlv_code State) [5]) (tlv_code EncryptedData) enc)"
  have "client_m5 hk K ident seed = Inr ?m5" using x enc(1) by (simp add: client_m5_def)
  moreover have "setup_verify_client_identity hk K ?m5 = Inr (ident, ?pk)"
    using enc(2) v from_utf8_as_bytes [OF ident(1)]
    by (simp add: setup_verify_client_identity_def decrypt_setup_m5_opened tlv_parse_fields
        tlv_need_def tlv_get_type_def tlv_get_def)
  ultimately show ?thesis by (rule that)
qed

lemma m6_sealed:
  "setup_build_accessory_identity hk K device_id seed =
     bind_sum (hkdf_derive hk K ''Pair-Setup-Accessory-Sign-Salt'' ''Pair-Setup-Accessory-Sign-Info'') (\<lambda>x.
     bind_sum (sealed_tlv hk K PS_ENCRYPT_SALT PS_ENCRYPT_INFO ''PS-Msg06''
       (tlv_add (tlv_add (tlv_add tlv_new (tlv_code Identifier) (as_bytes device_id)) (tlv_code Signature)
          (ed_sign (hk_pair hk) seed (x @ as_bytes device_id @ ed_public (hk_pair hk) seed)))
          (tlv_code PublicKey) (ed_public (hk_pair hk) seed))) (\<lambda>enc.
     Inr (tlv_encode (tlv_add (tlv_add tlv_new (tlv_code State) [6]) (tlv_code EncryptedData) enc))))"
  by (simp add: setup_build_accessory_identity_def identity_keypair_def sealed_tlv_def bind_sum_assoc Let_def)

lemma m6_accepted:
  assumes hk: "hk_ok hk" and id: "length device_id < 2 ^ 30"
  obtains m6 where "setup_build_accessory_identity hk K device_id seed = Inr m6"
    "client_check_m6 hk K m6 = Inr (as_bytes device_id, ed_public (hk_pair hk) seed)"
proof -
  obtain x where x: "hkdf_derive hk K ''Pair-Setup-Accessory-Sign-Salt'' ''Pair-Setup-Accessory-Sign-Info'' = Inr x"
    using hkdf_total [OF hk] .
  let ?pk = "ed_public (hk_pair hk) seed"
  let ?sig = "ed_sign (hk_pair hk) seed (x @ as_bytes device_id @ ?pk)"
  let ?inner = "tlv_add (tlv_add (tlv_add tlv_new (tlv_code Identifier) (as_bytes device_id)) (tlv_code Signature) ?sig)
                  (tlv_code PublicKey) ?pk"
  obtain enc where enc: "sealed_tlv hk K PS_ENCRYPT_SALT PS_ENCRYPT_INFO ''PS-Msg06'' ?inner = Inr enc"
      "opened_tlv hk K PS_ENCRYPT_SALT PS_ENCRYPT_INFO ''PS-Msg06'' enc = Inr ?inner"
    using sealed_opens [OF hk identity_separated(1) identity_small(1) [OF _ hk_okD(3) [OF hk] hk_okD(1) [OF hk]]] id
    by (metis length_as_bytes)
  let ?m6 = "tlv_encode (tlv_add (tlv_add tlv_new (tlv_code State) [6]) (tlv_code EncryptedData) enc)"
  have "setup_build_accessory_identity hk K device_id seed = Inr ?m6" using x enc(1) by (simp add: m6_sealed)
  moreover have "client_check_m6 hk K ?m6 = Inr (as_bytes device_id, ?pk)"
    using enc(2) x hk_okD(4) [OF hk]
    by (simp add: client_check_m6_def tlv_parse_fields tlv_need_def tlv_get_type_def tlv_get_def)
  ultimately show ?thesis by (rule that)
qed

section \<open>The controller's side of pair-verify\<close>

definition client_v1 :: "hk_crypto \<Rightarrow> bytes \<Rightarrow> bytes" where
  "client_v1 hk eph = tlv_encode (tlv_add (tlv_add tlv_new (tlv_code State) [1]) (tlv_code PublicKey) (x_public (hk_pair hk) eph))"

text \<open>The controller checks the accessory's signature under the key it stored at pair-setup and
  answers with its own; the result is M3 and the shared secret.\<close>

definition client_v3 :: "hk_crypto \<Rightarrow> bytes \<Rightarrow> bytes \<Rightarrow> string \<Rightarrow> bytes \<Rightarrow> bytes \<Rightarrow> crypto_error + bytes \<times> bytes" where
  "client_v3 hk eph accessory_pk ident seed m2 =
     bind_sum (tlv_parse m2) (\<lambda>t.
     bind_sum (tlv_need t PublicKey '''') (\<lambda>spk.
     bind_sum (tlv_need t EncryptedData '''') (\<lambda>enc.
     let secret = x_shared (hk_pair hk) eph spk; cpk = x_public (hk_pair hk) eph in
     bind_sum (opened_tlv hk secret PV_ENCRYPT_SALT PV_ENCRYPT_INFO ''PV-Msg02'' enc) (\<lambda>inner.
     bind_sum (tlv_need inner Identifier '''') (\<lambda>aid.
     bind_sum (tlv_need inner Signature '''') (\<lambda>sig.
     if \<not> ed_verify (hk_pair hk) accessory_pk (spk @ aid @ cpk) sig then Inl PairingVerify
     else
       bind_sum (sealed_tlv hk secret PV_ENCRYPT_SALT PV_ENCRYPT_INFO ''PV-Msg03''
         (tlv_add (tlv_add tlv_new (tlv_code Identifier) (as_bytes ident))
           (tlv_code Signature) (ed_sign (hk_pair hk) seed (cpk @ as_bytes ident @ spk)))) (\<lambda>out.
       Inr (tlv_encode (tlv_add (tlv_add tlv_new (tlv_code State) [3]) (tlv_code EncryptedData) out), secret))))))))"

lemma v2_built:
  assumes hk: "hk_ok hk" and id: "length device_id < 2 ^ 30"
    and pv: "pv = pv_new hk seph device_id aseed"
  obtains m2 pv1 where "process_m1_build_m2 hk pv (client_v1 hk eph) = (Inr m2, pv1)"
    "pv1 = pv\<lparr>pv_client_eph_pk := x_public (hk_pair hk) eph,
       pv_shared_secret := x_shared (hk_pair hk) seph (x_public (hk_pair hk) eph), pv_m1_processed := True\<rparr>"
    "\<exists>enc. opened_tlv hk (pv_shared_secret pv1) PV_ENCRYPT_SALT PV_ENCRYPT_INFO ''PV-Msg02'' enc
        = Inr (tlv_add (tlv_add tlv_new (tlv_code Identifier) (as_bytes device_id)) (tlv_code Signature)
            (ed_sign (hk_pair hk) aseed (x_public (hk_pair hk) seph @ as_bytes device_id @ x_public (hk_pair hk) eph)))
      \<and> m2 = tlv_encode (tlv_add (tlv_add (tlv_add tlv_new (tlv_code State) [2])
          (tlv_code PublicKey) (x_public (hk_pair hk) seph)) (tlv_code EncryptedData) enc)"
proof -
  let ?cpk = "x_public (hk_pair hk) eph" and ?spk = "x_public (hk_pair hk) seph"
  let ?s = "x_shared (hk_pair hk) seph ?cpk"
  let ?pv1 = "pv\<lparr>pv_client_eph_pk := ?cpk, pv_shared_secret := ?s, pv_m1_processed := True\<rparr>"
  let ?inner = "tlv_add (tlv_add tlv_new (tlv_code Identifier) (as_bytes device_id)) (tlv_code Signature)
            (ed_sign (hk_pair hk) aseed (?spk @ as_bytes device_id @ ?cpk))"
  obtain enc where enc: "sealed_tlv hk ?s PV_ENCRYPT_SALT PV_ENCRYPT_INFO ''PV-Msg02'' ?inner = Inr enc"
      "opened_tlv hk ?s PV_ENCRYPT_SALT PV_ENCRYPT_INFO ''PV-Msg02'' enc = Inr ?inner"
    using sealed_opens [OF hk identity_separated(2) identity_small(2) [OF _ hk_okD(3) [OF hk] hk_okD(1) [OF hk]]] id
    by (metis length_as_bytes)
  let ?m2 = "tlv_encode (tlv_add (tlv_add (tlv_add tlv_new (tlv_code State) [2]) (tlv_code PublicKey) ?spk) (tlv_code EncryptedData) enc)"
  have parse: "tlv_parse (client_v1 hk eph) = Inr (tlv_add (tlv_add tlv_new (tlv_code State) [1]) (tlv_code PublicKey) ?cpk)"
    by (simp add: client_v1_def tlv_parse_fields)
  have "pv_m2 hk ?pv1 = bind_sum (sealed_tlv hk ?s PV_ENCRYPT_SALT PV_ENCRYPT_INFO ''PV-Msg02'' ?inner) (\<lambda>enc.
      Inr (tlv_encode (tlv_add (tlv_add (tlv_add tlv_new (tlv_code State) [2]) (tlv_code PublicKey) ?spk) (tlv_code EncryptedData) enc)))"
    by (simp add: pv_m2_def pv pv_new_def identity_keypair_def sealed_tlv_def bind_sum_assoc Let_def)
  then have "process_m1_build_m2 hk pv (client_v1 hk eph) = (Inr ?m2, ?pv1)"
    using enc(1) parse hk_okD(2) [OF hk]
    by (simp add: process_m1_build_m2_def tlv_need_def tlv_get_type_def tlv_get_def pv pv_new_def Let_def)
  then show ?thesis using that enc(2) by auto
qed

lemma pv_m3_inner_opened:
  "pv_m3_inner hk s d =
     bind_sum (tlv_parse d) (\<lambda>t.
     bind_sum (tlv_need t State ''Verify M3: missing state'') (\<lambda>st.
     if st \<noteq> [3] then Inl (PairingHandshake ''Verify M3: unexpected state'')
     else bind_sum (tlv_need t EncryptedData ''Verify M3: missing encrypted data'')
       (opened_tlv hk (pv_shared_secret s) PV_ENCRYPT_SALT PV_ENCRYPT_INFO ''PV-Msg03'')))"
  by (simp add: pv_m3_inner_def opened_tlv_def [abs_def] cong: if_cong)

lemma verify_accepted:
  assumes hk: "hk_ok hk" and id: "length device_id < 2 ^ 30" and ident: "utf8_valid (as_bytes ident)" "length ident < 2 ^ 30"
    and look: "look ident = Some (ed_public (hk_pair hk) seed)"
  obtains m2 pv1 m3 secret m4 pv2 where
    "process_m1_build_m2 hk (pv_new hk seph device_id aseed) (client_v1 hk eph) = (Inr m2, pv1)"
    "client_v3 hk eph (ed_public (hk_pair hk) aseed) ident seed m2 = Inr (m3, secret)"
    "process_m3_build_m4 hk pv1 m3 (Some look) = (Inr m4, pv2)" "pv_secret pv2 = Some secret"
    "m4 = tlv_encode (tlv_add tlv_new (tlv_code State) [4])" "pv_shared_secret pv1 = secret"
proof -
  let ?pc = "hk_pair hk"
  let ?cpk = "x_public ?pc eph" and ?spk = "x_public ?pc seph"
  obtain m2 pv1 where m1: "process_m1_build_m2 hk (pv_new hk seph device_id aseed) (client_v1 hk eph) = (Inr m2, pv1)"
    and pv1: "pv1 = (pv_new hk seph device_id aseed)\<lparr>pv_client_eph_pk := ?cpk,
       pv_shared_secret := x_shared ?pc seph ?cpk, pv_m1_processed := True\<rparr>"
    and enc: "\<exists>enc. opened_tlv hk (pv_shared_secret pv1) PV_ENCRYPT_SALT PV_ENCRYPT_INFO ''PV-Msg02'' enc
        = Inr (tlv_add (tlv_add tlv_new (tlv_code Identifier) (as_bytes device_id)) (tlv_code Signature)
            (ed_sign ?pc aseed (?spk @ as_bytes device_id @ ?cpk)))
      \<and> m2 = tlv_encode (tlv_add (tlv_add (tlv_add tlv_new (tlv_code State) [2])
          (tlv_code PublicKey) ?spk) (tlv_code EncryptedData) enc)"
    using v2_built [OF hk id refl] by metis
  define secret where "secret = x_shared ?pc eph ?spk"
  have sec: "pv_shared_secret pv1 = secret" using hk_okD(7) [OF hk, of seph eph] by (simp add: pv1 secret_def)
  let ?sig = "ed_sign ?pc seed (?cpk @ as_bytes ident @ ?spk)"
  let ?inner = "tlv_add (tlv_add tlv_new (tlv_code Identifier) (as_bytes ident)) (tlv_code Signature) ?sig"
  obtain out where out: "sealed_tlv hk secret PV_ENCRYPT_SALT PV_ENCRYPT_INFO ''PV-Msg03'' ?inner = Inr out"
      "opened_tlv hk secret PV_ENCRYPT_SALT PV_ENCRYPT_INFO ''PV-Msg03'' out = Inr ?inner"
    using sealed_opens [OF hk identity_separated(2) identity_small(2) [OF _ hk_okD(3) [OF hk] hk_okD(1) [OF hk]]] ident(2)
    by (metis length_as_bytes)
  let ?m3 = "tlv_encode (tlv_add (tlv_add tlv_new (tlv_code State) [3]) (tlv_code EncryptedData) out)"
  have "client_v3 hk eph (ed_public ?pc aseed) ident seed m2 = Inr (?m3, secret)"
    using enc sec out(1) hk_okD(4) [OF hk]
    by (auto simp: client_v3_def tlv_parse_fields tlv_need_def tlv_get_type_def tlv_get_def Let_def simp flip: secret_def)
  moreover have "pv_check_signature hk pv1 (Some look) (as_bytes ident) ?sig = Inr ()"
    using look from_utf8_as_bytes [OF ident(1)] hk_okD [OF hk] by (simp add: pv_check_signature_def pv1 pv_new_def)
  then have "process_m3_build_m4 hk pv1 ?m3 (Some look)
      = (Inr (tlv_encode (tlv_add tlv_new (tlv_code State) [4])), pv1\<lparr>pv_completed := True\<rparr>)"
    using out(2) sec
    by (simp add: process_m3_build_m4_def pv_m3_inner_opened tlv_parse_fields tlv_need_def tlv_get_type_def tlv_get_def)
       (simp add: pv1)
  ultimately show ?thesis using that m1 sec by (simp add: pv_secret_def)
qed

end
