(* ===== verification/Ap2_Pairing.thy ===== *)
theory Ap2_Pairing
  imports Homekit_Laws Rtsp_Laws
begin

text \<open>
  The AirPlay 2 pairing handlers of src/raop/handlers_ap2.rs over the pairing state of a
  connection, and the pairing store of src/raop/types.rs. The store belongs to the server; a
  connection sees its current content. Random bytes are indexed by the number of requests, as in
  \<open>raop_env\<close>.
\<close>

section \<open>Model\<close>

type_synonym pairing_store = "string \<Rightarrow> bytes option"

record memory_pairing_store =
  keys :: pairing_store
  ms_identity_seed :: "bytes option"

definition store_get :: "memory_pairing_store \<Rightarrow> string \<Rightarrow> bytes option" where
  "store_get m device_id = keys m device_id"

definition store_put :: "string \<Rightarrow> bytes \<Rightarrow> memory_pairing_store \<Rightarrow> memory_pairing_store" where
  "store_put device_id pk m = m\<lparr>keys := (keys m)(device_id \<mapsto> pk)\<rparr>"

definition has_any_pairing :: "memory_pairing_store \<Rightarrow> bool" where
  "has_any_pairing m \<longleftrightarrow> keys m \<noteq> Map.empty"

definition load_identity :: "memory_pairing_store \<Rightarrow> bytes option" where
  "load_identity m = ms_identity_seed m"

definition save_identity :: "bytes \<Rightarrow> memory_pairing_store \<Rightarrow> memory_pairing_store" where
  "save_identity seed m = m\<lparr>ms_identity_seed := Some seed\<rparr>"

definition store_remove :: "string \<Rightarrow> memory_pairing_store \<Rightarrow> memory_pairing_store" where
  "store_remove device_id m = m\<lparr>keys := (keys m)(device_id := None)\<rparr>"

record ap2_env =
  e_raop :: raop_env
  e_hk :: hk_crypto
  e_salt :: "nat \<Rightarrow> bytes"
  e_srp_b :: "nat \<Rightarrow> bytes"
  e_eph :: "nat \<Rightarrow> bytes"

record ap2_conn =
  ap_base :: raop_conn
  ap_device_id :: string
  ap_identity_seed :: bytes
  ap_pin :: "bytes option"
  ap_store :: memory_pairing_store
  ap_srp :: "srp_server option"
  ap_pair_verify :: "pair_verify_server option"
  ap_shared_secret :: "bytes option"
  ap_pair_verify_secret :: "bytes option"
  is_ap2 :: bool

type_synonym ap2_handler_fun =
  "ap2_env \<Rightarrow> ap2_conn \<Rightarrow> request_view \<Rightarrow> http_response \<Rightarrow> bytes option \<times> ap2_conn \<times> http_response"

definition ap_notify :: "crypto_error \<Rightarrow> ap2_conn \<Rightarrow> ap2_conn" where
  "ap_notify e c = c\<lparr>ap_base := notify (OnError (Crypto e)) (ap_base c)\<rparr>"

definition request_no :: "ap2_conn \<Rightarrow> nat" where
  "request_no c = c_requests (ap_base c)"

text \<open>The AirPlay 1 handler on the shared part of the connection.\<close>

definition legacy :: "raop_handler \<Rightarrow> ap2_handler_fun" where
  "legacy f env c rv resp =
     (case f (e_raop env) (ap_base c) rv resp of (b, base, r) \<Rightarrow> (b, c\<lparr>ap_base := base\<rparr>, r))"

text \<open>The \<open>State\<close> field of a TLV message; \<open>None\<close> when the body is not such a message.\<close>

definition tlv_state :: "bytes \<Rightarrow> bytes option" where
  "tlv_state d = (case tlv_decode d of Inl _ \<Rightarrow> None | Inr t \<Rightarrow> tlv_get t 6)"

definition setup_m1 :: "ap2_env \<Rightarrow> ap2_conn \<Rightarrow> bytes \<Rightarrow> bytes option \<times> ap2_conn" where
  "setup_m1 env c d =
     (let n = request_no c;
          srp = srp_new (hk_pair (e_hk env)) (e_salt env n) (e_srp_b env n) (ap_pin c)
      in case process_m1 srp d of
           (Inl e, _) \<Rightarrow> (Some (pairing_error_response 2), ap_notify e c)
         | (Inr _, srp1) \<Rightarrow> (Some (build_m2 srp1), c\<lparr>ap_srp := Some srp1\<rparr>))"

definition setup_m3 :: "ap2_env \<Rightarrow> ap2_conn \<Rightarrow> bytes \<Rightarrow> bytes option \<times> ap2_conn" where
  "setup_m3 env c d =
     (case ap_srp c of
        None \<Rightarrow> (None, c)
      | Some srp \<Rightarrow>
          (case process_m3 (hk_pair (e_hk env)) srp d of
             (Inl _, srp1) \<Rightarrow> (None, c\<lparr>ap_srp := Some srp1\<rparr>)
           | (Inr ok, srp1) \<Rightarrow>
               let c1 = c\<lparr>ap_srp := Some srp1\<rparr> in
               (case build_m4 srp1 of
                  Inl _ \<Rightarrow> (None, c1)
                | Inr m4 \<Rightarrow>
                    (Some m4,
                     if ok \<and> srp_is_transient srp1
                     then c1\<lparr>ap_shared_secret := srp_shared_secret srp1, is_ap2 := True\<rparr> else c1))))"

definition setup_m5 :: "ap2_env \<Rightarrow> ap2_conn \<Rightarrow> bytes \<Rightarrow> bytes option \<times> ap2_conn" where
  "setup_m5 env c d =
     (case ap_srp c of
        None \<Rightarrow> (None, c)
      | Some srp \<Rightarrow>
          (case process_m5 (e_hk env) srp d of
             Inr (client_id, client_pk) \<Rightarrow>
               (case build_m6 (e_hk env) srp (ap_device_id c) (ap_identity_seed c) of
                  Inl _ \<Rightarrow> (None, c)
                | Inr m6 \<Rightarrow> (Some m6, c\<lparr>ap_store := store_put client_id client_pk (ap_store c)\<rparr>))
           | Inl e \<Rightarrow>
               (Some (tlv_encode (tlv_add (tlv_add tlv_new 6 [6]) 7 [2])), ap_notify e c)))"

definition ap2_handle_pair_setup :: ap2_handler_fun where
  "ap2_handle_pair_setup env c rv resp =
     (case rv_data rv of
        None \<Rightarrow> (None, c, resp)
      | Some d \<Rightarrow>
          let resp1 = add_header ''Content-Type'' OCTET_STREAM resp in
          case tlv_state d of
            None \<Rightarrow> legacy handle_pair_setup env c rv resp1
          | Some [] \<Rightarrow> (None, c, resp1)
          | Some (st # _) \<Rightarrow>
              (case (if st = 1 then setup_m1 env c d
                     else if st = 3 then setup_m3 env c d
                     else if st = 5 then setup_m5 env c d
                     else (None, c)) of (b, c1) \<Rightarrow> (b, c1, resp1)))"

definition verify_m1 :: "ap2_env \<Rightarrow> ap2_conn \<Rightarrow> bytes \<Rightarrow> bytes option \<times> ap2_conn" where
  "verify_m1 env c d =
     (let pv = pv_new (e_hk env) (e_eph env (request_no c)) (ap_device_id c) (ap_identity_seed c)
      in case process_m1_build_m2 (e_hk env) pv d of
           (Inr m2, pv1) \<Rightarrow>
             (Some m2, c\<lparr>ap_pair_verify_secret := Some (ecdh_shared_secret pv1), ap_pair_verify := Some pv1\<rparr>)
         | (Inl e, _) \<Rightarrow> (None, ap_notify e c))"

definition verify_m3 :: "ap2_env \<Rightarrow> ap2_conn \<Rightarrow> bytes \<Rightarrow> bytes option \<times> ap2_conn" where
  "verify_m3 env c d =
     (case ap_pair_verify c of
        None \<Rightarrow> (None, c)
      | Some pv \<Rightarrow>
          (case process_m3_build_m4 (e_hk env) pv d (Some (store_get (ap_store c))) of
             (Inr m4, pv1) \<Rightarrow>
               (Some m4, c\<lparr>ap_pair_verify := Some pv1, ap_pair_verify_secret := pv_secret pv1,
                           ap_shared_secret := pv_secret pv1, is_ap2 := True\<rparr>)
           | (Inl e, pv1) \<Rightarrow> (None, ap_notify e (c\<lparr>ap_pair_verify := Some pv1\<rparr>))))"

definition ap2_handle_pair_verify :: ap2_handler_fun where
  "ap2_handle_pair_verify env c rv resp =
     (case rv_data rv of
        None \<Rightarrow> (None, c, resp)
      | Some d \<Rightarrow>
          let resp1 = add_header ''Content-Type'' OCTET_STREAM resp in
          case tlv_state d of
            None \<Rightarrow> legacy handle_pair_verify env c rv resp1
          | Some [] \<Rightarrow> (None, c, resp1)
          | Some (st # _) \<Rightarrow>
              (case (if st = 1 then verify_m1 env c d
                     else if st = 3 then verify_m3 env c d
                     else (None, c)) of (b, c1) \<Rightarrow> (b, c1, resp1)))"

definition handle_pair_pin_start :: ap2_handler_fun where
  "handle_pair_pin_start env c rv resp = (None, c, add_header ''Content-Type'' OCTET_STREAM resp)"

text \<open>A fresh connection as \<open>new_raop_connection\<close> creates it.\<close>

definition ap2_conn_new :: "raop_conn \<Rightarrow> string \<Rightarrow> bytes \<Rightarrow> bytes option \<Rightarrow> memory_pairing_store \<Rightarrow> ap2_conn" where
  "ap2_conn_new base device_id identity_seed pin store =
     \<lparr>ap_base = base, ap_device_id = device_id, ap_identity_seed = identity_seed, ap_pin = pin, ap_store = store,
      ap_srp = None, ap_pair_verify = None, ap_shared_secret = None, ap_pair_verify_secret = None, is_ap2 = False\<rparr>"

section \<open>Nobody gets in without proof\<close>

inductive pairing_step :: "ap2_env \<Rightarrow> ap2_conn \<Rightarrow> ap2_conn \<Rightarrow> bool" for env where
  step_setup: "ap2_handle_pair_setup env c rv resp = (b, c', resp') \<Longrightarrow> pairing_step env c c'"
| step_verify: "ap2_handle_pair_verify env c rv resp = (b, c', resp') \<Longrightarrow> pairing_step env c c'"
| step_request: "pairing_step env c (c\<lparr>ap_base := base\<rparr>)"
| step_store: "pairing_step env c (c\<lparr>ap_store := store\<rparr>)"

inductive_cases pairing_stepE: "pairing_step env c c'"

text \<open>The SRP server holds the key of a client that proved knowledge of the PIN: its proof was the
  hash over the public values and the session key, computed from the verifier of the PIN.\<close>

definition proved_pin :: "ap2_env \<Rightarrow> bytes option \<Rightarrow> srp_server \<Rightarrow> bool" where
  "proved_pin env pin s \<longleftrightarrow> srp_ok (hk_pair (e_hk env)) pin s \<and>
     (\<exists>big_a pf. big_a mod N_3072 \<noteq> 0 \<and>
        srp_session_key s = sha512 (hk_pair (e_hk env)) (to_bytes_be
          (srp_shared s big_a (h_nn_pad (hk_pair (e_hk env)) big_a (srp_big_b s) N_3072_LEN))) \<and>
        pf = calculate_m (hk_pair (e_hk env)) N_3072 G_3072 USERNAME (from_bytes_be (srp_salt s)) big_a
               (srp_big_b s) (srp_session_key s) \<and>
        srp_m2 s = calculate_h_amk (hk_pair (e_hk env)) big_a pf (srp_session_key s))"

definition ap2_inv :: "ap2_env \<Rightarrow> ap2_conn \<Rightarrow> bool" where
  [inv_defs]: "ap2_inv env c \<longleftrightarrow>
     (\<forall>s. ap_srp c = Some s \<longrightarrow> srp_ok (hk_pair (e_hk env)) (ap_pin c) s
        \<and> (srp_is_transient s \<longrightarrow> ap_pin c = None) \<and> (srp_verified s \<longrightarrow> proved_pin env (ap_pin c) s))
     \<and> (\<forall>pv. ap_pair_verify c = Some pv \<longrightarrow> pv_server_eph_pk pv = x_public (hk_pair (e_hk env)) (pv_server_eph_sk pv)
        \<and> pv_shared_secret pv = x_shared (hk_pair (e_hk env)) (pv_server_eph_sk pv) (pv_client_eph_pk pv))"

lemma process_m1_keeps:
  assumes "process_m1 s d = (r, s')"
  shows "srp_verified s' = srp_verified s" "r = Inr () \<Longrightarrow> srp_is_transient s' \<Longrightarrow> srp_allow_transient s'"
  using assms by (auto simp: process_m1_def Let_def split: sum.splits if_splits)

lemma process_m3_proves:
  assumes "process_m3 (hk_pair (e_hk env)) s d = (r, s')" "srp_ok (hk_pair (e_hk env)) pin s"
    "srp_verified s \<Longrightarrow> proved_pin env pin s"
  shows "srp_is_transient s' = srp_is_transient s" "srp_verified s' \<Longrightarrow> proved_pin env pin s'"
    "r = Inr True \<Longrightarrow> srp_verified s'"
proof -
  show "srp_is_transient s' = srp_is_transient s" "r = Inr True \<Longrightarrow> srp_verified s'"
    using assms(1) by (auto simp: process_m3_def Let_def split: sum.splits if_splits)
  show "proved_pin env pin s'" if "srp_verified s'"
    using assms that
    by (auto simp: process_m3_def Let_def srp_ok_def split: sum.splits if_splits)
       (auto simp: proved_pin_def srp_ok_def srp_shared_def)
qed

lemma ap_notify_simps [simp]:
  "ap_srp (ap_notify e c) = ap_srp c" "ap_pin (ap_notify e c) = ap_pin c"
  "ap_pair_verify (ap_notify e c) = ap_pair_verify c" "ap_store (ap_notify e c) = ap_store c"
  "ap_shared_secret (ap_notify e c) = ap_shared_secret c"
  by (simp_all add: ap_notify_def)

lemma legacy_keeps:
  "legacy f env c rv resp = (b, c', resp') \<Longrightarrow> \<exists>base. c' = c\<lparr>ap_base := base\<rparr>"
  by (auto simp: legacy_def split: prod.splits)

lemma ap2_inv_cong:
  "ap_srp c' = ap_srp c \<Longrightarrow> ap_pin c' = ap_pin c \<Longrightarrow> ap_pair_verify c' = ap_pair_verify c \<Longrightarrow>
   ap2_inv env c' = ap2_inv env c"
  by (simp add: ap2_inv_def)

lemma setup_m1_inv: "ap2_inv env c \<Longrightarrow> setup_m1 env c d = (b, c') \<Longrightarrow>
    ap2_inv env c' \<and> ap_pin c' = ap_pin c \<and> ap_shared_secret c' = ap_shared_secret c \<and> ap_store c' = ap_store c"
proof -
  assume inv: "ap2_inv env c" and m: "setup_m1 env c d = (b, c')"
  let ?srp = "srp_new (hk_pair (e_hk env)) (e_salt env (request_no c)) (e_srp_b env (request_no c)) (ap_pin c)"
  obtain r s where p: "process_m1 ?srp d = (r, s)" by fastforce
  have ok: "srp_ok (hk_pair (e_hk env)) (ap_pin c) s" using srp_ok_m1 [OF srp_ok_new p] .
  have nv: "\<not> srp_verified s" using process_m1_keeps(1) [OF p] by (simp add: srp_new_def Let_def)
  have tr: "r = Inr () \<Longrightarrow> srp_is_transient s \<Longrightarrow> ap_pin c = None"
    using process_m1_keeps(2) [OF p] ok by (simp add: srp_ok_def)
  show ?thesis using m inv ok nv tr p
    by (auto simp: setup_m1_def Let_def ap2_inv_def split: sum.splits)
qed

lemma setup_m3_inv:
  assumes inv: "ap2_inv env c" and m: "setup_m3 env c d = (b, c')"
  shows "ap2_inv env c' \<and> ap_pin c' = ap_pin c \<and> ap_store c' = ap_store c
    \<and> (ap_shared_secret c' = ap_shared_secret c
       \<or> ap_pin c = None \<and> (\<exists>s. ap_srp c' = Some s \<and> proved_pin env None s \<and> ap_shared_secret c' = Some (srp_session_key s)))"
proof (cases "ap_srp c")
  case None
  then show ?thesis using m inv by (auto simp: setup_m3_def)
next
  case (Some s)
  obtain r s' where p: "process_m3 (hk_pair (e_hk env)) s d = (r, s')" by fastforce
  have s: "srp_ok (hk_pair (e_hk env)) (ap_pin c) s" "srp_is_transient s \<Longrightarrow> ap_pin c = None"
    "srp_verified s \<Longrightarrow> proved_pin env (ap_pin c) s"
    using inv Some by (auto simp: ap2_inv_def)
  note f = process_m3_proves [OF p s(1,3)] srp_ok_m3 [OF s(1) p]
  have "ap2_inv env (c\<lparr>ap_srp := Some s'\<rparr>)" using inv f s by (auto simp: ap2_inv_def)
  moreover have "srp_shared_secret s' = Some (srp_session_key s') \<and> proved_pin env None s' \<and> ap_pin c = None"
    if "r = Inr True" "srp_is_transient s'"
    using that f s by (simp add: srp_shared_secret_def)
  ultimately show ?thesis
    using m Some p by (auto simp: setup_m3_def Let_def build_m4_def ap2_inv_def split: sum.splits if_splits)
qed

lemma process_m5_proves:
  assumes "process_m5 hk s d = Inr (ident, pk)"
  shows "srp_verified s \<and> \<not> srp_is_transient s
    \<and> (\<exists>x sig. hkdf_derive hk (srp_session_key s) ''Pair-Setup-Controller-Sign-Salt'' ''Pair-Setup-Controller-Sign-Info'' = Inr x
        \<and> ed_verify (hk_pair hk) pk (x @ as_bytes ident @ pk) sig)"
  using assms
  by (auto simp: process_m5_def setup_verify_client_identity_def verify_controller_identity_def bind_sum_def from_utf8_def
      split: if_splits sum.splits option.splits)


lemma setup_m5_inv:
  assumes inv: "ap2_inv env c" and m: "setup_m5 env c d = (b, c')"
  shows "ap2_inv env c' \<and> ap_pin c' = ap_pin c \<and> ap_shared_secret c' = ap_shared_secret c
    \<and> (ap_store c' = ap_store c \<or>
       (\<exists>s ident pk x sig. ap_srp c = Some s \<and> \<not> srp_is_transient s \<and> proved_pin env (ap_pin c) s
          \<and> ap_store c' = store_put ident pk (ap_store c)
          \<and> hkdf_derive (e_hk env) (srp_session_key s) ''Pair-Setup-Controller-Sign-Salt'' ''Pair-Setup-Controller-Sign-Info'' = Inr x
          \<and> ed_verify (hk_pair (e_hk env)) pk (x @ as_bytes ident @ pk) sig))"
proof -
  have c': "ap_srp c' = ap_srp c \<and> ap_pin c' = ap_pin c \<and> ap_pair_verify c' = ap_pair_verify c
    \<and> ap_shared_secret c' = ap_shared_secret c"
    using m by (auto simp: setup_m5_def split: option.splits sum.splits prod.splits)
  have "ap_store c' = ap_store c \<or> (\<exists>s ident pk. ap_srp c = Some s \<and> process_m5 (e_hk env) s d = Inr (ident, pk)
      \<and> ap_store c' = store_put ident pk (ap_store c))"
    using m by (auto simp: setup_m5_def split: option.splits sum.splits prod.splits)
  then show ?thesis
    using c' inv ap2_inv_cong [of c' c env] process_m5_proves unfolding ap2_inv_def by metis
qed

text \<open>A completed pair-verify: the key stored for the client signed this very exchange.\<close>

definition proved_identity :: "ap2_env \<Rightarrow> ap2_conn \<Rightarrow> bytes option \<Rightarrow> bool" where
  "proved_identity env c secret \<longleftrightarrow>
     (\<exists>pv ident ltpk sig. ap_pair_verify c = Some pv \<and> store_get (ap_store c) ident = Some ltpk
        \<and> ed_verify (hk_pair (e_hk env)) ltpk (pv_client_eph_pk pv @ as_bytes ident @ pv_server_eph_pk pv) sig
        \<and> pv_server_eph_pk pv = x_public (hk_pair (e_hk env)) (pv_server_eph_sk pv)
        \<and> secret = Some (x_shared (hk_pair (e_hk env)) (pv_server_eph_sk pv) (pv_client_eph_pk pv)))"

lemma process_verify_m3_proves:
  assumes "process_m3_build_m4 hk pv d (Some look) = (r, pv')"
  shows "(r = Inr m4 \<longrightarrow> pv' = pv\<lparr>pv_completed := True\<rparr> \<and> (\<exists>ident ltpk sig. look ident = Some ltpk
       \<and> ed_verify (hk_pair hk) ltpk (pv_client_eph_pk pv @ as_bytes ident @ pv_server_eph_pk pv) sig))
    \<and> (isl r \<longrightarrow> pv' = pv)"
  using assms
  by (auto simp: process_m3_build_m4_def bind_sum_def pv_check_signature_def split: if_splits sum.splits option.splits)

lemma verify_m1_inv:
  assumes "ap2_inv env c" "verify_m1 env c d = (b, c')"
  shows "ap2_inv env c' \<and> ap_pin c' = ap_pin c \<and> ap_shared_secret c' = ap_shared_secret c \<and> ap_store c' = ap_store c"
  using assms
  by (auto simp: verify_m1_def process_m1_build_m2_def pv_new_def ap2_inv_def Let_def split: sum.splits)

lemma verify_m3_inv:
  assumes inv: "ap2_inv env c" and m: "verify_m3 env c d = (b, c')"
  shows "ap2_inv env c' \<and> ap_pin c' = ap_pin c \<and> ap_store c' = ap_store c
    \<and> (ap_shared_secret c' = ap_shared_secret c \<or> proved_identity env c (ap_shared_secret c'))"
proof (cases "ap_pair_verify c")
  case None
  then show ?thesis using m inv by (auto simp: verify_m3_def)
next
  case (Some pv)
  obtain r pv' where p: "process_m3_build_m4 (e_hk env) pv d (Some (store_get (ap_store c))) = (r, pv')" by fastforce
  have pv: "pv_server_eph_pk pv = x_public (hk_pair (e_hk env)) (pv_server_eph_sk pv)"
    "pv_shared_secret pv = x_shared (hk_pair (e_hk env)) (pv_server_eph_sk pv) (pv_client_eph_pk pv)"
    using inv Some by (auto simp: ap2_inv_def)
  show ?thesis
  proof (cases r)
    case (Inl e)
    then show ?thesis using m Some p inv process_verify_m3_proves [OF p]
      by (auto simp: verify_m3_def ap2_inv_def)
  next
    case (Inr m4)
    then have c': "c' = c\<lparr>ap_pair_verify := Some pv', ap_pair_verify_secret := pv_secret pv', ap_shared_secret := pv_secret pv', is_ap2 := True\<rparr>"
      using m Some p by (simp add: verify_m3_def)
    have v: "pv' = pv\<lparr>pv_completed := True\<rparr>" "\<exists>ident ltpk sig. store_get (ap_store c) ident = Some ltpk
       \<and> ed_verify (hk_pair (e_hk env)) ltpk (pv_client_eph_pk pv @ as_bytes ident @ pv_server_eph_pk pv) sig"
      using process_verify_m3_proves [OF p] Inr by auto
    have "proved_identity env c (ap_shared_secret c')"
      unfolding proved_identity_def using v pv Some by (simp add: c' pv_secret_def)
    moreover have "ap2_inv env c'" using inv v pv by (auto simp: c' ap2_inv_def)
    ultimately show ?thesis by (simp add: c')
  qed
qed


definition proved_controller :: "ap2_env \<Rightarrow> ap2_conn \<Rightarrow> memory_pairing_store \<Rightarrow> bool" where
  "proved_controller env c store \<longleftrightarrow>
     (\<exists>s ident pk x sig. ap_srp c = Some s \<and> \<not> srp_is_transient s \<and> proved_pin env (ap_pin c) s
        \<and> store = store_put ident pk (ap_store c)
        \<and> hkdf_derive (e_hk env) (srp_session_key s) ''Pair-Setup-Controller-Sign-Salt'' ''Pair-Setup-Controller-Sign-Info'' = Inr x
        \<and> ed_verify (hk_pair (e_hk env)) pk (x @ as_bytes ident @ pk) sig)"

lemma setup_inv:
  assumes "ap2_inv env c" "ap2_handle_pair_setup env c rv resp = (b, c', resp')"
  shows "ap2_inv env c' \<and> ap_pin c' = ap_pin c
    \<and> (ap_store c' = ap_store c \<or> proved_controller env c (ap_store c'))
    \<and> (ap_shared_secret c' = ap_shared_secret c
       \<or> ap_pin c = None \<and> (\<exists>s. ap_srp c' = Some s \<and> proved_pin env None s \<and> ap_shared_secret c' = Some (srp_session_key s)))"
  using assms setup_m1_inv [OF assms(1)] setup_m3_inv [OF assms(1)] setup_m5_inv [OF assms(1)]
    ap2_inv_cong [of "c\<lparr>ap_base := base\<rparr>" c env for base]
  unfolding proved_controller_def
  by (auto simp: ap2_handle_pair_setup_def Let_def dest!: legacy_keeps split: option.splits list.splits if_splits prod.splits)

lemma verify_inv:
  assumes "ap2_inv env c" "ap2_handle_pair_verify env c rv resp = (b, c', resp')"
  shows "ap2_inv env c' \<and> ap_pin c' = ap_pin c \<and> ap_store c' = ap_store c
    \<and> (ap_shared_secret c' = ap_shared_secret c \<or> proved_identity env c (ap_shared_secret c'))"
  using assms verify_m1_inv [OF assms(1)] verify_m3_inv [OF assms(1)]
    ap2_inv_cong [of "c\<lparr>ap_base := base\<rparr>" c env for base]
  by (auto simp: ap2_handle_pair_verify_def Let_def dest!: legacy_keeps split: option.splits list.splits if_splits prod.splits)

lemma step_inv:
  assumes "pairing_step env c c'" "ap2_inv env c"
  shows "ap2_inv env c' \<and> ap_pin c' = ap_pin c"
  using assms(1)
proof cases
  case step_setup
  then show ?thesis using setup_inv [OF assms(2)] by blast
next
  case step_verify
  then show ?thesis using verify_inv [OF assms(2)] by blast
qed (use assms(2) in \<open>simp_all add: ap2_inv_def\<close>)

text \<open>
  In every state a connection can reach, whatever pairing messages it gets and whatever other
  connections do to the store: the shared secret of the encrypted transport is set only by a
  client that signed this key exchange with a key of the store or, when no PIN is configured, by
  one that proved the transient PIN; and a key enters the store only after an SRP proof of the
  configured PIN and a signature by that key bound to the same session.
\<close>

theorem ap2_pairing_authenticated:
  assumes "(pairing_step env)\<^sup>*\<^sup>* (ap2_conn_new base device_id seed pin store) c"
    and "ap2_handle_pair_setup env c rv resp = (b, c', resp')"
    and "ap2_handle_pair_verify env c rv2 resp2 = (b2, c'', resp2')"
  shows "(ap_store c' = ap_store c \<or> proved_controller env c (ap_store c'))
    \<and> (ap_shared_secret c' = ap_shared_secret c
       \<or> pin = None \<and> (\<exists>s. ap_srp c' = Some s \<and> proved_pin env None s \<and> ap_shared_secret c' = Some (srp_session_key s)))
    \<and> ap_store c'' = ap_store c
    \<and> (ap_shared_secret c'' = ap_shared_secret c \<or> proved_identity env c (ap_shared_secret c''))"
proof -
  have "ap2_inv env c \<and> ap_pin c = pin"
    using assms(1)
  proof (induction rule: rtranclp_induct)
    case base
    show ?case by (simp add: ap2_inv_def ap2_conn_new_def)
  next
    case (step c1 c2)
    then show ?case using step_inv by auto
  qed
  then show ?thesis using setup_inv [OF _ assms(2)] verify_inv [OF _ assms(3)] by auto
qed

section \<open>A controller with the PIN gets in\<close>

text \<open>An honest controller runs pair-setup and later pair-verify against the handlers; \<open>None\<close> is any
  message that is missing or does not check.\<close>

definition ask_setup :: "ap2_env \<Rightarrow> request_view \<Rightarrow> http_response \<Rightarrow> ap2_conn \<Rightarrow> bytes \<Rightarrow> (bytes \<times> ap2_conn) option" where
  "ask_setup env rv resp c d =
     (case ap2_handle_pair_setup env c (rv\<lparr>rv_data := Some d\<rparr>) resp of
        (Some reply, c', _) \<Rightarrow> Some (reply, c') | _ \<Rightarrow> None)"

definition ask_verify :: "ap2_env \<Rightarrow> request_view \<Rightarrow> http_response \<Rightarrow> ap2_conn \<Rightarrow> bytes \<Rightarrow> (bytes \<times> ap2_conn) option" where
  "ask_verify env rv resp c d =
     (case ap2_handle_pair_verify env c (rv\<lparr>rv_data := Some d\<rparr>) resp of
        (Some reply, c', _) \<Rightarrow> Some (reply, c') | _ \<Rightarrow> None)"

definition sum_option :: "'e + 'a \<Rightarrow> 'a option" where
  "sum_option r = (case r of Inl _ \<Rightarrow> None | Inr x \<Rightarrow> Some x)"

definition controller_setup ::
  "ap2_env \<Rightarrow> request_view \<Rightarrow> http_response \<Rightarrow> ap2_conn \<Rightarrow> bytes \<Rightarrow> nat \<Rightarrow> string \<Rightarrow> bytes \<Rightarrow> (bytes \<times> bytes \<times> ap2_conn) option" where
  "controller_setup env rv resp c pin a ident seed =
     do {
       (m2, c1) \<leftarrow> ask_setup env rv resp c (tlv_encode (tlv_add (tlv_add tlv_new (tlv_code State) [1]) (tlv_code Method) [0]));
       (m3, K, pf) \<leftarrow> srp_client (hk_pair (e_hk env)) pin a m2;
       (m4, c2) \<leftarrow> ask_setup env rv resp c1 m3;
       t4 \<leftarrow> sum_option (tlv_parse m4);
       (if tlv_get_type t4 Proof = Some pf then do {
          m5 \<leftarrow> sum_option (client_m5 (e_hk env) K ident seed);
          (m6, c3) \<leftarrow> ask_setup env rv resp c2 m5;
          (aid, apk) \<leftarrow> sum_option (client_check_m6 (e_hk env) K m6);
          Some (aid, apk, c3) }
        else None)
     }"

definition controller_verify ::
  "ap2_env \<Rightarrow> request_view \<Rightarrow> http_response \<Rightarrow> ap2_conn \<Rightarrow> bytes \<Rightarrow> bytes \<Rightarrow> string \<Rightarrow> bytes \<Rightarrow> (bytes \<times> ap2_conn) option" where
  "controller_verify env rv resp c eph apk ident seed =
     do {
       (m2, c1) \<leftarrow> ask_verify env rv resp c (client_v1 (e_hk env) eph);
       (m3, secret) \<leftarrow> sum_option (client_v3 (e_hk env) eph apk ident seed m2);
       (m4, c2) \<leftarrow> ask_verify env rv resp c1 m3;
       Some (secret, c2)
     }"

lemma tlv_state_fields:
  "t2 \<noteq> 6 \<Longrightarrow> tlv_state (tlv_encode (tlv_add (tlv_add tlv_new 6 a) t2 b)) = Some a"
  "t2 \<noteq> 6 \<Longrightarrow> t2 \<noteq> t3 \<Longrightarrow> tlv_state (tlv_encode (tlv_add (tlv_add (tlv_add tlv_new 6 a) t2 b) t3 c)) = Some a"
  using tlv_parse_fields(1) [of 6 t2 a b] tlv_parse_fields(2) [of 6 t2 t3 a b c]
  by (auto simp: tlv_parse_def tlv_state_def tlv_get_def split: sum.splits)

lemma client_states:
  "srp_client pc pin a m2 = Some (m3, K, pf) \<Longrightarrow> tlv_state m3 = Some [3]"
  "client_m5 hk K ident seed = Inr m5 \<Longrightarrow> tlv_state m5 = Some [5]"
  "client_v3 hk eph apk ident seed m2' = Inr (m3, secret) \<Longrightarrow> tlv_state m3 = Some [3]"
  "tlv_state (client_v1 hk eph) = Some [1]"
  by (auto simp: srp_client_def client_m5_def client_v3_def client_v1_def bind_sum_def tlv_state_fields Let_def
      split: sum.splits option.splits if_splits)

lemma ask_states:
  "tlv_state d = Some [1] \<Longrightarrow> ask_setup env rv resp c d = (case setup_m1 env c d of (b, c') \<Rightarrow> map_option (\<lambda>r. (r, c')) b)"
  "tlv_state d = Some [3] \<Longrightarrow> ask_setup env rv resp c d = (case setup_m3 env c d of (b, c') \<Rightarrow> map_option (\<lambda>r. (r, c')) b)"
  "tlv_state d = Some [5] \<Longrightarrow> ask_setup env rv resp c d = (case setup_m5 env c d of (b, c') \<Rightarrow> map_option (\<lambda>r. (r, c')) b)"
  "tlv_state d = Some [1] \<Longrightarrow> ask_verify env rv resp c d = (case verify_m1 env c d of (b, c') \<Rightarrow> map_option (\<lambda>r. (r, c')) b)"
  "tlv_state d = Some [3] \<Longrightarrow> ask_verify env rv resp c d = (case verify_m3 env c d of (b, c') \<Rightarrow> map_option (\<lambda>r. (r, c')) b)"
  by (auto simp: ask_setup_def ask_verify_def ap2_handle_pair_setup_def ap2_handle_pair_verify_def Let_def
      split: prod.splits option.splits)

lemma controller_setup_ok:
  assumes hk: "hk_ok (e_hk env)" and ident: "utf8_valid (as_bytes ident)" "length ident < 2 ^ 30"
    and id: "length device_id < 2 ^ 30"
    and c: "c = ap2_conn_new base device_id aseed (Some pin) store"
  obtains c3 where
    "controller_setup env rv resp c pin a ident seed = Some (as_bytes device_id, ed_public (hk_pair (e_hk env)) aseed, c3)"
    "ap_store c3 = store_put ident (ed_public (hk_pair (e_hk env)) seed) store"
proof -
  let ?hk = "e_hk env" let ?pc = "hk_pair ?hk"
  let ?m1 = "tlv_encode (tlv_add (tlv_add tlv_new (tlv_code State) [1]) (tlv_code Method) [0])"
  let ?srp = "srp_new ?pc (e_salt env (request_no c)) (e_srp_b env (request_no c)) (Some pin)"
  have pin: "ap_pin c = Some pin" "ap_store c = store" "ap_device_id c = device_id" "ap_identity_seed c = aseed"
    by (simp_all add: c ap2_conn_new_def)
  have "process_m1 ?srp ?m1 = (Inr (), ?srp)"
    by (simp add: process_m1_def tlv_parse_fields tlv_need_def tlv_get_type_def tlv_get_def PAIRING_METHOD_PAIR_SETUP_def
        srp_new_def Let_def)
  then have m1: "ask_setup env rv resp c ?m1 = Some (build_m2 ?srp, c\<lparr>ap_srp := Some ?srp\<rparr>)"
    using ask_states(1) [of ?m1] tlv_state_fields(1) [of 0 "[1]" "[0]"] by (simp add: setup_m1_def pin Let_def)
  obtain m3 K pf s where m3: "srp_client ?pc pin a (build_m2 ?srp) = Some (m3, K, pf)"
    "process_m3 ?pc ?srp m3 = (Inr True, s)" and s: "s = ?srp\<lparr>srp_session_key := K, srp_m2 := pf, srp_verified := True\<rparr>"
    using srp_agreement [OF srp_ok_new] hk_okD(6) [OF hk] by (metis option.simps(5) pin_used_def)
  have nt: "\<not> srp_is_transient s" "srp_verified s" "srp_session_key s = K" "srp_m2 s = pf"
    by (simp_all add: s srp_new_def Let_def)
  let ?m4 = "tlv_encode (tlv_add (tlv_add tlv_new (tlv_code State) [4]) (tlv_code Proof) pf)"
  have a3: "ask_setup env rv resp (c\<lparr>ap_srp := Some ?srp\<rparr>) m3 = Some (?m4, c\<lparr>ap_srp := Some s\<rparr>)"
    using ask_states(2) [OF client_states(1) [OF m3(1)]] m3(2) nt by (simp add: setup_m3_def build_m4_def Let_def)
  obtain m5 where m5: "client_m5 ?hk K ident seed = Inr m5"
      "setup_verify_client_identity ?hk K m5 = Inr (ident, ed_public ?pc seed)"
    using m5_accepted [OF hk ident] .
  obtain m6 where m6: "setup_build_accessory_identity ?hk K device_id aseed = Inr m6"
      "client_check_m6 ?hk K m6 = Inr (as_bytes device_id, ed_public ?pc aseed)"
    using m6_accepted [OF hk id] .
  let ?c3 = "c\<lparr>ap_srp := Some s, ap_store := store_put ident (ed_public ?pc seed) store\<rparr>"
  have a5: "ask_setup env rv resp (c\<lparr>ap_srp := Some s\<rparr>) m5 = Some (m6, ?c3)"
    using ask_states(3) [OF client_states(2) [OF m5(1)]] m5(2) m6(1) nt pin
    by (simp add: setup_m5_def process_m5_def build_m6_def)
  have "controller_setup env rv resp c pin a ident seed = Some (as_bytes device_id, ed_public ?pc aseed, ?c3)"
    using m1 m3(1) a3 m5(1) a5 m6(2)
    by (simp add: controller_setup_def sum_option_def tlv_parse_fields tlv_get_type_def tlv_get_def)
  then show ?thesis using that by simp
qed


lemma controller_verify_ok:
  assumes hk: "hk_ok (e_hk env)" and ident: "utf8_valid (as_bytes ident)" "length ident < 2 ^ 30"
    and id: "length (ap_device_id c) < 2 ^ 30"
    and key: "store_get (ap_store c) ident = Some (ed_public (hk_pair (e_hk env)) seed)"
  obtains secret c' where
    "controller_verify env rv resp c eph (ed_public (hk_pair (e_hk env)) (ap_identity_seed c)) ident seed = Some (secret, c')"
    "ap_shared_secret c' = Some secret" "is_ap2 c'"
proof -
  let ?hk = "e_hk env" let ?pc = "hk_pair ?hk"
  obtain m2 pv1 m3 secret m4 pv2 where v:
    "process_m1_build_m2 ?hk (pv_new ?hk (e_eph env (request_no c)) (ap_device_id c) (ap_identity_seed c)) (client_v1 ?hk eph)
       = (Inr m2, pv1)"
    "client_v3 ?hk eph (ed_public ?pc (ap_identity_seed c)) ident seed m2 = Inr (m3, secret)"
    "process_m3_build_m4 ?hk pv1 m3 (Some (store_get (ap_store c))) = (Inr m4, pv2)" "pv_secret pv2 = Some secret"
    using verify_accepted [OF hk id ident, of "store_get (ap_store c)"] key by metis
  let ?c1 = "c\<lparr>ap_pair_verify_secret := Some (ecdh_shared_secret pv1), ap_pair_verify := Some pv1\<rparr>"
  let ?c2 = "?c1\<lparr>ap_pair_verify := Some pv2, ap_pair_verify_secret := pv_secret pv2, ap_shared_secret := pv_secret pv2, is_ap2 := True\<rparr>"
  have "ask_verify env rv resp c (client_v1 ?hk eph) = Some (m2, ?c1)"
    using ask_states(4) [OF client_states(4)] v(1) by (simp add: verify_m1_def Let_def)
  moreover have "ask_verify env rv resp ?c1 m3 = Some (m4, ?c2)"
    using ask_states(5) [OF client_states(3) [OF v(2)]] v(3) by (simp add: verify_m3_def)
  ultimately have "controller_verify env rv resp c eph (ed_public ?pc (ap_identity_seed c)) ident seed = Some (secret, ?c2)"
    using v(2) by (simp add: controller_verify_def sum_option_def)
  then show ?thesis using that v(4) by simp
qed


definition sample_hk :: hk_crypto where
  "sample_hk = \<lparr>hk_pair = sample_crypto\<lparr>ed_public := \<lambda>k. take 32 (k @ replicate 32 0), x_public := \<lambda>k. replicate 32 1,
      x_shared := \<lambda>a b. replicate 32 2, ed_sign := \<lambda>k m. replicate 64 3, ed_verify := \<lambda>k m s. s = replicate 64 3\<rparr>,
     hk_hkdf = \<lambda>salt ikm info n. Some (replicate n 4),
     hk_seal = \<lambda>k n a m. Some (m @ replicate 16 5), hk_open = \<lambda>k n a c. Some (take (length c - 16) c)\<rparr>"

lemma sample_hk_ok: "hk_ok sample_hk"
  by (simp add: hk_ok_def sample_hk_def pair_crypto_ok_def sample_crypto_def aead_ok_def TAG_LEN_def min_def)

definition sample_ap2_env :: ap2_env where
  "sample_ap2_env = \<lparr>e_raop = sample_env, e_hk = sample_hk, e_salt = \<lambda>n. replicate 16 7, e_srp_b = \<lambda>n. replicate 32 8,
     e_eph = \<lambda>n. replicate 32 9\<rparr>"

definition sample_ap2_conn :: ap2_conn where
  "sample_ap2_conn = ap2_conn_new (sample_conn []) ''AA'' [1] (Some (as_bytes ''1234''))
     \<lparr>keys = Map.empty, ms_identity_seed = None\<rparr>"


theorem ap2_pairing_authenticated_witness:
  "ap_store (fst (snd (ap2_handle_pair_verify sample_ap2_env sample_ap2_conn (sample_request ''POST'' Map.empty None)
      (response_new ''RTSP/1.0'' 200 ''OK'')))) = ap_store sample_ap2_conn"
proof -
  let ?rv = "sample_request ''POST'' Map.empty None" and ?resp = "response_new ''RTSP/1.0'' 200 ''OK''"
  obtain b c' resp' b2 c'' resp'' where
    "ap2_handle_pair_setup sample_ap2_env sample_ap2_conn ?rv ?resp = (b, c', resp')"
    and v: "ap2_handle_pair_verify sample_ap2_env sample_ap2_conn ?rv ?resp = (b2, c'', resp'')"
    by (meson prod_cases3)
  from ap2_pairing_authenticated [OF _ this, of "sample_conn []" "''AA''" "[1]" "Some (as_bytes ''1234'')"
      "\<lparr>keys = Map.empty, ms_identity_seed = None\<rparr>"] v
  show ?thesis by (simp add: sample_ap2_conn_def)
qed

end
