(* ===== verification/Plist.thy ===== *)
theory Plist
  imports Rust_Str Rust_Float
begin

text \<open>
  Property lists as the crate \<open>plist\<close> presents them to the AirPlay 2 handlers of
  src/raop/handlers\_ap2.rs. Reading and writing the binary format is that crate's business and a
  parameter of the handlers; a dictionary keeps the order of its entries. Dates and UIDs, which
  the handlers never look into, are \<open>POther\<close>.
\<close>

datatype plist =
    PArray "plist list"
  | PDict "(string \<times> plist) list"
  | PBool bool
  | PData bytes
  | PReal f64
  | PInt int
  | PString string
  | POther

type_synonym plist_dict = "(string \<times> plist) list"

fun as_dictionary :: "plist \<Rightarrow> plist_dict option" where
  "as_dictionary (PDict kvs) = Some kvs"
| "as_dictionary _ = None"

fun as_array :: "plist \<Rightarrow> plist list option" where
  "as_array (PArray vs) = Some vs"
| "as_array _ = None"

fun as_boolean :: "plist \<Rightarrow> bool option" where
  "as_boolean (PBool b) = Some b"
| "as_boolean _ = None"

fun as_data :: "plist \<Rightarrow> bytes option" where
  "as_data (PData d) = Some d"
| "as_data _ = None"

fun as_real :: "plist \<Rightarrow> f64 option" where
  "as_real (PReal r) = Some r"
| "as_real _ = None"

fun as_string :: "plist \<Rightarrow> string option" where
  "as_string (PString s) = Some s"
| "as_string _ = None"

fun as_unsigned_integer :: "plist \<Rightarrow> u64 option" where
  "as_unsigned_integer (PInt i) = (if 0 \<le> i \<and> i < 2 ^ 64 then Some (of_int i) else None)"
| "as_unsigned_integer _ = None"

fun as_signed_integer :: "plist \<Rightarrow> int option" where
  "as_signed_integer (PInt i) = (if - (2 ^ 63) \<le> i \<and> i < 2 ^ 63 then Some i else None)"
| "as_signed_integer _ = None"

definition dict_get :: "plist_dict \<Rightarrow> string \<Rightarrow> plist option" where
  "dict_get d k = map_of d k"

text \<open>\<open>dict.get(k).and_then(as)\<close>.\<close>

definition get_as :: "(plist \<Rightarrow> 'a option) \<Rightarrow> plist_dict \<Rightarrow> string \<Rightarrow> 'a option" where
  "get_as as d k = Option.bind (dict_get d k) as"

definition unwrap_or :: "'a \<Rightarrow> 'a option \<Rightarrow> 'a" where
  "unwrap_or a x = (case x of Some v \<Rightarrow> v | None \<Rightarrow> a)"

definition dict_insert :: "string \<Rightarrow> plist \<Rightarrow> plist_dict \<Rightarrow> plist_dict" where
  "dict_insert k v d =
     (if k \<in> fst ` set d then map (\<lambda>(k', v'). (k', if k' = k then v else v')) d else d @ [(k, v)])"

text \<open>What a binary property list can hold: the keys of a dictionary are distinct and integers
  have at most 64 bits, signed or not.\<close>

fun plist_ok :: "plist \<Rightarrow> bool" where
  "plist_ok (PArray vs) = (\<forall>v \<in> set vs. plist_ok v)"
| "plist_ok (PDict kvs) = (distinct (map fst kvs) \<and> (\<forall>kv \<in> set kvs. plist_ok (snd kv)))"
| "plist_ok (PInt i) = (- (2 ^ 63) \<le> i \<and> i < 2 ^ 64)"
| "plist_ok _ = True"

lemma keys_dict_insert: "fst ` set (dict_insert k v d) = insert k (fst ` set d)"
  by (force simp: dict_insert_def)

lemma dict_insert_ok: "plist_ok (PDict d) \<Longrightarrow> plist_ok v \<Longrightarrow> plist_ok (PDict (dict_insert k v d))"
  by (auto simp: dict_insert_def comp_def split_def)

lemma map_of_update: "map_of (map (\<lambda>(k', v'). (k', if k' = k then v else v')) d) k'
    = (if k' = k then map_option (\<lambda>_. v) (map_of d k) else map_of d k')"
proof (cases "k' = k")
  case True
  show ?thesis unfolding True by (induction d) (simp_all split: prod.split)
next
  case False
  then show ?thesis by (induction d) (simp_all split: prod.split)
qed

lemma dict_get_insert: "dict_get (dict_insert k v d) k' = (if k' = k then Some v else dict_get d k')"
proof (cases "k \<in> fst ` set d")
  case True
  then have "map_of d k \<noteq> None" by (simp add: map_of_eq_None_iff)
  with True show ?thesis by (auto simp: dict_get_def dict_insert_def map_of_update)
next
  case False
  then have "map_of d k = None" by (simp add: map_of_eq_None_iff)
  with False show ?thesis by (auto simp: dict_get_def dict_insert_def map_add_def split: option.splits)
qed

lemma dict_insert_new [simp]: "k \<notin> fst ` set d \<Longrightarrow> dict_insert k v d = d @ [(k, v)]"
  by (simp add: dict_insert_def)

lemma dict_get_size: "dict_get d k = Some v \<Longrightarrow> size v < size (PDict d)"
proof -
  assume "dict_get d k = Some v"
  then have "(k, v) \<in> set d" by (simp add: dict_get_def map_of_SomeD)
  then have "size_prod (\<lambda>_. 0) size (k, v) \<le> size_list (size_prod (\<lambda>_. 0) size) d"
    by (rule size_list_estimation') simp
  then show ?thesis by simp
qed

end
