(* ===== verification/Ap2_Volume.thy ===== *)
theory Ap2_Volume
  imports Plist
begin

text \<open>
  Volume updates in AirPlay 2 commands: the search for a volume in the property list of a
  \<open>POST /command\<close> and its conversion to decibel, src/raop/handlers\_ap2.rs. The decimal logarithm
  of the platform's math library, whose precision Rust leaves open, is the parameter \<open>log10\<close>.
\<close>

section \<open>Model\<close>

definition plist_number :: "plist \<Rightarrow> f64 option" where
  "plist_number v =
     (case as_real v of
        Some r \<Rightarrow> Some r
      | None \<Rightarrow>
          (case as_signed_integer v of
             Some i \<Rightarrow> Some (Finite (round_f64 (of_int i)))
           | None \<Rightarrow> map_option (\<lambda>u. Finite (round_f64 (of_nat (unat u)))) (as_unsigned_integer v)))"

definition str_contains :: "string \<Rightarrow> string \<Rightarrow> bool" where
  "str_contains sub s \<longleftrightarrow> list_ex (\<lambda>i. take (length sub) (drop i s) = sub) [0..<Suc (length s)]"

definition to_ascii_lowercase :: "string \<Rightarrow> string" where
  "to_ascii_lowercase s = map to_ascii_lower s"

definition volume_key_candidate :: "string \<Rightarrow> bool" where
  "volume_key_candidate k =
     (let key_lc = to_ascii_lowercase k in
      if \<not> str_contains ''volume'' key_lc then False else \<not> str_contains ''capab'' key_lc)"

fun first_some :: "('a \<Rightarrow> 'b option) \<Rightarrow> 'a list \<Rightarrow> 'b option" where
  "first_some f [] = None"
| "first_some f (x # xs) = (case f x of Some v \<Rightarrow> Some v | None \<Rightarrow> first_some f xs)"

lemma first_some_cong [fundef_cong]:
  "xs = ys \<Longrightarrow> (\<And>x. x \<in> set ys \<Longrightarrow> f x = g x) \<Longrightarrow> first_some f xs = first_some g ys"
  by (induction ys arbitrary: xs) (auto split: option.splits)

definition VOLUME_CONTAINERS :: "string list" where
  "VOLUME_CONTAINERS = [''params'', ''value'', ''args'', ''arguments'', ''command'', ''commandParams'']"

function find_volume_scalar :: "plist \<Rightarrow> f64 option" where
  "find_volume_scalar (PDict d) =
     (case first_some (\<lambda>(k, entry). if volume_key_candidate k then plist_number entry else None) d of
        Some v \<Rightarrow> Some v
      | None \<Rightarrow>
          first_some (\<lambda>k. case dict_get d k of None \<Rightarrow> None | Some entry \<Rightarrow> find_volume_scalar entry)
            VOLUME_CONTAINERS)"
| "find_volume_scalar (PArray items) = first_some find_volume_scalar items"
| "find_volume_scalar (PBool b) = None"
| "find_volume_scalar (PData x) = None"
| "find_volume_scalar (PReal r) = None"
| "find_volume_scalar (PInt i) = None"
| "find_volume_scalar (PString s) = None"
| "find_volume_scalar POther = None"
  by pat_completeness auto
termination
  by (relation "measure size") (auto dest: dict_get_size simp: less_Suc_eq_le size_list_estimation')

definition command_mentions_volume :: "plist_dict \<Rightarrow> bool" where
  "command_mentions_volume d =
     (let type_mentions_volume =
            unwrap_or False (map_option (\<lambda>s. str_contains ''volume'' (to_ascii_lowercase s)) (get_as as_string d ''type''))
      in if type_mentions_volume then True
         else unwrap_or False (map_option (\<lambda>s. str_contains ''volume'' (to_ascii_lowercase s))
                (Option.bind (get_as as_dictionary d ''params'') (\<lambda>p. get_as as_string p ''command''))))"

definition clamp_db :: "rat \<Rightarrow> rat" where
  "clamp_db x = (if x < - 144 then - 144 else if x > 0 then 0 else x)"

text \<open>\<open>20.0 * x.log10()\<close>, clamped and narrowed.\<close>

definition amplitude_db :: "(rat \<Rightarrow> rat) \<Rightarrow> rat \<Rightarrow> rat" where
  "amplitude_db log10 x = round_f32 (clamp_db (round_f64 (20 * log10 x)))"

definition scalar_db :: "(rat \<Rightarrow> rat) \<Rightarrow> f64 \<Rightarrow> rat option" where
  "scalar_db log10 s =
     (case s of
        NotFinite \<Rightarrow> None
      | Finite x \<Rightarrow>
          if - 144 \<le> x \<and> x \<le> 0 then Some (round_f32 x)
          else if 0 \<le> x \<and> x \<le> 1 then (if x \<le> 0 then Some (- 144) else Some (amplitude_db log10 x))
          else if 0 \<le> x \<and> x \<le> 100 then
            (let linear = round_f64 (x / 100) in
             if linear \<le> 0 then Some (- 144) else Some (amplitude_db log10 linear))
          else None)"

definition ap2_command_volume_db :: "(rat \<Rightarrow> rat) \<Rightarrow> plist_dict \<Rightarrow> rat option" where
  "ap2_command_volume_db log10 d =
     (let cmd_type = to_ascii_lowercase (unwrap_or ''unknown'' (get_as as_string d ''type'')) in
      if cmd_type = ''updatemrsupportedcommands'' then None
      else
        let mentions_volume = command_mentions_volume d in
        if \<not> mentions_volume \<and> (cmd_type = ''unknown'' \<or> take 6 cmd_type = ''update'') then None
        else
          (case find_volume_scalar (PDict d) of
             None \<Rightarrow> None
           | Some scalar \<Rightarrow> scalar_db log10 scalar))"

section \<open>Range\<close>

lemma round_f32_db:
  assumes "- 144 \<le> x" "x \<le> 0"
  shows "- 144 \<le> round_f32 x \<and> round_f32 x \<le> 0"
proof -
  have "\<bar>x\<bar> < 2 ^ 8" using assms by simp
  with round_binary_between [of "- 144" x 0 8 24 "- 149"] assms show ?thesis by (simp add: round_f32_def)
qed

lemma amplitude_db_range: "- 144 \<le> amplitude_db log10 x \<and> amplitude_db log10 x \<le> 0"
  unfolding amplitude_db_def by (rule round_f32_db) (simp_all add: clamp_db_def)

lemma scalar_db_range: "scalar_db log10 s = Some v \<Longrightarrow> - 144 \<le> v \<and> v \<le> 0"
  using round_f32_db amplitude_db_range
  by (auto simp: scalar_db_def Let_def split: f64.splits if_splits)

section \<open>Search\<close>

text \<open>Where a live volume may stand in a command: under a key that names a volume and no
  capability, at the top or inside the containers commands use.\<close>

inductive volume_entry :: "plist \<Rightarrow> f64 \<Rightarrow> bool" where
  here: "(k, e) \<in> set d \<Longrightarrow> volume_key_candidate k \<Longrightarrow> plist_number e = Some v \<Longrightarrow> volume_entry (PDict d) v"
| inside: "dict_get d k = Some e \<Longrightarrow> k \<in> set VOLUME_CONTAINERS \<Longrightarrow> volume_entry e v \<Longrightarrow> volume_entry (PDict d) v"
| item: "e \<in> set items \<Longrightarrow> volume_entry e v \<Longrightarrow> volume_entry (PArray items) v"

inductive_cases volume_entryE: "volume_entry (PDict d) v" "volume_entry (PArray items) v"

lemma first_some_Some: "first_some f xs = Some v \<Longrightarrow> \<exists>x \<in> set xs. f x = Some v"
  by (induction xs) (auto split: option.splits)

lemma first_some_None: "first_some f xs = None \<longleftrightarrow> (\<forall>x \<in> set xs. f x = None)"
  by (induction xs) (auto split: option.splits)

lemma find_volume_sound: "find_volume_scalar p = Some v \<Longrightarrow> volume_entry p v"
proof (induction p arbitrary: v rule: find_volume_scalar.induct)
  case (1 d)
  show ?case
  proof (cases "first_some (\<lambda>(k, entry). if volume_key_candidate k then plist_number entry else None) d")
    case (Some w)
    with "1.prems" show ?thesis
      by (auto dest!: first_some_Some intro: volume_entry.here split: if_splits)
  next
    case None
    with "1.prems" obtain k where k: "k \<in> set VOLUME_CONTAINERS"
      "(case dict_get d k of None \<Rightarrow> None | Some entry \<Rightarrow> find_volume_scalar entry) = Some v"
      by (auto dest: first_some_Some)
    then obtain e where e: "dict_get d k = Some e" "find_volume_scalar e = Some v" by (auto split: option.splits)
    from volume_entry.inside [OF e(1) k(1) "1.IH" [OF None k(1) e]] show ?thesis .
  qed
next
  case (2 items)
  then show ?case by (auto dest!: first_some_Some intro: volume_entry.item)
qed simp_all

lemma find_volume_complete: "volume_entry p v \<Longrightarrow> find_volume_scalar p \<noteq> None"
proof (induction rule: volume_entry.induct)
  case (here k e d v)
  then have "first_some (\<lambda>(k, entry). if volume_key_candidate k then plist_number entry else None) d \<noteq> None"
    unfolding first_some_None by (intro notI) (drule (1) bspec, simp)
  then show ?case by auto
next
  case (inside d k e v)
  then have "first_some (\<lambda>k. case dict_get d k of None \<Rightarrow> None | Some entry \<Rightarrow> find_volume_scalar entry)
      VOLUME_CONTAINERS \<noteq> None"
    unfolding first_some_None by force
  then show ?case by (auto split: option.split)
next
  case (item e items v)
  then show ?case by (auto simp: first_some_None)
qed

text \<open>
  C34: Whatever property list a \<open>POST /command\<close> carries, a volume reported to the application
  lies between -144 and 0 decibel and stems from a number the command has under a key that names
  a volume; and a command in whose containers there is no such number reports nothing.
\<close>

theorem command_volume_in_range:
  "(case ap2_command_volume_db log10 d of
      Some v \<Rightarrow> - 144 \<le> v \<and> v \<le> 0 \<and> (\<exists>s. volume_entry (PDict d) (Finite s) \<and> scalar_db log10 (Finite s) = Some v)
    | None \<Rightarrow> True)
   \<and> (find_volume_scalar (PDict d) = None \<longleftrightarrow> (\<nexists>v. volume_entry (PDict d) v))"
proof
  show "find_volume_scalar (PDict d) = None \<longleftrightarrow> (\<nexists>v. volume_entry (PDict d) v)"
    using find_volume_sound find_volume_complete by (metis not_None_eq)
  show "case ap2_command_volume_db log10 d of
      Some v \<Rightarrow> - 144 \<le> v \<and> v \<le> 0 \<and> (\<exists>s. volume_entry (PDict d) (Finite s) \<and> scalar_db log10 (Finite s) = Some v)
    | None \<Rightarrow> True"
  proof (cases "ap2_command_volume_db log10 d")
    case (Some v)
    then obtain s where s: "find_volume_scalar (PDict d) = Some s" "scalar_db log10 s = Some v"
      by (auto simp: ap2_command_volume_db_def Let_def simp del: find_volume_scalar.simps split: if_splits option.splits)
    then have "s \<noteq> NotFinite" by (auto simp: scalar_db_def)
    then obtain x where x: "s = Finite x" by (cases s) auto
    from find_volume_sound [OF s(1)] s(2) scalar_db_range [OF s(2)] show ?thesis unfolding Some x by auto
  qed simp
qed

text \<open>An amplitude or percentage of zero, which the later branches take for mute, is taken for a
  value in decibel and reported as full volume.\<close>

lemma zero_volume_is_full:
  "ap2_command_volume_db log10 [(''type'', PString ''setVolume''), (''volume'', PReal (Finite 0))] = Some 0"
  by (simp add: ap2_command_volume_db_def command_mentions_volume_def get_as_def dict_get_def unwrap_or_def
      to_ascii_lowercase_def to_ascii_lower_def Let_def char_of_def str_contains_def volume_key_candidate_def plist_number_def
      scalar_db_def round_f32_def round_binary_def upt_rec of_char_def)

end
