(* ===== verification/Advertisement.thy ===== *)
theory Advertisement
  imports Digest Errors "HOL-Library.Word"
begin

text \<open>
  What the receiver tells the network about itself: feature flags (src/net/features.rs),
  capability lists and status flags (src/raop/config.rs, src/raop/types.rs), hardware address
  formatting (src/util/mod.rs) and the TXT records of the two mDNS services (src/net/mdns.rs),
  in the build with AirPlay 2 and without video. Registering them is part of
  Server_Builder.
\<close>

unbundle bit_operations_syntax

section \<open>Hexadecimal output\<close>

definition hex_digit_upper :: "nat \<Rightarrow> char" where
  "hex_digit_upper n = (if n < 10 then char_of (n + 48) else char_of (n + 55))"

definition hwaddr_raop :: "bytes \<Rightarrow> string" where
  "hwaddr_raop hw = concat (map (\<lambda>b. [hex_digit_upper (unat b div 16), hex_digit_upper (unat b mod 16)]) hw)"

definition hex2 :: "byte \<Rightarrow> string" where
  "hex2 b = [hex_digit (unat b div 16), hex_digit (unat b mod 16)]"

fun hwaddr_airplay :: "bytes \<Rightarrow> string" where
  "hwaddr_airplay [] = []"
| "hwaddr_airplay [b] = hex2 b"
| "hwaddr_airplay (b # bs) = hex2 b @ '':'' @ hwaddr_airplay bs"

fun hex_digits :: "(nat \<Rightarrow> char) \<Rightarrow> nat \<Rightarrow> string" where
  "hex_digits dg n = (if n < 16 then [dg n] else hex_digits dg (n div 16) @ [dg (n mod 16)])"

declare hex_digits.simps [simp del]

definition show_hex_upper :: "nat \<Rightarrow> string" where
  "show_hex_upper n = ''0x'' @ hex_digits hex_digit_upper n"

definition show_hex_lower :: "nat \<Rightarrow> string" where
  "show_hex_lower n = ''0x'' @ hex_digits hex_digit n"

section \<open>Feature flags\<close>

datatype airplay_feature =
    SupportsAirPlayVideoV1 | SupportsAirPlayPhoto | SupportsAirPlayVideoFairPlay | SupportsAirPlaySlideshow
  | SupportsAirPlayVideoVolumeControl | SupportsAirPlayScreen | SupportsAirPlayAudio | AudioRedundant
  | Authentication4 | MetadataArtwork | MetadataProgress | MetadataNowPlayingDaap
  | AudioFormats0 | AudioFormats1 | AudioFormats2 | AudioFormats3 | AudioFormats4 | Authentication1
  | Authentication8Mfi | SupportsLegacyPairing | HasUnifiedAdvertiserInfo | SupportsVolume
  | SupportsAirPlayVideoPlayQueue | SupportsAirPlayFromCloud | SupportsTlsPsk | SupportsUnifiedMediaControl
  | SupportsBufferedAudio | SupportsPtp | SupportsScreenMultiCodec | SupportsSystemPairing
  | IsApValeriaScreenSender | SupportsHkPairingAndAccessControl | SupportsTransientPairing
  | SupportsCoreUtilsPairingAndEncryption | SupportsAirPlayVideoV2 | MetadataNowPlayingBplist
  | SupportsUnifiedPairSetupAndMfi | SupportsSetPeersExtendedMessage | SupportsApSync | SupportsWoL55
  | SupportsWoL56 | SupportsHangdogRemoteControl | SupportsAudioStreamConnectionSetup
  | SupportsAudioMediaDataControl | SupportsRfc2198Redundancy

fun feature_bit :: "airplay_feature \<Rightarrow> nat" where
  "feature_bit SupportsAirPlayVideoV1 = 0"
| "feature_bit SupportsAirPlayPhoto = 1"
| "feature_bit SupportsAirPlayVideoFairPlay = 2"
| "feature_bit SupportsAirPlaySlideshow = 5"
| "feature_bit SupportsAirPlayVideoVolumeControl = 6"
| "feature_bit SupportsAirPlayScreen = 7"
| "feature_bit SupportsAirPlayAudio = 9"
| "feature_bit AudioRedundant = 11"
| "feature_bit Authentication4 = 14"
| "feature_bit MetadataArtwork = 15"
| "feature_bit MetadataProgress = 16"
| "feature_bit MetadataNowPlayingDaap = 17"
| "feature_bit AudioFormats0 = 18"
| "feature_bit AudioFormats1 = 19"
| "feature_bit AudioFormats2 = 20"
| "feature_bit AudioFormats3 = 21"
| "feature_bit AudioFormats4 = 22"
| "feature_bit Authentication1 = 23"
| "feature_bit Authentication8Mfi = 26"
| "feature_bit SupportsLegacyPairing = 27"
| "feature_bit HasUnifiedAdvertiserInfo = 30"
| "feature_bit SupportsVolume = 32"
| "feature_bit SupportsAirPlayVideoPlayQueue = 33"
| "feature_bit SupportsAirPlayFromCloud = 34"
| "feature_bit SupportsTlsPsk = 35"
| "feature_bit SupportsUnifiedMediaControl = 38"
| "feature_bit SupportsBufferedAudio = 40"
| "feature_bit SupportsPtp = 41"
| "feature_bit SupportsScreenMultiCodec = 42"
| "feature_bit SupportsSystemPairing = 43"
| "feature_bit IsApValeriaScreenSender = 44"
| "feature_bit SupportsHkPairingAndAccessControl = 46"
| "feature_bit SupportsTransientPairing = 47"
| "feature_bit SupportsCoreUtilsPairingAndEncryption = 48"
| "feature_bit SupportsAirPlayVideoV2 = 49"
| "feature_bit MetadataNowPlayingBplist = 50"
| "feature_bit SupportsUnifiedPairSetupAndMfi = 51"
| "feature_bit SupportsSetPeersExtendedMessage = 52"
| "feature_bit SupportsApSync = 54"
| "feature_bit SupportsWoL55 = 55"
| "feature_bit SupportsWoL56 = 56"
| "feature_bit SupportsHangdogRemoteControl = 58"
| "feature_bit SupportsAudioStreamConnectionSetup = 59"
| "feature_bit SupportsAudioMediaDataControl = 60"
| "feature_bit SupportsRfc2198Redundancy = 61"

definition features_from :: "airplay_feature list \<Rightarrow> u64" where
  "features_from flags = foldl (\<lambda>val f. val OR push_bit (feature_bit f) 1) 0 flags"

definition RECEIVER_FEATURES :: "airplay_feature list" where
  "RECEIVER_FEATURES =
    [SupportsAirPlayAudio, AudioRedundant, Authentication4, MetadataProgress, AudioFormats0, AudioFormats1,
     HasUnifiedAdvertiserInfo, SupportsUnifiedMediaControl, SupportsBufferedAudio, SupportsPtp,
     SupportsHkPairingAndAccessControl, SupportsCoreUtilsPairingAndEncryption, AudioFormats2, AudioFormats4,
     SupportsTransientPairing]"

definition receiver_features_for_pairing :: "bool \<Rightarrow> u64" where
  "receiver_features_for_pairing requires_pin_pairing =
     (let features = features_from RECEIVER_FEATURES in
      if requires_pin_pairing then features AND NOT (push_bit (feature_bit SupportsTransientPairing) 1)
      else features)"

definition receiver_features :: u64 where
  "receiver_features = receiver_features_for_pairing False"

section \<open>Status flags\<close>

definition AP2_STATUS_AUDIO_ATTACHED :: u32 where "AP2_STATUS_AUDIO_ATTACHED = push_bit 2 1"
definition AP2_STATUS_ONE_TIME_PAIRING_REQUIRED :: u32 where "AP2_STATUS_ONE_TIME_PAIRING_REQUIRED = push_bit 9 1"
definition AP2_STATUS_DEVICE_SETUP_FOR_HK_ACCESS_CONTROL :: u32 where
  "AP2_STATUS_DEVICE_SETUP_FOR_HK_ACCESS_CONTROL = push_bit 10 1"

definition ap2_status_flags :: "bool \<Rightarrow> bool \<Rightarrow> u32" where
  "ap2_status_flags requires_pin_pairing already_paired =
     (if requires_pin_pairing
      then (let flags = AP2_STATUS_AUDIO_ATTACHED OR AP2_STATUS_ONE_TIME_PAIRING_REQUIRED in
            if already_paired then flags OR AP2_STATUS_DEVICE_SETUP_FOR_HK_ACCESS_CONTROL else flags)
      else AP2_STATUS_AUDIO_ATTACHED)"

section \<open>AirPlay 1 capabilities\<close>

datatype ap1_codec = Ap1Pcm | Ap1Alac
datatype ap1_encryption = Ap1None | Ap1Rsa | Ap1FairPlay

fun codec_txt_value :: "ap1_codec \<Rightarrow> string" where
  "codec_txt_value Ap1Pcm = ''0''"
| "codec_txt_value Ap1Alac = ''1''"

fun encryption_txt_value :: "ap1_encryption \<Rightarrow> string" where
  "encryption_txt_value Ap1None = ''0''"
| "encryption_txt_value Ap1Rsa = ''1''"
| "encryption_txt_value Ap1FairPlay = ''3''"

definition AP1_DEFAULT_CODECS :: "ap1_codec list" where "AP1_DEFAULT_CODECS = [Ap1Pcm, Ap1Alac]"
definition AP1_DEFAULT_ENCRYPTION :: "ap1_encryption list" where "AP1_DEFAULT_ENCRYPTION = [Ap1None]"

definition configured_or_default :: "'a list option \<Rightarrow> 'a list \<Rightarrow> string \<Rightarrow> string \<Rightarrow> server_error + 'a list" where
  "configured_or_default configured dflt empty_error duplicate_error =
     (let values = (case configured of Some vs \<Rightarrow> vs | None \<Rightarrow> dflt) in
      if values = [] then Inl (InvalidConfiguration empty_error)
      else if list_ex (\<lambda>i. values ! i \<in> set (take i values)) [0..<length values]
      then Inl (InvalidConfiguration duplicate_error)
      else Inr values)"

definition encode_txt_values :: "('a \<Rightarrow> string) \<Rightarrow> 'a list \<Rightarrow> string" where
  "encode_txt_values encode values =
     foldl (\<lambda>res (i, v). (if i \<noteq> 0 then res @ '','' else res) @ encode v) [] (List.enumerate 0 values)"

record ap1_advertisement =
  codecs_txt :: string
  encryption_txt :: string

definition advertisement_try_new ::
  "ap1_codec list option \<Rightarrow> ap1_encryption list option \<Rightarrow> server_error + ap1_advertisement" where
  "advertisement_try_new codecs encryption =
     (case configured_or_default codecs AP1_DEFAULT_CODECS ''AP1 codec advertisement cannot be empty''
             ''AP1 codec advertisement contains duplicates'' of
        Inl e \<Rightarrow> Inl e
      | Inr cs \<Rightarrow>
          (case configured_or_default encryption AP1_DEFAULT_ENCRYPTION ''AP1 encryption advertisement cannot be empty''
                  ''AP1 encryption advertisement contains duplicates'' of
             Inl e \<Rightarrow> Inl e
           | Inr es \<Rightarrow>
               Inr \<lparr>codecs_txt = encode_txt_values codec_txt_value cs,
                    encryption_txt = encode_txt_values encryption_txt_value es\<rparr>))"

definition advertisement_default :: ap1_advertisement where
  "advertisement_default =
     \<lparr>codecs_txt = encode_txt_values codec_txt_value AP1_DEFAULT_CODECS,
      encryption_txt = encode_txt_values encryption_txt_value AP1_DEFAULT_ENCRYPTION\<rparr>"

section \<open>Services\<close>

definition GLOBAL_MODEL :: string where "GLOBAL_MODEL = ''AppleTV2,1''"
definition GLOBAL_FEATURES :: nat where "GLOBAL_FEATURES = 7"
definition GLOBAL_VERSION :: string where "GLOBAL_VERSION = ''130.14''"
definition AP2_PROTOVERS :: string where "AP2_PROTOVERS = ''1.1''"
definition AP2_SRCVERS :: string where "AP2_SRCVERS = ''366.0''"

record airplay_service_info =
  raop_name :: string
  airplay_name :: string
  si_port :: u16
  raop_txt :: "(string \<times> string) list"
  airplay_txt :: "(string \<times> string) list"

definition show_bool :: "bool \<Rightarrow> string" where
  "show_bool b = (if b then ''true'' else ''false'')"

definition new_with_ap1_advertisement ::
  "string \<Rightarrow> u16 \<Rightarrow> bytes \<Rightarrow> bool \<Rightarrow> ap1_advertisement \<Rightarrow> airplay_service_info" where
  "new_with_ap1_advertisement name port hw password adv =
     \<lparr>raop_name = hwaddr_raop hw @ ''@'' @ name, airplay_name = name, si_port = port,
      raop_txt =
        [(''txtvers'', ''1''), (''ch'', ''2''), (''cn'', codecs_txt adv), (''et'', encryption_txt adv),
         (''sv'', ''false''), (''da'', ''true''), (''sr'', ''44100''), (''ss'', ''16''),
         (''pw'', show_bool password), (''vn'', ''3''), (''tp'', ''TCP,UDP''), (''md'', ''0,1,2''),
         (''vs'', GLOBAL_VERSION), (''sm'', ''false''), (''ek'', ''1'')],
      airplay_txt =
        [(''deviceid'', hwaddr_airplay hw), (''features'', show_hex_lower GLOBAL_FEATURES), (''model'', GLOBAL_MODEL)]\<rparr>"

definition service_new :: "string \<Rightarrow> u16 \<Rightarrow> bytes \<Rightarrow> bool \<Rightarrow> airplay_service_info" where
  "service_new name port hw password = new_with_ap1_advertisement name port hw password advertisement_default"

definition features_txt :: "u64 \<Rightarrow> string" where
  "features_txt features =
     show_hex_upper (unat (features AND 0xFFFFFFFF)) @ '','' @ show_hex_upper (unat (drop_bit 32 features AND 0xFFFFFFFF))"

definition new_airplay2 ::
  "string \<Rightarrow> u16 \<Rightarrow> bytes \<Rightarrow> bool \<Rightarrow> string \<Rightarrow> string \<Rightarrow> bool \<Rightarrow> bool \<Rightarrow> airplay_service_info" where
  "new_airplay2 name port hw password pk_hex pi requires_pin_pairing already_paired =
     (let ft = features_txt (receiver_features_for_pairing requires_pin_pairing);
          sf = show_hex_upper (unat (ap2_status_flags requires_pin_pairing already_paired))
      in \<lparr>raop_name = hwaddr_raop hw @ ''@'' @ name, airplay_name = name, si_port = port,
          raop_txt =
            [(''cn'', ''0,1''), (''da'', ''true''), (''et'', ''0,3,5''), (''pw'', show_bool password), (''ft'', ft),
             (''fv'', ''77.40.00''), (''sf'', sf), (''md'', ''0,1,2''), (''am'', GLOBAL_MODEL), (''pk'', pk_hex),
             (''tp'', ''TCP,UDP''), (''vn'', ''65537''), (''vs'', AP2_SRCVERS), (''ov'', ''15.6'')],
          airplay_txt =
            [(''acl'', ''0''), (''btaddr'', ''00:00:00:00:00:00''), (''deviceid'', hwaddr_airplay hw), (''features'', ft),
             (''flags'', sf), (''gid'', pi), (''igl'', ''0''), (''gcgl'', ''0''), (''model'', GLOBAL_MODEL),
             (''protovers'', AP2_PROTOVERS), (''pi'', pi), (''pk'', pk_hex), (''srcvers'', AP2_SRCVERS),
             (''osvers'', ''15.6''), (''vv'', ''2''), (''fv'', ''77.40.00'')]\<rparr>)"

text \<open>The records as they are registered; a later pair of the same name would win.\<close>

definition txt_map :: "(string \<times> string) list \<Rightarrow> string \<rightharpoonup> string" where
  "txt_map txt = map_of (rev txt)"

section \<open>What a reader of the records learns\<close>

definition hex_value1 :: "char \<Rightarrow> nat" where
  "hex_value1 c = (let n = of_char c in if n < 58 then n - 48 else if n < 91 then n - 55 else n - 87)"

definition hex_value :: "string \<Rightarrow> nat" where
  "hex_value s = foldl (\<lambda>acc c. 16 * acc + hex_value1 c) 0 s"

lemma hex_value_snoc [simp]: "hex_value (s @ [c]) = 16 * hex_value s + hex_value1 c"
  by (simp add: hex_value_def)

lemma hex_value1_digit [simp]:
  "n < 16 \<Longrightarrow> hex_value1 (hex_digit_upper n) = n" "n < 16 \<Longrightarrow> hex_value1 (hex_digit n) = n"
  by (simp_all add: hex_value1_def hex_digit_upper_def hex_digit_def Let_def of_char_of)

lemma hex_value_digits [simp]:
  "hex_value (hex_digits hex_digit_upper n) = n"
proof (induction hex_digit_upper n rule: hex_digits.induct)
  case (1 n)
  show ?case
  proof (cases "n < 16")
    case True
    then show ?thesis using hex_value_snoc [of "[]"] by (simp add: hex_digits.simps [of _ n] hex_value_def)
  next
    case False
    with 1 show ?thesis by (simp add: hex_digits.simps [of _ n])
  qed
qed

lemma set_hex_digits: "set (hex_digits dg n) \<subseteq> dg ` {..<16}"
proof (induction dg n rule: hex_digits.induct)
  case (1 dg n)
  have "dg (n mod 16) \<in> dg ` {..<16}" by simp
  with 1 show ?case by (cases "n < 16") (simp_all add: hex_digits.simps [of dg n])
qed

lemma show_hex_upper_sep: "CHR '','' \<notin> set (show_hex_upper n)"
proof -
  have "hex_digit_upper k \<noteq> CHR '',''" if "k < 16" for k
  proof
    assume "hex_digit_upper k = CHR '',''"
    then have "(of_char (hex_digit_upper k) :: nat) = 44" by simp
    with that show False by (auto simp: hex_digit_upper_def of_char_of split: if_splits)
  qed
  then have "CHR '','' \<notin> hex_digit_upper ` {..<16}" by (metis imageE lessThan_iff)
  with set_hex_digits [of hex_digit_upper n] have "CHR '','' \<notin> set (hex_digits hex_digit_upper n)" by blast
  then show ?thesis by (simp add: show_hex_upper_def)
qed

lemma features_txt_reads:
  "split_on (CHR '','') (features_txt w)
     = [show_hex_upper (unat (w AND 0xFFFFFFFF)), show_hex_upper (unat (drop_bit 32 w AND 0xFFFFFFFF))]"
  by (simp add: features_txt_def split_on_append [OF show_hex_upper_sep] split_on_no_sep [OF show_hex_upper_sep])

lemma bit_one_hot: "bit (push_bit m 1 :: u64) n \<longleftrightarrow> n < 64 \<and> m = n"
  by (auto simp: bit_exp_iff)

lemma bit_features_from: "bit (features_from fs) n \<longleftrightarrow> n < 64 \<and> n \<in> feature_bit ` set fs"
proof -
  have "bit (foldl (\<lambda>val f. val OR push_bit (feature_bit f) 1) (a :: u64) fs) n
      \<longleftrightarrow> bit a n \<or> (n < 64 \<and> n \<in> feature_bit ` set fs)" for a
  proof (induction fs arbitrary: a)
    case Nil
    then show ?case by simp
  next
    case (Cons f fs)
    have "bit (a OR push_bit (feature_bit f) 1) n \<longleftrightarrow> bit a n \<or> (n < 64 \<and> feature_bit f = n)"
      by (simp only: bit_or_iff bit_one_hot)
    then show ?case unfolding foldl_Cons Cons.IH by auto
  qed
  then show ?thesis by (simp add: features_from_def)
qed

lemma feature_bit_less: "feature_bit f < 64"
  by (cases f) simp_all

lemma receiver_bits:
  "bit (receiver_features_for_pairing pin) (feature_bit f)
     \<longleftrightarrow> f \<in> set RECEIVER_FEATURES \<and> \<not> (pin \<and> f = SupportsTransientPairing)"
proof -
  have a: "feature_bit f \<in> feature_bit ` set RECEIVER_FEATURES \<longleftrightarrow> f \<in> set RECEIVER_FEATURES"
    by (cases f) (simp_all add: RECEIVER_FEATURES_def)
  have b: "feature_bit SupportsTransientPairing = feature_bit f \<longleftrightarrow> f = SupportsTransientPairing"
    by (cases f) simp_all
  show ?thesis
    using b feature_bit_less [of f]
    by (auto simp: receiver_features_for_pairing_def Let_def bit_and_iff bit_not_iff bit_features_from bit_one_hot a
        simp del: feature_bit.simps push_bit_of_1)
qed

lemma features_halves: "unat (w AND 0xFFFFFFFF) + 2 ^ 32 * unat (drop_bit 32 w AND 0xFFFFFFFF) = unat (w :: u64)"
proof -
  have m: "unat (v AND 0xFFFFFFFF) = unat v mod 2 ^ 32" for v :: u64
  proof -
    have "v AND 0xFFFFFFFF = take_bit 32 v" by (simp add: take_bit_eq_mask mask_eq_exp_minus_1)
    then show ?thesis by (simp only: unsigned_take_bit_eq) (simp add: take_bit_eq_mod)
  qed
  have "unat w < 2 ^ LENGTH(64)" by (rule unsigned_less)
  then have "unat w div 2 ^ 32 < 2 ^ 32" by (simp add: less_mult_imp_div_less)
  then show ?thesis unfolding m by (simp add: drop_bit_eq_div unat_div_distrib)
qed

text \<open>
  The two services of an AirPlay 2 receiver announce the same feature word, a reader of the
  two hexadecimal halves recovers it, and its bits are exactly the features of the audio profile,
  transient pairing left out when a PIN is required; the word without a PIN is
  \<open>0x0001C340405D4A00\<close>. The status flags are 0x4 without a PIN, 0x204 with one and 0x604 once
  a controller is paired.
\<close>

theorem advertised_features:
  "\<exists>lo hi. txt_map (raop_txt (new_airplay2 name port hw pw pk pi pin paired)) ''ft'' = Some (lo @ '','' @ hi)
     \<and> txt_map (airplay_txt (new_airplay2 name port hw pw pk pi pin paired)) ''features'' = Some (lo @ '','' @ hi)
     \<and> hex_value (drop 2 lo) + 2 ^ 32 * hex_value (drop 2 hi) = unat (receiver_features_for_pairing pin)
     \<and> (\<forall>f. bit (receiver_features_for_pairing pin) (feature_bit f)
              \<longleftrightarrow> f \<in> set RECEIVER_FEATURES \<and> \<not> (pin \<and> f = SupportsTransientPairing))
     \<and> receiver_features = 0x0001C340405D4A00
     \<and> txt_map (raop_txt (new_airplay2 name port hw pw pk pi pin paired)) ''sf''
         = Some (if pin then if paired then ''0x604'' else ''0x204'' else ''0x4'')
     \<and> txt_map (airplay_txt (new_airplay2 name port hw pw pk pi pin paired)) ''flags''
         = txt_map (raop_txt (new_airplay2 name port hw pw pk pi pin paired)) ''sf''"
proof -
  let ?w = "receiver_features_for_pairing pin"
  let ?lo = "show_hex_upper (unat (?w AND 0xFFFFFFFF))" and ?hi = "show_hex_upper (unat (drop_bit 32 ?w AND 0xFFFFFFFF))"
  have r: "receiver_features = 0x0001C340405D4A00"
    by (simp add: receiver_features_def receiver_features_for_pairing_def features_from_def RECEIVER_FEATURES_def)
  have s: "show_hex_upper (unat (ap2_status_flags pin paired)) = (if pin then if paired then ''0x604'' else ''0x204'' else ''0x4'')"
    by (simp add: ap2_status_flags_def AP2_STATUS_AUDIO_ATTACHED_def AP2_STATUS_ONE_TIME_PAIRING_REQUIRED_def
        AP2_STATUS_DEVICE_SETUP_FOR_HK_ACCESS_CONTROL_def show_hex_upper_def hex_digits.simps hex_digit_upper_def char_of_def
        Let_def bit_Suc_0_iff)
  have h: "hex_value (drop 2 ?lo) + 2 ^ 32 * hex_value (drop 2 ?hi) = unat ?w"
    using features_halves [of ?w] by (simp add: show_hex_upper_def)
  show ?thesis
    by (rule exI [of _ ?lo], rule exI [of _ ?hi])
       (use h r receiver_bits [of pin] in \<open>simp add: new_airplay2_def txt_map_def features_txt_def s Let_def\<close>)
qed

lemma encode_txt_snoc:
  "encode_txt_values enc (vs @ [v]) = (if vs = [] then [] else encode_txt_values enc vs @ '','') @ enc v"
  by (simp add: encode_txt_values_def enumerate_append_eq)

lemma split_on_snoc: "c \<notin> set b \<Longrightarrow> split_on c (a @ c # b) = split_on c a @ [b]"
  by (induction a) (auto simp: split_on_no_sep split: list.splits)

lemma encode_txt_reads:
  "vs \<noteq> [] \<Longrightarrow> (\<And>v. CHR '','' \<notin> set (enc v)) \<Longrightarrow> split_on (CHR '','') (encode_txt_values enc vs) = map enc vs"
proof (induction vs rule: rev_induct)
  case Nil
  then show ?case by simp
next
  case (snoc v vs)
  then show ?case
    by (cases "vs = []") (use encode_txt_snoc [of enc vs v] in \<open>simp_all add: split_on_no_sep split_on_snoc\<close>)
qed

lemma duplicate_index: "list_ex (\<lambda>i. vs ! i \<in> set (take i vs)) [0..<length vs] \<longleftrightarrow> \<not> distinct vs"
proof (induction vs rule: rev_induct)
  case Nil
  then show ?case by simp
next
  case (snoc v vs)
  have "list_ex (\<lambda>i. (vs @ [v]) ! i \<in> set (take i (vs @ [v]))) [0..<length vs]
      = list_ex (\<lambda>i. vs ! i \<in> set (take i vs)) [0..<length vs]"
    by (auto simp: list_ex_iff nth_append)
  with snoc show ?case by (auto simp: nth_append)
qed

lemma configured_or_default_iff:
  "configured_or_default conf dflt e1 e2 = Inr vs
     \<longleftrightarrow> vs = (case conf of Some c \<Rightarrow> c | None \<Rightarrow> dflt) \<and> vs \<noteq> [] \<and> distinct vs"
  unfolding configured_or_default_def duplicate_index Let_def by auto

text \<open>
  An AirPlay 1 capability advertisement is accepted exactly when the configured lists, or the
  defaults in their place, are non-empty and free of duplicates, and then a reader that splits
  the two TXT values at the commas gets the configured capabilities in the configured order.
\<close>

theorem ap1_capabilities_advertised:
  "(case advertisement_try_new codecs encryption of
      Inr adv \<Rightarrow>
        (\<exists>cs es. cs = (case codecs of Some c \<Rightarrow> c | None \<Rightarrow> AP1_DEFAULT_CODECS)
           \<and> es = (case encryption of Some e \<Rightarrow> e | None \<Rightarrow> AP1_DEFAULT_ENCRYPTION)
           \<and> distinct cs \<and> distinct es \<and> cs \<noteq> [] \<and> es \<noteq> []
           \<and> split_on (CHR '','') (codecs_txt adv) = map codec_txt_value cs
           \<and> split_on (CHR '','') (encryption_txt adv) = map encryption_txt_value es)
    | Inl e \<Rightarrow> (\<exists>vs. codecs = Some vs \<and> (vs = [] \<or> length (remdups vs) < length vs))
        \<or> (\<exists>vs. encryption = Some vs \<and> (vs = [] \<or> length (remdups vs) < length vs)))"
proof -
  have c: "CHR '','' \<notin> set (codec_txt_value v)" for v by (cases v) simp_all
  have e: "CHR '','' \<notin> set (encryption_txt_value v)" for v by (cases v) simp_all
  have d: "length (remdups vs) < length vs \<longleftrightarrow> \<not> distinct vs" for vs :: "'a list"
    using length_remdups_leq [of vs] by (simp add: length_remdups_card_conv) (metis card_distinct distinct_card less_le)
  show ?thesis
  proof (cases "advertisement_try_new codecs encryption")
    case (Inr adv)
    then obtain cs es where
      "configured_or_default codecs AP1_DEFAULT_CODECS ''AP1 codec advertisement cannot be empty''
         ''AP1 codec advertisement contains duplicates'' = Inr cs"
      "configured_or_default encryption AP1_DEFAULT_ENCRYPTION ''AP1 encryption advertisement cannot be empty''
         ''AP1 encryption advertisement contains duplicates'' = Inr es"
      "adv = \<lparr>codecs_txt = encode_txt_values codec_txt_value cs, encryption_txt = encode_txt_values encryption_txt_value es\<rparr>"
      by (auto simp: advertisement_try_new_def split: sum.splits)
    then show ?thesis unfolding configured_or_default_iff Inr sum.case
      using encode_txt_reads [of cs codec_txt_value] encode_txt_reads [of es encryption_txt_value] c e
      by (intro exI [of _ cs] exI [of _ es]) auto
  next
    case (Inl err)
    have dflt: "distinct AP1_DEFAULT_CODECS" "AP1_DEFAULT_CODECS \<noteq> []" "distinct AP1_DEFAULT_ENCRYPTION" "AP1_DEFAULT_ENCRYPTION \<noteq> []"
      by (simp_all add: AP1_DEFAULT_CODECS_def AP1_DEFAULT_ENCRYPTION_def)
    from Inl have "\<not> (\<exists>cs. configured_or_default codecs AP1_DEFAULT_CODECS ''AP1 codec advertisement cannot be empty''
         ''AP1 codec advertisement contains duplicates'' = Inr cs)
      \<or> \<not> (\<exists>es. configured_or_default encryption AP1_DEFAULT_ENCRYPTION ''AP1 encryption advertisement cannot be empty''
         ''AP1 encryption advertisement contains duplicates'' = Inr es)"
      by (auto simp: advertisement_try_new_def split: sum.splits)
    then show ?thesis unfolding configured_or_default_iff d Inl
      by (cases codecs; cases encryption) (auto simp: dflt)
  qed
qed

lemma hwaddr_raop_reads: "hex_value1 (hwaddr_raop hw ! (2 * i)) * 16 + hex_value1 (hwaddr_raop hw ! (2 * i + 1)) = unat (hw ! i)"
  if "i < length hw"
  using that
proof (induction hw arbitrary: i)
  case (Cons b hw)
  have b: "unat b div 16 < 16" using unat_byte [of b] by simp
  show ?case using Cons b by (cases i) (simp_all add: hwaddr_raop_def)
qed simp

end
