(* ===== verification/Event_Channel.thy ===== *)
theory Event_Channel
  imports Encrypted_Connection
begin

text \<open>
  The AirPlay 2 event channel, src/raop/event\_channel.rs: one connected stream on which the
  receiver sends the messages queued for it and decrypts what the controller sends. Each turn of
  the loop takes whichever is ready, a read or a queued message, so any interleaving can occur.
\<close>

section \<open>Model\<close>

definition MAX_ENCRYPTED_EVENT_BUFFER_LEN :: nat where "MAX_ENCRYPTED_EVENT_BUFFER_LEN = 1024 * 1024"
definition EVENT_READ_LEN :: nat where "EVENT_READ_LEN = 4096"

text \<open>A turn: bytes read (none at the end of the stream), a failed read, or a queued message with
  whether writing it succeeds.\<close>

datatype event_turn =
    EvRead bytes
  | EvReadError
  | EvSend bytes bool

record event_channel =
  ev_channel :: encrypted_channel
  encrypted_buf :: bytes
  ev_written :: "bytes list"
  ev_received :: bytes
  ev_running :: bool

definition event_channel_new :: "encrypted_channel \<Rightarrow> event_channel" where
  "event_channel_new ch =
     \<lparr>ev_channel = ch, encrypted_buf = [], ev_written = [], ev_received = [], ev_running = True\<rparr>"

definition ev_read :: "transport_crypto \<Rightarrow> bytes \<Rightarrow> event_channel \<Rightarrow> event_channel" where
  "ev_read tc d s =
     (if d = [] then s\<lparr>ev_running := False\<rparr>
      else
        let buf = encrypted_buf s @ d in
        if length buf > MAX_ENCRYPTED_EVENT_BUFFER_LEN then s\<lparr>encrypted_buf := buf, ev_running := False\<rparr>
        else
          (case decrypt (tc_open tc) (decrypt_ctx (ev_channel s)) buf of
             (Inr (plain, consumed), ctx) \<Rightarrow>
               s\<lparr>ev_channel := (ev_channel s)\<lparr>decrypt_ctx := ctx\<rparr>, encrypted_buf := drop consumed buf,
                 ev_received := ev_received s @ plain\<rparr>
           | (Inl e, ctx) \<Rightarrow>
               s\<lparr>ev_channel := (ev_channel s)\<lparr>decrypt_ctx := ctx\<rparr>, encrypted_buf := buf, ev_running := False\<rparr>))"

definition ev_send :: "transport_crypto \<Rightarrow> bytes \<Rightarrow> bool \<Rightarrow> event_channel \<Rightarrow> event_channel" where
  "ev_send tc d written s =
     (case encrypt (tc_seal tc) (encrypt_ctx (ev_channel s)) d of
        (Inl e, ctx) \<Rightarrow> s\<lparr>ev_channel := (ev_channel s)\<lparr>encrypt_ctx := ctx\<rparr>, ev_running := False\<rparr>
      | (Inr w, ctx) \<Rightarrow>
          let s1 = s\<lparr>ev_channel := (ev_channel s)\<lparr>encrypt_ctx := ctx\<rparr>\<rparr> in
          if written then s1\<lparr>ev_written := ev_written s1 @ [w]\<rparr> else s1\<lparr>ev_running := False\<rparr>)"

fun ev_turn :: "transport_crypto \<Rightarrow> event_channel \<Rightarrow> event_turn \<Rightarrow> event_channel" where
  "ev_turn tc s (EvRead d) = ev_read tc d s"
| "ev_turn tc s EvReadError = s\<lparr>ev_running := False\<rparr>"
| "ev_turn tc s (EvSend d written) = ev_send tc d written s"

fun ev_handle :: "transport_crypto \<Rightarrow> event_channel \<Rightarrow> event_turn list \<Rightarrow> event_channel" where
  "ev_handle tc s [] = s"
| "ev_handle tc s (t # ts) = (if ev_running s then ev_handle tc (ev_turn tc s t) ts else s)"

section \<open>What arrives\<close>

fun sent_messages :: "event_turn list \<Rightarrow> bytes list" where
  "sent_messages [] = []"
| "sent_messages (EvSend d _ # ts) = d # sent_messages ts"
| "sent_messages (_ # ts) = sent_messages ts"

fun bytes_read :: "event_turn list \<Rightarrow> bytes list" where
  "bytes_read [] = []"
| "bytes_read (EvRead d # ts) = d # bytes_read ts"
| "bytes_read (_ # ts) = bytes_read ts"

text \<open>What decryption leaves over is less than one frame.\<close>

lemma decrypt_rest:
  assumes "decrypt aopen ctx buf = (Inr (p, n), ctx')"
  shows "length (drop n buf) \<le> 65552"
proof (rule ccontr)
  let ?r = "drop n buf" and ?bl = "unat (from_le_bytes (take 2 (drop n buf)) :: u16)"
  assume big: "\<not> ?thesis"
  have e: "decrypt_loop aopen ctx' [] 0 ?r = (Inr ([], 0), ctx')"
    using decrypt_append(2) [OF assms] by (simp add: decrypt_def)
  have bl: "?bl < 65536" using unsigned_less [of "from_le_bytes (take 2 ?r) :: u16"] by simp
  then have ge: "\<not> length ?r < 2" "\<not> 2 + ?bl + TAG_LEN > length ?r" using big by (simp_all add: TAG_LEN_def)
  obtain q c where "decrypt_loop aopen c q (2 + ?bl + TAG_LEN) (drop (2 + ?bl + TAG_LEN) ?r) = (Inr ([], 0), ctx')"
    using e ge by (subst (asm) decrypt_loop.simps) (auto simp: Let_def split: if_splits option.splits)
  from decrypt_loop_append [OF this] show False by simp
qed

abbreviation reader :: "event_channel \<Rightarrow> rx_state" where
  "reader s \<equiv> Live (decrypt_ctx (ev_channel s)) (encrypted_buf s) (ev_received s)"

lemma ev_read_step:
  assumes "length (encrypted_buf s) \<le> 65552" "length d \<le> EVENT_READ_LEN" "d \<noteq> []" "ev_running s"
  shows "length (encrypted_buf (ev_read tc d s)) \<le> 69648
    \<and> (if ev_running (ev_read tc d s)
       then rx_feed (tc_open tc) (reader s) d = reader (ev_read tc d s) \<and> length (encrypted_buf (ev_read tc d s)) \<le> 65552
       else rx_feed (tc_open tc) (reader s) d = Dropped)
    \<and> encrypt_ctx (ev_channel (ev_read tc d s)) = encrypt_ctx (ev_channel s) \<and> ev_written (ev_read tc d s) = ev_written s"
proof -
  have "\<not> length (encrypted_buf s @ d) > MAX_ENCRYPTED_EVENT_BUFFER_LEN" "length (encrypted_buf s @ d) \<le> 69648"
    using assms by (simp_all add: MAX_ENCRYPTED_EVENT_BUFFER_LEN_def EVENT_READ_LEN_def)
  then show ?thesis
    using assms decrypt_rest [of "tc_open tc" "decrypt_ctx (ev_channel s)" "encrypted_buf s @ d"]
    by (auto simp: ev_read_def Let_def split: prod.splits sum.splits)
qed

lemma ev_send_step:
  assumes "aead_ok (tc_seal tc) (tc_open tc)" "length (key (encrypt_ctx (ev_channel s))) = 32"
    and "unat (counter (encrypt_ctx (ev_channel s))) + length (chunks MAX_BLOCK_LEN d) < 2 ^ 64"
  obtains w where "ev_send tc d True s =
      s\<lparr>ev_channel := (ev_channel s)\<lparr>encrypt_ctx := encrypt_ctx (ev_channel (ev_send tc d True s))\<rparr>, ev_written := ev_written s @ [w]\<rparr>"
    "key (encrypt_ctx (ev_channel (ev_send tc d True s))) = key (encrypt_ctx (ev_channel s))"
    "unat (counter (encrypt_ctx (ev_channel (ev_send tc d True s))))
       = unat (counter (encrypt_ctx (ev_channel s))) + length (chunks MAX_BLOCK_LEN d)"
    "\<And>plain pos rest. decrypt_loop (tc_open tc) (encrypt_ctx (ev_channel s)) plain pos (w @ rest)
        = decrypt_loop (tc_open tc) (encrypt_ctx (ev_channel (ev_send tc d True s))) (plain @ d) (pos + length w) rest"
  using encrypt_ok [OF assms] by (auto simp: ev_send_def Let_def split: sum.splits)

definition ev_cause :: "transport_crypto \<Rightarrow> event_channel \<Rightarrow> event_turn list \<Rightarrow> bool" where
  "ev_cause tc s ts \<longleftrightarrow> EvRead [] \<in> set ts \<or> EvReadError \<in> set ts \<or> (\<exists>d. EvSend d False \<in> set ts)
     \<or> foldl (rx_feed (tc_open tc)) (reader s) (bytes_read ts) = Dropped"

lemma foldl_Dropped [simp]: "foldl (rx_feed aopen) Dropped ds = Dropped"
  by (induction ds) simp_all

text \<open>One run from any state between two turns.\<close>

definition ev_delivers :: "transport_crypto \<Rightarrow> event_channel \<Rightarrow> event_turn list \<Rightarrow> event_channel \<Rightarrow> bool" where
  "ev_delivers tc s ts s' \<longleftrightarrow>
     length (encrypted_buf s') \<le> 69648
     \<and> (if ev_running s'
        then foldl (rx_feed (tc_open tc)) (reader s) (bytes_read ts) = reader s'
          \<and> (\<exists>ws. ev_written s' = ev_written s @ ws
               \<and> (\<forall>plain pos rest. decrypt_loop (tc_open tc) (encrypt_ctx (ev_channel s)) plain pos (concat ws @ rest)
                     = decrypt_loop (tc_open tc) (encrypt_ctx (ev_channel s')) (plain @ concat (sent_messages ts))
                         (pos + length (concat ws)) rest))
        else ev_cause tc s ts)"

lemma ev_handle_delivers:
  assumes ok: "aead_ok (tc_seal tc) (tc_open tc)"
  shows "ev_running s \<Longrightarrow> length (encrypted_buf s) \<le> 65552 \<Longrightarrow> length (key (encrypt_ctx (ev_channel s))) = 32 \<Longrightarrow>
    unat (counter (encrypt_ctx (ev_channel s))) + block_count (sent_messages ts) < 2 ^ 64 \<Longrightarrow>
    (\<And>d. d \<in> set (bytes_read ts) \<Longrightarrow> length d \<le> EVENT_READ_LEN) \<Longrightarrow> ev_delivers tc s ts (ev_handle tc s ts)"
proof (induction ts arbitrary: s)
  case Nil
  then show ?case by (auto simp: ev_delivers_def)
next
  case (Cons t ts)
  have stop: "ev_delivers tc s (t # ts) (ev_handle tc s (t # ts))"
    if "\<not> ev_running (ev_turn tc s t)" "length (encrypted_buf (ev_turn tc s t)) \<le> 69648" "ev_cause tc s (t # ts)"
    using that Cons.prems(1) by (cases ts) (simp_all add: ev_delivers_def)
  show ?case
  proof (cases t)
    case (EvRead d)
    show ?thesis
    proof (cases "d = []")
      case True
      then show ?thesis using EvRead Cons.prems(2) by (intro stop) (simp_all add: ev_read_def ev_cause_def)
    next
      case False
      have d: "length d \<le> EVENT_READ_LEN" using Cons.prems(5) EvRead by simp
      note st = ev_read_step [OF Cons.prems(2) d False Cons.prems(1), of tc]
      show ?thesis
      proof (cases "ev_running (ev_read tc d s)")
        case True
        then have "ev_delivers tc (ev_read tc d s) ts (ev_handle tc (ev_read tc d s) ts)"
          using st Cons.prems EvRead by (intro Cons.IH) auto
        then show ?thesis using st True Cons.prems(1)
          by (auto simp: EvRead ev_delivers_def ev_cause_def)
      next
        case False
        with st EvRead show ?thesis by (intro stop) (simp_all add: ev_cause_def)
      qed
    qed
  next
    case EvReadError
    then show ?thesis using Cons.prems(2) by (intro stop) (simp_all add: ev_cause_def)
  next
    case (EvSend d wr)
    have room: "unat (counter (encrypt_ctx (ev_channel s))) + length (chunks MAX_BLOCK_LEN d) < 2 ^ 64"
      using Cons.prems(4) EvSend by simp
    from ev_send_step [OF ok Cons.prems(3) room] obtain w where w:
      "ev_send tc d True s =
        s\<lparr>ev_channel := (ev_channel s)\<lparr>encrypt_ctx := encrypt_ctx (ev_channel (ev_send tc d True s))\<rparr>, ev_written := ev_written s @ [w]\<rparr>"
      "key (encrypt_ctx (ev_channel (ev_send tc d True s))) = key (encrypt_ctx (ev_channel s))"
      "unat (counter (encrypt_ctx (ev_channel (ev_send tc d True s))))
         = unat (counter (encrypt_ctx (ev_channel s))) + length (chunks MAX_BLOCK_LEN d)"
      "\<And>plain pos rest. decrypt_loop (tc_open tc) (encrypt_ctx (ev_channel s)) plain pos (w @ rest)
          = decrypt_loop (tc_open tc) (encrypt_ctx (ev_channel (ev_send tc d True s))) (plain @ d) (pos + length w) rest"
      by blast
    show ?thesis
    proof (cases wr)
      case True
      let ?s = "ev_send tc d True s"
      have s: "ev_running ?s" "encrypted_buf ?s = encrypted_buf s" "ev_received ?s = ev_received s"
        "decrypt_ctx (ev_channel ?s) = decrypt_ctx (ev_channel s)" "ev_written ?s = ev_written s @ [w]"
        using Cons.prems(1) by (subst w(1), simp)+
      have "ev_delivers tc ?s ts (ev_handle tc ?s ts)"
        using s w(2,3) Cons.prems EvSend by (intro Cons.IH) auto
      then show ?thesis using s w(4) Cons.prems(1) True
        unfolding ev_delivers_def ev_cause_def EvSend by (auto simp: add.assoc)
    next
      case False
      have "ev_running (ev_turn tc s t) = False" "encrypted_buf (ev_turn tc s t) = encrypted_buf s"
        using False EvSend by (auto simp: ev_send_def Let_def split: sum.splits prod.splits)
      then show ?thesis using False EvSend Cons.prems(2) by (intro stop) (auto simp: ev_cause_def)
    qed
  qed
qed

text \<open>
  C24: The event channel works in both directions at once. However reads of at most 4096 bytes
  and queued messages interleave, it never keeps more than one frame and one read (so the limit
  of 1 MiB is never what ends it). While it runs, a controller that reads the written bytes in any
  pieces receives exactly the messages queued so far, in order, and what the channel received is
  what the framed stream decrypts to, whatever the reads were. It ends only when the stream ends
  or fails, a write fails, or the controller's bytes do not decrypt.
\<close>

theorem event_channel_delivers:
  assumes "aead_ok (tc_seal tc) (tc_open tc)" "length (key (encrypt_ctx ch)) = 32"
    and "unat (counter (encrypt_ctx ch)) + block_count (sent_messages ts) < 2 ^ 64"
    and "\<forall>d \<in> set (bytes_read ts). length d \<le> EVENT_READ_LEN"
    and s: "ev_handle tc (event_channel_new ch) ts = s"
  shows "length (encrypted_buf s) \<le> 69648
    \<and> (if ev_running s
       then foldl (rx_feed (tc_open tc)) (Live (decrypt_ctx ch) [] []) (bytes_read ts)
              = Live (decrypt_ctx (ev_channel s)) (encrypted_buf s) (ev_received s)
         \<and> (\<forall>segs. concat segs = concat (ev_written s) \<longrightarrow>
              foldl (rx_feed (tc_open tc)) (Live (encrypt_ctx ch) [] []) segs
              = Live (encrypt_ctx (ev_channel s)) [] (concat (sent_messages ts)))
       else EvRead [] \<in> set ts \<or> EvReadError \<in> set ts \<or> (\<exists>d. EvSend d False \<in> set ts)
         \<or> foldl (rx_feed (tc_open tc)) (Live (decrypt_ctx ch) [] []) (bytes_read ts) = Dropped)"
proof -
  have d: "ev_delivers tc (event_channel_new ch) ts s"
    unfolding s [symmetric] using assms(1-4) by (intro ev_handle_delivers) (simp_all add: event_channel_new_def)
  have "foldl (rx_feed (tc_open tc)) (Live (encrypt_ctx ch) [] []) segs
      = Live (encrypt_ctx (ev_channel s)) [] (concat (sent_messages ts))"
    if r: "ev_running s" and segs: "concat segs = concat (ev_written s)" for segs
  proof -
    have "decrypt (tc_open tc) (encrypt_ctx ch) (concat (ev_written s))
        = (Inr (concat (sent_messages ts), length (concat (ev_written s))), encrypt_ctx (ev_channel s))"
      using d r unfolding ev_delivers_def
      by (auto simp: event_channel_new_def decrypt_def decrypt_loop.simps [of _ _ _ _ "[]"] dest!: spec [of _ "[]"] spec [of _ "0 :: nat"] spec [of _ "[] :: bytes"])
    then have "rx_feed (tc_open tc) (Live (encrypt_ctx ch) [] []) (concat segs)
        = Live (encrypt_ctx (ev_channel s)) [] (concat (sent_messages ts))" by (simp add: segs)
    then show ?thesis by (simp add: rx.foldl_concat decrypt_Nil)
  qed
  with d show ?thesis by (auto simp: ev_delivers_def ev_cause_def event_channel_new_def)
qed

theorem event_channel_delivers_witness:
  "let ch = \<lparr>encrypt_ctx = cipher_new (replicate 32 7), decrypt_ctx = cipher_new (replicate 32 8)\<rparr>;
       ts = [EvSend [1, 2] True, EvRead [1, 0], EvSend [3] True];
       s = ev_handle sample_transport (event_channel_new ch) ts
   in ev_running s
     \<and> foldl (rx_feed (tc_open sample_transport)) (Live (encrypt_ctx ch) [] []) (ev_written s)
         = Live (encrypt_ctx (ev_channel s)) [] [1, 2, 3]"
proof -
  let ?ch = "\<lparr>encrypt_ctx = cipher_new (replicate 32 7), decrypt_ctx = cipher_new (replicate 32 8)\<rparr>"
  let ?ts = "[EvSend [1, 2] True, EvRead [1, 0], EvSend [3] True]"
  have ok: "aead_ok (tc_seal sample_transport) (tc_open sample_transport)"
    by (simp add: aead_ok_def TAG_LEN_def sample_transport_def)
  have k: "length (key (encrypt_ctx ?ch)) = 32" by (simp add: cipher_new_def)
  have b: "unat (counter (encrypt_ctx ?ch)) + block_count (sent_messages ?ts) < 2 ^ 64"
    by (simp add: cipher_new_def MAX_BLOCK_LEN_def chunks_short)
  have r: "\<forall>d \<in> set (bytes_read ?ts). length d \<le> EVENT_READ_LEN" by (simp add: EVENT_READ_LEN_def)
  have run: "ev_running (ev_handle sample_transport (event_channel_new ?ch) ?ts)"
    by (simp add: event_channel_new_def ev_send_def ev_read_def encrypt_def cipher_new_def sample_transport_def
        MAX_BLOCK_LEN_def chunks_short MAX_ENCRYPTED_EVENT_BUFFER_LEN_def decrypt_def decrypt_loop.simps Let_def TAG_LEN_def
        from_le_bytes_def)
  show ?thesis using event_channel_delivers [OF ok k b r refl] run by (simp add: Let_def)
qed

end
