(* ===== verification/Ap2_Control.thy ===== *)
theory Ap2_Control
  imports Ap2_Pairing Playout Realtime_Audio Ap2_Volume Advertisement Event_Channel
begin

text \<open>
  The AirPlay 2 control handlers of src/raop/handlers\_ap2.rs and the audio slot that all
  connections of a server share, src/raop/connection.rs, in the build with AirPlay 2 and without
  video. Streams the handlers start are listed in the order of their start; a stream is named by
  its position. Reading and writing binary property lists, the ports that binding sockets
  yields and the key derivation are the environment \<open>ctl_env\<close>.
\<close>

section \<open>State\<close>

text \<open>A realtime receiver is a task that may be aborted; a buffered one gets commands through an
  unbounded channel, which keeps them in order.\<close>

datatype ap2_stream =
    Realtime output_config stream_shared_key bool
  | Buffered "u32 option" "byte option" stream_shared_key "playout_command list"

text \<open>What the connections of a server share: the stop handle of the active audio session, the
  streams, and how many sockets were bound.\<close>

record ap2_hub =
  active_audio :: "nat option"
  hub_streams :: "ap2_stream list"
  hub_binds :: nat

record ctl_env =
  x_ap2 :: ap2_env
  x_plist_read :: "bytes \<Rightarrow> plist option"
  x_plist_write :: "plist \<Rightarrow> bytes option"
  x_bind :: "nat \<Rightarrow> u16 option"
  x_transport :: transport_crypto
  x_log10 :: "rat \<Rightarrow> rat"

record ctl =
  k_conn :: ap2_conn
  k_hub :: ap2_hub
  playout_cmd :: "nat option"
  event_sender :: "(encrypted_channel \<times> bytes list) option"
  output_max_channels :: "byte option"
  k_pairing_id :: string
  k_airplay_name :: string
  k_volumes :: "rat list"

type_synonym ctl_handler =
  "ctl_env \<Rightarrow> ctl \<Rightarrow> request_view \<Rightarrow> http_response \<Rightarrow> bytes option \<times> ctl \<times> http_response"

definition ctl_error :: "shairplay_error \<Rightarrow> ctl \<Rightarrow> ctl" where
  "ctl_error e c = c\<lparr>k_conn := (k_conn c)\<lparr>ap_base := notify (OnError e) (ap_base (k_conn c))\<rparr>\<rparr>"

definition bind_port :: "ctl_env \<Rightarrow> ctl \<Rightarrow> u16 option \<times> ctl" where
  "bind_port env c =
     (x_bind env (hub_binds (k_hub c)), c\<lparr>k_hub := (k_hub c)\<lparr>hub_binds := Suc (hub_binds (k_hub c))\<rparr>\<rparr>)"

section \<open>The active audio session\<close>

fun stream_send :: "playout_command \<Rightarrow> ap2_stream \<Rightarrow> ap2_stream" where
  "stream_send cmd (Buffered sr ch k cmds) = Buffered sr ch k (cmds @ [cmd])"
| "stream_send cmd (Realtime cfg k aborted) = Realtime cfg k aborted"

text \<open>The stop handle registered with a stream.\<close>

fun stop_handle :: "ap2_stream \<Rightarrow> ap2_stream" where
  "stop_handle (Realtime cfg k aborted) = Realtime cfg k True"
| "stop_handle (Buffered sr ch k cmds) = stream_send PStop (Buffered sr ch k cmds)"

definition update_stream :: "nat \<Rightarrow> (ap2_stream \<Rightarrow> ap2_stream) \<Rightarrow> ap2_hub \<Rightarrow> ap2_hub" where
  "update_stream i f hub = hub\<lparr>hub_streams := list_update (hub_streams hub) i (f (hub_streams hub ! i))\<rparr>"

definition swap_active_audio_slot :: "nat \<Rightarrow> ap2_hub \<Rightarrow> ap2_hub" where
  "swap_active_audio_slot stop hub =
     (let prev = active_audio hub; hub1 = hub\<lparr>active_audio := Some stop\<rparr>
      in case prev of None \<Rightarrow> hub1 | Some i \<Rightarrow> update_stream i stop_handle hub1)"

definition set_active_audio :: "nat \<Rightarrow> ap2_hub \<Rightarrow> ap2_hub" where
  "set_active_audio stop hub = swap_active_audio_slot stop hub"

definition spawn_stream :: "ap2_stream \<Rightarrow> ap2_hub \<Rightarrow> ap2_hub" where
  "spawn_stream s hub = hub\<lparr>hub_streams := hub_streams hub @ [s]\<rparr>"

definition playout_send :: "playout_command \<Rightarrow> ctl \<Rightarrow> ctl" where
  "playout_send cmd c =
     (case playout_cmd c of
        None \<Rightarrow> c
      | Some i \<Rightarrow> c\<lparr>k_hub := update_stream i (stream_send cmd) (k_hub c)\<rparr>)"

section \<open>Stream setup\<close>

definition setup_stream_realtime :: "ctl_env \<Rightarrow> ctl \<Rightarrow> plist_dict \<Rightarrow> plist_dict \<Rightarrow> plist_dict option \<times> ctl" where
  "setup_stream_realtime env c stream0 stream_resp =
     (let sr = unwrap_or 44100 (get_as as_unsigned_integer stream0 ''sr'');
          spf = unwrap_or 352 (get_as as_unsigned_integer stream0 ''spf'');
          audio_format = ucast (unwrap_or 0 (get_as as_unsigned_integer stream0 ''audioFormat'')) :: u32;
          alac_format = unwrap_or \<lparr>fmt_sample_rate = ucast sr, fmt_bit_depth = 16, fmt_channels = 2\<rparr>
                          (from_audio_format audio_format)
      in case Option.bind (get_as as_data stream0 ''shk'') shk_from_slice of
           Some shk \<Rightarrow>
             (case bind_port env c of
                (None, c1) \<Rightarrow> (None, c1)
              | (Some audio_port, c1) \<Rightarrow>
                  let cfg = \<lparr>source_sample_rate = fmt_sample_rate alac_format, samples_per_frame = ucast spf,
                             oc_channels = fmt_channels alac_format, oc_bit_depth = fmt_bit_depth alac_format,
                             oc_sample_rate = output_sample_rate (c_shared (ap_base (k_conn c1))),
                             oc_max_channels = output_max_channels c1\<rparr>;
                      i = length (hub_streams (k_hub c1));
                      hub = set_active_audio i (spawn_stream (Realtime cfg shk False) (k_hub c1))
                  in (Some (dict_insert ''dataPort'' (PInt (uint audio_port)) stream_resp), c1\<lparr>k_hub := hub\<rparr>))
         | None \<Rightarrow>
             (None, ctl_error (Protocol (InvalidRtsp
                ''realtime (type 96) SETUP requires a shared key or the video feature'')) c))"

definition setup_stream_buffered :: "ctl_env \<Rightarrow> ctl \<Rightarrow> plist_dict \<Rightarrow> plist_dict \<Rightarrow> plist_dict option \<times> ctl" where
  "setup_stream_buffered env c stream0 stream_resp =
     (case shk_from_slice (unwrap_or [] (get_as as_data stream0 ''shk'')) of
        None \<Rightarrow>
          (None, ctl_error (Protocol (InvalidRtsp ''buffered (type 103) SETUP contains invalid key material'')) c)
      | Some shk \<Rightarrow>
          (case bind_port env c of
             (None, c1) \<Rightarrow> (None, c1)
           | (Some audio_port, c1) \<Rightarrow>
               let i = length (hub_streams (k_hub c1));
                   proc = Buffered (output_sample_rate (c_shared (ap_base (k_conn c1)))) (output_max_channels c1) shk [];
                   c2 = c1\<lparr>k_hub := spawn_stream proc (k_hub c1)\<rparr>;
                   c3 = c2\<lparr>playout_cmd := Some i\<rparr>;
                   c4 = c3\<lparr>k_hub := set_active_audio i (k_hub c3)\<rparr>
               in (Some (dict_insert ''audioBufferSize'' (PInt 0x100000)
                     (dict_insert ''dataPort'' (PInt (uint audio_port)) stream_resp)), c4)))"

definition setup_stream_rc :: "ctl_env \<Rightarrow> ctl \<Rightarrow> plist_dict \<Rightarrow> plist_dict \<Rightarrow> plist_dict option \<times> ctl" where
  "setup_stream_rc env c stream0 stream_resp =
     (case get_as as_unsigned_integer stream0 ''seed'' of
        Some _ \<Rightarrow>
          (case bind_port env c of
             (None, c1) \<Rightarrow> (None, c1)
           | (Some data_port, c1) \<Rightarrow>
               (Some (dict_insert ''dataPort'' (PInt (uint data_port)) (dict_insert ''streamID'' (PInt 1) stream_resp)), c1))
      | None \<Rightarrow> (Some (dict_insert ''streamID'' (PInt 1) stream_resp), c))"

definition setup_streams :: "ctl_env \<Rightarrow> ctl \<Rightarrow> plist list \<Rightarrow> plist_dict option \<times> ctl" where
  "setup_streams env c streams =
     (case Option.bind (case streams of [] \<Rightarrow> None | s # _ \<Rightarrow> Some s) as_dictionary of
        None \<Rightarrow> (None, c)
      | Some stream0 \<Rightarrow>
          (case get_as as_unsigned_integer stream0 ''type'' of
             None \<Rightarrow> (None, c)
           | Some stream_type \<Rightarrow>
               let stream_resp = dict_insert ''type'' (PInt (uint stream_type)) [] in
               (case (if stream_type = 96 then setup_stream_realtime env c stream0 stream_resp
                      else if stream_type = 103 then setup_stream_buffered env c stream0 stream_resp
                      else if stream_type = 130 then setup_stream_rc env c stream0 stream_resp
                      else (Some stream_resp, c)) of
                  (None, c1) \<Rightarrow> (None, c1)
                | (Some resp1, c1) \<Rightarrow>
                    (case bind_port env c1 of
                       (None, c2) \<Rightarrow> (None, c2)
                     | (Some ctrl_port, c2) \<Rightarrow>
                         (Some (dict_insert ''streams''
                            (PArray [PDict (dict_insert ''controlPort'' (PInt (uint ctrl_port)) resp1)]) []), c2)))))"

section \<open>Initial setup\<close>

definition build_update_info_message :: "ctl_env \<Rightarrow> bool \<Rightarrow> bool \<Rightarrow> bytes option" where
  "build_update_info_message env requires_pin_pairing already_paired =
     (let v = [(''statusFlags'', PInt (uint (ap2_status_flags requires_pin_pairing already_paired))),
               (''features'', PInt (sint (receiver_features_for_pairing requires_pin_pairing))),
               (''model'', PString GLOBAL_MODEL), (''sourceVersion'', PString AP2_SRCVERS),
               (''protocolVersion'', PString AP2_PROTOVERS)];
          update_info = [(''type'', PString ''updateInfo''), (''value'', PDict v)]
      in case x_plist_write env (PDict update_info) of
           None \<Rightarrow> None
         | Some bdy \<Rightarrow>
             Some (as_bytes ''POST /command RTSP/1.0'' @ CRLF @ as_bytes ''Content-Length: '' @ as_bytes (show_nat (length bdy)) @ CRLF
                   @ as_bytes ''Content-Type: application/x-apple-binary-plist'' @ CRLF @ as_bytes ''CSeq: 0'' @ CRLF @ CRLF @ bdy))"

text \<open>A fresh event channel with its first message queued, when the keys can be derived.\<close>

definition open_event_channel :: "ctl_env \<Rightarrow> bytes \<Rightarrow> ctl \<Rightarrow> ctl" where
  "open_event_channel env secret c =
     (case channel_events (tc_hkdf (x_transport env)) secret of
        Inl _ \<Rightarrow> c
      | Inr ch \<Rightarrow>
          let queued = (case build_update_info_message env (ap_pin (k_conn c) \<noteq> None) (has_any_pairing (ap_store (k_conn c))) of
                          Some msg \<Rightarrow> [msg] | None \<Rightarrow> [])
          in c\<lparr>event_sender := Some (ch, queued)\<rparr>)"

definition setup_rc_only :: "ctl_env \<Rightarrow> ctl \<Rightarrow> plist_dict option \<times> ctl" where
  "setup_rc_only env c =
     (case ap_shared_secret (k_conn c) of
        None \<Rightarrow> (Some (dict_insert ''eventPort'' (PInt 0) []), c)
      | Some secret \<Rightarrow>
          (case bind_port env c of
             (None, c1) \<Rightarrow> (None, c1)
           | (Some event_port, c1) \<Rightarrow>
               (Some (dict_insert ''eventPort'' (PInt (uint event_port)) []), open_event_channel env secret c1)))"

definition setup_initial :: "ctl_env \<Rightarrow> ctl \<Rightarrow> plist_dict \<Rightarrow> plist_dict option \<times> ctl" where
  "setup_initial env c d =
     (let timing = unwrap_or ''None'' (get_as as_string d ''timingProtocol'');
          is_rc_only = unwrap_or False (get_as as_boolean d ''isRemoteControlOnly'')
      in if is_rc_only then setup_rc_only env c
         else
           let self_ip = ip_show (e_raop (x_ap2 env)) (local_ip_from (ap_base (k_conn c)));
               tpi = [(''Addresses'', PArray [PString self_ip]), (''ID'', PString self_ip)];
               resp0 = (if timing = ''PTP'' then dict_insert ''timingPeerInfo'' (PDict tpi) [] else [])
           in case bind_port env c of
                (None, c1) \<Rightarrow> (None, c1)
              | (Some event_port, c1) \<Rightarrow>
                  let c2 = (case ap_shared_secret (k_conn c1) of
                              Some secret \<Rightarrow> open_event_channel env secret c1 | None \<Rightarrow> c1);
                      port = (if ap_shared_secret (k_conn c2) \<noteq> None then uint event_port else 0)
                  in (Some (dict_insert ''timingPort'' (PInt 0) (dict_insert ''eventPort'' (PInt port) resp0)), c2))"

definition ap2_handle_setup :: ctl_handler where
  "ap2_handle_setup env c rv resp =
     (case Option.bind (rv_data rv) (\<lambda>d. Option.bind (x_plist_read env d) as_dictionary) of
        None \<Rightarrow> (None, c, set_disconnect True resp)
      | Some d \<Rightarrow>
          (case (case get_as as_array d ''streams'' of
                   Some streams \<Rightarrow> setup_streams env c streams
                 | None \<Rightarrow> setup_initial env c d) of
             (None, c1) \<Rightarrow> (None, c1, set_disconnect True resp)
           | (Some resp_dict, c1) \<Rightarrow>
               (case set_plist_body (x_plist_write env (PDict resp_dict)) resp of (b, r) \<Rightarrow> (b, c1, r))))"

section \<open>Playback control\<close>

definition ap2_handle_record :: ctl_handler where
  "ap2_handle_record env c rv resp = (None, c, add_header ''Audio-Latency'' ''0'' resp)"

definition anchor_time :: "u64 \<Rightarrow> u64 \<Rightarrow> u64" where
  "anchor_time net_secs net_frac =
     (let frac_ns = drop_bit 32 (drop_bit 32 net_frac * 1000000000)
      in saturating_add (saturating_mul net_secs 1000000000) frac_ns)"

definition plist_body :: "ctl_env \<Rightarrow> request_view \<Rightarrow> plist option" where
  "plist_body env rv = Option.bind (rv_data rv) (x_plist_read env)"

definition handle_set_rate_anchor_time :: ctl_handler where
  "handle_set_rate_anchor_time env c rv resp =
     (case Option.bind (plist_body env rv) as_dictionary of
        None \<Rightarrow> (None, c, resp)
      | Some d \<Rightarrow>
          let r = ucast (unwrap_or 0 (get_as as_unsigned_integer d ''rate'')) :: u32;
              rtp_time = ucast (unwrap_or 0 (get_as as_unsigned_integer d ''rtpTime'')) :: u32;
              net_secs = unwrap_or 0 (get_as as_unsigned_integer d ''networkTimeSecs'');
              net_frac = unwrap_or 0 (get_as as_unsigned_integer d ''networkTimeFrac'')
          in (None, playout_send (SetRate rtp_time (anchor_time net_secs net_frac) r) c, resp))"

definition handle_set_peers :: ctl_handler where
  "handle_set_peers env c rv resp = (None, c, resp)"

definition handle_flush_buffered :: ctl_handler where
  "handle_flush_buffered env c rv resp =
     (case plist_body env rv of
        None \<Rightarrow> (None, c, resp)
      | Some v \<Rightarrow>
          let d = as_dictionary v;
              from_seq = ucast (unwrap_or 0 (Option.bind d (\<lambda>d. get_as as_unsigned_integer d ''flushFromSeq''))) :: u32;
              until_seq = ucast (unwrap_or 0 (Option.bind d (\<lambda>d. get_as as_unsigned_integer d ''flushUntilSeq''))) :: u32
          in (None, playout_send (PFlush from_seq until_seq) c, resp))"

definition handle_feedback :: ctl_handler where
  "handle_feedback env c rv resp =
     (if playout_cmd c \<noteq> None then
        (case x_plist_write env (PDict [(''streams'', PArray [PDict [(''type'', PInt 103), (''sr'', PReal (Finite 44100))]])]) of
           None \<Rightarrow> (None, c, resp)
         | Some buf \<Rightarrow> (Some buf, c, add_header ''Content-Type'' ''application/x-apple-binary-plist'' resp))
      else (None, c, resp))"

definition handle_command :: ctl_handler where
  "handle_command env c rv resp =
     (None,
      (case Option.bind (plist_body env rv) as_dictionary of
         None \<Rightarrow> c
       | Some d \<Rightarrow>
           (case ap2_command_volume_db (x_log10 env) d of
              None \<Rightarrow> c
            | Some volume_db \<Rightarrow> c\<lparr>k_volumes := k_volumes c @ [volume_db]\<rparr>)),
      resp)"

definition handle_audio_mode :: ctl_handler where
  "handle_audio_mode env c rv resp = (None, c, resp)"

definition info_dict :: "ctl_env \<Rightarrow> ctl \<Rightarrow> plist_dict" where
  "info_dict env c =
     (let pk_hex = md5_to_hex (snd (identity_keypair (e_hk (x_ap2 env)) (ap_identity_seed (k_conn c))));
          hw = hwaddr_airplay (hwaddr (c_shared (ap_base (k_conn c))));
          pin = (ap_pin (k_conn c) \<noteq> None)
      in [(''deviceID'', PString hw), (''macAddress'', PString hw), (''pi'', PString (k_pairing_id c)),
          (''name'', PString (k_airplay_name c)), (''features'', PInt (sint (receiver_features_for_pairing pin))),
          (''model'', PString GLOBAL_MODEL), (''protocolVersion'', PString AP2_PROTOVERS),
          (''sourceVersion'', PString AP2_SRCVERS),
          (''statusFlags'', PInt (uint (ap2_status_flags pin (has_any_pairing (ap_store (k_conn c)))))),
          (''pk'', PString pk_hex)])"

definition handle_info :: ctl_handler where
  "handle_info env c rv resp =
     (case set_plist_body (x_plist_write env (PDict (info_dict env c))) resp of (b, r) \<Rightarrow> (b, c, r))"

end
