(* ===== verification/Rtsp_Ap2.thy ===== *)
theory Rtsp_Ap2
  imports Ap2_Control
begin

text \<open>
  Dispatch of requests in the build with AirPlay 2, src/raop/rtsp.rs: the route table with the
  AirPlay 2 handlers, the methods with routing of their own, and a server whose connections share
  the pairing store and the active audio session. The compatibility route for PipeWire is not
  part of this build.
\<close>

section \<open>Routes\<close>

text \<open>A handler of the pairing state, and an AirPlay 1 handler, on the whole connection.\<close>

definition on_pairing :: "ap2_handler_fun \<Rightarrow> ctl_handler" where
  "on_pairing f env c rv resp =
     (case f (x_ap2 env) (k_conn c) rv resp of (b, kc, r) \<Rightarrow> (b, c\<lparr>k_conn := kc\<rparr>, r))"

definition on_ap1 :: "raop_handler \<Rightarrow> ctl_handler" where
  "on_ap1 f = on_pairing (legacy f)"

definition AP2_ROUTES :: "(string \<times> string \<times> ctl_handler) list" where
  "AP2_ROUTES =
    [(''POST'', ''/pair-setup'', on_pairing ap2_handle_pair_setup),
     (''POST'', ''/pair-verify'', on_pairing ap2_handle_pair_verify),
     (''POST'', ''/pair-pin-start'', on_pairing handle_pair_pin_start),
     (''POST'', ''/fp-setup'', on_ap1 handle_fp_setup),
     (''POST'', ''/feedback'', handle_feedback),
     (''POST'', ''/command'', handle_command),
     (''POST'', ''/audioMode'', handle_audio_mode),
     (''OPTIONS'', ''*'', on_ap1 handle_options),
     (''ANNOUNCE'', ''*'', on_ap1 handle_announce),
     (''GET_PARAMETER'', ''*'', on_ap1 handle_get_parameter),
     (''SET_PARAMETER'', ''*'', on_ap1 handle_set_parameter),
     (''SETRATEANCHORTIME'', ''*'', handle_set_rate_anchor_time),
     (''SETPEERS'', ''*'', handle_set_peers),
     (''SETPEERSX'', ''*'', handle_set_peers),
     (''FLUSHBUFFERED'', ''*'', handle_flush_buffered),
     (''GET'', ''/info'', handle_info)]"

fun ap2_find_route :: "(string \<times> string \<times> ctl_handler) list \<Rightarrow> string \<Rightarrow> string \<Rightarrow> ctl_handler option" where
  "ap2_find_route [] meth target = None"
| "ap2_find_route ((m, p, h) # rs) meth target =
     (if m = meth \<and> (p = ''*'' \<or> p = List.hd (split_on (CHR ''?'') target))
      then Some h else ap2_find_route rs meth target)"

definition ap2_resolve_setup :: "ctl \<Rightarrow> request_view \<Rightarrow> ctl_handler" where
  "ap2_resolve_setup c rv =
     (let is_plist = (case rv_data rv of Some d \<Rightarrow> take 6 d = as_bytes ''bplist'' | None \<Rightarrow> False)
      in if is_ap2 (k_conn c) \<or> is_plist then ap2_handle_setup else on_ap1 handle_setup)"

definition ap2_resolve_record :: "ctl \<Rightarrow> ctl_handler" where
  "ap2_resolve_record c = (if is_ap2 (k_conn c) then ap2_handle_record else on_ap1 handle_record)"

definition map_base :: "(raop_conn \<Rightarrow> raop_conn) \<Rightarrow> ctl \<Rightarrow> ctl" where
  "map_base f c = c\<lparr>k_conn := (k_conn c)\<lparr>ap_base := f (ap_base (k_conn c))\<rparr>\<rparr>"

definition ap2_handle_teardown :: ctl_handler where
  "ap2_handle_teardown env c rv resp =
     (case on_ap1 handle_teardown env c rv resp of (b, c1, r) \<Rightarrow> (b, playout_send PStop c1, r))"

definition ap2_resolve_handler :: "ctl \<Rightarrow> request_view \<Rightarrow> ctl_handler option \<times> bool \<times> ctl" where
  "ap2_resolve_handler c rv =
     (let meth = request_method rv in
      case ap2_find_route AP2_ROUTES meth (request_url rv) of
        Some h \<Rightarrow> (Some h, True, c)
      | None \<Rightarrow>
          if meth = ''SETUP'' then (Some (ap2_resolve_setup c rv), True, c)
          else if meth = ''RECORD'' then (Some (ap2_resolve_record c), True, c)
          else if meth = ''FLUSH'' then (None, True, map_base (\<lambda>b. handle_flush_inline b rv) c)
          else if meth = ''TEARDOWN'' then (Some ap2_handle_teardown, True, c)
          else (None, False, c))"

definition ap2_dispatch :: "ctl_env \<Rightarrow> ctl \<Rightarrow> request_view \<Rightarrow> http_response \<times> ctl" where
  "ap2_dispatch env c rv =
     (let base = ap_base (k_conn c) in
      if \<not> authorized (e_raop (x_ap2 env)) base rv then (unauthorized_response base rv, map_base next_request c)
      else
        let resp = challenge_response base rv (ok_response rv) in
        case ap2_resolve_handler c rv of
          (Some h, _, c1) \<Rightarrow>
            (case h env c1 rv resp of (b, c2, resp2) \<Rightarrow> (finish b resp2, map_base next_request c2))
        | (None, True, c1) \<Rightarrow> (finish None resp, map_base next_request c1)
        | (None, False, c1) \<Rightarrow> (finish None (new_response 404 ''Not Found'' (request_cseq rv)), map_base next_request c1))"

section \<open>The server\<close>

record ap2_server =
  srv_hub :: ap2_hub
  srv_store :: memory_pairing_store
  srv_conns :: "nat \<Rightarrow> ctl option"

definition hub_new :: ap2_hub where
  "hub_new = \<lparr>active_audio = None, hub_streams = [], hub_binds = 0\<rparr>"

text \<open>A fresh connection, and what it sees of the server when a request arrives.\<close>

definition ctl_new :: "raop_conn \<Rightarrow> string \<Rightarrow> bytes \<Rightarrow> bytes option \<Rightarrow> byte option \<Rightarrow> string \<Rightarrow> string \<Rightarrow> ap2_server \<Rightarrow> ctl" where
  "ctl_new base device_id seed pin max_channels pairing_id name srv =
     \<lparr>k_conn = ap2_conn_new base device_id seed pin (srv_store srv), k_hub = srv_hub srv, playout_cmd = None,
      event_sender = None, output_max_channels = max_channels, k_pairing_id = pairing_id, k_airplay_name = name, k_volumes = []\<rparr>"

definition synced :: "ap2_server \<Rightarrow> ctl \<Rightarrow> ctl" where
  "synced srv c = c\<lparr>k_hub := srv_hub srv, k_conn := (k_conn c)\<lparr>ap_store := srv_store srv\<rparr>\<rparr>"

definition after_request :: "nat \<Rightarrow> ctl \<Rightarrow> ap2_server \<Rightarrow> ap2_server" where
  "after_request i c srv =
     srv\<lparr>srv_hub := k_hub c, srv_store := ap_store (k_conn c), srv_conns := (srv_conns srv)(i \<mapsto> c)\<rparr>"

inductive server_step :: "ctl_env \<Rightarrow> bytes option \<Rightarrow> ap2_server \<Rightarrow> ap2_server \<Rightarrow> bool" for env pin where
  accept: "srv_conns srv i = None \<Longrightarrow>
     server_step env pin srv (srv\<lparr>srv_conns := (srv_conns srv)(i \<mapsto> ctl_new base device_id seed pin mc pid name srv)\<rparr>)"
| request: "srv_conns srv i = Some c \<Longrightarrow> ap2_dispatch env (synced srv c) rv = (resp, c') \<Longrightarrow>
     server_step env pin srv (after_request i c' srv)"
| close: "server_step env pin srv (srv\<lparr>srv_conns := (srv_conns srv)(i := None)\<rparr>)"

inductive_cases server_stepE: "server_step env pin srv srv'"

definition server_new :: "memory_pairing_store \<Rightarrow> ap2_server" where
  "server_new store = \<lparr>srv_hub = hub_new, srv_store = store, srv_conns = (\<lambda>_. None)\<rparr>"

section \<open>Steps of the shared audio state\<close>

fun stream_stopped :: "ap2_stream \<Rightarrow> bool" where
  "stream_stopped (Realtime cfg k aborted) = aborted"
| "stream_stopped (Buffered sr ch k cmds) = (PStop \<in> set cmds)"

fun is_buffered :: "ap2_stream \<Rightarrow> bool" where
  "is_buffered (Realtime cfg k aborted) = False"
| "is_buffered (Buffered sr ch k cmds) = True"

fun stream_key :: "ap2_stream \<Rightarrow> bytes" where
  "stream_key (Realtime cfg k aborted) = shk_key k"
| "stream_key (Buffered sr ch k cmds) = shk_key k"

definition start_stream :: "ap2_stream \<Rightarrow> ap2_hub \<Rightarrow> ap2_hub" where
  "start_stream s hub = set_active_audio (length (hub_streams hub)) (spawn_stream s hub)"

inductive hub_step :: "ap2_hub \<Rightarrow> ap2_hub \<Rightarrow> bool" where
  hub_bind: "hub_step hub (hub\<lparr>hub_binds := n\<rparr>)"
| hub_start: "\<not> stream_stopped s \<Longrightarrow> length (stream_key s) = 32 \<Longrightarrow> hub_step hub (start_stream s hub)"
| hub_send: "hub_step hub (update_stream i (stream_send cmd) hub)"

definition hub_ok :: "ap2_hub \<Rightarrow> bool" where
  [inv_defs]: "hub_ok hub \<longleftrightarrow>
     (\<forall>i. active_audio hub = Some i \<longrightarrow> i < length (hub_streams hub))
     \<and> (\<forall>i < length (hub_streams hub). active_audio hub = Some i \<or> stream_stopped (hub_streams hub ! i))
     \<and> (\<forall>s \<in> set (hub_streams hub). length (stream_key s) = 32)"

definition playout_valid :: "ap2_hub \<Rightarrow> nat option \<Rightarrow> bool" where
  [inv_defs]: "playout_valid hub p \<longleftrightarrow> (\<forall>i. p = Some i \<longrightarrow> i < length (hub_streams hub) \<and> is_buffered (hub_streams hub ! i))"

lemma stream_simps [simp]:
  "stream_stopped (stop_handle s)" "stream_stopped s \<Longrightarrow> stream_stopped (stream_send cmd s)"
  "is_buffered (stop_handle s) = is_buffered s" "is_buffered (stream_send cmd s) = is_buffered s"
  "stream_key (stop_handle s) = stream_key s" "stream_key (stream_send cmd s) = stream_key s"
  by (cases s; simp)+

lemma start_stream_simps [simp]:
  "active_audio (start_stream s hub) = Some (length (hub_streams hub))"
  "hub_streams (start_stream s hub) =
     (case active_audio hub of
        None \<Rightarrow> hub_streams hub @ [s]
      | Some i \<Rightarrow> (hub_streams hub @ [s])[i := stop_handle ((hub_streams hub @ [s]) ! i)])"
  by (simp_all add: start_stream_def set_active_audio_def swap_active_audio_slot_def spawn_stream_def update_stream_def
      Let_def split: option.split)

lemma hub_step_ok: "hub_step hub hub' \<Longrightarrow> hub_ok hub \<Longrightarrow> hub_ok hub'"
proof (induction rule: hub_step.induct)
  case (hub_start s hub)
  then show ?case
    by (auto simp: hub_ok_def nth_list_update nth_append less_Suc_eq split: option.splits
        dest!: set_update_subset_insert [THEN subsetD])
next
  case (hub_send hub i cmd)
  then show ?case
    by (cases "i < length (hub_streams hub)")
      (auto simp: hub_ok_def update_stream_def nth_list_update list_update_beyond
        dest!: set_update_subset_insert [THEN subsetD])
qed (simp add: hub_ok_def)

lemma hub_step_valid: "hub_step hub hub' \<Longrightarrow> playout_valid hub p \<Longrightarrow> playout_valid hub' p"
proof (induction rule: hub_step.induct)
  case (hub_start s hub)
  then show ?case
    by (cases "active_audio hub") (auto simp: playout_valid_def nth_list_update nth_append list_update_append split: option.splits)
next
  case (hub_send hub i cmd)
  then show ?case
    by (cases "i < length (hub_streams hub)")
      (auto simp: playout_valid_def update_stream_def nth_list_update list_update_beyond)
qed (simp add: playout_valid_def)

lemma hub_steps_ok: "hub_step\<^sup>*\<^sup>* hub hub' \<Longrightarrow> hub_ok hub \<Longrightarrow> hub_ok hub'"
  by (induction rule: rtranclp_induct) (auto intro: hub_step_ok)

lemma hub_steps_valid: "hub_step\<^sup>*\<^sup>* hub hub' \<Longrightarrow> playout_valid hub p \<Longrightarrow> playout_valid hub' p"
  by (induction rule: rtranclp_induct) (auto intro: hub_step_valid)

section \<open>What a request may do\<close>

text \<open>Two states of the pairing part that differ in the AirPlay 1 part only.\<close>

definition base_only :: "ap2_conn \<Rightarrow> ap2_conn \<Rightarrow> bool" where
  "base_only kc kc' \<longleftrightarrow> (\<exists>base. kc' = kc\<lparr>ap_base := base\<rparr>)"

lemma base_only_refl [simp]: "base_only kc kc"
  unfolding base_only_def by (rule exI [of _ "ap_base kc"]) simp

lemma base_only_trans: "base_only a b \<Longrightarrow> base_only b c \<Longrightarrow> base_only a c"
  by (auto simp: base_only_def)

definition ctl_step :: "ctl \<Rightarrow> ctl \<Rightarrow> bool" where
  "ctl_step c c' \<longleftrightarrow>
     hub_step\<^sup>*\<^sup>* (k_hub c) (k_hub c') \<and> base_only (k_conn c) (k_conn c')
     \<and> (playout_valid (k_hub c) (playout_cmd c) \<longrightarrow> playout_valid (k_hub c') (playout_cmd c'))"

lemma ctl_step_refl [simp]: "ctl_step c c"
  by (simp add: ctl_step_def)

lemma ctl_step_trans: "ctl_step a b \<Longrightarrow> ctl_step b c \<Longrightarrow> ctl_step a c"
  by (auto simp: ctl_step_def intro: base_only_trans)

lemma ctl_step_hub:
  "hub_step (k_hub c) hub \<Longrightarrow> ctl_step c (c\<lparr>k_hub := hub\<rparr>)"
  by (auto simp: ctl_step_def intro: hub_step_valid)

lemma ctl_step_base [simp]: "ctl_step c (map_base f c)"
  by (auto simp: ctl_step_def map_base_def base_only_def)

lemma ctl_error_base: "ctl_error e = map_base (notify (OnError e))"
  by (rule ext) (simp add: ctl_error_def map_base_def)

lemma ctl_step_bind: "bind_port env c = (p, c') \<Longrightarrow> ctl_step c c'"
  by (auto simp: bind_port_def intro: ctl_step_hub hub_step.hub_bind)

lemma ctl_step_send [simp]: "ctl_step c (playout_send cmd c)"
  by (auto simp: playout_send_def split: option.split intro: ctl_step_hub hub_step.hub_send)

lemma ctl_step_cong:
  "ctl_step c c' \<Longrightarrow> k_hub d = k_hub c' \<Longrightarrow> k_conn d = k_conn c' \<Longrightarrow> playout_cmd d = playout_cmd c' \<Longrightarrow> ctl_step c d"
  by (simp add: ctl_step_def)

lemma ctl_step_start:
  "\<not> stream_stopped s \<Longrightarrow> length (stream_key s) = 32 \<Longrightarrow> ctl_step c (c\<lparr>k_hub := start_stream s (k_hub c)\<rparr>)"
  by (intro ctl_step_hub hub_step.hub_start)

lemma ctl_step_playout:
  "ctl_step c c' \<Longrightarrow> playout_valid (k_hub c') (Some i) \<Longrightarrow> ctl_step c (c'\<lparr>playout_cmd := Some i\<rparr>)"
  by (simp add: ctl_step_def)

lemma shk_length: "shk_from_slice d = Some k \<Longrightarrow> length (shk_key k) = 32"
  by (auto simp: shk_from_slice_def split: if_splits)

lemma shk_bind_length: "Option.bind m shk_from_slice = Some k \<Longrightarrow> length (shk_key k) = 32"
  by (cases m) (auto dest: shk_length)

lemma start_stream_last:
  "length (hub_streams (start_stream s hub)) = Suc (length (hub_streams hub))"
  "is_buffered (hub_streams (start_stream s hub) ! length (hub_streams hub)) = is_buffered s"
proof -
  show "length (hub_streams (start_stream s hub)) = Suc (length (hub_streams hub))"
    by (simp split: option.split)
  show "is_buffered (hub_streams (start_stream s hub) ! length (hub_streams hub)) = is_buffered s"
  proof (cases "active_audio hub")
    case (Some i)
    then show ?thesis by (cases "i = length (hub_streams hub)") simp_all
  qed simp
qed

lemma step_realtime: "setup_stream_realtime env c d r = (res, c') \<Longrightarrow> ctl_step c c'"
  by (auto simp: setup_stream_realtime_def Let_def ctl_error_base shk_bind_length simp flip: start_stream_def
      split: option.splits prod.splits dest!: ctl_step_bind intro!: ctl_step_trans [OF _ ctl_step_start])

lemma step_buffered: "setup_stream_buffered env c d r = (res, c') \<Longrightarrow> ctl_step c c'"
proof -
  assume s: "setup_stream_buffered env c d r = (res, c')"
  have start: "ctl_step c (c1\<lparr>playout_cmd := Some (length (hub_streams (k_hub c1))), k_hub := start_stream (Buffered a b k []) (k_hub c1)\<rparr>)"
    if "ctl_step c c1" "length (shk_key k) = 32" for c1 a b k
  proof (rule ctl_step_cong)
    show "ctl_step c (c1\<lparr>k_hub := start_stream (Buffered a b k []) (k_hub c1), playout_cmd := Some (length (hub_streams (k_hub c1)))\<rparr>)"
      using ctl_step_trans [OF that(1) ctl_step_start [of "Buffered a b k []" c1]] that(2)
      by (intro ctl_step_playout) (auto simp: playout_valid_def start_stream_last simp del: start_stream_simps)
  qed simp_all
  show ?thesis using s
    by (auto simp: setup_stream_buffered_def Let_def ctl_error_base start shk_length simp flip: start_stream_def
        split: option.splits prod.splits dest!: ctl_step_bind)
qed

lemma step_rc: "setup_stream_rc env c d r = (res, c') \<Longrightarrow> ctl_step c c'"
  by (auto simp: setup_stream_rc_def split: option.splits prod.splits dest!: ctl_step_bind)

lemma step_streams: "setup_streams env c streams = (res, c') \<Longrightarrow> ctl_step c c'"
  by (auto simp: setup_streams_def Let_def split: option.splits prod.splits if_splits
      dest!: ctl_step_bind step_realtime step_buffered step_rc intro: ctl_step_trans)

lemma step_event_channel: "ctl_step c c1 \<Longrightarrow> ctl_step c (open_event_channel env secret c1)"
  by (erule ctl_step_cong) (auto simp: open_event_channel_def Let_def split: sum.split)

lemma step_initial: "setup_initial env c d = (res, c') \<Longrightarrow> ctl_step c c'"
  by (auto simp: setup_initial_def setup_rc_only_def Let_def split: option.splits prod.splits if_splits
      dest!: ctl_step_bind intro: step_event_channel)

lemma step_setup_handler: "ap2_handle_setup env c rv resp = (b, c', r) \<Longrightarrow> ctl_step c c'"
  by (auto simp: ap2_handle_setup_def split: option.splits prod.splits dest!: step_streams step_initial)

lemma step_on_ap1: "on_ap1 f env c rv resp = (b, c', r) \<Longrightarrow> ctl_step c c'"
  unfolding on_ap1_def on_pairing_def
  by (auto simp: ctl_step_def base_only_def split: prod.splits dest!: legacy_keeps)

text \<open>What a request may change of the pairing state: the store only by a controller that proved
  the PIN and signed, the shared secret only by a client that proved itself.\<close>

definition auth_step :: "ap2_env \<Rightarrow> ap2_conn \<Rightarrow> ap2_conn \<Rightarrow> bool" where
  "auth_step env kc kc' \<longleftrightarrow>
     (ap_store kc' = ap_store kc \<or> proved_controller env kc (ap_store kc'))
     \<and> (ap_shared_secret kc' = ap_shared_secret kc
        \<or> ap_pin kc = None \<and> (\<exists>s. ap_srp kc' = Some s \<and> proved_pin env None s \<and> ap_shared_secret kc' = Some (srp_session_key s))
        \<or> proved_identity env kc (ap_shared_secret kc'))"

definition ctl_ok :: "ctl_env \<Rightarrow> ctl \<Rightarrow> ctl \<Rightarrow> bool" where
  "ctl_ok env c c' \<longleftrightarrow>
     hub_step\<^sup>*\<^sup>* (k_hub c) (k_hub c')
     \<and> (playout_valid (k_hub c) (playout_cmd c) \<longrightarrow> playout_valid (k_hub c') (playout_cmd c'))
     \<and> (ap2_inv (x_ap2 env) (k_conn c) \<longrightarrow>
          ap2_inv (x_ap2 env) (k_conn c') \<and> ap_pin (k_conn c') = ap_pin (k_conn c) \<and> auth_step (x_ap2 env) (k_conn c) (k_conn c'))"

lemma base_only_inv: "base_only kc kc' \<Longrightarrow> ap2_inv env kc' = ap2_inv env kc \<and> ap_pin kc' = ap_pin kc"
  by (auto simp: base_only_def ap2_inv_def)

lemma base_only_auth:
  "base_only a b \<Longrightarrow> auth_step env b c \<Longrightarrow> base_only c d \<Longrightarrow> auth_step env a d"
  by (auto simp: base_only_def auth_step_def proved_controller_def proved_identity_def)

lemma ctl_ok_frame: "ctl_step a b \<Longrightarrow> ctl_ok env b c \<Longrightarrow> ctl_step c d \<Longrightarrow> ctl_ok env a d"
proof -
  assume h: "ctl_step a b" "ctl_ok env b c" "ctl_step c d"
  then have b: "base_only (k_conn a) (k_conn b)" "base_only (k_conn c) (k_conn d)" by (simp_all add: ctl_step_def)
  note i = base_only_inv [OF b(1), of "x_ap2 env"] base_only_inv [OF b(2), of "x_ap2 env"]
  have "ap2_inv (x_ap2 env) (k_conn d) \<and> ap_pin (k_conn d) = ap_pin (k_conn a) \<and> auth_step (x_ap2 env) (k_conn a) (k_conn d)"
    if "ap2_inv (x_ap2 env) (k_conn a)"
    using that h(2) i base_only_auth [OF b(1) _ b(2)] by (simp add: ctl_ok_def)
  moreover have "hub_step\<^sup>*\<^sup>* (k_hub a) (k_hub d)" using h by (auto simp: ctl_step_def ctl_ok_def)
  ultimately show ?thesis using h by (simp add: ctl_step_def ctl_ok_def)
qed

lemma ctl_ok_refl [simp]: "ctl_ok env c c"
  by (simp add: ctl_ok_def auth_step_def)

lemma ctl_ok_step: "ctl_step c c' \<Longrightarrow> ctl_ok env c c'"
  using ctl_ok_frame [OF ctl_step_refl ctl_ok_refl] .

text \<open>Every handler of the table, and those resolved by method, keeps to that.\<close>

definition ctl_law :: "ctl_handler \<Rightarrow> bool" where
  "ctl_law h \<longleftrightarrow> (\<forall>env c rv resp b c' r. h env c rv resp = (b, c', r) \<longrightarrow> ctl_ok env c c')"

lemma ctl_law_handlers:
  "ctl_law (on_ap1 f)" "ctl_law ap2_handle_setup" "ctl_law ap2_handle_record" "ctl_law ap2_handle_teardown"
  "ctl_law handle_feedback" "ctl_law handle_command" "ctl_law handle_audio_mode" "ctl_law handle_info"
  "ctl_law handle_set_rate_anchor_time" "ctl_law handle_set_peers" "ctl_law handle_flush_buffered"
  "ctl_law (on_pairing ap2_handle_pair_setup)" "ctl_law (on_pairing ap2_handle_pair_verify)"
  "ctl_law (on_pairing handle_pair_pin_start)"
proof -
  show "ctl_law (on_ap1 f)" by (auto simp: ctl_law_def dest: step_on_ap1 intro: ctl_ok_step)
  show "ctl_law ap2_handle_setup" by (auto simp: ctl_law_def dest: step_setup_handler intro: ctl_ok_step)
  show "ctl_law ap2_handle_teardown"
    by (auto simp: ctl_law_def ap2_handle_teardown_def split: prod.splits dest!: step_on_ap1 intro!: ctl_ok_step intro: ctl_step_trans)
  show "ctl_law handle_command"
    by (auto simp: ctl_law_def handle_command_def split: option.splits intro!: ctl_ok_step intro: ctl_step_cong [OF ctl_step_refl])
  show "ctl_law (on_pairing ap2_handle_pair_setup)"
    by (auto simp: ctl_law_def on_pairing_def ctl_ok_def auth_step_def split: prod.splits dest: setup_inv)
  show "ctl_law (on_pairing ap2_handle_pair_verify)"
    by (auto simp: ctl_law_def on_pairing_def ctl_ok_def auth_step_def split: prod.splits dest: verify_inv)
qed (auto simp: ctl_law_def ap2_handle_record_def handle_feedback_def handle_audio_mode_def handle_info_def
    handle_set_rate_anchor_time_def handle_set_peers_def handle_flush_buffered_def on_pairing_def handle_pair_pin_start_def
    Let_def split: option.splits if_splits prod.splits intro: ctl_ok_step)

lemma find_route_law: "(\<And>m p h. (m, p, h) \<in> set rs \<Longrightarrow> P h) \<Longrightarrow> ap2_find_route rs meth target = Some h \<Longrightarrow> P h"
  by (induction rs meth target rule: ap2_find_route.induct) (auto split: if_splits)

text \<open>A property of all handlers holds of the one a request is resolved to.\<close>

lemma resolve_all:
  assumes "ap2_resolve_handler c rv = (Some h, known, c1)"
    and "\<And>f. P (on_ap1 f)" "P ap2_handle_setup" "P ap2_handle_record" "P ap2_handle_teardown" "P handle_feedback" "P handle_command"
      "P handle_audio_mode" "P handle_info" "P handle_set_rate_anchor_time" "P handle_set_peers" "P handle_flush_buffered"
      "P (on_pairing ap2_handle_pair_setup)" "P (on_pairing ap2_handle_pair_verify)" "P (on_pairing handle_pair_pin_start)"
  shows "P h"
proof -
  have "P f" if "ap2_find_route AP2_ROUTES meth target = Some f" for meth target f
    by (rule find_route_law [OF _ that]) (use assms(2-) in \<open>auto simp: AP2_ROUTES_def\<close>)
  then show ?thesis
    using assms by (auto simp: ap2_resolve_handler_def ap2_resolve_setup_def ap2_resolve_record_def Let_def
        split: option.splits if_splits)
qed

lemma resolve_step: "ap2_resolve_handler c rv = (h, known, c1) \<Longrightarrow> ctl_step c c1"
  by (auto simp: ap2_resolve_handler_def Let_def split: option.splits if_splits)

lemma resolve_law:
  assumes "ap2_resolve_handler c rv = (h, known, c1)"
  shows "ctl_step c c1 \<and> (\<forall>f. h = Some f \<longrightarrow> ctl_law f)"
  using assms resolve_step resolve_all [of c rv _ known c1 ctl_law] ctl_law_handlers by blast

lemma dispatch_ok: "ap2_dispatch env c rv = (resp, c') \<Longrightarrow> ctl_ok env c c'"
proof -
  assume d: "ap2_dispatch env c rv = (resp, c')"
  obtain h known c1 where r: "ap2_resolve_handler c rv = (h, known, c1)" by (metis prod_cases3)
  note law = resolve_law [OF r]
  show ?thesis
  proof (cases h)
    case None
    then show ?thesis using d law ctl_step_trans [OF _ ctl_step_base [of c1]]
      by (auto simp: ap2_dispatch_def r Let_def split: if_splits bool.splits intro: ctl_ok_step)
  next
    case (Some f)
    obtain b c2 r2 where f: "f env c1 rv (challenge_response (ap_base (k_conn c)) rv (ok_response rv)) = (b, c2, r2)" by (metis prod_cases3)
    then have "ctl_ok env c1 c2" using law Some unfolding ctl_law_def by blast
    then have "ctl_ok env c (map_base next_request c2)" using law ctl_ok_frame ctl_step_base by blast
    then show ?thesis using d f Some by (auto simp: ap2_dispatch_def r Let_def split: if_splits intro: ctl_ok_step)
  qed
qed

section \<open>The server under any interleaving\<close>

definition server_ok :: "ctl_env \<Rightarrow> bytes option \<Rightarrow> ap2_server \<Rightarrow> bool" where
  [inv_defs]: "server_ok env pin srv \<longleftrightarrow> hub_ok (srv_hub srv)
     \<and> (\<forall>i c. srv_conns srv i = Some c \<longrightarrow>
          playout_valid (srv_hub srv) (playout_cmd c) \<and> ap2_inv (x_ap2 env) (k_conn c) \<and> ap_pin (k_conn c) = pin)"

lemma synced_inv [simp]: "ap2_inv env (k_conn (synced srv c)) = ap2_inv env (k_conn c)"
  by (rule ap2_inv_cong) (simp_all add: synced_def)

lemma ctl_new_inv [simp]:
  "ap2_inv env (k_conn (ctl_new base dev seed pin mc pid name srv))" "ap_pin (k_conn (ctl_new base dev seed pin mc pid name srv)) = pin"
  "playout_cmd (ctl_new base dev seed pin mc pid name srv) = None"
  by (simp_all add: ctl_new_def ap2_inv_def ap2_conn_new_def)

lemma server_request:
  assumes ok: "server_ok env pin srv" and i: "srv_conns srv i = Some c"
    and d: "ap2_dispatch env (synced srv c) rv = (resp, c')"
  shows "server_ok env pin (after_request i c' srv)"
    and "auth_step (x_ap2 env) (k_conn (synced srv c)) (k_conn c')"
proof -
  have c: "playout_valid (srv_hub srv) (playout_cmd c)" "ap2_inv (x_ap2 env) (k_conn (synced srv c))" "ap_pin (k_conn c) = pin"
    using ok i by (auto simp: server_ok_def)
  from dispatch_ok [OF d] c have s: "hub_step\<^sup>*\<^sup>* (srv_hub srv) (k_hub c')" "playout_valid (k_hub c') (playout_cmd c')"
    "ap2_inv (x_ap2 env) (k_conn c')" "ap_pin (k_conn c') = pin"
    and a: "auth_step (x_ap2 env) (k_conn (synced srv c)) (k_conn c')"
    by (auto simp: ctl_ok_def synced_def)
  show "auth_step (x_ap2 env) (k_conn (synced srv c)) (k_conn c')" by (rule a)
  show "server_ok env pin (after_request i c' srv)"
    using ok s hub_steps_ok [OF s(1)] hub_steps_valid [OF s(1)] by (auto simp: server_ok_def after_request_def)
qed

lemma server_step_ok: "server_step env pin srv srv' \<Longrightarrow> server_ok env pin srv \<Longrightarrow> server_ok env pin srv'"
proof (induction rule: server_step.induct)
  case (accept srv i base device_id seed mc pid name)
  then show ?case by (auto simp: server_ok_def playout_valid_def)
next
  case (request srv i c rv resp c')
  then show ?case using server_request(1) by blast
qed (auto simp: server_ok_def)

lemma server_reachable: "(server_step env pin)\<^sup>*\<^sup>* (server_new store) srv \<Longrightarrow> server_ok env pin srv"
proof (induction rule: rtranclp_induct)
  case base
  show ?case by (simp add: server_ok_def server_new_def hub_new_def hub_ok_def)
qed (rule server_step_ok)



section \<open>A run\<close>

definition sample_ctl_env :: ctl_env where
  "sample_ctl_env =
     \<lparr>x_ap2 = sample_ap2_env,
      x_plist_read = (\<lambda>d. Some (PDict [(''streams'', PArray [PDict [(''type'', PInt 103), (''shk'', PData (replicate 32 5))]])])),
      x_plist_write = (\<lambda>p. Some []), x_bind = (\<lambda>n. Some 6000), x_transport = sample_transport, x_log10 = (\<lambda>x. 0)\<rparr>"

definition sample_setup :: request_view where
  "sample_setup = sample_request ''SETUP'' Map.empty (Some (as_bytes ''bplist00''))"

definition sample_ctl :: ctl where
  "sample_ctl = ctl_new (sample_conn []) ''AA'' [1] (Some (as_bytes ''1234'')) None ''id'' ''name''
     (server_new \<lparr>keys = Map.empty, ms_identity_seed = None\<rparr>)"

text \<open>Two controllers connect, and each sets up a buffered stream; a PIN is configured and neither
  has paired.\<close>

definition sample_srv :: ap2_server where
  "sample_srv = (server_new \<lparr>keys = Map.empty, ms_identity_seed = None\<rparr>)\<lparr>srv_conns := [0 \<mapsto> sample_ctl, 2 \<mapsto> sample_ctl]\<rparr>"

definition sample_serve :: "nat \<Rightarrow> ap2_server \<Rightarrow> ap2_server" where
  "sample_serve i srv =
     (case srv_conns srv i of
        None \<Rightarrow> srv
      | Some c \<Rightarrow> after_request i (snd (ap2_dispatch sample_ctl_env (synced srv c) sample_setup)) srv)"

lemma sample_serve_step: "srv_conns srv i = Some c \<Longrightarrow> server_step sample_ctl_env pin srv (sample_serve i srv)"
  by (cases "ap2_dispatch sample_ctl_env (synced srv c) sample_setup")
    (auto simp: sample_serve_def intro: server_step.request)

lemma sample_srv_reached:
  "(server_step sample_ctl_env (Some (as_bytes ''1234'')))\<^sup>*\<^sup>* (server_new \<lparr>keys = Map.empty, ms_identity_seed = None\<rparr>) sample_srv"
proof -
  let ?s = "server_new \<lparr>keys = Map.empty, ms_identity_seed = None\<rparr>" and ?p = "Some (as_bytes ''1234'')"
  have c: "ctl_new (sample_conn []) ''AA'' [1] ?p None ''id'' ''name'' (?s\<lparr>srv_conns := m\<rparr>) = sample_ctl" for m
    by (simp add: sample_ctl_def ctl_new_def server_new_def)
  have "server_step sample_ctl_env ?p (?s\<lparr>srv_conns := Map.empty\<rparr>) (?s\<lparr>srv_conns := [0 \<mapsto> sample_ctl]\<rparr>)"
    using server_step.accept [of "?s\<lparr>srv_conns := Map.empty\<rparr>" 0 sample_ctl_env ?p "sample_conn []" "''AA''" "[1]" None "''id''" "''name''"]
    by (simp add: c)
  moreover have "server_step sample_ctl_env ?p (?s\<lparr>srv_conns := [0 \<mapsto> sample_ctl]\<rparr>) sample_srv"
    using server_step.accept [of "?s\<lparr>srv_conns := [0 \<mapsto> sample_ctl]\<rparr>" 2 sample_ctl_env ?p "sample_conn []" "''AA''" "[1]" None "''id''" "''name''"]
    by (simp add: c sample_srv_def)
  moreover have "?s\<lparr>srv_conns := Map.empty\<rparr> = ?s" by (simp add: server_new_def)
  ultimately show ?thesis by (intro converse_rtranclp_into_rtranclp [OF _ r_into_rtranclp]) simp_all
qed

lemma sample_setup_handled:
  "k_hub (fst (snd (ap2_handle_setup sample_ctl_env c sample_setup resp)))
    = (start_stream (Buffered (output_sample_rate (c_shared (ap_base (k_conn c)))) (output_max_channels c) \<lparr>shk_key = replicate 32 5\<rparr> [])
        ((k_hub c)\<lparr>hub_binds := Suc (hub_binds (k_hub c))\<rparr>))\<lparr>hub_binds := Suc (Suc (hub_binds (k_hub c)))\<rparr>"
proof -
  have b: "hub_binds (start_stream s hub) = hub_binds hub" for s hub
    by (simp add: start_stream_def set_active_audio_def swap_active_audio_slot_def spawn_stream_def update_stream_def Let_def split: option.split)
  show ?thesis
    by (simp add: ap2_handle_setup_def sample_setup_def sample_request_def sample_ctl_env_def get_as_def dict_get_def setup_streams_def
        setup_stream_buffered_def unwrap_or_def shk_from_slice_def bind_port_def set_plist_body_def b Let_def flip: start_stream_def)
qed

lemma sample_dispatch:
  "k_hub (snd (ap2_dispatch sample_ctl_env (synced srv sample_ctl) sample_setup))
    = (start_stream (Buffered None None \<lparr>shk_key = replicate 32 5\<rparr> []) ((srv_hub srv)\<lparr>hub_binds := Suc (hub_binds (srv_hub srv))\<rparr>))
        \<lparr>hub_binds := Suc (Suc (hub_binds (srv_hub srv)))\<rparr>"
proof -
  have r: "ap2_resolve_handler (synced srv sample_ctl) sample_setup = (Some ap2_handle_setup, True, synced srv sample_ctl)"
    by (simp add: ap2_resolve_handler_def sample_setup_def sample_request_def request_method_def request_url_def AP2_ROUTES_def
        ap2_resolve_setup_def as_bytes_def)
  have base: "ap_base (k_conn (synced srv sample_ctl)) = sample_conn []" "output_max_channels (synced srv sample_ctl) = None"
    "k_hub (synced srv sample_ctl) = srv_hub srv" "e_raop (x_ap2 sample_ctl_env) = sample_env"
    by (simp_all add: synced_def sample_ctl_def ctl_new_def ap2_conn_new_def sample_ctl_env_def sample_ap2_env_def)
  have a: "authorized sample_env (sample_conn []) rv" "output_sample_rate (c_shared (sample_conn [])) = None" for rv
    by (simp_all add: authorized_def sample_conn_def)
  show ?thesis
    using sample_setup_handled [of "synced srv sample_ctl"]
    by (simp add: ap2_dispatch_def r a base Let_def map_base_def split_def)
qed

lemma sample_served:
  defines "srv \<equiv> sample_serve 2 (sample_serve 0 sample_srv)"
  shows "(server_step sample_ctl_env (Some (as_bytes ''1234'')))\<^sup>*\<^sup>* (server_new \<lparr>keys = Map.empty, ms_identity_seed = None\<rparr>) srv"
    and "active_audio (srv_hub srv) = Some 1" "length (hub_streams (srv_hub srv)) = 2"
      "hub_streams (srv_hub srv) ! 0 = Buffered None None \<lparr>shk_key = replicate 32 5\<rparr> [PStop]"
proof -
  have c: "srv_conns sample_srv 0 = Some sample_ctl" "srv_conns (sample_serve 0 sample_srv) 2 = Some sample_ctl"
    by (simp_all add: sample_srv_def sample_serve_def after_request_def)
  from rtranclp.rtrancl_into_rtrancl [OF rtranclp.rtrancl_into_rtrancl [OF sample_srv_reached sample_serve_step [OF c(1)]]
      sample_serve_step [OF c(2)]]
  show "(server_step sample_ctl_env (Some (as_bytes ''1234'')))\<^sup>*\<^sup>* (server_new \<lparr>keys = Map.empty, ms_identity_seed = None\<rparr>) srv"
    by (simp add: srv_def)
  have h0: "srv_hub sample_srv = hub_new" by (simp add: sample_srv_def server_new_def)
  have h1: "srv_hub (sample_serve 0 sample_srv) =
      (start_stream (Buffered None None \<lparr>shk_key = replicate 32 5\<rparr> []) (hub_new\<lparr>hub_binds := 1\<rparr>))\<lparr>hub_binds := 2\<rparr>"
    unfolding sample_serve_def c(1) by (simp add: after_request_def sample_dispatch h0 hub_new_def)
  have h2: "srv_hub srv = (start_stream (Buffered None None \<lparr>shk_key = replicate 32 5\<rparr> [])
      ((srv_hub (sample_serve 0 sample_srv))\<lparr>hub_binds := 3\<rparr>))\<lparr>hub_binds := 4\<rparr>"
    unfolding srv_def by (subst sample_serve_def) (simp add: c(2) after_request_def sample_dispatch h1)
  show "active_audio (srv_hub srv) = Some 1" "length (hub_streams (srv_hub srv)) = 2"
    "hub_streams (srv_hub srv) ! 0 = Buffered None None \<lparr>shk_key = replicate 32 5\<rparr> [PStop]"
    by (simp_all add: h2 h1 hub_new_def)
qed



text \<open>A configured PIN does not keep an unpaired client from starting audio: \<open>SETUP\<close> asks for
  neither a paired nor an encrypted connection.\<close>

lemma audio_without_pairing:
  "ap_pin (k_conn sample_ctl) = Some (as_bytes ''1234'') \<and> ap_shared_secret (k_conn sample_ctl) = None
   \<and> length (hub_streams (k_hub (snd (ap2_dispatch sample_ctl_env (synced sample_srv sample_ctl) sample_setup)))) = 1"
proof -
  have "srv_hub sample_srv = hub_new" by (simp add: sample_srv_def server_new_def)
  then show ?thesis unfolding sample_dispatch by (simp add: sample_ctl_def ctl_new_def ap2_conn_new_def hub_new_def)
qed

end
