(* ===== verification/Ap2_Session.thy ===== *)
theory Ap2_Session
  imports Rtsp_Ap2
begin

text \<open>
  Properties of AirPlay 2 sessions that span the dispatcher, the property lists and the playout
  engine: what the receiver writes is well-formed, and a stream that was superseded falls silent.
\<close>

section \<open>Well-formed property lists\<close>

text \<open>The environment with an encoder that refuses whatever a property list cannot hold.\<close>

definition strict :: "ctl_env \<Rightarrow> ctl_env" where
  "strict env = env\<lparr>x_plist_write := (\<lambda>p. if plist_ok p then x_plist_write env p else None)\<rparr>"

lemma strict_simps [simp]:
  "x_ap2 (strict env) = x_ap2 env" "x_plist_read (strict env) = x_plist_read env" "x_bind (strict env) = x_bind env"
  "x_transport (strict env) = x_transport env" "x_log10 (strict env) = x_log10 env"
  "plist_ok p \<Longrightarrow> x_plist_write (strict env) p = x_plist_write env p"
  by (simp_all add: strict_def)

lemma dict_ok_simps [simp]:
  "plist_ok (PDict d) \<Longrightarrow> plist_ok v \<Longrightarrow> plist_ok (PDict (dict_insert k v d))"
  by (rule dict_insert_ok)

lemma word_plist_ok:
  "plist_ok (PInt (uint (p :: u16)))" "plist_ok (PInt (uint (w :: u64)))" "plist_ok (PInt (uint (f :: u32)))"
  "plist_ok (PInt (sint (w :: u64)))"
proof -
  have le: "- (2 ^ 63) \<le> uint v" for v :: "'a::len word" by (rule order_trans [OF _ uint_ge_0]) simp
  show "plist_ok (PInt (uint p))" using uint_lt2p [of p] le [of p] by simp
  show "plist_ok (PInt (uint f))" using uint_lt2p [of f] le [of f] by simp
  show "plist_ok (PInt (uint w))" using uint_lt2p [of w] le [of w] by simp
  show "plist_ok (PInt (sint w))" using sint_ge [of w] sint_lt [of w] by simp
qed

lemma realtime_typed: "plist_ok (PDict r) \<Longrightarrow> setup_stream_realtime env c d r = (Some r', c') \<Longrightarrow> plist_ok (PDict r')"
  by (auto simp: setup_stream_realtime_def Let_def simp del: plist_ok.simps split: option.splits prod.splits intro!: dict_insert_ok word_plist_ok)

lemma buffered_typed: "plist_ok (PDict r) \<Longrightarrow> setup_stream_buffered env c d r = (Some r', c') \<Longrightarrow> plist_ok (PDict r')"
proof -
  have "plist_ok (PInt 0x100000)" by simp
  then show "plist_ok (PDict r) \<Longrightarrow> setup_stream_buffered env c d r = (Some r', c') \<Longrightarrow> plist_ok (PDict r')"
    by (auto simp: setup_stream_buffered_def Let_def simp del: plist_ok.simps split: option.splits prod.splits
        intro!: dict_insert_ok word_plist_ok)
qed

lemma rc_typed: "plist_ok (PDict r) \<Longrightarrow> setup_stream_rc env c d r = (Some r', c') \<Longrightarrow> plist_ok (PDict r')"
proof -
  have "plist_ok (PInt 1)" by simp
  then show "plist_ok (PDict r) \<Longrightarrow> setup_stream_rc env c d r = (Some r', c') \<Longrightarrow> plist_ok (PDict r')"
    by (auto simp: setup_stream_rc_def simp del: plist_ok.simps split: option.splits prod.splits intro!: dict_insert_ok word_plist_ok)
qed

lemma streams_typed: "setup_streams env c streams = (Some d, c') \<Longrightarrow> plist_ok (PDict d)"
proof -
  assume s: "setup_streams env c streams = (Some d, c')"
  have e: "plist_ok (PDict [])" by simp
  have t: "plist_ok (PDict (dict_insert ''type'' (PInt (uint w)) []))" for w :: u64
    by (rule dict_insert_ok [OF e word_plist_ok(2)])
  have l: "plist_ok (PArray [PDict r])" if "plist_ok (PDict r)" for r using that by simp
  note s' = s realtime_typed [OF t [of 96]] buffered_typed [OF t [of 103]] rc_typed [OF t [of 130]]
  show ?thesis using s' e
    by (auto simp: setup_streams_def Let_def t simp del: plist_ok.simps dict_insert_new split: option.splits prod.splits if_splits
        intro!: dict_insert_ok l word_plist_ok)
qed

lemma initial_typed: "setup_initial env c d = (Some r, c') \<Longrightarrow> plist_ok (PDict r)"
proof -
  assume s: "setup_initial env c d = (Some r, c')"
  have e: "plist_ok (PDict [])" "plist_ok (PInt 0)" by simp_all
  have t: "plist_ok (PDict [(''Addresses'', PArray [PString ip]), (''ID'', PString ip)])" for ip by simp
  show ?thesis using s e t
    by (auto simp: setup_initial_def setup_rc_only_def Let_def simp del: plist_ok.simps dict_insert_new
        split: option.splits prod.splits if_splits intro!: dict_insert_ok word_plist_ok)
qed

lemma update_info_typed: "build_update_info_message (strict env) pin paired = build_update_info_message env pin paired"
proof -
  have "plist_ok (PDict [(''type'', PString ''updateInfo''), (''value'', PDict [(''statusFlags'', PInt (uint (ap2_status_flags pin paired))),
      (''features'', PInt (sint (receiver_features_for_pairing pin))), (''model'', PString GLOBAL_MODEL),
      (''sourceVersion'', PString AP2_SRCVERS), (''protocolVersion'', PString AP2_PROTOVERS)])])"
    using word_plist_ok(3) [of "ap2_status_flags pin paired"] word_plist_ok(4) [of "receiver_features_for_pairing pin"] by simp
  then show ?thesis by (simp add: build_update_info_message_def Let_def del: plist_ok.simps)
qed

lemma setup_parts_strict:
  "bind_port (strict env) = bind_port env" "open_event_channel (strict env) = open_event_channel env"
  "setup_stream_realtime (strict env) = setup_stream_realtime env" "setup_stream_buffered (strict env) = setup_stream_buffered env"
  "setup_stream_rc (strict env) = setup_stream_rc env" "setup_streams (strict env) = setup_streams env"
  "setup_rc_only (strict env) = setup_rc_only env" "setup_initial (strict env) = setup_initial env"
proof -
  show b: "bind_port (strict env) = bind_port env" by (rule ext) (simp add: bind_port_def)
  show e: "open_event_channel (strict env) = open_event_channel env"
    by (intro ext) (simp add: open_event_channel_def update_info_typed cong: sum.case_cong)
  show s: "setup_stream_realtime (strict env) = setup_stream_realtime env" "setup_stream_buffered (strict env) = setup_stream_buffered env"
    "setup_stream_rc (strict env) = setup_stream_rc env" "setup_rc_only (strict env) = setup_rc_only env"
    by (intro ext; simp add: setup_stream_realtime_def setup_stream_buffered_def setup_stream_rc_def setup_rc_only_def b e cong: option.case_cong)+
  show "setup_streams (strict env) = setup_streams env" "setup_initial (strict env) = setup_initial env"
    by (intro ext; simp add: setup_streams_def setup_initial_def b e s cong: option.case_cong if_cong)+
qed

lemma setup_strict: "ap2_handle_setup (strict env) c rv resp = ap2_handle_setup env c rv resp"
  by (auto simp: ap2_handle_setup_def setup_parts_strict simp del: plist_ok.simps
      dest!: streams_typed initial_typed split: option.split prod.split)

lemma info_strict: "handle_info (strict env) c rv resp = handle_info env c rv resp"
proof -
  have "plist_ok (PDict (info_dict env c))"
    using word_plist_ok(3) [of "ap2_status_flags p q" for p q] word_plist_ok(4) [of "receiver_features_for_pairing p" for p]
    by (simp add: info_dict_def Let_def)
  moreover have "info_dict (strict env) c = info_dict env c" by (simp add: info_dict_def)
  ultimately show ?thesis by (simp add: handle_info_def del: plist_ok.simps)
qed


section \<open>Superseded streams\<close>

fun commands_of :: "playout_step list \<Rightarrow> playout_command list" where
  "commands_of [] = []"
| "commands_of (Command c _ # sts) = c # commands_of sts"
| "commands_of (_ # sts) = commands_of sts"

lemma engine_step_stopped:
  "stopped (pe_state e) \<Longrightarrow> engine_step st e = (evs, e') \<Longrightarrow> evs = [] \<and> stopped (pe_state e')"
proof (cases st)
  case (Command cmd now)
  then show "stopped (pe_state e) \<Longrightarrow> engine_step st e = (evs, e') \<Longrightarrow> ?thesis"
    by (cases cmd) (auto simp: set_rate_def Let_def split: if_splits)
qed (auto simp: enqueue_frame_def change_format_def end_receive_def delivery_round_def split: if_splits)

lemma engine_stopped_silent:
  "stopped (pe_state e) \<Longrightarrow> engine_run sts e = (evs, e') \<Longrightarrow> evs = [] \<and> stopped (pe_state e')"
proof (induction sts arbitrary: e evs e')
  case (Cons st sts)
  obtain ev1 e1 where s: "engine_step st e = (ev1, e1)" by fastforce
  obtain ev2 e2 where r: "engine_run sts e1 = (ev2, e2)" by fastforce
  from engine_step_stopped [OF Cons.prems(1) s] have "ev1 = []" "stopped (pe_state e1)" by simp_all
  with Cons.IH [OF _ r] Cons.prems(2) s r show ?case by simp
qed simp

lemma engine_stops:
  "PStop \<in> set (commands_of sts) \<Longrightarrow> pe_commands e \<Longrightarrow> engine_run sts e = (evs, e') \<Longrightarrow> stopped (pe_state e')"
proof (induction sts arbitrary: e evs e')
  case (Cons st sts)
  obtain ev1 e1 where s: "engine_step st e = (ev1, e1)" by fastforce
  obtain ev2 e2 where r: "engine_run sts e1 = (ev2, e2)" by fastforce
  have e2: "e' = e2" using Cons.prems(3) s r by simp
  show ?case
  proof (cases "stopped (pe_state e1)")
    case True
    then show ?thesis using engine_stopped_silent [OF _ r] e2 by simp
  next
    case False
    then have "PStop \<in> set (commands_of sts)" "pe_commands e1"
      using Cons.prems(1,2) s
      by (cases st rule: playout_step.exhaust; auto simp: Let_def split: prod.splits if_splits playout_command.splits
            elim!: apply_playout_command.elims)+
    from Cons.IH [OF this r] e2 show ?thesis by simp
  qed
qed simp



text \<open>A realtime stream has no such channel: \<open>TEARDOWN\<close> leaves its task running, until another
  stream takes its place.\<close>

lemma realtime_survives_teardown:
  "playout_cmd c = None \<Longrightarrow> k_hub (fst (snd (ap2_handle_teardown env c rv resp))) = k_hub c"
  by (auto simp: ap2_handle_teardown_def on_ap1_def on_pairing_def playout_send_def split: prod.split)

end
