(* ===== verification/Timing.thy ===== *)
theory Timing
  imports Rust_Ops Dacp
begin

text \<open>
  Clock traffic. The NTP responder of src/raop/ntp.rs answers the sender's timing requests and
  sends its own; the PTP messages, clock state and offset filter of src/net/ptp.rs. One turn of
  the responder consumes one result of the socket or the timer, with the wall clock (seconds and
  nanoseconds since 1970) at that moment; what it sends is a list of datagrams. Of the PTP sink
  only the parsing is modelled: it drops what it reads.
\<close>

section \<open>NTP\<close>

definition NTP_UNIX_EPOCH_OFFSET_SECS :: u64 where "NTP_UNIX_EPOCH_OFFSET_SECS = 0x83AA7E80"

definition put_ntp :: "nat \<Rightarrow> u32 \<Rightarrow> u32 \<Rightarrow> bytes \<Rightarrow> bytes" where
  "put_ntp off secs fr buf = copy_at (off + 4) (to_be_bytes 4 fr) (copy_at off (to_be_bytes 4 secs) buf)"

definition is_timing_request :: "bytes \<Rightarrow> bool" where
  "is_timing_request buf \<longleftrightarrow> length buf \<ge> 32 \<and> (buf ! 1 AND 0x7f) = 0x52"

definition build_timing_request :: "u32 \<Rightarrow> u32 \<Rightarrow> bytes" where
  "build_timing_request secs fr =
     put_ntp 24 secs fr ((replicate 32 0)[0 := 0x80, 1 := 0xd2, 2 := 0x00, 3 := 0x07])"

definition build_timing_response :: "bytes \<Rightarrow> u32 \<Rightarrow> u32 \<Rightarrow> bytes option" where
  "build_timing_response req secs fr =
     (if \<not> is_timing_request req then None
      else
        let resp = take 32 req;
            resp = resp[1 := 0xd3];
            resp = copy_at 8 (slice 24 32 req) resp;
            resp = put_ntp 16 secs fr resp;
            resp = put_ntp 24 secs fr resp
        in Some resp)"

definition sender_allowed :: "socket_addr \<Rightarrow> socket_addr \<Rightarrow> bool" where
  "sender_allowed remote_timing sender \<longleftrightarrow> snd remote_timing = 0 \<or> fst sender = fst remote_timing"

definition ntp_now :: "u64 \<times> u32 \<Rightarrow> u32 \<times> u32" where
  "ntp_now now =
     (case now of (unix_secs, subsec_nanos) \<Rightarrow>
        (ucast (unix_secs + NTP_UNIX_EPOCH_OFFSET_SECS),
         ucast (push_bit 32 (ucast subsec_nanos :: u64) div 1000000000)))"

datatype ntp_event =
    NtpDatagram bytes socket_addr
  | NtpTimeout
  | NtpError

definition ntp_request_to :: "socket_addr \<Rightarrow> u64 \<times> u32 \<Rightarrow> bytes \<times> socket_addr" where
  "ntp_request_to remote now = (case ntp_now now of (s, f) \<Rightarrow> (build_timing_request s f, remote))"

text \<open>Datagrams are read into 128 bytes.\<close>

fun ntp_loop :: "socket_addr \<Rightarrow> (ntp_event \<times> u64 \<times> u32) list \<Rightarrow> (bytes \<times> socket_addr) list" where
  "ntp_loop remote [] = []"
| "ntp_loop remote ((NtpDatagram d addr, now) # evs) =
     (let buf = take 128 d in
      if is_timing_request buf \<and> sender_allowed remote addr then
        (case ntp_now now of (s, f) \<Rightarrow>
           (case build_timing_response buf s f of
              Some resp \<Rightarrow> (resp, addr) # ntp_loop remote evs
            | None \<Rightarrow> ntp_loop remote evs))
      else ntp_loop remote evs)"
| "ntp_loop remote ((NtpTimeout, now) # evs) =
     (if snd remote > 0 then ntp_request_to remote now # ntp_loop remote evs else ntp_loop remote evs)"
| "ntp_loop remote ((NtpError, now) # evs) = []"

definition spawn_ntp_responder :: "socket_addr \<Rightarrow> (u64 \<times> u32) list \<Rightarrow> (ntp_event \<times> u64 \<times> u32) list \<Rightarrow> (bytes \<times> socket_addr) list" where
  "spawn_ntp_responder remote starts evs =
     (if snd remote > 0 then map (ntp_request_to remote) (take 3 starts) else []) @ ntp_loop remote evs"

section \<open>PTP messages\<close>

datatype ptp_message_type = PtpSync | PtpFollowUp | PtpAnnounce | PtpOther

definition ptp_message_type_from :: "byte \<Rightarrow> ptp_message_type" where
  "ptp_message_type_from v =
     (let t = v AND 0x0F in
      if t = 0 then PtpSync else if t = 8 then PtpFollowUp else if t = 11 then PtpAnnounce else PtpOther)"

text \<open>\<open>u64::checked_add_signed\<close>.\<close>

definition checked_add_signed :: "u64 \<Rightarrow> int \<Rightarrow> u64 option" where
  "checked_add_signed a i = (if 0 \<le> uint a + i \<and> uint a + i < 2 ^ 64 then Some (of_int (uint a + i)) else None)"

definition parse_follow_up :: "bytes \<Rightarrow> (u64 \<times> u64 \<times> int) option" where
  "parse_follow_up buf =
     (if length buf < 54 then None
      else if ptp_message_type_from (buf ! 0) \<noteq> PtpFollowUp then None
      else
        let clock_id = from_be_bytes (slice 20 28 buf);
            correction_raw = sint (from_be_bytes (slice 8 16 buf) :: i64);
            correction_ns = tdiv correction_raw 65536;
            seconds_hi = ucast (from_be_bytes (slice 34 36 buf) :: u16) :: u64;
            seconds_lo = ucast (from_be_bytes (slice 36 40 buf) :: u32) :: u64;
            nanoseconds = ucast (from_be_bytes (slice 40 44 buf) :: u32) :: u64
        in if nanoseconds \<ge> 1000000000 then None
           else
             let seconds = push_bit 32 seconds_hi OR seconds_lo in
             case Option.bind (checked_mul seconds 1000000000) (\<lambda>ns. checked_add ns nanoseconds) of
               None \<Rightarrow> None
             | Some timestamp_ns \<Rightarrow>
                 (case checked_add_signed timestamp_ns correction_ns of
                    None \<Rightarrow> None
                  | Some adjusted \<Rightarrow> Some (clock_id, adjusted, correction_ns)))"

definition parse_announce :: "bytes \<Rightarrow> u64 option" where
  "parse_announce buf =
     (if length buf < 64 then None
      else if ptp_message_type_from (buf ! 0) \<noteq> PtpAnnounce then None
      else Some (from_be_bytes (slice 20 28 buf)))"

section \<open>PTP clock\<close>

record ptp_clock_info =
  master_clock_id :: u64
  ptp_local_time :: u64
  ptp_offset :: u64
  mastership_start_time :: u64

definition ptp_clock_new :: ptp_clock_info where
  "ptp_clock_new = \<lparr>master_clock_id = 0, ptp_local_time = 0, ptp_offset = 0, mastership_start_time = 0\<rparr>"

definition ptp_clock_update :: "u64 \<Rightarrow> u64 \<Rightarrow> u64 \<Rightarrow> u64 \<Rightarrow> ptp_clock_info \<Rightarrow> ptp_clock_info" where
  "ptp_clock_update clock_id local_time off mastership_start info =
     info\<lparr>master_clock_id := clock_id, ptp_local_time := local_time, ptp_offset := off,
          mastership_start_time := mastership_start\<rparr>"

definition master_time_now :: "u64 \<Rightarrow> ptp_clock_info \<Rightarrow> u64 option" where
  "master_time_now now info = (if master_clock_id info = 0 then None else Some (now + ptp_offset info))"

section \<open>Offset filter\<close>

record offset_smoother =
  previous_offset :: u64
  previous_time :: u64
  mastership_start :: u64
  initialized :: bool

definition smoother_new :: offset_smoother where
  "smoother_new = \<lparr>previous_offset = 0, previous_time = 0, mastership_start = 0, initialized = False\<rparr>"

text \<open>How far the filter moves for a jitter after a time of mastership, both as \<open>i64\<close>.\<close>

definition smoother_move :: "int \<Rightarrow> int \<Rightarrow> int" where
  "smoother_move jitter mastership_time =
     (if jitter < 0 then
        (let clamped = max jitter (- 2500000) in if mastership_time > 1000000000 then tdiv clamped 256 else 0)
      else if mastership_time < 1000000000 then jitter
      else tdiv jitter 16)"

definition smoother_update :: "u64 \<Rightarrow> u64 \<Rightarrow> offset_smoother \<Rightarrow> u64 \<times> offset_smoother" where
  "smoother_update raw_offset reception_time s =
     (if \<not> initialized s then
        (raw_offset, s\<lparr>previous_offset := raw_offset, previous_time := reception_time,
                       mastership_start := reception_time, initialized := True\<rparr>)
      else
        let jitter = sint (raw_offset - previous_offset s);
            mastership_time = sint (saturating_sub reception_time (mastership_start s));
            smoothed = previous_offset s + of_int (smoother_move jitter mastership_time)
        in (smoothed, s\<lparr>previous_offset := smoothed, previous_time := reception_time\<rparr>))"

definition smoother_reset :: "offset_smoother \<Rightarrow> offset_smoother" where
  "smoother_reset s = s\<lparr>initialized := False\<rparr>"

section \<open>Answers to timing requests\<close>

lemma slice_copy_at_other:
  "i + length src \<le> length dst \<Longrightarrow> j \<le> i \<or> i + length src \<le> k \<Longrightarrow> slice k j (copy_at i src dst) = slice k j dst"
  by (rule nth_equalityI) (auto simp: slice_def copy_at_nth)

lemma slice_copy_at_same:
  "i + length src \<le> length dst \<Longrightarrow> slice i (i + length src) (copy_at i src dst) = src"
  by (simp add: slice_def copy_at_def)

lemma slice_split: "i \<le> j \<Longrightarrow> j \<le> k \<Longrightarrow> slice i k xs = slice i j xs @ slice j k xs"
  using take_add [of "j - i" "k - j" "drop i xs"] by (simp add: slice_def)

lemma length_be4 [simp]: "length (to_be_bytes n w) = n"
  by (simp add: to_be_bytes_def)

lemma put_ntp_slices:
  assumes "off + 8 \<le> length buf"
  shows "length (put_ntp off s f buf) = length buf" "slice off (off + 8) (put_ntp off s f buf) = to_be_bytes 4 s @ to_be_bytes 4 f"
    and "j \<le> off \<or> off + 8 \<le> k \<Longrightarrow> slice k j (put_ntp off s f buf) = slice k j buf"
proof -
  let ?b1 = "copy_at off (to_be_bytes 4 s) buf"
  have l: "length ?b1 = length buf" using assms by simp
  then show "length (put_ntp off s f buf) = length buf" using assms by (simp add: put_ntp_def)
  have "slice off (off + 4) (put_ntp off s f buf) = to_be_bytes 4 s"
    using assms l slice_copy_at_other [of "off + 4" "to_be_bytes 4 f" ?b1 "off + 4" off] slice_copy_at_same [of off "to_be_bytes 4 s" buf]
    by (simp add: put_ntp_def)
  moreover have "slice (off + 4) (off + 8) (put_ntp off s f buf) = to_be_bytes 4 f"
    using assms l slice_copy_at_same [of "off + 4" "to_be_bytes 4 f" ?b1] by (simp add: put_ntp_def add.assoc)
  ultimately show "slice off (off + 8) (put_ntp off s f buf) = to_be_bytes 4 s @ to_be_bytes 4 f"
    by (subst slice_split [of off "off + 4"]) simp_all
  show "slice k j (put_ntp off s f buf) = slice k j buf" if "j \<le> off \<or> off + 8 \<le> k"
    using assms l that by (auto simp: put_ntp_def slice_copy_at_other)
qed

lemma put_ntp_nth: "off + 8 \<le> length buf \<Longrightarrow> k < off \<Longrightarrow> put_ntp off s f buf ! k = buf ! k"
  by (simp add: put_ntp_def copy_at_nth)

text \<open>What a timing response says.\<close>

definition answers :: "bytes \<Rightarrow> u64 \<times> u32 \<Rightarrow> bytes \<Rightarrow> bool" where
  "answers req now m \<longleftrightarrow>
     length m = 32 \<and> m ! 1 = 0xd3 \<and> slice 8 16 m = slice 24 32 req
     \<and> (\<forall>s f. ntp_now now = (s, f) \<longrightarrow>
          slice 16 24 m = to_be_bytes 4 s @ to_be_bytes 4 f \<and> slice 24 32 m = to_be_bytes 4 s @ to_be_bytes 4 f)"

lemma timing_response_answers:
  assumes "is_timing_request req" "ntp_now now = (s, f)"
  obtains m where "build_timing_response req s f = Some m" "answers req now m"
proof -
  let ?r0 = "(take 32 req)[1 := 0xd3]"
  let ?r1 = "copy_at 8 (slice 24 32 req) ?r0"
  let ?r2 = "put_ntp 16 s f ?r1"
  let ?r3 = "put_ntp 24 s f ?r2"
  have l: "length req \<ge> 32" using assms(1) by (simp add: is_timing_request_def)
  then have len: "length ?r0 = 32" "length ?r1 = 32" "length ?r2 = 32" "length ?r3 = 32" "length (slice 24 32 req) = 8"
    by (simp_all add: put_ntp_slices)
  have "slice 8 16 ?r3 = slice 24 32 req"
    using put_ntp_slices(3) [of 24 ?r2 16 8 s f] put_ntp_slices(3) [of 16 ?r1 16 8 s f] slice_copy_at_same [of 8 "slice 24 32 req" ?r0] len
    by simp
  moreover have "slice 16 24 ?r3 = to_be_bytes 4 s @ to_be_bytes 4 f"
    using put_ntp_slices(3) [of 24 ?r2 24 16 s f] put_ntp_slices(2) [of 16 ?r1 s f] len by simp
  moreover have "slice 24 32 ?r3 = to_be_bytes 4 s @ to_be_bytes 4 f"
    using put_ntp_slices(2) [of 24 ?r2 s f] len by simp
  moreover have "?r3 ! 1 = 0xd3"
    using len l put_ntp_nth [of 24 ?r2 1 s f] put_ntp_nth [of 16 ?r1 1 s f] by (simp add: copy_at_nth)
  ultimately have "answers req now ?r3" using len assms(2) by (simp add: answers_def)
  with that assms(1) show ?thesis by (simp add: build_timing_response_def Let_def)
qed

definition before_error :: "(ntp_event \<times> u64 \<times> u32) list \<Rightarrow> (ntp_event \<times> u64 \<times> u32) list" where
  "before_error evs = takeWhile (\<lambda>(e, _). e \<noteq> NtpError) evs"

fun ntp_reply :: "socket_addr \<Rightarrow> ntp_event \<times> u64 \<times> u32 \<Rightarrow> (bytes \<times> socket_addr) list" where
  "ntp_reply remote (NtpDatagram d addr, now) =
     (if is_timing_request (take 128 d) \<and> sender_allowed remote addr
      then map (\<lambda>r. (r, addr)) (case build_timing_response (take 128 d) (fst (ntp_now now)) (snd (ntp_now now)) of
             Some r \<Rightarrow> [r] | None \<Rightarrow> [])
      else [])"
| "ntp_reply remote (NtpTimeout, now) = (if snd remote > 0 then [ntp_request_to remote now] else [])"
| "ntp_reply remote (NtpError, now) = []"

lemma ntp_loop_replies: "ntp_loop remote evs = concat (map (ntp_reply remote) (before_error evs))"
proof (induction evs)
  case (Cons ev evs)
  obtain e now where "ev = (e, now)" by (cases ev)
  with Cons show ?case
    by (cases e) (simp_all add: before_error_def Let_def split_def split: option.split)
qed (simp add: before_error_def)

lemma ntp_reply_request: "(m, to) \<in> set (ntp_reply remote (NtpTimeout, now)) \<Longrightarrow> snd remote > 0 \<and> to = remote \<and> (m, to) = ntp_request_to remote now"
  by (auto simp: ntp_request_to_def split: if_splits prod.splits)

lemma ntp_reply_datagram:
  "(m, to) \<in> set (ntp_reply remote (NtpDatagram d addr, now)) \<Longrightarrow>
     to = addr \<and> is_timing_request (take 128 d) \<and> sender_allowed remote addr \<and> answers (take 128 d) now m"
proof -
  assume m: "(m, to) \<in> set (ntp_reply remote (NtpDatagram d addr, now))"
  then have t: "is_timing_request (take 128 d)" "sender_allowed remote addr" by (simp_all split: if_splits)
  obtain r where "build_timing_response (take 128 d) (fst (ntp_now now)) (snd (ntp_now now)) = Some r" "answers (take 128 d) now r"
    using timing_response_answers [OF t(1), of now "fst (ntp_now now)" "snd (ntp_now now)"] by (metis prod.collapse)
  with m t show ?thesis by simp
qed

lemma ntp_reply_answers:
  "is_timing_request (take 128 d) \<Longrightarrow> sender_allowed remote addr \<Longrightarrow>
   \<exists>m. (m, addr) \<in> set (ntp_reply remote (NtpDatagram d addr, now)) \<and> answers (take 128 d) now m"
  by (rule timing_response_answers [of "take 128 d" now "fst (ntp_now now)" "snd (ntp_now now)"]) auto

lemma ntp_loop_sends:
  assumes "(m, to) \<in> set (ntp_loop remote evs)"
  shows "(snd remote > 0 \<and> to = remote \<and> (\<exists>now. (m, to) = ntp_request_to remote now))
     \<or> (\<exists>d now. (NtpDatagram d to, now) \<in> set evs \<and> is_timing_request (take 128 d) \<and> sender_allowed remote to
          \<and> answers (take 128 d) now m)"
proof -
  from assms obtain ev where ev: "ev \<in> set evs" "(m, to) \<in> set (ntp_reply remote ev)"
    by (auto simp: ntp_loop_replies before_error_def dest: set_takeWhileD)
  obtain e now where e: "ev = (e, now)" by (cases ev)
  show ?thesis
  proof (cases e)
    case (NtpDatagram d addr)
    with ev e ntp_reply_datagram [of m to remote d addr now] show ?thesis by metis
  next
    case NtpTimeout
    with ev e ntp_reply_request show ?thesis by metis
  next
    case NtpError
    with ev e show ?thesis by simp
  qed
qed

lemma ntp_loop_answers:
  "(NtpDatagram d addr, now) \<in> set (before_error evs) \<Longrightarrow> is_timing_request (take 128 d) \<Longrightarrow> sender_allowed remote addr \<Longrightarrow>
   \<exists>m. (m, addr) \<in> set (ntp_loop remote evs) \<and> answers (take 128 d) now m"
  using ntp_reply_answers [of d remote addr now] unfolding ntp_loop_replies set_concat set_map by blast

text \<open>
  C37: The NTP responder sends nothing but its own timing requests, to the sender's timing port
  alone, and answers to timing requests, each to its requester and, when the timing port is known,
  to the sender's address only; an answer echoes the requester's transmit time and carries the
  receiver's clock. Until the socket fails, every such request is answered.
\<close>

theorem ntp_responder_answers:
  "(\<forall>m to. (m, to) \<in> set (spawn_ntp_responder remote starts evs) \<longrightarrow>
      (snd remote > 0 \<and> to = remote \<and> (\<exists>now. (m, to) = ntp_request_to remote now))
      \<or> (\<exists>d now. (NtpDatagram d to, now) \<in> set evs \<and> is_timing_request (take 128 d) \<and> sender_allowed remote to
           \<and> answers (take 128 d) now m))
   \<and> (\<forall>d addr now. (NtpDatagram d addr, now) \<in> set (before_error evs) \<and> is_timing_request (take 128 d) \<and> sender_allowed remote addr \<longrightarrow>
        (\<exists>m. (m, addr) \<in> set (spawn_ntp_responder remote starts evs) \<and> answers (take 128 d) now m))"
proof (intro conjI allI impI)
  fix m to
  assume m: "(m, to) \<in> set (spawn_ntp_responder remote starts evs)"
  show "(snd remote > 0 \<and> to = remote \<and> (\<exists>now. (m, to) = ntp_request_to remote now))
      \<or> (\<exists>d now. (NtpDatagram d to, now) \<in> set evs \<and> is_timing_request (take 128 d) \<and> sender_allowed remote to
           \<and> answers (take 128 d) now m)"
  proof (cases "(m, to) \<in> set (ntp_loop remote evs)")
    case True
    then show ?thesis using ntp_loop_sends by blast
  next
    case False
    with m obtain now where "snd remote > 0" "(m, to) = ntp_request_to remote now"
      by (auto simp: spawn_ntp_responder_def simp del: split_paired_Ex split: if_splits)
    moreover from this(2) have "to = remote" by (simp add: ntp_request_to_def split: prod.splits)
    ultimately show ?thesis by blast
  qed
next
  fix d addr now
  assume "(NtpDatagram d addr, now) \<in> set (before_error evs) \<and> is_timing_request (take 128 d) \<and> sender_allowed remote addr"
  then show "\<exists>m. (m, addr) \<in> set (spawn_ntp_responder remote starts evs) \<and> answers (take 128 d) now m"
    using ntp_loop_answers [of d addr now evs remote] by (auto simp: spawn_ntp_responder_def)
qed

theorem ntp_responder_answers_witness:
  "\<exists>m. (m, (V4 [10, 0, 0, 2], 9000)) \<in> set (spawn_ntp_responder (V4 [10, 0, 0, 2], 7010) []
        [(NtpDatagram (0x80 # 0xd2 # replicate 30 7) (V4 [10, 0, 0, 2], 9000), 5, 0)])
     \<and> answers (take 128 (0x80 # 0xd2 # replicate 30 7)) (5, 0) m"
  using ntp_responder_answers [THEN conjunct2, rule_format, of "0x80 # 0xd2 # replicate 30 7" "(V4 [10, 0, 0, 2], 9000)" "(5, 0)"
      "[(NtpDatagram (0x80 # 0xd2 # replicate 30 7) (V4 [10, 0, 0, 2], 9000), 5, 0)]" "(V4 [10, 0, 0, 2], 7010)" "[]"]
  by (simp add: before_error_def is_timing_request_def sender_allowed_def)

section \<open>The filter never overshoots\<close>

lemma tdiv_bounds:
  assumes "0 < b"
  shows "0 \<le> a \<Longrightarrow> 0 \<le> tdiv a b \<and> tdiv a b \<le> a" "a < 0 \<Longrightarrow> a \<le> tdiv a b \<and> tdiv a b \<le> 0"
proof -
  have d: "\<bar>a\<bar> div b \<le> \<bar>a\<bar>" "0 \<le> \<bar>a\<bar> div b" using assms zdiv_mono2 [of "\<bar>a\<bar>" 1 b] by (simp_all add: pos_imp_zdiv_nonneg_iff)
  show "0 \<le> a \<Longrightarrow> 0 \<le> tdiv a b \<and> tdiv a b \<le> a" "a < 0 \<Longrightarrow> a \<le> tdiv a b \<and> tdiv a b \<le> 0"
    using d assms by (simp_all add: tdiv_def Let_def)
qed

lemma smoother_move_bounds:
  "0 \<le> j \<Longrightarrow> 0 \<le> smoother_move j t \<and> smoother_move j t \<le> j"
  "j < 0 \<Longrightarrow> max j (- 9765) \<le> smoother_move j t \<and> smoother_move j t \<le> 0"
proof -
  show "0 \<le> j \<Longrightarrow> 0 \<le> smoother_move j t \<and> smoother_move j t \<le> j"
    using tdiv_bounds(1) [of 16 j] by (simp add: smoother_move_def)
  show "max j (- 9765) \<le> smoother_move j t \<and> smoother_move j t \<le> 0" if j: "j < 0"
  proof -
    let ?c = "max j (- 2500000)"
    have "?c \<le> tdiv ?c 256 \<and> tdiv ?c 256 \<le> 0" using tdiv_bounds(2) [of 256 ?c] j by simp
    moreover have "- 9765 \<le> tdiv ?c 256"
    proof -
      have "\<bar>?c\<bar> \<le> 2500000" using j by simp
      then have "\<bar>?c\<bar> div 256 \<le> 9765" by linarith
      then show ?thesis using j by (simp add: tdiv_def Let_def)
    qed
    moreover have "j \<le> ?c" by simp
    ultimately show ?thesis using j by (simp add: smoother_move_def Let_def)
  qed
qed

lemma sint_of_int_u64: "- (2 ^ 63) \<le> i \<Longrightarrow> i < 2 ^ 63 \<Longrightarrow> sint (of_int i :: u64) = i"
  by (simp add: signed_of_int signed_take_bit_int_eq_self)

text \<open>
  The offset filter never overshoots: once initialised it moves from the previous offset
  towards the new sample and at most up to it, so what is left of the jitter has the sign of the
  jitter and does not grow; downwards it moves at most 9765 nanoseconds a sample. All of that
  holds modulo the wrap-around of the 64-bit offsets.
\<close>

theorem smoother_never_overshoots:
  assumes "initialized s" "smoother_update raw t s = (out, s')"
  shows "\<exists>k. out = previous_offset s + of_int k
     \<and> (if 0 \<le> sint (raw - previous_offset s) then 0 \<le> k \<and> k \<le> sint (raw - previous_offset s)
        else sint (raw - previous_offset s) \<le> k \<and> - 9765 \<le> k \<and> k \<le> 0)
     \<and> sint (raw - out) = sint (raw - previous_offset s) - k
     \<and> previous_offset s' = out \<and> initialized s'"
proof -
  let ?j = "sint (raw - previous_offset s)"
  let ?k = "smoother_move ?j (sint (saturating_sub t (mastership_start s)))"
  have o: "out = previous_offset s + of_int ?k" "previous_offset s' = out" "initialized s'"
    using assms by (auto simp: smoother_update_def Let_def)
  have k: "if 0 \<le> ?j then 0 \<le> ?k \<and> ?k \<le> ?j else ?j \<le> ?k \<and> - 9765 \<le> ?k \<and> ?k \<le> 0"
    using smoother_move_bounds [of ?j "sint (saturating_sub t (mastership_start s))"] by auto
  have e: "raw - out = of_int (?j - ?k)" by (simp add: o(1))
  have b: "- (2 ^ 63) \<le> ?j - ?k" "?j - ?k < 2 ^ 63"
    using k sint_ge [of "raw - previous_offset s"] sint_lt [of "raw - previous_offset s"] by (auto split: if_splits)
  have "sint (raw - out) = ?j - ?k" unfolding e by (rule sint_of_int_u64 [OF b])
  with o k show ?thesis by blast
qed

theorem smoother_never_overshoots_witness:
  "\<exists>k. 104 = (100 :: u64) + of_int k \<and> 0 \<le> k \<and> k \<le> 64"
proof -
  let ?s = "\<lparr>previous_offset = 100, previous_time = 0, mastership_start = 0, initialized = True\<rparr>"
  have i: "initialized ?s" by simp
  have "smoother_update 164 2000000000 ?s = (104, ?s\<lparr>previous_offset := 104, previous_time := 2000000000\<rparr>)"
    by (simp add: smoother_update_def smoother_move_def saturating_sub_def tdiv_def Let_def)
  from smoother_never_overshoots [OF i this] obtain k where
    "104 = previous_offset ?s + of_int k"
    "if 0 \<le> sint (164 - previous_offset ?s) then 0 \<le> k \<and> k \<le> sint (164 - previous_offset ?s)
     else sint (164 - previous_offset ?s) \<le> k \<and> - 9765 \<le> k \<and> k \<le> 0" by blast
  then show ?thesis by (intro exI [of _ k]) simp
qed

text \<open>A timestamp read from a \<open>Follow_Up\<close> is the exact sum of its parts; nothing wraps.\<close>

lemma follow_up_exact:
  assumes "parse_follow_up buf = Some (clock, ts, corr)"
  shows "uint ts = uint (push_bit 32 (ucast (from_be_bytes (slice 34 36 buf) :: u16) :: u64) OR ucast (from_be_bytes (slice 36 40 buf) :: u32))
             * 1000000000 + uint (from_be_bytes (slice 40 44 buf) :: u32) + corr
    \<and> uint (from_be_bytes (slice 40 44 buf) :: u32) < 1000000000"
proof -
  let ?sec = "push_bit 32 (ucast (from_be_bytes (slice 34 36 buf) :: u16) :: u64) OR ucast (from_be_bytes (slice 36 40 buf) :: u32)"
  let ?ns = "ucast (from_be_bytes (slice 40 44 buf) :: u32) :: u64"
  from assms obtain a b where h: "checked_mul ?sec 1000000000 = Some a" "checked_add a ?ns = Some b"
    "checked_add_signed b corr = Some ts" "\<not> ?ns \<ge> 1000000000"
    by (auto simp: parse_follow_up_def Let_def bind_eq_Some_conv split: if_splits option.splits)
  have ns: "uint ?ns = uint (from_be_bytes (slice 40 44 buf) :: u32)" 
    using uint_lt2p [of "from_be_bytes (slice 40 44 buf) :: u32"] by (simp add: unsigned_ucast_eq take_bit_int_eq_self)
  have "uint a = uint ?sec * 1000000000" "uint b = uint a + uint ?ns"
    using arg_cong [OF checked_mul_SomeD [OF h(1)], of int] arg_cong [OF checked_add_SomeD [OF h(2)], of int] by simp_all
  moreover have "uint ts = uint b + corr"
  proof (rule word_of_int_inverse)
    show "of_int (uint b + corr) = ts" "0 \<le> uint b + corr" "uint b + corr < 2 ^ LENGTH(64)"
      using h(3) by (simp_all add: checked_add_signed_def del: of_int_add split: if_splits)
  qed
  moreover have "uint ?ns < 1000000000" using h(4) by (simp add: word_le_def)
  ultimately show ?thesis by (simp only: ns)
qed

end
