(* ===== verification/Video_Stream.thy ===== *)
theory Video_Stream
  imports Ctr_Cipher Rtp_Session
begin

text \<open>
  The receiver of screen-mirroring video: packets and their classes (src/raop/video.rs), the
  stream task (src/raop/video\_stream.rs) and the key derivation (src/crypto/video\_key.rs). The task
  is a function of the connections its listener yields; a connection is given by the bytes that
  arrive on it until a read fails, ends or times out, however they were segmented. The calls of
  the application's session are a list of events. SHA-512 (crate \<open>sha2\<close>) is a parameter.
\<close>

section \<open>Packets\<close>

datatype packet_kind = AvcC | HvcC | VPayload | VPlist | VOther u16

record video_packet =
  vp_kind :: packet_kind
  vp_timestamp :: u64
  vp_payload :: bytes

datatype video_event = OnVideo video_packet | OnVideoEnd

definition VIDEO_HEADER_LEN :: nat where "VIDEO_HEADER_LEN = 128"
definition MAX_VIDEO_PAYLOAD_LEN :: nat where "MAX_VIDEO_PAYLOAD_LEN = 32 * 1024 * 1024"

record video_header =
  payload_len :: nat
  packet_type :: u16
  vh_timestamp :: u64

definition parse_header :: "bytes \<Rightarrow> video_header" where
  "parse_header header =
     \<lparr>payload_len = unat (from_le_bytes (slice 0 4 header) :: u32),
      packet_type = from_le_bytes (slice 4 6 header),
      vh_timestamp = from_le_bytes (slice 8 16 header)\<rparr>"

definition classify_packet :: "u16 \<Rightarrow> bytes \<Rightarrow> packet_kind" where
  "classify_packet t payload =
     (if t = 1 \<and> length payload \<ge> 8 \<and> slice 4 8 payload = as_bytes ''hvc1'' then HvcC
      else if t = 1 then AvcC
      else if t = 0 \<or> t = 4096 then VPayload
      else if t = 5 then VPlist
      else VOther t)"

section \<open>The stream task\<close>

function video_process ::
  "('c \<Rightarrow> bytes \<Rightarrow> bytes \<times> 'c) \<Rightarrow> 'c video_cipher \<Rightarrow> bytes \<Rightarrow> video_event list" where
  "video_process ap vc stream =
     (if length stream < VIDEO_HEADER_LEN then [OnVideoEnd]
      else
        let metadata = parse_header (take VIDEO_HEADER_LEN stream);
            rest = drop VIDEO_HEADER_LEN stream
        in if payload_len metadata = 0 then video_process ap vc rest
           else if payload_len metadata > MAX_VIDEO_PAYLOAD_LEN then [OnVideoEnd]
           else if length rest < payload_len metadata then [OnVideoEnd]
           else
             let payload = take (payload_len metadata) rest;
                 kind = classify_packet (packet_type metadata) payload;
                 (payload, vc) = (if kind = VPayload then video_decrypt ap vc payload else (payload, vc))
             in OnVideo \<lparr>vp_kind = kind, vp_timestamp = vh_timestamp metadata, vp_payload = payload\<rparr>
                # video_process ap vc (drop (payload_len metadata) rest))"
  by pat_completeness auto
termination
  by (relation "measure (\<lambda>(ap, vc, stream). length stream)") (auto simp: VIDEO_HEADER_LEN_def)

declare video_process.simps [simp del]

definition video_peer_ip_matches :: "ip_addr \<Rightarrow> socket_addr \<Rightarrow> bool" where
  "video_peer_ip_matches expected actual \<longleftrightarrow> expected = fst actual"

text \<open>What the listener yields: a connection from an address with the bytes it will carry, or an
  error.\<close>

datatype accept_result = Accepted socket_addr bytes | AcceptError string

fun video_run ::
  "('c \<Rightarrow> bytes \<Rightarrow> bytes \<times> 'c) \<Rightarrow> ip_addr \<Rightarrow> 'c video_cipher \<Rightarrow> accept_result list \<Rightarrow> video_event list" where
  "video_run ap expected vc [] = []"
| "video_run ap expected vc (Accepted addr stream # rest) =
     (if video_peer_ip_matches expected addr then video_process ap vc stream
      else video_run ap expected vc rest)"
| "video_run ap expected vc (AcceptError e # rest) = []"

section \<open>Keys\<close>

definition sha512_16 :: "(bytes \<Rightarrow> bytes) \<Rightarrow> bytes list \<Rightarrow> bytes" where
  "sha512_16 sha512 parts = take 16 (sha512 (concat parts))"

definition derive_eaes_key :: "(bytes \<Rightarrow> bytes) \<Rightarrow> bytes \<Rightarrow> bytes \<Rightarrow> bytes" where
  "derive_eaes_key sha512 fairplay_key ecdh_shared = sha512_16 sha512 [fairplay_key, ecdh_shared]"

definition VIDEO_STREAM_KEY_LABEL :: string where "VIDEO_STREAM_KEY_LABEL = ''AirPlayStreamKey''"
definition VIDEO_STREAM_IV_LABEL :: string where "VIDEO_STREAM_IV_LABEL = ''AirPlayStreamIV''"

definition derive_stream_key_iv :: "(bytes \<Rightarrow> bytes) \<Rightarrow> bytes \<Rightarrow> u64 \<Rightarrow> bytes \<times> bytes" where
  "derive_stream_key_iv sha512 seed stream_connection_id =
     (sha512_16 sha512 [as_bytes (VIDEO_STREAM_KEY_LABEL @ show_nat (unat stream_connection_id)), seed],
      sha512_16 sha512 [as_bytes (VIDEO_STREAM_IV_LABEL @ show_nat (unat stream_connection_id)), seed])"

section \<open>The sender's side\<close>

text \<open>The wire form of a packet: a 128-byte header whose bytes beyond the three fields are free,
  then the payload, which the sender's cipher covers for the payload types only.\<close>

record sent_packet =
  sp_type :: u16
  sp_timestamp :: u64
  sp_pad1 :: bytes
  sp_pad2 :: bytes
  sp_payload :: bytes

definition sent_ok :: "sent_packet \<Rightarrow> bool" where
  "sent_ok p \<longleftrightarrow> length (sp_pad1 p) = 2 \<and> length (sp_pad2 p) = 112 \<and> length (sp_payload p) \<le> MAX_VIDEO_PAYLOAD_LEN"

definition encrypted_type :: "u16 \<Rightarrow> bool" where
  "encrypted_type t \<longleftrightarrow> t = 0 \<or> t = 4096"

definition wire_header :: "sent_packet \<Rightarrow> bytes" where
  "wire_header p = to_le_bytes 4 (of_nat (length (sp_payload p)) :: u32) @ to_le_bytes 2 (sp_type p) @ sp_pad1 p
     @ to_le_bytes 8 (sp_timestamp p) @ sp_pad2 p"

fun video_wire :: "('c \<Rightarrow> bytes \<Rightarrow> bytes \<times> 'c) \<Rightarrow> 'c video_cipher \<Rightarrow> sent_packet list \<Rightarrow> bytes" where
  "video_wire ap vc [] = []"
| "video_wire ap vc (p # ps) =
     (let (out, vc1) = (if encrypted_type (sp_type p) then video_decrypt ap vc (sp_payload p)
                            else (sp_payload p, vc))
      in wire_header p @ out @ video_wire ap vc1 ps)"

text \<open>What the application should see of a packet.\<close>

definition delivered :: "sent_packet \<Rightarrow> video_event" where
  "delivered p = OnVideo \<lparr>vp_kind = classify_packet (sp_type p) (sp_payload p), vp_timestamp = sp_timestamp p,
                          vp_payload = sp_payload p\<rparr>"

section \<open>Delivery\<close>

lemma kind_encrypted: "classify_packet t payload = VPayload \<longleftrightarrow> encrypted_type t"
  by (auto simp: classify_packet_def encrypted_type_def)

lemma kind_of_encrypted: "encrypted_type t \<Longrightarrow> classify_packet t payload = VPayload"
  by (simp add: kind_encrypted)

lemma wire_header_parsed:
  assumes "sent_ok p"
  shows "length (wire_header p) = VIDEO_HEADER_LEN"
    and "parse_header (wire_header p)
      = \<lparr>payload_len = length (sp_payload p), packet_type = sp_type p, vh_timestamp = sp_timestamp p\<rparr>"
proof -
  have len: "length (sp_payload p) < 2 ^ 32" using assms by (simp add: sent_ok_def MAX_VIDEO_PAYLOAD_LEN_def)
  show "length (wire_header p) = VIDEO_HEADER_LEN"
    using assms by (simp add: wire_header_def sent_ok_def VIDEO_HEADER_LEN_def)
  have "slice 0 4 (wire_header p) = to_le_bytes 4 (of_nat (length (sp_payload p)) :: u32)"
    "slice 4 6 (wire_header p) = to_le_bytes 2 (sp_type p)"
    "slice 8 16 (wire_header p) = to_le_bytes 8 (sp_timestamp p)"
    using assms by (simp_all add: wire_header_def slice_def sent_ok_def)
  then show "parse_header (wire_header p)
      = \<lparr>payload_len = length (sp_payload p), packet_type = sp_type p, vh_timestamp = sp_timestamp p\<rparr>"
    using len by (simp add: parse_header_def from_to_le_bytes unat_of_nat take_bit_nat_eq_self)
qed

lemma process_packet:
  assumes "sent_ok p" and "length out = length (sp_payload p)"
  shows "video_process ap vc (wire_header p @ out @ rest) =
    (if sp_payload p = [] then video_process ap vc rest
     else
       let kind = classify_packet (sp_type p) out;
           (payload, vc) = (if kind = VPayload then video_decrypt ap vc out else (out, vc))
       in OnVideo \<lparr>vp_kind = kind, vp_timestamp = sp_timestamp p, vp_payload = payload\<rparr>
          # video_process ap vc rest)"
  using assms wire_header_parsed [OF assms(1)]
  by (subst video_process.simps) (auto simp: Let_def sent_ok_def not_less)

context stream_cipher
begin

text \<open>A receiving cipher in step with the sending one recovers every packet.\<close>

lemma video_delivered:
  assumes "video_inv invar a" and "video_inv invar b" and "video_ks ks a = video_ks ks b"
    and "\<forall>p \<in> set ps. sent_ok p"
  shows "video_process crypt b (video_wire crypt a ps) = map delivered (filter (\<lambda>p. sp_payload p \<noteq> []) ps) @ [OnVideoEnd]"
  using assms
proof (induction ps arbitrary: a b)
  case Nil
  then show ?case by (simp add: video_process.simps VIDEO_HEADER_LEN_def)
next
  case (Cons p ps)
  then have ok: "sent_ok p" by simp
  show ?case
  proof (cases "encrypted_type (sp_type p)")
    case True
    let ?a = "video_decrypt crypt a (sp_payload p)"
    let ?b = "video_decrypt crypt b (fst ?a)"
    note ca = video_correct [OF Cons.prems(1), of "sp_payload p"] and cb = video_correct [OF Cons.prems(2), of "fst ?a"]
    have out: "fst ?b = sp_payload p" and len: "length (fst ?a) = length (sp_payload p)"
      using ca cb Cons.prems(3) by simp_all
    have keep: "video_process crypt (snd ?b) (video_wire crypt (snd ?a) ps)
        = map delivered (filter (\<lambda>p. sp_payload p \<noteq> []) ps) @ [OnVideoEnd]"
      using ca cb Cons.prems len by (intro Cons.IH) simp_all
    have same: "video_process crypt b (video_wire crypt (snd ?a) ps)
        = map delivered (filter (\<lambda>p. sp_payload p \<noteq> []) ps) @ [OnVideoEnd]" if "sp_payload p = []"
      using that ca Cons.prems by (intro Cons.IH) simp_all
    show ?thesis
      using True out len keep same
      by (simp add: process_packet [OF ok len] kind_of_encrypted delivered_def split_def Let_def)
  next
    case False
    then have "classify_packet (sp_type p) q \<noteq> VPayload" for q by (simp add: kind_encrypted)
    then show ?thesis
      using False Cons by (simp add: process_packet [OF ok] delivered_def)
  qed
qed

end

end
