(* ===== verification/Video_Setup.thy ===== *)
theory Video_Setup
  imports Video_Stream Rtsp_Ap2
begin

text \<open>
  Stream set-up in the build with the \<open>video\<close> feature, src/raop/handlers\_ap2.rs: the FairPlay key
  that the audio connection captures, its hand-over to the mirroring connection through the state
  the connections share, the mirroring stream (type 110) and the legacy realtime stream. A spawned
  video task is the address it accepts and the key and IV of its cipher; a spawned NTP responder
  is the address it answers.
\<close>

section \<open>Model\<close>

record video_ctl =
  vc_ctl :: ctl
  vc_ekey :: "bytes option"
  vc_eiv :: "bytes option"
  video_ekey :: "bytes option"
  video_eiv :: "bytes option"
  video_handler :: bool
  vc_tasks :: "(ip_addr \<times> bytes \<times> bytes) list"
  vc_ntp :: "socket_addr list"

definition on_base :: "(raop_conn \<Rightarrow> raop_conn) \<Rightarrow> video_ctl \<Rightarrow> video_ctl" where
  "on_base f v = v\<lparr>vc_ctl := (vc_ctl v)\<lparr>k_conn := (k_conn (vc_ctl v))\<lparr>ap_base := f (ap_base (k_conn (vc_ctl v)))\<rparr>\<rparr>\<rparr>"

abbreviation vbase :: "video_ctl \<Rightarrow> raop_conn" where
  "vbase v \<equiv> ap_base (k_conn (vc_ctl v))"

definition env_sha512 :: "ctl_env \<Rightarrow> bytes \<Rightarrow> bytes" where
  "env_sha512 env = sha512 (hk_pair (e_hk (x_ap2 env)))"

definition video_error :: "video_ctl \<Rightarrow> video_ctl" where
  "video_error v = v\<lparr>vc_ctl := ctl_error (Crypto (FairPlay ''video stream setup failed'')) (vc_ctl v)\<rparr>"

definition capture_ekey :: "ctl_env \<Rightarrow> video_ctl \<Rightarrow> plist_dict \<Rightarrow> video_ctl" where
  "capture_ekey env v d =
     (case get_as as_data d ''ekey'' of
        None \<Rightarrow> v
      | Some ekey_data \<Rightarrow>
          if length ekey_data \<noteq> 72 then v
          else
            (case fairplay_decrypt (c_fairplay (vbase v)) ekey_data of
               Inr fp_key \<Rightarrow>
                 let derived = (case ap_shared_secret (k_conn (vc_ctl v)) of
                                  Some secret \<Rightarrow> take 16 (env_sha512 env (fp_key @ secret))
                                | None \<Rightarrow> fp_key)
                 in v\<lparr>vc_ekey := Some derived, video_ekey := Some derived\<rparr>
             | Inl e \<Rightarrow> v\<lparr>vc_ctl := ctl_error (Crypto e) (vc_ctl v)\<rparr>))"

definition capture_eiv :: "video_ctl \<Rightarrow> plist_dict \<Rightarrow> video_ctl" where
  "capture_eiv v d =
     (case get_as as_data d ''eiv'' of
        None \<Rightarrow> v
      | Some iv \<Rightarrow> if length iv = 16 then v\<lparr>vc_eiv := Some iv, video_eiv := Some iv\<rparr> else v)"

text \<open>The standalone timing socket of the legacy mode; a failed bind is reported as port 0.\<close>

definition legacy_timing :: "ctl_env \<Rightarrow> video_ctl \<Rightarrow> plist_dict \<Rightarrow> u16 \<times> video_ctl" where
  "legacy_timing env v d =
     (if \<not> is_ap2 (k_conn (vc_ctl v)) \<and> vc_ekey v \<noteq> None then
        let timing_rport = ucast (unwrap_or 0 (get_as as_unsigned_integer d ''timingPort'')) :: u16
        in case bind_port env (vc_ctl v) of
             (None, c1) \<Rightarrow> (0, v\<lparr>vc_ctl := c1\<rparr>)
           | (Some p, c1) \<Rightarrow>
               (p, v\<lparr>vc_ctl := c1, vc_ntp := vc_ntp v @ [(fst (c_remote_socket (vbase v)), timing_rport)]\<rparr>)
      else (0, v))"

definition video_setup_initial :: "ctl_env \<Rightarrow> video_ctl \<Rightarrow> plist_dict \<Rightarrow> plist_dict option \<times> video_ctl" where
  "video_setup_initial env v0 d =
     (let v = capture_eiv (capture_ekey env v0 d) d in
      case setup_initial env (vc_ctl v) d of
        (None, c1) \<Rightarrow> (None, v\<lparr>vc_ctl := c1\<rparr>)
      | (Some resp, c1) \<Rightarrow>
          if unwrap_or False (get_as as_boolean d ''isRemoteControlOnly'') then (Some resp, v\<lparr>vc_ctl := c1\<rparr>)
          else (case legacy_timing env (v\<lparr>vc_ctl := c1\<rparr>) d of
                  (p, v1) \<Rightarrow> (Some (dict_insert ''timingPort'' (PInt (uint p)) resp), v1)))"

definition legacy_fmtp :: "u64 \<Rightarrow> u64 \<Rightarrow> string" where
  "legacy_fmtp spf sr = ''96 '' @ show_nat (unat spf) @ '' 0 16 40 10 14 2 255 0 0 '' @ show_nat (unat sr)"

text \<open>The legacy session is stored before it is started; a start that fails leaves it there.\<close>

definition setup_stream_legacy :: "ctl_env \<Rightarrow> video_ctl \<Rightarrow> plist_dict \<Rightarrow> plist_dict \<Rightarrow> plist_dict option \<times> video_ctl" where
  "setup_stream_legacy env v stream0 stream_resp =
     (let sr = unwrap_or 44100 (get_as as_unsigned_integer stream0 ''sr'');
          spf = unwrap_or 352 (get_as as_unsigned_integer stream0 ''spf'');
          base = vbase v;
          r = rtp_new \<lparr>cfg_remote = ip_show (e_raop (x_ap2 env)) (fst (c_remote_socket base)),
                       cfg_local_addr = local_ip_from base, cfg_rtpmap = ''96 AppleLossless'',
                       cfg_fmtp = Some (legacy_fmtp spf sr),
                       cfg_encryption = Some (unwrap_or (replicate 16 0) (vc_ekey v), unwrap_or (replicate 16 0) (vc_eiv v)),
                       cfg_output_rate = output_sample_rate (c_shared base),
                       cfg_remote_socket = c_remote_socket base\<rparr>
      in case r of
           None \<Rightarrow> (Some stream_resp, on_base (c_rtp_update (\<lambda>_. None)) v)
         | Some rtp \<Rightarrow>
             let control_port = ucast (unwrap_or 0 (get_as as_unsigned_integer stream0 ''controlPort'')) :: u16
             in case rtp_start (env_bind (e_raop (x_ap2 env)) (c_requests base)) True control_port 0 rtp of
                  (Inl e, rtp1) \<Rightarrow> (None, on_base (c_rtp_update (\<lambda>_. Some rtp1)) v)
                | (Inr ((cport, _, dport), fmt), rtp1) \<Rightarrow>
                    (Some (dict_insert ''controlPort'' (PInt (uint cport)) (dict_insert ''dataPort'' (PInt (uint dport)) stream_resp)),
                     on_base (\<lambda>b. notify (AudioInit fmt) (b\<lparr>c_rtp := Some rtp1\<rparr>)) v))"

definition lift_ctl :: "video_ctl \<Rightarrow> 'a \<times> ctl \<Rightarrow> 'a \<times> video_ctl" where
  "lift_ctl v r = (fst r, v\<lparr>vc_ctl := snd r\<rparr>)"

definition video_setup_stream_realtime :: "ctl_env \<Rightarrow> video_ctl \<Rightarrow> plist_dict \<Rightarrow> plist_dict \<Rightarrow> plist_dict option \<times> video_ctl" where
  "video_setup_stream_realtime env v stream0 stream_resp =
     (case Option.bind (get_as as_data stream0 ''shk'') shk_from_slice of
        Some shk \<Rightarrow> lift_ctl v (setup_stream_realtime env (vc_ctl v) stream0 stream_resp)
      | None \<Rightarrow> setup_stream_legacy env v stream0 stream_resp)"

text \<open>The connection id, \<open>None\<close> when it is negative.\<close>

definition stream_connection_id :: "plist_dict \<Rightarrow> u64 option" where
  "stream_connection_id stream0 =
     (case get_as as_signed_integer stream0 ''streamConnectionID'' of
        Some n \<Rightarrow> if n < 0 then None else Some (of_int n)
      | None \<Rightarrow> Some 0)"

text \<open>Where the key comes from. The shared key is read again in the second branch, as the code
  does; no write comes between.\<close>

definition video_key_iv :: "ctl_env \<Rightarrow> video_ctl \<Rightarrow> u64 \<Rightarrow> (bytes \<times> bytes) option" where
  "video_key_iv env v scid =
     (case (case vc_ekey v of Some k \<Rightarrow> Some k | None \<Rightarrow> video_ekey v) of
        Some aeskey_audio \<Rightarrow> Some (derive_stream_key_iv (env_sha512 env) aeskey_audio scid)
      | None \<Rightarrow>
          (case ap_pair_verify_secret (k_conn (vc_ctl v)) of
             Some ecdh \<Rightarrow>
               (case video_ekey v of
                  Some fp_key \<Rightarrow>
                    Some (derive_stream_key_iv (env_sha512 env) (derive_eaes_key (env_sha512 env) fp_key ecdh) scid)
                | None \<Rightarrow> None)
           | None \<Rightarrow> None))"

definition setup_stream_video :: "ctl_env \<Rightarrow> video_ctl \<Rightarrow> plist_dict \<Rightarrow> plist_dict \<Rightarrow> plist_dict option \<times> video_ctl" where
  "setup_stream_video env v stream0 stream_resp =
     (case stream_connection_id stream0 of
        None \<Rightarrow> (None, video_error v)
      | Some scid \<Rightarrow>
          (case video_key_iv env v scid of
             None \<Rightarrow> (None, video_error v)
           | Some (ekey, eiv) \<Rightarrow>
               (case bind_port env (vc_ctl v) of
                  (None, c1) \<Rightarrow> (None, v\<lparr>vc_ctl := c1\<rparr>)
                | (Some video_port, c1) \<Rightarrow>
                    let v1 = v\<lparr>vc_ctl := c1\<rparr>;
                        v2 = (if video_handler v1
                              then v1\<lparr>vc_tasks := vc_tasks v1 @ [(fst (c_remote_socket (vbase v1)), ekey, eiv)]\<rparr> else v1)
                    in (Some (dict_insert ''dataPort'' (PInt (uint video_port)) stream_resp), v2))))"

definition video_setup_streams :: "ctl_env \<Rightarrow> video_ctl \<Rightarrow> plist list \<Rightarrow> plist_dict option \<times> video_ctl" where
  "video_setup_streams env v streams =
     (case Option.bind (case streams of [] \<Rightarrow> None | s # _ \<Rightarrow> Some s) as_dictionary of
        None \<Rightarrow> (None, v)
      | Some stream0 \<Rightarrow>
          (case get_as as_unsigned_integer stream0 ''type'' of
             None \<Rightarrow> (None, v)
           | Some stream_type \<Rightarrow>
               let stream_resp = dict_insert ''type'' (PInt (uint stream_type)) [] in
               (case (if stream_type = 96 then video_setup_stream_realtime env v stream0 stream_resp
                      else if stream_type = 103 then lift_ctl v (setup_stream_buffered env (vc_ctl v) stream0 stream_resp)
                      else if stream_type = 130 then lift_ctl v (setup_stream_rc env (vc_ctl v) stream0 stream_resp)
                      else if stream_type = 110 then setup_stream_video env v stream0 stream_resp
                      else (Some stream_resp, v)) of
                  (None, v1) \<Rightarrow> (None, v1)
                | (Some resp1, v1) \<Rightarrow>
                    (case bind_port env (vc_ctl v1) of
                       (None, c2) \<Rightarrow> (None, v1\<lparr>vc_ctl := c2\<rparr>)
                     | (Some ctrl_port, c2) \<Rightarrow>
                         (Some (dict_insert ''streams''
                            (PArray [PDict (dict_insert ''controlPort'' (PInt (uint ctrl_port)) resp1)]) []),
                          v1\<lparr>vc_ctl := c2\<rparr>)))))"

section \<open>From the FairPlay key to the screen\<close>

text \<open>What another connection of the server sees of the shared keys.\<close>

definition handed_over :: "video_ctl \<Rightarrow> video_ctl \<Rightarrow> video_ctl" where
  "handed_over a v = v\<lparr>video_ekey := video_ekey a, video_eiv := video_eiv a\<rparr>"

definition session_seed :: "ctl_env \<Rightarrow> video_ctl \<Rightarrow> bytes \<Rightarrow> bytes" where
  "session_seed env a fp_key =
     (case ap_shared_secret (k_conn (vc_ctl a)) of
        Some secret \<Rightarrow> take 16 (env_sha512 env (fp_key @ secret)) | None \<Rightarrow> fp_key)"

lemma legacy_timing_keys:
  "video_ekey (snd (legacy_timing env v d)) = video_ekey v" "vc_ekey (snd (legacy_timing env v d)) = vc_ekey v"
  by (simp_all add: legacy_timing_def Let_def split: prod.split option.split)

lemma capture_eiv_keys [simp]:
  "video_ekey (capture_eiv v d) = video_ekey v" "vc_ekey (capture_eiv v d) = vc_ekey v" "vc_ctl (capture_eiv v d) = vc_ctl v"
  by (simp_all add: capture_eiv_def split: option.split)

lemma initial_captures:
  assumes "get_as as_data d ''ekey'' = Some e" "length e = 72"
    and "fairplay_decrypt (c_fairplay (vbase a)) e = Inr fp_key"
  shows "video_ekey (snd (video_setup_initial env a d)) = Some (session_seed env a fp_key)"
proof -
  have "video_ekey (capture_ekey env a d) = Some (session_seed env a fp_key)"
    using assms by (simp add: capture_ekey_def session_seed_def Let_def)
  moreover have "video_ekey (snd (video_setup_initial env a d)) = video_ekey (capture_ekey env a d)"
    by (simp add: video_setup_initial_def Let_def split_def legacy_timing_keys split: option.split)
  ultimately show ?thesis by simp
qed

lemma video_run_skips:
  "\<forall>r \<in> set before. \<exists>addr d. r = Accepted addr d \<and> fst addr \<noteq> peer \<Longrightarrow>
   video_run ap peer vc (before @ rest) = video_run ap peer vc rest"
  by (induction before) (auto simp: video_peer_ip_matches_def)

lemma length_sha512_16: "\<forall>x. length (h x) = 64 \<Longrightarrow> length (sha512_16 h parts) = 16"
  by (simp add: sha512_16_def)

lemma video_new_inv: "ok (ctr ekey eiv) \<Longrightarrow> video_inv ok (video_new ctr ekey eiv)"
  by (simp add: video_inv_def video_new_def)

text \<open>
  C19: Screen mirroring works from the FairPlay key to the application. When the audio connection's
  initial SETUP carries a 72-byte key that FairPlay decrypts, a mirroring connection of the same
  server whose stream SETUP has a connection id that is not negative gets the port that was bound,
  and a task for its address is started with the key and IV derived from that FairPlay key and the
  pairing secret. Over that task, whatever connections come from other addresses first, a sender
  with the same key and IV has every packet with a payload delivered in order, decrypted, with its
  class and time stamp, and then exactly one end notice. The counter-mode cipher is assumed to be
  a stream cipher, and SHA-512 to give 64 bytes.
\<close>

theorem mirroring_end_to_end:
  assumes "stream_cipher ap k ok" and "\<forall>ekey eiv. length ekey = 16 \<and> length eiv = 16 \<longrightarrow> ok (ctr ekey eiv)"
    and "\<forall>x. length (env_sha512 env x) = 64"
    and "get_as as_data d ''ekey'' = Some e" and "length e = 72"
    and "fairplay_decrypt (c_fairplay (vbase a)) e = Inr fp_key"
    and "vc_ekey v = None" and "video_handler v"
    and "stream_connection_id stream0 = Some scid" and "x_bind env (hub_binds (k_hub (vc_ctl v))) = Some p"
    and "\<forall>q \<in> set ps. sent_ok q"
    and "\<forall>r \<in> set before. \<exists>addr b. r = Accepted addr b \<and> fst addr \<noteq> fst (c_remote_socket (vbase v))"
  defines "task \<equiv> (fst (c_remote_socket (vbase v)), derive_stream_key_iv (env_sha512 env) (session_seed env a fp_key) scid)"
  shows "fst (setup_stream_video env (handed_over (snd (video_setup_initial env a d)) v) stream0 resp)
           = Some (dict_insert ''dataPort'' (PInt (uint p)) resp)
    \<and> vc_tasks (snd (setup_stream_video env (handed_over (snd (video_setup_initial env a d)) v) stream0 resp))
           = vc_tasks v @ [task]
    \<and> video_run ap (fst task) (video_new ctr (fst (snd task)) (snd (snd task)))
        (before @ Accepted (fst task, sport) (video_wire ap (video_new ctr (fst (snd task)) (snd (snd task))) ps) # later)
      = map delivered (filter (\<lambda>q. sp_payload q \<noteq> []) ps) @ [OnVideoEnd]"
proof -
  let ?vc = "video_new ctr (fst (snd task)) (snd (snd task))"
  have key: "video_ekey (snd (video_setup_initial env a d)) = Some (session_seed env a fp_key)"
    using assms(4-6) by (rule initial_captures)
  have "length (fst (snd task)) = 16" "length (snd (snd task)) = 16"
    using assms(3) by (simp_all add: task_def derive_stream_key_iv_def length_sha512_16)
  then have inv: "video_inv ok ?vc" using assms(2) by (intro video_new_inv) simp
  have "video_run ap (fst task) ?vc (before @ Accepted (fst task, sport) (video_wire ap ?vc ps) # later)
      = video_process ap ?vc (video_wire ap ?vc ps)"
    using assms(12) by (subst video_run_skips) (simp_all add: task_def video_peer_ip_matches_def)
  also have "\<dots> = map delivered (filter (\<lambda>q. sp_payload q \<noteq> []) ps) @ [OnVideoEnd]"
    using stream_cipher.video_delivered [OF assms(1) inv inv refl assms(11)] .
  finally show ?thesis
    using key assms(7-10)
    by (simp add: setup_stream_video_def video_key_iv_def handed_over_def bind_port_def task_def split: prod.split)
qed

definition sample_video :: video_ctl where
  "sample_video = \<lparr>vc_ctl = sample_ctl, vc_ekey = None, vc_eiv = None, video_ekey = None, video_eiv = None, video_handler = True,
     vc_tasks = [], vc_ntp = []\<rparr>"

definition sample_mirroring :: video_ctl where
  "sample_mirroring = on_base (\<lambda>b. b\<lparr>c_fairplay := fairplay_new\<lparr>keymsglen := 164\<rparr>\<rparr>) sample_video"

definition sample_sent :: "sent_packet list" where
  "sample_sent = [\<lparr>sp_type = 1, sp_timestamp = 1, sp_pad1 = [0, 0], sp_pad2 = replicate 112 0, sp_payload = [1]\<rparr>,
     \<lparr>sp_type = 0, sp_timestamp = 2, sp_pad1 = [0, 0], sp_pad2 = replicate 112 0, sp_payload = [2, 3]\<rparr>]"

definition sample_xor_ctr :: "bytes \<Rightarrow> bytes \<Rightarrow> aes_ctr" where
  "sample_xor_ctr = aes_new (\<lambda>k b. map2 (XOR) k b)"

theorem mirroring_end_to_end_witness:
  "fst (setup_stream_video sample_ctl_env (handed_over (snd (video_setup_initial sample_ctl_env sample_mirroring
       [(''ekey'', PData (replicate 72 1))])) sample_video) [] []) = Some [(''dataPort'', PInt 6000)]"
proof -
  have "\<forall>x. length (env_sha512 sample_ctl_env x) = 64"
    by (simp add: env_sha512_def sample_ctl_env_def sample_ap2_env_def sample_hk_def sample_crypto_def min_def)
  moreover have "\<forall>ekey eiv. length ekey = 16 \<and> length eiv = 16 \<longrightarrow> ctr_inv (sample_xor_ctr ekey eiv)"
    by (simp add: ctr_inv_def sample_xor_ctr_def aes_new_def BLOCK_SIZE_def)
  moreover have "get_as as_data [(''ekey'', PData (replicate 72 1))] ''ekey'' = Some (replicate 72 1)"
    by (simp add: get_as_def dict_get_def)
  moreover have "fairplay_decrypt (c_fairplay (vbase sample_mirroring)) (replicate 72 1)
      = Inr (the (playfair_decrypt (replicate 164 0) (replicate 72 1)))"
    by (simp add: fairplay_decrypt_def fairplay_new_def sample_mirroring_def on_base_def)
  moreover have "stream_connection_id [] = Some 0"
    by (simp add: stream_connection_id_def get_as_def dict_get_def)
  moreover have "x_bind sample_ctl_env n = Some 6000" for n by (simp add: sample_ctl_env_def)
  moreover have "\<forall>q \<in> set sample_sent. sent_ok q" by (simp add: sample_sent_def sent_ok_def MAX_VIDEO_PAYLOAD_LEN_def)
  ultimately show ?thesis
    using mirroring_end_to_end [OF aesctr.stream_cipher_axioms, of sample_xor_ctr sample_ctl_env
        "[(''ekey'', PData (replicate 72 1))]" "replicate 72 1" sample_mirroring "the (playfair_decrypt (replicate 164 0) (replicate 72 1))" sample_video "[]" 0 6000
        sample_sent "[Accepted (V4 [10, 0, 0, 9], 1) []]" "[]"]
    by (simp add: sample_video_def sample_ctl_def ctl_new_def ap2_conn_new_def sample_conn_def dict_insert_def)
qed

section \<open>Keys that are missing\<close>

text \<open>The branch for a pairing secret without an own key repeats the test that failed just before, so
  a stream is set up only with a captured key and the pairing secret never enters its key here.\<close>

lemma pair_verify_key_unused:
  "video_key_iv env v scid =
     map_option (\<lambda>seed. derive_stream_key_iv (env_sha512 env) seed scid) (case vc_ekey v of Some k \<Rightarrow> Some k | None \<Rightarrow> video_ekey v)"
  by (simp add: video_key_iv_def split: option.split)

text \<open>A legacy stream without a captured key runs with the key and IV of zeros, unlike a mirroring
  stream, which is declined.\<close>

lemma mirroring_without_key_declined:
  "vc_ekey v = None \<Longrightarrow> video_ekey v = None \<Longrightarrow> fst (setup_stream_video env v stream0 resp) = None"
  by (simp add: setup_stream_video_def pair_verify_key_unused split: option.split)

text \<open>The response to a legacy stream names the port of a socket that is already closed as the
  control port, not the one the session listens on.\<close>

lemma legacy_hub: "setup_stream_legacy env v stream0 resp = (r, w) \<Longrightarrow> k_hub (vc_ctl w) = k_hub (vc_ctl v)"
  by (auto simp: setup_stream_legacy_def on_base_def Let_def split: option.splits sum.splits prod.splits)

lemma legacy_control_port:
  assumes "get_as as_unsigned_integer stream0 ''type'' = Some 96" and "Option.bind (get_as as_data stream0 ''shk'') shk_from_slice = None"
    and "video_setup_streams env v [PDict stream0] = (Some resp, v')"
  shows "\<exists>q d. x_bind env (hub_binds (k_hub (vc_ctl v))) = Some q \<and> resp = [(''streams'', PArray [PDict d])]
    \<and> dict_get d ''controlPort'' = Some (PInt (uint q))"
  using assms
  by (auto simp: video_setup_streams_def video_setup_stream_realtime_def Let_def bind_port_def dict_get_insert
      dest!: legacy_hub split: option.splits prod.splits)

end
