(* ===== verification/Hls.thy ===== *)
theory Hls
  imports Rtsp_Ap2
begin

text \<open>
  URL playback: the playback state of src/raop/hls.rs and the handlers of src/raop/handlers\_hls.rs,
  in the build with the \<open>hls\<close> feature. Playback sessions are objects of the application; the
  model names them by the order of their creation and records the calls on them. What a session
  answers when it is asked is a function of the calls so far; it answers finite numbers. Reading
  and writing XML property lists are parameters, as in \<open>ctl_env\<close>. Requests without a route
  here are dispatched as in Rtsp_Ap2.
\<close>

section \<open>State\<close>

datatype hls_call =
    HlsPlay string f64
  | HlsSeek nat u32
  | HlsSetRate nat u32
  | HlsStop nat

record hls_answer =
  a_duration :: rat
  a_position :: rat
  a_rate :: rat
  a_ready :: bool

record hls_env =
  h_env :: ctl_env
  xml_write :: "plist \<Rightarrow> bytes option"
  h_ask :: "hls_call list \<Rightarrow> nat \<Rightarrow> hls_answer"

record hls_state =
  hls_session :: "nat option"
  hls_session_id :: "string option"

text \<open>\<open>h_calls\<close> is the log of calls to the application; \<open>h_created\<close> counts the sessions it made.\<close>

record hls_ctl =
  h_ctl :: ctl
  h_state :: hls_state
  h_handler :: bool
  h_calls :: "hls_call list"
  h_created :: nat

type_synonym hls_handler_fun =
  "hls_env \<Rightarrow> hls_ctl \<Rightarrow> request_view \<Rightarrow> http_response \<Rightarrow> bytes option \<times> hls_ctl \<times> http_response"

definition hls_state_new :: hls_state where
  "hls_state_new = \<lparr>hls_session = None, hls_session_id = None\<rparr>"

definition stop_current :: "hls_ctl \<Rightarrow> hls_ctl" where
  "stop_current h =
     (case hls_session (h_state h) of
        Some s \<Rightarrow> h\<lparr>h_calls := h_calls h @ [HlsStop s], h_state := (h_state h)\<lparr>hls_session := None\<rparr>\<rparr>
      | None \<Rightarrow> h)"

definition replace_session :: "nat \<Rightarrow> string option \<Rightarrow> hls_ctl \<Rightarrow> hls_ctl" where
  "replace_session s sid h =
     (let h1 = stop_current h in h1\<lparr>h_state := (h_state h1)\<lparr>hls_session := Some s, hls_session_id := sid\<rparr>\<rparr>)"

definition clear_session :: "hls_ctl \<Rightarrow> hls_ctl" where
  "clear_session h = (let h1 = stop_current h in h1\<lparr>h_state := (h_state h1)\<lparr>hls_session_id := None\<rparr>\<rparr>)"

definition hls_drop :: "hls_ctl \<Rightarrow> hls_ctl" where
  "hls_drop h = clear_session h"

section \<open>Handlers\<close>

definition mac_string :: "bytes \<Rightarrow> string" where
  "mac_string hw =
     (case map (\<lambda>b. [hex_digit_upper (unat b div 16), hex_digit_upper (unat b mod 16)]) hw of
        [] \<Rightarrow> [] | x # xs \<Rightarrow> x @ concat (map (\<lambda>y. '':'' @ y) xs))"

definition server_info_dict :: "hls_ctl \<Rightarrow> plist_dict" where
  "server_info_dict h =
     (let mac = mac_string (hwaddr (c_shared (ap_base (k_conn (h_ctl h)))))
      in [(''features'', PInt 0x27F), (''macAddress'', PString mac), (''model'', PString GLOBAL_MODEL),
          (''osBuildVersion'', PString ''12B435''), (''protovers'', PString ''1.0''), (''srcvers'', PString AP2_SRCVERS),
          (''vv'', PInt 2), (''deviceid'', PString mac)])"

definition xml_reply :: "hls_env \<Rightarrow> plist_dict \<Rightarrow> http_response \<Rightarrow> bytes option \<times> http_response" where
  "xml_reply env d resp =
     (case xml_write env (PDict d) of
        None \<Rightarrow> (None, resp)
      | Some buf \<Rightarrow> (Some buf, add_header ''Content-Type'' ''text/x-apple-plist+xml'' resp))"

definition handle_server_info :: hls_handler_fun where
  "handle_server_info env h rv resp = (case xml_reply env (server_info_dict h) resp of (b, r) \<Rightarrow> (b, h, r))"

text \<open>\<open>x as f32\<close>, as a double: rounding, or infinity beyond the largest single.\<close>

definition f64_as_f32 :: "f64 \<Rightarrow> f64" where
  "f64_as_f32 x =
     (case x of
        NotFinite \<Rightarrow> NotFinite
      | Finite r \<Rightarrow> let s = round_f32 r in if \<bar>s\<bar> \<ge> 2 ^ 128 then NotFinite else Finite s)"

definition handle_play :: hls_handler_fun where
  "handle_play env h rv resp =
     (case Option.bind (rv_data rv) (\<lambda>d. Option.bind (x_plist_read (h_env env) d) as_dictionary) of
        None \<Rightarrow> (None, h, resp)
      | Some dict \<Rightarrow>
          (case get_as as_string dict ''Content-Location'' of
             None \<Rightarrow> (None, h, resp)
           | Some target \<Rightarrow>
               let start_pos = f64_as_f32 (unwrap_or (Finite 0) (get_as as_real dict ''Start-Position''));
                   sid = rv_header rv ''X-Apple-Session-ID''
               in if \<not> h_handler h then (None, h, resp)
                  else
                    let s = h_created h;
                        h1 = h\<lparr>h_calls := h_calls h @ [HlsPlay target start_pos], h_created := Suc s\<rparr>
                    in (None, replace_session s sid h1, resp)))"

definition playback_dict :: "hls_answer \<Rightarrow> plist_dict" where
  "playback_dict a =
     (let loaded_duration = max (round_f64 (a_duration a - a_position a)) 0
      in [(''duration'', PReal (Finite (a_duration a))), (''position'', PReal (Finite (a_position a))),
          (''rate'', PReal (Finite (a_rate a))), (''readyToPlay'', PInt (if a_ready a then 1 else 0)),
          (''playbackBufferEmpty'', PInt 0), (''playbackBufferFull'', PInt 1), (''playbackLikelyToKeepUp'', PInt 1),
          (''loadedTimeRanges'', PArray [PDict [(''start'', PReal (Finite (a_position a))),
                                                (''duration'', PReal (Finite loaded_duration))]]),
          (''seekableTimeRanges'', PArray [PDict [(''start'', PReal (Finite 0)), (''duration'', PReal (Finite (a_duration a)))]])])"

definition handle_playback_info :: hls_handler_fun where
  "handle_playback_info env h rv resp =
     (case hls_session (h_state h) of
        None \<Rightarrow> (None, h, resp)
      | Some s \<Rightarrow> (case xml_reply env (playback_dict (h_ask env (h_calls h) s)) resp of (b, r) \<Rightarrow> (b, h, r)))"

definition f32_is_finite :: "u32 \<Rightarrow> bool" where
  "f32_is_finite bits \<longleftrightarrow> bits AND 0x7F800000 \<noteq> 0x7F800000"

fun query_float :: "(string \<Rightarrow> u32 option) \<Rightarrow> string \<Rightarrow> string list \<Rightarrow> u32 option" where
  "query_float parse k [] = None"
| "query_float parse k (prm # ps) =
     (case split_once (CHR ''='') prm of
        None \<Rightarrow> query_float parse k ps
      | Some (pk, val) \<Rightarrow>
          if pk = k then
            (case parse val of None \<Rightarrow> None | Some x \<Rightarrow> if f32_is_finite x then Some x else None)
          else query_float parse k ps)"

definition parse_query_float :: "(string \<Rightarrow> u32 option) \<Rightarrow> string \<Rightarrow> string \<Rightarrow> u32 option" where
  "parse_query_float parse target k =
     (case split_on (CHR ''?'') target of
        _ # query # _ \<Rightarrow> query_float parse k (split_on (CHR ''&'') query)
      | _ \<Rightarrow> None)"

definition on_session :: "(nat \<Rightarrow> hls_call) \<Rightarrow> hls_ctl \<Rightarrow> hls_ctl" where
  "on_session call h =
     (case hls_session (h_state h) of
        Some s \<Rightarrow> h\<lparr>h_calls := h_calls h @ [call s]\<rparr> | None \<Rightarrow> h)"

definition handle_query :: "(nat \<Rightarrow> u32 \<Rightarrow> hls_call) \<Rightarrow> string \<Rightarrow> hls_handler_fun" where
  "handle_query call k env h rv resp =
     (case Option.bind (rv_url rv) (\<lambda>target. parse_query_float (parse_f32 (e_raop (x_ap2 (h_env env)))) target k) of
        None \<Rightarrow> (None, h, resp)
      | Some x \<Rightarrow> (None, on_session (\<lambda>s. call s x) h, resp))"

definition handle_scrub :: hls_handler_fun where
  "handle_scrub = handle_query HlsSeek ''position''"

definition handle_rate :: hls_handler_fun where
  "handle_rate = handle_query HlsSetRate ''value''"

definition handle_stop :: hls_handler_fun where
  "handle_stop env h rv resp = (None, clear_session h, resp)"

section \<open>Dispatch\<close>

definition HLS_ROUTES :: "(string \<times> string \<times> hls_handler_fun) list" where
  "HLS_ROUTES =
    [(''GET'', ''/server-info'', handle_server_info),
     (''POST'', ''/play'', handle_play),
     (''GET'', ''/playback-info'', handle_playback_info),
     (''POST'', ''/stop'', handle_stop),
     (''POST'', ''/scrub'', handle_scrub),
     (''POST'', ''/rate'', handle_rate)]"

definition hls_find_route :: "request_view \<Rightarrow> hls_handler_fun option" where
  "hls_find_route rv =
     (case ap2_find_route AP2_ROUTES (request_method rv) (request_url rv) of
        Some _ \<Rightarrow> None
      | None \<Rightarrow>
          map_option (\<lambda>(_, _, f). f)
            (List.find (\<lambda>(m, p, f). m = request_method rv \<and> p = List.hd (split_on (CHR ''?'') (request_url rv))) HLS_ROUTES))"

text \<open>The table of routes ends with those of this feature; every other request takes its old way.\<close>

definition hls_dispatch :: "hls_env \<Rightarrow> hls_ctl \<Rightarrow> request_view \<Rightarrow> http_response \<times> hls_ctl" where
  "hls_dispatch env h rv =
     (let base = ap_base (k_conn (h_ctl h)) in
      case (if authorized (e_raop (x_ap2 (h_env env))) base rv then hls_find_route rv else None) of
        Some f \<Rightarrow>
          (case f env h rv (challenge_response base rv (ok_response rv)) of
             (b, h1, resp) \<Rightarrow> (finish b resp, h1\<lparr>h_ctl := map_base next_request (h_ctl h1)\<rparr>))
      | None \<Rightarrow> (case ap2_dispatch (h_env env) (h_ctl h) rv of (resp, c1) \<Rightarrow> (resp, h\<lparr>h_ctl := c1\<rparr>)))"

definition hls_new :: "ctl \<Rightarrow> bool \<Rightarrow> hls_ctl" where
  "hls_new c hh = \<lparr>h_ctl = c, h_state = hls_state_new, h_handler = hh, h_calls = [], h_created = 0\<rparr>"

section \<open>Sessions are stopped\<close>

inductive hls_step :: "hls_env \<Rightarrow> hls_ctl \<Rightarrow> hls_ctl \<Rightarrow> bool" for env where
  hls_request: "hls_dispatch env h rv = (resp, h') \<Longrightarrow> hls_step env h h'"

fun about :: "hls_call \<Rightarrow> nat option" where
  "about (HlsPlay u p) = None"
| "about (HlsSeek i x) = Some i"
| "about (HlsSetRate i x) = Some i"
| "about (HlsStop i) = Some i"

definition plays :: "hls_call list \<Rightarrow> nat" where
  "plays cs = length (filter (\<lambda>c. about c = None) cs)"

text \<open>No call on a session that was not made yet or has been stopped before.\<close>

definition orderly :: "hls_call list \<Rightarrow> bool" where
  "orderly cs \<longleftrightarrow>
     (\<forall>j < length cs. \<forall>i. about (cs ! j) = Some i \<longrightarrow> i < plays (take j cs) \<and> HlsStop i \<notin> set (take j cs))"

lemma orderly_Nil [simp]: "orderly []" "plays [] = 0"
  by (simp_all add: orderly_def plays_def)

lemma plays_snoc [simp]: "plays (cs @ [c]) = (if about c = None then Suc (plays cs) else plays cs)"
  by (simp add: plays_def)

lemma orderly_snoc:
  "orderly (cs @ [c]) \<longleftrightarrow> orderly cs \<and> (\<forall>i. about c = Some i \<longrightarrow> i < plays cs \<and> HlsStop i \<notin> set cs)"
  by (auto simp: orderly_def nth_append less_Suc_eq)

lemma orderly_once: "orderly cs \<Longrightarrow> count_list cs (HlsStop i) = (if HlsStop i \<in> set cs then 1 else 0)"
proof (induction cs rule: rev_induct)
  case (snoc c cs)
  then show ?case by (cases c) (auto simp: orderly_snoc)
qed simp

lemma orderly_stopped: "orderly cs \<Longrightarrow> HlsStop i \<in> set cs \<Longrightarrow> i < plays cs"
proof (induction cs rule: rev_induct)
  case (snoc c cs)
  then show ?case by (cases c) (auto simp: orderly_snoc)
qed simp

definition hls_ok :: "hls_ctl \<Rightarrow> bool" where
  [inv_defs]: "hls_ok h \<longleftrightarrow>
     orderly (h_calls h) \<and> plays (h_calls h) = h_created h
     \<and> (case hls_session (h_state h) of None \<Rightarrow> True | Some s \<Rightarrow> s < h_created h \<and> HlsStop s \<notin> set (h_calls h))
     \<and> (\<forall>i < h_created h. hls_session (h_state h) \<noteq> Some i \<longrightarrow> HlsStop i \<in> set (h_calls h))"

lemma hls_ok_new: "hls_ok (hls_new c hh)"
  by (simp add: hls_ok_def hls_new_def hls_state_new_def)

lemma hls_ok_stop_current: "hls_ok h \<Longrightarrow> hls_ok (stop_current h)" "hls_session (h_state (stop_current h)) = None"
  by (auto simp: hls_ok_def stop_current_def orderly_snoc split: option.split)

lemma hls_ok_clear: "hls_ok h \<Longrightarrow> hls_ok (clear_session h)"
  using hls_ok_stop_current [of h] by (simp add: clear_session_def hls_ok_def Let_def)

lemma hls_ok_on_session: "hls_ok h \<Longrightarrow> (\<And>s. about (call s) = Some s \<and> call s \<noteq> HlsStop s) \<Longrightarrow> hls_ok (on_session call h)"
  by (auto simp: hls_ok_def on_session_def orderly_snoc split: option.split) (metis about.simps(4) option.inject)+

text \<open>A new session is made before the previous one is stopped.\<close>

lemma hls_ok_play:
  assumes "hls_ok h"
  shows "hls_ok (replace_session (h_created h) sid (h\<lparr>h_calls := h_calls h @ [HlsPlay u p], h_created := Suc (h_created h)\<rparr>))"
proof -
  have new: "HlsStop (h_created h) \<notin> set (h_calls h)"
    using assms orderly_stopped [of "h_calls h" "h_created h"] by (auto simp: hls_ok_def)
  have two: "xs @ [a, b] = (xs @ [a]) @ [b]" for xs :: "hls_call list" and a b by simp
  show ?thesis
    using assms new
    by (cases "hls_session (h_state h)")
      (auto simp: hls_ok_def replace_session_def stop_current_def two orderly_snoc less_Suc_eq Let_def simp del: append_assoc)
qed

lemma hls_ok_route: "hls_find_route rv = Some f \<Longrightarrow> hls_ok h \<Longrightarrow> hls_ok (fst (snd (f env h rv resp)))"
proof -
  have play: "hls_ok (fst (snd (handle_play env h rv resp)))" if "hls_ok h"
    using that hls_ok_play [OF that] by (simp add: handle_play_def Let_def split: option.split)
  have query: "hls_ok (fst (snd (handle_query call k env h rv resp)))"
    if "hls_ok h" "\<And>s x. about (call s x) = Some s \<and> call s x \<noteq> HlsStop s" for call k
    using that by (simp add: handle_query_def hls_ok_on_session split: option.split)
  assume "hls_find_route rv = Some f" "hls_ok h"
  then show ?thesis
    using play query [of HlsSeek "''position''"] query [of HlsSetRate "''value''"] hls_ok_clear [of h]
    by (auto simp: hls_find_route_def HLS_ROUTES_def handle_server_info_def handle_playback_info_def handle_stop_def
        handle_scrub_def handle_rate_def split: option.splits prod.splits if_splits)
qed

lemma hls_ok_dispatch: "hls_ok h \<Longrightarrow> hls_ok (snd (hls_dispatch env h rv))"
proof -
  assume ok: "hls_ok h"
  have ctl: "hls_ok (g\<lparr>h_ctl := c\<rparr>) = hls_ok g" for g c by (simp add: hls_ok_def split: option.split)
  show ?thesis
    using ok hls_ok_route [OF _ ok]
    by (auto simp: hls_dispatch_def Let_def ctl split: option.split prod.split) (metis fst_conv snd_conv)
qed

lemma hls_reachable: "(hls_step env)\<^sup>*\<^sup>* h h' \<Longrightarrow> hls_ok h \<Longrightarrow> hls_ok h'"
proof (induction rule: rtranclp_induct)
  case (step g h')
  from step.hyps(2) obtain rv resp where "hls_dispatch env g rv = (resp, h')" by cases
  with hls_ok_dispatch [of g env rv] step show ?case by simp
qed

text \<open>
  C21: Playback sessions have a definite life. Whatever requests a connection sends, the application
  is never asked to seek, change the rate of or stop a session it has not made or that was stopped
  before; at any moment at most the session made last is not stopped; and once the connection is
  dropped, every session the application ever made for it has been stopped exactly once.
\<close>

theorem hls_sessions_end:
  assumes "(hls_step env)\<^sup>*\<^sup>* (hls_new c hh) h"
  shows "orderly (h_calls (hls_drop h))
    \<and> {i. i < plays (h_calls h) \<and> HlsStop i \<notin> set (h_calls h)} = set_option (hls_session (h_state h))
    \<and> (\<forall>i. count_list (h_calls (hls_drop h)) (HlsStop i) = (if i < plays (h_calls h) then 1 else 0))"
proof -
  have ok: "hls_ok h" using hls_reachable [OF assms hls_ok_new] .
  have dropped: "hls_ok (hls_drop h)" "hls_session (h_state (hls_drop h)) = None" "plays (h_calls (hls_drop h)) = plays (h_calls h)"
    using hls_ok_clear [OF ok] hls_ok_stop_current(2) [of h]
    by (simp_all add: hls_drop_def clear_session_def Let_def) (simp add: stop_current_def split: option.split)
  have "HlsStop i \<in> set (h_calls (hls_drop h)) \<longleftrightarrow> i < plays (h_calls h)" for i
    using dropped orderly_stopped [of "h_calls (hls_drop h)" i] by (auto simp: hls_ok_def)
  moreover have "{i. i < plays (h_calls h) \<and> HlsStop i \<notin> set (h_calls h)} = set_option (hls_session (h_state h))"
    using ok by (auto simp: hls_ok_def split: option.splits)
  ultimately show ?thesis
    using dropped by (simp add: hls_ok_def orderly_once)
qed

definition sample_hls_env :: hls_env where
  "sample_hls_env =
     \<lparr>h_env = sample_ctl_env\<lparr>x_plist_read := \<lambda>d. Some (PDict [(''Content-Location'', PString ''http://a/b.m3u8'')])\<rparr>,
      xml_write = \<lambda>p. Some [], h_ask = \<lambda>cs i. \<lparr>a_duration = 0, a_position = 0, a_rate = 0, a_ready = True\<rparr>\<rparr>"

definition sample_play :: request_view where
  "sample_play = (sample_request ''POST'' Map.empty (Some [1]))\<lparr>rv_url := Some ''/play''\<rparr>"

lemma sample_played:
  "h_calls (snd (hls_dispatch sample_hls_env (hls_new sample_ctl True) sample_play)) = [HlsPlay ''http://a/b.m3u8'' (Finite 0)]"
proof -
  have a: "authorized sample_env (sample_conn []) rv" for rv by (simp add: authorized_def sample_conn_def)
  have r: "hls_find_route sample_play = Some handle_play"
    by (simp add: hls_find_route_def sample_play_def sample_request_def request_method_def request_url_def AP2_ROUTES_def
        HLS_ROUTES_def)
  have b: "ap_base (k_conn sample_ctl) = sample_conn []" "e_raop (x_ap2 (h_env sample_hls_env)) = sample_env"
    by (simp_all add: sample_ctl_def ctl_new_def ap2_conn_new_def sample_hls_env_def sample_ctl_env_def sample_ap2_env_def)
  show ?thesis
    by (simp add: hls_dispatch_def hls_new_def a b r Let_def)
      (simp add: handle_play_def sample_play_def sample_request_def sample_hls_env_def get_as_def dict_get_def unwrap_or_def
        f64_as_f32_def round_f32_def round_binary_def replace_session_def stop_current_def hls_state_new_def)
qed

theorem hls_sessions_end_witness:
  "count_list (h_calls (hls_drop (snd (hls_dispatch sample_hls_env (hls_new sample_ctl True) sample_play)))) (HlsStop 0) = 1"
proof -
  let ?h = "snd (hls_dispatch sample_hls_env (hls_new sample_ctl True) sample_play)"
  have "(hls_step sample_hls_env)\<^sup>*\<^sup>* (hls_new sample_ctl True) ?h"
    by (intro r_into_rtranclp hls_request [of _ _ _ "fst (hls_dispatch sample_hls_env (hls_new sample_ctl True) sample_play)"]) simp
  from hls_sessions_end [OF this] show ?thesis by (simp add: sample_played plays_def)
qed

section \<open>Positions from outside\<close>

text \<open>A position or rate taken from a query string is a finite number; the start position of a
  play request is not checked.\<close>

lemma query_float_finite: "query_float parse k ps = Some x \<Longrightarrow> f32_is_finite x"
  by (induction ps) (auto split: option.splits if_splits)

lemma scrub_finite: "parse_query_float parse target k = Some x \<Longrightarrow> f32_is_finite x"
  by (auto simp: parse_query_float_def split: list.splits intro: query_float_finite)

lemma play_not_finite:
  assumes "h_handler h" "rv_data rv = Some d" "x_plist_read (h_env env) d = Some (PDict dict)"
    and "get_as as_string dict ''Content-Location'' = Some u" "get_as as_real dict ''Start-Position'' = Some NotFinite"
  shows "HlsPlay u NotFinite \<in> set (h_calls (fst (snd (handle_play env h rv resp))))"
  using assms
  by (simp add: handle_play_def unwrap_or_def f64_as_f32_def replace_session_def stop_current_def Let_def split: option.split)

end
