(* ===== verification/Server_Builder.thy ===== *)
theory Server_Builder
  imports Rtsp_Ap2
begin

text \<open>
  The builder and life cycle of the server, src/raop/server.rs, with the loading of the RSA key
  (src/crypto/rsa.rs) and the registration of the mDNS services (src/net/mdns.rs), in the build
  with AirPlay 2. Environment variables, files, PEM decoding, SHA-256, random bytes, the
  operating system's sockets and the mDNS daemon are parameters. Registered services are listed
  with the number of the daemon that announces them.
\<close>

section \<open>The RSA key\<close>

record key_env =
  ke_file :: "string \<Rightarrow> string option"
  ke_var :: "string \<Rightarrow> string option"
  ke_pkcs1 :: "string \<Rightarrow> string + rsa_crypto"
  ke_pkcs8 :: "string \<Rightarrow> string + rsa_crypto"

definition RSA_KEY_PEM_ENV :: string where "RSA_KEY_PEM_ENV = ''SHAIRPLAY_RSA_KEY_PEM''"
definition RSA_KEY_PATH_ENV :: string where "RSA_KEY_PATH_ENV = ''SHAIRPLAY_RSA_KEY_PATH''"

definition from_pem :: "key_env \<Rightarrow> string \<Rightarrow> crypto_error + rsa_crypto" where
  "from_pem ke pem =
     (case ke_pkcs1 ke pem of
        Inr k \<Rightarrow> Inr k
      | Inl _ \<Rightarrow> (case ke_pkcs8 ke pem of Inr k \<Rightarrow> Inr k | Inl e \<Rightarrow> Inl (RsaKey e)))"

fun unescape_newlines :: "string \<Rightarrow> string" where
  "unescape_newlines [] = []"
| "unescape_newlines (c # cs) =
     (if c = CHR 0x5C \<and> take 1 cs = ''n'' then CHR 0x0A # unescape_newlines (drop 1 cs) else c # unescape_newlines cs)"

definition from_file :: "key_env \<Rightarrow> string \<Rightarrow> crypto_error + rsa_crypto" where
  "from_file ke path =
     (case ke_file ke path of
        None \<Rightarrow> Inl (RsaKey ''failed to read RSA key file'')
      | Some pem \<Rightarrow> from_pem ke pem)"

definition from_env :: "key_env \<Rightarrow> string option \<Rightarrow> crypto_error + rsa_crypto" where
  "from_env ke path_override =
     (case path_override of
        Some path \<Rightarrow> from_file ke path
      | None \<Rightarrow>
          (case ke_var ke RSA_KEY_PEM_ENV of
             Some pem_raw \<Rightarrow> from_pem ke (unescape_newlines pem_raw)
           | None \<Rightarrow>
               (case ke_var ke RSA_KEY_PATH_ENV of
                  Some path \<Rightarrow> from_file ke path
                | None \<Rightarrow>
                    Inl (RsaKey ''missing RSA key: set SHAIRPLAY_RSA_KEY_PEM or SHAIRPLAY_RSA_KEY_PATH''))))"

definition load_rsakey :: "key_env \<Rightarrow> string option \<Rightarrow> shairplay_error + rsa_crypto" where
  "load_rsakey ke path_override =
     (case from_env ke path_override of
        Inl _ \<Rightarrow> Inl (Server (InvalidConfiguration
          ''missing/invalid RSA key: set SHAIRPLAY_RSA_KEY_PEM or SHAIRPLAY_RSA_KEY_PATH''))
      | Inr k \<Rightarrow> Inr k)"

section \<open>The builder\<close>

datatype airplay_mode = AirPlay1 | AirPlay2

record builder =
  b_max_clients :: nat
  b_hwaddr :: "bytes option"
  b_password :: "string option"
  b_name :: string
  b_bind :: bind_config
  b_pairing_store :: "memory_pairing_store option"
  b_mode :: airplay_mode
  b_output_sample_rate :: "u32 option"
  b_output_max_channels :: "byte option"
  b_ap1_codecs :: "ap1_codec list option"
  b_ap1_encryption :: "ap1_encryption list option"
  b_rsa_key_path :: "string option"
  b_pin :: "string option"

definition builder_new :: builder where
  "builder_new =
     \<lparr>b_max_clients = 10, b_hwaddr = None, b_password = None, b_name = ''Shairplay'', b_bind = bind_config_default,
      b_pairing_store = None, b_mode = AirPlay2, b_output_sample_rate = None, b_output_max_channels = None,
      b_ap1_codecs = None, b_ap1_encryption = None, b_rsa_key_path = None, b_pin = None\<rparr>"

definition set_max_clients :: "nat \<Rightarrow> builder \<Rightarrow> builder" where "set_max_clients n b = b\<lparr>b_max_clients := n\<rparr>"
definition set_hwaddr :: "bytes \<Rightarrow> builder \<Rightarrow> builder" where "set_hwaddr a b = b\<lparr>b_hwaddr := Some a\<rparr>"
definition set_password :: "string \<Rightarrow> builder \<Rightarrow> builder" where "set_password pw b = b\<lparr>b_password := Some pw\<rparr>"
definition set_port :: "u16 \<Rightarrow> builder \<Rightarrow> builder" where "set_port p b = b\<lparr>b_bind := (b_bind b)\<lparr>port := p\<rparr>\<rparr>"
definition set_bind :: "bind_config \<Rightarrow> builder \<Rightarrow> builder" where "set_bind cfg b = b\<lparr>b_bind := cfg\<rparr>"
definition set_name :: "string \<Rightarrow> builder \<Rightarrow> builder" where "set_name n b = b\<lparr>b_name := n\<rparr>"
definition set_pairing_store :: "memory_pairing_store \<Rightarrow> builder \<Rightarrow> builder" where
  "set_pairing_store st b = b\<lparr>b_pairing_store := Some st\<rparr>"
definition set_mode :: "airplay_mode \<Rightarrow> builder \<Rightarrow> builder" where "set_mode m b = b\<lparr>b_mode := m\<rparr>"
definition set_output_sample_rate :: "u32 \<Rightarrow> builder \<Rightarrow> builder" where
  "set_output_sample_rate r b = b\<lparr>b_output_sample_rate := Some r\<rparr>"
definition set_output_max_channels :: "byte \<Rightarrow> builder \<Rightarrow> builder" where
  "set_output_max_channels c b = b\<lparr>b_output_max_channels := Some c\<rparr>"
definition advertise_codecs :: "ap1_codec list \<Rightarrow> builder \<Rightarrow> builder" where
  "advertise_codecs cs b = b\<lparr>b_ap1_codecs := Some cs\<rparr>"
definition advertise_encryption :: "ap1_encryption list \<Rightarrow> builder \<Rightarrow> builder" where
  "advertise_encryption es b = b\<lparr>b_ap1_encryption := Some es\<rparr>"
definition set_rsa_key_path :: "string \<Rightarrow> builder \<Rightarrow> builder" where "set_rsa_key_path p b = b\<lparr>b_rsa_key_path := Some p\<rparr>"
definition set_pin :: "string \<Rightarrow> builder \<Rightarrow> builder" where "set_pin p b = b\<lparr>b_pin := Some p\<rparr>"

section \<open>Identity\<close>

definition MAX_HWADDR_LEN :: nat where "MAX_HWADDR_LEN = 6"
definition MAX_PASSWORD_LEN :: nat where "MAX_PASSWORD_LEN = 64"

text \<open>\<open>rnd\<close> are the six random bytes; the address is locally administered and unicast.\<close>

definition random_hwaddr :: "bytes \<Rightarrow> bytes" where
  "random_hwaddr rnd = rnd[0 := (rnd ! 0 OR 0x02) AND NOT 0x01]"

definition derive_pi_from_hwaddr :: "(bytes \<Rightarrow> bytes) \<Rightarrow> bytes \<Rightarrow> string" where
  "derive_pi_from_hwaddr sha256 hw =
     (let hash = sha256 hw;
          h = (hash[6 := (hash ! 6 AND 0x0f) OR 0x40])[8 := (hash ! 8 AND 0x3f) OR 0x80];
          part = (\<lambda>a b. concat (map hex2 (slice a b h)))
      in part 0 4 @ ''-'' @ part 4 6 @ ''-'' @ part 6 8 @ ''-'' @ part 8 10 @ ''-'' @ part 10 16)"

record build_env =
  be_key :: key_env
  be_sha256 :: "bytes \<Rightarrow> bytes"
  be_pairing_seed :: bytes
  be_hwaddr :: bytes
  be_identity :: bytes
  be_crypto :: pair_crypto

record mdns_service =
  md_daemon :: nat
  raop_fullname :: "string option"
  airplay_fullname :: "string option"

record raop_server =
  sv_shared :: raop_shared
  sv_store :: memory_pairing_store
  sv_identity_seed :: bytes
  sv_output_max_channels :: "byte option"
  sv_pin :: "string option"
  sv_pairing_id :: string
  sv_device_id :: string
  sv_httpd :: http_server
  sv_max_clients :: nat
  sv_mdns :: "mdns_service option"
  sv_bind :: bind_config
  sv_name :: string
  sv_advertisement :: ap1_advertisement
  sv_mode :: airplay_mode

definition config_error :: "string \<Rightarrow> shairplay_error + 'a" where
  "config_error m = Inl (Server (InvalidConfiguration m))"

text \<open>The checks before anything is loaded, in their order.\<close>

definition build_checks :: "builder \<Rightarrow> shairplay_error + unit" where
  "build_checks b =
     (if b_max_clients b = 0 then Inl (Server (MaxClients 0))
      else if (case b_password b of Some pw \<Rightarrow> length pw > MAX_PASSWORD_LEN | None \<Rightarrow> False)
      then Inl (Server (InvalidPassword (length (the (b_password b)))))
      else if b_output_sample_rate b = Some 0 then config_error ''output_sample_rate must be greater than 0''
      else if b_output_max_channels b = Some 0 then config_error ''output_max_channels must be greater than 0''
      else if b_mode b = AirPlay2 \<and> (b_ap1_codecs b \<noteq> None \<or> b_ap1_encryption b \<noteq> None)
      then config_error ''AP1 advertisement options require AirPlayMode::AirPlay1''
      else Inr ())"

definition build_hwaddr :: "build_env \<Rightarrow> builder \<Rightarrow> shairplay_error + bytes" where
  "build_hwaddr env b =
     (case b_hwaddr b of
        Some addr \<Rightarrow> if length addr = MAX_HWADDR_LEN then Inr addr else Inl (Server (InvalidHwAddr (length addr)))
      | None \<Rightarrow> Inr (random_hwaddr (be_hwaddr env)))"

text \<open>The stored identity, or a fresh one that is handed to the store.\<close>

definition resolve_identity :: "bytes \<Rightarrow> memory_pairing_store \<Rightarrow> bytes \<times> memory_pairing_store" where
  "resolve_identity fresh st =
     (case load_identity st of Some seed \<Rightarrow> (seed, st) | None \<Rightarrow> (fresh, save_identity fresh st))"

definition store_default :: memory_pairing_store where
  "store_default = \<lparr>keys = Map.empty, ms_identity_seed = None\<rparr>"

definition build :: "build_env \<Rightarrow> builder \<Rightarrow> shairplay_error + raop_server" where
  "build env b =
     (case build_checks b of
        Inl e \<Rightarrow> Inl e
      | Inr _ \<Rightarrow>
     (case advertisement_try_new (b_ap1_codecs b) (b_ap1_encryption b) of
        Inl e \<Rightarrow> Inl (Server e)
      | Inr adv \<Rightarrow>
     (case load_rsakey (be_key env) (b_rsa_key_path b) of
        Inl e \<Rightarrow> Inl e
      | Inr rsa \<Rightarrow>
     (case pairing_generate (be_pairing_seed env) of
        Inl e \<Rightarrow> Inl (Crypto e)
      | Inr pg \<Rightarrow>
     (case build_hwaddr env b of
        Inl e \<Rightarrow> Inl e
      | Inr hw \<Rightarrow>
          let st0 = (case b_pairing_store b of Some st \<Rightarrow> st | None \<Rightarrow> store_default);
              (seed, st) = resolve_identity (be_identity env) st0;
              shared = \<lparr>rsakey = rsa, sh_pairing = pg, hwaddr = hw,
                        password = (case b_password b of Some pw \<Rightarrow> pw | None \<Rightarrow> []),
                        pipewire_auth_setup_compat = False, output_sample_rate = b_output_sample_rate b\<rparr>
          in Inr \<lparr>sv_shared = shared, sv_store = st, sv_identity_seed = seed,
                  sv_output_max_channels = b_output_max_channels b, sv_pin = b_pin b,
                  sv_pairing_id = derive_pi_from_hwaddr (be_sha256 env) hw, sv_device_id = hwaddr_airplay hw,
                  sv_httpd = set_bind_config (b_bind b) http_server_new, sv_max_clients = b_max_clients b,
                  sv_mdns = None, sv_bind = b_bind b, sv_name = b_name b, sv_advertisement = adv, sv_mode = b_mode b\<rparr>)))))"

section \<open>Life cycle\<close>

definition service_info :: "pair_crypto \<Rightarrow> raop_server \<Rightarrow> airplay_service_info" where
  "service_info pc sv =
     (let pw = password (sv_shared sv) \<noteq> [] in
      if sv_mode sv = AirPlay2 then
        new_airplay2 (sv_name sv) (srv_port (sv_httpd sv)) (hwaddr (sv_shared sv)) pw
          (concat (map hex2 (ed_public pc (sv_identity_seed sv)))) (sv_pairing_id sv) (sv_pin sv \<noteq> None)
          (has_any_pairing (sv_store sv))
      else
        new_with_ap1_advertisement (sv_name sv) (srv_port (sv_httpd sv)) (hwaddr (sv_shared sv)) pw (sv_advertisement sv))"

text \<open>The world outside: what daemons announce, and how many were started; \<open>ptp_sinks\<close> counts the
  clock sinks.\<close>

record net_world =
  announced :: "(nat \<times> string \<times> airplay_service_info) list"
  daemons :: nat
  ptp_sinks :: nat

record net_env =
  ne_bind :: os_bind
  ne_ci :: bool
  ne_daemon :: "nat \<Rightarrow> string option"
  ne_fullname :: "string \<Rightarrow> airplay_service_info \<Rightarrow> string + string"
  ne_register :: "nat \<Rightarrow> string \<Rightarrow> string option"
  ne_crypto :: pair_crypto

definition mdns_new :: "net_env \<Rightarrow> net_world \<Rightarrow> (network_error + mdns_service) \<times> net_world" where
  "mdns_new ne w =
     (case ne_daemon ne (daemons w) of
        Some e \<Rightarrow> (Inl (Mdns e), w)
      | None \<Rightarrow> (Inr \<lparr>md_daemon = daemons w, raop_fullname = None, airplay_fullname = None\<rparr>, w\<lparr>daemons := Suc (daemons w)\<rparr>))"

definition announce_service :: "net_env \<Rightarrow> string \<Rightarrow> airplay_service_info \<Rightarrow> nat \<Rightarrow> net_world \<Rightarrow> (network_error + string) \<times> net_world" where
  "announce_service ne ty info d w =
     (case ne_fullname ne ty info of
        Inl e \<Rightarrow> (Inl (Mdns e), w)
      | Inr fullname \<Rightarrow>
          (case ne_register ne d fullname of
             Some e \<Rightarrow> (Inl (Mdns e), w)
           | None \<Rightarrow> (Inr fullname, w\<lparr>announced := announced w @ [(d, fullname, info)]\<rparr>)))"

definition register_raop :: "net_env \<Rightarrow> airplay_service_info \<Rightarrow> mdns_service \<Rightarrow> net_world \<Rightarrow> (network_error + mdns_service) \<times> net_world" where
  "register_raop ne info m w =
     (case announce_service ne ''_raop._tcp.local.'' info (md_daemon m) w of
        (Inl e, w1) \<Rightarrow> (Inl e, w1)
      | (Inr f, w1) \<Rightarrow> (Inr (m\<lparr>raop_fullname := Some f\<rparr>), w1))"

definition register_airplay :: "net_env \<Rightarrow> airplay_service_info \<Rightarrow> mdns_service \<Rightarrow> net_world \<Rightarrow> (network_error + mdns_service) \<times> net_world" where
  "register_airplay ne info m w =
     (case announce_service ne ''_airplay._tcp.local.'' info (md_daemon m) w of
        (Inl e, w1) \<Rightarrow> (Inl e, w1)
      | (Inr f, w1) \<Rightarrow> (Inr (m\<lparr>airplay_fullname := Some f\<rparr>), w1))"

definition withdraw :: "nat \<Rightarrow> string option \<Rightarrow> net_world \<Rightarrow> net_world" where
  "withdraw d name w =
     (case name of None \<Rightarrow> w | Some f \<Rightarrow> w\<lparr>announced := filter (\<lambda>(d', f', _). (d', f') \<noteq> (d, f)) (announced w)\<rparr>)"

definition unregister_raop :: "mdns_service \<Rightarrow> net_world \<Rightarrow> mdns_service \<times> net_world" where
  "unregister_raop m w = (m\<lparr>raop_fullname := None\<rparr>, withdraw (md_daemon m) (raop_fullname m) w)"

definition unregister_airplay :: "mdns_service \<Rightarrow> net_world \<Rightarrow> mdns_service \<times> net_world" where
  "unregister_airplay m w = (m\<lparr>airplay_fullname := None\<rparr>, withdraw (md_daemon m) (airplay_fullname m) w)"

text \<open>Dropping the service withdraws what is left and shuts its daemon down.\<close>

definition mdns_drop :: "mdns_service \<Rightarrow> net_world \<Rightarrow> net_world" where
  "mdns_drop m w =
     (case unregister_raop m w of (m1, w1) \<Rightarrow>
        (case unregister_airplay m1 w1 of (m2, w2) \<Rightarrow> w2\<lparr>announced := filter (\<lambda>x. fst x \<noteq> md_daemon m) (announced w2)\<rparr>))"

text \<open>The registration part of \<open>start\<close>; an early return drops the service made so far.\<close>

definition start_mdns :: "net_env \<Rightarrow> raop_server \<Rightarrow> net_world \<Rightarrow> (shairplay_error + unit) \<times> raop_server \<times> net_world" where
  "start_mdns ne sv w =
     (let info = service_info (ne_crypto ne) sv in
      case mdns_new ne w of
        (Inl e, w1) \<Rightarrow> (Inl (Network e), sv, w1)
      | (Inr m, w1) \<Rightarrow>
          (case register_raop ne info m w1 of
             (Inl e, w2) \<Rightarrow> (Inl (Network e), sv, mdns_drop m w2)
           | (Inr m1, w2) \<Rightarrow>
               (case (if sv_mode sv = AirPlay2 then register_airplay ne info m1 w2 else (Inr m1, w2)) of
                  (Inl e, w3) \<Rightarrow> (Inl (Network e), sv, mdns_drop m1 w3)
                | (Inr m2, w3) \<Rightarrow>
                    (Inr (), sv\<lparr>sv_mdns := Some m2\<rparr>, (case sv_mdns sv of Some old \<Rightarrow> mdns_drop old w3 | None \<Rightarrow> w3)))))"

definition start :: "net_env \<Rightarrow> raop_server \<Rightarrow> net_world \<Rightarrow> (shairplay_error + unit) \<times> raop_server \<times> net_world" where
  "start ne sv w =
     (case server_start (ne_bind ne) (port (sv_bind sv)) (sv_httpd sv) of
        (Inl e, h) \<Rightarrow> (Inl (Network e), sv\<lparr>sv_httpd := h\<rparr>, w)
      | (Inr _, h) \<Rightarrow>
          let sv1 = sv\<lparr>sv_httpd := h\<rparr>;
              w1 = (if sv_mode sv1 = AirPlay2 then w\<lparr>ptp_sinks := Suc (ptp_sinks w)\<rparr> else w)
          in if ne_ci ne then (Inr (), sv1, w1) else start_mdns ne sv1 w1)"

definition is_running :: "raop_server \<Rightarrow> bool" where
  "is_running sv = running (sv_httpd sv)"

definition stop :: "raop_server \<Rightarrow> net_world \<Rightarrow> raop_server \<times> net_world" where
  "stop sv w =
     (let (sv1, w1) =
        (case sv_mdns sv of
           Some m \<Rightarrow>
             (case unregister_raop m w of (m1, wa) \<Rightarrow>
                (case unregister_airplay m1 wa of (m2, wb) \<Rightarrow> (sv\<lparr>sv_mdns := None\<rparr>, mdns_drop m2 wb)))
         | None \<Rightarrow> (sv, w))
      in (sv1\<lparr>sv_httpd := server_stop (sv_httpd sv1)\<rparr>, w1))"

section \<open>What is announced\<close>

inductive life_step :: "raop_server \<times> net_world \<Rightarrow> raop_server \<times> net_world \<Rightarrow> bool" where
  life_start: "start ne sv w = (r, sv', w') \<Longrightarrow> life_step (sv, w) (sv', w')"
| life_stop: "stop sv w = (sv', w') \<Longrightarrow> life_step (sv, w) (sv', w')"

definition listening_ok :: "http_server \<Rightarrow> bool" where
  [inv_defs]: "listening_ok h \<longleftrightarrow> (running h \<longrightarrow> (\<exists>a. (a, srv_port h) \<in> set (listeners h)))"

definition held :: "raop_server \<Rightarrow> nat option" where
  "held sv = map_option md_daemon (sv_mdns sv)"

definition life_ok :: "raop_server \<times> net_world \<Rightarrow> bool" where
  [inv_defs]: "life_ok s \<longleftrightarrow>
     (case s of (sv, w) \<Rightarrow>
        listening_ok (sv_httpd sv)
        \<and> (held sv \<noteq> None \<longrightarrow> running (sv_httpd sv))
        \<and> (\<forall>d \<in> set_option (held sv). d < daemons w)
        \<and> (\<forall>(d, f, info) \<in> set (announced w). held sv = Some d \<and> si_port info = srv_port (sv_httpd sv)))"

lemma server_start_listening:
  "listening_ok h \<Longrightarrow> server_start os p h = (r, h') \<Longrightarrow>
   listening_ok h' \<and> (running h \<longrightarrow> h' = h) \<and> (\<forall>x. r = Inr x \<longrightarrow> running h')"
  by (auto simp: listening_ok_def server_start_def Let_def split: if_splits sum.splits)

text \<open>Dropping a service leaves exactly what other daemons announce.\<close>

lemma mdns_drop_daemons [simp]: "daemons (mdns_drop m w) = daemons w"
  by (simp add: mdns_drop_def unregister_raop_def unregister_airplay_def withdraw_def split: option.split)

lemma mdns_drop_announced: "set (announced (mdns_drop m w)) = {x \<in> set (announced w). fst x \<noteq> md_daemon m}"
  by (auto simp: mdns_drop_def unregister_raop_def unregister_airplay_def withdraw_def split: option.split)

text \<open>What registering may add, whatever its outcome.\<close>

definition only_adds :: "nat \<Rightarrow> airplay_service_info \<Rightarrow> net_world \<Rightarrow> net_world \<Rightarrow> bool" where
  "only_adds d info w w' \<longleftrightarrow> daemons w' = daemons w
     \<and> (\<forall>x \<in> set (announced w'). x \<in> set (announced w) \<or> fst x = d \<and> snd (snd x) = info)"

lemma register_adds:
  "register_raop ne info m w = (r, w') \<Longrightarrow> only_adds (md_daemon m) info w w' \<and> (\<forall>m'. r = Inr m' \<longrightarrow> md_daemon m' = md_daemon m)"
  "register_airplay ne info m w = (r, w') \<Longrightarrow> only_adds (md_daemon m) info w w' \<and> (\<forall>m'. r = Inr m' \<longrightarrow> md_daemon m' = md_daemon m)"
  by (auto simp: register_raop_def register_airplay_def announce_service_def only_adds_def split: sum.splits option.splits prod.splits)

lemma only_adds_trans: "only_adds d info w w' \<Longrightarrow> only_adds d info w' w'' \<Longrightarrow> only_adds d info w w''"
  by (auto simp: only_adds_def)

lemma si_port_service_info: "si_port (service_info pc sv) = srv_port (sv_httpd sv)"
  by (simp add: service_info_def new_airplay2_def new_with_ap1_advertisement_def Let_def)

text \<open>A service whose registration failed takes everything it announced with it.\<close>

lemma dropped_clean:
  assumes "only_adds (md_daemon m) info w w'" and "\<forall>x \<in> set (announced w). fst x \<noteq> md_daemon m"
  shows "set (announced (mdns_drop m w')) \<subseteq> set (announced w)"
  using assms by (auto simp: mdns_drop_announced only_adds_def)

lemma life_held: "life_ok (sv, w) \<Longrightarrow> x \<in> set (announced w) \<Longrightarrow> held sv = Some (fst x)"
  by (force simp: life_ok_def)

lemma start_mdns_ok:
  assumes ok: "life_ok (sv, w)" and run: "running (sv_httpd sv)" and st: "start_mdns ne sv w = (r, sv', w')"
  shows "life_ok (sv', w')"
proof -
  let ?info = "service_info (ne_crypto ne) sv"
  have clean: "life_ok (sv, v)" if "set (announced v) \<subseteq> set (announced w)" "daemons w \<le> daemons v" for v
    using ok that by (fastforce simp: life_ok_def)
  have fresh: "\<forall>x \<in> set (announced w). fst x \<noteq> daemons w"
    using ok by (fastforce simp: life_ok_def)
  note old = life_held [OF ok]
  let ?w1 = "w\<lparr>daemons := Suc (daemons w)\<rparr>"
  have keep: "life_ok (sv\<lparr>sv_mdns := Some m\<rparr>, case sv_mdns sv of Some m0 \<Rightarrow> mdns_drop m0 v | None \<Rightarrow> v)"
    if "only_adds (daemons w) ?info ?w1 v" "md_daemon m = daemons w" for m v
    using ok run that old
    by (auto simp: life_ok_def held_def only_adds_def mdns_drop_announced si_port_service_info split: option.split)
  have failed: "life_ok (sv, mdns_drop m v)" if "only_adds (md_daemon m) ?info ?w1 v" "md_daemon m = daemons w" for m v
    using dropped_clean [OF that(1)] fresh that by (intro clean) (auto simp: only_adds_def)
  show ?thesis
  proof (cases "mdns_new ne w")
    case (Pair rm wm)
    show ?thesis
    proof (cases rm)
      case (Inl e)
      then show ?thesis using Pair st ok by (auto simp: start_mdns_def mdns_new_def split: option.splits)
    next
      case (Inr m)
      with Pair have m: "md_daemon m = daemons w" "wm = ?w1" by (auto simp: mdns_new_def split: option.splits)
      obtain ra w2 where ra: "register_raop ne ?info m ?w1 = (ra, w2)" by fastforce
      note adds1 = register_adds(1) [OF ra]
      show ?thesis
      proof (cases ra)
        case Inl
        then show ?thesis using st Pair Inr m ra adds1 failed [of m w2] by (auto simp: start_mdns_def)
      next
        case ra': (Inr m1)
        obtain rb w3 where rb: "(if sv_mode sv = AirPlay2 then register_airplay ne ?info m1 w2 else (Inr m1, w2)) = (rb, w3)"
          by fastforce
        have m1: "md_daemon m1 = daemons w" using adds1 ra' m by simp
        have adds2: "only_adds (daemons w) ?info ?w1 w3 \<and> (\<forall>m'. rb = Inr m' \<longrightarrow> md_daemon m' = daemons w)"
          using adds1 m m1 rb register_adds(2) [of ne ?info m1 w2 rb w3] only_adds_trans [of "daemons w" ?info ?w1 w2 w3]
          by (auto split: if_splits)
        have "life_ok (sv', w')"
          using st Pair Inr m ra ra' rb adds2 m1 failed [of m1 w3] keep [of w3]
          by (cases rb) (auto simp: start_mdns_def)
        then show ?thesis .
      qed
    qed
  qed
qed

lemma start_ok: "life_ok (sv, w) \<Longrightarrow> start ne sv w = (r, sv', w') \<Longrightarrow> life_ok (sv', w')"
proof -
  assume ok: "life_ok (sv, w)" and st: "start ne sv w = (r, sv', w')"
  obtain rh h where h: "server_start (ne_bind ne) (port (sv_bind sv)) (sv_httpd sv) = (rh, h)" by fastforce
  have l: "listening_ok h" "running (sv_httpd sv) \<longrightarrow> h = sv_httpd sv" "\<forall>x. rh = Inr x \<longrightarrow> running h"
    using server_start_listening [OF _ h] ok by (auto simp: life_ok_def)
  have bound: "life_ok (sv\<lparr>sv_httpd := h\<rparr>, w\<lparr>ptp_sinks := n\<rparr>)" "life_ok (sv\<lparr>sv_httpd := h\<rparr>, w)" for n
    using ok l by (auto simp: life_ok_def held_def)
  show ?thesis
    using st h l bound start_mdns_ok [OF bound(1)] start_mdns_ok [OF bound(2)]
    by (auto simp: start_def Let_def split: sum.splits if_splits)
qed

lemma unregister_shrinks:
  "md_daemon (fst (unregister_raop m w)) = md_daemon m" "set (announced (snd (unregister_raop m w))) \<subseteq> set (announced w)"
  "md_daemon (fst (unregister_airplay m w)) = md_daemon m" "set (announced (snd (unregister_airplay m w))) \<subseteq> set (announced w)"
  by (auto simp: unregister_raop_def unregister_airplay_def withdraw_def split: option.splits)

lemma stop_announced:
  "set (announced (snd (stop sv w))) \<subseteq> {x \<in> set (announced w). held sv \<noteq> Some (fst x)}"
proof (cases "sv_mdns sv")
  case (Some m)
  let ?a = "unregister_raop m w"
  let ?b = "unregister_airplay (fst ?a) (snd ?a)"
  have "snd (stop sv w) = mdns_drop (fst ?b) (snd ?b)" using Some by (simp add: stop_def split_def Let_def)
  then show ?thesis
    using Some unregister_shrinks(1,2) [of m w] unregister_shrinks(3,4) [of "fst ?a" "snd ?a"]
    by (auto simp: mdns_drop_announced held_def)
qed (simp add: stop_def held_def)

lemma stop_ok:
  assumes "life_ok (sv, w)" "stop sv w = (sv', w')"
  shows "life_ok (sv', w')" "\<not> is_running sv'" "announced w' = []"
proof -
  have "x \<notin> set (announced w')" for x
    using assms(2) stop_announced [of sv w] life_held [OF assms(1), of x] by auto
  then have "\<forall>x. x \<notin> set (announced w')" by blast
  then show a: "announced w' = []" by (cases "announced w'") auto
  show "\<not> is_running sv'"
    using assms(2) by (auto simp: stop_def is_running_def server_stop_def split: prod.splits option.splits)
  show "life_ok (sv', w')"
    using a assms(2) by (auto simp: stop_def life_ok_def held_def listening_ok_def server_stop_def split: prod.splits option.splits)
qed

lemma life_reachable: "life_step\<^sup>*\<^sup>* s s' \<Longrightarrow> life_ok s \<Longrightarrow> life_ok s'"
proof (induction rule: rtranclp_induct)
  case (step t u)
  from step.hyps(2) step show ?case by cases (auto intro: start_ok stop_ok)
qed

lemma built_ok: "build env b = Inr sv \<Longrightarrow> announced w = [] \<Longrightarrow> life_ok (sv, w)"
  by (auto simp: build_def life_ok_def held_def listening_ok_def set_bind_config_def http_server_new_def Let_def
      split: sum.splits prod.splits)


text \<open>A failed registration is reported, but the listeners stay: the server runs after a start
  that returned an error.\<close>

lemma start_error_keeps_listening:
  assumes "server_start (ne_bind ne) (port (sv_bind sv)) (sv_httpd sv) = (Inr p, h)" and "listening_ok (sv_httpd sv)"
    and "\<not> ne_ci ne" and "ne_daemon ne (daemons w) = Some e"
  shows "fst (start ne sv w) = Inl (Network (Mdns e)) \<and> is_running (fst (snd (start ne sv w)))"
  using assms server_start_listening [OF assms(2,1)]
  by (simp add: start_def start_mdns_def mdns_new_def is_running_def Let_def)

section \<open>What is built\<close>

text \<open>
  C36: The builder accepts exactly the valid configurations: at least one client, a password of at
  most 64 bytes, no zero rate or channel count, AirPlay 1 advertisement options in AirPlay 1 mode
  only and each of them a non-empty list without duplicates, a key that loads, and a hardware
  address of six bytes.
\<close>

theorem build_accepts_iff:
  "(\<exists>sv. build env b = Inr sv) \<longleftrightarrow>
     b_max_clients b \<noteq> 0 \<and> length (unwrap_or [] (b_password b)) \<le> 64
     \<and> b_output_sample_rate b \<noteq> Some 0 \<and> b_output_max_channels b \<noteq> Some 0
     \<and> (b_mode b = AirPlay1 \<or> b_ap1_codecs b = None \<and> b_ap1_encryption b = None)
     \<and> b_ap1_codecs b \<noteq> Some [] \<and> distinct (unwrap_or [] (b_ap1_codecs b))
     \<and> b_ap1_encryption b \<noteq> Some [] \<and> distinct (unwrap_or [] (b_ap1_encryption b))
     \<and> (\<exists>k. from_env (be_key env) (b_rsa_key_path b) = Inr k)
     \<and> (case b_hwaddr b of Some a \<Rightarrow> length a = 6 | None \<Rightarrow> True)"
proof -
  have conf: "(\<exists>vs. configured_or_default c d e1 e2 = Inr vs) \<longleftrightarrow> c \<noteq> Some [] \<and> distinct (unwrap_or [] c)"
    if "d \<noteq> []" "distinct d" for c :: "'x list option" and d e1 e2
    using that by (auto simp: configured_or_default_iff unwrap_or_def split: option.splits)
  have adv: "(\<exists>adv. advertisement_try_new c e = Inr adv)
      \<longleftrightarrow> c \<noteq> Some [] \<and> distinct (unwrap_or [] c) \<and> e \<noteq> Some [] \<and> distinct (unwrap_or [] e)" for c e
  proof -
    have "(\<exists>adv. advertisement_try_new c e = Inr adv)
        \<longleftrightarrow> (\<exists>vs. configured_or_default c AP1_DEFAULT_CODECS ''AP1 codec advertisement cannot be empty''
              ''AP1 codec advertisement contains duplicates'' = Inr vs)
          \<and> (\<exists>vs. configured_or_default e AP1_DEFAULT_ENCRYPTION ''AP1 encryption advertisement cannot be empty''
              ''AP1 encryption advertisement contains duplicates'' = Inr vs)"
      by (auto simp: advertisement_try_new_def split: sum.split)
    then show ?thesis by (simp add: conf AP1_DEFAULT_CODECS_def AP1_DEFAULT_ENCRYPTION_def)
  qed
  have checks: "(\<exists>u. build_checks b = Inr u) \<longleftrightarrow> b_max_clients b \<noteq> 0 \<and> length (unwrap_or [] (b_password b)) \<le> 64
     \<and> b_output_sample_rate b \<noteq> Some 0 \<and> b_output_max_channels b \<noteq> Some 0
     \<and> (b_mode b = AirPlay1 \<or> b_ap1_codecs b = None \<and> b_ap1_encryption b = None)"
    by (cases "b_mode b") (auto simp: build_checks_def config_error_def unwrap_or_def MAX_PASSWORD_LEN_def split: option.split)
  have hw: "(\<exists>h. build_hwaddr env b = Inr h) \<longleftrightarrow> (case b_hwaddr b of Some a \<Rightarrow> length a = 6 | None \<Rightarrow> True)"
    by (simp add: build_hwaddr_def MAX_HWADDR_LEN_def split: option.split)
  have rsa: "(\<exists>k. load_rsakey (be_key env) p = Inr k) \<longleftrightarrow> (\<exists>k. from_env (be_key env) p = Inr k)" for p
    by (auto simp: load_rsakey_def split: sum.split)
  have "(\<exists>sv. build env b = Inr sv) \<longleftrightarrow> (\<exists>u. build_checks b = Inr u)
      \<and> (\<exists>adv. advertisement_try_new (b_ap1_codecs b) (b_ap1_encryption b) = Inr adv)
      \<and> (\<exists>k. load_rsakey (be_key env) (b_rsa_key_path b) = Inr k) \<and> (\<exists>h. build_hwaddr env b = Inr h)"
    by (auto simp: build_def pairing_generate_def Let_def split: sum.split prod.split)
  then show ?thesis unfolding checks adv hw rsa by blast
qed

text \<open>What a built server is made of, whatever was configured.\<close>

lemma build_result:
  assumes "build env b = Inr sv"
  shows "build_hwaddr env b = Inr (hwaddr (sv_shared sv))"
    and "sv_identity_seed sv = fst (resolve_identity (be_identity env) (unwrap_or store_default (b_pairing_store b)))"
    and "sv_store sv = snd (resolve_identity (be_identity env) (unwrap_or store_default (b_pairing_store b)))"
    and "sv_pairing_id sv = derive_pi_from_hwaddr (be_sha256 env) (hwaddr (sv_shared sv))"
    and "sv_device_id sv = hwaddr_airplay (hwaddr (sv_shared sv))"
  using assms
  by (auto simp: build_def Let_def unwrap_or_def split: sum.splits prod.splits option.splits)

lemma resolve_identity_kept:
  "load_identity (snd (resolve_identity fresh st)) = Some (fst (resolve_identity fresh st))"
  "load_identity st = Some seed \<Longrightarrow> fst (resolve_identity fresh st) = seed"
  by (simp_all add: resolve_identity_def load_identity_def save_identity_def split: option.split)

lemma random_hwaddr_bits:
  assumes "length rnd = 6"
  shows "length (random_hwaddr rnd) = 6" "bit (random_hwaddr rnd ! 0) 1" "\<not> bit (random_hwaddr rnd ! 0) 0"
  using assms by (simp_all add: random_hwaddr_def bit_and_iff bit_or_iff bit_not_iff)

text \<open>
  C35: The accessory keeps its identity over a restart. A server that is built again from a store
  which still holds the identity seed the first one left there has the same identity, so it
  advertises the same public key, whatever random bytes the second start draws; with a configured
  hardware address the pairing id is the same as well. Without one, the address that is made up is
  six bytes long, locally administered and not a group address.
\<close>

theorem identity_survives_restart:
  assumes "build env b = Inr sv" and "build env' b' = Inr sv'"
    and "b_pairing_store b' = Some st" and "load_identity st = load_identity (sv_store sv)"
    and "b_hwaddr b' = b_hwaddr b" and "be_sha256 env' = be_sha256 env" and "length (be_hwaddr env) = 6"
  shows "sv_identity_seed sv' = sv_identity_seed sv
    \<and> (if b_hwaddr b = None then length (hwaddr (sv_shared sv)) = 6 \<and> bit (hwaddr (sv_shared sv) ! 0) 1 \<and> \<not> bit (hwaddr (sv_shared sv) ! 0) 0
       else sv_pairing_id sv' = sv_pairing_id sv \<and> sv_device_id sv' = sv_device_id sv)"
proof -
  have "load_identity st = Some (sv_identity_seed sv)"
    using assms(4) by (simp add: build_result(2,3) [OF assms(1)] resolve_identity_kept(1))
  then have "sv_identity_seed sv' = sv_identity_seed sv"
    using assms(3) by (simp add: build_result(2) [OF assms(2)] unwrap_or_def resolve_identity_kept(2))
  moreover have "hwaddr (sv_shared sv') = hwaddr (sv_shared sv)" if "b_hwaddr b \<noteq> None"
    using that assms(5) build_result(1) [OF assms(1)] build_result(1) [OF assms(2)]
    by (auto simp: build_hwaddr_def split: if_splits)
  moreover have "hwaddr (sv_shared sv) = random_hwaddr (be_hwaddr env)" if "b_hwaddr b = None"
    using that build_result(1) [OF assms(1)] by (simp add: build_hwaddr_def)
  ultimately show ?thesis
    using random_hwaddr_bits [OF assms(7)]
    by (simp add: build_result(4,5) [OF assms(1)] build_result(4,5) [OF assms(2)] assms(6))
qed

section \<open>Examples\<close>

definition sample_build_env :: build_env where
  "sample_build_env =
     \<lparr>be_key = \<lparr>ke_file = \<lambda>p. None, ke_var = \<lambda>v. Some ''PEM'', ke_pkcs1 = \<lambda>p. Inr sample_rsa, ke_pkcs8 = \<lambda>p. Inl []\<rparr>,
      be_sha256 = \<lambda>x. replicate 32 0, be_pairing_seed = replicate 32 1, be_hwaddr = [1, 2, 3, 4, 5, 6],
      be_identity = replicate 32 2, be_crypto = sample_crypto\<rparr>"

definition sample_net_env :: net_env where
  "sample_net_env = \<lparr>ne_bind = \<lambda>a p. Inr p, ne_ci = False, ne_daemon = \<lambda>n. None, ne_fullname = \<lambda>ty info. Inr ty,
     ne_register = \<lambda>d f. None, ne_crypto = sample_crypto\<rparr>"

definition sample_world :: net_world where
  "sample_world = \<lparr>announced = [], daemons = 0, ptp_sinks = 0\<rparr>"

lemma sample_builds: "\<exists>sv. build (sample_build_env\<lparr>be_identity := i\<rparr>) (builder_new\<lparr>b_pairing_store := st\<rparr>) = Inr sv"
  by (simp add: build_def build_checks_def builder_new_def advertisement_try_new_def configured_or_default_def AP1_DEFAULT_CODECS_def
      AP1_DEFAULT_ENCRYPTION_def load_rsakey_def from_env_def from_pem_def sample_build_env_def pairing_generate_def build_hwaddr_def
      split_def Let_def upt_rec)

theorem identity_survives_restart_witness:
  "\<exists>sv sv'. build (sample_build_env\<lparr>be_identity := [7]\<rparr>) (builder_new\<lparr>b_pairing_store := None\<rparr>) = Inr sv
     \<and> build (sample_build_env\<lparr>be_identity := [9]\<rparr>) (builder_new\<lparr>b_pairing_store := Some (sv_store sv)\<rparr>) = Inr sv'
     \<and> sv_identity_seed sv' = sv_identity_seed sv"
proof -
  obtain sv where sv: "build (sample_build_env\<lparr>be_identity := [7]\<rparr>) (builder_new\<lparr>b_pairing_store := None\<rparr>) = Inr sv"
    using sample_builds by blast
  obtain sv' where sv': "build (sample_build_env\<lparr>be_identity := [9]\<rparr>) (builder_new\<lparr>b_pairing_store := Some (sv_store sv)\<rparr>) = Inr sv'"
    using sample_builds by blast
  show ?thesis
    using sv sv' identity_survives_restart [OF sv sv', of "sv_store sv"] by (auto simp: sample_build_env_def)
qed


end
