(* ===== verification/Header_Diagnostics.thy ===== *)
theory Header_Diagnostics
  imports Http Advertisement Utf8 "HOL-Library.List_Lexorder" "HOL-Library.Char_ord"
begin

text \<open>
  Header diagnostics, src/net/protocol\_diagnostics.rs, in the builds with \<open>diagnostic-headers\<close> and
  \<open>dangerous-raw-headers\<close>: which header values reach the log and in what form. The headers of a
  request come as a list in the order of the hash map's iteration. A trace event is the list of
  the fields a subscriber receives; whether the target is enabled is a parameter.
\<close>

section \<open>Characters\<close>

text \<open>\<open>str::chars\<close>: a character is the bytes of its encoding.\<close>

function utf8_chars :: "string \<Rightarrow> string list" where
  "utf8_chars s =
     (if s = [] then []
      else let n = snd (utf8_step (as_bytes s)) in take n s # utf8_chars (drop n s))"
  by pat_completeness auto
termination
proof (relation "measure length", goal_cases)
  case (2 s n)
  then show ?case using utf8_step_pos [of "as_bytes s"] by (cases s) auto
qed simp

declare utf8_chars.simps [simp del]

definition is_control :: "string \<Rightarrow> bool" where
  "is_control c \<longleftrightarrow>
     (case as_bytes c of
        [a] \<Rightarrow> a < 0x20 \<or> a = 0x7F
      | [a, b] \<Rightarrow> a = 0xC2 \<and> 0x80 \<le> b \<and> b \<le> 0x9F
      | _ \<Rightarrow> False)"

text \<open>\<open>char::escape_default\<close> on a control character, whose code is its last byte.\<close>

definition escape_default :: "string \<Rightarrow> string" where
  "escape_default c =
     (let a = last (as_bytes c) in
      if a = 0x09 then [CHR 0x5C, CHR ''t'']
      else if a = 0x0D then [CHR 0x5C, CHR ''r'']
      else if a = 0x0A then [CHR 0x5C, CHR ''n'']
      else [CHR 0x5C] @ ''u{'' @ hex_digits hex_digit (unat a) @ ''}'')"

definition escape_control_chars :: "string \<Rightarrow> string" where
  "escape_control_chars v = concat (map (\<lambda>c. if is_control c then escape_default c else c) (utf8_chars v))"

section \<open>Values\<close>

datatype header_diagnostics = Disabled | Redacted | Raw

definition RAW_RELEASE_ERROR :: string where
  "RAW_RELEASE_ERROR = ''raw header diagnostics require a build with debug assertions enabled''"

definition validate_for_build :: "header_diagnostics \<Rightarrow> bool \<Rightarrow> server_error + unit" where
  "validate_for_build policy debug_assertions =
     (if policy = Raw \<and> \<not> debug_assertions then Inl (InvalidConfiguration RAW_RELEASE_ERROR) else Inr ())"

definition REDACTED_VALUE :: string where "REDACTED_VALUE = ''<redacted>''"
definition TRUNCATED_SUFFIX :: string where "TRUNCATED_SUFFIX = ''<truncated>''"
definition MAX_REDACTED_VALUE_CHARS :: nat where "MAX_REDACTED_VALUE_CHARS = 512"

definition ALLOWLISTED_HEADER_NAMES :: "string list" where
  "ALLOWLISTED_HEADER_NAMES =
     [''apple-jack-status'', ''audio-latency'', ''connection'', ''content-length'', ''content-type'', ''cseq'', ''public'',
      ''server'', ''user-agent'']"

definition allowlisted :: "string \<Rightarrow> bool" where
  "allowlisted header_name \<longleftrightarrow> list_ex (\<lambda>safe. eq_ignore_ascii_case header_name safe) ALLOWLISTED_HEADER_NAMES"

record rendered_value =
  rd_value :: string
  rd_redacted :: bool
  rd_truncated :: bool

definition truncate_chars :: "string \<Rightarrow> nat \<Rightarrow> string \<times> bool" where
  "truncate_chars v max_chars =
     (let cs = utf8_chars v in
      if length cs > max_chars then (concat (take max_chars cs) @ TRUNCATED_SUFFIX, True) else (v, False))"

definition render_value :: "header_diagnostics \<Rightarrow> string \<Rightarrow> string \<Rightarrow> rendered_value" where
  "render_value policy header_name v =
     (if policy = Raw then \<lparr>rd_value = escape_control_chars v, rd_redacted = False, rd_truncated = False\<rparr>
      else if allowlisted header_name then
        let (t, truncated) = truncate_chars v MAX_REDACTED_VALUE_CHARS
        in \<lparr>rd_value = escape_control_chars t, rd_redacted = False, rd_truncated = truncated\<rparr>
      else \<lparr>rd_value = REDACTED_VALUE, rd_redacted = True, rd_truncated = False\<rparr>)"

section \<open>Events\<close>

datatype direction = DRequest string | DResponse u16

datatype trace_event =
    HeaderEvent direction bool nat string rendered_value
  | OmittedEvent string nat
  | HeadUnavailable u16 bool
  | HeadNotUtf8 u16 bool

fun dir_name :: "direction \<Rightarrow> string" where
  "dir_name (DRequest m) = ''request''"
| "dir_name (DResponse st) = ''response''"

definition trace_omitted_headers :: "string \<Rightarrow> nat \<Rightarrow> trace_event list" where
  "trace_omitted_headers dir n = (if n > MAX_HEADER_COUNT then [OmittedEvent dir (n - MAX_HEADER_COUNT)] else [])"

definition trace_header :: "header_diagnostics \<Rightarrow> direction \<Rightarrow> bool \<Rightarrow> nat \<times> string \<times> string \<Rightarrow> trace_event" where
  "trace_header policy dir encrypted h =
     (case h of (i, n, v) \<Rightarrow>
        let name = escape_control_chars n in HeaderEvent dir encrypted i name (render_value policy name v))"

definition trace_headers :: "header_diagnostics \<Rightarrow> direction \<Rightarrow> bool \<Rightarrow> (string \<times> string) list \<Rightarrow> trace_event list" where
  "trace_headers policy dir encrypted hs =
     map (trace_header policy dir encrypted) (List.enumerate 0 (take MAX_HEADER_COUNT hs)) @ trace_omitted_headers (dir_name dir) (length hs)"

definition trace_request :: "header_diagnostics \<Rightarrow> bool \<Rightarrow> string option \<Rightarrow> (string \<times> string) list \<Rightarrow> bool \<Rightarrow> trace_event list" where
  "trace_request policy enabled meth hs encrypted =
     (if policy = Disabled \<or> \<not> enabled then []
      else trace_headers policy (DRequest (case meth of Some m \<Rightarrow> m | None \<Rightarrow> ''?'')) encrypted (sort_key fst hs))"

fun response_head :: "bytes \<Rightarrow> bytes option" where
  "response_head [] = None"
| "response_head (b # bs) =
     (if take 4 (b # bs) = [13, 10, 13, 10] then Some [] else map_option ((#) b) (response_head bs))"

fun split_crlf :: "string \<Rightarrow> string list" where
  "split_crlf [] = [[]]"
| "split_crlf (c # cs) =
     (if c = CHR 0x0D \<and> take 1 cs = [CHR 0x0A] then [] # split_crlf (drop 1 cs)
      else case split_crlf cs of [] \<Rightarrow> [[c]] | l # ls \<Rightarrow> (c # l) # ls)"

definition response_headers :: "string \<Rightarrow> (string \<times> string) list" where
  "response_headers head =
     map (\<lambda>(n, v). (n, trim_start v)) (List.map_filter (split_once (CHR '':'')) (drop 1 (split_crlf head)))"

definition trace_response :: "header_diagnostics \<Rightarrow> bool \<Rightarrow> u16 \<Rightarrow> bytes \<Rightarrow> bool \<Rightarrow> trace_event list" where
  "trace_response policy enabled status_code d encrypted =
     (if policy = Disabled \<or> \<not> enabled then []
      else
        (case response_head d of
           None \<Rightarrow> [HeadUnavailable status_code encrypted]
         | Some head \<Rightarrow>
             (case from_utf8 head of
                None \<Rightarrow> [HeadNotUtf8 status_code encrypted]
              | Some h \<Rightarrow> trace_headers policy (DResponse status_code) encrypted (response_headers h))))"

section \<open>Secrets stay out of the log\<close>

text \<open>Two headers that differ in nothing but a value that is not on the list.\<close>

definition same_public :: "string \<times> string \<Rightarrow> string \<times> string \<Rightarrow> bool" where
  "same_public h h' \<longleftrightarrow> fst h = fst h' \<and> (allowlisted (escape_control_chars (fst h)) \<longrightarrow> snd h = snd h')"

lemma same_public_trace:
  "policy \<noteq> Raw \<Longrightarrow> same_public h h' \<Longrightarrow> trace_header policy dir enc (i, h) = trace_header policy dir enc (i, h')"
  by (cases h; cases h') (auto simp: trace_header_def same_public_def render_value_def)

lemma insort_public:
  "list_all2 same_public xs ys \<Longrightarrow> same_public x y \<Longrightarrow>
   list_all2 same_public (insort_key fst x xs) (insort_key fst y ys)"
proof (induction rule: list_all2_induct)
  case (Cons a xs b ys)
  moreover have "fst a = fst b" "fst x = fst y" using Cons by (auto simp: same_public_def)
  ultimately show ?case by auto
qed simp

lemma sort_public: "list_all2 same_public xs ys \<Longrightarrow> list_all2 same_public (sort_key fst xs) (sort_key fst ys)"
  unfolding sort_key_def by (induction rule: list_all2_induct) (auto intro: insort_public)

lemma trace_headers_public:
  assumes "policy \<noteq> Raw" and "list_all2 same_public xs ys"
  shows "trace_headers policy dir enc xs = trace_headers policy dir enc ys"
proof -
  have "list_all2 same_public xs ys \<Longrightarrow>
      map (trace_header policy dir enc) (List.enumerate k xs) = map (trace_header policy dir enc) (List.enumerate k ys)" for k xs ys
    by (induction arbitrary: k rule: list_all2_induct) (auto simp: enumerate_simps intro: same_public_trace [OF assms(1)])
  then show ?thesis
    using assms(2) by (simp add: trace_headers_def list_all2_takeI list_all2_lengthD)
qed

section \<open>Log lines stay intact\<close>

definition printable :: "byte \<Rightarrow> bool" where
  "printable b \<longleftrightarrow> 0x20 \<le> b \<and> b \<noteq> 0x7F"

abbreviation clean :: "string \<Rightarrow> bool" where
  "clean s \<equiv> \<forall>b \<in> set (as_bytes s). printable b"

lemma high_bytes: "cont b \<Longrightarrow> 0x80 \<le> b" "second_ok a b \<Longrightarrow> 0x80 \<le> b" "0x80 \<le> b \<Longrightarrow> printable b"
proof -
  have t: "m \<le> b \<Longrightarrow> 0x80 \<le> m \<Longrightarrow> 0x80 \<le> b" for m by (rule order_trans)
  show "cont b \<Longrightarrow> 0x80 \<le> b" "second_ok a b \<Longrightarrow> 0x80 \<le> b"
    using t [of "0xA0"] t [of "0x90"] by (auto simp: cont_def second_ok_def split: if_splits)
  show "0x80 \<le> b \<Longrightarrow> printable b"
    using order_trans [of "0x20" "0x80" b] by (auto simp: printable_def)
qed

text \<open>A character is one byte, or bytes none of which is ASCII.\<close>

lemma utf8_step_high:
  assumes "bs \<noteq> []" and "snd (utf8_step bs) \<noteq> 1"
  shows "\<forall>x \<in> set (take (snd (utf8_step bs)) bs). 0x80 \<le> x"
proof -
  let ?n = "snd (utf8_step bs)"
  have "0x80 \<le> bs ! i" if i: "i < ?n" "i < length bs" for i
  proof -
    have "0x80 \<le> byte_at bs i"
      using assms(2) i(1) high_bytes(1,2)
      by (auto simp: utf8_step_def Let_def less_Suc_eq numeral_2_eq_2 numeral_3_eq_3 eval_nat_numeral not_less split: if_splits)
    with i(2) show ?thesis by (simp add: byte_at_def)
  qed
  then show ?thesis by (auto simp: in_set_conv_nth)
qed

lemma as_bytes_take: "as_bytes (take n s) = take n (as_bytes s)"
  by (simp add: as_bytes_def take_map)

lemma utf8_chars_shape: "c \<in> set (utf8_chars s) \<Longrightarrow> length c = 1 \<or> (\<forall>x \<in> set (as_bytes c). 0x80 \<le> x)"
proof (induction s rule: utf8_chars.induct)
  case (1 s)
  show ?case
  proof (cases "s = []")
    case True
    with "1.prems" show ?thesis by (simp add: utf8_chars.simps [of "[]"])
  next
    case False
    let ?n = "snd (utf8_step (as_bytes s))"
    have "as_bytes s \<noteq> []" using False by (simp add: as_bytes_def)
    then have "length (take ?n s) = 1 \<or> (\<forall>x \<in> set (as_bytes (take ?n s)). 0x80 \<le> x)"
      using utf8_step_high [of "as_bytes s"] False by (cases "?n = 1"; cases s) (auto simp: as_bytes_take)
    with 1 False show ?thesis by (auto simp: utf8_chars.simps [of s] Let_def)
  qed
qed

lemma clean_hex: "n < 256 \<Longrightarrow> clean (hex_digits hex_digit n)"
proof (induction n rule: less_induct)
  case (less n)
  have d: "clean [hex_digit k]" if "k < 16" for k
  proof -
    from that have "k \<in> set [0..<16]" by simp
    then show ?thesis by (auto simp: upt_rec hex_digit_def as_bytes_def printable_def)
  qed
  have "clean (hex_digits hex_digit (n div 16))" if "\<not> n < 16" using that less.prems by (intro less.IH) simp_all
  then show ?case using less.prems d by (subst hex_digits.simps) (auto simp: as_bytes_def)
qed

lemma clean_escape: "clean (escape_control_chars v)"
proof -
  have esc: "clean (escape_default c)" for c
    using clean_hex [of "unat (last (as_bytes c))"] unsigned_less [of "last (as_bytes c)"]
    by (auto simp: escape_default_def Let_def as_bytes_def printable_def)
  have plain: "clean c" if "c \<in> set (utf8_chars v)" "\<not> is_control c" for c
    using utf8_chars_shape [OF that(1)] that(2) high_bytes(3)
    by (auto simp: is_control_def length_Suc_conv as_bytes_def printable_def not_less)
  show ?thesis
    using esc plain by (auto simp: escape_control_chars_def as_bytes_def map_concat)
qed

text \<open>The texts an event carries in \<open>Display\<close> form.\<close>

fun event_texts :: "trace_event \<Rightarrow> string list" where
  "event_texts (HeaderEvent dir enc i n v) = [n, rd_value v]"
| "event_texts _ = []"

lemma trace_headers_clean: "e \<in> set (trace_headers policy dir enc hs) \<Longrightarrow> t \<in> set (event_texts e) \<Longrightarrow> clean t"
proof -
  have r: "clean (rd_value (render_value policy n v))" for n v
    using clean_escape by (auto simp: render_value_def split_def Let_def REDACTED_VALUE_def as_bytes_def printable_def)
  have o: "event_texts e = []" if "e \<in> set (trace_omitted_headers dn k)" for dn k
    using that by (auto simp: trace_omitted_headers_def split: if_splits)
  assume "e \<in> set (trace_headers policy dir enc hs)" "t \<in> set (event_texts e)"
  then show ?thesis
    using o r clean_escape by (auto simp: trace_headers_def trace_header_def Let_def split: prod.splits)
qed



text \<open>An allowed value is cut to 512 characters before it is escaped.\<close>

lemma render_bounded:
  assumes "policy \<noteq> Raw" and "rd_truncated (render_value policy n v)"
  shows "rd_value (render_value policy n v) = escape_control_chars (concat (take 512 (utf8_chars v)) @ ''<truncated>'')"
  using assms
  by (auto simp: render_value_def truncate_chars_def Let_def MAX_REDACTED_VALUE_CHARS_def TRUNCATED_SUFFIX_def split: if_splits prod.splits)

end
