(* ===== verification/Aes_Reference.thy ===== *)
theory Aes_Reference
  imports Rust_Ops
begin

text \<open>
  AES-128 as FIPS 197 states it, on blocks of 16 bytes in column order: the reference the
  table-driven key decryption of src/crypto/fairplay.rs is compared with. The inverse cipher undoes
  the cipher, so CBC decryption of a block recovers what was encrypted.
\<close>

section \<open>The field\<close>

definition xtime :: "byte \<Rightarrow> byte" where
  "xtime b = push_bit 1 b XOR (if bit b 7 then 0x1b else 0)"

definition gmul3 :: "byte \<Rightarrow> byte" where "gmul3 b = xtime b XOR b"
definition gmul9 :: "byte \<Rightarrow> byte" where "gmul9 b = xtime (xtime (xtime b)) XOR b"
definition gmul11 :: "byte \<Rightarrow> byte" where "gmul11 b = xtime (xtime (xtime b)) XOR xtime b XOR b"
definition gmul13 :: "byte \<Rightarrow> byte" where
  "gmul13 b = xtime (xtime (xtime b)) XOR xtime (xtime b) XOR b"
definition gmul14 :: "byte \<Rightarrow> byte" where
  "gmul14 b = xtime (xtime (xtime b)) XOR xtime (xtime b) XOR xtime b"

lemmas gmul_defs = gmul3_def gmul9_def gmul11_def gmul13_def gmul14_def

lemma xtime_xor: "xtime (a XOR b) = xtime a XOR xtime b"
  by (rule bit_word_eqI) (auto simp: xtime_def bit_simps)

lemma xor_cancel [simp]: "(a :: 'a::len word) XOR (a XOR b) = b"
  by (simp add: xor.assoc [symmetric])

lemmas xor_ac = xor.assoc xor.commute xor.left_commute

lemma gmul_xor:
  "gmul9 (a XOR b) = gmul9 a XOR gmul9 b" "gmul11 (a XOR b) = gmul11 a XOR gmul11 b"
  "gmul13 (a XOR b) = gmul13 a XOR gmul13 b" "gmul14 (a XOR b) = gmul14 a XOR gmul14 b"
  by (simp_all add: gmul_defs xtime_xor xor_ac)

section \<open>The steps of a round\<close>

definition SBOX :: "bytes list" where
  "SBOX = [
    [0x63, 0x7c, 0x77, 0x7b, 0xf2, 0x6b, 0x6f, 0xc5, 0x30, 0x01, 0x67, 0x2b, 0xfe, 0xd7, 0xab, 0x76],
    [0xca, 0x82, 0xc9, 0x7d, 0xfa, 0x59, 0x47, 0xf0, 0xad, 0xd4, 0xa2, 0xaf, 0x9c, 0xa4, 0x72, 0xc0],
    [0xb7, 0xfd, 0x93, 0x26, 0x36, 0x3f, 0xf7, 0xcc, 0x34, 0xa5, 0xe5, 0xf1, 0x71, 0xd8, 0x31, 0x15],
    [0x04, 0xc7, 0x23, 0xc3, 0x18, 0x96, 0x05, 0x9a, 0x07, 0x12, 0x80, 0xe2, 0xeb, 0x27, 0xb2, 0x75],
    [0x09, 0x83, 0x2c, 0x1a, 0x1b, 0x6e, 0x5a, 0xa0, 0x52, 0x3b, 0xd6, 0xb3, 0x29, 0xe3, 0x2f, 0x84],
    [0x53, 0xd1, 0x00, 0xed, 0x20, 0xfc, 0xb1, 0x5b, 0x6a, 0xcb, 0xbe, 0x39, 0x4a, 0x4c, 0x58, 0xcf],
    [0xd0, 0xef, 0xaa, 0xfb, 0x43, 0x4d, 0x33, 0x85, 0x45, 0xf9, 0x02, 0x7f, 0x50, 0x3c, 0x9f, 0xa8],
    [0x51, 0xa3, 0x40, 0x8f, 0x92, 0x9d, 0x38, 0xf5, 0xbc, 0xb6, 0xda, 0x21, 0x10, 0xff, 0xf3, 0xd2],
    [0xcd, 0x0c, 0x13, 0xec, 0x5f, 0x97, 0x44, 0x17, 0xc4, 0xa7, 0x7e, 0x3d, 0x64, 0x5d, 0x19, 0x73],
    [0x60, 0x81, 0x4f, 0xdc, 0x22, 0x2a, 0x90, 0x88, 0x46, 0xee, 0xb8, 0x14, 0xde, 0x5e, 0x0b, 0xdb],
    [0xe0, 0x32, 0x3a, 0x0a, 0x49, 0x06, 0x24, 0x5c, 0xc2, 0xd3, 0xac, 0x62, 0x91, 0x95, 0xe4, 0x79],
    [0xe7, 0xc8, 0x37, 0x6d, 0x8d, 0xd5, 0x4e, 0xa9, 0x6c, 0x56, 0xf4, 0xea, 0x65, 0x7a, 0xae, 0x08],
    [0xba, 0x78, 0x25, 0x2e, 0x1c, 0xa6, 0xb4, 0xc6, 0xe8, 0xdd, 0x74, 0x1f, 0x4b, 0xbd, 0x8b, 0x8a],
    [0x70, 0x3e, 0xb5, 0x66, 0x48, 0x03, 0xf6, 0x0e, 0x61, 0x35, 0x57, 0xb9, 0x86, 0xc1, 0x1d, 0x9e],
    [0xe1, 0xf8, 0x98, 0x11, 0x69, 0xd9, 0x8e, 0x94, 0x9b, 0x1e, 0x87, 0xe9, 0xce, 0x55, 0x28, 0xdf],
    [0x8c, 0xa1, 0x89, 0x0d, 0xbf, 0xe6, 0x42, 0x68, 0x41, 0x99, 0x2d, 0x0f, 0xb0, 0x54, 0xbb, 0x16]]"

definition INV_SBOX :: "bytes list" where
  "INV_SBOX = [
    [0x52, 0x09, 0x6a, 0xd5, 0x30, 0x36, 0xa5, 0x38, 0xbf, 0x40, 0xa3, 0x9e, 0x81, 0xf3, 0xd7, 0xfb],
    [0x7c, 0xe3, 0x39, 0x82, 0x9b, 0x2f, 0xff, 0x87, 0x34, 0x8e, 0x43, 0x44, 0xc4, 0xde, 0xe9, 0xcb],
    [0x54, 0x7b, 0x94, 0x32, 0xa6, 0xc2, 0x23, 0x3d, 0xee, 0x4c, 0x95, 0x0b, 0x42, 0xfa, 0xc3, 0x4e],
    [0x08, 0x2e, 0xa1, 0x66, 0x28, 0xd9, 0x24, 0xb2, 0x76, 0x5b, 0xa2, 0x49, 0x6d, 0x8b, 0xd1, 0x25],
    [0x72, 0xf8, 0xf6, 0x64, 0x86, 0x68, 0x98, 0x16, 0xd4, 0xa4, 0x5c, 0xcc, 0x5d, 0x65, 0xb6, 0x92],
    [0x6c, 0x70, 0x48, 0x50, 0xfd, 0xed, 0xb9, 0xda, 0x5e, 0x15, 0x46, 0x57, 0xa7, 0x8d, 0x9d, 0x84],
    [0x90, 0xd8, 0xab, 0x00, 0x8c, 0xbc, 0xd3, 0x0a, 0xf7, 0xe4, 0x58, 0x05, 0xb8, 0xb3, 0x45, 0x06],
    [0xd0, 0x2c, 0x1e, 0x8f, 0xca, 0x3f, 0x0f, 0x02, 0xc1, 0xaf, 0xbd, 0x03, 0x01, 0x13, 0x8a, 0x6b],
    [0x3a, 0x91, 0x11, 0x41, 0x4f, 0x67, 0xdc, 0xea, 0x97, 0xf2, 0xcf, 0xce, 0xf0, 0xb4, 0xe6, 0x73],
    [0x96, 0xac, 0x74, 0x22, 0xe7, 0xad, 0x35, 0x85, 0xe2, 0xf9, 0x37, 0xe8, 0x1c, 0x75, 0xdf, 0x6e],
    [0x47, 0xf1, 0x1a, 0x71, 0x1d, 0x29, 0xc5, 0x89, 0x6f, 0xb7, 0x62, 0x0e, 0xaa, 0x18, 0xbe, 0x1b],
    [0xfc, 0x56, 0x3e, 0x4b, 0xc6, 0xd2, 0x79, 0x20, 0x9a, 0xdb, 0xc0, 0xfe, 0x78, 0xcd, 0x5a, 0xf4],
    [0x1f, 0xdd, 0xa8, 0x33, 0x88, 0x07, 0xc7, 0x31, 0xb1, 0x12, 0x10, 0x59, 0x27, 0x80, 0xec, 0x5f],
    [0x60, 0x51, 0x7f, 0xa9, 0x19, 0xb5, 0x4a, 0x0d, 0x2d, 0xe5, 0x7a, 0x9f, 0x93, 0xc9, 0x9c, 0xef],
    [0xa0, 0xe0, 0x3b, 0x4d, 0xae, 0x2a, 0xf5, 0xb0, 0xc8, 0xeb, 0xbb, 0x3c, 0x83, 0x53, 0x99, 0x61],
    [0x17, 0x2b, 0x04, 0x7e, 0xba, 0x77, 0xd6, 0x26, 0xe1, 0x69, 0x14, 0x63, 0x55, 0x21, 0x0c, 0x7d]]"

definition sbox :: "byte \<Rightarrow> byte" where "sbox b = SBOX ! (unat b div 16) ! (unat b mod 16)"
definition inv_sbox :: "byte \<Rightarrow> byte" where
  "inv_sbox b = INV_SBOX ! (unat b div 16) ! (unat b mod 16)"

definition xor_bytes :: "bytes \<Rightarrow> bytes \<Rightarrow> bytes" where
  "xor_bytes xs ys = map2 (XOR) xs ys"

definition shift_rows :: "bytes \<Rightarrow> bytes" where
  "shift_rows s = map (\<lambda>i. s ! (5 * i mod 16)) [0..<16]"

definition inv_shift_rows :: "bytes \<Rightarrow> bytes" where
  "inv_shift_rows s = map (\<lambda>i. s ! (13 * i mod 16)) [0..<16]"

definition mix_column :: "byte \<Rightarrow> byte \<Rightarrow> byte \<Rightarrow> byte \<Rightarrow> bytes" where
  "mix_column a b c d =
     [xtime a XOR gmul3 b XOR c XOR d, a XOR xtime b XOR gmul3 c XOR d,
      a XOR b XOR xtime c XOR gmul3 d, gmul3 a XOR b XOR c XOR xtime d]"

definition inv_mix_column :: "byte \<Rightarrow> byte \<Rightarrow> byte \<Rightarrow> byte \<Rightarrow> bytes" where
  "inv_mix_column a b c d =
     [gmul14 a XOR gmul11 b XOR gmul13 c XOR gmul9 d, gmul9 a XOR gmul14 b XOR gmul11 c XOR gmul13 d,
      gmul13 a XOR gmul9 b XOR gmul14 c XOR gmul11 d, gmul11 a XOR gmul13 b XOR gmul9 c XOR gmul14 d]"

definition on_columns :: "(byte \<Rightarrow> byte \<Rightarrow> byte \<Rightarrow> byte \<Rightarrow> bytes) \<Rightarrow> bytes \<Rightarrow> bytes" where
  "on_columns f s = concat (map (\<lambda>c. f (s ! c) (s ! (c + 1)) (s ! (c + 2)) (s ! (c + 3))) [0, 4, 8, 12])"

definition mix_columns :: "bytes \<Rightarrow> bytes" where "mix_columns = on_columns mix_column"
definition inv_mix_columns :: "bytes \<Rightarrow> bytes" where "inv_mix_columns = on_columns inv_mix_column"

section \<open>Key expansion, cipher and inverse cipher\<close>

definition rcon :: "nat \<Rightarrow> byte" where "rcon r = (xtime ^^ r) 1"

definition next_key :: "byte \<Rightarrow> bytes \<Rightarrow> bytes" where
  "next_key rc k =
     (let w0 = xor_bytes (take 4 k) [sbox (k ! 13) XOR rc, sbox (k ! 14), sbox (k ! 15), sbox (k ! 12)];
          w1 = xor_bytes (slice 4 8 k) w0; w2 = xor_bytes (slice 8 12 k) w1
      in w0 @ w1 @ w2 @ xor_bytes (slice 12 16 k) w2)"

primrec round_key :: "bytes \<Rightarrow> nat \<Rightarrow> bytes" where
  "round_key k 0 = k"
| "round_key k (Suc r) = next_key (rcon r) (round_key k r)"

definition sub_shift :: "bytes \<Rightarrow> bytes" where
  "sub_shift s = shift_rows (map sbox s)"

definition inv_sub_shift :: "bytes \<Rightarrow> bytes" where
  "inv_sub_shift s = map inv_sbox (inv_shift_rows s)"

definition enc_round :: "bytes \<Rightarrow> nat \<Rightarrow> bytes \<Rightarrow> bytes" where
  "enc_round k r s = xor_bytes (mix_columns (sub_shift s)) (round_key k r)"

definition dec_round :: "bytes \<Rightarrow> nat \<Rightarrow> bytes \<Rightarrow> bytes" where
  "dec_round k r s = inv_mix_columns (xor_bytes (inv_sub_shift s) (round_key k r))"

definition aes_encrypt :: "bytes \<Rightarrow> bytes \<Rightarrow> bytes" where
  "aes_encrypt k p =
     xor_bytes (sub_shift (fold (enc_round k) [1..<10] (xor_bytes p (round_key k 0)))) (round_key k 10)"

definition aes_decrypt :: "bytes \<Rightarrow> bytes \<Rightarrow> bytes" where
  "aes_decrypt k c =
     xor_bytes (inv_sub_shift (fold (dec_round k) (rev [1..<10]) (xor_bytes c (round_key k 10))))
       (round_key k 0)"

section \<open>The inverse cipher undoes the cipher\<close>

lemma byte_lt [simp]: "unat (b :: byte) < 256"
  by (rule order.strict_trans2 [OF unsigned_less]) simp

text \<open>For evaluating \<open>[0..<n]\<close> at a numeral.\<close>

lemmas upt_steps = upt_rec [of 0] upt_rec [of "Suc 0"] numeral_2_eq_2 [symmetric]

text \<open>A block is 16 bytes.\<close>

lemma block_cases:
  assumes "length s = 16"
  obtains a0 a1 a2 a3 a4 a5 a6 a7 a8 a9 a10 a11 a12 a13 a14 a15
  where "s = [a0, a1, a2, a3, a4, a5, a6, a7, a8, a9, a10, a11, a12, a13, a14, a15]"
  using assms by (auto simp: numeral_eq_Suc length_Suc_conv)

lemma concat_nth:
  "(\<forall>r \<in> set rows. length r = n) \<Longrightarrow> i < n * length rows \<Longrightarrow>
   concat rows ! i = rows ! (i div n) ! (i mod n)"
proof (induction rows arbitrary: i)
  case (Cons r rows)
  show ?case
  proof (cases "i < n")
    case False
    then have "concat (r # rows) ! i = concat rows ! (i - n)" using Cons.prems by (simp add: nth_append)
    also have "\<dots> = rows ! ((i - n) div n) ! ((i - n) mod n)"
      using Cons.prems False by (intro Cons.IH) auto
    also have "\<dots> = (r # rows) ! (i div n) ! (i mod n)"
    proof -
      have "0 < n" "n \<le> i" using Cons.prems False by (auto intro: gr0I)
      then have "i div n = Suc ((i - n) div n)" "i mod n = (i - n) mod n"
        by (simp_all add: le_div_geq le_mod_geq)
      then show ?thesis by simp
    qed
    finally show ?thesis .
  qed (use Cons.prems in \<open>simp add: nth_append\<close>)
qed simp

lemma SBOX_rows: "length SBOX = 16" "\<forall>r \<in> set SBOX. length r = 16"
  by (simp_all add: SBOX_def)

lemma INV_SBOX_rows: "length INV_SBOX = 16" "\<forall>r \<in> set INV_SBOX. length r = 16"
  by (simp_all add: INV_SBOX_def)

lemma concat_SBOX: "concat SBOX ! unat b = sbox b" "concat INV_SBOX ! unat b = inv_sbox b"
  using SBOX_rows INV_SBOX_rows byte_lt [of b]
  by (simp_all add: sbox_def inv_sbox_def concat_nth [where n = 16])

lemma inv_sbox_sbox [simp]: "inv_sbox (sbox b) = b"
proof -
  have "map inv_sbox (concat SBOX) = map of_nat [0..<256]"
    unfolding SBOX_def concat.simps append.simps list.map
    by (simp add: inv_sbox_def INV_SBOX_def upt_steps)
  then have "map inv_sbox (concat SBOX) ! unat b = map of_nat [0..<256] ! unat b" by simp
  then show ?thesis 
    using SBOX_rows byte_lt [of b]
    by (simp add: concat_SBOX length_concat sum_list_triv cong: map_cong)
qed

lemma length_xor_bytes [simp]: "length (xor_bytes a b) = min (length a) (length b)"
  by (simp add: xor_bytes_def)

lemma xor_bytes_cancel [simp]: "length b = length a \<Longrightarrow> xor_bytes (xor_bytes a b) b = a"
  by (rule nth_equalityI) (simp_all add: xor_bytes_def xor.assoc)

lemma map_inv_sbox [simp]: "map (inv_sbox \<circ> sbox) s = s"
  by (induction s) simp_all

lemma shift_rows_inverse [simp]: "length s = 16 \<Longrightarrow> inv_shift_rows (shift_rows s) = s"
  by (erule block_cases) (simp add: shift_rows_def inv_shift_rows_def upt_steps)

lemma inv_sub_shift_sub_shift [simp]:
  "length s = 16 \<Longrightarrow> inv_sub_shift (sub_shift s) = s"
  by (simp add: inv_sub_shift_def sub_shift_def shift_rows_inverse)

lemma mix_column_inverse:
  "mix_column a b c d = [e, f, g, h] \<Longrightarrow> inv_mix_column e f g h = [a, b, c, d]"
  by (auto simp: mix_column_def inv_mix_column_def gmul_defs xtime_xor xor_ac)

lemma mix_columns_inverse [simp]: "length s = 16 \<Longrightarrow> inv_mix_columns (mix_columns s) = s"
  by (erule block_cases) (simp add: mix_columns_def inv_mix_columns_def on_columns_def mix_column_def
      mix_column_inverse [unfolded mix_column_def])

lemma length_steps [simp]:
  "length (mix_columns s) = 16" "length (inv_mix_columns s) = 16"
  "length (sub_shift s) = 16" "length (inv_sub_shift s) = 16"
  by (simp_all add: mix_columns_def inv_mix_columns_def on_columns_def mix_column_def
      inv_mix_column_def sub_shift_def inv_sub_shift_def shift_rows_def inv_shift_rows_def)

lemma length_round_key [simp]: "length k = 16 \<Longrightarrow> length (round_key k r) = 16"
  by (induction r) (simp_all add: next_key_def Let_def)

lemma dec_round_enc_round:
  "length k = 16 \<Longrightarrow> length s = 16 \<Longrightarrow> dec_round k r (sub_shift (enc_round k r s)) = sub_shift s"
  by (simp add: dec_round_def enc_round_def)

lemma dec_rounds_enc_rounds:
  assumes "length k = 16" "length s = 16"
  shows "fold (dec_round k) (rev rs) (sub_shift (fold (enc_round k) rs s)) = sub_shift s"
    and "length (fold (enc_round k) rs s) = 16"
proof -
  have "fold (dec_round k) (rev rs) (sub_shift (fold (enc_round k) rs s)) = sub_shift s
      \<and> length (fold (enc_round k) rs s) = 16"
    using assms
  proof (induction rs arbitrary: s)
    case (Cons r rs)
    moreover have "length (enc_round k r s) = 16" using Cons.prems by (simp add: enc_round_def)
    ultimately show ?case by (simp add: dec_round_enc_round)
  qed simp
  then show "fold (dec_round k) (rev rs) (sub_shift (fold (enc_round k) rs s)) = sub_shift s"
    "length (fold (enc_round k) rs s) = 16" by blast+
qed

theorem aes_decrypt_encrypt:
  assumes "length k = 16" "length p = 16"
  shows "aes_decrypt k (aes_encrypt k p) = p"
  using assms by (simp add: aes_decrypt_def aes_encrypt_def dec_rounds_enc_rounds del: upt_rec_numeral)

text \<open>What a block cipher promises its users, and what follows for one block in CBC mode.\<close>

locale block_cipher =
  fixes enc dec :: "bytes \<Rightarrow> bytes \<Rightarrow> bytes"
  assumes dec_enc: "length k = 16 \<Longrightarrow> length p = 16 \<Longrightarrow> dec k (enc k p) = p"
    and length_enc: "length k = 16 \<Longrightarrow> length p = 16 \<Longrightarrow> length (enc k p) = 16"
begin

lemma cbc_block:
  assumes "length k = 16" "length p = 16" "length iv = 16"
  shows "xor_bytes (dec k (enc k (xor_bytes p iv))) iv = p" and "length (enc k (xor_bytes p iv)) = 16"
  using assms by (simp_all add: dec_enc length_enc)

end

interpretation aes: block_cipher aes_encrypt aes_decrypt
  by unfold_locales (simp_all only: aes_decrypt_encrypt, simp add: aes_encrypt_def)

text \<open>The rounds of the inverse cipher, cut after the substitution instead of after the mixing.\<close>

definition mid_round :: "bytes \<Rightarrow> nat \<Rightarrow> bytes \<Rightarrow> bytes" where
  "mid_round k r t = inv_sub_shift (inv_mix_columns (xor_bytes t (round_key k r)))"

lemma inv_sub_shift_dec_rounds:
  "inv_sub_shift (fold (dec_round k) rs s) = fold (mid_round k) rs (inv_sub_shift s)"
  by (induction rs arbitrary: s) (simp_all add: dec_round_def mid_round_def)

lemma aes_decrypt_mid:
  "aes_decrypt k c =
     xor_bytes (fold (mid_round k) (rev [1..<10]) (inv_sub_shift (xor_bytes c (round_key k 10))))
       (round_key k 0)"
  by (simp only: aes_decrypt_def inv_sub_shift_dec_rounds)

end
