(* ===== verification/Fairplay_Masks.thy ===== *)
theory Fairplay_Masks
  imports Fairplay_Cipher Aes_Reference
begin

text \<open>
  What the tables of the key decryption hold: every row of S1 is the AES S-box, and every row of S3
  and S4 its inverse, with a mask on the index and a mask on the value; S5 to S8 are the columns of
  the inverse mixing matrix, with a constant. The equations are checked entry by entry.
\<close>

section \<open>Masked substitution boxes\<close>

lemma word_xor_num:
  "(numeral m :: 'a::len word) XOR numeral n =
     (case xor_num m n of None \<Rightarrow> 0 | Some k \<Rightarrow> numeral k)"
  by (induction m n rule: xor_num.induct) (simp_all split: option.split)

text \<open>Exclusive or of literals, by the recursion on binary numerals alone.\<close>

lemmas xor_eval =
  word_xor_num word_xor_num [where n = num.One, unfolded numeral_One]
  word_xor_num [where m = num.One, unfolded numeral_One]
  xor_num.simps option.case option.map xor_self_eq xor.left_neutral xor.right_neutral numeral_One

text \<open>Position \<open>i\<close> of the result is position \<open>i XOR k\<close> of the list.\<close>

definition perm16 :: "nat \<Rightarrow> 'a list \<Rightarrow> 'a list" where
  "perm16 k xs = map (\<lambda>i. xs ! (i XOR k)) [0..<16]"

lemma perm16_eval:
  "perm16 0 [a0, a1, a2, a3, a4, a5, a6, a7, a8, a9, a10, a11, a12, a13, a14, a15] =
     [a0, a1, a2, a3, a4, a5, a6, a7, a8, a9, a10, a11, a12, a13, a14, a15]"
  "perm16 1 [a0, a1, a2, a3, a4, a5, a6, a7, a8, a9, a10, a11, a12, a13, a14, a15] =
     [a1, a0, a3, a2, a5, a4, a7, a6, a9, a8, a11, a10, a13, a12, a15, a14]"
  "perm16 2 [a0, a1, a2, a3, a4, a5, a6, a7, a8, a9, a10, a11, a12, a13, a14, a15] =
     [a2, a3, a0, a1, a6, a7, a4, a5, a10, a11, a8, a9, a14, a15, a12, a13]"
  "perm16 3 [a0, a1, a2, a3, a4, a5, a6, a7, a8, a9, a10, a11, a12, a13, a14, a15] =
     [a3, a2, a1, a0, a7, a6, a5, a4, a11, a10, a9, a8, a15, a14, a13, a12]"
  "perm16 4 [a0, a1, a2, a3, a4, a5, a6, a7, a8, a9, a10, a11, a12, a13, a14, a15] =
     [a4, a5, a6, a7, a0, a1, a2, a3, a12, a13, a14, a15, a8, a9, a10, a11]"
  "perm16 5 [a0, a1, a2, a3, a4, a5, a6, a7, a8, a9, a10, a11, a12, a13, a14, a15] =
     [a5, a4, a7, a6, a1, a0, a3, a2, a13, a12, a15, a14, a9, a8, a11, a10]"
  "perm16 6 [a0, a1, a2, a3, a4, a5, a6, a7, a8, a9, a10, a11, a12, a13, a14, a15] =
     [a6, a7, a4, a5, a2, a3, a0, a1, a14, a15, a12, a13, a10, a11, a8, a9]"
  "perm16 7 [a0, a1, a2, a3, a4, a5, a6, a7, a8, a9, a10, a11, a12, a13, a14, a15] =
     [a7, a6, a5, a4, a3, a2, a1, a0, a15, a14, a13, a12, a11, a10, a9, a8]"
  "perm16 8 [a0, a1, a2, a3, a4, a5, a6, a7, a8, a9, a10, a11, a12, a13, a14, a15] =
     [a8, a9, a10, a11, a12, a13, a14, a15, a0, a1, a2, a3, a4, a5, a6, a7]"
  "perm16 9 [a0, a1, a2, a3, a4, a5, a6, a7, a8, a9, a10, a11, a12, a13, a14, a15] =
     [a9, a8, a11, a10, a13, a12, a15, a14, a1, a0, a3, a2, a5, a4, a7, a6]"
  "perm16 10 [a0, a1, a2, a3, a4, a5, a6, a7, a8, a9, a10, a11, a12, a13, a14, a15] =
     [a10, a11, a8, a9, a14, a15, a12, a13, a2, a3, a0, a1, a6, a7, a4, a5]"
  "perm16 11 [a0, a1, a2, a3, a4, a5, a6, a7, a8, a9, a10, a11, a12, a13, a14, a15] =
     [a11, a10, a9, a8, a15, a14, a13, a12, a3, a2, a1, a0, a7, a6, a5, a4]"
  "perm16 12 [a0, a1, a2, a3, a4, a5, a6, a7, a8, a9, a10, a11, a12, a13, a14, a15] =
     [a12, a13, a14, a15, a8, a9, a10, a11, a4, a5, a6, a7, a0, a1, a2, a3]"
  "perm16 13 [a0, a1, a2, a3, a4, a5, a6, a7, a8, a9, a10, a11, a12, a13, a14, a15] =
     [a13, a12, a15, a14, a9, a8, a11, a10, a5, a4, a7, a6, a1, a0, a3, a2]"
  "perm16 14 [a0, a1, a2, a3, a4, a5, a6, a7, a8, a9, a10, a11, a12, a13, a14, a15] =
     [a14, a15, a12, a13, a10, a11, a8, a9, a6, a7, a4, a5, a2, a3, a0, a1]"
  "perm16 15 [a0, a1, a2, a3, a4, a5, a6, a7, a8, a9, a10, a11, a12, a13, a14, a15] =
     [a15, a14, a13, a12, a11, a10, a9, a8, a7, a6, a5, a4, a3, a2, a1, a0]"
  by (simp_all add: perm16_def upt_steps)

text \<open>A box of 16 rows of 16 with the index masked by \<open>16 * h + l\<close> and the value by \<open>m\<close>.\<close>

definition masked :: "bytes list \<Rightarrow> nat \<times> nat \<times> byte \<Rightarrow> bytes" where
  "masked box = (\<lambda>(h, l, m). concat (map (\<lambda>r. map (\<lambda>v. v XOR m) (perm16 l r)) (perm16 h box)))"

lemmas masked_eval = prod.case perm16_eval list.map concat.simps append.simps xor_eval

lemma length_perm16 [simp]: "length (perm16 k xs) = 16"
  by (simp add: perm16_def)

lemma masked_rows: "\<forall>r \<in> set (map (\<lambda>r. map (\<lambda>v. v XOR m) (perm16 l r)) xs). length r = 16"
  by auto

lemma length_masked [simp]: "length (masked box m) = 256"
  by (simp add: masked_def length_concat split_beta o_def sum_list_triv)

lemma masked_nth:
  fixes x :: byte
  assumes "length box = 16" "\<forall>r \<in> set box. length r = 16" "h < 16" "l < 16"
  shows "masked box (h, l, m) ! unat x =
    (let y = unat (x XOR of_nat (16 * h + l)) in box ! (y div 16) ! (y mod 16)) XOR m"
proof -
  let ?i = "unat x div 16" and ?j = "unat x mod 16"
  have i: "?i < 16" using byte_lt [of x] by linarith
  have "masked box (h, l, m) ! unat x =
      map (\<lambda>r. map (\<lambda>v. v XOR m) (perm16 l r)) (perm16 h box) ! ?i ! ?j"
    unfolding masked_def prod.case by (rule concat_nth [OF masked_rows]) simp
  also have "\<dots> = box ! (?i XOR h) ! (?j XOR l) XOR m"
    using i by (simp add: perm16_def)
  finally have *: "masked box (h, l, m) ! unat x = box ! (?i XOR h) ! (?j XOR l) XOR m" .
  have "?i XOR h = unat (x XOR of_nat (16 * h + l)) div 16"
    and "?j XOR l = unat (x XOR of_nat (16 * h + l)) mod 16"
  proof -
    have u: "unat (of_nat (16 * h + l) :: byte) = 16 * h + l" using assms by (simp add: unat_of_nat del: of_nat_add of_nat_mult)
    have d: "drop_bit 4 n = n div 16" and t: "take_bit 4 n = n mod 16" for n :: nat
      by (simp_all add: drop_bit_eq_div take_bit_eq_mod)
    have hl: "(16 * h + l) div 16 = h" "(16 * h + l) mod 16 = l" using assms by simp_all
    show "?i XOR h = unat (x XOR of_nat (16 * h + l)) div 16"
      unfolding unsigned_xor_eq u d [symmetric] drop_bit_xor by (simp only: d hl)
    show "?j XOR l = unat (x XOR of_nat (16 * h + l)) mod 16"
      unfolding unsigned_xor_eq u t [symmetric] take_bit_xor by (simp only: t hl)
  qed
  with * show ?thesis by (simp only: Let_def)
qed

section \<open>The substitution tables\<close>

definition S1_MASKS :: "(nat \<times> nat \<times> byte) list" where
  "S1_MASKS = [
    (4, 12, 0x4f), (14, 11, 0x2e), (14, 4, 0x7e), (15, 13, 0x48), (11, 12, 0x59), (14, 13, 0x62), (9, 1, 0x32), (14, 5, 0x43),
    (8, 14, 0x5d), (5, 5, 0x6a), (0, 12, 0x57), (0, 10, 0x1a), (3, 13, 0x7c), (6, 12, 0x12), (0, 8, 0x73), (3, 7, 0x12),
    (0, 4, 0x3c), (8, 9, 0xab), (8, 6, 0x45), (12, 15, 0xd8), (15, 15, 0xbd), (2, 7, 0x24), (13, 0, 0xa8), (11, 2, 0x11),
    (9, 4, 0xcb), (2, 0, 0xf6), (4, 8, 0x90), (7, 9, 0x15), (2, 15, 0xfd), (1, 0, 0xac), (8, 5, 0x7b), (10, 0, 0xa2),
    (13, 12, 0xe0), (11, 5, 0x14), (9, 8, 0x45), (8, 7, 0x1f), (14, 14, 0x29), (9, 10, 0x94), (2, 6, 0x8d), (4, 9, 0x83)]"

definition S3_MASKS :: "(nat \<times> nat \<times> byte) list" where
  "S3_MASKS = [
    (15, 10, 0xc9), (2, 7, 0xee), (8, 15, 0xcb), (10, 9, 0x8a), (3, 2, 0xbe), (0, 0, 0x89), (12, 1, 0x79), (3, 13, 0x8e),
    (11, 2, 0xb8), (15, 8, 0xc1), (1, 0, 0x33), (1, 9, 0x86), (1, 8, 0x55), (11, 14, 0x32), (8, 14, 0xb6), (5, 10, 0x13)]"

definition S4_MASKS :: "(nat \<times> nat \<times> byte) list" where
  "S4_MASKS = [
    (3, 3, 0x3d), (2, 3, 0xa3), (3, 8, 0xb2), (0, 5, 0x8a), (3, 3, 0xed), (2, 3, 0x73), (3, 8, 0x7d), (0, 5, 0x0b),
    (3, 3, 0x06), (2, 3, 0x98), (3, 8, 0x85), (0, 5, 0x3d), (3, 3, 0x77), (2, 3, 0x1d), (3, 8, 0x40), (0, 5, 0xb3),
    (3, 3, 0x29), (2, 3, 0xd0), (3, 8, 0xcf), (0, 5, 0x81), (3, 3, 0xeb), (2, 3, 0x85), (3, 8, 0xf8), (0, 5, 0x43),
    (3, 3, 0x71), (2, 3, 0x85), (3, 8, 0xc5), (0, 5, 0x8e), (3, 3, 0x5e), (2, 3, 0xcd), (3, 8, 0x17), (0, 5, 0x32),
    (3, 3, 0xd4), (2, 3, 0x55), (3, 8, 0x37), (0, 5, 0xc2), (3, 3, 0x9a), (2, 3, 0xa1), (3, 8, 0x3d), (0, 5, 0xc0),
    (3, 3, 0x2f), (2, 3, 0x48), (3, 8, 0xd2), (0, 5, 0xbc), (3, 3, 0x8a), (2, 3, 0x98), (3, 8, 0x25), (0, 5, 0xf0),
    (3, 3, 0x1f), (2, 3, 0xf4), (3, 8, 0x0a), (0, 5, 0x02), (3, 3, 0xb5), (2, 3, 0x0a), (3, 8, 0xef), (0, 5, 0xdf),
    (3, 3, 0xa5), (2, 3, 0x6b), (3, 8, 0xf7), (0, 5, 0x18), (3, 3, 0x95), (2, 3, 0xfa), (3, 8, 0x5b), (0, 5, 0x75),
    (3, 3, 0xa2), (2, 3, 0x77), (3, 8, 0xe5), (0, 5, 0x64), (3, 3, 0x10), (2, 3, 0xb4), (3, 8, 0x18), (0, 5, 0xa3),
    (3, 3, 0x30), (2, 3, 0x08), (3, 8, 0xac), (0, 5, 0xdc), (3, 3, 0x37), (2, 3, 0x04), (3, 8, 0xd6), (0, 5, 0xf3),
    (3, 3, 0x9e), (2, 3, 0x99), (3, 8, 0xfd), (0, 5, 0x48), (3, 3, 0x20), (2, 3, 0x71), (3, 8, 0xb4), (0, 5, 0x98),
    (3, 3, 0x07), (2, 3, 0x0c), (3, 8, 0x7a), (0, 5, 0x2f), (3, 3, 0xa9), (2, 3, 0x9d), (3, 8, 0x93), (0, 5, 0xbb),
    (3, 3, 0xe2), (2, 3, 0xe8), (3, 8, 0x49), (0, 5, 0xd0), (3, 3, 0x27), (2, 3, 0x5f), (3, 8, 0xce), (0, 5, 0x40),
    (3, 3, 0xae), (2, 3, 0x91), (3, 8, 0xe9), (0, 5, 0x94), (3, 3, 0x4b), (2, 3, 0x75), (3, 8, 0xe8), (0, 5, 0x6b),
    (3, 3, 0xbf), (2, 3, 0xb7), (3, 8, 0x87), (0, 5, 0x90), (3, 3, 0x89), (2, 3, 0xcb), (3, 8, 0x27), (0, 5, 0x52),
    (3, 3, 0xe5), (2, 3, 0xe4), (3, 8, 0x01), (0, 5, 0xff), (3, 3, 0xf4), (2, 3, 0xc2), (3, 8, 0x78), (0, 5, 0xfb),
    (3, 3, 0xe6), (2, 3, 0x7c), (3, 8, 0x06), (0, 5, 0xc2), (3, 3, 0x22), (2, 3, 0xdf), (3, 8, 0xc5), (0, 5, 0x48),
    (3, 3, 0x76), (2, 3, 0x26), (3, 8, 0x8e), (0, 5, 0x04), (3, 3, 0xc8), (2, 3, 0xbe), (3, 8, 0x2e), (0, 5, 0x39)]"

lemmas TABLE_S1_defs_0 =
  TABLE_S1_0_def TABLE_S1_1_def TABLE_S1_2_def TABLE_S1_3_def TABLE_S1_4_def
  TABLE_S1_5_def TABLE_S1_6_def TABLE_S1_7_def TABLE_S1_8_def TABLE_S1_9_def

lemma S1_masked_0:
  "TABLE_S1_0 = masked SBOX (4, 12, 0x4f)"
  "TABLE_S1_1 = masked SBOX (14, 11, 0x2e)"
  "TABLE_S1_2 = masked SBOX (14, 4, 0x7e)"
  "TABLE_S1_3 = masked SBOX (15, 13, 0x48)"
  "TABLE_S1_4 = masked SBOX (11, 12, 0x59)"
  "TABLE_S1_5 = masked SBOX (14, 13, 0x62)"
  "TABLE_S1_6 = masked SBOX (9, 1, 0x32)"
  "TABLE_S1_7 = masked SBOX (14, 5, 0x43)"
  "TABLE_S1_8 = masked SBOX (8, 14, 0x5d)"
  "TABLE_S1_9 = masked SBOX (5, 5, 0x6a)"
  by (simp_all only: masked_def SBOX_def TABLE_S1_defs_0 masked_eval)

lemmas TABLE_S1_defs_1 =
  TABLE_S1_10_def TABLE_S1_11_def TABLE_S1_12_def TABLE_S1_13_def TABLE_S1_14_def
  TABLE_S1_15_def TABLE_S1_16_def TABLE_S1_17_def TABLE_S1_18_def TABLE_S1_19_def

lemma S1_masked_1:
  "TABLE_S1_10 = masked SBOX (0, 12, 0x57)"
  "TABLE_S1_11 = masked SBOX (0, 10, 0x1a)"
  "TABLE_S1_12 = masked SBOX (3, 13, 0x7c)"
  "TABLE_S1_13 = masked SBOX (6, 12, 0x12)"
  "TABLE_S1_14 = masked SBOX (0, 8, 0x73)"
  "TABLE_S1_15 = masked SBOX (3, 7, 0x12)"
  "TABLE_S1_16 = masked SBOX (0, 4, 0x3c)"
  "TABLE_S1_17 = masked SBOX (8, 9, 0xab)"
  "TABLE_S1_18 = masked SBOX (8, 6, 0x45)"
  "TABLE_S1_19 = masked SBOX (12, 15, 0xd8)"
  by (simp_all only: masked_def SBOX_def TABLE_S1_defs_1 masked_eval)

lemmas TABLE_S1_defs_2 =
  TABLE_S1_20_def TABLE_S1_21_def TABLE_S1_22_def TABLE_S1_23_def TABLE_S1_24_def
  TABLE_S1_25_def TABLE_S1_26_def TABLE_S1_27_def TABLE_S1_28_def TABLE_S1_29_def

lemma S1_masked_2:
  "TABLE_S1_20 = masked SBOX (15, 15, 0xbd)"
  "TABLE_S1_21 = masked SBOX (2, 7, 0x24)"
  "TABLE_S1_22 = masked SBOX (13, 0, 0xa8)"
  "TABLE_S1_23 = masked SBOX (11, 2, 0x11)"
  "TABLE_S1_24 = masked SBOX (9, 4, 0xcb)"
  "TABLE_S1_25 = masked SBOX (2, 0, 0xf6)"
  "TABLE_S1_26 = masked SBOX (4, 8, 0x90)"
  "TABLE_S1_27 = masked SBOX (7, 9, 0x15)"
  "TABLE_S1_28 = masked SBOX (2, 15, 0xfd)"
  "TABLE_S1_29 = masked SBOX (1, 0, 0xac)"
  by (simp_all only: masked_def SBOX_def TABLE_S1_defs_2 masked_eval)

lemmas TABLE_S1_defs_3 =
  TABLE_S1_30_def TABLE_S1_31_def TABLE_S1_32_def TABLE_S1_33_def TABLE_S1_34_def
  TABLE_S1_35_def TABLE_S1_36_def TABLE_S1_37_def TABLE_S1_38_def TABLE_S1_39_def

lemma S1_masked_3:
  "TABLE_S1_30 = masked SBOX (8, 5, 0x7b)"
  "TABLE_S1_31 = masked SBOX (10, 0, 0xa2)"
  "TABLE_S1_32 = masked SBOX (13, 12, 0xe0)"
  "TABLE_S1_33 = masked SBOX (11, 5, 0x14)"
  "TABLE_S1_34 = masked SBOX (9, 8, 0x45)"
  "TABLE_S1_35 = masked SBOX (8, 7, 0x1f)"
  "TABLE_S1_36 = masked SBOX (14, 14, 0x29)"
  "TABLE_S1_37 = masked SBOX (9, 10, 0x94)"
  "TABLE_S1_38 = masked SBOX (2, 6, 0x8d)"
  "TABLE_S1_39 = masked SBOX (4, 9, 0x83)"
  by (simp_all only: masked_def SBOX_def TABLE_S1_defs_3 masked_eval)

lemma S1_rows: "TABLE_S1_rows = map (masked SBOX) S1_MASKS"
  by (simp only: TABLE_S1_rows_def S1_MASKS_def list.map
      S1_masked_0 S1_masked_1 S1_masked_2 S1_masked_3)

lemmas TABLE_S3_defs_0 =
  TABLE_S3_0_def TABLE_S3_1_def TABLE_S3_2_def TABLE_S3_3_def TABLE_S3_4_def
  TABLE_S3_5_def TABLE_S3_6_def TABLE_S3_7_def

lemma S3_masked_0:
  "TABLE_S3_0 = masked INV_SBOX (15, 10, 0xc9)"
  "TABLE_S3_1 = masked INV_SBOX (2, 7, 0xee)"
  "TABLE_S3_2 = masked INV_SBOX (8, 15, 0xcb)"
  "TABLE_S3_3 = masked INV_SBOX (10, 9, 0x8a)"
  "TABLE_S3_4 = masked INV_SBOX (3, 2, 0xbe)"
  "TABLE_S3_5 = masked INV_SBOX (0, 0, 0x89)"
  "TABLE_S3_6 = masked INV_SBOX (12, 1, 0x79)"
  "TABLE_S3_7 = masked INV_SBOX (3, 13, 0x8e)"
  by (simp_all only: masked_def INV_SBOX_def TABLE_S3_defs_0 masked_eval)

lemmas TABLE_S3_defs_1 =
  TABLE_S3_8_def TABLE_S3_9_def TABLE_S3_10_def TABLE_S3_11_def TABLE_S3_12_def
  TABLE_S3_13_def TABLE_S3_14_def TABLE_S3_15_def

lemma S3_masked_1:
  "TABLE_S3_8 = masked INV_SBOX (11, 2, 0xb8)"
  "TABLE_S3_9 = masked INV_SBOX (15, 8, 0xc1)"
  "TABLE_S3_10 = masked INV_SBOX (1, 0, 0x33)"
  "TABLE_S3_11 = masked INV_SBOX (1, 9, 0x86)"
  "TABLE_S3_12 = masked INV_SBOX (1, 8, 0x55)"
  "TABLE_S3_13 = masked INV_SBOX (11, 14, 0x32)"
  "TABLE_S3_14 = masked INV_SBOX (8, 14, 0xb6)"
  "TABLE_S3_15 = masked INV_SBOX (5, 10, 0x13)"
  by (simp_all only: masked_def INV_SBOX_def TABLE_S3_defs_1 masked_eval)

lemma S3_rows: "TABLE_S3_rows = map (masked INV_SBOX) S3_MASKS"
  by (simp only: TABLE_S3_rows_def S3_MASKS_def list.map
      S3_masked_0 S3_masked_1)

lemmas TABLE_S4_defs_0 =
  TABLE_S4_0_def TABLE_S4_1_def TABLE_S4_2_def TABLE_S4_3_def TABLE_S4_4_def
  TABLE_S4_5_def TABLE_S4_6_def TABLE_S4_7_def TABLE_S4_8_def TABLE_S4_9_def
  TABLE_S4_10_def TABLE_S4_11_def

lemma S4_masked_0:
  "TABLE_S4_0 = masked INV_SBOX (3, 3, 0x3d)"
  "TABLE_S4_1 = masked INV_SBOX (2, 3, 0xa3)"
  "TABLE_S4_2 = masked INV_SBOX (3, 8, 0xb2)"
  "TABLE_S4_3 = masked INV_SBOX (0, 5, 0x8a)"
  "TABLE_S4_4 = masked INV_SBOX (3, 3, 0xed)"
  "TABLE_S4_5 = masked INV_SBOX (2, 3, 0x73)"
  "TABLE_S4_6 = masked INV_SBOX (3, 8, 0x7d)"
  "TABLE_S4_7 = masked INV_SBOX (0, 5, 0x0b)"
  "TABLE_S4_8 = masked INV_SBOX (3, 3, 0x06)"
  "TABLE_S4_9 = masked INV_SBOX (2, 3, 0x98)"
  "TABLE_S4_10 = masked INV_SBOX (3, 8, 0x85)"
  "TABLE_S4_11 = masked INV_SBOX (0, 5, 0x3d)"
  by (simp_all only: masked_def INV_SBOX_def TABLE_S4_defs_0 masked_eval)

lemmas TABLE_S4_defs_1 =
  TABLE_S4_12_def TABLE_S4_13_def TABLE_S4_14_def TABLE_S4_15_def TABLE_S4_16_def
  TABLE_S4_17_def TABLE_S4_18_def TABLE_S4_19_def TABLE_S4_20_def TABLE_S4_21_def
  TABLE_S4_22_def TABLE_S4_23_def

lemma S4_masked_1:
  "TABLE_S4_12 = masked INV_SBOX (3, 3, 0x77)"
  "TABLE_S4_13 = masked INV_SBOX (2, 3, 0x1d)"
  "TABLE_S4_14 = masked INV_SBOX (3, 8, 0x40)"
  "TABLE_S4_15 = masked INV_SBOX (0, 5, 0xb3)"
  "TABLE_S4_16 = masked INV_SBOX (3, 3, 0x29)"
  "TABLE_S4_17 = masked INV_SBOX (2, 3, 0xd0)"
  "TABLE_S4_18 = masked INV_SBOX (3, 8, 0xcf)"
  "TABLE_S4_19 = masked INV_SBOX (0, 5, 0x81)"
  "TABLE_S4_20 = masked INV_SBOX (3, 3, 0xeb)"
  "TABLE_S4_21 = masked INV_SBOX (2, 3, 0x85)"
  "TABLE_S4_22 = masked INV_SBOX (3, 8, 0xf8)"
  "TABLE_S4_23 = masked INV_SBOX (0, 5, 0x43)"
  by (simp_all only: masked_def INV_SBOX_def TABLE_S4_defs_1 masked_eval)

lemmas TABLE_S4_defs_2 =
  TABLE_S4_24_def TABLE_S4_25_def TABLE_S4_26_def TABLE_S4_27_def TABLE_S4_28_def
  TABLE_S4_29_def TABLE_S4_30_def TABLE_S4_31_def TABLE_S4_32_def TABLE_S4_33_def
  TABLE_S4_34_def TABLE_S4_35_def

lemma S4_masked_2:
  "TABLE_S4_24 = masked INV_SBOX (3, 3, 0x71)"
  "TABLE_S4_25 = masked INV_SBOX (2, 3, 0x85)"
  "TABLE_S4_26 = masked INV_SBOX (3, 8, 0xc5)"
  "TABLE_S4_27 = masked INV_SBOX (0, 5, 0x8e)"
  "TABLE_S4_28 = masked INV_SBOX (3, 3, 0x5e)"
  "TABLE_S4_29 = masked INV_SBOX (2, 3, 0xcd)"
  "TABLE_S4_30 = masked INV_SBOX (3, 8, 0x17)"
  "TABLE_S4_31 = masked INV_SBOX (0, 5, 0x32)"
  "TABLE_S4_32 = masked INV_SBOX (3, 3, 0xd4)"
  "TABLE_S4_33 = masked INV_SBOX (2, 3, 0x55)"
  "TABLE_S4_34 = masked INV_SBOX (3, 8, 0x37)"
  "TABLE_S4_35 = masked INV_SBOX (0, 5, 0xc2)"
  by (simp_all only: masked_def INV_SBOX_def TABLE_S4_defs_2 masked_eval)

lemmas TABLE_S4_defs_3 =
  TABLE_S4_36_def TABLE_S4_37_def TABLE_S4_38_def TABLE_S4_39_def TABLE_S4_40_def
  TABLE_S4_41_def TABLE_S4_42_def TABLE_S4_43_def TABLE_S4_44_def TABLE_S4_45_def
  TABLE_S4_46_def TABLE_S4_47_def

lemma S4_masked_3:
  "TABLE_S4_36 = masked INV_SBOX (3, 3, 0x9a)"
  "TABLE_S4_37 = masked INV_SBOX (2, 3, 0xa1)"
  "TABLE_S4_38 = masked INV_SBOX (3, 8, 0x3d)"
  "TABLE_S4_39 = masked INV_SBOX (0, 5, 0xc0)"
  "TABLE_S4_40 = masked INV_SBOX (3, 3, 0x2f)"
  "TABLE_S4_41 = masked INV_SBOX (2, 3, 0x48)"
  "TABLE_S4_42 = masked INV_SBOX (3, 8, 0xd2)"
  "TABLE_S4_43 = masked INV_SBOX (0, 5, 0xbc)"
  "TABLE_S4_44 = masked INV_SBOX (3, 3, 0x8a)"
  "TABLE_S4_45 = masked INV_SBOX (2, 3, 0x98)"
  "TABLE_S4_46 = masked INV_SBOX (3, 8, 0x25)"
  "TABLE_S4_47 = masked INV_SBOX (0, 5, 0xf0)"
  by (simp_all only: masked_def INV_SBOX_def TABLE_S4_defs_3 masked_eval)

lemmas TABLE_S4_defs_4 =
  TABLE_S4_48_def TABLE_S4_49_def TABLE_S4_50_def TABLE_S4_51_def TABLE_S4_52_def
  TABLE_S4_53_def TABLE_S4_54_def TABLE_S4_55_def TABLE_S4_56_def TABLE_S4_57_def
  TABLE_S4_58_def TABLE_S4_59_def

lemma S4_masked_4:
  "TABLE_S4_48 = masked INV_SBOX (3, 3, 0x1f)"
  "TABLE_S4_49 = masked INV_SBOX (2, 3, 0xf4)"
  "TABLE_S4_50 = masked INV_SBOX (3, 8, 0x0a)"
  "TABLE_S4_51 = masked INV_SBOX (0, 5, 0x02)"
  "TABLE_S4_52 = masked INV_SBOX (3, 3, 0xb5)"
  "TABLE_S4_53 = masked INV_SBOX (2, 3, 0x0a)"
  "TABLE_S4_54 = masked INV_SBOX (3, 8, 0xef)"
  "TABLE_S4_55 = masked INV_SBOX (0, 5, 0xdf)"
  "TABLE_S4_56 = masked INV_SBOX (3, 3, 0xa5)"
  "TABLE_S4_57 = masked INV_SBOX (2, 3, 0x6b)"
  "TABLE_S4_58 = masked INV_SBOX (3, 8, 0xf7)"
  "TABLE_S4_59 = masked INV_SBOX (0, 5, 0x18)"
  by (simp_all only: masked_def INV_SBOX_def TABLE_S4_defs_4 masked_eval)

lemmas TABLE_S4_defs_5 =
  TABLE_S4_60_def TABLE_S4_61_def TABLE_S4_62_def TABLE_S4_63_def TABLE_S4_64_def
  TABLE_S4_65_def TABLE_S4_66_def TABLE_S4_67_def TABLE_S4_68_def TABLE_S4_69_def
  TABLE_S4_70_def TABLE_S4_71_def

lemma S4_masked_5:
  "TABLE_S4_60 = masked INV_SBOX (3, 3, 0x95)"
  "TABLE_S4_61 = masked INV_SBOX (2, 3, 0xfa)"
  "TABLE_S4_62 = masked INV_SBOX (3, 8, 0x5b)"
  "TABLE_S4_63 = masked INV_SBOX (0, 5, 0x75)"
  "TABLE_S4_64 = masked INV_SBOX (3, 3, 0xa2)"
  "TABLE_S4_65 = masked INV_SBOX (2, 3, 0x77)"
  "TABLE_S4_66 = masked INV_SBOX (3, 8, 0xe5)"
  "TABLE_S4_67 = masked INV_SBOX (0, 5, 0x64)"
  "TABLE_S4_68 = masked INV_SBOX (3, 3, 0x10)"
  "TABLE_S4_69 = masked INV_SBOX (2, 3, 0xb4)"
  "TABLE_S4_70 = masked INV_SBOX (3, 8, 0x18)"
  "TABLE_S4_71 = masked INV_SBOX (0, 5, 0xa3)"
  by (simp_all only: masked_def INV_SBOX_def TABLE_S4_defs_5 masked_eval)

lemmas TABLE_S4_defs_6 =
  TABLE_S4_72_def TABLE_S4_73_def TABLE_S4_74_def TABLE_S4_75_def TABLE_S4_76_def
  TABLE_S4_77_def TABLE_S4_78_def TABLE_S4_79_def TABLE_S4_80_def TABLE_S4_81_def
  TABLE_S4_82_def TABLE_S4_83_def

lemma S4_masked_6:
  "TABLE_S4_72 = masked INV_SBOX (3, 3, 0x30)"
  "TABLE_S4_73 = masked INV_SBOX (2, 3, 0x08)"
  "TABLE_S4_74 = masked INV_SBOX (3, 8, 0xac)"
  "TABLE_S4_75 = masked INV_SBOX (0, 5, 0xdc)"
  "TABLE_S4_76 = masked INV_SBOX (3, 3, 0x37)"
  "TABLE_S4_77 = masked INV_SBOX (2, 3, 0x04)"
  "TABLE_S4_78 = masked INV_SBOX (3, 8, 0xd6)"
  "TABLE_S4_79 = masked INV_SBOX (0, 5, 0xf3)"
  "TABLE_S4_80 = masked INV_SBOX (3, 3, 0x9e)"
  "TABLE_S4_81 = masked INV_SBOX (2, 3, 0x99)"
  "TABLE_S4_82 = masked INV_SBOX (3, 8, 0xfd)"
  "TABLE_S4_83 = masked INV_SBOX (0, 5, 0x48)"
  by (simp_all only: masked_def INV_SBOX_def TABLE_S4_defs_6 masked_eval)

lemmas TABLE_S4_defs_7 =
  TABLE_S4_84_def TABLE_S4_85_def TABLE_S4_86_def TABLE_S4_87_def TABLE_S4_88_def
  TABLE_S4_89_def TABLE_S4_90_def TABLE_S4_91_def TABLE_S4_92_def TABLE_S4_93_def
  TABLE_S4_94_def TABLE_S4_95_def

lemma S4_masked_7:
  "TABLE_S4_84 = masked INV_SBOX (3, 3, 0x20)"
  "TABLE_S4_85 = masked INV_SBOX (2, 3, 0x71)"
  "TABLE_S4_86 = masked INV_SBOX (3, 8, 0xb4)"
  "TABLE_S4_87 = masked INV_SBOX (0, 5, 0x98)"
  "TABLE_S4_88 = masked INV_SBOX (3, 3, 0x07)"
  "TABLE_S4_89 = masked INV_SBOX (2, 3, 0x0c)"
  "TABLE_S4_90 = masked INV_SBOX (3, 8, 0x7a)"
  "TABLE_S4_91 = masked INV_SBOX (0, 5, 0x2f)"
  "TABLE_S4_92 = masked INV_SBOX (3, 3, 0xa9)"
  "TABLE_S4_93 = masked INV_SBOX (2, 3, 0x9d)"
  "TABLE_S4_94 = masked INV_SBOX (3, 8, 0x93)"
  "TABLE_S4_95 = masked INV_SBOX (0, 5, 0xbb)"
  by (simp_all only: masked_def INV_SBOX_def TABLE_S4_defs_7 masked_eval)

lemmas TABLE_S4_defs_8 =
  TABLE_S4_96_def TABLE_S4_97_def TABLE_S4_98_def TABLE_S4_99_def TABLE_S4_100_def
  TABLE_S4_101_def TABLE_S4_102_def TABLE_S4_103_def TABLE_S4_104_def TABLE_S4_105_def
  TABLE_S4_106_def TABLE_S4_107_def

lemma S4_masked_8:
  "TABLE_S4_96 = masked INV_SBOX (3, 3, 0xe2)"
  "TABLE_S4_97 = masked INV_SBOX (2, 3, 0xe8)"
  "TABLE_S4_98 = masked INV_SBOX (3, 8, 0x49)"
  "TABLE_S4_99 = masked INV_SBOX (0, 5, 0xd0)"
  "TABLE_S4_100 = masked INV_SBOX (3, 3, 0x27)"
  "TABLE_S4_101 = masked INV_SBOX (2, 3, 0x5f)"
  "TABLE_S4_102 = masked INV_SBOX (3, 8, 0xce)"
  "TABLE_S4_103 = masked INV_SBOX (0, 5, 0x40)"
  "TABLE_S4_104 = masked INV_SBOX (3, 3, 0xae)"
  "TABLE_S4_105 = masked INV_SBOX (2, 3, 0x91)"
  "TABLE_S4_106 = masked INV_SBOX (3, 8, 0xe9)"
  "TABLE_S4_107 = masked INV_SBOX (0, 5, 0x94)"
  by (simp_all only: masked_def INV_SBOX_def TABLE_S4_defs_8 masked_eval)

lemmas TABLE_S4_defs_9 =
  TABLE_S4_108_def TABLE_S4_109_def TABLE_S4_110_def TABLE_S4_111_def TABLE_S4_112_def
  TABLE_S4_113_def TABLE_S4_114_def TABLE_S4_115_def TABLE_S4_116_def TABLE_S4_117_def
  TABLE_S4_118_def TABLE_S4_119_def

lemma S4_masked_9:
  "TABLE_S4_108 = masked INV_SBOX (3, 3, 0x4b)"
  "TABLE_S4_109 = masked INV_SBOX (2, 3, 0x75)"
  "TABLE_S4_110 = masked INV_SBOX (3, 8, 0xe8)"
  "TABLE_S4_111 = masked INV_SBOX (0, 5, 0x6b)"
  "TABLE_S4_112 = masked INV_SBOX (3, 3, 0xbf)"
  "TABLE_S4_113 = masked INV_SBOX (2, 3, 0xb7)"
  "TABLE_S4_114 = masked INV_SBOX (3, 8, 0x87)"
  "TABLE_S4_115 = masked INV_SBOX (0, 5, 0x90)"
  "TABLE_S4_116 = masked INV_SBOX (3, 3, 0x89)"
  "TABLE_S4_117 = masked INV_SBOX (2, 3, 0xcb)"
  "TABLE_S4_118 = masked INV_SBOX (3, 8, 0x27)"
  "TABLE_S4_119 = masked INV_SBOX (0, 5, 0x52)"
  by (simp_all only: masked_def INV_SBOX_def TABLE_S4_defs_9 masked_eval)

lemmas TABLE_S4_defs_10 =
  TABLE_S4_120_def TABLE_S4_121_def TABLE_S4_122_def TABLE_S4_123_def TABLE_S4_124_def
  TABLE_S4_125_def TABLE_S4_126_def TABLE_S4_127_def TABLE_S4_128_def TABLE_S4_129_def
  TABLE_S4_130_def TABLE_S4_131_def

lemma S4_masked_10:
  "TABLE_S4_120 = masked INV_SBOX (3, 3, 0xe5)"
  "TABLE_S4_121 = masked INV_SBOX (2, 3, 0xe4)"
  "TABLE_S4_122 = masked INV_SBOX (3, 8, 0x01)"
  "TABLE_S4_123 = masked INV_SBOX (0, 5, 0xff)"
  "TABLE_S4_124 = masked INV_SBOX (3, 3, 0xf4)"
  "TABLE_S4_125 = masked INV_SBOX (2, 3, 0xc2)"
  "TABLE_S4_126 = masked INV_SBOX (3, 8, 0x78)"
  "TABLE_S4_127 = masked INV_SBOX (0, 5, 0xfb)"
  "TABLE_S4_128 = masked INV_SBOX (3, 3, 0xe6)"
  "TABLE_S4_129 = masked INV_SBOX (2, 3, 0x7c)"
  "TABLE_S4_130 = masked INV_SBOX (3, 8, 0x06)"
  "TABLE_S4_131 = masked INV_SBOX (0, 5, 0xc2)"
  by (simp_all only: masked_def INV_SBOX_def TABLE_S4_defs_10 masked_eval)

lemmas TABLE_S4_defs_11 =
  TABLE_S4_132_def TABLE_S4_133_def TABLE_S4_134_def TABLE_S4_135_def TABLE_S4_136_def
  TABLE_S4_137_def TABLE_S4_138_def TABLE_S4_139_def TABLE_S4_140_def TABLE_S4_141_def
  TABLE_S4_142_def TABLE_S4_143_def

lemma S4_masked_11:
  "TABLE_S4_132 = masked INV_SBOX (3, 3, 0x22)"
  "TABLE_S4_133 = masked INV_SBOX (2, 3, 0xdf)"
  "TABLE_S4_134 = masked INV_SBOX (3, 8, 0xc5)"
  "TABLE_S4_135 = masked INV_SBOX (0, 5, 0x48)"
  "TABLE_S4_136 = masked INV_SBOX (3, 3, 0x76)"
  "TABLE_S4_137 = masked INV_SBOX (2, 3, 0x26)"
  "TABLE_S4_138 = masked INV_SBOX (3, 8, 0x8e)"
  "TABLE_S4_139 = masked INV_SBOX (0, 5, 0x04)"
  "TABLE_S4_140 = masked INV_SBOX (3, 3, 0xc8)"
  "TABLE_S4_141 = masked INV_SBOX (2, 3, 0xbe)"
  "TABLE_S4_142 = masked INV_SBOX (3, 8, 0x2e)"
  "TABLE_S4_143 = masked INV_SBOX (0, 5, 0x39)"
  by (simp_all only: masked_def INV_SBOX_def TABLE_S4_defs_11 masked_eval)

lemma S4_rows: "TABLE_S4_rows = map (masked INV_SBOX) S4_MASKS"
  by (simp only: TABLE_S4_rows_def S4_MASKS_def list.map
      S4_masked_0 S4_masked_1 S4_masked_2 S4_masked_3 S4_masked_4 S4_masked_5 S4_masked_6 S4_masked_7 S4_masked_8 S4_masked_9 S4_masked_10 S4_masked_11)

lemma masks_in_range:
  "length S1_MASKS = 40" "length S3_MASKS = 16" "length S4_MASKS = 144"
  "list_all (\<lambda>(h, l, m). h < 16 \<and> l < 16) S1_MASKS"
  "list_all (\<lambda>(h, l, m). h < 16 \<and> l < 16) S3_MASKS"
  "list_all (\<lambda>(h, l, m). h < 16 \<and> l < 16) S4_MASKS"
  by (simp_all add: S1_MASKS_def S3_MASKS_def S4_MASKS_def)

text \<open>The entry of a masked row, with the mask as one byte.\<close>

definition in_mask :: "nat \<times> nat \<times> byte \<Rightarrow> byte" where
  "in_mask m = of_nat (16 * fst m + fst (snd m))"

definition out_mask :: "nat \<times> nat \<times> byte \<Rightarrow> byte" where
  "out_mask m = snd (snd m)"

lemma masked_sbox:
  assumes "list_all (\<lambda>(h, l, m). h < 16 \<and> l < 16) ms" "k < length ms"
  shows "masked SBOX (ms ! k) ! unat x = sbox (x XOR in_mask (ms ! k)) XOR out_mask (ms ! k)"
    and "masked INV_SBOX (ms ! k) ! unat x = inv_sbox (x XOR in_mask (ms ! k)) XOR out_mask (ms ! k)"
proof -
  obtain h l m where m: "ms ! k = (h, l, m)" by (cases "ms ! k") auto
  with assms have "h < 16" "l < 16" by (fastforce simp: list_all_length)+
  then show "masked SBOX (ms ! k) ! unat x = sbox (x XOR in_mask (ms ! k)) XOR out_mask (ms ! k)"
    "masked INV_SBOX (ms ! k) ! unat x = inv_sbox (x XOR in_mask (ms ! k)) XOR out_mask (ms ! k)"
    by (simp_all only: m masked_nth [OF SBOX_rows] masked_nth [OF INV_SBOX_rows] sbox_def inv_sbox_def
        in_mask_def out_mask_def fst_conv snd_conv Let_def)
qed

lemma slice_concat:
  assumes "\<forall>r \<in> set rows. length r = n" "k < length rows"
  shows "slice (k * n) (k * n + n) (concat rows) = rows ! k"
proof -
  have "length (concat (take k rows)) = k * n"
  proof -
    have "map length (take k rows) = replicate k n"
      using assms by (intro nth_equalityI) simp_all
    then show ?thesis by (simp add: length_concat sum_list_replicate)
  qed
  moreover have "concat rows = concat (take k rows) @ rows ! k @ concat (drop (Suc k) rows)"
    using assms(2) by (metis concat.simps(2) concat_append id_take_nth_drop)
  ultimately show ?thesis using assms by (simp add: slice_def)
qed

lemma table_rows:
  "\<forall>r \<in> set TABLE_S1_rows. length r = 256" "length TABLE_S1_rows = 40"
  "\<forall>r \<in> set TABLE_S3_rows. length r = 256" "length TABLE_S3_rows = 16"
  "\<forall>r \<in> set TABLE_S4_rows. length r = 256" "length TABLE_S4_rows = 144"
  by (simp_all add: S1_rows S3_rows S4_rows masks_in_range)

lemma table_index_lookup:
  "table_index i ! unat x =
     (let m = S1_MASKS ! (31 * i mod 40) in sbox (x XOR in_mask m) XOR out_mask m)"
proof -
  have "table_index i = TABLE_S1_rows ! (31 * i mod 40)"
    unfolding table_index_def TABLE_S1_def Let_def
    using slice_concat [OF table_rows(1), of "31 * i mod 40"] table_rows(2) by simp
  then show ?thesis by (simp add: S1_rows masks_in_range masked_sbox [OF masks_in_range(4)] Let_def)
qed

lemma permute_table_2_lookup:
  "permute_table_2 i ! unat x =
     (let m = S4_MASKS ! (71 * i mod 144) in inv_sbox (x XOR in_mask m) XOR out_mask m)"
proof -
  have "permute_table_2 i = TABLE_S4_rows ! (71 * i mod 144)"
    unfolding permute_table_2_def TABLE_S4_def Let_def
    using slice_concat [OF table_rows(5), of "71 * i mod 144"] table_rows(6) by simp
  then show ?thesis by (simp add: S4_rows masks_in_range masked_sbox [OF masks_in_range(6)] Let_def)
qed

lemma TABLE_S3_lookup:
  assumes "k < 16"
  shows "TABLE_S3 ! (k * 256 + unat x) =
     inv_sbox (x XOR in_mask (S3_MASKS ! k)) XOR out_mask (S3_MASKS ! k)"
proof -
  have "k * 256 + unat x < 256 * length TABLE_S3_rows" using assms table_rows(4) byte_lt [of x] by linarith
  moreover have "(k * 256 + unat x) div 256 = k" "(k * 256 + unat x) mod 256 = unat x"
    using byte_lt [of x] by simp_all
  ultimately have "TABLE_S3 ! (k * 256 + unat x) = TABLE_S3_rows ! k ! unat x"
    unfolding TABLE_S3_def by (simp add: concat_nth [OF table_rows(3)])
  then show ?thesis using assms by (simp add: S3_rows masks_in_range masked_sbox [OF masks_in_range(5)])
qed

section \<open>The mixing tables\<close>

text \<open>The table of an affine function of the bits of the index.\<close>

primrec affine_table :: "u32 \<Rightarrow> u32 list \<Rightarrow> u32 list" where
  "affine_table c [] = [c]"
| "affine_table c (g # gs) = (let t = affine_table c gs in t @ map (\<lambda>v. v XOR g) t)"

lemma length_affine_table [simp]: "length (affine_table c gs) = 2 ^ length gs"
  by (induction gs) (simp_all add: Let_def)

lemma add_high_eq_xor:
  fixes u :: nat
  assumes "u < 2 ^ n"
  shows "u + 2 ^ n * m = u XOR push_bit n m"
proof -
  have "take_bit n u = u" using assms by (rule take_bit_nat_eq_self)
  then have "bit u i \<Longrightarrow> i < n" for i by (metis bit_take_bit_iff)
  then have "u AND push_bit n m = 0" by (fastforce simp: bit_eq_iff bit_simps)
  then show ?thesis by (simp add: disjunctive_add_eq_xor [symmetric] push_bit_eq_mult mult.commute)
qed

lemma of_nat_add_power:
  "y < 2 ^ k \<Longrightarrow> (of_nat (2 ^ k + y) :: byte) = of_nat (2 ^ k) XOR of_nat y"
  using add_high_eq_xor [of y k 1]
  by (simp only: mult_1_right push_bit_of_1 add.commute xor.commute of_nat_xor_eq)

lemma nat_of_le_xor:
  "length xs = length ys \<Longrightarrow> nat_of_le (map2 (XOR) xs ys) = nat_of_le xs XOR nat_of_le ys"
proof (induction xs ys rule: list_induct2)
  case (Cons x xs y ys)
  have 1: "unat b + 256 * m = unat b XOR push_bit 8 m" for b :: byte and m
    using add_high_eq_xor [of "unat b" 8 m] byte_lt [of b] by simp
  have "nat_of_le (map2 (XOR) (x # xs) (y # ys)) = unat (x XOR y) XOR push_bit 8 (nat_of_le xs XOR nat_of_le ys)"
    using Cons.IH by (simp only: zip_Cons_Cons list.map prod.case nat_of_le.simps 1)
  then show ?case by (simp only: nat_of_le.simps 1 unsigned_xor_eq push_bit_xor xor_ac)
qed simp

lemma from_le_bytes_xor:
  "length xs = length ys \<Longrightarrow>
   (from_le_bytes (map2 (XOR) xs ys) :: 'a::len word) = from_le_bytes xs XOR from_le_bytes ys"
  by (simp add: from_le_bytes_def nat_of_le_xor of_nat_xor_eq)

text \<open>The bytes of an exclusive or of words.\<close>

lemma to_le_bytes_xor:
  "to_le_bytes 4 (x XOR y :: u32) = map2 (XOR) (to_le_bytes 4 x) (to_le_bytes 4 y)"
proof -
  let ?bs = "map2 (XOR) (to_le_bytes 4 x) (to_le_bytes 4 y)"
  have "x XOR y = from_le_bytes ?bs" by (simp add: from_le_bytes_xor from_to_le_bytes)
  then show ?thesis using to_from_le_bytes [of ?bs, where 'a = 32] by simp
qed

lemma affine_table_nth:
  assumes "\<And>a b. f (a XOR b) = f a XOR f b"
    and "\<And>k. k < length gs \<Longrightarrow> gs ! k = f (of_nat (2 ^ (length gs - Suc k)))"
    and "i < 2 ^ length gs"
  shows "affine_table c gs ! i = f (of_nat i :: byte) XOR c"
  using assms(2,3)
proof (induction gs arbitrary: i)
  case Nil
  have "f 0 XOR f 0 = f (0 XOR 0)" by (simp only: assms(1))
  then have "f 0 = 0" by simp
  with Nil show ?case by simp
next
  case (Cons g gs)
  have IH: "affine_table c gs ! j = f (of_nat j) XOR c" if "j < 2 ^ length gs" for j
    using Cons.IH [OF _ that] Cons.prems(1) [of "Suc _"] by simp
  show ?case
  proof (cases "i < 2 ^ length gs")
    case False
    define y where "y = i - 2 ^ length gs"
    have y: "y < 2 ^ length gs" "i = 2 ^ length gs + y" using False Cons.prems(2) by (auto simp: y_def)
    have "affine_table c (g # gs) ! i = affine_table c gs ! y XOR g"
      using y by (simp add: Let_def nth_append)
    also have "\<dots> = f (of_nat i) XOR c"
      using IH [OF y(1)] Cons.prems(1) [of 0] of_nat_add_power [OF y(1)] y(2)
      by (simp add: assms(1) xor_ac)
    finally show ?thesis .
  qed (use IH in \<open>simp add: Let_def nth_append\<close>)
qed

definition column0 :: "byte \<Rightarrow> u32" where
  "column0 b = from_le_bytes [gmul14 b, gmul9 b, gmul13 b, gmul11 b]"
definition column1 :: "byte \<Rightarrow> u32" where
  "column1 b = from_le_bytes [gmul11 b, gmul14 b, gmul9 b, gmul13 b]"
definition column2 :: "byte \<Rightarrow> u32" where
  "column2 b = from_le_bytes [gmul13 b, gmul11 b, gmul14 b, gmul9 b]"
definition column3 :: "byte \<Rightarrow> u32" where
  "column3 b = from_le_bytes [gmul9 b, gmul13 b, gmul11 b, gmul14 b]"

lemmas column_defs = column0_def column1_def column2_def column3_def

lemma columns_linear:
  "column0 (a XOR b) = column0 a XOR column0 b" "column1 (a XOR b) = column1 a XOR column1 b"
  "column2 (a XOR b) = column2 a XOR column2 b" "column3 (a XOR b) = column3 a XOR column3 b"
  by (simp_all add: column_defs gmul_xor from_le_bytes_xor [symmetric])

text \<open>The columns at the powers of two generate the tables.\<close>

lemma column_powers:
  "map (\<lambda>k. column0 (2 ^ k)) [7, 6, 5, 4, 3, 2, 1, 0] =
     [0xf7daec41, 0xf66d76ad, 0x7bbb3bdb, 0xb0d090e0, 0x58684870, 0x2c342438, 0x161a121c, 0x0b0d090e]"
  "map (\<lambda>k. column1 (2 ^ k)) [7, 6, 5, 4, 3, 2, 1, 0] =
     [0xdaec41f7, 0x6d76adf6, 0xbb3bdb7b, 0xd090e0b0, 0x68487058, 0x3424382c, 0x1a121c16, 0x0d090e0b]"
  "map (\<lambda>k. column2 (2 ^ k)) [7, 6, 5, 4, 3, 2, 1, 0] =
     [0xec41f7da, 0x76adf66d, 0x3bdb7bbb, 0x90e0b0d0, 0x48705868, 0x24382c34, 0x121c161a, 0x090e0b0d]"
  "map (\<lambda>k. column3 (2 ^ k)) [7, 6, 5, 4, 3, 2, 1, 0] =
     [0x41f7daec, 0xadf66d76, 0xdb7bbb3b, 0xe0b0d090, 0x70586848, 0x382c3424, 0x1c161a12, 0x0e0b0d09]"
  by (simp_all add: column_defs gmul_defs xtime_def from_le_bytes_def)

lemma mixing_tables:
  "TABLE_S8 = affine_table 0xb4469bf0 (map (\<lambda>k. column0 (2 ^ k)) [7, 6, 5, 4, 3, 2, 1, 0])"
  "TABLE_S7 = affine_table 0xb33a6e73 (map (\<lambda>k. column1 (2 ^ k)) [7, 6, 5, 4, 3, 2, 1, 0])"
  "TABLE_S6 = affine_table 0x05ee7493 (map (\<lambda>k. column2 (2 ^ k)) [7, 6, 5, 4, 3, 2, 1, 0])"
  "TABLE_S5 = affine_table 0x21aa8423 (map (\<lambda>k. column3 (2 ^ k)) [7, 6, 5, 4, 3, 2, 1, 0])"
  unfolding column_powers
  by (simp_all only: TABLE_S8_def TABLE_S7_def TABLE_S6_def TABLE_S5_def affine_table.simps Let_def
      list.map concat.simps append.simps xor_eval)

lemma affine_table_columns:
  fixes x :: byte
  assumes "\<And>a b. f (a XOR b) = f a XOR f b"
  shows "affine_table c (map (\<lambda>k. f (2 ^ k)) [7, 6, 5, 4, 3, 2, 1, 0]) ! unat x = f x XOR c"
proof -
  let ?gs = "map (\<lambda>k. f (2 ^ k)) [7, 6, 5, 4, 3, 2, 1, 0]"
  have "?gs ! k = f (of_nat (2 ^ (length ?gs - Suc k)))" if "k < length ?gs" for k
    using that by (auto simp: less_Suc_eq numeral_eq_Suc)
  then have "affine_table c ?gs ! unat x = f (of_nat (unat x)) XOR c"
    using byte_lt [of x] by (intro affine_table_nth [OF assms]) simp_all
  then show ?thesis by simp
qed

lemma mixing_lookup:
  "TABLE_S8 ! unat x = column0 x XOR 0xb4469bf0" "TABLE_S7 ! unat x = column1 x XOR 0xb33a6e73"
  "TABLE_S6 ! unat x = column2 x XOR 0x05ee7493" "TABLE_S5 ! unat x = column3 x XOR 0x21aa8423"
  by (simp_all only: mixing_tables affine_table_columns columns_linear)

end
