(* ===== verification/Fairplay_Aes.thy ===== *)
theory Fairplay_Aes
  imports Fairplay_Masks
begin

text \<open>
  The table-driven block cipher of src/crypto/fairplay.rs is AES-128: the masks of the tables cancel
  against those of the round keys, so that for every key and every block
  \<open>generate_key_schedule\<close> and \<open>cycle\<close>, between the fixed masks around them, compute the
  inverse cipher of FIPS 197.
\<close>

text \<open>The masks the round keys carry.\<close>

definition KEY_MASKS :: "bytes list" where
  "KEY_MASKS = [
    [0xa9, 0x7d, 0xd0, 0x18, 0x12, 0xdd, 0x79, 0xfe, 0x11, 0xf2, 0x26, 0x6c, 0x6c, 0x4c, 0xa0, 0xd0],
    [0xe6, 0xdf, 0x78, 0x0a, 0xf4, 0x02, 0x01, 0xf4, 0xe5, 0xf0, 0x27, 0x98, 0x89, 0xbc, 0x87, 0x48],
    [0xbf, 0xc0, 0xe8, 0xa1, 0x4b, 0xc2, 0xe9, 0x55, 0xae, 0x32, 0xce, 0xcd, 0x27, 0x8e, 0x49, 0x85],
    [0xe2, 0x43, 0x93, 0x85, 0xa9, 0x81, 0x7a, 0xd0, 0x07, 0xb3, 0xb4, 0x1d, 0x20, 0x3d, 0xfd, 0x98],
    [0x9e, 0x0b, 0xd6, 0x73, 0x37, 0x8a, 0xac, 0xa3, 0x30, 0x39, 0x18, 0xbe, 0x10, 0x04, 0xe5, 0x26],
    [0xa2, 0x48, 0x5b, 0xdf, 0x95, 0xc2, 0xf7, 0x7c, 0xa5, 0xfb, 0xef, 0xc2, 0xb5, 0xff, 0x0a, 0xe4],
    [0x1f, 0x52, 0x25, 0xcb, 0x8a, 0x90, 0xd2, 0xb7, 0x2f, 0x6b, 0x3d, 0x75, 0x9a, 0x94, 0x37, 0x91],
    [0xd4, 0x40, 0x17, 0x5f, 0x5e, 0xd0, 0xc5, 0xe8, 0x71, 0xbb, 0xf8, 0x9d, 0xeb, 0x2f, 0xcf, 0x0c],
    [0x29, 0x98, 0x40, 0x71, 0x77, 0x48, 0x85, 0x99, 0x06, 0xf3, 0x7d, 0x04, 0xed, 0xdc, 0xb2, 0x08],
    [0xc9, 0x89, 0x33, 0x13, 0xbe, 0xc1, 0xb6, 0x8a, 0xb8, 0x32, 0xcb, 0x8e, 0x55, 0xee, 0x79, 0x86],
    [0xe0, 0x9c, 0x76, 0x79, 0x5e, 0x5d, 0xc0, 0xf3, 0xe6, 0x6f, 0x0b, 0x7d, 0xb3, 0x81, 0x72, 0xfb]]"

section \<open>Words and bytes\<close>

text \<open>A round key as the four words the code stores.\<close>

definition le_words :: "bytes \<Rightarrow> u32 list" where
  "le_words b = [read_u32_le b 0, read_u32_le b 4, read_u32_le b 8, read_u32_le b 12]"

lemma to_from_le_4: "to_le_bytes 4 (from_le_bytes [a, b, c, d] :: u32) = [a, b, c, d]"
  using to_from_le_bytes [of "[a, b, c, d]", where 'a = 32] by (simp add: eval_nat_numeral)

lemma to_le_read:
  "to_le_bytes 4 (read_u32_le b i) = [b ! i, b ! (i + 1), b ! (i + 2), b ! (i + 3)]"
  unfolding read_u32_le_def by (rule to_from_le_4)

lemma write_columns:
  assumes "length b = 16"
  shows "write_u32_le b 0 w0 = to_le_bytes 4 w0 @ drop 4 b"
    and "write_u32_le (to_le_bytes 4 w0 @ drop 4 b) 4 w1 = to_le_bytes 4 w0 @ to_le_bytes 4 w1 @ drop 8 b"
    and "write_u32_le (to_le_bytes 4 w0 @ to_le_bytes 4 w1 @ drop 8 b) 8 w2 =
           to_le_bytes 4 w0 @ to_le_bytes 4 w1 @ to_le_bytes 4 w2 @ drop 12 b"
    and "write_u32_le (to_le_bytes 4 w0 @ to_le_bytes 4 w1 @ to_le_bytes 4 w2 @ drop 12 b) 12 w3 =
           to_le_bytes 4 w0 @ to_le_bytes 4 w1 @ to_le_bytes 4 w2 @ to_le_bytes 4 w3"
  using assms by (simp_all add: write_u32_le_def copy_at_def)

lemma read_columns:
  assumes "length b = 16"
  shows "read_u32_le (to_le_bytes 4 w0 @ drop 4 b) 4 = read_u32_le b 4"
    and "read_u32_le (to_le_bytes 4 w0 @ to_le_bytes 4 w1 @ drop 8 b) 8 = read_u32_le b 8"
    and "read_u32_le (to_le_bytes 4 w0 @ to_le_bytes 4 w1 @ to_le_bytes 4 w2 @ drop 12 b) 12 =
           read_u32_le b 12"
  using assms by (simp_all add: read_u32_le_def nth_append)

lemma xor_round_key_bytes:
  assumes "length b = 16" "length k = 16"
  shows "xor_round_key b (le_words k) = xor_bytes b k"
proof -
  have "xor_round_key b (le_words k) =
      concat (map (\<lambda>n. to_le_bytes 4 (read_u32_le b n XOR read_u32_le k n)) [0, 4, 8, 12])"
    using assms by (simp add: xor_round_key_def le_words_def upt_steps write_columns read_columns)
  also have "\<dots> = xor_bytes b k"
    using assms by (elim block_cases) (simp add: to_le_bytes_xor to_le_read xor_bytes_def)
  finally show ?thesis .
qed

lemma permute_spec:
  "length b = 16 \<Longrightarrow> permute f b = map (\<lambda>i. f i (b ! (13 * i mod 16))) [0..<16]"
  by (erule block_cases) (simp add: permute_def upt_steps)

text \<open>Masked substitutions over a permuted block: input masks that match the mask of the block
  disappear.\<close>

lemma permute_masked:
  assumes "length s = 16" "length e = 16" "length out = 16"
    and "\<And>i v. i < 16 \<Longrightarrow> f i v = inv_sbox (v XOR (e ! (13 * i mod 16))) XOR (out ! i)"
  shows "permute f (xor_bytes s e) = xor_bytes (inv_sub_shift s) out"
proof (rule nth_equalityI)
  fix i assume "i < length (permute f (xor_bytes s e))"
  then have i: "i < 16" using assms by (simp add: permute_spec)
  have "13 * i mod 16 < 16" by simp
  then have "permute f (xor_bytes s e) ! i =
      inv_sbox ((s ! (13 * i mod 16) XOR e ! (13 * i mod 16)) XOR e ! (13 * i mod 16)) XOR out ! i"
    using i assms by (simp add: permute_spec xor_bytes_def)
  also have "\<dots> = inv_sbox (s ! (13 * i mod 16)) XOR out ! i" by (simp add: xor.assoc)
  finally show "permute f (xor_bytes s e) ! i = xor_bytes (inv_sub_shift s) out ! i"
    using i assms by (simp add: xor_bytes_def inv_sub_shift_def inv_shift_rows_def)
qed (use assms in \<open>simp add: permute_spec\<close>)

section \<open>The key schedule\<close>

text \<open>How a round combines the four new bytes with the words of the previous key.\<close>

definition chain :: "bytes \<Rightarrow> bytes \<Rightarrow> bytes" where
  "chain k u =
     (let w0 = xor_bytes (take 4 k) u; w1 = xor_bytes (slice 4 8 k) w0; w2 = xor_bytes (slice 8 12 k) w1
      in w0 @ w1 @ w2 @ xor_bytes (slice 12 16 k) w2)"

lemma next_key_chain:
  "next_key rc k = chain k [sbox (k ! 13) XOR rc, sbox (k ! 14), sbox (k ! 15), sbox (k ! 12)]"
  by (simp add: next_key_def chain_def)

lemma length_4_cases:
  assumes "length u = 4" obtains u0 u1 u2 u3 where "u = [u0, u1, u2, u3]"
  using assms by (auto simp: numeral_eq_Suc length_Suc_conv)

lemma chain_xor:
  assumes "length k = 16" "length m = 16" "length u = 4" "length v = 4"
  shows "chain (xor_bytes k m) (xor_bytes u v) = xor_bytes (chain k u) (chain m v)"
  by (rule block_cases [OF assms(1)], rule block_cases [OF assms(2)],
      rule length_4_cases [OF assms(3)], rule length_4_cases [OF assms(4)])
    (simp add: chain_def Let_def xor_bytes_def slice_def xor_ac)

lemma key_schedule_round_chain:
  assumes "length b = 16"
  shows "key_schedule_round (ks, b, ti) r =
    (ks[r := le_words b],
     chain b [(table_index ti ! unat (b ! 13)) XOR (INDEX_MANGLE ! r), table_index (ti + 1) ! unat (b ! 14),
              table_index (ti + 2) ! unat (b ! 15), table_index (ti + 3) ! unat (b ! 12)],
     ti + 4)"
  using assms
  by (elim block_cases) (simp add: key_schedule_round_def Let_def write_u32_le_def copy_at_def
      to_le_bytes_xor to_le_read le_words_def chain_def xor_bytes_def slice_def xor_ac)

text \<open>The masks of the tables of a round, and what they must be.\<close>

definition s1_mask :: "nat \<Rightarrow> nat \<Rightarrow> nat \<times> nat \<times> byte" where
  "s1_mask r i = S1_MASKS ! (31 * (4 * r + i) mod 40)"

lemma s1_lookup:
  "table_index (4 * r + i) ! unat x = sbox (x XOR in_mask (s1_mask r i)) XOR out_mask (s1_mask r i)"
  by (simp only: table_index_lookup s1_mask_def Let_def)

lemma key_masks_checked:
  "\<forall>r \<in> set [0..<10].
     map (\<lambda>i. in_mask (s1_mask r i)) [0, 1, 2, 3] = map ((!) (KEY_MASKS ! r)) [13, 14, 15, 12]
     \<and> KEY_MASKS ! Suc r = chain (KEY_MASKS ! r) (map (\<lambda>i. out_mask (s1_mask r i)) [0, 1, 2, 3])"
  by (simp add: upt_steps s1_mask_def S1_MASKS_def KEY_MASKS_def in_mask_def out_mask_def chain_def
      xor_bytes_def slice_def Let_def)

lemma rcon_rec: "rcon 0 = 1" "rcon (Suc r) = xtime (rcon r)" "rcon (numeral n) = xtime (rcon (pred_numeral n))"
  by (simp_all add: rcon_def numeral_eq_Suc)

lemma index_mangle_rcon: "\<forall>r \<in> set [0..<10]. INDEX_MANGLE ! r = rcon r"
  by (simp add: upt_steps INDEX_MANGLE_def rcon_rec xtime_def)

lemma length_KEY_MASKS: "length KEY_MASKS = 11" "r < 11 \<Longrightarrow> length (KEY_MASKS ! r) = 16"
proof -
  have "\<forall>m \<in> set KEY_MASKS. length m = 16" by (simp add: KEY_MASKS_def)
  moreover show l: "length KEY_MASKS = 11" by (simp add: KEY_MASKS_def)
  ultimately show "r < 11 \<Longrightarrow> length (KEY_MASKS ! r) = 16" by simp
qed

lemma key_schedule_round_masked:
  assumes "length k = 16" "r < 10"
  shows "key_schedule_round (ks, xor_bytes k (KEY_MASKS ! r), 4 * r) r =
    (ks[r := le_words (xor_bytes k (KEY_MASKS ! r))],
     xor_bytes (next_key (rcon r) k) (KEY_MASKS ! Suc r), 4 * Suc r)"
proof -
  let ?m = "KEY_MASKS ! r" and ?out = "\<lambda>i. out_mask (s1_mask r i)"
  have len: "length ?m = 16" using assms by (simp add: length_KEY_MASKS)
  have "map (\<lambda>i. in_mask (s1_mask r i)) [0, 1, 2, 3] = map ((!) ?m) [13, 14, 15, 12]"
    and out: "KEY_MASKS ! Suc r = chain ?m (map ?out [0, 1, 2, 3])"
    using key_masks_checked assms(2) by simp_all
  then have m: "in_mask (s1_mask r 0) = ?m ! 13" "in_mask (s1_mask r 1) = ?m ! 14"
    "in_mask (s1_mask r 2) = ?m ! 15" "in_mask (s1_mask r 3) = ?m ! 12" by simp_all
  have look: "table_index (4 * r + i) ! unat ((k ! j) XOR (?m ! j)) = sbox (k ! j) XOR ?out i"
    if "in_mask (s1_mask r i) = ?m ! j" for i j
    using that by (simp add: s1_lookup xor.assoc)
  have rc: "INDEX_MANGLE ! r = rcon r" using index_mangle_rcon assms(2) by simp
  have nth: "xor_bytes k ?m ! j = (k ! j) XOR (?m ! j)" if "j < 16" for j
    using that assms len by (simp add: xor_bytes_def)
  have "key_schedule_round (ks, xor_bytes k ?m, 4 * r) r =
    (ks[r := le_words (xor_bytes k ?m)],
     chain (xor_bytes k ?m) (xor_bytes [sbox (k ! 13) XOR rcon r, sbox (k ! 14), sbox (k ! 15), sbox (k ! 12)]
       (map ?out [0, 1, 2, 3])), 4 * r + 4)"
    using assms len look [OF m(1)] look [OF m(2)] look [OF m(3)] look [OF m(4)]
    by (simp add: key_schedule_round_chain nth rc) (simp add: xor_bytes_def xor_ac)
  also have "\<dots> = (ks[r := le_words (xor_bytes k ?m)],
      xor_bytes (next_key (rcon r) k) (KEY_MASKS ! Suc r), 4 * Suc r)"
    using assms len by (simp add: chain_xor next_key_chain out)
  finally show ?thesis .
qed

text \<open>The round keys are those of AES for the key without its mask 121, with the masks added.\<close>

definition unmask_key :: "bytes \<Rightarrow> bytes" where
  "unmask_key k = map (\<lambda>b. b XOR 121) k"

lemma t_xor_masked: "length k = 16 \<Longrightarrow> t_xor k = xor_bytes (unmask_key k) (KEY_MASKS ! 0)"
  by (erule block_cases) (simp add: t_xor_def unmask_key_def xor_bytes_def KEY_MASKS_def T_KEY_def xor.assoc)

lemma key_schedule_prefix:
  assumes "length k = 16" "r \<le> 10"
  shows "\<exists>ks. foldl key_schedule_round (replicate 11 (replicate 4 0), t_xor k, 0) [0..<r] =
      (ks, xor_bytes (round_key (unmask_key k) r) (KEY_MASKS ! r), 4 * r)
    \<and> length ks = 11 \<and> (\<forall>j < r. ks ! j = le_words (xor_bytes (round_key (unmask_key k) j) (KEY_MASKS ! j)))"
  using assms(2)
proof (induction r)
  case 0
  then show ?case using assms by (simp add: t_xor_masked)
next
  case (Suc r)
  then obtain ks where ks: "foldl key_schedule_round (replicate 11 (replicate 4 0), t_xor k, 0) [0..<r] =
      (ks, xor_bytes (round_key (unmask_key k) r) (KEY_MASKS ! r), 4 * r)"
    "length ks = 11" "\<forall>j < r. ks ! j = le_words (xor_bytes (round_key (unmask_key k) j) (KEY_MASKS ! j))"
    by auto
  have "length (round_key (unmask_key k) r) = 16" using assms by (simp add: unmask_key_def)
  then show ?case
    using ks Suc.prems by (simp add: key_schedule_round_masked nth_list_update less_Suc_eq)
qed

lemma generate_key_schedule_aes:
  assumes "length k = 16" "r < 11"
  shows "generate_key_schedule k ! r = le_words (xor_bytes (round_key (unmask_key k) r) (KEY_MASKS ! r))"
proof -
  obtain ks where ks: "foldl key_schedule_round (replicate 11 (replicate 4 0), t_xor k, 0) [0..<10] =
      (ks, xor_bytes (round_key (unmask_key k) 10) (KEY_MASKS ! 10), 40)"
    "length ks = 11" "\<forall>j < 10. ks ! j = le_words (xor_bytes (round_key (unmask_key k) j) (KEY_MASKS ! j))"
    using key_schedule_prefix [OF assms(1), of 10] by auto
  have 10: "[0..<11] = [0..<10] @ [10]" by (simp add: upt_steps)
  have "length (xor_bytes (round_key (unmask_key k) 10) (KEY_MASKS ! 10)) = 16"
    using assms by (simp add: unmask_key_def length_KEY_MASKS)
  then have "generate_key_schedule k = ks[10 := le_words (xor_bytes (round_key (unmask_key k) 10) (KEY_MASKS ! 10))]"
    using ks(1) by (simp only: generate_key_schedule_def 10 foldl_append foldl.simps
        key_schedule_round_chain fst_conv)
  then show ?thesis using ks(2,3) assms(2) by (auto simp: nth_list_update less_Suc_eq)
qed

section \<open>The rounds\<close>

text \<open>The constant the four mixing tables add to a column.\<close>

definition MIX_MASK :: bytes where "MIX_MASK = [0x33, 0x05, 0x38, 0x23]"

definition MIX_MASK16 :: bytes where "MIX_MASK16 = concat [MIX_MASK, MIX_MASK, MIX_MASK, MIX_MASK]"

lemma mix_word_bytes:
  "to_le_bytes 4 (mix_word b c k) =
     (let ks = to_le_bytes 4 k
      in xor_bytes (inv_mix_column ((b ! c) XOR (ks ! 0)) ((b ! (c + 1)) XOR (ks ! 1))
           ((b ! (c + 2)) XOR (ks ! 2)) ((b ! (c + 3)) XOR (ks ! 3))) MIX_MASK)"
proof -
  define w where "w = (0x21aa8423 XOR 0x05ee7493 XOR 0xb33a6e73 XOR 0xb4469bf0 :: u32)"
  have "mix_word b c k = (let ks = to_le_bytes 4 k
      in column3 ((b ! (c + 3)) XOR (ks ! 3)) XOR column2 ((b ! (c + 2)) XOR (ks ! 2))
         XOR column1 ((b ! (c + 1)) XOR (ks ! 1)) XOR column0 ((b ! c) XOR (ks ! 0)) XOR w)"
    unfolding mix_word_def mixing_lookup w_def Let_def by (simp only: xor_ac)
  moreover have "w = from_le_bytes MIX_MASK" by (simp add: w_def MIX_MASK_def from_le_bytes_def)
  ultimately show ?thesis
    by (simp add: Let_def to_le_bytes_xor column_defs to_from_le_4 inv_mix_column_def xor_bytes_def
        MIX_MASK_def xor_ac)
qed

lemma mix_word_columns:
  assumes "length b = 16"
  shows "mix_word (to_le_bytes 4 w0 @ drop 4 b) 4 k = mix_word b 4 k"
    and "mix_word (to_le_bytes 4 w0 @ to_le_bytes 4 w1 @ drop 8 b) 8 k = mix_word b 8 k"
    and "mix_word (to_le_bytes 4 w0 @ to_le_bytes 4 w1 @ to_le_bytes 4 w2 @ drop 12 b) 12 k = mix_word b 12 k"
  using assms by (simp_all add: mix_word_def nth_append)

text \<open>One round on a block and a round key that carry the same mask.\<close>

lemma cycle_round_mixed:
  assumes "length t = 16" "length k = 16" "length m = 16"
    and "ks ! (9 - n) = le_words (xor_bytes k m)"
  shows "cycle_round ks (xor_bytes t m) n =
    permute_block_2 (xor_bytes (inv_mix_columns (xor_bytes t k)) MIX_MASK16) (8 - n)"
proof -
  let ?b = "xor_bytes t m" and ?k = "xor_bytes k m"
  have b: "length ?b = 16" using assms by simp
  have "cycle_round ks ?b n = permute_block_2 (concat (map (\<lambda>c. to_le_bytes 4 (mix_word ?b c (read_u32_le ?k c)))
      [0, 4, 8, 12])) (8 - n)"
    using assms(4) by (simp add: cycle_round_def le_words_def write_columns [OF b] mix_word_columns [OF b])
  also have "concat (map (\<lambda>c. to_le_bytes 4 (mix_word ?b c (read_u32_le ?k c))) [0, 4, 8, 12]) =
      xor_bytes (inv_mix_columns (xor_bytes t k)) MIX_MASK16"
    by (rule block_cases [OF assms(1)], rule block_cases [OF assms(2)], rule block_cases [OF assms(3)])
      (simp add: mix_word_bytes to_le_read xor_bytes_def inv_mix_columns_def on_columns_def
        inv_mix_column_def MIX_MASK16_def MIX_MASK_def xor_ac)
  finally show ?thesis .
qed

definition s4_mask :: "nat \<Rightarrow> nat \<Rightarrow> nat \<times> nat \<times> byte" where
  "s4_mask r i = S4_MASKS ! (71 * (r * 16 + i) mod 144)"

lemma s4_masks_checked:
  "\<forall>r \<in> set [0..<9]. map (\<lambda>i. in_mask (s4_mask r i)) [0..<16] = MIX_MASK16"
  "\<forall>r \<in> set [1..<9]. map (\<lambda>i. out_mask (s4_mask r i)) [0..<16] = KEY_MASKS ! r"
  "map (\<lambda>i. out_mask (s4_mask 0 i)) [0..<16] = xor_bytes (KEY_MASKS ! 0) (xor_bytes X_KEY Z_KEY)"
  by (simp_all add: upt_steps s4_mask_def S4_MASKS_def KEY_MASKS_def in_mask_def out_mask_def
      MIX_MASK16_def MIX_MASK_def xor_bytes_def X_KEY_def Z_KEY_def)

definition s3_mask :: "nat \<Rightarrow> nat \<times> nat \<times> byte" where
  "s3_mask i = S3_MASKS ! (5 * i mod 16)"

lemma s3_masks_checked:
  "map (\<lambda>i. in_mask (s3_mask i)) [0..<16] =
     map (\<lambda>i. xor_bytes Z_KEY (KEY_MASKS ! 10) ! (13 * i mod 16)) [0..<16]"
  "map (\<lambda>i. out_mask (s3_mask i)) [0..<16] = KEY_MASKS ! 9"
  "\<forall>i \<in> set [0..<16]. S3_OFFSETS ! i = 5 * i mod 16 * 256"
  by (simp_all add: upt_steps s3_mask_def S3_MASKS_def KEY_MASKS_def in_mask_def out_mask_def
      xor_bytes_def Z_KEY_def S3_OFFSETS_def)

lemma map_upt_eqD: "map f [0..<n] = xs \<Longrightarrow> i < n \<Longrightarrow> xs ! i = f i"
  by auto

lemma permute_block_2_masked:
  assumes "length s = 16" "r < 9"
  shows "permute_block_2 (xor_bytes s MIX_MASK16) r =
    xor_bytes (inv_sub_shift s) (map (\<lambda>i. out_mask (s4_mask r i)) [0..<16])"
  unfolding permute_block_2_def Let_def
proof (rule permute_masked)
  fix i :: nat and v :: byte
  assume i: "i < 16"
  let ?e = "MIX_MASK16"
  have "\<forall>i \<in> set [0..<16]. ?e ! (13 * i mod 16) = ?e ! i"
    by (simp add: upt_steps MIX_MASK16_def MIX_MASK_def)
  then have "?e ! (13 * i mod 16) = ?e ! i" using i by simp
  also have "\<dots> = in_mask (s4_mask r i)"
    using s4_masks_checked(1) assms(2) i by (intro map_upt_eqD [of _ 16]) auto
  finally show "permute_table_2 (r * 16 + i) ! unat v =
      inv_sbox (v XOR (?e ! (13 * i mod 16))) XOR (map (\<lambda>i. out_mask (s4_mask r i)) [0..<16] ! i)"
    using i by (simp add: permute_table_2_lookup s4_mask_def Let_def)
qed (use assms in \<open>simp_all add: MIX_MASK16_def MIX_MASK_def\<close>)

lemma permute_block_1_masked:
  assumes "length s = 16"
  shows "permute_block_1 (xor_bytes s (xor_bytes Z_KEY (KEY_MASKS ! 10))) = xor_bytes (inv_sub_shift s) (KEY_MASKS ! 9)"
  unfolding permute_block_1_def
proof (rule permute_masked)
  fix i :: nat and v :: byte
  assume i: "i < 16"
  have off: "S3_OFFSETS ! i = 5 * i mod 16 * 256" using s3_masks_checked(3) i by simp
  have "in_mask (s3_mask i) = xor_bytes Z_KEY (KEY_MASKS ! 10) ! (13 * i mod 16)"
    using map_upt_eqD [OF s3_masks_checked(1) i] i by simp
  moreover have "KEY_MASKS ! 9 ! i = out_mask (s3_mask i)"
    using map_upt_eqD [OF s3_masks_checked(2) i] .
  ultimately show "TABLE_S3 ! (S3_OFFSETS ! i + unat v) =
      inv_sbox (v XOR (xor_bytes Z_KEY (KEY_MASKS ! 10) ! (13 * i mod 16))) XOR (KEY_MASKS ! 9 ! i)"
    by (simp only: off TABLE_S3_lookup [of "5 * i mod 16"] s3_mask_def)
qed (use assms in \<open>simp_all add: length_KEY_MASKS Z_KEY_def\<close>)

text \<open>A round of \<open>cycle\<close> is a round of the inverse cipher.\<close>

lemma cycle_round_aes:
  assumes "length t = 16" "length k = 16" "n < 9"
  shows "cycle_round (generate_key_schedule k) (xor_bytes t (KEY_MASKS ! (9 - n))) n =
    xor_bytes (mid_round (unmask_key k) (9 - n) t) (map (\<lambda>i. out_mask (s4_mask (8 - n) i)) [0..<16])"
proof -
  have rk: "length (round_key (unmask_key k) (9 - n)) = 16" using assms by (simp add: unmask_key_def)
  have "cycle_round (generate_key_schedule k) (xor_bytes t (KEY_MASKS ! (9 - n))) n =
      permute_block_2 (xor_bytes (inv_mix_columns (xor_bytes t (round_key (unmask_key k) (9 - n))))
        MIX_MASK16) (8 - n)"
    using assms by (intro cycle_round_mixed rk generate_key_schedule_aes length_KEY_MASKS) simp_all
  then show ?thesis by (simp add: permute_block_2_masked mid_round_def)
qed

lemma cycle_rounds_aes:
  assumes "length t = 16" "length k = 16" "n \<le> 8"
  shows "foldl (cycle_round (generate_key_schedule k)) (xor_bytes t (KEY_MASKS ! 9)) [0..<n] =
    xor_bytes (fold (mid_round (unmask_key k)) (map (\<lambda>i. 9 - i) [0..<n]) t) (KEY_MASKS ! (9 - n))"
  using assms(3)
proof (induction n)
  case (Suc n)
  let ?t = "fold (mid_round (unmask_key k)) (map (\<lambda>i. 9 - i) [0..<n]) t"
  have "length ?t = 16" using assms(1)
    by (induction n) (simp_all add: mid_round_def)
  moreover have "map (\<lambda>i. out_mask (s4_mask (8 - n) i)) [0..<16] = KEY_MASKS ! (8 - n)"
    using Suc.prems by (intro bspec [OF s4_masks_checked(2)]) auto
  ultimately show ?case
    using Suc assms cycle_round_aes [of ?t k n] by simp
qed (use assms in simp)

lemma xor_bytes_commute: "xor_bytes a b = xor_bytes b a"
  by (rule nth_equalityI) (simp_all add: xor_bytes_def xor.commute)

lemma xor_bytes_assoc: "xor_bytes (xor_bytes a b) c = xor_bytes a (xor_bytes b c)"
  by (rule nth_equalityI) (simp_all add: xor_bytes_def xor.assoc)

lemma xor_bytes_left_commute: "xor_bytes a (xor_bytes b c) = xor_bytes b (xor_bytes a c)"
  by (metis xor_bytes_assoc xor_bytes_commute)

lemma xor_bytes_left_cancel: "length b = length a \<Longrightarrow> xor_bytes a (xor_bytes a b) = b"
  by (metis xor_bytes_cancel xor_bytes_commute)

lemmas xor_bytes_ac = xor_bytes_assoc xor_bytes_commute xor_bytes_left_commute

theorem fairplay_block_is_aes:
  assumes "length k = 16" "length c = 16"
  shows "z_xor_inplace (x_xor_inplace (cycle (z_xor_block c) (generate_key_schedule k))) =
    aes_decrypt (unmask_key k) c"
proof -
  let ?ks = "generate_key_schedule k" and ?K = "unmask_key k"
  have len: "length (round_key ?K r) = 16" for r using assms by (simp add: unmask_key_def)
  have keys: "length Z_KEY = 16" "length X_KEY = 16" by (simp_all add: Z_KEY_def X_KEY_def)
  let ?t0 = "inv_sub_shift (xor_bytes c (round_key ?K 10))"
  have "xor_round_key (z_xor_block c) (?ks ! 10) =
      xor_bytes (xor_bytes c Z_KEY) (xor_bytes (round_key ?K 10) (KEY_MASKS ! 10))"
    using assms keys len unfolding z_xor_block_def xor_bytes_def [symmetric]
    by (simp add: generate_key_schedule_aes xor_round_key_bytes length_KEY_MASKS)
  also have "\<dots> = xor_bytes (xor_bytes c (round_key ?K 10)) (xor_bytes Z_KEY (KEY_MASKS ! 10))"
    by (simp only: xor_bytes_ac)
  finally have "permute_block_1 (xor_round_key (z_xor_block c) (?ks ! 10)) = xor_bytes ?t0 (KEY_MASKS ! 9)"
    using assms len by (simp add: permute_block_1_masked)
  moreover define t where "t = fold (mid_round ?K) (map (\<lambda>i. 9 - i) [0..<8]) ?t0"
  ultimately have "foldl (cycle_round ?ks) (permute_block_1 (xor_round_key (z_xor_block c) (?ks ! 10))) [0..<8] =
      xor_bytes t (KEY_MASKS ! 1)"
    using assms cycle_rounds_aes [of ?t0 k 8] by simp
  moreover have "[0..<9] = [0..<8] @ [8]" by (simp add: upt_steps)
  moreover have "length t = 16" by (simp add: t_def upt_steps mid_round_def)
  ultimately have "foldl (cycle_round ?ks) (permute_block_1 (xor_round_key (z_xor_block c) (?ks ! 10))) [0..<9] =
      xor_bytes (mid_round ?K 1 t) (xor_bytes (KEY_MASKS ! 0) (xor_bytes X_KEY Z_KEY))"
    using assms cycle_round_aes [of t k 8] s4_masks_checked(3) by simp
  moreover have T: "length (mid_round ?K 1 t) = 16" by (simp add: mid_round_def)
  ultimately have "cycle (z_xor_block c) ?ks =
      xor_bytes (xor_bytes (mid_round ?K 1 t) (xor_bytes (KEY_MASKS ! 0) (xor_bytes X_KEY Z_KEY)))
        (xor_bytes (round_key ?K 0) (KEY_MASKS ! 0))"
    using assms keys len [of 0] unfolding cycle_def Let_def
    by (simp add: generate_key_schedule_aes xor_round_key_bytes length_KEY_MASKS del: round_key.simps)
  also have "\<dots> = xor_bytes X_KEY (xor_bytes Z_KEY (xor_bytes (mid_round ?K 1 t) (round_key ?K 0)))"
    using T keys len by (simp add: xor_bytes_ac xor_bytes_left_cancel length_KEY_MASKS del: round_key.simps)
  also have "xor_bytes (mid_round ?K 1 t) (round_key ?K 0) = aes_decrypt ?K c"
    by (simp add: aes_decrypt_mid t_def upt_steps)
  finally have "cycle (z_xor_block c) ?ks = xor_bytes X_KEY (xor_bytes Z_KEY (aes_decrypt ?K c))" .
  moreover have "length (aes_decrypt ?K c) = 16" using len [of 0] by (simp add: aes_decrypt_def)
  ultimately show ?thesis
    using keys unfolding z_xor_inplace_def x_xor_inplace_def xor_bytes_def [symmetric]
    by (simp add: xor_bytes_ac xor_bytes_left_cancel)
qed

end
