(* ===== verification/Fairplay_Key.thy ===== *)
theory Fairplay_Key
  imports Fairplay_Aes Rtsp_Laws
begin

text \<open>
  The whole FairPlay key transport: src/crypto/fairplay.rs from the accepted key message to the key
  it returns, and the use src/raop/handlers_ap1.rs makes of it. The key message fixes a session key;
  under it, the 72-byte encrypted key is one block of AES-128 in CBC mode, bytes 16 to 32 its
  initial vector and the last 16 bytes its ciphertext.
\<close>

section \<open>The tables are never exceeded\<close>

lemmas TABLE_S2_defs =
  TABLE_S2_0_def TABLE_S2_1_def TABLE_S2_2_def TABLE_S2_3_def TABLE_S2_4_def TABLE_S2_5_def
  TABLE_S2_6_def TABLE_S2_7_def TABLE_S2_8_def TABLE_S2_9_def TABLE_S2_10_def TABLE_S2_11_def
  TABLE_S2_12_def TABLE_S2_13_def TABLE_S2_14_def TABLE_S2_15_def TABLE_S2_16_def TABLE_S2_17_def
  TABLE_S2_18_def TABLE_S2_19_def TABLE_S2_20_def TABLE_S2_21_def TABLE_S2_22_def TABLE_S2_23_def
  TABLE_S2_24_def TABLE_S2_25_def TABLE_S2_26_def TABLE_S2_27_def TABLE_S2_28_def TABLE_S2_29_def
  TABLE_S2_30_def TABLE_S2_31_def TABLE_S2_32_def TABLE_S2_33_def TABLE_S2_34_def TABLE_S2_35_def
  TABLE_S2_36_def TABLE_S2_37_def TABLE_S2_38_def TABLE_S2_39_def TABLE_S2_40_def TABLE_S2_41_def
  TABLE_S2_42_def TABLE_S2_43_def TABLE_S2_44_def TABLE_S2_45_def TABLE_S2_46_def TABLE_S2_47_def
  TABLE_S2_48_def TABLE_S2_49_def TABLE_S2_50_def TABLE_S2_51_def TABLE_S2_52_def TABLE_S2_53_def
  TABLE_S2_54_def TABLE_S2_55_def TABLE_S2_56_def TABLE_S2_57_def TABLE_S2_58_def TABLE_S2_59_def
  TABLE_S2_60_def TABLE_S2_61_def TABLE_S2_62_def TABLE_S2_63_def TABLE_S2_64_def TABLE_S2_65_def
  TABLE_S2_66_def TABLE_S2_67_def TABLE_S2_68_def TABLE_S2_69_def TABLE_S2_70_def TABLE_S2_71_def
  TABLE_S2_72_def TABLE_S2_73_def TABLE_S2_74_def TABLE_S2_75_def TABLE_S2_76_def TABLE_S2_77_def
  TABLE_S2_78_def TABLE_S2_79_def TABLE_S2_80_def TABLE_S2_81_def TABLE_S2_82_def TABLE_S2_83_def
  TABLE_S2_84_def TABLE_S2_85_def TABLE_S2_86_def TABLE_S2_87_def TABLE_S2_88_def TABLE_S2_89_def
  TABLE_S2_90_def TABLE_S2_91_def TABLE_S2_92_def TABLE_S2_93_def TABLE_S2_94_def TABLE_S2_95_def
  TABLE_S2_96_def TABLE_S2_97_def TABLE_S2_98_def TABLE_S2_99_def TABLE_S2_100_def TABLE_S2_101_def
  TABLE_S2_102_def TABLE_S2_103_def TABLE_S2_104_def TABLE_S2_105_def TABLE_S2_106_def TABLE_S2_107_def
  TABLE_S2_108_def TABLE_S2_109_def TABLE_S2_110_def TABLE_S2_111_def TABLE_S2_112_def TABLE_S2_113_def
  TABLE_S2_114_def TABLE_S2_115_def TABLE_S2_116_def TABLE_S2_117_def TABLE_S2_118_def TABLE_S2_119_def
  TABLE_S2_120_def TABLE_S2_121_def TABLE_S2_122_def TABLE_S2_123_def TABLE_S2_124_def TABLE_S2_125_def
  TABLE_S2_126_def TABLE_S2_127_def TABLE_S2_128_def TABLE_S2_129_def TABLE_S2_130_def TABLE_S2_131_def
  TABLE_S2_132_def TABLE_S2_133_def TABLE_S2_134_def TABLE_S2_135_def TABLE_S2_136_def TABLE_S2_137_def
  TABLE_S2_138_def TABLE_S2_139_def TABLE_S2_140_def TABLE_S2_141_def TABLE_S2_142_def TABLE_S2_143_def

lemmas TABLE_S9_S10_defs =
  TABLE_S10_0_def TABLE_S10_1_def TABLE_S10_2_def TABLE_S10_3_def TABLE_S10_4_def TABLE_S10_5_def
  TABLE_S10_6_def TABLE_S10_7_def TABLE_S10_8_def TABLE_S10_9_def TABLE_S10_10_def TABLE_S10_11_def
  TABLE_S10_12_def TABLE_S10_13_def TABLE_S10_14_def TABLE_S10_15_def
  TABLE_S9_0_def TABLE_S9_1_def TABLE_S9_2_def TABLE_S9_3_def

lemma length_row:
  "length [a0, a1, a2, a3, a4, a5, a6, a7, a8, a9, a10, a11, a12, a13, a14, a15] = 16"
  by simp

lemma message_table_rows:
  "\<forall>r \<in> set TABLE_S2_rows. length r = 256" "\<forall>r \<in> set TABLE_S10_rows. length r = 256"
  "\<forall>r \<in> set TABLE_S9_rows. length r = 256"
  by (simp_all only: TABLE_S2_rows_def TABLE_S2_defs TABLE_S10_rows_def TABLE_S9_rows_def TABLE_S9_S10_defs
      list.set ball_simps concat.simps length_append length_row list.size(3) add_0_right arith_simps simp_thms)

text \<open>A byte indexes a row of 256, and the larger tables have room for their largest offset.\<close>

lemma tables_in_range:
  "length (table_index i) = 256" "length (permute_table_2 i) = 256" "length (message_table_index i) = 256"
  "length TABLE_S3 = 4096" "length TABLE_S10 = 4096" "length TABLE_S9 = 1024"
  "length TABLE_S5 = 256" "length TABLE_S6 = 256" "length TABLE_S7 = 256" "length TABLE_S8 = 256"
proof -
  have row: "length (slice (k * 256) (k * 256 + 256) (concat rows)) = 256"
    if "\<forall>r \<in> set rows. length r = 256" "k < length rows" for rows :: "bytes list" and k
    using that by (simp only: slice_concat nth_mem)
  show "length (table_index i) = 256" "length (permute_table_2 i) = 256" "length (message_table_index i) = 256"
    using row [OF table_rows(1)] row [OF table_rows(5)] row [OF message_table_rows(1)] table_rows(2,6)
    by (simp_all only: table_index_def permute_table_2_def message_table_index_def Let_def TABLE_S1_def
        TABLE_S4_def TABLE_S2_def) (simp_all add: TABLE_S2_rows_def)
  have len: "length (concat rows) = 256 * length rows" if "\<forall>r \<in> set rows. length r = 256" for rows :: "'a list list"
    using that by (induction rows) simp_all
  show "length TABLE_S3 = 4096" "length TABLE_S10 = 4096" "length TABLE_S9 = 1024"
    using len [OF table_rows(3)] len [OF message_table_rows(2)] len [OF message_table_rows(3)] table_rows(4)
    by (simp_all add: TABLE_S3_def TABLE_S10_def TABLE_S9_def TABLE_S10_rows_def TABLE_S9_rows_def)
  show "length TABLE_S5 = 256" "length TABLE_S6 = 256" "length TABLE_S7 = 256" "length TABLE_S8 = 256"
    by (simp_all add: mixing_tables)
qed

section \<open>The key decryption\<close>

lemma x_xor_z_xor:
  "length b = 16 \<Longrightarrow> length c = 16 \<Longrightarrow>
   z_xor_inplace (x_xor_inplace (map2 (XOR) b c)) = xor_bytes (z_xor_inplace (x_xor_inplace b)) c"
  unfolding z_xor_inplace_def x_xor_inplace_def xor_bytes_def [symmetric] by (simp only: xor_bytes_ac)

lemma length_xor_round_key: "length b = 16 \<Longrightarrow> length (xor_round_key b k) = 16"
  by (simp add: xor_round_key_def write_u32_le_def upt_steps)

lemma length_cycle: "length b = 16 \<Longrightarrow> length (cycle b ks) = 16"
proof -
  assume b: "length b = 16"
  have "length (cycle_round ks x n) = 16" if "length x = 16" for x n
    using that by (simp add: cycle_round_def Let_def permute_block_2_def write_u32_le_def)
  then have "length (foldl (cycle_round ks) x ns) = 16" if "length x = 16" for x ns
    using that by (induction ns arbitrary: x) simp_all
  then show ?thesis
    using b by (simp add: cycle_def Let_def permute_block_1_def length_xor_round_key)
qed

lemma unmask_key_self: "map (\<lambda>b. b XOR 121) k = unmask_key k" "unmask_key (unmask_key k) = k"
  by (simp_all add: unmask_key_def o_def xor.assoc)

lemma playfair_is_aes_cbc:
  assumes "generate_session_key DEFAULT_SAP msg = Some (unmask_key sk)" "length sk = 16" "length inp = 72"
  shows "playfair_decrypt msg inp = Some (xor_bytes (aes_decrypt sk (slice 56 72 inp)) (slice 16 32 inp))"
proof -
  let ?c2 = "slice 56 72 inp" and ?ks = "generate_key_schedule (unmask_key sk)"
  have "z_xor_inplace (x_xor_inplace (cycle (z_xor_block ?c2) ?ks)) = aes_decrypt sk ?c2"
    using assms fairplay_block_is_aes [of "unmask_key sk" ?c2] by (simp add: unmask_key_self) (simp add: unmask_key_def)
  moreover have "length (cycle (z_xor_block ?c2) ?ks) = 16"
    using assms by (intro length_cycle) (simp add: z_xor_block_def Z_KEY_def)
  ultimately show ?thesis
    using assms by (simp add: playfair_decrypt_def slice_at_def Let_def x_xor_z_xor)
qed

text \<open>The 72 bytes of a sender: its key, encrypted in CBC mode, between bytes that are not used.\<close>

definition wrapped_key :: "bytes \<Rightarrow> bytes \<Rightarrow> bytes \<Rightarrow> bytes \<Rightarrow> bytes \<Rightarrow> bytes" where
  "wrapped_key sk pre iv mid k = pre @ iv @ mid @ aes_encrypt sk (xor_bytes k iv)"

lemma wrapped_key_recovered:
  assumes "length sk = 16" "length pre = 16" "length iv = 16" "length mid = 24" "length k = 16"
  shows "length (wrapped_key sk pre iv mid k) = 72"
    and "xor_bytes (aes_decrypt sk (slice 56 72 (wrapped_key sk pre iv mid k)))
           (slice 16 32 (wrapped_key sk pre iv mid k)) = k"
proof -
  note cbc = aes.cbc_block [OF assms(1,5,3)]
  show "length (wrapped_key sk pre iv mid k) = 72" using assms cbc(2) by (simp add: wrapped_key_def)
  have "slice 56 72 (wrapped_key sk pre iv mid k) = aes_encrypt sk (xor_bytes k iv)"
    "slice 16 32 (wrapped_key sk pre iv mid k) = iv"
    using assms cbc(2) by (simp_all add: wrapped_key_def slice_def)
  then show "xor_bytes (aes_decrypt sk (slice 56 72 (wrapped_key sk pre iv mid k)))
      (slice 16 32 (wrapped_key sk pre iv mid k)) = k"
    by (simp add: cbc(1))
qed

text \<open>
  C5: FairPlay's key decryption is AES-128 in CBC mode. Every key message of 164 bytes that the
  handshake accepts fixes a session key of 16 bytes; from then on decrypting any 72 bytes does not
  panic and gives the AES-128 decryption of the last 16 bytes under that session key, exclusive-ored
  with bytes 16 to 32. So a sender that encrypts a 16-byte key in this way under the session key has
  exactly this key recovered, whatever the unused bytes are.
\<close>

theorem fairplay_key_is_aes_cbc:
  assumes "length m2 = 164" and "fairplay_handshake fp m2 = (Inr reply, fp')"
  shows "\<exists>sk. length sk = 16 \<and> generate_session_key DEFAULT_SAP m2 = Some (map (\<lambda>b. b XOR 121) sk)
    \<and> (\<forall>inp. length inp = 72 \<longrightarrow>
         fairplay_decrypt fp' inp = Inr (xor_bytes (aes_decrypt sk (slice 56 72 inp)) (slice 16 32 inp)))
    \<and> (\<forall>pre iv mid k. length pre = 16 \<and> length iv = 16 \<and> length mid = 24 \<and> length k = 16 \<longrightarrow>
         fairplay_decrypt fp' (wrapped_key sk pre iv mid k) = Inr k)"
proof -
  have fp': "keymsg fp' = m2" "keymsglen fp' = 164" and mode: "unat (m2 ! 12) < 4"
    using assms(2) by (auto simp: fairplay_handshake_def message_tables split: if_splits)
  obtain sk where sk: "generate_session_key DEFAULT_SAP m2 = Some (unmask_key sk)" "length sk = 16"
    using generate_session_key_total [OF assms(1) mode] unfolding unmask_key_self by blast
  have dec: "fairplay_decrypt fp' inp = Inr (xor_bytes (aes_decrypt sk (slice 56 72 inp)) (slice 16 32 inp))"
    if "length inp = 72" for inp
    using that sk fp' by (simp add: fairplay_decrypt_def playfair_is_aes_cbc)
  moreover have "fairplay_decrypt fp' (wrapped_key sk pre iv mid k) = Inr k"
    if "length pre = 16 \<and> length iv = 16 \<and> length mid = 24 \<and> length k = 16" for pre iv mid k
    using that sk dec wrapped_key_recovered [of sk pre iv mid k] by simp
  ultimately show ?thesis using sk unfolding unmask_key_self by blast
qed

theorem fairplay_key_is_aes_cbc_witness:
  "let fp = snd (fairplay_handshake fairplay_new ((replicate 164 0)[4 := 3]))
   in \<exists>sk. length sk = 16
     \<and> fairplay_decrypt fp (wrapped_key sk (replicate 16 0) (replicate 16 1) (replicate 24 0) (replicate 16 7))
         = Inr (replicate 16 7)"
proof -
  let ?m2 = "(replicate 164 0)[4 := 3] :: bytes"
  have "fairplay_handshake fairplay_new ?m2 =
      (Inr (FP_HEADER @ slice 144 164 ?m2), fairplay_new\<lparr>keymsg := ?m2, keymsglen := 164\<rparr>)"
    by (simp add: fairplay_handshake_def message_tables)
  from fairplay_key_is_aes_cbc [OF _ this] show ?thesis
    by (auto simp: fairplay_handshake_def message_tables Let_def)
qed

text \<open>The same through the request handlers: after an fp-setup request whose key message was
  accepted, an announcement that carries a wrapped key and no RSA key sets up the stream with this
  key.\<close>

lemma fairplay_announced_key:
  assumes "rv_data rv = Some m2" "length m2 = 164" "handle_fp_setup env c rv resp = (Some rep, c', resp')"
  obtains sk where "length sk = 16"
    and "\<And>sdp b64 pre iv mid k. rsaaeskey sdp = None \<Longrightarrow> fpaeskey sdp = Some b64 \<Longrightarrow>
      rsa_decode (rsakey (c_shared c')) b64 = Inr (wrapped_key sk pre iv mid k) \<Longrightarrow>
      length pre = 16 \<Longrightarrow> length iv = 16 \<Longrightarrow> length mid = 24 \<Longrightarrow> length k = 16 \<Longrightarrow>
      announce_key env c' sdp = (Some k, c')"
proof -
  obtain fp' where fp': "fairplay_handshake (c_fairplay c) m2 = (Inr rep, fp')" "c_fairplay c' = fp'"
    using assms by (auto simp: handle_fp_setup_def fp_reply_def split: sum.splits prod.splits)
  from fp'(1) have k: "keymsg fp' = m2" "keymsglen fp' = 164" and mode: "unat (m2 ! 12) < 4"
    by (auto simp: fairplay_handshake_def message_tables split: if_splits)
  obtain sk where sk: "generate_session_key DEFAULT_SAP m2 = Some (unmask_key sk)" "length sk = 16"
    using generate_session_key_total [OF assms(2) mode] unfolding unmask_key_self by blast
  then show ?thesis
    using that [OF sk(2)] k fp'(2) wrapped_key_recovered [OF sk(2)]
    by (simp add: announce_key_def fairplay_decrypt_def playfair_is_aes_cbc)
qed

end
