(* ===== verification/Spec2Isabelle.thy ===== *)
theory Spec2Isabelle
  imports Prelude Errors Segments Tlv Ctr_Cipher Chacha_Transport Alac_Raw Sdp Dmap Digest
    Raop_Connection Encrypted_Connection Rtp_Tasks Buffered_Audio Realtime_Audio Ap2_Pairing
    Ap2_Session Timing Video_Setup Hls Server_Builder Header_Diagnostics
    Fairplay_Key
begin

text \<open>
  Verification library of shairplay-rust, an AirPlay receiver: a library that announces itself over
  mDNS, speaks RTSP over HTTP with a sender, agrees on keys with it, receives encrypted audio,
  screen-mirroring video or URLs to play, and hands samples, packets and events to the application
  through traits. Paths below are relative to the crate, src/.

  \<^bold>\<open>How the parts interact.\<close> \<open>RaopServerBuilder\<close> checks a configuration and makes a
  \<open>RaopServer\<close>; starting it binds listeners and registers the mDNS services (raop/server.rs,
  net/mdns.rs). Each accepted connection runs the loop of net/server.rs, which feeds what it reads to
  the incremental parser of proto/http.rs, passes completed requests to the handler of
  raop/connection.rs and writes the responses, in plaintext or, after HomeKit pair-verify, through
  the framed ChaCha20-Poly1305 transport of crypto/chacha\_transport.rs. The handler dispatches by
  method and path (raop/rtsp.rs) to the handlers of AirPlay 1 (raop/handlers\_ap1.rs), AirPlay 2
  (raop/handlers\_ap2.rs) and URL playback (raop/handlers\_hls.rs). The handlers call pairing, RSA,
  FairPlay, the SDP and DMAP parsers and property lists, and start the receive tasks: the RTP session
  over the packet buffer and the ALAC decoder for AirPlay 1, the realtime and the buffered receiver
  with its playout engine for AirPlay 2, the mirroring task, the event channel, and the timing
  responders. Tasks reach the application through its sessions; all connections of a server share the
  pairing store and the slot of the active audio stream.

  \<^bold>\<open>Conventions.\<close> The model is a shallow embedding: structs are records, enums datatypes, machine
  integers words of their width, \<open>usize\<close> a natural number, \<open>&str\<close> the list of its bytes,
  \<open>Result\<close> a sum and \<open>Option\<close> an option. Arithmetic is that of a release build: it wraps,
  and shift amounts are taken modulo the width. A panic is \<open>None\<close> wherever an index, a slice or a
  division may panic; where the type of the index or a constant rules it out, \<open>!\<close> is used and the
  sizes are proved. State is passed explicitly: an operation returns the state it leaves, also when it
  fails. Tasks and loops are functions of what their sockets, clocks and timers yield; calls on the
  application are a log of events. Loops over the input are structurally recursive or proved to
  terminate; the drain loop of the packet buffer has fuel, and 33 rounds, one more than the buffer has
  slots, are proved enough (\<open>raop_drain_reachable\<close>). Floats that come from outside
  are their bit patterns or explicit non-finite values; arithmetic on samples is exact rational
  arithmetic with one rounding per operation, ties to even.

  \<^bold>\<open>Builds.\<close> AirPlay 1 is modelled in the default build, which has no features. The AirPlay 2
  theories model the build with \<open>ap2\<close>; Video\_Stream and Video\_Setup add the branches of
  \<open>video\<close>, Hls those of \<open>hls\<close>, which implies \<open>video\<close>; Header\_Diagnostics covers
  \<open>diagnostic-headers\<close> and \<open>dangerous-raw-headers\<close>; the dispatcher of AirPlay 1 has the
  compatibility route of \<open>pipewire-auth-setup-compat\<close> as a flag.

  \<^bold>\<open>Parameters.\<close> Code outside the crate is an argument with the laws its documentation gives as
  hypotheses: SHA-512, MD5, HKDF, Ed25519, X25519, RSA, the AES block function and CBC mode,
  ChaCha20-Poly1305, the crates \<open>httparse\<close>, \<open>plist\<close>, \<open>base64\<close> and \<open>rubato\<close>,
  the AAC decoder, the results of socket calls, the mDNS daemon, files and environment variables,
  clocks, random bytes and the application's traits. Properties with such hypotheses have witnesses
  with concrete instances.

  \<^bold>\<open>The theories, bottom up.\<close>

  \<^item> Foundations. Prelude: words, byte order, slices, checked arithmetic, the collections
  \<open>byte_simps\<close>, \<open>list_slice_simps\<close> and \<open>inv_defs\<close>. Rust\_Ops: shifts, checked indexing,
  loops that may panic. Rust\_Float, Rust\_Str, Utf8: floats, strings, UTF-8. Errors: error.rs.
  Segments: the locales \<open>segment_action\<close> (an operation on a byte stream whose effect does not
  depend on how the stream is cut) and \<open>stream_cipher\<close>; the HTTP parser, the connection loop, the
  encrypted transport, the TCP framing of RTP, the resampler and both counter-mode ciphers are
  interpretations. Frame\_Source: the locale of a queue that a drain loop empties.

  \<^item> Cryptography. Tlv (crypto/tlv.rs): chunking and coalescing, round trips. Ctr\_Cipher
  (crypto/aes.rs, crypto/video\_cipher.rs): streaming. Chacha\_Transport: framing, fresh nonces, end to
  end delivery. Pairing\_Ap1 (crypto/pairing.rs): the handshake as a state machine that finishes only
  after a valid signature. Homekit\_Srp, Homekit\_Verify (crypto/pairing\_homekit.rs): the SRP server and
  both exchanges, Homekit\_Laws: an honest controller succeeds. Rsa\_Fairplay (crypto/rsa.rs and the
  handshake of crypto/fairplay.rs). Fairplay\_Tables, Fairplay\_Message\_Tables, Fairplay\_Garble,
  Fairplay\_Cipher, Fairplay\_Session (crypto/fairplay\_tables.rs, crypto/fairplay\_garble.rs and the key
  decryption of crypto/fairplay.rs), Aes\_Reference: AES-128 as FIPS 197 defines it, with the locale
  \<open>block_cipher\<close>; Fairplay\_Masks, Fairplay\_Aes, Fairplay\_Key: the masked tables compute exactly
  AES-128, so the stream key is recovered by AES in CBC mode.

  \<^item> Protocols. Sdp, Dmap, Digest (proto/): parsers against their specifications, digest
  authentication. Http, Http\_Feed (proto/http.rs): the incremental parser, exact separation of
  requests, bounded memory. Http\_Server, Server\_Run (net/server.rs): the connection loop, with the
  locales \<open>plaintext_handler\<close> and \<open>default_handler\<close> for what it needs of a handler; a pipeline is
  answered one by one and in order. Plist: property lists. Timing (raop/ntp.rs, net/ptp.rs).
  Advertisement (net/features.rs, raop/config.rs, net/mdns.rs): TXT records.

  \<^item> Audio. Alac\_Bits, Alac\_Predictor, Alac, Alac\_Raw (codec/alac.rs): the bit reader refines a
  bit string, the adaptive predictor restores what a reference encoder removed, decoding is safe on
  every input. Aac\_Adts (codec/aac.rs). Rtp\_Buffer, Rtp\_Delivery (raop/buffer.rs): in-order delivery
  over the 32-slot window. Rtp\_Session, Rtp\_Tasks (raop/rtp.rs): set-up and the receive tasks.
  Audio\_Output (raop/audio\_pipeline.rs, codec/resample.rs). Playout, Buffered\_Audio
  (raop/buffered\_audio.rs): the playout engine conserves frames and resumes on time; delivery over
  the stream. Realtime\_Audio (raop/realtime\_audio.rs): forgeries have no effect.

  \<^item> Control, AirPlay 1. Dacp (dacp/mod.rs), Raop\_Handlers (raop/handlers\_ap1.rs), Rtsp
  (raop/rtsp.rs, raop/auth\_setup.rs), Rtsp\_Laws with the locale \<open>dispatch_invariant\<close>, Rtsp\_Framing,
  Raop\_Connection (raop/connection.rs): the password gate, announced keys, consistency of the
  connection over any sequence of requests, complete and unsplittable responses.

  \<^item> Control, AirPlay 2. Ap2\_Pairing, Ap2\_Volume, Ap2\_Control (raop/handlers\_ap2.rs and the pairing
  store of raop/types.rs), Rtsp\_Ap2 (routes, and a server with several connections), Ap2\_Session,
  Encrypted\_Connection (the switch to encryption, with the locale \<open>write_invariant\<close>), Event\_Channel
  (raop/event\_channel.rs): the pairing store and the secret of the transport change only after a proof
  of the PIN or a signature by a stored key, at most one audio stream is active, a superseded one falls
  silent.

  \<^item> Video, URLs, server. Video\_Stream, Video\_Setup (raop/video.rs, raop/video\_stream.rs,
  crypto/video\_key.rs): mirroring from the FairPlay key to the application. Hls (raop/hls.rs,
  raop/handlers\_hls.rs): the life cycle of playback sessions. Server\_Builder (raop/server.rs,
  net/mdns.rs, key loading of crypto/rsa.rs): validation, identity, start and stop.
  Header\_Diagnostics (net/protocol\_diagnostics.rs): what reaches the log.

  \<^bold>\<open>Kinds of results.\<close> Invariants over every sequence of operations (connections, buffers, the
  playout engine, sessions, services); refinement (the connection loop implements answering requests
  one by one, the bit reader a bit string); equivalences (segmentation is invisible, FairPlay is AES,
  resampling in pieces is resampling at once); round trips with a specified peer (transport, pairing,
  predictor, mirroring, TLV, SDP); functional descriptions with every error branch; safety (no panic,
  no plaintext after the switch, no influence of foreign datagrams); termination and liveness
  (draining, pairing, set-up, resumption); and lemmas that pin down the behaviours reported as
  findings.

  \<^bold>\<open>Not modelled.\<close> The example player, fuzz targets and tests, which are not part of the library;
  module files, re-exports and trait declarations without code; log messages and values that are only
  logged, except in Header\_Diagnostics; scheduling of the async runtime beyond the interleavings that
  the step functions take as input; the PTP sink beyond parsing, since it drops what it reads; the
  mDNS implementation for macOS, which calls the system's responder; the PipeWire option in the AirPlay
  2 build. In Fairplay\_Session the session key is executable and total, but what the key message's
  own tables S2, S9 and S10 and the garble transformation compute has no specification to compare
  with.
\<close>

end
